(* ===== verification/Py_Prelude.thy ===== *)
theory Py_Prelude
  imports
    Main
    "HOL-Library.List_Lexorder"
    "HOL-Library.Char_ord"
    "HOL-Library.Multiset"
    "HOL-Library.Sublist"
begin

text \<open>
  Shared vocabulary of the development. Python exceptions are values of
  \<open>py_exn\<close> and a fallible operation returns a \<open>'a result\<close>; \<open>res_bind\<close> sequences
  two of them. A \<open>dict\<close> is an association list in insertion order, as Python keeps
  it. The SQLite statements the stores use (\<open>LIMIT\<close>, \<open>INSERT OR IGNORE\<close>,
  \<open>ON CONFLICT DO UPDATE\<close>) are functions on lists of rows, and the contract that
  every append-only table of the platform meets is the locale \<open>append_only_table\<close>.
  Decimal printing (\<open>str(int)\<close>, zero-padded formats) closes the theory, with the
  lemmas that relate it to the lexicographic order of Python strings.
\<close>

section \<open>Lemma collections\<close>

named_theorems dict_simps \<open>lookups and keys of insertion-ordered dictionaries\<close>
named_theorems sql_simps \<open>rows of tables after SQLite statements\<close>
named_theorems res_simps \<open>inversion of the result monad\<close>

section \<open>Results and exceptions\<close>

datatype py_exn =
    KeyError string
  | TypeError
  | ValueError string
  | IndexError
  | IntegrityError
  | ClockSkewViolationError
  | SequenceFrozenError string
  | PolicyValidationError string
  | RuntimeCompatibilityError string string
  | TrustEnforcementError
  | CausalChainBreakError string
  | CallbackError string
  | SqliteBindingError
  | ZeroDivisionError
  | AttributeError
  | ClockOrderViolationError
  | HashChainBreakError
  | RuntimeError string
  | OverflowError

type_synonym 'a result = "py_exn + 'a"

fun res_bind :: "'e + 'a \<Rightarrow> ('a \<Rightarrow> 'e + 'b) \<Rightarrow> 'e + 'b" where
  "res_bind (Inl e) f = Inl e"
| "res_bind (Inr x) f = f x"

fun res_fold :: "('s \<Rightarrow> 'a \<Rightarrow> 'e + 's) \<Rightarrow> 's \<Rightarrow> 'a list \<Rightarrow> 'e + 's" where
  "res_fold f s [] = Inr s"
| "res_fold f s (x # xs) = res_bind (f s x) (\<lambda>s'. res_fold f s' xs)"

fun res_map :: "('a \<Rightarrow> 'e + 'b) \<Rightarrow> 'a list \<Rightarrow> 'e + 'b list" where
  "res_map f [] = Inr []"
| "res_map f (x # xs) = res_bind (f x) (\<lambda>y. res_bind (res_map f xs) (\<lambda>ys. Inr (y # ys)))"

lemma res_bind_cong [fundef_cong]:
  "m = m' \<Longrightarrow> (\<And>x. m' = Inr x \<Longrightarrow> f x = f' x) \<Longrightarrow> res_bind m f = res_bind m' f'"
  by (cases m') auto

lemma res_bind_eq_Inr [res_simps]:
  "res_bind m f = Inr y \<longleftrightarrow> (\<exists>x. m = Inr x \<and> f x = Inr y)"
  by (cases m) auto

lemma res_bind_eq_Inl [res_simps]:
  "res_bind m f = Inl e \<longleftrightarrow> m = Inl e \<or> (\<exists>x. m = Inr x \<and> f x = Inl e)"
  by (cases m) auto

lemma res_fold_append: "res_fold f s (xs @ ys) = res_bind (res_fold f s xs) (\<lambda>s'. res_fold f s' ys)"
proof (induction xs arbitrary: s)
  case (Cons x xs)
  then show ?case by (cases "f s x") auto
qed simp

lemma res_bind_Inr [simp]: "res_bind m Inr = m"
  by (cases m) auto

lemma res_bind_assoc: "res_bind (res_bind m f) g = res_bind m (\<lambda>x. res_bind (f x) g)"
  by (cases m) auto

lemma res_map_Inr: "(\<And>x. x \<in> set xs \<Longrightarrow> f x = Inr (g x)) \<Longrightarrow> res_map f xs = Inr (map g xs)"
  by (induction xs) auto

lemma res_map_length: "res_map f xs = Inr ys \<Longrightarrow> length ys = length xs"
  by (induction xs arbitrary: ys) (auto simp: res_simps)

lemma res_map_nth:
  "res_map f xs = Inr ys \<Longrightarrow> i < length xs \<Longrightarrow> f (xs ! i) = Inr (ys ! i)"
proof (induction xs arbitrary: ys i)
  case Nil
  then show ?case by simp
next
  case (Cons x xs)
  then show ?case by (cases i) (auto simp: res_simps)
qed

lemma res_map_set: "res_map f xs = Inr ys \<Longrightarrow> y \<in> set ys \<Longrightarrow> \<exists>x \<in> set xs. f x = Inr y"
  by (induction xs arbitrary: ys) (auto simp: res_simps)

lemma res_map_Inl: "res_map f xs = Inl e \<Longrightarrow> \<exists>x \<in> set xs. f x = Inl e"
  by (induction xs) (auto simp: res_simps)

lemma res_map_some_Inl: "x \<in> set xs \<Longrightarrow> f x = Inl e \<Longrightarrow> \<exists>e'. res_map f xs = Inl e'"
proof (induction xs)
  case Nil
  then show ?case by simp
next
  case (Cons y ys)
  then show ?case by (cases "f y"; cases "res_map f ys") auto
qed

section \<open>Insertion-ordered dictionaries\<close>

type_synonym ('k, 'v) dict = "('k \<times> 'v) list"

fun dict_set :: "('k, 'v) dict \<Rightarrow> 'k \<Rightarrow> 'v \<Rightarrow> ('k, 'v) dict" where
  "dict_set [] k v = [(k, v)]"
| "dict_set ((k', v') # d) k v = (if k' = k then (k, v) # d else (k', v') # dict_set d k v)"

definition dict_pop :: "'k \<Rightarrow> ('k, 'v) dict \<Rightarrow> ('k, 'v) dict" where
  "dict_pop k d = filter (\<lambda>kv. fst kv \<noteq> k) d"

definition dict_has :: "('k, 'v) dict \<Rightarrow> 'k \<Rightarrow> bool" where
  "dict_has d k \<longleftrightarrow> map_of d k \<noteq> None"

definition dict_get :: "('k, 'v) dict \<Rightarrow> 'k \<Rightarrow> 'v \<Rightarrow> 'v" where
  "dict_get d k dflt = (case map_of d k of None \<Rightarrow> dflt | Some v \<Rightarrow> v)"

definition dict_keys :: "('k, 'v) dict \<Rightarrow> 'k list" where
  "dict_keys d = map fst d"

text \<open>\<open>d.setdefault(k, []).append(x)\<close>, and the slice \<open>xs[-n:]\<close>: the last \<open>n\<close> elements for a positive \<open>n\<close>,
  but the whole list for 0.\<close>

definition dict_append :: "('k, 'a list) dict \<Rightarrow> 'k \<Rightarrow> 'a \<Rightarrow> ('k, 'a list) dict" where
  "dict_append d k x = dict_set d k (dict_get d k [] @ [x])"

definition py_tail :: "int \<Rightarrow> 'a list \<Rightarrow> 'a list" where
  "py_tail n xs = (if n > 0 then drop (length xs - nat n) xs else drop (nat (- n)) xs)"

text \<open>The slice \<open>xs[:n]\<close>; a negative \<open>n\<close> drops elements from the end.\<close>

definition py_head :: "int \<Rightarrow> 'a list \<Rightarrow> 'a list" where
  "py_head n xs = (if n \<ge> 0 then take (nat n) xs else take (length xs - nat (- n)) xs)"

definition dict_wf :: "('k, 'v) dict \<Rightarrow> bool" where
  "dict_wf d \<longleftrightarrow> distinct (map fst d)"

definition dict_of_pairs :: "('k \<times> 'v) list \<Rightarrow> ('k, 'v) dict" where
  "dict_of_pairs kvs = foldl (\<lambda>d kv. dict_set d (fst kv) (snd kv)) [] kvs"

text \<open>Python's \<open>d[k]\<close>, which raises when the key is missing.\<close>

definition dict_index :: "(string, 'v) dict \<Rightarrow> string \<Rightarrow> 'v result" where
  "dict_index d k = (case map_of d k of None \<Rightarrow> Inl (KeyError k) | Some v \<Rightarrow> Inr v)"

lemma map_of_dict_set [dict_simps]: "map_of (dict_set d k v) = (map_of d)(k \<mapsto> v)"
  by (induction d k v rule: dict_set.induct) auto

lemma dict_get_append: "dict_get (dict_append d k x) j [] = (if j = k then dict_get d k [] @ [x] else dict_get d j [])"
  by (simp add: dict_append_def dict_get_def dict_simps)

lemma dict_get_nonempty: "dict_get d k [] \<noteq> [] \<Longrightarrow> k \<in> fst ` set d"
  by (auto simp: dict_get_def split: option.splits dest!: map_of_SomeD) force

lemma keys_dict_set [dict_simps]: "fst ` set (dict_set d k v) = insert k (fst ` set d)"
  by (induction d k v rule: dict_set.induct) auto

lemma dict_set_wf [simp, intro]: "dict_wf d \<Longrightarrow> dict_wf (dict_set d k v)"
  unfolding dict_wf_def
proof (induction d k v rule: dict_set.induct)
  case (2 k' v' d k v)
  have "fst ` set (dict_set d k v) = insert k (fst ` set d)"
    by (rule keys_dict_set)
  with 2 show ?case by auto
qed auto

lemma map_of_dict_pop [dict_simps]: "map_of (dict_pop k d) = (map_of d)(k := None)"
  unfolding dict_pop_def by (induction d) (auto simp: fun_eq_iff)

lemma dict_pop_wf [simp, intro]: "dict_wf d \<Longrightarrow> dict_wf (dict_pop k d)"
  unfolding dict_wf_def dict_pop_def by (induction d) auto

lemma dict_pop_absent: "map_of d k = None \<Longrightarrow> dict_pop k d = d"
  unfolding dict_pop_def by (induction d) (auto split: if_splits)

lemma dict_set_absent: "map_of d k = None \<Longrightarrow> dict_set d k v = d @ [(k, v)]"
  by (induction d) (auto split: if_splits)

lemma dict_pop_set_absent: "map_of d k = None \<Longrightarrow> dict_pop k (dict_set d k v) = d"
proof -
  assume a: "map_of d k = None"
  then have "dict_pop k (dict_set d k v) = dict_pop k d @ dict_pop k [(k, v)]"
    by (simp add: dict_set_absent dict_pop_def)
  with a show ?thesis by (simp add: dict_pop_absent) (simp add: dict_pop_def)
qed

lemma dict_wf_Nil [simp]: "dict_wf []"
  by (simp add: dict_wf_def)

lemma dict_of_pairs_foldl:
  "distinct (map fst (d @ kvs)) \<Longrightarrow> foldl (\<lambda>d kv. dict_set d (fst kv) (snd kv)) d kvs = d @ kvs"
proof (induction kvs arbitrary: d)
  case Nil
  then show ?case by simp
next
  case (Cons kv kvs)
  then have "map_of d (fst kv) = None" by (auto simp: map_of_eq_None_iff)
  then have "dict_set d (fst kv) (snd kv) = d @ [kv]" by (simp add: dict_set_absent)
  with Cons show ?case by simp
qed

lemma dict_of_pairs_distinct [dict_simps]: "distinct (map fst kvs) \<Longrightarrow> dict_of_pairs kvs = kvs"
  unfolding dict_of_pairs_def using dict_of_pairs_foldl [of "[]" kvs] by simp

lemma dict_set_values:
  "(k', x) \<in> set (dict_set d k v) \<Longrightarrow> x = v \<or> (\<exists>k''. (k'', x) \<in> set d)"
  by (induction d k v rule: dict_set.induct) (auto split: if_splits)

lemma dict_of_pairs_values:
  "(k, x) \<in> set (dict_of_pairs kvs) \<Longrightarrow> \<exists>k'. (k', x) \<in> set kvs"
proof (induction kvs arbitrary: k rule: rev_induct)
  case Nil
  then show ?case by (simp add: dict_of_pairs_def)
next
  case (snoc kv kvs)
  then show ?case
    by (cases kv) (auto simp: dict_of_pairs_def dest!: dict_set_values)
qed

lemma dict_of_pairs_wf: "dict_wf (dict_of_pairs kvs)"
proof (induction kvs rule: rev_induct)
  case (snoc kv kvs)
  then show ?case by (simp add: dict_of_pairs_def)
qed (simp add: dict_of_pairs_def)

lemma dict_get_const: "dict_get (dict_of_pairs (map (\<lambda>n. (f n, c)) ns)) k c = c"
proof -
  have "v = c" if "map_of (dict_of_pairs (map (\<lambda>n. (f n, c)) ns)) k = Some v" for v
    using that by (auto dest!: map_of_SomeD dict_of_pairs_values)
  then show ?thesis by (auto simp: dict_get_def split: option.split)
qed

lemma keys_dict_of_pairs: "fst ` set (dict_of_pairs kvs) = fst ` set kvs"
proof (induction kvs rule: rev_induct)
  case (snoc kv kvs)
  then show ?case by (simp add: dict_of_pairs_def keys_dict_set)
qed (simp add: dict_of_pairs_def)

lemma dict_has_keys: "dict_has d k \<longleftrightarrow> k \<in> fst ` set d"
  by (simp add: dict_has_def map_of_eq_None_iff)

section \<open>SQLite statements on lists of rows\<close>

text \<open>A negative \<open>LIMIT\<close> means no limit.\<close>

definition sql_limit :: "int \<Rightarrow> 'a list \<Rightarrow> 'a list" where
  "sql_limit n xs = (if n < 0 then xs else take (nat n) xs)"

definition insert_or_ignore :: "('r \<Rightarrow> 'r \<Rightarrow> bool) \<Rightarrow> 'r list \<Rightarrow> 'r \<Rightarrow> 'r list" where
  "insert_or_ignore clash t r = (if \<exists>x \<in> set t. clash x r then t else t @ [r])"

text \<open>A plain \<open>INSERT\<close> raises \<open>sqlite3.IntegrityError\<close> on a violated UNIQUE constraint.\<close>

definition sql_insert :: "('r \<Rightarrow> 'r \<Rightarrow> bool) \<Rightarrow> 'r list \<Rightarrow> 'r \<Rightarrow> 'r list result" where
  "sql_insert clash t r = (if \<exists>x \<in> set t. clash x r then Inl IntegrityError else Inr (t @ [r]))"

definition sql_update :: "('r \<Rightarrow> bool) \<Rightarrow> ('r \<Rightarrow> 'r) \<Rightarrow> 'r list \<Rightarrow> 'r list" where
  "sql_update w f t = map (\<lambda>r. if w r then f r else r) t"

definition sql_upsert :: "('r \<Rightarrow> 'r \<Rightarrow> bool) \<Rightarrow> ('r \<Rightarrow> 'r \<Rightarrow> 'r) \<Rightarrow> 'r list \<Rightarrow> 'r \<Rightarrow> 'r list" where
  "sql_upsert clash upd t r =
     (if \<exists>x \<in> set t. clash x r then map (\<lambda>x. if clash x r then upd x r else x) t else t @ [r])"

lemma sql_limit_all [sql_simps]: "int (length xs) \<le> n \<Longrightarrow> sql_limit n xs = xs"
  by (simp add: sql_limit_def)

lemma set_sql_limit: "set (sql_limit n xs) \<subseteq> set xs"
  by (auto simp: sql_limit_def dest: in_set_takeD)

lemma sql_limit_prefix: "prefix (sql_limit n xs) xs"
  by (simp add: sql_limit_def take_is_prefix)

lemma sql_limit_map: "sql_limit n (map f xs) = map f (sql_limit n xs)"
  by (simp add: sql_limit_def take_map)

lemma find_append: "find P (xs @ ys) = (case find P xs of None \<Rightarrow> find P ys | Some x \<Rightarrow> Some x)"
  by (induction xs) auto

lemma map_of_keyed: "map_of (map (\<lambda>x. (k x, x)) xs) n = find (\<lambda>x. k x = n) xs"
  by (induction xs) auto

lemma find_distinct_key: "distinct (map k xs) \<Longrightarrow> x \<in> set xs \<Longrightarrow> find (\<lambda>y. k y = k x) xs = Some x"
  by (induction xs) (auto simp: image_iff)

lemma find_snoc_fresh:
  assumes "key r = k" "k \<notin> key ` set xs"
  shows "find (\<lambda>r. key r = k) (xs @ [r]) = Some r"
proof -
  have "find (\<lambda>r. key r = k) xs = None" using assms(2) by (auto simp: find_None_iff)
  with assms(1) show ?thesis by (simp add: find_append)
qed

lemma find_sql_upsert:
  assumes upd: "\<And>x. key (upd x r) = key x"
  shows "find (\<lambda>x. key x = k) (sql_upsert (\<lambda>x r. key x = key r) upd t r) =
    (if k = key r then Some (case find (\<lambda>x. key x = k) t of None \<Rightarrow> r | Some x \<Rightarrow> upd x r)
     else find (\<lambda>x. key x = k) t)"
proof -
  have m: "find (\<lambda>x. key x = k) (map (\<lambda>x. if key x = key r then upd x r else x) t) =
      (if k = key r then map_option (\<lambda>x. upd x r) (find (\<lambda>x. key x = k) t) else find (\<lambda>x. key x = k) t)"
    by (induction t) (auto simp: upd)
  show ?thesis
  proof (cases "\<exists>x \<in> set t. key x = key r")
    case True
    then obtain y where "find (\<lambda>x. key x = key r) t = Some y"
      by (cases "find (\<lambda>x. key x = key r) t") (auto simp: find_None_iff)
    with True m show ?thesis by (auto simp: sql_upsert_def)
  next
    case False
    then have "find (\<lambda>x. key x = key r) t = None" by (simp add: find_None_iff)
    with False show ?thesis by (auto simp: sql_upsert_def find_append split: option.splits)
  qed
qed

lemma find_Some_prefix: "find P xs = Some x \<Longrightarrow> prefix xs ys \<Longrightarrow> find P ys = Some x"
  by (auto simp: prefix_def find_append)

subsection \<open>The contract of an append-only table\<close>

text \<open>
  \<open>ins\<close> adds a row unless one of the table's UNIQUE constraints (\<open>clash\<close>) refuses it,
  in which case the statement is ignored; \<open>key\<close> is the primary key a client looks rows
  up by. Every registry of the platform that promises "append-only" is an instance.
\<close>

locale append_only_table =
  fixes ins :: "'t \<Rightarrow> 'r \<Rightarrow> 't"
    and rows :: "'t \<Rightarrow> 'r list"
    and clash :: "'r \<Rightarrow> 'r \<Rightarrow> bool"
    and key :: "'r \<Rightarrow> 'k"
    and get :: "'t \<Rightarrow> 'k \<Rightarrow> 'r option"
  assumes rows_ins: "rows (ins t r) = insert_or_ignore clash (rows t) r"
    and key_clash: "key x = key r \<Longrightarrow> clash x r"
    and get_rows: "get t k = find (\<lambda>r. key r = k) (rows t)"
begin

lemma ins_prefix: "prefix (rows t) (rows (ins t r))"
  by (simp add: rows_ins insert_or_ignore_def)

lemma history_prefix: "prefix (rows t) (rows (foldl ins t rs))"
proof (induction rs arbitrary: t)
  case Nil
  then show ?case by simp
next
  case (Cons r rs)
  have "prefix (rows t) (rows (ins t r))" by (rule ins_prefix)
  also have "prefix \<dots> (rows (foldl ins (ins t r) rs))" by (rule Cons.IH)
  finally show ?case by simp
qed

lemma get_stable: "get t k = Some r \<Longrightarrow> get (foldl ins t rs) k = Some r"
  using find_Some_prefix [OF _ history_prefix] by (simp add: get_rows)

lemma get_ins_fresh:
  assumes "\<not> (\<exists>x \<in> set (rows t). clash x r)"
  shows "get (ins t r) (key r) = Some r"
proof -
  have "find (\<lambda>x. key x = key r) (rows t) = None"
    using assms key_clash by (auto simp: find_None_iff)
  with assms show ?thesis by (simp add: get_rows rows_ins insert_or_ignore_def find_append)
qed

lemma ins_distinct_keys:
  assumes "distinct (map key (rows t))"
  shows "distinct (map key (rows (ins t r)))"
proof (cases "\<exists>x \<in> set (rows t). clash x r")
  case True
  with assms show ?thesis by (simp add: rows_ins insert_or_ignore_def)
next
  case False
  then have "key r \<notin> key ` set (rows t)" using key_clash by force
  with assms False show ?thesis by (simp add: rows_ins insert_or_ignore_def)
qed

lemma get_key: "get t k = Some r \<Longrightarrow> key r = k \<and> r \<in> set (rows t)"
  by (auto simp: get_rows find_Some_iff)

end

section \<open>Stable sorting\<close>

lemma sort_key_cong_set:
  "(\<And>x. x \<in> set xs \<Longrightarrow> f x = g x) \<Longrightarrow> sort_key f xs = sort_key g xs"
proof (induction xs)
  case (Cons x xs)
  have ins: "insort_key f x ys = insort_key g x ys" if "\<And>y. y \<in> set ys \<Longrightarrow> f y = g y" for ys
    using that Cons.prems by (induction ys) auto
  have "insort_key f x (sort_key g xs) = insort_key g x (sort_key g xs)"
    by (rule ins) (simp add: Cons.prems)
  with Cons show ?case by simp
qed simp

lemma map_eq_cong: "(\<And>x y. f x = f y \<longleftrightarrow> g x = g y) \<Longrightarrow> map f xs = map f ys \<longleftrightarrow> map g xs = map g ys"
  by (induction xs arbitrary: ys) (auto simp: Cons_eq_map_conv)

lemma map_insort_key: "map f (insort_key (\<lambda>x. k (f x)) x xs) = insort_key k (f x) (map f xs)"
  by (induction xs) auto

lemma map_sort_key: "map f (sort_key (\<lambda>x. k (f x)) xs) = sort_key k (map f xs)"
  by (induction xs) (simp_all add: map_insort_key)

lemma sort_key_inj_mset:
  fixes k :: "'a \<Rightarrow> 'k::linorder"
  assumes "inj_on k (set xs)" "mset xs = mset ys"
  shows "sort_key k xs = sort_key k ys"
proof (rule properties_for_sort_key)
  show "mset (sort_key k ys) = mset xs" using assms(2) by simp
  have s: "set ys = set xs" using assms(2) by (metis set_mset_mset)
  show "filter (\<lambda>y. k x = k y) (sort_key k ys) = filter (\<lambda>y. k x = k y) xs" if "x \<in> set (sort_key k ys)" for x
  proof -
    have "filter (\<lambda>y. k x = k y) zs = replicate (count (mset zs) x) x" if "set zs = set xs" for zs
    proof -
      have "k x = k y \<longleftrightarrow> x = y" if "y \<in> set zs" for y
        using assms(1) that \<open>set zs = set xs\<close> \<open>x \<in> set (sort_key k ys)\<close> s by (auto simp: inj_on_def)
      then have "filter (\<lambda>y. k x = k y) zs = filter (\<lambda>y. x = y) zs" by (intro filter_cong) auto
      also have "\<dots> = replicate (count (mset zs) x) x"
        by (induction zs) auto
      finally show ?thesis .
    qed
    from this [of "sort_key k ys"] this [of xs] show ?thesis using s assms(2) by simp
  qed
qed simp

lemma sort_key_resort: "sort_key k (sort_key k xs @ ys) = sort_key k (xs @ ys)"
proof (rule properties_for_sort_key)
  have stable: "filter (\<lambda>x. k q = k x) (sort_key k zs) = filter (\<lambda>x. k q = k x) zs" for q zs
    using sort_key_stable [of k "k q" zs] by (simp add: eq_commute)
  show "filter (\<lambda>x. k q = k x) (sort_key k (xs @ ys)) = filter (\<lambda>x. k q = k x) (sort_key k xs @ ys)" for q
    by (simp only: stable filter_append)
qed simp_all

lemma last_sort_key:
  fixes k :: "'a \<Rightarrow> 'k::linorder"
  assumes "x \<in> set xs"
  shows "k x \<le> k (last (sort_key k xs))" and "last (sort_key k xs) \<in> set xs"
proof -
  let ?s = "sort_key k xs"
  have ne: "?s \<noteq> []" using assms by (metis empty_iff empty_set set_sort)
  then have l: "last ?s \<in> set ?s" by (rule last_in_set)
  then show "last ?s \<in> set xs" by simp
  have "sorted (map k (butlast ?s @ [last ?s]))" by (subst append_butlast_last_id [OF ne]) (rule sorted_sort_key)
  moreover have "x \<in> set (butlast ?s @ [last ?s])" using assms by (subst append_butlast_last_id [OF ne]) simp
  ultimately show "k x \<le> k (last ?s)" by (auto simp: sorted_append)
qed

section \<open>Strings: joining, decimal digits, padding\<close>

fun py_join :: "string \<Rightarrow> string list \<Rightarrow> string" where
  "py_join sep [] = []"
| "py_join sep [x] = x"
| "py_join sep (x # y # xs) = x @ sep @ py_join sep (y # xs)"

lemma py_join_Cons [simp]: "xs \<noteq> [] \<Longrightarrow> py_join sep (x # xs) = x @ sep @ py_join sep xs"
  by (cases xs) auto

definition digit_char :: "nat \<Rightarrow> char" where
  "digit_char d = char_of (48 + d)"

definition char_digit :: "char \<Rightarrow> nat" where
  "char_digit c = of_char c - 48"

definition is_digit :: "char \<Rightarrow> bool" where
  "is_digit c \<longleftrightarrow> 48 \<le> (of_char c :: nat) \<and> (of_char c :: nat) \<le> 57"

fun show_nat :: "nat \<Rightarrow> string" where
  "show_nat n = (if n < 10 then [digit_char n] else show_nat (n div 10) @ [digit_char (n mod 10)])"

definition show_int :: "int \<Rightarrow> string" where
  "show_int i = (if i < 0 then CHR ''-'' # show_nat (nat (- i)) else show_nat (nat i))"

definition read_nat :: "string \<Rightarrow> nat" where
  "read_nat s = foldl (\<lambda>a c. 10 * a + char_digit c) 0 s"

declare show_nat.simps [simp del]

lemma of_char_digit: "d < 10 \<Longrightarrow> (of_char (digit_char d) :: nat) = 48 + d"
  by (simp add: digit_char_def)

lemma char_digit_digit_char [simp]: "d < 10 \<Longrightarrow> char_digit (digit_char d) = d"
  by (simp add: char_digit_def of_char_digit)

lemma is_digit_digit_char [simp]: "d < 10 \<Longrightarrow> is_digit (digit_char d)"
  by (simp add: is_digit_def of_char_digit)

lemma digit_char_inj: "a < 10 \<Longrightarrow> b < 10 \<Longrightarrow> digit_char a = digit_char b \<longleftrightarrow> a = b"
  by (metis char_digit_digit_char)

lemma digit_char_0 [simp]: "digit_char 0 = CHR ''0''"
  by code_simp

lemma show_nat_nonempty [simp]: "show_nat n \<noteq> []"
  by (subst show_nat.simps) simp

lemma show_nat_digits: "c \<in> set (show_nat n) \<Longrightarrow> is_digit c"
proof (induction n rule: show_nat.induct)
  case (1 n)
  then show ?case
    by (subst (asm) (2) show_nat.simps) (auto split: if_splits)
qed

lemma read_show_nat [simp]: "read_nat (show_nat n) = n"
proof (induction n rule: show_nat.induct)
  case (1 n)
  show ?case
  proof (cases "n < 10")
    case True
    then show ?thesis by (simp add: show_nat.simps [of n] read_nat_def)
  next
    case False
    with "1.IH" have "read_nat (show_nat (n div 10)) = n div 10" by simp
    with False show ?thesis
      by (simp add: show_nat.simps [of n] read_nat_def)
  qed
qed

lemma show_nat_no_leading_zero: "length (show_nat n) = 1 \<or> hd (show_nat n) \<noteq> CHR ''0''"
proof (induction n rule: show_nat.induct)
  case (1 n)
  show ?case
  proof (cases "n < 10")
    case True
    then show ?thesis by (simp add: show_nat.simps [of n])
  next
    case False
    have "hd (show_nat (n div 10)) \<noteq> CHR ''0''"
    proof (cases "n div 10 < 10")
      case True
      moreover have "n div 10 \<noteq> 0" using False by simp
      ultimately have "digit_char (n div 10) \<noteq> CHR ''0''"
        using digit_char_inj [of "n div 10" 0] by simp
      with True show ?thesis by (simp add: show_nat.simps [of "n div 10"])
    next
      case hi: False
      then have "length (show_nat (n div 10)) \<noteq> 1" by (simp add: show_nat.simps [of "n div 10"])
      with "1.IH" False show ?thesis by simp
    qed
    with False show ?thesis by (simp add: show_nat.simps [of n])
  qed
qed

lemma show_nat_inj [simp]: "show_nat m = show_nat n \<longleftrightarrow> m = n"
  by (metis read_show_nat)

lemma minus_not_digit [simp]: "\<not> is_digit (CHR ''-'')"
  by (simp add: is_digit_def)

lemma show_int_inj [simp]: "show_int i = show_int j \<longleftrightarrow> i = j"
proof
  assume eq: "show_int i = show_int j"
  have ne: "CHR ''-'' # xs \<noteq> show_nat n" for xs n
    using show_nat_digits [of "CHR ''-''" n] by (metis list.set_intros(1) minus_not_digit)
  show "i = j"
  proof (cases "i < 0"; cases "j < 0")
    assume "i < 0" "j < 0"
    with eq have "nat (- i) = nat (- j)" by (simp add: show_int_def)
    with \<open>i < 0\<close> \<open>j < 0\<close> show ?thesis by simp
  next
    assume "\<not> i < 0" "\<not> j < 0"
    with eq have "nat i = nat j" by (simp add: show_int_def)
    with \<open>\<not> i < 0\<close> \<open>\<not> j < 0\<close> show ?thesis by simp
  qed (use eq ne in \<open>auto simp: show_int_def dest: sym\<close>)
qed simp

subsection \<open>Zero-padded numbers and the order of strings\<close>

text \<open>Python's \<open>f"{n:0wd}"\<close> for a non-negative number.\<close>

text \<open>A string is split at the first, or the last, occurrence of a separator in one way only.\<close>

lemma split_first: "c \<notin> set xs \<Longrightarrow> c \<notin> set ys \<Longrightarrow> xs @ c # r = ys @ c # s \<longleftrightarrow> xs = ys \<and> r = s"
proof (induction xs arbitrary: ys)
  case Nil
  then show ?case by (cases ys) auto
next
  case (Cons x xs)
  then show ?case by (cases ys) auto
qed

lemma split_last: "c \<notin> set r \<Longrightarrow> c \<notin> set s \<Longrightarrow> xs @ c # r = ys @ c # s \<longleftrightarrow> xs = ys \<and> r = s"
  using split_first [of c "rev r" "rev s" "rev xs" "rev ys"]
    rev_is_rev_conv [of "xs @ c # r" "ys @ c # s"] by auto

lemma show_int_no_sep: "\<not> is_digit c \<Longrightarrow> c \<noteq> CHR ''-'' \<Longrightarrow> c \<notin> set (show_int i)"
  by (auto simp: show_int_def dest: show_nat_digits)

definition zfill :: "nat \<Rightarrow> nat \<Rightarrow> string" where
  "zfill w n = replicate (w - length (show_nat n)) (CHR ''0'') @ show_nat n"

text \<open>The last \<open>w\<close> decimal digits, most significant first.\<close>

fun low_digits :: "nat \<Rightarrow> nat \<Rightarrow> string" where
  "low_digits 0 n = []"
| "low_digits (Suc w) n = low_digits w (n div 10) @ [digit_char (n mod 10)]"

lemma length_low_digits [simp]: "length (low_digits w n) = w"
  by (induction w n rule: low_digits.induct) auto

lemma low_digits_zero: "low_digits w 0 = replicate w (CHR ''0'')"
  by (induction w) (simp_all add: replicate_append_same)

lemma zfill_low_digits: "n < 10 ^ w \<Longrightarrow> 0 < w \<Longrightarrow> zfill w n = low_digits w n"
proof (induction w n rule: low_digits.induct)
  case (1 n)
  then show ?case by simp
next
  case (2 w n)
  show ?case
  proof (cases "n < 10")
    case True
    then show ?thesis
      by (simp add: zfill_def show_nat.simps [of n] low_digits_zero)
  next
    case False
    then have "w \<noteq> 0" using "2.prems" by (cases w) auto
    moreover have "n div 10 < 10 ^ w" using "2.prems" by (simp add: div_less_iff_less_mult mult.commute)
    ultimately have "zfill w (n div 10) = low_digits w (n div 10)" using "2.IH" by simp
    with False show ?thesis by (simp add: zfill_def show_nat.simps [of n])
  qed
qed

lemma length_zfill: "n < 10 ^ w \<Longrightarrow> 0 < w \<Longrightarrow> length (zfill w n) = w"
  by (simp add: zfill_low_digits)

lemma append_less_same_length:
  fixes a b :: "'a::order list"
  assumes "length a = length b"
  shows "a @ x < b @ y \<longleftrightarrow> a < b \<or> (a = b \<and> x < y)"
  using assms by (induction a b rule: list_induct2) auto

lemma digit_char_less: "a < 10 \<Longrightarrow> b < 10 \<Longrightarrow> digit_char a < digit_char b \<longleftrightarrow> a < b"
  by (simp add: less_char_def digit_char_def)

lemma low_digits_eq: "m < 10 ^ w \<Longrightarrow> n < 10 ^ w \<Longrightarrow> low_digits w m = low_digits w n \<longleftrightarrow> m = n"
proof (induction w arbitrary: m n)
  case 0
  then show ?case by simp
next
  case (Suc w)
  then have "m div 10 < 10 ^ w" "n div 10 < 10 ^ w"
    by (simp_all add: div_less_iff_less_mult mult.commute)
  with Suc.IH have "low_digits (Suc w) m = low_digits (Suc w) n \<longleftrightarrow>
      m div 10 = n div 10 \<and> m mod 10 = n mod 10"
    by (simp add: digit_char_inj)
  also have "\<dots> \<longleftrightarrow> m = n" by (metis div_mult_mod_eq)
  finally show ?case .
qed

lemma low_digits_less: "m < 10 ^ w \<Longrightarrow> n < 10 ^ w \<Longrightarrow> low_digits w m < low_digits w n \<longleftrightarrow> m < n"
proof (induction w arbitrary: m n)
  case 0
  then show ?case by simp
next
  case (Suc w)
  then have b: "m div 10 < 10 ^ w" "n div 10 < 10 ^ w"
    by (simp_all add: div_less_iff_less_mult mult.commute)
  have "low_digits (Suc w) m < low_digits (Suc w) n \<longleftrightarrow>
      m div 10 < n div 10 \<or> (m div 10 = n div 10 \<and> m mod 10 < n mod 10)"
    using b by (simp add: append_less_same_length Suc.IH low_digits_eq digit_char_less)
  also have "\<dots> \<longleftrightarrow> m < n"
  proof -
    have "m = 10 * (m div 10) + m mod 10" "n = 10 * (n div 10) + n mod 10" by simp_all
    moreover have "m mod 10 < 10" "n mod 10 < 10" by simp_all
    ultimately show ?thesis by linarith
  qed
  finally show ?case .
qed

lemma zfill_less: "m < 10 ^ w \<Longrightarrow> n < 10 ^ w \<Longrightarrow> 0 < w \<Longrightarrow> zfill w m < zfill w n \<longleftrightarrow> m < n"
  by (simp add: zfill_low_digits low_digits_less)

lemma zfill_eq: "m < 10 ^ w \<Longrightarrow> n < 10 ^ w \<Longrightarrow> 0 < w \<Longrightarrow> zfill w m = zfill w n \<longleftrightarrow> m = n"
  by (simp add: zfill_low_digits low_digits_eq)

end
