(* ===== verification/Py_Values.thy ===== *)
theory Py_Values
  imports Complex_Main Py_Prelude
begin

text \<open>
  The dynamically typed Python values that event payloads, migration parameters and
  policy contexts hold, with the operations the platform applies to them: \<open>==\<close>,
  \<open><\<close> (which raises \<open>TypeError\<close> across types), truthiness, \<open>in\<close>, and \<open>str\<close>.
  Strings are sequences of code points below 256. A float is represented by its
  \<open>repr\<close>, which determines it; comparisons read the decimal value of that text.
  A set is a list of its elements in the (unspecified) iteration order of the
  running process.
\<close>

datatype pyval =
    PNone
  | PBool bool
  | PInt int
  | PFloat string
  | PStr string
  | PList "pyval list"
  | PTuple "pyval list"
  | PSet bool "pyval list" \<comment> \<open>\<open>True\<close> for a frozenset\<close>
  | PDict "(string \<times> pyval) list"

type_synonym payload = "(string, pyval) dict"

section \<open>Numbers\<close>

text \<open>The decimal value of a float's \<open>repr\<close>: sign, integer part, fraction, exponent.\<close>

definition read_int :: "string \<Rightarrow> int" where
  "read_int s = (case s of [] \<Rightarrow> 0
     | c # r \<Rightarrow> if c = CHR ''-'' then - int (read_nat r)
               else if c = CHR ''+'' then int (read_nat r) else int (read_nat s))"

definition scale10 :: "int \<Rightarrow> rat \<Rightarrow> rat" where
  "scale10 e q = (if 0 \<le> e then q * 10 ^ nat e else q / 10 ^ nat (- e))"

definition float_val :: "string \<Rightarrow> rat" where
  "float_val s =
     (let neg = (s \<noteq> [] \<and> hd s = CHR ''-'');
          t = (if neg then tl s else s);
          i = takeWhile is_digit t;
          r = dropWhile is_digit t;
          f = (if r \<noteq> [] \<and> hd r = CHR ''.'' then takeWhile is_digit (tl r) else []);
          r' = (if r \<noteq> [] \<and> hd r = CHR ''.'' then dropWhile is_digit (tl r) else r);
          e = (if r' \<noteq> [] then read_int (tl r') else 0);
          m = scale10 (e - int (length f)) (of_nat (read_nat (i @ f)))
      in if neg then - m else m)"

fun num_val :: "pyval \<Rightarrow> rat option" where
  "num_val (PBool b) = Some (if b then 1 else 0)"
| "num_val (PInt i) = Some (of_int i)"
| "num_val (PFloat s) = Some (float_val s)"
| "num_val _ = None"

section \<open>Truthiness and equality\<close>

fun truthy :: "pyval \<Rightarrow> bool" where
  "truthy PNone = False"
| "truthy (PBool b) = b"
| "truthy (PInt i) = (i \<noteq> 0)"
| "truthy (PFloat s) = (float_val s \<noteq> 0)"
| "truthy (PStr s) = (s \<noteq> [])"
| "truthy (PList vs) = (vs \<noteq> [])"
| "truthy (PTuple vs) = (vs \<noteq> [])"
| "truthy (PSet _ vs) = (vs \<noteq> [])"
| "truthy (PDict kvs) = (kvs \<noteq> [])"

fun py_eq :: "pyval \<Rightarrow> pyval \<Rightarrow> bool"
  and py_eqs :: "pyval list \<Rightarrow> pyval list \<Rightarrow> bool" where
  "py_eq v w =
     (case (v, w) of
        (PNone, PNone) \<Rightarrow> True
      | (PStr s, PStr t) \<Rightarrow> s = t
      | (PList vs, PList ws) \<Rightarrow> py_eqs vs ws
      | (PTuple vs, PTuple ws) \<Rightarrow> py_eqs vs ws
      | (PSet _ vs, PSet _ ws) \<Rightarrow>
          length vs = length ws \<and> list_all (\<lambda>x. list_ex (\<lambda>y. py_eq x y) ws) vs
      | (PDict ds, PDict es) \<Rightarrow>
          length ds = length es \<and>
          list_all (\<lambda>(k, x). case map_of es k of None \<Rightarrow> False | Some y \<Rightarrow> py_eq x y) ds
      | _ \<Rightarrow> (case (num_val v, num_val w) of (Some a, Some b) \<Rightarrow> a = b | _ \<Rightarrow> False))"
| "py_eqs [] [] = True"
| "py_eqs (v # vs) (w # ws) = (py_eq v w \<and> py_eqs vs ws)"
| "py_eqs _ _ = False"

declare py_eq.simps [simp del]

lemma py_eq_Str [simp]: "py_eq (PStr s) (PStr t) \<longleftrightarrow> s = t"
  by (subst py_eq.simps) simp

lemma py_eq_Int [simp]: "py_eq (PInt i) (PInt j) \<longleftrightarrow> i = j"
  by (subst py_eq.simps) simp

lemma py_eq_None [simp]: "py_eq PNone PNone"
  by (subst py_eq.simps) simp

lemma py_eq_Bool [simp]: "py_eq (PBool a) (PBool b) \<longleftrightarrow> a = b"
  by (subst py_eq.simps) auto

lemma py_eq_None_left: "py_eq PNone v \<longleftrightarrow> v = PNone"
  by (subst py_eq.simps) (cases v; simp)

definition py_in :: "pyval \<Rightarrow> pyval list \<Rightarrow> bool" where
  "py_in v ws = list_ex (\<lambda>w. py_eq v w) ws"

text \<open>Lists, dictionaries and sets are not hashable; tuples and frozensets are when their elements are.\<close>

fun py_hashable :: "pyval \<Rightarrow> bool" where
  "py_hashable (PList _) = False"
| "py_hashable (PDict _) = False"
| "py_hashable (PSet frz vs) = frz"
| "py_hashable (PTuple vs) = list_all py_hashable vs"
| "py_hashable _ = True"

section \<open>Ordering\<close>

text \<open>
  \<open>v < w\<close>: numbers by value, strings lexicographically, sequences of the same kind by
  their first unequal elements, sets by strict inclusion; every other pair raises.
\<close>

fun py_lt :: "pyval \<Rightarrow> pyval \<Rightarrow> bool result"
  and py_lts :: "pyval list \<Rightarrow> pyval list \<Rightarrow> bool result" where
  "py_lt v w =
     (case (v, w) of
        (PStr s, PStr t) \<Rightarrow> Inr (s < t)
      | (PList vs, PList ws) \<Rightarrow> py_lts vs ws
      | (PTuple vs, PTuple ws) \<Rightarrow> py_lts vs ws
      | (PSet _ vs, PSet _ ws) \<Rightarrow>
          Inr (list_all (\<lambda>x. py_in x ws) vs \<and> length vs < length ws)
      | _ \<Rightarrow> (case (num_val v, num_val w) of (Some a, Some b) \<Rightarrow> Inr (a < b) | _ \<Rightarrow> Inl TypeError))"
| "py_lts [] [] = Inr False"
| "py_lts [] (w # ws) = Inr True"
| "py_lts (v # vs) [] = Inr False"
| "py_lts (v # vs) (w # ws) = (if py_eq v w then py_lts vs ws else py_lt v w)"

declare py_lt.simps [simp del]

lemma py_lt_Int [simp]: "py_lt (PInt i) (PInt j) = Inr (i < j)"
  by (subst py_lt.simps) simp

lemma py_lt_Str [simp]: "py_lt (PStr s) (PStr t) = Inr (s < t)"
  by (subst py_lt.simps) simp

lemma py_lt_None [simp]: "py_lt PNone v = Inl TypeError" "py_lt v PNone = Inl TypeError"
  by (subst py_lt.simps, cases v; simp)+

lemma py_lt_Str_Int [simp]:
  "py_lt (PStr s) (PInt i) = Inl TypeError" "py_lt (PInt i) (PStr s) = Inl TypeError"
  by (subst py_lt.simps, simp)+

text \<open>
  \<open>list.sort(key=...)\<close>: stable, and a \<open>TypeError\<close> of a comparison leaves it. Whatever the
  order of its comparisons, a sorting algorithm has to compare neighbours of the result, so
  keys of two kinds that do not compare always raise.
\<close>

fun py_insort :: "('a \<Rightarrow> pyval) \<Rightarrow> 'a \<Rightarrow> 'a list \<Rightarrow> 'a list result" where
  "py_insort key x [] = Inr [x]"
| "py_insort key x (y # ys) =
     res_bind (py_lt (key y) (key x)) (\<lambda>less.
       if less then res_bind (py_insort key x ys) (\<lambda>zs. Inr (y # zs)) else Inr (x # y # ys))"

fun py_sort :: "('a \<Rightarrow> pyval) \<Rightarrow> 'a list \<Rightarrow> 'a list result" where
  "py_sort key [] = Inr []"
| "py_sort key (x # xs) = res_bind (py_sort key xs) (py_insort key x)"

lemma py_insort_linorder:
  fixes k :: "'a \<Rightarrow> 'k::linorder"
  assumes "\<And>y. y \<in> set ys \<Longrightarrow> py_lt (key y) (key x) = Inr (k y < k x)"
  shows "py_insort key x ys = Inr (insort_key k x ys)"
  using assms by (induction ys) (auto simp: not_le)

lemma py_sort_linorder:
  fixes k :: "'a \<Rightarrow> 'k::linorder"
  assumes "\<And>x y. x \<in> set xs \<Longrightarrow> y \<in> set xs \<Longrightarrow> py_lt (key x) (key y) = Inr (k x < k y)"
  shows "py_sort key xs = Inr (sort_key k xs)"
  using assms
proof (induction xs)
  case (Cons x xs)
  have "py_insort key x (sort_key k xs) = Inr (insort_key k x (sort_key k xs))"
    using Cons.prems by (intro py_insort_linorder) simp
  with Cons show ?case by simp
qed simp

section \<open>\<open>str\<close> of the values \<open>json.dumps(default=str)\<close> falls back to\<close>

definition hex_char :: "nat \<Rightarrow> char" where
  "hex_char k = (if k < 10 then digit_char k else char_of (87 + k))"

definition repr_char :: "char \<Rightarrow> char \<Rightarrow> string" where
  "repr_char q c =
     (let k = (of_char c :: nat) in
      if c = q \<or> c = CHR 0x5C then [CHR 0x5C, c]
      else if c = CHR 0x0A then [CHR 0x5C, CHR ''n'']
      else if c = CHR 0x0D then [CHR 0x5C, CHR ''r'']
      else if c = CHR 0x09 then [CHR 0x5C, CHR ''t'']
      else if (32 \<le> k \<and> k \<le> 126) \<or> (161 \<le> k \<and> k \<noteq> 173) then [c]
      else [CHR 0x5C, CHR ''x'', hex_char (k div 16), hex_char (k mod 16)])"

definition repr_str :: "string \<Rightarrow> string" where
  "repr_str s =
     (let q = (if CHR 0x27 \<in> set s \<and> CHR 0x22 \<notin> set s then CHR 0x22 else CHR 0x27)
      in q # concat (map (repr_char q) s) @ [q])"

fun py_repr :: "pyval \<Rightarrow> string" where
  "py_repr PNone = ''None''"
| "py_repr (PBool b) = (if b then ''True'' else ''False'')"
| "py_repr (PInt i) = show_int i"
| "py_repr (PFloat r) = r"
| "py_repr (PStr s) = repr_str s"
| "py_repr (PList vs) = CHR ''['' # py_join '', '' (map py_repr vs) @ '']''"
| "py_repr (PTuple vs) =
     (if length vs = 1 then CHR ''('' # concat (map py_repr vs) @ '',)''
      else CHR ''('' # py_join '', '' (map py_repr vs) @ '')'')"
| "py_repr (PSet frz vs) =
     (if vs = [] then (if frz then ''frozenset()'' else ''set()'')
      else (if frz then ''frozenset('' else []) @ CHR 0x7B # py_join '', '' (map py_repr vs) @ [CHR 0x7D]
           @ (if frz then '')'' else []))"
| "py_repr (PDict kvs) =
     CHR 0x7B # py_join '', '' (map (\<lambda>(k, v). repr_str k @ '': '' @ py_repr v) kvs) @ [CHR 0x7D]"

fun py_str :: "pyval \<Rightarrow> string" where
  "py_str (PStr s) = s"
| "py_str v = py_repr v"

end
