(* ===== verification/Py_Json.thy ===== *)
theory Py_Json
  imports Py_Values
begin

text \<open>
  The \<open>json\<close> functions every hash and every stored payload of the event fabric goes
  through: \<open>json.dumps(v, sort_keys=True, default=str, separators=(isep, ksep))\<close> with
  ASCII escapes, \<open>json.loads\<close>, and the fabric's own \<open>_canonical\<close>, which turns sets
  into sorted lists before they are printed. The parser takes fuel, and the fuel
  \<open>json_loads\<close> gives it is enough: a printed value is read back (\<open>json_roundtrip\<close>)
  as its normal form, the value with the keys of every dictionary sorted. Printing is
  therefore injective up to the order of keys, and a printed value followed by more
  text is delimited (\<open>dumps_append_inj\<close>), which is what the content hashes rely on.
\<close>

section \<open>Printing\<close>

definition esc_char :: "char \<Rightarrow> string" where
  "esc_char c =
     (let k = (of_char c :: nat) in
      if c = CHR 0x22 then [CHR 0x5C, CHR 0x22]
      else if c = CHR 0x5C then [CHR 0x5C, CHR 0x5C]
      else if c = CHR 0x0A then [CHR 0x5C, CHR ''n'']
      else if c = CHR 0x0D then [CHR 0x5C, CHR ''r'']
      else if c = CHR 0x09 then [CHR 0x5C, CHR ''t'']
      else if c = CHR 0x0C then [CHR 0x5C, CHR ''f'']
      else if c = CHR 0x08 then [CHR 0x5C, CHR ''b'']
      else if 32 \<le> k \<and> k \<le> 126 then [c]
      else [CHR 0x5C, CHR ''u'', CHR ''0'', CHR ''0'', hex_char (k div 16), hex_char (k mod 16)])"

definition json_str :: "string \<Rightarrow> string" where
  "json_str s = CHR 0x22 # concat (map esc_char s) @ [CHR 0x22]"

fun json_dumps :: "string \<Rightarrow> string \<Rightarrow> pyval \<Rightarrow> string" where
  "json_dumps isep ksep PNone = ''null''"
| "json_dumps isep ksep (PBool b) = (if b then ''true'' else ''false'')"
| "json_dumps isep ksep (PInt i) = show_int i"
| "json_dumps isep ksep (PFloat r) = r"
| "json_dumps isep ksep (PStr s) = json_str s"
| "json_dumps isep ksep (PList vs) =
     CHR ''['' # py_join isep (map (json_dumps isep ksep) vs) @ '']''"
| "json_dumps isep ksep (PTuple vs) =
     CHR ''['' # py_join isep (map (json_dumps isep ksep) vs) @ '']''"
| "json_dumps isep ksep (PSet frz vs) = json_str (py_str (PSet frz vs))"
| "json_dumps isep ksep (PDict kvs) =
     CHR 0x7B # py_join isep
       (map (\<lambda>(k, v). json_str k @ ksep @ json_dumps isep ksep v) (sort_key fst kvs)) @ [CHR 0x7D]"

definition dumps_compact :: "pyval \<Rightarrow> string" where
  "dumps_compact = json_dumps '','' '':''"

definition dumps_default :: "pyval \<Rightarrow> string" where
  "dumps_default = json_dumps '', '' '': ''"

text \<open>
  Without \<open>default=str\<close> a set is not serialisable and \<open>json.dumps\<close> raises
  (\<open>dumps_strict\<close> below, once \<open>set_free\<close> is defined).
\<close>

text \<open>\<open>_canonical\<close> of \<open>bus/core.py\<close>.\<close>

fun canonical :: "pyval \<Rightarrow> pyval" where
  "canonical (PDict kvs) = PDict (map (\<lambda>(k, v). (k, canonical v)) kvs)"
| "canonical (PList vs) = PList (map canonical vs)"
| "canonical (PTuple vs) = PList (map canonical vs)"
| "canonical (PSet frz vs) = PList (map canonical (sort_key dumps_default vs))"
| "canonical v = v"

section \<open>Parsing\<close>

definition hex_val :: "char \<Rightarrow> nat option" where
  "hex_val c =
     (let k = (of_char c :: nat) in
      if 48 \<le> k \<and> k \<le> 57 then Some (k - 48)
      else if 97 \<le> k \<and> k \<le> 102 then Some (k - 87)
      else if 65 \<le> k \<and> k \<le> 70 then Some (k - 55)
      else None)"

definition hex4 :: "char \<Rightarrow> char \<Rightarrow> char \<Rightarrow> char \<Rightarrow> nat option" where
  "hex4 a b c d =
     (case (hex_val a, hex_val b, hex_val c, hex_val d) of
        (Some w, Some x, Some y, Some z) \<Rightarrow> Some (((w * 16 + x) * 16 + y) * 16 + z)
      | _ \<Rightarrow> None)"

definition unesc_char :: "char \<Rightarrow> char option" where
  "unesc_char e =
     (if e = CHR 0x22 \<or> e = CHR 0x5C \<or> e = CHR 0x2F then Some e
      else if e = CHR ''n'' then Some (CHR 0x0A)
      else if e = CHR ''r'' then Some (CHR 0x0D)
      else if e = CHR ''t'' then Some (CHR 0x09)
      else if e = CHR ''f'' then Some (CHR 0x0C)
      else if e = CHR ''b'' then Some (CHR 0x08)
      else None)"

text \<open>The body of a string literal, after its opening quote.\<close>

fun pj_str :: "string \<Rightarrow> (string \<times> string) option" where
  "pj_str [] = None"
| "pj_str (c # r) =
     (if c = CHR 0x22 then Some ([], r)
      else if c = CHR 0x5C then
        (case r of
           [] \<Rightarrow> None
         | e # r' \<Rightarrow>
             if e = CHR ''u'' then
               (case r' of
                  h1 # h2 # h3 # h4 # r'' \<Rightarrow>
                    (case hex4 h1 h2 h3 h4 of
                       None \<Rightarrow> None
                     | Some k \<Rightarrow> if k < 256 then map_option (apfst (Cons (char_of k))) (pj_str r'') else None)
                | _ \<Rightarrow> None)
             else
               (case unesc_char e of
                  None \<Rightarrow> None
                | Some d \<Rightarrow> map_option (apfst (Cons d)) (pj_str r')))
      else if (of_char c :: nat) < 32 then None
      else map_option (apfst (Cons c)) (pj_str r))"

definition is_ws :: "char \<Rightarrow> bool" where
  "is_ws c \<longleftrightarrow> c = CHR 0x20 \<or> c = CHR 0x09 \<or> c = CHR 0x0A \<or> c = CHR 0x0D"

definition skip_ws :: "string \<Rightarrow> string" where
  "skip_ws = dropWhile is_ws"

definition num_char :: "char \<Rightarrow> bool" where
  "num_char c \<longleftrightarrow> is_digit c \<or> c = CHR ''-'' \<or> c = CHR ''+'' \<or> c = CHR ''.''
     \<or> c = CHR ''e'' \<or> c = CHR ''E''"

definition strip_minus :: "string \<Rightarrow> string" where
  "strip_minus s = (if s \<noteq> [] \<and> hd s = CHR ''-'' then tl s else s)"

text \<open>\<open>0|[1-9][0-9]*\<close>\<close>

definition int_digits :: "string \<Rightarrow> bool" where
  "int_digits s \<longleftrightarrow> s \<noteq> [] \<and> list_all is_digit s \<and> (length s = 1 \<or> hd s \<noteq> CHR ''0'')"

definition is_int_tok :: "string \<Rightarrow> bool" where
  "is_int_tok s \<longleftrightarrow> int_digits (strip_minus s)"

definition exp_tok :: "string \<Rightarrow> bool" where
  "exp_tok s \<longleftrightarrow> s = [] \<or>
     ((hd s = CHR ''e'' \<or> hd s = CHR ''E'') \<and>
      (let d = (if tl s \<noteq> [] \<and> (hd (tl s) = CHR ''-'' \<or> hd (tl s) = CHR ''+'') then tl (tl s) else tl s)
       in d \<noteq> [] \<and> list_all is_digit d))"

definition is_float_tok :: "string \<Rightarrow> bool" where
  "is_float_tok s \<longleftrightarrow>
     (let t = strip_minus s; r = dropWhile is_digit t in
      int_digits (takeWhile is_digit t) \<and> r \<noteq> [] \<and>
      (if hd r = CHR ''.'' then takeWhile is_digit (tl r) \<noteq> [] \<and> exp_tok (dropWhile is_digit (tl r))
       else exp_tok r))"

definition pj_num :: "string \<Rightarrow> (pyval \<times> string) option" where
  "pj_num s =
     (let t = takeWhile num_char s; r = dropWhile num_char s in
      if is_int_tok t then Some (PInt (read_int t), r)
      else if is_float_tok t then Some (PFloat t, r) else None)"

definition pj_scalar :: "string \<Rightarrow> (pyval \<times> string) option" where
  "pj_scalar s =
     (if prefix ''null'' s then Some (PNone, drop 4 s)
      else if prefix ''true'' s then Some (PBool True, drop 4 s)
      else if prefix ''false'' s then Some (PBool False, drop 5 s)
      else pj_num s)"

fun pj_val :: "nat \<Rightarrow> string \<Rightarrow> (pyval \<times> string) option"
  and pj_elems :: "nat \<Rightarrow> string \<Rightarrow> (pyval list \<times> string) option"
  and pj_members :: "nat \<Rightarrow> string \<Rightarrow> ((string \<times> pyval) list \<times> string) option" where
  "pj_val 0 s = None"
| "pj_val (Suc n) s =
     (case skip_ws s of
        [] \<Rightarrow> None
      | c # r \<Rightarrow>
          if c = CHR 0x22 then map_option (apfst PStr) (pj_str r)
          else if c = CHR ''['' then
            (case skip_ws r of
               [] \<Rightarrow> None
             | d # r' \<Rightarrow> if d = CHR '']'' then Some (PList [], r')
                        else map_option (apfst PList) (pj_elems n (d # r')))
          else if c = CHR 0x7B then
            (case skip_ws r of
               [] \<Rightarrow> None
             | d # r' \<Rightarrow> if d = CHR 0x7D then Some (PDict [], r')
                        else map_option (apfst (\<lambda>kvs. PDict (dict_of_pairs kvs))) (pj_members n (d # r')))
          else pj_scalar (c # r))"
| "pj_elems 0 s = None"
| "pj_elems (Suc n) s =
     (case pj_val n s of
        None \<Rightarrow> None
      | Some (v, r) \<Rightarrow>
          (case skip_ws r of
             [] \<Rightarrow> None
           | c # r' \<Rightarrow> if c = CHR '']'' then Some ([v], r')
                      else if c = CHR '','' then map_option (apfst (Cons v)) (pj_elems n r')
                      else None))"
| "pj_members 0 s = None"
| "pj_members (Suc n) s =
     (case skip_ws s of
        [] \<Rightarrow> None
      | q # r \<Rightarrow>
          if q \<noteq> CHR 0x22 then None
          else (case pj_str r of
             None \<Rightarrow> None
           | Some (k, r1) \<Rightarrow>
               (case skip_ws r1 of
                  [] \<Rightarrow> None
                | c # r2 \<Rightarrow>
                    if c \<noteq> CHR '':'' then None
                    else (case pj_val n r2 of
                       None \<Rightarrow> None
                     | Some (v, r3) \<Rightarrow>
                         (case skip_ws r3 of
                            [] \<Rightarrow> None
                          | d # r4 \<Rightarrow> if d = CHR 0x7D then Some ([(k, v)], r4)
                                     else if d = CHR '','' then map_option (apfst (Cons (k, v))) (pj_members n r4)
                                     else None)))))"

definition json_loads :: "string \<Rightarrow> pyval result" where
  "json_loads s =
     (case pj_val (length s) s of
        None \<Rightarrow> Inl (ValueError ''JSONDecodeError'')
      | Some (v, r) \<Rightarrow> if skip_ws r = [] then Inr v else Inl (ValueError ''JSONDecodeError''))"

section \<open>Well-formed values and normal forms\<close>

text \<open>
  Python invariants of a value: the keys of a dictionary are distinct, a float is given
  by a decimal literal. \<open>set_free\<close> values are what \<open>_canonical\<close> returns.
\<close>

fun py_wf :: "pyval \<Rightarrow> bool" where
  "py_wf (PFloat r) = (is_float_tok r \<and> \<not> is_int_tok r \<and> list_all num_char r)"
| "py_wf (PList vs) = list_all py_wf vs"
| "py_wf (PTuple vs) = list_all py_wf vs"
| "py_wf (PSet _ vs) = list_all py_wf vs"
| "py_wf (PDict kvs) = (distinct (map fst kvs) \<and> list_all (\<lambda>(k, v). py_wf v) kvs)"
| "py_wf _ = True"

fun set_free :: "pyval \<Rightarrow> bool" where
  "set_free (PList vs) = list_all set_free vs"
| "set_free (PTuple vs) = list_all set_free vs"
| "set_free (PSet _ vs) = False"
| "set_free (PDict kvs) = list_all (\<lambda>(k, v). set_free v) kvs"
| "set_free _ = True"

definition dumps_strict :: "pyval \<Rightarrow> string result" where
  "dumps_strict v = (if set_free v then Inr (dumps_default v) else Inl TypeError)"

text \<open>What a printed value is read back as.\<close>

fun json_norm :: "pyval \<Rightarrow> pyval" where
  "json_norm (PList vs) = PList (map json_norm vs)"
| "json_norm (PTuple vs) = PList (map json_norm vs)"
| "json_norm (PDict kvs) = PDict (sort_key fst (map (\<lambda>(k, v). (k, json_norm v)) kvs))"
| "json_norm v = v"

section \<open>Reading back what was printed\<close>

lemma hex_val_hex_char [simp]: "k < 16 \<Longrightarrow> hex_val (hex_char k) = Some k"
  by (simp add: hex_val_def hex_char_def digit_char_def Let_def)

lemma pj_str_esc: "pj_str (esc_char c @ s) = map_option (apfst (Cons c)) (pj_str s)"
proof -
  let ?k = "of_char c :: nat"
  have k: "?k < 256" by simp
  have "hex4 (CHR ''0'') (CHR ''0'') (hex_char (?k div 16)) (hex_char (?k mod 16)) = Some ?k"
  proof -
    have "hex_val (CHR ''0'') = Some 0" by (simp add: hex_val_def)
    moreover have "?k div 16 < 16" using k by (simp add: div_less_iff_less_mult)
    ultimately show ?thesis by (simp add: hex4_def)
  qed
  moreover have "c = CHR 0x22 \<or> c = CHR 0x5C \<or> c = CHR 0x0A \<or> c = CHR 0x0D \<or> c = CHR 0x09 \<or>
      c = CHR 0x0C \<or> c = CHR 0x08 \<or> (c \<noteq> CHR 0x22 \<and> c \<noteq> CHR 0x5C \<and> c \<noteq> CHR 0x0A \<and> c \<noteq> CHR 0x0D
      \<and> c \<noteq> CHR 0x09 \<and> c \<noteq> CHR 0x0C \<and> c \<noteq> CHR 0x08)" by blast
  ultimately show ?thesis
    using k by (elim disjE) (simp_all add: esc_char_def unesc_char_def Let_def)
qed

lemma pj_str_json: "pj_str (concat (map esc_char s) @ CHR 0x22 # r) = Some (s, r)"
  by (induction s) (simp_all add: pj_str_esc)

lemma is_digit_num_char [simp]: "is_digit c \<Longrightarrow> num_char c"
  by (simp add: num_char_def)

lemma takeWhile_num:
  assumes "list_all num_char t" and "r = [] \<or> \<not> num_char (hd r)"
  shows "takeWhile num_char (t @ r) = t" "dropWhile num_char (t @ r) = r"
proof -
  have "takeWhile num_char r = []" "dropWhile num_char r = r"
    using assms(2) by (cases r; simp)+
  with assms(1) show "takeWhile num_char (t @ r) = t" "dropWhile num_char (t @ r) = r"
    by (induction t) auto
qed

lemma show_int_tok:
  "is_int_tok (show_int i)" "list_all num_char (show_int i)" "read_int (show_int i) = i"
proof -
  have d: "is_digit (hd (show_nat n))" for n
    using show_nat_digits [of "hd (show_nat n)" n] by simp
  have "\<not> is_digit (CHR ''+'')" by (simp add: is_digit_def)
  then have m: "hd (show_nat n) \<noteq> CHR ''-''" "hd (show_nat n) \<noteq> CHR ''+''" for n
    using d [of n] minus_not_digit by (auto simp del: minus_not_digit)
  have l: "list_all is_digit (show_nat n)" for n by (auto simp: list_all_iff dest: show_nat_digits)
  then have "list_all num_char (show_nat n)" for n by (auto simp: list_all_iff)
  then show "list_all num_char (show_int i)" by (simp add: show_int_def num_char_def)
  have id: "int_digits (show_nat n)" for n
    using l show_nat_no_leading_zero by (simp add: int_digits_def)
  then show "is_int_tok (show_int i)"
    using m by (simp add: is_int_tok_def strip_minus_def show_int_def)
  have "read_int (show_nat n) = int n" for n
    using m [of n] read_show_nat [of n] by (cases "show_nat n") (auto simp: read_int_def)
  then show "read_int (show_int i) = i"
    by (simp add: show_int_def) (simp add: read_int_def)
qed

lemma sort_key_map_value:
  "sort_key fst (map (\<lambda>(k, v). (k, f v)) kvs) = map (\<lambda>(k, v). (k, f v)) (sort_key fst kvs)"
proof (induction kvs)
  case Nil
  then show ?case by simp
next
  case (Cons kv kvs)
  have "insort_key fst (case kv of (k, v) \<Rightarrow> (k, f v)) (map (\<lambda>(k, v). (k, f v)) xs) =
      map (\<lambda>(k, v). (k, f v)) (insort_key fst kv xs)" for xs
    by (induction xs) (auto split: prod.splits)
  with Cons show ?case by simp
qed

lemma skip_ws_append: "list_all is_ws w \<Longrightarrow> skip_ws (w @ s) = skip_ws s"
  unfolding skip_ws_def by (induction w) auto

lemma skip_ws_Cons [simp]: "\<not> is_ws c \<Longrightarrow> skip_ws (c # s) = c # s"
  by (simp add: skip_ws_def)

lemma pj_ws:
  assumes "list_all is_ws w"
  shows "pj_val n (w @ s) = pj_val n s" "pj_elems n (w @ s) = pj_elems n s"
    "pj_members n (w @ s) = pj_members n s"
proof -
  show v: "pj_val n (w @ s) = pj_val n s" for n
    using assms by (cases n) (simp_all add: skip_ws_append)
  show "pj_elems n (w @ s) = pj_elems n s" by (cases n) (simp_all add: v)
  show "pj_members n (w @ s) = pj_members n s"
    using assms by (cases n) (simp_all add: skip_ws_append)
qed

text \<open>The separators the platform prints with: a comma or a colon, then blanks.\<close>

definition seps_ok :: "string \<Rightarrow> string \<Rightarrow> bool" where
  "seps_ok isep ksep \<longleftrightarrow>
     isep \<noteq> [] \<and> hd isep = CHR '','' \<and> list_all is_ws (tl isep) \<and>
     ksep \<noteq> [] \<and> hd ksep = CHR '':'' \<and> list_all is_ws (tl ksep)"

lemma seps_ok_compact [simp]: "seps_ok '','' '':''"
  by (simp add: seps_ok_def)

lemma seps_ok_default [simp]: "seps_ok '', '' '': ''"
  by (simp add: seps_ok_def is_ws_def)

lemma seps_okE:
  assumes "seps_ok isep ksep"
  obtains w1 w2 where "isep = CHR '','' # w1" "ksep = CHR '':'' # w2"
    "list_all is_ws w1" "list_all is_ws w2"
  using assms unfolding seps_ok_def by (metis list.collapse)

text \<open>Text that can follow a printed value: it does not continue a number.\<close>

definition delimited :: "string \<Rightarrow> bool" where
  "delimited r \<longleftrightarrow> r = [] \<or> \<not> num_char (hd r)"

lemma delimited_simps [simp]:
  "delimited []" "delimited (CHR '','' # r)" "delimited (CHR '']'' # r)" "delimited (CHR 0x7D # r)"
  "delimited (CHR 0x7B # r)"
  by (simp_all add: delimited_def num_char_def is_digit_def)

lemma not_ws_simps [simp]:
  "\<not> is_ws (CHR '','')" "\<not> is_ws (CHR '']'')" "\<not> is_ws (CHR ''['')" "\<not> is_ws (CHR 0x7D)"
  "\<not> is_ws (CHR 0x7B)" "\<not> is_ws (CHR '':'')" "\<not> is_ws (CHR 0x22)"
  by (simp_all add: is_ws_def)

text \<open>\<open>reads_back D N v\<close>: what \<open>D\<close> prints for \<open>v\<close> is read as \<open>N v\<close>, whatever delimited text follows.\<close>

definition reads_back :: "(pyval \<Rightarrow> string) \<Rightarrow> (pyval \<Rightarrow> pyval) \<Rightarrow> pyval \<Rightarrow> bool" where
  "reads_back D N v \<longleftrightarrow> (\<forall>n r. delimited r \<longrightarrow> length (D v) \<le> n \<longrightarrow>
      pj_val n (D v @ r) = Some (N v, r))"

lemma reads_backD: "reads_back D N v \<Longrightarrow> delimited r \<Longrightarrow> length (D v) \<le> n \<Longrightarrow>
    pj_val n (D v @ r) = Some (N v, r)"
  by (simp add: reads_back_def)

lemma pj_elems_join:
  assumes "\<And>v. v \<in> set vs \<Longrightarrow> reads_back D N v" and "vs \<noteq> []" and "seps_ok isep ksep"
    and "length (py_join isep (map D vs)) < n"
  shows "pj_elems n (py_join isep (map D vs) @ CHR '']'' # r) = Some (map N vs, r)"
  using assms
proof (induction vs arbitrary: n)
  case Nil
  then show ?case by simp
next
  case (Cons v vs)
  obtain m where n: "n = Suc m" using Cons.prems(4) by (cases n) auto
  obtain w where isep: "isep = CHR '','' # w" and w: "list_all is_ws w"
    using Cons.prems(3) by (rule seps_okE)
  have v: "reads_back D N v" using Cons.prems(1) by simp
  show ?case
  proof (cases "vs = []")
    case True
    with v Cons.prems(4) show ?thesis by (simp add: n reads_backD)
  next
    case False
    let ?j = "py_join isep (map D vs)"
    have "pj_elems m (?j @ CHR '']'' # r) = Some (map N vs, r)"
      using Cons.prems Cons.IH False by (simp add: n isep)
    moreover have "pj_val m (D v @ isep @ ?j @ CHR '']'' # r) =
        Some (N v, isep @ ?j @ CHR '']'' # r)"
      using v Cons.prems(4) False by (intro reads_backD) (auto simp: n isep)
    ultimately show ?thesis
      using pj_ws(2) [OF w] False by (simp add: n isep)
  qed
qed

lemma pj_members_join:
  fixes kvs :: "(string \<times> pyval) list"
  assumes E_def: "\<And>kv. E kv = json_str (fst kv) @ ksep @ D (snd kv)"
    and "\<And>kv. kv \<in> set kvs \<Longrightarrow> reads_back D N (snd kv)" and "kvs \<noteq> []" and "seps_ok isep ksep"
    and "length (py_join isep (map E kvs)) < n"
  shows "pj_members n (py_join isep (map E kvs) @ CHR 0x7D # r) =
    Some (map (\<lambda>(k, v). (k, N v)) kvs, r)"
  using assms(2-)
proof (induction kvs arbitrary: n)
  case Nil
  then show ?case by simp
next
  case (Cons kv kvs)
  obtain m where n: "n = Suc m" using Cons.prems(4) by (cases n) auto
  obtain w1 w2 where isep: "isep = CHR '','' # w1" and w1: "list_all is_ws w1"
    and ksep: "ksep = CHR '':'' # w2" and w2: "list_all is_ws w2"
    using Cons.prems(3) by (rule seps_okE)
  obtain k v where kv [simp]: "kv = (k, v)" by (cases kv)
  have v: "reads_back D N v" using Cons.prems(1) by fastforce
  have step: "pj_members (Suc m) (E kv @ t) = 
      (case skip_ws t of [] \<Rightarrow> None
         | d # r4 \<Rightarrow> if d = CHR 0x7D then Some ([(k, N v)], r4)
                    else if d = CHR '','' then map_option (apfst (Cons (k, N v))) (pj_members m r4)
                    else None)"
    if "delimited t" and "length (D v) \<le> m" for t
    using reads_backD [OF v that] pj_ws(1) [OF w2, of m "D v @ t"]
    by (simp add: E_def json_str_def pj_str_json ksep)
  show ?case
  proof (cases "kvs = []")
    case True
    with step [of "CHR 0x7D # r"] Cons.prems(4) show ?thesis by (simp add: n E_def)
  next
    case False
    let ?j = "py_join isep (map E kvs)"
    have "pj_members m (?j @ CHR 0x7D # r) = Some (map (\<lambda>(k, v). (k, N v)) kvs, r)"
      using Cons.prems Cons.IH False by (simp add: n isep)
    moreover have "length (D v) \<le> m" using Cons.prems(4) False by (simp add: n E_def)
    ultimately show ?thesis
      using step [of "isep @ ?j @ CHR 0x7D # r"] pj_ws(3) [OF w1] False by (simp add: n isep)
  qed
qed

lemma pj_val_num:
  assumes "t \<noteq> []" and "is_digit (hd t) \<or> hd t = CHR ''-''" and "list_all num_char t" and "delimited r"
  shows "pj_val (Suc n) (t @ r) =
    (if is_int_tok t then Some (PInt (read_int t), r)
     else if is_float_tok t then Some (PFloat t, r) else None)"
proof -
  obtain c u where t: "t = c # u" using assms(1) by (cases t) auto
  have c: "\<not> is_ws c" "c \<noteq> CHR 0x22" "c \<noteq> CHR ''[''" "c \<noteq> CHR 0x7B"
    "c \<noteq> CHR ''n''" "c \<noteq> CHR ''t''" "c \<noteq> CHR ''f''"
    using assms(2) by (auto simp: t is_ws_def is_digit_def)
  have "takeWhile num_char (t @ r) = t" "dropWhile num_char (t @ r) = r"
    using assms(3,4) by (auto simp: takeWhile_num delimited_def)
  with c show ?thesis
    by (simp add: t pj_scalar_def pj_num_def Let_def)
qed

lemma float_tok_head: "is_float_tok r \<Longrightarrow> r \<noteq> [] \<and> (is_digit (hd r) \<or> hd r = CHR ''-'')"
  by (cases r) (auto simp: is_float_tok_def strip_minus_def int_digits_def Let_def split: if_splits)

lemma show_int_head: "show_int i \<noteq> [] \<and> (is_digit (hd (show_int i)) \<or> hd (show_int i) = CHR ''-'')"
  using show_nat_digits [of "hd (show_nat (nat i))" "nat i"] by (simp add: show_int_def)

lemma reads_backI:
  assumes "D v \<noteq> []"
    and "\<And>m r. delimited r \<Longrightarrow> length (D v) \<le> Suc m \<Longrightarrow> pj_val (Suc m) (D v @ r) = Some (N v, r)"
  shows "reads_back D N v"
  unfolding reads_back_def
proof (intro allI impI)
  fix n r assume r: "delimited r" and n: "length (D v) \<le> n"
  with assms(1) obtain m where "n = Suc m" by (cases n) auto
  with assms(2) r n show "pj_val n (D v @ r) = Some (N v, r)" by blast
qed

definition opens_value :: "string \<Rightarrow> bool" where
  "opens_value s \<longleftrightarrow> s \<noteq> [] \<and> \<not> is_ws (hd s) \<and> hd s \<noteq> CHR '']'' \<and> hd s \<noteq> CHR 0x7D"

lemma dumps_opens_value: "py_wf v \<Longrightarrow> set_free v \<Longrightarrow> opens_value (json_dumps isep ksep v)"
proof (cases v)
  case (PInt i)
  then show ?thesis using show_int_head [of i] by (auto simp: opens_value_def is_ws_def is_digit_def)
next
  case (PFloat t)
  moreover assume "py_wf v"
  ultimately show ?thesis using float_tok_head [of t] by (auto simp: opens_value_def is_ws_def is_digit_def)
qed (auto simp: opens_value_def json_str_def is_ws_def)

lemma opens_value_join: "opens_value x \<Longrightarrow> opens_value (py_join sep (x # xs))"
  by (cases "xs = []") (auto simp: opens_value_def)

lemma skip_ws_opens: "opens_value s \<Longrightarrow> skip_ws (s @ r) = s @ r"
  by (cases s) (auto simp: opens_value_def)

lemma reads_back_list:
  assumes vs: "\<And>v. v \<in> set vs \<Longrightarrow> reads_back D N v" "\<And>v. v \<in> set vs \<Longrightarrow> opens_value (D v)"
    and seps: "seps_ok isep ksep"
    and w: "D w = CHR ''['' # py_join isep (map D vs) @ '']''" "N w = PList (map N vs)"
  shows "reads_back D N w"
proof (rule reads_backI)
  show "D w \<noteq> []" by (simp add: w)
  fix m r assume "length (D w) \<le> Suc m"
  then have m: "length (py_join isep (map D vs)) < m" by (simp add: w)
  show "pj_val (Suc m) (D w @ r) = Some (N w, r)"
  proof (cases "vs = []")
    case True
    then show ?thesis by (simp add: w)
  next
    case False
    let ?j = "py_join isep (map D vs)"
    have o: "opens_value ?j" using False vs(2) by (cases vs) (auto simp del: py_join.simps intro!: opens_value_join)
    then obtain d u where d: "?j = d # u" "d \<noteq> CHR '']''" by (cases ?j) (auto simp: opens_value_def)
    have "pj_elems m (?j @ CHR '']'' # r) = Some (map N vs, r)"
      using vs(1) False seps m by (rule pj_elems_join)
    with o d show ?thesis using skip_ws_opens [OF o, of "CHR '']'' # r"] by (simp add: w)
  qed
qed

lemma reads_back_dict:
  assumes kvs: "\<And>k v. (k, v) \<in> set kvs \<Longrightarrow> reads_back D N v" and "distinct (map fst kvs)"
    and seps: "seps_ok isep ksep"
    and w: "D w = CHR 0x7B # py_join isep (map (\<lambda>(k, v). json_str k @ ksep @ D v) kvs) @ [CHR 0x7D]"
      "N w = PDict (map (\<lambda>(k, v). (k, N v)) kvs)"
  shows "reads_back D N w"
proof (rule reads_backI)
  show "D w \<noteq> []" by (simp add: w)
  define E where "E kv = json_str (fst kv) @ ksep @ D (snd kv)" for kv
  have E: "(\<lambda>(k, v). json_str k @ ksep @ D v) = E" by (auto simp: E_def)
  let ?j = "py_join isep (map E kvs)"
  fix m r assume "length (D w) \<le> Suc m"
  then have m: "length ?j < m" by (simp add: w E)
  show "pj_val (Suc m) (D w @ r) = Some (N w, r)"
  proof (cases "kvs = []")
    case True
    then show ?thesis by (simp add: w)
  next
    case False
    then have o: "opens_value ?j"
      by (cases kvs)
        (auto simp: E_def json_str_def opens_value_def simp del: py_join.simps intro!: opens_value_join [unfolded opens_value_def])
    then obtain d u where d: "?j = d # u" "d \<noteq> CHR 0x7D" by (cases ?j) (auto simp: opens_value_def)
    have "pj_members m (?j @ CHR 0x7D # r) = Some (map (\<lambda>(k, v). (k, N v)) kvs, r)"
      using kvs False seps m by (intro pj_members_join [where D = D and ksep = ksep]) (auto simp: E_def)
    moreover have "distinct (map fst (map (\<lambda>(k, v). (k, N v)) kvs))"
      using assms(2) by (simp add: comp_def case_prod_beta)
    ultimately show ?thesis
      using d skip_ws_opens [OF o, of "CHR 0x7D # r"] by (simp add: w E dict_simps)
  qed
qed

lemma dumps_reads_back:
  assumes seps: "seps_ok isep ksep"
  shows "py_wf v \<Longrightarrow> set_free v \<Longrightarrow> reads_back (json_dumps isep ksep) json_norm v"
proof (induction v)
  case (PInt i)
  show ?case
    using show_int_head [of i] by (intro reads_backI) (simp_all add: pj_val_num show_int_tok del: pj_val.simps)
next
  case (PFloat t)
  then show ?case
    using float_tok_head [of t] by (intro reads_backI) (simp_all add: pj_val_num del: pj_val.simps)
next
  case (PList vs)
  show ?case
  proof (rule reads_back_list [where vs = vs, OF _ _ seps])
    fix v assume v: "v \<in> set vs"
    with PList.prems have wf: "py_wf v" "set_free v" by (simp_all add: list_all_iff)
    with v show "reads_back (json_dumps isep ksep) json_norm v" by (rule PList.IH)
    from wf show "opens_value (json_dumps isep ksep v)" by (rule dumps_opens_value)
  qed simp_all
next
  case (PTuple vs)
  show ?case
  proof (rule reads_back_list [where vs = vs, OF _ _ seps])
    fix v assume v: "v \<in> set vs"
    with PTuple.prems have wf: "py_wf v" "set_free v" by (simp_all add: list_all_iff)
    with v show "reads_back (json_dumps isep ksep) json_norm v" by (rule PTuple.IH)
    from wf show "opens_value (json_dumps isep ksep v)" by (rule dumps_opens_value)
  qed simp_all
next
  case (PDict kvs)
  have d: "distinct (map fst (sort_key fst kvs))"
    using PDict.prems(1) by (simp add: distinct_map set_sort)
  show ?case
  proof (rule reads_back_dict [where kvs = "sort_key fst kvs", OF _ d seps])
    fix k v assume "(k, v) \<in> set (sort_key fst kvs)"
    then have kv: "(k, v) \<in> set kvs" by simp
    with PDict.prems have "py_wf v" "set_free v" by (auto simp: list_all_iff)
    with kv show "reads_back (json_dumps isep ksep) json_norm v" by (intro PDict.IH) auto
  qed (simp_all add: sort_key_map_value)
qed (auto intro!: reads_backI simp: json_str_def pj_str_json pj_scalar_def is_ws_def split: if_splits)

lemma json_roundtrip:
  assumes "seps_ok isep ksep" "py_wf v" "set_free v"
  shows "json_loads (json_dumps isep ksep v) = Inr (json_norm v)"
  using reads_backD [OF dumps_reads_back [OF assms], of "[]" "length (json_dumps isep ksep v)"]
  by (simp add: json_loads_def skip_ws_def)

text \<open>
  \<open>json.dumps(v)\<close> without \<open>sort_keys\<close> keeps the keys in their order, and so does reading the text back; only
  tuples turn into lists.
\<close>

fun dumps_in_order :: "pyval \<Rightarrow> string" where
  "dumps_in_order (PList vs) = CHR ''['' # py_join '', '' (map dumps_in_order vs) @ '']''"
| "dumps_in_order (PTuple vs) = CHR ''['' # py_join '', '' (map dumps_in_order vs) @ '']''"
| "dumps_in_order (PDict kvs) =
     CHR 0x7B # py_join '', '' (map (\<lambda>(k, v). json_str k @ '': '' @ dumps_in_order v) kvs) @ [CHR 0x7D]"
| "dumps_in_order v = dumps_default v"

fun list_norm :: "pyval \<Rightarrow> pyval" where
  "list_norm (PList vs) = PList (map list_norm vs)"
| "list_norm (PTuple vs) = PList (map list_norm vs)"
| "list_norm (PDict kvs) = PDict (map (\<lambda>(k, v). (k, list_norm v)) kvs)"
| "list_norm v = v"

lemma in_order_opens_value: "py_wf v \<Longrightarrow> set_free v \<Longrightarrow> opens_value (dumps_in_order v)"
  using dumps_opens_value [of v "'', ''" "'': ''"]
  by (cases v) (simp_all add: dumps_default_def, simp_all add: opens_value_def is_ws_def)

lemma in_order_scalar:
  assumes "dumps_in_order v = json_dumps '', '' '': '' v" and "list_norm v = json_norm v" and "py_wf v" and "set_free v"
  shows "reads_back dumps_in_order list_norm v"
  using dumps_reads_back [OF seps_ok_default assms(3,4)] assms(1,2) by (simp add: reads_back_def)

lemma in_order_reads_back: "py_wf v \<Longrightarrow> set_free v \<Longrightarrow> reads_back dumps_in_order list_norm v"
proof (induction v)
  case (PList vs)
  show ?case
  proof (rule reads_back_list [where vs = vs, OF _ _ seps_ok_default])
    fix v assume v: "v \<in> set vs"
    with PList.prems have wf: "py_wf v" "set_free v" by (simp_all add: list_all_iff)
    with v show "reads_back dumps_in_order list_norm v" by (rule PList.IH)
    from wf show "opens_value (dumps_in_order v)" by (rule in_order_opens_value)
  qed simp_all
next
  case (PTuple vs)
  show ?case
  proof (rule reads_back_list [where vs = vs, OF _ _ seps_ok_default])
    fix v assume v: "v \<in> set vs"
    with PTuple.prems have wf: "py_wf v" "set_free v" by (simp_all add: list_all_iff)
    with v show "reads_back dumps_in_order list_norm v" by (rule PTuple.IH)
    from wf show "opens_value (dumps_in_order v)" by (rule in_order_opens_value)
  qed simp_all
next
  case (PDict kvs)
  show ?case
  proof (rule reads_back_dict [where kvs = kvs, OF _ _ seps_ok_default])
    fix k v assume kv: "(k, v) \<in> set kvs"
    with PDict.prems have "py_wf v" "set_free v" by (auto simp: list_all_iff)
    with kv show "reads_back dumps_in_order list_norm v" by (intro PDict.IH) auto
  qed (use PDict.prems in simp_all)
next
  case (PSet frz vs)
  then show ?case by simp
qed (auto simp: dumps_default_def intro!: in_order_scalar)

lemma in_order_roundtrip: "py_wf v \<Longrightarrow> set_free v \<Longrightarrow> json_loads (dumps_in_order v) = Inr (list_norm v)"
  using reads_backD [OF in_order_reads_back, of v "[]" "length (dumps_in_order v)"]
  by (simp add: json_loads_def skip_ws_def)

lemma dumps_append_inj:
  assumes "seps_ok isep ksep" "py_wf v" "set_free v" "py_wf w" "set_free w" "delimited r" "delimited s"
    and eq: "json_dumps isep ksep v @ r = json_dumps isep ksep w @ s"
  shows "json_norm v = json_norm w \<and> r = s"
proof -
  let ?n = "length (json_dumps isep ksep v @ r)"
  have "pj_val ?n (json_dumps isep ksep v @ r) = Some (json_norm v, r)"
    using assms(1,2,3,6) by (intro reads_backD dumps_reads_back) auto
  moreover have "length (json_dumps isep ksep w) \<le> ?n" by (simp add: eq)
  then have "pj_val ?n (json_dumps isep ksep w @ s) = Some (json_norm w, s)"
    using assms(1,4,5,7) by (intro reads_backD dumps_reads_back) auto
  ultimately show ?thesis by (simp add: eq)
qed

lemma dumps_inj:
  assumes "seps_ok isep ksep" "py_wf v" "set_free v" "py_wf w" "set_free w"
    and "json_dumps isep ksep v = json_dumps isep ksep w"
  shows "json_norm v = json_norm w"
  using dumps_append_inj [of isep ksep v w "[]" "[]"] assms by simp

section \<open>Normal forms and \<open>_canonical\<close>\<close>

lemma dumps_json_norm [simp]: "json_dumps isep ksep (json_norm v) = json_dumps isep ksep v"
proof (induction v)
  case (PList vs)
  then have "map (json_dumps isep ksep \<circ> json_norm) vs = map (json_dumps isep ksep) vs" by simp
  then show ?case by (simp only: json_norm.simps json_dumps.simps map_map)
next
  case (PTuple vs)
  then have "map (json_dumps isep ksep \<circ> json_norm) vs = map (json_dumps isep ksep) vs" by simp
  then show ?case by (simp only: json_norm.simps json_dumps.simps map_map)
next
  case (PDict kvs)
  have "map (\<lambda>(k, v). json_str k @ ksep @ json_dumps isep ksep v) (map (\<lambda>(k, v). (k, json_norm v)) (sort_key fst kvs))
      = map (\<lambda>(k, v). json_str k @ ksep @ json_dumps isep ksep v) (sort_key fst kvs)"
    using PDict by (auto simp: split_def)
  then show ?case by (simp add: sort_key_id_if_sorted flip: sort_key_map_value)
qed simp_all

lemma set_free_canonical [simp]: "set_free (canonical v)"
proof (induction v rule: canonical.induct)
  case (1 kvs)
  then show ?case by (fastforce simp: list_all_iff)
qed (auto simp: list_all_iff)

lemma py_wf_canonical [simp]: "py_wf v \<Longrightarrow> py_wf (canonical v)"
proof (induction v rule: canonical.induct)
  case (1 kvs)
  then have "distinct (map fst (map (\<lambda>(k, v). (k, canonical v)) kvs))"
    by (simp add: comp_def case_prod_beta)
  with 1 show ?case by (fastforce simp: list_all_iff)
qed (auto simp: list_all_iff)

lemma canonical_json_norm: "set_free v \<Longrightarrow> canonical (json_norm v) = json_norm v"
proof (induction v)
  case (PDict kvs)
  have "map (\<lambda>(k, v). (k, canonical v)) (map (\<lambda>(k, v). (k, json_norm v)) (sort_key fst kvs))
      = map (\<lambda>(k, v). (k, json_norm v)) (sort_key fst kvs)"
    using PDict by (fastforce simp: list_all_iff)
  then show ?case by (simp add: sort_key_map_value)
qed (auto simp: list_all_iff)

lemma canonical_norm_canonical: "canonical (json_norm (canonical v)) = json_norm (canonical v)"
  by (rule canonical_json_norm) simp

lemma json_norm_canonical: "set_free v \<Longrightarrow> json_norm (canonical v) = json_norm v"
proof (induction v)
  case (PDict kvs)
  have "map (\<lambda>(k, v). (k, json_norm v)) (map (\<lambda>(k, v). (k, canonical v)) kvs)
      = map (\<lambda>(k, v). (k, json_norm v)) kvs"
    using PDict by (fastforce simp: list_all_iff)
  then show ?case by (simp only: canonical.simps json_norm.simps)
qed (auto simp: list_all_iff)

text \<open>
  The elements of a Python set are hashable. On scalars and tuples of hashable values
  printing is injective, so the sort key of \<open>_canonical\<close> orders the elements of a set
  completely.
\<close>

fun hashable_plain :: "pyval \<Rightarrow> bool" where
  "hashable_plain (PTuple vs) = list_all hashable_plain vs"
| "hashable_plain (PList _) = False"
| "hashable_plain (PDict _) = False"
| "hashable_plain (PSet _ _) = False"
| "hashable_plain v = py_wf v"

lemma hashable_plain_wf: "hashable_plain v \<Longrightarrow> py_wf v \<and> set_free v"
  by (induction v) (auto simp: list_all_iff)

lemma json_norm_inj_hashable:
  "hashable_plain v \<Longrightarrow> hashable_plain w \<Longrightarrow> json_norm v = json_norm w \<Longrightarrow> v = w"
proof (induction v arbitrary: w)
  case (PTuple vs)
  then obtain ws where w: "w = PTuple ws" by (cases w) auto
  with PTuple.prems have "map json_norm vs = map json_norm ws" by simp
  moreover have "x = y" if "x \<in> set vs" "y \<in> set ws" "json_norm x = json_norm y" for x y
    using PTuple that w by (auto simp: list_all_iff)
  ultimately have "vs = ws" by (intro list.inj_map_strong [of vs ws json_norm json_norm]) auto
  with w show ?case by simp
qed (case_tac w; simp)+

lemma dumps_default_inj_on: "list_all hashable_plain vs \<Longrightarrow> inj_on dumps_default (set vs)"
proof (rule inj_onI)
  fix v w
  assume "list_all hashable_plain vs" "v \<in> set vs" "w \<in> set vs"
  then have h: "hashable_plain v" "hashable_plain w" by (simp_all add: list_all_iff)
  assume "dumps_default v = dumps_default w"
  then have "json_norm v = json_norm w"
    unfolding dumps_default_def using h [THEN hashable_plain_wf] by (intro dumps_inj) auto
  with h show "v = w" by (rule json_norm_inj_hashable)
qed

lemma canonical_set_order:
  assumes "list_all hashable_plain vs" and "mset vs = mset ws"
  shows "canonical (PSet b vs) = canonical (PSet b ws)"
proof -
  have "sort_key dumps_default vs = sort_key dumps_default ws"
    using assms dumps_default_inj_on by (intro sort_key_inj_key_eq) auto
  then show ?thesis by simp
qed

section \<open>What \<open>json.loads\<close> returns is well formed\<close>

lemma json_norm_dict_lookup:
  assumes "json_norm (PDict kvs) = json_norm (PDict kvs')"
    and "distinct (map fst kvs)" "distinct (map fst kvs')"
  shows "map_option json_norm (map_of kvs k) = map_option json_norm (map_of kvs' k)"
proof -
  let ?n = "\<lambda>kvs. map (\<lambda>(k, v). (k, json_norm v)) kvs"
  have "sort_key fst (?n kvs) = sort_key fst (?n kvs')" using assms(1) by simp
  then have "set (?n kvs) = set (?n kvs')" by (metis (no_types) set_sort)
  moreover have "distinct (map fst (?n kvs))" "distinct (map fst (?n kvs'))"
    using assms(2,3) by (simp_all add: comp_def case_prod_beta)
  ultimately have "map_of (?n kvs) = map_of (?n kvs')" by (simp add: map_of_inject_set)
  then have "map_of (?n kvs) k = map_of (?n kvs') k" by simp
  then show ?thesis by (simp add: map_of_map)
qed

definition loaded :: "pyval \<Rightarrow> bool" where
  "loaded v \<longleftrightarrow> py_wf v \<and> set_free v"

lemma loaded_dict: "(\<And>k v. (k, v) \<in> set kvs \<Longrightarrow> loaded v) \<Longrightarrow> loaded (PDict (dict_of_pairs kvs))"
  using dict_of_pairs_wf [of kvs]
  by (auto simp: loaded_def dict_wf_def list_all_iff dest!: dict_of_pairs_values)

lemma pj_scalar_loaded: "pj_scalar s = Some (v, r) \<Longrightarrow> loaded v"
  by (auto simp: pj_scalar_def pj_num_def loaded_def Let_def list_all_iff dest: set_takeWhileD split: if_splits)

lemma loaded_simps [simp]: "loaded (PStr s)" "loaded (PList vs) \<longleftrightarrow> list_all loaded vs" "loaded (PDict [])"
  by (auto simp: loaded_def list_all_iff)

lemma pj_loaded:
  "(\<forall>s v r. pj_val n s = Some (v, r) \<longrightarrow> loaded v) \<and>
   (\<forall>s vs r. pj_elems n s = Some (vs, r) \<longrightarrow> list_all loaded vs) \<and>
   (\<forall>s kvs r. pj_members n s = Some (kvs, r) \<longrightarrow> (\<forall>k v. (k, v) \<in> set kvs \<longrightarrow> loaded v))"
proof (induction n)
  case 0
  then show ?case by simp
next
  case (Suc n)
  have "loaded v" if "pj_val (Suc n) s = Some (v, r)" for s v r
    using that Suc
    by (auto split: list.splits if_splits dest: pj_scalar_loaded intro!: loaded_dict; blast)
  moreover have "list_all loaded vs" if "pj_elems (Suc n) s = Some (vs, r)" for s vs r
    using that Suc by (auto split: list.splits if_splits option.splits; blast)
  moreover have "loaded v" if "pj_members (Suc n) s = Some (kvs, r)" "(k, v) \<in> set kvs" for s kvs r k v
    using that Suc by (auto split: list.splits if_splits option.splits; blast)
  ultimately show ?case by blast
qed

lemma json_loads_wf: "json_loads s = Inr v \<Longrightarrow> py_wf v \<and> set_free v"
  using pj_loaded by (auto simp: json_loads_def loaded_def split: option.splits if_splits; blast)

section \<open>Properties\<close>

text \<open>
  \<open>_canonical\<close> gives the same value for a set whatever
  order the process iterates it in (the order depends on \<open>PYTHONHASHSEED\<close>), for sets of
  scalars and of tuples of scalars, wherever the set stands in a list of values.
\<close>

theorem canonical_order_independent:
  assumes "list_all hashable_plain vs" and "mset vs = mset ws"
  shows "dumps_compact (canonical (PList (us @ PSet frz vs # xs))) =
    dumps_compact (canonical (PList (us @ PSet frz ws # xs)))"
  using canonical_set_order [OF assms] by (simp del: canonical.simps(4))

theorem canonical_order_independent_witness:
  "dumps_compact (canonical (PList ([PInt 7] @ PSet False [PStr ''b'', PInt 1, PTuple [PNone, PStr ''a'']] # []))) =
   dumps_compact (canonical (PList ([PInt 7] @ PSet False [PTuple [PNone, PStr ''a''], PStr ''b'', PInt 1] # [])))"
  by (rule canonical_order_independent) (simp_all add: add_mset_commute)

text \<open>
  What the storage writes for a payload
  (\<open>json.dumps(_canonical(payload), sort_keys=True, ...)\<close>) is read back by
  \<open>json.loads\<close> as the canonical payload with its keys sorted, and canonicalising and printing
  that value again gives the same text, so a hash recomputed from storage is the hash that
  was stored.
\<close>

theorem canonical_stored_roundtrip:
  assumes "py_wf v"
  shows "\<exists>w. json_loads (dumps_compact (canonical v)) = Inr w \<and> w = json_norm (canonical v) \<and>
    dumps_compact (canonical w) = dumps_compact (canonical v)"
  using json_roundtrip [of "'',''" "'':''" "canonical v"] assms
  by (simp add: dumps_compact_def canonical_norm_canonical)

theorem canonical_stored_roundtrip_witness:
  "\<exists>w. json_loads (dumps_compact (canonical (PDict [(''b'', PSet True [PInt 2, PInt 1]), (''a'', PFloat ''0.5'')]))) = Inr w \<and>
    w = json_norm (canonical (PDict [(''b'', PSet True [PInt 2, PInt 1]), (''a'', PFloat ''0.5'')])) \<and>
    dumps_compact (canonical w) = dumps_compact (canonical (PDict [(''b'', PSet True [PInt 2, PInt 1]), (''a'', PFloat ''0.5'')]))"
  by (rule canonical_stored_roundtrip) code_simp

end
