(* ===== verification/Det_Clock.thy ===== *)
theory Det_Clock
  imports Py_Values "HOL-Library.Product_Lexorder"
begin

text \<open>
  The deterministic clock (\<open>snapshot/clock.py\<close>): wall-clock readings with a bounded-skew
  check, truncation of the reading, sequence-numbered timestamp markers and the canonical
  timestamp strings that the event headers record. A \<open>datetime\<close> is given by its UTC
  fields; a clock reading (wall clock and monotonic clock) is an argument, and seconds are
  exact rationals. The ordering lemmas show that comparing ordering keys as strings
  compares the time stamps first, then the sequence numbers.
\<close>

section \<open>UTC datetimes\<close>

datatype py_datetime =
  DateTime (dt_year: nat) (dt_month: nat) (dt_day: nat)
    (dt_hour: nat) (dt_minute: nat) (dt_second: nat) (dt_microsecond: nat)

definition dt_key :: "py_datetime \<Rightarrow> nat \<times> nat \<times> nat \<times> nat \<times> nat \<times> nat \<times> nat" where
  "dt_key d = (dt_year d, dt_month d, dt_day d, dt_hour d, dt_minute d, dt_second d, dt_microsecond d)"

lemma dt_key_inj: "dt_key a = dt_key b \<longleftrightarrow> a = b"
  by (cases a; cases b) (auto simp: dt_key_def)

instantiation py_datetime :: linorder
begin

definition less_eq_py_datetime :: "py_datetime \<Rightarrow> py_datetime \<Rightarrow> bool" where
  "less_eq_py_datetime a b \<longleftrightarrow> dt_key a \<le> dt_key b"

definition less_py_datetime :: "py_datetime \<Rightarrow> py_datetime \<Rightarrow> bool" where
  "less_py_datetime a b \<longleftrightarrow> dt_key a < dt_key b"

instance
  by standard (auto simp: less_eq_py_datetime_def less_py_datetime_def dt_key_inj less_le_not_le)

end

text \<open>The datetimes with a four-digit year.\<close>

definition dt_valid :: "py_datetime \<Rightarrow> bool" where
  "dt_valid d \<longleftrightarrow> 1000 \<le> dt_year d \<and> dt_year d < 10000 \<and> dt_month d \<le> 12 \<and> dt_day d \<le> 31 \<and>
     dt_hour d < 24 \<and> dt_minute d < 60 \<and> dt_second d < 60 \<and> dt_microsecond d < 1000000"

definition is_leap :: "nat \<Rightarrow> bool" where
  "is_leap y \<longleftrightarrow> y mod 4 = 0 \<and> (y mod 100 \<noteq> 0 \<or> y mod 400 = 0)"

definition days_before_year :: "nat \<Rightarrow> int" where
  "days_before_year y = (let p = int y - 1 in p * 365 + p div 4 - p div 100 + p div 400)"

definition days_before_month :: "nat \<Rightarrow> nat \<Rightarrow> int" where
  "days_before_month y m =
     sum_list (take (m - 1) [31, if is_leap y then 29 else 28, 31, 30, 31, 30, 31, 31, 30, 31, 30, 31])"

text \<open>\<open>datetime.timestamp()\<close>: seconds since 1970-01-01.\<close>

definition timestamp :: "py_datetime \<Rightarrow> rat" where
  "timestamp d =
     of_int ((days_before_year (dt_year d) + days_before_month (dt_year d) (dt_month d) + int (dt_day d)
              - 719163) * 86400
             + int (dt_hour d) * 3600 + int (dt_minute d) * 60 + int (dt_second d))
     + of_nat (dt_microsecond d) / 1000000"

text \<open>\<open>strftime("%Y-%m-%dT%H:%M:%S.%fZ")\<close>\<close>

definition canonical_timestamp :: "py_datetime \<Rightarrow> string" where
  "canonical_timestamp d =
     show_nat (dt_year d) @ ''-'' @ zfill 2 (dt_month d) @ ''-'' @ zfill 2 (dt_day d) @ ''T''
     @ zfill 2 (dt_hour d) @ '':'' @ zfill 2 (dt_minute d) @ '':'' @ zfill 2 (dt_second d)
     @ ''.'' @ zfill 6 (dt_microsecond d) @ ''Z''"

text \<open>\<open>datetime.isoformat()\<close> of an aware UTC datetime, as the stores stamp their rows.\<close>

definition isoformat :: "py_datetime \<Rightarrow> string" where
  "isoformat d =
     zfill 4 (dt_year d) @ ''-'' @ zfill 2 (dt_month d) @ ''-'' @ zfill 2 (dt_day d) @ ''T''
     @ zfill 2 (dt_hour d) @ '':'' @ zfill 2 (dt_minute d) @ '':'' @ zfill 2 (dt_second d)
     @ (if dt_microsecond d = 0 then [] else ''.'' @ zfill 6 (dt_microsecond d)) @ ''+00:00''"

definition trunc_dt :: "py_datetime \<Rightarrow> py_datetime" where
  "trunc_dt d =
     DateTime (dt_year d) (dt_month d) (dt_day d) (dt_hour d) (dt_minute d) (dt_second d)
       ((dt_microsecond d div 1000) * 1000)"

definition compare_timestamps :: "py_datetime \<Rightarrow> py_datetime \<Rightarrow> int" where
  "compare_timestamps a b =
     (let a_trunc = trunc_dt a; b_trunc = trunc_dt b in
      if a_trunc < b_trunc then -1 else if a_trunc > b_trunc then 1 else 0)"

section \<open>Clock and markers\<close>

record clock_reading =
  rd_wall :: py_datetime
  rd_monotonic :: rat

record det_clock =
  clock_id :: string
  origin_wall_time :: py_datetime
  origin_monotonic :: rat
  max_skew_seconds :: rat
  sequence_counter :: int

text \<open>\<open>DeterministicClock(clock_id=c)\<close>: the defaults read both clocks.\<close>

definition new_clock :: "string \<Rightarrow> clock_reading \<Rightarrow> det_clock" where
  "new_clock c rd =
     \<lparr>clock_id = c, origin_wall_time = rd_wall rd, origin_monotonic = rd_monotonic rd,
      max_skew_seconds = 60, sequence_counter = 0\<rparr>"

definition clock_now :: "det_clock \<Rightarrow> clock_reading \<Rightarrow> py_datetime result" where
  "clock_now clk rd =
     (let elapsed = rd_monotonic rd - origin_monotonic clk;
          expected = timestamp (origin_wall_time clk) + elapsed;
          actual = timestamp (rd_wall rd)
      in if \<bar>actual - expected\<bar> > max_skew_seconds clk then Inl ClockSkewViolationError
         else Inr (trunc_dt (rd_wall rd)))"

record timestamp_marker =
  wall_time :: py_datetime
  sequence_number :: nat
  marker_clock_id :: string
  ordering_key :: string
  timestamp_hash :: string

definition make_marker :: "(string \<Rightarrow> string) \<Rightarrow> py_datetime \<Rightarrow> nat \<Rightarrow> string \<Rightarrow> timestamp_marker" where
  "make_marker sha256 ts sq c =
     (let key = canonical_timestamp ts @ '':'' @ zfill 12 sq @ '':'' @ c in
      \<lparr>wall_time = ts, sequence_number = sq, marker_clock_id = c, ordering_key = key,
       timestamp_hash = sha256 key\<rparr>)"

definition ordered_now :: "(string \<Rightarrow> string) \<Rightarrow> det_clock \<Rightarrow> clock_reading \<Rightarrow> timestamp_marker result" where
  "ordered_now sha256 clk rd =
     res_bind (clock_now clk rd) (\<lambda>ts.
       let sq = sequence_counter clk + 1 in
       if sq < 0 then Inl (ValueError ''sequence_number'')
       else Inr (make_marker sha256 ts (nat sq) (clock_id clk)))"

definition marker_lt :: "timestamp_marker \<Rightarrow> timestamp_marker \<Rightarrow> bool" where
  "marker_lt a b \<longleftrightarrow> ordering_key a < ordering_key b"

definition marker_le :: "timestamp_marker \<Rightarrow> timestamp_marker \<Rightarrow> bool" where
  "marker_le a b \<longleftrightarrow> ordering_key a \<le> ordering_key b"

definition hash_timestamp :: "(string \<Rightarrow> string) \<Rightarrow> py_datetime \<Rightarrow> string" where
  "hash_timestamp sha256 d = sha256 (canonical_timestamp d)"

section \<open>String order of timestamps\<close>

lemma show_nat_year: "1000 \<le> y \<Longrightarrow> y < 10000 \<Longrightarrow> show_nat y = zfill 4 y"
proof -
  assume y: "1000 \<le> y" "y < 10000"
  have "y div 10 \<ge> 10" "y div 100 \<ge> 10" "y div 1000 < 10"
    using y by (simp_all add: less_eq_div_iff_mult_less_eq div_less_iff_less_mult)
  then have "length (show_nat y) = 4"
    using y by (simp add: show_nat.simps [of y] show_nat.simps [of "y div 10"]
      show_nat.simps [of "y div 100"] show_nat.simps [of "y div 1000"] flip: div_mult2_eq)
  then show ?thesis by (simp add: zfill_def)
qed

lemma less_prod_lex: "(a, x) < (b, y) \<longleftrightarrow> a < b \<or> (a = b \<and> x < y)" for a b :: "'a::order"
  by (auto simp: less_prod_def' dest: order.strict_implies_order)

lemma length_canonical_timestamp: "dt_valid d \<Longrightarrow> length (canonical_timestamp d) = 27"
  by (simp add: canonical_timestamp_def dt_valid_def show_nat_year length_zfill)

lemma canonical_timestamp_less:
  assumes "dt_valid a" "dt_valid b"
  shows "canonical_timestamp a < canonical_timestamp b \<longleftrightarrow> a < b"
  using assms
  by (simp add: canonical_timestamp_def dt_valid_def show_nat_year less_py_datetime_def dt_key_def
      append_less_same_length length_zfill zfill_less zfill_eq less_prod_lex del: less_prod_simp)

lemma canonical_timestamp_eq:
  assumes "dt_valid a" "dt_valid b"
  shows "canonical_timestamp a = canonical_timestamp b \<longleftrightarrow> a = b"
  using canonical_timestamp_less [OF assms] canonical_timestamp_less [OF assms(2,1)]
  by (metis linorder_less_linear order.irrefl)

lemma trunc_dt_idem [simp]: "trunc_dt (trunc_dt d) = trunc_dt d"
  by (simp add: trunc_dt_def)

lemma trunc_dt_le: "trunc_dt d \<le> d"
  by (simp add: trunc_dt_def less_eq_py_datetime_def dt_key_def)

lemma trunc_dt_valid: "dt_valid d \<Longrightarrow> dt_valid (trunc_dt d)"
  by (auto simp: trunc_dt_def dt_valid_def intro: le_less_trans [OF div_times_less_eq_dividend])

lemma ordering_key_less:
  assumes "dt_valid t" "dt_valid u" "m < 10 ^ 12" "n < 10 ^ 12"
  shows "canonical_timestamp t @ '':'' @ zfill 12 m @ '':'' @ c < canonical_timestamp u @ '':'' @ zfill 12 n @ '':'' @ d
    \<longleftrightarrow> t < u \<or> (t = u \<and> (m < n \<or> (m = n \<and> c < d)))"
  using assms
  by (simp add: append_less_same_length length_canonical_timestamp length_zfill canonical_timestamp_less
      canonical_timestamp_eq zfill_less zfill_eq)

lemma make_marker_simps [simp]:
  "wall_time (make_marker sha256 t n c) = t"
  "sequence_number (make_marker sha256 t n c) = n"
  "marker_clock_id (make_marker sha256 t n c) = c"
  "ordering_key (make_marker sha256 t n c) = canonical_timestamp t @ '':'' @ zfill 12 n @ '':'' @ c"
  by (simp_all add: make_marker_def Let_def)

lemma clock_now_Inr: "clock_now clk rd = Inr t \<Longrightarrow> t = trunc_dt (rd_wall rd)"
  by (simp add: clock_now_def Let_def split: if_splits)

lemma ordered_now_Inr:
  "ordered_now sha256 clk rd = Inr m \<Longrightarrow>
    m = make_marker sha256 (trunc_dt (rd_wall rd)) (nat (sequence_counter clk + 1)) (clock_id clk)"
  by (auto simp: ordered_now_def res_simps Let_def dest: clock_now_Inr split: if_splits)

section \<open>Properties\<close>

text \<open>
  Comparing two markers (\<open>TimestampMarker.__lt__\<close>, a comparison of
  strings) compares their wall times first, then their sequence numbers, then the ids of
  their clocks, for years of four digits and sequence numbers of at most twelve.
\<close>

theorem marker_order:
  assumes "dt_valid t" and "dt_valid u" and "m < 10 ^ 12" and "n < 10 ^ 12"
  shows "marker_lt (make_marker sha256 t m c) (make_marker sha256 u n d)
    \<longleftrightarrow> (t, m, c) < (u, n, d)"
  using ordering_key_less [OF assms]
  by (simp only: marker_lt_def make_marker_simps less_prod_lex)

theorem marker_order_witness:
  "marker_lt (make_marker id (DateTime 2026 1 2 3 4 5 0) 9 ''a'') (make_marker id (DateTime 2026 1 2 3 4 5 0) 10 ''a'')
   \<longleftrightarrow> (DateTime 2026 1 2 3 4 5 0, 9::nat, ''a'') < (DateTime 2026 1 2 3 4 5 0, 10, ''a'')"
  by (rule marker_order) (simp_all add: dt_valid_def)

text \<open>
  Two markers that one clock issues (\<open>DeterministicClock.ordered_now\<close>)
  are ordered exactly as their wall readings are at millisecond precision: a later reading
  never gives a smaller marker, and two readings within the same millisecond give markers
  that are not ordered, since the frozen clock does not advance its sequence counter.
\<close>

theorem ordered_now_order:
  assumes "ordered_now sha256 clk r1 = Inr m1" and "ordered_now sha256 clk r2 = Inr m2"
    and "dt_valid (rd_wall r1)" and "dt_valid (rd_wall r2)" and "sequence_counter clk < 10 ^ 12 - 1"
  shows "marker_lt m1 m2 \<longleftrightarrow> compare_timestamps (rd_wall r1) (rd_wall r2) = -1"
proof -
  have "nat (sequence_counter clk + 1) < 10 ^ 12"
    using assms(5) by (cases "0 \<le> sequence_counter clk + 1") (simp_all add: nat_less_iff)
  then have "marker_lt m1 m2 \<longleftrightarrow> trunc_dt (rd_wall r1) < trunc_dt (rd_wall r2)"
    unfolding marker_lt_def assms(1,2) [THEN ordered_now_Inr] make_marker_simps
    using assms(3,4) by (subst ordering_key_less) (auto simp: trunc_dt_valid)
  then show ?thesis by (auto simp: compare_timestamps_def Let_def)
qed

definition example_clock :: det_clock where
  "example_clock = new_clock ''eventbus'' \<lparr>rd_wall = DateTime 2026 1 2 3 4 5 0, rd_monotonic = 7\<rparr>"

definition example_reading :: "nat \<Rightarrow> clock_reading" where
  "example_reading us = \<lparr>rd_wall = DateTime 2026 1 2 3 4 5 us, rd_monotonic = 7\<rparr>"

lemma example_clock_now: "us < 1000000 \<Longrightarrow>
  ordered_now sha256 example_clock (example_reading us) =
    Inr (make_marker sha256 (trunc_dt (DateTime 2026 1 2 3 4 5 us)) 1 ''eventbus'')"
  by (simp add: ordered_now_def clock_now_def example_clock_def example_reading_def new_clock_def
      timestamp_def Let_def)

theorem ordered_now_order_witness:
  "marker_lt (make_marker id (trunc_dt (DateTime 2026 1 2 3 4 5 1200)) 1 ''eventbus'')
     (make_marker id (trunc_dt (DateTime 2026 1 2 3 4 5 1900)) 1 ''eventbus'')
   \<longleftrightarrow> compare_timestamps (DateTime 2026 1 2 3 4 5 1200) (DateTime 2026 1 2 3 4 5 1900) = -1"
  using ordered_now_order [OF example_clock_now [of 1200 id] example_clock_now [of 1900 id]]
  by (simp add: example_reading_def example_clock_def new_clock_def dt_valid_def)

end
