(* ===== verification/Hash_Chain.thy ===== *)
theory Hash_Chain
  imports Py_Prelude
begin

text \<open>
  The contract of a hash-chained log, as the event bus and the other ledgers of the
  platform keep it: an entry stores the digest of its content, and its content covers the
  digest stored by the entry before it. A client that trusts the last digest of a log then
  knows the content of the whole log, as long as the digest function has no collision
  among the texts that were hashed (\<open>tamper_evident\<close>).
\<close>

fun linked :: "('e \<Rightarrow> 'h) \<Rightarrow> ('e \<Rightarrow> 'h) \<Rightarrow> 'e list \<Rightarrow> bool" where
  "linked stored prev [] = True"
| "linked stored prev [x] = True"
| "linked stored prev (x # y # xs) = (prev y = stored x \<and> linked stored prev (y # xs))"

lemma linked_snoc:
  "linked stored prev (xs @ [y]) \<longleftrightarrow>
     linked stored prev xs \<and> (xs \<noteq> [] \<longrightarrow> prev y = stored (last xs))"
  by (induction stored prev xs rule: linked.induct) auto

lemma linked_append_left: "linked stored prev (xs @ ys) \<Longrightarrow> linked stored prev xs"
proof (induction ys rule: rev_induct)
  case (snoc y ys)
  then show ?case using linked_snoc [of stored prev "xs @ ys" y] by simp
qed simp

lemma linked_take: "linked stored prev xs \<Longrightarrow> linked stored prev (take n xs)"
  using linked_append_left [of stored prev "take n xs" "drop n xs"] by simp

lemma linked_map:
  assumes "\<And>x. x \<in> set xs \<Longrightarrow> stored (f x) = stored' x" "\<And>x. x \<in> set xs \<Longrightarrow> prev (f x) = prev' x"
  shows "linked stored prev (map f xs) \<longleftrightarrow> linked stored' prev' xs"
  using assms by (induction stored' prev' xs rule: linked.induct) auto

locale hash_chain =
  fixes stored :: "'e \<Rightarrow> 'h"
    and prev :: "'e \<Rightarrow> 'h"
    and digest :: "'c \<Rightarrow> 'h"
    and content :: "'e \<Rightarrow> 'c"
  assumes content_covers_prev: "content a = content b \<Longrightarrow> prev a = prev b"
begin

lemma tamper_evident:
  assumes "length xs = length ys"
    and "linked stored prev xs" and "linked stored prev ys"
    and "\<And>e. e \<in> set xs \<union> set ys \<Longrightarrow> stored e = digest (content e)"
    and "inj_on digest (content ` (set xs \<union> set ys))"
    and "xs \<noteq> [] \<Longrightarrow> stored (last xs) = stored (last ys)"
  shows "map content xs = map content ys"
  using assms
proof (induction xs ys rule: rev_induct2)
  case (4 x xs y ys)
  have "stored x = stored y" using "4.prems"(6) by simp
  then have "digest (content x) = digest (content y)" using "4.prems"(4) by simp
  from inj_onD [OF "4.prems"(5) this] have c: "content x = content y" by auto
  then have "prev x = prev y" by (rule content_covers_prev)
  moreover have "xs = [] \<longleftrightarrow> ys = []" using "4.prems"(1) by auto
  ultimately have "xs \<noteq> [] \<Longrightarrow> stored (last xs) = stored (last ys)"
    using "4.prems"(2,3) by (simp add: linked_snoc)
  moreover have "inj_on digest (content ` (set xs \<union> set ys))"
    using "4.prems"(5) by (rule inj_on_subset) auto
  ultimately have "map content xs = map content ys"
    using "4.prems" by (intro "4.IH") (auto simp: linked_snoc)
  with c show ?case by simp
qed auto

text \<open>
  When the first record of a log points at a value no record hashes to, the last digest fixes the length
  of the log as well.
\<close>

lemma rooted_tamper_evident:
  assumes "linked stored prev xs" and "linked stored prev ys"
    and "\<And>e. e \<in> set xs \<union> set ys \<Longrightarrow> stored e = digest (content e)"
    and "inj_on digest (content ` (set xs \<union> set ys))"
    and "xs \<noteq> [] \<Longrightarrow> prev (hd xs) = genesis" and "ys \<noteq> [] \<Longrightarrow> prev (hd ys) = genesis"
    and "\<And>e. e \<in> set xs \<union> set ys \<Longrightarrow> stored e \<noteq> genesis"
    and "(if xs = [] then genesis else stored (last xs)) = (if ys = [] then genesis else stored (last ys))"
  shows "map content xs = map content ys"
  using assms
proof (induction xs ys rule: rev_induct2)
  case (2 x xs)
  show ?case using "2.prems"(7) [of x] "2.prems"(8) by simp
next
  case (3 y ys)
  show ?case using "3.prems"(7) [of y] "3.prems"(8) by simp
next
  case (4 x xs y ys)
  have "stored x = stored y" using "4.prems"(8) by simp
  then have "digest (content x) = digest (content y)" using "4.prems"(3) by simp
  from inj_onD [OF "4.prems"(4) this] have c: "content x = content y" by auto
  then have p: "prev x = prev y" by (rule content_covers_prev)
  have backlink: "prev z = (if zs = [] then genesis else stored (last zs))"
    if "linked stored prev (zs @ [z])" "prev (hd (zs @ [z])) = genesis" for z zs
    using that by (auto simp: linked_snoc)
  have "map content xs = map content ys"
  proof (rule "4.IH")
    show "(if xs = [] then genesis else stored (last xs)) = (if ys = [] then genesis else stored (last ys))"
      using backlink [of xs x] backlink [of ys y] p "4.prems"(1,2,5,6) by simp
    show "inj_on digest (content ` (set xs \<union> set ys))"
      using "4.prems"(4) by (rule inj_on_subset) auto
    show "xs \<noteq> [] \<Longrightarrow> prev (hd xs) = genesis" "ys \<noteq> [] \<Longrightarrow> prev (hd ys) = genesis"
      using "4.prems"(5,6) by simp_all
  qed (use "4.prems" in \<open>auto simp: linked_snoc\<close>)
  with c show ?case by simp
qed simp

end

end
