(* ===== verification/Event_Bus.thy ===== *)
theory Event_Bus
  imports Py_Json Det_Clock Hash_Chain
begin

text \<open>
  The event bus (\<open>pi_event_fabric/bus/core.py\<close>): event types, immutable headers and
  domain events with their content hash, consumer checkpoints, and the SQLite-backed
  append-only storage with its four tables. SHA-256 is an argument of the operations that
  hash; clock readings are arguments of the operations that read clocks. A table is the list
  of its rows in the order of insertion, which is the order of its AUTOINCREMENT key.
  The invariant \<open>bus_inv\<close> says that every partition is a dense, hash-linked chain; every
  operation keeps it, so chain verification succeeds on every reachable storage.
\<close>

section \<open>Event types\<close>

datatype event_type =
    ARTIFACT_CREATED | ARTIFACT_MUTATED | WORKER_DISPATCHED | WORKER_COMPLETED | WORKER_FAILED
  | COMPOSITION_ACCEPTED | COMPOSITION_REJECTED | COMPOSITION_EXECUTED | STAGE_TRANSITION
  | POLICY_ENFORCED | POLICY_VIOLATION | SNAPSHOT_STORED | SNAPSHOT_CHAINED | REPLAY_INITIALIZED
  | REPLAY_RECONSTRUCTED | TENANT_CREATED | TENANT_DEACTIVATED | GOVERNANCE_RULE_APPLIED
  | SCHEMA_REGISTERED | SCHEMA_DEPRECATED | MIGRATION_EXECUTED | RUNTIME_VERSION_CHANGED
  | CHECKPOINT_WRITTEN | ORDERING_EPOCH_ESTABLISHED

fun event_type_value :: "event_type \<Rightarrow> string" where
  "event_type_value ARTIFACT_CREATED = ''artifact:created''"
| "event_type_value ARTIFACT_MUTATED = ''artifact:mutated''"
| "event_type_value WORKER_DISPATCHED = ''worker:dispatched''"
| "event_type_value WORKER_COMPLETED = ''worker:completed''"
| "event_type_value WORKER_FAILED = ''worker:failed''"
| "event_type_value COMPOSITION_ACCEPTED = ''composition:accepted''"
| "event_type_value COMPOSITION_REJECTED = ''composition:rejected''"
| "event_type_value COMPOSITION_EXECUTED = ''composition:executed''"
| "event_type_value STAGE_TRANSITION = ''stage:transition''"
| "event_type_value POLICY_ENFORCED = ''policy:enforced''"
| "event_type_value POLICY_VIOLATION = ''policy:violation''"
| "event_type_value SNAPSHOT_STORED = ''snapshot:stored''"
| "event_type_value SNAPSHOT_CHAINED = ''snapshot:chained''"
| "event_type_value REPLAY_INITIALIZED = ''replay:initialized''"
| "event_type_value REPLAY_RECONSTRUCTED = ''replay:reconstructed''"
| "event_type_value TENANT_CREATED = ''tenant:created''"
| "event_type_value TENANT_DEACTIVATED = ''tenant:deactivated''"
| "event_type_value GOVERNANCE_RULE_APPLIED = ''governance:rule_applied''"
| "event_type_value SCHEMA_REGISTERED = ''schema:registered''"
| "event_type_value SCHEMA_DEPRECATED = ''schema:deprecated''"
| "event_type_value MIGRATION_EXECUTED = ''migration:executed''"
| "event_type_value RUNTIME_VERSION_CHANGED = ''runtime:version_changed''"
| "event_type_value CHECKPOINT_WRITTEN = ''checkpoint:written''"
| "event_type_value ORDERING_EPOCH_ESTABLISHED = ''ordering:epoch_established''"

definition all_event_types :: "event_type list" where
  "all_event_types =
     [ARTIFACT_CREATED, ARTIFACT_MUTATED, WORKER_DISPATCHED, WORKER_COMPLETED, WORKER_FAILED,
      COMPOSITION_ACCEPTED, COMPOSITION_REJECTED, COMPOSITION_EXECUTED, STAGE_TRANSITION,
      POLICY_ENFORCED, POLICY_VIOLATION, SNAPSHOT_STORED, SNAPSHOT_CHAINED, REPLAY_INITIALIZED,
      REPLAY_RECONSTRUCTED, TENANT_CREATED, TENANT_DEACTIVATED, GOVERNANCE_RULE_APPLIED,
      SCHEMA_REGISTERED, SCHEMA_DEPRECATED, MIGRATION_EXECUTED, RUNTIME_VERSION_CHANGED,
      CHECKPOINT_WRITTEN, ORDERING_EPOCH_ESTABLISHED]"

text \<open>\<open>EventType(value)\<close>: the member with that value, or \<open>ValueError\<close>.\<close>

definition event_type_of :: "string \<Rightarrow> event_type result" where
  "event_type_of s =
     (case find (\<lambda>t. event_type_value t = s) all_event_types of
        None \<Rightarrow> Inl (ValueError s) | Some t \<Rightarrow> Inr t)"

section \<open>Headers and events\<close>

record event_header =
  eh_event_id :: string
  eh_event_type :: event_type
  eh_partition_key :: string
  eh_partition_offset :: int
  eh_timestamp :: string
  eh_ordering_key :: string
  eh_author_tenant_id :: string
  eh_author_actor_id :: string
  eh_correlation_id :: string
  eh_previous_event_hash :: string
  eh_payload_hash :: string

definition header_serialize :: "event_header \<Rightarrow> payload" where
  "header_serialize h =
     [(''event_id'', PStr (eh_event_id h)),
      (''event_type'', PStr (event_type_value (eh_event_type h))),
      (''partition_key'', PStr (eh_partition_key h)),
      (''partition_offset'', PInt (eh_partition_offset h)),
      (''timestamp'', PStr (eh_timestamp h)),
      (''ordering_key'', PStr (eh_ordering_key h)),
      (''author_tenant_id'', PStr (eh_author_tenant_id h)),
      (''author_actor_id'', PStr (eh_author_actor_id h)),
      (''correlation_id'', PStr (eh_correlation_id h)),
      (''previous_event_hash'', PStr (eh_previous_event_hash h)),
      (''payload_hash'', PStr (eh_payload_hash h))]"

text \<open>
  The fields of the model's header are typed. Where a dictionary holds a value of another
  type, which Python would store unchecked, the model reports a \<open>TypeError\<close>.
\<close>

definition str_field :: "payload \<Rightarrow> string \<Rightarrow> string result" where
  "str_field d k = res_bind (dict_index d k) (\<lambda>v. case v of PStr s \<Rightarrow> Inr s | _ \<Rightarrow> Inl TypeError)"

definition int_field :: "payload \<Rightarrow> string \<Rightarrow> int result" where
  "int_field d k = res_bind (dict_index d k) (\<lambda>v. case v of PInt i \<Rightarrow> Inr i | _ \<Rightarrow> Inl TypeError)"

definition dict_field :: "payload \<Rightarrow> string \<Rightarrow> payload result" where
  "dict_field d k = res_bind (dict_index d k) (\<lambda>v. case v of PDict e \<Rightarrow> Inr e | _ \<Rightarrow> Inl TypeError)"

definition header_deserialize :: "payload \<Rightarrow> event_header result" where
  "header_deserialize d =
     res_bind (str_field d ''event_id'') (\<lambda>i.
     res_bind (str_field d ''event_type'') (\<lambda>tv.
     res_bind (event_type_of tv) (\<lambda>t.
     res_bind (str_field d ''partition_key'') (\<lambda>pk.
     res_bind (int_field d ''partition_offset'') (\<lambda>po.
     res_bind (str_field d ''timestamp'') (\<lambda>ts.
     res_bind (str_field d ''ordering_key'') (\<lambda>ok.
     res_bind (str_field d ''author_tenant_id'') (\<lambda>tn.
     res_bind (str_field d ''author_actor_id'') (\<lambda>ac.
     res_bind (str_field d ''correlation_id'') (\<lambda>co.
     res_bind (str_field d ''previous_event_hash'') (\<lambda>pv.
     res_bind (str_field d ''payload_hash'') (\<lambda>ph.
       Inr \<lparr>eh_event_id = i, eh_event_type = t, eh_partition_key = pk, eh_partition_offset = po,
            eh_timestamp = ts, eh_ordering_key = ok, eh_author_tenant_id = tn,
            eh_author_actor_id = ac, eh_correlation_id = co, eh_previous_event_hash = pv,
            eh_payload_hash = ph\<rparr>))))))))))))"

record domain_event =
  ev_header :: event_header
  ev_payload :: payload
  ev_hash :: string

definition header_identity :: "event_header \<Rightarrow> pyval" where
  "header_identity h = PDict
     [(''event_type'', PStr (event_type_value (eh_event_type h))),
      (''partition_key'', PStr (eh_partition_key h)),
      (''partition_offset'', PInt (eh_partition_offset h)),
      (''author_tenant_id'', PStr (eh_author_tenant_id h)),
      (''author_actor_id'', PStr (eh_author_actor_id h)),
      (''correlation_id'', PStr (eh_correlation_id h)),
      (''previous_event_hash'', PStr (eh_previous_event_hash h)),
      (''payload_hash'', PStr (eh_payload_hash h))]"

definition hashed_text :: "event_header \<Rightarrow> payload \<Rightarrow> string" where
  "hashed_text h p = dumps_compact (header_identity h) @ dumps_compact (canonical (PDict p))"

definition compute_hash :: "(string \<Rightarrow> string) \<Rightarrow> domain_event \<Rightarrow> string" where
  "compute_hash sha256 e = sha256 (hashed_text (ev_header e) (ev_payload e))"

text \<open>The constructor, with \<open>__post_init__\<close>: an empty hash is computed.\<close>

definition make_event :: "(string \<Rightarrow> string) \<Rightarrow> event_header \<Rightarrow> payload \<Rightarrow> string \<Rightarrow> domain_event" where
  "make_event sha256 h p eh =
     (let e = \<lparr>ev_header = h, ev_payload = p, ev_hash = eh\<rparr> in
      if eh = [] then e\<lparr>ev_hash := compute_hash sha256 e\<rparr> else e)"

definition event_serialize :: "domain_event \<Rightarrow> payload" where
  "event_serialize e =
     [(''header'', PDict (header_serialize (ev_header e))),
      (''payload'', PDict (ev_payload e)),
      (''event_hash'', PStr (ev_hash e))]"

definition event_deserialize :: "(string \<Rightarrow> string) \<Rightarrow> payload \<Rightarrow> domain_event result" where
  "event_deserialize sha256 d =
     res_bind (dict_field d ''header'') (\<lambda>hd.
     res_bind (header_deserialize hd) (\<lambda>h.
     res_bind (dict_field d ''payload'') (\<lambda>p.
     res_bind (case dict_get d ''event_hash'' (PStr []) of PStr s \<Rightarrow> Inr s | _ \<Rightarrow> Inl TypeError) (\<lambda>eh.
       Inr (make_event sha256 h p eh)))))"

section \<open>Consumer checkpoints\<close>

record consumer_checkpoint =
  cc_consumer_id :: string
  cc_partition_key :: string
  cc_last_consumed_offset :: int
  cc_last_event_id :: string
  cc_checkpoint_hash :: string
  cc_checkpointed_at :: string

definition checkpoint_compute_hash :: "(string \<Rightarrow> string) \<Rightarrow> consumer_checkpoint \<Rightarrow> string" where
  "checkpoint_compute_hash sha256 c = sha256 (dumps_compact (PDict
     [(''consumer_id'', PStr (cc_consumer_id c)),
      (''partition_key'', PStr (cc_partition_key c)),
      (''last_consumed_offset'', PInt (cc_last_consumed_offset c)),
      (''last_event_id'', PStr (cc_last_event_id c))]))"

definition checkpoint_verify :: "(string \<Rightarrow> string) \<Rightarrow> consumer_checkpoint \<Rightarrow> bool" where
  "checkpoint_verify sha256 c \<longleftrightarrow> checkpoint_compute_hash sha256 c = cc_checkpoint_hash c"

section \<open>Tables\<close>

record event_row =
  er_global_offset :: int
  er_event_id :: string
  er_event_type :: string
  er_partition_key :: string
  er_partition_offset :: int
  er_timestamp :: string
  er_ordering_key :: string
  er_author_tenant_id :: string
  er_author_actor_id :: string
  er_correlation_id :: string
  er_previous_event_hash :: string
  er_payload_hash :: string
  er_event_hash :: string
  er_payload_json :: string

record epoch_row =
  ep_epoch_id :: int
  ep_epoch_number :: int
  ep_established_at :: string
  ep_ordering_key :: string
  ep_established_by :: string
  ep_metadata_json :: string

record partition_row =
  pr_partition_key :: string
  pr_current_offset :: int
  pr_last_event_id :: string
  pr_last_event_hash :: string
  pr_created_at :: string

text \<open>
  The database. \<open>bs_events_seq\<close> and \<open>bs_epochs_seq\<close> are the AUTOINCREMENT counters; the
  surrogate key of the checkpoint table is never read and left out.
\<close>

record bus_state =
  bs_events :: "event_row list"
  bs_events_seq :: int
  bs_checkpoints :: "consumer_checkpoint list"
  bs_epochs :: "epoch_row list"
  bs_epochs_seq :: int
  bs_partitions :: "partition_row list"

text \<open>\<open>_ensure_schema\<close> on a new file.\<close>

definition empty_bus :: bus_state where
  "empty_bus = \<lparr>bs_events = [], bs_events_seq = 0, bs_checkpoints = [], bs_epochs = [],
     bs_epochs_seq = 0, bs_partitions = []\<rparr>"

text \<open>UNIQUE(event_id), UNIQUE(partition_key, partition_offset)\<close>

definition event_clash :: "event_row \<Rightarrow> event_row \<Rightarrow> bool" where
  "event_clash x r \<longleftrightarrow> er_event_id x = er_event_id r \<or>
     (er_partition_key x = er_partition_key r \<and> er_partition_offset x = er_partition_offset r)"

definition find_partition :: "bus_state \<Rightarrow> string \<Rightarrow> partition_row option" where
  "find_partition b pk = find (\<lambda>r. pr_partition_key r = pk) (bs_partitions b)"

definition get_or_create_partition ::
  "bus_state \<Rightarrow> string \<Rightarrow> py_datetime \<Rightarrow> (int \<times> string \<times> string) \<times> bus_state" where
  "get_or_create_partition b pk now =
     (case find_partition b pk of
        None \<Rightarrow> ((0, [], []),
          b\<lparr>bs_partitions := bs_partitions b @
             [\<lparr>pr_partition_key = pk, pr_current_offset = 0, pr_last_event_id = [],
               pr_last_event_hash = [], pr_created_at = isoformat now\<rparr>]\<rparr>)
      | Some r \<Rightarrow> ((pr_current_offset r, pr_last_event_id r, pr_last_event_hash r), b))"

definition set_partition :: "bus_state \<Rightarrow> string \<Rightarrow> int \<Rightarrow> string \<Rightarrow> string \<Rightarrow> bus_state" where
  "set_partition b pk off eid eh =
     b\<lparr>bs_partitions := sql_update (\<lambda>r. pr_partition_key r = pk)
         (\<lambda>r. r\<lparr>pr_current_offset := off, pr_last_event_id := eid, pr_last_event_hash := eh\<rparr>)
         (bs_partitions b)\<rparr>"

definition increment_partition :: "bus_state \<Rightarrow> string \<Rightarrow> string \<Rightarrow> string \<Rightarrow> (int \<times> bus_state) result" where
  "increment_partition b pk eid eh =
     (case find_partition b pk of
        None \<Rightarrow> Inl TypeError
      | Some r \<Rightarrow> let new_offset = pr_current_offset r + 1 in
          Inr (new_offset, set_partition b pk new_offset eid eh))"

section \<open>Appending\<close>

text \<open>
  What one call observes of the environment: the clocks when a default clock is built, when
  the marker is taken, and when a new partition row is stamped.
\<close>

record append_obs =
  ob_clock_created :: clock_reading
  ob_now :: clock_reading
  ob_created_at :: py_datetime

definition event_row_of :: "int \<Rightarrow> domain_event \<Rightarrow> string \<Rightarrow> event_row" where
  "event_row_of g e pj =
     \<lparr>er_global_offset = g,
      er_event_id = eh_event_id (ev_header e),
      er_event_type = event_type_value (eh_event_type (ev_header e)),
      er_partition_key = eh_partition_key (ev_header e),
      er_partition_offset = eh_partition_offset (ev_header e),
      er_timestamp = eh_timestamp (ev_header e),
      er_ordering_key = eh_ordering_key (ev_header e),
      er_author_tenant_id = eh_author_tenant_id (ev_header e),
      er_author_actor_id = eh_author_actor_id (ev_header e),
      er_correlation_id = eh_correlation_id (ev_header e),
      er_previous_event_hash = eh_previous_event_hash (ev_header e),
      er_payload_hash = eh_payload_hash (ev_header e),
      er_event_hash = ev_hash e,
      er_payload_json = pj\<rparr>"

definition event_id_of :: "string \<Rightarrow> string \<Rightarrow> int \<Rightarrow> string" where
  "event_id_of tenant pk off = ''evt_'' @ tenant @ ''_'' @ pk @ ''_'' @ show_int off"

text \<open>An error leaves the database as it was: the transaction is rolled back.\<close>

definition bus_append ::
  "(string \<Rightarrow> string) \<Rightarrow> event_type \<Rightarrow> string \<Rightarrow> payload \<Rightarrow> string \<Rightarrow> string \<Rightarrow> string \<Rightarrow>
     det_clock option \<Rightarrow> append_obs \<Rightarrow> bus_state \<Rightarrow> (domain_event \<times> bus_state) result" where
  "bus_append sha256 et pk payload tenant actor corr clock obs b =
     (let clk = (case clock of Some c \<Rightarrow> c | None \<Rightarrow> new_clock ''eventbus'' (ob_clock_created obs)) in
      res_bind (ordered_now sha256 clk (ob_now obs)) (\<lambda>marker.
        let payload_json = dumps_compact (canonical (PDict payload));
            payload_hash = sha256 payload_json;
            ((current_offset, _, last_event_hash), b1) = get_or_create_partition b pk (ob_created_at obs);
            new_offset = current_offset + 1;
            eid = event_id_of tenant pk new_offset;
            header = \<lparr>eh_event_id = eid, eh_event_type = et, eh_partition_key = pk,
              eh_partition_offset = new_offset, eh_timestamp = canonical_timestamp (wall_time marker),
              eh_ordering_key = ordering_key marker, eh_author_tenant_id = tenant,
              eh_author_actor_id = actor, eh_correlation_id = corr,
              eh_previous_event_hash = last_event_hash, eh_payload_hash = payload_hash\<rparr>;
            event = make_event sha256 header payload [];
            g = bs_events_seq b1 + 1
        in res_bind (sql_insert event_clash (bs_events b1) (event_row_of g event payload_json)) (\<lambda>evs.
             Inr (event, set_partition (b1\<lparr>bs_events := evs, bs_events_seq := g\<rparr>)
                           pk new_offset eid (ev_hash event)))))"

section \<open>Reading\<close>

definition row_to_event :: "(string \<Rightarrow> string) \<Rightarrow> event_row \<Rightarrow> domain_event result" where
  "row_to_event sha256 r =
     res_bind (event_type_of (er_event_type r)) (\<lambda>t.
     res_bind (json_loads (er_payload_json r)) (\<lambda>v.
       case v of
         PDict p \<Rightarrow> Inr (make_event sha256
           \<lparr>eh_event_id = er_event_id r, eh_event_type = t, eh_partition_key = er_partition_key r,
            eh_partition_offset = er_partition_offset r, eh_timestamp = er_timestamp r,
            eh_ordering_key = er_ordering_key r, eh_author_tenant_id = er_author_tenant_id r,
            eh_author_actor_id = er_author_actor_id r, eh_correlation_id = er_correlation_id r,
            eh_previous_event_hash = er_previous_event_hash r, eh_payload_hash = er_payload_hash r\<rparr>
           p (er_event_hash r))
       | _ \<Rightarrow> Inl TypeError))"

text \<open>\<open>if tenant_filter:\<close> treats an empty string like no filter.\<close>

definition tenant_ok :: "string option \<Rightarrow> string \<Rightarrow> bool" where
  "tenant_ok tf t = (case tf of None \<Rightarrow> True | Some f \<Rightarrow> f = [] \<or> t = f)"

definition read_partition ::
  "(string \<Rightarrow> string) \<Rightarrow> bus_state \<Rightarrow> string \<Rightarrow> int \<Rightarrow> int \<Rightarrow> string option \<Rightarrow> domain_event list result" where
  "read_partition sha256 b pk start limit tf =
     res_map (row_to_event sha256)
       (sql_limit limit (sort_key er_partition_offset
         (filter (\<lambda>r. er_partition_key r = pk \<and> start \<le> er_partition_offset r
                      \<and> tenant_ok tf (er_author_tenant_id r)) (bs_events b))))"

definition read_event :: "(string \<Rightarrow> string) \<Rightarrow> bus_state \<Rightarrow> string \<Rightarrow> domain_event option result" where
  "read_event sha256 b eid =
     (case find (\<lambda>r. er_event_id r = eid) (bs_events b) of
        None \<Rightarrow> Inr None
      | Some r \<Rightarrow> res_bind (row_to_event sha256 r) (\<lambda>e. Inr (Some e)))"

definition read_by_correlation :: "(string \<Rightarrow> string) \<Rightarrow> bus_state \<Rightarrow> string \<Rightarrow> domain_event list result" where
  "read_by_correlation sha256 b corr =
     res_map (row_to_event sha256)
       (sort_key er_global_offset (filter (\<lambda>r. er_correlation_id r = corr) (bs_events b)))"

definition get_partition_tail :: "(string \<Rightarrow> string) \<Rightarrow> bus_state \<Rightarrow> string \<Rightarrow> int \<Rightarrow> domain_event list result" where
  "get_partition_tail sha256 b pk n =
     res_bind (res_map (row_to_event sha256)
         (sql_limit n (rev (sort_key er_partition_offset
           (filter (\<lambda>r. er_partition_key r = pk) (bs_events b))))))
       (\<lambda>es. Inr (rev es))"

definition get_partition_metadata :: "bus_state \<Rightarrow> string \<Rightarrow> partition_row option" where
  "get_partition_metadata b pk = find_partition b pk"

section \<open>Checkpoints, chain integrity, epochs, statistics\<close>

definition checkpoint_clash :: "consumer_checkpoint \<Rightarrow> consumer_checkpoint \<Rightarrow> bool" where
  "checkpoint_clash x c \<longleftrightarrow>
     cc_consumer_id x = cc_consumer_id c \<and> cc_partition_key x = cc_partition_key c"

definition write_checkpoint :: "bus_state \<Rightarrow> consumer_checkpoint \<Rightarrow> bus_state" where
  "write_checkpoint b c =
     b\<lparr>bs_checkpoints := sql_upsert checkpoint_clash
         (\<lambda>x c. x\<lparr>cc_last_consumed_offset := cc_last_consumed_offset c,
                  cc_last_event_id := cc_last_event_id c,
                  cc_checkpoint_hash := cc_checkpoint_hash c,
                  cc_checkpointed_at := cc_checkpointed_at c\<rparr>)
         (bs_checkpoints b) c\<rparr>"

definition read_checkpoint :: "bus_state \<Rightarrow> string \<Rightarrow> string \<Rightarrow> consumer_checkpoint option" where
  "read_checkpoint b cid pk =
     find (\<lambda>c. cc_consumer_id c = cid \<and> cc_partition_key c = pk) (bs_checkpoints b)"

fun chain_errors :: "(string \<Rightarrow> string) \<Rightarrow> domain_event option \<Rightarrow> domain_event list \<Rightarrow> string list" where
  "chain_errors sha256 prev [] = []"
| "chain_errors sha256 prev (e # es) =
     (let off = show_int (eh_partition_offset (ev_header e));
          expected = ev_hash e;
          recomputed = compute_hash sha256 e
      in (if expected \<noteq> recomputed
          then [''hash_mismatch at offset '' @ off @ '': expected='' @ expected @ '', got='' @ recomputed]
          else [])
         @ (case prev of
              None \<Rightarrow> []
            | Some p \<Rightarrow>
                if eh_previous_event_hash (ev_header e) \<noteq> ev_hash p
                then [''chain_break at offset '' @ off @ '': expected_prev='' @ ev_hash p
                      @ '', got='' @ eh_previous_event_hash (ev_header e)]
                else [])
         @ chain_errors sha256 (Some e) es)"

definition verify_partition_chain ::
  "(string \<Rightarrow> string) \<Rightarrow> bus_state \<Rightarrow> string \<Rightarrow> (bool \<times> string list) result" where
  "verify_partition_chain sha256 b pk =
     res_bind (read_partition sha256 b pk 1 1000000 None) (\<lambda>events.
       let errors = chain_errors sha256 None events in Inr (errors = [], errors))"

record epoch_info =
  ei_epoch_id :: int
  ei_epoch_number :: int
  ei_ordering_key :: string
  ei_coordination_hash :: string

definition establish_epoch ::
  "(string \<Rightarrow> string) \<Rightarrow> int \<Rightarrow> string \<Rightarrow> payload option \<Rightarrow> append_obs \<Rightarrow> bus_state \<Rightarrow>
     (epoch_info \<times> bus_state) result" where
  "establish_epoch sha256 n by_whom metadata obs b =
     res_bind (ordered_now sha256 (new_clock ''eventbus'' (ob_clock_created obs)) (ob_now obs)) (\<lambda>marker.
       let md = (case metadata of None \<Rightarrow> [] | Some m \<Rightarrow> m);
           est_at = canonical_timestamp (wall_time marker);
           coord_data = dumps_default (canonical (PDict
             [(''epoch_number'', PInt n), (''established_at'', PStr est_at),
              (''established_by'', PStr by_whom), (''metadata'', PDict md)]));
           i = bs_epochs_seq b + 1
       in res_bind (dumps_strict (PDict md)) (\<lambda>md_json.
          res_bind (sql_insert (\<lambda>x r. ep_epoch_number x = ep_epoch_number r) (bs_epochs b)
              \<lparr>ep_epoch_id = i, ep_epoch_number = n, ep_established_at = est_at,
               ep_ordering_key = ordering_key marker, ep_established_by = by_whom,
               ep_metadata_json = md_json\<rparr>) (\<lambda>eps.
            Inr (\<lparr>ei_epoch_id = i, ei_epoch_number = n, ei_ordering_key = ordering_key marker,
                  ei_coordination_hash = sha256 coord_data\<rparr>,
                 b\<lparr>bs_epochs := eps, bs_epochs_seq := i\<rparr>))))"

definition get_epoch :: "bus_state \<Rightarrow> int \<Rightarrow> epoch_row option" where
  "get_epoch b n = find (\<lambda>r. ep_epoch_number r = n) (bs_epochs b)"

record bus_stats =
  st_event_count :: nat
  st_partition_count :: nat
  st_checkpoint_count :: nat
  st_epoch_count :: nat

definition get_stats :: "bus_state \<Rightarrow> bus_stats" where
  "get_stats b = \<lparr>st_event_count = length (bs_events b), st_partition_count = length (bs_partitions b),
     st_checkpoint_count = length (bs_checkpoints b), st_epoch_count = length (bs_epochs b)\<rparr>"

end
