(* ===== verification/Event_Bus_Correct.thy ===== *)
theory Event_Bus_Correct
  imports Event_Bus
begin

text \<open>
  Correctness of the event bus: the storage invariant and its preservation by every
  operation, the reachable storages, what a read returns, chain verification, tamper
  evidence (through the \<open>hash_chain\<close> contract), independence of hashes and identifiers from
  the clock, and the one way an append can be refused.
\<close>

section \<open>Decoding stored rows\<close>

lemma event_type_roundtrip [simp]: "event_type_of (event_type_value t) = Inr t"
  by (cases t) (simp_all add: event_type_of_def all_event_types_def)

lemma event_type_value_inj [simp]: "event_type_value t = event_type_value u \<longleftrightarrow> t = u"
  by (metis event_type_roundtrip sum.inject(2))

definition header_of_row :: "event_type \<Rightarrow> event_row \<Rightarrow> event_header" where
  "header_of_row t r =
     \<lparr>eh_event_id = er_event_id r, eh_event_type = t, eh_partition_key = er_partition_key r,
      eh_partition_offset = er_partition_offset r, eh_timestamp = er_timestamp r,
      eh_ordering_key = er_ordering_key r, eh_author_tenant_id = er_author_tenant_id r,
      eh_author_actor_id = er_author_actor_id r, eh_correlation_id = er_correlation_id r,
      eh_previous_event_hash = er_previous_event_hash r, eh_payload_hash = er_payload_hash r\<rparr>"

lemma eh_event_type_header_of_row [simp]: "eh_event_type (header_of_row t r) = t"
  by (simp add: header_of_row_def)

text \<open>A row that an append wrote: its hashes are those of its own columns.\<close>

definition row_ok :: "(string \<Rightarrow> string) \<Rightarrow> event_row \<Rightarrow> bool" where
  "row_ok sha256 r \<longleftrightarrow> (\<exists>t p.
     er_event_type r = event_type_value t \<and> py_wf (PDict p) \<and>
     er_payload_json r = dumps_compact (canonical (PDict p)) \<and>
     er_event_id r = event_id_of (er_author_tenant_id r) (er_partition_key r) (er_partition_offset r) \<and>
     er_payload_hash r = sha256 (er_payload_json r) \<and>
     er_event_hash r = sha256 (hashed_text (header_of_row t r) p))"

definition stored_payload :: "payload \<Rightarrow> payload" where
  "stored_payload p = (case json_norm (canonical (PDict p)) of PDict q \<Rightarrow> q | _ \<Rightarrow> [])"

lemma PDict_stored_payload: "PDict (stored_payload p) = json_norm (canonical (PDict p))"
  by (simp add: stored_payload_def)

lemma hashed_text_stored [simp]: "hashed_text h (stored_payload p) = hashed_text h p"
  unfolding hashed_text_def PDict_stored_payload canonical_norm_canonical dumps_compact_def
  by (simp only: dumps_json_norm)

lemma json_loads_stored:
  "py_wf (PDict p) \<Longrightarrow> json_loads (dumps_compact (canonical (PDict p))) = Inr (PDict (stored_payload p))"
  unfolding dumps_compact_def
  by (subst json_roundtrip) (simp_all add: PDict_stored_payload del: canonical.simps json_norm.simps)

lemma row_to_event_ok:
  assumes "er_event_type r = event_type_value t" "py_wf (PDict p)"
    "er_payload_json r = dumps_compact (canonical (PDict p))"
    "er_event_hash r = sha256 (hashed_text (header_of_row t r) p)"
  shows "row_to_event sha256 r =
    Inr \<lparr>ev_header = header_of_row t r, ev_payload = stored_payload p, ev_hash = er_event_hash r\<rparr>"
  using assms(4)
  by (simp add: row_to_event_def assms(1,3) json_loads_stored [OF assms(2)] header_of_row_def [symmetric]
      make_event_def compute_hash_def Let_def del: canonical.simps)

definition decode :: "(string \<Rightarrow> string) \<Rightarrow> event_row \<Rightarrow> domain_event" where
  "decode sha256 r = projr (row_to_event sha256 r)"

lemma decode_ok:
  assumes "row_ok sha256 r"
  shows "row_to_event sha256 r = Inr (decode sha256 r)"
    and "compute_hash sha256 (decode sha256 r) = ev_hash (decode sha256 r)"
    and "ev_hash (decode sha256 r) = er_event_hash r"
    and "event_type_value (eh_event_type (ev_header (decode sha256 r))) = er_event_type r"
    and "ev_header (decode sha256 r) = header_of_row (eh_event_type (ev_header (decode sha256 r))) r"
proof -
  obtain t p where tp: "er_event_type r = event_type_value t" "py_wf (PDict p)"
    "er_payload_json r = dumps_compact (canonical (PDict p))"
    "er_event_hash r = sha256 (hashed_text (header_of_row t r) p)"
    using assms by (auto simp: row_ok_def)
  note d = row_to_event_ok [of r t p sha256, OF tp]
  show "row_to_event sha256 r = Inr (decode sha256 r)" by (simp add: d decode_def)
  show "compute_hash sha256 (decode sha256 r) = ev_hash (decode sha256 r)"
    by (simp add: d decode_def compute_hash_def tp(4))
  show "ev_hash (decode sha256 r) = er_event_hash r"
    "event_type_value (eh_event_type (ev_header (decode sha256 r))) = er_event_type r"
    "ev_header (decode sha256 r) = header_of_row (eh_event_type (ev_header (decode sha256 r))) r"
    by (simp_all add: d decode_def tp(1))
qed

lemma decode_fields [simp]:
  assumes "row_ok sha256 r"
  shows "eh_partition_offset (ev_header (decode sha256 r)) = er_partition_offset r"
    "eh_partition_key (ev_header (decode sha256 r)) = er_partition_key r"
    "eh_previous_event_hash (ev_header (decode sha256 r)) = er_previous_event_hash r"
    "eh_author_tenant_id (ev_header (decode sha256 r)) = er_author_tenant_id r"
    "eh_correlation_id (ev_header (decode sha256 r)) = er_correlation_id r"
    "eh_event_id (ev_header (decode sha256 r)) = er_event_id r"
    "eh_timestamp (ev_header (decode sha256 r)) = er_timestamp r"
  by (subst decode_ok(5) [OF assms], simp add: header_of_row_def)+

section \<open>The storage invariant\<close>

definition part_rows :: "bus_state \<Rightarrow> string \<Rightarrow> event_row list" where
  "part_rows b pk = filter (\<lambda>r. er_partition_key r = pk) (bs_events b)"

definition part_log :: "(string \<Rightarrow> string) \<Rightarrow> bus_state \<Rightarrow> string \<Rightarrow> domain_event list" where
  "part_log sha256 b pk = map (decode sha256) (part_rows b pk)"

definition offsets_dense :: "event_row list \<Rightarrow> bool" where
  "offsets_dense rs \<longleftrightarrow> map er_partition_offset rs = map int [1..<Suc (length rs)]"

definition head_ok :: "event_row list \<Rightarrow> partition_row option \<Rightarrow> bool" where
  "head_ok rs m = (case m of
      None \<Rightarrow> rs = []
    | Some r \<Rightarrow> pr_current_offset r = int (length rs) \<and>
        pr_last_event_hash r = (if rs = [] then [] else er_event_hash (last rs)) \<and>
        pr_last_event_id r = (if rs = [] then [] else er_event_id (last rs)))"

definition partition_inv :: "bus_state \<Rightarrow> string \<Rightarrow> bool" where
  "partition_inv b pk \<longleftrightarrow>
     offsets_dense (part_rows b pk) \<and>
     linked er_event_hash er_previous_event_hash (part_rows b pk) \<and>
     (part_rows b pk \<noteq> [] \<longrightarrow> er_previous_event_hash (hd (part_rows b pk)) = []) \<and>
     head_ok (part_rows b pk) (find_partition b pk)"

definition bus_inv :: "(string \<Rightarrow> string) \<Rightarrow> bus_state \<Rightarrow> bool" where
  "bus_inv sha256 b \<longleftrightarrow>
     (\<forall>r \<in> set (bs_events b). row_ok sha256 r) \<and>
     (\<forall>pk. partition_inv b pk) \<and>
     map er_global_offset (bs_events b) = map int [1..<Suc (length (bs_events b))] \<and>
     bs_events_seq b = int (length (bs_events b)) \<and>
     distinct (map er_event_id (bs_events b))"

lemma bus_inv_empty: "bus_inv sha256 empty_bus"
  by (simp add: bus_inv_def partition_inv_def part_rows_def empty_bus_def offsets_dense_def
      head_ok_def find_partition_def)

lemma offsets_dense_snoc:
  "offsets_dense rs \<Longrightarrow> er_partition_offset r = int (length rs) + 1 \<Longrightarrow> offsets_dense (rs @ [r])"
  unfolding offsets_dense_def by (simp del: upt_Suc add: upt_Suc_append)

lemma find_sql_update:
  assumes "\<And>r. key (f r) = key r"
  shows "find (\<lambda>r. key r = k) (sql_update (\<lambda>r. key r = k') f t) =
    (if k = k' then map_option f (find (\<lambda>r. key r = k) t) else find (\<lambda>r. key r = k) t)"
  by (induction t) (auto simp: sql_update_def assms)

lemma find_partition_set:
  "find_partition (set_partition b pk off eid h) pk' =
    (if pk' = pk
     then map_option (\<lambda>r. r\<lparr>pr_current_offset := off, pr_last_event_id := eid, pr_last_event_hash := h\<rparr>)
            (find_partition b pk)
     else find_partition b pk')"
  by (simp add: find_partition_def set_partition_def find_sql_update [where key = pr_partition_key])

lemma find_partition_cong:
  "bs_partitions b = bs_partitions b' \<Longrightarrow> find_partition b pk = find_partition b' pk"
  by (simp add: find_partition_def)

lemma part_rows_cong: "bs_events b = bs_events b' \<Longrightarrow> part_rows b pk = part_rows b' pk"
  by (simp add: part_rows_def)

lemma bus_inv_cong:
  assumes "bs_events b' = bs_events b" "bs_events_seq b' = bs_events_seq b"
    "bs_partitions b' = bs_partitions b"
  shows "bus_inv sha256 b' \<longleftrightarrow> bus_inv sha256 b"
  using find_partition_cong [OF assms(3)] part_rows_cong [OF assms(1)] assms
  by (simp add: bus_inv_def partition_inv_def)

lemma write_checkpoint_inv: "bus_inv sha256 b \<Longrightarrow> bus_inv sha256 (write_checkpoint b c)"
  by (subst bus_inv_cong [of _ b]) (auto simp: write_checkpoint_def)

lemma establish_epoch_inv:
  "bus_inv sha256 b \<Longrightarrow> establish_epoch sha256 n who md obs b = Inr (i, b') \<Longrightarrow> bus_inv sha256 b'"
  by (subst bus_inv_cong [of _ b]) (auto simp: establish_epoch_def res_simps Let_def)

text \<open>Reading or creating the partition row does not touch the log.\<close>

lemma get_or_create_partition:
  assumes "get_or_create_partition b pk now = ((off, eid, h), b1)"
  shows "bs_events b1 = bs_events b" "bs_events_seq b1 = bs_events_seq b"
    "\<exists>m. find_partition b1 pk = Some m \<and> off = pr_current_offset m \<and> h = pr_last_event_hash m \<and>
       eid = pr_last_event_id m \<and>
       (find_partition b pk = None \<longrightarrow> off = 0 \<and> h = [] \<and> eid = []) \<and>
       (\<forall>m0. find_partition b pk = Some m0 \<longrightarrow> m = m0)"
    "pk' \<noteq> pk \<Longrightarrow> find_partition b1 pk' = find_partition b pk'"
  using assms
  by (auto simp: get_or_create_partition_def find_partition_def find_append split: option.splits)

lemma get_or_create_partition_inv:
  assumes "bus_inv sha256 b" "get_or_create_partition b pk now = ((off, eid, h), b1)"
  shows "bus_inv sha256 b1"
proof -
  note g = get_or_create_partition [OF assms(2)]
  have "partition_inv b1 pk'" for pk'
  proof -
    have p: "partition_inv b pk'" using assms(1) by (simp add: bus_inv_def)
    show ?thesis
    proof (cases "pk' = pk")
      case True
      with p g(3) show ?thesis
        by (cases "find_partition b pk")
           (auto simp: partition_inv_def part_rows_cong [OF g(1)] head_ok_def)
    next
      case False
      with p show ?thesis by (simp add: partition_inv_def part_rows_cong [OF g(1)] g(4))
    qed
  qed
  with assms(1) g(1,2) show ?thesis by (simp add: bus_inv_def)
qed

section \<open>Appending\<close>

definition new_header ::
  "(string \<Rightarrow> string) \<Rightarrow> event_type \<Rightarrow> string \<Rightarrow> payload \<Rightarrow> string \<Rightarrow> string \<Rightarrow> string \<Rightarrow>
     timestamp_marker \<Rightarrow> int \<Rightarrow> string \<Rightarrow> event_header" where
  "new_header sha256 et pk payload tenant actor corr marker off h =
     \<lparr>eh_event_id = event_id_of tenant pk off, eh_event_type = et, eh_partition_key = pk,
      eh_partition_offset = off, eh_timestamp = canonical_timestamp (wall_time marker),
      eh_ordering_key = ordering_key marker, eh_author_tenant_id = tenant,
      eh_author_actor_id = actor, eh_correlation_id = corr, eh_previous_event_hash = h,
      eh_payload_hash = sha256 (dumps_compact (canonical (PDict payload)))\<rparr>"

lemma make_event_new [simp]:
  "ev_header (make_event sha256 h p []) = h"
  "ev_payload (make_event sha256 h p []) = p"
  "ev_hash (make_event sha256 h p []) = sha256 (hashed_text h p)"
  by (simp_all add: make_event_def compute_hash_def Let_def)

definition new_row :: "int \<Rightarrow> domain_event \<Rightarrow> event_row" where
  "new_row g e = event_row_of g e (dumps_compact (canonical (PDict (ev_payload e))))"

definition after_append :: "bus_state \<Rightarrow> event_row \<Rightarrow> bus_state" where
  "after_append b1 row =
     set_partition (b1\<lparr>bs_events := bs_events b1 @ [row], bs_events_seq := bs_events_seq b1 + 1\<rparr>)
       (er_partition_key row) (er_partition_offset row) (er_event_id row) (er_event_hash row)"

lemma bus_append_eq:
  assumes "get_or_create_partition b pk (ob_created_at obs) = ((off, eid, h), b1)"
    and "ordered_now sha256 (case clock of Some c \<Rightarrow> c | None \<Rightarrow> new_clock ''eventbus'' (ob_clock_created obs))
           (ob_now obs) = Inr marker"
  shows "bus_append sha256 et pk payload tenant actor corr clock obs b =
    (let e = make_event sha256 (new_header sha256 et pk payload tenant actor corr marker (off + 1) h) payload [];
         row = new_row (bs_events_seq b1 + 1) e
     in if \<exists>x \<in> set (bs_events b1). event_clash x row then Inl IntegrityError
        else Inr (e, after_append b1 row))"
  using assms
  by (simp add: bus_append_def new_header_def new_row_def after_append_def sql_insert_def Let_def
      event_row_of_def del: canonical.simps)

lemma bus_append_cases:
  assumes "bus_append sha256 et pk payload tenant actor corr clock obs b = Inr (e, b')"
  obtains marker off eid h b1 where
    "get_or_create_partition b pk (ob_created_at obs) = ((off, eid, h), b1)"
    "e = make_event sha256 (new_header sha256 et pk payload tenant actor corr marker (off + 1) h) payload []"
    "\<not> (\<exists>x \<in> set (bs_events b1). event_clash x (new_row (bs_events_seq b1 + 1) e))"
    "b' = after_append b1 (new_row (bs_events_seq b1 + 1) e)"
proof -
  obtain off eid h b1 where g: "get_or_create_partition b pk (ob_created_at obs) = ((off, eid, h), b1)"
    by (metis prod.exhaust)
  obtain marker where m: "ordered_now sha256
      (case clock of Some c \<Rightarrow> c | None \<Rightarrow> new_clock ''eventbus'' (ob_clock_created obs)) (ob_now obs) = Inr marker"
    using assms by (auto simp: bus_append_def res_simps Let_def)
  show ?thesis
    using assms that [OF g] unfolding bus_append_eq [OF g m] by (auto simp: Let_def split: if_splits)
qed

lemma new_row_fields [simp]:
  "er_global_offset (new_row g e) = g"
  "er_event_id (new_row g e) = eh_event_id (ev_header e)"
  "er_partition_key (new_row g e) = eh_partition_key (ev_header e)"
  "er_partition_offset (new_row g e) = eh_partition_offset (ev_header e)"
  "er_previous_event_hash (new_row g e) = eh_previous_event_hash (ev_header e)"
  "er_author_tenant_id (new_row g e) = eh_author_tenant_id (ev_header e)"
  "er_event_hash (new_row g e) = ev_hash e"
  by (simp_all add: new_row_def event_row_of_def)

lemma new_header_fields [simp]:
  "eh_event_id (new_header sha256 et pk payload tenant actor corr marker off h) = event_id_of tenant pk off"
  "eh_partition_key (new_header sha256 et pk payload tenant actor corr marker off h) = pk"
  "eh_partition_offset (new_header sha256 et pk payload tenant actor corr marker off h) = off"
  "eh_previous_event_hash (new_header sha256 et pk payload tenant actor corr marker off h) = h"
  "eh_author_tenant_id (new_header sha256 et pk payload tenant actor corr marker off h) = tenant"
  by (simp_all add: new_header_def)

lemma row_to_event_new_row:
  assumes "py_wf (PDict p)"
  shows "row_to_event sha256 (new_row g (make_event sha256 h p [])) =
    Inr \<lparr>ev_header = h, ev_payload = stored_payload p, ev_hash = sha256 (hashed_text h p)\<rparr>"
    (is "row_to_event sha256 ?r = _")
proof -
  have h: "header_of_row (eh_event_type h) ?r = h"
    by (simp add: header_of_row_def new_row_def event_row_of_def)
  have "row_to_event sha256 ?r = Inr \<lparr>ev_header = header_of_row (eh_event_type h) ?r,
      ev_payload = stored_payload p, ev_hash = er_event_hash ?r\<rparr>"
    using assms by (intro row_to_event_ok) (simp_all only: h, simp_all add: new_row_def event_row_of_def)
  then show ?thesis by (simp add: h)
qed

lemma row_ok_new_row:
  assumes "py_wf (PDict p)" "eh_payload_hash h = sha256 (dumps_compact (canonical (PDict p)))"
    "eh_event_id h = event_id_of (eh_author_tenant_id h) (eh_partition_key h) (eh_partition_offset h)"
  shows "row_ok sha256 (new_row g (make_event sha256 h p []))" (is "row_ok sha256 ?r")
proof -
  have h: "header_of_row (eh_event_type h) ?r = h"
    by (simp add: header_of_row_def new_row_def event_row_of_def)
  show ?thesis
    unfolding row_ok_def
    using assms by (intro exI [of _ "eh_event_type h"] exI [of _ p])
      (simp only: h, simp add: new_row_def event_row_of_def del: canonical.simps)
qed

lemma part_rows_after_append:
  "part_rows (after_append b1 row) pk =
     (if er_partition_key row = pk then part_rows b1 pk @ [row] else part_rows b1 pk)"
  by (simp add: part_rows_def after_append_def set_partition_def)

lemma after_append_partition_inv:
  assumes inv: "partition_inv b1 pk"
    and m: "find_partition b1 (er_partition_key row) = Some m"
    and row: "er_partition_key row = pk \<Longrightarrow> er_partition_offset row = pr_current_offset m + 1"
      "er_partition_key row = pk \<Longrightarrow> er_previous_event_hash row = pr_last_event_hash m"
  shows "partition_inv (after_append b1 row) pk"
proof (cases "er_partition_key row = pk")
  case True
  then have h: "head_ok (part_rows b1 pk) (Some m)" using inv m by (simp add: partition_inv_def)
  then have "offsets_dense (part_rows b1 pk @ [row])"
    using inv row(1) [OF True] by (intro offsets_dense_snoc) (auto simp: partition_inv_def head_ok_def)
  moreover have "linked er_event_hash er_previous_event_hash (part_rows b1 pk @ [row])"
    using inv h row(2) [OF True] by (auto simp: partition_inv_def head_ok_def linked_snoc)
  moreover have "er_previous_event_hash (hd (part_rows b1 pk @ [row])) = []"
    using inv h row(2) [OF True] by (cases "part_rows b1 pk") (auto simp: partition_inv_def head_ok_def)
  moreover have "find_partition (after_append b1 row) pk = Some (m\<lparr>pr_current_offset := er_partition_offset row,
      pr_last_event_id := er_event_id row, pr_last_event_hash := er_event_hash row\<rparr>)"
    using m True
    by (simp add: after_append_def find_partition_set) (simp add: find_partition_def)
  ultimately show ?thesis
    using h row(1) [OF True] True by (simp add: partition_inv_def part_rows_after_append head_ok_def)
next
  case False
  then have "find_partition (after_append b1 row) pk = find_partition b1 pk"
    by (simp add: after_append_def find_partition_set) (simp add: find_partition_def)
  with inv False show ?thesis by (simp add: partition_inv_def part_rows_after_append)
qed

lemma bus_append_inv:
  assumes inv: "bus_inv sha256 b" and wf: "py_wf (PDict payload)"
    and app: "bus_append sha256 et pk payload tenant actor corr clock obs b = Inr (e, b')"
  shows "bus_inv sha256 b'"
proof -
  from app obtain marker off eid h b1 where
    g: "get_or_create_partition b pk (ob_created_at obs) = ((off, eid, h), b1)"
    and e: "e = make_event sha256 (new_header sha256 et pk payload tenant actor corr marker (off + 1) h) payload []"
    and fresh: "\<not> (\<exists>x \<in> set (bs_events b1). event_clash x (new_row (bs_events_seq b1 + 1) e))"
    and b': "b' = after_append b1 (new_row (bs_events_seq b1 + 1) e)"
    by (rule bus_append_cases)
  let ?row = "new_row (bs_events_seq b1 + 1) e"
  have inv1: "bus_inv sha256 b1" using inv g by (rule get_or_create_partition_inv)
  obtain m where m: "find_partition b1 pk = Some m" "off = pr_current_offset m" "h = pr_last_event_hash m"
    using get_or_create_partition(3) [OF g] by auto
  have "partition_inv b' pk'" for pk'
    unfolding b' using inv1 m
    by (intro after_append_partition_inv [where m = m]) (auto simp: e bus_inv_def)
  moreover have "row_ok sha256 ?row"
    unfolding e using wf by (intro row_ok_new_row) (simp_all add: new_header_def)
  moreover have "bs_events b' = bs_events b1 @ [?row]" "bs_events_seq b' = bs_events_seq b1 + 1"
    by (simp_all add: b' after_append_def set_partition_def)
  moreover have "er_event_id ?row \<notin> er_event_id ` set (bs_events b1)"
    using fresh by (auto simp: event_clash_def)
  ultimately show ?thesis
    using inv1 by (simp add: bus_inv_def del: upt_Suc add: upt_Suc_append)
qed

section \<open>Reachable storages\<close>

inductive bus_reach :: "(string \<Rightarrow> string) \<Rightarrow> bus_state \<Rightarrow> bool" for sha256 where
  reach_empty: "bus_reach sha256 empty_bus"
| reach_append: "bus_reach sha256 b \<Longrightarrow> py_wf (PDict payload) \<Longrightarrow>
    bus_append sha256 et pk payload tenant actor corr clock obs b = Inr (e, b') \<Longrightarrow> bus_reach sha256 b'"
| reach_partition: "bus_reach sha256 b \<Longrightarrow>
    get_or_create_partition b pk now = (head, b') \<Longrightarrow> bus_reach sha256 b'"
| reach_checkpoint: "bus_reach sha256 b \<Longrightarrow> bus_reach sha256 (write_checkpoint b c)"
| reach_epoch: "bus_reach sha256 b \<Longrightarrow>
    establish_epoch sha256 n who md obs b = Inr (i, b') \<Longrightarrow> bus_reach sha256 b'"

lemma bus_reach_inv: "bus_reach sha256 b \<Longrightarrow> bus_inv sha256 b"
proof (induction rule: bus_reach.induct)
  case reach_empty
  show ?case by (rule bus_inv_empty)
next
  case (reach_partition b pk now head b')
  then show ?case by (cases head) (auto intro: get_or_create_partition_inv)
qed (auto intro: bus_append_inv write_checkpoint_inv establish_epoch_inv)

section \<open>What reads return\<close>

lemma offsets_dense_sorted: "offsets_dense rs \<Longrightarrow> sorted (map er_partition_offset rs)"
  by (simp add: offsets_dense_def sorted_map del: upt_Suc)

lemma bus_inv_part_rows:
  assumes "bus_inv sha256 b"
  shows "offsets_dense (part_rows b pk)" "linked er_event_hash er_previous_event_hash (part_rows b pk)"
    "\<And>r. r \<in> set (part_rows b pk) \<Longrightarrow> row_ok sha256 r"
    "head_ok (part_rows b pk) (find_partition b pk)"
  using assms by (auto simp: bus_inv_def partition_inv_def part_rows_def)

lemma sort_part_rows:
  assumes "bus_inv sha256 b"
  shows "sort_key er_partition_offset (filter (\<lambda>r. er_partition_key r = pk \<and> P r) (bs_events b)) =
    filter P (part_rows b pk)"
proof -
  have "filter (\<lambda>r. er_partition_key r = pk \<and> P r) (bs_events b) = filter P (part_rows b pk)"
    by (simp add: part_rows_def conj_commute)
  moreover have "sorted (map er_partition_offset (part_rows b pk))"
    using bus_inv_part_rows(1) [OF assms] by (rule offsets_dense_sorted)
  then have "sorted (map er_partition_offset (filter P (part_rows b pk)))"
    by (rule sorted_filter)
  ultimately show ?thesis by (simp add: sort_key_id_if_sorted)
qed

lemma res_map_decode:
  "(\<And>r. r \<in> set rs \<Longrightarrow> row_ok sha256 r) \<Longrightarrow> res_map (row_to_event sha256) rs = Inr (map (decode sha256) rs)"
  by (intro res_map_Inr) (simp add: decode_ok(1))

lemma read_partition_log:
  assumes inv: "bus_inv sha256 b"
  shows "read_partition sha256 b pk start limit tf =
    Inr (sql_limit limit (filter (\<lambda>e. start \<le> eh_partition_offset (ev_header e) \<and>
      tenant_ok tf (eh_author_tenant_id (ev_header e))) (part_log sha256 b pk)))"
proof -
  let ?P = "\<lambda>r. start \<le> er_partition_offset r \<and> tenant_ok tf (er_author_tenant_id r)"
  let ?Q = "\<lambda>e. start \<le> eh_partition_offset (ev_header e) \<and> tenant_ok tf (eh_author_tenant_id (ev_header e))"
  have ok: "row_ok sha256 r" if "r \<in> set (part_rows b pk)" for r
    using bus_inv_part_rows(3) [OF inv that] .
  then have "res_map (row_to_event sha256) (sql_limit limit (filter ?P (part_rows b pk))) =
      Inr (map (decode sha256) (sql_limit limit (filter ?P (part_rows b pk))))"
    by (intro res_map_decode) (use set_sql_limit in fastforce)
  moreover have "filter ?Q (part_log sha256 b pk) = map (decode sha256) (filter ?P (part_rows b pk))"
    using ok by (auto simp: part_log_def filter_map intro!: map_cong filter_cong)
  ultimately show ?thesis
    unfolding read_partition_def sort_part_rows [OF inv] by (simp add: sql_limit_map)
qed

lemma part_log_offsets:
  assumes "bus_inv sha256 b"
  shows "map (\<lambda>e. eh_partition_offset (ev_header e)) (part_log sha256 b pk) =
    map int [1..<Suc (length (part_log sha256 b pk))]"
proof -
  have "map (\<lambda>e. eh_partition_offset (ev_header e)) (part_log sha256 b pk) = map er_partition_offset (part_rows b pk)"
    using bus_inv_part_rows(3) [OF assms] by (simp add: part_log_def)
  with bus_inv_part_rows(1) [OF assms] show ?thesis by (simp add: offsets_dense_def part_log_def del: upt_Suc)
qed

lemma get_partition_tail_log:
  assumes inv: "bus_inv sha256 b" and n: "0 \<le> n"
  shows "get_partition_tail sha256 b pk n =
    Inr (drop (length (part_log sha256 b pk) - nat n) (part_log sha256 b pk))"
proof -
  have s: "sort_key er_partition_offset (filter (\<lambda>r. er_partition_key r = pk) (bs_events b)) = part_rows b pk"
    using sort_part_rows [OF inv, of pk "\<lambda>_. True"] by simp
  have "res_map (row_to_event sha256) (sql_limit n (rev (part_rows b pk))) =
      Inr (map (decode sha256) (sql_limit n (rev (part_rows b pk))))"
    using bus_inv_part_rows(3) [OF inv] set_sql_limit by (intro res_map_decode) fastforce
  then show ?thesis
    using n by (simp add: get_partition_tail_def s sql_limit_def part_log_def rev_map drop_map flip: rev_drop)
       (simp add: take_rev)
qed

section \<open>Chain verification\<close>

lemma chain_errors_empty:
  "chain_errors sha256 prev es = [] \<longleftrightarrow>
    (\<forall>e \<in> set es. ev_hash e = compute_hash sha256 e) \<and>
    linked ev_hash (\<lambda>e. eh_previous_event_hash (ev_header e)) (case prev of None \<Rightarrow> es | Some p \<Rightarrow> p # es)"
proof (induction es arbitrary: prev)
  case Nil
  then show ?case by (cases prev) auto
next
  case (Cons e es)
  show ?case using Cons.IH [of "Some e"] by (cases prev) (auto simp: Let_def)
qed

lemma part_log_linked:
  assumes "bus_inv sha256 b"
  shows "linked ev_hash (\<lambda>e. eh_previous_event_hash (ev_header e)) (part_log sha256 b pk)"
  using bus_inv_part_rows(2,3) [OF assms] unfolding part_log_def
  by (subst linked_map) (auto simp: decode_ok(3))

lemma part_log_hashes:
  "bus_inv sha256 b \<Longrightarrow> e \<in> set (part_log sha256 b pk) \<Longrightarrow> ev_hash e = compute_hash sha256 e"
  by (auto simp: part_log_def decode_ok(2) dest: bus_inv_part_rows(3))

lemma verify_chain_ok:
  assumes "bus_inv sha256 b"
  shows "verify_partition_chain sha256 b pk = Inr (True, [])"
proof -
  let ?log = "part_log sha256 b pk"
  have "filter (\<lambda>e. 1 \<le> eh_partition_offset (ev_header e)) ?log = ?log"
  proof (rule filter_True, rule ballI)
    fix e assume "e \<in> set ?log"
    then have "eh_partition_offset (ev_header e) \<in> set (map int [1..<Suc (length ?log)])"
      by (subst part_log_offsets [OF assms, symmetric]) simp
    then show "1 \<le> eh_partition_offset (ev_header e)" by auto
  qed
  then have "read_partition sha256 b pk 1 1000000 None = Inr (take 1000000 ?log)"
    by (simp add: read_partition_log [OF assms] tenant_ok_def sql_limit_def)
  moreover have "chain_errors sha256 None (take 1000000 ?log) = []"
    using part_log_hashes [OF assms] linked_take [OF part_log_linked [OF assms]]
    by (auto simp: chain_errors_empty dest: in_set_takeD)
  ultimately show ?thesis by (simp add: verify_partition_chain_def)
qed

end
