(* ===== verification/Event_Bus_Theorems.thy ===== *)
theory Event_Bus_Theorems
  imports Event_Bus_Correct
begin

text \<open>
  What the event bus promises its clients: chain verification succeeds on every reachable
  storage; a trusted last hash determines the whole partition; an append is read back, in
  its place, and no other partition changes; it is refused only when the event id is
  taken; hashes and identifiers do not depend on the clocks; reads are slices of the log.
\<close>

section \<open>The hash chain of a partition\<close>

lemma header_identity_wf [simp]: "py_wf (header_identity h)" "set_free (header_identity h)"
  by (simp_all add: header_identity_def)

lemma header_identity_inj:
  assumes "json_norm (header_identity g) = json_norm (header_identity h)"
  shows "header_identity g = header_identity h"
proof -
  note l = json_norm_dict_lookup [OF assms [unfolded header_identity_def]]
  show ?thesis
    using l [of "''event_type''"] l [of "''partition_key''"] l [of "''partition_offset''"]
      l [of "''author_tenant_id''"] l [of "''author_actor_id''"] l [of "''correlation_id''"]
      l [of "''previous_event_hash''"] l [of "''payload_hash''"]
    by (simp add: header_identity_def)
qed

lemma delimited_dict: "delimited (json_dumps isep ksep (canonical (PDict p)))"
  by simp

lemma hashed_text_inj:
  assumes "hashed_text g p = hashed_text h q"
  shows "header_identity g = header_identity h"
    and "dumps_compact (canonical (PDict p)) = dumps_compact (canonical (PDict q))"
proof -
  have "json_norm (header_identity g) = json_norm (header_identity h) \<and>
      dumps_compact (canonical (PDict p)) = dumps_compact (canonical (PDict q))"
    using assms unfolding hashed_text_def dumps_compact_def
    by (intro dumps_append_inj) (simp_all del: canonical.simps add: delimited_dict)
  then show "header_identity g = header_identity h"
    "dumps_compact (canonical (PDict p)) = dumps_compact (canonical (PDict q))"
    by (auto dest: header_identity_inj)
qed

lemma header_identity_prev:
  "header_identity g = header_identity h \<Longrightarrow> eh_previous_event_hash g = eh_previous_event_hash h"
  by (simp add: header_identity_def)

interpretation bus_chain: hash_chain ev_hash "\<lambda>e. eh_previous_event_hash (ev_header e)" sha256
    "\<lambda>e. hashed_text (ev_header e) (ev_payload e)" for sha256 :: "string \<Rightarrow> string"
  by unfold_locales (auto dest: hashed_text_inj header_identity_prev)

text \<open>An event read from storage carries a payload that \<open>json.loads\<close> produced.\<close>

lemma make_event_fields [simp]:
  "ev_header (make_event sha256 h p eh) = h" "ev_payload (make_event sha256 h p eh) = p"
  by (simp_all add: make_event_def Let_def)

lemma row_to_event_payload:
  assumes "row_to_event sha256 r = Inr e"
  shows "py_wf (PDict (ev_payload e)) \<and> set_free (PDict (ev_payload e))"
proof -
  obtain v where v: "json_loads (er_payload_json r) = Inr v"
    using assms by (auto simp: row_to_event_def res_simps)
  then have "v = PDict (ev_payload e)"
    using assms by (cases v) (auto simp: row_to_event_def res_simps)
  with json_loads_wf [OF v] show ?thesis by simp
qed

lemma read_partition_payload:
  assumes "read_partition sha256 b pk start limit tf = Inr es" and "e \<in> set es"
  shows "py_wf (PDict (ev_payload e))" "set_free (PDict (ev_payload e))"
proof -
  have "\<exists>r. row_to_event sha256 r = Inr e"
    using assms res_map_set by (fastforce simp: read_partition_def)
  then show "py_wf (PDict (ev_payload e))" "set_free (PDict (ev_payload e))"
    using row_to_event_payload by blast+
qed

lemma canonical_text_inj:
  assumes "py_wf v" "set_free v" "py_wf w" "set_free w"
    and "dumps_compact (canonical v) = dumps_compact (canonical w)"
  shows "json_norm v = json_norm w"
  using dumps_inj [of "'',''" "'':''" "canonical v" "canonical w"] assms
  by (simp add: dumps_compact_def json_norm_canonical)

lemma map_eq_nth: "map f xs = map f ys \<Longrightarrow> i < length ys \<Longrightarrow> f (xs ! i) = f (ys ! i)"
  by (simp add: list_eq_iff_nth_eq)

section \<open>Outcome of an append\<close>

lemma read_all_log:
  assumes "bus_inv sha256 b"
  shows "read_partition sha256 b pk 1 n None = Inr (sql_limit n (part_log sha256 b pk))"
proof -
  have "1 \<le> eh_partition_offset (ev_header e)" if "e \<in> set (part_log sha256 b pk)" for e
  proof -
    have "eh_partition_offset (ev_header e) \<in> set (map int [1..<Suc (length (part_log sha256 b pk))])"
      using that by (subst part_log_offsets [OF assms, symmetric]) simp
    then show ?thesis by auto
  qed
  then show ?thesis by (simp add: read_partition_log [OF assms] tenant_ok_def)
qed

lemma get_or_create_offset:
  assumes "bus_inv sha256 b" and "get_or_create_partition b pk now = ((off, eid, h), b1)"
  shows "off = int (length (part_log sha256 b pk))"
proof -
  obtain m where "find_partition b1 pk = Some m" "off = pr_current_offset m"
    using get_or_create_partition(3) [OF assms(2)] by auto
  moreover have "head_ok (part_rows b pk) (find_partition b1 pk)"
    using bus_inv_part_rows(4) [OF get_or_create_partition_inv [OF assms], of pk]
    by (simp add: part_rows_cong [OF get_or_create_partition(1) [OF assms(2)]])
  ultimately show ?thesis by (simp add: head_ok_def part_log_def)
qed

lemma dense_offset_fresh:
  assumes "bus_inv sha256 b" "r \<in> set (bs_events b)"
  shows "er_partition_offset r \<le> int (length (part_rows b (er_partition_key r)))"
proof -
  let ?rs = "part_rows b (er_partition_key r)"
  have "r \<in> set ?rs" using assms(2) by (simp add: part_rows_def)
  then have "er_partition_offset r \<in> set (map er_partition_offset ?rs)" by simp
  also have "set (map er_partition_offset ?rs) = set (map int [1..<Suc (length ?rs)])"
    using bus_inv_part_rows(1) [OF assms(1), of "er_partition_key r"] by (simp only: offsets_dense_def)
  finally show ?thesis by auto
qed

lemma bus_append_outcome:
  assumes inv: "bus_inv sha256 b"
    and m: "ordered_now sha256 (case clock of Some c \<Rightarrow> c | None \<Rightarrow> new_clock ''eventbus'' (ob_clock_created obs))
           (ob_now obs) = Inr marker"
  shows "bus_append sha256 et pk payload tenant actor corr clock obs b =
    (if event_id_of tenant pk (int (length (part_log sha256 b pk)) + 1) \<in> er_event_id ` set (bs_events b)
     then Inl IntegrityError
     else let (head, b1) = get_or_create_partition b pk (ob_created_at obs);
              e = make_event sha256 (new_header sha256 et pk payload tenant actor corr marker
                    (int (length (part_log sha256 b pk)) + 1) (snd (snd head))) payload []
          in Inr (e, after_append b1 (new_row (bs_events_seq b1 + 1) e)))"
proof -
  obtain off eid h b1 where g: "get_or_create_partition b pk (ob_created_at obs) = ((off, eid, h), b1)"
    by (metis prod.exhaust)
  note off = get_or_create_offset [OF inv g] and ev = get_or_create_partition(1) [OF g]
  let ?row = "new_row (bs_events_seq b1 + 1) (make_event sha256
    (new_header sha256 et pk payload tenant actor corr marker (off + 1) h) payload [])"
  have "event_clash x ?row \<longleftrightarrow> er_event_id x = event_id_of tenant pk (off + 1)" if "x \<in> set (bs_events b)" for x
    using dense_offset_fresh [OF inv that] off by (auto simp: event_clash_def part_log_def)
  then have "(\<exists>x \<in> set (bs_events b1). event_clash x ?row) \<longleftrightarrow>
      event_id_of tenant pk (off + 1) \<in> er_event_id ` set (bs_events b)"
    unfolding ev by (metis (no_types, lifting) image_iff)
  then show ?thesis
    unfolding bus_append_eq [OF g m] by (simp add: g off Let_def)
qed

lemma event_id_of_inj:
  assumes "CHR ''_'' \<notin> set t" "CHR ''_'' \<notin> set u" "event_id_of t p i = event_id_of u q j"
  shows "t = u \<and> p = q \<and> i = j"
proof -
  have "t = u" "p @ CHR ''_'' # show_int i = q @ CHR ''_'' # show_int j"
    using assms by (simp_all add: event_id_of_def split_first)
  moreover have "CHR ''_'' \<notin> set (show_int n)" for n
    by (rule show_int_no_sep) (simp_all add: is_digit_def)
  ultimately show ?thesis by (simp add: split_last)
qed

lemma id_fresh_no_underscore:
  assumes inv: "bus_inv sha256 b" and t: "CHR ''_'' \<notin> set tenant"
    and ts: "\<forall>r \<in> set (bs_events b). CHR ''_'' \<notin> set (er_author_tenant_id r)"
  shows "event_id_of tenant pk (int (length (part_log sha256 b pk)) + 1) \<notin> er_event_id ` set (bs_events b)"
proof
  assume "event_id_of tenant pk (int (length (part_log sha256 b pk)) + 1) \<in> er_event_id ` set (bs_events b)"
  then obtain r where r: "r \<in> set (bs_events b)"
    "er_event_id r = event_id_of tenant pk (int (length (part_log sha256 b pk)) + 1)" by auto
  have "er_event_id r = event_id_of (er_author_tenant_id r) (er_partition_key r) (er_partition_offset r)"
    using inv r(1) by (auto simp: bus_inv_def row_ok_def)
  with r(2) have "er_partition_key r = pk" "er_partition_offset r = int (length (part_log sha256 b pk)) + 1"
    using event_id_of_inj t ts r(1) by metis+
  with dense_offset_fresh [OF inv r(1)] show False by (simp add: part_log_def)
qed

section \<open>The log after an append\<close>

lemma part_log_after_append:
  assumes "bus_append sha256 et pk payload tenant actor corr clock obs b = Inr (e, b')"
    and wf: "py_wf (PDict payload)"
  shows "part_log sha256 b' pk' = part_log sha256 b pk' @ (if pk' = pk then [e\<lparr>ev_payload := stored_payload payload\<rparr>] else [])"
    and "\<exists>r. bs_events b' = bs_events b @ [r] \<and> er_event_id r = eh_event_id (ev_header e) \<and>
      row_to_event sha256 r = Inr (e\<lparr>ev_payload := stored_payload payload\<rparr>)"
    and "er_event_id ` set (bs_events b') = insert (eh_event_id (ev_header e)) (er_event_id ` set (bs_events b))"
    and "eh_event_id (ev_header e) \<notin> er_event_id ` set (bs_events b)"
proof -
  from assms(1) obtain marker off eid h b1 where
    g: "get_or_create_partition b pk (ob_created_at obs) = ((off, eid, h), b1)"
    and e: "e = make_event sha256 (new_header sha256 et pk payload tenant actor corr marker (off + 1) h) payload []"
    and fresh: "\<not> (\<exists>x \<in> set (bs_events b1). event_clash x (new_row (bs_events_seq b1 + 1) e))"
    and b': "b' = after_append b1 (new_row (bs_events_seq b1 + 1) e)"
    by (rule bus_append_cases)
  note ev = get_or_create_partition(1) [OF g]
  have d: "row_to_event sha256 (new_row (bs_events_seq b1 + 1) e) = Inr (e\<lparr>ev_payload := stored_payload payload\<rparr>)"
    unfolding e using row_to_event_new_row [OF wf] by (simp add: make_event_def compute_hash_def Let_def)
  have pk: "eh_partition_key (ev_header e) = pk" by (simp add: e)
  show "part_log sha256 b' pk' = part_log sha256 b pk' @ (if pk' = pk then [e\<lparr>ev_payload := stored_payload payload\<rparr>] else [])"
    using pk by (auto simp: b' part_log_def part_rows_after_append part_rows_cong [OF ev] decode_def d)
  have "bs_events b' = bs_events b @ [new_row (bs_events_seq b1 + 1) e]"
    by (simp add: b' after_append_def set_partition_def ev)
  then show "\<exists>r. bs_events b' = bs_events b @ [r] \<and> er_event_id r = eh_event_id (ev_header e) \<and>
      row_to_event sha256 r = Inr (e\<lparr>ev_payload := stored_payload payload\<rparr>)"
    "er_event_id ` set (bs_events b') = insert (eh_event_id (ev_header e)) (er_event_id ` set (bs_events b))"
    using d by auto
  show "eh_event_id (ev_header e) \<notin> er_event_id ` set (bs_events b)"
    using fresh by (auto simp: event_clash_def ev)
qed

section \<open>An example storage\<close>

definition example_obs :: "nat \<Rightarrow> append_obs" where
  "example_obs us = \<lparr>ob_clock_created = example_reading 0, ob_now = example_reading us,
     ob_created_at = DateTime 2026 1 2 3 4 5 us\<rparr>"

definition example_payload :: payload where
  "example_payload = [(''path'', PStr ''a.txt''), (''size'', PInt 7)]"

definition example_append :: "nat \<Rightarrow> string \<Rightarrow> string \<Rightarrow> bus_state \<Rightarrow> (domain_event \<times> bus_state) result" where
  "example_append us tenant pk b = bus_append id ARTIFACT_CREATED pk example_payload tenant ''actor'' ''corr''
     (Some example_clock) (example_obs us) b"

text \<open>One event of tenant \<open>acme\<close> in partition \<open>p\<close>, appended in the given microsecond.\<close>

definition example_bus :: "nat \<Rightarrow> bus_state" where
  "example_bus us = snd (projr (example_append us ''acme'' ''p'' empty_bus))"

definition example_event :: "nat \<Rightarrow> domain_event" where
  "example_event us = fst (projr (example_append us ''acme'' ''p'' empty_bus))"

lemma example_now: "us < 1000000 \<Longrightarrow> ordered_now sha256 example_clock (ob_now (example_obs us)) =
    Inr (make_marker sha256 (trunc_dt (DateTime 2026 1 2 3 4 5 us)) 1 ''eventbus'')"
  using example_clock_now [of us] by (simp add: example_obs_def)

lemma example_payload_wf: "py_wf (PDict example_payload)"
  by (simp add: example_payload_def)

lemma example_append_ok:
  assumes "us < 1000000" "bus_inv id b" "CHR ''_'' \<notin> set tenant"
    "\<forall>r \<in> set (bs_events b). CHR ''_'' \<notin> set (er_author_tenant_id r)"
  shows "\<exists>e b'. example_append us tenant pk b = Inr (e, b')"
  using id_fresh_no_underscore [OF assms(2-)]
  by (simp add: example_append_def bus_append_outcome [OF assms(2)] example_now [OF assms(1)] Let_def case_prod_beta)

lemma example_append: "us < 1000000 \<Longrightarrow>
    example_append us ''acme'' ''p'' empty_bus = Inr (example_event us, example_bus us)"
  using example_append_ok [OF _ bus_inv_empty, of us "''acme''" "''p''"]
  by (auto simp: example_event_def example_bus_def empty_bus_def)

lemmas example_append_bus = example_append [unfolded example_append_def]

lemma example_reach: "us < 1000000 \<Longrightarrow> bus_reach id (example_bus us)"
  by (rule reach_append [OF reach_empty example_payload_wf example_append_bus])

lemma example_log: "us < 1000000 \<Longrightarrow> part_log id (example_bus us) ''p'' =
    [(example_event us)\<lparr>ev_payload := stored_payload example_payload\<rparr>]"
  using part_log_after_append(1) [OF example_append_bus example_payload_wf, of us "''p''"]
  by (simp add: part_log_def part_rows_def empty_bus_def)

section \<open>Histories up to clock readings\<close>

definition untimed_row :: "event_row \<Rightarrow> event_row" where
  "untimed_row r = r\<lparr>er_timestamp := [], er_ordering_key := []\<rparr>"

definition untimed_part :: "partition_row \<Rightarrow> partition_row" where
  "untimed_part r = r\<lparr>pr_created_at := []\<rparr>"

definition same_history :: "bus_state \<Rightarrow> bus_state \<Rightarrow> bool" where
  "same_history b c \<longleftrightarrow> map untimed_row (bs_events b) = map untimed_row (bs_events c) \<and>
     bs_events_seq b = bs_events_seq c \<and>
     map untimed_part (bs_partitions b) = map untimed_part (bs_partitions c)"

definition untimed_event :: "domain_event \<Rightarrow> domain_event" where
  "untimed_event e = e\<lparr>ev_header := (ev_header e)\<lparr>eh_timestamp := [], eh_ordering_key := []\<rparr>\<rparr>"

lemma find_map_agree:
  assumes "map f xs = map f ys" "\<And>x. P (f x) = P x"
  shows "map_option f (find P xs) = map_option f (find P ys)"
  using assms(1)
proof (induction xs arbitrary: ys)
  case (Cons x xs)
  then obtain y ys' where y: "ys = y # ys'" "f x = f y" "map f xs = map f ys'" by (cases ys) auto
  have "P x = P y" using assms(2) [of x] assms(2) [of y] y(2) by simp
  then show ?case using Cons.IH [OF y(3)] y by simp
qed simp

lemma same_history_partition:
  "same_history b c \<Longrightarrow> map_option untimed_part (find_partition b pk) = map_option untimed_part (find_partition c pk)"
  unfolding find_partition_def same_history_def by (intro find_map_agree) (auto simp: untimed_part_def)

lemma untimed_part_fields:
  "untimed_part m = untimed_part n \<Longrightarrow> pr_current_offset m = pr_current_offset n \<and>
    pr_last_event_id m = pr_last_event_id n \<and> pr_last_event_hash m = pr_last_event_hash n"
  by (cases m; cases n) (simp add: untimed_part_def)

lemma untimed_part_make [simp]:
  "untimed_part \<lparr>pr_partition_key = pk, pr_current_offset = a, pr_last_event_id = i,
      pr_last_event_hash = h, pr_created_at = t\<rparr> =
    \<lparr>pr_partition_key = pk, pr_current_offset = a, pr_last_event_id = i,
      pr_last_event_hash = h, pr_created_at = []\<rparr>"
  by (simp add: untimed_part_def)

lemma same_history_get_or_create:
  assumes "same_history b c" "get_or_create_partition b pk now = (hb, b1)" "get_or_create_partition c pk now' = (hc, c1)"
  shows "hb = hc \<and> same_history b1 c1"
  using same_history_partition [OF assms(1), of pk] assms
  by (cases "find_partition b pk"; cases "find_partition c pk")
     (auto simp: get_or_create_partition_def same_history_def dest!: untimed_part_fields)

lemma untimed_set_partition:
  "map untimed_part (bs_partitions (set_partition b pk a i h)) =
   map (\<lambda>r. if pr_partition_key r = pk
            then r\<lparr>pr_current_offset := a, pr_last_event_id := i, pr_last_event_hash := h\<rparr> else r)
     (map untimed_part (bs_partitions b))"
  by (auto simp: set_partition_def sql_update_def untimed_part_def)

lemma same_history_after:
  assumes "same_history b c" "untimed_row r = untimed_row s"
  shows "same_history (after_append b r) (after_append c s)"
proof -
  have "er_partition_key r = er_partition_key s" "er_partition_offset r = er_partition_offset s"
    "er_event_id r = er_event_id s" "er_event_hash r = er_event_hash s"
    using assms(2) by (cases r; cases s; simp add: untimed_row_def)+
  then show ?thesis
    using assms unfolding same_history_def after_append_def untimed_set_partition
    by (simp add: set_partition_def)
qed

lemma hashed_text_untimed:
  "hashed_text (h\<lparr>eh_timestamp := t, eh_ordering_key := k\<rparr>) p = hashed_text h p"
  by (simp add: hashed_text_def header_identity_def)

lemma bus_append_untimed:
  assumes "same_history b c"
    and "bus_append sha256 et pk payload tenant actor corr clk1 obs1 b = Inr (e, b')"
    and "bus_append sha256 et pk payload tenant actor corr clk2 obs2 c = Inr (f, c')"
  shows "same_history b' c' \<and> untimed_event e = untimed_event f"
proof -
  from assms(2) obtain m1 o1 i1 h1 b1 where
    b: "get_or_create_partition b pk (ob_created_at obs1) = ((o1, i1, h1), b1)"
      "e = make_event sha256 (new_header sha256 et pk payload tenant actor corr m1 (o1 + 1) h1) payload []"
      "b' = after_append b1 (new_row (bs_events_seq b1 + 1) e)"
    by (rule bus_append_cases)
  from assms(3) obtain m2 o2 i2 h2 c1 where
    c: "get_or_create_partition c pk (ob_created_at obs2) = ((o2, i2, h2), c1)"
      "f = make_event sha256 (new_header sha256 et pk payload tenant actor corr m2 (o2 + 1) h2) payload []"
      "c' = after_append c1 (new_row (bs_events_seq c1 + 1) f)"
    by (rule bus_append_cases)
  have s: "(o1, i1, h1) = (o2, i2, h2)" "same_history b1 c1"
    using same_history_get_or_create [OF assms(1) b(1) c(1)] by auto
  have ef: "untimed_event e = untimed_event f"
    using s(1) by (simp add: b(2) c(2) untimed_event_def make_event_def Let_def compute_hash_def
        hashed_text_def header_identity_def new_header_def del: canonical.simps)
  have "ev_payload e = ev_payload f" "bs_events_seq b1 = bs_events_seq c1"
    using s(2) by (simp_all add: b(2) c(2) same_history_def)
  then have "untimed_row (new_row (bs_events_seq b1 + 1) e) = untimed_row (new_row (bs_events_seq c1 + 1) f)"
    using s(1) ef by (simp add: b(2) c(2) untimed_row_def new_row_def event_row_of_def new_header_def
        hashed_text_def header_identity_def del: canonical.simps)
  with same_history_after [OF s(2)] ef show ?thesis by (simp add: b(3) c(3))
qed

text \<open>A client's sequence of appends, each with the clock it passes and what it observes.\<close>

record append_request =
  rq_event_type :: event_type
  rq_partition_key :: string
  rq_payload :: payload
  rq_tenant :: string
  rq_actor :: string
  rq_correlation :: string

fun append_all :: "(string \<Rightarrow> string) \<Rightarrow> (append_request \<times> det_clock option \<times> append_obs) list \<Rightarrow> bus_state \<Rightarrow>
    (domain_event list \<times> bus_state) result" where
  "append_all sha256 [] b = Inr ([], b)"
| "append_all sha256 ((q, clk, obs) # rs) b =
     res_bind (bus_append sha256 (rq_event_type q) (rq_partition_key q) (rq_payload q) (rq_tenant q)
         (rq_actor q) (rq_correlation q) clk obs b) (\<lambda>(e, b').
     res_bind (append_all sha256 rs b') (\<lambda>(es, b''). Inr (e # es, b'')))"

lemma append_all_untimed:
  "same_history b c \<Longrightarrow> map fst rs = map fst ss \<Longrightarrow>
    append_all sha256 rs b = Inr (es, b') \<Longrightarrow> append_all sha256 ss c = Inr (fs, c') \<Longrightarrow>
    same_history b' c' \<and> map untimed_event es = map untimed_event fs"
proof (induction rs arbitrary: ss b c es fs)
  case (Cons r rs)
  obtain q k1 o1 where r: "r = (q, k1, o1)" by (metis prod.exhaust)
  with Cons.prems(2) obtain k2 o2 ss' where ss: "ss = (q, k2, o2) # ss'" "map fst rs = map fst ss'"
    by (cases ss) auto
  from Cons.prems(3) [unfolded r] obtain e b1 es' where b: "bus_append sha256 (rq_event_type q) (rq_partition_key q)
      (rq_payload q) (rq_tenant q) (rq_actor q) (rq_correlation q) k1 o1 b = Inr (e, b1)"
    "append_all sha256 rs b1 = Inr (es', b')" "es = e # es'"
    by (auto simp: res_simps)
  from Cons.prems(4) [unfolded ss] obtain f c1 fs' where c: "bus_append sha256 (rq_event_type q) (rq_partition_key q)
      (rq_payload q) (rq_tenant q) (rq_actor q) (rq_correlation q) k2 o2 c = Inr (f, c1)"
    "append_all sha256 ss' c1 = Inr (fs', c')" "fs = f # fs'"
    by (auto simp: res_simps)
  note step = bus_append_untimed [OF Cons.prems(1) b(1) c(1)]
  show ?case using Cons.IH [OF _ ss(2) b(2) c(2)] step b(3) c(3) by simp
qed simp

lemma example_reads:
  "us < 1000000 \<Longrightarrow> read_partition id (example_bus us) ''p'' 1 1000000 None = Inr (part_log id (example_bus us) ''p'')"
  by (simp add: read_all_log [OF bus_reach_inv [OF example_reach]] example_log sql_limit_def)

lemma example_same_hash: "us < 1000000 \<Longrightarrow> vs < 1000000 \<Longrightarrow> ev_hash (example_event us) = ev_hash (example_event vs)"
  using bus_append_untimed [OF _ example_append_bus example_append_bus, of us vs]
  by (auto simp: same_history_def untimed_event_def dest: arg_cong [where f = ev_hash])

lemma append_event_id:
  assumes "bus_inv sha256 b" "bus_append sha256 et pk payload tenant actor corr clock obs b = Inr (e, b')"
  shows "eh_event_id (ev_header e) = event_id_of tenant pk (int (length (part_log sha256 b pk)) + 1)"
  using assms(2) by (rule bus_append_cases) (use get_or_create_offset [OF assms(1)] in simp)

lemma filter_ge_drop:
  assumes "\<And>i. i < length xs \<Longrightarrow> f (xs ! i) = int i + 1" "1 \<le> s"
  shows "filter (\<lambda>x. s \<le> f x) xs = drop (nat s - 1) xs"
proof -
  have "filter (\<lambda>x. s \<le> f x) (take (nat s - 1) xs) = []"
    using assms by (auto simp: filter_empty_conv in_set_conv_nth)
  moreover have "filter (\<lambda>x. s \<le> f x) (drop (nat s - 1) xs) = drop (nat s - 1) xs"
    using assms by (auto simp: filter_id_conv in_set_conv_nth)
  ultimately show ?thesis
    by (metis append_Nil append_take_drop_id filter_append)
qed

lemma read_event_None_iff: "read_event sha256 b i = Inr None \<longleftrightarrow> i \<notin> er_event_id ` set (bs_events b)"
proof (cases "find (\<lambda>r. er_event_id r = i) (bs_events b)")
  case None
  moreover have "i \<notin> er_event_id ` set (bs_events b)" using None by (auto simp: find_None_iff)
  ultimately show ?thesis by (simp add: read_event_def)
next
  case (Some r)
  moreover have "i \<in> er_event_id ` set (bs_events b)" using Some by (auto simp: find_Some_iff)
  ultimately show ?thesis by (simp add: read_event_def res_simps)
qed

section \<open>Properties\<close>

text \<open>
  C1 (bus_chain_verifies). On every storage that the operations of the bus produce (appends
  of well-formed payloads, partition creation, checkpoints, epochs),
  \<open>verify_partition_chain\<close> of any partition decodes the stored rows, reports no error and
  answers True.
\<close>

theorem bus_chain_verifies:
  assumes "bus_reach sha256 b"
  shows "verify_partition_chain sha256 b pk = Inr (True, [])"
  by (rule verify_chain_ok [OF bus_reach_inv [OF assms]])

theorem bus_chain_verifies_witness:
  "part_log id (example_bus 5000) ''p'' \<noteq> [] \<and>
   verify_partition_chain id (example_bus 5000) ''p'' = Inr (True, [])"
  using bus_chain_verifies [OF example_reach, of 5000 "''p''"] by (simp add: example_log)

text \<open>
  C15 (partition_tamper_evident). Take any two databases, reachable or tampered with, in which
  \<open>verify_partition_chain\<close> accepts a partition. If the partitions read have the same length
  and the same last event hash, then, SHA-256 having no collision among the texts hashed for
  these events, every event of one agrees with its counterpart in every hashed header field
  and in its payload (as JSON): nobody can alter a verified log and keep its last hash.
\<close>

theorem partition_tamper_evident:
  assumes "verify_partition_chain sha256 b pk = Inr (True, [])"
    and "verify_partition_chain sha256 c pk = Inr (True, [])"
    and "read_partition sha256 b pk 1 1000000 None = Inr es"
    and "read_partition sha256 c pk 1 1000000 None = Inr fs"
    and "length es = length fs" and "ev_hash (last es) = ev_hash (last fs)"
    and "inj_on sha256 ((\<lambda>e. hashed_text (ev_header e) (ev_payload e)) ` (set es \<union> set fs))"
  shows "map (\<lambda>e. header_identity (ev_header e)) es = map (\<lambda>e. header_identity (ev_header e)) fs \<and>
    map (\<lambda>e. json_norm (PDict (ev_payload e))) es = map (\<lambda>e. json_norm (PDict (ev_payload e))) fs"
proof -
  let ?t = "\<lambda>e. hashed_text (ev_header e) (ev_payload e)"
  have "chain_errors sha256 None es = []" "chain_errors sha256 None fs = []"
    using assms(1-4) by (simp_all add: verify_partition_chain_def Let_def)
  then have "map ?t es = map ?t fs"
    using assms(5-7) by (intro bus_chain.tamper_evident) (auto simp: chain_errors_empty compute_hash_def)
  then have t: "?t (es ! i) = ?t (fs ! i)" if "i < length fs" for i
    using that by (rule map_eq_nth)
  have "json_norm (PDict (ev_payload (es ! i))) = json_norm (PDict (ev_payload (fs ! i)))" if "i < length fs" for i
  proof -
    have i: "es ! i \<in> set es" "fs ! i \<in> set fs" using that assms(5) by simp_all
    show ?thesis
      by (rule canonical_text_inj [OF read_partition_payload [OF assms(3) i(1)]
            read_partition_payload [OF assms(4) i(2)] hashed_text_inj(2) [OF t [OF that]]])
  qed
  then show ?thesis
    using assms(5) hashed_text_inj(1) [OF t] by (simp add: list_eq_iff_nth_eq del: json_norm.simps)
qed

theorem partition_tamper_evident_witness:
  "part_log id (example_bus 5000) ''p'' \<noteq> [] \<and>
   map (\<lambda>e. header_identity (ev_header e)) (part_log id (example_bus 5000) ''p'') =
   map (\<lambda>e. header_identity (ev_header e)) (part_log id (example_bus 9000) ''p'')"
  using partition_tamper_evident [of id "example_bus 5000" "''p''" "example_bus 9000"
      "part_log id (example_bus 5000) ''p''" "part_log id (example_bus 9000) ''p''"]
  by (simp add: example_reads example_reach bus_reach_inv verify_chain_ok example_log
      example_same_hash [of 5000 9000])

text \<open>
  C2 (append_then_read). An append that returns an event on a reachable storage is durable and
  local: the event is read back by its id and as the last event of its partition (with its
  payload as JSON stores it), its offset is the next one, it links to the event before it, and
  what a read of any other partition returns is unchanged.
\<close>

theorem append_then_read:
  assumes "bus_reach sha256 b" and "py_wf (PDict payload)"
    and "bus_append sha256 et pk payload tenant actor corr clock obs b = Inr (e, b')"
  shows "\<exists>es. read_partition sha256 b pk 1 (-1) None = Inr es \<and>
      read_partition sha256 b' pk 1 (-1) None = Inr (es @ [e\<lparr>ev_payload := stored_payload payload\<rparr>]) \<and>
      eh_partition_offset (ev_header e) = int (length es) + 1 \<and>
      (es \<noteq> [] \<longrightarrow> eh_previous_event_hash (ev_header e) = ev_hash (last es)) \<and>
      read_event sha256 b' (eh_event_id (ev_header e)) = Inr (Some (e\<lparr>ev_payload := stored_payload payload\<rparr>)) \<and>
      (\<forall>pk' start limit tf. pk' \<noteq> pk \<longrightarrow>
         read_partition sha256 b' pk' start limit tf = read_partition sha256 b pk' start limit tf)"
proof -
  note inv = bus_reach_inv [OF assms(1)]
  note inv' = bus_append_inv [OF inv assms(2,3)]
  note log = part_log_after_append [OF assms(3,2)]
  let ?e = "e\<lparr>ev_payload := stored_payload payload\<rparr>"
  have "linked ev_hash (\<lambda>e. eh_previous_event_hash (ev_header e)) (part_log sha256 b pk @ [?e])"
    using part_log_linked [OF inv', of pk] log(1) [of pk] by simp
  then have "part_log sha256 b pk \<noteq> [] \<longrightarrow>
      eh_previous_event_hash (ev_header e) = ev_hash (last (part_log sha256 b pk))"
    by (simp add: linked_snoc)
  moreover have "eh_partition_offset (ev_header e) = int (length (part_log sha256 b pk)) + 1"
    using part_log_offsets [OF inv', of pk] log(1) [of pk] by simp
  moreover have "read_event sha256 b' (eh_event_id (ev_header e)) = Inr (Some ?e)"
    using log(2,4) by (auto simp: read_event_def find_snoc_fresh)
  moreover have "read_partition sha256 b' pk' start limit tf = read_partition sha256 b pk' start limit tf"
    if "pk' \<noteq> pk" for pk' start limit tf
    using log(1) [of pk'] that by (simp add: read_partition_log [OF inv] read_partition_log [OF inv'])
  ultimately show ?thesis
    using read_all_log [OF inv, of pk "-1"] read_all_log [OF inv', of pk "-1"] log(1) [of pk]
    by (simp add: sql_limit_def)
qed

theorem append_then_read_witness:
  "\<exists>es. read_partition id empty_bus ''p'' 1 (-1) None = Inr es \<and>
    read_partition id (example_bus 5000) ''p'' 1 (-1) None =
      Inr (es @ [(example_event 5000)\<lparr>ev_payload := stored_payload example_payload\<rparr>])"
proof -
  have "bus_append id ARTIFACT_CREATED ''p'' example_payload ''acme'' ''actor'' ''corr'' (Some example_clock)
      (example_obs 5000) empty_bus = Inr (example_event 5000, example_bus 5000)"
    by (rule example_append_bus) simp
  from append_then_read [OF reach_empty example_payload_wf this] show ?thesis by blast
qed

text \<open>
  C16 (append_refused_iff). The outcome of an append on a reachable storage, whatever the clock: when the clock raises, the
  append raises the same and nothing else happens; otherwise it fails exactly when an event with the id
  \<open>evt_<tenant>_<partition>_<next offset>\<close> is already stored, with the integrity error of the database, and returns when none is.
\<close>

theorem append_refused_iff:
  assumes "bus_reach sha256 b" and "read_partition sha256 b pk 1 (-1) None = Inr es"
  shows "case ordered_now sha256 (case clock of Some c \<Rightarrow> c | None \<Rightarrow> new_clock ''eventbus'' (ob_clock_created obs)) (ob_now obs) of
      Inl x \<Rightarrow> bus_append sha256 et pk payload tenant actor corr clock obs b = Inl x
    | Inr _ \<Rightarrow>
        if read_event sha256 b (event_id_of tenant pk (int (length es) + 1)) = Inr None
        then \<exists>e b'. bus_append sha256 et pk payload tenant actor corr clock obs b = Inr (e, b')
        else bus_append sha256 et pk payload tenant actor corr clock obs b = Inl IntegrityError"
proof (cases "ordered_now sha256 (case clock of Some c \<Rightarrow> c | None \<Rightarrow> new_clock ''eventbus'' (ob_clock_created obs)) (ob_now obs)")
  case (Inl x)
  then show ?thesis by (simp add: bus_append_def Let_def)
next
  case (Inr marker)
  note inv = bus_reach_inv [OF assms(1)]
  have "es = part_log sha256 b pk" using assms(2) read_all_log [OF inv, of pk "-1"] by (simp add: sql_limit_def)
  then show ?thesis
    using bus_append_outcome [OF inv Inr, of et pk payload tenant actor corr]
    by (simp add: Inr read_event_None_iff Let_def case_prod_beta)
qed

lemma example_taken:
  "\<exists>e b. bus_append id ARTIFACT_CREATED ''b_c'' example_payload ''a'' ''actor'' ''corr'' (Some example_clock)
      (example_obs 5000) empty_bus = Inr (e, b) \<and> bus_reach id b \<and> part_log id b ''c'' = [] \<and>
    read_event id b (event_id_of ''a_b'' ''c'' 1) \<noteq> Inr None"
proof -
  have n: "part_log id empty_bus pk = []" for pk by (simp add: part_log_def part_rows_def empty_bus_def)
  obtain e b where eb: "bus_append id ARTIFACT_CREATED ''b_c'' example_payload ''a'' ''actor'' ''corr'' (Some example_clock)
      (example_obs 5000) empty_bus = Inr (e, b)"
    using example_append_ok [OF _ bus_inv_empty, of 5000 "''a''" "''b_c''"] by (auto simp: example_append_def empty_bus_def)
  have "eh_event_id (ev_header e) = event_id_of ''a_b'' ''c'' 1"
    using append_event_id [OF bus_inv_empty eb] n by (simp add: event_id_of_def)
  moreover have "part_log id b ''c'' = []" using part_log_after_append(1) [OF eb example_payload_wf, of "''c''"] n by simp
  ultimately show ?thesis
    using eb reach_append [OF reach_empty example_payload_wf eb] part_log_after_append(3) [OF eb example_payload_wf]
    by (auto simp: read_event_None_iff)
qed

theorem append_refused_iff_witness:
  "(\<exists>e b'. bus_append id ARTIFACT_CREATED ''p'' example_payload ''acme'' ''actor'' ''corr'' (Some example_clock)
      (example_obs 7000) empty_bus = Inr (e, b')) \<and>
   (\<exists>e b. bus_append id ARTIFACT_CREATED ''b_c'' example_payload ''a'' ''actor'' ''corr'' (Some example_clock)
      (example_obs 5000) empty_bus = Inr (e, b) \<and>
    bus_append id ARTIFACT_CREATED ''c'' example_payload ''a_b'' ''actor'' ''corr'' (Some example_clock) (example_obs 7000) b =
      Inl IntegrityError)"
proof
  have n: "read_partition id empty_bus ''p'' 1 (-1) None = Inr []" "read_event id empty_bus i = Inr None" for i
    by (simp_all add: read_event_None_iff read_all_log [OF bus_inv_empty] sql_limit_def)
      (simp_all add: empty_bus_def part_log_def part_rows_def)
  show "\<exists>e b'. bus_append id ARTIFACT_CREATED ''p'' example_payload ''acme'' ''actor'' ''corr'' (Some example_clock)
      (example_obs 7000) empty_bus = Inr (e, b')"
    using append_refused_iff [OF reach_empty n(1), where clock = "Some example_clock" and obs = "example_obs 7000"]
    by (simp add: n(2) example_now)
  obtain e b where eb: "bus_append id ARTIFACT_CREATED ''b_c'' example_payload ''a'' ''actor'' ''corr'' (Some example_clock)
      (example_obs 5000) empty_bus = Inr (e, b)" "bus_reach id b" "part_log id b ''c'' = []"
    "read_event id b (event_id_of ''a_b'' ''c'' 1) \<noteq> Inr None" using example_taken by blast
  have "read_partition id b ''c'' 1 (-1) None = Inr []"
    by (simp add: read_all_log [OF bus_reach_inv [OF eb(2)]] sql_limit_def eb(3))
  from append_refused_iff [OF eb(2) this, where clock = "Some example_clock" and obs = "example_obs 7000" and tenant = "''a_b''"]
  have "bus_append id ARTIFACT_CREATED ''c'' example_payload ''a_b'' ''actor'' ''corr'' (Some example_clock) (example_obs 7000) b =
      Inl IntegrityError" using eb(4) by (simp add: example_now)
  with eb(1) show "\<exists>e b. bus_append id ARTIFACT_CREATED ''b_c'' example_payload ''a'' ''actor'' ''corr'' (Some example_clock)
      (example_obs 5000) empty_bus = Inr (e, b) \<and>
    bus_append id ARTIFACT_CREATED ''c'' example_payload ''a_b'' ''actor'' ''corr'' (Some example_clock) (example_obs 7000) b =
      Inl IntegrityError" by blast
qed

text \<open>
  While no tenant id contains an underscore, event ids cannot
  collide: every append to a reachable storage succeeds, unless the clock reports skew. (With
  underscores they can: \<open>append_id_collision\<close>.)
\<close>

theorem append_never_refused:
  assumes "bus_reach sha256 b" and "CHR ''_'' \<notin> set tenant"
    and "\<forall>r \<in> set (bs_events b). CHR ''_'' \<notin> set (er_author_tenant_id r)"
    and "ordered_now sha256 (case clock of Some c \<Rightarrow> c | None \<Rightarrow> new_clock ''eventbus'' (ob_clock_created obs))
           (ob_now obs) = Inr marker"
  shows "\<exists>e b'. bus_append sha256 et pk payload tenant actor corr clock obs b = Inr (e, b')"
  using id_fresh_no_underscore [OF bus_reach_inv [OF assms(1)] assms(2,3)]
  by (simp add: bus_append_outcome [OF bus_reach_inv [OF assms(1)] assms(4)] Let_def case_prod_beta)

theorem append_never_refused_witness:
  "\<exists>e b'. bus_append id ARTIFACT_CREATED ''a_b'' example_payload ''acme'' ''actor'' ''corr'' (Some example_clock)
      (example_obs 7000) empty_bus = Inr (e, b')"
  by (rule append_never_refused [OF reach_empty])
     (simp_all add: empty_bus_def example_now [of 7000, simplified])

lemma append_id_collision:
  assumes first: "bus_append sha256 et1 ''b_c'' p1 ''a'' actor1 corr1 clk1 obs1 empty_bus = Inr (e, b)"
    and wf: "py_wf (PDict p1)"
    and clk: "ordered_now sha256 (case clk2 of Some c \<Rightarrow> c | None \<Rightarrow> new_clock ''eventbus'' (ob_clock_created obs2))
           (ob_now obs2) = Inr marker"
  shows "bus_append sha256 et2 ''c'' p2 ''a_b'' actor2 corr2 clk2 obs2 b = Inl IntegrityError"
proof -
  note inv = bus_append_inv [OF bus_inv_empty wf first]
  have n: "part_log sha256 empty_bus pk = []" for pk by (simp add: part_log_def part_rows_def empty_bus_def)
  have "part_log sha256 b ''c'' = []" using part_log_after_append(1) [OF first wf, of "''c''"] n by simp
  moreover have "eh_event_id (ev_header e) = event_id_of ''a_b'' ''c'' 1"
    using append_event_id [OF bus_inv_empty first] n by (simp add: event_id_of_def)
  then have "event_id_of ''a_b'' ''c'' 1 \<in> er_event_id ` set (bs_events b)"
    using part_log_after_append(3) [OF first wf] by simp
  ultimately show ?thesis using bus_append_outcome [OF inv clk, of et2 "''c''"] by simp
qed

text \<open>
  Two runs of the same sequence of appends, from an empty
  storage, with whatever clocks and clock readings, give the same events up to the two time
  fields of the header: the same ids, offsets, links and event hashes. Event hashes identify
  content, so replaying a history reproduces them.
\<close>

theorem append_clock_independent:
  assumes "append_all sha256 rs empty_bus = Inr (es, b)" and "append_all sha256 ss empty_bus = Inr (fs, c)"
    and "map fst rs = map fst ss"
  shows "map ev_hash es = map ev_hash fs \<and>
    map (\<lambda>e. eh_event_id (ev_header e)) es = map (\<lambda>e. eh_event_id (ev_header e)) fs \<and>
    map untimed_event es = map untimed_event fs"
proof -
  have u: "map untimed_event es = map untimed_event fs"
    using append_all_untimed [OF _ assms(3,1,2)] by (simp add: same_history_def)
  have "map ev_hash es = map ev_hash (map untimed_event es)"
    "map (\<lambda>e. eh_event_id (ev_header e)) es = map (\<lambda>e. eh_event_id (ev_header e)) (map untimed_event es)" for es
    by (simp_all add: untimed_event_def)
  with u show ?thesis by metis
qed

definition example_request :: append_request where
  "example_request = \<lparr>rq_event_type = ARTIFACT_CREATED, rq_partition_key = ''p'', rq_payload = example_payload,
     rq_tenant = ''acme'', rq_actor = ''actor'', rq_correlation = ''corr''\<rparr>"

lemma example_run: "us < 1000000 \<Longrightarrow>
    append_all id [(example_request, Some example_clock, example_obs us)] empty_bus = Inr ([example_event us], example_bus us)"
  by (simp add: example_request_def example_append_bus)

theorem append_clock_independent_witness:
  "map ev_hash [example_event 5000] = map ev_hash [example_event 9000]"
  using append_clock_independent [OF example_run [of 5000] example_run [of 9000]] by simp

text \<open>
  On a reachable storage a read of a partition is a page of its log:
  \<open>limit\<close> events from offset \<open>start\<close> on, at consecutive offsets, in order, so that reading
  page after page with \<open>start\<close> one past the last offset misses nothing and repeats nothing.
\<close>

theorem read_partition_slice:
  assumes "bus_reach sha256 b" and "1 \<le> start" and "0 \<le> limit"
  shows "\<exists>log. read_partition sha256 b pk 1 (-1) None = Inr log \<and>
    read_partition sha256 b pk start limit None = Inr (take (nat limit) (drop (nat start - 1) log)) \<and>
    (\<forall>i < length log. eh_partition_offset (ev_header (log ! i)) = int i + 1)"
proof -
  note inv = bus_reach_inv [OF assms(1)]
  let ?log = "part_log sha256 b pk"
  have off: "eh_partition_offset (ev_header (?log ! i)) = int i + 1" if "i < length ?log" for i
    using arg_cong [OF part_log_offsets [OF inv, of pk], of "\<lambda>xs. xs ! i"] that by (simp del: upt_Suc)
  then have "filter (\<lambda>e. start \<le> eh_partition_offset (ev_header e)) ?log = drop (nat start - 1) ?log"
    using assms(2) by (intro filter_ge_drop) auto
  then have "read_partition sha256 b pk start limit None = Inr (take (nat limit) (drop (nat start - 1) ?log))"
    using assms(3) by (simp add: read_partition_log [OF inv] tenant_ok_def sql_limit_def)
  with off read_all_log [OF inv, of pk "-1"] show ?thesis by (auto simp: sql_limit_def)
qed

theorem read_partition_slice_witness:
  "\<exists>log. read_partition id (example_bus 5000) ''p'' 1 (-1) None = Inr log \<and>
    read_partition id (example_bus 5000) ''p'' 2 10 None = Inr (take 10 (drop 1 log))"
  using read_partition_slice [OF example_reach, of 5000 2 10 "''p''"] by auto

text \<open>
  With a non-empty tenant filter, a read of a reachable storage
  returns events of that tenant only, and all of them from the offset asked for. (An empty
  string as filter is treated as no filter.)
\<close>

theorem tenant_read_isolated:
  assumes "bus_reach sha256 b" and "t \<noteq> []"
  shows "\<exists>es fs. read_partition sha256 b pk start (-1) None = Inr es \<and>
    read_partition sha256 b pk start (-1) (Some t) = Inr fs \<and>
    fs = filter (\<lambda>e. eh_author_tenant_id (ev_header e) = t) es \<and>
    read_partition sha256 b pk start (-1) (Some []) = Inr es"
  using assms(2)
  by (simp add: read_partition_log [OF bus_reach_inv [OF assms(1)]] sql_limit_def tenant_ok_def conj_commute)

theorem tenant_read_isolated_witness:
  "\<exists>es fs. read_partition id (example_bus 5000) ''p'' 1 (-1) None = Inr es \<and>
    read_partition id (example_bus 5000) ''p'' 1 (-1) (Some ''evil'') = Inr fs \<and>
    fs = filter (\<lambda>e. eh_author_tenant_id (ev_header e) = ''evil'') es"
  using tenant_read_isolated [OF example_reach, of 5000 "''evil''" "''p''" 1] by auto

text \<open>
  An event built by its constructor survives \<open>serialize\<close> and
  \<open>deserialize\<close> unchanged, whatever header, payload and stored hash it was built from.
\<close>

theorem event_serialize_roundtrip:
  "event_deserialize sha256 (event_serialize (make_event sha256 h p eh)) = Inr (make_event sha256 h p eh)"
proof -
  have "header_deserialize (header_serialize h) = Inr h"
    by (simp add: header_deserialize_def header_serialize_def str_field_def int_field_def dict_index_def)
  then show ?thesis
    by (simp add: event_deserialize_def event_serialize_def dict_field_def dict_index_def dict_get_def
        make_event_def compute_hash_def Let_def)
qed

end
