(* ===== verification/Bus_Clients.thy ===== *)
theory Bus_Clients
  imports Event_Bus_Theorems
begin

text \<open>
  The readers of the event bus (\<open>bus/core.py\<close>): \<open>DeterministicConsumer\<close>, which delivers a
  partition to a handler batch by batch and records its progress in a checkpoint, and
  \<open>EventReplayEngine\<close>, which replays a partition read-only. What a consumer relies on is the
  locale \<open>partition_store\<close>, interpreted on the storage model; exactly-once delivery is proved
  from it for every interleaving of consumer batches with the operations of other clients.
\<close>

section \<open>The consumer\<close>

text \<open>
  A handler may change its own state and may raise; what it did before raising remains.
\<close>

type_synonym ('e, 's) handler = "'e \<Rightarrow> 's \<Rightarrow> py_exn option \<times> 's"

fun deliver :: "('e, 's) handler \<Rightarrow> 'e list \<Rightarrow> 's \<Rightarrow> py_exn option \<times> 's" where
  "deliver handler [] s = (None, s)"
| "deliver handler (e # es) s =
     (case handler e s of (Some x, s') \<Rightarrow> (Some x, s') | (None, s') \<Rightarrow> deliver handler es s')"

definition start_offset :: "consumer_checkpoint option \<Rightarrow> int" where
  "start_offset c = (case c of None \<Rightarrow> 1 | Some c \<Rightarrow> cc_last_consumed_offset c + 1)"

definition new_checkpoint :: "(string \<Rightarrow> string) \<Rightarrow> string \<Rightarrow> string \<Rightarrow> py_datetime \<Rightarrow> domain_event \<Rightarrow> consumer_checkpoint" where
  "new_checkpoint sha256 cid pk now last_event =
     (let c = \<lparr>cc_consumer_id = cid, cc_partition_key = pk,
                cc_last_consumed_offset = eh_partition_offset (ev_header last_event),
                cc_last_event_id = eh_event_id (ev_header last_event),
                cc_checkpoint_hash = [], cc_checkpointed_at = canonical_timestamp now\<rparr>
      in c\<lparr>cc_checkpoint_hash := checkpoint_compute_hash sha256 c\<rparr>)"

record deterministic_consumer =
  dc_consumer_id :: string
  dc_tenant_id :: "string option"

definition consume ::
  "(string \<Rightarrow> string) \<Rightarrow> deterministic_consumer \<Rightarrow> string \<Rightarrow> (domain_event, 's) handler \<Rightarrow> int \<Rightarrow> py_datetime \<Rightarrow>
     's \<Rightarrow> bus_state \<Rightarrow> nat result \<times> 's \<times> bus_state" where
  "consume sha256 dc pk handler batch_size now s b =
     (case read_partition sha256 b pk (start_offset (read_checkpoint b (dc_consumer_id dc) pk))
             batch_size (dc_tenant_id dc) of
        Inl x \<Rightarrow> (Inl x, s, b)
      | Inr events \<Rightarrow>
          (case deliver handler events s of
             (Some x, s') \<Rightarrow> (Inl x, s', b)
           | (None, s') \<Rightarrow>
               if length events > 0
               then (Inr (length events), s',
                     write_checkpoint b (new_checkpoint sha256 (dc_consumer_id dc) pk now (last events)))
               else (Inr 0, s', b)))"

definition get_checkpoint :: "deterministic_consumer \<Rightarrow> bus_state \<Rightarrow> string \<Rightarrow> consumer_checkpoint option" where
  "get_checkpoint dc b pk = read_checkpoint b (dc_consumer_id dc) pk"

section \<open>Replay\<close>

definition replay_partition ::
  "(string \<Rightarrow> string) \<Rightarrow> bus_state \<Rightarrow> string \<Rightarrow> int \<Rightarrow> int option \<Rightarrow> string option \<Rightarrow> domain_event list result" where
  "replay_partition sha256 b pk start end_offset corr =
     res_bind (read_partition sha256 b pk start 1000000 None) (\<lambda>events.
       Inr (filter (\<lambda>e. \<not> (case corr of None \<Rightarrow> False | Some c \<Rightarrow> c \<noteq> [] \<and> eh_correlation_id (ev_header e) \<noteq> c))
              (takeWhile (\<lambda>e. \<not> (case end_offset of None \<Rightarrow> False
                                   | Some n \<Rightarrow> eh_partition_offset (ev_header e) > n)) events)))"

definition reconstruct_state ::
  "(string \<Rightarrow> string) \<Rightarrow> bus_state \<Rightarrow> string \<Rightarrow> (payload \<Rightarrow> domain_event \<Rightarrow> payload result) \<Rightarrow> payload result" where
  "reconstruct_state sha256 b pk state_builder =
     res_bind (replay_partition sha256 b pk 1 None None) (res_fold state_builder [])"

record replay_summary =
  rs_partition_key :: string
  rs_start_offset :: int
  rs_end_offset :: "int option"
  rs_event_count :: nat
  rs_first_event_time :: "string option"
  rs_last_event_time :: "string option"
  rs_event_types :: "string list"
  rs_tenant_ids :: "string list"
  rs_chain_integrity :: "bool \<times> string list"

definition get_replay_summary ::
  "(string \<Rightarrow> string) \<Rightarrow> bus_state \<Rightarrow> string \<Rightarrow> int \<Rightarrow> int option \<Rightarrow> replay_summary result" where
  "get_replay_summary sha256 b pk start end_offset =
     res_bind (replay_partition sha256 b pk start end_offset None) (\<lambda>events.
     res_bind (verify_partition_chain sha256 b pk) (\<lambda>ci.
       Inr \<lparr>rs_partition_key = pk, rs_start_offset = start, rs_end_offset = end_offset,
            rs_event_count = length events,
            rs_first_event_time = (if events \<noteq> [] then Some (eh_timestamp (ev_header (hd events))) else None),
            rs_last_event_time = (if events \<noteq> [] then Some (eh_timestamp (ev_header (last events))) else None),
            rs_event_types = sort (remdups (map (\<lambda>e. event_type_value (eh_event_type (ev_header e))) events)),
            rs_tenant_ids = sort (remdups (map (\<lambda>e. eh_author_tenant_id (ev_header e)) events)),
            rs_chain_integrity = ci\<rparr>))"

section \<open>What a consumer relies on\<close>

locale partition_store =
  fixes inv :: "'b \<Rightarrow> bool"
    and log :: "'b \<Rightarrow> 'e list"
    and pos :: "'e \<Rightarrow> int"
    and rd :: "'b \<Rightarrow> int \<Rightarrow> int \<Rightarrow> 'e list result"
    and ck :: "'b \<Rightarrow> int"
    and commit :: "'b \<Rightarrow> 'e \<Rightarrow> 'b"
  assumes log_sorted: "inv b \<Longrightarrow> sorted_wrt (\<lambda>x y. pos x < pos y) (log b)"
    and rd_log: "inv b \<Longrightarrow> rd b start n = Inr (sql_limit n (filter (\<lambda>e. start \<le> pos e) (log b)))"
    and commit_inv: "inv b \<Longrightarrow> inv (commit b e)"
    and commit_log: "log (commit b e) = log b"
    and commit_ck: "ck (commit b e) = pos e + 1"
begin

text \<open>
  The events before the checkpoint, with the batch read at the checkpoint, are the events
  before the checkpoint that the batch leaves behind.
\<close>

lemma take_below:
  assumes "sorted_wrt (\<lambda>x y. pos x < pos y) xs" "take k xs \<noteq> []"
  shows "filter (\<lambda>e. pos e < pos (last (take k xs)) + 1) xs = take k xs"
proof -
  have s: "sorted_wrt (\<lambda>x y. pos x < pos y) (take k xs @ drop k xs)" using assms(1) by simp
  have "pos e < pos (last (take k xs)) + 1" if e: "e \<in> set (take k xs)" for e
  proof -
    have "sorted_wrt (\<lambda>x y. pos x < pos y) (butlast (take k xs) @ [last (take k xs)])"
      unfolding append_butlast_last_id [OF assms(2)] using s by (simp only: sorted_wrt_append)
    moreover have "e \<in> set (butlast (take k xs) @ [last (take k xs)])"
      unfolding append_butlast_last_id [OF assms(2)] by (rule e)
    ultimately show ?thesis unfolding sorted_wrt_append by auto
  qed
  moreover have "\<not> pos e < pos (last (take k xs)) + 1" if "e \<in> set (drop k xs)" for e
    using s that last_in_set [OF assms(2)] unfolding sorted_wrt_append by force
  ultimately have "filter (\<lambda>e. pos e < pos (last (take k xs)) + 1) (take k xs @ drop k xs) = take k xs"
    unfolding filter_append by simp
  then show ?thesis by simp
qed

lemma sorted_split:
  assumes "sorted_wrt (\<lambda>x y. pos x < pos y) xs"
  shows "filter (\<lambda>e. pos e < k) xs @ filter (\<lambda>e. k \<le> pos e) xs = xs"
  using assms
proof (induction xs)
  case (Cons x xs)
  then have "k \<le> pos x \<Longrightarrow> filter (\<lambda>e. pos e < k) xs = []" by (fastforce simp: filter_empty_conv)
  with Cons show ?case by auto
qed simp

lemma batch_commit:
  assumes "inv b" "rd b (ck b) n = Inr es" "es \<noteq> []"
  shows "filter (\<lambda>e. pos e < ck b) (log b) @ es =
    filter (\<lambda>e. pos e < ck (commit b (last es))) (log (commit b (last es)))"
proof -
  let ?lo = "filter (\<lambda>e. pos e < ck b) (log b)" and ?hi = "filter (\<lambda>e. ck b \<le> pos e) (log b)"
  obtain k where k: "es = take k ?hi"
    using assms(1,2) by (auto simp: rd_log sql_limit_def split: if_splits)
      (metis take_all order_refl)
  have l: "log b = ?lo @ ?hi" using sorted_split [OF log_sorted [OF assms(1)]] by simp
  have "sorted_wrt (\<lambda>x y. pos x < pos y) (log b)" by (rule log_sorted [OF assms(1)])
  then have h: "filter (\<lambda>e. pos e < pos (last es) + 1) ?hi = es"
    unfolding k using assms(3) k by (intro take_below) (auto simp: sorted_wrt_filter)
  have "last es \<in> set ?hi" using assms(3) unfolding k by (metis in_set_takeD last_in_set)
  then have "filter (\<lambda>e. pos e < pos (last es) + 1) ?lo = ?lo" by (intro filter_True) auto
  then have "filter (\<lambda>e. pos e < pos (last es) + 1) (?lo @ ?hi) = ?lo @ es"
    using h by (simp only: filter_append)
  then show ?thesis by (simp add: commit_ck commit_log flip: l)
qed

lemma empty_batch:
  assumes "inv b" "rd b (ck b) n = Inr []" "n \<noteq> 0"
  shows "filter (\<lambda>e. pos e < ck b) (log b) = log b"
proof -
  have "filter (\<lambda>e. ck b \<le> pos e) (log b) = []"
    using assms by (auto simp: rd_log sql_limit_def split: if_splits)
  then show ?thesis by (auto simp: filter_empty_conv filter_id_conv not_le)
qed

end

text \<open>The storage as one consumer sees one partition through its tenant filter.\<close>

definition tenant_log :: "(string \<Rightarrow> string) \<Rightarrow> string option \<Rightarrow> string \<Rightarrow> bus_state \<Rightarrow> domain_event list" where
  "tenant_log sha256 tf pk b = filter (\<lambda>e. tenant_ok tf (eh_author_tenant_id (ev_header e))) (part_log sha256 b pk)"

definition checkpoint_key :: "consumer_checkpoint \<Rightarrow> string \<times> string" where
  "checkpoint_key c = (cc_consumer_id c, cc_partition_key c)"

lemma checkpoint_key_update [simp]:
  "checkpoint_key (x\<lparr>cc_last_consumed_offset := o1, cc_last_event_id := i, cc_checkpoint_hash := h,
     cc_checkpointed_at := t\<rparr>) = checkpoint_key x"
  by (simp add: checkpoint_key_def)

lemma read_checkpoint_write:
  "read_checkpoint (write_checkpoint b c) cid pk =
    (if (cid, pk) = checkpoint_key c
     then Some (case read_checkpoint b cid pk of
            None \<Rightarrow> c
          | Some x \<Rightarrow> x\<lparr>cc_last_consumed_offset := cc_last_consumed_offset c, cc_last_event_id := cc_last_event_id c,
                  cc_checkpoint_hash := cc_checkpoint_hash c, cc_checkpointed_at := cc_checkpointed_at c\<rparr>)
     else read_checkpoint b cid pk)"
proof -
  have k: "checkpoint_clash = (\<lambda>x r. checkpoint_key x = checkpoint_key r)"
    "(\<lambda>c. cc_consumer_id c = cid \<and> cc_partition_key c = pk) = (\<lambda>c. checkpoint_key c = (cid, pk))"
    by (auto simp: checkpoint_clash_def checkpoint_key_def fun_eq_iff)
  show ?thesis
    unfolding read_checkpoint_def write_checkpoint_def k
    by (auto simp: find_sql_upsert [where key = checkpoint_key])
qed

lemma read_checkpoint_cong: "bs_checkpoints b = bs_checkpoints c \<Longrightarrow> read_checkpoint b cid pk = read_checkpoint c cid pk"
  by (simp add: read_checkpoint_def)

lemma part_log_cong: "bs_events b = bs_events c \<Longrightarrow> part_log sha256 b pk = part_log sha256 c pk"
  by (simp add: part_log_def part_rows_def)

lemma part_log_write_checkpoint [simp]: "part_log sha256 (write_checkpoint b c) pk = part_log sha256 b pk"
  by (rule part_log_cong) (simp add: write_checkpoint_def)

lemma part_log_sorted:
  assumes "bus_inv sha256 b"
  shows "sorted_wrt (\<lambda>x y. eh_partition_offset (ev_header x) < eh_partition_offset (ev_header y)) (part_log sha256 b pk)"
proof -
  have "sorted_wrt (<) (map (\<lambda>e. eh_partition_offset (ev_header e)) (part_log sha256 b pk))"
    unfolding part_log_offsets [OF assms] by (simp add: sorted_wrt_map sorted_wrt_upt del: upt_Suc)
  then show ?thesis by (simp add: sorted_wrt_map)
qed

interpretation bus_store: partition_store "bus_inv sha256" "tenant_log sha256 tf pk"
    "\<lambda>e. eh_partition_offset (ev_header e)" "\<lambda>b start n. read_partition sha256 b pk start n tf"
    "\<lambda>b. start_offset (read_checkpoint b cid pk)" "\<lambda>b e. write_checkpoint b (new_checkpoint sha256 cid pk now e)"
  for sha256 tf pk cid now
proof unfold_locales
  fix b :: bus_state and start n :: int and e
  show "sorted_wrt (\<lambda>x y. eh_partition_offset (ev_header x) < eh_partition_offset (ev_header y)) (tenant_log sha256 tf pk b)"
    if "bus_inv sha256 b"
    unfolding tenant_log_def by (intro sorted_wrt_filter part_log_sorted that)
  show "read_partition sha256 b pk start n tf =
      Inr (sql_limit n (filter (\<lambda>e. start \<le> eh_partition_offset (ev_header e)) (tenant_log sha256 tf pk b)))"
    if "bus_inv sha256 b"
    unfolding read_partition_log [OF that] tenant_log_def by (simp add: conj_commute)
  show "bus_inv sha256 (write_checkpoint b (new_checkpoint sha256 cid pk now e))" if "bus_inv sha256 b"
    using that by (rule write_checkpoint_inv)
  show "tenant_log sha256 tf pk (write_checkpoint b (new_checkpoint sha256 cid pk now e)) = tenant_log sha256 tf pk b"
    by (simp add: tenant_log_def)
  show "start_offset (read_checkpoint (write_checkpoint b (new_checkpoint sha256 cid pk now e)) cid pk) =
      eh_partition_offset (ev_header e) + 1"
    by (simp add: read_checkpoint_write checkpoint_key_def new_checkpoint_def Let_def start_offset_def split: option.splits)
qed

section \<open>Runs of a consumer among other clients\<close>

text \<open>A handler that never raises and keeps what it was given, and one that keeps what it was given before another handler acts.\<close>

definition recorder :: "(domain_event, domain_event list) handler" where
  "recorder e s = (None, s @ [e])"

definition logged :: "(domain_event, 's) handler \<Rightarrow> (domain_event, domain_event list \<times> 's) handler" where
  "logged handler e s = (case handler e (snd s) of (x, t) \<Rightarrow> (x, fst s @ [e], t))"

text \<open>
  What the other clients of the storage may do at any moment: append, create a
  partition, establish an epoch, or move a checkpoint of another consumer or partition.
\<close>

inductive other_step :: "(string \<Rightarrow> string) \<Rightarrow> string \<Rightarrow> string \<Rightarrow> bus_state \<Rightarrow> bus_state \<Rightarrow> bool"
  for sha256 cid pk where
  other_append: "py_wf (PDict payload) \<Longrightarrow>
    bus_append sha256 et pk' payload tenant actor corr clock obs b = Inr (e, b') \<Longrightarrow> other_step sha256 cid pk b b'"
| other_partition: "get_or_create_partition b pk' now = (head, b') \<Longrightarrow> other_step sha256 cid pk b b'"
| other_epoch: "establish_epoch sha256 n who md obs b = Inr (i, b') \<Longrightarrow> other_step sha256 cid pk b b'"
| other_checkpoint: "checkpoint_key c \<noteq> (cid, pk) \<Longrightarrow> other_step sha256 cid pk b (write_checkpoint b c)"

text \<open>
  The consumer holds the lock of the storage only inside each of its calls: it reads the checkpoint, then the batch, hands
  over the events one by one and writes the checkpoint, and other clients may act before each of these. A call ends early
  when the handler raises, or for any other reason (an interrupt, a full disk). The state has the phase of the current
  call, the events handed over so far, and whether a call ended early.
\<close>

datatype consumer_phase = Idle | Located int | Delivering "domain_event list" "domain_event list"

inductive consumer_step :: "(string \<Rightarrow> string) \<Rightarrow> deterministic_consumer \<Rightarrow> string \<Rightarrow>
    consumer_phase \<times> domain_event list \<times> bool \<times> bus_state \<Rightarrow> consumer_phase \<times> domain_event list \<times> bool \<times> bus_state \<Rightarrow> bool"
  for sha256 dc pk where
  step_locate: "consumer_step sha256 dc pk (Idle, s, early, b)
    (Located (start_offset (read_checkpoint b (dc_consumer_id dc) pk)), s, early, b)"
| step_read: "read_partition sha256 b pk start n (dc_tenant_id dc) = Inr es \<Longrightarrow>
    consumer_step sha256 dc pk (Located start, s, early, b) (Delivering [] es, s, early, b)"
| step_deliver: "consumer_step sha256 dc pk (Delivering ds (e # es), s, early, b) (Delivering (ds @ [e]) es, s @ [e], early, b)"
| step_raise: "consumer_step sha256 dc pk (Delivering ds (e # es), s, early, b) (Idle, s @ [e], True, b)"
| step_commit: "ds \<noteq> [] \<Longrightarrow> consumer_step sha256 dc pk (Delivering ds [], s, early, b)
    (Idle, s, early, write_checkpoint b (new_checkpoint sha256 (dc_consumer_id dc) pk now (last ds)))"
| step_empty: "consumer_step sha256 dc pk (Delivering [] [], s, early, b) (Idle, s, early, b)"
| step_early: "consumer_step sha256 dc pk (ph, s, early, b) (Idle, s, True, b)"
| step_other: "other_step sha256 (dc_consumer_id dc) pk b b' \<Longrightarrow> consumer_step sha256 dc pk (ph, s, early, b) (ph, s, early, b')"

definition consumer_run :: "(string \<Rightarrow> string) \<Rightarrow> deterministic_consumer \<Rightarrow> string \<Rightarrow> consumer_phase \<Rightarrow>
    domain_event list \<Rightarrow> bool \<Rightarrow> bus_state \<Rightarrow> bool" where
  "consumer_run sha256 dc pk ph s early b \<longleftrightarrow>
     (\<exists>b0. bus_reach sha256 b0 \<and> read_checkpoint b0 (dc_consumer_id dc) pk = None \<and>
        (consumer_step sha256 dc pk)\<^sup>*\<^sup>* (Idle, [], False, b0) (ph, s, early, b))"

inductive_cases other_stepE: "other_step sha256 cid pk b b'"

lemma deliver_recorder: "deliver recorder es s = (None, s @ es)"
  by (induction es arbitrary: s) (simp_all add: recorder_def)

lemma bus_append_checkpoints:
  "bus_append sha256 et pk payload tenant actor corr clock obs b = Inr (e, b') \<Longrightarrow> bs_checkpoints b' = bs_checkpoints b"
  by (erule bus_append_cases)
     (auto simp: after_append_def set_partition_def get_or_create_partition_def split: option.splits)

lemma other_step_reach: "bus_reach sha256 b \<Longrightarrow> other_step sha256 cid pk b b' \<Longrightarrow> bus_reach sha256 b'"
  by (erule other_stepE) (auto intro: bus_reach.intros)

lemma other_step_checkpoint:
  assumes "other_step sha256 cid pk b b'"
  shows "read_checkpoint b' cid pk = read_checkpoint b cid pk"
  using assms
proof cases
  case (other_checkpoint c)
  then show ?thesis by (auto simp: read_checkpoint_write)
qed (auto intro!: read_checkpoint_cong simp: bus_append_checkpoints get_or_create_partition_def
        establish_epoch_def res_simps Let_def split: option.splits)

lemma other_step_log:
  assumes "other_step sha256 cid pk b b'"
  shows "\<exists>es. part_log sha256 b' pk = part_log sha256 b pk @ es"
  using assms
proof cases
  case (other_append payload et pk' tenant actor corr clock obs e)
  then show ?thesis using part_log_after_append(1) by blast
next
  case (other_partition pk' now head)
  then have "bs_events b' = bs_events b" by (auto simp: get_or_create_partition_def split: option.splits)
  then show ?thesis by (simp add: part_log_cong [of b' b])
next
  case (other_epoch n who md obs i)
  then have "bs_events b' = bs_events b" by (auto simp: establish_epoch_def res_simps Let_def)
  then show ?thesis by (simp add: part_log_cong [of b' b])
next
  case (other_checkpoint c)
  then show ?thesis by simp
qed

definition delivered :: "(string \<Rightarrow> string) \<Rightarrow> deterministic_consumer \<Rightarrow> string \<Rightarrow> bus_state \<Rightarrow> domain_event list" where
  "delivered sha256 dc pk b =
     filter (\<lambda>e. eh_partition_offset (ev_header e) < start_offset (read_checkpoint b (dc_consumer_id dc) pk))
       (tenant_log sha256 (dc_tenant_id dc) pk b)"

text \<open>The checkpoint never runs ahead of the log: it is at most one past its end.\<close>

definition checkpoint_behind :: "(string \<Rightarrow> string) \<Rightarrow> deterministic_consumer \<Rightarrow> string \<Rightarrow> bus_state \<Rightarrow> bool" where
  "checkpoint_behind sha256 dc pk b \<longleftrightarrow>
     start_offset (read_checkpoint b (dc_consumer_id dc) pk) \<le> int (length (part_log sha256 b pk)) + 1"

lemma distinct_sorted_pos: "sorted_wrt (\<lambda>x y. pos x < (pos y :: int)) xs \<Longrightarrow> distinct xs"
  by (induction xs) auto

lemma new_offsets:
  assumes "bus_inv sha256 b'" "part_log sha256 b' pk = xs @ es" "e \<in> set es"
  shows "int (length xs) < eh_partition_offset (ev_header e)"
proof -
  obtain j where j: "j < length es" "e = es ! j" using assms(3) by (auto simp: in_set_conv_nth)
  have "map (\<lambda>e. eh_partition_offset (ev_header e)) (xs @ es) ! (length xs + j) = int (length xs + j) + 1"
    using part_log_offsets [OF assms(1), of pk] j(1) by (simp add: assms(2) nth_append del: upt_Suc)
  with j show ?thesis by (simp add: nth_append)
qed

lemma part_log_pos: "bus_inv sha256 b \<Longrightarrow> e \<in> set (part_log sha256 b pk) \<Longrightarrow> 1 \<le> eh_partition_offset (ev_header e)"
  using new_offsets [of sha256 b pk "[]" "part_log sha256 b pk" e] by simp

text \<open>What holds in every phase: the batch is the next part of the log, and nothing before the checkpoint was skipped.\<close>

definition pending :: "(string \<Rightarrow> string) \<Rightarrow> deterministic_consumer \<Rightarrow> string \<Rightarrow> bus_state \<Rightarrow> domain_event list" where
  "pending sha256 dc pk b =
     filter (\<lambda>e. start_offset (read_checkpoint b (dc_consumer_id dc) pk) \<le> eh_partition_offset (ev_header e))
       (tenant_log sha256 (dc_tenant_id dc) pk b)"

fun phase_ok :: "(string \<Rightarrow> string) \<Rightarrow> deterministic_consumer \<Rightarrow> string \<Rightarrow>
    consumer_phase \<times> domain_event list \<times> bool \<times> bus_state \<Rightarrow> bool" where
  "phase_ok sha256 dc pk (Idle, s, early, b) \<longleftrightarrow> early \<or> s = delivered sha256 dc pk b"
| "phase_ok sha256 dc pk (Located start, s, early, b) \<longleftrightarrow>
     start = start_offset (read_checkpoint b (dc_consumer_id dc) pk) \<and> (early \<or> s = delivered sha256 dc pk b)"
| "phase_ok sha256 dc pk (Delivering ds es, s, early, b) \<longleftrightarrow>
     prefix (ds @ es) (pending sha256 dc pk b) \<and> set ds \<subseteq> set s \<and> (early \<or> s = delivered sha256 dc pk b @ ds)"

definition consumer_inv :: "(string \<Rightarrow> string) \<Rightarrow> deterministic_consumer \<Rightarrow> string \<Rightarrow>
    consumer_phase \<times> domain_event list \<times> bool \<times> bus_state \<Rightarrow> bool" where
  "consumer_inv sha256 dc pk c \<longleftrightarrow>
     (case c of (ph, s, early, b) \<Rightarrow>
        bus_reach sha256 b \<and> checkpoint_behind sha256 dc pk b \<and> set s \<subseteq> set (tenant_log sha256 (dc_tenant_id dc) pk b) \<and>
        set (delivered sha256 dc pk b) \<subseteq> set s) \<and> phase_ok sha256 dc pk c"

lemma delivered_pending: "bus_inv sha256 b \<Longrightarrow>
    delivered sha256 dc pk b @ pending sha256 dc pk b = tenant_log sha256 (dc_tenant_id dc) pk b"
  unfolding delivered_def pending_def by (rule bus_store.sorted_split [OF bus_store.log_sorted])

lemma batch_prefix:
  assumes "bus_inv sha256 b"
    and "read_partition sha256 b pk (start_offset (read_checkpoint b (dc_consumer_id dc) pk)) n (dc_tenant_id dc) = Inr es"
  shows "prefix es (pending sha256 dc pk b)"
  using assms bus_store.rd_log [OF assms(1), of pk _ n "dc_tenant_id dc"]
  by (auto simp: pending_def sql_limit_def take_is_prefix split: if_splits)

lemma commit_delivered:
  fixes now
  assumes "bus_inv sha256 b" and "prefix ds (pending sha256 dc pk b)" and "ds \<noteq> []"
  defines "b' \<equiv> write_checkpoint b (new_checkpoint sha256 (dc_consumer_id dc) pk now (last ds))"
  shows "delivered sha256 dc pk b' = delivered sha256 dc pk b @ ds" and "checkpoint_behind sha256 dc pk b'"
proof -
  let ?cid = "dc_consumer_id dc" and ?tf = "dc_tenant_id dc"
  have ds: "take (length ds) (pending sha256 dc pk b) = ds" using assms(2) by (auto simp: prefix_def)
  have "read_partition sha256 b pk (start_offset (read_checkpoint b ?cid pk)) (int (length ds)) ?tf = Inr ds"
    using bus_store.rd_log [OF assms(1), of pk _ "int (length ds)" ?tf] ds by (simp add: pending_def sql_limit_def)
  from bus_store.batch_commit [OF assms(1) this assms(3), of now]
  show "delivered sha256 dc pk b' = delivered sha256 dc pk b @ ds" by (simp add: delivered_def b'_def)
  have "last ds \<in> set (pending sha256 dc pk b)" using assms(2,3) set_mono_prefix last_in_set by blast
  then have "last ds \<in> set (part_log sha256 b pk)" by (auto simp: pending_def tenant_log_def)
  then have "eh_partition_offset (ev_header (last ds)) \<in> set (map int [1..<Suc (length (part_log sha256 b pk))])"
    by (subst part_log_offsets [OF assms(1), symmetric]) simp
  then show "checkpoint_behind sha256 dc pk b'"
    using bus_store.commit_ck [of b sha256 ?cid pk now "last ds"] by (auto simp: checkpoint_behind_def b'_def)
qed

lemma other_step_pending:
  assumes "bus_reach sha256 b" "checkpoint_behind sha256 dc pk b" "other_step sha256 (dc_consumer_id dc) pk b b'"
  shows "delivered sha256 dc pk b' = delivered sha256 dc pk b" and "prefix (pending sha256 dc pk b) (pending sha256 dc pk b')"
    and "bus_reach sha256 b'" and "checkpoint_behind sha256 dc pk b'"
    and "set (tenant_log sha256 (dc_tenant_id dc) pk b) \<subseteq> set (tenant_log sha256 (dc_tenant_id dc) pk b')"
proof -
  obtain es where es: "part_log sha256 b' pk = part_log sha256 b pk @ es" using other_step_log [OF assms(3)] by auto
  note ck = other_step_checkpoint [OF assms(3)]
  show r: "bus_reach sha256 b'" using assms(1,3) by (rule other_step_reach)
  have "\<not> eh_partition_offset (ev_header e) < start_offset (read_checkpoint b (dc_consumer_id dc) pk)" if "e \<in> set es" for e
    using new_offsets [OF bus_reach_inv [OF r] es that] assms(2) by (simp add: checkpoint_behind_def)
  then show "delivered sha256 dc pk b' = delivered sha256 dc pk b"
    by (auto simp: delivered_def tenant_log_def es ck filter_empty_conv)
  show "prefix (pending sha256 dc pk b) (pending sha256 dc pk b')" by (simp add: pending_def tenant_log_def es ck)
  show "checkpoint_behind sha256 dc pk b'" using assms(2) by (simp add: checkpoint_behind_def es ck)
  show "set (tenant_log sha256 (dc_tenant_id dc) pk b) \<subseteq> set (tenant_log sha256 (dc_tenant_id dc) pk b')"
    by (auto simp: tenant_log_def es)
qed

lemma consumer_step_inv:
  assumes "consumer_step sha256 dc pk c c'" and "consumer_inv sha256 dc pk c"
  shows "consumer_inv sha256 dc pk c'"
  using assms(1)
proof cases
  case (step_read b start n es s early)
  then show ?thesis using assms(2) batch_prefix [of sha256 b pk dc n es] bus_reach_inv by (auto simp: consumer_inv_def)
next
  case (step_deliver ds e es s early b)
  then have "e \<in> set (pending sha256 dc pk b)" using assms(2) set_mono_prefix by (fastforce simp: consumer_inv_def)
  then show ?thesis using assms(2) step_deliver by (auto simp: consumer_inv_def pending_def)
next
  case (step_raise ds e es s early b)
  then have "e \<in> set (pending sha256 dc pk b)" using assms(2) set_mono_prefix by (fastforce simp: consumer_inv_def)
  then show ?thesis using assms(2) step_raise by (auto simp: consumer_inv_def pending_def)
next
  case (step_commit ds s early b now)
  then have c: "bus_inv sha256 b" "prefix ds (pending sha256 dc pk b)" using assms(2) bus_reach_inv by (auto simp: consumer_inv_def)
  note d = commit_delivered [OF c step_commit(3), of now]
  show ?thesis
    using assms(2) step_commit d by (auto simp: consumer_inv_def tenant_log_def intro: reach_checkpoint)
next
  case (step_other b b' ph s early)
  then have "bus_reach sha256 b" "checkpoint_behind sha256 dc pk b" using assms(2) by (auto simp: consumer_inv_def)
  note o = other_step_pending [OF this step_other(3)]
  show ?thesis
    using assms(2) step_other o other_step_checkpoint [OF step_other(3)]
    by (cases ph) (auto simp: consumer_inv_def intro: prefix_order.trans)
qed (use assms(2) in \<open>auto simp: consumer_inv_def\<close>)

lemma consumer_run_inv:
  assumes "consumer_run sha256 dc pk ph s early b"
  shows "consumer_inv sha256 dc pk (ph, s, early, b)"
proof -
  obtain b0 where b0: "bus_reach sha256 b0" "read_checkpoint b0 (dc_consumer_id dc) pk = None"
      "(consumer_step sha256 dc pk)\<^sup>*\<^sup>* (Idle, [], False, b0) (ph, s, early, b)"
    using assms by (auto simp: consumer_run_def)
  have "filter (\<lambda>e. eh_partition_offset (ev_header e) < 1) (tenant_log sha256 (dc_tenant_id dc) pk b0) = []"
    using part_log_pos [OF bus_reach_inv [OF b0(1)]] by (intro filter_False) (force simp: tenant_log_def)
  then have "delivered sha256 dc pk b0 = []" using b0(2) by (simp add: delivered_def start_offset_def)
  then have "consumer_inv sha256 dc pk (Idle, [], False, b0)"
    using b0(1,2) by (simp add: consumer_inv_def start_offset_def checkpoint_behind_def)
  from b0(3) this show ?thesis by (induction rule: rtranclp_induct) (use consumer_step_inv in auto)
qed

text \<open>A call of \<open>consume\<close> that nothing interrupts is a sequence of these steps, whatever its handler does.\<close>

lemma logged_apply: "logged handler e (s, t) = (case handler e t of (x, u) \<Rightarrow> (x, s @ [e], u))"
  by (simp add: logged_def)

lemma deliver_steps:
  assumes "deliver (logged handler) es (s, t) = (x, s', t')"
  shows "if x = None
    then (consumer_step sha256 dc pk)\<^sup>*\<^sup>* (Delivering ds es, s, early, b) (Delivering (ds @ es) [], s', early, b)
    else (consumer_step sha256 dc pk)\<^sup>*\<^sup>* (Delivering ds es, s, early, b) (Idle, s', True, b)"
  using assms
proof (induction es arbitrary: ds s t)
  case (Cons e es)
  obtain y u where h: "handler e t = (y, u)" by fastforce
  show ?case
  proof (cases y)
    case None
    then have "deliver (logged handler) es (s @ [e], u) = (x, s', t')" using Cons.prems h by (simp add: logged_apply)
    note IH = Cons.IH [OF this, of "ds @ [e]"]
    have "consumer_step sha256 dc pk (Delivering ds (e # es), s, early, b) (Delivering (ds @ [e]) es, s @ [e], early, b)"
      by (rule step_deliver)
    then show ?thesis using IH by (auto intro: converse_rtranclp_into_rtranclp)
  next
    case (Some z)
    have "consumer_step sha256 dc pk (Delivering ds (e # es), s, early, b) (Idle, s @ [e], True, b)" by (rule step_raise)
    then show ?thesis using Cons.prems h Some by (auto simp: logged_apply)
  qed
qed simp

lemma consume_steps:
  assumes "bus_inv sha256 b" and "consume sha256 dc pk (logged handler) n now (s, t) b = (r, (s', t'), b')"
  shows "(consumer_step sha256 dc pk)\<^sup>*\<^sup>* (Idle, s, early, b) (Idle, s', early \<or> isl r, b')"
proof -
  let ?k = "start_offset (read_checkpoint b (dc_consumer_id dc) pk)"
  obtain es where es: "read_partition sha256 b pk ?k n (dc_tenant_id dc) = Inr es"
    using bus_store.rd_log [OF assms(1), of pk ?k n "dc_tenant_id dc"] by blast
  obtain x s1 t1 where d: "deliver (logged handler) es (s, t) = (x, s1, t1)" by (metis prod.exhaust)
  have start: "(consumer_step sha256 dc pk)\<^sup>*\<^sup>* (Idle, s, early, b) (Delivering [] es, s, early, b)"
  proof (rule rtranclp.rtrancl_into_rtrancl)
    show "(consumer_step sha256 dc pk)\<^sup>*\<^sup>* (Idle, s, early, b) (Located ?k, s, early, b)"
      by (rule r_into_rtranclp, rule step_locate)
  qed (rule step_read [OF es])
  show ?thesis
  proof (cases x)
    case None
    then have run: "(consumer_step sha256 dc pk)\<^sup>*\<^sup>* (Delivering [] es, s, early, b) (Delivering es [], s1, early, b)"
      using deliver_steps [OF d, of sha256 dc pk "[]" early b] by simp
    have "consumer_step sha256 dc pk (Delivering es [], s1, early, b) (Idle, s', early \<or> isl r, b')"
    proof (cases "es = []")
      case True
      then have "r = Inr 0" "s' = s1" "b' = b" using assms(2) None d True by (auto simp: consume_def es)
      then show ?thesis using True step_empty [of sha256 dc pk s1 early b] by simp
    next
      case False
      then have "\<not> isl r" "s' = s1" "b' = write_checkpoint b (new_checkpoint sha256 (dc_consumer_id dc) pk now (last es))"
        using assms(2) None by (auto simp: consume_def es d)
      then show ?thesis using step_commit [OF False, of sha256 dc pk s1 early b now] by simp
    qed
    from rtranclp_trans [OF start rtranclp.rtrancl_into_rtrancl [OF run this]] show ?thesis .
  next
    case (Some z)
    have r: "r = Inl z" "s' = s1" "b' = b" using assms(2) Some by (simp_all add: consume_def es d)
    have "(consumer_step sha256 dc pk)\<^sup>*\<^sup>* (Delivering [] es, s, early, b) (Idle, s1, True, b)"
      using deliver_steps [OF d, of sha256 dc pk "[]" early b] Some by simp
    from rtranclp_trans [OF start this] show ?thesis by (simp add: r)
  qed
qed

lemma takeWhile_True [simp]: "takeWhile (\<lambda>_. True) xs = xs"
  by (induction xs) auto

lemma takeWhile_sorted:
  "sorted_wrt (\<lambda>x y. pos x < (pos y :: int)) xs \<Longrightarrow> takeWhile (\<lambda>e. pos e \<le> n) xs = filter (\<lambda>e. pos e \<le> n) xs"
proof (induction xs)
  case (Cons x xs)
  then have "\<not> pos x \<le> n \<Longrightarrow> filter (\<lambda>e. pos e \<le> n) xs = []" by (fastforce simp: filter_empty_conv)
  with Cons show ?case by auto
qed simp

text \<open>The offsets and the correlation id that \<open>replay_partition\<close> selects.\<close>

definition in_replay :: "int \<Rightarrow> int option \<Rightarrow> string option \<Rightarrow> domain_event \<Rightarrow> bool" where
  "in_replay start end_offset corr e \<longleftrightarrow> start \<le> eh_partition_offset (ev_header e) \<and>
     (\<forall>n. end_offset = Some n \<longrightarrow> eh_partition_offset (ev_header e) \<le> n) \<and>
     (\<forall>c. corr = Some c \<and> c \<noteq> [] \<longrightarrow> eh_correlation_id (ev_header e) = c)"

text \<open>What a replay yields: of the first million events from the start offset those that are asked for.\<close>

definition replay_events :: "int \<Rightarrow> int option \<Rightarrow> string option \<Rightarrow> domain_event list \<Rightarrow> domain_event list" where
  "replay_events start end_offset corr lg =
     filter (in_replay start end_offset corr) (take 1000000 (filter (\<lambda>e. start \<le> eh_partition_offset (ev_header e)) lg))"

lemma set_replay_events: "set (replay_events start end_offset corr lg) \<subseteq> set lg"
  by (auto simp: replay_events_def dest: in_set_takeD)

lemma replay_events_all: "length lg \<le> 1000000 \<Longrightarrow>
    replay_events start end_offset corr lg = filter (in_replay start end_offset corr) lg"
  by (auto simp: replay_events_def in_replay_def intro!: filter_cong simp: le_trans [OF length_filter_le])

lemma replay_selection:
  fixes es :: "domain_event list"
  assumes "sorted_wrt (\<lambda>x y. eh_partition_offset (ev_header x) < eh_partition_offset (ev_header y)) es"
    and "\<forall>e\<in>set es. start \<le> eh_partition_offset (ev_header e)"
  shows "filter (\<lambda>e. \<not> (case corr of None \<Rightarrow> False | Some c \<Rightarrow> c \<noteq> [] \<and> eh_correlation_id (ev_header e) \<noteq> c))
      (takeWhile (\<lambda>e. \<not> (case end_offset of None \<Rightarrow> False | Some n \<Rightarrow> eh_partition_offset (ev_header e) > n)) es) =
    filter (in_replay start end_offset corr) es"
proof -
  have "takeWhile (\<lambda>e. \<not> (case end_offset of None \<Rightarrow> False | Some n \<Rightarrow> n < eh_partition_offset (ev_header e))) es =
      filter (\<lambda>e. \<not> (case end_offset of None \<Rightarrow> False | Some n \<Rightarrow> n < eh_partition_offset (ev_header e))) es"
    using assms(1) by (cases end_offset) (simp_all only: option.case not_False_eq_True not_less takeWhile_sorted, simp)
  then show ?thesis
    using assms(2) by simp (intro filter_cong refl, auto simp: in_replay_def split: option.splits)
qed

lemma replay_partition_events:
  assumes inv: "bus_inv sha256 b"
  shows "replay_partition sha256 b pk start end_offset corr = Inr (replay_events start end_offset corr (part_log sha256 b pk))"
proof -
  define es where "es = take 1000000 (filter (\<lambda>e. start \<le> eh_partition_offset (ev_header e)) (part_log sha256 b pk))"
  have "read_partition sha256 b pk start 1000000 None = Inr es"
    by (simp add: read_partition_log [OF inv] tenant_ok_def sql_limit_def es_def)
  moreover have "sorted_wrt (\<lambda>x y. eh_partition_offset (ev_header x) < eh_partition_offset (ev_header y)) es"
    unfolding es_def by (intro sorted_wrt_take sorted_wrt_filter part_log_sorted inv)
  moreover have "\<forall>e\<in>set es. start \<le> eh_partition_offset (ev_header e)" by (auto simp: es_def dest: in_set_takeD)
  ultimately show ?thesis
    by (simp only: replay_partition_def res_bind.simps replay_selection replay_events_def es_def [symmetric])
qed

lemma replay_partition_log:
  assumes "bus_inv sha256 b" and "length (part_log sha256 b pk) \<le> 1000000"
  shows "replay_partition sha256 b pk start end_offset corr =
    Inr (filter (in_replay start end_offset corr) (part_log sha256 b pk))"
  using replay_partition_events [OF assms(1)] replay_events_all [OF assms(2)] by simp

section \<open>Properties\<close>

text \<open>
  C3 (consumer_exactly_once). Let a consumer that starts without a checkpoint make its calls one after the other, each of its
  accesses to the storage and each delivery a step of its own among the steps of other clients, which leave its checkpoint
  alone; calls may end early (a handler that raises, an interrupt). Whatever it has handed over is in
  the log of the partition as its tenant filter shows it, and no event before the checkpoint was skipped: delivery is at
  least once. As long as no call ended early, it has handed over a prefix of that log: each event once, in offset order. And
  between two calls, an undisturbed call with a handler that does not raise returns, and delivers exactly the next \<open>n\<close> events
  or all that remain.
\<close>

theorem consumer_exactly_once:
  assumes "consumer_run sha256 dc pk ph s early b"
  shows "\<exists>es. read_partition sha256 b pk 1 (-1) (dc_tenant_id dc) = Inr es \<and> distinct es \<and> set s \<subseteq> set es \<and>
    (\<forall>e\<in>set es. eh_partition_offset (ev_header e) < start_offset (read_checkpoint b (dc_consumer_id dc) pk) \<longrightarrow> e \<in> set s) \<and>
    (\<not> early \<longrightarrow> prefix s es) \<and>
    (\<not> early \<and> ph = Idle \<longrightarrow> (\<forall>n now. 0 \<le> n \<longrightarrow> (\<exists>b'. consume sha256 dc pk recorder n now s b =
      (Inr (min (length es - length s) (nat n)), take (length s + nat n) es, b'))))"
proof -
  let ?es = "tenant_log sha256 (dc_tenant_id dc) pk b"
  let ?ck = "start_offset (read_checkpoint b (dc_consumer_id dc) pk)"
  note r = consumer_run_inv [OF assms]
  have inv: "bus_inv sha256 b" using r by (simp add: bus_reach_inv consumer_inv_def)
  note l = delivered_pending [OF inv, of dc pk]
  have "filter (\<lambda>e. 1 \<le> eh_partition_offset (ev_header e)) ?es = ?es"
    using part_log_pos [OF inv] by (intro filter_True) (auto simp: tenant_log_def)
  then have "read_partition sha256 b pk 1 (-1) (dc_tenant_id dc) = Inr ?es"
    using bus_store.rd_log [OF inv, of pk 1 "-1" "dc_tenant_id dc"] by (simp add: sql_limit_def)
  moreover have "distinct ?es"
    using bus_store.log_sorted [OF inv, of "dc_tenant_id dc" pk] by (rule distinct_sorted_pos)
  moreover have "set s \<subseteq> set ?es" using r by (simp add: consumer_inv_def)
  moreover have "e \<in> set s" if "e \<in> set ?es" "eh_partition_offset (ev_header e) < ?ck" for e
    using r that by (auto simp: consumer_inv_def delivered_def)
  moreover have "prefix s ?es" if "\<not> early"
    using r that unfolding l [symmetric] by (cases ph) (auto simp: consumer_inv_def intro: append_prefixD)
  moreover have "\<exists>b'. consume sha256 dc pk recorder n now s b =
      (Inr (min (length ?es - length s) (nat n)), take (length s + nat n) ?es, b')"
    if c: "\<not> early \<and> ph = Idle" and n: "0 \<le> n" for n now
  proof -
    have s: "s = delivered sha256 dc pk b" using r c by (simp add: consumer_inv_def)
    have hi: "filter (\<lambda>e. ?ck \<le> eh_partition_offset (ev_header e)) ?es = drop (length s) ?es"
      using l unfolding s pending_def by (metis append_eq_conv_conj)
    have "s @ take (nat n) (drop (length s) ?es) = take (length s + nat n) ?es"
      using l unfolding s by (metis append_eq_conv_conj take_add)
    then show ?thesis
      using n by (simp add: consume_def bus_store.rd_log [OF inv] hi sql_limit_def deliver_recorder) (auto simp: min_def)
  qed
  ultimately show ?thesis by blast
qed

theorem consumer_exactly_once_witness:
  "\<exists>es. read_partition id (example_bus 5000) ''p'' 1 (-1) (Some ''acme'') = Inr es \<and> length es = 1 \<and>
    (\<exists>b'. consume id \<lparr>dc_consumer_id = ''c1'', dc_tenant_id = Some ''acme''\<rparr> ''p'' recorder 10 (DateTime 2026 1 2 3 4 5 0) []
       (example_bus 5000) = (Inr 1, es, b'))"
proof -
  have "read_checkpoint (example_bus 5000) ''c1'' ''p'' = None"
    using bus_append_checkpoints [OF example_append_bus, of 5000] by (simp add: read_checkpoint_def empty_bus_def)
  then have "consumer_run id \<lparr>dc_consumer_id = ''c1'', dc_tenant_id = Some ''acme''\<rparr> ''p'' Idle [] False (example_bus 5000)"
    by (auto simp: consumer_run_def example_reach intro!: exI [of _ "example_bus 5000"])
  note run = consumer_exactly_once [OF this]
  let ?dc = "\<lparr>dc_consumer_id = ''c1'', dc_tenant_id = Some ''acme''\<rparr>"
  obtain es where es: "read_partition id (example_bus 5000) ''p'' 1 (-1) (Some ''acme'') = Inr es"
    "\<And>n now. 0 \<le> n \<Longrightarrow> \<exists>b'. consume id ?dc ''p'' recorder n now [] (example_bus 5000) =
       (Inr (min (length es) (nat n)), take (nat n) es, b')"
    using run by (simp, blast)
  have "eh_author_tenant_id (ev_header (example_event 5000)) = ''acme''"
    by (rule bus_append_cases [OF example_append_bus [of 5000]]) simp_all
  then have "length es = 1"
    using es(1) part_log_offsets [OF bus_reach_inv [OF example_reach [of 5000]], of "''p''"] example_log [of 5000]
    by (auto simp: read_partition_log [OF bus_reach_inv [OF example_reach]] sql_limit_def tenant_ok_def)
  with es(1) es(2) [of 10 "DateTime 2026 1 2 3 4 5 0"] show ?thesis by (intro exI [of _ es]) simp
qed

text \<open>
  When the handler raises, the exception leaves \<open>consume\<close> and the
  storage is unchanged, so the next call starts at the same offset and delivers the events of
  the batch again, those the handler had already accepted included: delivery is exactly once
  only for handlers that do not raise.
\<close>

theorem consume_handler_failure:
  assumes "read_partition sha256 b pk (start_offset (get_checkpoint dc b pk)) n (dc_tenant_id dc) = Inr (xs @ e # ys)"
    and "deliver handler xs s = (None, s1)" and "handler e s1 = (Some x, s2)"
  shows "consume sha256 dc pk handler n now s b = (Inl x, s2, b)"
proof -
  have "deliver handler (xs @ e # ys) s = (Some x, s2)"
    using assms(2,3) by (induction xs arbitrary: s) (auto split: prod.splits option.splits)
  with assms(1) show ?thesis by (simp add: consume_def get_checkpoint_def)
qed

definition failing_handler :: "(domain_event, nat) handler" where
  "failing_handler e k = (Some TypeError, k + 1)"

theorem consume_handler_failure_witness:
  "consume id \<lparr>dc_consumer_id = ''c1'', dc_tenant_id = None\<rparr> ''p'' failing_handler 10 (DateTime 2026 1 2 3 4 5 0) 0
     (example_bus 5000) = (Inl TypeError, 1, example_bus 5000)"
proof (rule consume_handler_failure)
  have "read_checkpoint (example_bus 5000) ''c1'' ''p'' = None"
    using bus_append_checkpoints [OF example_append_bus, of 5000] by (simp add: read_checkpoint_def empty_bus_def)
  then show "read_partition id (example_bus 5000) ''p'' (start_offset (get_checkpoint
      \<lparr>dc_consumer_id = ''c1'', dc_tenant_id = None\<rparr> (example_bus 5000) ''p'')) 10
      (dc_tenant_id \<lparr>dc_consumer_id = ''c1'', dc_tenant_id = None\<rparr>) =
    Inr ([] @ (example_event 5000)\<lparr>ev_payload := stored_payload example_payload\<rparr> # [])"
    by (simp add: get_checkpoint_def start_offset_def read_all_log [OF bus_reach_inv [OF example_reach]]
        example_log sql_limit_def)
qed (simp_all add: failing_handler_def)

text \<open>
  On a reachable storage with at most a million events in the partition,
  \<open>replay_partition\<close> yields, in offset order, exactly the events with offsets from
  \<open>start_offset\<close> to \<open>end_offset\<close> that carry the correlation id asked for.
\<close>

theorem replay_range:
  assumes "bus_reach sha256 b" and "read_partition sha256 b pk 1 (-1) None = Inr lg" and "length lg \<le> 1000000"
  shows "replay_partition sha256 b pk start end_offset corr =
    Inr (filter (\<lambda>e. start \<le> eh_partition_offset (ev_header e) \<and>
       (\<forall>n. end_offset = Some n \<longrightarrow> eh_partition_offset (ev_header e) \<le> n) \<and>
       (\<forall>c. corr = Some c \<and> c \<noteq> [] \<longrightarrow> eh_correlation_id (ev_header e) = c)) lg)"
proof -
  note inv = bus_reach_inv [OF assms(1)]
  have lg: "lg = part_log sha256 b pk" using assms(2) read_all_log [OF inv, of pk "-1"] by (simp add: sql_limit_def)
  from replay_partition_log [OF inv assms(3) [unfolded lg]] show ?thesis by (simp add: in_replay_def [abs_def] lg)
qed

theorem replay_range_witness:
  "replay_partition id (example_bus 5000) ''p'' 2 None (Some ''corr'') =
    Inr (filter (\<lambda>e. 2 \<le> eh_partition_offset (ev_header e) \<and> (\<forall>n. None = Some n \<longrightarrow> eh_partition_offset (ev_header e) \<le> n) \<and>
       (\<forall>c. Some ''corr'' = Some c \<and> c \<noteq> [] \<longrightarrow> eh_correlation_id (ev_header e) = c)) (part_log id (example_bus 5000) ''p''))"
  by (rule replay_range [OF example_reach])
     (simp_all add: read_all_log [OF bus_reach_inv [OF example_reach]] example_log sql_limit_def)

text \<open>
  State reconstruction can be maintained incrementally: after an
  append, replaying the whole partition through a state builder gives what the builder makes
  of the previously reconstructed state and the new event as it is stored.
\<close>

theorem reconstruct_incremental:
  assumes "bus_reach sha256 b" and "py_wf (PDict payload)"
    and "bus_append sha256 et pk payload tenant actor corr clock obs b = Inr (e, b')"
    and "eh_partition_offset (ev_header e) \<le> 1000000"
  shows "reconstruct_state sha256 b' pk state_builder =
    res_bind (reconstruct_state sha256 b pk state_builder)
      (\<lambda>st. state_builder st (e\<lparr>ev_payload := stored_payload payload\<rparr>))"
proof -
  note inv = bus_reach_inv [OF assms(1)]
  note inv' = bus_append_inv [OF inv assms(2,3)]
  let ?log = "part_log sha256 b pk" and ?e = "e\<lparr>ev_payload := stored_payload payload\<rparr>"
  have log: "part_log sha256 b' pk = ?log @ [?e]" using part_log_after_append(1) [OF assms(3,2), of pk] by simp
  then have "eh_partition_offset (ev_header e) = int (length ?log) + 1"
    using part_log_offsets [OF inv', of pk] by simp
  then have "int (length ?log) < 1000000" using assms(4) by simp
  then have "reconstruct_state sha256 b pk state_builder = res_fold state_builder [] ?log"
    "reconstruct_state sha256 b' pk state_builder = res_fold state_builder [] (?log @ [?e])"
    by (simp_all add: reconstruct_state_def replay_partition_def read_all_log [OF inv] read_all_log [OF inv'] log
        sql_limit_def)
  then show ?thesis by (simp add: res_fold_append)
qed

definition count_builder :: "payload \<Rightarrow> domain_event \<Rightarrow> payload result" where
  "count_builder st e = Inr ((''seen'', PStr (eh_event_id (ev_header e))) # st)"

theorem reconstruct_incremental_witness:
  "reconstruct_state id (example_bus 5000) ''p'' count_builder =
    res_bind (reconstruct_state id empty_bus ''p'' count_builder)
      (\<lambda>st. count_builder st ((example_event 5000)\<lparr>ev_payload := stored_payload example_payload\<rparr>))"
proof (rule reconstruct_incremental [OF reach_empty example_payload_wf example_append_bus])
  show "eh_partition_offset (ev_header (example_event 5000)) \<le> 1000000"
    using part_log_offsets [OF bus_reach_inv [OF example_reach], of 5000 "''p''"] by (simp add: example_log)
qed simp

end
