(* ===== verification/Semantic_Fabric.thy ===== *)
theory Semantic_Fabric
  imports Event_Bus_Theorems
begin

text \<open>
  The semantic fabric (\<open>bus/semantic_fabric.py\<close>): typed metadata around an append, with its
  trust threshold and its check that parent events exist, agent snapshots, and the backward
  traversal of the causality graph. A trust level is a float, given by its \<open>repr\<close>.
\<close>

section \<open>Semantic appends\<close>

record semantic_metadata =
  sm_semantic_intent :: string
  sm_execution_lineage :: "string list"
  sm_trust_level :: string
  sm_causality_chain :: "string list"
  sm_reproducibility_hash :: string
  sm_schema_version :: string
  sm_policy_classification :: string

definition metadata_dict :: "semantic_metadata \<Rightarrow> payload" where
  "metadata_dict m =
     [(''semantic_intent'', PStr (sm_semantic_intent m)),
      (''execution_lineage'', PList (map PStr (sm_execution_lineage m))),
      (''trust_level'', PFloat (sm_trust_level m)),
      (''causality_chain'', PList (map PStr (sm_causality_chain m))),
      (''reproducibility_hash'', PStr (sm_reproducibility_hash m)),
      (''schema_version'', PStr (sm_schema_version m)),
      (''policy_classification'', PStr (sm_policy_classification m))]"

definition check_event_hash_exists :: "bus_state \<Rightarrow> string \<Rightarrow> bool" where
  "check_event_hash_exists b h = list_ex (\<lambda>r. er_event_hash r = h) (bs_events b)"

definition reproducibility_hash :: "(string \<Rightarrow> string) \<Rightarrow> payload \<Rightarrow> string list \<Rightarrow> string \<Rightarrow> string \<Rightarrow> string" where
  "reproducibility_hash sha256 payload lineage intent version =
     sha256 (dumps_default (canonical (PDict
       [(''payload'', PDict payload), (''execution_lineage'', PList (map PStr lineage)),
        (''semantic_intent'', PStr intent), (''schema_version'', PStr version)])))"

record semantic_request =
  sx_event_type :: event_type
  sx_partition_key :: string
  sx_payload :: payload
  sx_semantic_intent :: string
  sx_execution_lineage :: "string list"
  sx_trust_level :: string
  sx_causality_chain :: "string list"
  sx_schema_version :: string
  sx_policy_classification :: string
  sx_tenant_id :: string
  sx_actor_id :: string
  sx_correlation_id :: string

definition request_metadata :: "(string \<Rightarrow> string) \<Rightarrow> semantic_request \<Rightarrow> semantic_metadata" where
  "request_metadata sha256 q =
     \<lparr>sm_semantic_intent = sx_semantic_intent q, sm_execution_lineage = sx_execution_lineage q,
      sm_trust_level = sx_trust_level q, sm_causality_chain = sx_causality_chain q,
      sm_reproducibility_hash = reproducibility_hash sha256 (sx_payload q) (sx_execution_lineage q)
        (sx_semantic_intent q) (sx_schema_version q),
      sm_schema_version = sx_schema_version q, sm_policy_classification = sx_policy_classification q\<rparr>"

definition semantic_payload :: "(string \<Rightarrow> string) \<Rightarrow> semantic_request \<Rightarrow> payload" where
  "semantic_payload sha256 q =
     dict_set (sx_payload q) ''_semantic'' (PDict (metadata_dict (request_metadata sha256 q)))"

definition append_semantic ::
  "(string \<Rightarrow> string) \<Rightarrow> string \<Rightarrow> semantic_request \<Rightarrow> det_clock option \<Rightarrow> bool \<Rightarrow> append_obs \<Rightarrow> bus_state \<Rightarrow>
     (domain_event \<times> bus_state) result" where
  "append_semantic sha256 min_trust q clock bypass obs b =
     (if float_val (sx_trust_level q) < float_val min_trust then Inl TrustEnforcementError
      else case (if bypass then None else find (\<lambda>h. \<not> check_event_hash_exists b h) (sx_causality_chain q)) of
             Some h \<Rightarrow> Inl (CausalChainBreakError h)
           | None \<Rightarrow> bus_append sha256 (sx_event_type q) (sx_partition_key q) (semantic_payload sha256 q)
                       (sx_tenant_id q) (sx_actor_id q) (sx_correlation_id q) clock obs b)"

definition SNAPSHOTS :: string where "SNAPSHOTS = ''snapshots''"

definition snapshot_payload :: "(string \<Rightarrow> string) \<Rightarrow> string \<Rightarrow> payload \<Rightarrow> payload" where
  "snapshot_payload sha256 agent_id state =
     [(''agent_id'', PStr agent_id), (''agent_state'', PDict state),
      (''state_signature'', PStr (sha256 (dumps_default (canonical (PDict state)))))]"

definition snapshot_request :: "(string \<Rightarrow> string) \<Rightarrow> string \<Rightarrow> payload \<Rightarrow> string \<Rightarrow> string \<Rightarrow> string \<Rightarrow> semantic_request" where
  "snapshot_request sha256 agent_id state corr tenant actor =
     \<lparr>sx_event_type = SNAPSHOT_STORED, sx_partition_key = SNAPSHOTS,
      sx_payload = snapshot_payload sha256 agent_id state,
      sx_semantic_intent = ''checkpoint_agent_state:'' @ agent_id, sx_execution_lineage = [agent_id],
      sx_trust_level = ''1.0'', sx_causality_chain = [], sx_schema_version = ''1.0.0'',
      sx_policy_classification = ''governed'', sx_tenant_id = tenant, sx_actor_id = actor,
      sx_correlation_id = corr\<rparr>"

definition write_agent_snapshot ::
  "(string \<Rightarrow> string) \<Rightarrow> string \<Rightarrow> string \<Rightarrow> payload \<Rightarrow> string \<Rightarrow> string \<Rightarrow> string \<Rightarrow> det_clock option \<Rightarrow> append_obs \<Rightarrow>
     bus_state \<Rightarrow> (domain_event \<times> bus_state) result" where
  "write_agent_snapshot sha256 min_trust agent_id state corr tenant actor clock obs b =
     append_semantic sha256 min_trust (snapshot_request sha256 agent_id state corr tenant actor) clock True obs b"

section \<open>The causality graph\<close>

record causality_node =
  nd_event_id :: string
  nd_event_type :: string
  nd_event_hash :: string
  nd_semantic_intent :: pyval
  nd_trust_level :: pyval
  nd_schema_version :: pyval
  nd_policy_classification :: pyval

text \<open>
  The elements a \<open>for\<close> loop draws from a stored value. An element that is not a string, which
  no append of the fabric writes, is reported as a \<open>TypeError\<close>.
\<close>

definition iter_strings :: "pyval \<Rightarrow> string list result" where
  "iter_strings v =
     (case v of
        PList vs \<Rightarrow> res_map (\<lambda>x. case x of PStr s \<Rightarrow> Inr s | _ \<Rightarrow> Inl TypeError) vs
      | PStr s \<Rightarrow> Inr (map (\<lambda>c. [c]) s)
      | PDict d \<Rightarrow> Inr (dict_keys d)
      | _ \<Rightarrow> Inl TypeError)"

definition row_semantic :: "event_row \<Rightarrow> payload result" where
  "row_semantic r =
     res_bind (json_loads (er_payload_json r)) (\<lambda>v.
       case v of
         PDict p \<Rightarrow> (case dict_get p ''_semantic'' (PDict []) of PDict d \<Rightarrow> Inr d | _ \<Rightarrow> Inl AttributeError)
       | _ \<Rightarrow> Inl AttributeError)"

definition row_parents :: "event_row \<Rightarrow> string list result" where
  "row_parents r = res_bind (row_semantic r) (\<lambda>d. iter_strings (dict_get d ''causality_chain'' (PList [])))"

definition row_node :: "event_row \<Rightarrow> payload \<Rightarrow> causality_node" where
  "row_node r semantic =
     \<lparr>nd_event_id = er_event_id r, nd_event_type = er_event_type r, nd_event_hash = er_event_hash r,
      nd_semantic_intent = dict_get semantic ''semantic_intent'' (PStr ''unknown''),
      nd_trust_level = dict_get semantic ''trust_level'' (PFloat ''1.0''),
      nd_schema_version = dict_get semantic ''schema_version'' (PStr ''1.0.0''),
      nd_policy_classification = dict_get semantic ''policy_classification'' (PStr ''standard'')\<rparr>"

definition find_by_hash :: "bus_state \<Rightarrow> string \<Rightarrow> event_row option" where
  "find_by_hash b h = find (\<lambda>r. er_event_hash r = h) (bs_events b)"

lemma find_by_hash_in: "find_by_hash b h = Some r \<Longrightarrow> r \<in> set (bs_events b) \<and> er_event_hash r = h"
  by (auto simp: find_by_hash_def find_Some_iff)

function dag_loop :: "bus_state \<Rightarrow> string list \<Rightarrow> string list \<Rightarrow> causality_node list \<Rightarrow> (string \<times> string) list \<Rightarrow>
    (causality_node list \<times> (string \<times> string) list) result" where
  "dag_loop b [] visited nodes edges = Inr (nodes, edges)"
| "dag_loop b (cur # to_visit) visited nodes edges =
     (if cur \<in> set visited then dag_loop b to_visit visited nodes edges
      else case find_by_hash b cur of
             None \<Rightarrow> dag_loop b to_visit (cur # visited) nodes edges
           | Some r \<Rightarrow>
               (case row_semantic r of
                  Inl x \<Rightarrow> Inl x
                | Inr semantic \<Rightarrow>
                    (case iter_strings (dict_get semantic ''causality_chain'' (PList [])) of
                       Inl x \<Rightarrow> Inl x
                     | Inr parents \<Rightarrow>
                         dag_loop b (to_visit @ filter (\<lambda>p. p \<notin> set (cur # visited)) parents) (cur # visited)
                           (nodes @ [row_node r semantic]) (edges @ map (\<lambda>p. (p, cur)) parents))))"
  by pat_completeness auto

termination
proof (relation "measures [\<lambda>(b, _, visited, _, _). card (er_event_hash ` set (bs_events b) - set visited),
    \<lambda>(_, to_visit, _, _, _). length to_visit]", goal_cases)
  case (3 b cur to_visit visited nodes edges)
  have "card (er_event_hash ` set (bs_events b) - set (cur # visited)) \<le> card (er_event_hash ` set (bs_events b) - set visited)"
    by (intro card_mono) auto
  then show ?case by auto
next
  case (4 b cur to_visit visited nodes edges r semantic parents)
  have "cur \<in> er_event_hash ` set (bs_events b)" using find_by_hash_in [OF 4(2)] by blast
  with 4(1) have "er_event_hash ` set (bs_events b) - set (cur # visited) \<subset> er_event_hash ` set (bs_events b) - set visited"
    by auto
  then have "card (er_event_hash ` set (bs_events b) - set (cur # visited)) < card (er_event_hash ` set (bs_events b) - set visited)"
    by (intro psubset_card_mono) auto
  then show ?case by simp
qed auto

definition get_causality_dag :: "bus_state \<Rightarrow> string \<Rightarrow> (causality_node list \<times> (string \<times> string) list) result" where
  "get_causality_dag b start_hash = dag_loop b [start_hash] [] [] []"

section \<open>The traversal\<close>

definition caused_by :: "bus_state \<Rightarrow> string \<Rightarrow> string \<Rightarrow> bool" where
  "caused_by b c p \<longleftrightarrow> (\<exists>r ps. find_by_hash b c = Some r \<and> row_parents r = Inr ps \<and> p \<in> set ps)"

definition dag_inv :: "bus_state \<Rightarrow> string \<Rightarrow> string list \<Rightarrow> string list \<Rightarrow> causality_node list \<Rightarrow> (string \<times> string) list \<Rightarrow> bool" where
  "dag_inv b s to_visit visited nodes edges \<longleftrightarrow>
     set (map nd_event_hash nodes) = {h \<in> set visited. find_by_hash b h \<noteq> None} \<and>
     distinct (map nd_event_hash nodes) \<and>
     set edges = {(p, c). c \<in> set visited \<and> caused_by b c p} \<and>
     set visited \<union> set to_visit \<subseteq> {h. (caused_by b)\<^sup>*\<^sup>* s h} \<and>
     s \<in> set visited \<union> set to_visit \<and>
     (\<forall>c p. c \<in> set visited \<longrightarrow> caused_by b c p \<longrightarrow> p \<in> set visited \<union> set to_visit)"

lemma dag_inv_done:
  assumes "dag_inv b s [] visited nodes edges"
  shows "set (map nd_event_hash nodes) = {h. (caused_by b)\<^sup>*\<^sup>* s h \<and> find_by_hash b h \<noteq> None}"
    and "distinct (map nd_event_hash nodes)"
    and "set edges = {(p, c). (caused_by b)\<^sup>*\<^sup>* s c \<and> caused_by b c p}"
proof -
  have "h \<in> set visited" if "(caused_by b)\<^sup>*\<^sup>* s h" for h
    using that by (induction rule: rtranclp_induct) (use assms in \<open>auto simp: dag_inv_def\<close>)
  moreover have "set visited \<subseteq> {h. (caused_by b)\<^sup>*\<^sup>* s h}" using assms by (simp add: dag_inv_def)
  ultimately have v: "set visited = {h. (caused_by b)\<^sup>*\<^sup>* s h}" by auto
  show "set (map nd_event_hash nodes) = {h. (caused_by b)\<^sup>*\<^sup>* s h \<and> find_by_hash b h \<noteq> None}"
    "distinct (map nd_event_hash nodes)"
    "set edges = {(p, c). (caused_by b)\<^sup>*\<^sup>* s c \<and> caused_by b c p}"
    using assms v unfolding dag_inv_def by simp_all
qed

lemma dag_inv_skip:
  assumes "dag_inv b s (cur # to_visit) visited nodes edges" "cur \<in> set visited"
  shows "dag_inv b s to_visit visited nodes edges"
  using assms unfolding dag_inv_def by auto

lemma dag_inv_missing:
  assumes "dag_inv b s (cur # to_visit) visited nodes edges" "cur \<notin> set visited" "find_by_hash b cur = None"
  shows "dag_inv b s to_visit (cur # visited) nodes edges"
proof -
  have n: "\<not> caused_by b cur p" for p using assms(3) by (simp add: caused_by_def)
  show ?thesis
    using assms(1,3) unfolding dag_inv_def by (auto simp: n)
qed

lemma dag_inv_node:
  assumes inv: "dag_inv b s (cur # to_visit) visited nodes edges" and new: "cur \<notin> set visited"
    and r: "find_by_hash b cur = Some r" "row_semantic r = Inr semantic"
      "iter_strings (dict_get semantic ''causality_chain'' (PList [])) = Inr parents"
  shows "dag_inv b s (to_visit @ filter (\<lambda>p. p \<notin> set (cur # visited)) parents) (cur # visited)
    (nodes @ [row_node r semantic]) (edges @ map (\<lambda>p. (p, cur)) parents)"
proof -
  have c: "caused_by b cur p \<longleftrightarrow> p \<in> set parents" for p using r by (auto simp: caused_by_def row_parents_def)
  have h: "nd_event_hash (row_node r semantic) = cur" using find_by_hash_in [OF r(1)] by (simp add: row_node_def)
  have s: "(caused_by b)\<^sup>*\<^sup>* s cur" using inv by (simp add: dag_inv_def)
  then have "(caused_by b)\<^sup>*\<^sup>* s p" if "p \<in> set parents" for p using that c by (meson rtranclp.rtrancl_into_rtrancl)
  with inv new r(1) s show ?thesis unfolding dag_inv_def by (auto simp: h c)
qed

lemma dag_loop_correct:
  assumes "dag_loop b to_visit visited nodes edges = Inr (ns, es)" "dag_inv b s to_visit visited nodes edges"
  shows "\<exists>v. dag_inv b s [] v ns es"
  using assms
proof (induction b to_visit visited nodes edges rule: dag_loop.induct)
  case (1 b visited nodes edges)
  then show ?case by auto
next
  case (2 b cur to_visit visited nodes edges)
  show ?case
  proof (cases "cur \<in> set visited")
    case True
    with 2 show ?thesis using dag_inv_skip [OF "2.prems"(2) True] by simp
  next
    case False
    show ?thesis
    proof (cases "find_by_hash b cur")
      case None
      with False "2.prems"(1) "2.IH"(2) [OF False None] dag_inv_missing [OF "2.prems"(2) False None]
      show ?thesis by simp
    next
      case (Some r)
      with False "2.prems"(1) obtain semantic parents where sp: "row_semantic r = Inr semantic"
        "iter_strings (dict_get semantic ''causality_chain'' (PList [])) = Inr parents"
        by (auto split: sum.splits)
      from "2.IH"(3) [OF False Some sp] "2.prems"(1) False Some sp
        dag_inv_node [OF "2.prems"(2) False Some sp]
      show ?thesis by simp
    qed
  qed
qed

lemma dag_inv_start: "dag_inv b s [s] [] [] []"
  by (simp add: dag_inv_def)

lemma dag_loop_total:
  assumes "\<And>r. r \<in> set (bs_events b) \<Longrightarrow> \<exists>ps. row_parents r = Inr ps"
  shows "\<exists>ns es. dag_loop b to_visit visited nodes edges = Inr (ns, es)"
  using assms
proof (induction b to_visit visited nodes edges rule: dag_loop.induct)
  case (2 b cur to_visit visited nodes edges)
  show ?case
  proof (cases "cur \<in> set visited")
    case True
    with 2 show ?thesis by simp
  next
    case False
    show ?thesis
    proof (cases "find_by_hash b cur")
      case None
      with "2.IH"(2) [OF False None "2.prems"] False show ?thesis by simp
    next
      case (Some r)
      with "2.prems" find_by_hash_in [OF Some] obtain semantic parents where sp: "row_semantic r = Inr semantic"
        "iter_strings (dict_get semantic ''causality_chain'' (PList [])) = Inr parents"
        by (fastforce simp: row_parents_def res_simps)
      from "2.IH"(3) [OF False Some sp "2.prems"] False Some sp show ?thesis by simp
    qed
  qed
qed simp

section \<open>What the fabric stores\<close>

lemma map_of_stored_payload:
  assumes "distinct (map fst p)"
  shows "map_of (stored_payload p) k = map_option (json_norm \<circ> canonical) (map_of p k)"
proof -
  let ?f = "\<lambda>(k, v). (k, json_norm (canonical v))"
  have s: "stored_payload p = sort_key fst (map ?f p)"
    by (simp add: stored_payload_def split_def comp_def)
  have f: "map fst (map ?f p) = map fst p" by (simp add: comp_def split_def)
  then have d: "distinct (map fst (map ?f p))" using assms by metis
  then have "distinct (map fst (stored_payload p))"
    unfolding s by (subst mset_eq_imp_distinct_iff [of _ "map fst (map ?f p)"]) (simp_all only: mset_map mset_sort)
  with d have "map_of (stored_payload p) = map_of (map ?f p)"
    by (subst map_of_inject_set) (auto simp: s)
  moreover have "map_of (map ?f p) k = map_option (json_norm \<circ> canonical) (map_of p k)"
    by (induction p) (auto simp: comp_def)
  ultimately show ?thesis by simp
qed

lemma dict_get_stored:
  "distinct (map fst p) \<Longrightarrow> map_of p k = Some v \<Longrightarrow> dict_get (stored_payload p) k d = json_norm (canonical v)"
  by (simp add: dict_get_def map_of_stored_payload)

lemma iter_strings_list [simp]: "iter_strings (PList (map PStr xs)) = Inr xs"
  unfolding iter_strings_def by (induction xs) auto

lemma py_wf_dict_set:
  assumes "py_wf (PDict d)" "py_wf v"
  shows "py_wf (PDict (dict_set d k v))"
proof -
  have "dict_wf (dict_set d k v)" using assms(1) by (intro dict_set_wf) (simp add: dict_wf_def)
  moreover have "py_wf x" if "(k', x) \<in> set (dict_set d k v)" for k' x
    using dict_set_values [OF that] assms by (auto simp: list_all_iff)
  ultimately show ?thesis by (auto simp: dict_wf_def list_all_iff)
qed

lemma semantic_payload_wf:
  assumes "py_wf (PDict (sx_payload q))" "py_wf (PFloat (sx_trust_level q))"
  shows "py_wf (PDict (semantic_payload sha256 q))"
  unfolding semantic_payload_def
  by (rule py_wf_dict_set [OF assms(1)])
    (use assms(2) in \<open>simp add: metadata_dict_def request_metadata_def list_all_iff\<close>)

lemma row_semantic_stored:
  assumes "py_wf (PDict (semantic_payload sha256 q))"
    and "er_payload_json r = dumps_compact (canonical (PDict (semantic_payload sha256 q)))"
  shows "row_semantic r = Inr (stored_payload (metadata_dict (request_metadata sha256 q)))"
proof -
  have "map_of (semantic_payload sha256 q) ''_semantic'' = Some (PDict (metadata_dict (request_metadata sha256 q)))"
    by (simp add: semantic_payload_def dict_simps)
  then have "dict_get (stored_payload (semantic_payload sha256 q)) ''_semantic'' (PDict []) =
      PDict (stored_payload (metadata_dict (request_metadata sha256 q)))"
    using assms(1) unfolding PDict_stored_payload by (intro dict_get_stored) auto
  then show ?thesis
    unfolding row_semantic_def assms(2) json_loads_stored [OF assms(1)] by (simp add: res_simps)
qed

lemma row_parents_stored:
  assumes "py_wf (PDict (semantic_payload sha256 q))"
    and "er_payload_json r = dumps_compact (canonical (PDict (semantic_payload sha256 q)))"
  shows "row_parents r = Inr (sx_causality_chain q)"
proof -
  have "dict_get (stored_payload (metadata_dict (request_metadata sha256 q))) ''causality_chain'' (PList []) =
      json_norm (canonical (PList (map PStr (sx_causality_chain q))))"
    by (intro dict_get_stored) (simp_all add: metadata_dict_def request_metadata_def)
  then show ?thesis
    unfolding row_parents_def row_semantic_stored [OF assms] by (simp add: res_simps comp_def)
qed

lemma append_semantic_cases:
  assumes "append_semantic sha256 min_trust q clock bypass obs b = Inr (e, b')"
  shows "\<not> float_val (sx_trust_level q) < float_val min_trust"
    and "bypass \<or> (\<forall>h \<in> set (sx_causality_chain q). check_event_hash_exists b h)"
    and "bus_append sha256 (sx_event_type q) (sx_partition_key q) (semantic_payload sha256 q)
           (sx_tenant_id q) (sx_actor_id q) (sx_correlation_id q) clock obs b = Inr (e, b')"
  using assms unfolding append_semantic_def
  by (auto split: if_splits option.splits simp: find_None_iff)

lemma bus_append_row:
  assumes "bus_append sha256 et pk payload tenant actor corr clock obs b = Inr (e, b')"
  obtains row where "bs_events b' = bs_events b @ [row]"
    and "er_payload_json row = dumps_compact (canonical (PDict payload))" and "er_event_hash row = ev_hash e"
    and "er_author_tenant_id row = tenant"
proof (rule bus_append_cases [OF assms])
  fix marker off eid h b1
  assume g: "get_or_create_partition b pk (ob_created_at obs) = ((off, eid, h), b1)"
    and e: "e = make_event sha256 (new_header sha256 et pk payload tenant actor corr marker (off + 1) h) payload []"
    and b': "b' = after_append b1 (new_row (bs_events_seq b1 + 1) e)"
  have "bs_events b1 = bs_events b" using g by (auto simp: get_or_create_partition_def split: option.splits)
  with b' have "bs_events b' = bs_events b @ [new_row (bs_events_seq b1 + 1) e]"
    by (simp add: after_append_def set_partition_def)
  moreover have "er_payload_json (new_row (bs_events_seq b1 + 1) e) = dumps_compact (canonical (PDict payload))"
    unfolding e new_row_def by (simp add: event_row_of_def del: canonical.simps)
  ultimately show thesis by (intro that) (auto simp: e)
qed

section \<open>Storages the fabric writes\<close>

inductive fabric_reach :: "(string \<Rightarrow> string) \<Rightarrow> string \<Rightarrow> bus_state \<Rightarrow> bool" for sha256 min_trust where
  fabric_empty: "fabric_reach sha256 min_trust empty_bus"
| fabric_append: "fabric_reach sha256 min_trust b \<Longrightarrow> py_wf (PDict (sx_payload q)) \<Longrightarrow> py_wf (PFloat (sx_trust_level q)) \<Longrightarrow>
    append_semantic sha256 min_trust q clock False obs b = Inr (e, b') \<Longrightarrow> fabric_reach sha256 min_trust b'"
| fabric_snapshot: "fabric_reach sha256 min_trust b \<Longrightarrow> py_wf (PDict state) \<Longrightarrow>
    write_agent_snapshot sha256 min_trust agent_id state corr tenant actor clock obs b = Inr (e, b') \<Longrightarrow>
    fabric_reach sha256 min_trust b'"
| fabric_checkpoint: "fabric_reach sha256 min_trust b \<Longrightarrow> fabric_reach sha256 min_trust (write_checkpoint b c)"

definition fabric_ok :: "bus_state \<Rightarrow> bool" where
  "fabric_ok b \<longleftrightarrow> (\<forall>i < length (bs_events b). \<exists>ps. row_parents (bs_events b ! i) = Inr ps \<and>
     (\<forall>p \<in> set ps. \<exists>j < i. er_event_hash (bs_events b ! j) = p))"

lemma fabric_ok_append:
  assumes "fabric_ok b" "bs_events b' = bs_events b @ [row]" "row_parents row = Inr ps"
    "\<forall>p \<in> set ps. check_event_hash_exists b p"
  shows "fabric_ok b'"
proof -
  have "\<exists>j < length (bs_events b). er_event_hash (bs_events b ! j) = p" if "p \<in> set ps" for p
    using assms(4) that unfolding check_event_hash_exists_def list_ex_iff by (metis in_set_conv_nth)
  with assms(1-3) show ?thesis unfolding fabric_ok_def by (fastforce simp: nth_append less_Suc_eq)
qed

lemma append_semantic_ok:
  assumes "fabric_ok b" "py_wf (PDict (sx_payload q))" "py_wf (PFloat (sx_trust_level q))"
    "append_semantic sha256 min_trust q clock bypass obs b = Inr (e, b')" "bypass \<Longrightarrow> sx_causality_chain q = []"
  shows "fabric_ok b'"
proof (rule bus_append_row [OF append_semantic_cases(3) [OF assms(4)]])
  fix row
  assume row: "bs_events b' = bs_events b @ [row]"
    and json: "er_payload_json row = dumps_compact (canonical (PDict (semantic_payload sha256 q)))"
  have "\<forall>p \<in> set (sx_causality_chain q). check_event_hash_exists b p"
    using append_semantic_cases(2) [OF assms(4)] assms(5) by fastforce
  then show ?thesis
    by (rule fabric_ok_append [OF assms(1) row row_parents_stored [OF semantic_payload_wf [OF assms(2,3)] json]])
qed

lemma snapshot_request_wf:
  assumes "py_wf (PDict state)"
  shows "py_wf (PDict (sx_payload (snapshot_request sha256 agent_id state corr tenant actor)))"
    "py_wf (PFloat (sx_trust_level (snapshot_request sha256 agent_id state corr tenant actor)))"
    "sx_causality_chain (snapshot_request sha256 agent_id state corr tenant actor) = []"
  using assms by (simp_all add: snapshot_request_def snapshot_payload_def, code_simp)

lemma fabric_reach_ok: "fabric_reach sha256 min_trust b \<Longrightarrow> fabric_ok b"
proof (induction rule: fabric_reach.induct)
  case fabric_empty
  then show ?case by (simp add: fabric_ok_def empty_bus_def)
next
  case (fabric_append b q clock obs e b')
  show ?case by (rule append_semantic_ok [OF fabric_append.IH fabric_append.hyps(2-4)]) simp
next
  case (fabric_snapshot b state agent_id corr tenant actor clock obs e b')
  note wf = snapshot_request_wf [OF fabric_snapshot.hyps(2)]
  show ?case
    by (rule append_semantic_ok [OF fabric_snapshot.IH wf(1,2) fabric_snapshot.hyps(3) [unfolded write_agent_snapshot_def] wf(3)])
next
  case (fabric_checkpoint b c)
  then show ?case by (simp add: fabric_ok_def write_checkpoint_def)
qed

text \<open>The place of the first event with a given hash.\<close>

definition hash_pos :: "bus_state \<Rightarrow> string \<Rightarrow> nat" where
  "hash_pos b h = length (takeWhile (\<lambda>r. er_event_hash r \<noteq> h) (bs_events b))"

lemma find_by_hash_pos:
  assumes "find_by_hash b h = Some r"
  shows "hash_pos b h < length (bs_events b)" and "bs_events b ! hash_pos b h = r"
proof -
  obtain i where i: "i < length (bs_events b)" "er_event_hash (bs_events b ! i) = h" "r = bs_events b ! i"
    "\<forall>j < i. er_event_hash (bs_events b ! j) \<noteq> h"
    using assms unfolding find_by_hash_def find_Some_iff by metis
  have "hash_pos b h = i"
    unfolding hash_pos_def using i by (subst takeWhile_eq_take_P_nth [of i]) auto
  with i show "hash_pos b h < length (bs_events b)" "bs_events b ! hash_pos b h = r" by simp_all
qed

lemma caused_by_earlier:
  assumes "fabric_ok b" "caused_by b c p"
  shows "hash_pos b p < hash_pos b c" and "find_by_hash b p \<noteq> None"
proof -
  obtain r ps where r: "find_by_hash b c = Some r" "row_parents r = Inr ps" "p \<in> set ps"
    using assms(2) by (auto simp: caused_by_def)
  with assms(1) find_by_hash_pos [OF r(1)] obtain j where j: "j < hash_pos b c" "er_event_hash (bs_events b ! j) = p"
    unfolding fabric_ok_def by fastforce
  then have ex: "bs_events b ! j \<in> set (bs_events b)" using find_by_hash_pos(1) [OF r(1)] by simp
  with j(2) show "find_by_hash b p \<noteq> None" unfolding find_by_hash_def find_None_iff by blast
  have "hash_pos b p \<le> j"
    unfolding hash_pos_def using j find_by_hash_pos(1) [OF r(1)] length_takeWhile_less_P_nth
    by (metis (mono_tags, lifting) nth_length_takeWhile not_le_imp_less nth_mem order_less_trans set_takeWhileD takeWhile_nth)
  with j(1) show "hash_pos b p < hash_pos b c" by simp
qed

lemma get_causality_dag_spec:
  assumes "get_causality_dag b s = Inr (nodes, edges)"
  shows "set (map nd_event_hash nodes) = {h. (caused_by b)\<^sup>*\<^sup>* s h \<and> find_by_hash b h \<noteq> None}"
    and "distinct (map nd_event_hash nodes)"
    and "set edges = {(p, c). (caused_by b)\<^sup>*\<^sup>* s c \<and> caused_by b c p}"
proof -
  obtain v where v: "dag_inv b s [] v nodes edges"
    using dag_loop_correct [OF assms [unfolded get_causality_dag_def] dag_inv_start] ..
  show "set (map nd_event_hash nodes) = {h. (caused_by b)\<^sup>*\<^sup>* s h \<and> find_by_hash b h \<noteq> None}"
    "distinct (map nd_event_hash nodes)"
    "set edges = {(p, c). (caused_by b)\<^sup>*\<^sup>* s c \<and> caused_by b c p}"
    by (rule dag_inv_done [OF v])+
qed

section \<open>An example\<close>

definition example_semantic :: "string list \<Rightarrow> semantic_request" where
  "example_semantic parents =
     \<lparr>sx_event_type = ARTIFACT_CREATED, sx_partition_key = ''p'', sx_payload = example_payload,
      sx_semantic_intent = ''store'', sx_execution_lineage = [''a''], sx_trust_level = ''0.5'',
      sx_causality_chain = parents, sx_schema_version = ''1.0.0'', sx_policy_classification = ''standard'',
      sx_tenant_id = ''acme'', sx_actor_id = ''actor'', sx_correlation_id = ''corr''\<rparr>"

definition example_semantic_append :: "string list \<Rightarrow> bus_state \<Rightarrow> (domain_event \<times> bus_state) result" where
  "example_semantic_append parents b =
     append_semantic id ''0.25'' (example_semantic parents) (Some example_clock) False (example_obs 5000) b"

text \<open>An event without parents, and a second one that names it as its parent.\<close>

definition first_semantic :: "domain_event \<times> bus_state" where
  "first_semantic = projr (example_semantic_append [] empty_bus)"

definition second_semantic :: "domain_event \<times> bus_state" where
  "second_semantic = projr (example_semantic_append [ev_hash (fst first_semantic)] (snd first_semantic))"

lemma example_semantic_wf:
  "py_wf (PDict (sx_payload (example_semantic parents)))" "py_wf (PFloat (sx_trust_level (example_semantic parents)))"
  by (simp_all add: example_semantic_def example_payload_def, code_simp)

lemma example_trust: "\<not> float_val ''0.5'' < float_val ''0.25''"
  by code_simp

lemma example_semantic_ok:
  assumes "bus_inv id b" "\<forall>r \<in> set (bs_events b). CHR ''_'' \<notin> set (er_author_tenant_id r)"
    "\<forall>h \<in> set parents. check_event_hash_exists b h"
  shows "\<exists>e b'. example_semantic_append parents b = Inr (e, b')"
proof -
  have "CHR ''_'' \<notin> set ''acme''" by simp
  note fresh = id_fresh_no_underscore [OF assms(1) this assms(2), of "''p''"]
  have m: "ordered_now id (case Some example_clock of Some c \<Rightarrow> c | None \<Rightarrow> new_clock ''eventbus'' (ob_clock_created (example_obs 5000)))
      (ob_now (example_obs 5000)) = Inr (make_marker id (trunc_dt (DateTime 2026 1 2 3 4 5 5000)) 1 ''eventbus'')"
    using example_now [of 5000] by simp
  have "find (\<lambda>h. \<not> check_event_hash_exists b h) parents = None" using assms(3) by (simp add: find_None_iff)
  then show ?thesis
    using fresh
    by (simp add: example_semantic_append_def append_semantic_def example_semantic_def example_trust
        bus_append_outcome [OF assms(1) m] Let_def case_prod_beta)
qed

lemma first_semantic: "example_semantic_append [] empty_bus = Inr first_semantic"
  using example_semantic_ok [OF bus_inv_empty, of "[]"] by (auto simp: first_semantic_def empty_bus_def)

lemma first_semantic_reach: "fabric_reach id ''0.25'' (snd first_semantic)"
  using fabric_append [OF fabric_empty example_semantic_wf] first_semantic
  unfolding example_semantic_append_def by (metis prod.collapse)

lemma fabric_reach_inv: "fabric_reach sha256 min_trust b \<Longrightarrow> bus_inv sha256 b"
proof (induction rule: fabric_reach.induct)
  case (fabric_append b q clock obs e b')
  show ?case
    by (rule bus_append_inv [OF fabric_append.IH semantic_payload_wf append_semantic_cases(3)])
      (fact fabric_append.hyps)+
next
  case (fabric_snapshot b state agent_id corr tenant actor clock obs e b')
  show ?case
    by (rule bus_append_inv [OF fabric_snapshot.IH semantic_payload_wf [OF snapshot_request_wf(1,2) [OF fabric_snapshot.hyps(2)]]
          append_semantic_cases(3) [OF fabric_snapshot.hyps(3) [unfolded write_agent_snapshot_def]]])
qed (auto intro: bus_inv_empty write_checkpoint_inv)

lemma second_semantic: "example_semantic_append [ev_hash (fst first_semantic)] (snd first_semantic) = Inr second_semantic"
proof -
  have f: "append_semantic id ''0.25'' (example_semantic []) (Some example_clock) False (example_obs 5000) empty_bus =
      Inr (fst first_semantic, snd first_semantic)"
    using first_semantic by (simp add: example_semantic_append_def)
  obtain row where "bs_events (snd first_semantic) = bs_events empty_bus @ [row]"
    "er_event_hash row = ev_hash (fst first_semantic)" "er_author_tenant_id row = sx_tenant_id (example_semantic [])"
    by (rule bus_append_row [OF append_semantic_cases(3) [OF f]])
  then have "\<exists>e b'. example_semantic_append [ev_hash (fst first_semantic)] (snd first_semantic) = Inr (e, b')"
    by (intro example_semantic_ok fabric_reach_inv [OF first_semantic_reach])
      (simp_all add: example_semantic_def empty_bus_def check_event_hash_exists_def)
  then show ?thesis by (auto simp: second_semantic_def)
qed

lemma second_semantic_reach: "fabric_reach id ''0.25'' (snd second_semantic)"
  using fabric_append [OF first_semantic_reach example_semantic_wf] second_semantic
  unfolding example_semantic_append_def by (metis prod.collapse)

lemma fabric_dag_total:
  assumes "fabric_ok b"
  shows "\<exists>nodes edges. get_causality_dag b s = Inr (nodes, edges)"
  using dag_loop_total [of b] assms unfolding get_causality_dag_def fabric_ok_def by (metis in_set_conv_nth)

section \<open>Properties\<close>

text \<open>
  C18 (causality_dag_complete). A traversal of the causality graph that returns is complete and
  exact: its nodes are the stored events that the start event depends on, directly or through
  others, itself included, each once; its edges are the pairs of an event reached and a parent
  that the event names.
\<close>

theorem causality_dag_complete:
  assumes "get_causality_dag b s = Inr (nodes, edges)"
  shows "distinct (map nd_event_hash nodes) \<and>
    set (map nd_event_hash nodes) = {h. (caused_by b)\<^sup>*\<^sup>* s h \<and> check_event_hash_exists b h} \<and>
    set edges = {(p, c). (caused_by b)\<^sup>*\<^sup>* s c \<and> caused_by b c p}"
proof -
  have "find_by_hash b h \<noteq> None \<longleftrightarrow> check_event_hash_exists b h" for h
    by (auto simp: find_by_hash_def check_event_hash_exists_def find_None_iff list_ex_iff)
  with get_causality_dag_spec [OF assms] show ?thesis by simp
qed

theorem causality_dag_complete_witness:
  "\<exists>nodes edges. get_causality_dag (snd second_semantic) (ev_hash (fst second_semantic)) = Inr (nodes, edges) \<and>
    ev_hash (fst second_semantic) \<in> set (map nd_event_hash nodes) \<and> distinct (map nd_event_hash nodes)"
proof -
  let ?b = "snd second_semantic" and ?h = "ev_hash (fst second_semantic)"
  obtain nodes edges where d: "get_causality_dag ?b ?h = Inr (nodes, edges)"
    using fabric_dag_total [OF fabric_reach_ok [OF second_semantic_reach]] by blast
  have s: "append_semantic id ''0.25'' (example_semantic [ev_hash (fst first_semantic)]) (Some example_clock) False
      (example_obs 5000) (snd first_semantic) = Inr (fst second_semantic, ?b)"
    using second_semantic by (simp add: example_semantic_append_def)
  obtain row where "bs_events ?b = bs_events (snd first_semantic) @ [row]" "er_event_hash row = ?h"
    by (rule bus_append_row [OF append_semantic_cases(3) [OF s]])
  then have "check_event_hash_exists ?b ?h" by (simp add: check_event_hash_exists_def)
  with causality_dag_complete [OF d] d show ?thesis by auto
qed

text \<open>
  C7 (fabric_dag_closed). On a storage written through the fabric (semantic appends with the
  causality check, agent snapshots, checkpoints), the traversal from any hash returns, no
  edge points to an event that is missing, and the graph it returns has no cycle.
\<close>

theorem fabric_dag_closed:
  assumes "fabric_reach sha256 min_trust b"
  shows "\<exists>nodes edges. get_causality_dag b s = Inr (nodes, edges) \<and>
    fst ` set edges \<subseteq> nd_event_hash ` set nodes \<and> snd ` set edges \<subseteq> nd_event_hash ` set nodes \<and>
    acyclic (set edges)"
proof -
  note ok = fabric_reach_ok [OF assms]
  obtain nodes edges where d: "get_causality_dag b s = Inr (nodes, edges)"
    using fabric_dag_total [OF ok] by blast
  note spec = get_causality_dag_spec [OF d]
  have "set edges \<subseteq> measure (hash_pos b)"
    unfolding spec(3) using caused_by_earlier(1) [OF ok] by auto
  then have "acyclic (set edges)" by (meson wf_acyclic wf_subset wf_measure)
  moreover have "p \<in> nd_event_hash ` set nodes \<and> c \<in> nd_event_hash ` set nodes" if "(p, c) \<in> set edges" for p c
  proof -
    from that have pc: "(caused_by b)\<^sup>*\<^sup>* s c" "caused_by b c p" unfolding spec(3) by auto
    then have "(caused_by b)\<^sup>*\<^sup>* s p" by (meson rtranclp.rtrancl_into_rtrancl)
    moreover have "find_by_hash b c \<noteq> None" using pc(2) by (auto simp: caused_by_def)
    ultimately have "p \<in> set (map nd_event_hash nodes)" "c \<in> set (map nd_event_hash nodes)"
      unfolding spec(1) using pc(1) caused_by_earlier(2) [OF ok pc(2)] by blast+
    then show ?thesis by simp
  qed
  ultimately show ?thesis using d by force
qed

theorem fabric_dag_closed_witness:
  "\<exists>nodes edges. get_causality_dag (snd second_semantic) (ev_hash (fst second_semantic)) = Inr (nodes, edges) \<and>
    fst ` set edges \<subseteq> nd_event_hash ` set nodes \<and> snd ` set edges \<subseteq> nd_event_hash ` set nodes \<and> acyclic (set edges)"
  by (rule fabric_dag_closed [OF second_semantic_reach])

end
