(* ===== verification/Execution_Replay.thy ===== *)
theory Execution_Replay
  imports Semantic_Fabric
begin

text \<open>
  The execution replay engine (\<open>replay/engine.py\<close>): mock providers, loading of agent
  snapshots, replay of a trajectory and bisection of a failing one. State builders, validators
  and providers are arguments; each may raise. A builder returns its state and does not
  change the one it was given. Log messages are left out.
\<close>

section \<open>Operations\<close>

type_synonym 's builder = "'s \<Rightarrow> domain_event \<Rightarrow> 's result"
type_synonym 's validator = "'s \<Rightarrow> domain_event \<Rightarrow> bool result"
type_synonym provider = "pyval list \<Rightarrow> payload \<Rightarrow> pyval result"

definition register_mock_provider :: "(string, provider) dict \<Rightarrow> string \<Rightarrow> provider \<Rightarrow> (string, provider) dict" where
  "register_mock_provider providers name f = dict_set providers name f"

definition get_mocked_response :: "(string, provider) dict \<Rightarrow> string \<Rightarrow> pyval list \<Rightarrow> payload \<Rightarrow> pyval result" where
  "get_mocked_response providers name args kwargs =
     (case map_of providers name of Some f \<Rightarrow> f args kwargs | None \<Rightarrow> Inr PNone)"

definition snapshot_matches :: "string \<Rightarrow> string option \<Rightarrow> domain_event \<Rightarrow> bool" where
  "snapshot_matches agent_id corr e \<longleftrightarrow>
     eh_event_type (ev_header e) = SNAPSHOT_STORED \<and>
     py_eq (dict_get (ev_payload e) ''agent_id'' PNone) (PStr agent_id) \<and>
     (case corr of None \<Rightarrow> True | Some c \<Rightarrow> eh_correlation_id (ev_header e) = c)"

text \<open>Python's \<open>None\<close> is the value \<open>PNone\<close>.\<close>

definition load_agent_latest_snapshot :: "(string \<Rightarrow> string) \<Rightarrow> bus_state \<Rightarrow> string \<Rightarrow> string option \<Rightarrow> pyval result" where
  "load_agent_latest_snapshot sha256 b agent_id corr =
     res_bind (get_partition_tail sha256 b SNAPSHOTS 200) (\<lambda>events.
       Inr (case find (snapshot_matches agent_id corr) (rev events) of
              Some e \<Rightarrow> dict_get (ev_payload e) ''agent_state'' PNone
            | None \<Rightarrow> PNone))"

fun replay_states :: "'s builder \<Rightarrow> domain_event list \<Rightarrow> 's \<Rightarrow> 's list result" where
  "replay_states builder [] st = Inr []"
| "replay_states builder (e # es) st =
     res_bind (builder st e) (\<lambda>st'. res_bind (replay_states builder es st') (\<lambda>h. Inr (st' # h)))"

definition replay_trajectory :: "domain_event list \<Rightarrow> 's \<Rightarrow> 's builder \<Rightarrow> 's list result" where
  "replay_trajectory events initial builder =
     res_bind (replay_states builder events initial) (\<lambda>h. Inr (initial # h))"

text \<open>The inner loop of the bisection: does a replay of these events meet a violation?\<close>

fun probe :: "'s builder \<Rightarrow> 's validator \<Rightarrow> domain_event list \<Rightarrow> 's \<Rightarrow> bool result" where
  "probe builder validator [] st = Inr False"
| "probe builder validator (e # es) st =
     res_bind (builder st e) (\<lambda>st'. res_bind (validator st' e) (\<lambda>ok.
       if ok then probe builder validator es st' else Inr True))"

function bisect_loop :: "'s builder \<Rightarrow> 's validator \<Rightarrow> domain_event list \<Rightarrow> 's \<Rightarrow> int \<Rightarrow> int \<Rightarrow> int \<Rightarrow> int result" where
  "bisect_loop builder validator events initial low high first_failed =
     (if low \<le> high then
        let mid = (low + high) div 2 in
        case probe builder validator (take (nat (mid + 1)) events) initial of
          Inl x \<Rightarrow> Inl x
        | Inr failed \<Rightarrow>
            if failed then bisect_loop builder validator events initial low (mid - 1) mid
            else bisect_loop builder validator events initial (mid + 1) high first_failed
      else Inr first_failed)"
  by pat_completeness auto

termination
  by (relation "measure (\<lambda>(_, _, _, _, low, high, _). nat (high - low + 1))") auto

declare bisect_loop.simps [simp del]

text \<open>The same loop with a bound on its iterations; \<open>None\<close> when they do not suffice.\<close>

fun bisect_fuel :: "nat \<Rightarrow> 's builder \<Rightarrow> 's validator \<Rightarrow> domain_event list \<Rightarrow> 's \<Rightarrow> int \<Rightarrow> int \<Rightarrow> int \<Rightarrow> int result option" where
  "bisect_fuel n builder validator events initial low high first_failed =
     (if low \<le> high then
        (case n of
           0 \<Rightarrow> None
         | Suc n' \<Rightarrow>
             (let mid = (low + high) div 2 in
              case probe builder validator (take (nat (mid + 1)) events) initial of
                Inl x \<Rightarrow> Some (Inl x)
              | Inr failed \<Rightarrow>
                  if failed then bisect_fuel n' builder validator events initial low (mid - 1) mid
                  else bisect_fuel n' builder validator events initial (mid + 1) high first_failed))
      else Some (Inr first_failed))"

declare bisect_fuel.simps [simp del]

definition isolated_report :: "int \<Rightarrow> domain_event \<Rightarrow> payload" where
  "isolated_report i e =
     [(''status'', PStr ''FAILURE_ISOLATED''), (''failed_index'', PInt i),
      (''failed_event_id'', PStr (eh_event_id (ev_header e))), (''failed_event_hash'', PStr (ev_hash e)),
      (''failed_event_type'', PStr (event_type_value (eh_event_type (ev_header e)))),
      (''failed_payload'', PDict (ev_payload e))]"

definition bisect_failure :: "domain_event list \<Rightarrow> 's \<Rightarrow> 's builder \<Rightarrow> 's validator \<Rightarrow> payload result" where
  "bisect_failure events initial builder validator =
     (if events = [] then Inr [(''status'', PStr ''EMPTY_TRAJECTORY''), (''failed_index'', PInt (- 1))]
      else res_bind (bisect_loop builder validator events initial 0 (int (length events) - 1) (- 1)) (\<lambda>i.
        if i \<noteq> - 1 then Inr (isolated_report i (events ! nat i))
        else Inr [(''status'', PStr ''NO_FAILURE_DETECTED''), (''failed_index'', PInt (- 1))]))"

section \<open>Bisection against a linear scan\<close>

text \<open>The reference: replay once from the start and stop at the first violation.\<close>

fun first_violation :: "'s builder \<Rightarrow> 's validator \<Rightarrow> domain_event list \<Rightarrow> 's \<Rightarrow> nat option result" where
  "first_violation builder validator [] st = Inr None"
| "first_violation builder validator (e # es) st =
     res_bind (builder st e) (\<lambda>st'. res_bind (validator st' e) (\<lambda>ok.
       if ok then res_bind (first_violation builder validator es st') (\<lambda>r. Inr (map_option Suc r))
       else Inr (Some 0)))"

lemma probe_take_None:
  "first_violation builder validator events st = Inr None \<Longrightarrow> probe builder validator (take n events) st = Inr False"
  by (induction events arbitrary: st n) (auto simp: res_simps take_Cons split: nat.splits if_splits)

lemma probe_take_Some:
  "first_violation builder validator events st = Inr (Some i) \<Longrightarrow>
    i < length events \<and> probe builder validator (take n events) st = Inr (i < n)"
proof (induction events arbitrary: st n i)
  case (Cons e es)
  then show ?case
    by (cases n) (fastforce simp: res_simps split: if_splits)+
qed simp

lemma probe_take_error:
  "first_violation builder validator events st = Inl x \<Longrightarrow>
    \<exists>k < length events. \<forall>n. probe builder validator (take n events) st = (if k < n then Inl x else Inr False)"
proof (induction events arbitrary: st)
  case (Cons e es)
  show ?case
  proof (cases "\<exists>st'. builder st e = Inr st' \<and> validator st' e = Inr True")
    case True
    then obtain st' where st': "builder st e = Inr st'" "validator st' e = Inr True" by blast
    with Cons.prems have "first_violation builder validator es st' = Inl x"
      by (auto simp: res_simps)
    from Cons.IH [OF this] obtain k where k: "k < length es"
      "\<And>n. probe builder validator (take n es) st' = (if k < n then Inl x else Inr False)" by blast
    then have "probe builder validator (take n (e # es)) st = (if Suc k < n then Inl x else Inr False)" for n
      using st' by (cases n) auto
    with k(1) show ?thesis by (intro exI [of _ "Suc k"]) simp
  next
    case False
    with Cons.prems have "probe builder validator (take n (e # es)) st = (if 0 < n then Inl x else Inr False)" for n
      by (cases n) (auto simp: res_simps split: if_splits)
    then show ?thesis by (intro exI [of _ 0]) simp
  qed
qed simp

lemma bisect_loop_None:
  assumes "first_violation builder validator events st = Inr None"
  shows "bisect_loop builder validator events st low high first_failed = Inr first_failed"
  using probe_take_None [OF assms]
proof (induction builder validator events st low high first_failed rule: bisect_loop.induct)
  case (1 builder validator events initial low high first_failed)
  then show ?case by (subst bisect_loop.simps) (auto simp: Let_def)
qed

lemma bisect_loop_Some:
  assumes "first_violation builder validator events st = Inr (Some i)"
    and "0 \<le> low" "low \<le> int i" "int i \<le> high + 1" "high < int (length events)"
    and "first_failed = high + 1 \<or> high = int (length events) - 1"
  shows "bisect_loop builder validator events st low high first_failed = Inr (int i)"
  using probe_take_Some [OF assms(1)] assms(2-)
proof (induction builder validator events st low high first_failed rule: bisect_loop.induct)
  case (1 builder validator events initial low high first_failed)
  let ?mid = "(low + high) div 2"
  note probe = "1.prems"(1) and IH = "1.IH" [OF _ refl]
  show ?case
  proof (cases "low \<le> high")
    case True
    show ?thesis
    proof (cases "int i < ?mid + 1")
      case below: True
      then have "bisect_loop builder validator events initial low (?mid - 1) ?mid = Inr (int i)"
        using True probe "1.prems" by (intro IH(1) [OF True, of True]) auto
      moreover from below have "i < nat (?mid + 1)" by linarith
      ultimately show ?thesis using True probe by (subst bisect_loop.simps) (simp add: Let_def)
    next
      case above: False
      then have "bisect_loop builder validator events initial (?mid + 1) high first_failed = Inr (int i)"
        using True probe "1.prems" by (intro IH(2) [OF True, of False]) auto
      moreover from above have "\<not> i < nat (?mid + 1)" by linarith
      ultimately show ?thesis using True probe by (subst bisect_loop.simps) (simp add: Let_def)
    qed
  next
    case False
    with "1.prems" show ?thesis by (subst bisect_loop.simps) auto
  qed
qed

lemma bisect_loop_error:
  assumes "\<And>n. probe builder validator (take n events) st = (if k < n then Inl x else Inr False)"
    and "0 \<le> low" "low \<le> int k" "int k \<le> high"
  shows "bisect_loop builder validator events st low high first_failed = Inl x"
  using assms
proof (induction builder validator events st low high first_failed rule: bisect_loop.induct)
  case (1 builder validator events initial low high first_failed)
  let ?mid = "(low + high) div 2"
  note probe = "1.prems"(1)
  have "low \<le> high" using "1.prems" by simp
  show ?case
  proof (cases "int k < ?mid + 1")
    case True
    then have "k < nat (?mid + 1)" by linarith
    with \<open>low \<le> high\<close> probe show ?thesis by (subst bisect_loop.simps) (simp add: Let_def)
  next
    case False
    then have "bisect_loop builder validator events initial (?mid + 1) high first_failed = Inl x"
      using "1.prems" \<open>low \<le> high\<close> by (intro "1.IH"(2) [OF _ refl, of False]) auto
    with False \<open>low \<le> high\<close> probe show ?thesis by (subst bisect_loop.simps) (simp add: Let_def)
  qed
qed

section \<open>Snapshots in the log\<close>

lemma append_all_log:
  assumes "append_all sha256 rs b = Inr (es, b')" "bus_reach sha256 b" "\<forall>r \<in> set rs. py_wf (PDict (rq_payload (fst r)))"
  shows "bus_reach sha256 b' \<and> (\<exists>new. part_log sha256 b' pk = part_log sha256 b pk @ new \<and> length new \<le> length rs \<and>
    (\<forall>e \<in> set new. \<exists>r \<in> set rs. rq_partition_key (fst r) = pk \<and> ev_payload e = stored_payload (rq_payload (fst r))))"
  using assms
proof (induction rs arbitrary: b es)
  case (Cons r rs)
  obtain q clk obs where r: "r = (q, clk, obs)" by (metis prod.exhaust)
  from Cons.prems(1) [unfolded r] obtain e b1 es' where a: "bus_append sha256 (rq_event_type q) (rq_partition_key q)
      (rq_payload q) (rq_tenant q) (rq_actor q) (rq_correlation q) clk obs b = Inr (e, b1)"
    "append_all sha256 rs b1 = Inr (es', b')"
    by (auto simp: res_simps)
  have wf: "py_wf (PDict (rq_payload q))" using Cons.prems(3) r by simp
  from Cons.IH [OF a(2) reach_append [OF Cons.prems(2) wf a(1)]] Cons.prems(3) obtain new where
    new: "bus_reach sha256 b'" "part_log sha256 b' pk = part_log sha256 b1 pk @ new" "length new \<le> length rs"
    "\<forall>e \<in> set new. \<exists>r \<in> set rs. rq_partition_key (fst r) = pk \<and> ev_payload e = stored_payload (rq_payload (fst r))"
    by auto
  have "part_log sha256 b' pk = part_log sha256 b pk @
      (if pk = rq_partition_key q then [e\<lparr>ev_payload := stored_payload (rq_payload q)\<rparr>] else []) @ new"
    using new(2) part_log_after_append(1) [OF a(1) wf, of pk] by simp
  with new show ?case unfolding r by (intro conjI exI) auto
qed auto

lemma bus_append_header:
  assumes "bus_append sha256 et pk payload tenant actor corr clock obs b = Inr (e, b')"
  shows "eh_event_type (ev_header e) = et" "eh_correlation_id (ev_header e) = corr"
  by (rule bus_append_cases [OF assms]; simp add: new_header_def del: canonical.simps)+

lemma stored_str: "py_eq (json_norm (canonical v)) (PStr s) \<Longrightarrow> v = PStr s"
  by (cases v) (auto simp: py_eq.simps)

lemma find_last:
  assumes "P x" "\<forall>y \<in> set ys. \<not> P y"
  shows "find P (rev (xs @ x # ys)) = Some x"
proof -
  have "find P (rev ys) = None" using assms(2) by (simp add: find_None_iff)
  with assms(1) show ?thesis by (simp add: find_append)
qed

section \<open>Properties\<close>

text \<open>
  C6 (bisect_first_failure). The bisection is equivalent to a linear scan, for every builder and
  every validator: it isolates the event at which a single replay from the start meets its
  first violation, reports none when the replay meets none, and raises what the replay raises
  when the builder or the validator fails before any violation. In particular it always
  terminates and no assumption on how violations are distributed is needed.
\<close>

theorem bisect_first_failure:
  "bisect_failure events initial builder validator =
    res_bind (first_violation builder validator events initial) (\<lambda>r. Inr
      (case r of
         Some i \<Rightarrow> isolated_report (int i) (events ! i)
       | None \<Rightarrow> [(''status'', PStr (if events = [] then ''EMPTY_TRAJECTORY'' else ''NO_FAILURE_DETECTED'')),
                  (''failed_index'', PInt (- 1))]))"
proof (cases "events = []")
  case True
  then show ?thesis by (simp add: bisect_failure_def)
next
  case False
  then have pos: "0 < length events" by simp
  show ?thesis
  proof (cases "first_violation builder validator events initial")
    case (Inl x)
    from probe_take_error [OF this] obtain k where "k < length events"
      "\<And>n. probe builder validator (take n events) initial = (if k < n then Inl x else Inr False)" by blast
    then have "bisect_loop builder validator events initial 0 (int (length events) - 1) (- 1) = Inl x"
      by (intro bisect_loop_error [of builder validator events initial k]) auto
    with False Inl show ?thesis by (simp add: bisect_failure_def)
  next
    case (Inr r)
    show ?thesis
    proof (cases r)
      case None
      with Inr False bisect_loop_None [of builder validator events initial] show ?thesis
        by (simp add: bisect_failure_def)
    next
      case (Some i)
      with Inr have v: "first_violation builder validator events initial = Inr (Some i)" by simp
      have "i < length events" by (rule conjunct1 [OF probe_take_Some [OF v]])
      then have "bisect_loop builder validator events initial 0 (int (length events) - 1) (- 1) = Inr (int i)"
        by - (rule bisect_loop_Some [OF v], simp_all)
      with False Inr Some show ?thesis by (simp add: bisect_failure_def)
    qed
  qed
qed

lemma bisect_fuel_enough:
  assumes "high - low + 1 < 2 ^ n"
  shows "bisect_fuel n builder validator events initial low high ff =
    Some (bisect_loop builder validator events initial low high ff)"
  using assms
proof (induction n arbitrary: low high ff)
  case 0
  then show ?case by (simp add: bisect_fuel.simps [of 0] bisect_loop.simps [of _ _ _ _ low high])
next
  case (Suc n)
  show ?case
  proof (cases "low \<le> high")
    case True
    let ?mid = "(low + high) div 2"
    have "high - low + 1 < 2 * 2 ^ n" using Suc.prems by simp
    then have "?mid - 1 - low + 1 < 2 ^ n" "high - (?mid + 1) + 1 < 2 ^ n" by linarith+
    with True Suc.IH show ?thesis
      by (simp add: bisect_fuel.simps [of "Suc n"] bisect_loop.simps [of _ _ _ _ low high] Let_def split: sum.split)
  next
    case False
    then show ?thesis by (simp add: bisect_fuel.simps [of "Suc n"] bisect_loop.simps [of _ _ _ _ low high])
  qed
qed

text \<open>
  The bisection loop ends after at most n iterations on a trajectory of fewer
  than 2^n events, whatever builder and validator do: with that much fuel the bounded loop returns the
  result of the unbounded one.
\<close>

theorem bisect_logarithmic:
  assumes "length events < 2 ^ n"
  shows "bisect_fuel n builder validator events initial 0 (int (length events) - 1) (- 1) =
    Some (bisect_loop builder validator events initial 0 (int (length events) - 1) (- 1))"
proof (rule bisect_fuel_enough)
  have "int (length events) < int (2 ^ n)" using assms by (simp only: of_nat_less_iff)
  then show "int (length events) - 1 - 0 + 1 < 2 ^ n" by simp
qed

theorem bisect_logarithmic_witness:
  "bisect_fuel 2 (\<lambda>st _. Inr (st + 1)) (\<lambda>st _. Inr (st < (2::nat))) [example_event 0, example_event 1, example_event 2] 0 0 2 (- 1) = Some (Inr 1)"
proof -
  have "bisect_fuel 2 (\<lambda>st _. Inr (st + 1)) (\<lambda>st _. Inr (st < (2::nat))) [example_event 0, example_event 1, example_event 2] 0 0 2 (- 1) =
      Some (bisect_loop (\<lambda>st _. Inr (st + 1)) (\<lambda>st _. Inr (st < (2::nat))) [example_event 0, example_event 1, example_event 2] 0 0 2 (- 1))"
    using bisect_logarithmic [of "[example_event 0, example_event 1, example_event 2]" 2] by simp
  also have "bisect_loop (\<lambda>st _. Inr (st + 1)) (\<lambda>st _. Inr (st < (2::nat))) [example_event 0, example_event 1, example_event 2] 0 0 2 (- 1) = Inr 1"
    by (simp add: bisect_loop.simps numeral_2_eq_2)
  finally show ?thesis .
qed

text \<open>
  Replaying a trajectory can start from an intermediate state: the
  states of a replay of \<open>xs @ ys\<close> are those of the replay of \<open>xs\<close> followed by those that a replay
  of \<open>ys\<close> visits after the state \<open>xs\<close> ended in, and an exception in either part is the exception
  of the whole.
\<close>

theorem replay_from_snapshot:
  "replay_trajectory (xs @ ys) initial builder =
    res_bind (replay_trajectory xs initial builder) (\<lambda>h.
    res_bind (replay_trajectory ys (last h) builder) (\<lambda>k. Inr (h @ tl k)))"
proof -
  have "replay_states builder (xs @ ys) st =
    res_bind (replay_states builder xs st) (\<lambda>h. res_bind (replay_states builder ys (last (st # h))) (\<lambda>k. Inr (h @ k)))" for st
  proof (induction xs arbitrary: st)
    case (Cons x xs)
    show ?case
    proof (cases "builder st x")
      case (Inr st')
      then show ?thesis
        by (cases "replay_states builder xs st'"; cases "replay_states builder ys st'")
          (simp_all add: Cons.IH res_bind_assoc)
    qed simp
  qed (simp add: res_bind_Inr)
  then show ?thesis
    by (cases "replay_states builder xs initial") (simp_all add: replay_trajectory_def res_bind_assoc)
qed

text \<open>
  The state an agent last wrote is the state that is loaded for it: after a
  successful \<open>write_agent_snapshot\<close>, fewer than 200 further appends of any kind that are not
  snapshots of the same agent leave \<open>load_agent_latest_snapshot\<close> at exactly that state (as JSON
  stores it), with or without the correlation id of the snapshot.
\<close>

theorem snapshot_survives:
  assumes "bus_reach sha256 b" and "py_wf (PDict state)"
    and "write_agent_snapshot sha256 min_trust agent_id state corr tenant actor clock obs b = Inr (e, b1)"
    and "append_all sha256 rs b1 = Inr (es, b2)" and "length rs < 200"
    and "\<forall>r \<in> set rs. py_wf (PDict (rq_payload (fst r))) \<and>
      (rq_partition_key (fst r) = SNAPSHOTS \<longrightarrow> map_of (rq_payload (fst r)) ''agent_id'' \<noteq> Some (PStr agent_id))"
  shows "load_agent_latest_snapshot sha256 b2 agent_id None = Inr (PDict (stored_payload state)) \<and>
    load_agent_latest_snapshot sha256 b2 agent_id (Some corr) = Inr (PDict (stored_payload state))"
proof -
  let ?q = "snapshot_request sha256 agent_id state corr tenant actor"
  let ?p = "semantic_payload sha256 ?q" and ?log = "part_log sha256 b SNAPSHOTS"
  note app = append_semantic_cases(3) [OF assms(3) [unfolded write_agent_snapshot_def]]
  have wf: "py_wf (PDict ?p)" by (intro semantic_payload_wf snapshot_request_wf assms(2))
  let ?e = "e\<lparr>ev_payload := stored_payload ?p\<rparr>"
  have "sx_partition_key ?q = SNAPSHOTS" by (simp add: snapshot_request_def)
  then have log1: "part_log sha256 b1 SNAPSHOTS = ?log @ [?e]"
    using part_log_after_append(1) [OF app wf, of SNAPSHOTS] by simp
  obtain new where b2: "bus_reach sha256 b2" and log2: "part_log sha256 b2 SNAPSHOTS = ?log @ ?e # new"
    and new: "length new \<le> length rs" "\<forall>x \<in> set new. \<exists>r \<in> set rs. rq_partition_key (fst r) = SNAPSHOTS \<and>
      ev_payload x = stored_payload (rq_payload (fst r))"
    using append_all_log [OF assms(4) reach_append [OF assms(1) wf app], of SNAPSHOTS] assms(6) log1 by auto
  have get: "dict_get (stored_payload ?p) k PNone = json_norm (canonical v)"
    if "map_of (sx_payload ?q) k = Some v" "k \<noteq> ''_semantic''" for k v
    using wf that by (intro dict_get_stored) (simp_all add: semantic_payload_def dict_simps)
  have tail: "get_partition_tail sha256 b2 SNAPSHOTS 200 = Inr (drop (length ?log + Suc (length new) - 200) ?log @ ?e # new)"
    using get_partition_tail_log [OF bus_reach_inv [OF b2], of 200 SNAPSHOTS] log2 new(1) assms(5) by simp
  have "snapshot_matches agent_id c ?e" if "c = None \<or> c = Some corr" for c
    using that bus_append_header [OF app] get [of "''agent_id''"]
    by (auto simp: snapshot_matches_def snapshot_request_def snapshot_payload_def)
  moreover have "\<forall>x \<in> set new. \<not> snapshot_matches agent_id c x" for c
  proof
    fix x assume "x \<in> set new"
    with new(2) obtain r where r: "r \<in> set rs" "rq_partition_key (fst r) = SNAPSHOTS"
      "ev_payload x = stored_payload (rq_payload (fst r))" by blast
    with assms(6) have "distinct (map fst (rq_payload (fst r)))" "map_of (rq_payload (fst r)) ''agent_id'' \<noteq> Some (PStr agent_id)"
      by auto
    then show "\<not> snapshot_matches agent_id c x"
      using stored_str by (auto simp: snapshot_matches_def r(3) dict_get_def map_of_stored_payload py_eq_None_left split: option.splits)
  qed
  ultimately have "find (snapshot_matches agent_id c) (rev (drop (length ?log + Suc (length new) - 200) ?log @ ?e # new)) = Some ?e"
    if "c = None \<or> c = Some corr" for c using that by (intro find_last) auto
  moreover have "dict_get (ev_payload ?e) ''agent_state'' PNone = PDict (stored_payload state)"
    unfolding PDict_stored_payload
    using get [of "''agent_state''" "PDict state"] by (simp add: snapshot_request_def snapshot_payload_def del: canonical.simps)
  ultimately show ?thesis
    unfolding load_agent_latest_snapshot_def tail by simp
qed

definition example_snapshot :: "(domain_event \<times> bus_state) result" where
  "example_snapshot = write_agent_snapshot id ''0.25'' ''bot'' [(''step'', PInt 3)] ''run'' ''acme'' ''system''
     (Some example_clock) (example_obs 5000) empty_bus"

lemma example_snapshot_ok: "\<exists>e b. example_snapshot = Inr (e, b)"
proof -
  have m: "ordered_now id (case Some example_clock of Some c \<Rightarrow> c | None \<Rightarrow> new_clock ''eventbus'' (ob_clock_created (example_obs 5000)))
      (ob_now (example_obs 5000)) = Inr (make_marker id (trunc_dt (DateTime 2026 1 2 3 4 5 5000)) 1 ''eventbus'')"
    using example_now [of 5000] by simp
  have t: "\<not> float_val ''1.0'' < float_val ''0.25''" by code_simp
  have "bs_events empty_bus = []" by (simp add: empty_bus_def)
  with t show ?thesis
    by (simp add: example_snapshot_def write_agent_snapshot_def append_semantic_def snapshot_request_def
        bus_append_outcome [OF bus_inv_empty m] Let_def case_prod_beta)
qed

theorem snapshot_survives_witness:
  "\<exists>e b1 es b2. write_agent_snapshot id ''0.25'' ''bot'' [(''step'', PInt 3)] ''run'' ''acme'' ''system''
      (Some example_clock) (example_obs 5000) empty_bus = Inr (e, b1) \<and>
    append_all id [(example_request, Some example_clock, example_obs 5000)] b1 = Inr (es, b2) \<and>
    load_agent_latest_snapshot id b2 ''bot'' None = Inr (PDict [(''step'', PInt 3)]) \<and>
    load_agent_latest_snapshot id b2 ''bot'' (Some ''run'') = Inr (PDict [(''step'', PInt 3)])"
proof -
  obtain e b1 where w: "write_agent_snapshot id ''0.25'' ''bot'' [(''step'', PInt 3)] ''run'' ''acme'' ''system''
      (Some example_clock) (example_obs 5000) empty_bus = Inr (e, b1)"
    using example_snapshot_ok unfolding example_snapshot_def by blast
  have wf: "py_wf (PDict [(''step'', PInt 3)])" by simp
  have b1: "bus_inv id b1"
    by (rule fabric_reach_inv [OF fabric_snapshot [OF fabric_empty wf w]])
  obtain row where "bs_events b1 = bs_events empty_bus @ [row]"
    "er_author_tenant_id row = sx_tenant_id (snapshot_request id ''bot'' [(''step'', PInt 3)] ''run'' ''acme'' ''system'')"
    by (rule bus_append_row [OF append_semantic_cases(3) [OF w [unfolded write_agent_snapshot_def]]])
  then have "\<forall>r \<in> set (bs_events b1). CHR ''_'' \<notin> set (er_author_tenant_id r)"
    by (simp add: empty_bus_def snapshot_request_def)
  then obtain f b2 where "example_append 5000 ''acme'' ''p'' b1 = Inr (f, b2)"
    using example_append_ok [OF _ b1, of 5000 "''acme''" "''p''"] by auto
  then have a: "append_all id [(example_request, Some example_clock, example_obs 5000)] b1 = Inr ([f], b2)"
    by (simp add: example_append_def example_request_def)
  have "stored_payload [(''step'', PInt 3)] = [(''step'', PInt 3)]" by (simp add: stored_payload_def)
  with snapshot_survives [OF reach_empty wf w a] w a show ?thesis
    by (auto simp: example_request_def example_payload_def SNAPSHOTS_def)
qed

end
