(* ===== verification/Shard_Ordering.thy ===== *)
theory Shard_Ordering
  imports Event_Bus_Theorems
begin

text \<open>
  Shard sequencing (\<open>ordering/shard.py\<close>): the immutable \<open>ShardSequence\<close>, hashed monotonic
  checkpoints, the cross-shard ordering rule with its merge of event streams, and the
  \<open>ShardCoordinator\<close> with its three tables. \<open>advance_sequence\<close> reads the frozen flag in one
  critical section and updates the row in another; both are definitions of their own, so
  that other operations can come between them.
\<close>

section \<open>Sequences and checkpoints\<close>

record shard_sequence =
  sq_shard_id :: string
  sq_current_sequence :: int
  sq_last_event_id :: string
  sq_last_event_hash :: string
  sq_epoch_number :: int
  sq_frozen :: bool

definition sequence_next :: "shard_sequence \<Rightarrow> string \<Rightarrow> string \<Rightarrow> shard_sequence result" where
  "sequence_next q event_id event_hash =
     (if sq_frozen q then Inl (SequenceFrozenError (sq_shard_id q))
      else Inr \<lparr>sq_shard_id = sq_shard_id q, sq_current_sequence = sq_current_sequence q + 1,
                sq_last_event_id = event_id, sq_last_event_hash = event_hash,
                sq_epoch_number = sq_epoch_number q, sq_frozen = False\<rparr>)"

definition sequence_freeze :: "shard_sequence \<Rightarrow> shard_sequence" where
  "sequence_freeze q =
     \<lparr>sq_shard_id = sq_shard_id q, sq_current_sequence = sq_current_sequence q,
      sq_last_event_id = sq_last_event_id q, sq_last_event_hash = sq_last_event_hash q,
      sq_epoch_number = sq_epoch_number q, sq_frozen = True\<rparr>"

definition sequence_to_dict :: "shard_sequence \<Rightarrow> payload" where
  "sequence_to_dict q =
     [(''shard_id'', PStr (sq_shard_id q)), (''current_sequence'', PInt (sq_current_sequence q)),
      (''last_event_id'', PStr (sq_last_event_id q)), (''last_event_hash'', PStr (sq_last_event_hash q)),
      (''epoch_number'', PInt (sq_epoch_number q)), (''frozen'', PBool (sq_frozen q))]"

record monotonic_checkpoint =
  mc_checkpoint_id :: string
  mc_shard_id :: string
  mc_sequence :: int
  mc_last_event_hash :: string
  mc_epoch_number :: int
  mc_timestamp :: string
  mc_checkpoint_hash :: string

definition mc_data :: "monotonic_checkpoint \<Rightarrow> string" where
  "mc_data c = dumps_compact (PDict
     [(''checkpoint_id'', PStr (mc_checkpoint_id c)), (''shard_id'', PStr (mc_shard_id c)),
      (''sequence'', PInt (mc_sequence c)), (''last_event_hash'', PStr (mc_last_event_hash c)),
      (''epoch_number'', PInt (mc_epoch_number c)), (''timestamp'', PStr (mc_timestamp c))])"

text \<open>\<open>__post_init__\<close>: an empty hash is computed.\<close>

definition mc_init :: "(string \<Rightarrow> string) \<Rightarrow> monotonic_checkpoint \<Rightarrow> monotonic_checkpoint" where
  "mc_init sha256 c = (if mc_checkpoint_hash c = [] then c\<lparr>mc_checkpoint_hash := sha256 (mc_data c)\<rparr> else c)"

definition mc_verify :: "(string \<Rightarrow> string) \<Rightarrow> monotonic_checkpoint \<Rightarrow> bool" where
  "mc_verify sha256 c \<longleftrightarrow>
     mc_checkpoint_hash c = mc_checkpoint_hash (mc_init sha256 (c\<lparr>mc_checkpoint_hash := []\<rparr>))"

section \<open>Cross-shard ordering\<close>

type_synonym shard_priorities = "(string, int) dict"

definition epoch_of :: "domain_event \<Rightarrow> pyval" where
  "epoch_of e = dict_get (ev_payload e) ''epoch_number'' (PInt 0)"

definition rule_compare :: "shard_priorities \<Rightarrow> domain_event \<Rightarrow> domain_event \<Rightarrow> int result" where
  "rule_compare prio a b =
     (let epoch_a = epoch_of a; epoch_b = epoch_of b in
      if \<not> py_eq epoch_a epoch_b
      then res_bind (py_lt epoch_a epoch_b) (\<lambda>less. Inr (if less then -1 else 1))
      else
       let priority_a = dict_get prio (eh_partition_key (ev_header a)) 9999;
           priority_b = dict_get prio (eh_partition_key (ev_header b)) 9999 in
       if priority_a \<noteq> priority_b then Inr (if priority_a < priority_b then -1 else 1)
       else
        let seq_a = eh_partition_offset (ev_header a); seq_b = eh_partition_offset (ev_header b) in
        if seq_a \<noteq> seq_b then Inr (if seq_a < seq_b then -1 else 1)
        else if ev_hash a < ev_hash b then Inr (-1)
        else if ev_hash a > ev_hash b then Inr 1
        else Inr 0)"

definition merge_sort_key :: "shard_priorities \<Rightarrow> domain_event \<times> string \<Rightarrow> pyval" where
  "merge_sort_key prio item =
     (let (event, shard_id) = item in
      PTuple [epoch_of event, PInt (dict_get prio shard_id 9999),
              PInt (eh_partition_offset (ev_header event)), PStr (ev_hash event)])"

definition merge_streams ::
  "shard_priorities \<Rightarrow> (string, domain_event list) dict \<Rightarrow> domain_event list result" where
  "merge_streams prio streams =
     (let indexed = concat (map (\<lambda>(shard_id, events). map (\<lambda>event. (event, shard_id)) events) streams)
      in res_bind (py_sort (merge_sort_key prio) indexed) (\<lambda>sorted_items. Inr (map fst sorted_items)))"

section \<open>The coordinator\<close>

record shard_row =
  sr_shard_id :: string
  sr_current_sequence :: int
  sr_last_event_id :: string
  sr_last_event_hash :: string
  sr_epoch_number :: int
  sr_frozen :: bool
  sr_updated_at :: string

record epoch_coordination =
  ec_epoch_number :: int
  ec_established_at :: string
  ec_participating_shards :: string
  ec_coordination_hash :: string

record coordinator =
  co_sequences :: "shard_row list"
  co_checkpoints :: "monotonic_checkpoint list"
  co_epochs :: "epoch_coordination list"

definition empty_coordinator :: coordinator where
  "empty_coordinator = \<lparr>co_sequences = [], co_checkpoints = [], co_epochs = []\<rparr>"

definition find_shard :: "coordinator \<Rightarrow> string \<Rightarrow> shard_row option" where
  "find_shard c sid = find (\<lambda>r. sr_shard_id r = sid) (co_sequences c)"

definition get_sequence :: "coordinator \<Rightarrow> string \<Rightarrow> shard_sequence" where
  "get_sequence c sid =
     (case find_shard c sid of
        None \<Rightarrow> \<lparr>sq_shard_id = sid, sq_current_sequence = 0, sq_last_event_id = [],
                 sq_last_event_hash = [], sq_epoch_number = 0, sq_frozen = False\<rparr>
      | Some r \<Rightarrow> \<lparr>sq_shard_id = sr_shard_id r, sq_current_sequence = sr_current_sequence r,
                 sq_last_event_id = sr_last_event_id r, sq_last_event_hash = sr_last_event_hash r,
                 sq_epoch_number = sr_epoch_number r, sq_frozen = sr_frozen r\<rparr>)"

text \<open>The upsert that \<open>advance_sequence\<close> and \<open>recover_shard\<close> share.\<close>

definition upsert_sequence :: "coordinator \<Rightarrow> string \<Rightarrow> int \<Rightarrow> string \<Rightarrow> string \<Rightarrow> py_datetime \<Rightarrow> coordinator" where
  "upsert_sequence c sid n eid eh now =
     c\<lparr>co_sequences := sql_upsert (\<lambda>x r. sr_shard_id x = sr_shard_id r)
        (\<lambda>x r. x\<lparr>sr_current_sequence := sr_current_sequence r, sr_last_event_id := sr_last_event_id r,
                 sr_last_event_hash := sr_last_event_hash r, sr_updated_at := sr_updated_at r\<rparr>)
        (co_sequences c)
        \<lparr>sr_shard_id = sid, sr_current_sequence = n, sr_last_event_id = eid, sr_last_event_hash = eh,
         sr_epoch_number = 0, sr_frozen = False, sr_updated_at = canonical_timestamp now\<rparr>\<rparr>"

definition advance_check :: "coordinator \<Rightarrow> string \<Rightarrow> unit result" where
  "advance_check c sid =
     (if sq_frozen (get_sequence c sid) then Inl (SequenceFrozenError sid) else Inr ())"

definition advance_commit :: "coordinator \<Rightarrow> string \<Rightarrow> string \<Rightarrow> string \<Rightarrow> py_datetime \<Rightarrow> coordinator" where
  "advance_commit c sid eid eh now =
     (let current_seq = (case find_shard c sid of Some r \<Rightarrow> sr_current_sequence r | None \<Rightarrow> 0);
          new_seq = current_seq + 1
      in upsert_sequence c sid new_seq eid eh now)"

definition advance_sequence ::
  "coordinator \<Rightarrow> string \<Rightarrow> string \<Rightarrow> string \<Rightarrow> py_datetime \<Rightarrow> (shard_sequence \<times> coordinator) result" where
  "advance_sequence c sid eid eh now =
     res_bind (advance_check c sid) (\<lambda>_.
       let c' = advance_commit c sid eid eh now in Inr (get_sequence c' sid, c'))"

definition mc_clash :: "monotonic_checkpoint \<Rightarrow> monotonic_checkpoint \<Rightarrow> bool" where
  "mc_clash x c \<longleftrightarrow> mc_checkpoint_id x = mc_checkpoint_id c \<or>
     (mc_shard_id x = mc_shard_id c \<and> mc_sequence x = mc_sequence c)"

definition write_mcheckpoint :: "coordinator \<Rightarrow> monotonic_checkpoint \<Rightarrow> coordinator" where
  "write_mcheckpoint c k = c\<lparr>co_checkpoints := insert_or_ignore mc_clash (co_checkpoints c) k\<rparr>"

definition get_latest_checkpoint :: "(string \<Rightarrow> string) \<Rightarrow> coordinator \<Rightarrow> string \<Rightarrow> monotonic_checkpoint option" where
  "get_latest_checkpoint sha256 c sid =
     (case sql_limit 1 (rev (sort_key mc_sequence (filter (\<lambda>k. mc_shard_id k = sid) (co_checkpoints c)))) of
        [] \<Rightarrow> None | k # _ \<Rightarrow> Some (mc_init sha256 k))"

definition list_checkpoints :: "(string \<Rightarrow> string) \<Rightarrow> coordinator \<Rightarrow> string \<Rightarrow> int \<Rightarrow> monotonic_checkpoint list" where
  "list_checkpoints sha256 c sid limit =
     map (mc_init sha256) (sql_limit limit (sort_key mc_sequence
       (filter (\<lambda>k. mc_shard_id k = sid) (co_checkpoints c))))"

record coordination_info =
  ci_epoch_number :: int
  ci_established_at :: string
  ci_participating_shards :: "string list"
  ci_coordination_hash :: string

definition freeze_shard :: "int \<Rightarrow> coordinator \<Rightarrow> string \<Rightarrow> coordinator" where
  "freeze_shard n c sid =
     c\<lparr>co_sequences := sql_update (\<lambda>r. sr_shard_id r = sid) (\<lambda>r. r\<lparr>sr_frozen := True, sr_epoch_number := n\<rparr>)
        (co_sequences c)\<rparr>"

definition coordinate_epoch ::
  "(string \<Rightarrow> string) \<Rightarrow> coordinator \<Rightarrow> int \<Rightarrow> string list \<Rightarrow> clock_reading \<Rightarrow> clock_reading \<Rightarrow>
     (coordination_info \<times> coordinator) result" where
  "coordinate_epoch sha256 c n shards created rd =
     res_bind (ordered_now sha256 (new_clock ''shard-coordinator'' created) rd) (\<lambda>marker.
       let c1 = foldl (freeze_shard n) c shards;
           est_at = canonical_timestamp (wall_time marker);
           coord_data = dumps_default (PDict
             [(''epoch_number'', PInt n), (''established_at'', PStr est_at),
              (''participating_shards'', PList (map PStr (sort shards)))]);
           coord_hash = sha256 coord_data
       in Inr (\<lparr>ci_epoch_number = n, ci_established_at = est_at, ci_participating_shards = shards,
                ci_coordination_hash = coord_hash\<rparr>,
               c1\<lparr>co_epochs := insert_or_ignore (\<lambda>x r. ec_epoch_number x = ec_epoch_number r) (co_epochs c1)
                  \<lparr>ec_epoch_number = n, ec_established_at = est_at,
                   ec_participating_shards = dumps_default (PList (map PStr (sort shards))),
                   ec_coordination_hash = coord_hash\<rparr>\<rparr>))"

definition get_coordination :: "coordinator \<Rightarrow> int \<Rightarrow> epoch_coordination option" where
  "get_coordination c n = find (\<lambda>r. ec_epoch_number r = n) (co_epochs c)"

definition recover_shard ::
  "(string \<Rightarrow> string) \<Rightarrow> coordinator \<Rightarrow> string \<Rightarrow> bus_state \<Rightarrow> py_datetime \<Rightarrow> (shard_sequence \<times> coordinator) result" where
  "recover_shard sha256 c sid storage now =
     res_bind (get_partition_tail sha256 storage sid 1) (\<lambda>tl.
       case tl of
         [] \<Rightarrow> Inr (get_sequence c sid, c)
       | last_event # _ \<Rightarrow>
           let c' = upsert_sequence c sid (eh_partition_offset (ev_header last_event))
                      (eh_event_id (ev_header last_event)) (ev_hash last_event) now
           in Inr (get_sequence c' sid, c'))"

fun monotonicity_errors :: "(string \<Rightarrow> string) \<Rightarrow> nat \<Rightarrow> monotonic_checkpoint list \<Rightarrow> string list" where
  "monotonicity_errors sha256 i (prev # cur # cs) =
     (if mc_sequence cur \<le> mc_sequence prev
      then [''non_monotonic at index '' @ show_nat i @ '': '' @ show_int (mc_sequence prev)
            @ '' -> '' @ show_int (mc_sequence cur)] else [])
     @ (if \<not> mc_verify sha256 cur
        then [''checkpoint_hash_invalid at index '' @ show_nat i @ '': '' @ mc_checkpoint_id cur] else [])
     @ monotonicity_errors sha256 (Suc i) (cur # cs)"
| "monotonicity_errors sha256 i _ = []"

definition verify_monotonicity :: "(string \<Rightarrow> string) \<Rightarrow> coordinator \<Rightarrow> string \<Rightarrow> bool \<times> string list" where
  "verify_monotonicity sha256 c sid =
     (let checkpoints = map (mc_init sha256) (filter (\<lambda>k. mc_shard_id k = sid) (co_checkpoints c));
          errors = monotonicity_errors sha256 1 checkpoints
      in (errors = [], errors))"

section \<open>The order that the rule induces\<close>

definition int_epoch :: "domain_event \<Rightarrow> int" where
  "int_epoch e = (case epoch_of e of PInt i \<Rightarrow> i | _ \<Rightarrow> 0)"

definition has_int_epoch :: "domain_event \<Rightarrow> bool" where
  "has_int_epoch e \<longleftrightarrow> epoch_of e = PInt (int_epoch e)"

definition event_rank :: "shard_priorities \<Rightarrow> string \<Rightarrow> domain_event \<Rightarrow> int \<times> int \<times> int \<times> string" where
  "event_rank prio sid e =
     (int_epoch e, dict_get prio sid 9999, eh_partition_offset (ev_header e), ev_hash e)"

lemma rule_compare_rank:
  assumes "has_int_epoch a" "has_int_epoch b"
  shows "rule_compare prio a b =
    (let x = event_rank prio (eh_partition_key (ev_header a)) a;
         y = event_rank prio (eh_partition_key (ev_header b)) b
     in Inr (if x < y then -1 else if y < x then 1 else 0))"
  using assms by (auto simp: rule_compare_def has_int_epoch_def event_rank_def Let_def less_prod_lex)

lemma merge_sort_key_lt:
  assumes "has_int_epoch a" "has_int_epoch b"
  shows "py_lt (merge_sort_key prio (a, s)) (merge_sort_key prio (b, t)) =
    Inr (event_rank prio s a < event_rank prio t b)"
  using assms
  by (auto simp: merge_sort_key_def has_int_epoch_def event_rank_def less_prod_lex py_lt.simps [of "PTuple _"])

definition streams_ok :: "(string, domain_event list) dict \<Rightarrow> bool" where
  "streams_ok streams \<longleftrightarrow>
     (\<forall>(sid, es) \<in> set streams. \<forall>e \<in> set es. has_int_epoch e \<and> eh_partition_key (ev_header e) = sid)"

lemma merge_streams_sort:
  assumes "streams_ok streams"
  shows "merge_streams prio streams =
    Inr (sort_key (\<lambda>e. event_rank prio (eh_partition_key (ev_header e)) e) (concat (map snd streams)))"
proof -
  let ?ix = "concat (map (\<lambda>(sid, es). map (\<lambda>e. (e, sid)) es) streams)"
  have ix: "has_int_epoch (fst x)" "eh_partition_key (ev_header (fst x)) = snd x" if "x \<in> set ?ix" for x
    using that assms unfolding streams_ok_def by fastforce+
  have "py_sort (merge_sort_key prio) ?ix = Inr (sort_key (\<lambda>x. event_rank prio (snd x) (fst x)) ?ix)"
  proof (rule py_sort_linorder)
    fix x y assume "x \<in> set ?ix" "y \<in> set ?ix"
    then show "py_lt (merge_sort_key prio x) (merge_sort_key prio y) =
        Inr (event_rank prio (snd x) (fst x) < event_rank prio (snd y) (fst y))"
      using merge_sort_key_lt [OF ix(1) ix(1), of x y prio "snd x" "snd y"] by (simp del: set_concat)
  qed
  also have "sort_key (\<lambda>x. event_rank prio (snd x) (fst x)) ?ix =
      sort_key (\<lambda>x. event_rank prio (eh_partition_key (ev_header (fst x))) (fst x)) ?ix"
    by (rule sort_key_cong_set) (simp only: ix(2))
  finally have "py_sort (merge_sort_key prio) ?ix =
      Inr (sort_key (\<lambda>x. event_rank prio (eh_partition_key (ev_header (fst x))) (fst x)) ?ix)" .
  moreover have "map fst ?ix = concat (map snd streams)"
    by (simp add: map_concat comp_def case_prod_beta)
  ultimately show ?thesis
    by (simp add: merge_streams_def map_sort_key [of fst "\<lambda>e. event_rank prio (eh_partition_key (ev_header e)) e"])
qed

section \<open>The tables of the coordinator\<close>

lemma find_shard_upsert:
  "find_shard (upsert_sequence c sid n eid eh now) s =
    (if s = sid then Some (case find_shard c sid of
        None \<Rightarrow> \<lparr>sr_shard_id = sid, sr_current_sequence = n, sr_last_event_id = eid, sr_last_event_hash = eh,
                 sr_epoch_number = 0, sr_frozen = False, sr_updated_at = canonical_timestamp now\<rparr>
      | Some r \<Rightarrow> r\<lparr>sr_current_sequence := n, sr_last_event_id := eid, sr_last_event_hash := eh,
                 sr_updated_at := canonical_timestamp now\<rparr>)
     else find_shard c s)"
  by (simp add: find_shard_def upsert_sequence_def find_sql_upsert [where key = sr_shard_id] split: option.splits)

lemma find_shard_freeze:
  "find_shard (freeze_shard n c sid) s =
    (if s = sid then map_option (\<lambda>r. r\<lparr>sr_frozen := True, sr_epoch_number := n\<rparr>) (find_shard c s) else find_shard c s)"
  by (simp add: find_shard_def freeze_shard_def find_sql_update [where key = sr_shard_id])

lemma find_shard_freeze_all:
  "find_shard (foldl (freeze_shard n) c shards) s =
    (if s \<in> set shards then map_option (\<lambda>r. r\<lparr>sr_frozen := True, sr_epoch_number := n\<rparr>) (find_shard c s)
     else find_shard c s)"
proof (induction shards arbitrary: c)
  case (Cons t shards)
  then show ?case by (cases "find_shard c s") (auto simp: find_shard_freeze)
qed simp

lemma get_sequence_cong: "find_shard c s = find_shard d s \<Longrightarrow> get_sequence c s = get_sequence d s"
  by (simp add: get_sequence_def)

lemma find_shard_id: "find_shard c s = Some r \<Longrightarrow> sr_shard_id r = s"
  by (auto simp: find_shard_def find_Some_iff)

lemma get_sequence_upsert:
  "get_sequence (upsert_sequence c sid n eid eh now) s =
    (if s = sid then (get_sequence c sid)\<lparr>sq_current_sequence := n, sq_last_event_id := eid, sq_last_event_hash := eh\<rparr>
     else get_sequence c s)"
  by (auto simp: get_sequence_def find_shard_upsert split: option.splits)

lemma get_sequence_commit:
  "get_sequence (advance_commit c sid eid eh now) s =
    (if s = sid then (get_sequence c sid)\<lparr>sq_current_sequence := sq_current_sequence (get_sequence c sid) + 1,
        sq_last_event_id := eid, sq_last_event_hash := eh\<rparr>
     else get_sequence c s)"
proof -
  have "(case find_shard c sid of Some r \<Rightarrow> sr_current_sequence r | None \<Rightarrow> 0) = sq_current_sequence (get_sequence c sid)"
    by (simp add: get_sequence_def split: option.splits)
  then show ?thesis by (simp add: advance_commit_def Let_def get_sequence_upsert)
qed

lemma coordinate_epoch_find:
  assumes "coordinate_epoch sha256 c n shards created rd = Inr (i, c')"
  shows "find_shard c' s = (if s \<in> set shards
      then map_option (\<lambda>r. r\<lparr>sr_frozen := True, sr_epoch_number := n\<rparr>) (find_shard c s) else find_shard c s)"
proof -
  have "find_shard c' s = find_shard (foldl (freeze_shard n) c shards) s"
    using assms by (auto simp: coordinate_epoch_def res_simps Let_def find_shard_def)
  then show ?thesis by (simp add: find_shard_freeze_all)
qed

lemma coordinate_epoch_sequence:
  assumes "coordinate_epoch sha256 c n shards created rd = Inr (i, c')"
  shows "get_sequence c' s = (if s \<in> set shards \<and> find_shard c s \<noteq> None
      then (get_sequence c s)\<lparr>sq_frozen := True, sq_epoch_number := n\<rparr> else get_sequence c s)"
  using coordinate_epoch_find [OF assms, of s]
  by (cases "find_shard c s") (auto simp: get_sequence_def)

section \<open>Checkpoints as an append-only table\<close>

definition checkpoint_at :: "coordinator \<Rightarrow> string \<times> int \<Rightarrow> monotonic_checkpoint option" where
  "checkpoint_at c k = find (\<lambda>x. (mc_shard_id x, mc_sequence x) = k) (co_checkpoints c)"

interpretation mc_table: append_only_table write_mcheckpoint co_checkpoints mc_clash
    "\<lambda>x. (mc_shard_id x, mc_sequence x)" checkpoint_at
  by unfold_locales (auto simp: write_mcheckpoint_def mc_clash_def checkpoint_at_def)

lemma mc_init_sequence [simp]: "mc_sequence (mc_init sha256 k) = mc_sequence k" "mc_shard_id (mc_init sha256 k) = mc_shard_id k"
  by (simp_all add: mc_init_def)

lemma get_latest_checkpoint_spec:
  "get_latest_checkpoint sha256 c sid =
    (let ks = filter (\<lambda>k. mc_shard_id k = sid) (co_checkpoints c) in
     if ks = [] then None else Some (mc_init sha256 (last (sort_key mc_sequence ks))))"
proof -
  let ?ks = "filter (\<lambda>k. mc_shard_id k = sid) (co_checkpoints c)"
  show ?thesis
  proof (cases "?ks = []")
    case False
    then have "sort_key mc_sequence ?ks \<noteq> []" by (metis set_empty set_sort)
    then obtain ys y where "sort_key mc_sequence ?ks = ys @ [y]" by (metis append_butlast_last_id)
    with False show ?thesis by (simp add: get_latest_checkpoint_def sql_limit_def)
  qed (simp add: get_latest_checkpoint_def sql_limit_def)
qed

lemma latest_monotone:
  assumes "prefix (co_checkpoints c) (co_checkpoints d)" "get_latest_checkpoint sha256 c sid = Some k"
  shows "\<exists>k'. get_latest_checkpoint sha256 d sid = Some k' \<and> mc_sequence k \<le> mc_sequence k'"
proof -
  let ?f = "\<lambda>c. filter (\<lambda>k. mc_shard_id k = sid) (co_checkpoints c)"
  let ?l = "last (sort_key mc_sequence (?f c))"
  have k: "?f c \<noteq> []" "k = mc_init sha256 ?l"
    using assms(2) by (auto simp: get_latest_checkpoint_spec Let_def split: if_splits)
  have "?l \<in> set (?f c)" using k(1) last_sort_key(2) by (metis last_in_set)
  moreover have "set (?f c) \<subseteq> set (?f d)" using assms(1) by (auto simp: prefix_def)
  ultimately have l: "?l \<in> set (?f d)" by blast
  then have "?f d \<noteq> []" by force
  with last_sort_key(1) [OF l, of mc_sequence] k(2) show ?thesis
    by (simp add: get_latest_checkpoint_spec Let_def)
qed

lemma monotonicity_errors_empty:
  "monotonicity_errors sha256 i cs = [] \<longleftrightarrow>
    sorted_wrt (<) (map mc_sequence cs) \<and> (\<forall>k \<in> set (tl cs). mc_verify sha256 k)"
proof (induction sha256 i cs rule: monotonicity_errors.induct)
  case (1 sha256 i prev cur cs)
  have "sorted_wrt (<) (map mc_sequence (prev # cur # cs)) \<longleftrightarrow>
      mc_sequence prev < mc_sequence cur \<and> sorted_wrt (<) (map mc_sequence (cur # cs))"
    by force
  with 1 show ?case by (simp only: monotonicity_errors.simps append_is_Nil_conv list.sel list.set) auto
qed auto

section \<open>Runs of the coordinator\<close>

text \<open>
  The operations of any number of clients. Advancing a shard is two critical sections, the check of the frozen flag and the
  update of the row; the state has the shards whose check has passed and whose update is still to come. Recoveries read
  an event storage that is not part of the state.
\<close>

datatype coord_op =
    Advance_Checked string
  | Advance_Committed string
  | Checkpoint_Written
  | Epoch_Established
  | Shard_Recovered string int

inductive coord_step :: "(string \<Rightarrow> string) \<Rightarrow> coordinator \<times> string list \<Rightarrow> coord_op \<Rightarrow> coordinator \<times> string list \<Rightarrow> bool" for sha256 where
  step_check: "advance_check c sid = Inr () \<Longrightarrow> coord_step sha256 (c, p) (Advance_Checked sid) (c, sid # p)"
| step_commit: "sid \<in> set p \<Longrightarrow>
    coord_step sha256 (c, p) (Advance_Committed sid) (advance_commit c sid eid eh now, remove1 sid p)"
| step_checkpoint: "coord_step sha256 (c, p) Checkpoint_Written (write_mcheckpoint c k, p)"
| step_epoch: "coordinate_epoch sha256 c n shards created rd = Inr (i, c') \<Longrightarrow>
    coord_step sha256 (c, p) Epoch_Established (c', p)"
| step_recover: "recover_shard sha256 c sid storage now = Inr (q, c') \<Longrightarrow>
    coord_step sha256 (c, p) (Shard_Recovered sid (sq_current_sequence q)) (c', p)"

inductive_cases coord_stepE: "coord_step sha256 (c, p) l (c', p')"

inductive coord_run :: "(string \<Rightarrow> string) \<Rightarrow> coordinator \<times> string list \<Rightarrow> coord_op list \<Rightarrow> coordinator \<times> string list \<Rightarrow> bool" for sha256 where
  run_none: "coord_run sha256 x [] x"
| run_step: "coord_run sha256 x ops y \<Longrightarrow> coord_step sha256 y l z \<Longrightarrow> coord_run sha256 x (ops @ [l]) z"

text \<open>An uninterrupted advance is a check and a commit.\<close>

lemma advance_run:
  assumes "advance_sequence c sid eid eh now = Inr (q, c')"
  shows "coord_run sha256 (c, p) [Advance_Checked sid, Advance_Committed sid] (c', p)"
proof -
  have a: "advance_check c sid = Inr ()" "c' = advance_commit c sid eid eh now"
    using assms by (auto simp: advance_sequence_def res_simps Let_def)
  have "coord_run sha256 (c, p) ([] @ [Advance_Checked sid]) (c, sid # p)"
    by (rule run_step [OF run_none step_check [OF a(1)]])
  moreover have "coord_step sha256 (c, sid # p) (Advance_Committed sid) (c', p)"
    using step_commit [of sid "sid # p" sha256 c eid eh now] by (simp add: a(2))
  ultimately show ?thesis using run_step by fastforce
qed

text \<open>What the operations make of the sequence number of a shard.\<close>

fun sequence_effect :: "string \<Rightarrow> int \<Rightarrow> coord_op \<Rightarrow> int" where
  "sequence_effect s n (Advance_Committed sid) = (if sid = s then n + 1 else n)"
| "sequence_effect s n (Shard_Recovered sid m) = (if sid = s then m else n)"
| "sequence_effect s n _ = n"

definition touches :: "string \<Rightarrow> coord_op \<Rightarrow> bool" where
  "touches s l \<longleftrightarrow> l = Advance_Committed s \<or> (\<exists>n. l = Shard_Recovered s n)"

lemma recover_sequence:
  assumes "recover_shard sha256 c sid storage now = Inr (q, c')"
  shows "q = get_sequence c' sid \<and> co_checkpoints c' = co_checkpoints c \<and> sq_frozen (get_sequence c' s) = sq_frozen (get_sequence c s) \<and>
    (s \<noteq> sid \<longrightarrow> get_sequence c' s = get_sequence c s)"
proof -
  obtain tl where tl: "get_partition_tail sha256 storage sid 1 = Inr tl"
    using assms by (auto simp: recover_shard_def res_bind_eq_Inr)
  have "co_checkpoints (upsert_sequence c sid n eid eh now) = co_checkpoints c" for n eid eh
    by (simp add: upsert_sequence_def)
  then show ?thesis using assms by (cases tl) (auto simp: recover_shard_def tl get_sequence_upsert Let_def split: if_splits)
qed

lemma coord_step_sequence:
  assumes "coord_step sha256 (c, p) l (c', p')"
  shows "sq_current_sequence (get_sequence c' s) = sequence_effect s (sq_current_sequence (get_sequence c s)) l"
    and "sq_frozen (get_sequence c s) \<Longrightarrow> sq_frozen (get_sequence c' s)"
    and "\<not> touches s l \<Longrightarrow> sq_last_event_id (get_sequence c' s) = sq_last_event_id (get_sequence c s) \<and>
       sq_last_event_hash (get_sequence c' s) = sq_last_event_hash (get_sequence c s)"
    and "sq_frozen (get_sequence c s) \<Longrightarrow> count_list p' s + (if l = Advance_Committed s then 1 else 0) = count_list p s"
proof -
  have count: "sid \<in> set p \<Longrightarrow> count_list (remove1 sid p) s + (if sid = s then 1 else 0) = count_list p s" for sid
    by (induction p) auto
  have ckpt: "get_sequence (write_mcheckpoint c k) s = get_sequence c s" for k
    by (intro get_sequence_cong) (simp add: find_shard_def write_mcheckpoint_def)
  show "sq_current_sequence (get_sequence c' s) = sequence_effect s (sq_current_sequence (get_sequence c s)) l"
    using assms by (rule coord_stepE)
      (auto simp: get_sequence_commit ckpt coordinate_epoch_sequence dest: recover_sequence [where s = s])
  show "sq_frozen (get_sequence c s) \<Longrightarrow> sq_frozen (get_sequence c' s)"
    using assms by (rule coord_stepE)
      (auto simp: get_sequence_commit ckpt coordinate_epoch_sequence dest: recover_sequence [where s = s])
  show "\<not> touches s l \<Longrightarrow> sq_last_event_id (get_sequence c' s) = sq_last_event_id (get_sequence c s) \<and>
       sq_last_event_hash (get_sequence c' s) = sq_last_event_hash (get_sequence c s)"
    using assms by (rule coord_stepE)
      (auto simp: touches_def get_sequence_commit ckpt coordinate_epoch_sequence dest: recover_sequence [where s = s])
  show "sq_frozen (get_sequence c s) \<Longrightarrow> count_list p' s + (if l = Advance_Committed s then 1 else 0) = count_list p s"
    using assms by (rule coord_stepE) (auto simp: count [simplified] advance_check_def split: if_splits)
qed

lemma coord_run_sequence:
  assumes "coord_run sha256 x ops y"
  shows "sq_current_sequence (get_sequence (fst y) s) = foldl (sequence_effect s) (sq_current_sequence (get_sequence (fst x) s)) ops"
    and "sq_frozen (get_sequence (fst x) s) \<Longrightarrow> sq_frozen (get_sequence (fst y) s) \<and>
       count_list (snd y) s + count_list ops (Advance_Committed s) = count_list (snd x) s"
    and "\<not> list_ex (touches s) ops \<Longrightarrow> sq_last_event_id (get_sequence (fst y) s) = sq_last_event_id (get_sequence (fst x) s) \<and>
       sq_last_event_hash (get_sequence (fst y) s) = sq_last_event_hash (get_sequence (fst x) s)"
proof -
  have "sq_current_sequence (get_sequence (fst y) s) = foldl (sequence_effect s) (sq_current_sequence (get_sequence (fst x) s)) ops \<and>
    (sq_frozen (get_sequence (fst x) s) \<longrightarrow> sq_frozen (get_sequence (fst y) s) \<and>
       count_list (snd y) s + count_list ops (Advance_Committed s) = count_list (snd x) s) \<and>
    (\<not> list_ex (touches s) ops \<longrightarrow> sq_last_event_id (get_sequence (fst y) s) = sq_last_event_id (get_sequence (fst x) s) \<and>
       sq_last_event_hash (get_sequence (fst y) s) = sq_last_event_hash (get_sequence (fst x) s))"
    using assms
  proof (induction rule: coord_run.induct)
    case (run_step x ops y l z)
    obtain c p c' p' where yz: "y = (c, p)" "z = (c', p')" by fastforce
    note st = coord_step_sequence [OF run_step(2) [unfolded yz], of s]
    show ?case using run_step.IH st by (auto simp: yz count_list_append split: if_splits)
  qed simp
  then show "sq_current_sequence (get_sequence (fst y) s) = foldl (sequence_effect s) (sq_current_sequence (get_sequence (fst x) s)) ops"
    and "sq_frozen (get_sequence (fst x) s) \<Longrightarrow> sq_frozen (get_sequence (fst y) s) \<and>
       count_list (snd y) s + count_list ops (Advance_Committed s) = count_list (snd x) s"
    and "\<not> list_ex (touches s) ops \<Longrightarrow> sq_last_event_id (get_sequence (fst y) s) = sq_last_event_id (get_sequence (fst x) s) \<and>
       sq_last_event_hash (get_sequence (fst y) s) = sq_last_event_hash (get_sequence (fst x) s)"
    by blast+
qed

lemma effects_monotone: "\<forall>n. Shard_Recovered s n \<notin> set ops \<Longrightarrow> foldl (sequence_effect s) m ops = m + int (count_list ops (Advance_Committed s))"
proof (induction ops arbitrary: m)
  case (Cons l ops)
  then show ?case by (cases l) auto
qed simp

lemma coord_run_checkpoints: "coord_run sha256 x ops y \<Longrightarrow> prefix (co_checkpoints (fst x)) (co_checkpoints (fst y))"
proof (induction rule: coord_run.induct)
  case (run_step x ops y l z)
  obtain c p c' p' where yz: "y = (c, p)" "z = (c', p')" by fastforce
  have "co_checkpoints (foldl (freeze_shard n) x shards) = co_checkpoints x" for n x shards
    by (induction shards arbitrary: x) (auto simp: freeze_shard_def)
  with run_step(2) have "prefix (co_checkpoints c) (co_checkpoints c')"
    unfolding yz using mc_table.ins_prefix
    by (auto elim!: coord_stepE simp: advance_commit_def upsert_sequence_def coordinate_epoch_def res_simps Let_def
        dest: recover_sequence)
  with run_step.IH show ?case unfolding yz by (auto intro: prefix_order.trans)
qed simp

section \<open>Properties\<close>

text \<open>
  For streams whose events carry integer epochs (or none) and
  belong to the shard they are filed under, \<open>merge_streams\<close> returns a permutation of all
  events in which no event comes after one that \<open>compare\<close> ranks later.
\<close>

theorem merge_streams_sorted:
  assumes "streams_ok streams"
  shows "\<exists>es. merge_streams prio streams = Inr es \<and> mset es = mset (concat (map snd streams)) \<and>
    (\<forall>i j. i < j \<and> j < length es \<longrightarrow> rule_compare prio (es ! i) (es ! j) \<in> {Inr (-1), Inr 0})"
proof -
  let ?k = "\<lambda>e. event_rank prio (eh_partition_key (ev_header e)) e"
  let ?es = "sort_key ?k (concat (map snd streams))"
  have ep: "has_int_epoch e" if "e \<in> set ?es" for e
    using that assms by (auto simp: streams_ok_def)
  have "rule_compare prio (?es ! i) (?es ! j) \<in> {Inr (-1), Inr 0}" if "i < j" "j < length ?es" for i j
  proof -
    have "?k (?es ! i) \<le> ?k (?es ! j)"
      using that sorted_nth_mono [OF sorted_sort_key [of ?k "concat (map snd streams)"], of i j] by simp
    moreover have "has_int_epoch (?es ! i)" "has_int_epoch (?es ! j)" using that by (simp_all add: ep [OF nth_mem])
    ultimately show ?thesis by (simp only: rule_compare_rank Let_def) auto
  qed
  with merge_streams_sort [OF assms, of prio] show ?thesis by auto
qed

definition example_shard_event :: "string \<Rightarrow> int \<Rightarrow> string \<Rightarrow> int \<Rightarrow> domain_event" where
  "example_shard_event sid off h ep =
     \<lparr>ev_header = \<lparr>eh_event_id = h, eh_event_type = WORKER_COMPLETED, eh_partition_key = sid,
        eh_partition_offset = off, eh_timestamp = [], eh_ordering_key = [], eh_author_tenant_id = ''t'',
        eh_author_actor_id = ''a'', eh_correlation_id = ''c'', eh_previous_event_hash = [], eh_payload_hash = []\<rparr>,
      ev_payload = [(''epoch_number'', PInt ep)], ev_hash = h\<rparr>"

definition example_streams :: "(string, domain_event list) dict" where
  "example_streams =
     [(''s1'', [example_shard_event ''s1'' 1 ''h1'' 0, example_shard_event ''s1'' 2 ''h2'' 1]),
      (''s2'', [example_shard_event ''s2'' 1 ''h3'' 0])]"

lemma example_streams_ok: "streams_ok example_streams"
  by (simp add: streams_ok_def example_streams_def example_shard_event_def has_int_epoch_def int_epoch_def
      epoch_of_def dict_get_def)

theorem merge_streams_sorted_witness:
  "\<exists>es. merge_streams [(''s2'', 1)] example_streams = Inr es \<and> mset es = mset (concat (map snd example_streams)) \<and>
    (\<forall>i j. i < j \<and> j < length es \<longrightarrow> rule_compare [(''s2'', 1)] (es ! i) (es ! j) \<in> {Inr (-1), Inr 0})"
  by (rule merge_streams_sorted [OF example_streams_ok])

text \<open>
  The merge does not depend on the order in which the
  streams are stored or filled: two collections of streams with the same events give the same
  list, as long as different events have different hashes.
\<close>

theorem merge_streams_deterministic:
  assumes "streams_ok streams" and "streams_ok streams'"
    and "mset (concat (map snd streams)) = mset (concat (map snd streams'))"
    and "inj_on ev_hash (set (concat (map snd streams)))"
  shows "merge_streams prio streams = merge_streams prio streams'"
proof -
  let ?k = "\<lambda>e. event_rank prio (eh_partition_key (ev_header e)) e"
  have "inj_on ?k (set (concat (map snd streams)))"
    using assms(4) by (auto simp: inj_on_def event_rank_def)
  then have "sort_key ?k (concat (map snd streams)) = sort_key ?k (concat (map snd streams'))"
    using assms(3) by (intro sort_key_inj_mset)
  then show ?thesis by (simp add: merge_streams_sort assms(1,2))
qed

theorem merge_streams_deterministic_witness:
  "merge_streams [(''s2'', 1)] example_streams = merge_streams [(''s2'', 1)] (rev example_streams)"
proof (rule merge_streams_deterministic [OF example_streams_ok])
  show "streams_ok (rev example_streams)" using example_streams_ok by (simp add: streams_ok_def)
qed (simp_all add: example_streams_def example_shard_event_def inj_on_def)

text \<open>
  C21 (sequence_monotone). For every interleaving of the coordinator's operations (checks and updates of advances, checkpoints,
  epochs, recoveries): the sequence number of a shard is what the updates and recoveries of that shard make of it, one more
  per update, the recovered number per recovery. So without a recovery it never decreases. A frozen shard stays frozen,
  and is only updated by advances whose check had passed before: at most as many as were under way, so none when none
  was. Without updates and recoveries its last event stays too.
\<close>

theorem sequence_monotone:
  assumes "coord_run sha256 (c, p) ops (c', p')"
  shows "sq_current_sequence (get_sequence c' s) = foldl (sequence_effect s) (sq_current_sequence (get_sequence c s)) ops \<and>
    ((\<forall>n. Shard_Recovered s n \<notin> set ops) \<longrightarrow> sq_current_sequence (get_sequence c s) \<le> sq_current_sequence (get_sequence c' s)) \<and>
    (sq_frozen (get_sequence c s) \<longrightarrow> sq_frozen (get_sequence c' s) \<and>
       count_list ops (Advance_Committed s) \<le> count_list p s) \<and>
    (\<not> list_ex (touches s) ops \<longrightarrow> sq_last_event_id (get_sequence c' s) = sq_last_event_id (get_sequence c s) \<and>
       sq_last_event_hash (get_sequence c' s) = sq_last_event_hash (get_sequence c s))"
  using coord_run_sequence [OF assms, of s] by (auto simp: effects_monotone)

definition example_coord :: coordinator where
  "example_coord = snd (projr (advance_sequence empty_coordinator ''s1'' ''e1'' ''h1'' (DateTime 2026 1 2 3 4 5 0)))"

lemma example_advance: "advance_sequence empty_coordinator ''s1'' ''e1'' ''h1'' (DateTime 2026 1 2 3 4 5 0) =
    Inr (get_sequence example_coord ''s1'', example_coord)"
  by (simp add: advance_sequence_def advance_check_def get_sequence_def find_shard_def empty_coordinator_def
      example_coord_def Let_def)

text \<open>
  Establishing an epoch freezes each participating shard that
  has a row, at its current sequence number and with the new epoch, and changes no other
  shard; a participating shard that was never advanced has no row and stays unfrozen. A
  frozen shard then refuses to advance and nothing changes.
\<close>

theorem epoch_freezes_participants:
  assumes "coordinate_epoch sha256 c n shards created rd = Inr (i, c')"
  shows "get_sequence c' s = (if s \<in> set shards \<and> find_shard c s \<noteq> None
      then (get_sequence c s)\<lparr>sq_frozen := True, sq_epoch_number := n\<rparr> else get_sequence c s) \<and>
    (s \<in> set shards \<and> find_shard c s \<noteq> None \<longrightarrow>
       advance_sequence c' s eid eh now = Inl (SequenceFrozenError s))"
  using coordinate_epoch_sequence [OF assms, of s]
  by (simp add: advance_sequence_def advance_check_def)

lemma example_coord_rows:
  "\<exists>r. find_shard example_coord ''s1'' = Some r \<and> \<not> sr_frozen r" "find_shard example_coord ''s2'' = None"
proof -
  have n: "find_shard empty_coordinator s = None" for s by (simp add: find_shard_def empty_coordinator_def)
  then have ex: "example_coord = upsert_sequence empty_coordinator ''s1'' 1 ''e1'' ''h1'' (DateTime 2026 1 2 3 4 5 0)"
    by (simp add: example_coord_def advance_sequence_def advance_check_def get_sequence_def advance_commit_def Let_def)
  show "\<exists>r. find_shard example_coord ''s1'' = Some r \<and> \<not> sr_frozen r" "find_shard example_coord ''s2'' = None"
    unfolding ex find_shard_upsert n by simp_all
qed

lemma example_epoch:
  "\<exists>i c'. coordinate_epoch id example_coord 4 [''s1'', ''s2''] (example_reading 0) (example_reading 5000) = Inr (i, c')"
  using example_clock_now [of 5000 id]
  by (simp add: coordinate_epoch_def ordered_now_def clock_now_def new_clock_def example_reading_def
      example_clock_def timestamp_def Let_def)

theorem sequence_monotone_witness:
  "\<exists>i c'. coordinate_epoch id example_coord 4 [''s1'', ''s2''] (example_reading 0) (example_reading 5000) = Inr (i, c') \<and>
    sq_frozen (get_sequence c' ''s1'') \<and>
    (let c2 = advance_commit c' ''s1'' ''e2'' ''h2'' (DateTime 2026 1 2 3 4 5 0) in
     sq_frozen (get_sequence c2 ''s1'') \<and> sq_current_sequence (get_sequence c2 ''s1'') = 2 \<and>
     (\<forall>ops c3 p3. coord_run id (c2, []) ops (c3, p3) \<longrightarrow> Advance_Committed ''s1'' \<notin> set ops))"
proof -
  obtain i c' where e: "coordinate_epoch id example_coord 4 [''s1'', ''s2''] (example_reading 0) (example_reading 5000) =
      Inr (i, c')" using example_epoch by blast
  obtain r where r: "find_shard example_coord ''s1'' = Some r" "\<not> sr_frozen r"
    using example_coord_rows by auto
  let ?c2 = "advance_commit c' ''s1'' ''e2'' ''h2'' (DateTime 2026 1 2 3 4 5 0)"
  have "coord_run id (example_coord, []) ([] @ [Advance_Checked ''s1'']) (example_coord, [''s1''])"
    using r by (intro run_step [OF run_none] step_check) (simp add: advance_check_def get_sequence_def)
  from run_step [OF run_step [OF this step_epoch [OF e]] step_commit [of "''s1''" "[''s1'']" id c' "''e2''" "''h2''" "DateTime 2026 1 2 3 4 5 0"]]
  have run: "coord_run id (example_coord, []) [Advance_Checked ''s1'', Epoch_Established, Advance_Committed ''s1''] (?c2, [])" by simp
  have n: "get_sequence empty_coordinator s = \<lparr>sq_shard_id = s, sq_current_sequence = 0, sq_last_event_id = [],
      sq_last_event_hash = [], sq_epoch_number = 0, sq_frozen = False\<rparr>" for s
    by (simp add: get_sequence_def find_shard_def empty_coordinator_def)
  have "sq_current_sequence (get_sequence example_coord ''s1'') = 1"
    by (simp add: example_coord_def advance_sequence_def advance_check_def n Let_def get_sequence_commit)
  with sequence_monotone [OF run, of "''s1''"] have "sq_current_sequence (get_sequence ?c2 ''s1'') = 2" by simp
  moreover have f: "sq_frozen (get_sequence c' ''s1'')" using coordinate_epoch_sequence [OF e, of "''s1''"] r(1) by simp
  moreover have f2: "sq_frozen (get_sequence ?c2 ''s1'')" using f by (simp add: get_sequence_commit)
  moreover have "Advance_Committed ''s1'' \<notin> set ops" if "coord_run id (?c2, []) ops (c3, p3)" for ops c3 p3
    using sequence_monotone [OF that, of "''s1''"] f2 by (simp add: count_list_0_iff)
  ultimately show ?thesis using e by (auto simp: Let_def)
qed

theorem epoch_freezes_participants_witness:
  "\<exists>i c'. coordinate_epoch id example_coord 4 [''s1'', ''s2''] (example_reading 0) (example_reading 5000) = Inr (i, c') \<and>
    get_sequence c' ''s1'' = (get_sequence example_coord ''s1'')\<lparr>sq_frozen := True, sq_epoch_number := 4\<rparr> \<and>
    \<not> sq_frozen (get_sequence c' ''s2'')"
proof -
  obtain i c' where e: "coordinate_epoch id example_coord 4 [''s1'', ''s2''] (example_reading 0) (example_reading 5000) =
      Inr (i, c')" using example_epoch by blast
  have "find_shard example_coord ''s1'' \<noteq> None" "find_shard example_coord ''s2'' = None"
    using example_coord_rows by auto
  moreover from this have "\<not> sq_frozen (get_sequence example_coord ''s2'')" by (simp add: get_sequence_def)
  ultimately show ?thesis
    using e epoch_freezes_participants [OF e, of "''s1''"] epoch_freezes_participants [OF e, of "''s2''"] by auto
qed

text \<open>
  The frozen flag is read in another critical section than the one
  that updates the row. When an epoch is established between the two, the update goes
  through: the shard is frozen for the new epoch and its sequence number advances all the
  same, although \<open>advance_sequence\<close> is documented to raise.
\<close>

theorem advance_freeze_race:
  assumes "find_shard c s = Some r" and "\<not> sr_frozen r" and "s \<in> set shards"
    and "coordinate_epoch sha256 c n shards created rd = Inr (i, c')"
  shows "advance_check c s = Inr () \<and>
    sq_frozen (get_sequence (advance_commit c' s eid eh now) s) \<and>
    sq_epoch_number (get_sequence (advance_commit c' s eid eh now) s) = n \<and>
    sq_current_sequence (get_sequence (advance_commit c' s eid eh now) s) = sr_current_sequence r + 1"
  using assms(1-3) coordinate_epoch_sequence [OF assms(4), of s]
  by (simp add: advance_check_def get_sequence_commit) (simp add: get_sequence_def)

theorem advance_freeze_race_witness:
  "\<exists>i c'. coordinate_epoch id example_coord 4 [''s1'', ''s2''] (example_reading 0) (example_reading 5000) = Inr (i, c') \<and>
    sq_frozen (get_sequence (advance_commit c' ''s1'' ''e2'' ''h2'' (DateTime 2026 1 2 3 4 5 0)) ''s1'')"
proof -
  obtain i c' where e: "coordinate_epoch id example_coord 4 [''s1'', ''s2''] (example_reading 0) (example_reading 5000) =
      Inr (i, c')" using example_epoch by blast
  obtain r where "find_shard example_coord ''s1'' = Some r" "\<not> sr_frozen r"
    using example_coord_rows by auto
  from advance_freeze_race [OF this _ e] e show ?thesis by auto
qed

text \<open>
  Over any run of the coordinator the latest checkpoint of a
  shard only moves forward, and a stored checkpoint is never replaced: writing again with the
  same shard and sequence number has no effect.
\<close>

theorem latest_checkpoint_forward:
  assumes "coord_run sha256 (c, p) ops (c', p')" and "get_latest_checkpoint sha256 c sid = Some k"
  shows "(\<exists>k'. get_latest_checkpoint sha256 c' sid = Some k' \<and> mc_sequence k \<le> mc_sequence k') \<and>
    (\<forall>x key. checkpoint_at c key = Some x \<longrightarrow> checkpoint_at c' key = Some x)"
  using latest_monotone [OF _ assms(2), of c'] coord_run_checkpoints [OF assms(1)]
  by (auto simp: checkpoint_at_def dest: find_Some_prefix)

definition example_mc :: "int \<Rightarrow> monotonic_checkpoint" where
  "example_mc n = mc_init id \<lparr>mc_checkpoint_id = ''c'' @ show_int n, mc_shard_id = ''s1'', mc_sequence = n,
     mc_last_event_hash = ''h'', mc_epoch_number = 0, mc_timestamp = ''t'', mc_checkpoint_hash = []\<rparr>"

lemma example_mc_fields [simp]: "mc_sequence (example_mc n) = n" "mc_shard_id (example_mc n) = ''s1''"
  by (simp_all add: example_mc_def)

lemma example_mc_latest:
  "get_latest_checkpoint id (write_mcheckpoint empty_coordinator (example_mc n)) ''s1'' = Some (mc_init id (example_mc n))"
  by (simp add: get_latest_checkpoint_spec write_mcheckpoint_def empty_coordinator_def insert_or_ignore_def)

theorem latest_checkpoint_forward_witness:
  "\<exists>k'. get_latest_checkpoint id (write_mcheckpoint (write_mcheckpoint empty_coordinator (example_mc 7)) (example_mc 5)) ''s1''
      = Some k' \<and> 7 \<le> mc_sequence k'"
proof -
  have "coord_run id (write_mcheckpoint empty_coordinator (example_mc 7), []) ([] @ [Checkpoint_Written])
      (write_mcheckpoint (write_mcheckpoint empty_coordinator (example_mc 7)) (example_mc 5), [])"
    by (intro run_step [OF run_none] step_checkpoint)
  from latest_checkpoint_forward [OF this example_mc_latest] show ?thesis by simp
qed

text \<open>
  \<open>verify_monotonicity\<close> accepts a shard exactly when the sequence
  numbers of its checkpoints strictly increase in the order they were written and every
  checkpoint but the first carries the hash of its fields; the hash of the first is not
  looked at.
\<close>

theorem verify_monotonicity_iff:
  "fst (verify_monotonicity sha256 c sid) \<longleftrightarrow>
    (let ks = filter (\<lambda>k. mc_shard_id k = sid) (co_checkpoints c) in
     sorted_wrt (<) (map mc_sequence ks) \<and> (\<forall>k \<in> set (tl ks). mc_verify sha256 (mc_init sha256 k)))"
  by (simp add: verify_monotonicity_def monotonicity_errors_empty Let_def comp_def flip: map_tl)

theorem verify_monotonicity_iff_witness:
  "fst (verify_monotonicity id (write_mcheckpoint empty_coordinator
      ((example_mc 7)\<lparr>mc_checkpoint_hash := ''forged''\<rparr>)) ''s1'')"
  by (simp add: verify_monotonicity_iff write_mcheckpoint_def empty_coordinator_def insert_or_ignore_def)

text \<open>
  Recovering a shard from a reachable event storage sets its
  sequence number to the length of the partition's log and its last id and hash to those of
  the last event, whatever the row held before (so also to a smaller number, and also for a
  frozen shard, which stays frozen); an empty log leaves everything as it is.
\<close>

theorem recover_shard_from_log:
  assumes "bus_reach sha256 storage" and "read_partition sha256 storage sid 1 (-1) None = Inr lg"
  shows "if lg = [] then recover_shard sha256 c sid storage now = Inr (get_sequence c sid, c)
    else \<exists>c'. recover_shard sha256 c sid storage now =
        Inr ((get_sequence c sid)\<lparr>sq_current_sequence := int (length lg),
               sq_last_event_id := eh_event_id (ev_header (last lg)), sq_last_event_hash := ev_hash (last lg)\<rparr>, c') \<and>
        (\<forall>s. s \<noteq> sid \<longrightarrow> get_sequence c' s = get_sequence c s)"
proof -
  note inv = bus_reach_inv [OF assms(1)]
  have lg: "lg = part_log sha256 storage sid" using assms(2) read_all_log [OF inv, of sid "-1"] by (simp add: sql_limit_def)
  have tl: "get_partition_tail sha256 storage sid 1 = Inr (drop (length lg - 1) lg)"
    using get_partition_tail_log [OF inv, of 1 sid] lg by simp
  show ?thesis
  proof (cases "lg = []")
    case True
    with tl show ?thesis by (simp add: recover_shard_def)
  next
    case False
    then have d: "drop (length lg - 1) lg = [last lg]"
      by (metis append_butlast_last_id append_eq_conv_conj length_butlast)
    have "map (\<lambda>e. eh_partition_offset (ev_header e)) lg ! (length lg - 1) = int (length lg)"
      using part_log_offsets [OF inv, of sid] False by (simp add: lg [symmetric] del: upt_Suc)
    then have "eh_partition_offset (ev_header (last lg)) = int (length lg)"
      using False by (simp add: last_conv_nth)
    with False tl d show ?thesis by (simp add: recover_shard_def Let_def get_sequence_upsert)
  qed
qed

theorem recover_shard_from_log_witness:
  "\<exists>c'. recover_shard id empty_coordinator ''p'' (example_bus 5000) (DateTime 2026 1 2 3 4 5 0) =
     Inr ((get_sequence empty_coordinator ''p'')\<lparr>sq_current_sequence := 1,
        sq_last_event_id := eh_event_id (ev_header (example_event 5000)), sq_last_event_hash := ev_hash (example_event 5000)\<rparr>, c')"
proof -
  have "read_partition id (example_bus 5000) ''p'' 1 (-1) None = Inr (part_log id (example_bus 5000) ''p'')"
    by (simp add: read_all_log [OF bus_reach_inv [OF example_reach]] sql_limit_def)
  from recover_shard_from_log [OF example_reach this, of empty_coordinator "DateTime 2026 1 2 3 4 5 0"]
  show ?thesis by (auto simp: example_log)
qed

end
