(* ===== verification/Schema_Evolution.thy ===== *)
theory Schema_Evolution
  imports Py_Json
begin

text \<open>
  Schemas (\<open>schema/evolution.py\<close>, first half): fingerprints, field and artifact schemas with
  their canonical JSON, and the compatibility validator. The theorems say when two schemas
  are accepted at each compatibility level, and that a fingerprint identifies a schema
  whatever the order of its fields.
\<close>

section \<open>Compatibility levels and changes\<close>

datatype compatibility_level = COMPAT_NONE | BACKWARD | FORWARD | FULL

fun compatibility_value :: "compatibility_level \<Rightarrow> string" where
  "compatibility_value COMPAT_NONE = ''none''"
| "compatibility_value BACKWARD = ''backward''"
| "compatibility_value FORWARD = ''forward''"
| "compatibility_value FULL = ''full''"

datatype schema_change_type =
    FIELD_ADDED_OPTIONAL | FIELD_ADDED_REQUIRED | FIELD_REMOVED | FIELD_TYPE_CHANGED
  | FIELD_DEFAULT_CHANGED | NESTED_SCHEMA_CHANGED | CONSTRAINT_CHANGED | ENUM_VARIANT_ADDED
  | ENUM_VARIANT_REMOVED

fun change_value :: "schema_change_type \<Rightarrow> string" where
  "change_value FIELD_ADDED_OPTIONAL = ''field_added_optional''"
| "change_value FIELD_ADDED_REQUIRED = ''field_added_required''"
| "change_value FIELD_REMOVED = ''field_removed''"
| "change_value FIELD_TYPE_CHANGED = ''field_type_changed''"
| "change_value FIELD_DEFAULT_CHANGED = ''field_default_changed''"
| "change_value NESTED_SCHEMA_CHANGED = ''nested_schema_changed''"
| "change_value CONSTRAINT_CHANGED = ''constraint_changed''"
| "change_value ENUM_VARIANT_ADDED = ''enum_variant_added''"
| "change_value ENUM_VARIANT_REMOVED = ''enum_variant_removed''"

section \<open>Schemas\<close>

record schema_fingerprint =
  fp_algorithm :: string
  fp_value :: string
  fp_schema_json :: string

definition make_fingerprint :: "(string \<Rightarrow> string) \<Rightarrow> string \<Rightarrow> string \<Rightarrow> string \<Rightarrow> schema_fingerprint" where
  "make_fingerprint sha256 alg v js =
     \<lparr>fp_algorithm = alg, fp_value = (if v = [] \<and> js \<noteq> [] then sha256 js else v), fp_schema_json = js\<rparr>"

definition fp_str :: "schema_fingerprint \<Rightarrow> string" where
  "fp_str f = fp_algorithm f @ '':'' @ take 16 (fp_value f) @ ''...''"

definition fp_eq :: "schema_fingerprint \<Rightarrow> schema_fingerprint \<Rightarrow> bool" where
  "fp_eq a b \<longleftrightarrow> fp_value a = fp_value b"

record field_schema =
  fs_name :: string
  fs_type :: string
  fs_required :: bool
  fs_default :: pyval
  fs_description :: string
  fs_nested :: "schema_fingerprint option"

definition field_to_dict :: "field_schema \<Rightarrow> payload" where
  "field_to_dict f =
     [(''name'', PStr (fs_name f)), (''type'', PStr (fs_type f)), (''required'', PBool (fs_required f)),
      (''default'', fs_default f), (''description'', PStr (fs_description f))]
     @ (case fs_nested f of None \<Rightarrow> [] | Some n \<Rightarrow> [(''nested_schema_fingerprint'', PStr (fp_value n))])"

record artifact_schema =
  as_schema_name :: string
  as_version :: string
  as_fields :: "field_schema list"
  as_compatibility :: compatibility_level
  as_previous_fingerprint :: "schema_fingerprint option"
  as_metadata :: payload
  as_fingerprint :: schema_fingerprint

definition canonical_schema :: "artifact_schema \<Rightarrow> pyval" where
  "canonical_schema s = PDict
     [(''schema_name'', PStr (as_schema_name s)), (''version'', PStr (as_version s)),
      (''fields'', PList (map (\<lambda>f. PDict (field_to_dict f)) (sort_key fs_name (as_fields s)))),
      (''compatibility'', PStr (compatibility_value (as_compatibility s)))]"

definition canonical_json :: "artifact_schema \<Rightarrow> string" where
  "canonical_json s = dumps_compact (canonical_schema s)"

text \<open>\<open>__post_init__\<close>: a schema built without a fingerprint gets one.\<close>

definition schema_init :: "(string \<Rightarrow> string) \<Rightarrow> artifact_schema \<Rightarrow> artifact_schema" where
  "schema_init sha256 s =
     (if fp_value (as_fingerprint s) = []
      then let canonical = canonical_json s in
           s\<lparr>as_fingerprint := make_fingerprint sha256 ''sha256'' [] canonical,
             as_metadata := dict_set (as_metadata s) ''canonical_json'' (PStr canonical)\<rparr>
      else s)"

definition get_field :: "artifact_schema \<Rightarrow> string \<Rightarrow> field_schema option" where
  "get_field s n = find (\<lambda>f. fs_name f = n) (as_fields s)"

section \<open>The validator\<close>

record schema_change =
  ch_type :: schema_change_type
  ch_field :: string
  ch_required :: "bool option"

record compatibility_report =
  cr_old_fingerprint :: string
  cr_new_fingerprint :: string
  cr_compatible :: bool
  cr_level :: compatibility_level
  cr_changes :: "schema_change list"
  cr_violations :: "string list"

fun compat_rules :: "compatibility_level \<Rightarrow> schema_change_type list" where
  "compat_rules COMPAT_NONE =
     [FIELD_ADDED_OPTIONAL, FIELD_ADDED_REQUIRED, FIELD_REMOVED, FIELD_TYPE_CHANGED, FIELD_DEFAULT_CHANGED,
      NESTED_SCHEMA_CHANGED, CONSTRAINT_CHANGED, ENUM_VARIANT_ADDED, ENUM_VARIANT_REMOVED]"
| "compat_rules BACKWARD =
     [FIELD_ADDED_OPTIONAL, FIELD_DEFAULT_CHANGED, ENUM_VARIANT_ADDED, NESTED_SCHEMA_CHANGED]"
| "compat_rules FORWARD =
     [FIELD_REMOVED, ENUM_VARIANT_REMOVED, FIELD_DEFAULT_CHANGED, NESTED_SCHEMA_CHANGED]"
| "compat_rules FULL = []"

definition field_map :: "artifact_schema \<Rightarrow> (string, field_schema) dict" where
  "field_map s = dict_of_pairs (map (\<lambda>f. (fs_name f, f)) (as_fields s))"

definition nested_neq :: "schema_fingerprint option \<Rightarrow> schema_fingerprint option \<Rightarrow> bool" where
  "nested_neq a b =
     (case (a, b) of (None, None) \<Rightarrow> False | (Some x, Some y) \<Rightarrow> \<not> fp_eq x y | _ \<Rightarrow> True)"

definition field_changes :: "string \<Rightarrow> field_schema \<Rightarrow> field_schema \<Rightarrow> schema_change list" where
  "field_changes name o1 n1 =
     (if fs_type o1 \<noteq> fs_type n1
      then [\<lparr>ch_type = FIELD_TYPE_CHANGED, ch_field = name, ch_required = None\<rparr>] else [])
     @ (if \<not> py_eq (fs_default o1) (fs_default n1)
        then [\<lparr>ch_type = FIELD_DEFAULT_CHANGED, ch_field = name, ch_required = None\<rparr>] else [])
     @ (if nested_neq (fs_nested o1) (fs_nested n1)
        then [\<lparr>ch_type = NESTED_SCHEMA_CHANGED, ch_field = name, ch_required = None\<rparr>] else [])"

definition schema_diff :: "artifact_schema \<Rightarrow> artifact_schema \<Rightarrow> schema_change list" where
  "schema_diff old new =
     (let old_fields = field_map old; new_fields = field_map new in
      concat (map (\<lambda>(name, f). if dict_has old_fields name then []
          else [\<lparr>ch_type = (if fs_required f then FIELD_ADDED_REQUIRED else FIELD_ADDED_OPTIONAL),
                 ch_field = name, ch_required = Some (fs_required f)\<rparr>]) new_fields)
      @ concat (map (\<lambda>(name, f). if dict_has new_fields name then []
          else [\<lparr>ch_type = FIELD_REMOVED, ch_field = name, ch_required = None\<rparr>]) old_fields)
      @ concat (map (\<lambda>(name, o1). case map_of new_fields name of
            None \<Rightarrow> [] | Some n1 \<Rightarrow> field_changes name o1 n1) old_fields))"

text \<open>
  How a member of a \<open>(str, Enum)\<close> class is rendered in an f-string depends on the Python
  version, so the rendering is an argument.
\<close>

definition compat_validate ::
  "(schema_change_type \<Rightarrow> string) \<Rightarrow> artifact_schema \<Rightarrow> artifact_schema \<Rightarrow> compatibility_report" where
  "compat_validate fmt old new =
     (let changes = schema_diff old new;
          allowed = compat_rules (as_compatibility new);
          violations = concat (map (\<lambda>c. if ch_type c \<notin> set allowed
             then [fmt (ch_type c) @ '' not allowed under '' @ compatibility_value (as_compatibility new)
                   @ '' compatibility''] else []) changes)
      in \<lparr>cr_old_fingerprint = fp_value (as_fingerprint old), cr_new_fingerprint = fp_value (as_fingerprint new),
          cr_compatible = (violations = []), cr_level = as_compatibility new, cr_changes = changes,
          cr_violations = violations\<rparr>)"

section \<open>What the validator accepts\<close>

definition fields_ok :: "artifact_schema \<Rightarrow> bool" where
  "fields_ok s \<longleftrightarrow> distinct (map fs_name (as_fields s)) \<and>
     (\<forall>f \<in> set (as_fields s). py_wf (fs_default f) \<and> set_free (fs_default f))"

lemma field_map_distinct:
  "distinct (map fs_name (as_fields s)) \<Longrightarrow> field_map s = map (\<lambda>f. (fs_name f, f)) (as_fields s)"
  by (simp add: field_map_def dict_of_pairs_distinct comp_def)

lemma field_map_lookup:
  assumes "distinct (map fs_name (as_fields s))"
  shows "map_of (field_map s) n = get_field s n"
  unfolding field_map_distinct [OF assms] get_field_def by (rule map_of_keyed)

lemma compatible_iff_allowed:
  "cr_compatible (compat_validate fmt old new) \<longleftrightarrow>
    (\<forall>c \<in> set (schema_diff old new). ch_type c \<in> set (compat_rules (as_compatibility new)))"
  by (auto simp: compat_validate_def Let_def)

lemma get_field_Some: "get_field s n = Some f \<Longrightarrow> f \<in> set (as_fields s) \<and> fs_name f = n"
  by (auto simp: get_field_def find_Some_iff)

lemma schema_diff_set:
  assumes "distinct (map fs_name (as_fields old))" "distinct (map fs_name (as_fields new))"
  shows "c \<in> set (schema_diff old new) \<longleftrightarrow>
    (\<exists>f \<in> set (as_fields new). get_field old (fs_name f) = None \<and>
       c = \<lparr>ch_type = (if fs_required f then FIELD_ADDED_REQUIRED else FIELD_ADDED_OPTIONAL),
            ch_field = fs_name f, ch_required = Some (fs_required f)\<rparr>) \<or>
    (\<exists>f \<in> set (as_fields old). get_field new (fs_name f) = None \<and>
       c = \<lparr>ch_type = FIELD_REMOVED, ch_field = fs_name f, ch_required = None\<rparr>) \<or>
    (\<exists>f \<in> set (as_fields old). \<exists>n. get_field new (fs_name f) = Some n \<and> c \<in> set (field_changes (fs_name f) f n))"
  unfolding schema_diff_def Let_def dict_has_def field_map_lookup [OF assms(1)] field_map_lookup [OF assms(2)]
  by (simp only: field_map_distinct assms set_append set_concat set_map) (fastforce split: option.splits if_splits)

lemma field_changes_allowed:
  "set (map ch_type (field_changes n a b)) \<subseteq> A \<longleftrightarrow>
    (fs_type b = fs_type a \<or> FIELD_TYPE_CHANGED \<in> A) \<and>
    (py_eq (fs_default a) (fs_default b) \<or> FIELD_DEFAULT_CHANGED \<in> A) \<and>
    (\<not> nested_neq (fs_nested a) (fs_nested b) \<or> NESTED_SCHEMA_CHANGED \<in> A)"
  by (cases "fs_type a = fs_type b"; cases "py_eq (fs_default a) (fs_default b)";
      cases "nested_neq (fs_nested a) (fs_nested b)") (simp_all add: field_changes_def)

lemma diff_allowed:
  assumes "distinct (map fs_name (as_fields old))" "distinct (map fs_name (as_fields new))"
  shows "(\<forall>c \<in> set (schema_diff old new). ch_type c \<in> A) \<longleftrightarrow>
    (\<forall>f \<in> set (as_fields new). get_field old (fs_name f) = None \<longrightarrow>
       (if fs_required f then FIELD_ADDED_REQUIRED else FIELD_ADDED_OPTIONAL) \<in> A) \<and>
    (\<forall>f \<in> set (as_fields old). get_field new (fs_name f) = None \<longrightarrow> FIELD_REMOVED \<in> A) \<and>
    (\<forall>f \<in> set (as_fields old). \<forall>n. get_field new (fs_name f) = Some n \<longrightarrow>
       set (map ch_type (field_changes (fs_name f) f n)) \<subseteq> A)" (is "?l \<longleftrightarrow> ?r")
proof
  assume ?l
  then have l: "ch_type c \<in> A" if "c \<in> set (schema_diff old new)" for c using that by blast
  show ?r
  proof (intro conjI ballI impI allI subsetI)
    fix f assume "f \<in> set (as_fields new)" "get_field old (fs_name f) = None"
    then have "\<lparr>ch_type = (if fs_required f then FIELD_ADDED_REQUIRED else FIELD_ADDED_OPTIONAL),
        ch_field = fs_name f, ch_required = Some (fs_required f)\<rparr> \<in> set (schema_diff old new)"
      unfolding schema_diff_set [OF assms] by blast
    from l [OF this] show "(if fs_required f then FIELD_ADDED_REQUIRED else FIELD_ADDED_OPTIONAL) \<in> A" by simp
  next
    fix f assume "f \<in> set (as_fields old)" "get_field new (fs_name f) = None"
    then have "\<lparr>ch_type = FIELD_REMOVED, ch_field = fs_name f, ch_required = None\<rparr> \<in> set (schema_diff old new)"
      unfolding schema_diff_set [OF assms] by blast
    from l [OF this] show "FIELD_REMOVED \<in> A" by simp
  next
    fix f n t assume f: "f \<in> set (as_fields old)" "get_field new (fs_name f) = Some n"
      and "t \<in> set (map ch_type (field_changes (fs_name f) f n))"
    then obtain c where c: "c \<in> set (field_changes (fs_name f) f n)" "t = ch_type c" by auto
    then have "c \<in> set (schema_diff old new)" using f unfolding schema_diff_set [OF assms] by blast
    from l [OF this] c(2) show "t \<in> A" by simp
  qed
next
  assume r: ?r
  show ?l
  proof
    fix c assume "c \<in> set (schema_diff old new)"
    then consider f where "f \<in> set (as_fields new)" "get_field old (fs_name f) = None"
        "ch_type c = (if fs_required f then FIELD_ADDED_REQUIRED else FIELD_ADDED_OPTIONAL)"
      | f where "f \<in> set (as_fields old)" "get_field new (fs_name f) = None" "ch_type c = FIELD_REMOVED"
      | f n where "f \<in> set (as_fields old)" "get_field new (fs_name f) = Some n"
          "c \<in> set (field_changes (fs_name f) f n)"
      unfolding schema_diff_set [OF assms] by (elim disjE bexE exE conjE) simp_all
    then show "ch_type c \<in> A"
    proof cases
      case 3
      then have "ch_type c \<in> set (map ch_type (field_changes (fs_name f) f n))" by simp
      with 3 r show ?thesis by blast
    next
      case 2
      with r show ?thesis by auto
    qed (use r in simp)
  qed
qed

section \<open>Fingerprints\<close>

lemma schema_init_value:
  "fp_value (as_fingerprint s) = [] \<Longrightarrow> fp_value (as_fingerprint (schema_init sha256 s)) = sha256 (canonical_json s)"
  by (simp add: schema_init_def make_fingerprint_def Let_def canonical_json_def dumps_compact_def canonical_schema_def)

lemma field_to_dict_wf:
  "py_wf (fs_default f) \<Longrightarrow> set_free (fs_default f) \<Longrightarrow>
    py_wf (PDict (field_to_dict f)) \<and> set_free (PDict (field_to_dict f))"
  by (simp add: field_to_dict_def split: option.splits)

lemma canonical_schema_wf: "fields_ok s \<Longrightarrow> py_wf (canonical_schema s) \<and> set_free (canonical_schema s)"
  using field_to_dict_wf by (fastforce simp: canonical_schema_def fields_ok_def list_all_iff)

lemma compatibility_value_inj [simp]: "compatibility_value a = compatibility_value b \<longleftrightarrow> a = b"
  by (cases a; cases b) simp_all

lemma canonical_json_eq:
  assumes "fields_ok s" "fields_ok t"
  shows "canonical_json s = canonical_json t \<longleftrightarrow> json_norm (canonical_schema s) = json_norm (canonical_schema t)"
proof
  assume "canonical_json s = canonical_json t"
  then show "json_norm (canonical_schema s) = json_norm (canonical_schema t)"
    using canonical_schema_wf [OF assms(1)] canonical_schema_wf [OF assms(2)]
    unfolding canonical_json_def dumps_compact_def by (intro dumps_inj [of "'',''" "'':''"]) simp_all
next
  assume "json_norm (canonical_schema s) = json_norm (canonical_schema t)"
  then show "canonical_json s = canonical_json t"
    unfolding canonical_json_def dumps_compact_def by (metis dumps_json_norm)
qed

lemma canonical_schema_norm_eq:
  "json_norm (canonical_schema s) = json_norm (canonical_schema t) \<longleftrightarrow>
    as_schema_name s = as_schema_name t \<and> as_version s = as_version t \<and> as_compatibility s = as_compatibility t \<and>
    map (\<lambda>f. json_norm (PDict (field_to_dict f))) (sort_key fs_name (as_fields s)) =
    map (\<lambda>f. json_norm (PDict (field_to_dict f))) (sort_key fs_name (as_fields t))" (is "?l \<longleftrightarrow> ?r")
proof
  assume ?l
  note l = json_norm_dict_lookup [OF \<open>?l\<close> [unfolded canonical_schema_def]]
  show ?r
    using l [of "''schema_name''"] l [of "''version''"] l [of "''fields''"] l [of "''compatibility''"]
    by (simp add: comp_def del: json_norm.simps(3))
next
  assume ?r
  then have "map (\<lambda>(k, v). (k, json_norm v))
       [(''schema_name'', PStr (as_schema_name s)), (''version'', PStr (as_version s)),
        (''fields'', PList (map (\<lambda>f. PDict (field_to_dict f)) (sort_key fs_name (as_fields s)))),
        (''compatibility'', PStr (compatibility_value (as_compatibility s)))] =
     map (\<lambda>(k, v). (k, json_norm v))
       [(''schema_name'', PStr (as_schema_name t)), (''version'', PStr (as_version t)),
        (''fields'', PList (map (\<lambda>f. PDict (field_to_dict f)) (sort_key fs_name (as_fields t)))),
        (''compatibility'', PStr (compatibility_value (as_compatibility t)))]"
    by (simp add: comp_def del: json_norm.simps(3))
  then show ?l by (simp only: canonical_schema_def json_norm.simps(3))
qed

section \<open>Properties\<close>

text \<open>
  When the validator accepts a new schema over an old one, at each level:
  under \<open>NONE\<close> always; under \<open>BACKWARD\<close> exactly when every added field is optional and every
  old field is kept with its type; under \<open>FORWARD\<close> exactly when no field is added and kept
  fields keep their type; under \<open>FULL\<close> exactly when names, types, defaults and nested
  fingerprints all agree.
\<close>

theorem compat_levels:
  assumes "distinct (map fs_name (as_fields old))" and "distinct (map fs_name (as_fields new))"
  shows "cr_compatible (compat_validate fmt old new) \<longleftrightarrow>
    (case as_compatibility new of
       COMPAT_NONE \<Rightarrow> True
     | BACKWARD \<Rightarrow>
         (\<forall>f \<in> set (as_fields new). get_field old (fs_name f) = None \<longrightarrow> \<not> fs_required f) \<and>
         (\<forall>f \<in> set (as_fields old). \<exists>n. get_field new (fs_name f) = Some n \<and> fs_type n = fs_type f)
     | FORWARD \<Rightarrow>
         (\<forall>f \<in> set (as_fields new). get_field old (fs_name f) \<noteq> None) \<and>
         (\<forall>f \<in> set (as_fields old). \<forall>n. get_field new (fs_name f) = Some n \<longrightarrow> fs_type n = fs_type f)
     | FULL \<Rightarrow>
         (\<forall>f \<in> set (as_fields new). get_field old (fs_name f) \<noteq> None) \<and>
         (\<forall>f \<in> set (as_fields old). \<exists>n. get_field new (fs_name f) = Some n \<and> fs_type n = fs_type f \<and>
            py_eq (fs_default f) (fs_default n) \<and> \<not> nested_neq (fs_nested f) (fs_nested n)))"
proof -
  have ex: "(\<exists>n. get_field new m = Some n \<and> P n) \<longleftrightarrow>
      get_field new m \<noteq> None \<and> (\<forall>n. get_field new m = Some n \<longrightarrow> P n)" for m P
    by (cases "get_field new m") auto
  show ?thesis
    unfolding compatible_iff_allowed diff_allowed [OF assms] field_changes_allowed ex
    by (cases "as_compatibility new") auto
qed

definition example_field :: "string \<Rightarrow> bool \<Rightarrow> field_schema" where
  "example_field n req = \<lparr>fs_name = n, fs_type = ''str'', fs_required = req, fs_default = PNone,
     fs_description = [], fs_nested = None\<rparr>"

definition example_schema :: "string \<Rightarrow> field_schema list \<Rightarrow> compatibility_level \<Rightarrow> artifact_schema" where
  "example_schema v fs lvl = \<lparr>as_schema_name = ''doc'', as_version = v, as_fields = fs, as_compatibility = lvl,
     as_previous_fingerprint = None, as_metadata = [],
     as_fingerprint = \<lparr>fp_algorithm = ''sha256'', fp_value = [], fp_schema_json = []\<rparr>\<rparr>"

theorem compat_levels_witness:
  "\<not> cr_compatible (compat_validate change_value (example_schema ''1'' [example_field ''a'' True] FULL)
      (example_schema ''2'' [example_field ''b'' True, example_field ''a'' True] BACKWARD))"
  by (subst compat_levels) (simp_all add: example_schema_def example_field_def get_field_def)

text \<open>
  The comparison never looks at the \<open>required\<close> flag of a field
  that both schemas have: changing the flags of any fields gives no change at all, and the
  new schema is accepted even under \<open>FULL\<close>, so a field that becomes required passes as
  backward compatible although old data may lack it.
\<close>

theorem required_flip_undetected:
  assumes "distinct (map fs_name (as_fields s))"
    and "\<forall>f \<in> set (as_fields s). py_eq (fs_default f) (fs_default f)"
    and "as_fields t = map (\<lambda>f. f\<lparr>fs_required := flag f\<rparr>) (as_fields s)"
  shows "cr_changes (compat_validate fmt s t) = [] \<and> cr_compatible (compat_validate fmt s t)"
proof -
  have d: "distinct (map fs_name (as_fields t))" using assms(1,3) by (simp add: comp_def)
  have find_map: "find (\<lambda>f. fs_name f = n) (map (\<lambda>f. f\<lparr>fs_required := flag f\<rparr>) fs) =
      map_option (\<lambda>f. f\<lparr>fs_required := flag f\<rparr>) (find (\<lambda>f. fs_name f = n) fs)" for n and fs :: "field_schema list"
    by (induction fs) auto
  then have t: "get_field t n = map_option (\<lambda>f. f\<lparr>fs_required := flag f\<rparr>) (get_field s n)" for n
    by (simp add: get_field_def assms(3))
  have s: "get_field s (fs_name f) = Some f" if "f \<in> set (as_fields s)" for f
    using that assms(1) by (simp add: get_field_def find_distinct_key)
  have "\<not> c \<in> set (schema_diff s t)" for c
    unfolding schema_diff_set [OF assms(1) d]
    using assms(2,3) by (auto simp: t s field_changes_def nested_neq_def fp_eq_def split: option.splits)
  then have "schema_diff s t = []" by (metis list.set_intros(1) neq_Nil_conv)
  then show ?thesis by (simp add: compat_validate_def)
qed

theorem required_flip_undetected_witness:
  "cr_changes (compat_validate change_value (example_schema ''1'' [example_field ''a'' False] FULL)
     (example_schema ''2'' [example_field ''a'' True] FULL)) = []"
  using required_flip_undetected [of "example_schema ''1'' [example_field ''a'' False] FULL"
      "example_schema ''2'' [example_field ''a'' True] FULL" "\<lambda>_. True" change_value]
  by (simp add: example_schema_def example_field_def)

text \<open>
  Fingerprints are content addresses: two schemas with the same
  name, version and level and the same fields in any order have the same fingerprint, and,
  SHA-256 not colliding on their two canonical texts, schemas with the same fingerprint agree
  in name, version, level and, field by field in name order, in their JSON description.
\<close>

theorem fingerprint_identifies:
  assumes "fields_ok s" and "fields_ok t"
    and "fp_value (as_fingerprint s) = []" and "fp_value (as_fingerprint t) = []"
    and "inj_on sha256 {canonical_json s, canonical_json t}"
  shows "(fp_eq (as_fingerprint (schema_init sha256 s)) (as_fingerprint (schema_init sha256 t)) \<longleftrightarrow>
      as_schema_name s = as_schema_name t \<and> as_version s = as_version t \<and> as_compatibility s = as_compatibility t \<and>
      map (\<lambda>f. json_norm (PDict (field_to_dict f))) (sort_key fs_name (as_fields s)) =
      map (\<lambda>f. json_norm (PDict (field_to_dict f))) (sort_key fs_name (as_fields t))) \<and>
    (mset (as_fields s) = mset (as_fields t) \<longrightarrow> sort_key fs_name (as_fields s) = sort_key fs_name (as_fields t))"
proof -
  have "fp_eq (as_fingerprint (schema_init sha256 s)) (as_fingerprint (schema_init sha256 t)) \<longleftrightarrow>
      canonical_json s = canonical_json t"
    unfolding fp_eq_def schema_init_value [OF assms(3)] schema_init_value [OF assms(4)]
    by (rule inj_on_eq_iff [OF assms(5)]) simp_all
  also have "\<dots> \<longleftrightarrow> json_norm (canonical_schema s) = json_norm (canonical_schema t)"
    by (rule canonical_json_eq [OF assms(1,2)])
  also have "\<dots> \<longleftrightarrow> as_schema_name s = as_schema_name t \<and> as_version s = as_version t \<and>
      as_compatibility s = as_compatibility t \<and>
      map (\<lambda>f. json_norm (PDict (field_to_dict f))) (sort_key fs_name (as_fields s)) =
      map (\<lambda>f. json_norm (PDict (field_to_dict f))) (sort_key fs_name (as_fields t))"
    by (rule canonical_schema_norm_eq)
  finally show ?thesis
    using assms(1) sort_key_inj_mset [of fs_name "as_fields s" "as_fields t"] by (simp add: fields_ok_def distinct_map)
qed

theorem fingerprint_identifies_witness:
  "sort_key fs_name (as_fields (example_schema ''1'' [example_field ''b'' True, example_field ''a'' False] FULL)) =
   sort_key fs_name (as_fields (example_schema ''1'' [example_field ''a'' False, example_field ''b'' True] FULL))"
  using fingerprint_identifies [of "example_schema ''1'' [example_field ''b'' True, example_field ''a'' False] FULL"
      "example_schema ''1'' [example_field ''a'' False, example_field ''b'' True] FULL" id]
  by (simp add: example_schema_def example_field_def fields_ok_def add_mset_commute)

end
