(* ===== verification/Migration_Paths.thy ===== *)
theory Migration_Paths
  imports Schema_Evolution
begin

text \<open>
  The migration graph (\<open>schema/evolution.py\<close>, \<open>MigrationDAG\<close>): registered steps indexed by
  source and by target, and the breadth-first search for a path. The search is a total
  function: it ends because every expanded node is a key of the index that was not visited
  before. It is proved sound, complete up to the hop limit, and to return a shortest path.
\<close>

section \<open>Steps and the graph\<close>

text \<open>
  The values of \<open>parameters\<close> are plain data, except that a step built in the running process
  may carry a callable under the key \<open>transform\<close>; it is the field \<open>ms_transform\<close>.
\<close>

record migration_step =
  ms_migration_id :: string
  ms_from_fingerprint :: string
  ms_to_fingerprint :: string
  ms_direction :: string
  ms_transformation_type :: string
  ms_field_name :: string
  ms_parameters :: payload
  ms_transform :: "(payload \<Rightarrow> string \<Rightarrow> payload result) option"
  ms_description :: string
  ms_deterministic :: bool
  ms_reversible :: bool

record migration_dag =
  md_forward :: "(string, migration_step list) dict"
  md_backward :: "(string, migration_step list) dict"

definition empty_dag :: migration_dag where
  "empty_dag = \<lparr>md_forward = [], md_backward = []\<rparr>"

definition index_add :: "(string, migration_step list) dict \<Rightarrow> string \<Rightarrow> migration_step \<Rightarrow> (string, migration_step list) dict" where
  "index_add d k step =
     (let d' = (if dict_has d k then d else dict_set d k []) in dict_set d' k (dict_get d' k [] @ [step]))"

definition dag_register :: "migration_dag \<Rightarrow> migration_step \<Rightarrow> migration_dag" where
  "dag_register g step =
     \<lparr>md_forward = index_add (md_forward g) (ms_from_fingerprint step) step,
      md_backward = index_add (md_backward g) (ms_to_fingerprint step) step\<rparr>"

section \<open>Breadth-first search\<close>

text \<open>The loop over the steps out of one node: a path that reaches the target, or the extended queue.\<close>

fun bfs_expand :: "string \<Rightarrow> int \<Rightarrow> migration_step list \<Rightarrow> migration_step list \<Rightarrow>
    (string \<times> migration_step list) list \<Rightarrow> migration_step list + (string \<times> migration_step list) list" where
  "bfs_expand to_fp max_hops path [] queue = Inr queue"
| "bfs_expand to_fp max_hops path (step # steps) queue =
     (let new_path = path @ [step] in
      if ms_to_fingerprint step = to_fp then Inl new_path
      else bfs_expand to_fp max_hops path steps
             (if int (length new_path) < max_hops then queue @ [(ms_to_fingerprint step, new_path)] else queue))"

function bfs_loop :: "(string, migration_step list) dict \<Rightarrow> string \<Rightarrow> int \<Rightarrow>
    (string \<times> migration_step list) list \<Rightarrow> string list \<Rightarrow> migration_step list" where
  "bfs_loop fwd to_fp max_hops [] visited = []"
| "bfs_loop fwd to_fp max_hops ((current_fp, path) # queue) visited =
     (if current_fp \<in> set visited then bfs_loop fwd to_fp max_hops queue visited
      else case bfs_expand to_fp max_hops path (dict_get fwd current_fp []) queue of
             Inl found \<Rightarrow> found
           | Inr queue' \<Rightarrow> bfs_loop fwd to_fp max_hops queue' (current_fp # visited))"
  by pat_completeness auto

termination
proof (relation "measures [\<lambda>(fwd, _, _, _, visited). card (fst ` set fwd - set visited),
    \<lambda>(_, _, _, queue, _). length queue]", goal_cases)
  case (3 fwd to_fp max_hops cur path queue visited queue')
  show ?case
  proof (cases "dict_get fwd cur [] = []")
    case True
    with 3 have q: "queue' = queue" by simp
    have "card (fst ` set fwd - set (cur # visited)) \<le> card (fst ` set fwd - set visited)"
      by (intro card_mono) auto
    with q show ?thesis by auto
  next
    case False
    then have "cur \<in> fst ` set fwd" by (rule dict_get_nonempty)
    with 3(1) have "fst ` set fwd - set (cur # visited) \<subset> fst ` set fwd - set visited" by auto
    then have "card (fst ` set fwd - set (cur # visited)) < card (fst ` set fwd - set visited)"
      by (intro psubset_card_mono) auto
    then show ?thesis by simp
  qed
qed auto

definition find_path :: "migration_dag \<Rightarrow> string \<Rightarrow> string \<Rightarrow> int \<Rightarrow> migration_step list" where
  "find_path g from_fp to_fp max_hops =
     (if from_fp = to_fp then [] else bfs_loop (md_forward g) to_fp max_hops [(from_fp, [])] [])"

definition has_path :: "migration_dag \<Rightarrow> string \<Rightarrow> string \<Rightarrow> int \<Rightarrow> bool" where
  "has_path g from_fp to_fp max_hops \<longleftrightarrow> length (find_path g from_fp to_fp max_hops) > 0"

definition get_migrations_from :: "migration_dag \<Rightarrow> string \<Rightarrow> migration_step list" where
  "get_migrations_from g fp = dict_get (md_forward g) fp []"

section \<open>Paths\<close>

text \<open>A list of steps of the index that leads from one fingerprint to another.\<close>

fun walk :: "(string, migration_step list) dict \<Rightarrow> string \<Rightarrow> migration_step list \<Rightarrow> string \<Rightarrow> bool" where
  "walk fwd a [] b = (a = b)"
| "walk fwd a (s # ss) b = (s \<in> set (dict_get fwd a []) \<and> walk fwd (ms_to_fingerprint s) ss b)"

lemma walk_append: "walk fwd a (p @ q) c \<longleftrightarrow> (\<exists>b. walk fwd a p b \<and> walk fwd b q c)"
  by (induction p arbitrary: a) auto

lemma walk_snoc: "walk fwd a (p @ [s]) c \<longleftrightarrow>
    (\<exists>b. walk fwd a p b \<and> s \<in> set (dict_get fwd b []) \<and> ms_to_fingerprint s = c)"
  by (simp add: walk_append)

lemma expand_Inl:
  "bfs_expand to_fp mh path steps queue = Inl found \<Longrightarrow>
    \<exists>s \<in> set steps. ms_to_fingerprint s = to_fp \<and> found = path @ [s]"
  by (induction steps arbitrary: queue) (auto simp: Let_def split: if_splits)

lemma expand_Inr:
  "bfs_expand to_fp mh path steps queue = Inr queue' \<Longrightarrow>
    (\<forall>s \<in> set steps. ms_to_fingerprint s \<noteq> to_fp) \<and>
    queue' = queue @ (if int (length path) + 1 < mh then map (\<lambda>s. (ms_to_fingerprint s, path @ [s])) steps else [])"
proof (induction steps arbitrary: queue)
  case (Cons s steps)
  then show ?case by (fastforce simp: Let_def split: if_splits)
qed simp

text \<open>
  The invariant of the search, with \<open>D\<close> the depth at which each visited node was expanded.
\<close>

definition queue_ok :: "(string, migration_step list) dict \<Rightarrow> string \<Rightarrow> int \<Rightarrow> (string \<times> migration_step list) list \<Rightarrow> bool" where
  "queue_ok fwd a mh queue \<longleftrightarrow>
     (\<forall>(v, p) \<in> set queue. walk fwd a p v \<and> (p = [] \<or> int (length p) < mh)) \<and>
     sorted (map (length \<circ> snd) queue) \<and>
     (\<forall>(v, p) \<in> set queue. length p \<le> length (snd (hd queue)) + 1)"

definition visited_ok :: "(string, migration_step list) dict \<Rightarrow> string \<Rightarrow> string \<Rightarrow> int \<Rightarrow>
    (string \<times> migration_step list) list \<Rightarrow> string set \<Rightarrow> (string \<Rightarrow> nat) \<Rightarrow> bool" where
  "visited_ok fwd a t mh queue V D \<longleftrightarrow>
     (a \<in> V \<longrightarrow> D a = 0) \<and> (a \<in> V \<or> (a, []) \<in> set queue) \<and>
     (\<forall>v \<in> V. \<forall>(u, p) \<in> set queue. D v \<le> length p) \<and>
     (\<forall>v \<in> V. \<forall>s \<in> set (dict_get fwd v []). ms_to_fingerprint s \<noteq> t \<and>
        (int (D v) + 1 < mh \<longrightarrow>
          (ms_to_fingerprint s \<in> V \<and> D (ms_to_fingerprint s) \<le> D v + 1) \<or>
          (\<exists>p. (ms_to_fingerprint s, p) \<in> set queue \<and> length p \<le> D v + 1)))"

lemma frontier:
  assumes "visited_ok fwd a t mh queue V D"
    and "walk fwd a q v" and "q = [] \<or> int (length q) < mh" and "\<forall>(u, p) \<in> set queue. length q < length p"
  shows "v \<in> V \<and> D v \<le> length q"
  using assms(2-)
proof (induction q arbitrary: v rule: rev_induct)
  case Nil
  then show ?case using assms(1) by (auto simp: visited_ok_def)
next
  case (snoc s q)
  then obtain b where b: "walk fwd a q b" "s \<in> set (dict_get fwd b [])" "ms_to_fingerprint s = v"
    by (auto simp: walk_snoc)
  have "b \<in> V \<and> D b \<le> length q" using snoc.prems b(1) by (intro snoc.IH) auto
  moreover have "(ms_to_fingerprint s \<in> V \<and> D (ms_to_fingerprint s) \<le> D b + 1) \<or>
      (\<exists>p. (ms_to_fingerprint s, p) \<in> set queue \<and> length p \<le> D b + 1)"
    using assms(1) b(2) calculation snoc.prems(2) unfolding visited_ok_def by force
  ultimately show ?case using b(3) snoc.prems(3) by fastforce
qed

text \<open>A walk to the target that respects the limit has to pass an entry of the queue.\<close>

lemma walk_blocked:
  assumes "visited_ok fwd a t mh queue V D"
    and "walk fwd a q t" and "q \<noteq> []" and "length q = 1 \<or> int (length q) \<le> mh"
  shows "\<exists>(u, p) \<in> set queue. length p < length q"
proof (rule ccontr)
  assume n: "\<not> (\<exists>(u, p) \<in> set queue. length p < length q)"
  obtain q' s where q: "q = q' @ [s]" using assms(3) by (metis rev_exhaust)
  then obtain b where b: "walk fwd a q' b" "s \<in> set (dict_get fwd b [])" "ms_to_fingerprint s = t"
    using assms(2) by (auto simp: walk_snoc)
  have "b \<in> V"
    using n assms(4) q by (intro frontier [OF assms(1) b(1), THEN conjunct1]) auto
  then show False using assms(1) b by (auto simp: visited_ok_def)
qed

lemma queue_ok_tail:
  assumes "queue_ok fwd a mh (x # queue)"
  shows "queue_ok fwd a mh queue"
proof -
  have "length p \<le> length (snd (hd queue)) + 1" if "(v, p) \<in> set queue" for v p
  proof -
    have "length (snd x) \<le> length (snd (hd queue))"
      using assms that by (cases queue) (auto simp: queue_ok_def)
    moreover have "length p \<le> length (snd x) + 1" using assms that by (force simp: queue_ok_def)
    ultimately show ?thesis by simp
  qed
  with assms show ?thesis by (auto simp: queue_ok_def)
qed

lemma visited_ok_tail:
  assumes "visited_ok fwd a t mh ((v, p) # queue) V D" "v \<in> V"
  shows "visited_ok fwd a t mh queue V D"
proof -
  have "D v \<le> length p" using assms by (auto simp: visited_ok_def)
  with assms show ?thesis
    unfolding visited_ok_def by (auto; metis order.trans)
qed

lemma queue_ok_append:
  assumes q: "queue_ok fwd a mh ((v, p) # queue)"
    and new: "\<And>u r. (u, r) \<in> set new \<Longrightarrow> length r = length p + 1 \<and> walk fwd a r u \<and> int (length r) < mh"
  shows "queue_ok fwd a mh (queue @ new)"
proof -
  have old: "length p \<le> length r \<and> length r \<le> length p + 1 \<and> walk fwd a r u \<and> (r = [] \<or> int (length r) < mh)"
    if "(u, r) \<in> set queue" for u r
    using that q by (fastforce simp: queue_ok_def)
  have all: "length p \<le> length r \<and> length r \<le> length p + 1 \<and> walk fwd a r u \<and> (r = [] \<or> int (length r) < mh)"
    if "(u, r) \<in> set (queue @ new)" for u r
    using that old [of u r] new [of u r] by auto
  have "map (length \<circ> snd) new = map (\<lambda>_. length p + 1) new" using new by auto
  then have "sorted (map (length \<circ> snd) new)" by (simp add: map_replicate_const)
  moreover have "sorted (map (length \<circ> snd) queue)" using q by (simp add: queue_ok_def)
  moreover have "length (snd x) \<le> length (snd y)" if "x \<in> set queue" "y \<in> set new" for x y
    using that old [of "fst x" "snd x"] new [of "fst y" "snd y"] by simp
  ultimately have "sorted (map (length \<circ> snd) (queue @ new))" by (auto simp: sorted_append)
  moreover have "length r \<le> length (snd (hd (queue @ new))) + 1" if "(u, r) \<in> set (queue @ new)" for u r
  proof -
    have "queue @ new \<noteq> []" using that by (metis empty_iff list.set(1))
    then have "(fst (hd (queue @ new)), snd (hd (queue @ new))) \<in> set (queue @ new)"
      unfolding prod.collapse by (rule hd_in_set)
    from all [OF this] all [OF that] show ?thesis by simp
  qed
  ultimately show ?thesis using all unfolding queue_ok_def by blast
qed

lemma visited_ok_append:
  assumes q: "queue_ok fwd a mh ((v, p) # queue)" and V: "visited_ok fwd a t mh ((v, p) # queue) V D" and v: "v \<notin> V"
    and new: "\<And>u r. (u, r) \<in> set new \<Longrightarrow> length r = length p + 1"
    and succ: "\<And>s. s \<in> set (dict_get fwd v []) \<Longrightarrow> ms_to_fingerprint s \<noteq> t \<and>
      (int (length p) + 1 < mh \<longrightarrow> (ms_to_fingerprint s, p @ [s]) \<in> set new)"
  shows "visited_ok fwd a t mh (queue @ new) (insert v V) (D(v := length p))"
proof -
  have le: "length p \<le> length r" if "(u, r) \<in> set queue" for u r using that q by (fastforce simp: queue_ok_def)
  have D: "D w \<le> length p" if "w \<in> V" for w using that V by (auto simp: visited_ok_def)
  have a: "(v = a \<longrightarrow> p = []) \<and> (a \<in> insert v V \<or> (a, []) \<in> set (queue @ new))"
    using V v le [of a "[]"] by (auto simp: visited_ok_def)
  have m: "(D(v := length p)) w \<le> length r" if "w \<in> insert v V" "(u, r) \<in> set (queue @ new)" for w u r
    using that V le [of u r] new [of u r] D [of w] by (auto simp: visited_ok_def dest: le_trans)
  have e1: "(ms_to_fingerprint s \<in> insert v V \<and> (D(v := length p)) (ms_to_fingerprint s) \<le> D w + 1) \<or>
      (\<exists>r. (ms_to_fingerprint s, r) \<in> set (queue @ new) \<and> length r \<le> D w + 1)"
    if w: "w \<in> V" "s \<in> set (dict_get fwd w [])" "int (D w) + 1 < mh" for w s
  proof -
    consider "ms_to_fingerprint s \<in> V" "D (ms_to_fingerprint s) \<le> D w + 1"
      | r where "(ms_to_fingerprint s, r) \<in> set ((v, p) # queue)" "length r \<le> D w + 1"
      using V w unfolding visited_ok_def by blast
    then show ?thesis
    proof cases
      case 1
      then show ?thesis using v by auto
    next
      case 2
      then show ?thesis using le [of "ms_to_fingerprint s" r] by (cases "ms_to_fingerprint s = v") auto
    qed
  qed
  have e2: "\<exists>r. (ms_to_fingerprint s, r) \<in> set (queue @ new) \<and> length r \<le> length p + 1"
    if "s \<in> set (dict_get fwd v [])" "int (length p) + 1 < mh" for s
    using succ [OF that(1)] that(2) by (intro exI [of _ "p @ [s]"]) simp
  have nt: "ms_to_fingerprint s \<noteq> t" if "w \<in> insert v V" "s \<in> set (dict_get fwd w [])" for w s
    using that succ V by (auto simp: visited_ok_def)
  show ?thesis
    unfolding visited_ok_def
  proof (intro conjI ballI impI)
    show "(D(v := length p)) a = 0" if "a \<in> insert v V" using that a V by (auto simp: visited_ok_def)
    show "a \<in> insert v V \<or> (a, []) \<in> set (queue @ new)" using a by blast
    show "case x of (u, r) \<Rightarrow> (D(v := length p)) w \<le> length r" if "w \<in> insert v V" "x \<in> set (queue @ new)" for w x
      using m [OF that(1), of "fst x" "snd x"] that(2) by (cases x) simp
    show "ms_to_fingerprint s \<noteq> t" if "w \<in> insert v V" "s \<in> set (dict_get fwd w [])" for w s
      using that by (rule nt)
    show "(ms_to_fingerprint s \<in> insert v V \<and> (D(v := length p)) (ms_to_fingerprint s) \<le> (D(v := length p)) w + 1) \<or>
        (\<exists>r. (ms_to_fingerprint s, r) \<in> set (queue @ new) \<and> length r \<le> (D(v := length p)) w + 1)"
      if "w \<in> insert v V" "s \<in> set (dict_get fwd w [])" "int ((D(v := length p)) w) + 1 < mh" for w s
    proof (cases "w = v")
      case True
      with e2 [of s] that show ?thesis by (simp only: fun_upd_same) blast
    next
      case False
      with e1 [of w s] that show ?thesis by simp
    qed
  qed
qed

lemma bfs_loop_correct:
  assumes "queue_ok fwd a mh queue" "visited_ok fwd a t mh queue (set visited) D" "a \<noteq> t"
  shows "(bfs_loop fwd t mh queue visited \<noteq> [] \<longrightarrow>
      walk fwd a (bfs_loop fwd t mh queue visited) t \<and>
      (length (bfs_loop fwd t mh queue visited) = 1 \<or> int (length (bfs_loop fwd t mh queue visited)) \<le> mh) \<and>
      (\<forall>q. walk fwd a q t \<longrightarrow> length (bfs_loop fwd t mh queue visited) \<le> length q)) \<and>
    (bfs_loop fwd t mh queue visited = [] \<longrightarrow>
      \<not> (\<exists>q. walk fwd a q t \<and> (length q = 1 \<or> int (length q) \<le> mh)))"
  using assms
proof (induction fwd t mh queue visited arbitrary: D rule: bfs_loop.induct)
  case (1 fwd t mh visited)
  have "q \<noteq> []" if "walk fwd a q t" for q using that 1(3) by auto
  with walk_blocked [OF 1(2)] show ?case by fastforce
next
  case (2 fwd t mh cur path queue visited)
  note q = "2.prems"(1) and V = "2.prems"(2)
  show ?case
  proof (cases "cur \<in> set visited")
    case True
    then show ?thesis using "2.IH"(1) [OF True queue_ok_tail [OF q] visited_ok_tail [OF V True] "2.prems"(3)] by simp
  next
    case False
    show ?thesis
    proof (cases "bfs_expand t mh path (dict_get fwd cur []) queue")
      case (Inl found)
      then obtain s where s: "s \<in> set (dict_get fwd cur [])" "ms_to_fingerprint s = t" "found = path @ [s]"
        using expand_Inl by blast
      have p: "walk fwd a path cur" "path = [] \<or> int (length path) < mh" using q by (auto simp: queue_ok_def)
      have "length found \<le> length w" if w: "walk fwd a w t" for w
      proof (rule ccontr)
        assume n: "\<not> length found \<le> length w"
        have "w \<noteq> []" using w "2.prems"(3) by auto
        then have "length w = 1 \<or> int (length w) \<le> mh" using n p(2) s(3) by (cases w) auto
        then obtain u r where "(u, r) \<in> set ((cur, path) # queue)" "length r < length w"
          using walk_blocked [OF V w \<open>w \<noteq> []\<close>] by blast
        moreover from this(1) have "length path \<le> length r" using q by (fastforce simp: queue_ok_def)
        ultimately show False using n s(3) by simp
      qed
      with False Inl s p show ?thesis by (auto simp: walk_snoc)
    next
      case (Inr queue')
      let ?new = "if int (length path) + 1 < mh
        then map (\<lambda>s. (ms_to_fingerprint s, path @ [s])) (dict_get fwd cur []) else []"
      note e = expand_Inr [OF Inr]
      have p: "walk fwd a path cur" using q by (auto simp: queue_ok_def)
      have new: "length r = length path + 1 \<and> walk fwd a r u \<and> int (length r) < mh" if "(u, r) \<in> set ?new" for u r
        using that p by (auto simp: walk_snoc split: if_splits)
      have "queue_ok fwd a mh (queue @ ?new)" by (rule queue_ok_append [OF q new])
      then have q': "queue_ok fwd a mh queue'" using e by (simp only:)
      have V': "visited_ok fwd a t mh queue' (set (cur # visited)) (D(cur := length path))"
      proof -
        have "visited_ok fwd a t mh (queue @ ?new) (insert cur (set visited)) (D(cur := length path))"
        proof (rule visited_ok_append [OF q V False])
          show "length r = length path + 1" if "(u, r) \<in> set ?new" for u r using new [OF that] by simp
        qed (use e in auto)
        then show ?thesis using e by (simp only: list.set)
      qed
      show ?thesis using "2.IH"(2) [OF False Inr q' V' "2.prems"(3)] False Inr by simp
    qed
  qed
qed

section \<open>Properties\<close>

text \<open>
  C4 (find_path_shortest). \<open>find_path\<close> between two different fingerprints: a non-empty result is
  a path of registered steps from the one to the other, has at most \<open>max_hops\<close> steps (or is a
  single step), and no path between them has fewer; an empty result means that there is no
  path within the limit.
\<close>

theorem find_path_shortest:
  assumes "from_fp \<noteq> to_fp"
  shows "let p = find_path g from_fp to_fp max_hops in
    (p \<noteq> [] \<longrightarrow> walk (md_forward g) from_fp p to_fp \<and> (length p = 1 \<or> int (length p) \<le> max_hops) \<and>
       (\<forall>q. walk (md_forward g) from_fp q to_fp \<longrightarrow> length p \<le> length q)) \<and>
    (p = [] \<longrightarrow> \<not> (\<exists>q. walk (md_forward g) from_fp q to_fp \<and> (length q = 1 \<or> int (length q) \<le> max_hops)))"
proof -
  have "queue_ok (md_forward g) from_fp max_hops [(from_fp, [])]" by (simp add: queue_ok_def)
  moreover have "visited_ok (md_forward g) from_fp to_fp max_hops [(from_fp, [])] (set []) (\<lambda>_. 0)"
    by (simp add: visited_ok_def)
  ultimately show ?thesis
    using bfs_loop_correct [OF _ _ assms] assms unfolding find_path_def Let_def by (simp only: if_False)
qed

definition example_step :: "string \<Rightarrow> string \<Rightarrow> string \<Rightarrow> migration_step" where
  "example_step i a b = \<lparr>ms_migration_id = i, ms_from_fingerprint = a, ms_to_fingerprint = b,
     ms_direction = ''forward'', ms_transformation_type = ''add_field'', ms_field_name = i, ms_parameters = [],
     ms_transform = None, ms_description = [], ms_deterministic = True, ms_reversible = True\<rparr>"

definition example_dag :: migration_dag where
  "example_dag = foldl dag_register empty_dag
     [example_step ''m1'' ''a'' ''b'', example_step ''m2'' ''b'' ''c'', example_step ''m3'' ''a'' ''c'']"

theorem find_path_shortest_witness:
  "find_path example_dag ''a'' ''c'' 5 = [example_step ''m3'' ''a'' ''c''] \<and>
   walk (md_forward example_dag) ''a'' [example_step ''m3'' ''a'' ''c''] ''c'' \<and>
   \<not> (\<exists>q. walk (md_forward example_dag) ''a'' q ''c'' \<and> length q < 1)"
proof -
  have "find_path example_dag ''a'' ''c'' 5 = [example_step ''m3'' ''a'' ''c'']"
    by (simp add: find_path_def example_dag_def dag_register_def index_add_def empty_dag_def example_step_def
        dict_get_def dict_has_def)
  with find_path_shortest [of "''a''" "''c''" example_dag 5] show ?thesis by (fastforce simp: Let_def)
qed

end
