(* ===== verification/Schema_Registry.thy ===== *)
theory Schema_Registry
  imports Migration_Paths
begin

text \<open>
  The schema registry (\<open>schema/evolution.py\<close>, \<open>SchemaRegistry\<close>): its three append-only tables,
  the in-memory graph it keeps beside them, and the execution of migrations. The surrogate
  keys \<open>schema_id\<close> and \<open>report_id\<close>, which no operation reads, are left out; the database's
  \<open>datetime('now')\<close> is an argument.
\<close>

section \<open>Tables and registration\<close>

record registered_schema =
  rg_schema_name :: string
  rg_version :: string
  rg_fingerprint :: string
  rg_canonical_json :: string
  rg_compatibility :: string
  rg_previous_fingerprint :: "string option"
  rg_registered_at :: string
  rg_registered_by :: string

record report_row =
  rr_old_fingerprint :: string
  rr_new_fingerprint :: string
  rr_compatible :: bool
  rr_level :: string
  rr_changes_json :: string
  rr_violations_json :: string
  rr_validated_at :: string

record migration_row =
  mr_migration_id :: string
  mr_from_fingerprint :: string
  mr_to_fingerprint :: string
  mr_direction :: string
  mr_transformation_type :: string
  mr_field_name :: string
  mr_parameters_json :: string
  mr_description :: string
  mr_deterministic :: bool
  mr_reversible :: bool
  mr_registered_at :: string
  mr_registered_by :: string

record schema_registry =
  sg_schemas :: "registered_schema list"
  sg_reports :: "report_row list"
  sg_migrations :: "migration_row list"
  sg_dag :: migration_dag

definition insert_schema_row :: "schema_registry \<Rightarrow> registered_schema \<Rightarrow> schema_registry" where
  "insert_schema_row g r = g\<lparr>sg_schemas := insert_or_ignore
     (\<lambda>x r. rg_fingerprint x = rg_fingerprint r \<or>
        (rg_schema_name x = rg_schema_name r \<and> rg_version x = rg_version r)) (sg_schemas g) r\<rparr>"

definition register_schema :: "schema_registry \<Rightarrow> artifact_schema \<Rightarrow> string \<Rightarrow> string \<Rightarrow> string \<times> schema_registry" where
  "register_schema g s who now =
     (fp_value (as_fingerprint s),
      insert_schema_row g
        \<lparr>rg_schema_name = as_schema_name s, rg_version = as_version s, rg_fingerprint = fp_value (as_fingerprint s),
         rg_canonical_json = fp_schema_json (as_fingerprint s),
         rg_compatibility = compatibility_value (as_compatibility s),
         rg_previous_fingerprint = map_option fp_value (as_previous_fingerprint s),
         rg_registered_at = now, rg_registered_by = who\<rparr>)"

definition get_schema :: "schema_registry \<Rightarrow> string \<Rightarrow> registered_schema option" where
  "get_schema g fp = find (\<lambda>r. rg_fingerprint r = fp) (sg_schemas g)"

definition list_schema_versions :: "schema_registry \<Rightarrow> string \<Rightarrow> registered_schema list" where
  "list_schema_versions g n = sort_key rg_version (filter (\<lambda>r. rg_schema_name r = n) (sg_schemas g))"

definition change_dict :: "schema_change \<Rightarrow> pyval" where
  "change_dict c = PDict ([(''type'', PStr (change_value (ch_type c))), (''field'', PStr (ch_field c))]
     @ (case ch_required c of None \<Rightarrow> [] | Some b \<Rightarrow> [(''required'', PBool b)]))"

definition insert_report_row :: "schema_registry \<Rightarrow> report_row \<Rightarrow> schema_registry" where
  "insert_report_row g r = g\<lparr>sg_reports := insert_or_ignore
     (\<lambda>x r. rr_old_fingerprint x = rr_old_fingerprint r \<and> rr_new_fingerprint x = rr_new_fingerprint r)
     (sg_reports g) r\<rparr>"

definition validate_compatibility ::
  "(schema_change_type \<Rightarrow> string) \<Rightarrow> schema_registry \<Rightarrow> artifact_schema \<Rightarrow> artifact_schema \<Rightarrow> string \<Rightarrow>
     compatibility_report \<times> schema_registry" where
  "validate_compatibility fmt g old new now =
     (let report = compat_validate fmt old new in
      (report, insert_report_row g
        \<lparr>rr_old_fingerprint = cr_old_fingerprint report, rr_new_fingerprint = cr_new_fingerprint report,
         rr_compatible = cr_compatible report, rr_level = compatibility_value (cr_level report),
         rr_changes_json = dumps_default (PList (map change_dict (cr_changes report))),
         rr_violations_json = dumps_default (PList (map PStr (cr_violations report))), rr_validated_at = now\<rparr>))"

definition get_compatibility_report :: "schema_registry \<Rightarrow> string \<times> string \<Rightarrow> report_row option" where
  "get_compatibility_report g k =
     find (\<lambda>r. (rr_old_fingerprint r, rr_new_fingerprint r) = k) (sg_reports g)"

definition insert_migration_row :: "schema_registry \<Rightarrow> migration_row \<Rightarrow> schema_registry" where
  "insert_migration_row g r =
     g\<lparr>sg_migrations := insert_or_ignore (\<lambda>x r. mr_migration_id x = mr_migration_id r) (sg_migrations g) r\<rparr>"

text \<open>\<open>json.dumps\<close> of the parameters raises on sets and on a callable, before anything is stored.\<close>

definition parameters_json :: "migration_step \<Rightarrow> string result" where
  "parameters_json s = (if ms_transform s \<noteq> None then Inl TypeError else dumps_strict (PDict (ms_parameters s)))"

definition register_migration :: "schema_registry \<Rightarrow> migration_step \<Rightarrow> string \<Rightarrow> string \<Rightarrow> schema_registry result" where
  "register_migration g s who now =
     res_bind (parameters_json s) (\<lambda>pj.
       let g1 = insert_migration_row g
         \<lparr>mr_migration_id = ms_migration_id s, mr_from_fingerprint = ms_from_fingerprint s,
          mr_to_fingerprint = ms_to_fingerprint s, mr_direction = ms_direction s,
          mr_transformation_type = ms_transformation_type s, mr_field_name = ms_field_name s,
          mr_parameters_json = pj, mr_description = ms_description s, mr_deterministic = ms_deterministic s,
          mr_reversible = ms_reversible s, mr_registered_at = now, mr_registered_by = who\<rparr>
       in Inr (g1\<lparr>sg_dag := dag_register (sg_dag g1) s\<rparr>))"

definition row_to_step :: "migration_row \<Rightarrow> migration_step result" where
  "row_to_step r =
     res_bind (json_loads (mr_parameters_json r)) (\<lambda>v.
       case v of
         PDict d \<Rightarrow> Inr \<lparr>ms_migration_id = mr_migration_id r, ms_from_fingerprint = mr_from_fingerprint r,
             ms_to_fingerprint = mr_to_fingerprint r, ms_direction = mr_direction r,
             ms_transformation_type = mr_transformation_type r, ms_field_name = mr_field_name r,
             ms_parameters = d, ms_transform = None, ms_description = mr_description r,
             ms_deterministic = mr_deterministic r, ms_reversible = mr_reversible r\<rparr>
       | _ \<Rightarrow> Inl TypeError)"

definition load_migrations_into_dag :: "migration_row list \<Rightarrow> migration_dag \<Rightarrow> migration_dag result" where
  "load_migrations_into_dag rows g = res_fold (\<lambda>g r. res_bind (row_to_step r) (\<lambda>s. Inr (dag_register g s))) g rows"

text \<open>\<open>__init__\<close> on a database that holds the given tables.\<close>

definition open_registry ::
  "registered_schema list \<Rightarrow> report_row list \<Rightarrow> migration_row list \<Rightarrow> schema_registry result" where
  "open_registry ss rs ms =
     res_bind (load_migrations_into_dag ms empty_dag) (\<lambda>g.
       Inr \<lparr>sg_schemas = ss, sg_reports = rs, sg_migrations = ms, sg_dag = g\<rparr>)"

definition find_migration_path :: "schema_registry \<Rightarrow> string \<Rightarrow> string \<Rightarrow> int \<Rightarrow> migration_step list" where
  "find_migration_path g a b max_hops = find_path (sg_dag g) a b max_hops"

definition has_migration_path :: "schema_registry \<Rightarrow> string \<Rightarrow> string \<Rightarrow> bool" where
  "has_migration_path g a b = has_path (sg_dag g) a b 5"

definition registry_migrations_from :: "schema_registry \<Rightarrow> string \<Rightarrow> migration_step list" where
  "registry_migrations_from g fp = get_migrations_from (sg_dag g) fp"

section \<open>Executing migrations\<close>

text \<open>
  The keys of a payload are strings; a name parameter that is not one is a \<open>TypeError\<close> of the
  model. A truthy \<open>transform\<close> that is not callable raises \<open>TypeError\<close>.
\<close>

definition name_param :: "migration_step \<Rightarrow> string \<Rightarrow> string result" where
  "name_param s k = res_bind (dict_index (ms_parameters s) k) (\<lambda>v. case v of PStr n \<Rightarrow> Inr n | _ \<Rightarrow> Inl TypeError)"

definition rename_key :: "payload \<Rightarrow> string \<Rightarrow> string \<Rightarrow> payload" where
  "rename_key d k k' = (case map_of d k of None \<Rightarrow> d | Some v \<Rightarrow> dict_set (dict_pop k d) k' v)"

definition apply_migration :: "payload \<Rightarrow> migration_step \<Rightarrow> string \<Rightarrow> payload result" where
  "apply_migration data s direction =
     (if ms_transformation_type s = ''add_field'' then
        if direction = ''forward'' then
          Inr (if dict_has data (ms_field_name s) then data
               else dict_set data (ms_field_name s) (dict_get (ms_parameters s) ''default'' PNone))
        else Inr (dict_pop (ms_field_name s) data)
      else if ms_transformation_type s = ''remove_field'' then
        if direction = ''forward'' then Inr (dict_pop (ms_field_name s) data)
        else Inr (dict_set data (ms_field_name s) (dict_get (ms_parameters s) ''restore_value'' PNone))
      else if ms_transformation_type s = ''rename_field'' then
        if direction = ''forward'' then
          res_bind (name_param s ''old_name'') (\<lambda>old_name.
          res_bind (name_param s ''new_name'') (\<lambda>new_name. Inr (rename_key data old_name new_name)))
        else
          res_bind (name_param s ''new_name'') (\<lambda>new_name.
          res_bind (name_param s ''old_name'') (\<lambda>old_name. Inr (rename_key data new_name old_name)))
      else if ms_transformation_type s = ''custom'' then
        (case ms_transform s of
           Some f \<Rightarrow> f data direction
         | None \<Rightarrow> if truthy (dict_get (ms_parameters s) ''transform'' PNone) then Inl TypeError else Inr data)
      else Inr data)"

definition migrate_data :: "schema_registry \<Rightarrow> payload \<Rightarrow> string \<Rightarrow> string \<Rightarrow> string \<Rightarrow> payload result" where
  "migrate_data g data a b direction =
     (let path = find_migration_path g a b 5 in
      if path = [] then Inl (ValueError (''No migration path from '' @ a @ '' to '' @ b))
      else res_fold (\<lambda>r s. apply_migration r s direction) data path)"

text \<open>\<open>str_exc\<close> renders an exception as \<open>str(exc)\<close> does.\<close>

fun migrate_collect :: "(py_exn \<Rightarrow> string) \<Rightarrow> string \<Rightarrow> payload \<Rightarrow> migration_step list \<Rightarrow> payload \<times> string list" where
  "migrate_collect str_exc direction result [] = (result, [])"
| "migrate_collect str_exc direction result (s # path) =
     (case apply_migration result s direction of
        Inr r \<Rightarrow> migrate_collect str_exc direction r path
      | Inl exc \<Rightarrow> let (r, errors) = migrate_collect str_exc direction result path in
          (r, (''migration_failed: '' @ ms_migration_id s @ '': '' @ str_exc exc) # errors))"

definition migrate_data_safe ::
  "(py_exn \<Rightarrow> string) \<Rightarrow> schema_registry \<Rightarrow> payload \<Rightarrow> string \<Rightarrow> string \<Rightarrow> string \<Rightarrow> payload \<times> string list" where
  "migrate_data_safe str_exc g data a b direction =
     (let path = find_migration_path g a b 5 in
      if path = [] then (data, [''no_migration_path: '' @ a @ '' -> '' @ b])
      else migrate_collect str_exc direction data path)"

section \<open>The tables are append-only\<close>

interpretation schema_table: append_only_table insert_schema_row sg_schemas
    "\<lambda>x r. rg_fingerprint x = rg_fingerprint r \<or>
        (rg_schema_name x = rg_schema_name r \<and> rg_version x = rg_version r)" rg_fingerprint get_schema
  by unfold_locales (auto simp: insert_schema_row_def get_schema_def)

interpretation report_table: append_only_table insert_report_row sg_reports
    "\<lambda>x r. rr_old_fingerprint x = rr_old_fingerprint r \<and> rr_new_fingerprint x = rr_new_fingerprint r"
    "\<lambda>r. (rr_old_fingerprint r, rr_new_fingerprint r)" get_compatibility_report
  by unfold_locales (auto simp: insert_report_row_def get_compatibility_report_def)

definition get_migration :: "schema_registry \<Rightarrow> string \<Rightarrow> migration_row option" where
  "get_migration g i = find (\<lambda>r. mr_migration_id r = i) (sg_migrations g)"

interpretation migration_table: append_only_table insert_migration_row sg_migrations
    "\<lambda>x r. mr_migration_id x = mr_migration_id r" mr_migration_id get_migration
  by unfold_locales (auto simp: insert_migration_row_def get_migration_def)

inductive registry_step :: "schema_registry \<Rightarrow> schema_registry \<Rightarrow> bool" where
  step_schema: "registry_step g (snd (register_schema g s who now))"
| step_validate: "registry_step g (snd (validate_compatibility fmt g old new now))"
| step_migration: "register_migration g s who now = Inr g' \<Longrightarrow> registry_step g g'"

inductive_cases registry_stepE: "registry_step g g'"

lemma registry_step_prefix:
  assumes "registry_step g g'"
  shows "prefix (sg_schemas g) (sg_schemas g') \<and> prefix (sg_reports g) (sg_reports g') \<and>
    prefix (sg_migrations g) (sg_migrations g')"
  using assms
proof cases
  case (step_schema s who now)
  then show ?thesis
    using schema_table.ins_prefix by (simp add: register_schema_def insert_schema_row_def)
next
  case (step_validate fmt old new now)
  then show ?thesis
    using report_table.ins_prefix by (simp add: validate_compatibility_def insert_report_row_def Let_def)
next
  case (step_migration s who now)
  then show ?thesis
    using migration_table.ins_prefix by (auto simp: register_migration_def insert_migration_row_def res_simps Let_def)
qed

lemma registry_steps_prefix:
  "registry_step\<^sup>*\<^sup>* g g' \<Longrightarrow>
    prefix (sg_schemas g) (sg_schemas g') \<and> prefix (sg_reports g) (sg_reports g') \<and>
    prefix (sg_migrations g) (sg_migrations g')"
proof (induction rule: rtranclp_induct)
  case (step h h')
  then show ?case using registry_step_prefix [OF step(2)] by (meson prefix_order.trans)
qed simp

section \<open>Reloading the graph\<close>

definition plain_step :: "migration_step \<Rightarrow> bool" where
  "plain_step s \<longleftrightarrow> ms_transform s = None \<and> py_wf (PDict (ms_parameters s)) \<and> set_free (PDict (ms_parameters s)) \<and>
     json_norm (PDict (ms_parameters s)) = PDict (ms_parameters s)"

lemma row_to_step_register:
  assumes "plain_step s" "register_migration g s who now = Inr g'" "ms_migration_id s \<notin> mr_migration_id ` set (sg_migrations g)"
  shows "\<exists>r. sg_migrations g' = sg_migrations g @ [r] \<and> row_to_step r = Inr s \<and> mr_migration_id r = ms_migration_id s"
    and "sg_dag g' = dag_register (sg_dag g) s"
proof -
  have "dumps_strict (PDict (ms_parameters s)) = Inr (dumps_default (PDict (ms_parameters s)))"
    using assms(1) by (simp add: dumps_strict_def plain_step_def)
  moreover have "json_loads (dumps_default (PDict (ms_parameters s))) = Inr (PDict (ms_parameters s))"
    using assms(1) json_roundtrip [of "'', ''" "'': ''" "PDict (ms_parameters s)"] by (simp add: dumps_default_def plain_step_def)
  moreover have "\<not> (\<exists>x \<in> set (sg_migrations g). mr_migration_id x = ms_migration_id s)" using assms(3) by force
  ultimately show "\<exists>r. sg_migrations g' = sg_migrations g @ [r] \<and> row_to_step r = Inr s \<and> mr_migration_id r = ms_migration_id s"
    "sg_dag g' = dag_register (sg_dag g) s"
    using assms(1,2) by (auto simp: register_migration_def parameters_json_def insert_migration_row_def insert_or_ignore_def
        row_to_step_def plain_step_def Let_def res_simps split: if_splits)
qed

lemma load_append:
  "load_migrations_into_dag (rs @ [r]) g =
    res_bind (load_migrations_into_dag rs g) (\<lambda>g'. res_bind (row_to_step r) (\<lambda>s. Inr (dag_register g' s)))"
  by (simp add: load_migrations_into_dag_def res_fold_append case_sum_if)

definition register_all :: "schema_registry \<Rightarrow> (migration_step \<times> string \<times> string) list \<Rightarrow> schema_registry result" where
  "register_all g xs = res_fold (\<lambda>g (s, who, now). register_migration g s who now) g xs"

lemma register_all_reload:
  assumes "register_all g xs = Inr g'" "list_all (\<lambda>x. plain_step (fst x)) xs"
    "distinct (map mr_migration_id (sg_migrations g) @ map (\<lambda>x. ms_migration_id (fst x)) xs)"
    "load_migrations_into_dag (sg_migrations g) empty_dag = Inr (sg_dag g)"
  shows "load_migrations_into_dag (sg_migrations g') empty_dag = Inr (sg_dag g')"
  using assms
proof (induction xs arbitrary: g)
  case (Cons x xs)
  obtain s who now where x: "x = (s, who, now)" by (metis prod.exhaust)
  with Cons.prems(1) obtain g1 where g1: "register_migration g s who now = Inr g1" "register_all g1 xs = Inr g'"
    by (auto simp: register_all_def res_simps)
  have p: "plain_step s" "ms_migration_id s \<notin> mr_migration_id ` set (sg_migrations g)"
    using Cons.prems(2,3) x by auto
  obtain r where r: "sg_migrations g1 = sg_migrations g @ [r]" "row_to_step r = Inr s" "mr_migration_id r = ms_migration_id s"
    using row_to_step_register(1) [OF p(1) g1(1) p(2)] by blast
  have "load_migrations_into_dag (sg_migrations g1) empty_dag = Inr (sg_dag g1)"
    using row_to_step_register(2) [OF p(1) g1(1) p(2)] r Cons.prems(4) by (simp add: load_append)
  moreover have "distinct (map mr_migration_id (sg_migrations g1) @ map (\<lambda>x. ms_migration_id (fst x)) xs)"
    using Cons.prems(3) r x by auto
  ultimately show ?case using Cons.prems(2) by (intro Cons.IH [OF g1(2)]) simp_all
qed (simp add: register_all_def)

section \<open>Undoing a step\<close>

definition undoable :: "migration_step \<Rightarrow> payload \<Rightarrow> bool" where
  "undoable s d \<longleftrightarrow>
     (ms_transformation_type s = ''add_field'' \<and> \<not> dict_has d (ms_field_name s)) \<or>
     (ms_transformation_type s = ''remove_field'' \<and>
        map_of d (ms_field_name s) = Some (dict_get (ms_parameters s) ''restore_value'' PNone)) \<or>
     (ms_transformation_type s = ''rename_field'' \<and>
        (\<exists>old_name new_name. name_param s ''old_name'' = Inr old_name \<and> name_param s ''new_name'' = Inr new_name \<and>
           (old_name = new_name \<or> \<not> dict_has d new_name)))"

lemma rename_key_undo:
  assumes "k = k' \<or> \<not> dict_has d k'"
  shows "map_of (rename_key (rename_key d k k') k' k) = map_of d"
proof (cases "map_of d k")
  case None
  with assms show ?thesis by (auto simp: rename_key_def dict_has_def split: option.splits)
next
  case (Some v)
  with assms show ?thesis
    by (auto simp: rename_key_def dict_has_def map_of_dict_set map_of_dict_pop fun_eq_iff)
qed

lemma migrate_collect_no_error:
  "res_fold (\<lambda>r s. apply_migration r s direction) d path = Inr r \<longleftrightarrow>
    migrate_collect str_exc direction d path = (r, [])"
proof (induction path arbitrary: d)
  case (Cons s path)
  then show ?case by (cases "apply_migration d s direction") (auto simp: Let_def split: prod.splits)
qed simp

section \<open>Properties\<close>

text \<open>
  Whatever is registered, validated or added later, a schema, a
  compatibility report or a migration that the registry holds is returned unchanged under the
  same key for ever: the three tables only grow at the end.
\<close>

theorem registry_append_only:
  assumes "registry_step\<^sup>*\<^sup>* g g'"
  shows "(\<forall>fp r. get_schema g fp = Some r \<longrightarrow> get_schema g' fp = Some r) \<and>
    (\<forall>k r. get_compatibility_report g k = Some r \<longrightarrow> get_compatibility_report g' k = Some r) \<and>
    (\<forall>i r. get_migration g i = Some r \<longrightarrow> get_migration g' i = Some r)"
proof -
  have p: "prefix (sg_schemas g) (sg_schemas g')" "prefix (sg_reports g) (sg_reports g')"
    "prefix (sg_migrations g) (sg_migrations g')"
    using registry_steps_prefix [OF assms] by simp_all
  show ?thesis
    unfolding get_schema_def get_compatibility_report_def get_migration_def
    using find_Some_prefix [OF _ p(1)] find_Some_prefix [OF _ p(2)] find_Some_prefix [OF _ p(3)] by blast
qed

definition new_registry :: schema_registry where
  "new_registry = \<lparr>sg_schemas = [], sg_reports = [], sg_migrations = [], sg_dag = empty_dag\<rparr>"

definition example_registered :: schema_registry where
  "example_registered =
     snd (register_schema new_registry (schema_init id (example_schema ''1'' [example_field ''a'' True] FULL)) ''me'' ''t0'')"

theorem registry_append_only_witness:
  "\<exists>r. get_schema example_registered (canonical_json (example_schema ''1'' [example_field ''a'' True] FULL)) = Some r \<and>
    get_schema (snd (register_schema example_registered
      (schema_init id (example_schema ''1'' [example_field ''a'' False] FULL)) ''you'' ''t1''))
      (canonical_json (example_schema ''1'' [example_field ''a'' True] FULL)) = Some r"
proof -
  let ?s = "schema_init id (example_schema ''1'' [example_field ''a'' True] FULL)"
  have "fp_value (as_fingerprint ?s) = canonical_json (example_schema ''1'' [example_field ''a'' True] FULL)"
    using schema_init_value [of "example_schema ''1'' [example_field ''a'' True] FULL" id]
    by (simp add: example_schema_def)
  then obtain r where "get_schema example_registered (canonical_json (example_schema ''1'' [example_field ''a'' True] FULL)) = Some r"
    by (simp add: example_registered_def register_schema_def insert_schema_row_def insert_or_ignore_def new_registry_def get_schema_def)
  moreover have "registry_step\<^sup>*\<^sup>* example_registered (snd (register_schema example_registered
      (schema_init id (example_schema ''1'' [example_field ''a'' False] FULL)) ''you'' ''t1''))"
    by (intro r_into_rtranclp step_schema)
  from registry_append_only [OF this] calculation show ?thesis by blast
qed

text \<open>
  The graph kept in memory is the one that a restart rebuilds from the
  database: after any sequence of registrations with distinct ids, of steps whose parameters
  are plain JSON data, loading the migration table gives exactly the graph in memory, and
  with it the same paths.
\<close>

theorem dag_reload:
  assumes "register_all new_registry xs = Inr g" and "list_all (\<lambda>x. plain_step (fst x)) xs"
    and "distinct (map (\<lambda>x. ms_migration_id (fst x)) xs)"
  shows "open_registry (sg_schemas g) (sg_reports g) (sg_migrations g) = Inr g"
proof -
  have "load_migrations_into_dag (sg_migrations g) empty_dag = Inr (sg_dag g)"
    using assms by (intro register_all_reload [OF assms(1)]) (simp_all add: new_registry_def load_migrations_into_dag_def)
  then show ?thesis by (simp add: open_registry_def)
qed

lemma example_register_all:
  "\<exists>g. register_all new_registry [(example_step ''m1'' ''a'' ''b'', ''me'', ''t0''), (example_step ''m2'' ''b'' ''c'', ''me'', ''t1'')] = Inr g"
  by (simp add: register_all_def register_migration_def parameters_json_def dumps_strict_def example_step_def Let_def)

theorem dag_reload_witness:
  "\<exists>g. register_all new_registry [(example_step ''m1'' ''a'' ''b'', ''me'', ''t0''), (example_step ''m2'' ''b'' ''c'', ''me'', ''t1'')] = Inr g \<and>
    open_registry (sg_schemas g) (sg_reports g) (sg_migrations g) = Inr g"
proof -
  obtain g where g: "register_all new_registry [(example_step ''m1'' ''a'' ''b'', ''me'', ''t0''), (example_step ''m2'' ''b'' ''c'', ''me'', ''t1'')] = Inr g"
    using example_register_all by blast
  with dag_reload [OF g] show ?thesis by (simp add: plain_step_def example_step_def)
qed

text \<open>
  A built-in step is undone by applying it backwards, when the
  data allow it: an added field was absent, a removed field held its restore value, a renamed
  field does not overwrite another. The result has the same keys and values.
\<close>

theorem migration_step_reversible:
  assumes "undoable s d"
  shows "\<exists>d1 d2. apply_migration d s ''forward'' = Inr d1 \<and> apply_migration d1 s ''backward'' = Inr d2 \<and>
    map_of d2 = map_of d"
  using assms unfolding undoable_def
proof (elim disjE [of _ "_ \<or> _"] disjE [of "_ \<and> _ = _"] conjE exE)
  assume "ms_transformation_type s = ''add_field''" "\<not> dict_has d (ms_field_name s)"
  then show ?thesis
    by (auto simp: apply_migration_def dict_has_def map_of_dict_set map_of_dict_pop fun_eq_iff)
next
  assume "ms_transformation_type s = ''remove_field''"
    "map_of d (ms_field_name s) = Some (dict_get (ms_parameters s) ''restore_value'' PNone)"
  then show ?thesis
    by (auto simp: apply_migration_def map_of_dict_set map_of_dict_pop fun_eq_iff)
next
  fix old_name new_name
  assume "ms_transformation_type s = ''rename_field''" "name_param s ''old_name'' = Inr old_name"
    "name_param s ''new_name'' = Inr new_name" "old_name = new_name \<or> \<not> dict_has d new_name"
  then show ?thesis using rename_key_undo by (simp add: apply_migration_def)
qed

theorem migration_step_reversible_witness:
  "\<exists>d1 d2. apply_migration [(''x'', PInt 1)] (example_step ''m1'' ''a'' ''b'') ''forward'' = Inr d1 \<and>
    apply_migration d1 (example_step ''m1'' ''a'' ''b'') ''backward'' = Inr d2 \<and> map_of d2 = map_of [(''x'', PInt 1)]"
  by (rule migration_step_reversible) (simp add: undoable_def example_step_def dict_has_def)

text \<open>
  \<open>migrate_data_safe\<close> returns no error exactly when \<open>migrate_data\<close>
  returns, and then with the same data; without a path \<open>migrate_data\<close> raises and the safe
  variant returns the data unchanged with one error, also when source and target are the
  same schema.
\<close>

theorem migrate_safe_agrees:
  "(migrate_data g d a b direction = Inr r \<longleftrightarrow> migrate_data_safe str_exc g d a b direction = (r, [])) \<and>
   (a = b \<or> find_migration_path g a b 5 = [] \<longrightarrow>
      migrate_data_safe str_exc g d a b direction = (d, [''no_migration_path: '' @ a @ '' -> '' @ b]) \<and>
      migrate_data g d a b direction = Inl (ValueError (''No migration path from '' @ a @ '' to '' @ b)))"
proof -
  have "find_migration_path g a a 5 = []" by (simp add: find_migration_path_def find_path_def)
  then show ?thesis
    using migrate_collect_no_error [of direction d "find_migration_path g a b 5" r str_exc]
    by (auto simp: migrate_data_def migrate_data_safe_def Let_def)
qed

theorem migrate_safe_agrees_witness:
  "migrate_data new_registry [] ''a'' ''a'' ''forward'' = Inl (ValueError ''No migration path from a to a'')"
  using migrate_safe_agrees [of new_registry "[]" "''a''" "''a''" "''forward''"] by simp

text \<open>
  Backward migration walks the path in forward order: here \<open>a\<close> is added and then renamed to
  \<open>b\<close>; migrating the result backwards does not give the original data back.
\<close>

definition example_rename :: migration_step where
  "example_rename = (example_step ''m2'' ''v2'' ''v3'')\<lparr>ms_transformation_type := ''rename_field'',
     ms_parameters := [(''new_name'', PStr ''b''), (''old_name'', PStr ''a'')]\<rparr>"

lemma backward_not_inverse:
  assumes "find_migration_path g x y 5 = [(example_step ''m1'' ''v1'' ''v2'')\<lparr>ms_field_name := ''a''\<rparr>, example_rename]"
  shows "migrate_data g [] x y ''forward'' = Inr [(''b'', PNone)]"
    and "migrate_data g [(''b'', PNone)] x y ''backward'' = Inr [(''a'', PNone)]"
  using assms
  by (simp_all add: migrate_data_def apply_migration_def example_step_def example_rename_def name_param_def
      dict_index_def dict_has_def dict_get_def rename_key_def dict_pop_def)

end
