(* ===== verification/Governance_Compiler.thy ===== *)
theory Governance_Compiler
  imports Py_Json
begin

text \<open>
  The governance compiler (\<open>governance/compiler.py\<close>): declarative rules, their static
  validation and compilation to decision functions, the engine that evaluates a context
  against the loaded policies, and the append-only registry. A decision function may raise
  (comparing values of different types does), so decisions are results.
\<close>

section \<open>Rules\<close>

datatype effect = ALLOW | DENY | AUDIT | REQUIRE_APPROVAL | NOTIFY

fun effect_value :: "effect \<Rightarrow> string" where
  "effect_value ALLOW = ''allow''"
| "effect_value DENY = ''deny''"
| "effect_value AUDIT = ''audit''"
| "effect_value REQUIRE_APPROVAL = ''require_approval''"
| "effect_value NOTIFY = ''notify''"

datatype condition_operator =
    EQUALS | NOT_EQUALS | GREATER_THAN | LESS_THAN | CONTAINS | STARTS_WITH | ENDS_WITH
  | IN_SET | NOT_IN_SET | MATCHES_REGEX | EXISTS

fun operator_value :: "condition_operator \<Rightarrow> string" where
  "operator_value EQUALS = ''eq''"
| "operator_value NOT_EQUALS = ''ne''"
| "operator_value GREATER_THAN = ''gt''"
| "operator_value LESS_THAN = ''lt''"
| "operator_value CONTAINS = ''contains''"
| "operator_value STARTS_WITH = ''starts_with''"
| "operator_value ENDS_WITH = ''ends_with''"
| "operator_value IN_SET = ''in''"
| "operator_value NOT_IN_SET = ''not_in''"
| "operator_value MATCHES_REGEX = ''matches''"
| "operator_value EXISTS = ''exists''"

record condition =
  cn_field :: string
  cn_operator :: condition_operator
  cn_value :: pyval

definition condition_to_dict :: "condition \<Rightarrow> pyval" where
  "condition_to_dict c = PDict
     [(''field'', PStr (cn_field c)), (''operator'', PStr (operator_value (cn_operator c))), (''value'', cn_value c)]"

record governance_rule =
  gr_rule_id :: string
  gr_name :: string
  gr_description :: string
  gr_target_scope :: string
  gr_conditions :: "condition list"
  gr_effect :: effect
  gr_priority :: int
  gr_version :: string
  gr_parent_rule_id :: "string option"
  gr_metadata :: payload
  gr_rule_hash :: string

definition opt_str :: "string option \<Rightarrow> pyval" where
  "opt_str o1 = (case o1 of None \<Rightarrow> PNone | Some s \<Rightarrow> PStr s)"

definition rule_canonical :: "governance_rule \<Rightarrow> pyval" where
  "rule_canonical r = PDict
     [(''rule_id'', PStr (gr_rule_id r)), (''name'', PStr (gr_name r)),
      (''description'', PStr (gr_description r)), (''target_scope'', PStr (gr_target_scope r)),
      (''conditions'', PList (map condition_to_dict (gr_conditions r))),
      (''effect'', PStr (effect_value (gr_effect r))), (''priority'', PInt (gr_priority r)),
      (''version'', PStr (gr_version r)), (''parent_rule_id'', opt_str (gr_parent_rule_id r))]"

definition rule_compute_hash :: "(string \<Rightarrow> string) \<Rightarrow> governance_rule \<Rightarrow> string" where
  "rule_compute_hash sha256 r = sha256 (dumps_compact (rule_canonical r))"

definition rule_init :: "(string \<Rightarrow> string) \<Rightarrow> governance_rule \<Rightarrow> governance_rule" where
  "rule_init sha256 r = (if gr_rule_hash r = [] then r\<lparr>gr_rule_hash := rule_compute_hash sha256 r\<rparr> else r)"

definition rule_to_dict :: "governance_rule \<Rightarrow> payload" where
  "rule_to_dict r =
     [(''rule_id'', PStr (gr_rule_id r)), (''name'', PStr (gr_name r)),
      (''description'', PStr (gr_description r)), (''target_scope'', PStr (gr_target_scope r)),
      (''conditions'', PList (map condition_to_dict (gr_conditions r))),
      (''effect'', PStr (effect_value (gr_effect r))), (''priority'', PInt (gr_priority r)),
      (''version'', PStr (gr_version r)), (''parent_rule_id'', opt_str (gr_parent_rule_id r)),
      (''rule_hash'', PStr (gr_rule_hash r)), (''metadata'', PDict (gr_metadata r))]"

section \<open>Evaluating a condition\<close>

text \<open>\<open>target in field_value\<close> for a string, a sequence or a dictionary.\<close>

definition contains :: "pyval \<Rightarrow> pyval \<Rightarrow> bool result" where
  "contains field_value target =
     (case field_value of
        PStr s \<Rightarrow> (case target of PStr t \<Rightarrow> Inr (sublist t s) | _ \<Rightarrow> Inl TypeError)
      | PList vs \<Rightarrow> Inr (py_in target vs)
      | PTuple vs \<Rightarrow> Inr (py_in target vs)
      | PDict d \<Rightarrow> if py_hashable target
                  then Inr (case target of PStr k \<Rightarrow> dict_has d k | _ \<Rightarrow> False) else Inl TypeError
      | _ \<Rightarrow> Inr False)"

text \<open>
  \<open>field_value in target\<close> for a list, tuple or set (a frozenset is not a \<open>set\<close>); membership in
  a set hashes the value, and accepts a set as value.
\<close>

definition in_set :: "pyval \<Rightarrow> pyval \<Rightarrow> bool option result" where
  "in_set field_value target =
     (case target of
        PList vs \<Rightarrow> Inr (Some (py_in field_value vs))
      | PTuple vs \<Rightarrow> Inr (Some (py_in field_value vs))
      | PSet False vs \<Rightarrow>
          if py_hashable field_value \<or> (case field_value of PSet _ _ \<Rightarrow> True | _ \<Rightarrow> False)
          then Inr (Some (py_in field_value vs)) else Inl TypeError
      | _ \<Rightarrow> Inr None)"

definition policy_evaluate :: "condition \<Rightarrow> payload \<Rightarrow> bool result" where
  "policy_evaluate c context =
     (let field_value = dict_get context (cn_field c) PNone; target = cn_value c in
      case cn_operator c of
        EQUALS \<Rightarrow> Inr (py_eq field_value target)
      | NOT_EQUALS \<Rightarrow> Inr (\<not> py_eq field_value target)
      | GREATER_THAN \<Rightarrow> if field_value = PNone \<or> target = PNone then Inr False else py_lt target field_value
      | LESS_THAN \<Rightarrow> if field_value = PNone \<or> target = PNone then Inr False else py_lt field_value target
      | CONTAINS \<Rightarrow> contains field_value target
      | STARTS_WITH \<Rightarrow> Inr (case (field_value, target) of (PStr s, PStr t) \<Rightarrow> prefix t s | _ \<Rightarrow> False)
      | ENDS_WITH \<Rightarrow> Inr (case (field_value, target) of (PStr s, PStr t) \<Rightarrow> suffix t s | _ \<Rightarrow> False)
      | IN_SET \<Rightarrow> res_bind (in_set field_value target) (\<lambda>m. Inr (m = Some True))
      | NOT_IN_SET \<Rightarrow> res_bind (in_set field_value target) (\<lambda>m. Inr (m = Some False))
      | EXISTS \<Rightarrow> Inr (dict_has context (cn_field c) \<and> field_value \<noteq> PNone)
      | MATCHES_REGEX \<Rightarrow> Inr False)"

section \<open>Compilation\<close>

definition allowed_fields :: "string list" where
  "allowed_fields =
     [''tenant_id'', ''actor_id'', ''role'', ''action'', ''resource_type'', ''resource_id'', ''composition_id'',
      ''snapshot_id'', ''worker_id'', ''stage'', ''event_type'', ''partition_key'', ''epoch_number'',
      ''schema_name'', ''schema_version'', ''connector_id'', ''connector_trust_tier'', ''sandbox_policy'']"

text \<open>The message of the first error ends with the printed set of allowed fields, left out here.\<close>

definition validate_condition :: "condition \<Rightarrow> unit result" where
  "validate_condition c =
     (if cn_field c \<notin> set allowed_fields
      then Inl (PolicyValidationError (''Field '' @ repr_str (cn_field c) @ '' not in allowed fields''))
      else if cn_operator c = MATCHES_REGEX
      then Inl (PolicyValidationError ''Regex matching is not allowed in the deterministic policy DSL'')
      else Inr ())"

fun decide :: "condition list \<Rightarrow> payload \<Rightarrow> bool result" where
  "decide [] context = Inr True"
| "decide (c # cs) context =
     res_bind (policy_evaluate c context) (\<lambda>ok. if \<not> ok then Inr False else decide cs context)"

record compiled_policy =
  cp_policy_id :: string
  cp_rule_id :: string
  cp_decision_function :: "payload \<Rightarrow> bool result"
  cp_effect :: effect
  cp_priority :: int
  cp_compiled_hash :: string

definition policy_compile :: "(string \<Rightarrow> string) \<Rightarrow> governance_rule \<Rightarrow> compiled_policy result" where
  "policy_compile sha256 r =
     res_bind (res_map validate_condition (gr_conditions r)) (\<lambda>_.
       let compiled_data = dumps_compact (PDict
         [(''rule_id'', PStr (gr_rule_id r)), (''conditions'', PList (map condition_to_dict (gr_conditions r))),
          (''effect'', PStr (effect_value (gr_effect r))), (''priority'', PInt (gr_priority r))])
       in Inr \<lparr>cp_policy_id = ''policy_'' @ gr_rule_id r @ ''_'' @ gr_version r, cp_rule_id = gr_rule_id r,
               cp_decision_function = decide (gr_conditions r), cp_effect = gr_effect r,
               cp_priority = gr_priority r, cp_compiled_hash = sha256 compiled_data\<rparr>)"

section \<open>The engine\<close>

record governance_decision =
  gd_decision_id :: string
  gd_context_id :: pyval
  gd_effect :: effect
  gd_matched_rules :: "string list"
  gd_denied_by :: "string option"
  gd_decision_hash :: string
  gd_evaluated_at :: pyval

definition decision_init :: "(string \<Rightarrow> string) \<Rightarrow> governance_decision \<Rightarrow> governance_decision" where
  "decision_init sha256 d =
     (if gd_decision_hash d = []
      then d\<lparr>gd_decision_hash := sha256 (dumps_compact (PDict
        [(''context_id'', gd_context_id d), (''effect'', PStr (effect_value (gd_effect d))),
         (''matched_rules'', PList (map PStr (gd_matched_rules d))), (''denied_by'', opt_str (gd_denied_by d)),
         (''evaluated_at'', gd_evaluated_at d)]))\<rparr>
      else d)"

definition load_policy :: "compiled_policy list \<Rightarrow> compiled_policy \<Rightarrow> compiled_policy list" where
  "load_policy policies p = sort_key cp_priority (policies @ [p])"

text \<open>The loop over the policies: matched rules so far, effect so far; a matching DENY ends it.\<close>

fun eval_loop :: "payload \<Rightarrow> compiled_policy list \<Rightarrow> string list \<Rightarrow> effect \<Rightarrow> (string list \<times> string option \<times> effect) result" where
  "eval_loop context [] matched final_effect = Inr (matched, None, final_effect)"
| "eval_loop context (p # ps) matched final_effect =
     res_bind (cp_decision_function p context) (\<lambda>hit.
       if hit then
         let matched' = matched @ [cp_rule_id p] in
         if cp_effect p = DENY then Inr (matched', Some (cp_rule_id p), DENY)
         else eval_loop context ps matched'
           (if cp_effect p = ALLOW then ALLOW
            else if cp_effect p = REQUIRE_APPROVAL then REQUIRE_APPROVAL else final_effect)
       else eval_loop context ps matched final_effect)"

definition engine_evaluate :: "(string \<Rightarrow> string) \<Rightarrow> compiled_policy list \<Rightarrow> payload \<Rightarrow> governance_decision result" where
  "engine_evaluate sha256 policies context =
     res_bind (eval_loop context policies [] DENY) (\<lambda>(matched, denied_by, eff).
       let final_effect = (if matched = [] then DENY else eff);
           ctx = dict_get context ''correlation_id'' (PStr ''unknown'');
           decision_hash = sha256 (dumps_compact (PDict
             [(''context_id'', ctx), (''effect'', PStr (effect_value final_effect)),
              (''matched_rules'', PList (map PStr matched)), (''denied_by'', opt_str denied_by)]))
       in Inr (decision_init sha256
            \<lparr>gd_decision_id = ''dec_'' @ py_str ctx @ ''_'' @ take 16 decision_hash, gd_context_id = ctx,
             gd_effect = final_effect, gd_matched_rules = matched, gd_denied_by = denied_by,
             gd_decision_hash = decision_hash, gd_evaluated_at = dict_get context ''timestamp'' (PStr [])\<rparr>))"

section \<open>The registry\<close>

record rule_row =
  ru_rule_id :: string
  ru_name :: string
  ru_description :: string
  ru_target_scope :: string
  ru_conditions_json :: string
  ru_effect :: string
  ru_priority :: int
  ru_version :: string
  ru_parent_rule_id :: "string option"
  ru_rule_hash :: string
  ru_registered_at :: string
  ru_registered_by :: string

record decision_row =
  dr_decision_id :: string
  dr_context_id :: string
  dr_effect :: string
  dr_matched_rules_json :: string
  dr_denied_by :: "string option"
  dr_decision_hash :: string
  dr_evaluated_at :: string

record governance_registry =
  gg_rules :: "rule_row list"
  gg_decisions :: "decision_row list"

definition insert_rule_row :: "governance_registry \<Rightarrow> rule_row \<Rightarrow> governance_registry" where
  "insert_rule_row g r = g\<lparr>gg_rules := insert_or_ignore (\<lambda>x r. ru_rule_id x = ru_rule_id r) (gg_rules g) r\<rparr>"

definition register_rule :: "governance_registry \<Rightarrow> governance_rule \<Rightarrow> string \<Rightarrow> string \<Rightarrow> governance_registry result" where
  "register_rule g r who now =
     res_bind (dumps_strict (PList (map condition_to_dict (gr_conditions r)))) (\<lambda>cj.
       Inr (insert_rule_row g
         \<lparr>ru_rule_id = gr_rule_id r, ru_name = gr_name r, ru_description = gr_description r,
          ru_target_scope = gr_target_scope r, ru_conditions_json = cj, ru_effect = effect_value (gr_effect r),
          ru_priority = gr_priority r, ru_version = gr_version r, ru_parent_rule_id = gr_parent_rule_id r,
          ru_rule_hash = gr_rule_hash r, ru_registered_at = now, ru_registered_by = who\<rparr>))"

definition get_rule :: "governance_registry \<Rightarrow> string \<Rightarrow> rule_row option" where
  "get_rule g i = find (\<lambda>r. ru_rule_id r = i) (gg_rules g)"

definition list_rules :: "governance_registry \<Rightarrow> string option \<Rightarrow> rule_row list" where
  "list_rules g scope =
     (case scope of
        Some s \<Rightarrow> if s \<noteq> [] then sort_key ru_priority (filter (\<lambda>r. ru_target_scope r = s) (gg_rules g))
                  else sort_key ru_priority (gg_rules g)
      | None \<Rightarrow> sort_key ru_priority (gg_rules g))"

definition insert_decision_row :: "governance_registry \<Rightarrow> decision_row \<Rightarrow> governance_registry" where
  "insert_decision_row g r =
     g\<lparr>gg_decisions := insert_or_ignore (\<lambda>x r. dr_decision_id x = dr_decision_id r) (gg_decisions g) r\<rparr>"

text \<open>
  A value bound to a TEXT column that may not be null: numbers are stored as their text
  (floats in the database's own rendering, here \<open>repr\<close>), \<open>None\<close> makes \<open>INSERT OR IGNORE\<close> skip
  the row, integers outside 64 bits and containers cannot be bound.
\<close>

definition bind_text :: "pyval \<Rightarrow> string option result" where
  "bind_text v =
     (case v of
        PNone \<Rightarrow> Inr None
      | PStr s \<Rightarrow> Inr (Some s)
      | PBool b \<Rightarrow> Inr (Some (if b then ''1'' else ''0''))
      | PInt i \<Rightarrow> if - (2 ^ 63) \<le> i \<and> i < 2 ^ 63 then Inr (Some (show_int i)) else Inl SqliteBindingError
      | PFloat r \<Rightarrow> Inr (Some r)
      | _ \<Rightarrow> Inl SqliteBindingError)"

definition store_decision :: "governance_registry \<Rightarrow> governance_decision \<Rightarrow> governance_registry result" where
  "store_decision g d =
     res_bind (bind_text (gd_context_id d)) (\<lambda>ctx.
     res_bind (bind_text (gd_evaluated_at d)) (\<lambda>ea.
       Inr (case (ctx, ea) of
         (Some c, Some t) \<Rightarrow> insert_decision_row g
           \<lparr>dr_decision_id = gd_decision_id d, dr_context_id = c, dr_effect = effect_value (gd_effect d),
            dr_matched_rules_json = dumps_default (PList (map PStr (gd_matched_rules d))), dr_denied_by = gd_denied_by d,
            dr_decision_hash = gd_decision_hash d, dr_evaluated_at = t\<rparr>
       | _ \<Rightarrow> g)))"

definition get_decision :: "governance_registry \<Rightarrow> string \<Rightarrow> decision_row option" where
  "get_decision g i = find (\<lambda>r. dr_decision_id r = i) (gg_decisions g)"

interpretation rule_table: append_only_table insert_rule_row gg_rules
    "\<lambda>x r. ru_rule_id x = ru_rule_id r" ru_rule_id get_rule
  by unfold_locales (auto simp: insert_rule_row_def get_rule_def)

interpretation decision_table: append_only_table insert_decision_row gg_decisions
    "\<lambda>x r. dr_decision_id x = dr_decision_id r" dr_decision_id get_decision
  by unfold_locales (auto simp: insert_decision_row_def get_decision_def)

section \<open>What the engine decides\<close>

text \<open>The policies of a list that match a context, as far as no decision function raises.\<close>

definition hits :: "payload \<Rightarrow> compiled_policy list \<Rightarrow> compiled_policy list" where
  "hits context ps = filter (\<lambda>p. cp_decision_function p context = Inr True) ps"

definition decisions_ok :: "payload \<Rightarrow> compiled_policy list \<Rightarrow> bool" where
  "decisions_ok context ps \<longleftrightarrow> (\<forall>p \<in> set ps. \<exists>b. cp_decision_function p context = Inr b)"

definition deciding :: "compiled_policy \<Rightarrow> bool" where
  "deciding p \<longleftrightarrow> cp_effect p = ALLOW \<or> cp_effect p = REQUIRE_APPROVAL"

definition last_effect :: "effect \<Rightarrow> compiled_policy list \<Rightarrow> effect" where
  "last_effect e ps = foldl (\<lambda>e p. if deciding p then cp_effect p else e) e ps"

lemma eval_loop_spec:
  assumes "decisions_ok context ps"
  shows "eval_loop context ps matched e =
    (case find (\<lambda>p. cp_effect p = DENY) (hits context ps) of
       Some d \<Rightarrow> Inr (matched @ map cp_rule_id (takeWhile (\<lambda>p. cp_effect p \<noteq> DENY) (hits context ps)) @ [cp_rule_id d],
                    Some (cp_rule_id d), DENY)
     | None \<Rightarrow> Inr (matched @ map cp_rule_id (hits context ps), None, last_effect e (hits context ps)))"
  using assms
proof (induction ps arbitrary: matched e)
  case (Cons p ps)
  have ok: "decisions_ok context ps" using Cons.prems by (simp add: decisions_ok_def)
  obtain b where "cp_decision_function p context = Inr b" using Cons.prems by (auto simp: decisions_ok_def)
  then show ?case
    by (cases b; cases "cp_effect p")
       (auto simp: hits_def Cons.IH [OF ok] last_effect_def deciding_def Let_def split: option.splits)
qed (simp add: hits_def last_effect_def)

lemma last_effect_in:
  "last_effect e ps \<noteq> e \<Longrightarrow> \<exists>p \<in> set ps. deciding p \<and> cp_effect p = last_effect e ps"
proof (induction ps rule: rev_induct)
  case (snoc p ps)
  then show ?case by (auto simp: last_effect_def split: if_splits)
qed (simp add: last_effect_def)

lemma decision_init_fields [simp]:
  "gd_effect (decision_init sha256 d) = gd_effect d" "gd_denied_by (decision_init sha256 d) = gd_denied_by d"
  "gd_matched_rules (decision_init sha256 d) = gd_matched_rules d"
  by (simp_all add: decision_init_def)

lemma engine_evaluate_spec:
  assumes "decisions_ok context ps"
  shows "\<exists>d. engine_evaluate sha256 ps context = Inr d \<and>
    (case find (\<lambda>p. cp_effect p = DENY) (hits context ps) of
       Some q \<Rightarrow> gd_effect d = DENY \<and> gd_denied_by d = Some (cp_rule_id q) \<and>
         gd_matched_rules d = map cp_rule_id (takeWhile (\<lambda>p. cp_effect p \<noteq> DENY) (hits context ps)) @ [cp_rule_id q]
     | None \<Rightarrow> gd_effect d = last_effect DENY (hits context ps) \<and> gd_denied_by d = None \<and>
         gd_matched_rules d = map cp_rule_id (hits context ps))"
proof -
  have "last_effect DENY [] = DENY" by (simp add: last_effect_def)
  then show ?thesis
    using eval_loop_spec [OF assms, of "[]" DENY]
    by (auto simp: engine_evaluate_def Let_def split: option.splits)
qed

section \<open>What a compiled policy can see\<close>

lemma validate_condition_ok: "validate_condition c = Inr u \<Longrightarrow> cn_field c \<in> set allowed_fields \<and> cn_operator c \<noteq> MATCHES_REGEX"
  by (auto simp: validate_condition_def split: if_splits)

lemma policy_compile_conditions:
  "policy_compile sha256 r = Inr p \<Longrightarrow> c \<in> set (gr_conditions r) \<Longrightarrow>
    cn_field c \<in> set allowed_fields \<and> cn_operator c \<noteq> MATCHES_REGEX"
proof -
  assume "policy_compile sha256 r = Inr p" "c \<in> set (gr_conditions r)"
  then obtain us where us: "res_map validate_condition (gr_conditions r) = Inr us"
    by (auto simp: policy_compile_def res_simps)
  with \<open>c \<in> set (gr_conditions r)\<close> obtain i where "i < length (gr_conditions r)" "gr_conditions r ! i = c"
    by (auto simp: in_set_conv_nth)
  with res_map_nth [OF us] validate_condition_ok show ?thesis by metis
qed

lemma policy_evaluate_cong:
  assumes "map_of x (cn_field c) = map_of y (cn_field c)"
  shows "policy_evaluate c x = policy_evaluate c y"
proof -
  have "dict_get x (cn_field c) PNone = dict_get y (cn_field c) PNone" "dict_has x (cn_field c) = dict_has y (cn_field c)"
    using assms by (simp_all add: dict_get_def dict_has_def)
  then show ?thesis by (simp only: policy_evaluate_def)
qed

lemma decide_cong:
  "(\<And>c. c \<in> set cs \<Longrightarrow> map_of x (cn_field c) = map_of y (cn_field c)) \<Longrightarrow> decide cs x = decide cs y"
proof (induction cs)
  case (Cons c cs)
  then have "policy_evaluate c x = policy_evaluate c y" "decide cs x = decide cs y"
    by (auto intro: policy_evaluate_cong)
  then show ?case by (simp only: decide.simps)
qed simp

lemma load_policies: "foldl load_policy [] ps = sort_key cp_priority ps"
proof (induction ps rule: rev_induct)
  case (snoc p ps)
  then show ?case by (simp add: load_policy_def sort_key_resort)
qed simp

lemma condition_to_dict_wf:
  "py_wf (cn_value c) \<Longrightarrow> set_free (cn_value c) \<Longrightarrow> py_wf (condition_to_dict c) \<and> set_free (condition_to_dict c)"
  by (simp add: condition_to_dict_def)

lemma effect_value_inj [simp]: "effect_value a = effect_value b \<longleftrightarrow> a = b"
  by (cases a; cases b) simp_all

lemma opt_str_norm: "json_norm (opt_str a) = json_norm (opt_str b) \<longleftrightarrow> a = b"
  by (cases a; cases b) (simp_all add: opt_str_def)

lemma opt_str_wf [simp]: "py_wf (opt_str a)" "set_free (opt_str a)"
  by (cases a; simp add: opt_str_def)+

definition rule_ok :: "governance_rule \<Rightarrow> bool" where
  "rule_ok r \<longleftrightarrow> (\<forall>c \<in> set (gr_conditions r). py_wf (cn_value c) \<and> set_free (cn_value c))"

lemma rule_canonical_wf: "rule_ok r \<Longrightarrow> py_wf (rule_canonical r) \<and> set_free (rule_canonical r)"
  using condition_to_dict_wf by (auto simp: rule_canonical_def rule_ok_def list_all_iff)

definition rule_content :: "governance_rule \<Rightarrow> _" where
  "rule_content r = (gr_rule_id r, gr_name r, gr_description r, gr_target_scope r,
     map (\<lambda>c. json_norm (condition_to_dict c)) (gr_conditions r), gr_effect r, gr_priority r, gr_version r,
     gr_parent_rule_id r)"

lemma rule_canonical_norm:
  assumes "json_norm (rule_canonical r) = json_norm (rule_canonical q)"
  shows "rule_content r = rule_content q"
proof -
  note l = json_norm_dict_lookup [OF assms [unfolded rule_canonical_def]]
  show ?thesis
    using l [of "''rule_id''"] l [of "''name''"] l [of "''description''"] l [of "''target_scope''"]
      l [of "''conditions''"] l [of "''effect''"] l [of "''priority''"] l [of "''version''"] l [of "''parent_rule_id''"]
    by (simp add: rule_content_def comp_def opt_str_norm)
qed

section \<open>Properties\<close>

text \<open>
  C5 (engine_decision). The decision of the engine when no decision function raises. A matching
  DENY policy decides, whatever other policies match before or after it: the effect is DENY,
  denied by the first matching DENY in priority order, and only the rules up to it are
  reported. Otherwise the effect is that of the last matching ALLOW or REQUIRE_APPROVAL policy
  in priority order, and DENY when there is none (fail closed).
\<close>

theorem engine_decision:
  assumes "decisions_ok context policies"
  shows "\<exists>d. engine_evaluate sha256 policies context = Inr d \<and>
    (case find (\<lambda>p. cp_effect p = DENY) (hits context policies) of
       Some q \<Rightarrow> gd_effect d = DENY \<and> gd_denied_by d = Some (cp_rule_id q) \<and>
         gd_matched_rules d = map cp_rule_id (takeWhile (\<lambda>p. cp_effect p \<noteq> DENY) (hits context policies)) @ [cp_rule_id q]
     | None \<Rightarrow> gd_denied_by d = None \<and> gd_matched_rules d = map cp_rule_id (hits context policies) \<and>
         gd_effect d = (let ps = filter deciding (hits context policies) in if ps = [] then DENY else cp_effect (last ps)))"
proof -
  have "last_effect e ps = (let qs = filter deciding ps in if qs = [] then e else cp_effect (last qs))" for e ps
    by (induction ps rule: rev_induct) (auto simp: last_effect_def Let_def)
  then show ?thesis using engine_evaluate_spec [OF assms, of sha256] by (auto split: option.splits)
qed

definition example_policy :: "string \<Rightarrow> string \<Rightarrow> effect \<Rightarrow> int \<Rightarrow> compiled_policy" where
  "example_policy i v eff prio = \<lparr>cp_policy_id = i, cp_rule_id = i,
     cp_decision_function = decide [\<lparr>cn_field = ''role'', cn_operator = EQUALS, cn_value = PStr v\<rparr>],
     cp_effect = eff, cp_priority = prio, cp_compiled_hash = []\<rparr>"

definition example_context :: payload where
  "example_context = [(''role'', PStr ''dev'')]"

lemma example_policy_hit: "cp_decision_function (example_policy i v eff prio) example_context = Inr (v = ''dev'')"
  by (auto simp: example_policy_def example_context_def policy_evaluate_def dict_get_def)

theorem engine_decision_witness:
  "\<exists>d. engine_evaluate id [example_policy ''r1'' ''dev'' REQUIRE_APPROVAL 1, example_policy ''r2'' ''dev'' ALLOW 2] example_context = Inr d \<and>
    gd_effect d = ALLOW"
proof -
  let ?ps = "[example_policy ''r1'' ''dev'' REQUIRE_APPROVAL 1, example_policy ''r2'' ''dev'' ALLOW 2]"
  have "decisions_ok example_context ?ps" "hits example_context ?ps = ?ps"
    by (auto simp: decisions_ok_def hits_def example_policy_hit)
  moreover have "filter deciding ?ps = ?ps" "find (\<lambda>p. cp_effect p = DENY) ?ps = None" "cp_effect (last ?ps) = ALLOW"
    by (simp_all add: example_policy_def deciding_def)
  ultimately show ?thesis using engine_decision [of example_context ?ps id] by auto
qed

text \<open>
  The order in which policies with distinct priorities are loaded does
  not matter: the engine ends with the same list, so with the same decisions.
\<close>

theorem engine_load_order:
  assumes "mset ps = mset qs" and "distinct (map cp_priority ps)"
  shows "foldl load_policy [] ps = foldl load_policy [] qs"
  unfolding load_policies using assms by (intro sort_key_inj_mset) (simp_all add: distinct_map)

theorem engine_load_order_witness:
  "foldl load_policy [] [example_policy ''r1'' ''dev'' DENY 1, example_policy ''r2'' ''dev'' ALLOW 2] =
   foldl load_policy [] [example_policy ''r2'' ''dev'' ALLOW 2, example_policy ''r1'' ''dev'' DENY 1]"
  by (rule engine_load_order) (simp_all add: example_policy_def add_mset_commute)

text \<open>
  C22 (compile_restricted). Static validation confines a policy: compilation succeeds exactly
  when every condition is on an allowed field and none matches a regular expression, and the
  compiled decision then depends on nothing but the allowed fields of the context.
\<close>

theorem compile_restricted:
  "((\<exists>p. policy_compile sha256 r = Inr p) \<longleftrightarrow>
     (\<forall>c \<in> set (gr_conditions r). cn_field c \<in> set allowed_fields \<and> cn_operator c \<noteq> MATCHES_REGEX)) \<and>
   (policy_compile sha256 r = Inr p \<longrightarrow>
     (\<forall>f \<in> set allowed_fields. map_of x f = map_of y f) \<longrightarrow>
     cp_decision_function p x = cp_decision_function p y)"
proof (intro conjI iffI impI)
  show "\<forall>c \<in> set (gr_conditions r). cn_field c \<in> set allowed_fields \<and> cn_operator c \<noteq> MATCHES_REGEX"
    if "\<exists>p. policy_compile sha256 r = Inr p"
    using that policy_compile_conditions by blast
  show "\<exists>p. policy_compile sha256 r = Inr p"
    if "\<forall>c \<in> set (gr_conditions r). cn_field c \<in> set allowed_fields \<and> cn_operator c \<noteq> MATCHES_REGEX"
  proof -
    have "res_map validate_condition (gr_conditions r) = Inr (map (\<lambda>_. ()) (gr_conditions r))"
      using that by (intro res_map_Inr) (simp add: validate_condition_def)
    then show ?thesis by (simp add: policy_compile_def Let_def)
  qed
  show "cp_decision_function p x = cp_decision_function p y"
    if c: "policy_compile sha256 r = Inr p" and a: "\<forall>f \<in> set allowed_fields. map_of x f = map_of y f"
  proof -
    have "cp_decision_function p = decide (gr_conditions r)"
      using c by (auto simp: policy_compile_def res_simps Let_def)
    then show ?thesis using policy_compile_conditions [OF c] a decide_cong [of "gr_conditions r" x y] by simp
  qed
qed

definition example_rule :: governance_rule where
  "example_rule = \<lparr>gr_rule_id = ''r1'', gr_name = ''n'', gr_description = ''d'', gr_target_scope = ''global'',
     gr_conditions = [\<lparr>cn_field = ''role'', cn_operator = EQUALS, cn_value = PStr ''dev''\<rparr>],
     gr_effect = ALLOW, gr_priority = 1, gr_version = ''1'', gr_parent_rule_id = None,
     gr_metadata = [], gr_rule_hash = []\<rparr>"

theorem compile_restricted_witness:
  "\<exists>p. policy_compile id example_rule = Inr p \<and>
    cp_decision_function p [(''role'', PStr ''dev''), (''noise'', PInt 1)] = cp_decision_function p [(''role'', PStr ''dev'')]"
proof -
  obtain p where p: "policy_compile id example_rule = Inr p"
    using compile_restricted [of id example_rule, THEN conjunct1, THEN iffD2]
    by (auto simp: example_rule_def allowed_fields_def)
  with compile_restricted [of id example_rule p "[(''role'', PStr ''dev''), (''noise'', PInt 1)]" "[(''role'', PStr ''dev'')]"]
  show ?thesis by (auto simp: allowed_fields_def)
qed

text \<open>
  The hash of a rule covers every field but the metadata: changing the
  metadata keeps the hash, and, SHA-256 not colliding on the two canonical texts, rules with
  equal hashes agree in all other fields (condition values as JSON).
\<close>

theorem rule_hash_covers:
  assumes "rule_ok r" and "rule_ok q"
    and "inj_on sha256 {dumps_compact (rule_canonical r), dumps_compact (rule_canonical q)}"
    and "rule_compute_hash sha256 r = rule_compute_hash sha256 q"
  shows "rule_content r = rule_content q \<and>
    rule_compute_hash sha256 (r\<lparr>gr_metadata := md\<rparr>) = rule_compute_hash sha256 r"
proof -
  have "dumps_compact (rule_canonical r) = dumps_compact (rule_canonical q)"
    using assms(3,4) unfolding rule_compute_hash_def by (rule inj_onD) simp_all
  then have "json_norm (rule_canonical r) = json_norm (rule_canonical q)"
    unfolding dumps_compact_def using rule_canonical_wf [OF assms(1)] rule_canonical_wf [OF assms(2)]
    by (intro dumps_inj [of "'',''" "'':''"]) simp_all
  then have "rule_content r = rule_content q" by (rule rule_canonical_norm)
  moreover have "rule_canonical (r\<lparr>gr_metadata := md\<rparr>) = rule_canonical r" by (simp add: rule_canonical_def)
  ultimately show ?thesis by (simp only: rule_compute_hash_def)
qed

theorem rule_hash_covers_witness:
  "rule_content example_rule = rule_content (example_rule\<lparr>gr_metadata := [(''owner'', PStr ''x'')]\<rparr>)"
  using rule_hash_covers [of example_rule "example_rule\<lparr>gr_metadata := [(''owner'', PStr ''x'')]\<rparr>" id]
  by (simp add: rule_ok_def example_rule_def rule_compute_hash_def rule_canonical_def)

text \<open>
  A rule id is registered once: a later registration under the
  same id, of a new version too, leaves the registry as it is, and \<open>get_rule\<close> returns the first
  registration for ever.
\<close>

theorem rule_registry_first_wins:
  assumes "get_rule g (gr_rule_id r) = Some row" and "register_rule g r who now = Inr g'"
  shows "g' = g"
proof -
  have "\<exists>x \<in> set (gg_rules g). ru_rule_id x = gr_rule_id r"
    using rule_table.get_key [OF assms(1)] by blast
  then show ?thesis
    using assms(2) by (auto simp: register_rule_def insert_rule_row_def insert_or_ignore_def res_simps)
qed

definition example_governance :: governance_registry where
  "example_governance = projr (register_rule \<lparr>gg_rules = [], gg_decisions = []\<rparr> example_rule ''me'' ''t0'')"

theorem rule_registry_first_wins_witness:
  "register_rule example_governance (example_rule\<lparr>gr_version := ''2'', gr_effect := DENY\<rparr>) ''you'' ''t1'' = Inr example_governance"
proof -
  have "\<exists>row. get_rule example_governance ''r1'' = Some row"
    by (simp add: example_governance_def register_rule_def example_rule_def dumps_strict_def condition_to_dict_def
        insert_rule_row_def insert_or_ignore_def get_rule_def)
  moreover obtain g' where
    "register_rule example_governance (example_rule\<lparr>gr_version := ''2'', gr_effect := DENY\<rparr>) ''you'' ''t1'' = Inr g'"
    by (simp add: register_rule_def example_rule_def dumps_strict_def condition_to_dict_def)
  ultimately show ?thesis
    using rule_registry_first_wins [of example_governance "example_rule\<lparr>gr_version := ''2'', gr_effect := DENY\<rparr>"]
    by (auto simp: example_rule_def)
qed

end
