(* ===== verification/Cross_Version_Replay.thy ===== *)
theory Cross_Version_Replay
  imports Bus_Clients Schema_Registry Semantic_Fabric
begin

text \<open>
  Cross-version replay (\<open>replay/cross_version.py\<close>): replay contexts, the fence of approved
  runtime transitions, hydration of stored events to a target schema through the migrations of
  the schema registry, and the report of a replay. \<open>str_exc\<close> renders an exception as a string.
\<close>

section \<open>Replay contexts\<close>

record versioned_replay_context =
  cx_source_runtime_version :: string
  cx_target_runtime_version :: string
  cx_source_schema_fingerprint :: string
  cx_target_schema_fingerprint :: string
  cx_epoch_number :: int
  cx_replay_correlation_id :: string
  cx_read_only :: bool
  cx_migration_path :: "string list"

definition context_to_dict :: "versioned_replay_context \<Rightarrow> payload" where
  "context_to_dict c =
     [(''source_runtime_version'', PStr (cx_source_runtime_version c)),
      (''target_runtime_version'', PStr (cx_target_runtime_version c)),
      (''source_schema_fingerprint'', PStr (cx_source_schema_fingerprint c)),
      (''target_schema_fingerprint'', PStr (cx_target_schema_fingerprint c)),
      (''epoch_number'', PInt (cx_epoch_number c)),
      (''replay_correlation_id'', PStr (cx_replay_correlation_id c)),
      (''read_only'', PBool (cx_read_only c)),
      (''migration_path'', PList (map PStr (cx_migration_path c)))]"

text \<open>As for headers, a field of another type, which Python would store unchecked, is a \<open>TypeError\<close>.\<close>

definition context_from_dict :: "payload \<Rightarrow> versioned_replay_context result" where
  "context_from_dict d =
     res_bind (str_field d ''source_runtime_version'') (\<lambda>source_runtime.
     res_bind (str_field d ''target_runtime_version'') (\<lambda>target_runtime.
     res_bind (str_field d ''source_schema_fingerprint'') (\<lambda>source_fp.
     res_bind (str_field d ''target_schema_fingerprint'') (\<lambda>target_fp.
     res_bind (int_field d ''epoch_number'') (\<lambda>epoch.
     res_bind (str_field d ''replay_correlation_id'') (\<lambda>corr.
     res_bind (case dict_get d ''read_only'' (PBool True) of PBool r \<Rightarrow> Inr r | _ \<Rightarrow> Inl TypeError) (\<lambda>read_only.
     res_bind (iter_strings (dict_get d ''migration_path'' (PList []))) (\<lambda>path.
       Inr \<lparr>cx_source_runtime_version = source_runtime, cx_target_runtime_version = target_runtime,
            cx_source_schema_fingerprint = source_fp, cx_target_schema_fingerprint = target_fp,
            cx_epoch_number = epoch, cx_replay_correlation_id = corr, cx_read_only = read_only,
            cx_migration_path = path\<rparr>))))))))"

section \<open>The fence\<close>

type_synonym fence = "(string \<times> string, bool) dict"

definition approve_transition :: "fence \<Rightarrow> string \<Rightarrow> string \<Rightarrow> fence" where
  "approve_transition f from_version to_version = dict_set f (from_version, to_version) True"

definition is_approved :: "fence \<Rightarrow> string \<Rightarrow> string \<Rightarrow> bool" where
  "is_approved f from_version to_version = dict_get f (from_version, to_version) False"

definition require_approved :: "fence \<Rightarrow> string \<Rightarrow> string \<Rightarrow> unit result" where
  "require_approved f from_version to_version =
     (if is_approved f from_version to_version then Inr () else Inl (RuntimeCompatibilityError from_version to_version))"

section \<open>Hydration\<close>

record hydration_result =
  hr_event_id :: string
  hr_original_fingerprint :: pyval
  hr_target_fingerprint :: string
  hr_hydrated_payload :: payload
  hr_hydration_path :: "string list"
  hr_deterministic :: bool
  hr_errors :: "string list"
  hr_hydration_hash :: string

definition hydration_init :: "(string \<Rightarrow> string) \<Rightarrow> hydration_result \<Rightarrow> hydration_result" where
  "hydration_init sha256 r =
     (if hr_hydration_hash r = [] then r\<lparr>hr_hydration_hash := sha256 (dumps_compact (PDict (hr_hydrated_payload r)))\<rparr>
      else r)"

text \<open>
  The fingerprint an event names can be any JSON value. A search from a value that is not a
  string finds no edge; one that cannot be hashed raises when it is looked up in the set of
  visited nodes.
\<close>

definition fingerprint_path :: "schema_registry \<Rightarrow> pyval \<Rightarrow> string \<Rightarrow> migration_step list result" where
  "fingerprint_path g original_fp target_fp =
     (case original_fp of
        PStr fp \<Rightarrow> Inr (find_migration_path g fp target_fp 5)
      | v \<Rightarrow> if py_hashable v then Inr [] else Inl TypeError)"

definition hydrate_event ::
  "(string \<Rightarrow> string) \<Rightarrow> (py_exn \<Rightarrow> string) \<Rightarrow> fence \<Rightarrow> schema_registry \<Rightarrow> domain_event \<Rightarrow> artifact_schema \<Rightarrow>
     versioned_replay_context \<Rightarrow> hydration_result result" where
  "hydrate_event sha256 str_exc fence g event target_schema ctx =
     res_bind (require_approved fence (cx_source_runtime_version ctx) (cx_target_runtime_version ctx)) (\<lambda>_.
       let original_fp = dict_get (ev_payload event) ''schema_fingerprint'' (PStr []);
           target_fp = fp_value (as_fingerprint target_schema)
       in if \<not> truthy original_fp then
            Inr (hydration_init sha256
              \<lparr>hr_event_id = eh_event_id (ev_header event), hr_original_fingerprint = PStr [],
               hr_target_fingerprint = target_fp, hr_hydrated_payload = ev_payload event, hr_hydration_path = [],
               hr_deterministic = True, hr_errors = [''no_schema_fingerprint_in_payload''], hr_hydration_hash = []\<rparr>)
          else res_bind (fingerprint_path g original_fp target_fp) (\<lambda>path.
            if path = [] then
              Inr (hydration_init sha256
                \<lparr>hr_event_id = eh_event_id (ev_header event), hr_original_fingerprint = original_fp,
                 hr_target_fingerprint = target_fp, hr_hydrated_payload = ev_payload event, hr_hydration_path = [],
                 hr_deterministic = True,
                 hr_errors = [''no_migration_path: '' @ py_str original_fp @ '' -> '' @ target_fp],
                 hr_hydration_hash = []\<rparr>)
            else
              let (migrated, errors) = migrate_data_safe str_exc g (ev_payload event) (py_str original_fp) target_fp ''forward''
              in Inr (hydration_init sha256
                \<lparr>hr_event_id = eh_event_id (ev_header event), hr_original_fingerprint = original_fp,
                 hr_target_fingerprint = target_fp, hr_hydrated_payload = migrated,
                 hr_hydration_path = map ms_migration_id path, hr_deterministic = (errors = []), hr_errors = errors,
                 hr_hydration_hash = sha256 (dumps_compact (PDict migrated))\<rparr>)))"

fun hydrate_loop ::
  "(domain_event \<Rightarrow> hydration_result result) \<Rightarrow> domain_event list \<Rightarrow> hydration_result list \<Rightarrow> int \<Rightarrow> int \<Rightarrow>
     (hydration_result list \<times> int \<times> int) result" where
  "hydrate_loop hydrate [] results success_count error_count = Inr (results, success_count, error_count)"
| "hydrate_loop hydrate (e # es) results success_count error_count =
     res_bind (hydrate e) (\<lambda>r.
       if hr_errors r \<noteq> [] then hydrate_loop hydrate es (results @ [r]) success_count (error_count + 1)
       else hydrate_loop hydrate es (results @ [r]) (success_count + 1) error_count)"

definition hydrate_partition ::
  "(string \<Rightarrow> string) \<Rightarrow> (py_exn \<Rightarrow> string) \<Rightarrow> fence \<Rightarrow> schema_registry \<Rightarrow> string \<Rightarrow> artifact_schema \<Rightarrow>
     versioned_replay_context \<Rightarrow> bus_state \<Rightarrow> int \<Rightarrow> int option \<Rightarrow> (hydration_result list \<times> payload) result" where
  "hydrate_partition sha256 str_exc fence g pk target_schema ctx storage start end_offset =
     res_bind (replay_partition sha256 storage pk start end_offset None) (\<lambda>events.
     res_bind (hydrate_loop (\<lambda>e. hydrate_event sha256 str_exc fence g e target_schema ctx) events [] 0 0)
       (\<lambda>(results, success_count, error_count).
         Inr (results,
           [(''partition_key'', PStr pk), (''source_runtime'', PStr (cx_source_runtime_version ctx)),
            (''target_runtime'', PStr (cx_target_runtime_version ctx)),
            (''target_schema'', PStr (fp_value (as_fingerprint target_schema))),
            (''total_events'', PInt (int (length events))), (''success_count'', PInt success_count),
            (''error_count'', PInt error_count), (''epoch'', PInt (cx_epoch_number ctx)),
            (''read_only'', PBool (cx_read_only ctx))])))"

section \<open>Reports\<close>

record cross_version_replay_report =
  rp_replay_id :: string
  rp_context :: versioned_replay_context
  rp_summary :: payload
  rp_hydration_results :: "hydration_result list"
  rp_chain_integrity_verified :: bool
  rp_report_hash :: string

definition report_init :: "(string \<Rightarrow> string) \<Rightarrow> cross_version_replay_report \<Rightarrow> cross_version_replay_report" where
  "report_init sha256 r =
     (if rp_report_hash r = [] then
        r\<lparr>rp_report_hash := sha256 (dumps_compact (PDict
            [(''replay_id'', PStr (rp_replay_id r)), (''context'', PDict (context_to_dict (rp_context r))),
             (''summary'', PDict (rp_summary r))]))\<rparr>
      else r)"

definition cross_version_replay ::
  "(string \<Rightarrow> string) \<Rightarrow> (py_exn \<Rightarrow> string) \<Rightarrow> fence \<Rightarrow> schema_registry \<Rightarrow> bus_state \<Rightarrow> string \<Rightarrow> artifact_schema \<Rightarrow>
     versioned_replay_context \<Rightarrow> int \<Rightarrow> int option \<Rightarrow> cross_version_replay_report result" where
  "cross_version_replay sha256 str_exc fence g storage pk target_schema ctx start end_offset =
     res_bind (verify_partition_chain sha256 storage pk) (\<lambda>(integrity_ok, integrity_errors).
     res_bind (hydrate_partition sha256 str_exc fence g pk target_schema ctx storage start end_offset) (\<lambda>(results, summary).
       Inr (report_init sha256
         \<lparr>rp_replay_id = ''replay_'' @ cx_replay_correlation_id ctx @ ''_'' @ pk @ ''_'' @ show_int start,
          rp_context = ctx, rp_summary = summary, rp_hydration_results = results,
          rp_chain_integrity_verified = (integrity_ok \<and> length integrity_errors = 0), rp_report_hash = []\<rparr>)))"

section \<open>What a hydration returns\<close>

text \<open>
  The events whose fingerprint can be looked up (missing, empty, or a value that can be hashed), and the payload that a
  successful migration of an event to the target schema gives.
\<close>

definition hydratable :: "domain_event \<Rightarrow> bool" where
  "hydratable e \<longleftrightarrow>
     (let v = dict_get (ev_payload e) ''schema_fingerprint'' (PStr []) in truthy v \<longrightarrow> py_hashable v)"

definition migrates_to :: "schema_registry \<Rightarrow> artifact_schema \<Rightarrow> domain_event \<Rightarrow> payload \<Rightarrow> bool" where
  "migrates_to g target_schema e p \<longleftrightarrow>
     (\<exists>fp. map_of (ev_payload e) ''schema_fingerprint'' = Some (PStr fp) \<and> fp \<noteq> [] \<and>
        migrate_data g (ev_payload e) fp (fp_value (as_fingerprint target_schema)) ''forward'' = Inr p)"

definition hydrates :: "(string \<Rightarrow> string) \<Rightarrow> schema_registry \<Rightarrow> artifact_schema \<Rightarrow> domain_event \<Rightarrow> hydration_result \<Rightarrow> bool" where
  "hydrates sha256 g target_schema e r \<longleftrightarrow>
     hr_event_id r = eh_event_id (ev_header e) \<and>
     (hr_errors r = [] \<longleftrightarrow> (\<exists>p. migrates_to g target_schema e p)) \<and>
     (\<forall>p. migrates_to g target_schema e p \<longrightarrow> hr_hydrated_payload r = p) \<and>
     hr_hydration_hash r = sha256 (dumps_compact (PDict (hr_hydrated_payload r)))"

lemma hydration_init_fields [simp]:
  "hr_event_id (hydration_init sha256 r) = hr_event_id r"
  "hr_errors (hydration_init sha256 r) = hr_errors r"
  "hr_hydrated_payload (hydration_init sha256 r) = hr_hydrated_payload r"
  "hr_hydration_hash (hydration_init sha256 r) =
     (if hr_hydration_hash r = [] then sha256 (dumps_compact (PDict (hr_hydrated_payload r))) else hr_hydration_hash r)"
  by (simp_all add: hydration_init_def)

lemma migrate_data_safe_path:
  assumes "find_migration_path g a b 5 \<noteq> []" "migrate_data_safe str_exc g d a b direction = (r, errors)"
  shows "errors = [] \<longleftrightarrow> (\<exists>p. migrate_data g d a b direction = Inr p)"
    and "migrate_data g d a b direction = Inr p \<Longrightarrow> r = p"
  using assms migrate_collect_no_error [of direction d "find_migration_path g a b 5" _ str_exc]
  by (auto simp: migrate_data_def migrate_data_safe_def Let_def)

lemma hydrate_event_spec:
  assumes "is_approved fence (cx_source_runtime_version ctx) (cx_target_runtime_version ctx)"
  shows "if hydratable e
    then \<exists>r. hydrate_event sha256 str_exc fence g e target_schema ctx = Inr r \<and> hydrates sha256 g target_schema e r
    else hydrate_event sha256 str_exc fence g e target_schema ctx = Inl TypeError"
proof -
  let ?t = "fp_value (as_fingerprint target_schema)" and ?v = "dict_get (ev_payload e) ''schema_fingerprint'' (PStr [])"
  have fence: "require_approved fence (cx_source_runtime_version ctx) (cx_target_runtime_version ctx) = Inr ()"
    using assms(1) by (simp add: require_approved_def)
  have m: "migrates_to g target_schema e p \<Longrightarrow> \<exists>fp. ?v = PStr fp \<and> truthy ?v" for p
    by (auto simp: migrates_to_def dict_get_def)
  show ?thesis
  proof (cases "\<exists>fp. ?v = PStr fp \<and> fp \<noteq> []")
    case False
    then have n: "\<not> migrates_to g target_schema e p" for p using m [of p] by auto
    have "truthy ?v \<Longrightarrow> fingerprint_path g ?v ?t = (if py_hashable ?v then Inr [] else Inl TypeError)"
      using False by (auto simp: fingerprint_path_def split: pyval.splits)
    then show ?thesis
      using n fence by (cases "truthy ?v") (simp_all add: hydrate_event_def hydrates_def hydratable_def Let_def)
  next
    case True
    then obtain fp where get: "?v = PStr fp" and fp: "fp \<noteq> []" by blast
    then have map: "map_of (ev_payload e) ''schema_fingerprint'' = Some (PStr fp)"
      by (auto simp: dict_get_def split: option.splits)
    have h: "hydratable e" by (simp add: hydratable_def get)
    have m: "migrates_to g target_schema e p \<longleftrightarrow> migrate_data g (ev_payload e) fp ?t ''forward'' = Inr p" for p
      using fp map by (auto simp: migrates_to_def)
    show ?thesis
    proof (cases "find_migration_path g fp ?t 5 = []")
      case True
      then have "\<not> migrates_to g target_schema e p" for p by (simp add: m migrate_data_def)
      with True get fence fp h show ?thesis
        by (simp add: hydrate_event_def hydrates_def fingerprint_path_def Let_def)
    next
      case False
      obtain d errors where d: "migrate_data_safe str_exc g (ev_payload e) fp ?t ''forward'' = (d, errors)"
        by (metis prod.exhaust)
      note p = migrate_data_safe_path [OF False d]
      from p False get fence fp d h show ?thesis
        by (simp add: hydrate_event_def hydrates_def fingerprint_path_def Let_def m)
    qed
  qed
qed

lemma hydrate_loop_fails:
  assumes "\<forall>e \<in> set es. hydrate e = Inl x \<or> (\<exists>r. hydrate e = Inr r)" and "\<exists>e \<in> set es. hydrate e = Inl x"
  shows "hydrate_loop hydrate es results s n = Inl x"
  using assms
proof (induction es arbitrary: results s n)
  case (Cons e es)
  then show ?case by (cases "hydrate e") (auto simp: Let_def)
qed simp

lemma hydrate_loop_ok:
  assumes "\<forall>e \<in> set es. \<exists>r. hydrate e = Inr r \<and> Q e r"
  shows "\<exists>rs. hydrate_loop hydrate es results s n = Inr (results @ rs, s + int (length (filter (\<lambda>r. hr_errors r = []) rs)),
      n + int (length (filter (\<lambda>r. hr_errors r \<noteq> []) rs))) \<and> list_all2 Q es rs"
  using assms
proof (induction es arbitrary: results s n)
  case (Cons e es)
  then obtain r where r: "hydrate e = Inr r" "Q e r" by auto
  let ?s = "if hr_errors r = [] then s + 1 else s" and ?n = "if hr_errors r = [] then n else n + 1"
  from Cons.IH [of "results @ [r]" ?s ?n] Cons.prems obtain rs where
    "hydrate_loop hydrate es (results @ [r]) ?s ?n = Inr ((results @ [r]) @ rs, ?s + int (length (filter (\<lambda>r. hr_errors r = []) rs)),
      ?n + int (length (filter (\<lambda>r. hr_errors r \<noteq> []) rs)))" "list_all2 Q es rs" by auto
  with r show ?case by (intro exI [of _ "r # rs"]) (auto split: if_splits)
qed auto

section \<open>An example\<close>

definition example_versioned :: payload where
  "example_versioned = [(''schema_fingerprint'', PStr ''v1'')]"

definition example_old :: "(domain_event \<times> bus_state) result" where
  "example_old = bus_append id ARTIFACT_CREATED ''p'' example_versioned ''acme'' ''actor'' ''corr''
     (Some example_clock) (example_obs 5000) empty_bus"

definition example_registry :: schema_registry where
  "example_registry = new_registry\<lparr>sg_dag := dag_register empty_dag (example_step ''m1'' ''v1'' ''v2'')\<rparr>"

definition example_target :: artifact_schema where
  "example_target = \<lparr>as_schema_name = ''s'', as_version = ''2'', as_fields = [], as_compatibility = BACKWARD,
     as_previous_fingerprint = None, as_metadata = [],
     as_fingerprint = \<lparr>fp_algorithm = ''sha256'', fp_value = ''v2'', fp_schema_json = []\<rparr>\<rparr>"

definition example_context :: versioned_replay_context where
  "example_context = \<lparr>cx_source_runtime_version = ''1'', cx_target_runtime_version = ''2'',
     cx_source_schema_fingerprint = ''v1'', cx_target_schema_fingerprint = ''v2'', cx_epoch_number = 0,
     cx_replay_correlation_id = ''r'', cx_read_only = True, cx_migration_path = []\<rparr>"

lemma example_old_ok:
  obtains e b where "example_old = Inr (e, b)" "bus_reach id b"
    "read_partition id b ''p'' 1 (-1) None = Inr [e\<lparr>ev_payload := example_versioned\<rparr>]"
    "eh_partition_offset (ev_header e) = 1"
proof -
  have m: "ordered_now id (case Some example_clock of Some c \<Rightarrow> c | None \<Rightarrow> new_clock ''eventbus'' (ob_clock_created (example_obs 5000)))
      (ob_now (example_obs 5000)) = Inr (make_marker id (trunc_dt (DateTime 2026 1 2 3 4 5 5000)) 1 ''eventbus'')"
    using example_now [of 5000] by simp
  have none: "bs_events empty_bus = []" "part_log id empty_bus ''p'' = []"
    by (simp_all add: empty_bus_def part_log_def part_rows_def)
  then obtain e b where eb: "example_old = Inr (e, b)" "eh_partition_offset (ev_header e) = 1"
    by (auto simp: example_old_def bus_append_outcome [OF bus_inv_empty m] Let_def case_prod_beta)
  have wf: "py_wf (PDict example_versioned)" by (simp add: example_versioned_def)
  note app = eb(1) [unfolded example_old_def]
  have b: "bus_reach id b" by (rule reach_append [OF reach_empty wf app])
  have "stored_payload example_versioned = example_versioned" by (simp add: stored_payload_def example_versioned_def)
  then have "part_log id b ''p'' = [e\<lparr>ev_payload := example_versioned\<rparr>]"
    using part_log_after_append(1) [OF app wf, of "''p''"] none by simp
  with that eb b read_all_log [OF bus_reach_inv [OF b], of "''p''" "-1"] show thesis by (simp add: sql_limit_def)
qed

section \<open>Properties\<close>

text \<open>
  C8 (cross_version_report). The outcome of a replay over a reachable storage, for every context and range (of which at most
  the first million events are replayed). When the range has an event and the runtime transition is not approved, it raises
  \<open>RuntimeCompatibilityError\<close>; for an empty range the fence is never asked. When an event of the range has a fingerprint that
  cannot be hashed, it raises \<open>TypeError\<close>. Otherwise it returns a report: the chain is verified, there is one result per
  event of the range, in order, and an event is hydrated without error exactly when it names a fingerprint from which its
  payload migrates to the target schema, and then to the payload that \<open>migrate_data\<close> gives; the counters of the summary
  count the events, the successes and the failures.
\<close>

theorem cross_version_report:
  assumes "bus_reach sha256 b" and "read_partition sha256 b pk 1 (-1) None = Inr lg"
  shows "let es = replay_events start end_offset None lg;
      res = cross_version_replay sha256 str_exc fence g b pk target_schema ctx start end_offset in
    if es \<noteq> [] \<and> \<not> is_approved fence (cx_source_runtime_version ctx) (cx_target_runtime_version ctx)
    then res = Inl (RuntimeCompatibilityError (cx_source_runtime_version ctx) (cx_target_runtime_version ctx))
    else if \<exists>e \<in> set es. \<not> hydratable e then res = Inl TypeError
    else \<exists>rep. res = Inr rep \<and> rp_chain_integrity_verified rep \<and>
      list_all2 (hydrates sha256 g target_schema) es (rp_hydration_results rep) \<and>
      map_of (rp_summary rep) ''total_events'' = Some (PInt (int (length es))) \<and>
      map_of (rp_summary rep) ''success_count'' =
        Some (PInt (int (length (filter (\<lambda>r. hr_errors r = []) (rp_hydration_results rep))))) \<and>
      map_of (rp_summary rep) ''error_count'' =
        Some (PInt (int (length (filter (\<lambda>r. hr_errors r \<noteq> []) (rp_hydration_results rep)))))"
proof -
  note inv = bus_reach_inv [OF assms(1)]
  have lg: "lg = part_log sha256 b pk" using assms(2) read_all_log [OF inv, of pk "-1"] by (simp add: sql_limit_def)
  let ?es = "replay_events start end_offset None lg"
  let ?h = "\<lambda>e. hydrate_event sha256 str_exc fence g e target_schema ctx"
  note rep = replay_partition_events [OF inv, of pk start end_offset None, folded lg]
  note unf = cross_version_replay_def verify_chain_ok [OF inv] hydrate_partition_def rep report_init_def
  show ?thesis
  proof (cases "?es \<noteq> [] \<and> \<not> is_approved fence (cx_source_runtime_version ctx) (cx_target_runtime_version ctx)")
    case True
    then have "?h e = Inl (RuntimeCompatibilityError (cx_source_runtime_version ctx) (cx_target_runtime_version ctx))" for e
      by (simp add: hydrate_event_def require_approved_def)
    with True hydrate_loop_fails [of ?es ?h "RuntimeCompatibilityError (cx_source_runtime_version ctx) (cx_target_runtime_version ctx)"]
    show ?thesis by (auto simp: unf Let_def neq_Nil_conv)
  next
    case False
    then have spec: "if hydratable e then \<exists>r. ?h e = Inr r \<and> hydrates sha256 g target_schema e r else ?h e = Inl TypeError"
      if "e \<in> set ?es" for e using hydrate_event_spec [of fence ctx e] that by (metis empty_iff list.set(1))
    show ?thesis
    proof (cases "\<exists>e \<in> set ?es. \<not> hydratable e")
      case True
      have "hydrate_loop ?h ?es [] 0 0 = Inl TypeError"
      proof (rule hydrate_loop_fails)
        show "\<forall>e \<in> set ?es. ?h e = Inl TypeError \<or> (\<exists>r. ?h e = Inr r)" using spec by metis
        show "\<exists>e \<in> set ?es. ?h e = Inl TypeError" using spec True by metis
      qed
      with True False show ?thesis by (simp add: unf Let_def)
    next
      case ok: False
      then have "\<forall>e \<in> set ?es. \<exists>r. ?h e = Inr r \<and> hydrates sha256 g target_schema e r" using spec by metis
      from hydrate_loop_ok [OF this, of "[]" 0 0] False ok show ?thesis by (auto simp: unf Let_def)
    qed
  qed
qed

theorem cross_version_report_witness:
  "\<exists>e b. example_old = Inr (e, b) \<and>
    (\<exists>rep. cross_version_replay id (\<lambda>_. []) (approve_transition [] ''1'' ''2'') example_registry b ''p'' example_target example_context 1 None = Inr rep \<and>
      rp_chain_integrity_verified rep \<and>
      map hr_hydrated_payload (rp_hydration_results rep) = [[(''schema_fingerprint'', PStr ''v1''), (''m1'', PNone)]] \<and>
      map_of (rp_summary rep) ''success_count'' = Some (PInt 1)) \<and>
    cross_version_replay id (\<lambda>_. []) [] example_registry b ''p'' example_target example_context 1 None =
      Inl (RuntimeCompatibilityError ''1'' ''2'') \<and>
    (\<exists>rep. cross_version_replay id (\<lambda>_. []) [] example_registry b ''p'' example_target example_context 2 None = Inr rep)"
proof (rule example_old_ok)
  fix e b
  assume eb: "example_old = Inr (e, b)" "bus_reach id b" "eh_partition_offset (ev_header e) = 1"
    and log: "read_partition id b ''p'' 1 (-1) None = Inr [e\<lparr>ev_payload := example_versioned\<rparr>]" (is "_ = Inr ?lg")
  let ?d = "[(''schema_fingerprint'', PStr ''v1''), (''m1'', PNone)]"
  have "find_migration_path example_registry ''v1'' ''v2'' 5 = [example_step ''m1'' ''v1'' ''v2'']"
    by (simp add: find_migration_path_def example_registry_def find_path_def dag_register_def index_add_def empty_dag_def
        example_step_def dict_get_def dict_has_def)
  then have m: "migrates_to example_registry example_target (e\<lparr>ev_payload := example_versioned\<rparr>) ?d"
    by (simp add: migrates_to_def example_versioned_def example_target_def migrate_data_def apply_migration_def
        example_step_def dict_has_def dict_get_def)
  have h: "hydratable (e\<lparr>ev_payload := example_versioned\<rparr>)" by (simp add: hydratable_def example_versioned_def dict_get_def)
  have es: "replay_events 1 None None ?lg = ?lg" "replay_events 2 None None ?lg = []"
    using eb(3) by (simp_all add: replay_events_def in_replay_def)
  have c: "cx_source_runtime_version example_context = ''1''" "cx_target_runtime_version example_context = ''2''"
    by (simp_all add: example_context_def)
  have f: "is_approved (approve_transition [] ''1'' ''2'') ''1'' ''2''" "\<not> is_approved [] ''1'' ''2''"
    by (simp_all add: is_approved_def approve_transition_def dict_get_def)
  note outcome = cross_version_report [OF eb(2) log, where ctx = example_context and str_exc = "\<lambda>_. []" and g = example_registry
      and target_schema = example_target, unfolded c Let_def]
  have "\<exists>rep. cross_version_replay id (\<lambda>_. []) (approve_transition [] ''1'' ''2'') example_registry b ''p'' example_target
      example_context 1 None = Inr rep \<and> rp_chain_integrity_verified rep \<and>
    list_all2 (hydrates id example_registry example_target) ?lg (rp_hydration_results rep) \<and>
    map_of (rp_summary rep) ''success_count'' =
      Some (PInt (int (length (filter (\<lambda>r. hr_errors r = []) (rp_hydration_results rep)))))"
    using outcome [where start = 1 and end_offset = None and fence = "approve_transition [] ''1'' ''2''"]
    unfolding es by (auto simp: f h)
  moreover have "cross_version_replay id (\<lambda>_. []) [] example_registry b ''p'' example_target example_context 1 None =
      Inl (RuntimeCompatibilityError ''1'' ''2'')"
    using outcome [where start = 1 and end_offset = None and fence = "[]"] unfolding es by (simp add: f)
  moreover have "\<exists>rep. cross_version_replay id (\<lambda>_. []) [] example_registry b ''p'' example_target example_context 2 None = Inr rep"
    using outcome [where start = 2 and end_offset = None and fence = "[]"] unfolding es by auto
  ultimately show ?thesis using m eb(1) by (fastforce simp: list_all2_Cons1 hydrates_def)
qed

lemma context_roundtrip: "context_from_dict (context_to_dict c) = Inr c"
  by (simp add: context_from_dict_def context_to_dict_def str_field_def int_field_def dict_index_def dict_get_def)

end
