(* ===== verification/Extension_Manifest.thy ===== *)
theory Extension_Manifest
  imports Py_Json Det_Clock
begin

text \<open>
  Extension manifests and bundles (\<open>pi_extension_governor/manifest.py\<close>): the enumerations, the
  immutable records and their content-addressed hashes, which leave out the receipts of the
  admission process and the wall-clock fields.
\<close>

section \<open>Manifests\<close>

datatype capability_class =
  OPENAPI_TOOLING | GRAPHQL_TOOLING | KUBERNETES_MANIFEST | TERRAFORM_ANALYSIS | CICD_INTEGRATION
| VISUALIZATION | OBSERVABILITY_ADAPTER | STATIC_ANALYZER

fun capability_class_value :: "capability_class \<Rightarrow> string" where
  "capability_class_value OPENAPI_TOOLING = ''openapi_tooling''"
| "capability_class_value GRAPHQL_TOOLING = ''graphql_tooling''"
| "capability_class_value KUBERNETES_MANIFEST = ''kubernetes_manifest''"
| "capability_class_value TERRAFORM_ANALYSIS = ''terraform_analysis''"
| "capability_class_value CICD_INTEGRATION = ''cicd_integration''"
| "capability_class_value VISUALIZATION = ''visualization''"
| "capability_class_value OBSERVABILITY_ADAPTER = ''observability_adapter''"
| "capability_class_value STATIC_ANALYZER = ''static_analyzer''"

datatype trust_zone = CORE_TRUSTED | GOVERNED_EXTENSION | SANDBOX_EXPERIMENTAL

fun trust_zone_value :: "trust_zone \<Rightarrow> string" where
  "trust_zone_value CORE_TRUSTED = ''core_trusted''"
| "trust_zone_value GOVERNED_EXTENSION = ''governed_extension''"
| "trust_zone_value SANDBOX_EXPERIMENTAL = ''sandbox_experimental''"

datatype extension_status =
  PENDING_INSPECTION | STATIC_ANALYZED | DETERMINISM_VERIFIED | SEMANTIC_NORMALIZED | POLICY_APPROVED | ADMITTED
| REJECTED | QUARANTINED

record extension_manifest =
  em_extension_id :: string
  em_package_name :: string
  em_package_version :: string
  em_package_hash :: string
  em_capability_class :: capability_class
  em_declared_inputs :: "string list"
  em_declared_outputs :: "string list"
  em_network_access :: bool
  em_filesystem_access :: bool
  em_subprocess_access :: bool
  em_dynamic_eval_access :: bool
  em_thread_spawn_access :: bool
  em_deterministic_claim :: bool
  em_replayability_claim :: bool
  em_resource_cpu_ms_max :: int
  em_resource_memory_mb_max :: int
  em_resource_output_size_max :: int
  em_semantic_version :: string
  em_provenance_source_url :: "string option"
  em_provenance_author_pgp_fingerprint :: "string option"
  em_provenance_build_timestamp :: py_datetime
  em_trust_zone :: trust_zone
  em_status :: extension_status
  em_inspection_receipt_hash :: "string option"
  em_normalization_receipt_hash :: "string option"
  em_admission_receipt_hash :: "string option"
  em_rejection_reason :: "string option"
  em_description :: "string option"
  em_entrypoint :: "string option"
  em_dependencies :: "string list"
  em_telemetry_surfaces :: "string list"
  em_metadata :: payload

definition str_or_none :: "string option \<Rightarrow> pyval" where
  "str_or_none x = (case x of None \<Rightarrow> PNone | Some s \<Rightarrow> PStr s)"

definition manifest_dict :: "extension_manifest \<Rightarrow> payload" where
  "manifest_dict m =
     [(''extension_id'', PStr (em_extension_id m)), (''package_name'', PStr (em_package_name m)),
      (''package_version'', PStr (em_package_version m)), (''package_hash'', PStr (em_package_hash m)),
      (''capability_class'', PStr (capability_class_value (em_capability_class m))),
      (''declared_inputs'', PList (map PStr (em_declared_inputs m))),
      (''declared_outputs'', PList (map PStr (em_declared_outputs m))),
      (''network_access'', PBool (em_network_access m)), (''filesystem_access'', PBool (em_filesystem_access m)),
      (''subprocess_access'', PBool (em_subprocess_access m)),
      (''dynamic_eval_access'', PBool (em_dynamic_eval_access m)),
      (''thread_spawn_access'', PBool (em_thread_spawn_access m)),
      (''deterministic_claim'', PBool (em_deterministic_claim m)),
      (''replayability_claim'', PBool (em_replayability_claim m)),
      (''resource_cpu_ms_max'', PInt (em_resource_cpu_ms_max m)),
      (''resource_memory_mb_max'', PInt (em_resource_memory_mb_max m)),
      (''resource_output_size_max'', PInt (em_resource_output_size_max m)),
      (''semantic_version'', PStr (em_semantic_version m)),
      (''provenance_source_url'', str_or_none (em_provenance_source_url m)),
      (''provenance_author_pgp_fingerprint'', str_or_none (em_provenance_author_pgp_fingerprint m)),
      (''trust_zone'', PStr (trust_zone_value (em_trust_zone m))),
      (''description'', str_or_none (em_description m)), (''entrypoint'', str_or_none (em_entrypoint m)),
      (''dependencies'', PList (map PStr (em_dependencies m))),
      (''telemetry_surfaces'', PList (map PStr (em_telemetry_surfaces m))), (''metadata'', PDict (em_metadata m))]"

definition manifest_compute_hash :: "(string \<Rightarrow> string) \<Rightarrow> extension_manifest \<Rightarrow> string" where
  "manifest_compute_hash sha256 m = sha256 (dumps_compact (PDict (manifest_dict m)))"

record capability_declaration =
  cd_capability_name :: string
  cd_input_schema :: payload
  cd_output_schema :: payload
  cd_deterministic :: bool
  cd_replay_safe :: bool
  cd_max_execution_ms :: int

record extension_bundle =
  eb_bundle_id :: string
  eb_manifest :: extension_manifest
  eb_payload_hash :: string
  eb_created_at :: py_datetime

definition compute_bundle_hash :: "(string \<Rightarrow> string) \<Rightarrow> extension_bundle \<Rightarrow> string" where
  "compute_bundle_hash sha256 x = sha256 (dumps_compact (PDict
     [(''bundle_id'', PStr (eb_bundle_id x)), (''manifest_hash'', PStr (manifest_compute_hash sha256 (eb_manifest x))),
      (''payload_hash'', PStr (eb_payload_hash x))]))"

end
