(* ===== verification/Tenant_Control.thy ===== *)
theory Tenant_Control
  imports Extension_Manifest
begin

text \<open>
  The tenant control plane (\<open>pi_interoperability_layer/platform/tenant.py\<close>): tenants and their
  quotas, the registry with its audit log, per-tenant policy rules and the per-tenant execution
  log. The wall clock readings of an operation are arguments. Sets of enumeration values are
  lists, in the order the process iterates them. Directories the classes create on disk and
  never use are left out.
\<close>

section \<open>Tenants\<close>

datatype tenant_status = ACTIVE | SUSPENDED | PROVISIONING | DECOMMISSIONED

fun tenant_status_value :: "tenant_status \<Rightarrow> string" where
  "tenant_status_value ACTIVE = ''active''"
| "tenant_status_value SUSPENDED = ''suspended''"
| "tenant_status_value PROVISIONING = ''provisioning''"
| "tenant_status_value DECOMMISSIONED = ''decommissioned''"

datatype tenant_tier = DEVELOPMENT | STANDARD | ENTERPRISE

fun tenant_tier_value :: "tenant_tier \<Rightarrow> string" where
  "tenant_tier_value DEVELOPMENT = ''development''"
| "tenant_tier_value STANDARD = ''standard''"
| "tenant_tier_value ENTERPRISE = ''enterprise''"

record resource_quota =
  max_capabilities :: int
  max_executions_per_hour :: int
  max_storage_mb :: int
  max_graph_nodes :: int
  max_workers_per_execution :: int
  max_replay_retention_days :: int
  max_policy_rules :: int

definition check_add_capability :: "resource_quota \<Rightarrow> int \<Rightarrow> bool \<times> string option" where
  "check_add_capability q current_count =
     (if current_count + 1 > max_capabilities q
      then (False, Some (''Capability limit exceeded: '' @ show_int current_count @ ''/'' @ show_int (max_capabilities q)))
      else (True, None))"

definition check_storage :: "resource_quota \<Rightarrow> int \<Rightarrow> int \<Rightarrow> bool \<times> string option" where
  "check_storage q current_mb new_mb =
     (if current_mb + new_mb > max_storage_mb q
      then (False, Some (''Storage limit exceeded: '' @ show_int (current_mb + new_mb) @ ''/'' @ show_int (max_storage_mb q) @ '' MB''))
      else (True, None))"

definition quota_dict :: "resource_quota \<Rightarrow> payload" where
  "quota_dict q =
     [(''max_capabilities'', PInt (max_capabilities q)),
      (''max_executions_per_hour'', PInt (max_executions_per_hour q)),
      (''max_storage_mb'', PInt (max_storage_mb q)), (''max_graph_nodes'', PInt (max_graph_nodes q)),
      (''max_workers_per_execution'', PInt (max_workers_per_execution q)),
      (''max_replay_retention_days'', PInt (max_replay_retention_days q)),
      (''max_policy_rules'', PInt (max_policy_rules q))]"

definition quota_compute_hash :: "(string \<Rightarrow> string) \<Rightarrow> resource_quota \<Rightarrow> string" where
  "quota_compute_hash sha256 q = sha256 (dumps_compact (PDict (quota_dict q)))"

record tenant =
  tn_tenant_id :: string
  tn_tenant_name :: string
  tn_tier :: tenant_tier
  tn_status :: tenant_status
  tn_quota :: resource_quota
  tn_trust_zones :: "trust_zone list"
  tn_allowed_classes :: "capability_class list"
  tn_created_at :: py_datetime
  tn_updated_at :: py_datetime
  tn_metadata :: payload

definition tenant_compute_hash :: "(string \<Rightarrow> string) \<Rightarrow> tenant \<Rightarrow> string" where
  "tenant_compute_hash sha256 t = sha256 (dumps_compact (PDict
     [(''tenant_id'', PStr (tn_tenant_id t)), (''tenant_name'', PStr (tn_tenant_name t)),
      (''tier'', PStr (tenant_tier_value (tn_tier t))), (''status'', PStr (tenant_status_value (tn_status t))),
      (''quota'', PDict (quota_dict (tn_quota t))),
      (''trust_zones'', PList (map PStr (sort (map trust_zone_value (tn_trust_zones t))))),
      (''allowed_capability_classes'', PList (map PStr (sort (map capability_class_value (tn_allowed_classes t))))),
      (''metadata'', PDict (tn_metadata t))]))"

section \<open>The registry\<close>

record registry_entry =
  te_tenant :: tenant
  te_capability_count :: int
  te_execution_count_hour :: int
  te_storage_used_mb :: int
  te_policy_count :: int
  te_registered_at :: string
  te_last_audit_hash :: string

record audit_event =
  au_timestamp :: string
  au_tenant_id :: string
  au_action :: string
  au_detail :: string

record tenant_registry =
  tr_entries :: "(string, registry_entry) dict"
  tr_audit_log :: "audit_event list"

definition empty_tenants :: tenant_registry where
  "empty_tenants = \<lparr>tr_entries = [], tr_audit_log = []\<rparr>"

definition audit :: "tenant_registry \<Rightarrow> py_datetime \<Rightarrow> string \<Rightarrow> string \<Rightarrow> string \<Rightarrow> tenant_registry" where
  "audit g now tid action detail =
     g\<lparr>tr_audit_log := tr_audit_log g @
        [\<lparr>au_timestamp = isoformat now, au_tenant_id = tid, au_action = action, au_detail = detail\<rparr>]\<rparr>"

definition set_entry :: "tenant_registry \<Rightarrow> string \<Rightarrow> registry_entry \<Rightarrow> tenant_registry" where
  "set_entry g tid e = g\<lparr>tr_entries := dict_set (tr_entries g) tid e\<rparr>"

definition tenant_register ::
  "(string \<Rightarrow> string) \<Rightarrow> tenant \<Rightarrow> py_datetime \<Rightarrow> py_datetime \<Rightarrow> tenant_registry \<Rightarrow> (bool \<times> string option) \<times> tenant_registry" where
  "tenant_register sha256 t registered now g =
     (if dict_has (tr_entries g) (tn_tenant_id t) then ((False, Some ''Tenant already exists''), g)
      else ((True, None),
        audit (set_entry g (tn_tenant_id t)
            \<lparr>te_tenant = t, te_capability_count = 0, te_execution_count_hour = 0, te_storage_used_mb = 0,
             te_policy_count = 0, te_registered_at = isoformat registered,
             te_last_audit_hash = tenant_compute_hash sha256 t\<rparr>)
          now (tn_tenant_id t) ''REGISTER'' (tenant_compute_hash sha256 t)))"

definition tenant_get :: "tenant_registry \<Rightarrow> string \<Rightarrow> registry_entry option" where
  "tenant_get g tid = map_of (tr_entries g) tid"

definition tenant_get_all :: "tenant_registry \<Rightarrow> registry_entry list" where
  "tenant_get_all g = map snd (tr_entries g)"

definition update_status ::
  "(string \<Rightarrow> string) \<Rightarrow> string \<Rightarrow> tenant_status \<Rightarrow> py_datetime \<Rightarrow> py_datetime \<Rightarrow> tenant_registry \<Rightarrow> bool \<times> tenant_registry" where
  "update_status sha256 tid status updated now g =
     (case tenant_get g tid of
        None \<Rightarrow> (False, g)
      | Some e \<Rightarrow>
          let t = (te_tenant e)\<lparr>tn_status := status, tn_updated_at := updated\<rparr> in
          (True, audit (set_entry g tid (e\<lparr>te_tenant := t, te_last_audit_hash := tenant_compute_hash sha256 t\<rparr>))
                   now tid ''UPDATE_STATUS'' (''status='' @ tenant_status_value status)))"

definition increment_capability :: "string \<Rightarrow> py_datetime \<Rightarrow> tenant_registry \<Rightarrow> (bool \<times> string option) \<times> tenant_registry" where
  "increment_capability tid now g =
     (case tenant_get g tid of
        None \<Rightarrow> ((False, Some ''Tenant not found''), g)
      | Some e \<Rightarrow>
          (case check_add_capability (tn_quota (te_tenant e)) (te_capability_count e) of
             (False, err) \<Rightarrow> ((False, err), g)
           | (True, _) \<Rightarrow>
               ((True, None),
                audit (set_entry g tid (e\<lparr>te_capability_count := te_capability_count e + 1\<rparr>))
                  now tid ''INCREMENT_CAPABILITY'' (''count='' @ show_int (te_capability_count e + 1)))))"

definition check_execution_allowed :: "tenant_registry \<Rightarrow> string \<Rightarrow> bool \<times> string option" where
  "check_execution_allowed g tid =
     (case tenant_get g tid of
        None \<Rightarrow> (False, Some ''Tenant not found'')
      | Some e \<Rightarrow>
          let t = te_tenant e in
          if tn_status t \<noteq> ACTIVE then (False, Some (''Tenant status is '' @ tenant_status_value (tn_status t) @ '', not active''))
          else if te_execution_count_hour e \<ge> max_executions_per_hour (tn_quota t)
          then (False, Some (''Execution rate limit: '' @ show_int (te_execution_count_hour e) @ ''/''
                       @ show_int (max_executions_per_hour (tn_quota t))))
          else (True, None))"

definition record_execution :: "string \<Rightarrow> py_datetime \<Rightarrow> tenant_registry \<Rightarrow> tenant_registry" where
  "record_execution tid now g =
     (case tenant_get g tid of
        None \<Rightarrow> g
      | Some e \<Rightarrow>
          audit (set_entry g tid (e\<lparr>te_execution_count_hour := te_execution_count_hour e + 1\<rparr>))
            now tid ''EXECUTION'' (''hour_count='' @ show_int (te_execution_count_hour e + 1)))"

definition get_audit_log :: "tenant_registry \<Rightarrow> string option \<Rightarrow> int \<Rightarrow> audit_event list" where
  "get_audit_log g tid limit =
     py_tail limit (case tid of
       None \<Rightarrow> tr_audit_log g
     | Some t \<Rightarrow> if t = [] then tr_audit_log g else filter (\<lambda>e. au_tenant_id e = t) (tr_audit_log g))"

section \<open>Policy rules\<close>

record tenant_policy_rule =
  tp_rule_id :: string
  tp_rule_type :: string
  tp_target_value :: string
  tp_action :: string
  tp_evidence :: string

type_synonym tenant_policies = "(string, tenant_policy_rule list) dict"

definition add_rule :: "tenant_policies \<Rightarrow> string \<Rightarrow> tenant_policy_rule \<Rightarrow> tenant_policies" where
  "add_rule ps tid r = dict_append ps tid r"

definition get_rules :: "tenant_policies \<Rightarrow> string \<Rightarrow> tenant_policy_rule list" where
  "get_rules ps tid = dict_get ps tid []"

definition rules_on :: "string \<Rightarrow> string \<Rightarrow> string \<Rightarrow> tenant_policy_rule list \<Rightarrow> tenant_policy_rule list" where
  "rules_on rule_type target action rules =
     filter (\<lambda>r. tp_rule_type r = rule_type \<and> tp_target_value r = target \<and> tp_action r = action) rules"

definition evaluate_capability_class :: "tenant_policies \<Rightarrow> string \<Rightarrow> capability_class \<Rightarrow> bool \<times> string" where
  "evaluate_capability_class ps tid c =
     (let rules = dict_get ps tid [];
          allows = rules_on ''capability_class'' (capability_class_value c) ''allow'' rules;
          denies = rules_on ''capability_class'' (capability_class_value c) ''deny'' rules
      in if denies \<noteq> [] then
           (False, ''Capability class '' @ capability_class_value c @ '' denied by policy: '' @ tp_evidence (hd denies))
         else if list_ex (\<lambda>r. tp_rule_type r = ''capability_class'' \<and> tp_action r = ''allow'') rules \<and> allows = [] then
           (False, ''Capability class '' @ capability_class_value c @ '' not in allowed set'')
         else (True, ''OK''))"

definition evaluate_trust_zone :: "tenant_policies \<Rightarrow> string \<Rightarrow> trust_zone \<Rightarrow> bool \<times> string" where
  "evaluate_trust_zone ps tid z =
     (let denies = rules_on ''trust_zone'' (trust_zone_value z) ''deny'' (dict_get ps tid []) in
      if denies \<noteq> [] then (False, ''Trust zone '' @ trust_zone_value z @ '' denied by policy: '' @ tp_evidence (hd denies))
      else (True, ''OK''))"

section \<open>The execution log\<close>

record execution_record =
  xr_tenant_id :: string
  xr_execution_id :: string
  xr_pipeline_hash :: string
  xr_manifest_id :: string
  xr_status :: string
  xr_started_at :: string
  xr_completed_at :: "string option"
  xr_evidence :: string
  xr_replay_artifact_hash :: string

definition record_compute_hash :: "(string \<Rightarrow> string) \<Rightarrow> execution_record \<Rightarrow> string" where
  "record_compute_hash sha256 r = sha256 (dumps_compact (PDict
     [(''tenant_id'', PStr (xr_tenant_id r)), (''execution_id'', PStr (xr_execution_id r)),
      (''pipeline_hash'', PStr (xr_pipeline_hash r)), (''manifest_id'', PStr (xr_manifest_id r)),
      (''status'', PStr (xr_status r)), (''started_at'', PStr (xr_started_at r)), (''evidence'', PStr (xr_evidence r))]))"

type_synonym execution_log = "(string, execution_record list) dict"

definition log_record :: "execution_log \<Rightarrow> execution_record \<Rightarrow> execution_log" where
  "log_record d r = dict_append d (xr_tenant_id r) r"

definition get_by_tenant :: "execution_log \<Rightarrow> string \<Rightarrow> int \<Rightarrow> execution_record list" where
  "get_by_tenant d tid limit = py_tail limit (dict_get d tid [])"

definition get_by_execution_id :: "execution_log \<Rightarrow> string \<Rightarrow> string \<Rightarrow> execution_record option" where
  "get_by_execution_id d tid eid = find (\<lambda>r. xr_execution_id r = eid) (dict_get d tid [])"

definition get_replay_candidates :: "execution_log \<Rightarrow> string \<Rightarrow> string \<Rightarrow> execution_record list" where
  "get_replay_candidates d tid ph = filter (\<lambda>r. xr_pipeline_hash r = ph) (dict_get d tid [])"

text \<open>\<open>success_rate\<close> is the exact quotient; Python stores the float nearest to it.\<close>

record compliance_report =
  cm_tenant_id :: string
  cm_total_executions :: nat
  cm_completed :: nat
  cm_failed :: nat
  cm_rejected :: nat
  cm_success_rate :: rat
  cm_report_generated_at :: string
  cm_record_hashes :: "string list"

definition get_compliance_report :: "(string \<Rightarrow> string) \<Rightarrow> execution_log \<Rightarrow> string \<Rightarrow> py_datetime \<Rightarrow> compliance_report" where
  "get_compliance_report sha256 d tid now =
     (let records = dict_get d tid [];
          total = length records;
          count = (\<lambda>s. length (filter (\<lambda>r. xr_status r = s) records))
      in \<lparr>cm_tenant_id = tid, cm_total_executions = total, cm_completed = count ''completed'',
          cm_failed = count ''failed'', cm_rejected = count ''rejected'',
          cm_success_rate = (if total = 0 then 0 else of_nat (count ''completed'') / of_nat total),
          cm_report_generated_at = isoformat now,
          cm_record_hashes = map (record_compute_hash sha256) (py_tail 10 records)\<rparr>)"

section \<open>Runs of the control plane\<close>

text \<open>One operation of the registry on the tenant given first, with whatever clock readings.\<close>

inductive tenant_step :: "(string \<Rightarrow> string) \<Rightarrow> string \<Rightarrow> tenant_registry \<Rightarrow> tenant_registry \<Rightarrow> bool" for sha256 where
  step_register: "tn_tenant_id t = tid \<Longrightarrow> tenant_step sha256 tid g (snd (tenant_register sha256 t registered now g))"
| step_status: "tenant_step sha256 tid g (snd (update_status sha256 tid status updated now g))"
| step_capability: "tenant_step sha256 tid g (snd (increment_capability tid now g))"
| step_execution: "tenant_step sha256 tid g (record_execution tid now g)"

inductive_cases tenant_stepE: "tenant_step sha256 tid g g'"

text \<open>What keeps tenants apart: an operation for one key leaves what is seen under the others.\<close>

locale scoped_store =
  fixes step :: "'k \<Rightarrow> 's \<Rightarrow> 's \<Rightarrow> bool" and view :: "'s \<Rightarrow> 'k \<Rightarrow> 'v"
  assumes frame: "step k s s' \<Longrightarrow> j \<noteq> k \<Longrightarrow> view s' j = view s j"
begin

lemma run_frame:
  assumes "(\<lambda>s s'. \<exists>k. k \<noteq> j \<and> step k s s')\<^sup>*\<^sup>* s s'"
  shows "view s' j = view s j"
  using assms by (induction rule: rtranclp_induct) (auto simp: frame [OF _ not_sym])

end

lemma tenant_get_audit [simp]: "tenant_get (audit g now k a d) tid = tenant_get g tid"
  by (simp add: tenant_get_def audit_def)

lemma tenant_get_set [simp]: "tenant_get (set_entry g k e) tid = (if tid = k then Some e else tenant_get g tid)"
  by (simp add: tenant_get_def set_entry_def dict_simps)

lemmas tenant_ops = tenant_register_def update_status_def increment_capability_def record_execution_def
  check_add_capability_def Let_def

interpretation tenants: scoped_store "tenant_step sha256" tenant_get
  by unfold_locales (auto simp: tenant_ops split: option.splits elim!: tenant_stepE)

interpretation policies: scoped_store "\<lambda>k ps ps'. \<exists>r. ps' = add_rule ps k r" get_rules
  by unfold_locales (auto simp: get_rules_def add_rule_def dict_get_append)

interpretation executions: scoped_store "\<lambda>k d d'. \<exists>r. xr_tenant_id r = k \<and> d' = log_record d r" "\<lambda>d k. dict_get d k []"
  by unfold_locales (auto simp: log_record_def dict_get_append)

section \<open>Counters and the audit log\<close>

definition audited :: "tenant_registry \<Rightarrow> string \<Rightarrow> string \<Rightarrow> int" where
  "audited g tid action = int (length (filter (\<lambda>e. au_tenant_id e = tid \<and> au_action e = action) (tr_audit_log g)))"

definition entry_ok :: "tenant_registry \<Rightarrow> string \<Rightarrow> registry_entry option \<Rightarrow> bool" where
  "entry_ok g tid entry \<longleftrightarrow>
     (case entry of
        None \<Rightarrow> (\<forall>e \<in> set (tr_audit_log g). au_tenant_id e \<noteq> tid)
      | Some e \<Rightarrow> tn_tenant_id (te_tenant e) = tid \<and>
          te_capability_count e = audited g tid ''INCREMENT_CAPABILITY'' \<and>
          te_execution_count_hour e = audited g tid ''EXECUTION'' \<and>
          te_capability_count e \<le> max 0 (max_capabilities (tn_quota (te_tenant e))))"

definition quota_inv :: "tenant_registry \<Rightarrow> bool" where
  "quota_inv g \<longleftrightarrow> (\<forall>tid. entry_ok g tid (tenant_get g tid))"

lemma audited_audit [simp]:
  "audited (audit g now k a d) tid action = audited g tid action + (if k = tid \<and> a = action then 1 else 0)"
  by (simp add: audited_def audit_def)

lemma audited_set [simp]: "audited (set_entry g k e) tid action = audited g tid action"
  by (simp add: audited_def set_entry_def)

lemma audit_log_simps [simp]:
  "tr_audit_log (set_entry g k e) = tr_audit_log g"
  "set (tr_audit_log (audit g now k a d)) = insert \<lparr>au_timestamp = isoformat now, au_tenant_id = k, au_action = a, au_detail = d\<rparr> (set (tr_audit_log g))"
  by (simp_all add: set_entry_def audit_def)

lemma audited_none: "\<forall>e \<in> set (tr_audit_log g). au_tenant_id e \<noteq> tid \<Longrightarrow> audited g tid a = 0"
  by (auto simp: audited_def filter_empty_conv)

lemma quota_inv_empty: "quota_inv empty_tenants"
  by (simp add: quota_inv_def entry_ok_def empty_tenants_def tenant_get_def)

lemma quota_inv_set:
  assumes "quota_inv g" "tn_tenant_id (te_tenant e) = k"
    "te_capability_count e = audited g k ''INCREMENT_CAPABILITY'' + (if a = ''INCREMENT_CAPABILITY'' then 1 else 0)"
    "te_execution_count_hour e = audited g k ''EXECUTION'' + (if a = ''EXECUTION'' then 1 else 0)"
    "te_capability_count e \<le> max 0 (max_capabilities (tn_quota (te_tenant e)))"
  shows "quota_inv (audit (set_entry g k e) now k a d)"
proof -
  let ?g = "audit (set_entry g k e) now k a d"
  have "entry_ok ?g tid (tenant_get ?g tid)" for tid
  proof (cases "tid = k")
    case True
    with assms(2-) show ?thesis by (simp add: entry_ok_def)
  next
    case False
    with assms(1) have "entry_ok g tid (tenant_get g tid)" by (simp add: quota_inv_def)
    with False show ?thesis by (auto simp: entry_ok_def split: option.splits)
  qed
  then show ?thesis by (simp add: quota_inv_def)
qed

lemma quota_inv_get:
  assumes "quota_inv g" "tenant_get g tid = Some e"
  shows "tn_tenant_id (te_tenant e) = tid" "te_capability_count e = audited g tid ''INCREMENT_CAPABILITY''"
    "te_execution_count_hour e = audited g tid ''EXECUTION''"
    "te_capability_count e \<le> max 0 (max_capabilities (tn_quota (te_tenant e)))"
proof -
  have "entry_ok g tid (Some e)" using assms unfolding quota_inv_def by metis
  then show "tn_tenant_id (te_tenant e) = tid" "te_capability_count e = audited g tid ''INCREMENT_CAPABILITY''"
    "te_execution_count_hour e = audited g tid ''EXECUTION''"
    "te_capability_count e \<le> max 0 (max_capabilities (tn_quota (te_tenant e)))"
    by (simp_all add: entry_ok_def)
qed

lemma quota_inv_step:
  assumes "tenant_step sha256 tid g g'" "quota_inv g"
  shows "quota_inv g'"
  using assms(1)
proof cases
  case (step_register t registered now)
  show ?thesis
  proof (cases "tenant_get g tid")
    case None
    have "entry_ok g tid (tenant_get g tid)" using assms(2) by (simp add: quota_inv_def)
    with None have n: "\<forall>e \<in> set (tr_audit_log g). au_tenant_id e \<noteq> tid" by (simp add: entry_ok_def)
    have zero: "audited g (tn_tenant_id t) a = 0" for a using audited_none [OF n] step_register(2) by simp
    from None step_register show ?thesis
      by (auto simp: tenant_register_def dict_has_def tenant_get_def zero intro!: quota_inv_set assms(2))
  next
    case (Some e)
    then have "dict_has (tr_entries g) tid" by (simp add: tenant_get_def dict_has_def)
    with step_register assms(2) show ?thesis by (simp add: tenant_register_def)
  qed
next
  case (step_status status updated now)
  show ?thesis
    using quota_inv_get [OF assms(2)] assms(2) unfolding step_status
    by (auto simp: update_status_def Let_def split: option.splits intro!: quota_inv_set)
next
  case (step_capability now)
  show ?thesis
    using quota_inv_get [OF assms(2)] assms(2) unfolding step_capability
    by (auto simp: increment_capability_def check_add_capability_def split: option.splits intro!: quota_inv_set)
next
  case (step_execution now)
  show ?thesis
    using quota_inv_get [OF assms(2)] assms(2) unfolding step_execution
    by (auto simp: record_execution_def split: option.splits intro!: quota_inv_set)
qed

lemma quota_inv_run:
  assumes "(\<lambda>g g'. \<exists>tid. tenant_step sha256 tid g g')\<^sup>*\<^sup>* empty_tenants g"
  shows "quota_inv g"
  using assms by (induction rule: rtranclp_induct) (auto intro: quota_inv_empty quota_inv_step)

lemma execution_count_step:
  assumes "tenant_step sha256 k g g'" "tenant_get g tid = Some e"
  shows "\<exists>e'. tenant_get g' tid = Some e' \<and> tn_quota (te_tenant e') = tn_quota (te_tenant e) \<and>
    te_execution_count_hour e \<le> te_execution_count_hour e'"
  using assms(1)
proof cases
  case (step_register t registered now)
  with assms(2) show ?thesis by (auto simp: tenant_register_def dict_has_def tenant_get_def [symmetric])
qed (use assms(2) in \<open>auto simp: tenant_ops split: option.splits\<close>)

lemma execution_count_run:
  assumes "(\<lambda>g g'. \<exists>k. tenant_step sha256 k g g')\<^sup>*\<^sup>* g g'" "tenant_get g tid = Some e"
  shows "\<exists>e'. tenant_get g' tid = Some e' \<and> tn_quota (te_tenant e') = tn_quota (te_tenant e) \<and>
    te_execution_count_hour e \<le> te_execution_count_hour e'"
  using assms(1)
proof (induction rule: rtranclp_induct)
  case base
  with assms(2) show ?case by simp
next
  case (step g1 g2)
  then obtain k e1 where k: "tenant_step sha256 k g1 g2" and e1: "tenant_get g1 tid = Some e1"
    "tn_quota (te_tenant e1) = tn_quota (te_tenant e)" "te_execution_count_hour e \<le> te_execution_count_hour e1" by blast
  from execution_count_step [OF k e1(1)] e1 show ?case by fastforce
qed

section \<open>Properties\<close>

text \<open>
  C10 (tenant_isolation). Whatever operations are performed for other tenants, in any order, on the
  registry, the policies and the execution log, nothing that is decided or reported for a
  tenant changes: its entry, whether it may execute, its rules and policy decisions, its
  execution records and its compliance report.
\<close>

theorem tenant_isolation:
  assumes "(\<lambda>g g'. \<exists>k. k \<noteq> tid \<and> tenant_step sha256 k g g')\<^sup>*\<^sup>* g g'"
    and "(\<lambda>ps ps'. \<exists>k. k \<noteq> tid \<and> (\<exists>r. ps' = add_rule ps k r))\<^sup>*\<^sup>* ps ps'"
    and "(\<lambda>d d'. \<exists>k. k \<noteq> tid \<and> (\<exists>r. xr_tenant_id r = k \<and> d' = log_record d r))\<^sup>*\<^sup>* d d'"
  shows "tenant_get g' tid = tenant_get g tid \<and>
    check_execution_allowed g' tid = check_execution_allowed g tid \<and>
    evaluate_capability_class ps' tid c = evaluate_capability_class ps tid c \<and>
    evaluate_trust_zone ps' tid z = evaluate_trust_zone ps tid z \<and>
    get_by_tenant d' tid n = get_by_tenant d tid n \<and>
    get_compliance_report sha256 d' tid now = get_compliance_report sha256 d tid now"
proof -
  have "tenant_get g' tid = tenant_get g tid" by (rule tenants.run_frame [OF assms(1)])
  moreover have "dict_get ps' tid [] = dict_get ps tid []"
    using policies.run_frame [OF assms(2)] by (simp add: get_rules_def)
  moreover have "dict_get d' tid [] = dict_get d tid []" by (rule executions.run_frame [OF assms(3)])
  ultimately show ?thesis
    by (simp add: check_execution_allowed_def evaluate_capability_class_def evaluate_trust_zone_def
        get_by_tenant_def get_compliance_report_def)
qed

definition example_quota :: resource_quota where
  "example_quota = \<lparr>max_capabilities = 1, max_executions_per_hour = 1, max_storage_mb = 1024, max_graph_nodes = 500,
     max_workers_per_execution = 10, max_replay_retention_days = 30, max_policy_rules = 50\<rparr>"

definition example_time :: py_datetime where
  "example_time = DateTime 2026 1 2 3 4 5 0"

definition example_tenant :: "string \<Rightarrow> tenant" where
  "example_tenant tid = \<lparr>tn_tenant_id = tid, tn_tenant_name = tid, tn_tier = STANDARD, tn_status = ACTIVE,
     tn_quota = example_quota, tn_trust_zones = [CORE_TRUSTED], tn_allowed_classes = [VISUALIZATION],
     tn_created_at = example_time, tn_updated_at = example_time, tn_metadata = []\<rparr>"

definition example_tenants :: tenant_registry where
  "example_tenants = snd (tenant_register id (example_tenant ''a'') example_time example_time empty_tenants)"

lemma example_tenants_step: "tenant_step id ''a'' empty_tenants example_tenants"
  unfolding example_tenants_def by (rule step_register) (simp add: example_tenant_def)

theorem tenant_isolation_witness:
  "let g' = snd (tenant_register id (example_tenant ''b'') example_time example_time example_tenants) in
    tenant_get g' ''b'' \<noteq> None \<and> tenant_get g' ''a'' = tenant_get example_tenants ''a'' \<and>
    check_execution_allowed g' ''a'' = (True, None)"
proof -
  let ?g = "snd (tenant_register id (example_tenant ''b'') example_time example_time example_tenants)"
  have "tenant_step id ''b'' example_tenants ?g" by (rule step_register) (simp add: example_tenant_def)
  then have "(\<lambda>g g'. \<exists>k. k \<noteq> ''a'' \<and> tenant_step id k g g')\<^sup>*\<^sup>* example_tenants ?g"
    by (intro r_into_rtranclp exI [of _ "''b''"] conjI) simp
  from tenant_isolation [where ps = "[]" and ps' = "[]" and d = "[]" and d' = "[]", OF this rtranclp.rtrancl_refl rtranclp.rtrancl_refl]
  have "tenant_get ?g ''a'' = tenant_get example_tenants ''a''"
    "check_execution_allowed ?g ''a'' = check_execution_allowed example_tenants ''a''" by blast+
  moreover have "check_execution_allowed example_tenants ''a'' = (True, None)"
    by (simp add: example_tenants_def tenant_register_def example_tenant_def empty_tenants_def dict_has_def
        check_execution_allowed_def tenant_get_def example_quota_def Let_def set_entry_def audit_def)
  moreover have "tenant_get ?g ''b'' \<noteq> None"
    by (simp add: example_tenants_def tenant_register_def example_tenant_def empty_tenants_def dict_has_def tenant_get_def set_entry_def audit_def)
  ultimately show ?thesis by (simp add: Let_def)
qed

text \<open>
  C11 (tenant_quota_audit). In every registry that its operations produce, the capability count of a
  tenant is within its quota, both counters agree with the number of audit entries of their
  kind, and a tenant that is not registered has no audit entry.
\<close>

theorem tenant_quota_audit:
  assumes "(\<lambda>g g'. \<exists>k. tenant_step sha256 k g g')\<^sup>*\<^sup>* empty_tenants g"
  shows "case tenant_get g tid of
      None \<Rightarrow> tid \<notin> au_tenant_id ` set (tr_audit_log g)
    | Some e \<Rightarrow> te_capability_count e \<le> max 0 (max_capabilities (tn_quota (te_tenant e))) \<and>
        te_capability_count e = audited g tid ''INCREMENT_CAPABILITY'' \<and>
        te_execution_count_hour e = audited g tid ''EXECUTION''"
proof -
  have "entry_ok g tid (tenant_get g tid)" using quota_inv_run [OF assms] by (simp add: quota_inv_def)
  then show ?thesis by (auto simp: entry_ok_def split: option.splits)
qed

theorem tenant_quota_audit_witness:
  "\<exists>e. tenant_get example_tenants ''a'' = Some e \<and> te_capability_count e = audited example_tenants ''a'' ''INCREMENT_CAPABILITY''"
proof -
  have r: "(\<lambda>g g'. \<exists>k. tenant_step id k g g')\<^sup>*\<^sup>* empty_tenants example_tenants"
    using example_tenants_step by (intro r_into_rtranclp) auto
  have "tenant_get example_tenants ''a'' \<noteq> None"
    by (simp add: example_tenants_def tenant_register_def example_tenant_def empty_tenants_def dict_has_def)
  with tenant_quota_audit [OF r, of "''a''"] show ?thesis by (auto split: option.splits)
qed

text \<open>
  The hourly execution counter is never reset: once it has reached the
  quota, no later operation of the registry lets the tenant execute again, in whatever hour.
\<close>

theorem execution_lockout:
  assumes "tenant_get g tid = Some e" and "max_executions_per_hour (tn_quota (te_tenant e)) \<le> te_execution_count_hour e"
    and "(\<lambda>g g'. \<exists>k. tenant_step sha256 k g g')\<^sup>*\<^sup>* g g'"
  shows "\<not> fst (check_execution_allowed g' tid)"
  using execution_count_run [OF assms(3,1)] assms(2) by (auto simp: check_execution_allowed_def Let_def split: if_splits)

theorem execution_lockout_witness:
  "\<not> fst (check_execution_allowed (snd (update_status id ''a'' ACTIVE example_time example_time
      (record_execution ''a'' example_time example_tenants))) ''a'')"
proof -
  let ?g = "record_execution ''a'' example_time example_tenants"
  obtain e where e: "tenant_get ?g ''a'' = Some e" "max_executions_per_hour (tn_quota (te_tenant e)) \<le> te_execution_count_hour e"
    by (simp add: example_tenants_def record_execution_def tenant_register_def example_tenant_def empty_tenants_def
        dict_has_def example_quota_def)
  have "(\<lambda>g g'. \<exists>k. tenant_step id k g g')\<^sup>*\<^sup>* ?g (snd (update_status id ''a'' ACTIVE example_time example_time ?g))"
    by (intro r_into_rtranclp exI [of _ "''a''"] step_status)
  from execution_lockout [OF e this] show ?thesis .
qed

end
