(* ===== verification/Execution_Fabric.thy ===== *)
theory Execution_Fabric
  imports Extension_Manifest "HOL-Library.Sublist" "HOL-Library.Multiset"
begin

text \<open>
  The execution fabric (\<open>pi_interoperability_layer/platform/execution_fabric.py\<close>): assignment of
  manifests to shards by hash, worker leases, phases with a barrier, multi-phase executions,
  their receipts and the audit log. Random identifiers and clock readings come from an
  environment, indexed by how many were drawn before. An exception leaves the fabric object
  half updated; the model gives the exception only.
\<close>

section \<open>Records and their hashes\<close>

record worker_lease =
  wl_lease_id :: string
  wl_worker_id :: string
  wl_shard_id :: string
  wl_phase_number :: int
  wl_manifest_id :: string
  wl_leased_at :: string
  wl_expires_at :: string
  wl_cpu_ms_max :: int
  wl_memory_mb_max :: int
  wl_output_size_max :: int

definition lease_compute_hash :: "(string \<Rightarrow> string) \<Rightarrow> worker_lease \<Rightarrow> string" where
  "lease_compute_hash sha256 l = sha256 (dumps_compact (PDict
     [(''shard_id'', PStr (wl_shard_id l)), (''phase_number'', PInt (wl_phase_number l)),
      (''manifest_id'', PStr (wl_manifest_id l)), (''cpu_ms_max'', PInt (wl_cpu_ms_max l)),
      (''memory_mb_max'', PInt (wl_memory_mb_max l)), (''output_size_max'', PInt (wl_output_size_max l))]))"

record phase_barrier =
  pb_phase_number :: int
  pb_total_shards :: int
  pb_completed_shards :: "string list"
  pb_failed_shards :: "string list"
  pb_phase_hash :: string
  pb_barrier_status :: string

definition all_complete :: "phase_barrier \<Rightarrow> bool" where
  "all_complete p \<longleftrightarrow> int (length (pb_completed_shards p)) = pb_total_shards p \<and> length (pb_failed_shards p) = 0"

definition any_failed :: "phase_barrier \<Rightarrow> bool" where
  "any_failed p \<longleftrightarrow> length (pb_failed_shards p) > 0"

definition barrier_compute_hash :: "(string \<Rightarrow> string) \<Rightarrow> phase_barrier \<Rightarrow> string" where
  "barrier_compute_hash sha256 p = sha256 (dumps_compact (PDict
     [(''phase_number'', PInt (pb_phase_number p)), (''total_shards'', PInt (pb_total_shards p)),
      (''completed'', PList (map PStr (sort (pb_completed_shards p)))),
      (''failed'', PList (map PStr (sort (pb_failed_shards p)))),
      (''phase_hash'', PStr (pb_phase_hash p)), (''barrier_status'', PStr (pb_barrier_status p))]))"

record phase_receipt =
  pc_phase_number :: int
  pc_shard_id :: string
  pc_worker_id :: string
  pc_lease_id :: string
  pc_status :: string
  pc_output_hash :: string
  pc_evidence :: string
  pc_duration_ms :: int

definition receipt_compute_hash :: "(string \<Rightarrow> string) \<Rightarrow> phase_receipt \<Rightarrow> string" where
  "receipt_compute_hash sha256 r = sha256 (dumps_compact (PDict
     [(''phase_number'', PInt (pc_phase_number r)), (''shard_id'', PStr (pc_shard_id r)),
      (''worker_id'', PStr (pc_worker_id r)), (''lease_id'', PStr (pc_lease_id r)), (''status'', PStr (pc_status r)),
      (''output_hash'', PStr (pc_output_hash r)), (''evidence'', PStr (pc_evidence r)),
      (''duration_ms'', PInt (pc_duration_ms r))]))"

record fabric_receipt =
  xf_execution_id :: string
  xf_pipeline_hash :: string
  xf_total_phases :: int
  xf_phases_completed :: int
  xf_phases_failed :: int
  xf_final_status :: string
  xf_phase_receipts :: "phase_receipt list"
  xf_barrier_hashes :: "string list"
  xf_replay_hash :: string

definition fabric_receipt_hash :: "(string \<Rightarrow> string) \<Rightarrow> fabric_receipt \<Rightarrow> string" where
  "fabric_receipt_hash sha256 r = sha256 (dumps_compact (PDict
     [(''execution_id'', PStr (xf_execution_id r)), (''pipeline_hash'', PStr (xf_pipeline_hash r)),
      (''total_phases'', PInt (xf_total_phases r)), (''phases_completed'', PInt (xf_phases_completed r)),
      (''phases_failed'', PInt (xf_phases_failed r)), (''final_status'', PStr (xf_final_status r)),
      (''phase_receipts'', PList (map (\<lambda>p. PStr (receipt_compute_hash sha256 p)) (xf_phase_receipts r))),
      (''barrier_hashes'', PList (map PStr (xf_barrier_hashes r))), (''replay_hash'', PStr (xf_replay_hash r))]))"

section \<open>Shards and leases\<close>

text \<open>\<open>env_uuid n\<close> is the value of \<open>uuid.uuid4().hex[:16]\<close> at the \<open>n\<close>-th draw, \<open>env_now n\<close> the clock at that point.\<close>

record fabric_env =
  env_uuid :: "nat \<Rightarrow> string"
  env_now :: "nat \<Rightarrow> py_datetime"

record execution_fabric =
  fb_shard_count :: int
  fb_shards :: "(string, string list) dict"
  fb_leases :: "(string, worker_lease) dict"
  fb_phase_receipts :: "(int, phase_receipt list) dict"
  fb_barriers :: "(int, phase_barrier) dict"
  fb_execution_log :: "fabric_receipt list"
  fb_drawn :: nat

definition new_fabric :: "int \<Rightarrow> execution_fabric" where
  "new_fabric shard_count = \<lparr>fb_shard_count = shard_count, fb_shards = [], fb_leases = [], fb_phase_receipts = [],
     fb_barriers = [], fb_execution_log = [], fb_drawn = 0\<rparr>"

text \<open>\<open>int(s, 16)\<close> and the format \<open>04d\<close>.\<close>

definition hex_int :: "string \<Rightarrow> int result" where
  "hex_int s =
     (if s = [] \<or> \<not> list_all (\<lambda>c. hex_val c \<noteq> None) s then Inl (ValueError (''invalid literal for int() with base 16: '' @ repr_str s))
      else Inr (foldl (\<lambda>n c. n * 16 + int (the (hex_val c))) 0 s))"

definition shard_name :: "int \<Rightarrow> string" where
  "shard_name i = ''shard-'' @ (if i < 0 then CHR ''-'' # zfill 3 (nat (- i)) else zfill 4 (nat i))"

definition shard_of :: "(string \<Rightarrow> string) \<Rightarrow> int \<Rightarrow> string \<Rightarrow> string result" where
  "shard_of sha256 shard_count manifest_id =
     res_bind (hex_int (take 16 (sha256 manifest_id))) (\<lambda>h.
       if shard_count = 0 then Inl ZeroDivisionError else Inr (shard_name (h mod shard_count)))"

definition assign_to_shard :: "(string \<Rightarrow> string) \<Rightarrow> string \<Rightarrow> execution_fabric \<Rightarrow> (string \<times> execution_fabric) result" where
  "assign_to_shard sha256 manifest_id fb =
     res_bind (shard_of sha256 (fb_shard_count fb) manifest_id) (\<lambda>shard_id.
       let assignments = dict_get (fb_shards fb) shard_id [] in
       Inr (shard_id, fb\<lparr>fb_shards := dict_set (fb_shards fb) shard_id
              (if manifest_id \<in> set assignments then assignments else assignments @ [manifest_id])\<rparr>))"

definition get_shard_assignments :: "execution_fabric \<Rightarrow> string \<Rightarrow> string list" where
  "get_shard_assignments fb shard_id = dict_get (fb_shards fb) shard_id []"

definition lease_worker ::
  "fabric_env \<Rightarrow> string \<Rightarrow> string \<Rightarrow> int \<Rightarrow> int \<Rightarrow> int \<Rightarrow> execution_fabric \<Rightarrow> worker_lease \<times> execution_fabric" where
  "lease_worker env shard_id manifest_id phase_number cpu_ms memory_mb fb =
     (let n = fb_drawn fb;
          lease = \<lparr>wl_lease_id = ''lease_'' @ env_uuid env n, wl_worker_id = ''worker_'' @ env_uuid env (n + 1),
            wl_shard_id = shard_id, wl_phase_number = phase_number, wl_manifest_id = manifest_id,
            wl_leased_at = isoformat (env_now env n), wl_expires_at = [], wl_cpu_ms_max = cpu_ms,
            wl_memory_mb_max = memory_mb, wl_output_size_max = 10 * 1024 * 1024\<rparr>
      in (lease, fb\<lparr>fb_leases := dict_set (fb_leases fb) (wl_lease_id lease) lease, fb_drawn := n + 2\<rparr>))"

definition release_lease :: "string \<Rightarrow> execution_fabric \<Rightarrow> worker_lease option \<times> execution_fabric" where
  "release_lease lease_id fb = (map_of (fb_leases fb) lease_id, fb\<lparr>fb_leases := dict_pop lease_id (fb_leases fb)\<rparr>)"

section \<open>Phases\<close>

definition simulate_execution :: "(string \<Rightarrow> string) \<Rightarrow> extension_manifest \<Rightarrow> worker_lease \<Rightarrow> string" where
  "simulate_execution sha256 m l = sha256 (dumps_compact (PDict
     [(''manifest_id'', PStr (em_extension_id m)), (''shard_id'', PStr (wl_shard_id l)),
      (''phase'', PInt (wl_phase_number l)), (''cpu_ms'', PInt (wl_cpu_ms_max l)),
      (''memory_mb'', PInt (wl_memory_mb_max l))]))"

definition receipt_key :: "phase_receipt \<Rightarrow> string" where
  "receipt_key r = show_int (pc_phase_number r) @ '':'' @ pc_shard_id r @ '':'' @ pc_status r @ '':'' @ pc_output_hash r"

definition compute_phase_hash :: "(string \<Rightarrow> string) \<Rightarrow> phase_receipt list \<Rightarrow> string" where
  "compute_phase_hash sha256 receipts = sha256 (dumps_default (PList (map PStr (sort (map receipt_key receipts)))))"

definition compute_replay_hash :: "(string \<Rightarrow> string) \<Rightarrow> phase_receipt list \<Rightarrow> string" where
  "compute_replay_hash sha256 receipts = sha256 (dumps_default (PList (map PStr (sort (map receipt_key receipts)))))"

definition run_manifest ::
  "(string \<Rightarrow> string) \<Rightarrow> fabric_env \<Rightarrow> int \<Rightarrow> string \<Rightarrow> extension_manifest \<Rightarrow> execution_fabric \<Rightarrow> phase_receipt \<times> execution_fabric" where
  "run_manifest sha256 env phase_number shard_id m fb =
     (let (lease, fb1) = lease_worker env shard_id (em_extension_id m) phase_number 5000 256 fb;
          receipt = \<lparr>pc_phase_number = phase_number, pc_shard_id = shard_id, pc_worker_id = wl_worker_id lease,
            pc_lease_id = wl_lease_id lease, pc_status = ''completed'', pc_output_hash = simulate_execution sha256 m lease,
            pc_evidence = ''Executed '' @ em_extension_id m @ '' on '' @ shard_id, pc_duration_ms = 10\<rparr>;
          (_, fb2) = release_lease (wl_lease_id lease) fb1
      in (receipt, fb2))"

fun run_shard ::
  "(string \<Rightarrow> string) \<Rightarrow> fabric_env \<Rightarrow> int \<Rightarrow> string \<Rightarrow> extension_manifest list \<Rightarrow> execution_fabric \<Rightarrow>
     phase_receipt list \<times> execution_fabric" where
  "run_shard sha256 env phase_number shard_id [] fb = ([], fb)"
| "run_shard sha256 env phase_number shard_id (m # ms) fb =
     (let (r, fb1) = run_manifest sha256 env phase_number shard_id m fb;
          (rs, fb2) = run_shard sha256 env phase_number shard_id ms fb1
      in (r # rs, fb2))"

fun run_shards ::
  "(string \<Rightarrow> string) \<Rightarrow> fabric_env \<Rightarrow> int \<Rightarrow> (string, extension_manifest list) dict \<Rightarrow> execution_fabric \<Rightarrow>
     phase_receipt list \<times> execution_fabric" where
  "run_shards sha256 env phase_number [] fb = ([], fb)"
| "run_shards sha256 env phase_number ((shard_id, ms) # rest) fb =
     (let (rs, fb1) = run_shard sha256 env phase_number shard_id ms fb;
          (rs', fb2) = run_shards sha256 env phase_number rest fb1
      in (rs @ rs', fb2))"

definition all_shards :: "int \<Rightarrow> string list" where
  "all_shards shard_count = map (\<lambda>i. shard_name (int i)) [0..<nat shard_count]"

fun assign_manifests ::
  "(string \<Rightarrow> string) \<Rightarrow> extension_manifest list \<Rightarrow> (string, extension_manifest list) dict \<Rightarrow> execution_fabric \<Rightarrow>
     ((string, extension_manifest list) dict \<times> execution_fabric) result" where
  "assign_manifests sha256 [] d fb = Inr (d, fb)"
| "assign_manifests sha256 (m # ms) d fb =
     res_bind (assign_to_shard sha256 (em_extension_id m) fb) (\<lambda>(shard_id, fb1).
     res_bind (dict_index d shard_id) (\<lambda>xs.
       assign_manifests sha256 ms (dict_set d shard_id (xs @ [m])) fb1))"

definition execute_phase ::
  "(string \<Rightarrow> string) \<Rightarrow> fabric_env \<Rightarrow> int \<Rightarrow> extension_manifest list \<Rightarrow> execution_fabric \<Rightarrow>
     (fabric_receipt \<times> execution_fabric) result" where
  "execute_phase sha256 env phase_number manifests fb =
     res_bind (assign_manifests sha256 manifests (map (\<lambda>s. (s, [])) (all_shards (fb_shard_count fb))) fb) (\<lambda>(assignments, fb1).
       let (receipts, fb2) = run_shards sha256 env phase_number assignments fb1;
           phase_hash = compute_phase_hash sha256 receipts;
           barrier = \<lparr>pb_phase_number = phase_number, pb_total_shards = fb_shard_count fb,
             pb_completed_shards = all_shards (fb_shard_count fb), pb_failed_shards = [], pb_phase_hash = phase_hash,
             pb_barrier_status = ''closed''\<rparr>;
           receipt = \<lparr>xf_execution_id = ''exec_'' @ env_uuid env (fb_drawn fb2), xf_pipeline_hash = phase_hash,
             xf_total_phases = 1, xf_phases_completed = int (length receipts), xf_phases_failed = 0,
             xf_final_status = ''success'', xf_phase_receipts = receipts,
             xf_barrier_hashes = [barrier_compute_hash sha256 barrier], xf_replay_hash = phase_hash\<rparr>
       in Inr (receipt, fb2\<lparr>fb_phase_receipts := dict_set (fb_phase_receipts fb2) phase_number receipts,
             fb_barriers := dict_set (fb_barriers fb2) phase_number barrier,
             fb_execution_log := fb_execution_log fb2 @ [receipt], fb_drawn := fb_drawn fb2 + 1\<rparr>))"

text \<open>The loop of \<open>execute_dag\<close>, with its early exit when a phase does not succeed.\<close>

fun run_phases ::
  "(string \<Rightarrow> string) \<Rightarrow> fabric_env \<Rightarrow> int \<Rightarrow> extension_manifest list list \<Rightarrow> phase_receipt list \<Rightarrow> string list \<Rightarrow>
     int \<Rightarrow> int \<Rightarrow> execution_fabric \<Rightarrow> ((phase_receipt list \<times> string list \<times> int \<times> int) \<times> execution_fabric) result" where
  "run_phases sha256 env phase_num [] receipts barriers completed failed fb = Inr ((receipts, barriers, completed, failed), fb)"
| "run_phases sha256 env phase_num (ms # phases) receipts barriers completed failed fb =
     res_bind (execute_phase sha256 env phase_num ms fb) (\<lambda>(r, fb1).
       let receipts' = receipts @ xf_phase_receipts r;
           barriers' = barriers @ xf_barrier_hashes r;
           n = int (length (xf_phase_receipts r))
       in if xf_final_status r = ''success''
          then run_phases sha256 env (phase_num + 1) phases receipts' barriers' (completed + n) failed fb1
          else Inr ((receipts', barriers', completed, failed + n), fb1))"

definition execute_dag ::
  "(string \<Rightarrow> string) \<Rightarrow> fabric_env \<Rightarrow> string \<Rightarrow> extension_manifest list list \<Rightarrow> execution_fabric \<Rightarrow>
     (fabric_receipt \<times> execution_fabric) result" where
  "execute_dag sha256 env execution_id phases fb =
     res_bind (run_phases sha256 env 1 phases [] [] 0 0 fb) (\<lambda>((receipts, barriers, completed, failed), fb1).
       let full_replay_hash = compute_replay_hash sha256 receipts in
       Inr (\<lparr>xf_execution_id = execution_id, xf_pipeline_hash = full_replay_hash,
             xf_total_phases = int (length phases), xf_phases_completed = completed, xf_phases_failed = failed,
             xf_final_status = (if failed = 0 then ''success'' else ''total_failure''),
             xf_phase_receipts = receipts, xf_barrier_hashes = barriers, xf_replay_hash = full_replay_hash\<rparr>, fb1))"

definition replay_execution :: "execution_fabric \<Rightarrow> string \<Rightarrow> string \<Rightarrow> fabric_receipt result" where
  "replay_execution fb execution_id replay_hash =
     (case find (\<lambda>r. xf_execution_id r = execution_id \<and> xf_replay_hash r = replay_hash) (fb_execution_log fb) of
        Some r \<Rightarrow> Inr r
      | None \<Rightarrow> Inl (ValueError (''No execution found with id='' @ execution_id @ '' hash='' @ replay_hash)))"

section \<open>The audit log\<close>

record fabric_event =
  fe_timestamp :: string
  fe_execution_id :: string
  fe_event_type :: string
  fe_detail :: string
  fe_evidence_hash :: string

definition log_event :: "fabric_event list \<Rightarrow> py_datetime \<Rightarrow> string \<Rightarrow> string \<Rightarrow> string \<Rightarrow> string \<Rightarrow> fabric_event list" where
  "log_event events t execution_id event_type detail evidence_hash =
     events @ [\<lparr>fe_timestamp = isoformat t, fe_execution_id = execution_id, fe_event_type = event_type,
       fe_detail = detail, fe_evidence_hash = evidence_hash\<rparr>]"

definition get_events :: "fabric_event list \<Rightarrow> string option \<Rightarrow> int \<Rightarrow> fabric_event list" where
  "get_events events execution_id limit =
     py_tail limit (case execution_id of
       None \<Rightarrow> events
     | Some i \<Rightarrow> if i = [] then events else filter (\<lambda>e. fe_execution_id e = i) events)"

section \<open>Assignment\<close>

text \<open>What \<open>hashlib\<close> promises of a digest: it is not empty and consists of hexadecimal digits.\<close>

definition hex_digest :: "(string \<Rightarrow> string) \<Rightarrow> bool" where
  "hex_digest sha256 \<longleftrightarrow> (\<forall>s. sha256 s \<noteq> [] \<and> list_all (\<lambda>c. hex_val c \<noteq> None) (sha256 s))"

definition the_shard :: "(string \<Rightarrow> string) \<Rightarrow> int \<Rightarrow> string \<Rightarrow> string" where
  "the_shard sha256 n manifest_id = projr (shard_of sha256 n manifest_id)"

lemma shard_of_ok:
  assumes "hex_digest sha256" "0 < n"
  shows "shard_of sha256 n manifest_id = Inr (the_shard sha256 n manifest_id)"
    and "the_shard sha256 n manifest_id \<in> set (all_shards n)"
proof -
  let ?h = "take 16 (sha256 manifest_id)"
  have "?h \<noteq> []" "list_all (\<lambda>c. hex_val c \<noteq> None) ?h"
    using assms(1) by (auto simp: hex_digest_def list_all_iff dest: in_set_takeD)
  then obtain h where h: "hex_int ?h = Inr h" by (simp add: hex_int_def)
  then show "shard_of sha256 n manifest_id = Inr (the_shard sha256 n manifest_id)"
    using assms(2) by (simp add: shard_of_def the_shard_def)
  obtain k where "the_shard sha256 n manifest_id = shard_name (int k)" "k < nat n"
    using assms(2) h by (intro that [of "nat (h mod n)"]) (simp_all add: shard_of_def the_shard_def nat_less_iff)
  then show "the_shard sha256 n manifest_id \<in> set (all_shards n)" by (simp add: all_shards_def)
qed

text \<open>The manifests of an assignment, each with its shard.\<close>

definition placed :: "(string, extension_manifest list) dict \<Rightarrow> (string \<times> extension_manifest) list" where
  "placed d = concat (map (\<lambda>(s, ms). map (Pair s) ms) d)"

lemma placed_set:
  "map_of d s = Some xs \<Longrightarrow> mset (placed (dict_set d s (xs @ [m]))) = add_mset (s, m) (mset (placed d))"
  by (induction d) (auto simp: placed_def)

text \<open>What an operation that only leases and releases leaves alone.\<close>

definition same_books :: "execution_fabric \<Rightarrow> execution_fabric \<Rightarrow> bool" where
  "same_books fb fb' \<longleftrightarrow> fb_shard_count fb' = fb_shard_count fb \<and> fb_execution_log fb' = fb_execution_log fb"

lemma assign_manifests_ok:
  assumes "hex_digest sha256" "0 < fb_shard_count fb" "set (all_shards (fb_shard_count fb)) \<subseteq> fst ` set d"
  shows "\<exists>d' fb'. assign_manifests sha256 ms d fb = Inr (d', fb') \<and> same_books fb fb' \<and>
    mset (placed d') = mset (placed d) + mset (map (\<lambda>m. (the_shard sha256 (fb_shard_count fb) (em_extension_id m), m)) ms)"
  using assms(2,3)
proof (induction ms arbitrary: d fb)
  case (Cons m ms)
  let ?s = "the_shard sha256 (fb_shard_count fb) (em_extension_id m)"
  note ok = shard_of_ok [OF assms(1) Cons.prems(1), of "em_extension_id m"]
  from ok(2) Cons.prems(2) obtain xs where xs: "map_of d ?s = Some xs" by (metis map_of_eq_None_iff not_None_eq subsetD)
  obtain fb1 where fb1: "assign_to_shard sha256 (em_extension_id m) fb = Inr (?s, fb1)" "same_books fb fb1"
    using ok(1) by (auto simp: assign_to_shard_def same_books_def Let_def)
  let ?d = "dict_set d ?s (xs @ [m])"
  have n: "fb_shard_count fb1 = fb_shard_count fb" using fb1(2) by (simp add: same_books_def)
  have "set (all_shards (fb_shard_count fb1)) \<subseteq> fst ` set ?d"
    using Cons.prems(2) n by (auto simp: dict_simps)
  from Cons.IH [OF _ this] Cons.prems(1) n obtain d' fb' where d': "assign_manifests sha256 ms ?d fb1 = Inr (d', fb')"
    "same_books fb1 fb'" "mset (placed d') = mset (placed ?d) + mset (map (\<lambda>m. (the_shard sha256 (fb_shard_count fb) (em_extension_id m), m)) ms)"
    by auto
  with fb1 xs placed_set [OF xs, of m] show ?case by (auto simp: dict_index_def same_books_def)
qed (simp add: same_books_def)

section \<open>Receipts\<close>

text \<open>The identity of the receipt for a manifest: no random identifier and no clock reading occurs in it.\<close>

definition output_hash :: "(string \<Rightarrow> string) \<Rightarrow> int \<Rightarrow> string \<Rightarrow> string \<Rightarrow> string" where
  "output_hash sha256 phase_number shard_id manifest_id = sha256 (dumps_compact (PDict
     [(''manifest_id'', PStr manifest_id), (''shard_id'', PStr shard_id), (''phase'', PInt phase_number),
      (''cpu_ms'', PInt 5000), (''memory_mb'', PInt 256)]))"

definition key_on :: "(string \<Rightarrow> string) \<Rightarrow> int \<Rightarrow> string \<Rightarrow> string \<Rightarrow> string" where
  "key_on sha256 phase_number shard_id manifest_id =
     show_int phase_number @ '':'' @ shard_id @ '':completed:'' @ output_hash sha256 phase_number shard_id manifest_id"

lemma run_manifest_spec:
  "run_manifest sha256 env p s m fb = (r, fb') \<Longrightarrow>
    receipt_key r = key_on sha256 p s (em_extension_id m) \<and> same_books fb fb'"
  by (auto simp: run_manifest_def lease_worker_def release_lease_def receipt_key_def key_on_def
      simulate_execution_def output_hash_def same_books_def Let_def)

lemma run_shard_spec:
  "run_shard sha256 env p s ms fb = (rs, fb') \<Longrightarrow>
    map receipt_key rs = map (\<lambda>m. key_on sha256 p s (em_extension_id m)) ms \<and> same_books fb fb'"
proof (induction ms arbitrary: fb rs)
  case (Cons m ms)
  then show ?case
    by (auto simp: Let_def same_books_def split: prod.splits dest!: run_manifest_spec Cons.IH)
qed (simp add: same_books_def)

lemma run_shards_spec:
  "run_shards sha256 env p d fb = (rs, fb') \<Longrightarrow>
    map receipt_key rs = map (\<lambda>(s, m). key_on sha256 p s (em_extension_id m)) (placed d) \<and> same_books fb fb'"
proof (induction d arbitrary: fb rs)
  case (Cons x d)
  then show ?case
    by (cases x) (auto simp: Let_def same_books_def placed_def comp_def split: prod.splits dest!: run_shard_spec Cons.IH)
qed (simp add: same_books_def placed_def)

definition phase_key :: "(string \<Rightarrow> string) \<Rightarrow> int \<Rightarrow> int \<Rightarrow> extension_manifest \<Rightarrow> string" where
  "phase_key sha256 n p m = key_on sha256 p (the_shard sha256 n (em_extension_id m)) (em_extension_id m)"

definition closed_barrier :: "(string \<Rightarrow> string) \<Rightarrow> int \<Rightarrow> int \<Rightarrow> extension_manifest list \<Rightarrow> phase_barrier" where
  "closed_barrier sha256 n p ms =
     \<lparr>pb_phase_number = p, pb_total_shards = n, pb_completed_shards = all_shards n, pb_failed_shards = [],
      pb_phase_hash = sha256 (dumps_default (PList (map PStr (sort (map (phase_key sha256 n p) ms))))),
      pb_barrier_status = ''closed''\<rparr>"

lemma sort_mset_cong: "mset xs = mset ys \<Longrightarrow> sort xs = sort ys"
  by (rule properties_for_sort) simp_all

lemma execute_phase_spec:
  assumes "hex_digest sha256" "0 < fb_shard_count fb"
  shows "\<exists>r fb'. execute_phase sha256 env p ms fb = Inr (r, fb') \<and> xf_final_status r = ''success'' \<and>
    mset (map receipt_key (xf_phase_receipts r)) = mset (map (phase_key sha256 (fb_shard_count fb) p) ms) \<and>
    xf_barrier_hashes r = [barrier_compute_hash sha256 (closed_barrier sha256 (fb_shard_count fb) p ms)] \<and>
    fb_shard_count fb' = fb_shard_count fb \<and>
    (\<exists>x. fb_execution_log fb' = fb_execution_log fb @ [x] \<and> prefix ''exec_'' (xf_execution_id x))"
proof -
  let ?n = "fb_shard_count fb" and ?d = "map (\<lambda>s. (s, [])) (all_shards (fb_shard_count fb))"
  have "placed ?d = []" by (induction "all_shards ?n") (auto simp: placed_def)
  with assign_manifests_ok [OF assms, of ?d ms] obtain d fb1 where d: "assign_manifests sha256 ms ?d fb = Inr (d, fb1)"
    "same_books fb fb1" "mset (placed d) = mset (map (\<lambda>m. (the_shard sha256 ?n (em_extension_id m), m)) ms)"
    by (force simp: comp_def)
  obtain rs fb2 where run: "run_shards sha256 env p d fb1 = (rs, fb2)" by (metis prod.exhaust)
  have "mset (map receipt_key rs) = image_mset (\<lambda>(s, m). key_on sha256 p s (em_extension_id m)) (mset (placed d))"
    using run_shards_spec [OF run] by simp
  also have "\<dots> = mset (map (phase_key sha256 ?n p) ms)"
    by (simp add: d(3) phase_key_def [abs_def] multiset.map_comp comp_def)
  finally have keys: "mset (map receipt_key rs) = mset (map (phase_key sha256 ?n p) ms)" .
  have "same_books fb1 fb2" using run_shards_spec [OF run] by simp
  with d run keys sort_mset_cong [OF keys] show ?thesis
    by (simp add: execute_phase_def Let_def same_books_def compute_phase_hash_def closed_barrier_def)
qed

text \<open>The keys of all receipts of an execution, phase by phase.\<close>

fun dag_keys :: "(string \<Rightarrow> string) \<Rightarrow> int \<Rightarrow> int \<Rightarrow> extension_manifest list list \<Rightarrow> string list" where
  "dag_keys sha256 n p [] = []"
| "dag_keys sha256 n p (ms # phases) = map (phase_key sha256 n p) ms @ dag_keys sha256 n (p + 1) phases"

fun dag_barriers :: "(string \<Rightarrow> string) \<Rightarrow> int \<Rightarrow> int \<Rightarrow> extension_manifest list list \<Rightarrow> string list" where
  "dag_barriers sha256 n p [] = []"
| "dag_barriers sha256 n p (ms # phases) =
     barrier_compute_hash sha256 (closed_barrier sha256 n p ms) # dag_barriers sha256 n (p + 1) phases"

lemma run_phases_spec:
  assumes "hex_digest sha256" "0 < fb_shard_count fb"
  shows "\<exists>rs fb'. run_phases sha256 env p phases receipts barriers completed failed fb =
      Inr ((receipts @ rs, barriers @ dag_barriers sha256 (fb_shard_count fb) p phases, completed + int (length rs), failed), fb') \<and>
    mset (map receipt_key rs) = mset (dag_keys sha256 (fb_shard_count fb) p phases) \<and>
    (\<exists>xs. fb_execution_log fb' = fb_execution_log fb @ xs \<and> (\<forall>x \<in> set xs. prefix ''exec_'' (xf_execution_id x)))"
  using assms(2)
proof (induction phases arbitrary: p receipts barriers completed fb)
  case (Cons ms phases)
  from execute_phase_spec [OF assms(1) Cons.prems, of env p ms] obtain r fb1 x where
    r: "execute_phase sha256 env p ms fb = Inr (r, fb1)" "xf_final_status r = ''success''"
    "mset (map receipt_key (xf_phase_receipts r)) = mset (map (phase_key sha256 (fb_shard_count fb) p) ms)"
    "xf_barrier_hashes r = [barrier_compute_hash sha256 (closed_barrier sha256 (fb_shard_count fb) p ms)]"
    "fb_shard_count fb1 = fb_shard_count fb" "fb_execution_log fb1 = fb_execution_log fb @ [x]" "prefix ''exec_'' (xf_execution_id x)"
    by blast
  have "0 < fb_shard_count fb1" using Cons.prems r(5) by simp
  from Cons.IH [OF this, of "p + 1" "receipts @ xf_phase_receipts r" "barriers @ xf_barrier_hashes r"
      "completed + int (length (xf_phase_receipts r))"] obtain rs fb' xs where
    "run_phases sha256 env (p + 1) phases (receipts @ xf_phase_receipts r) (barriers @ xf_barrier_hashes r)
        (completed + int (length (xf_phase_receipts r))) failed fb1 =
      Inr (((receipts @ xf_phase_receipts r) @ rs, (barriers @ xf_barrier_hashes r) @ dag_barriers sha256 (fb_shard_count fb) (p + 1) phases,
        completed + int (length (xf_phase_receipts r)) + int (length rs), failed), fb')"
    "mset (map receipt_key rs) = mset (dag_keys sha256 (fb_shard_count fb) (p + 1) phases)"
    "fb_execution_log fb' = fb_execution_log fb1 @ xs" "\<forall>x \<in> set xs. prefix ''exec_'' (xf_execution_id x)"
    unfolding r(5) by blast
  with r show ?case
    by (intro exI [of _ "xf_phase_receipts r @ rs"] exI [of _ fb'] conjI exI [of _ "x # xs"]) (auto simp: Let_def)
qed simp

lemma execute_dag_spec:
  assumes "hex_digest sha256" "0 < fb_shard_count fb"
  shows "\<exists>r fb'. execute_dag sha256 env eid phases fb = Inr (r, fb') \<and> xf_final_status r = ''success'' \<and>
    xf_phases_completed r = int (length (concat phases)) \<and> xf_phases_failed r = 0 \<and>
    xf_replay_hash r = sha256 (dumps_default (PList (map PStr (sort (dag_keys sha256 (fb_shard_count fb) 1 phases))))) \<and>
    xf_barrier_hashes r = dag_barriers sha256 (fb_shard_count fb) 1 phases \<and>
    (\<exists>xs. fb_execution_log fb' = fb_execution_log fb @ xs \<and> (\<forall>x \<in> set xs. prefix ''exec_'' (xf_execution_id x)))"
proof -
  from run_phases_spec [OF assms, of env 1 phases "[]" "[]" 0 0] obtain rs fb' where
    run: "run_phases sha256 env 1 phases [] [] 0 0 fb = Inr ((rs, dag_barriers sha256 (fb_shard_count fb) 1 phases, int (length rs), 0), fb')"
    and keys: "mset (map receipt_key rs) = mset (dag_keys sha256 (fb_shard_count fb) 1 phases)"
    and log: "\<exists>xs. fb_execution_log fb' = fb_execution_log fb @ xs \<and> (\<forall>x \<in> set xs. prefix ''exec_'' (xf_execution_id x))"
    by auto
  have "length (dag_keys sha256 n p phases) = length (concat phases)" for n p
    by (induction phases arbitrary: p) auto
  with keys have "length rs = length (concat phases)" by (metis length_map size_mset)
  with run log sort_mset_cong [OF keys] show ?thesis
    by (simp add: execute_dag_def compute_replay_hash_def Let_def)
qed

lemma phase_key_perm:
  "mset (map em_extension_id ms) = mset (map em_extension_id ms') \<Longrightarrow>
    mset (map (phase_key sha256 n p) ms) = mset (map (phase_key sha256 n p) ms')"
proof -
  let ?f = "\<lambda>i. key_on sha256 p (the_shard sha256 n i) i"
  have f: "map (phase_key sha256 n p) xs = map ?f (map em_extension_id xs)" for xs
    by (simp add: phase_key_def)
  assume "mset (map em_extension_id ms) = mset (map em_extension_id ms')"
  then have "mset (map ?f (map em_extension_id ms)) = mset (map ?f (map em_extension_id ms'))"
    unfolding mset_map by simp
  then show ?thesis unfolding f .
qed

lemma dag_perm:
  assumes "list_all2 (\<lambda>ms ms'. mset (map em_extension_id ms) = mset (map em_extension_id ms')) phases phases'"
  shows "mset (dag_keys sha256 n p phases) = mset (dag_keys sha256 n p phases')"
    and "dag_barriers sha256 n p phases = dag_barriers sha256 n p phases'"
  using assms
proof (induction arbitrary: p rule: list_all2_induct)
  case (Cons ms phases ms' phases')
  note key = phase_key_perm [OF Cons.hyps(1), of sha256 n]
  { case 1 show ?case using key Cons.IH(1) by simp }
  { case 2 show ?case using sort_mset_cong [OF key] Cons.IH(2) by (simp add: closed_barrier_def) }
qed simp_all

section \<open>Properties\<close>

text \<open>
  C9 (dag_hash_deterministic). With a positive number of shards an execution always succeeds, with one
  receipt per manifest, and its replay hash and barrier hashes depend on the identifiers of
  the manifests of each phase only: not on their order within a phase, not on random lease
  and worker identifiers or clock readings, and not on what the fabric executed before.
\<close>

theorem dag_hash_deterministic:
  assumes "hex_digest sha256" and "0 < fb_shard_count fb" and "fb_shard_count fb' = fb_shard_count fb"
    and "list_all2 (\<lambda>ms ms'. mset (map em_extension_id ms) = mset (map em_extension_id ms')) phases phases'"
  shows "\<exists>r s fb1 fb1'. execute_dag sha256 env eid phases fb = Inr (r, fb1) \<and>
    execute_dag sha256 env' eid' phases' fb' = Inr (s, fb1') \<and>
    xf_replay_hash r = xf_replay_hash s \<and> xf_barrier_hashes r = xf_barrier_hashes s \<and>
    xf_final_status r = ''success'' \<and> xf_phases_completed r = int (length (concat phases))"
proof -
  have p: "0 < fb_shard_count fb'" using assms(2,3) by simp
  from execute_dag_spec [OF assms(1,2), of env eid phases] execute_dag_spec [OF assms(1) p, of env' eid' phases']
    dag_perm [OF assms(4), of sha256 "fb_shard_count fb" 1] assms(3) show ?thesis
    by (auto dest: sort_mset_cong)
qed

definition example_manifest :: "string \<Rightarrow> extension_manifest" where
  "example_manifest i = \<lparr>em_extension_id = i, em_package_name = i, em_package_version = ''1'', em_package_hash = [],
     em_capability_class = VISUALIZATION, em_declared_inputs = [], em_declared_outputs = [], em_network_access = False,
     em_filesystem_access = False, em_subprocess_access = False, em_dynamic_eval_access = False,
     em_thread_spawn_access = False, em_deterministic_claim = True, em_replayability_claim = True,
     em_resource_cpu_ms_max = 1000, em_resource_memory_mb_max = 128, em_resource_output_size_max = 1048576,
     em_semantic_version = ''1.0.0'', em_provenance_source_url = None, em_provenance_author_pgp_fingerprint = None,
     em_provenance_build_timestamp = DateTime 2026 1 2 3 4 5 0, em_trust_zone = SANDBOX_EXPERIMENTAL,
     em_status = PENDING_INSPECTION, em_inspection_receipt_hash = None, em_normalization_receipt_hash = None,
     em_admission_receipt_hash = None, em_rejection_reason = None, em_description = None, em_entrypoint = None,
     em_dependencies = [], em_telemetry_surfaces = [], em_metadata = []\<rparr>"

definition example_env :: "string \<Rightarrow> fabric_env" where
  "example_env u = \<lparr>env_uuid = (\<lambda>n. u @ show_nat n), env_now = (\<lambda>n. DateTime 2026 1 2 3 4 5 n)\<rparr>"

text \<open>A digest with hexadecimal digits: the code of each character in hexadecimal, after a leading digit.\<close>

definition example_digest :: "string \<Rightarrow> string" where
  "example_digest s = CHR ''f'' # concat (map (\<lambda>c. [hex_char (of_char c div 16 mod 16), hex_char (of_char c mod 16)]) s)"

lemma example_digest_hex: "hex_digest example_digest"
proof -
  have "hex_val (hex_char (k mod 16)) \<noteq> None" for k :: nat by simp
  then show ?thesis by (auto simp: hex_digest_def example_digest_def list_all_iff hex_val_def)
qed

theorem dag_hash_deterministic_witness:
  "\<exists>r s fb1 fb1'.
    execute_dag example_digest (example_env ''u'') ''run-1'' [[example_manifest ''a'', example_manifest ''b''], [example_manifest ''c'']] (new_fabric 4) = Inr (r, fb1) \<and>
    execute_dag example_digest (example_env ''v'') ''run-2'' [[example_manifest ''b'', example_manifest ''a''], [example_manifest ''c'']] (new_fabric 4) = Inr (s, fb1') \<and>
    xf_replay_hash r = xf_replay_hash s \<and> xf_phases_completed r = 3"
proof -
  have n: "0 < fb_shard_count (new_fabric 4)" by (simp add: new_fabric_def)
  from dag_hash_deterministic [OF example_digest_hex n refl, of
      "[[example_manifest ''a'', example_manifest ''b''], [example_manifest ''c'']]"
      "[[example_manifest ''b'', example_manifest ''a''], [example_manifest ''c'']]"
      "example_env ''u''" "''run-1''" "example_env ''v''" "''run-2''"]
  show ?thesis by (auto simp: add_mset_commute)
qed

text \<open>
  The receipt of a multi-phase execution is not entered into the execution
  log, only those of its phases are, under identifiers of their own: a replay of the
  execution by its own id raises \<open>ValueError\<close>, whatever hash is given, unless that id was in
  the log before.
\<close>

theorem dag_replay_unknown:
  assumes "hex_digest sha256" and "0 < fb_shard_count fb" and "execute_dag sha256 env eid phases fb = Inr (r, fb')"
    and "eid \<notin> xf_execution_id ` set (fb_execution_log fb)" and "\<not> prefix ''exec_'' eid"
  shows "replay_execution fb' eid h = Inl (ValueError (''No execution found with id='' @ eid @ '' hash='' @ h))"
proof -
  obtain xs where "fb_execution_log fb' = fb_execution_log fb @ xs" "\<forall>x \<in> set xs. prefix ''exec_'' (xf_execution_id x)"
    using execute_dag_spec [OF assms(1,2), of env eid phases] assms(3) by auto
  with assms(4,5) have "find (\<lambda>r. xf_execution_id r = eid \<and> xf_replay_hash r = h) (fb_execution_log fb') = None"
    by (auto simp: find_None_iff)
  then show ?thesis by (simp add: replay_execution_def)
qed

theorem dag_replay_unknown_witness:
  "\<exists>r fb'. execute_dag example_digest (example_env ''u'') ''run-1'' [[example_manifest ''a'']] (new_fabric 4) = Inr (r, fb') \<and>
    replay_execution fb' ''run-1'' (xf_replay_hash r) =
      Inl (ValueError (''No execution found with id='' @ ''run-1'' @ '' hash='' @ xf_replay_hash r))"
proof -
  have n: "0 < fb_shard_count (new_fabric 4)" by (simp add: new_fabric_def)
  obtain r fb' where x: "execute_dag example_digest (example_env ''u'') ''run-1'' [[example_manifest ''a'']] (new_fabric 4) = Inr (r, fb')"
    using execute_dag_spec [OF example_digest_hex n, of "example_env ''u''" "''run-1''" "[[example_manifest ''a'']]"] by auto
  from dag_replay_unknown [OF example_digest_hex n x, of "xf_replay_hash r"] x show ?thesis
    by (simp add: new_fabric_def)
qed

end
