(* ===== verification/Extension_Policy.thy ===== *)
theory Extension_Policy
  imports Extension_Manifest
begin

text \<open>
  The judgements the extension governor passes on a manifest and on an extension's output: the policy
  engine (\<open>policy.py\<close>), the trust zones (\<open>trust_zones.py\<close>) and the output normaliser (\<open>normalizer.py\<close>) of
  \<open>pi_extension_governor\<close>. The policy is data: ten rules built by the constructor, each with a condition
  dictionary that \<open>evaluate_rule\<close> interprets; \<open>evaluate_passed\<close> shows what they add up to.
\<close>

section \<open>Policy\<close>

record policy_rule =
  pr_rule_id :: string
  pr_rule_type :: string
  pr_condition :: payload
  pr_action :: string
  pr_severity :: string

text \<open>The constructor's arguments; a set is the list of its elements in iteration order.\<close>

record policy_config =
  pc_approved_capability_classes :: "capability_class list"
  pc_banned_imports :: "string list"
  pc_max_cpu_ms :: int
  pc_max_memory_mb :: int
  pc_max_output_size :: int
  pc_require_replay_safe :: bool
  pc_require_deterministic :: bool
  pc_allowed_trust_zones :: "trust_zone list"
  pc_allowed_telemetry_surfaces :: "string list"

definition all_capability_classes :: "capability_class list" where
  "all_capability_classes =
     [OPENAPI_TOOLING, GRAPHQL_TOOLING, KUBERNETES_MANIFEST, TERRAFORM_ANALYSIS, CICD_INTEGRATION,
      VISUALIZATION, OBSERVABILITY_ADAPTER, STATIC_ANALYZER]"

text \<open>\<open>x or default\<close>: an empty set counts as none given.\<close>

definition py_or :: "'a list \<Rightarrow> 'a list \<Rightarrow> 'a list" where
  "py_or xs dflt = (if xs = [] then dflt else xs)"

definition approved_classes :: "policy_config \<Rightarrow> capability_class list" where
  "approved_classes c = py_or (pc_approved_capability_classes c) all_capability_classes"

definition allowed_zones :: "policy_config \<Rightarrow> trust_zone list" where
  "allowed_zones c = py_or (pc_allowed_trust_zones c) [CORE_TRUSTED, GOVERNED_EXTENSION]"

definition mk_rule :: "string \<Rightarrow> string \<Rightarrow> payload \<Rightarrow> string \<Rightarrow> string \<Rightarrow> policy_rule" where
  "mk_rule rid typ cond act sev =
     \<lparr>pr_rule_id = rid, pr_rule_type = typ, pr_condition = cond, pr_action = act, pr_severity = sev\<rparr>"

definition build_rules :: "policy_config \<Rightarrow> policy_rule list" where
  "build_rules c =
     [mk_rule ''capability_class'' ''required_capability''
        [(''allowed'', PList (map (\<lambda>x. PStr (capability_class_value x)) (approved_classes c)))] ''ALLOW'' ''CRITICAL'',
      mk_rule ''resource_cpu'' ''max_resource''
        [(''max'', PInt (pc_max_cpu_ms c)), (''field'', PStr ''resource_cpu_ms_max'')] ''DENY'' ''CRITICAL'',
      mk_rule ''resource_memory'' ''max_resource''
        [(''max'', PInt (pc_max_memory_mb c)), (''field'', PStr ''resource_memory_mb_max'')] ''DENY'' ''CRITICAL'',
      mk_rule ''replay_safe'' ''required_capability''
        [(''required'', PBool (pc_require_replay_safe c)), (''field'', PStr ''replayability_claim'')] ''DENY'' ''HIGH'',
      mk_rule ''deterministic'' ''required_capability''
        [(''required'', PBool (pc_require_deterministic c)), (''field'', PStr ''deterministic_claim'')] ''DENY'' ''HIGH'',
      mk_rule ''trust_zone'' ''trust_zone_restriction''
        [(''allowed'', PList (map (\<lambda>z. PStr (trust_zone_value z)) (allowed_zones c)))] ''DENY'' ''CRITICAL'',
      mk_rule ''network_access'' ''banned_capability''
        [(''banned'', PBool True), (''field'', PStr ''network_access'')] ''DENY'' ''HIGH'',
      mk_rule ''filesystem_access'' ''banned_capability''
        [(''banned'', PBool True), (''field'', PStr ''filesystem_access'')] ''DENY'' ''HIGH'',
      mk_rule ''subprocess_access'' ''banned_capability''
        [(''banned'', PBool True), (''field'', PStr ''subprocess_access'')] ''DENY'' ''CRITICAL'',
      mk_rule ''dynamic_eval'' ''banned_capability''
        [(''banned'', PBool True), (''field'', PStr ''dynamic_eval_access'')] ''DENY'' ''CRITICAL'']"

text \<open>\<open>getattr(manifest, field, default)\<close> for the fields a manifest's hash covers.\<close>

definition getattr_manifest :: "extension_manifest \<Rightarrow> pyval \<Rightarrow> pyval \<Rightarrow> pyval" where
  "getattr_manifest m field dflt = dict_get (manifest_dict m) (py_str field) dflt"

definition elements :: "pyval \<Rightarrow> pyval list" where
  "elements v = (case v of PList vs \<Rightarrow> vs | _ \<Rightarrow> [])"

text \<open>What one rule finds: the verdict, the value it looked at and the text of a failure.\<close>

definition rule_verdict :: "policy_rule \<Rightarrow> extension_manifest \<Rightarrow> (bool \<times> pyval \<times> string) result" where
  "rule_verdict r m =
     (let cond = pr_condition r in
      if pr_rule_type r = ''required_capability'' then
        if dict_has cond ''allowed'' then
          res_bind (dict_index cond ''allowed'') (\<lambda>allowed.
            let v = PStr (capability_class_value (em_capability_class m));
                passed = py_in v (elements allowed)
            in Inr (passed, v, if passed then []
                 else ''Capability class '' @ [CHR 0x27] @ py_str v @ [CHR 0x27] @ '' not in approved list''))
        else if dict_has cond ''required'' then
          res_bind (dict_index cond ''field'') (\<lambda>field.
            res_bind (dict_index cond ''required'') (\<lambda>required.
              let v = getattr_manifest m field (PBool False);
                  passed = py_eq (PBool (truthy v)) required
              in Inr (passed, v, if passed then []
                   else ''Field '' @ [CHR 0x27] @ py_str field @ [CHR 0x27] @ '' required='' @ py_str required
                        @ '', actual='' @ py_str v)))
        else Inr (True, PNone, [])
      else if pr_rule_type r = ''max_resource'' then
        res_bind (dict_index cond ''field'') (\<lambda>field.
          res_bind (dict_index cond ''max'') (\<lambda>max_val.
            let v = getattr_manifest m field (PInt 0) in
            res_bind (py_lt max_val v) (\<lambda>exceeds.
              Inr (\<not> exceeds, v, if \<not> exceeds then []
                else ''Resource '' @ [CHR 0x27] @ py_str field @ [CHR 0x27] @ '' value='' @ py_str v
                     @ '' exceeds max='' @ py_str max_val))))
      else if pr_rule_type r = ''trust_zone_restriction'' then
        res_bind (dict_index cond ''allowed'') (\<lambda>allowed.
          let v = PStr (trust_zone_value (em_trust_zone m));
              passed = py_in v (elements allowed)
          in Inr (passed, v, if passed then []
               else ''Trust zone '' @ [CHR 0x27] @ py_str v @ [CHR 0x27] @ '' not in allowed zones''))
      else if pr_rule_type r = ''banned_capability'' then
        res_bind (dict_index cond ''field'') (\<lambda>field.
          res_bind (dict_index cond ''banned'') (\<lambda>banned.
            let v = getattr_manifest m field (PBool False);
                passed = (if truthy banned then \<not> truthy v else True)
            in Inr (passed, v, if passed then []
                 else ''Banned capability '' @ [CHR 0x27] @ py_str field @ [CHR 0x27] @ '' is enabled'')))
      else Inr (True, PNone, []))"

definition evaluate_rule :: "policy_rule \<Rightarrow> extension_manifest \<Rightarrow> payload result" where
  "evaluate_rule r m =
     res_bind (rule_verdict r m) (\<lambda>(passed, field_value, detail).
       Inr [(''rule_id'', PStr (pr_rule_id r)), (''rule_type'', PStr (pr_rule_type r)),
            (''action'', PStr (pr_action r)), (''severity'', PStr (pr_severity r)), (''passed'', PBool passed),
            (''field_value'', field_value), (''detail'', PStr detail)])"

record policy_evaluation =
  pe_manifest_id :: string
  pe_passed :: bool
  pe_evaluations :: "payload list"
  pe_policy_hash :: string

fun evaluate_rules :: "extension_manifest \<Rightarrow> policy_rule list \<Rightarrow> payload list \<Rightarrow> bool \<Rightarrow> (payload list \<times> bool) result" where
  "evaluate_rules m [] evaluations passed = Inr (evaluations, passed)"
| "evaluate_rules m (r # rs) evaluations passed =
     res_bind (evaluate_rule r m) (\<lambda>res.
       evaluate_rules m rs (evaluations @ [res])
         (if py_eq (dict_get res ''action'' PNone) (PStr ''DENY'') \<and> \<not> truthy (dict_get res ''passed'' PNone)
          then False else passed))"

definition admission_policy_evaluate ::
    "(string \<Rightarrow> string) \<Rightarrow> policy_config \<Rightarrow> extension_manifest \<Rightarrow> policy_evaluation result" where
  "admission_policy_evaluate sha256 c m =
     res_bind (evaluate_rules m (build_rules c) [] True) (\<lambda>(evaluations, passed).
       Inr \<lparr>pe_manifest_id = em_extension_id m, pe_passed = passed, pe_evaluations = evaluations,
            pe_policy_hash = sha256 (dumps_compact (PList (map PDict evaluations)))\<rparr>)"

section \<open>Trust zones\<close>

record trust_zone_decision =
  td_manifest_id :: string
  td_requested_zone :: trust_zone
  td_assigned_zone :: trust_zone
  td_allowed :: bool
  td_reason :: string

record trust_enforcer =
  te_core_trusted_packages :: "string list"
  te_sandbox_always_experimental :: bool

definition trust_evaluate :: "trust_enforcer \<Rightarrow> extension_manifest \<Rightarrow> trust_zone_decision" where
  "trust_evaluate te m =
     (let requested = em_trust_zone m;
          grant = (\<lambda>zone reason. \<lparr>td_manifest_id = em_extension_id m, td_requested_zone = requested,
                      td_assigned_zone = zone, td_allowed = True, td_reason = reason\<rparr>) in
      if te_sandbox_always_experimental te \<and> requested = SANDBOX_EXPERIMENTAL then
        grant SANDBOX_EXPERIMENTAL ''Experimental packages remain in sandbox; no governance authority granted''
      else if requested = CORE_TRUSTED then
        if em_package_hash m \<in> set (te_core_trusted_packages te)
        then grant CORE_TRUSTED ''Package in core trusted allowlist''
        else grant GOVERNED_EXTENSION ''Core trusted request denied; downgraded to governed extension''
      else if requested = GOVERNED_EXTENSION then grant GOVERNED_EXTENSION ''Standard governed extension path''
      else grant SANDBOX_EXPERIMENTAL ''Default sandbox assignment'')"

definition can_gain_governance_authority :: "extension_manifest \<Rightarrow> bool" where
  "can_gain_governance_authority m \<longleftrightarrow> em_trust_zone m \<noteq> SANDBOX_EXPERIMENTAL"

section \<open>Normalisation of outputs\<close>

definition CANONICAL_TYPES :: "string list" where
  "CANONICAL_TYPES =
     [''SemanticIRTrace'', ''DependencyGraph'', ''ReplaySurfaceReport'', ''ComplianceArtifact'', ''TopologyGraph'',
      ''BoundaryValidationReport'', ''TelemetryExposureReport'', ''ObservabilityDriftReport'',
      ''SecuritySimulationReport'', ''SensitiveFlowReport'']"

text \<open>
  \<open>raw_output\<close> comes from the sandbox's report. \<open>.get\<close> on something else than a dictionary raises, and so
  does testing an unhashable artifact type for membership in the set of canonical types.
\<close>

definition normalize :: "string \<Rightarrow> pyval \<Rightarrow> extension_manifest \<Rightarrow> payload result" where
  "normalize now raw_output m =
     (case raw_output of
        PDict d \<Rightarrow>
          (let artifact_type = dict_get d ''artifact_type'' (PStr ''UNKNOWN'') in
           if \<not> py_hashable artifact_type then Inl TypeError
           else if \<not> py_in artifact_type (map PStr CANONICAL_TYPES) then
             Inr [(''artifact_type'', PStr ''NormalizationRejection''),
                  (''extension_id'', PStr (em_extension_id m)),
                  (''reason'', PStr (''Unknown artifact_type: '' @ py_str artifact_type)),
                  (''allowed_types'', PList (map PStr (sort CANONICAL_TYPES)))]
           else
             Inr [(''artifact_type'', artifact_type), (''extension_id'', PStr (em_extension_id m)),
                  (''package_hash'', PStr (em_package_hash m)),
                  (''capability_class'', PStr (capability_class_value (em_capability_class m))),
                  (''normalized_at'', PStr now), (''payload'', dict_get d ''payload'' (PDict [])),
                  (''provenance'', PDict [(''manifest_id'', PStr (em_extension_id m)),
                     (''package_version'', PStr (em_package_version m)),
                     (''capability_class'', PStr (capability_class_value (em_capability_class m)))]),
                  (''schema_validated'', PBool True), (''mesh_compatible'', PBool True)])
      | _ \<Rightarrow> Inl AttributeError)"

definition validate_canonical_schema :: "payload \<Rightarrow> bool" where
  "validate_canonical_schema artifact =
     list_all (\<lambda>k. dict_has artifact k) [''artifact_type'', ''extension_id'', ''package_hash'', ''payload'', ''provenance'']"

section \<open>What the policy decides\<close>

text \<open>The conjunction of the rules that can deny.\<close>

definition policy_admits :: "policy_config \<Rightarrow> extension_manifest \<Rightarrow> bool" where
  "policy_admits c m \<longleftrightarrow>
     em_resource_cpu_ms_max m \<le> pc_max_cpu_ms c \<and>
     em_resource_memory_mb_max m \<le> pc_max_memory_mb c \<and>
     em_replayability_claim m = pc_require_replay_safe c \<and>
     em_deterministic_claim m = pc_require_deterministic c \<and>
     em_trust_zone m \<in> set (allowed_zones c) \<and>
     \<not> em_network_access m \<and> \<not> em_filesystem_access m \<and> \<not> em_subprocess_access m \<and> \<not> em_dynamic_eval_access m"

lemma trust_zone_value_inj [simp]: "trust_zone_value a = trust_zone_value b \<longleftrightarrow> a = b"
  by (cases a; cases b) simp_all

lemma py_in_values [simp]: "py_in (PStr s) (map (\<lambda>x. PStr (f x)) xs) \<longleftrightarrow> s \<in> f ` set xs"
  by (auto simp: py_in_def list_ex_iff)

text \<open>Each attribute a rule names, as \<open>getattr\<close> finds it.\<close>

lemma getattr_fields [simp]:
  "getattr_manifest m (PStr ''resource_cpu_ms_max'') d = PInt (em_resource_cpu_ms_max m)"
  "getattr_manifest m (PStr ''resource_memory_mb_max'') d = PInt (em_resource_memory_mb_max m)"
  "getattr_manifest m (PStr ''replayability_claim'') d = PBool (em_replayability_claim m)"
  "getattr_manifest m (PStr ''deterministic_claim'') d = PBool (em_deterministic_claim m)"
  "getattr_manifest m (PStr ''network_access'') d = PBool (em_network_access m)"
  "getattr_manifest m (PStr ''filesystem_access'') d = PBool (em_filesystem_access m)"
  "getattr_manifest m (PStr ''subprocess_access'') d = PBool (em_subprocess_access m)"
  "getattr_manifest m (PStr ''dynamic_eval_access'') d = PBool (em_dynamic_eval_access m)"
  by (simp_all add: getattr_manifest_def dict_get_def manifest_dict_def)

text \<open>The verdict of each form of rule the constructor builds.\<close>

lemma verdict_class:
  "\<exists>v d. rule_verdict (mk_rule i ''required_capability'' [(''allowed'', PList (map (\<lambda>x. PStr (capability_class_value x)) cs))] a sv) m
     = Inr (capability_class_value (em_capability_class m) \<in> capability_class_value ` set cs, v, d)"
  by (simp add: rule_verdict_def mk_rule_def dict_has_def dict_index_def elements_def Let_def)

lemma verdict_max:
  "getattr_manifest m (PStr f) (PInt 0) = PInt n \<Longrightarrow>
   \<exists>v d. rule_verdict (mk_rule i ''max_resource'' [(''max'', PInt b), (''field'', PStr f)] a sv) m = Inr (n \<le> b, v, d)"
  by (simp add: rule_verdict_def mk_rule_def dict_has_def dict_index_def Let_def not_less)

lemma verdict_required:
  "getattr_manifest m (PStr f) (PBool False) = PBool x \<Longrightarrow>
   \<exists>v d. rule_verdict (mk_rule i ''required_capability'' [(''required'', PBool b), (''field'', PStr f)] a sv) m
     = Inr (x = b, v, d)"
  by (simp add: rule_verdict_def mk_rule_def dict_has_def dict_index_def Let_def)

lemma verdict_zone:
  "\<exists>v d. rule_verdict (mk_rule i ''trust_zone_restriction'' [(''allowed'', PList (map (\<lambda>z. PStr (trust_zone_value z)) zs))] a sv) m
     = Inr (em_trust_zone m \<in> set zs, v, d)"
  by (simp add: rule_verdict_def mk_rule_def dict_has_def dict_index_def elements_def Let_def image_iff)

lemma verdict_banned:
  "getattr_manifest m (PStr f) (PBool False) = PBool x \<Longrightarrow>
   \<exists>v d. rule_verdict (mk_rule i ''banned_capability'' [(''banned'', PBool True), (''field'', PStr f)] a sv) m
     = Inr (\<not> x, v, d)"
  by (simp add: rule_verdict_def mk_rule_def dict_has_def dict_index_def Let_def)

lemma evaluate_rules_step:
  assumes "\<exists>v d. rule_verdict r m = Inr (b, v, d)"
    and "\<And>es. \<exists>es'. evaluate_rules m rs es (passed \<and> (pr_action r = ''DENY'' \<longrightarrow> b)) = Inr (es', q)"
  shows "\<exists>es'. evaluate_rules m (r # rs) es passed = Inr (es', q)"
proof -
  obtain v d where "rule_verdict r m = Inr (b, v, d)" using assms(1) by auto
  moreover have "(if pr_action r = ''DENY'' \<and> \<not> b then False else passed) = (passed \<and> (pr_action r = ''DENY'' \<longrightarrow> b))"
    by auto
  ultimately show ?thesis using assms(2) by (simp add: evaluate_rule_def dict_get_def)
qed

lemma mk_rule_action [simp]: "pr_action (mk_rule i t c a sv) = a"
  by (simp add: mk_rule_def)

lemmas verdicts = verdict_class verdict_zone
  verdict_max [OF getattr_fields(1)] verdict_max [OF getattr_fields(2)]
  verdict_required [OF getattr_fields(3)] verdict_required [OF getattr_fields(4)]
  verdict_banned [OF getattr_fields(5)] verdict_banned [OF getattr_fields(6)]
  verdict_banned [OF getattr_fields(7)] verdict_banned [OF getattr_fields(8)]

lemma admission_policy_evaluate_ok:
  "\<exists>e. admission_policy_evaluate sha256 c m = Inr e \<and> pe_passed e = policy_admits c m \<and> pe_manifest_id e = em_extension_id m"
proof -
  have "\<exists>es. evaluate_rules m (build_rules c) [] True = Inr (es, policy_admits c m)"
    unfolding build_rules_def by (rule evaluate_rules_step, rule verdicts)+ (simp add: policy_admits_def)
  then show ?thesis by (auto simp: admission_policy_evaluate_def)
qed

section \<open>Properties\<close>

text \<open>
  Evaluating the policy never raises, and it passes exactly when the manifest stays
  within the CPU and memory limits, makes the replay and determinism claims exactly as the policy is
  configured (a policy that does not require a claim demands its absence), asks for a trust zone of the
  allowed set, or of the default one when that set is empty, and for no network, file, process or eval
  access. The capability class, whose rule has the action ALLOW, plays no role.
\<close>

theorem policy_verdict:
  "\<exists>e. admission_policy_evaluate sha256 c m = Inr e \<and>
    (pe_passed e \<longleftrightarrow>
       em_resource_cpu_ms_max m \<le> pc_max_cpu_ms c \<and> em_resource_memory_mb_max m \<le> pc_max_memory_mb c \<and>
       em_replayability_claim m = pc_require_replay_safe c \<and> em_deterministic_claim m = pc_require_deterministic c \<and>
       em_trust_zone m \<in> set (if pc_allowed_trust_zones c = [] then [CORE_TRUSTED, GOVERNED_EXTENSION]
                              else pc_allowed_trust_zones c) \<and>
       \<not> (em_network_access m \<or> em_filesystem_access m \<or> em_subprocess_access m \<or> em_dynamic_eval_access m))"
  using admission_policy_evaluate_ok [of sha256 c m] by (auto simp: policy_admits_def allowed_zones_def py_or_def)

text \<open>
  The trust zones: the core zone is given only to allow-listed packages that ask for it, and the packages
  that end in the sandbox are those that cannot gain governance authority.
\<close>

lemma trust_zone_assignment:
  "td_assigned_zone (trust_evaluate te m) = CORE_TRUSTED \<longleftrightarrow>
     em_trust_zone m = CORE_TRUSTED \<and> em_package_hash m \<in> set (te_core_trusted_packages te)"
  "td_assigned_zone (trust_evaluate te m) = SANDBOX_EXPERIMENTAL \<longleftrightarrow> \<not> can_gain_governance_authority m"
  by (cases "em_trust_zone m"; simp add: trust_evaluate_def can_gain_governance_authority_def Let_def)+

text \<open>A dictionary with a hashable artifact type is either refused by name or becomes a valid canonical artifact.\<close>

lemma normalize_dict:
  assumes "py_hashable (dict_get d ''artifact_type'' (PStr ''UNKNOWN''))"
  shows "\<exists>n. normalize now (PDict d) m = Inr n \<and>
    (if py_in (dict_get d ''artifact_type'' (PStr ''UNKNOWN'')) (map PStr CANONICAL_TYPES)
     then validate_canonical_schema n \<and> dict_get n ''payload'' PNone = dict_get d ''payload'' (PDict [])
     else dict_get n ''artifact_type'' PNone = PStr ''NormalizationRejection'')"
  using assms by (auto simp: normalize_def Let_def validate_canonical_schema_def dict_has_def dict_get_def)

end
