(* ===== verification/Py_Strings.thy ===== *)
theory Py_Strings
  imports Py_Prelude
begin

text \<open>
  Python's string methods and the regular expressions the sources use, on code points below 256: containment,
  prefixes, case, stripping, and the search for a word, \<open>re.search(rf"\b{re.escape(w)}\b", s)\<close>, with what each of
  them finds.
\<close>

section \<open>Strings\<close>

text \<open>\<open>p in s\<close>, \<open>s.startswith(p)\<close>, \<open>s.endswith(p)\<close> and \<open>s.lower()\<close> on code points below 256.\<close>

fun py_contains :: "string \<Rightarrow> string \<Rightarrow> bool" where
  "py_contains p [] = (p = [])"
| "py_contains p (c # s) = (take (length p) (c # s) = p \<or> py_contains p s)"

definition py_startswith :: "string \<Rightarrow> string \<Rightarrow> bool" where
  "py_startswith s p \<longleftrightarrow> take (length p) s = p"

definition py_endswith :: "string \<Rightarrow> string \<Rightarrow> bool" where
  "py_endswith s p \<longleftrightarrow> length p \<le> length s \<and> drop (length s - length p) s = p"

definition lower_char :: "char \<Rightarrow> char" where
  "lower_char c = (let k = (of_char c :: nat) in
     if (65 \<le> k \<and> k \<le> 90) \<or> (192 \<le> k \<and> k \<le> 222 \<and> k \<noteq> 215) then char_of (k + 32) else c)"

definition py_lower :: "string \<Rightarrow> string" where
  "py_lower s = map lower_char s"

lemma py_contains_sublist: "py_contains p s \<longleftrightarrow> sublist p s"
proof (induction p s rule: py_contains.induct)
  case (2 p c s)
  have "take (length p) (c # s) = p \<longleftrightarrow> prefix p (c # s)"
    by (metis append_eq_conv_conj prefix_def take_is_prefix)
  with 2 show ?case by (auto simp: sublist_Cons_right)
qed simp

text \<open>\<open>s.strip()\<close>.\<close>

definition is_py_space :: "char \<Rightarrow> bool" where
  "is_py_space c = (let k = (of_char c :: nat) in (9 \<le> k \<and> k \<le> 13) \<or> (28 \<le> k \<and> k \<le> 32) \<or> k = 133 \<or> k = 160)"

definition py_strip :: "string \<Rightarrow> string" where
  "py_strip s = rev (dropWhile is_py_space (rev (dropWhile is_py_space s)))"

lemma py_strip_nonempty: "c \<in> set s \<Longrightarrow> \<not> is_py_space c \<Longrightarrow> py_strip s \<noteq> []"
proof -
  assume c: "c \<in> set s" "\<not> is_py_space c"
  then have "c \<in> set (dropWhile is_py_space s)"
    by (metis Un_iff set_append set_takeWhileD takeWhile_dropWhile_id)
  with c(2) show ?thesis by (auto simp: py_strip_def dropWhile_eq_Nil_conv)
qed

section \<open>Words\<close>

text \<open>The characters \<open>\w\<close> matches, and the boundaries \<open>\b\<close> matches between two parts of a text.\<close>

definition is_word_char :: "char \<Rightarrow> bool" where
  "is_word_char c =
     (let k = (of_char c :: nat) in
      (48 \<le> k \<and> k \<le> 57) \<or> (65 \<le> k \<and> k \<le> 90) \<or> k = 95 \<or> (97 \<le> k \<and> k \<le> 122) \<or>
      k \<in> {170, 178, 179, 181, 185, 186} \<or> (188 \<le> k \<and> k \<noteq> 191 \<and> k \<noteq> 215 \<and> k \<noteq> 247))"

definition starts_word :: "string \<Rightarrow> bool" where
  "starts_word s \<longleftrightarrow> s \<noteq> [] \<and> is_word_char (hd s)"

definition ends_word :: "string \<Rightarrow> bool" where
  "ends_word s \<longleftrightarrow> s \<noteq> [] \<and> is_word_char (last s)"

definition boundary :: "string \<Rightarrow> string \<Rightarrow> bool" where
  "boundary u v \<longleftrightarrow> ends_word u \<noteq> starts_word v"

text \<open>\<open>after\<close> says whether the text scanned so far ends in a word character.\<close>

fun word_at :: "bool \<Rightarrow> string \<Rightarrow> string \<Rightarrow> bool" where
  "word_at after w s \<longleftrightarrow>
     take (length w) s = w \<and> after \<noteq> starts_word s \<and>
     (if w = [] then after else is_word_char (last w)) \<noteq> starts_word (drop (length w) s)"

fun word_search_from :: "bool \<Rightarrow> string \<Rightarrow> string \<Rightarrow> bool" where
  "word_search_from after w [] = word_at after w []"
| "word_search_from after w (c # s) = (word_at after w (c # s) \<or> word_search_from (is_word_char c) w s)"

definition word_search :: "string \<Rightarrow> string \<Rightarrow> bool" where
  "word_search w s = word_search_from False w s"

lemma word_at_iff:
  "word_at (ends_word u) w s \<longleftrightarrow> (\<exists>v. s = w @ v \<and> boundary u s \<and> boundary (u @ w) v)"
proof -
  have "take (length w) s = w \<longleftrightarrow> s = w @ drop (length w) s" by (metis append_eq_conv_conj append_take_drop_id)
  then show ?thesis by (auto simp: boundary_def ends_word_def)
qed

lemma word_search_from_iff:
  "word_search_from (ends_word u) w s \<longleftrightarrow> (\<exists>x v. s = x @ w @ v \<and> boundary (u @ x) (w @ v) \<and> boundary (u @ x @ w) v)"
proof (induction s arbitrary: u)
  case Nil
  show ?case using word_at_iff [of u w "[]"] by auto
next
  case (Cons c s)
  have e: "is_word_char c = ends_word (u @ [c])" by (simp add: ends_word_def)
  have "(\<exists>x v. c # s = x @ w @ v \<and> boundary (u @ x) (w @ v) \<and> boundary (u @ x @ w) v) \<longleftrightarrow>
      (\<exists>v. c # s = w @ v \<and> boundary u (c # s) \<and> boundary (u @ w) v) \<or>
      (\<exists>x v. s = x @ w @ v \<and> boundary ((u @ [c]) @ x) (w @ v) \<and> boundary ((u @ [c]) @ x @ w) v)" (is "?L \<longleftrightarrow> ?A \<or> ?B")
  proof
    assume ?L
    then obtain x v where x: "c # s = x @ w @ v" "boundary (u @ x) (w @ v)" "boundary (u @ x @ w) v" by blast
    show "?A \<or> ?B"
    proof (cases x)
      case Nil
      with x show ?thesis by auto
    next
      case (Cons y ys)
      with x show ?thesis by (intro disjI2) auto
    qed
  next
    assume "?A \<or> ?B"
    then show ?L
    proof
      assume ?A
      then obtain v where "c # s = w @ v" "boundary u (c # s)" "boundary (u @ w) v" by blast
      then show ?L by (intro exI [of _ "[]"] exI [of _ v]) simp
    next
      assume ?B
      then obtain x v where "s = x @ w @ v" "boundary ((u @ [c]) @ x) (w @ v)" "boundary ((u @ [c]) @ x @ w) v" by blast
      then show ?L by (intro exI [of _ "c # x"] exI [of _ v]) simp
    qed
  qed
  with word_at_iff [of u w "c # s"] Cons.IH [of "u @ [c]"] show ?case by (simp add: e [symmetric] del: word_at.simps)
qed

text \<open>The search succeeds exactly when the word occurs in the text with a boundary at both ends.\<close>

lemma word_search_iff:
  "word_search w s \<longleftrightarrow> (\<exists>u v. s = u @ w @ v \<and> boundary u (w @ v) \<and> boundary (u @ w) v)"
  using word_search_from_iff [of "[]" w s] by (simp add: word_search_def ends_word_def)

lemma word_search_contains: "word_search w s \<Longrightarrow> py_contains w s"
  by (auto simp: word_search_iff py_contains_sublist sublist_def)

text \<open>A text is found in itself when it starts and ends with a word character.\<close>

lemma word_search_self: "starts_word w \<Longrightarrow> ends_word w \<Longrightarrow> word_search w w"
  unfolding word_search_iff by (intro exI [of _ "[]"]) (auto simp: boundary_def starts_word_def ends_word_def)

text \<open>A word that occurs in a word of a text occurs in the text.\<close>

lemma word_search_trans:
  assumes "word_search a b" and "word_search b s" and "a \<noteq> []"
  shows "word_search a s"
proof -
  obtain x y where b: "b = x @ a @ y" "boundary x (a @ y)" "boundary (x @ a) y"
    using assms(1) by (auto simp: word_search_iff)
  obtain u v where s: "s = u @ b @ v" "boundary u (b @ v)" "boundary (u @ b) v"
    using assms(2) by (auto simp: word_search_iff)
  have "boundary (u @ x) (a @ y @ v)"
    using b s(2) assms(3) by (cases "x = []") (auto simp: boundary_def ends_word_def starts_word_def hd_append)
  moreover have "boundary (u @ x @ a) (y @ v)"
    using b s(3) assms(3) by (cases "y = []") (auto simp: boundary_def ends_word_def starts_word_def hd_append)
  ultimately show ?thesis unfolding word_search_iff by (intro exI [of _ "u @ x"] exI [of _ "y @ v"]) (simp add: b s)
qed

end
