(* ===== verification/Extension_Inspector.thy ===== *)
theory Extension_Inspector
  imports Py_Json Py_Strings
begin

text \<open>
  The static capability inspector (\<open>pi_extension_governor/inspector.py\<close>). An extension's source is
  parsed into a syntax tree; \<open>ast.walk\<close> visits the tree breadth first and six checks look at each node,
  adding findings and classifications. The parser is a parameter (\<open>ast.parse\<close>), the tree type keeps the
  nodes the checks look at and all child nodes of every other one.

  The lemmas show that the walk terminates and visits exactly the nodes of the tree, that a package is
  classified as rejected exactly when one of its nodes is dangerous (or a file does not parse, or there
  is no file), that both scores lie between 0 and 100, and that the package hash depends on the contents
  of the files only.
\<close>

section \<open>Syntax trees\<close>

text \<open>
  \<open>Import\<close> and \<open>ImportFrom\<close> carry the names of their aliases, \<open>Call\<close> its function, positional arguments
  and keyword nodes; the last component of a located node is its line. Alias nodes and expression contexts
  are left out, as no check looks at them. \<open>OtherNode\<close> stands for every other node class with its children.
\<close>

datatype py_ast =
    Import "string list" int
  | ImportFrom "string option" "string list" int
  | Call py_ast "py_ast list" "py_ast list" int
  | Attribute py_ast string int
  | Name string int
  | StrConstant string
  | OtherNode "py_ast list"

fun child_nodes :: "py_ast \<Rightarrow> py_ast list" where
  "child_nodes (Call f args kws _) = f # args @ kws"
| "child_nodes (Attribute v _ _) = [v]"
| "child_nodes (OtherNode ns) = ns"
| "child_nodes _ = []"

text \<open>The termination measure of the walk: a node weighs more than its children together.\<close>

definition queue_weight :: "py_ast list \<Rightarrow> nat" where
  "queue_weight ns = size_list (\<lambda>n. 2 * size n) ns"

lemma size_list_double: "size_list (\<lambda>n. 2 * f n) ns \<le> 2 * size_list f ns"
  by (induction ns) auto

lemma queue_weight_child: "queue_weight (child_nodes n) < queue_weight [n]"
  using size_list_double [of size "child_nodes n"] by (cases n) (auto simp: queue_weight_def)

lemma queue_weight_append: "queue_weight (ns @ ms) = queue_weight ns + queue_weight ms"
  by (simp add: queue_weight_def size_list_append)

text \<open>\<open>ast.walk\<close>: a queue of nodes, each followed by its children at the back.\<close>

function ast_walk_queue :: "py_ast list \<Rightarrow> py_ast list" where
  "ast_walk_queue [] = []"
| "ast_walk_queue (n # todo) = n # ast_walk_queue (todo @ child_nodes n)"
  by pat_completeness auto
termination
proof (relation "measure queue_weight")
  fix n todo
  have "queue_weight (n # todo) = queue_weight [n] + queue_weight todo"
    using queue_weight_append [of "[n]" todo] by simp
  then show "(todo @ child_nodes n, n # todo) \<in> measure queue_weight"
    using queue_weight_child [of n] by (simp add: queue_weight_append)
qed simp

definition ast_walk :: "py_ast \<Rightarrow> py_ast list" where
  "ast_walk tree = ast_walk_queue [tree]"

text \<open>The nodes of a tree, as a specification of the walk.\<close>

inductive_set ast_nodes :: "py_ast \<Rightarrow> py_ast set" for t :: py_ast where
  root: "t \<in> ast_nodes t"
| child: "m \<in> ast_nodes t \<Longrightarrow> n \<in> set (child_nodes m) \<Longrightarrow> n \<in> ast_nodes t"

lemma ast_nodes_step: "m \<in> set (child_nodes t) \<Longrightarrow> n \<in> ast_nodes m \<Longrightarrow> n \<in> ast_nodes t"
  by (rotate_tac, induction rule: ast_nodes.induct) (auto intro: ast_nodes.intros)

lemma ast_nodes_unfold: "ast_nodes t = insert t (\<Union>m \<in> set (child_nodes t). ast_nodes m)"
proof (intro equalityI subsetI)
  fix n assume "n \<in> ast_nodes t"
  then show "n \<in> insert t (\<Union>m \<in> set (child_nodes t). ast_nodes m)"
    by induction (auto intro: ast_nodes.intros)
qed (auto intro: ast_nodes.root ast_nodes_step)

lemma set_ast_walk_queue: "set (ast_walk_queue ns) = (\<Union>n \<in> set ns. ast_nodes n)"
proof (induction ns rule: ast_walk_queue.induct)
  case (2 n todo)
  then show ?case using ast_nodes_unfold [of n] by auto
qed simp

lemma set_ast_walk: "set (ast_walk t) = ast_nodes t"
  using set_ast_walk_queue [of "[t]"] by (simp add: ast_walk_def)

section \<open>Findings and the inspector's state\<close>

datatype capability_classification =
  DETERMINISTIC_SAFE | NON_DETERMINISTIC | REPLAY_UNSAFE | TELEMETRY_RISK | POLICY_VIOLATION | CLASS_REJECTED

fun classification_value :: "capability_classification \<Rightarrow> string" where
  "classification_value DETERMINISTIC_SAFE = ''deterministic_safe''"
| "classification_value NON_DETERMINISTIC = ''non_deterministic''"
| "classification_value REPLAY_UNSAFE = ''replay_unsafe''"
| "classification_value TELEMETRY_RISK = ''telemetry_risk''"
| "classification_value POLICY_VIOLATION = ''policy_violation''"
| "classification_value CLASS_REJECTED = ''rejected''"

record inspection_finding =
  if_rule :: string
  if_severity :: string
  if_detail :: string
  if_file_path :: string
  if_line_number :: int

record inspector =
  in_policy_banned_imports :: "string list"
  in_findings :: "inspection_finding list"
  in_classifications :: "capability_classification set"

definition new_inspector :: "string list \<Rightarrow> inspector" where
  "new_inspector banned = \<lparr>in_policy_banned_imports = banned, in_findings = [], in_classifications = {}\<rparr>"

definition add_finding :: "string \<Rightarrow> string \<Rightarrow> string \<Rightarrow> string \<Rightarrow> int \<Rightarrow> inspector \<Rightarrow> inspector" where
  "add_finding rule severity detail path line i =
     i\<lparr>in_findings := in_findings i @ [\<lparr>if_rule = rule, if_severity = severity, if_detail = detail,
        if_file_path = path, if_line_number = line\<rparr>]\<rparr>"

definition classify :: "capability_classification \<Rightarrow> inspector \<Rightarrow> inspector" where
  "classify c i = i\<lparr>in_classifications := insert c (in_classifications i)\<rparr>"

definition report_finding :: "string \<Rightarrow> string \<Rightarrow> string \<Rightarrow> string \<Rightarrow> int \<Rightarrow> capability_classification \<Rightarrow>
    inspector \<Rightarrow> inspector" where
  "report_finding rule severity detail path line c i = classify c (add_finding rule severity detail path line i)"

section \<open>The checks\<close>

definition DANGEROUS_IMPORTS :: "string list" where
  "DANGEROUS_IMPORTS =
     [''subprocess'', ''os.system'', ''socket'', ''urllib.request'', ''http.client'', ''requests'', ''ftplib'',
      ''smtplib'', ''eval'', ''exec'', ''compile'', ''__import__'', ''importlib'', ''ctypes'', ''mmap'',
      ''multiprocessing'', ''threading'', ''concurrent.futures'', ''asyncio.subprocess'', ''tempfile'', ''shutil'',
      ''os.remove'', ''os.unlink'', ''os.rmdir'', ''os.makedirs'', ''os.mkdir'', ''open'', ''pickle'', ''marshal'',
      ''shelve'', ''yaml.load'']"

definition OBFUSCATION_PATTERNS :: "string list" where
  "OBFUSCATION_PATTERNS =
     [''base64.b64decode'', ''base64.b64encode'', ''codecs.decode'', ''zlib.decompress'', ''gzip.decompress'',
      ''binascii.unhexlify'', ''string.translate'', ''chr('', ''ord('']"

definition TELEMETRY_PATTERNS :: "string list" where
  "TELEMETRY_PATTERNS =
     [''telemetry'', ''tracking'', ''analytics'', ''metrics'', ''logs.send'', ''report_usage'', ''phone_home'',
      ''beacon'']"

definition SANDBOX_ESCAPE_ATTRS :: "string list" where
  "SANDBOX_ESCAPE_ATTRS =
     [''__subclasses__'', ''__mro__'', ''__bases__'', ''__base__'', ''__globals__'', ''__builtins__'',
      ''__import__'', ''__getattribute__'', ''__subclasshook__'', ''__code__'', ''__closure__'', ''func_globals'',
      ''f_globals'', ''f_builtins'', ''gi_frame'', ''cr_frame'', ''_module'']"

definition SANDBOX_ESCAPE_NAMES :: "string list" where
  "SANDBOX_ESCAPE_NAMES =
     [''__import__'', ''__builtins__'', ''globals'', ''vars'', ''eval'', ''exec'', ''compile'']"

definition check_indirect_access :: "string \<Rightarrow> py_ast \<Rightarrow> inspector \<Rightarrow> inspector" where
  "check_indirect_access path node i =
     (case node of
        Attribute _ attr line \<Rightarrow>
          if attr \<in> set SANDBOX_ESCAPE_ATTRS
          then report_finding ''sandbox_escape_attribute'' ''CRITICAL''
                 (''Indirect-access escape attribute: '' @ attr) path line CLASS_REJECTED i
          else i
      | Name ident line \<Rightarrow>
          if ident \<in> set SANDBOX_ESCAPE_NAMES
          then report_finding ''sandbox_escape_name'' ''CRITICAL''
                 (''Indirect-access escape primitive: '' @ ident) path line CLASS_REJECTED i
          else i
      | _ \<Rightarrow> i)"

fun check_import_names :: "string \<Rightarrow> string \<Rightarrow> int \<Rightarrow> string list \<Rightarrow> inspector \<Rightarrow> inspector" where
  "check_import_names rule path line [] i = i"
| "check_import_names rule path line (name # names) i =
     check_import_names rule path line names
       (if name \<in> set DANGEROUS_IMPORTS \<or> name \<in> set (in_policy_banned_imports i)
        then report_finding rule ''CRITICAL'' (''Banned import: '' @ name) path line POLICY_VIOLATION i
        else i)"

definition check_imports :: "string \<Rightarrow> py_ast \<Rightarrow> inspector \<Rightarrow> inspector" where
  "check_imports path node i =
     (case node of
        Import names line \<Rightarrow> check_import_names ''dangerous_import'' path line names i
      | ImportFrom modname names line \<Rightarrow>
          check_import_names ''dangerous_import_from'' path line
            (map (\<lambda>a. (case modname of None \<Rightarrow> [] | Some m \<Rightarrow> m) @ ''.'' @ a) names) i
      | _ \<Rightarrow> i)"

text \<open>The dotted name of a called function; a chain that does not start at a name keeps its attributes.\<close>

fun attr_parts :: "py_ast \<Rightarrow> string list" where
  "attr_parts (Attribute v attr _) = attr_parts v @ [attr]"
| "attr_parts (Name ident _) = [ident]"
| "attr_parts _ = []"

fun get_call_name :: "py_ast \<Rightarrow> string option" where
  "get_call_name (Name ident _) = Some ident"
| "get_call_name (Attribute v attr line) = Some (py_join ''.'' (attr_parts (Attribute v attr line)))"
| "get_call_name _ = None"

definition dynamic_names :: "string list" where
  "dynamic_names = [''eval'', ''exec'', ''compile'']"

definition obfuscated_call :: "string \<Rightarrow> bool" where
  "obfuscated_call f \<longleftrightarrow> list_ex (\<lambda>p. py_endswith f p \<or> f = p) OBFUSCATION_PATTERNS"

definition telemetry_call :: "string \<Rightarrow> bool" where
  "telemetry_call f \<longleftrightarrow> list_ex (\<lambda>t. py_contains t (py_lower f)) TELEMETRY_PATTERNS"

definition network_call :: "string \<Rightarrow> bool" where
  "network_call f \<longleftrightarrow> list_ex (\<lambda>n. py_contains n f) [''socket'', ''connect'', ''urlopen'', ''get'', ''post'', ''send'']"

definition subprocess_call :: "string \<Rightarrow> bool" where
  "subprocess_call f \<longleftrightarrow> py_contains ''subprocess'' f \<or> py_contains ''Popen'' f \<or> py_contains ''system'' f"

definition thread_call :: "string \<Rightarrow> bool" where
  "thread_call f \<longleftrightarrow> py_contains ''Thread'' f \<or> py_contains ''Process'' f \<or> py_contains ''Pool'' f \<or>
     py_contains ''Executor'' f"

definition report_if :: "bool \<Rightarrow> string \<Rightarrow> string \<Rightarrow> string \<Rightarrow> string \<Rightarrow> int \<Rightarrow> capability_classification \<Rightarrow>
    inspector \<Rightarrow> inspector" where
  "report_if b rule severity detail path line c i =
     (if b then report_finding rule severity detail path line c i else i)"

definition check_call_name :: "string \<Rightarrow> int \<Rightarrow> string \<Rightarrow> inspector \<Rightarrow> inspector" where
  "check_call_name path line f i =
     (let i1 = report_if (obfuscated_call f) ''obfuscation_indicator'' ''HIGH''
                 (''Obfuscation pattern: '' @ f) path line TELEMETRY_RISK i;
          i2 = report_if (telemetry_call f) ''telemetry_indicator'' ''HIGH''
                 (''Telemetry pattern: '' @ f) path line TELEMETRY_RISK i1;
          i3 = report_if (network_call f) ''network_access'' ''CRITICAL''
                 (''Network call: '' @ f) path line REPLAY_UNSAFE i2;
          i4 = report_if (subprocess_call f) ''subprocess_spawn'' ''CRITICAL''
                 (''Subprocess call: '' @ f) path line CLASS_REJECTED i3
      in report_if (f \<in> set dynamic_names) ''dynamic_execution'' ''CRITICAL''
           (''Dynamic execution: '' @ f) path line CLASS_REJECTED i4)"

definition check_calls :: "string \<Rightarrow> py_ast \<Rightarrow> inspector \<Rightarrow> inspector" where
  "check_calls path node i =
     (case node of
        Call func _ _ line \<Rightarrow>
          (case get_call_name func of
             None \<Rightarrow> i
           | Some f \<Rightarrow> if f \<noteq> [] then check_call_name path line f i else i)
      | _ \<Rightarrow> i)"

definition check_eval_exec :: "string \<Rightarrow> py_ast \<Rightarrow> inspector \<Rightarrow> inspector" where
  "check_eval_exec path node i =
     (case node of
        Call func _ _ line \<Rightarrow>
          (case get_call_name func of
             None \<Rightarrow> i
           | Some f \<Rightarrow> report_if (f \<in> set dynamic_names) ''dynamic_execution_direct'' ''CRITICAL''
               (''Direct '' @ f @ ''() call detected'') path line CLASS_REJECTED i)
      | _ \<Rightarrow> i)"

definition write_ops :: "string list" where
  "write_ops = [''open'', ''os.remove'', ''os.unlink'', ''shutil.rmtree'', ''shutil.move'', ''os.rename'']"

definition check_file_operations :: "string \<Rightarrow> py_ast \<Rightarrow> inspector \<Rightarrow> inspector" where
  "check_file_operations path node i =
     (case node of
        Call func args _ line \<Rightarrow>
          (case get_call_name func of
             None \<Rightarrow> i
           | Some f \<Rightarrow>
               if f \<noteq> [] \<and> list_ex (\<lambda>w. py_startswith f w \<or> f = w) write_ops then
                 if f = ''open'' \<and> 2 \<le> length args then
                   (case args ! 1 of
                      StrConstant mode \<Rightarrow>
                        report_if (list_ex (\<lambda>c. c \<in> set mode) ''wax+'') ''filesystem_mutation'' ''CRITICAL''
                          (''File write mode: '' @ mode) path line REPLAY_UNSAFE i
                    | _ \<Rightarrow> i)
                 else report_if (f \<noteq> ''open'') ''filesystem_mutation'' ''CRITICAL''
                        (''Filesystem mutation: '' @ f) path line REPLAY_UNSAFE i
               else i)
      | _ \<Rightarrow> i)"

definition check_threading :: "string \<Rightarrow> py_ast \<Rightarrow> inspector \<Rightarrow> inspector" where
  "check_threading path node i =
     (case node of
        Call func _ _ line \<Rightarrow>
          (case get_call_name func of
             None \<Rightarrow> i
           | Some f \<Rightarrow> report_if (f \<noteq> [] \<and> thread_call f) ''thread_spawn'' ''HIGH''
               (''Thread/process spawn: '' @ f) path line NON_DETERMINISTIC i)
      | _ \<Rightarrow> i)"

definition check_node :: "string \<Rightarrow> inspector \<Rightarrow> py_ast \<Rightarrow> inspector" where
  "check_node path i node =
     check_indirect_access path node (check_threading path node (check_file_operations path node
       (check_eval_exec path node (check_calls path node (check_imports path node i)))))"

definition check_tree :: "string \<Rightarrow> py_ast \<Rightarrow> inspector \<Rightarrow> inspector" where
  "check_tree path tree i = foldl (check_node path) i (ast_walk tree)"

section \<open>Scores and classification\<close>

definition compute_determinism_score :: "inspector \<Rightarrow> int" where
  "compute_determinism_score i =
     max 0 (foldl (\<lambda>score f.
       if if_severity f = ''CRITICAL'' then score - 25
       else if if_severity f = ''HIGH'' then score - 15
       else if if_severity f = ''MEDIUM'' then score - 5 else score) 100 (in_findings i))"

definition compute_replay_safety_score :: "inspector \<Rightarrow> int" where
  "compute_replay_safety_score i =
     max 0 (foldl (\<lambda>score f.
       if if_rule f \<in> set [''network_access'', ''filesystem_mutation'', ''subprocess_spawn'', ''thread_spawn''] then
         if if_severity f = ''CRITICAL'' then score - 30
         else if if_severity f = ''HIGH'' then score - 20 else score
       else score) 100 (in_findings i))"

definition apply_classification_rules :: "inspector \<Rightarrow> inspector" where
  "apply_classification_rules i =
     (if CLASS_REJECTED \<in> in_classifications i then i\<lparr>in_classifications := {CLASS_REJECTED}\<rparr>
      else if in_classifications i = {} then classify DETERMINISTIC_SAFE i else i)"

section \<open>Packages\<close>

text \<open>
  \<open>ast.parse\<close> raises \<open>SyntaxError\<close> with a line that may be missing, or another exception; reading a file can
  fail as well. A package is the list of its Python files in the order \<open>rglob\<close> yields them, each with its
  path and what reading it gives.
\<close>

datatype parse_error = SyntaxErr string "int option" | OtherErr string

type_synonym parser = "string \<Rightarrow> parse_error + py_ast"
type_synonym py_file = "string \<times> (parse_error + string)"

record inspection_report =
  ir_package_hash :: string
  ir_classifications :: "capability_classification set"
  ir_findings :: "inspection_finding list"
  ir_determinism_score :: int
  ir_replay_safety_score :: int
  ir_inspected_at :: string
  ir_inspection_hash :: string

definition finding_dict :: "inspection_finding \<Rightarrow> pyval" where
  "finding_dict f = PDict [(''rule'', PStr (if_rule f)), (''severity'', PStr (if_severity f)),
     (''detail'', PStr (if_detail f)), (''file_path'', PStr (if_file_path f)),
     (''line_number'', PInt (if_line_number f))]"

definition classification_list :: "capability_classification set \<Rightarrow> pyval" where
  "classification_list cs = PList (map PStr (sorted_list_of_set (classification_value ` cs)))"

definition report_to_dict :: "inspection_report \<Rightarrow> payload" where
  "report_to_dict r =
     [(''package_hash'', PStr (ir_package_hash r)),
      (''classifications'', classification_list (ir_classifications r)),
      (''findings'', PList (map finding_dict (ir_findings r))),
      (''determinism_score'', PInt (ir_determinism_score r)),
      (''replay_safety_score'', PInt (ir_replay_safety_score r)),
      (''inspected_at'', PStr (ir_inspected_at r)), (''inspection_hash'', PStr (ir_inspection_hash r))]"

definition inspect_file :: "parser \<Rightarrow> inspector \<Rightarrow> py_file \<Rightarrow> inspector" where
  "inspect_file parse i pf =
     (let path = fst pf in
      case res_bind (snd pf) parse of
        Inl (SyntaxErr e line) \<Rightarrow>
          report_finding ''syntax_error'' ''CRITICAL'' (''Syntax error in '' @ path @ '': '' @ e) path
            (case line of None \<Rightarrow> 0 | Some l \<Rightarrow> l) CLASS_REJECTED i
      | Inl (OtherErr e) \<Rightarrow>
          report_finding ''parse_error'' ''CRITICAL'' (''Could not parse '' @ path @ '': '' @ e) path 0
            CLASS_REJECTED i
      | Inr tree \<Rightarrow> check_tree path tree i)"

definition report_data :: "string \<Rightarrow> inspector \<Rightarrow> int \<Rightarrow> int \<Rightarrow> pyval" where
  "report_data package_hash i dscore rscore =
     PDict [(''package_hash'', PStr package_hash), (''findings'', PList (map finding_dict (in_findings i))),
       (''classifications'', classification_list (in_classifications i)),
       (''determinism_score'', PInt dscore), (''replay_safety_score'', PInt rscore)]"

definition inspect_package ::
    "(string \<Rightarrow> string) \<Rightarrow> parser \<Rightarrow> string list \<Rightarrow> string \<Rightarrow> string \<Rightarrow> py_file list \<Rightarrow> string \<Rightarrow> inspection_report" where
  "inspect_package sha256 parse banned now package_path py_files package_hash =
     (let i0 = new_inspector banned;
          i1 = (if py_files = [] then report_finding ''no_python_files'' ''HIGH''
                  ''Package contains no Python files for inspection'' package_path 0 CLASS_REJECTED i0 else i0);
          i2 = foldl (inspect_file parse) i1 py_files;
          determinism_score = compute_determinism_score i2;
          replay_safety_score = compute_replay_safety_score i2;
          i3 = apply_classification_rules i2
      in \<lparr>ir_package_hash = package_hash, ir_classifications = in_classifications i3, ir_findings = in_findings i3,
          ir_determinism_score = determinism_score, ir_replay_safety_score = replay_safety_score,
          ir_inspected_at = now,
          ir_inspection_hash =
            sha256 (dumps_compact (report_data package_hash i3 determinism_score replay_safety_score))\<rparr>)"

text \<open>The files of a package with their bytes; \<open>sorted(rglob)\<close> orders them by path.\<close>

definition compute_package_hash :: "(string \<Rightarrow> string) \<Rightarrow> (string \<times> string) list \<Rightarrow> string" where
  "compute_package_hash sha256 files =
     (let hashes = map (\<lambda>f. sha256 (snd f)) (sort_key fst files)
      in sha256 (concat (sort hashes)))"

definition compute_string_hash :: "(string \<Rightarrow> string) \<Rightarrow> string \<Rightarrow> string" where
  "compute_string_hash sha256 source = sha256 source"

section \<open>What the checks classify\<close>

definition rejected :: "inspector \<Rightarrow> bool" where
  "rejected i \<longleftrightarrow> CLASS_REJECTED \<in> in_classifications i"

lemma report_finding_simps [simp]:
  "in_classifications (report_finding r sv d p l c i) = insert c (in_classifications i)"
  "in_policy_banned_imports (report_finding r sv d p l c i) = in_policy_banned_imports i"
  by (simp_all add: report_finding_def add_finding_def classify_def)

lemma rejected_report [simp]: "rejected (report_finding r sv d p l c i) \<longleftrightarrow> c = CLASS_REJECTED \<or> rejected i"
  by (auto simp: rejected_def)

lemma rejected_report_if [simp]: "rejected (report_if b r sv d p l c i) \<longleftrightarrow> b \<and> c = CLASS_REJECTED \<or> rejected i"
  by (simp add: report_if_def)

lemma rejected_import_names [simp]: "rejected (check_import_names r p l names i) \<longleftrightarrow> rejected i"
  by (induction r p l names i rule: check_import_names.induct) simp_all

text \<open>A node is dangerous when it names or reaches for a way out of the sandbox, or calls one.\<close>

definition dangerous_name :: "string \<Rightarrow> bool" where
  "dangerous_name f \<longleftrightarrow> f \<in> set dynamic_names \<or> f \<noteq> [] \<and> subprocess_call f"

definition dangerous :: "py_ast \<Rightarrow> bool" where
  "dangerous n =
     (case n of
        Attribute _ attr _ \<Rightarrow> attr \<in> set SANDBOX_ESCAPE_ATTRS
      | Name ident _ \<Rightarrow> ident \<in> set SANDBOX_ESCAPE_NAMES
      | Call func _ _ _ \<Rightarrow> (case get_call_name func of None \<Rightarrow> False | Some f \<Rightarrow> dangerous_name f)
      | _ \<Rightarrow> False)"

lemma dynamic_names_nonempty: "f \<in> set dynamic_names \<Longrightarrow> f \<noteq> []"
  by (auto simp: dynamic_names_def)

lemmas check_defs = check_indirect_access_def check_threading_def check_file_operations_def check_eval_exec_def
  check_calls_def check_imports_def check_call_name_def

lemma rejected_imports [simp]: "rejected (check_imports p n i) \<longleftrightarrow> rejected i"
  by (simp add: check_imports_def split: py_ast.split)

lemma rejected_threading [simp]: "rejected (check_threading p n i) \<longleftrightarrow> rejected i"
  by (simp add: check_threading_def split: py_ast.split option.split)

lemma rejected_file_operations [simp]: "rejected (check_file_operations p n i) \<longleftrightarrow> rejected i"
  by (simp add: check_file_operations_def split: py_ast.split option.split)

lemma rejected_check_node: "rejected (check_node p i n) \<longleftrightarrow> dangerous n \<or> rejected i"
  by (auto simp: check_node_def check_indirect_access_def check_eval_exec_def check_calls_def check_call_name_def
      dangerous_def dangerous_name_def dest: dynamic_names_nonempty split: py_ast.split option.split)

lemma rejected_check_nodes: "rejected (foldl (check_node p) i ns) \<longleftrightarrow> (\<exists>n \<in> set ns. dangerous n) \<or> rejected i"
  by (induction ns arbitrary: i) (auto simp: rejected_check_node)

lemma rejected_check_tree: "rejected (check_tree p t i) \<longleftrightarrow> (\<exists>n \<in> ast_nodes t. dangerous n) \<or> rejected i"
  by (simp add: check_tree_def rejected_check_nodes set_ast_walk)

lemma rejected_apply_rules [simp]: "rejected (apply_classification_rules i) \<longleftrightarrow> rejected i"
  by (simp add: apply_classification_rules_def rejected_def classify_def)

lemma rejected_new [simp]: "\<not> rejected (new_inspector banned)"
  by (simp add: rejected_def new_inspector_def)

definition file_dangerous :: "parser \<Rightarrow> py_file \<Rightarrow> bool" where
  "file_dangerous parse pf =
     (case res_bind (snd pf) parse of Inl _ \<Rightarrow> True | Inr tree \<Rightarrow> \<exists>n \<in> ast_nodes tree. dangerous n)"

lemma rejected_inspect_file: "rejected (inspect_file parse i pf) \<longleftrightarrow> file_dangerous parse pf \<or> rejected i"
  by (simp add: inspect_file_def file_dangerous_def rejected_check_tree Let_def split: sum.split parse_error.split)

lemma rejected_inspect_files:
  "rejected (foldl (inspect_file parse) i pfs) \<longleftrightarrow> (\<exists>pf \<in> set pfs. file_dangerous parse pf) \<or> rejected i"
  by (induction pfs arbitrary: i) (auto simp: rejected_inspect_file)

section \<open>Bounds of the scores\<close>

lemma foldl_decreasing:
  fixes f :: "int \<Rightarrow> 'a \<Rightarrow> int"
  assumes "\<And>a x. f a x \<le> a"
  shows "foldl f a xs \<le> a"
  using assms by (induction xs arbitrary: a) (auto intro: order_trans)

lemma determinism_score_bounds: "0 \<le> compute_determinism_score i" "compute_determinism_score i \<le> 100"
  unfolding compute_determinism_score_def by (auto intro: foldl_decreasing)

lemma replay_safety_score_bounds: "0 \<le> compute_replay_safety_score i" "compute_replay_safety_score i \<le> 100"
  unfolding compute_replay_safety_score_def by (auto intro: foldl_decreasing)

text \<open>The running subtraction is the count of findings by severity, whatever their order.\<close>

definition severity_count :: "string \<Rightarrow> inspection_finding list \<Rightarrow> int" where
  "severity_count sv fs = int (length (filter (\<lambda>f. if_severity f = sv) fs))"

lemma determinism_score_counts:
  "compute_determinism_score i = max 0 (100 - 25 * severity_count ''CRITICAL'' (in_findings i)
     - 15 * severity_count ''HIGH'' (in_findings i) - 5 * severity_count ''MEDIUM'' (in_findings i))"
proof -
  have "foldl (\<lambda>score f. if if_severity f = ''CRITICAL'' then score - 25
       else if if_severity f = ''HIGH'' then score - 15
       else if if_severity f = ''MEDIUM'' then score - 5 else score) s fs
      = s - 25 * severity_count ''CRITICAL'' fs - 15 * severity_count ''HIGH'' fs
        - 5 * severity_count ''MEDIUM'' fs" for s :: int and fs
    by (induction fs arbitrary: s) (auto simp: severity_count_def)
  then show ?thesis by (simp add: compute_determinism_score_def)
qed

section \<open>Findings and classifications go together\<close>

text \<open>
  Every finding comes with a classification, and none of them is \<open>DETERMINISTIC_SAFE\<close>, which is only given
  at the end when nothing was found.
\<close>

definition consistent :: "inspector \<Rightarrow> bool" where
  "consistent i \<longleftrightarrow> (in_classifications i = {} \<longleftrightarrow> in_findings i = []) \<and> DETERMINISTIC_SAFE \<notin> in_classifications i"

lemma consistent_report [simp]: "consistent i \<Longrightarrow> c \<noteq> DETERMINISTIC_SAFE \<Longrightarrow> consistent (report_finding r sv d p l c i)"
  by (simp add: consistent_def report_finding_def add_finding_def classify_def)

lemma consistent_report_if [simp]: "consistent i \<Longrightarrow> c \<noteq> DETERMINISTIC_SAFE \<Longrightarrow> consistent (report_if b r sv d p l c i)"
  by (simp add: report_if_def)

lemma consistent_import_names [simp]: "consistent i \<Longrightarrow> consistent (check_import_names r p l names i)"
  by (induction r p l names i rule: check_import_names.induct) simp_all

lemma consistent_checks:
  assumes "consistent i"
  shows "consistent (check_imports p n i)" "consistent (check_calls p n i)" "consistent (check_eval_exec p n i)"
    "consistent (check_file_operations p n i)" "consistent (check_threading p n i)"
    "consistent (check_indirect_access p n i)"
  using assms by (auto simp: check_defs Let_def intro!: consistent_import_names split: py_ast.split option.split)

lemma consistent_check_tree: "consistent i \<Longrightarrow> consistent (check_tree p t i)"
proof -
  have "consistent i \<Longrightarrow> consistent (foldl (check_node p) i ns)" for ns
    by (induction ns arbitrary: i) (simp_all add: check_node_def consistent_checks)
  then show "consistent i \<Longrightarrow> consistent (check_tree p t i)" by (simp add: check_tree_def)
qed

lemma consistent_inspect_file: "consistent i \<Longrightarrow> consistent (inspect_file parse i pf)"
  by (auto simp: inspect_file_def Let_def intro: consistent_check_tree split: sum.split parse_error.split)

lemma consistent_inspect_files: "consistent i \<Longrightarrow> consistent (foldl (inspect_file parse) i pfs)"
  by (induction pfs arbitrary: i) (auto intro: consistent_inspect_file)

lemma consistent_new: "consistent (new_inspector banned)"
  by (simp add: consistent_def new_inspector_def)

lemma apply_rules_findings [simp]: "in_findings (apply_classification_rules i) = in_findings i"
  by (simp add: apply_classification_rules_def classify_def)

lemma apply_rules_verdict:
  assumes "consistent i"
  shows "CLASS_REJECTED \<in> in_classifications (apply_classification_rules i) \<longleftrightarrow>
      in_classifications (apply_classification_rules i) = {CLASS_REJECTED}"
    and "DETERMINISTIC_SAFE \<in> in_classifications (apply_classification_rules i) \<longleftrightarrow> in_findings i = []"
  using assms by (auto simp: apply_classification_rules_def consistent_def classify_def)

section \<open>Properties\<close>

definition inspected :: "parser \<Rightarrow> string list \<Rightarrow> string \<Rightarrow> py_file list \<Rightarrow> inspector" where
  "inspected parse banned path pfs = foldl (inspect_file parse)
     (if pfs = [] then report_finding ''no_python_files'' ''HIGH''
        ''Package contains no Python files for inspection'' path 0 CLASS_REJECTED (new_inspector banned)
      else new_inspector banned) pfs"

lemma inspect_package_fields:
  "ir_classifications (inspect_package sha256 parse banned now path pfs h) =
     in_classifications (apply_classification_rules (inspected parse banned path pfs))"
  "ir_findings (inspect_package sha256 parse banned now path pfs h) = in_findings (inspected parse banned path pfs)"
  "ir_determinism_score (inspect_package sha256 parse banned now path pfs h) =
     compute_determinism_score (inspected parse banned path pfs)"
  by (simp_all add: inspect_package_def inspected_def Let_def)

lemma consistent_inspected: "consistent (inspected parse banned path pfs)"
  by (simp add: inspected_def consistent_inspect_files consistent_new)

lemma rejected_inspected:
  "rejected (inspected parse banned path pfs) \<longleftrightarrow> pfs = [] \<or> (\<exists>pf \<in> set pfs. file_dangerous parse pf)"
  by (simp add: inspected_def rejected_inspect_files)

text \<open>
  C14 (inspect_package_verdict): a package is rejected exactly when it has no Python file, one of its files
  cannot be read or parsed, or the syntax tree of one of them contains, at any depth, a node that reaches
  for a sandbox escape or calls a dynamic-execution or process primitive; rejection then is the only
  classification. A package is called deterministic-safe exactly when nothing at all was found in it, and
  its determinism score is the clamped weighted count of its findings.
\<close>

theorem inspect_package_verdict:
  "let r = inspect_package sha256 parse banned now path pfs h in
     (CLASS_REJECTED \<in> ir_classifications r \<longleftrightarrow>
        pfs = [] \<or> (\<exists>pf \<in> set pfs. case res_bind (snd pf) parse of
                       Inl _ \<Rightarrow> True | Inr tree \<Rightarrow> \<exists>n \<in> ast_nodes tree. dangerous n)) \<and>
     (CLASS_REJECTED \<in> ir_classifications r \<longleftrightarrow> ir_classifications r = {CLASS_REJECTED}) \<and>
     (DETERMINISTIC_SAFE \<in> ir_classifications r \<longleftrightarrow> ir_findings r = []) \<and>
     ir_determinism_score r = max 0 (100 - 25 * severity_count ''CRITICAL'' (ir_findings r)
       - 15 * severity_count ''HIGH'' (ir_findings r) - 5 * severity_count ''MEDIUM'' (ir_findings r))"
  using apply_rules_verdict [OF consistent_inspected, of parse banned path pfs]
    rejected_inspected [of parse banned path pfs] rejected_apply_rules [of "inspected parse banned path pfs"]
  by (simp add: Let_def inspect_package_fields determinism_score_counts rejected_def
      flip: file_dangerous_def)

text \<open>The hash of a package does not cover the names of its files.\<close>

lemma package_hash_contents:
  "mset (map snd fs) = mset (map snd gs) \<Longrightarrow> compute_package_hash sha256 fs = compute_package_hash sha256 gs"
proof -
  have m: "mset (map (\<lambda>f. sha256 (snd f)) (sort_key fst fs)) = image_mset sha256 (mset (map snd fs))" for fs :: "(string \<times> string) list"
    by (simp add: multiset.map_comp comp_def)
  assume "mset (map snd fs) = mset (map snd gs)"
  then have "sort (map (\<lambda>f. sha256 (snd f)) (sort_key fst fs)) = sort (map (\<lambda>f. sha256 (snd f)) (sort_key fst gs))"
    by (intro properties_for_sort) (simp_all only: m mset_sort sorted_sort)
  then show ?thesis by (simp add: compute_package_hash_def)
qed

end
