(* ===== verification/Extension_Sandbox.thy ===== *)
theory Extension_Sandbox
  imports Extension_Inspector
begin

text \<open>
  The sandboxed extension runtime (\<open>pi_extension_governor/sandbox.py\<close>): the parent side, which refuses to
  run code unless execution was enabled and otherwise starts an isolated process and reads its report, and
  the trusted bootstrap the child runs (\<open>_CHILD_RUNNER\<close>). What the operating system and the untrusted code
  do is the parameter \<open>world\<close>: the outcome of the n-th process for a request, the environment variable and
  the measured times. \<open>sandbox_state\<close> counts the calls and the processes started.

  The lemmas show that nothing is started while execution is disabled, and that a run counts as a success
  exactly when the bootstrap found a dictionary within the size limit.
\<close>

section \<open>Python primitives\<close>

text \<open>\<open>int(v)\<close>: a decimal literal may have single underscores between its digits.\<close>

fun int_literal :: "string \<Rightarrow> bool" where
  "int_literal [] = False"
| "int_literal [c] = is_digit c"
| "int_literal (c # d # s) = (is_digit c \<and> (if d = CHR ''_'' then int_literal s else int_literal (d # s)))"

definition py_int_str :: "string \<Rightarrow> int result" where
  "py_int_str s0 =
     (let s = py_strip s0; signed = (s \<noteq> [] \<and> (hd s = CHR ''-'' \<or> hd s = CHR ''+''));
          t = (if signed then tl s else s)
      in if int_literal t
         then Inr ((if signed \<and> hd s = CHR ''-'' then -1 else 1) * int (read_nat (filter is_digit t)))
         else Inl (ValueError ''invalid literal for int()''))"

definition py_int :: "pyval \<Rightarrow> int result" where
  "py_int v =
     (case v of
        PInt i \<Rightarrow> Inr i
      | PBool b \<Rightarrow> Inr (if b then 1 else 0)
      | PFloat s \<Rightarrow> Inr (let q = float_val s in if 0 \<le> q then \<lfloor>q\<rfloor> else \<lceil>q\<rceil>)
      | PStr s \<Rightarrow> py_int_str s
      | _ \<Rightarrow> Inl TypeError)"

fun type_name :: "pyval \<Rightarrow> string" where
  "type_name PNone = ''NoneType''"
| "type_name (PBool _) = ''bool''"
| "type_name (PInt _) = ''int''"
| "type_name (PFloat _) = ''float''"
| "type_name (PStr _) = ''str''"
| "type_name (PList _) = ''list''"
| "type_name (PTuple _) = ''tuple''"
| "type_name (PSet frz _) = (if frz then ''frozenset'' else ''set'')"
| "type_name (PDict _) = ''dict''"

section \<open>The runtime\<close>

record sandbox_runtime =
  rt_cpu_ms_max :: int
  rt_memory_mb_max :: int
  rt_output_size_max :: int
  rt_allow_execution :: "bool option"

record sandbox_result =
  sx_status :: pyval
  sx_output :: pyval
  sx_output_hash :: string
  sx_execution_time_ms :: int
  sx_memory_peak_mb :: int
  sx_stdout_captured :: pyval
  sx_stderr_captured :: string
  sx_traceback :: pyval

datatype proc_outcome = TimeoutExpired | SpawnFailed string | Completed string string

record world =
  w_allow_env :: "string option" \<comment> \<open>\<open>os.getenv(PI_EXTENSION_ALLOW_CODE_EXECUTION)\<close>\<close>
  w_process :: "nat \<Rightarrow> payload \<Rightarrow> proc_outcome"
  w_elapsed_ms :: "nat \<Rightarrow> int"

record sandbox_state =
  ss_calls :: nat
  ss_spawned :: nat

definition execution_enabled :: "string option \<Rightarrow> bool option \<Rightarrow> bool" where
  "execution_enabled env explicit =
     (case explicit of
        Some b \<Rightarrow> b
      | None \<Rightarrow> py_lower (py_strip (case env of None \<Rightarrow> [] | Some s \<Rightarrow> s)) \<in> set [''1'', ''true'', ''yes'', ''on''])"

definition sandbox_result_of :: "(string \<Rightarrow> string) \<Rightarrow> int \<Rightarrow> pyval \<Rightarrow> pyval \<Rightarrow> pyval \<Rightarrow> string \<Rightarrow> pyval \<Rightarrow> int \<Rightarrow>
    sandbox_result" where
  "sandbox_result_of sha256 elapsed status output out err tb peak =
     \<lparr>sx_status = status, sx_output = output,
      sx_output_hash = (if truthy output then sha256 (dumps_compact output) else []),
      sx_execution_time_ms = elapsed, sx_memory_peak_mb = peak, sx_stdout_captured = out,
      sx_stderr_captured = err, sx_traceback = tb\<rparr>"

definition error_result :: "(string \<Rightarrow> string) \<Rightarrow> int \<Rightarrow> string \<Rightarrow> payload \<Rightarrow> string \<Rightarrow> string \<Rightarrow> sandbox_result" where
  "error_result sha256 elapsed status d out err =
     sandbox_result_of sha256 elapsed (PStr status) (PDict d) (PStr out) err PNone 0"

definition cpu_seconds :: "sandbox_runtime \<Rightarrow> int" where
  "cpu_seconds rt = max 1 (rt_cpu_ms_max rt div 1000)"

definition child_request :: "sandbox_runtime \<Rightarrow> string \<Rightarrow> payload \<Rightarrow> payload" where
  "child_request rt source inputs =
     [(''source'', PStr source), (''inputs'', PDict inputs), (''cpu_seconds'', PInt (cpu_seconds rt)),
      (''memory_bytes'', PInt (rt_memory_mb_max rt * 1024 * 1024)),
      (''output_size_max'', PInt (rt_output_size_max rt))]"

text \<open>Reading the report of a child that ended.\<close>

definition read_report :: "(string \<Rightarrow> string) \<Rightarrow> int \<Rightarrow> string \<Rightarrow> string \<Rightarrow> sandbox_result result" where
  "read_report sha256 elapsed out err =
     (if py_strip out = [] then
        Inr (error_result sha256 elapsed ''EXCEPTION''
          [(''error'', PStr ''extension subprocess produced no output''), (''stderr'', PStr (take 500 err))] [] err)
      else
        (case json_loads out of
           Inl _ \<Rightarrow> Inr (error_result sha256 elapsed ''EXCEPTION''
             [(''error'', PStr ''could not parse sandbox output'')] (take 500 out) err)
         | Inr (PDict rep) \<Rightarrow>
             (let out0 = dict_get rep ''output'' PNone;
                  output = (if truthy out0 then out0 else PDict []);
                  peak0 = dict_get rep ''memory_peak_mb'' (PInt 0)
              in res_bind (py_int (if truthy peak0 then peak0 else PInt 0)) (\<lambda>peak.
                   Inr (sandbox_result_of sha256 elapsed (dict_get rep ''status'' (PStr ''EXCEPTION'')) output
                     (dict_get rep ''stdout'' (PStr [])) err (dict_get rep ''traceback'' PNone) peak)))
         | Inr _ \<Rightarrow> Inl AttributeError))"

text \<open>
  \<open>json.dumps\<close> of the request raises when the inputs hold a set; otherwise a process is started. The wall
  limit of the parent is part of the outcome of the process.
\<close>

definition execute_isolated :: "(string \<Rightarrow> string) \<Rightarrow> world \<Rightarrow> sandbox_runtime \<Rightarrow> sandbox_state \<Rightarrow> int \<Rightarrow> string \<Rightarrow> payload \<Rightarrow>
    sandbox_state \<times> sandbox_result result" where
  "execute_isolated sha256 w rt st elapsed source inputs =
     (let request = child_request rt source inputs in
      if \<not> set_free (PDict request) then (st, Inl TypeError)
      else
        (st\<lparr>ss_spawned := Suc (ss_spawned st)\<rparr>,
         case w_process w (ss_spawned st) request of
           TimeoutExpired \<Rightarrow> Inr (error_result sha256 elapsed ''TIMEOUT''
             [(''error'', PStr ''Execution exceeded wall-clock limit'')] [] [])
         | SpawnFailed e \<Rightarrow> Inr (error_result sha256 elapsed ''EXCEPTION''
             [(''error'', PStr (''sandbox spawn failed: '' @ e))] [] [])
         | Completed out err \<Rightarrow> read_report sha256 elapsed out err))"

definition disabled_message :: string where
  "disabled_message =
     ''Extension code execution is disabled (fail-closed). In-process exec() is not a security boundary. Set ''
     @ ''PI_EXTENSION_ALLOW_CODE_EXECUTION=1 (or pass allow_execution=True) to run extensions in an isolated subprocess.''"

definition execute :: "(string \<Rightarrow> string) \<Rightarrow> world \<Rightarrow> sandbox_runtime \<Rightarrow> sandbox_state \<Rightarrow> string \<Rightarrow> payload \<Rightarrow>
    sandbox_state \<times> sandbox_result result" where
  "execute sha256 w rt st0 source inputs =
     (let elapsed = w_elapsed_ms w (ss_calls st0); st = st0\<lparr>ss_calls := Suc (ss_calls st0)\<rparr> in
      if \<not> execution_enabled (w_allow_env w) (rt_allow_execution rt)
      then (st, Inr (error_result sha256 elapsed ''REJECTED'' [(''error'', PStr disabled_message)] [] []))
      else execute_isolated sha256 w rt st elapsed source inputs)"

fun verify_runs :: "(string \<Rightarrow> string) \<Rightarrow> world \<Rightarrow> sandbox_runtime \<Rightarrow> nat \<Rightarrow> string list \<Rightarrow> sandbox_state \<Rightarrow> string \<Rightarrow>
    payload \<Rightarrow> sandbox_state \<times> bool result" where
  "verify_runs sha256 w rt 0 hashes st source inputs = (st, Inr (length (remdups hashes) = 1))"
| "verify_runs sha256 w rt (Suc n) hashes st source inputs =
     (case execute sha256 w rt st source inputs of
        (st', Inl e) \<Rightarrow> (st', Inl e)
      | (st', Inr r) \<Rightarrow>
          if \<not> py_eq (sx_status r) (PStr ''SUCCESS'') then (st', Inr False)
          else verify_runs sha256 w rt n (hashes @ [sx_output_hash r]) st' source inputs)"

definition verify_determinism :: "(string \<Rightarrow> string) \<Rightarrow> world \<Rightarrow> sandbox_runtime \<Rightarrow> nat \<Rightarrow> sandbox_state \<Rightarrow> string \<Rightarrow>
    payload \<Rightarrow> sandbox_state \<times> bool result" where
  "verify_determinism sha256 w rt runs st source inputs = verify_runs sha256 w rt runs [] st source inputs"

section \<open>The child's bootstrap\<close>

text \<open>
  What executing the compiled source comes to: the time or memory limit, an exception, or the value bound
  to \<open>OUTPUT\<close>. The bootstrap turns it into a status and an output, and writes the report; the final
  \<open>json.dumps\<close> has no \<open>default\<close>, so an output that holds a set ends the child without a report. Compact
  JSON is ASCII, so the size in bytes is the length of the text.
\<close>

datatype exec_outcome = ExecTimeout | ExecMemory | ExecRaised string string string | ExecFinished pyval

definition child_status :: "int \<Rightarrow> exec_outcome \<Rightarrow> string \<Rightarrow> string \<times> pyval \<times> pyval" where
  "child_status output_size_max out tb =
     (case out of
        ExecTimeout \<Rightarrow> (''TIMEOUT'', PDict [(''error'', PStr ''Execution exceeded CPU/time limit'')], PNone)
      | ExecMemory \<Rightarrow> (''MEMORY_EXCEEDED'', PDict [(''error'', PStr ''Memory limit exceeded'')], PNone)
      | ExecRaised e msg trace \<Rightarrow>
          (''EXCEPTION'', PDict [(''error'', PStr msg), (''error_type'', PStr e)], PStr trace)
      | ExecFinished (PDict d) \<Rightarrow>
          (let size = int (length (dumps_compact (PDict d))) in
           if size > output_size_max then
             (''REJECTED'', PDict [(''error'', PStr (''Output size '' @ show_int size @ '' exceeds max ''
                @ show_int output_size_max))], PNone)
           else (''SUCCESS'', PDict d, PNone))
      | ExecFinished v \<Rightarrow>
          (''EXCEPTION'', PDict [(''error'', PStr (''Extension must output dict, got '' @ type_name v)),
             (''error_type'', PStr ''TypeError'')], PStr tb))"

definition child_main :: "int \<Rightarrow> exec_outcome \<Rightarrow> string \<Rightarrow> string list \<Rightarrow> int \<Rightarrow> string" where
  "child_main output_size_max out tb stdout_lines peak_mb =
     (case child_status output_size_max out tb of
        (status, output, trace) \<Rightarrow>
          if set_free output then
            dumps_default (PDict [(''status'', PStr status), (''output'', output),
              (''stdout'', PStr (py_join [CHR 0x0A] stdout_lines)), (''memory_peak_mb'', PInt peak_mb),
              (''traceback'', trace)])
          else [])"

section \<open>Fail closed\<close>

lemma execute_disabled:
  assumes "\<not> execution_enabled (w_allow_env w) (rt_allow_execution rt)"
  shows "\<exists>r. execute sha256 w rt st src inp = (st\<lparr>ss_calls := Suc (ss_calls st)\<rparr>, Inr r) \<and> sx_status r = PStr ''REJECTED''"
  using assms by (simp add: execute_def Let_def error_result_def sandbox_result_of_def)

lemma verify_runs_disabled:
  assumes "\<not> execution_enabled (w_allow_env w) (rt_allow_execution rt)" "0 < n"
  shows "verify_runs sha256 w rt n hs st src inp = (st\<lparr>ss_calls := Suc (ss_calls st)\<rparr>, Inr False)"
  using execute_disabled [OF assms(1), of sha256 st src inp] assms(2) by (cases n) auto

section \<open>Reports of the bootstrap\<close>

lemma report_norm:
  "json_norm (PDict [(''status'', a), (''output'', b), (''stdout'', c), (''memory_peak_mb'', d), (''traceback'', e)]) =
   PDict [(''memory_peak_mb'', json_norm d), (''output'', json_norm b), (''status'', json_norm a),
     (''stdout'', json_norm c), (''traceback'', json_norm e)]"
  by simp

lemma truthy_json_norm [simp]: "truthy (json_norm v) \<longleftrightarrow> truthy v"
  by (cases v) (simp_all add: set_empty [symmetric] del: set_empty)

definition run_succeeds :: "int \<Rightarrow> exec_outcome \<Rightarrow> bool" where
  "run_succeeds size_max out =
     (case out of
        ExecFinished (PDict d) \<Rightarrow> set_free (PDict d) \<and> int (length (dumps_compact (PDict d))) \<le> size_max
      | _ \<Rightarrow> False)"

definition run_output :: "exec_outcome \<Rightarrow> pyval" where
  "run_output out = (case out of ExecFinished v \<Rightarrow> json_norm v | _ \<Rightarrow> PNone)"

lemma read_report_main:
  assumes "py_wf output" "set_free output" "py_wf trace" "set_free trace"
  shows "read_report sha256 el (dumps_default (PDict [(''status'', PStr status), (''output'', output),
      (''stdout'', PStr out), (''memory_peak_mb'', PInt peak), (''traceback'', trace)])) err =
    Inr (sandbox_result_of sha256 el (PStr status) (if truthy output then json_norm output else PDict [])
      (PStr out) err (json_norm trace) peak)"
proof -
  let ?d = "PDict [(''status'', PStr status), (''output'', output), (''stdout'', PStr out),
    (''memory_peak_mb'', PInt peak), (''traceback'', trace)]"
  have "json_loads (dumps_default ?d) = Inr (json_norm ?d)"
    unfolding dumps_default_def using assms by (intro json_roundtrip) simp_all
  moreover have "py_strip (dumps_default ?d) \<noteq> []"
    by (rule py_strip_nonempty [of "CHR 0x7B"]) (simp_all add: dumps_default_def is_py_space_def)
  ultimately show ?thesis
    by (simp add: read_report_def report_norm dict_get_def Let_def py_int_def del: json_norm.simps(3))
qed

lemma read_report_empty: "\<exists>r. read_report sha256 el [] err = Inr r \<and> sx_status r = PStr ''EXCEPTION''"
  by (simp add: read_report_def py_strip_def error_result_def sandbox_result_of_def)

lemma child_status_facts:
  assumes "child_status size_max out tb = (status, output, trace)" "\<And>v. out = ExecFinished v \<Longrightarrow> py_wf v"
  shows "py_wf output" "py_wf trace" "set_free trace"
    and "status = ''SUCCESS'' \<and> set_free output \<longleftrightarrow> run_succeeds size_max out"
    and "status = ''SUCCESS'' \<Longrightarrow> json_norm output = run_output out"
  using assms
  by (auto simp: child_status_def run_succeeds_def run_output_def Let_def not_less
      split: exec_outcome.splits pyval.splits if_splits)

lemma read_child_main:
  assumes "\<And>v. out = ExecFinished v \<Longrightarrow> py_wf v"
  shows "\<exists>r. read_report sha256 el (child_main size_max out tb lines peak) err = Inr r \<and>
    (py_eq (sx_status r) (PStr ''SUCCESS'') \<longleftrightarrow> run_succeeds size_max out) \<and>
    (run_succeeds size_max out \<longrightarrow> sx_output r = run_output out)"
proof -
  obtain status outp trace where cs: "child_status size_max out tb = (status, outp, trace)"
    by (metis prod_cases3)
  note f = child_status_facts [OF cs assms]
  show ?thesis
  proof (cases "set_free outp")
    case True
    have "json_norm outp = (if truthy outp then json_norm outp else PDict [])" if "status = ''SUCCESS''"
      using cs that by (auto simp: child_status_def Let_def split: exec_outcome.splits pyval.splits if_splits)
    with True f cs show ?thesis
      using read_report_main [OF f(1) True f(2,3), of sha256 el status "py_join [CHR 0x0A] lines" peak err]
      by (auto simp: child_main_def sandbox_result_of_def)
  next
    case False
    with f cs read_report_empty [of sha256 el err] show ?thesis by (auto simp: child_main_def)
  qed
qed

lemma execute_bootstrap:
  assumes "execution_enabled (w_allow_env w) (rt_allow_execution rt)" "set_free (PDict inputs)"
    and "w_process w (ss_spawned st) (child_request rt source inputs) =
      Completed (child_main (rt_output_size_max rt) out tb lines peak) err"
    and "\<And>v. out = ExecFinished v \<Longrightarrow> py_wf v"
  shows "\<exists>r. execute sha256 w rt st source inputs =
      (\<lparr>ss_calls = Suc (ss_calls st), ss_spawned = Suc (ss_spawned st)\<rparr>, Inr r) \<and>
    (py_eq (sx_status r) (PStr ''SUCCESS'') \<longleftrightarrow> run_succeeds (rt_output_size_max rt) out) \<and>
    (run_succeeds (rt_output_size_max rt) out \<longrightarrow> sx_output r = run_output out)"
proof -
  have "set_free (PDict (child_request rt source inputs))" using assms(2) by (simp add: child_request_def)
  moreover obtain r where "read_report sha256 (w_elapsed_ms w (ss_calls st))
      (child_main (rt_output_size_max rt) out tb lines peak) err = Inr r"
    "py_eq (sx_status r) (PStr ''SUCCESS'') \<longleftrightarrow> run_succeeds (rt_output_size_max rt) out"
    "run_succeeds (rt_output_size_max rt) out \<longrightarrow> sx_output r = run_output out"
    using read_child_main [of out] assms(4) by blast
  ultimately show ?thesis using assms(1,3) by (auto simp: execute_def execute_isolated_def Let_def)
qed

text \<open>The output hash of every result is a function of its output.\<close>

definition hash_of_output :: "(string \<Rightarrow> string) \<Rightarrow> sandbox_result \<Rightarrow> bool" where
  "hash_of_output sha256 r \<longleftrightarrow>
     sx_output_hash r = (if truthy (sx_output r) then sha256 (dumps_compact (sx_output r)) else [])"

lemma hash_of_output_result [simp]: "hash_of_output sha256 (sandbox_result_of sha256 el s v so se t k)"
  by (simp add: hash_of_output_def sandbox_result_of_def)

lemma execute_hash: "execute sha256 w rt st src inp = (st', Inr r) \<Longrightarrow> hash_of_output sha256 r"
  unfolding execute_def execute_isolated_def read_report_def error_result_def Let_def
  by (auto simp: res_simps split: if_splits proc_outcome.splits sum.splits pyval.splits)

section \<open>Properties\<close>

text \<open>
  While execution is disabled a call starts no process and reports a rejection. When it is
  enabled, one process is started, and if that process runs the bootstrap, the call returns without an
  exception and reports success exactly when the extension finished with a dictionary that JSON can
  represent and that fits the size limit; the output is then that dictionary as JSON reads it back.
\<close>

theorem sandbox_run:
  assumes "set_free (PDict inputs)"
    and "w_process w (ss_spawned st) (child_request rt source inputs) =
      Completed (child_main (rt_output_size_max rt) out tb lines peak) err"
    and "\<And>v. out = ExecFinished v \<Longrightarrow> py_wf v"
  shows "\<exists>r. execute sha256 w rt st source inputs =
      (if execution_enabled (w_allow_env w) (rt_allow_execution rt)
       then \<lparr>ss_calls = Suc (ss_calls st), ss_spawned = Suc (ss_spawned st)\<rparr>
       else \<lparr>ss_calls = Suc (ss_calls st), ss_spawned = ss_spawned st\<rparr>, Inr r) \<and>
    (py_eq (sx_status r) (PStr ''SUCCESS'') \<longleftrightarrow>
       execution_enabled (w_allow_env w) (rt_allow_execution rt) \<and> run_succeeds (rt_output_size_max rt) out) \<and>
    (py_eq (sx_status r) (PStr ''SUCCESS'') \<longrightarrow> sx_output r = run_output out)"
proof (cases "execution_enabled (w_allow_env w) (rt_allow_execution rt)")
  case True
  with execute_bootstrap [OF True assms, of sha256] show ?thesis by auto
next
  case False
  with execute_disabled [OF False, of sha256 st source inputs] show ?thesis by auto
qed

definition example_world :: "(nat \<Rightarrow> exec_outcome) \<Rightarrow> world" where
  "example_world run = \<lparr>w_allow_env = Some ''1'',
     w_process = (\<lambda>n _. Completed (child_main 1000 (run n) [] [] 7) []), w_elapsed_ms = (\<lambda>_. 5)\<rparr>"

definition example_runtime :: sandbox_runtime where
  "example_runtime = \<lparr>rt_cpu_ms_max = 1000, rt_memory_mb_max = 128, rt_output_size_max = 1000,
     rt_allow_execution = None\<rparr>"

lemma example_enabled: "execution_enabled (w_allow_env (example_world run)) (rt_allow_execution example_runtime)"
  by (simp add: execution_enabled_def example_world_def example_runtime_def py_strip_def py_lower_def
      lower_char_def is_py_space_def)

theorem sandbox_run_witness:
  "\<exists>r. execute (\<lambda>s. s) (example_world (\<lambda>_. ExecFinished (PDict [(''k'', PInt 3)]))) example_runtime
     \<lparr>ss_calls = 0, ss_spawned = 0\<rparr> ''OUTPUT'' [] = (\<lparr>ss_calls = 1, ss_spawned = 1\<rparr>, Inr r) \<and>
     sx_output r = PDict [(''k'', PInt 3)]"
  using sandbox_run [of "[]" "example_world (\<lambda>_. ExecFinished (PDict [(''k'', PInt 3)]))"
      "\<lparr>ss_calls = 0, ss_spawned = 0\<rparr>" example_runtime "''OUTPUT''" "ExecFinished (PDict [(''k'', PInt 3)])" "[]" "[]" 7 "[]"
      "\<lambda>s. s"] example_enabled
  by (auto simp: example_world_def example_runtime_def run_succeeds_def run_output_def dumps_compact_def
      json_str_def esc_char_def show_int_def show_nat.simps)

end
