(* ===== verification/Extension_Ledger.thy ===== *)
theory Extension_Ledger
  imports Extension_Manifest Hash_Chain
begin

text \<open>
  The provenance ledger of the extension governor (\<open>pi_extension_governor/provenance.py\<close>): receipts whose
  hash covers their content and the hash of the receipt before, kept in memory and as one JSON file per
  receipt. A file is what \<open>json.load\<close> returns for it; receipt ids are taken to be plain file names. Building
  a receipt from such a dictionary is pydantic's work and a parameter (\<open>mk\<close>), of which the properties assume
  that it reads back what \<open>model_dump\<close> wrote for the receipts at hand.

  The ledger is an instance of \<open>hash_chain\<close>: the hash of the last receipt fixes the whole history. Reloading
  from the files restores the ledger exactly when no receipt id was used twice.
\<close>

section \<open>Receipts\<close>

record extension_receipt =
  rc_receipt_id :: string
  rc_extension_id :: string
  rc_package_hash :: string
  rc_worker_contract_version :: string
  rc_execution_timestamp :: py_datetime
  rc_execution_duration_ms :: int
  rc_output_hash :: string
  rc_deterministic_fingerprint :: string
  rc_replay_lineage :: "string list"
  rc_previous_receipt_hash :: string
  rc_receipt_hash :: string

text \<open>\<open>model_dump\<close> without the self-referential hash and the two wall-clock fields.\<close>

definition receipt_hashed :: "extension_receipt \<Rightarrow> payload" where
  "receipt_hashed r =
     [(''receipt_id'', PStr (rc_receipt_id r)), (''extension_id'', PStr (rc_extension_id r)),
      (''package_hash'', PStr (rc_package_hash r)),
      (''worker_contract_version'', PStr (rc_worker_contract_version r)),
      (''output_hash'', PStr (rc_output_hash r)),
      (''deterministic_fingerprint'', PStr (rc_deterministic_fingerprint r)),
      (''replay_lineage'', PList (map PStr (rc_replay_lineage r))),
      (''previous_receipt_hash'', PStr (rc_previous_receipt_hash r))]"

definition receipt_text :: "extension_receipt \<Rightarrow> string" where
  "receipt_text r = dumps_compact (PDict (receipt_hashed r))"

definition provenance_hash :: "(string \<Rightarrow> string) \<Rightarrow> extension_receipt \<Rightarrow> string" where
  "provenance_hash sha256 r = sha256 (receipt_text r)"

text \<open>\<open>str\<close> of an aware UTC datetime, which \<open>json.dump(default=str)\<close> writes.\<close>

definition str_datetime :: "py_datetime \<Rightarrow> string" where
  "str_datetime d =
     zfill 4 (dt_year d) @ ''-'' @ zfill 2 (dt_month d) @ ''-'' @ zfill 2 (dt_day d) @ '' ''
     @ zfill 2 (dt_hour d) @ '':'' @ zfill 2 (dt_minute d) @ '':'' @ zfill 2 (dt_second d)
     @ (if dt_microsecond d = 0 then [] else ''.'' @ zfill 6 (dt_microsecond d)) @ ''+00:00''"

definition receipt_dump :: "extension_receipt \<Rightarrow> payload" where
  "receipt_dump r =
     [(''receipt_id'', PStr (rc_receipt_id r)), (''extension_id'', PStr (rc_extension_id r)),
      (''package_hash'', PStr (rc_package_hash r)),
      (''worker_contract_version'', PStr (rc_worker_contract_version r)),
      (''execution_timestamp'', PStr (str_datetime (rc_execution_timestamp r))),
      (''execution_duration_ms'', PInt (rc_execution_duration_ms r)),
      (''output_hash'', PStr (rc_output_hash r)),
      (''deterministic_fingerprint'', PStr (rc_deterministic_fingerprint r)),
      (''replay_lineage'', PList (map PStr (rc_replay_lineage r))),
      (''previous_receipt_hash'', PStr (rc_previous_receipt_hash r)),
      (''receipt_hash'', PStr (rc_receipt_hash r))]"

section \<open>The ledger\<close>

record extension_ledger =
  lg_receipts :: "extension_receipt list"
  lg_files :: "(string, payload) dict"

definition new_ledger :: extension_ledger where
  "new_ledger = \<lparr>lg_receipts = [], lg_files = []\<rparr>"

definition chained :: "(string \<Rightarrow> string) \<Rightarrow> extension_receipt list \<Rightarrow> extension_receipt \<Rightarrow> extension_receipt" where
  "chained sha256 rs receipt =
     (let prev_hash = (if rs = [] then [] else rc_receipt_hash (last rs));
          receipt1 = receipt\<lparr>rc_previous_receipt_hash := prev_hash\<rparr>
      in receipt1\<lparr>rc_receipt_hash := provenance_hash sha256 receipt1\<rparr>)"

definition receipt_file :: "extension_receipt \<Rightarrow> string" where
  "receipt_file r = rc_receipt_id r @ ''.json''"

definition append_receipt ::
    "(string \<Rightarrow> string) \<Rightarrow> extension_ledger \<Rightarrow> extension_receipt \<Rightarrow> extension_ledger \<times> extension_receipt" where
  "append_receipt sha256 lg receipt0 =
     (let receipt = chained sha256 (lg_receipts lg) receipt0
      in (lg\<lparr>lg_receipts := lg_receipts lg @ [receipt],
             lg_files := dict_set (lg_files lg) (receipt_file receipt) (receipt_dump receipt)\<rparr>, receipt))"

fun verify_from :: "(string \<Rightarrow> string) \<Rightarrow> string \<Rightarrow> extension_receipt list \<Rightarrow> bool" where
  "verify_from sha256 expected_prev [] = True"
| "verify_from sha256 expected_prev (receipt # rs) =
     (if rc_previous_receipt_hash receipt \<noteq> expected_prev then False
      else if rc_receipt_hash receipt \<noteq> provenance_hash sha256 receipt then False
      else verify_from sha256 (rc_receipt_hash receipt) rs)"

definition verify_chain :: "(string \<Rightarrow> string) \<Rightarrow> extension_ledger \<Rightarrow> bool" where
  "verify_chain sha256 lg = verify_from sha256 [] (lg_receipts lg)"

definition lineage_for_extension :: "extension_ledger \<Rightarrow> string \<Rightarrow> extension_receipt list" where
  "lineage_for_extension lg extension_id = filter (\<lambda>r. rc_extension_id r = extension_id) (lg_receipts lg)"

text \<open>
  \<open>load_all\<close> reads the files in the order of their names and sorts the receipts by time; an exception of a
  malformed file leaves the receipts read so far.
\<close>

fun load_files :: "(payload \<Rightarrow> extension_receipt result) \<Rightarrow> extension_receipt list \<Rightarrow> payload list \<Rightarrow>
    extension_receipt list \<times> py_exn option" where
  "load_files mk rs [] = (rs, None)"
| "load_files mk rs (d # ds) =
     (case mk d of Inl e \<Rightarrow> (rs, Some e) | Inr r \<Rightarrow> load_files mk (rs @ [r]) ds)"

definition load_all :: "(payload \<Rightarrow> extension_receipt result) \<Rightarrow> extension_ledger \<Rightarrow> extension_ledger \<times> py_exn option" where
  "load_all mk lg =
     (case load_files mk [] (map snd (sort_key fst (lg_files lg))) of
        (rs, None) \<Rightarrow> (lg\<lparr>lg_receipts := sort_key rc_execution_timestamp rs\<rparr>, None)
      | (rs, Some e) \<Rightarrow> (lg\<lparr>lg_receipts := rs\<rparr>, Some e))"

section \<open>The chain\<close>

lemma chained_fields [simp]:
  "rc_receipt_id (chained sha256 rs r) = rc_receipt_id r"
  "rc_extension_id (chained sha256 rs r) = rc_extension_id r"
  "rc_output_hash (chained sha256 rs r) = rc_output_hash r"
  "rc_execution_timestamp (chained sha256 rs r) = rc_execution_timestamp r"
  "rc_previous_receipt_hash (chained sha256 rs r) = (if rs = [] then [] else rc_receipt_hash (last rs))"
  "receipt_file (chained sha256 rs r) = receipt_file r"
  by (simp_all add: chained_def Let_def receipt_file_def)

lemma chained_hash: "rc_receipt_hash (chained sha256 rs r) = provenance_hash sha256 (chained sha256 rs r)"
  by (simp add: chained_def Let_def provenance_hash_def receipt_text_def receipt_hashed_def)

lemma verify_from_snoc:
  "verify_from sha256 p (rs @ [r]) \<longleftrightarrow> verify_from sha256 p rs \<and>
     rc_previous_receipt_hash r = (if rs = [] then p else rc_receipt_hash (last rs)) \<and>
     rc_receipt_hash r = provenance_hash sha256 r"
  by (induction rs arbitrary: p) auto

lemma verify_from_linked:
  "verify_from sha256 p rs \<longleftrightarrow>
     linked rc_receipt_hash rc_previous_receipt_hash rs \<and>
     (rs \<noteq> [] \<longrightarrow> rc_previous_receipt_hash (hd rs) = p) \<and>
     (\<forall>r \<in> set rs. rc_receipt_hash r = provenance_hash sha256 r)"
  by (induction rs rule: rev_induct) (auto simp: verify_from_snoc linked_snoc hd_append)

lemma verify_chain_append [simp]: "verify_chain sha256 (fst (append_receipt sha256 lg r)) \<longleftrightarrow> verify_chain sha256 lg"
  by (simp add: verify_chain_def append_receipt_def verify_from_snoc Let_def chained_hash)

text \<open>The hashed text determines every hashed field.\<close>

lemma receipt_text_inj: "receipt_text a = receipt_text b \<Longrightarrow> receipt_hashed a = receipt_hashed b"
proof -
  let ?d = "\<lambda>r. PDict (receipt_hashed r)"
  have wf: "py_wf (?d r)" "set_free (?d r)" for r
    by (simp_all add: receipt_hashed_def list_all_iff)
  assume "receipt_text a = receipt_text b"
  then have "json_norm (?d a) = json_norm (?d b)"
    using dumps_inj [of "'',''" "'':''" "?d a" "?d b"] wf by (simp add: receipt_text_def dumps_compact_def)
  then have l: "map_option json_norm (map_of (receipt_hashed a) k) = map_option json_norm (map_of (receipt_hashed b) k)" for k
    using wf by (intro json_norm_dict_lookup) simp_all
  have "inj (json_norm \<circ> PStr)" by (simp add: inj_def)
  then show ?thesis
    using l [of "''receipt_id''"] l [of "''extension_id''"] l [of "''package_hash''"] l [of "''output_hash''"]
      l [of "''worker_contract_version''"] l [of "''deterministic_fingerprint''"] l [of "''replay_lineage''"]
      l [of "''previous_receipt_hash''"]
    by (simp add: receipt_hashed_def inj_map_eq_map)
qed

interpretation receipt_chain: hash_chain rc_receipt_hash rc_previous_receipt_hash sha256 receipt_text
  for sha256 :: "string \<Rightarrow> string"
  by unfold_locales (auto dest!: receipt_text_inj simp: receipt_hashed_def)

section \<open>Histories and reloading\<close>

definition append_receipts :: "(string \<Rightarrow> string) \<Rightarrow> extension_ledger \<Rightarrow> extension_receipt list \<Rightarrow> extension_ledger" where
  "append_receipts sha256 lg rs = foldl (\<lambda>l r. fst (append_receipt sha256 l r)) lg rs"

lemma append_receipts_Nil [simp]: "append_receipts sha256 lg [] = lg"
  by (simp add: append_receipts_def)

lemma append_receipts_snoc: "append_receipts sha256 lg (rs @ [r]) = fst (append_receipt sha256 (append_receipts sha256 lg rs) r)"
  by (simp add: append_receipts_def)

lemma lg_receipts_append [simp]:
  "lg_receipts (fst (append_receipt sha256 lg r)) = lg_receipts lg @ [chained sha256 (lg_receipts lg) r]"
  by (simp add: append_receipt_def Let_def)

lemma verify_append_receipts: "verify_chain sha256 (append_receipts sha256 new_ledger rs)"
proof (induction rs rule: rev_induct)
  case Nil
  show ?case by (simp add: verify_chain_def new_ledger_def)
qed (simp add: append_receipts_snoc)

lemma length_append_receipts [simp]: "length (lg_receipts (append_receipts sha256 new_ledger rs)) = length rs"
  by (induction rs rule: rev_induct) (simp_all add: append_receipts_snoc new_ledger_def)

lemma append_receipts_keys:
  "map rc_receipt_id (lg_receipts (append_receipts sha256 new_ledger rs)) = map rc_receipt_id rs"
  "map rc_execution_timestamp (lg_receipts (append_receipts sha256 new_ledger rs)) = map rc_execution_timestamp rs"
  by (induction rs rule: rev_induct) (simp_all add: append_receipts_snoc new_ledger_def)

lemma files_wf: "dict_wf (lg_files (append_receipts sha256 new_ledger rs))"
  by (induction rs rule: rev_induct)
    (simp_all add: append_receipts_snoc append_receipt_def Let_def, simp add: new_ledger_def)

lemma files_keys: "fst ` set (lg_files (append_receipts sha256 new_ledger rs)) = receipt_file ` set rs"
  by (induction rs rule: rev_induct)
    (simp_all add: append_receipts_snoc append_receipt_def Let_def dict_simps, simp add: new_ledger_def)

lemma files_distinct:
  assumes "distinct (map rc_receipt_id rs)"
  shows "lg_files (append_receipts sha256 new_ledger rs) =
     map (\<lambda>r. (receipt_file r, receipt_dump r)) (lg_receipts (append_receipts sha256 new_ledger rs))"
  using assms
proof (induction rs rule: rev_induct)
  case Nil
  show ?case by (simp add: new_ledger_def)
next
  case (snoc r rs)
  let ?l = "append_receipts sha256 new_ledger rs"
  have "receipt_file r \<notin> fst ` set (lg_files ?l)"
    using snoc.prems by (auto simp: files_keys receipt_file_def)
  then have "map_of (lg_files ?l) (receipt_file r) = None" by (simp add: map_of_eq_None_iff)
  with snoc show ?case by (simp add: append_receipts_snoc append_receipt_def Let_def dict_set_absent)
qed

lemma load_files_ok:
  "(\<And>r. r \<in> set rs \<Longrightarrow> mk (receipt_dump r) = Inr r) \<Longrightarrow>
     load_files mk acc (map receipt_dump rs) = (acc @ rs, None)"
  by (induction rs arbitrary: acc) auto

lemma load_files_length: "load_files mk acc ds = (rs, None) \<Longrightarrow> length rs = length acc + length ds"
  by (induction ds arbitrary: acc) (auto split: sum.splits)

lemma load_all_length: "load_all mk lg = (lg', None) \<Longrightarrow> length (lg_receipts lg') = length (lg_files lg)"
  by (auto simp: load_all_def dest!: load_files_length split: prod.splits option.splits)

lemma sort_key_strict_unique:
  assumes "sorted_wrt (<) (map f xs)" "mset ys = mset xs"
  shows "sort_key f ys = xs"
proof (rule sort_key_inj_key_eq)
  show "mset ys = mset xs" by (rule assms(2))
  show "sorted (map f xs)" using assms(1) by (simp add: strict_sorted_imp_sorted)
  have "distinct (map f xs)" using assms(1) by (simp add: strict_sorted_iff)
  then show "inj_on f (set ys)" using assms(2) by (metis distinct_map mset_eq_setD)
qed

lemma insort_key_map_pair:
  "insort_key fst (f x, g x) (map (\<lambda>r. (f r, g r)) xs) = map (\<lambda>r. (f r, g r)) (insort_key f x xs)"
  by (induction xs) auto

lemma sort_key_map_pair: "sort_key fst (map (\<lambda>r. (f r, g r)) xs) = map (\<lambda>r. (f r, g r)) (sort_key f xs)"
  by (induction xs) (simp_all add: insort_key_map_pair)

lemma load_all_distinct:
  assumes "distinct (map rc_receipt_id rs)" "sorted_wrt (<) (map rc_execution_timestamp rs)"
    and mk: "\<And>r. r \<in> set (lg_receipts (append_receipts sha256 new_ledger rs)) \<Longrightarrow> mk (receipt_dump r) = Inr r"
  shows "load_all mk (append_receipts sha256 new_ledger rs) = (append_receipts sha256 new_ledger rs, None)"
proof -
  let ?l = "append_receipts sha256 new_ledger rs"
  let ?s = "sort_key receipt_file (lg_receipts ?l)"
  have "sort_key fst (lg_files ?l) = map (\<lambda>r. (receipt_file r, receipt_dump r)) ?s"
    using files_distinct [OF assms(1), of sha256] sort_key_map_pair [of receipt_file receipt_dump] by simp
  then have "load_files mk [] (map snd (sort_key fst (lg_files ?l))) = (?s, None)"
    using load_files_ok [of ?s mk "[]"] mk by (simp add: comp_def)
  moreover have "sort_key rc_execution_timestamp ?s = lg_receipts ?l"
    using assms(2) by (intro sort_key_strict_unique) (simp_all add: append_receipts_keys)
  ultimately show ?thesis by (simp add: load_all_def)
qed

lemma load_all_repeated:
  assumes "load_all mk (append_receipts sha256 new_ledger rs) = (append_receipts sha256 new_ledger rs, None)"
  shows "distinct (map rc_receipt_id rs)"
proof -
  let ?files = "lg_files (append_receipts sha256 new_ledger rs)"
  have "length rs = length ?files" using load_all_length [OF assms] by simp
  also have "\<dots> = card (fst ` set ?files)"
    using files_wf [of sha256 rs] distinct_card [of "map fst ?files"] by (simp add: dict_wf_def)
  also have "fst ` set ?files = (\<lambda>i. i @ ''.json'') ` set (map rc_receipt_id rs)"
    by (simp add: files_keys receipt_file_def image_image)
  also have "card \<dots> = card (set (map rc_receipt_id rs))"
    by (intro card_image inj_onI) simp
  finally have "card (set (map rc_receipt_id rs)) = length (map rc_receipt_id rs)" by simp
  then show ?thesis by (rule card_distinct)
qed

section \<open>Properties\<close>

definition ledger_head :: "extension_ledger \<Rightarrow> string" where
  "ledger_head lg = (if lg_receipts lg = [] then [] else rc_receipt_hash (last (lg_receipts lg)))"

text \<open>
  Two ledgers that both verify and end in the same hash hold the same
  receipts, up to the two wall-clock fields the hash leaves out, as long as SHA-256 has no collision among
  the receipts compared and none of them hashes to the empty string. Truncating, reordering, inserting or
  editing receipts therefore changes the head of the ledger or breaks its verification.
\<close>

theorem ledger_head_fixes_history:
  assumes "verify_chain sha256 a" "verify_chain sha256 b"
    and "inj_on sha256 (receipt_text ` (set (lg_receipts a) \<union> set (lg_receipts b)))"
    and "[] \<notin> sha256 ` receipt_text ` (set (lg_receipts a) \<union> set (lg_receipts b))"
    and "ledger_head a = ledger_head b"
  shows "map receipt_hashed (lg_receipts a) = map receipt_hashed (lg_receipts b)"
proof -
  have v: "linked rc_receipt_hash rc_previous_receipt_hash (lg_receipts l)"
    "lg_receipts l \<noteq> [] \<Longrightarrow> rc_previous_receipt_hash (hd (lg_receipts l)) = []"
    "r \<in> set (lg_receipts l) \<Longrightarrow> rc_receipt_hash r = sha256 (receipt_text r)"
    if "verify_chain sha256 l" for l r
    using that by (simp_all add: verify_chain_def verify_from_linked provenance_hash_def)
  have "map receipt_text (lg_receipts a) = map receipt_text (lg_receipts b)"
  proof (rule receipt_chain.rooted_tamper_evident [where genesis = "[]"])
    show "\<And>e. e \<in> set (lg_receipts a) \<union> set (lg_receipts b) \<Longrightarrow> rc_receipt_hash e \<noteq> []"
      using v(3) [OF assms(1)] v(3) [OF assms(2)] assms(4) by (auto dest!: sym [of _ "[]"])
  qed (use assms v in \<open>auto simp: ledger_head_def\<close>)
  then have "list_all2 (\<lambda>x y. receipt_text x = receipt_text y) (lg_receipts a) (lg_receipts b)"
    by (simp add: list_all2_map1 list_all2_map2 flip: list.rel_eq)
  then have "list_all2 (\<lambda>x y. receipt_hashed x = receipt_hashed y) (lg_receipts a) (lg_receipts b)"
    by (rule list_all2_mono) (rule receipt_text_inj)
  then show ?thesis by (simp add: list_all2_map1 list_all2_map2 flip: list.rel_eq)
qed

definition example_receipt :: "string \<Rightarrow> nat \<Rightarrow> extension_receipt" where
  "example_receipt rid us =
     \<lparr>rc_receipt_id = rid, rc_extension_id = ''ext'', rc_package_hash = ''p'', rc_worker_contract_version = ''1.0.0'',
      rc_execution_timestamp = DateTime 2025 1 1 0 0 0 us, rc_execution_duration_ms = 3, rc_output_hash = ''o'',
      rc_deterministic_fingerprint = ''o'', rc_replay_lineage = [''ext''], rc_previous_receipt_hash = [],
      rc_receipt_hash = []\<rparr>"

definition example_ledger :: "nat \<Rightarrow> extension_ledger" where
  "example_ledger us = append_receipts (Cons (CHR ''h'')) new_ledger
     [example_receipt ''b'' us, example_receipt ''a'' (us + 1)]"

lemma example_ledger_head: "ledger_head (example_ledger 0) = ledger_head (example_ledger 5)"
  by (simp add: example_ledger_def append_receipts_def append_receipt_def new_ledger_def Let_def ledger_head_def
      chained_def provenance_hash_def receipt_text_def receipt_hashed_def example_receipt_def)

theorem ledger_head_fixes_history_witness:
  "ledger_head (example_ledger 0) = ledger_head (example_ledger 5) \<and>
   map receipt_hashed (lg_receipts (example_ledger 0)) = map receipt_hashed (lg_receipts (example_ledger 5))"
  using ledger_head_fixes_history [of "Cons (CHR ''h'')" "example_ledger 0" "example_ledger 5"] example_ledger_head
    verify_append_receipts [of "Cons (CHR ''h'')"]
  by (simp add: example_ledger_def inj_on_def image_iff)

text \<open>
  C19 (ledger_reload): every ledger built by appending receipts verifies, whatever previous hash the given
  receipts carried. When the clock advanced between them, reading the JSON files back restores the ledger
  exactly if the receipt ids are pairwise different, and only then: a second receipt with the same id
  overwrites the file of the first.
\<close>

theorem ledger_reload:
  assumes "sorted_wrt (<) (map rc_execution_timestamp rs)"
    and "\<And>r. r \<in> set (lg_receipts (append_receipts sha256 new_ledger rs)) \<Longrightarrow> mk (receipt_dump r) = Inr r"
  shows "verify_chain sha256 (append_receipts sha256 new_ledger rs) \<and>
    (load_all mk (append_receipts sha256 new_ledger rs) = (append_receipts sha256 new_ledger rs, None) \<longleftrightarrow>
       distinct (map rc_receipt_id rs))"
  using load_all_distinct [OF _ assms] load_all_repeated verify_append_receipts by blast

definition example_reader :: "payload \<Rightarrow> extension_receipt result" where
  "example_reader d =
     (case find (\<lambda>r. receipt_dump r = d) (lg_receipts (example_ledger 0)) of
        None \<Rightarrow> Inl TypeError | Some r \<Rightarrow> Inr r)"

lemma example_reader_ok: "\<forall>r \<in> set (lg_receipts (example_ledger 0)). example_reader (receipt_dump r) = Inr r"
  by (simp add: example_reader_def example_ledger_def append_receipts_def append_receipt_def new_ledger_def Let_def
      chained_def example_receipt_def receipt_dump_def)

theorem ledger_reload_witness:
  "load_all example_reader (example_ledger 0) = (example_ledger 0, None)"
  using ledger_reload [of "[example_receipt ''b'' 0, example_receipt ''a'' 1]" "Cons (CHR ''h'')" example_reader]
    example_reader_ok
  by (simp add: example_ledger_def) (simp add: example_receipt_def less_py_datetime_def dt_key_def)

end
