(* ===== verification/Extension_Governor.thy ===== *)
theory Extension_Governor
  imports Extension_Policy Extension_Sandbox Extension_Ledger
begin

text \<open>
  The admission pipeline of the extension governor (\<open>pi_extension_governor/governor.py\<close>): five source
  detectors, static inspection, three determinism runs, a test run, normalisation, policy, trust zone, and
  a provenance receipt for what is admitted. The detectors of the micro agents are parameters, arbitrary
  functions of the source, as are the parser, the clock readings and the \<open>world\<close> of the sandbox.

  The properties say when a bundle is admitted and what then is in the ledger, that nothing is admitted and
  no process is started while execution is disabled, that a clean deterministic extension is admitted, and
  that the ledger verifies after any sequence of bundles.
\<close>

section \<open>The pipeline\<close>

type_synonym detector = "string \<Rightarrow> rat \<times> string list"

record detectors =
  det_prompt_injection :: detector
  det_shadow_parameters :: detector
  det_invisible_guardrails :: detector
  det_surplus_violations :: detector
  det_spend_anomalies :: detector

record admission_result =
  ar_manifest_id :: string
  ar_admitted :: bool
  ar_status :: extension_status
  ar_inspection_report :: "inspection_report option"
  ar_determinism_verified :: bool
  ar_policy_evaluation :: "policy_evaluation option"
  ar_trust_zone_decision :: "trust_zone_decision option"
  ar_normalization_result :: "payload option"
  ar_provenance_receipt_id :: "string option"
  ar_reason :: string

text \<open>The collaborators given to the constructor, what they keep, and the clock readings of one call.\<close>

record governor_config =
  gc_policy :: policy_config
  gc_trust_enforcer :: trust_enforcer
  gc_sandbox :: sandbox_runtime

record governor =
  gv_ledger :: extension_ledger
  gv_sandbox :: sandbox_state

record clock_readings =
  cr_inspected_at :: string
  cr_normalized_at :: string
  cr_execution_timestamp :: py_datetime

definition reject :: "string \<Rightarrow> inspection_report option \<Rightarrow> bool \<Rightarrow> payload option \<Rightarrow> string \<Rightarrow> admission_result" where
  "reject manifest_id report determinism normalization reason =
     \<lparr>ar_manifest_id = manifest_id, ar_admitted = False, ar_status = REJECTED, ar_inspection_report = report,
      ar_determinism_verified = determinism, ar_policy_evaluation = None, ar_trust_zone_decision = None,
      ar_normalization_result = normalization, ar_provenance_receipt_id = None, ar_reason = reason\<rparr>"

definition detector_list :: "detectors \<Rightarrow> (detector \<times> string) list" where
  "detector_list ds =
     [(det_prompt_injection ds, []),
      (det_shadow_parameters ds, ''shadow parameters detected - ''),
      (det_invisible_guardrails ds, ''invisible guardrail evasion signatures detected - ''),
      (det_surplus_violations ds, ''surplus quota policy violations detected - ''),
      (det_spend_anomalies ds, ''spend anomaly patterns detected - '')]"

fun first_detection :: "(detector \<times> string) list \<Rightarrow> string \<Rightarrow> string option" where
  "first_detection [] source = None"
| "first_detection ((d, what) # ds) source =
     (case d source of (risk, violations) \<Rightarrow>
        if risk \<ge> 71 then Some (''Safety inspection rejected extension: '' @ what @ py_join '', '' violations)
        else first_detection ds source)"

definition inspect_source :: "parser \<Rightarrow> string \<Rightarrow> extension_manifest \<Rightarrow> string \<Rightarrow> parse_error + inspection_report" where
  "inspect_source parse now m source =
     res_bind (parse source) (\<lambda>tree.
       let i = apply_classification_rules (check_tree ''entrypoint.py'' tree (new_inspector []))
       in Inr \<lparr>ir_package_hash = em_package_hash m, ir_classifications = in_classifications i,
            ir_findings = in_findings i, ir_determinism_score = compute_determinism_score i,
            ir_replay_safety_score = compute_replay_safety_score i, ir_inspected_at = now,
            ir_inspection_hash = []\<rparr>)"

definition succeeded :: "sandbox_result \<Rightarrow> bool" where
  "succeeded sr \<longleftrightarrow> py_eq (sx_status sr) (PStr ''SUCCESS'')"

definition admission_receipt :: "(string \<Rightarrow> string) \<Rightarrow> clock_readings \<Rightarrow> extension_manifest \<Rightarrow> sandbox_result \<Rightarrow> extension_receipt" where
  "admission_receipt sha256 clk m sr =
     (let receipt_fingerprint = take 12 (sha256 (py_join ''|''
            [em_extension_id m, em_package_hash m, sx_output_hash sr]))
      in \<lparr>rc_receipt_id = ''rcpt_'' @ em_extension_id m @ ''_'' @ receipt_fingerprint,
          rc_extension_id = em_extension_id m, rc_package_hash = em_package_hash m,
          rc_worker_contract_version = ''1.0.0'', rc_execution_timestamp = cr_execution_timestamp clk,
          rc_execution_duration_ms = sx_execution_time_ms sr, rc_output_hash = sx_output_hash sr,
          rc_deterministic_fingerprint = sx_output_hash sr, rc_replay_lineage = [em_extension_id m],
          rc_previous_receipt_hash = [], rc_receipt_hash = []\<rparr>)"

text \<open>Phases 4 to 6: policy, trust zone, decision and receipt.\<close>

definition decide_admission :: "(string \<Rightarrow> string) \<Rightarrow> governor_config \<Rightarrow> clock_readings \<Rightarrow> governor \<Rightarrow> extension_manifest \<Rightarrow>
    inspection_report \<Rightarrow> bool \<Rightarrow> payload option \<Rightarrow> sandbox_result \<Rightarrow> governor \<times> admission_result result" where
  "decide_admission sha256 cfg clk gv m report determinism_verified normalization sr =
     (case admission_policy_evaluate sha256 (gc_policy cfg) m of
        Inl e \<Rightarrow> (gv, Inl e)
      | Inr policy_eval \<Rightarrow>
          (let trust_decision = trust_evaluate (gc_trust_enforcer cfg) m;
               admitted = (determinism_verified \<and> pe_passed policy_eval \<and> td_allowed trust_decision \<and>
                           CLASS_REJECTED \<notin> ir_classifications report \<and> succeeded sr);
               reason = (if \<not> determinism_verified then ''Determinism verification failed: outputs varied across runs''
                         else if \<not> pe_passed policy_eval
                         then ''Policy evaluation failed: extension violates governance policy''
                         else if \<not> succeeded sr then ''Sandbox execution failed: '' @ py_str (sx_status sr)
                         else if admitted then ''Extension admitted to mesh''
                         else ''Extension failed admission criteria'');
               (ledger, receipt_id) =
                 (if admitted then
                    (case append_receipt sha256 (gv_ledger gv) (admission_receipt sha256 clk m sr) of
                       (l, r) \<Rightarrow> (l, Some (rc_receipt_id r)))
                  else (gv_ledger gv, None))
           in (gv\<lparr>gv_ledger := ledger\<rparr>,
               Inr \<lparr>ar_manifest_id = em_extension_id m, ar_admitted = admitted,
                    ar_status = (if admitted then ADMITTED else REJECTED), ar_inspection_report = Some report,
                    ar_determinism_verified = determinism_verified, ar_policy_evaluation = Some policy_eval,
                    ar_trust_zone_decision = Some trust_decision, ar_normalization_result = normalization,
                    ar_provenance_receipt_id = receipt_id, ar_reason = reason\<rparr>)))"

text \<open>Phase 3: an output of a successful test run that is not empty has to be a canonical artifact.\<close>

definition normalize_phase :: "clock_readings \<Rightarrow> extension_manifest \<Rightarrow> sandbox_result \<Rightarrow> payload option result" where
  "normalize_phase clk m sr =
     (if succeeded sr \<and> truthy (sx_output sr)
      then res_bind (normalize (cr_normalized_at clk) (sx_output sr) m) (\<lambda>n. Inr (Some n))
      else Inr None)"

definition normalization_rejected :: "payload option \<Rightarrow> bool" where
  "normalization_rejected n =
     (case n of None \<Rightarrow> False
      | Some d \<Rightarrow> py_eq (dict_get d ''artifact_type'' PNone) (PStr ''NormalizationRejection''))"

definition admission_phases :: "(string \<Rightarrow> string) \<Rightarrow> world \<Rightarrow> governor_config \<Rightarrow> clock_readings \<Rightarrow> governor \<Rightarrow> extension_manifest \<Rightarrow>
    inspection_report \<Rightarrow> string \<Rightarrow> payload \<Rightarrow> governor \<times> admission_result result" where
  "admission_phases sha256 w cfg clk gv m report source inputs =
     (case verify_determinism sha256 w (gc_sandbox cfg) 3 (gv_sandbox gv) source inputs of
        (ss, Inl e) \<Rightarrow> (gv\<lparr>gv_sandbox := ss\<rparr>, Inl e)
      | (ss, Inr determinism_verified) \<Rightarrow>
          (case execute sha256 w (gc_sandbox cfg) ss source inputs of
             (ss', Inl e) \<Rightarrow> (gv\<lparr>gv_sandbox := ss'\<rparr>, Inl e)
           | (ss', Inr sr) \<Rightarrow>
               (let gv' = gv\<lparr>gv_sandbox := ss'\<rparr> in
                case normalize_phase clk m sr of
                  Inl e \<Rightarrow> (gv', Inl e)
                | Inr normalization \<Rightarrow>
                    if normalization_rejected normalization
                    then (gv', Inr (reject (em_extension_id m) (Some report) determinism_verified normalization
                           (''Semantic normalization rejected: '' @
                            (case normalization of None \<Rightarrow> [] | Some n \<Rightarrow> py_str (dict_get n ''reason'' PNone)))))
                    else decide_admission sha256 cfg clk gv' m report determinism_verified normalization sr)))"

definition process_bundle :: "(string \<Rightarrow> string) \<Rightarrow> parser \<Rightarrow> detectors \<Rightarrow> world \<Rightarrow> governor_config \<Rightarrow> clock_readings \<Rightarrow>
    governor \<Rightarrow> extension_bundle \<Rightarrow> string \<Rightarrow> payload \<Rightarrow> governor \<times> admission_result result" where
  "process_bundle sha256 parse ds w cfg clk gv bundle source inputs =
     (let m = eb_manifest bundle in
      case first_detection (detector_list ds) source of
        Some reason \<Rightarrow> (gv, Inr (reject (em_extension_id m) None False None reason))
      | None \<Rightarrow>
          (case inspect_source parse (cr_inspected_at clk) m source of
             Inl (SyntaxErr _ _) \<Rightarrow>
               (gv, Inr (reject (em_extension_id m) None False None ''Syntax error in extension entrypoint''))
           | Inl (OtherErr e) \<Rightarrow> (gv, Inl (CallbackError e))
           | Inr report \<Rightarrow>
               if CLASS_REJECTED \<in> ir_classifications report
               then (gv, Inr (reject (em_extension_id m) (Some report) False None
                      ''Static inspection rejected extension: dangerous capabilities detected''))
               else admission_phases sha256 w cfg clk gv m report source inputs))"

section \<open>The phases\<close>

lemma first_detection_None:
  "first_detection ds src = None \<longleftrightarrow> (\<forall>d \<in> set ds. fst (fst d src) < 71)"
  by (induction ds src rule: first_detection.induct) (auto split: prod.splits)

lemma inspect_source_rejected:
  assumes "parse src = Inr t"
  shows "\<exists>rep. inspect_source parse now m src = Inr rep \<and>
    (CLASS_REJECTED \<in> ir_classifications rep \<longleftrightarrow> (\<exists>n \<in> ast_nodes t. dangerous n))"
  using assms rejected_check_tree [of "''entrypoint.py''" t "new_inspector []"]
    rejected_apply_rules [of "check_tree ''entrypoint.py'' t (new_inspector [])"]
  by (simp add: inspect_source_def Let_def rejected_def [symmetric])

lemma trust_allowed [simp]: "td_allowed (trust_evaluate te m)"
  by (simp add: trust_evaluate_def Let_def)

text \<open>The final phase never raises; it admits exactly when every condition holds.\<close>

lemma decide_admission_ok:
  assumes "ok \<longleftrightarrow> determinism \<and> policy_admits (gc_policy cfg) m \<and> CLASS_REJECTED \<notin> ir_classifications report \<and> succeeded sr"
  shows "\<exists>r. decide_admission sha256 cfg clk gv m report determinism nrm sr =
      (if ok then gv\<lparr>gv_ledger := fst (append_receipt sha256 (gv_ledger gv) (admission_receipt sha256 clk m sr))\<rparr> else gv, Inr r) \<and>
    ar_admitted r = ok \<and> ar_status r = (if ok then ADMITTED else REJECTED) \<and>
    (ar_provenance_receipt_id r = None \<longleftrightarrow> \<not> ok)"
proof -
  obtain e where "admission_policy_evaluate sha256 (gc_policy cfg) m = Inr e" "pe_passed e = policy_admits (gc_policy cfg) m"
    using admission_policy_evaluate_ok by blast
  with assms show ?thesis by (simp add: decide_admission_def Let_def split_def)
qed

text \<open>What a call leaves behind: either nothing but a rejection or an exception, or an admission with its receipt.\<close>

definition turned_away :: "governor \<Rightarrow> governor \<Rightarrow> admission_result result \<Rightarrow> bool" where
  "turned_away gv gv' res \<longleftrightarrow> gv_ledger gv' = gv_ledger gv \<and>
     (case res of Inl _ \<Rightarrow> True
      | Inr r \<Rightarrow> \<not> ar_admitted r \<and> ar_status r = REJECTED \<and> ar_provenance_receipt_id r = None)"

definition let_in :: "(string \<Rightarrow> string) \<Rightarrow> world \<Rightarrow> governor_config \<Rightarrow> clock_readings \<Rightarrow> governor \<Rightarrow> extension_manifest \<Rightarrow>
    string \<Rightarrow> payload \<Rightarrow> governor \<Rightarrow> admission_result result \<Rightarrow> sandbox_result \<Rightarrow> bool" where
  "let_in sha256 w cfg clk gv m source inputs gv' res sr \<longleftrightarrow>
     (\<exists>r. res = Inr r \<and> ar_admitted r \<and> ar_status r = ADMITTED) \<and>
     (\<exists>ss ss'. verify_determinism sha256 w (gc_sandbox cfg) 3 (gv_sandbox gv) source inputs = (ss, Inr True) \<and>
        execute sha256 w (gc_sandbox cfg) ss source inputs = (ss', Inr sr)) \<and>
     succeeded sr \<and> policy_admits (gc_policy cfg) m \<and>
     gv_ledger gv' = fst (append_receipt sha256 (gv_ledger gv) (admission_receipt sha256 clk m sr))"

lemma turned_away_reject [simp]:
  "gv_ledger gv' = gv_ledger gv \<Longrightarrow> turned_away gv gv' (Inr (reject i rep det nrm reason))"
  "gv_ledger gv' = gv_ledger gv \<Longrightarrow> turned_away gv gv' (Inl e)"
  by (simp_all add: turned_away_def reject_def)

lemma decide_admission_cases:
  assumes "decide_admission sha256 cfg clk gv m report determinism nrm sr = (gv', res)"
    and "CLASS_REJECTED \<notin> ir_classifications report"
  shows "turned_away gv gv' res \<or> determinism \<and> policy_admits (gc_policy cfg) m \<and> succeeded sr \<and>
    (\<exists>r. res = Inr r \<and> ar_admitted r \<and> ar_status r = ADMITTED) \<and>
    gv_ledger gv' = fst (append_receipt sha256 (gv_ledger gv) (admission_receipt sha256 clk m sr))"
  using decide_admission_ok [OF refl, of sha256 cfg clk gv m report determinism nrm sr] assms
  by (auto simp: turned_away_def split: if_splits)

lemma admission_phases_cases:
  assumes "admission_phases sha256 w cfg clk gv m report source inputs = (gv', res)"
    and "CLASS_REJECTED \<notin> ir_classifications report"
  shows "turned_away gv gv' res \<or> (\<exists>sr. let_in sha256 w cfg clk gv m source inputs gv' res sr)"
proof -
  obtain ss det where vd: "verify_determinism sha256 w (gc_sandbox cfg) 3 (gv_sandbox gv) source inputs = (ss, det)"
    by fastforce
  obtain ss' sr where ex: "execute sha256 w (gc_sandbox cfg) ss source inputs = (ss', sr)" by fastforce
  show ?thesis
  proof (cases "\<exists>b r n. det = Inr b \<and> sr = Inr r \<and> normalize_phase clk m r = Inr n \<and> \<not> normalization_rejected n")
    case True
    then obtain b r n where *: "det = Inr b" "sr = Inr r" "normalize_phase clk m r = Inr n" "\<not> normalization_rejected n"
      by blast
    with assms(1) vd ex have "decide_admission sha256 cfg clk (gv\<lparr>gv_sandbox := ss'\<rparr>) m report b n r = (gv', res)"
      by (simp add: admission_phases_def Let_def)
    from decide_admission_cases [OF this assms(2)] * vd ex show ?thesis
      by (auto simp: turned_away_def let_in_def)
  next
    case False
    with assms(1) vd ex have "turned_away gv gv' res"
      by (auto simp: admission_phases_def Let_def split: sum.splits if_splits)
    then show ?thesis ..
  qed
qed

lemma process_bundle_cases:
  assumes "process_bundle sha256 parse ds w cfg clk gv bundle source inputs = (gv', res)"
  shows "turned_away gv gv' res \<or>
    (\<forall>d \<in> set (detector_list ds). fst (fst d source) < 71) \<and>
    (\<exists>t. parse source = Inr t \<and> \<not> (\<exists>n \<in> ast_nodes t. dangerous n)) \<and>
    (\<exists>sr. let_in sha256 w cfg clk gv (eb_manifest bundle) source inputs gv' res sr)"
proof (cases "first_detection (detector_list ds) source")
  case (Some reason)
  with assms show ?thesis by (auto simp: process_bundle_def Let_def)
next
  case None
  note det = this
  show ?thesis
  proof (cases "parse source")
    case (Inl e)
    with assms det show ?thesis
      by (auto simp: process_bundle_def Let_def inspect_source_def split: parse_error.splits)
  next
    case (Inr t)
    obtain rep where rep: "inspect_source parse (cr_inspected_at clk) (eb_manifest bundle) source = Inr rep"
        "CLASS_REJECTED \<in> ir_classifications rep \<longleftrightarrow> (\<exists>n \<in> ast_nodes t. dangerous n)"
      using inspect_source_rejected [of parse source t, OF Inr] by blast
    show ?thesis
    proof (cases "CLASS_REJECTED \<in> ir_classifications rep")
      case True
      with assms det rep(1) show ?thesis by (auto simp: process_bundle_def Let_def)
    next
      case False
      with assms det rep(1) have "admission_phases sha256 w cfg clk gv (eb_manifest bundle) rep source inputs = (gv', res)"
        by (simp add: process_bundle_def Let_def)
      from admission_phases_cases [OF this False] det Inr False rep(2) show ?thesis by (simp add: first_detection_None)
    qed
  qed
qed

lemma let_in_enabled:
  assumes "let_in sha256 w cfg clk gv m source inputs gv' res sr"
  shows "execution_enabled (w_allow_env w) (rt_allow_execution (gc_sandbox cfg))"
proof (rule ccontr)
  assume "\<not> ?thesis"
  from verify_runs_disabled [OF this, of 3 sha256 "[]"] assms show False
    by (auto simp: let_in_def verify_determinism_def)
qed

section \<open>The run of a clean extension\<close>

definition boots :: "world \<Rightarrow> sandbox_runtime \<Rightarrow> string \<Rightarrow> payload \<Rightarrow> nat \<Rightarrow> payload \<Rightarrow> bool" where
  "boots w rt source inputs k d \<longleftrightarrow>
     (\<exists>tb lines peak err. w_process w k (child_request rt source inputs) =
        Completed (child_main (rt_output_size_max rt) (ExecFinished (PDict d)) tb lines peak) err)"

text \<open>An output the sandbox passes on unchanged.\<close>

definition reportable :: "sandbox_runtime \<Rightarrow> payload \<Rightarrow> bool" where
  "reportable rt d \<longleftrightarrow> py_wf (PDict d) \<and> set_free (PDict d) \<and>
     int (length (dumps_compact (PDict d))) \<le> rt_output_size_max rt"

lemma execute_clean:
  assumes "execution_enabled (w_allow_env w) (rt_allow_execution rt)" "set_free (PDict inputs)"
    and "boots w rt source inputs (ss_spawned st) d" "reportable rt d"
  obtains r where "execute sha256 w rt st source inputs =
      (\<lparr>ss_calls = Suc (ss_calls st), ss_spawned = Suc (ss_spawned st)\<rparr>, Inr r)"
    "succeeded r" "sx_output r = json_norm (PDict d)" "hash_of_output sha256 r"
proof -
  obtain tb lines peak err where "w_process w (ss_spawned st) (child_request rt source inputs) =
      Completed (child_main (rt_output_size_max rt) (ExecFinished (PDict d)) tb lines peak) err"
    using assms(3) by (auto simp: boots_def)
  moreover have "run_succeeds (rt_output_size_max rt) (ExecFinished (PDict d))"
    using assms(4) by (simp add: run_succeeds_def reportable_def)
  ultimately show thesis
    using execute_bootstrap [OF assms(1,2), of st source "ExecFinished (PDict d)" _ _ _ _ sha256] assms(4) execute_hash
    by (metis exec_outcome.inject(2) exec_outcome.case(4) reportable_def run_output_def succeeded_def that)
qed

lemma verify_runs_clean:
  assumes "execution_enabled (w_allow_env w) (rt_allow_execution rt)" "set_free (PDict inputs)" "reportable rt d"
    and "\<And>k. k < n \<Longrightarrow> boots w rt source inputs (ss_spawned st + k) d"
    and "set hs \<subseteq> {h}" "hs \<noteq> [] \<or> 0 < n"
    and "h = (if truthy (json_norm (PDict d)) then sha256 (dumps_compact (json_norm (PDict d))) else [])"
  shows "verify_runs sha256 w rt n hs st source inputs =
     (\<lparr>ss_calls = ss_calls st + n, ss_spawned = ss_spawned st + n\<rparr>, Inr True)"
  using assms(4-6)
proof (induction n arbitrary: hs st)
  case 0
  then have "set hs = {h}" by (auto simp: neq_Nil_conv)
  then show ?case by (simp add: length_remdups_card_conv)
next
  case (Suc n)
  have "boots w rt source inputs (ss_spawned st) d" using Suc.prems(1) [of 0] by simp
  from execute_clean [OF assms(1,2) this assms(3)] obtain r where r: "execute sha256 w rt st source inputs =
      (\<lparr>ss_calls = Suc (ss_calls st), ss_spawned = Suc (ss_spawned st)\<rparr>, Inr r)"
    "succeeded r" "sx_output r = json_norm (PDict d)" "hash_of_output sha256 r" .
  then have "sx_output_hash r = h" using assms(7) by (simp only: hash_of_output_def)
  moreover have "boots w rt source inputs (Suc (ss_spawned st) + k) d" if "k < n" for k
    using Suc.prems(1) [of "Suc k"] that by simp
  ultimately show ?case
    using r(1,2) Suc.prems(2) Suc.IH [of "\<lparr>ss_calls = Suc (ss_calls st), ss_spawned = Suc (ss_spawned st)\<rparr>" "hs @ [h]"]
    by (simp add: succeeded_def)
qed

lemma map_of_sort_key: "distinct (map fst kvs) \<Longrightarrow> map_of (sort_key fst kvs) = map_of kvs"
proof -
  assume d: "distinct (map fst kvs)"
  have "mset (map fst (sort_key fst kvs)) = mset (map fst kvs)" by simp
  with d have "distinct (map fst (sort_key fst kvs))" using mset_eq_imp_distinct_iff by blast
  with d show ?thesis by (simp add: map_of_inject_set)
qed

lemma normalize_clean:
  assumes "distinct (map fst d)" "map_of d ''artifact_type'' = Some (PStr t)" "t \<in> set CANONICAL_TYPES"
    and "sx_output sr = json_norm (PDict d)"
  shows "\<exists>n. normalize_phase clk m sr = Inr n \<and> \<not> normalization_rejected n"
proof -
  let ?kvs = "map (\<lambda>(k, v). (k, json_norm v)) d"
  have "distinct (map fst ?kvs)" using assms(1) by (simp add: comp_def case_prod_beta)
  then have "map_of (sort_key fst ?kvs) ''artifact_type'' = Some (PStr t)"
    using assms(2) by (simp add: map_of_sort_key map_of_map)
  moreover have "py_in (PStr t) (map PStr CANONICAL_TYPES)" using assms(3) by (auto simp: py_in_def list_ex_iff)
  moreover have "t \<noteq> ''NormalizationRejection''" using assms(3) by (auto simp: CANONICAL_TYPES_def)
  ultimately show ?thesis
    using assms(4) by (simp add: normalize_phase_def normalize_def dict_get_def normalization_rejected_def Let_def)
qed

definition receipted :: "(string \<Rightarrow> string) \<Rightarrow> governor \<Rightarrow> extension_manifest \<Rightarrow> payload \<Rightarrow> governor \<times> admission_result result \<Rightarrow> bool" where
  "receipted sha256 gv m d p \<longleftrightarrow>
     (\<exists>r rec. snd p = Inr r \<and> ar_admitted r \<and>
        lg_receipts (gv_ledger (fst p)) = lg_receipts (gv_ledger gv) @ [rec] \<and>
        rc_extension_id rec = em_extension_id m \<and>
        rc_deterministic_fingerprint rec = sha256 (dumps_compact (PDict d)))"

lemma decide_receipted:
  assumes "policy_admits (gc_policy cfg) m" "CLASS_REJECTED \<notin> ir_classifications report" "succeeded sr"
    and "hash_of_output sha256 sr" "sx_output sr = json_norm (PDict d)" "d \<noteq> []"
  shows "receipted sha256 gv m d (decide_admission sha256 cfg clk (gv\<lparr>gv_sandbox := ss\<rparr>) m report True nrm sr)"
proof -
  have h: "sx_output_hash sr = sha256 (dumps_compact (PDict d))"
    using assms(4-6) dumps_json_norm [of "'',''" "'':''" "PDict d"] truthy_json_norm [of "PDict d"]
    by (simp add: hash_of_output_def dumps_compact_def del: json_norm.simps dumps_json_norm truthy_json_norm)
  then have "rc_deterministic_fingerprint (chained sha256 rs (admission_receipt sha256 clk m sr)) = sha256 (dumps_compact (PDict d))"
    and "rc_extension_id (chained sha256 rs (admission_receipt sha256 clk m sr)) = em_extension_id m" for rs
    by (simp_all add: chained_def admission_receipt_def Let_def)
  with decide_admission_ok [of True True cfg m report sr sha256 clk "gv\<lparr>gv_sandbox := ss\<rparr>" nrm] assms(1-3) show ?thesis
    by (auto simp: receipted_def)
qed

text \<open>The three determinism runs end with \<open>d\<close>, the test run with \<open>d'\<close>.\<close>

lemma admission_phases_clean:
  fixes cfg :: governor_config
  defines "rt \<equiv> gc_sandbox cfg"
  assumes "execution_enabled (w_allow_env w) (rt_allow_execution rt)" "set_free (PDict inputs)"
    and "reportable rt d" "reportable rt d'"
    and "\<And>k. k < 3 \<Longrightarrow> boots w rt source inputs (ss_spawned (gv_sandbox gv) + k) d"
    and "boots w rt source inputs (ss_spawned (gv_sandbox gv) + 3) d'"
    and "map_of d' ''artifact_type'' = Some (PStr t)" "t \<in> set CANONICAL_TYPES"
    and "policy_admits (gc_policy cfg) m" "CLASS_REJECTED \<notin> ir_classifications report"
  shows "receipted sha256 gv m d' (admission_phases sha256 w cfg clk gv m report source inputs)"
proof -
  let ?ss = "\<lparr>ss_calls = ss_calls (gv_sandbox gv) + 3, ss_spawned = ss_spawned (gv_sandbox gv) + 3\<rparr>"
  have v: "verify_determinism sha256 w rt 3 (gv_sandbox gv) source inputs = (?ss, Inr True)"
    unfolding verify_determinism_def using assms(6) by (intro verify_runs_clean [OF assms(2-4)]) auto
  have "boots w rt source inputs (ss_spawned ?ss) d'" using assms(7) by simp
  from execute_clean [OF assms(2,3) this assms(5)] obtain sr ss' where
    e: "execute sha256 w rt ?ss source inputs = (ss', Inr sr)" "succeeded sr" "hash_of_output sha256 sr"
      "sx_output sr = json_norm (PDict d')"
    by metis
  obtain n where n: "normalize_phase clk m sr = Inr n" "\<not> normalization_rejected n"
    using normalize_clean [OF _ assms(8,9) e(4)] assms(5) by (auto simp: reportable_def)
  have "d' \<noteq> []" using assms(8) by auto
  from v e(1) n decide_receipted [OF assms(10,11) e(2-4) this] show ?thesis
    by (simp add: admission_phases_def rt_def Let_def)
qed

lemma process_bundle_clean:
  assumes "\<And>dt. dt \<in> set (detector_list ds) \<Longrightarrow> fst (fst dt source) < 71"
    and "parse source = Inr t" "\<And>n. n \<in> ast_nodes t \<Longrightarrow> \<not> dangerous n"
    and "policy_admits (gc_policy cfg) (eb_manifest bundle)"
    and "execution_enabled (w_allow_env w) (rt_allow_execution (gc_sandbox cfg))" "set_free (PDict inputs)"
    and "\<And>k. k < 3 \<Longrightarrow> boots w (gc_sandbox cfg) source inputs (ss_spawned (gv_sandbox gv) + k) d"
    and "boots w (gc_sandbox cfg) source inputs (ss_spawned (gv_sandbox gv) + 3) d'"
    and "reportable (gc_sandbox cfg) d" "reportable (gc_sandbox cfg) d'"
    and "map_of d' ''artifact_type'' = Some (PStr ty)" "ty \<in> set CANONICAL_TYPES"
  shows "receipted sha256 gv (eb_manifest bundle) d' (process_bundle sha256 parse ds w cfg clk gv bundle source inputs)"
proof -
  have "first_detection (detector_list ds) source = None" using assms(1) by (simp add: first_detection_None)
  moreover obtain rep where "inspect_source parse (cr_inspected_at clk) (eb_manifest bundle) source = Inr rep"
      "CLASS_REJECTED \<notin> ir_classifications rep"
    using inspect_source_rejected [of parse source t, OF assms(2)] assms(3) by blast
  ultimately show ?thesis
    using admission_phases_clean [OF assms(5,6,9,10,7,8,11,12,4), of rep sha256 clk] by (simp add: process_bundle_def Let_def)
qed

section \<open>A concrete pipeline\<close>

definition example_detectors :: "rat \<Rightarrow> detectors" where
  "example_detectors risk =
     \<lparr>det_prompt_injection = (\<lambda>_. (0, [])), det_shadow_parameters = (\<lambda>_. (0, [])),
      det_invisible_guardrails = (\<lambda>_. (0, [])), det_surplus_violations = (\<lambda>_. (0, [])),
      det_spend_anomalies = (\<lambda>_. (risk, [''loop'']))\<rparr>"

definition example_manifest :: extension_manifest where
  "example_manifest =
     \<lparr>em_extension_id = ''ext'', em_package_name = ''pkg'', em_package_version = ''1.0.0'', em_package_hash = ''ph'',
      em_capability_class = STATIC_ANALYZER, em_declared_inputs = [], em_declared_outputs = [],
      em_network_access = False, em_filesystem_access = False, em_subprocess_access = False,
      em_dynamic_eval_access = False, em_thread_spawn_access = False, em_deterministic_claim = True,
      em_replayability_claim = True, em_resource_cpu_ms_max = 1000, em_resource_memory_mb_max = 128,
      em_resource_output_size_max = 1024, em_semantic_version = ''1.0.0'', em_provenance_source_url = None,
      em_provenance_author_pgp_fingerprint = None, em_provenance_build_timestamp = DateTime 2025 1 1 0 0 0 0,
      em_trust_zone = GOVERNED_EXTENSION, em_status = PENDING_INSPECTION, em_inspection_receipt_hash = None,
      em_normalization_receipt_hash = None, em_admission_receipt_hash = None, em_rejection_reason = None,
      em_description = None, em_entrypoint = None, em_dependencies = [], em_telemetry_surfaces = [], em_metadata = []\<rparr>"

definition example_bundle :: extension_bundle where
  "example_bundle = \<lparr>eb_bundle_id = ''b'', eb_manifest = example_manifest, eb_payload_hash = ''p'',
     eb_created_at = DateTime 2025 1 1 0 0 0 0\<rparr>"

definition example_config :: "bool option \<Rightarrow> governor_config" where
  "example_config allow =
     \<lparr>gc_policy = \<lparr>pc_approved_capability_classes = [], pc_banned_imports = [], pc_max_cpu_ms = 5000,
        pc_max_memory_mb = 512, pc_max_output_size = 1024, pc_require_replay_safe = True,
        pc_require_deterministic = True, pc_allowed_trust_zones = [], pc_allowed_telemetry_surfaces = []\<rparr>,
      gc_trust_enforcer = \<lparr>te_core_trusted_packages = [], te_sandbox_always_experimental = True\<rparr>,
      gc_sandbox = example_runtime\<lparr>rt_allow_execution := allow\<rparr>\<rparr>"

definition example_governor :: governor where
  "example_governor = \<lparr>gv_ledger = new_ledger, gv_sandbox = \<lparr>ss_calls = 0, ss_spawned = 0\<rparr>\<rparr>"

definition example_readings :: clock_readings where
  "example_readings = \<lparr>cr_inspected_at = ''t0'', cr_normalized_at = ''t1'', cr_execution_timestamp = DateTime 2025 1 1 0 0 0 9\<rparr>"

definition example_parser :: parser where
  "example_parser src = Inr (OtherNode [Name src 1])"

definition example_output :: payload where
  "example_output = [(''artifact_type'', PStr ''TopologyGraph'')]"

abbreviation example_process :: "bool option \<Rightarrow> governor \<times> admission_result result" where
  "example_process allow \<equiv> process_bundle (\<lambda>s. CHR ''h'' # s) example_parser (example_detectors 0)
     (example_world (\<lambda>_. ExecFinished (PDict example_output))) (example_config allow) example_readings
     example_governor example_bundle ''x'' []"

lemma example_tree_clean: "n \<in> ast_nodes (OtherNode [Name ''x'' 1]) \<Longrightarrow> \<not> dangerous n"
  by (auto simp: ast_nodes_unfold [of "OtherNode _"] ast_nodes_unfold [of "Name _ _"] dangerous_def
      SANDBOX_ESCAPE_NAMES_def)

lemma example_output_ok: "py_wf (PDict example_output)" "set_free (PDict example_output)"
  "int (length (dumps_compact (PDict example_output))) \<le> 1000"
  "map_of example_output ''artifact_type'' = Some (PStr ''TopologyGraph'')" "''TopologyGraph'' \<in> set CANONICAL_TYPES"
  by (simp_all add: example_output_def dumps_compact_def json_str_def esc_char_def CANONICAL_TYPES_def)

lemma example_policy_ok: "policy_admits (gc_policy (example_config allow)) (eb_manifest example_bundle)"
  by (simp add: policy_admits_def example_config_def example_bundle_def example_manifest_def allowed_zones_def py_or_def)

lemma example_detectors_ok: "dt \<in> set (detector_list (example_detectors 0)) \<Longrightarrow> fst (fst dt src) < 71"
  by (auto simp: detector_list_def example_detectors_def)

lemma example_enabled_flag:
  "execution_enabled (w_allow_env w) (rt_allow_execution (gc_sandbox (example_config (Some b)))) \<longleftrightarrow> b"
  by (simp add: execution_enabled_def example_config_def)

lemma example_size [simp]: "rt_output_size_max (gc_sandbox (example_config allow)) = 1000"
  by (simp add: example_config_def example_runtime_def)

lemma example_boots: "\<exists>tb lines peak err. w_process (example_world (\<lambda>_. out)) k req = Completed (child_main 1000 out tb lines peak) err"
  by (auto simp: example_world_def)

lemma example_admitted: "\<exists>gv' r. example_process (Some True) = (gv', Inr r) \<and> ar_admitted r"
proof -
  have "receipted (\<lambda>s. CHR ''h'' # s) example_governor (eb_manifest example_bundle) example_output (example_process (Some True))"
    by (rule process_bundle_clean [where t = "OtherNode [Name ''x'' 1]" and d = example_output and ty = "''TopologyGraph''"])
      (use example_tree_clean example_output_ok example_policy_ok example_detectors_ok example_boots in
        \<open>auto simp: example_parser_def example_enabled_flag boots_def reportable_def\<close>)
  then show ?thesis by (cases "example_process (Some True)") (auto simp: receipted_def)
qed

section \<open>Properties\<close>

text \<open>
  C12 (governor_admission): an extension is admitted only if every detector rates its source below 71, the
  source parses and no node of its syntax tree is dangerous, code execution was enabled, three runs agreed
  and the test run succeeded, and the manifest stays within the resource limits, claims what the policy
  requires, asks for an allowed trust zone and for none of the banned accesses; the ledger then gains
  exactly one receipt, for this extension and package. In every other case, exceptions included, the ledger
  is unchanged.
\<close>

theorem governor_admission:
  assumes "process_bundle sha256 parse ds w cfg clk gv bundle source inputs = (gv', res)"
  shows "if \<exists>r. res = Inr r \<and> ar_admitted r then
      (\<forall>d \<in> set [det_prompt_injection ds, det_shadow_parameters ds, det_invisible_guardrails ds,
                det_surplus_violations ds, det_spend_anomalies ds]. fst (d source) < 71) \<and>
      (\<exists>t. parse source = Inr t \<and> \<not> (\<exists>n \<in> ast_nodes t. dangerous n)) \<and>
      execution_enabled (w_allow_env w) (rt_allow_execution (gc_sandbox cfg)) \<and>
      (\<exists>ss ss' sr. verify_determinism sha256 w (gc_sandbox cfg) 3 (gv_sandbox gv) source inputs = (ss, Inr True) \<and>
         execute sha256 w (gc_sandbox cfg) ss source inputs = (ss', Inr sr) \<and> succeeded sr \<and>
         lg_receipts (gv_ledger gv') = lg_receipts (gv_ledger gv) @
           [chained sha256 (lg_receipts (gv_ledger gv)) (admission_receipt sha256 clk (eb_manifest bundle) sr)]) \<and>
      policy_admits (gc_policy cfg) (eb_manifest bundle)
    else gv_ledger gv' = gv_ledger gv"
  using process_bundle_cases [OF assms]
proof (elim disjE conjE exE)
  assume "turned_away gv gv' res"
  then show ?thesis by (auto simp: turned_away_def)
next
  fix t sr
  assume d: "\<forall>d \<in> set (detector_list ds). fst (fst d source) < 71" and t: "parse source = Inr t"
    "\<not> (\<exists>n \<in> ast_nodes t. dangerous n)"
    and l: "let_in sha256 w cfg clk gv (eb_manifest bundle) source inputs gv' res sr"
  from l obtain ss ss' r where "res = Inr r" "ar_admitted r"
    "verify_determinism sha256 w (gc_sandbox cfg) 3 (gv_sandbox gv) source inputs = (ss, Inr True)"
    "execute sha256 w (gc_sandbox cfg) ss source inputs = (ss', Inr sr)"
    "succeeded sr" "policy_admits (gc_policy cfg) (eb_manifest bundle)"
    "gv_ledger gv' = fst (append_receipt sha256 (gv_ledger gv) (admission_receipt sha256 clk (eb_manifest bundle) sr))"
    unfolding let_in_def by blast
  with d t let_in_enabled [OF l] show ?thesis by (simp add: detector_list_def)
qed

theorem governor_admission_witness:
  "\<exists>sr. lg_receipts (gv_ledger (fst (example_process (Some True)))) =
     [chained (\<lambda>s. CHR ''h'' # s) [] (admission_receipt (\<lambda>s. CHR ''h'' # s) example_readings example_manifest sr)]"
proof -
  obtain gv' r where "example_process (Some True) = (gv', Inr r)" "ar_admitted r" using example_admitted by blast
  with governor_admission [OF this(1)] show ?thesis
    by (auto simp: example_governor_def example_bundle_def new_ledger_def)
qed

text \<open>
  While code execution is disabled, by the runtime's flag or by an unset
  environment variable, no bundle is admitted, no process is started and the ledger does not change; the
  call still returns a verdict, unless the parser itself raises something else than a syntax error.
\<close>

theorem governor_fail_closed:
  assumes "\<not> execution_enabled (w_allow_env w) (rt_allow_execution (gc_sandbox cfg))"
    and "\<And>e. parse source \<noteq> Inl (OtherErr e)"
  shows "\<exists>gv' r. process_bundle sha256 parse ds w cfg clk gv bundle source inputs = (gv', Inr r) \<and>
    \<not> ar_admitted r \<and> gv_ledger gv' = gv_ledger gv \<and> ss_spawned (gv_sandbox gv') = ss_spawned (gv_sandbox gv)"
proof -
  let ?m = "eb_manifest bundle"
  let ?ss = "(gv_sandbox gv)\<lparr>ss_calls := Suc (ss_calls (gv_sandbox gv))\<rparr>"
  have v: "verify_determinism sha256 w (gc_sandbox cfg) 3 (gv_sandbox gv) source inputs = (?ss, Inr False)"
    using verify_runs_disabled [OF assms(1), of 3] by (simp add: verify_determinism_def)
  obtain sr where e: "execute sha256 w (gc_sandbox cfg) ?ss source inputs =
      (?ss\<lparr>ss_calls := Suc (ss_calls ?ss)\<rparr>, Inr sr)" "sx_status sr = PStr ''REJECTED''"
    using execute_disabled [OF assms(1)] by blast
  have n: "normalize_phase clk ?m sr = Inr None" using e(2) by (simp add: normalize_phase_def succeeded_def)
  have run: "\<exists>gv' r. admission_phases sha256 w cfg clk gv ?m rep source inputs = (gv', Inr r) \<and> \<not> ar_admitted r \<and>
      gv_ledger gv' = gv_ledger gv \<and> ss_spawned (gv_sandbox gv') = ss_spawned (gv_sandbox gv)" for rep
    using decide_admission_ok [of False False cfg ?m rep sr sha256 clk "gv\<lparr>gv_sandbox := ?ss\<lparr>ss_calls := Suc (ss_calls ?ss)\<rparr>\<rparr>" None]
    by (auto simp: admission_phases_def v e(1) n Let_def normalization_rejected_def)
  show ?thesis
  proof (cases "parse source")
    case (Inl pe)
    with assms(2) show ?thesis
      by (cases pe) (auto simp: process_bundle_def inspect_source_def Let_def reject_def split: option.split)
  next
    case (Inr t)
    then obtain rep where "inspect_source parse (cr_inspected_at clk) ?m source = Inr rep"
      using inspect_source_rejected [of parse source t] by blast
    with run [of rep] show ?thesis by (auto simp: process_bundle_def Let_def reject_def split: option.split)
  qed
qed

theorem governor_fail_closed_witness:
  "\<exists>gv' r. example_process (Some False) = (gv', Inr r) \<and> \<not> ar_admitted r \<and> ss_spawned (gv_sandbox gv') = 0"
  using governor_fail_closed [of "example_world (\<lambda>_. ExecFinished (PDict example_output))" "example_config (Some False)"
      example_parser "''x''" "\<lambda>s. CHR ''h'' # s" "example_detectors 0" example_readings example_governor example_bundle "[]"]
  by (simp add: example_enabled_flag example_parser_def) (auto simp: example_governor_def)

text \<open>
  C13 (governor_admits_clean): the gate is not vacuous. If the detectors stay below 71, no node of the
  source is dangerous, the policy admits the manifest, execution is enabled, the next three runs of the
  bootstrap end with the same dictionary and the run after them with one of a canonical artifact type, all
  of them representable in JSON and within the size limit, then the bundle is admitted and one receipt is
  appended. Its deterministic fingerprint is the hash of the fourth output, which the determinism check
  does not compare with the three before.
\<close>

theorem governor_admits_clean:
  assumes "\<And>dt. dt \<in> set (detector_list ds) \<Longrightarrow> fst (fst dt source) < 71"
    and "parse source = Inr t" "\<And>n. n \<in> ast_nodes t \<Longrightarrow> \<not> dangerous n"
    and "policy_admits (gc_policy cfg) (eb_manifest bundle)"
    and "execution_enabled (w_allow_env w) (rt_allow_execution (gc_sandbox cfg))" "set_free (PDict inputs)"
    and "\<And>k. k < 4 \<Longrightarrow> \<exists>tb lines peak err.
        w_process w (ss_spawned (gv_sandbox gv) + k) (child_request (gc_sandbox cfg) source inputs) =
          Completed (child_main (rt_output_size_max (gc_sandbox cfg))
            (ExecFinished (PDict (if k < 3 then d else d'))) tb lines peak) err"
    and "\<And>x. x \<in> {d, d'} \<Longrightarrow> py_wf (PDict x) \<and> set_free (PDict x) \<and>
        int (length (dumps_compact (PDict x))) \<le> rt_output_size_max (gc_sandbox cfg)"
    and "map_of d' ''artifact_type'' = Some (PStr ty)" "ty \<in> set CANONICAL_TYPES"
  shows "\<exists>gv' r rec. process_bundle sha256 parse ds w cfg clk gv bundle source inputs = (gv', Inr r) \<and> ar_admitted r \<and>
    lg_receipts (gv_ledger gv') = lg_receipts (gv_ledger gv) @ [rec] \<and>
    rc_extension_id rec = em_extension_id (eb_manifest bundle) \<and>
    rc_deterministic_fingerprint rec = sha256 (dumps_compact (PDict d'))"
proof -
  have "receipted sha256 gv (eb_manifest bundle) d' (process_bundle sha256 parse ds w cfg clk gv bundle source inputs)"
  proof (rule process_bundle_clean [where t = t and d = d and ty = ty])
    show "boots w (gc_sandbox cfg) source inputs (ss_spawned (gv_sandbox gv) + k) d" if "k < 3" for k
      using assms(7) [of k] that by (simp add: boots_def)
    show "boots w (gc_sandbox cfg) source inputs (ss_spawned (gv_sandbox gv) + 3) d'"
      using assms(7) [of 3] by (simp add: boots_def)
    show "reportable (gc_sandbox cfg) d" "reportable (gc_sandbox cfg) d'"
      using assms(8) by (simp_all add: reportable_def)
  qed (use assms in blast)+
  then show ?thesis unfolding receipted_def by (metis prod.collapse)
qed

theorem governor_admits_clean_witness:
  "\<exists>gv' r rec. example_process (Some True) = (gv', Inr r) \<and> ar_admitted r \<and> lg_receipts (gv_ledger gv') = [rec] \<and>
     rc_deterministic_fingerprint rec = CHR ''h'' # dumps_compact (PDict example_output)"
proof -
  have "\<exists>gv' r rec. example_process (Some True) = (gv', Inr r) \<and> ar_admitted r \<and>
    lg_receipts (gv_ledger gv') = lg_receipts (gv_ledger example_governor) @ [rec] \<and>
    rc_extension_id rec = em_extension_id (eb_manifest example_bundle) \<and>
    rc_deterministic_fingerprint rec = CHR ''h'' # dumps_compact (PDict example_output)"
    by (rule governor_admits_clean [where t = "OtherNode [Name ''x'' 1]" and d = example_output and ty = "''TopologyGraph''"])
      (use example_tree_clean example_output_ok example_policy_ok example_detectors_ok example_boots in
        \<open>auto simp: example_parser_def example_enabled_flag\<close>)
  then show ?thesis by (auto simp: example_governor_def new_ledger_def)
qed

definition process_all :: "(string \<Rightarrow> string) \<Rightarrow> parser \<Rightarrow> detectors \<Rightarrow> world \<Rightarrow> governor_config \<Rightarrow> governor \<Rightarrow>
    (clock_readings \<times> extension_bundle \<times> string \<times> payload) list \<Rightarrow> governor" where
  "process_all sha256 parse ds w cfg gv reqs =
     foldl (\<lambda>g (clk, bundle, source, inputs). fst (process_bundle sha256 parse ds w cfg clk g bundle source inputs)) gv reqs"

text \<open>
  Processing any sequence of bundles, whatever their verdicts and whatever
  exceptions they raise, keeps the ledger's chain valid and only ever extends it.
\<close>

theorem governor_ledger_verifies:
  "verify_chain sha256 (gv_ledger gv) = verify_chain sha256 (gv_ledger (process_all sha256 parse ds w cfg gv reqs)) \<and>
   prefix (lg_receipts (gv_ledger gv)) (lg_receipts (gv_ledger (process_all sha256 parse ds w cfg gv reqs)))"
proof (induction reqs arbitrary: gv)
  case (Cons q reqs)
  obtain clk bn src inp where q: "q = (clk, bn, src, inp)" by (cases q)
  obtain gv' res where p: "process_bundle sha256 parse ds w cfg clk gv bn src inp = (gv', res)" by fastforce
  have "gv_ledger gv' = gv_ledger gv \<or> (\<exists>r. gv_ledger gv' = fst (append_receipt sha256 (gv_ledger gv) r))"
    using process_bundle_cases [OF p] by (auto simp: turned_away_def let_in_def)
  then have "verify_chain sha256 (gv_ledger gv) = verify_chain sha256 (gv_ledger gv')"
    "prefix (lg_receipts (gv_ledger gv)) (lg_receipts (gv_ledger gv'))" by auto
  with Cons [of gv'] p show ?case by (auto simp: process_all_def q dest: prefix_order.trans)
qed (simp add: process_all_def)

end
