(* ===== verification/Capability_Graph.thy ===== *)
theory Capability_Graph
  imports Extension_Policy Extension_Inspector
begin

text \<open>
  The extension compatibility graph (\<open>pi_interoperability_layer/capability/graph.py\<close>): declared edges between
  extensions, the capabilities they provide, the installed extensions, and the checks made before an
  installation. A Python set is the list of its elements in iteration order; the registry an installation
  check looks extensions up in is a parameter.

  The properties: \<open>transitive_closure\<close> returns exactly the extensions reachable over dependencies, the phases
  are a layering of the dependency relation that stops only at extensions with an unscheduled dependent, and
  when an installation passes its checks.
\<close>

section \<open>The graph\<close>

datatype compatibility_type =
  DEPENDS_ON | CONFLICTS_WITH | REQUIRES_CAPABILITY | PROVIDES_CAPABILITY | SUPERSEDES | COMPATIBLE_WITH

fun compatibility_type_value :: "compatibility_type \<Rightarrow> string" where
  "compatibility_type_value DEPENDS_ON = ''depends_on''"
| "compatibility_type_value CONFLICTS_WITH = ''conflicts_with''"
| "compatibility_type_value REQUIRES_CAPABILITY = ''requires_capability''"
| "compatibility_type_value PROVIDES_CAPABILITY = ''provides_capability''"
| "compatibility_type_value SUPERSEDES = ''supersedes''"
| "compatibility_type_value COMPATIBLE_WITH = ''compatible_with''"

datatype compatibility_verdict =
  COMPATIBLE | CONFLICT | MISSING_DEPENDENCY | ZONE_INCOMPATIBLE | CAPABILITY_MISMATCH | VERSION_INCOMPATIBLE

record compatibility_edge =
  ce_source_id :: string
  ce_target_id :: string
  ce_edge_type :: compatibility_type
  ce_reason :: string

record compatibility_check =
  cc_verdict :: compatibility_verdict
  cc_evidence :: string
  cc_source_id :: string
  cc_target_id :: string
  cc_edges :: "compatibility_edge list"

record compatibility_graph =
  cg_edges :: "(string, compatibility_edge list) dict"
  cg_capability_providers :: "(capability_class, string list) dict"
  cg_installed :: "string list"

definition empty_graph :: compatibility_graph where
  "empty_graph = \<lparr>cg_edges = [], cg_capability_providers = [], cg_installed = []\<rparr>"

definition set_add :: "'a \<Rightarrow> 'a list \<Rightarrow> 'a list" where
  "set_add x xs = (if x \<in> set xs then xs else xs @ [x])"

definition parse_capability_from_reason :: "string \<Rightarrow> capability_class option" where
  "parse_capability_from_reason reason =
     find (\<lambda>cap. py_contains (capability_class_value cap) (py_lower reason)) all_capability_classes"

definition register_capability_if_needed :: "string \<Rightarrow> string \<Rightarrow> compatibility_graph \<Rightarrow> compatibility_graph" where
  "register_capability_if_needed extension_id reason g =
     (case parse_capability_from_reason reason of
        None \<Rightarrow> g
      | Some cap \<Rightarrow> g\<lparr>cg_capability_providers :=
          dict_set (cg_capability_providers g) cap
            (set_add extension_id (dict_get (cg_capability_providers g) cap []))\<rparr>)"

definition declare_edge :: "compatibility_edge \<Rightarrow> compatibility_graph \<Rightarrow> compatibility_graph" where
  "declare_edge e g =
     (let g' = g\<lparr>cg_edges := dict_append (cg_edges g) (ce_source_id e) e\<rparr> in
      if ce_edge_type e = PROVIDES_CAPABILITY then register_capability_if_needed (ce_source_id e) (ce_reason e) g' else g')"

definition register_installed :: "string \<Rightarrow> compatibility_graph \<Rightarrow> compatibility_graph" where
  "register_installed x g = g\<lparr>cg_installed := set_add x (cg_installed g)\<rparr>"

definition deregister :: "string \<Rightarrow> compatibility_graph \<Rightarrow> compatibility_graph" where
  "deregister x g =
     \<lparr>cg_edges = dict_pop x (cg_edges g),
      cg_capability_providers =
        filter (\<lambda>(cap, ps). ps \<noteq> []) (map (\<lambda>(cap, ps). (cap, removeAll x ps)) (cg_capability_providers g)),
      cg_installed = removeAll x (cg_installed g)\<rparr>"

definition edges_from :: "compatibility_graph \<Rightarrow> string \<Rightarrow> compatibility_edge list" where
  "edges_from g x = dict_get (cg_edges g) x []"

definition conflict_edge :: "compatibility_graph \<Rightarrow> string \<Rightarrow> string \<Rightarrow> compatibility_edge option" where
  "conflict_edge g a b = find (\<lambda>e. ce_target_id e = b \<and> ce_edge_type e = CONFLICTS_WITH) (edges_from g a)"

definition check_compatibility :: "compatibility_graph \<Rightarrow> string \<Rightarrow> string \<Rightarrow> compatibility_check" where
  "check_compatibility g source_id target_id =
     (let conflict = (\<lambda>e. \<lparr>cc_verdict = CONFLICT, cc_evidence = ce_reason e, cc_source_id = source_id,
                          cc_target_id = target_id, cc_edges = [e]\<rparr>) in
      case conflict_edge g source_id target_id of
        Some e \<Rightarrow> conflict e
      | None \<Rightarrow>
          (case conflict_edge g target_id source_id of
             Some e \<Rightarrow> conflict e
           | None \<Rightarrow> \<lparr>cc_verdict = COMPATIBLE, cc_evidence = ''No conflicts detected'', cc_source_id = source_id,
               cc_target_id = target_id, cc_edges = []\<rparr>))"

section \<open>Checks before an installation\<close>

definition identity_checks :: "compatibility_graph \<Rightarrow> string \<Rightarrow> compatibility_check list" where
  "identity_checks g x =
     (if x \<in> set (cg_installed g)
      then [\<lparr>cc_verdict = CONFLICT, cc_evidence = ''Extension already installed'', cc_source_id = x, cc_target_id = x,
             cc_edges = []\<rparr>]
      else [])"

text \<open>\<open>lookup\<close> gives the trust zone of the registry's entry, if there is one.\<close>

definition zone_checks :: "(string \<Rightarrow> trust_zone option) \<Rightarrow> compatibility_graph \<Rightarrow> string \<Rightarrow> extension_manifest \<Rightarrow>
    compatibility_check list" where
  "zone_checks lookup g x m =
     (if em_trust_zone m = SANDBOX_EXPERIMENTAL
      then map (\<lambda>y. \<lparr>cc_verdict = ZONE_INCOMPATIBLE,
             cc_evidence = ''Sandbox extension cannot coexist with core trusted'', cc_source_id = x, cc_target_id = y,
             cc_edges = []\<rparr>)
           (filter (\<lambda>y. lookup y = Some CORE_TRUSTED) (cg_installed g))
      else [])"

definition edges_of_type :: "compatibility_type \<Rightarrow> compatibility_graph \<Rightarrow> string \<Rightarrow> compatibility_edge list" where
  "edges_of_type t g x = filter (\<lambda>e. ce_edge_type e = t) (edges_from g x)"

definition dependency_checks :: "compatibility_graph \<Rightarrow> string \<Rightarrow> compatibility_check list" where
  "dependency_checks g x =
     map (\<lambda>e. \<lparr>cc_verdict = MISSING_DEPENDENCY, cc_evidence = ''Missing required dependency: '' @ ce_target_id e,
            cc_source_id = x, cc_target_id = ce_target_id e, cc_edges = [e]\<rparr>)
       (filter (\<lambda>e. ce_target_id e \<notin> set (cg_installed g)) (edges_of_type DEPENDS_ON g x))"

definition conflict_checks :: "compatibility_graph \<Rightarrow> string \<Rightarrow> compatibility_check list" where
  "conflict_checks g x =
     map (\<lambda>e. \<lparr>cc_verdict = CONFLICT,
            cc_evidence = ''Conflicts with installed extension: '' @ ce_target_id e @ '' ('' @ ce_reason e @ '')'',
            cc_source_id = x, cc_target_id = ce_target_id e, cc_edges = [e]\<rparr>)
       (filter (\<lambda>e. ce_target_id e \<in> set (cg_installed g)) (edges_of_type CONFLICTS_WITH g x))"

text \<open>
  A requirement that names no capability has no provider, and reading \<open>.value\<close> of the missing class for the
  evidence raises \<open>AttributeError\<close>.
\<close>

fun capability_checks :: "compatibility_graph \<Rightarrow> string \<Rightarrow> compatibility_edge list \<Rightarrow> compatibility_check list result" where
  "capability_checks g x [] = Inr []"
| "capability_checks g x (req # reqs) =
     (case parse_capability_from_reason (ce_reason req) of
        None \<Rightarrow> Inl AttributeError
      | Some cap \<Rightarrow>
          res_bind (capability_checks g x reqs) (\<lambda>cs.
            Inr (if dict_get (cg_capability_providers g) cap [] = []
                 then \<lparr>cc_verdict = CAPABILITY_MISMATCH,
                        cc_evidence = ''No provider for required capability: '' @ capability_class_value cap,
                        cc_source_id = x, cc_target_id = ce_target_id req, cc_edges = [req]\<rparr> # cs
                 else cs)))"

definition check_install :: "(string \<Rightarrow> trust_zone option) \<Rightarrow> compatibility_graph \<Rightarrow> string \<Rightarrow> extension_manifest \<Rightarrow>
    compatibility_check list result" where
  "check_install lookup g x m =
     res_bind (capability_checks g x (edges_of_type REQUIRES_CAPABILITY g x)) (\<lambda>cs.
       Inr (identity_checks g x @ zone_checks lookup g x m @ dependency_checks g x @ conflict_checks g x @ cs))"

section \<open>Dependencies\<close>

definition depends :: "(string, compatibility_edge list) dict \<Rightarrow> string \<Rightarrow> string list" where
  "depends es x = map ce_target_id (filter (\<lambda>e. ce_edge_type e = DEPENDS_ON) (dict_get es x []))"

text \<open>The loop over the stack, whose top is the head of the list.\<close>

function closure_loop :: "(string, compatibility_edge list) dict \<Rightarrow> string list \<Rightarrow> string list \<Rightarrow> string list" where
  "closure_loop es [] visited = visited"
| "closure_loop es (current # stack) visited =
     (if current \<in> set visited then closure_loop es stack visited
      else closure_loop es (rev (depends es current) @ stack) (current # visited))"
  by pat_completeness auto

termination
proof (relation "measures [\<lambda>(es, _, visited). card (fst ` set es - set visited), \<lambda>(_, stack, _). length stack]", goal_cases)
  case (3 es current stack visited)
  show ?case
  proof (cases "dict_get es current [] = []")
    case True
    then have "depends es current = []" by (simp add: depends_def)
    moreover have "card (fst ` set es - set (current # visited)) \<le> card (fst ` set es - set visited)"
      by (intro card_mono) auto
    ultimately show ?thesis by auto
  next
    case False
    then have "current \<in> fst ` set es" by (rule dict_get_nonempty)
    with 3 have "fst ` set es - set (current # visited) \<subset> fst ` set es - set visited" by auto
    then show ?thesis by (auto intro: psubset_card_mono)
  qed
qed auto

definition transitive_closure :: "compatibility_graph \<Rightarrow> string \<Rightarrow> string list" where
  "transitive_closure g x = closure_loop (cg_edges g) [x] []"

text \<open>The in-degrees and adjacency lists the phases are computed from.\<close>

definition count_targets :: "string list \<Rightarrow> (string, int) dict \<Rightarrow> (string, int) dict" where
  "count_targets ts d = foldl (\<lambda>d t. dict_set d t (dict_get d t 0 + 1)) d ts"

definition setdefault :: "('k, 'v) dict \<Rightarrow> 'k \<Rightarrow> 'v \<Rightarrow> ('k, 'v) dict" where
  "setdefault d k v = (if dict_has d k then d else dict_set d k v)"

definition degree_step :: "(string, int) dict \<times> (string, string list) dict \<Rightarrow> string \<times> compatibility_edge list \<Rightarrow>
    (string, int) dict \<times> (string, string list) dict" where
  "degree_step da se =
     (let ts = map ce_target_id (filter (\<lambda>e. ce_edge_type e = DEPENDS_ON) (snd se));
          adj = setdefault (snd da) (fst se) []
      in (count_targets ts (setdefault (fst da) (fst se) 0),
          dict_set adj (fst se) (dict_get adj (fst se) [] @ ts)))"

definition degrees :: "(string, compatibility_edge list) dict \<Rightarrow> (string, int) dict \<times> (string, string list) dict" where
  "degrees es = foldl degree_step ([], []) es"

definition decrement :: "(string, string list) dict \<Rightarrow> string list \<Rightarrow> (string, int) dict \<Rightarrow> (string, int) dict" where
  "decrement adj phase deg =
     foldl (\<lambda>d k. foldl (\<lambda>d t. if dict_has d t then dict_set d t (dict_get d t 0 - 1) else d) d (dict_get adj k []))
       deg phase"

function phase_loop :: "(string, string list) dict \<Rightarrow> (string, int) dict \<Rightarrow> string list \<Rightarrow> string list list" where
  "phase_loop adj deg remaining =
     (if remaining = [] then []
      else
        (let phase = filter (\<lambda>k. dict_get deg k 0 = 0) remaining in
         if phase = [] then []
         else phase # phase_loop adj (decrement adj phase deg) (filter (\<lambda>k. k \<notin> set phase) remaining)))"
  by pat_completeness auto

termination
proof (relation "measure (\<lambda>(_, _, remaining). length remaining)", goal_cases)
  case (2 adj deg remaining phase)
  then obtain k where "k \<in> set remaining" "k \<in> set phase" by (auto simp: filter_empty_conv)
  then show ?case by (auto intro!: length_filter_less)
qed simp

declare phase_loop.simps [simp del]

definition topological_phase_order :: "compatibility_graph \<Rightarrow> string list list" where
  "topological_phase_order g =
     (case degrees (cg_edges g) of
        (deg, adj) \<Rightarrow> phase_loop adj deg (filter (\<lambda>k. k \<in> set (cg_installed g)) (dict_keys deg)))"

definition to_hashes :: "(string \<Rightarrow> string) \<Rightarrow> compatibility_graph \<Rightarrow> string" where
  "to_hashes sha256 g =
     (let lines = concat (map (\<lambda>(src, es).
            map (\<lambda>e. src @ ''->'' @ ce_target_id e @ '':'' @ compatibility_type_value (ce_edge_type e))
              (sort_key (\<lambda>e. (ce_target_id e, compatibility_type_value (ce_edge_type e))) es))
            (sort_key fst (cg_edges g)))
      in sha256 (py_join ''|'' lines))"

section \<open>Reachability\<close>

definition dep_rel :: "(string, compatibility_edge list) dict \<Rightarrow> (string \<times> string) set" where
  "dep_rel es = {(x, y). y \<in> set (depends es x)}"

lemma closure_sound: "y \<in> set (closure_loop es stack visited) \<Longrightarrow> y \<in> set visited \<or> (\<exists>x \<in> set stack. (x, y) \<in> (dep_rel es)\<^sup>*)"
proof (induction es stack visited rule: closure_loop.induct)
  case (2 es current stack visited)
  show ?case
  proof (cases "current \<in> set visited")
    case True
    with 2 show ?thesis by auto
  next
    case False
    with 2 have "y \<in> set (current # visited) \<or> (\<exists>x \<in> set (rev (depends es current) @ stack). (x, y) \<in> (dep_rel es)\<^sup>*)"
      by simp
    then show ?thesis by (auto simp: dep_rel_def intro: converse_rtrancl_into_rtrancl)
  qed
qed simp

lemma closure_complete:
  assumes "\<And>v. v \<in> set visited \<Longrightarrow> set (depends es v) \<subseteq> set visited \<union> set stack"
  shows "set visited \<union> set stack \<subseteq> set (closure_loop es stack visited) \<and>
    (\<forall>v \<in> set (closure_loop es stack visited). set (depends es v) \<subseteq> set (closure_loop es stack visited))"
  using assms
proof (induction es stack visited rule: closure_loop.induct)
  case (1 es visited)
  then show ?case by auto
next
  case (2 es current stack visited)
  show ?case
  proof (cases "current \<in> set visited")
    case True
    have "set (depends es v) \<subseteq> set visited \<union> set stack" if "v \<in> set visited" for v
      using "2.prems" [OF that] True by auto
    from "2.IH"(1) [OF True this] True show ?thesis by auto
  next
    case False
    have "set (depends es v) \<subseteq> set (current # visited) \<union> set (rev (depends es current) @ stack)"
      if "v \<in> set (current # visited)" for v
      using that "2.prems" [of v] by auto
    from "2.IH"(2) [OF False this] False show ?thesis by auto
  qed
qed

lemma closure_reachable: "set (closure_loop es [x] []) = {y. (x, y) \<in> (dep_rel es)\<^sup>*}"
proof (intro equalityI subsetI CollectI)
  fix y assume "y \<in> set (closure_loop es [x] [])"
  then show "(x, y) \<in> (dep_rel es)\<^sup>*" using closure_sound [of y es "[x]" "[]"] by auto
next
  have c: "x \<in> set (closure_loop es [x] [])"
    "\<forall>v \<in> set (closure_loop es [x] []). set (depends es v) \<subseteq> set (closure_loop es [x] [])"
    using closure_complete [of "[]" es "[x]"] by auto
  fix y assume "y \<in> {y. (x, y) \<in> (dep_rel es)\<^sup>*}"
  then have "(x, y) \<in> (dep_rel es)\<^sup>*" by simp
  then show "y \<in> set (closure_loop es [x] [])" by induction (use c in \<open>auto simp: dep_rel_def\<close>)
qed

section \<open>In-degrees\<close>

lemma dict_get_set: "dict_get (dict_set d k v) j x = (if j = k then v else dict_get d j x)"
  by (simp add: dict_get_def dict_simps)

lemma dict_get_setdefault [simp]: "dict_get (setdefault d k x) j x = dict_get d j x"
  by (auto simp: setdefault_def dict_get_set dict_has_def) (simp add: dict_get_def)

lemma keys_setdefault: "fst ` set (setdefault d k x) = insert k (fst ` set d)"
  by (auto simp: setdefault_def keys_dict_set dict_has_def dest!: map_of_SomeD intro: rev_image_eqI)

lemma count_targets_get: "dict_get (count_targets ts d) k 0 = dict_get d k 0 + int (count_list ts k)"
  unfolding count_targets_def by (induction ts arbitrary: d) (simp_all add: dict_get_set)

lemma count_targets_keys: "fst ` set (count_targets ts d) = fst ` set d \<union> set ts"
  unfolding count_targets_def by (induction ts arbitrary: d) (auto simp: keys_dict_set)

lemma depends_snoc:
  "x \<notin> fst ` set es \<Longrightarrow> depends (es @ [(x, l)]) y =
     (if y = x then map ce_target_id (filter (\<lambda>e. ce_edge_type e = DEPENDS_ON) l) else depends es y)"
proof -
  assume "x \<notin> fst ` set es"
  then have "map_of es x = None" by (simp add: map_of_eq_None_iff)
  then show ?thesis by (auto simp: depends_def dict_get_def map_add_def split: option.splits)
qed

definition edge_count :: "(string, compatibility_edge list) dict \<Rightarrow> string set \<Rightarrow> string \<Rightarrow> nat" where
  "edge_count es S k = (\<Sum>x \<in> S. count_list (depends es x) k)"

lemma degrees_facts:
  assumes "distinct (map fst es)"
  shows "dict_get (fst (degrees es)) k 0 = int (edge_count es (fst ` set es) k) \<and>
    dict_get (snd (degrees es)) k [] = depends es k \<and>
    fst ` set (fst (degrees es)) = fst ` set es \<union> (\<Union>x \<in> fst ` set es. set (depends es x))"
  using assms
proof (induction es arbitrary: k rule: rev_induct)
  case Nil
  then show ?case by (simp add: degrees_def edge_count_def depends_def dict_get_def)
next
  case (snoc se es)
  obtain x l where se: "se = (x, l)" by (cases se)
  let ?ts = "map ce_target_id (filter (\<lambda>e. ce_edge_type e = DEPENDS_ON) l)"
  have x: "x \<notin> fst ` set es" and d: "distinct (map fst es)" using snoc.prems se by auto
  have no: "depends es x = []"
    using x by (auto simp: depends_def dict_get_def split: option.splits dest!: map_of_SomeD intro: rev_image_eqI)
  have old: "edge_count (es @ [(x, l)]) (fst ` set es) k = edge_count es (fst ` set es) k" for k
    unfolding edge_count_def using x by (intro sum.cong) (auto simp: depends_snoc)
  have un: "(\<Union>y \<in> fst ` set es. set (depends (es @ [(x, l)]) y)) = (\<Union>y \<in> fst ` set es. set (depends es y))"
    using x by (intro SUP_cong) (auto simp: depends_snoc)
  have "edge_count (es @ [(x, l)]) (fst ` set (es @ [(x, l)])) k =
      count_list ?ts k + edge_count (es @ [(x, l)]) (fst ` set es) k"
    using x by (simp add: edge_count_def depends_snoc)
  moreover note snoc.IH [OF d, of k] snoc.IH [OF d, of x]
  ultimately show ?case using x no old un
    by (auto simp: degrees_def degree_step_def se Let_def count_targets_get count_targets_keys keys_setdefault
        dict_get_set depends_snoc)
qed

lemma degrees_wf: "dict_wf (fst (degrees es))"
proof -
  have c: "dict_wf d \<Longrightarrow> dict_wf (count_targets ts d)" for ts d
    unfolding count_targets_def by (induction ts arbitrary: d) auto
  show ?thesis
  proof (induction es rule: rev_induct)
    case (snoc se es)
    then show ?case by (auto simp: degrees_def degree_step_def setdefault_def Let_def intro!: c)
  qed (simp add: degrees_def)
qed

lemma decrement_keys: "fst ` set (decrement adj ph d) = fst ` set d"
proof -
  have i: "fst ` set (foldl (\<lambda>d t. if dict_has d t then dict_set d t (dict_get d t 0 - 1) else d) d ts) = fst ` set d" for ts and d :: "(string, int) dict"
  proof (induction ts arbitrary: d)
    case (Cons t ts)
    then show ?case by (auto simp: keys_dict_set dict_has_def dest!: map_of_SomeD intro: rev_image_eqI)
  qed simp
  show ?thesis unfolding decrement_def by (induction ph arbitrary: d) (simp_all add: i)
qed

lemma decrement_targets_get:
  assumes "set ts \<subseteq> fst ` set d"
  shows "dict_get (foldl (\<lambda>d t. if dict_has d t then dict_set d t (dict_get d t 0 - 1) else d) d ts) k 0 =
    dict_get d k 0 - int (count_list ts k)"
  using assms
proof (induction ts arbitrary: d)
  case (Cons t ts)
  then have "dict_has d t" by (auto simp: dict_has_def map_of_eq_None_iff)
  moreover have "set ts \<subseteq> fst ` set (dict_set d t (dict_get d t 0 - 1))" using Cons.prems by (auto simp: keys_dict_set)
  ultimately show ?case using Cons.IH by (simp add: dict_get_set)
qed simp

lemma decrement_get:
  assumes "\<And>x. set (dict_get adj x []) \<subseteq> fst ` set d"
  shows "dict_get (decrement adj ph d) k 0 = dict_get d k 0 - (\<Sum>x\<leftarrow>ph. int (count_list (dict_get adj x []) k))"
  using assms
proof (induction ph arbitrary: d)
  case (Cons p ph)
  let ?d = "decrement adj [p] d"
  have "decrement adj (p # ph) d = decrement adj ph ?d" by (simp add: decrement_def)
  moreover have "set (dict_get adj x []) \<subseteq> fst ` set ?d" for x using Cons.prems by (simp add: decrement_keys)
  moreover have "dict_get ?d k 0 = dict_get d k 0 - int (count_list (dict_get adj p []) k)"
    using decrement_targets_get [OF Cons.prems] by (simp add: decrement_def)
  ultimately show ?case using Cons.IH by simp
qed (simp add: decrement_def)

section \<open>Phases\<close>

text \<open>Every dependent of an extension is in an earlier phase, or among the \<open>done\<close> ones.\<close>

fun layered :: "(string, compatibility_edge list) dict \<Rightarrow> string set \<Rightarrow> string list list \<Rightarrow> bool" where
  "layered es done [] = True"
| "layered es done (p # ps) =
     ((\<forall>k \<in> set p. \<forall>x. k \<in> set (depends es x) \<longrightarrow> x \<in> done) \<and> layered es (done \<union> set p) ps)"

lemma layered_nth:
  "layered es D ps \<Longrightarrow> i < length ps \<Longrightarrow> k \<in> set (ps ! i) \<Longrightarrow> k \<in> set (depends es x) \<Longrightarrow>
     x \<in> D \<or> (\<exists>j < i. x \<in> set (ps ! j))"
proof (induction ps arbitrary: D i)
  case (Cons p ps)
  show ?case
  proof (cases i)
    case 0
    with Cons.prems show ?thesis by auto
  next
    case (Suc i')
    with Cons.prems Cons.IH [of "D \<union> set p" i'] have "x \<in> D \<union> set p \<or> (\<exists>j < i'. x \<in> set (ps ! j))" by simp
    then show ?thesis using Suc by fastforce
  qed
qed simp

lemma depends_outside: "x \<notin> fst ` set es \<Longrightarrow> depends es x = []"
  by (auto simp: depends_def dict_get_def split: option.splits dest!: map_of_SomeD intro: rev_image_eqI)

lemma depends_union: "(\<Union>x \<in> fst ` set es. set (depends es x)) = {k. \<exists>x. k \<in> set (depends es x)}"
proof (intro equalityI subsetI)
  fix k assume "k \<in> {k. \<exists>x. k \<in> set (depends es x)}"
  then obtain x where x: "k \<in> set (depends es x)" by blast
  then have "x \<in> fst ` set es" using depends_outside [of x es] by fastforce
  with x show "k \<in> (\<Union>x \<in> fst ` set es. set (depends es x))" by (rule UN_I [rotated])
qed blast

lemma edge_count_0: "finite S \<Longrightarrow> edge_count es S k = 0 \<longleftrightarrow> (\<forall>x \<in> S. k \<notin> set (depends es x))"
  by (simp add: edge_count_def count_list_0_iff)

lemma edge_count_phase:
  assumes "distinct ph" "set ph \<inter> D = {}"
  shows "int (edge_count es (fst ` set es - D) k) - (\<Sum>x\<leftarrow>ph. int (count_list (depends es x) k)) =
    int (edge_count es (fst ` set es - (D \<union> set ph)) k)"
proof -
  let ?K = "fst ` set es"
  have "(\<Sum>x\<leftarrow>ph. int (count_list (depends es x) k)) = (\<Sum>x \<in> set ph. int (count_list (depends es x) k))"
    using assms(1) by (rule sum_list_distinct_conv_sum_set)
  also have "\<dots> = (\<Sum>x \<in> set ph \<inter> ?K. int (count_list (depends es x) k))"
    by (rule sum.mono_neutral_right) (auto simp: depends_outside)
  also have "\<dots> = int (edge_count es (set ph \<inter> ?K) k)" by (simp add: edge_count_def)
  finally have ph: "(\<Sum>x\<leftarrow>ph. int (count_list (depends es x) k)) = int (edge_count es (set ph \<inter> ?K) k)" .
  have "?K - D = (?K - (D \<union> set ph)) \<union> (set ph \<inter> ?K)" using assms(2) by auto
  then have "edge_count es (?K - D) k = edge_count es (?K - (D \<union> set ph)) k + edge_count es (set ph \<inter> ?K) k"
    unfolding edge_count_def by (simp add: sum.union_disjoint [symmetric] Int_Diff inf.commute)
      (subst sum.union_disjoint [symmetric]; auto)
  with ph show ?thesis by simp
qed

text \<open>What the phases of a layering promise of the extensions \<open>R\<close> to be scheduled.\<close>

definition phases_ok :: "(string, compatibility_edge list) dict \<Rightarrow> string set \<Rightarrow> string set \<Rightarrow> string list list \<Rightarrow> bool" where
  "phases_ok es D R ps \<longleftrightarrow> distinct (concat ps) \<and> set (concat ps) \<subseteq> R \<and> layered es D ps \<and>
     (\<forall>k \<in> R - set (concat ps). \<exists>x. k \<in> set (depends es x) \<and> x \<notin> D \<union> set (concat ps))"

lemma phases_ok_Cons:
  assumes "distinct ph" "set ph \<subseteq> R" "\<And>k x. k \<in> set ph \<Longrightarrow> k \<in> set (depends es x) \<Longrightarrow> x \<in> D"
    and "phases_ok es (D \<union> set ph) (R - set ph) ps"
  shows "phases_ok es D R (ph # ps)"
  using assms unfolding phases_ok_def by (auto simp del: set_concat; blast)

lemma phase_loop_correct:
  assumes "\<And>k. dict_get deg k 0 = int (edge_count es (fst ` set es - D) k)"
    and "\<And>x. dict_get adj x [] = depends es x" "\<And>x. set (depends es x) \<subseteq> fst ` set deg"
    and "distinct remaining" "set remaining \<inter> D = {}"
  shows "phases_ok es D (set remaining) (phase_loop adj deg remaining)"
  using assms
proof (induction adj deg remaining arbitrary: D rule: phase_loop.induct)
  case (1 adj deg remaining)
  let ?ph = "filter (\<lambda>k. dict_get deg k 0 = 0) remaining"
  have free: "k \<in> set ?ph \<longleftrightarrow> k \<in> set remaining \<and> (\<forall>x. k \<in> set (depends es x) \<longrightarrow> x \<in> D)" for k
    using "1.prems"(1) [of k] edge_count_0 [of "fst ` set es - D" es k] depends_outside [of _ es] by fastforce
  show ?case
  proof (cases "?ph = []")
    case True
    then have "phase_loop adj deg remaining = []" by (subst phase_loop.simps) (simp add: Let_def)
    moreover have "\<exists>x. k \<in> set (depends es x) \<and> x \<notin> D" if "k \<in> set remaining" for k
      using free [of k] that True by auto
    ultimately show ?thesis by (simp add: phases_ok_def)
  next
    case False
    let ?rem = "filter (\<lambda>k. k \<notin> set ?ph) remaining"
    let ?ps = "phase_loop adj (decrement adj ?ph deg) ?rem"
    have ps: "phase_loop adj deg remaining = ?ph # ?ps"
      using False by (subst phase_loop.simps) (auto simp: Let_def)
    have "remaining \<noteq> []" using False by auto
    then have "phases_ok es (D \<union> set ?ph) (set ?rem) ?ps"
    proof (rule "1.IH" [OF _ refl False])
      fix k
      have "dict_get (decrement adj ?ph deg) k 0 = dict_get deg k 0 - (\<Sum>x\<leftarrow>?ph. int (count_list (depends es x) k))"
        using decrement_get [of adj deg ?ph k] "1.prems"(2,3) by simp
      also have "\<dots> = int (edge_count es (fst ` set es - (D \<union> set ?ph)) k)"
        using "1.prems"(1,4,5) edge_count_phase [of ?ph D es k] by auto
      finally show "dict_get (decrement adj ?ph deg) k 0 = int (edge_count es (fst ` set es - (D \<union> set ?ph)) k)" .
    qed (use "1.prems" in \<open>auto simp: decrement_keys\<close>)
    moreover have "set ?rem = set remaining - set ?ph" by auto
    ultimately have "phases_ok es (D \<union> set ?ph) (set remaining - set ?ph) ?ps" by (simp only:)
    moreover have "distinct ?ph" "set ?ph \<subseteq> set remaining" using "1.prems"(4) by auto
    ultimately show ?thesis unfolding ps using free by (intro phases_ok_Cons) blast+
  qed
qed

section \<open>Properties\<close>

text \<open>
  C20 (transitive_closure_exact): \<open>transitive_closure\<close> always ends and returns exactly the extensions that
  can be reached over any number of dependencies, the given one included, also when dependencies are
  circular or name extensions without edges.
\<close>

theorem transitive_closure_exact:
  "set (transitive_closure g x) = {y. (x, y) \<in> {(a, b). \<exists>e \<in> set (edges_from g a). ce_edge_type e = DEPENDS_ON \<and> ce_target_id e = b}\<^sup>*}"
proof -
  have "dep_rel (cg_edges g) = {(a, b). \<exists>e \<in> set (edges_from g a). ce_edge_type e = DEPENDS_ON \<and> ce_target_id e = b}"
    by (auto simp: dep_rel_def depends_def edges_from_def)
  then show ?thesis using closure_reachable [of "cg_edges g" x] by (simp only: transitive_closure_def)
qed

text \<open>
  The phases are pairwise disjoint sets of installed extensions, and an extension
  is scheduled only after every extension that depends on it was scheduled in an earlier phase. An
  installed extension that occurs in the graph is left out only if some extension that depends on it is
  itself not scheduled, be it on a cycle or not installed.
\<close>

theorem phase_order_layers:
  assumes "dict_wf (cg_edges g)"
  shows "let ps = topological_phase_order g in
    distinct (concat ps) \<and> set (concat ps) \<subseteq> set (cg_installed g) \<and>
    (\<forall>i < length ps. \<forall>k \<in> set (ps ! i). \<forall>x. k \<in> set (depends (cg_edges g) x) \<longrightarrow> (\<exists>j < i. x \<in> set (ps ! j))) \<and>
    (\<forall>k \<in> set (cg_installed g). edges_from g k \<noteq> [] \<or> (\<exists>x. k \<in> set (depends (cg_edges g) x)) \<longrightarrow>
       k \<in> set (concat ps) \<or> (\<exists>x. k \<in> set (depends (cg_edges g) x) \<and> x \<notin> set (concat ps)))"
proof -
  let ?es = "cg_edges g"
  let ?rem = "filter (\<lambda>k. k \<in> set (cg_installed g)) (dict_keys (fst (degrees ?es)))"
  note d = degrees_facts [OF assms [unfolded dict_wf_def]]
  have "phases_ok ?es {} (set ?rem) (phase_loop (snd (degrees ?es)) (fst (degrees ?es)) ?rem)"
  proof (rule phase_loop_correct)
    show "set (depends ?es x) \<subseteq> fst ` set (fst (degrees ?es))" for x
      using d [of x] depends_outside [of x ?es] by (cases "x \<in> fst ` set ?es") auto
    show "distinct ?rem" using degrees_wf [of ?es] by (simp add: dict_wf_def dict_keys_def)
  qed (use d in simp_all)
  then have ok: "phases_ok ?es {} (set ?rem) (topological_phase_order g)"
    by (simp add: topological_phase_order_def split_def)
  have rem: "k \<in> set ?rem \<longleftrightarrow> k \<in> set (cg_installed g) \<and>
      (k \<in> fst ` set ?es \<or> (\<exists>x. k \<in> set (depends ?es x)))" for k
  proof -
    have "fst ` set (fst (degrees ?es)) = fst ` set ?es \<union> {k. \<exists>x. k \<in> set (depends ?es x)}"
      using d [of k] by (simp only: depends_union)
    then show ?thesis by (simp only: dict_keys_def set_filter set_map) blast
  qed
  have key: "edges_from g k \<noteq> [] \<Longrightarrow> k \<in> fst ` set ?es" for k
    using dict_get_nonempty by (fastforce simp: edges_from_def)
  let ?ps = "topological_phase_order g"
  have l: "layered ?es {} ?ps" and c: "distinct (concat ?ps)" "set (concat ?ps) \<subseteq> set ?rem"
    and m: "\<And>k. k \<in> set ?rem \<Longrightarrow> k \<notin> set (concat ?ps) \<Longrightarrow> \<exists>x. k \<in> set (depends ?es x) \<and> x \<notin> set (concat ?ps)"
    using ok unfolding phases_ok_def by auto
  show ?thesis unfolding Let_def
  proof (intro conjI allI ballI impI)
    show "set (concat ?ps) \<subseteq> set (cg_installed g)" using c(2) by auto
    show "\<exists>j < i. x \<in> set (?ps ! j)" if "i < length ?ps" "k \<in> set (?ps ! i)" "k \<in> set (depends ?es x)" for i k x
      using layered_nth [OF l that] by simp
    show "k \<in> set (concat ?ps) \<or> (\<exists>x. k \<in> set (depends ?es x) \<and> x \<notin> set (concat ?ps))"
      if "k \<in> set (cg_installed g)" "edges_from g k \<noteq> [] \<or> (\<exists>x. k \<in> set (depends ?es x))" for k
    proof -
      have "k \<in> set ?rem" using that key [of k] rem [of k] by argo
      from m [OF this] show ?thesis by argo
    qed
  qed (rule c(1))
qed

definition example_edge :: "string \<Rightarrow> string \<Rightarrow> compatibility_edge" where
  "example_edge a b = \<lparr>ce_source_id = a, ce_target_id = b, ce_edge_type = DEPENDS_ON, ce_reason = []\<rparr>"

definition example_graph :: compatibility_graph where
  "example_graph = register_installed ''c'' (register_installed ''b'' (register_installed ''a''
     (declare_edge (example_edge ''c'' ''b'') (declare_edge (example_edge ''a'' ''b'') empty_graph))))"

lemma example_graph_phases: "topological_phase_order example_graph = [[''a'', ''c''], [''b'']]"
  by (simp add: example_graph_def register_installed_def declare_edge_def example_edge_def empty_graph_def
      set_add_def dict_append_def dict_get_def topological_phase_order_def degrees_def degree_step_def
      count_targets_def setdefault_def dict_has_def dict_keys_def phase_loop.simps decrement_def Let_def)

theorem phase_order_layers_witness:
  "dict_wf (cg_edges example_graph) \<and> topological_phase_order example_graph = [[''a'', ''c''], [''b'']] \<and>
   (\<exists>j < 1. ''c'' \<in> set ([[''a'', ''c''], [''b'']] ! j))"
proof -
  have wf: "dict_wf (cg_edges example_graph)"
    by (simp add: example_graph_def register_installed_def declare_edge_def example_edge_def empty_graph_def
        dict_append_def dict_get_def dict_wf_def Let_def)
  have "''b'' \<in> set (depends (cg_edges example_graph) ''c'')"
    by (simp add: example_graph_def register_installed_def declare_edge_def example_edge_def empty_graph_def
        dict_append_def dict_get_def depends_def Let_def)
  with phase_order_layers [OF wf] have "\<exists>j < 1. ''c'' \<in> set ([[''a'', ''c''], [''b'']] ! j)"
    unfolding example_graph_phases Let_def by (elim conjE allE [of _ 1]) auto
  with wf example_graph_phases show ?thesis by blast
qed

section \<open>Installation\<close>

lemma capability_checks_ok:
  "(\<exists>cs. capability_checks g x reqs = Inr cs) \<longleftrightarrow> (\<forall>e \<in> set reqs. parse_capability_from_reason (ce_reason e) \<noteq> None)"
  "capability_checks g x reqs = Inr cs \<Longrightarrow> cs = [] \<longleftrightarrow>
     (\<forall>e \<in> set reqs. \<forall>cap. parse_capability_from_reason (ce_reason e) = Some cap \<longrightarrow>
        dict_get (cg_capability_providers g) cap [] \<noteq> [])"
  "capability_checks g x reqs = Inl err \<Longrightarrow> err = AttributeError"
  by (induction reqs arbitrary: cs) (auto simp: res_simps split: option.splits if_splits)

text \<open>
  The check of an installation returns exactly when every capability requirement
  of the extension names a known capability, and raises \<open>AttributeError\<close> otherwise. When it returns, it
  has no objection exactly if the extension is not installed yet, a sandboxed one would not join an
  installed core extension, its dependencies are installed, it declares no conflict with an installed
  extension, and each required capability has a provider. Conflicts that installed extensions declare
  with the new one are not looked at.
\<close>

theorem check_install_verdict:
  "case check_install lookup g x m of
     Inl err \<Rightarrow> err = AttributeError \<and>
       (\<exists>e \<in> set (edges_from g x). ce_edge_type e = REQUIRES_CAPABILITY \<and> parse_capability_from_reason (ce_reason e) = None)
   | Inr cs \<Rightarrow>
       (cs = [] \<longleftrightarrow>
          x \<notin> set (cg_installed g) \<and>
          \<not> (em_trust_zone m = SANDBOX_EXPERIMENTAL \<and> (\<exists>y \<in> set (cg_installed g). lookup y = Some CORE_TRUSTED)) \<and>
          \<not> (\<exists>e \<in> set (edges_from g x). ce_edge_type e = DEPENDS_ON \<and> ce_target_id e \<notin> set (cg_installed g)) \<and>
          \<not> (\<exists>e \<in> set (edges_from g x). ce_edge_type e = CONFLICTS_WITH \<and> ce_target_id e \<in> set (cg_installed g)) \<and>
          \<not> (\<exists>e \<in> set (edges_from g x). ce_edge_type e = REQUIRES_CAPABILITY \<and>
               (\<exists>cap. parse_capability_from_reason (ce_reason e) = Some cap \<and>
                  dict_get (cg_capability_providers g) cap [] = [])))"
proof (cases "capability_checks g x (edges_of_type REQUIRES_CAPABILITY g x)")
  case (Inl err)
  with capability_checks_ok(1) [of g x "edges_of_type REQUIRES_CAPABILITY g x"]
  have "\<exists>e \<in> set (edges_of_type REQUIRES_CAPABILITY g x). parse_capability_from_reason (ce_reason e) = None" by auto
  with Inl capability_checks_ok(3) [OF Inl] show ?thesis by (auto simp: check_install_def edges_of_type_def)
next
  case (Inr cs)
  from capability_checks_ok(2) [OF this] Inr show ?thesis
    by (auto simp: check_install_def identity_checks_def zone_checks_def dependency_checks_def conflict_checks_def
        edges_of_type_def filter_empty_conv)
qed

text \<open>The verdict between two extensions does not depend on which of them is asked about.\<close>

lemma check_compatibility_symmetric: "cc_verdict (check_compatibility g a b) = cc_verdict (check_compatibility g b a)"
  by (auto simp: check_compatibility_def Let_def split: option.split)

end
