(* ===== verification/Capability_Registry.thy ===== *)
theory Capability_Registry
  imports Capability_Graph
begin

text \<open>
  The semantic capability registry (\<open>pi_interoperability_layer/capability/registry.py\<close>): one entry per
  extension with its fingerprints and trust score, an index of the entries by capability class, trust zone
  and status, recorded dependencies, an audit log and one JSON file per entry. A Python set is the list of
  its elements, in an order no property depends on; a file is what \<open>json.load\<close> returns for it. The JSON
  text of a manifest is pydantic's work and a parameter (\<open>dump_json\<close>), as is the clock.

  The index is kept exact enough by every operation: status updates never miss it, and a query answered from
  it returns the same entries as a scan of the registry.
\<close>

section \<open>Entries\<close>

datatype registry_entry_status = REGISTERED | VALIDATED | ACTIVE | DEPRECATED | REVOKED

fun registry_entry_status_value :: "registry_entry_status \<Rightarrow> string" where
  "registry_entry_status_value REGISTERED = ''registered''"
| "registry_entry_status_value VALIDATED = ''validated''"
| "registry_entry_status_value ACTIVE = ''active''"
| "registry_entry_status_value DEPRECATED = ''deprecated''"
| "registry_entry_status_value REVOKED = ''revoked''"

datatype trust_scoring_basis =
  POLICY_EVIDENCE | DETERMINISM_PROOF | REPLAY_VERIFICATION | STATIC_ANALYSIS | MANUAL_REVIEW

fun trust_scoring_basis_value :: "trust_scoring_basis \<Rightarrow> string" where
  "trust_scoring_basis_value POLICY_EVIDENCE = ''policy_evidence''"
| "trust_scoring_basis_value DETERMINISM_PROOF = ''determinism_proof''"
| "trust_scoring_basis_value REPLAY_VERIFICATION = ''replay_verification''"
| "trust_scoring_basis_value STATIC_ANALYSIS = ''static_analysis''"
| "trust_scoring_basis_value MANUAL_REVIEW = ''manual_review''"

record registry_fingerprints =
  rf_manifest_hash :: string
  rf_source_hash :: string
  rf_determinism_fingerprint :: string
  rf_policy_hash :: string
  rf_normalization_hash :: string
  rf_provenance_chain_hash :: string

definition combined_hash :: "(string \<Rightarrow> string) \<Rightarrow> registry_fingerprints \<Rightarrow> string" where
  "combined_hash sha256 f = sha256 (py_join '':''
     [rf_manifest_hash f, rf_source_hash f, rf_determinism_fingerprint f, rf_policy_hash f,
      rf_normalization_hash f, rf_provenance_chain_hash f])"

record trust_score =
  tsc_policy_passed :: int
  tsc_determinism_verified :: int
  tsc_replay_safe :: int
  tsc_static_clean :: int
  tsc_manual_reviewed :: int
  tsc_basis :: "trust_scoring_basis list"

definition new_trust_score :: trust_score where
  "new_trust_score = \<lparr>tsc_policy_passed = 0, tsc_determinism_verified = 0, tsc_replay_safe = 0,
     tsc_static_clean = 0, tsc_manual_reviewed = 0, tsc_basis = []\<rparr>"

definition composite_score :: "trust_score \<Rightarrow> int" where
  "composite_score t = min 100 (tsc_policy_passed t + tsc_determinism_verified t + tsc_replay_safe t
     + tsc_static_clean t + tsc_manual_reviewed t)"

text \<open>The new score is built from the one changed field and the basis; the other fields take their defaults.\<close>

definition with_evidence :: "trust_scoring_basis \<Rightarrow> int \<Rightarrow> trust_score \<Rightarrow> trust_score" where
  "with_evidence b v t =
     (let new_basis = set_add b (tsc_basis t);
          fresh = new_trust_score\<lparr>tsc_basis := new_basis\<rparr>
      in case b of
           POLICY_EVIDENCE \<Rightarrow> fresh\<lparr>tsc_policy_passed := min 100 (tsc_policy_passed t + v)\<rparr>
         | DETERMINISM_PROOF \<Rightarrow> fresh\<lparr>tsc_determinism_verified := min 100 (tsc_determinism_verified t + v)\<rparr>
         | REPLAY_VERIFICATION \<Rightarrow> fresh\<lparr>tsc_replay_safe := min 100 (tsc_replay_safe t + v)\<rparr>
         | STATIC_ANALYSIS \<Rightarrow> fresh\<lparr>tsc_static_clean := min 100 (tsc_static_clean t + v)\<rparr>
         | MANUAL_REVIEW \<Rightarrow> fresh\<lparr>tsc_manual_reviewed := min 100 (tsc_manual_reviewed t + v)\<rparr>)"

record capability_entry =
  rge_extension_id :: string
  rge_name :: string
  rge_version :: string
  rge_registered_at :: string
  rge_fingerprints :: registry_fingerprints
  rge_trust_score :: trust_score
  rge_status :: registry_entry_status
  rge_capability_class :: "capability_class option"
  rge_trust_zone :: trust_zone
  rge_manifest_snapshot :: string
  rge_previous_entry_hash :: string
  rge_entry_hash :: string

definition entry_compute_hash :: "(string \<Rightarrow> string) \<Rightarrow> capability_entry \<Rightarrow> string" where
  "entry_compute_hash sha256 e = sha256 (py_join '':''
     [rge_extension_id e, rge_name e, rge_version e, combined_hash sha256 (rge_fingerprints e),
      show_int (composite_score (rge_trust_score e)), registry_entry_status_value (rge_status e),
      rge_previous_entry_hash e])"

text \<open>\<open>__post_init__\<close>: the hash given to the constructor is replaced.\<close>

definition entry_post_init :: "(string \<Rightarrow> string) \<Rightarrow> capability_entry \<Rightarrow> capability_entry" where
  "entry_post_init sha256 e = e\<lparr>rge_entry_hash := entry_compute_hash sha256 e\<rparr>"

type_synonym registry_index_key = "capability_class option \<times> trust_zone \<times> registry_entry_status"

definition entry_key :: "capability_entry \<Rightarrow> registry_index_key" where
  "entry_key e = (rge_capability_class e, rge_trust_zone e, rge_status e)"

section \<open>The registry\<close>

record capability_registry =
  scr_entries :: "(string, capability_entry) dict"
  scr_index :: "(registry_index_key, string list) dict"
  scr_capability_graph :: "(string, string list) dict"
  scr_audit_log :: "string list"
  scr_files :: "(string, payload) dict"

definition new_capability_registry :: capability_registry where
  "new_capability_registry = \<lparr>scr_entries = [], scr_index = [], scr_capability_graph = [], scr_audit_log = [], scr_files = []\<rparr>"

definition entry_file_data :: "(string \<Rightarrow> string) \<Rightarrow> capability_entry \<Rightarrow> payload" where
  "entry_file_data sha256 e =
     (let f = rge_fingerprints e; t = rge_trust_score e in
      [(''extension_id'', PStr (rge_extension_id e)), (''name'', PStr (rge_name e)),
       (''version'', PStr (rge_version e)), (''registered_at'', PStr (rge_registered_at e)),
       (''fingerprints'', PDict
         [(''manifest_hash'', PStr (rf_manifest_hash f)), (''source_hash'', PStr (rf_source_hash f)),
          (''determinism_fingerprint'', PStr (rf_determinism_fingerprint f)),
          (''policy_hash'', PStr (rf_policy_hash f)), (''normalization_hash'', PStr (rf_normalization_hash f)),
          (''provenance_chain_hash'', PStr (rf_provenance_chain_hash f)),
          (''combined_hash'', PStr (combined_hash sha256 f))]),
       (''trust_score'', PDict
         [(''policy_passed'', PInt (tsc_policy_passed t)),
          (''determinism_verified'', PInt (tsc_determinism_verified t)),
          (''replay_safe'', PInt (tsc_replay_safe t)), (''static_clean'', PInt (tsc_static_clean t)),
          (''manual_reviewed'', PInt (tsc_manual_reviewed t)),
          (''basis'', PList (map (\<lambda>b. PStr (trust_scoring_basis_value b)) (tsc_basis t))),
          (''composite_score'', PInt (composite_score t))]),
       (''status'', PStr (registry_entry_status_value (rge_status e))),
       (''capability_class'', str_or_none (map_option capability_class_value (rge_capability_class e))),
       (''trust_zone'', PStr (trust_zone_value (rge_trust_zone e))),
       (''manifest_snapshot'', PStr (rge_manifest_snapshot e)),
       (''previous_entry_hash'', PStr (rge_previous_entry_hash e)),
       (''entry_hash'', PStr (rge_entry_hash e))])"

definition save_entry :: "(string \<Rightarrow> string) \<Rightarrow> capability_entry \<Rightarrow> capability_registry \<Rightarrow> capability_registry" where
  "save_entry sha256 e reg = reg\<lparr>scr_files :=
     dict_set (scr_files reg) (rge_extension_id e @ ''.json'') (entry_file_data sha256 e)\<rparr>"

definition registry_index_add :: "registry_index_key \<Rightarrow> string \<Rightarrow> (registry_index_key, string list) dict \<Rightarrow>
    (registry_index_key, string list) dict" where
  "registry_index_add key x idx = dict_set idx key (set_add x (dict_get idx key []))"

definition registry_register :: "(string \<Rightarrow> string) \<Rightarrow> (extension_manifest \<Rightarrow> string) \<Rightarrow> string \<Rightarrow> capability_registry \<Rightarrow>
    extension_manifest \<Rightarrow> registry_fingerprints \<Rightarrow> trust_score \<Rightarrow> registry_entry_status \<Rightarrow> string \<Rightarrow>
    capability_registry \<times> capability_entry" where
  "registry_register sha256 dump_json now reg m fingerprints trust_score status previous_entry_hash =
     (let entry = entry_post_init sha256
            \<lparr>rge_extension_id = em_extension_id m, rge_name = em_package_name m, rge_version = em_package_version m,
             rge_registered_at = now, rge_fingerprints = fingerprints, rge_trust_score = trust_score,
             rge_status = status, rge_capability_class = Some (em_capability_class m),
             rge_trust_zone = em_trust_zone m, rge_manifest_snapshot = dump_json m,
             rge_previous_entry_hash = previous_entry_hash, rge_entry_hash = []\<rparr>;
          reg1 = reg\<lparr>scr_entries := dict_set (scr_entries reg) (rge_extension_id entry) entry,
             scr_index := registry_index_add (entry_key entry) (rge_extension_id entry) (scr_index reg),
             scr_audit_log := scr_audit_log reg @
               [''REGISTER '' @ rge_extension_id entry @ '' '' @ rge_entry_hash entry]\<rparr>
      in (save_entry sha256 entry reg1, entry))"

definition registry_index_discard :: "registry_index_key \<Rightarrow> string \<Rightarrow> (registry_index_key, string list) dict \<Rightarrow>
    (registry_index_key, string list) dict" where
  "registry_index_discard key x idx =
     (let rest = removeAll x (dict_get idx key [])
      in if rest = [] then dict_pop key idx else dict_set idx key rest)"

text \<open>
  \<open>update_status\<close>. The entry is already replaced when the old key of the index is read, so a missing key would
  raise with the new entry in place.
\<close>

definition registry_update_status :: "(string \<Rightarrow> string) \<Rightarrow> capability_registry \<Rightarrow> string \<Rightarrow> registry_entry_status \<Rightarrow>
    trust_score option \<Rightarrow> capability_registry \<times> capability_entry result" where
  "registry_update_status sha256 reg extension_id new_status trust_score =
     (case map_of (scr_entries reg) extension_id of
        None \<Rightarrow> (reg, Inl (KeyError (''Extension '' @ extension_id @ '' not registered'')))
      | Some old \<Rightarrow>
          (let new_entry = entry_post_init sha256 (old
                 \<lparr>rge_trust_score := (case trust_score of None \<Rightarrow> rge_trust_score old | Some t \<Rightarrow> t),
                  rge_status := new_status, rge_previous_entry_hash := rge_entry_hash old\<rparr>);
               reg1 = reg\<lparr>scr_entries := dict_set (scr_entries reg) extension_id new_entry\<rparr>
           in if \<not> dict_has (scr_index reg1) (entry_key old) then (reg1, Inl (KeyError ''index''))
              else
                (let reg2 = reg1\<lparr>scr_index :=
                       registry_index_add (entry_key new_entry) extension_id (registry_index_discard (entry_key old) extension_id (scr_index reg1)),
                     scr_audit_log := scr_audit_log reg1 @
                       [''UPDATE '' @ extension_id @ '' '' @ registry_entry_status_value new_status @ '' ''
                        @ rge_entry_hash new_entry]\<rparr>
                 in (save_entry sha256 new_entry reg2, Inr new_entry))))"

definition registry_lookup :: "capability_registry \<Rightarrow> string \<Rightarrow> capability_entry option" where
  "registry_lookup reg x = map_of (scr_entries reg) x"

definition lookup_by_fingerprint :: "(string \<Rightarrow> string) \<Rightarrow> capability_registry \<Rightarrow> string \<Rightarrow> capability_entry option" where
  "lookup_by_fingerprint sha256 reg fingerprint =
     find (\<lambda>e. combined_hash sha256 (rge_fingerprints e) = fingerprint) (map snd (scr_entries reg))"

definition query_match :: "capability_class option \<Rightarrow> trust_zone option \<Rightarrow> registry_entry_status option \<Rightarrow> int \<Rightarrow>
    capability_entry \<Rightarrow> bool" where
  "query_match cap zone status min_trust_score e \<longleftrightarrow>
     (cap \<noteq> None \<longrightarrow> rge_capability_class e = cap) \<and>
     (zone \<noteq> None \<longrightarrow> Some (rge_trust_zone e) = zone) \<and>
     (status \<noteq> None \<longrightarrow> Some (rge_status e) = status) \<and>
     composite_score (rge_trust_score e) \<ge> min_trust_score"

definition query_candidates :: "capability_registry \<Rightarrow> capability_class option \<Rightarrow> trust_zone option \<Rightarrow>
    registry_entry_status option \<Rightarrow> string list" where
  "query_candidates reg cap zone status =
     (case (cap, zone, status) of
        (Some c, Some z, Some s) \<Rightarrow> dict_get (scr_index reg) (Some c, z, s) []
      | _ \<Rightarrow> dict_keys (scr_entries reg))"

definition registry_query :: "capability_registry \<Rightarrow> capability_class option \<Rightarrow> trust_zone option \<Rightarrow>
    registry_entry_status option \<Rightarrow> int \<Rightarrow> capability_entry list result" where
  "registry_query reg cap zone status min_trust_score =
     res_bind (res_map (dict_index (scr_entries reg)) (query_candidates reg cap zone status)) (\<lambda>es.
       Inr (sort_key (\<lambda>e. - composite_score (rge_trust_score e))
              (filter (query_match cap zone status min_trust_score) es)))"

definition record_dependency :: "capability_registry \<Rightarrow> string \<Rightarrow> string \<Rightarrow> capability_registry \<times> unit result" where
  "record_dependency reg extension_id requires =
     (if \<not> dict_has (scr_entries reg) extension_id
      then (reg, Inl (KeyError (''Extension '' @ extension_id @ '' not registered'')))
      else if \<not> dict_has (scr_entries reg) requires
      then (reg, Inl (KeyError (''Required extension '' @ requires @ '' not registered'')))
      else (reg\<lparr>scr_capability_graph := dict_set (scr_capability_graph reg) extension_id
                 (set_add requires (dict_get (scr_capability_graph reg) extension_id [])),
               scr_audit_log := scr_audit_log reg @ [''DEPENDS '' @ extension_id @ '' -> '' @ requires]\<rparr>, Inr ()))"

definition get_dependencies :: "capability_registry \<Rightarrow> string \<Rightarrow> string list" where
  "get_dependencies reg x = dict_get (scr_capability_graph reg) x []"

definition entry_chain_errors :: "(string \<Rightarrow> string) \<Rightarrow> (string, capability_entry) dict \<Rightarrow> string \<Rightarrow> capability_entry \<Rightarrow> string list" where
  "entry_chain_errors sha256 by_hash eid entry =
     (if rge_entry_hash entry \<noteq> entry_compute_hash sha256 entry then [''Hash mismatch: '' @ eid] else []) @
     (let prev = rge_previous_entry_hash entry in
      if prev = [] then []
      else (if prev = rge_entry_hash entry then [''Self-referential chain link: '' @ eid] else []) @
        (case map_of by_hash prev of
           None \<Rightarrow> []
         | Some predecessor \<Rightarrow>
             if rge_extension_id predecessor \<noteq> rge_extension_id entry
             then [''Chain lineage mismatch: '' @ eid @ '' links to '' @ rge_extension_id predecessor] else []))"

definition verify_chain_integrity :: "(string \<Rightarrow> string) \<Rightarrow> capability_registry \<Rightarrow> bool \<times> string list" where
  "verify_chain_integrity sha256 reg =
     (let by_hash = dict_of_pairs (map (\<lambda>(_, e). (rge_entry_hash e, e)) (scr_entries reg));
          errors = concat (map (\<lambda>(eid, entry). entry_chain_errors sha256 by_hash eid entry) (scr_entries reg))
      in (errors = [], errors))"

section \<open>The invariant of the registry\<close>

lemma dict_get_pop: "dict_get (dict_pop k d) j x = (if j = k then x else dict_get d j x)"
  by (simp add: dict_get_def dict_simps)

lemma set_set_add [simp]: "set (set_add x xs) = insert x (set xs)"
  by (auto simp: set_add_def)

lemma distinct_set_add [simp]: "distinct xs \<Longrightarrow> distinct (set_add x xs)"
  by (simp add: set_add_def)

lemma dict_get_index_add:
  "dict_get (registry_index_add k x idx) j [] = (if j = k then set_add x (dict_get idx k []) else dict_get idx j [])"
  by (simp add: registry_index_add_def dict_get_set)

lemma dict_get_index_discard:
  "dict_get (registry_index_discard k x idx) j [] = (if j = k then removeAll x (dict_get idx k []) else dict_get idx j [])"
  by (auto simp: registry_index_discard_def Let_def dict_get_set dict_get_pop)

lemmas index_simps = dict_get_index_add dict_get_index_discard

text \<open>
  What the operations keep: every entry is filed under its own id, with its recomputed hash, in the index set
  of its key and in its JSON file; the index sets name registered extensions only, each once.
\<close>

definition registry_inv :: "(string \<Rightarrow> string) \<Rightarrow> capability_registry \<Rightarrow> bool" where
  "registry_inv sha256 reg \<longleftrightarrow>
     dict_wf (scr_entries reg) \<and>
     (\<forall>x e. map_of (scr_entries reg) x = Some e \<longrightarrow>
        rge_extension_id e = x \<and> rge_entry_hash e = entry_compute_hash sha256 e \<and>
        x \<in> set (dict_get (scr_index reg) (entry_key e) []) \<and>
        map_of (scr_files reg) (x @ ''.json'') = Some (entry_file_data sha256 e)) \<and>
     (\<forall>k. distinct (dict_get (scr_index reg) k []) \<and>
        set (dict_get (scr_index reg) k []) \<subseteq> dom (map_of (scr_entries reg)))"

lemma registry_inv_entry:
  assumes "registry_inv sha256 reg" "map_of (scr_entries reg) x = Some e"
  shows "rge_extension_id e = x" "rge_entry_hash e = entry_compute_hash sha256 e"
    "x \<in> set (dict_get (scr_index reg) (entry_key e) [])" "dict_has (scr_index reg) (entry_key e)"
    "map_of (scr_files reg) (x @ ''.json'') = Some (entry_file_data sha256 e)"
proof -
  show "rge_extension_id e = x" "rge_entry_hash e = entry_compute_hash sha256 e"
    "map_of (scr_files reg) (x @ ''.json'') = Some (entry_file_data sha256 e)"
    and m: "x \<in> set (dict_get (scr_index reg) (entry_key e) [])"
    using assms unfolding registry_inv_def by blast+
  show "dict_has (scr_index reg) (entry_key e)"
    using m by (cases "map_of (scr_index reg) (entry_key e)") (simp_all add: dict_has_def dict_get_def)
qed

lemma registry_inv_index:
  assumes "registry_inv sha256 reg"
  shows "dict_wf (scr_entries reg)" "distinct (dict_get (scr_index reg) k [])"
    "set (dict_get (scr_index reg) k []) \<subseteq> dom (map_of (scr_entries reg))"
  using assms unfolding registry_inv_def by blast+

lemma entry_post_init_fields [simp]:
  "rge_extension_id (entry_post_init sha256 e) = rge_extension_id e"
  "rge_status (entry_post_init sha256 e) = rge_status e"
  "rge_trust_zone (entry_post_init sha256 e) = rge_trust_zone e"
  "rge_capability_class (entry_post_init sha256 e) = rge_capability_class e"
  "rge_trust_score (entry_post_init sha256 e) = rge_trust_score e"
  "rge_fingerprints (entry_post_init sha256 e) = rge_fingerprints e"
  "rge_previous_entry_hash (entry_post_init sha256 e) = rge_previous_entry_hash e"
  "rge_entry_hash (entry_post_init sha256 e) = entry_compute_hash sha256 (entry_post_init sha256 e)"
  by (simp_all add: entry_post_init_def entry_compute_hash_def)

lemma registry_inv_new [simp]: "registry_inv sha256 new_capability_registry"
  by (simp add: registry_inv_def new_capability_registry_def dict_get_def)

text \<open>Both writing operations put one entry in place and re-file its id in the index.\<close>

lemma registry_inv_put:
  assumes "registry_inv sha256 reg" "rge_extension_id e = x" "rge_entry_hash e = entry_compute_hash sha256 e"
    and "scr_entries reg' = dict_set (scr_entries reg) x e"
    and "\<And>k. dict_get (scr_index reg') k [] =
      (if k = entry_key e then set_add x (dict_get idx k []) else dict_get idx k [])"
    and "\<And>k. dict_get idx k [] = dict_get (scr_index reg) k [] \<or> dict_get idx k [] = removeAll x (dict_get (scr_index reg) k [])"
    and "scr_files reg' = dict_set (scr_files reg) (x @ ''.json'') (entry_file_data sha256 e)"
  shows "registry_inv sha256 reg'"
proof -
  have idx: "distinct (dict_get idx k [])" "set (dict_get idx k []) \<subseteq> dom (map_of (scr_entries reg))"
    "y \<in> set (dict_get (scr_index reg) k []) \<Longrightarrow> y \<noteq> x \<Longrightarrow> y \<in> set (dict_get idx k [])" for k y
    using registry_inv_index(2,3) [OF assms(1), of k] assms(6) [of k] by (auto simp: distinct_removeAll)
  note old = registry_inv_entry [OF assms(1)]
  show ?thesis
    unfolding registry_inv_def assms(4,5,7)
  proof (intro conjI allI impI)
    show "dict_wf (dict_set (scr_entries reg) x e)" using registry_inv_index(1) [OF assms(1)] by simp
    fix y f assume f: "map_of (dict_set (scr_entries reg) x e) y = Some f"
    show "rge_extension_id f = y" "rge_entry_hash f = entry_compute_hash sha256 f"
      using f assms(2,3) old(1,2) by (auto simp: dict_simps split: if_splits)
    show "map_of (dict_set (scr_files reg) (x @ ''.json'') (entry_file_data sha256 e)) (y @ ''.json'') =
        Some (entry_file_data sha256 f)"
      using f old(5) by (auto simp: dict_simps split: if_splits)
    show "y \<in> set (if entry_key f = entry_key e then set_add x (dict_get idx (entry_key f) []) else dict_get idx (entry_key f) [])"
      using f idx(3) [OF old(3), of y f] by (cases "y = x") (simp_all add: dict_simps, metis)
  next
    fix k
    show "distinct (if k = entry_key e then set_add x (dict_get idx k []) else dict_get idx k [])"
      using idx(1) by simp
    show "set (if k = entry_key e then set_add x (dict_get idx k []) else dict_get idx k []) \<subseteq>
        dom (map_of (dict_set (scr_entries reg) x e))"
      using idx(2) [of k] by (auto simp: dict_simps)
  qed
qed

lemma registry_register_entry:
  assumes "registry_register sha256 dump_json now reg m f t s prev = (reg', e)"
  shows "rge_extension_id e = em_extension_id m" "rge_status e = s" "rge_trust_score e = t"
    "rge_trust_zone e = em_trust_zone m" "rge_entry_hash e = entry_compute_hash sha256 e"
    "rge_previous_entry_hash e = prev" "scr_entries reg' = dict_set (scr_entries reg) (em_extension_id m) e"
  using assms by (auto simp: registry_register_def save_entry_def Let_def)

lemma registry_inv_register:
  assumes "registry_inv sha256 reg" "registry_register sha256 dump_json now reg m f t s prev = (reg', e)"
  shows "registry_inv sha256 reg'"
proof (rule registry_inv_put [OF assms(1) registry_register_entry(1,5,7) [OF assms(2)], where idx = "scr_index reg"])
  show "scr_files reg' = dict_set (scr_files reg) (em_extension_id m @ ''.json'') (entry_file_data sha256 e)"
    using assms(2) by (auto simp: registry_register_def save_entry_def Let_def)
  show "dict_get (scr_index reg') k [] =
     (if k = entry_key e then set_add (em_extension_id m) (dict_get (scr_index reg) k []) else dict_get (scr_index reg) k [])" for k
    using assms(2) by (auto simp: registry_register_def save_entry_def Let_def index_simps)
qed simp

text \<open>An update of a registered extension succeeds: the index never misses its key.\<close>

lemma registry_update_ok:
  assumes "registry_inv sha256 reg" "map_of (scr_entries reg) x = Some old"
  shows "\<exists>reg' e. registry_update_status sha256 reg x s t = (reg', Inr e) \<and> registry_inv sha256 reg' \<and>
    scr_entries reg' = dict_set (scr_entries reg) x e \<and> rge_extension_id e = x \<and> rge_status e = s \<and>
    rge_trust_zone e = rge_trust_zone old \<and> rge_fingerprints e = rge_fingerprints old \<and>
    rge_previous_entry_hash e = rge_entry_hash old"
proof -
  note old = registry_inv_entry [OF assms]
  obtain reg' e where u: "registry_update_status sha256 reg x s t = (reg', Inr e)"
    using assms(2) old(4) by (simp add: registry_update_status_def Let_def)
  have e: "scr_entries reg' = dict_set (scr_entries reg) x e" "rge_extension_id e = x" "rge_status e = s"
    "rge_trust_zone e = rge_trust_zone old" "rge_fingerprints e = rge_fingerprints old"
    "rge_previous_entry_hash e = rge_entry_hash old" "rge_entry_hash e = entry_compute_hash sha256 e"
    "scr_files reg' = dict_set (scr_files reg) (x @ ''.json'') (entry_file_data sha256 e)"
    "scr_index reg' = registry_index_add (entry_key e) x (registry_index_discard (entry_key old) x (scr_index reg))"
    using u assms(2) old(1,4) by (auto simp: registry_update_status_def Let_def save_entry_def)
  have "registry_inv sha256 reg'"
    by (rule registry_inv_put [OF assms(1) e(2,7,1), where idx = "registry_index_discard (entry_key old) x (scr_index reg)"])
      (simp_all add: e(8,9) index_simps)
  with u e show ?thesis by blast
qed

lemma registry_update_missing:
  "map_of (scr_entries reg) x = None \<Longrightarrow> \<exists>msg. registry_update_status sha256 reg x s t = (reg, Inl (KeyError msg))"
  by (simp add: registry_update_status_def)

lemma registry_inv_update:
  "registry_inv sha256 reg \<Longrightarrow> registry_inv sha256 (fst (registry_update_status sha256 reg x s t))"
  using registry_update_ok [of sha256 reg x _ s t] registry_update_missing [of reg x sha256 s t]
  by (cases "map_of (scr_entries reg) x") fastforce+

lemma registry_inv_depend:
  "registry_inv sha256 reg \<Longrightarrow> registry_inv sha256 (fst (record_dependency reg x y))"
  by (simp add: record_dependency_def registry_inv_def)

section \<open>Histories of the registry\<close>

datatype registry_op =
    OpRegister string extension_manifest registry_fingerprints trust_score registry_entry_status string
  | OpUpdateStatus string registry_entry_status "trust_score option"
  | OpRecordDependency string string

text \<open>One call; a raised exception leaves the state the call had reached.\<close>

fun capability_registry_step :: "(string \<Rightarrow> string) \<Rightarrow> (extension_manifest \<Rightarrow> string) \<Rightarrow> capability_registry \<Rightarrow> registry_op \<Rightarrow>
    capability_registry" where
  "capability_registry_step sha256 dump_json reg (OpRegister now m f t s prev) =
     fst (registry_register sha256 dump_json now reg m f t s prev)"
| "capability_registry_step sha256 dump_json reg (OpUpdateStatus x s t) = fst (registry_update_status sha256 reg x s t)"
| "capability_registry_step sha256 dump_json reg (OpRecordDependency x y) = fst (record_dependency reg x y)"

definition registry_run :: "(string \<Rightarrow> string) \<Rightarrow> (extension_manifest \<Rightarrow> string) \<Rightarrow> registry_op list \<Rightarrow> capability_registry" where
  "registry_run sha256 dump_json ops = foldl (capability_registry_step sha256 dump_json) new_capability_registry ops"

lemma registry_inv_step: "registry_inv sha256 reg \<Longrightarrow> registry_inv sha256 (capability_registry_step sha256 dump_json reg op)"
  by (cases op) (auto simp: registry_inv_update registry_inv_depend intro: registry_inv_register [OF _ surjective_pairing])

lemma registry_inv_run: "registry_inv sha256 (registry_run sha256 dump_json ops)"
proof (induction ops rule: rev_induct)
  case (snoc op ops)
  then show ?case by (simp add: registry_run_def registry_inv_step)
qed (simp add: registry_run_def)

section \<open>Queries\<close>

lemma res_map_dict_index:
  "set xs \<subseteq> dom (map_of d) \<Longrightarrow> res_map (dict_index d) xs = Inr (map (\<lambda>x. the (map_of d x)) xs)"
  by (intro res_map_Inr) (auto simp: dict_index_def)

lemma values_of_keys: "distinct (map fst d) \<Longrightarrow> map (\<lambda>x. the (map_of d x)) (map fst d) = map snd d"
  by (auto intro!: map_of_is_SomeI [THEN arg_cong [where f = the], THEN trans])

text \<open>The index path finds the entries a scan finds: an index set may hold stale ids, which the filter drops.\<close>

lemma query_index_scan:
  assumes "registry_inv sha256 reg"
  defines "es \<equiv> scr_entries reg"
  shows "set (query_candidates reg cap zone status) \<subseteq> dom (map_of es)"
    and "mset (filter (query_match cap zone status n) (map (\<lambda>x. the (map_of es x)) (query_candidates reg cap zone status))) =
      mset (filter (query_match cap zone status n) (map snd es))"
proof -
  have wf: "distinct (map fst es)" using registry_inv_index(1) [OF assms(1)] by (simp add: es_def dict_wf_def)
  have scan: "set (dict_keys es) \<subseteq> dom (map_of es)" "map (\<lambda>x. the (map_of es x)) (dict_keys es) = map snd es"
    using values_of_keys [OF wf] by (simp_all add: dict_keys_def dom_map_of_conv_image_fst)
  show dom: "set (query_candidates reg cap zone status) \<subseteq> dom (map_of es)"
    using registry_inv_index(3) [OF assms(1)] scan(1) by (simp add: query_candidates_def es_def split: option.split)
  show "mset (filter (query_match cap zone status n) (map (\<lambda>x. the (map_of es x)) (query_candidates reg cap zone status))) =
      mset (filter (query_match cap zone status n) (map snd es))"
  proof (cases "\<exists>c z s. cap = Some c \<and> zone = Some z \<and> status = Some s")
    case False
    then have "query_candidates reg cap zone status = dict_keys es"
      by (auto simp: query_candidates_def es_def split: option.split)
    with scan(2) show ?thesis by simp
  next
    case True
    then obtain c z s where k: "cap = Some c" "zone = Some z" "status = Some s" by blast
    let ?idx = "dict_get (scr_index reg) (Some c, z, s) []"
    let ?P = "\<lambda>x. query_match cap zone status n (the (map_of es x))"
    have idx: "distinct ?idx" "set ?idx \<subseteq> dom (map_of es)" using registry_inv_index [OF assms(1)] by (auto simp: es_def)
    have "set (filter ?P ?idx) = set (filter ?P (map fst es))"
    proof (intro equalityI subsetI)
      fix x assume "x \<in> set (filter ?P ?idx)"
      with idx(2) show "x \<in> set (filter ?P (map fst es))" by (auto simp: dom_map_of_conv_image_fst)
    next
      fix x assume x: "x \<in> set (filter ?P (map fst es))"
      then obtain e where e: "map_of es x = Some e" by (cases "map_of es x") (auto simp: map_of_eq_None_iff)
      with x k have "entry_key e = (Some c, z, s)" by (auto simp: query_match_def entry_key_def)
      with registry_inv_entry(3) [OF assms(1), of x e] e x show "x \<in> set (filter ?P ?idx)" by (simp add: es_def)
    qed
    then have "mset (filter ?P ?idx) = mset (filter ?P (map fst es))"
      using idx(1) wf by (intro set_eq_iff_mset_eq_distinct [THEN iffD1]) simp_all
    then have "mset (map (\<lambda>x. the (map_of es x)) (filter ?P ?idx)) = mset (map (\<lambda>x. the (map_of es x)) (filter ?P (map fst es)))"
      by (simp only: mset_map)
    then show ?thesis
      using values_of_keys [OF wf, symmetric] k by (simp only: query_candidates_def filter_map comp_def prod.case option.case)
  qed
qed

section \<open>Properties\<close>

text \<open>
  In every registry that operations have produced, failed ones included, each
  resident entry carries its recomputed hash and is what its JSON file holds, and a query never raises: it
  returns exactly the resident entries that match, by descending composite score, whether it was answered
  from the index or by a scan. Index sets keep the ids of entries that were re-registered under another
  class, zone or status; the filter removes them.
\<close>

theorem registry_query_exact:
  "let reg = registry_run sha256 dump_json ops in
   (\<forall>x. case registry_lookup reg x of None \<Rightarrow> True
      | Some e \<Rightarrow> rge_extension_id e = x \<and> rge_entry_hash e = entry_compute_hash sha256 e \<and>
          map_of (scr_files reg) (x @ ''.json'') = Some (entry_file_data sha256 e)) \<and>
   (case registry_query reg cap zone status n of
      Inl _ \<Rightarrow> False
    | Inr rs \<Rightarrow> mset rs = mset (filter (query_match cap zone status n) (map snd (scr_entries reg))) \<and>
        sorted_wrt (\<lambda>a b. composite_score (rge_trust_score a) \<ge> composite_score (rge_trust_score b)) rs)"
proof -
  let ?reg = "registry_run sha256 dump_json ops"
  have inv: "registry_inv sha256 ?reg" by (rule registry_inv_run)
  have "sorted_wrt (\<lambda>a b. composite_score (rge_trust_score a) \<ge> composite_score (rge_trust_score b))
      (sort_key (\<lambda>e. - composite_score (rge_trust_score e)) es)" for es
    using sorted_sort_key [of "\<lambda>e. - composite_score (rge_trust_score e)" es] by (simp add: sorted_map)
  then show ?thesis
    using registry_inv_entry [OF inv] query_index_scan [OF inv, where cap = cap and zone = zone and status = status]
    by (simp add: Let_def registry_lookup_def registry_query_def res_map_dict_index split: option.split)
qed

definition basis_score :: "trust_scoring_basis \<Rightarrow> trust_score \<Rightarrow> int" where
  "basis_score b t =
     (case b of POLICY_EVIDENCE \<Rightarrow> tsc_policy_passed t | DETERMINISM_PROOF \<Rightarrow> tsc_determinism_verified t
      | REPLAY_VERIFICATION \<Rightarrow> tsc_replay_safe t | STATIC_ANALYSIS \<Rightarrow> tsc_static_clean t
      | MANUAL_REVIEW \<Rightarrow> tsc_manual_reviewed t)"

text \<open>
  A composite score never exceeds 100, and adding evidence does not accumulate:
  the new composite is the score of the one basis the evidence is for, capped, whatever the other four were,
  while the recorded bases claim all of them. Evidence for two different bases thus leaves only the later one.
\<close>

theorem evidence_resets_score:
  "composite_score t \<le> 100 \<and>
   composite_score (with_evidence b v t) = min 100 (basis_score b t + v) \<and>
   (c \<noteq> b \<longrightarrow> composite_score (with_evidence c w (with_evidence b v t)) = min 100 w) \<and>
   set (tsc_basis (with_evidence c w (with_evidence b v t))) = {c, b} \<union> set (tsc_basis t)"
  by (cases b; cases c) (simp_all add: composite_score_def with_evidence_def basis_score_def new_trust_score_def Let_def)

theorem evidence_resets_score_witness:
  "composite_score (with_evidence STATIC_ANALYSIS 25 (with_evidence POLICY_EVIDENCE 25 new_trust_score)) = 25"
  using evidence_resets_score [of new_trust_score POLICY_EVIDENCE 25 STATIC_ANALYSIS 25] by simp

end
