(* ===== verification/Capability_Ingestion.thy ===== *)
theory Capability_Ingestion
  imports Extension_Governor Capability_Registry
begin

text \<open>
  The governed ingestion pipeline (\<open>pi_interoperability_layer/capability/ingestion.py\<close>), which composes the
  extension governor, the capability registry and the compatibility graph: a bundle the governor admits is
  registered as active, checked against the graph, and either installed or revoked; every verdict is recorded
  in a chain of receipts. The parameters are those of the governor, the clock and \<open>dump_json\<close> of the registry.

  The properties say what each verdict leaves behind, that the installed extensions are exactly those with an
  \<open>ADMITTED\<close> receipt, what happens when an installed extension is ingested again, and that the last receipt
  fixes the verdicts before it.
\<close>

section \<open>Receipts\<close>

datatype ingestion_phase = INSPECT | DETERMINISM | NORMALIZE | POLICY | REGISTER | COMPATIBILITY | ADMIT

fun ingestion_phase_value :: "ingestion_phase \<Rightarrow> string" where
  "ingestion_phase_value INSPECT = ''inspect''"
| "ingestion_phase_value DETERMINISM = ''determinism''"
| "ingestion_phase_value NORMALIZE = ''normalize''"
| "ingestion_phase_value POLICY = ''policy''"
| "ingestion_phase_value REGISTER = ''register''"
| "ingestion_phase_value COMPATIBILITY = ''compatibility''"
| "ingestion_phase_value ADMIT = ''admit''"

record ingestion_step =
  igs_phase :: ingestion_phase
  igs_passed :: bool
  igs_evidence :: string
  igs_artifacts :: payload

definition make_step :: "ingestion_phase \<Rightarrow> bool \<Rightarrow> string \<Rightarrow> ingestion_step" where
  "make_step phase passed evidence =
     \<lparr>igs_phase = phase, igs_passed = passed, igs_evidence = evidence, igs_artifacts = []\<rparr>"

record ingestion_receipt =
  igr_bundle_id :: string
  igr_steps :: "ingestion_step list"
  igr_final_verdict :: string
  igr_entry_id :: "string option"
  igr_compatibility_checks :: "compatibility_check list"
  igr_receipt_hash :: string
  igr_previous_receipt_hash :: string

definition steps_text :: "ingestion_step list \<Rightarrow> string" where
  "steps_text steps = concat (map (\<lambda>s. ingestion_phase_value (igs_phase s) @ (if igs_passed s then ''1'' else ''0'')) steps)"

definition ingestion_text :: "ingestion_receipt \<Rightarrow> string" where
  "ingestion_text r = igr_bundle_id r @ '':'' @ steps_text (igr_steps r) @ '':'' @ igr_final_verdict r @ '':''
     @ igr_previous_receipt_hash r"

definition ingestion_compute_hash :: "(string \<Rightarrow> string) \<Rightarrow> ingestion_receipt \<Rightarrow> string" where
  "ingestion_compute_hash sha256 r = sha256 (ingestion_text r)"

section \<open>The pipeline\<close>

record ingestion_pipeline =
  ipl_governor :: governor
  ipl_registry :: capability_registry
  ipl_graph :: compatibility_graph
  ipl_receipts :: "ingestion_receipt list"

definition new_pipeline :: "governor \<Rightarrow> capability_registry \<Rightarrow> compatibility_graph \<Rightarrow> ingestion_pipeline" where
  "new_pipeline gv reg g = \<lparr>ipl_governor = gv, ipl_registry = reg, ipl_graph = g, ipl_receipts = []\<rparr>"

definition build_receipt :: "(string \<Rightarrow> string) \<Rightarrow> ingestion_pipeline \<Rightarrow> string \<Rightarrow> ingestion_step list \<Rightarrow> string \<Rightarrow>
    string option \<Rightarrow> compatibility_check list \<Rightarrow> ingestion_receipt" where
  "build_receipt sha256 p bundle_id steps final_verdict entry_id compatibility_checks =
     (let prev_hash = (if ipl_receipts p = [] then [] else igr_receipt_hash (last (ipl_receipts p)));
          receipt = \<lparr>igr_bundle_id = bundle_id, igr_steps = steps, igr_final_verdict = final_verdict,
            igr_entry_id = entry_id, igr_compatibility_checks = compatibility_checks, igr_receipt_hash = [],
            igr_previous_receipt_hash = prev_hash\<rparr>
      in receipt\<lparr>igr_receipt_hash := ingestion_compute_hash sha256 receipt\<rparr>)"

text \<open>Building a receipt, appending it and returning it, the end of every verdict.\<close>

definition emit :: "(string \<Rightarrow> string) \<Rightarrow> ingestion_pipeline \<Rightarrow> string \<Rightarrow> ingestion_step list \<Rightarrow> string \<Rightarrow>
    string option \<Rightarrow> compatibility_check list \<Rightarrow> ingestion_pipeline \<times> ingestion_receipt result" where
  "emit sha256 p bundle_id steps final_verdict entry_id compatibility_checks =
     (let receipt = build_receipt sha256 p bundle_id steps final_verdict entry_id compatibility_checks
      in (p\<lparr>ipl_receipts := ipl_receipts p @ [receipt]\<rparr>, Inr receipt))"

definition governor_steps :: "admission_result \<Rightarrow> ingestion_step list" where
  "governor_steps r =
     [make_step INSPECT (ar_admitted r \<or> \<not> py_contains ''inspection rejected'' (py_lower (ar_reason r))) (ar_reason r),
      make_step DETERMINISM (ar_determinism_verified r)
        (if ar_determinism_verified r then ''determinism verified'' else ''determinism check failed or skipped''),
      make_step NORMALIZE (ar_normalization_result r \<noteq> None)
        (if ar_normalization_result r \<noteq> None \<and> ar_normalization_result r \<noteq> Some []
         then ''normalized'' else ''normalization failed or skipped''),
      make_step POLICY (ar_policy_evaluation r \<noteq> None)
        (if ar_policy_evaluation r \<noteq> None then ''policy evaluated'' else ''policy rejected or skipped'')]"

text \<open>\<open>str\<close> of the dataclass \<open>PolicyEvaluation\<close>.\<close>

definition str_policy_evaluation :: "policy_evaluation \<Rightarrow> string" where
  "str_policy_evaluation e =
     ''PolicyEvaluation(manifest_id='' @ repr_str (pe_manifest_id e) @ '', passed='' @ py_repr (PBool (pe_passed e))
     @ '', evaluations='' @ py_repr (PList (map PDict (pe_evaluations e))) @ '', policy_hash='' @ repr_str (pe_policy_hash e)
     @ '')''"

definition ingestion_fingerprints :: "(string \<Rightarrow> string) \<Rightarrow> extension_manifest \<Rightarrow> string \<Rightarrow> admission_result \<Rightarrow>
    registry_fingerprints" where
  "ingestion_fingerprints sha256 m source r =
     \<lparr>rf_manifest_hash = manifest_compute_hash sha256 m, rf_source_hash = sha256 source,
      rf_determinism_fingerprint =
        (if ar_determinism_verified r \<and> sha256 ''deterministic'' \<noteq> [] then sha256 ''deterministic''
         else sha256 ''non_deterministic''),
      rf_policy_hash = (case ar_policy_evaluation r of None \<Rightarrow> [] | Some e \<Rightarrow> sha256 (str_policy_evaluation e)),
      rf_normalization_hash =
        (case ar_normalization_result r of None \<Rightarrow> [] | Some n \<Rightarrow> if n = [] then [] else sha256 (py_str (PDict n))),
      rf_provenance_chain_hash =
        (case ar_provenance_receipt_id r of None \<Rightarrow> [] | Some i \<Rightarrow> if i = [] then [] else sha256 i)\<rparr>"

definition ingestion_trust_score :: "admission_result \<Rightarrow> trust_score" where
  "ingestion_trust_score r =
     with_evidence STATIC_ANALYSIS 25
       (with_evidence DETERMINISM_PROOF (if ar_determinism_verified r then 25 else 0)
         (with_evidence POLICY_EVIDENCE 25 new_trust_score))"

definition provides_edge :: "string \<Rightarrow> string \<Rightarrow> compatibility_edge" where
  "provides_edge x out = \<lparr>ce_source_id = x, ce_target_id = out, ce_edge_type = PROVIDES_CAPABILITY, ce_reason = out\<rparr>"

definition registry_zones :: "capability_registry \<Rightarrow> string \<Rightarrow> trust_zone option" where
  "registry_zones reg y = map_option rge_trust_zone (registry_lookup reg y)"

text \<open>Phase 2, for a bundle the governor admitted.\<close>

definition register_admitted :: "(string \<Rightarrow> string) \<Rightarrow> (extension_manifest \<Rightarrow> string) \<Rightarrow> string \<Rightarrow> capability_registry \<Rightarrow>
    extension_manifest \<Rightarrow> string \<Rightarrow> admission_result \<Rightarrow> capability_registry \<times> capability_entry" where
  "register_admitted sha256 dump_json now reg m source r =
     (let previous = registry_lookup reg (em_extension_id m)
      in registry_register sha256 dump_json now reg m (ingestion_fingerprints sha256 m source r)
           (ingestion_trust_score r) ACTIVE (case previous of None \<Rightarrow> [] | Some e \<Rightarrow> rge_entry_hash e))"

text \<open>Phases 3 and 4: the compatibility checks, then the rollback or the installation.\<close>

definition check_and_install :: "(string \<Rightarrow> string) \<Rightarrow> ingestion_pipeline \<Rightarrow> extension_manifest \<Rightarrow> capability_entry \<Rightarrow>
    ingestion_step list \<Rightarrow> ingestion_pipeline \<times> ingestion_receipt result" where
  "check_and_install sha256 p m entry steps =
     (let x = em_extension_id m in
      case check_install (registry_zones (ipl_registry p)) (ipl_graph p) x m of
        Inl e \<Rightarrow> (p, Inl e)
      | Inr checks \<Rightarrow>
          (let compat_pass = list_all (\<lambda>c. cc_verdict c = COMPATIBLE) checks;
               steps' = steps @ [make_step COMPATIBILITY compat_pass (show_nat (length checks) @ '' checks'')]
           in if \<not> compat_pass
              then (case registry_update_status sha256 (ipl_registry p) x REVOKED None of
                      (reg, Inl e) \<Rightarrow> (p\<lparr>ipl_registry := reg\<rparr>, Inl e)
                    | (reg, Inr _) \<Rightarrow>
                        emit sha256 (p\<lparr>ipl_registry := reg\<rparr>) x steps' ''REJECTED'' (Some (rge_extension_id entry)) checks)
              else
                (let g = foldl (\<lambda>g out. declare_edge (provides_edge x out) g) (register_installed x (ipl_graph p))
                       (em_declared_outputs m)
                 in emit sha256 (p\<lparr>ipl_graph := g\<rparr>) x steps' ''ADMITTED'' (Some (rge_extension_id entry)) checks)))"

definition ingest :: "(string \<Rightarrow> string) \<Rightarrow> (extension_manifest \<Rightarrow> string) \<Rightarrow> parser \<Rightarrow> detectors \<Rightarrow> world \<Rightarrow> governor_config \<Rightarrow>
    clock_readings \<Rightarrow> string \<Rightarrow> ingestion_pipeline \<Rightarrow> extension_bundle \<Rightarrow> string \<Rightarrow> payload \<Rightarrow>
    ingestion_pipeline \<times> ingestion_receipt result" where
  "ingest sha256 dump_json parse ds w cfg clk now p bundle source inputs =
     (let m = eb_manifest bundle in
      case process_bundle sha256 parse ds w cfg clk (ipl_governor p) bundle source inputs of
        (gv, Inl e) \<Rightarrow> (p\<lparr>ipl_governor := gv\<rparr>, Inl e)
      | (gv, Inr r) \<Rightarrow>
          (let p1 = p\<lparr>ipl_governor := gv\<rparr>; steps = governor_steps r in
           if \<not> ar_admitted r then emit sha256 p1 (em_extension_id m) steps ''REJECTED'' None []
           else
             (case register_admitted sha256 dump_json now (ipl_registry p1) m source r of
                (reg, entry) \<Rightarrow>
                  check_and_install sha256 (p1\<lparr>ipl_registry := reg\<rparr>) m entry
                    (steps @ [make_step REGISTER True (rge_entry_hash entry)]))))"

fun receipt_errors :: "(string \<Rightarrow> string) \<Rightarrow> nat \<Rightarrow> string option \<Rightarrow> ingestion_receipt list \<Rightarrow> string list" where
  "receipt_errors sha256 i before [] = []"
| "receipt_errors sha256 i before (r # rs) =
     (if igr_receipt_hash r \<noteq> ingestion_compute_hash sha256 r then [''Receipt '' @ show_nat i @ '' hash mismatch''] else []) @
     (case before of None \<Rightarrow> []
      | Some h \<Rightarrow> if igr_previous_receipt_hash r \<noteq> h then [''Receipt '' @ show_nat i @ '' chain break''] else []) @
     receipt_errors sha256 (Suc i) (Some (igr_receipt_hash r)) rs"

definition verify_receipt_chain :: "(string \<Rightarrow> string) \<Rightarrow> ingestion_pipeline \<Rightarrow> bool \<times> string list" where
  "verify_receipt_chain sha256 p =
     (let errors = receipt_errors sha256 0 None (ipl_receipts p) in (errors = [], errors))"

definition ingestion_audit_log :: "ingestion_pipeline \<Rightarrow> string list" where
  "ingestion_audit_log p =
     map (\<lambda>r. igr_bundle_id r @ '' '' @ igr_final_verdict r @ '' '' @ igr_receipt_hash r) (ipl_receipts p)"

section \<open>What a verdict leaves behind\<close>

lemma build_receipt_fields [simp]:
  "igr_bundle_id (build_receipt sha256 p x steps v i cs) = x"
  "igr_steps (build_receipt sha256 p x steps v i cs) = steps"
  "igr_final_verdict (build_receipt sha256 p x steps v i cs) = v"
  "igr_entry_id (build_receipt sha256 p x steps v i cs) = i"
  "igr_compatibility_checks (build_receipt sha256 p x steps v i cs) = cs"
  "igr_previous_receipt_hash (build_receipt sha256 p x steps v i cs) =
     (if ipl_receipts p = [] then [] else igr_receipt_hash (last (ipl_receipts p)))"
  "igr_receipt_hash (build_receipt sha256 p x steps v i cs) =
     ingestion_compute_hash sha256 (build_receipt sha256 p x steps v i cs)"
  by (simp_all add: build_receipt_def Let_def ingestion_compute_hash_def ingestion_text_def)

lemma build_receipt_cong: "ipl_receipts p = ipl_receipts q \<Longrightarrow> build_receipt sha256 p = build_receipt sha256 q"
  by (simp add: build_receipt_def fun_eq_iff)

text \<open>No check of an installation is a positive one.\<close>

lemma capability_checks_negative:
  "capability_checks g x reqs = Inr cs \<Longrightarrow> c \<in> set cs \<Longrightarrow> cc_verdict c \<noteq> COMPATIBLE"
  by (induction reqs arbitrary: cs) (auto simp: res_simps split: option.splits if_splits)

lemma check_install_negative:
  "check_install lookup g x m = Inr cs \<Longrightarrow> list_all (\<lambda>c. cc_verdict c = COMPATIBLE) cs \<longleftrightarrow> cs = []"
proof -
  assume "check_install lookup g x m = Inr cs"
  then have "cc_verdict c \<noteq> COMPATIBLE" if "c \<in> set cs" for c
    using that capability_checks_negative
    by (fastforce simp: check_install_def res_simps identity_checks_def zone_checks_def dependency_checks_def
        conflict_checks_def split: if_splits)
  then show ?thesis by (cases cs) auto
qed

lemma installed_declare [simp]: "cg_installed (declare_edge e g) = cg_installed g"
  by (simp add: declare_edge_def register_capability_if_needed_def Let_def split: option.split)

lemma installed_provides [simp]:
  "cg_installed (foldl (\<lambda>g out. declare_edge (provides_edge x out) g) g outs) = cg_installed g"
  by (induction outs arbitrary: g) simp_all

text \<open>The registry after the call, for an admitted bundle: one entry, for this extension, is new.\<close>

definition registered_as :: "(string \<Rightarrow> string) \<Rightarrow> capability_registry \<Rightarrow> string \<Rightarrow> registry_entry_status \<Rightarrow>
    capability_registry \<Rightarrow> bool" where
  "registered_as sha256 reg x s reg' \<longleftrightarrow> registry_inv sha256 reg' \<and>
     (\<exists>e. registry_lookup reg' x = Some e \<and> rge_status e = s) \<and>
     (\<forall>y. y \<noteq> x \<longrightarrow> registry_lookup reg' y = registry_lookup reg y)"

lemma registered_as_zones:
  assumes "map_of (scr_entries reg) x = Some old" "scr_entries reg' = dict_set (scr_entries reg) x e"
    and "rge_trust_zone e = rge_trust_zone old"
  shows "registry_zones reg' = registry_zones reg"
  using assms by (simp add: registry_zones_def registry_lookup_def fun_eq_iff dict_simps)

lemma check_and_install_cases:
  assumes "registered_as sha256 reg x ACTIVE (ipl_registry p)" "x = em_extension_id m" "rge_extension_id entry = x"
    and "check_and_install sha256 p m entry steps = (p', res)"
  shows "ipl_governor p' = ipl_governor p \<and> registry_zones (ipl_registry p') = registry_zones (ipl_registry p) \<and>
    (case check_install (registry_zones (ipl_registry p)) (ipl_graph p) x m of
       Inl e \<Rightarrow> res = Inl e \<and> p' = p
     | Inr checks \<Rightarrow> \<exists>steps'. (let receipt = build_receipt sha256 p x steps' (if checks = [] then ''ADMITTED'' else ''REJECTED'')
           (Some x) checks in
         res = Inr receipt \<and> ipl_receipts p' = ipl_receipts p @ [receipt] \<and>
         registered_as sha256 reg x (if checks = [] then ACTIVE else REVOKED) (ipl_registry p') \<and>
         (if checks = [] then cg_installed (ipl_graph p') = set_add x (cg_installed (ipl_graph p))
          else ipl_graph p' = ipl_graph p)))"
proof (cases "check_install (registry_zones (ipl_registry p)) (ipl_graph p) x m")
  case (Inl e)
  with assms(2,4) show ?thesis by (simp add: check_and_install_def)
next
  case (Inr checks)
  note pass = check_install_negative [OF Inr]
  obtain old where old: "map_of (scr_entries (ipl_registry p)) x = Some old" "registry_inv sha256 (ipl_registry p)"
    using assms(1) by (auto simp: registered_as_def registry_lookup_def)
  show ?thesis
  proof (cases "checks = []")
    case True
    with Inr assms pass show ?thesis
      by (auto simp: check_and_install_def emit_def Let_def register_installed_def build_receipt_cong [of "p\<lparr>ipl_graph := _\<rparr>" p])
  next
    case False
    obtain reg' e where u: "registry_update_status sha256 (ipl_registry p) x REVOKED None = (reg', Inr e)"
      "registry_inv sha256 reg'" "scr_entries reg' = dict_set (scr_entries (ipl_registry p)) x e"
      "rge_status e = REVOKED" "rge_trust_zone e = rge_trust_zone old"
      using registry_update_ok [OF old(2,1), of REVOKED None] by blast
    have "registered_as sha256 reg x REVOKED reg'"
      using assms(1) u by (auto simp: registered_as_def registry_lookup_def dict_simps)
    moreover have "registry_zones reg' = registry_zones (ipl_registry p)"
      using registered_as_zones [OF old(1) u(3,5)] .
    ultimately show ?thesis
      using Inr False assms(2-4) pass u(1)
      by (auto simp: check_and_install_def emit_def Let_def build_receipt_cong [of "p\<lparr>ipl_registry := _\<rparr>" p])
  qed
qed

lemma register_admitted_as:
  assumes "registry_inv sha256 reg" "register_admitted sha256 dump_json now reg m source r = (reg', e)"
  shows "registered_as sha256 reg (em_extension_id m) ACTIVE reg'" "rge_extension_id e = em_extension_id m"
  using assms registry_register_entry registry_inv_register
  by (fastforce simp: register_admitted_def Let_def registered_as_def registry_lookup_def dict_simps)+

text \<open>Every case of a call, from a pipeline whose registry is well-formed.\<close>

lemma ingest_cases:
  assumes "registry_inv sha256 (ipl_registry p)"
    and "process_bundle sha256 parse ds w cfg clk (ipl_governor p) bundle source inputs = (gv, ares)"
    and "ingest sha256 dump_json parse ds w cfg clk now p bundle source inputs = (p', res)"
  defines "x \<equiv> em_extension_id (eb_manifest bundle)"
  shows "ipl_governor p' = gv \<and>
   (case ares of
      Inl e \<Rightarrow> res = Inl e \<and> p' = p\<lparr>ipl_governor := gv\<rparr>
    | Inr r \<Rightarrow>
        if \<not> ar_admitted r
        then \<exists>receipt. res = Inr receipt \<and> igr_final_verdict receipt = ''REJECTED'' \<and> igr_bundle_id receipt = x \<and>
          receipt = build_receipt sha256 p x (igr_steps receipt) ''REJECTED'' None [] \<and>
          p' = p\<lparr>ipl_governor := gv, ipl_receipts := ipl_receipts p @ [receipt]\<rparr>
        else
          (case check_install (registry_zones (ipl_registry p')) (ipl_graph p) x (eb_manifest bundle) of
             Inl e \<Rightarrow> res = Inl e \<and> ipl_receipts p' = ipl_receipts p \<and> ipl_graph p' = ipl_graph p \<and>
               registered_as sha256 (ipl_registry p) x ACTIVE (ipl_registry p')
           | Inr checks \<Rightarrow> \<exists>steps'. (let receipt = build_receipt sha256 p x steps' (if checks = [] then ''ADMITTED'' else ''REJECTED'')
                 (Some x) checks in
               res = Inr receipt \<and> ipl_receipts p' = ipl_receipts p @ [receipt] \<and>
               registered_as sha256 (ipl_registry p) x (if checks = [] then ACTIVE else REVOKED) (ipl_registry p') \<and>
               (if checks = [] then cg_installed (ipl_graph p') = set_add x (cg_installed (ipl_graph p))
                else ipl_graph p' = ipl_graph p))))"
proof (cases ares)
  case (Inl e)
  with assms show ?thesis by (auto simp: ingest_def Let_def)
next
  case (Inr r)
  show ?thesis
  proof (cases "ar_admitted r")
    case False
    with Inr assms show ?thesis
      by (auto simp: ingest_def Let_def emit_def x_def build_receipt_cong [of "p\<lparr>ipl_governor := _\<rparr>" p])
  next
    case True
    obtain reg e where ra: "register_admitted sha256 dump_json now (ipl_registry p) (eb_manifest bundle) source r = (reg, e)"
      by fastforce
    note ras = register_admitted_as [OF assms(1) ra]
    let ?q = "p\<lparr>ipl_governor := gv, ipl_registry := reg\<rparr>"
    have "check_and_install sha256 ?q (eb_manifest bundle) e (governor_steps r @ [make_step REGISTER True (rge_entry_hash e)]) = (p', res)"
      using assms(2,3) Inr True ra by (simp add: ingest_def Let_def)
    from check_and_install_cases [OF _ refl ras(2) this, of "ipl_registry p"] ras(1)
    show ?thesis unfolding x_def
      by (cases "check_install (registry_zones reg) (ipl_graph p) (em_extension_id (eb_manifest bundle)) (eb_manifest bundle)")
        (simp_all add: Inr True Let_def build_receipt_cong [of ?q p] cong: if_cong)
  qed
qed

section \<open>Histories\<close>

type_synonym ingestion_request = "clock_readings \<times> string \<times> extension_bundle \<times> string \<times> payload"

definition ingest_all :: "(string \<Rightarrow> string) \<Rightarrow> (extension_manifest \<Rightarrow> string) \<Rightarrow> parser \<Rightarrow> detectors \<Rightarrow> world \<Rightarrow> governor_config \<Rightarrow>
    ingestion_pipeline \<Rightarrow> ingestion_request list \<Rightarrow> ingestion_pipeline" where
  "ingest_all sha256 dump_json parse ds w cfg p reqs =
     foldl (\<lambda>p (clk, now, bundle, source, inputs).
       fst (ingest sha256 dump_json parse ds w cfg clk now p bundle source inputs)) p reqs"

lemma receipt_errors_snoc:
  "receipt_errors sha256 i before (rs @ [r]) = [] \<longleftrightarrow>
     receipt_errors sha256 i before rs = [] \<and> igr_receipt_hash r = ingestion_compute_hash sha256 r \<and>
     (case (if rs = [] then before else Some (igr_receipt_hash (last rs))) of None \<Rightarrow> True
      | Some h \<Rightarrow> igr_previous_receipt_hash r = h)"
  by (induction sha256 i before rs rule: receipt_errors.induct) (auto split: option.split)

definition admitted_ids :: "ingestion_pipeline \<Rightarrow> string list" where
  "admitted_ids p = map igr_bundle_id (filter (\<lambda>r. igr_final_verdict r = ''ADMITTED'') (ipl_receipts p))"

definition pipeline_inv :: "(string \<Rightarrow> string) \<Rightarrow> ingestion_pipeline \<Rightarrow> bool" where
  "pipeline_inv sha256 p \<longleftrightarrow>
     registry_inv sha256 (ipl_registry p) \<and> receipt_errors sha256 0 None (ipl_receipts p) = [] \<and>
     (ipl_receipts p \<noteq> [] \<longrightarrow> igr_previous_receipt_hash (hd (ipl_receipts p)) = []) \<and>
     (\<forall>r \<in> set (ipl_receipts p). igr_final_verdict r \<in> {''ADMITTED'', ''REJECTED''}) \<and>
     cg_installed (ipl_graph p) = admitted_ids p \<and> distinct (admitted_ids p) \<and>
     (\<forall>x \<in> set (admitted_ids p). registry_lookup (ipl_registry p) x \<noteq> None)"

lemma check_install_fresh: "check_install lookup g x m = Inr [] \<Longrightarrow> x \<notin> set (cg_installed g)"
  by (auto simp: check_install_def res_simps identity_checks_def split: if_splits)

lemma pipeline_inv_append:
  assumes "pipeline_inv sha256 p" "receipt = build_receipt sha256 p x steps v i cs"
    and "ipl_receipts p' = ipl_receipts p @ [receipt]" "v \<in> {''ADMITTED'', ''REJECTED''}"
    and "registry_inv sha256 (ipl_registry p')"
    and "\<And>y. registry_lookup (ipl_registry p) y \<noteq> None \<Longrightarrow> registry_lookup (ipl_registry p') y \<noteq> None"
    and "if v = ''ADMITTED'' then cg_installed (ipl_graph p') = set_add x (cg_installed (ipl_graph p)) \<and>
        x \<notin> set (cg_installed (ipl_graph p)) \<and> registry_lookup (ipl_registry p') x \<noteq> None
      else ipl_graph p' = ipl_graph p"
  shows "pipeline_inv sha256 p'"
proof -
  have a: "admitted_ids p' = admitted_ids p @ (if v = ''ADMITTED'' then [x] else [])"
    using assms(2,3) by (simp add: admitted_ids_def)
  have "receipt_errors sha256 0 None (ipl_receipts p') = []"
    using assms(1-3) by (simp add: pipeline_inv_def receipt_errors_snoc)
  moreover have "igr_previous_receipt_hash (hd (ipl_receipts p')) = []"
    using assms(1-3) by (cases "ipl_receipts p") (simp_all add: pipeline_inv_def)
  moreover have "\<forall>r \<in> set (ipl_receipts p'). igr_final_verdict r \<in> {''ADMITTED'', ''REJECTED''}"
    using assms(1-4) by (auto simp: pipeline_inv_def)
  moreover have "cg_installed (ipl_graph p') = admitted_ids p' \<and> distinct (admitted_ids p') \<and>
      (\<forall>y \<in> set (admitted_ids p'). registry_lookup (ipl_registry p') y \<noteq> None)"
  proof (cases "v = ''ADMITTED''")
    case True
    with assms(1,7) have "cg_installed (ipl_graph p') = admitted_ids p @ [x]" "x \<notin> set (admitted_ids p)"
      "registry_lookup (ipl_registry p') x \<noteq> None" by (simp_all add: pipeline_inv_def set_add_def)
    with True assms(1,6) show ?thesis by (simp add: a pipeline_inv_def)
  next
    case False
    with assms(1,6,7) show ?thesis by (simp add: a pipeline_inv_def)
  qed
  ultimately show ?thesis using assms(5) by (simp add: pipeline_inv_def)
qed

lemma registered_as_keeps:
  "registered_as sha256 reg x s reg' \<Longrightarrow> registry_lookup reg y \<noteq> None \<Longrightarrow> registry_lookup reg' y \<noteq> None"
  by (cases "y = x") (auto simp: registered_as_def)

lemma pipeline_inv_ingest:
  assumes "pipeline_inv sha256 p"
    and "ingest sha256 dump_json parse ds w cfg clk now p bundle source inputs = (p', res)"
  shows "pipeline_inv sha256 p'"
proof -
  let ?x = "em_extension_id (eb_manifest bundle)"
  have reg: "registry_inv sha256 (ipl_registry p)" using assms(1) by (simp add: pipeline_inv_def)
  obtain gv ares where pb: "process_bundle sha256 parse ds w cfg clk (ipl_governor p) bundle source inputs = (gv, ares)"
    by fastforce
  note c = ingest_cases [OF reg pb assms(2)]
  show ?thesis
  proof (cases ares)
    case (Inl e)
    with c assms(1) show ?thesis by (simp add: pipeline_inv_def admitted_ids_def)
  next
    case (Inr r)
    show ?thesis
    proof (cases "ar_admitted r")
      case False
      with Inr c obtain receipt where "receipt = build_receipt sha256 p ?x (igr_steps receipt) ''REJECTED'' None []"
        "p' = p\<lparr>ipl_governor := gv, ipl_receipts := ipl_receipts p @ [receipt]\<rparr>" by auto
      from pipeline_inv_append [OF assms(1) this(1)] this(2) reg show ?thesis by simp
    next
      case True
      show ?thesis
      proof (cases "check_install (registry_zones (ipl_registry p')) (ipl_graph p) ?x (eb_manifest bundle)")
        case (Inl e)
        with True Inr c have "ipl_receipts p' = ipl_receipts p" "ipl_graph p' = ipl_graph p"
          "registered_as sha256 (ipl_registry p) ?x ACTIVE (ipl_registry p')" by simp_all
        with assms(1) registered_as_keeps [OF this(3)] show ?thesis
          by (auto simp: pipeline_inv_def admitted_ids_def registered_as_def)
      next
        case (Inr checks)
        with True \<open>ares = Inr r\<close> c obtain steps' receipt where
          r: "receipt = build_receipt sha256 p ?x steps' (if checks = [] then ''ADMITTED'' else ''REJECTED'') (Some ?x) checks"
            "ipl_receipts p' = ipl_receipts p @ [receipt]"
            "registered_as sha256 (ipl_registry p) ?x (if checks = [] then ACTIVE else REVOKED) (ipl_registry p')"
            "if checks = [] then cg_installed (ipl_graph p') = set_add ?x (cg_installed (ipl_graph p))
             else ipl_graph p' = ipl_graph p"
          by (auto simp: Let_def)
        then show ?thesis
          using check_install_fresh [of _ _ ?x] Inr registered_as_keeps [OF r(3)]
          by (intro pipeline_inv_append [OF assms(1) r(1,2)]) (auto simp: registered_as_def split: if_splits)
      qed
    qed
  qed
qed

lemma pipeline_inv_new: "cg_installed g = [] \<Longrightarrow> registry_inv sha256 reg \<Longrightarrow> pipeline_inv sha256 (new_pipeline gv reg g)"
  by (simp add: pipeline_inv_def new_pipeline_def admitted_ids_def)

lemma pipeline_inv_all: "pipeline_inv sha256 p \<Longrightarrow> pipeline_inv sha256 (ingest_all sha256 dump_json parse ds w cfg p reqs)"
proof (induction reqs rule: rev_induct)
  case (snoc q reqs)
  then show ?case by (cases q) (auto simp: ingest_all_def intro: pipeline_inv_ingest [OF _ surjective_pairing])
qed (simp add: ingest_all_def)

section \<open>The chain of receipts\<close>

lemma receipt_errors_linked:
  "receipt_errors sha256 i before rs = [] \<longleftrightarrow>
     linked igr_receipt_hash igr_previous_receipt_hash rs \<and>
     (\<forall>r \<in> set rs. igr_receipt_hash r = ingestion_compute_hash sha256 r) \<and>
     (\<forall>h. before = Some h \<and> rs \<noteq> [] \<longrightarrow> igr_previous_receipt_hash (hd rs) = h)"
  by (induction rs rule: rev_induct) (auto simp: receipt_errors_snoc linked_snoc hd_append split: option.splits)

interpretation ingestion_chain: hash_chain igr_receipt_hash igr_previous_receipt_hash
    "\<lambda>(t, p). sha256 t" "\<lambda>r. (ingestion_text r, igr_previous_receipt_hash r)"
  for sha256 :: "string \<Rightarrow> string"
  by unfold_locales simp

lemma last_delimiter:
  assumes "xs @ c # ys = xs' @ c # ys'" "c \<notin> set ys" "c \<notin> set ys'"
  shows "xs = xs' \<and> ys = ys'"
proof -
  have "takeWhile (\<lambda>d. d \<noteq> c) (rev (zs @ c # us)) = rev us" if "c \<notin> set us" for zs us
    using that by (simp add: takeWhile_tail takeWhile_append)
  then have "rev ys = rev ys'" using assms by metis
  with assms(1) show ?thesis by simp
qed

lemma steps_text_plain: "CHR '':'' \<notin> set (steps_text steps)"
proof -
  have "CHR '':'' \<notin> set (ingestion_phase_value ph)" for ph by (cases ph) simp_all
  then show ?thesis by (auto simp: steps_text_def)
qed

text \<open>The fields a receipt's hash covers, and receipts whose hashed text can be read back.\<close>

definition ingestion_hashed :: "ingestion_receipt \<Rightarrow> string \<times> string \<times> string \<times> string" where
  "ingestion_hashed r = (igr_bundle_id r, steps_text (igr_steps r), igr_final_verdict r, igr_previous_receipt_hash r)"

definition plain_receipt :: "ingestion_receipt \<Rightarrow> bool" where
  "plain_receipt r \<longleftrightarrow> CHR '':'' \<notin> set (igr_final_verdict r) \<and> CHR '':'' \<notin> set (igr_previous_receipt_hash r)"

lemma ingestion_text_inj:
  assumes "ingestion_text a = ingestion_text b" "plain_receipt a" "plain_receipt b"
  shows "ingestion_hashed a = ingestion_hashed b"
proof -
  let ?t = "\<lambda>r. igr_bundle_id r @ CHR '':'' # steps_text (igr_steps r)"
  have "(?t a @ CHR '':'' # igr_final_verdict a) @ CHR '':'' # igr_previous_receipt_hash a =
      (?t b @ CHR '':'' # igr_final_verdict b) @ CHR '':'' # igr_previous_receipt_hash b"
    using assms(1) by (simp add: ingestion_text_def)
  from last_delimiter [OF this] assms(2,3)
  have 1: "?t a @ CHR '':'' # igr_final_verdict a = ?t b @ CHR '':'' # igr_final_verdict b"
    "igr_previous_receipt_hash a = igr_previous_receipt_hash b" by (auto simp: plain_receipt_def)
  from last_delimiter [OF 1(1)] assms(2,3) have 2: "?t a = ?t b" "igr_final_verdict a = igr_final_verdict b"
    by (auto simp: plain_receipt_def)
  from last_delimiter [OF 2(1)] 1(2) 2(2) show ?thesis by (simp add: ingestion_hashed_def steps_text_plain)
qed

section \<open>Properties\<close>

text \<open>
  C23 (ingest_outcome): from every pipeline that earlier calls have produced, an ingestion ends in one of five
  ways. An exception of the governor leaves registry, graph and receipts alone; a refusal by the governor
  adds a \<open>REJECTED\<close> receipt only. A bundle the governor admits is registered: the call then ends with an
  \<open>ADMITTED\<close> receipt, an active entry and the extension installed exactly when the compatibility check has no
  objection; with a \<open>REJECTED\<close> receipt, a revoked entry and an unchanged graph when it has; and when the check
  itself raises, with the exception, no receipt, and an entry that stays active. No other extension's entry
  changes.
\<close>

theorem ingest_outcome:
  assumes "p = ingest_all sha256 dump_json parse ds w cfg (new_pipeline gv0 (registry_run sha256 dump_json ops) g0) reqs"
    and "cg_installed g0 = []"
    and "process_bundle sha256 parse ds w cfg clk (ipl_governor p) bundle source inputs = (gv, ares)"
    and "ingest sha256 dump_json parse ds w cfg clk now p bundle source inputs = (p', res)"
    and "x = em_extension_id (eb_manifest bundle)"
  shows "ipl_governor p' = gv \<and>
    (\<forall>y. y \<noteq> x \<longrightarrow> registry_lookup (ipl_registry p') y = registry_lookup (ipl_registry p) y) \<and>
    (case ares of
       Inl e \<Rightarrow> res = Inl e \<and> p' = p\<lparr>ipl_governor := gv\<rparr>
     | Inr r \<Rightarrow>
         if \<not> ar_admitted r
         then \<exists>receipt. res = Inr receipt \<and> igr_final_verdict receipt = ''REJECTED'' \<and> igr_bundle_id receipt = x \<and>
           p' = p\<lparr>ipl_governor := gv, ipl_receipts := ipl_receipts p @ [receipt]\<rparr>
         else
           \<exists>e. registry_lookup (ipl_registry p') x = Some e \<and>
           (case check_install (registry_zones (ipl_registry p')) (ipl_graph p) x (eb_manifest bundle) of
              Inl err \<Rightarrow> res = Inl err \<and> ipl_receipts p' = ipl_receipts p \<and> ipl_graph p' = ipl_graph p \<and> rge_status e = ACTIVE
            | Inr checks \<Rightarrow> \<exists>receipt. res = Inr receipt \<and> ipl_receipts p' = ipl_receipts p @ [receipt] \<and>
                igr_bundle_id receipt = x \<and> igr_compatibility_checks receipt = checks \<and>
                (if checks = []
                 then igr_final_verdict receipt = ''ADMITTED'' \<and> rge_status e = ACTIVE \<and>
                   cg_installed (ipl_graph p') = cg_installed (ipl_graph p) @ [x]
                 else igr_final_verdict receipt = ''REJECTED'' \<and> rge_status e = REVOKED \<and> ipl_graph p' = ipl_graph p)))"
proof -
  have "pipeline_inv sha256 p"
    unfolding assms(1) by (intro pipeline_inv_all pipeline_inv_new assms(2) registry_inv_run)
  then have reg: "registry_inv sha256 (ipl_registry p)" by (simp add: pipeline_inv_def)
  note c = ingest_cases [OF reg assms(3,4), folded assms(5)]
  show ?thesis
  proof (cases ares)
    case (Inl e)
    with c show ?thesis by simp
  next
    case (Inr r)
    show ?thesis
    proof (cases "ar_admitted r")
      case False
      with c Inr obtain receipt where "p' = p\<lparr>ipl_governor := gv, ipl_receipts := ipl_receipts p @ [receipt]\<rparr>"
        "res = Inr receipt" "igr_final_verdict receipt = ''REJECTED''" "igr_bundle_id receipt = x" by auto
      with False Inr show ?thesis by simp
    next
      case True
      note adm = this Inr
      show ?thesis
      proof (cases "check_install (registry_zones (ipl_registry p')) (ipl_graph p) x (eb_manifest bundle)")
        case (Inl e)
        with c adm show ?thesis by (auto simp: registered_as_def)
      next
        case (Inr checks)
        with check_install_fresh [of _ "ipl_graph p" x "eb_manifest bundle"] have "checks = [] \<Longrightarrow>
            set_add x (cg_installed (ipl_graph p)) = cg_installed (ipl_graph p) @ [x]"
          by (auto simp: set_add_def)
        with c adm Inr show ?thesis by (cases "checks = []") (auto simp: registered_as_def Let_def)
      qed
    qed
  qed
qed

definition example_pipeline :: ingestion_pipeline where
  "example_pipeline = new_pipeline example_governor new_capability_registry empty_graph"

abbreviation example_ingest :: "ingestion_pipeline \<Rightarrow> ingestion_pipeline \<times> ingestion_receipt result" where
  "example_ingest p \<equiv> ingest (\<lambda>s. CHR ''h'' # s) em_package_name example_parser (example_detectors 0)
     (example_world (\<lambda>_. ExecFinished (PDict example_output))) (example_config (Some True)) example_readings ''now''
     p example_bundle ''x'' []"

abbreviation example_ingest_all :: "ingestion_request list \<Rightarrow> ingestion_pipeline" where
  "example_ingest_all reqs \<equiv> ingest_all (\<lambda>s. CHR ''h'' # s) em_package_name example_parser (example_detectors 0)
     (example_world (\<lambda>_. ExecFinished (PDict example_output))) (example_config (Some True))
     (new_pipeline example_governor (registry_run (\<lambda>s. CHR ''h'' # s) em_package_name []) empty_graph) reqs"

lemma example_admits:
  "\<exists>gv' r. process_bundle (\<lambda>s. CHR ''h'' # s) example_parser (example_detectors 0)
     (example_world (\<lambda>_. ExecFinished (PDict example_output))) (example_config (Some True)) example_readings
     gv example_bundle ''x'' [] = (gv', Inr r) \<and> ar_admitted r"
  (is "\<exists>gv' r. ?pb = _ \<and> _")
proof -
  have "receipted (\<lambda>s. CHR ''h'' # s) gv (eb_manifest example_bundle) example_output ?pb"
    by (rule process_bundle_clean [where t = "OtherNode [Name ''x'' 1]" and d = example_output and ty = "''TopologyGraph''"])
      (use example_tree_clean example_output_ok example_policy_ok example_detectors_ok example_boots in
        \<open>auto simp: example_parser_def example_enabled_flag boots_def reportable_def\<close>)
  then show ?thesis by (cases ?pb) (auto simp: receipted_def)
qed

lemma example_bundle_id [simp]: "em_extension_id (eb_manifest example_bundle) = ''ext''"
  by (simp add: example_bundle_def example_manifest_def)

lemma example_run_simps [simp]:
  "registry_run sha256 dump_json [] = new_capability_registry" "cg_installed empty_graph = []"
  "ipl_graph (new_pipeline gv reg g) = g" "ipl_receipts (new_pipeline gv reg g) = []"
  "ingest_all sha256 dump_json parse ds w cfg p [] = p"
  by (simp_all add: registry_run_def empty_graph_def new_pipeline_def ingest_all_def)

lemma example_installs: "check_install lookup empty_graph ''ext'' m = Inr []"
  by (simp add: check_install_def identity_checks_def zone_checks_def dependency_checks_def conflict_checks_def
      edges_of_type_def edges_from_def empty_graph_def dict_get_def)

theorem ingest_outcome_witness:
  "\<exists>p' receipt. example_ingest (example_ingest_all []) = (p', Inr receipt) \<and>
     igr_final_verdict receipt = ''ADMITTED'' \<and> cg_installed (ipl_graph p') = [''ext'']"
proof -
  obtain p' res where i: "example_ingest (example_ingest_all []) = (p', res)" by fastforce
  obtain gv r where pb: "process_bundle (\<lambda>s. CHR ''h'' # s) example_parser (example_detectors 0)
     (example_world (\<lambda>_. ExecFinished (PDict example_output))) (example_config (Some True)) example_readings
     (ipl_governor (example_ingest_all [])) example_bundle ''x'' [] = (gv, Inr r)" "ar_admitted r"
    using example_admits by blast
  from ingest_outcome [OF refl _ pb(1) i refl] pb(2) i example_installs show ?thesis by auto
qed

text \<open>
  C24 (ingestion_installed): after any sequence of ingestions into an empty graph, the receipt chain verifies,
  and the installed extensions are exactly those with an \<open>ADMITTED\<close> receipt, in that order and each of them
  once, all of them with an entry in the registry.
\<close>

theorem ingestion_installed:
  assumes "cg_installed g0 = []"
  shows "let p = ingest_all sha256 dump_json parse ds w cfg (new_pipeline gv0 (registry_run sha256 dump_json ops) g0) reqs in
    verify_receipt_chain sha256 p = (True, []) \<and>
    cg_installed (ipl_graph p) = map igr_bundle_id (filter (\<lambda>r. igr_final_verdict r = ''ADMITTED'') (ipl_receipts p)) \<and>
    distinct (cg_installed (ipl_graph p)) \<and>
    (\<forall>x \<in> set (cg_installed (ipl_graph p)). registry_lookup (ipl_registry p) x \<noteq> None)"
proof -
  have "pipeline_inv sha256 (ingest_all sha256 dump_json parse ds w cfg (new_pipeline gv0 (registry_run sha256 dump_json ops) g0) reqs)"
    by (intro pipeline_inv_all pipeline_inv_new assms registry_inv_run)
  then show ?thesis by (simp add: pipeline_inv_def admitted_ids_def verify_receipt_chain_def Let_def)
qed

theorem ingestion_installed_witness:
  "let p = example_ingest_all [(example_readings, ''now'', example_bundle, ''x'', [])] in
   verify_receipt_chain (\<lambda>s. CHR ''h'' # s) p = (True, []) \<and>
   cg_installed (ipl_graph p) = map igr_bundle_id (filter (\<lambda>r. igr_final_verdict r = ''ADMITTED'') (ipl_receipts p))"
  using ingestion_installed [of empty_graph "\<lambda>s. CHR ''h'' # s" em_package_name example_parser "example_detectors 0"
      "example_world (\<lambda>_. ExecFinished (PDict example_output))" "example_config (Some True)" example_governor "[]"
      "[(example_readings, ''now'', example_bundle, ''x'', [])]"]
  by (simp only: Let_def example_run_simps simp_thms)

lemma example_ingest_once:
  "example_ingest_all [(example_readings, ''now'', example_bundle, ''x'', [])] = fst (example_ingest (example_ingest_all []))"
  by (simp add: ingest_all_def)

lemma example_installed: "cg_installed (ipl_graph (fst (example_ingest (example_ingest_all [])))) = [''ext'']"
proof -
  obtain p' res where i: "example_ingest (example_ingest_all []) = (p', res)" by fastforce
  obtain gv r where pb: "process_bundle (\<lambda>s. CHR ''h'' # s) example_parser (example_detectors 0)
     (example_world (\<lambda>_. ExecFinished (PDict example_output))) (example_config (Some True)) example_readings
     (ipl_governor (example_ingest_all [])) example_bundle ''x'' [] = (gv, Inr r)" "ar_admitted r"
    using example_admits by blast
  have "registry_inv (\<lambda>s. CHR ''h'' # s) (ipl_registry (example_ingest_all []))"
    by (simp add: new_pipeline_def)
  from ingest_cases [OF this pb(1) i] pb(2) i example_installs show ?thesis by (auto simp: set_add_def Let_def)
qed

text \<open>
  When an extension that is installed is ingested again and the governor admits it,
  the call ends with an exception or a rejection. After the rejection the extension is still installed in the
  graph, but its registry entry, active before, is revoked.
\<close>

theorem reingest_revokes:
  assumes "p = ingest_all sha256 dump_json parse ds w cfg (new_pipeline gv0 (registry_run sha256 dump_json ops) g0) reqs"
    and "cg_installed g0 = []" "x = em_extension_id (eb_manifest bundle)" "x \<in> set (cg_installed (ipl_graph p))"
    and "process_bundle sha256 parse ds w cfg clk (ipl_governor p) bundle source inputs = (gv, Inr r)" "ar_admitted r"
    and "ingest sha256 dump_json parse ds w cfg clk now p bundle source inputs = (p', Inr receipt)"
  shows "igr_final_verdict receipt = ''REJECTED'' \<and> x \<in> set (cg_installed (ipl_graph p')) \<and>
    (\<exists>e. registry_lookup (ipl_registry p') x = Some e \<and> rge_status e = REVOKED)"
proof -
  have "pipeline_inv sha256 p"
    unfolding assms(1) by (intro pipeline_inv_all pipeline_inv_new assms(2) registry_inv_run)
  then have reg: "registry_inv sha256 (ipl_registry p)" by (simp add: pipeline_inv_def)
  let ?ci = "check_install (registry_zones (ipl_registry p')) (ipl_graph p) x (eb_manifest bundle)"
  have "?ci \<noteq> Inr []" using check_install_fresh assms(4) by blast
  then show ?thesis
    using ingest_cases [OF reg assms(5,7), folded assms(3)] assms(4,6)
    by (cases ?ci) (auto simp: registered_as_def Let_def split: if_splits)
qed

lemma ingest_edges:
  "em_declared_outputs (eb_manifest bundle) = [] \<Longrightarrow>
     cg_edges (ipl_graph (fst (ingest sha256 dump_json parse ds w cfg clk now p bundle source inputs))) = cg_edges (ipl_graph p)"
  by (simp add: ingest_def check_and_install_def emit_def register_installed_def Let_def split: prod.split sum.split)

theorem reingest_revokes_witness:
  "\<exists>p' receipt. example_ingest (example_ingest_all [(example_readings, ''now'', example_bundle, ''x'', [])]) = (p', Inr receipt) \<and>
     igr_final_verdict receipt = ''REJECTED'' \<and> ''ext'' \<in> set (cg_installed (ipl_graph p'))"
proof -
  let ?p = "example_ingest_all [(example_readings, ''now'', example_bundle, ''x'', [])]"
  obtain p' res where i: "example_ingest ?p = (p', res)" by fastforce
  obtain gv r where pb: "process_bundle (\<lambda>s. CHR ''h'' # s) example_parser (example_detectors 0)
     (example_world (\<lambda>_. ExecFinished (PDict example_output))) (example_config (Some True)) example_readings
     (ipl_governor ?p) example_bundle ''x'' [] = (gv, Inr r)" "ar_admitted r"
    using example_admits by blast
  have inst: "cg_installed (ipl_graph ?p) = [''ext'']" by (simp only: example_ingest_once example_installed)
  have "pipeline_inv (\<lambda>s. CHR ''h'' # s) ?p"
    by (intro pipeline_inv_all pipeline_inv_new registry_inv_run) simp
  then have reg: "registry_inv (\<lambda>s. CHR ''h'' # s) (ipl_registry ?p)" by (simp only: pipeline_inv_def)
  have "cg_edges (ipl_graph ?p) = []"
    unfolding example_ingest_once by (subst ingest_edges) (simp_all add: example_bundle_def example_manifest_def empty_graph_def)
  then obtain cs where "check_install (registry_zones (ipl_registry p')) (ipl_graph ?p) ''ext'' (eb_manifest example_bundle) = Inr cs"
    by (simp add: check_install_def edges_of_type_def edges_from_def dict_get_def)
  then obtain receipt where "res = Inr receipt"
    using ingest_cases [OF reg pb(1) i] pb(2) by (auto simp: Let_def)
  with reingest_revokes [OF refl _ _ _ pb(1) pb(2)] i inst show ?thesis by auto
qed

text \<open>
  Two lists of receipts of the same length that both verify and end in the
  same hash record the same bundles, steps and verdicts, as long as SHA-256 has no collision among the texts
  hashed and the verdicts and hashes contain no colon, the delimiter of the hashed text. The registry entry,
  the evidence and the compatibility checks of a receipt are not covered.
\<close>

theorem ingestion_head_fixes_history:
  assumes "verify_receipt_chain sha256 a = (True, [])" "verify_receipt_chain sha256 b = (True, [])"
    and "length (ipl_receipts a) = length (ipl_receipts b)" "ipl_receipts a \<noteq> []"
    and "igr_receipt_hash (last (ipl_receipts a)) = igr_receipt_hash (last (ipl_receipts b))"
    and "inj_on sha256 (ingestion_text ` (set (ipl_receipts a) \<union> set (ipl_receipts b)))"
    and "\<And>r. r \<in> set (ipl_receipts a) \<union> set (ipl_receipts b) \<Longrightarrow> plain_receipt r"
  shows "map ingestion_hashed (ipl_receipts a) = map ingestion_hashed (ipl_receipts b)"
proof -
  let ?S = "set (ipl_receipts a) \<union> set (ipl_receipts b)"
  let ?c = "\<lambda>r. (ingestion_text r, igr_previous_receipt_hash r)"
  have v: "linked igr_receipt_hash igr_previous_receipt_hash (ipl_receipts q)"
    "r \<in> set (ipl_receipts q) \<Longrightarrow> igr_receipt_hash r = ingestion_compute_hash sha256 r"
    if "verify_receipt_chain sha256 q = (True, [])" for q r
    using that by (simp_all add: verify_receipt_chain_def Let_def receipt_errors_linked)
  have "map ?c (ipl_receipts a) = map ?c (ipl_receipts b)"
  proof (rule ingestion_chain.tamper_evident [where ?sha256.0 = sha256])
    show "inj_on (\<lambda>(t, p). sha256 t) (?c ` ?S)"
    proof (rule inj_onI, elim imageE)
      fix u v r s
      assume *: "(case u of (t, p) \<Rightarrow> sha256 t) = (case v of (t, p) \<Rightarrow> sha256 t)" "u = ?c r" "v = ?c s" "r \<in> ?S" "s \<in> ?S"
      then have "sha256 (ingestion_text r) = sha256 (ingestion_text s)" by simp
      from inj_onD [OF assms(6) this] *(4,5) have t: "ingestion_text r = ingestion_text s" by blast
      from ingestion_text_inj [OF this assms(7) assms(7)] *(4,5)
      have "igr_previous_receipt_hash r = igr_previous_receipt_hash s" by (simp add: ingestion_hashed_def)
      with t *(2,3) show "u = v" by simp
    qed
    show "igr_receipt_hash e = (case (ingestion_text e, igr_previous_receipt_hash e) of (t, p) \<Rightarrow> sha256 t)"
      if "e \<in> ?S" for e using that v(2) [OF assms(1)] v(2) [OF assms(2)] by (auto simp: ingestion_compute_hash_def)
  qed (use assms(3,5) v(1) assms(1,2) in blast)+
  then have "list_all2 (=) (map ?c (ipl_receipts a)) (map ?c (ipl_receipts b))" by (simp only: list.rel_eq)
  then have "list_all2 (\<lambda>x y. ?c x = ?c y) (ipl_receipts a) (ipl_receipts b)"
    by (simp only: list_all2_map1 list_all2_map2)
  then have "list_all2 (\<lambda>x y. ingestion_hashed x = ingestion_hashed y) (ipl_receipts a) (ipl_receipts b)"
  proof (rule list.rel_mono_strong)
    fix r s assume "r \<in> set (ipl_receipts a)" "s \<in> set (ipl_receipts b)" "?c r = ?c s"
    then show "ingestion_hashed r = ingestion_hashed s" using ingestion_text_inj [of r s] assms(7) by simp
  qed
  then show ?thesis by (simp add: list_all2_map1 list_all2_map2 flip: list.rel_eq)
qed

definition example_receipts :: "string option \<Rightarrow> ingestion_pipeline" where
  "example_receipts i = fst (emit (\<lambda>s. CHR ''h'' # s) example_pipeline ''a'' [make_step INSPECT False []] ''REJECTED'' i [])"

lemma example_receipts_list: "ipl_receipts (example_receipts i) =
    [build_receipt (\<lambda>s. CHR ''h'' # s) example_pipeline ''a'' [make_step INSPECT False []] ''REJECTED'' i []]"
  by (simp add: example_receipts_def emit_def example_pipeline_def Let_def)

theorem ingestion_head_fixes_history_witness:
  "map ingestion_hashed (ipl_receipts (example_receipts None)) = map ingestion_hashed (ipl_receipts (example_receipts (Some ''z'')))"
proof (rule ingestion_head_fixes_history [where ?sha256.0 = "\<lambda>s. CHR ''h'' # s"])
  show "verify_receipt_chain (\<lambda>s. CHR ''h'' # s) (example_receipts None) = (True, [])"
    "verify_receipt_chain (\<lambda>s. CHR ''h'' # s) (example_receipts (Some ''z'')) = (True, [])"
    by (simp_all add: verify_receipt_chain_def example_receipts_list Let_def)
  show "igr_receipt_hash (last (ipl_receipts (example_receipts None))) =
      igr_receipt_hash (last (ipl_receipts (example_receipts (Some ''z''))))"
    by (simp add: example_receipts_list ingestion_compute_hash_def ingestion_text_def)
qed (auto simp: example_receipts_list example_pipeline_def plain_receipt_def inj_on_def)

text \<open>The length matters: the check does not look at the first receipt's back link, so the oldest receipts can be dropped.\<close>

lemma dropped_receipts_verify:
  "verify_receipt_chain sha256 p = (True, []) \<Longrightarrow> ipl_receipts p = old @ rs \<Longrightarrow>
     verify_receipt_chain sha256 (p\<lparr>ipl_receipts := rs\<rparr>) = (True, [])"
proof (induction old arbitrary: p)
  case (Cons r old)
  have "verify_receipt_chain sha256 (p\<lparr>ipl_receipts := old @ rs\<rparr>) = (True, [])"
    using Cons.prems by (simp add: verify_receipt_chain_def Let_def receipt_errors_linked split: if_splits)
  from Cons.IH [OF this] show ?case by simp
qed (simp add: verify_receipt_chain_def)

end
