(* ===== verification/Marketplace.thy ===== *)
theory Marketplace
  imports Extension_Manifest
begin

text \<open>
  The capability marketplace (\<open>pi_interoperability_layer/platform/marketplace.py\<close>): listings with their
  lifecycle, and the composition engine that resolves an explicit request of nodes and edges against a
  catalog and assigns phases with Kahn's algorithm. Clock readings are arguments. The arrow U+2192 in edge and
  event texts lies outside the 8-bit characters of \<open>string\<close> and is represented by the largest of them, which
  keeps its place in the order of strings.

  The properties: when a composition is valid, and that its phases are the layers of the dependency relation.
  A cycle is not a reason for rejection; the nodes on and behind it are just never reached.
\<close>

section \<open>Requests and listings\<close>

datatype capability_lifecycle_state =
  PUBLISHED | UNDER_REVIEW | LIFECYCLE_VERIFIED | LIFECYCLE_ADMITTED | AVAILABLE | LIFECYCLE_DEPRECATED | LIFECYCLE_REVOKED

fun lifecycle_value :: "capability_lifecycle_state \<Rightarrow> string" where
  "lifecycle_value PUBLISHED = ''published''"
| "lifecycle_value UNDER_REVIEW = ''under_review''"
| "lifecycle_value LIFECYCLE_VERIFIED = ''verified''"
| "lifecycle_value LIFECYCLE_ADMITTED = ''admitted''"
| "lifecycle_value AVAILABLE = ''available''"
| "lifecycle_value LIFECYCLE_DEPRECATED = ''deprecated''"
| "lifecycle_value LIFECYCLE_REVOKED = ''revoked''"

datatype trust_tier = UNTRUSTED | BASIC | VERIFIED | CERTIFIED | CORE

fun trust_tier_value :: "trust_tier \<Rightarrow> string" where
  "trust_tier_value UNTRUSTED = ''untrusted''"
| "trust_tier_value BASIC = ''basic''"
| "trust_tier_value VERIFIED = ''verified''"
| "trust_tier_value CERTIFIED = ''certified''"
| "trust_tier_value CORE = ''core''"

record composition_node =
  cn_node_id :: string
  cn_manifest_id :: string
  cn_capability_class :: capability_class
  cn_required_inputs :: "string list"
  cn_expected_outputs :: "string list"
  cn_trust_tier_minimum :: trust_tier
  cn_parameters :: payload

record composition_edge =
  ced_source_node_id :: string
  ced_target_node_id :: string
  ced_edge_type :: string
  ced_required :: bool

record composition_request =
  crq_request_id :: string
  crq_tenant_id :: string
  crq_description :: string
  crq_nodes :: "composition_node list"
  crq_edges :: "composition_edge list"
  crq_max_depth :: int
  crq_max_nodes :: int
  crq_fail_on_conflict :: bool
  crq_deterministic_only :: bool

definition node_dump :: "composition_node \<Rightarrow> pyval" where
  "node_dump n = PDict
     [(''node_id'', PStr (cn_node_id n)), (''manifest_id'', PStr (cn_manifest_id n)),
      (''capability_class'', PStr (capability_class_value (cn_capability_class n))),
      (''required_inputs'', PList (map PStr (cn_required_inputs n))),
      (''expected_outputs'', PList (map PStr (cn_expected_outputs n))),
      (''trust_tier_minimum'', PStr (trust_tier_value (cn_trust_tier_minimum n))),
      (''parameters'', PDict (cn_parameters n))]"

definition edge_dump :: "composition_edge \<Rightarrow> pyval" where
  "edge_dump e = PDict
     [(''source_node_id'', PStr (ced_source_node_id e)), (''target_node_id'', PStr (ced_target_node_id e)),
      (''edge_type'', PStr (ced_edge_type e)), (''required'', PBool (ced_required e))]"

definition request_compute_hash :: "(string \<Rightarrow> string) \<Rightarrow> composition_request \<Rightarrow> string" where
  "request_compute_hash sha256 r = sha256 (dumps_compact (PDict
     [(''request_id'', PStr (crq_request_id r)), (''tenant_id'', PStr (crq_tenant_id r)),
      (''description'', PStr (crq_description r)), (''nodes'', PList (map node_dump (crq_nodes r))),
      (''edges'', PList (map edge_dump (crq_edges r))), (''max_depth'', PInt (crq_max_depth r)),
      (''max_nodes'', PInt (crq_max_nodes r)), (''fail_on_conflict'', PBool (crq_fail_on_conflict r)),
      (''deterministic_only'', PBool (crq_deterministic_only r))]))"

record market_listing =
  mkl_listing_id :: string
  mkl_manifest_id :: string
  mkl_name :: string
  mkl_version :: string
  mkl_capability_class :: capability_class
  mkl_trust_tier :: trust_tier
  mkl_trust_score :: int
  mkl_lifecycle_state :: capability_lifecycle_state
  mkl_dependencies :: "string list"
  mkl_published_at :: string
  mkl_review_receipt_hash :: string
  mkl_last_verified_at :: string
  mkl_deprecation_reason :: string
  mkl_publisher_tenant_id :: string

definition listing_compute_hash :: "(string \<Rightarrow> string) \<Rightarrow> market_listing \<Rightarrow> string" where
  "listing_compute_hash sha256 l = sha256 (dumps_compact (PDict
     [(''listing_id'', PStr (mkl_listing_id l)), (''manifest_id'', PStr (mkl_manifest_id l)),
      (''name'', PStr (mkl_name l)), (''version'', PStr (mkl_version l)),
      (''capability_class'', PStr (capability_class_value (mkl_capability_class l))),
      (''trust_tier'', PStr (trust_tier_value (mkl_trust_tier l))), (''trust_score'', PInt (mkl_trust_score l)),
      (''lifecycle_state'', PStr (lifecycle_value (mkl_lifecycle_state l))),
      (''dependencies'', PList (map PStr (sort (mkl_dependencies l)))),
      (''review_receipt_hash'', PStr (mkl_review_receipt_hash l)),
      (''publisher_tenant_id'', PStr (mkl_publisher_tenant_id l))]))"

section \<open>The composition engine\<close>

record composition_result =
  cmr_request_id :: string
  cmr_valid :: bool
  cmr_resolved_manifests :: "extension_manifest list"
  cmr_resolved_edges :: "composition_edge list"
  cmr_missing_dependencies :: "string list"
  cmr_conflict_evidence :: "string list"
  cmr_composition_hash :: string
  cmr_rejection_reason :: string
  cmr_phase_count :: int

definition arrow :: string where
  "arrow = [CHR 0xFF]"

definition result_compute_hash :: "(string \<Rightarrow> string) \<Rightarrow> composition_result \<Rightarrow> string" where
  "result_compute_hash sha256 r = sha256 (dumps_compact (PDict
     [(''request_id'', PStr (cmr_request_id r)), (''valid'', PBool (cmr_valid r)),
      (''resolved_manifests'', PList (map PStr (sort (map em_extension_id (cmr_resolved_manifests r))))),
      (''resolved_edges'', PList (map PStr (sort (map (\<lambda>e. ced_source_node_id e @ arrow @ ced_target_node_id e
         @ '':'' @ ced_edge_type e) (cmr_resolved_edges r))))),
      (''missing_dependencies'', PList (map PStr (sort (cmr_missing_dependencies r)))),
      (''conflict_evidence'', PList (map PStr (cmr_conflict_evidence r))),
      (''rejection_reason'', PStr (cmr_rejection_reason r)), (''phase_count'', PInt (cmr_phase_count r))]))"

definition with_computed_hash :: "(string \<Rightarrow> string) \<Rightarrow> composition_result \<Rightarrow> composition_result" where
  "with_computed_hash sha256 r = r\<lparr>cmr_composition_hash := result_compute_hash sha256 r\<rparr>"

record composition_engine =
  cen_catalog :: "(string, market_listing) dict"
  cen_composition_history :: "composition_result list"

definition register_listing :: "composition_engine \<Rightarrow> market_listing \<Rightarrow> composition_engine" where
  "register_listing g l = g\<lparr>cen_catalog := dict_set (cen_catalog g) (mkl_listing_id l) l\<rparr>"

definition record_result :: "(string \<Rightarrow> string) \<Rightarrow> composition_engine \<Rightarrow> composition_result \<Rightarrow>
    composition_engine \<times> composition_result" where
  "record_result sha256 g r =
     (let final_result = with_computed_hash sha256 r
      in (g\<lparr>cen_composition_history := cen_composition_history g @ [final_result]\<rparr>, final_result))"

definition composition_reject :: "(string \<Rightarrow> string) \<Rightarrow> composition_engine \<Rightarrow> composition_request \<Rightarrow> string \<Rightarrow>
    composition_engine \<times> composition_result" where
  "composition_reject sha256 g rq reason = record_result sha256 g
     \<lparr>cmr_request_id = crq_request_id rq, cmr_valid = False, cmr_resolved_manifests = [], cmr_resolved_edges = [],
      cmr_missing_dependencies = [], cmr_conflict_evidence = [], cmr_composition_hash = [],
      cmr_rejection_reason = reason, cmr_phase_count = 0\<rparr>"

fun duplicate_errors :: "string list \<Rightarrow> composition_node list \<Rightarrow> string list" where
  "duplicate_errors seen [] = []"
| "duplicate_errors seen (n # ns) =
     (if cn_node_id n \<in> set seen then [''Duplicate node_id: '' @ cn_node_id n] else []) @
     duplicate_errors (cn_node_id n # seen) ns"

definition edge_errors :: "string list \<Rightarrow> composition_edge \<Rightarrow> string list" where
  "edge_errors node_ids e =
     (if ced_source_node_id e \<notin> set node_ids then [''Edge references unknown source: '' @ ced_source_node_id e] else []) @
     (if ced_target_node_id e \<notin> set node_ids then [''Edge references unknown target: '' @ ced_target_node_id e] else [])"

definition validate_request :: "composition_request \<Rightarrow> string list" where
  "validate_request rq =
     (if crq_nodes rq = [] then [''At least one node required''] else []) @
     (if int (length (crq_nodes rq)) > crq_max_nodes rq
      then [''Nodes '' @ show_nat (length (crq_nodes rq)) @ '' > max_nodes '' @ show_int (crq_max_nodes rq)] else []) @
     duplicate_errors [] (crq_nodes rq) @
     concat (map (edge_errors (map cn_node_id (crq_nodes rq))) (crq_edges rq))"

fun tier_to_zone :: "trust_tier \<Rightarrow> trust_zone" where
  "tier_to_zone UNTRUSTED = SANDBOX_EXPERIMENTAL"
| "tier_to_zone BASIC = SANDBOX_EXPERIMENTAL"
| "tier_to_zone VERIFIED = GOVERNED_EXTENSION"
| "tier_to_zone CERTIFIED = GOVERNED_EXTENSION"
| "tier_to_zone CORE = CORE_TRUSTED"

definition find_listing :: "(string, market_listing) dict \<Rightarrow> string \<Rightarrow> market_listing option" where
  "find_listing catalog manifest_id = find (\<lambda>l. mkl_manifest_id l = manifest_id) (map snd catalog)"

text \<open>The manifest is filled from the listing, the other fields take the defaults of \<open>ExtensionManifest\<close>.\<close>

definition listing_manifest :: "(string \<Rightarrow> string) \<Rightarrow> py_datetime \<Rightarrow> market_listing \<Rightarrow> extension_manifest" where
  "listing_manifest sha256 now l =
     \<lparr>em_extension_id = mkl_manifest_id l, em_package_name = mkl_name l, em_package_version = mkl_version l,
      em_package_hash = listing_compute_hash sha256 l, em_capability_class = mkl_capability_class l,
      em_declared_inputs = [], em_declared_outputs = [], em_network_access = False, em_filesystem_access = False,
      em_subprocess_access = False, em_dynamic_eval_access = False, em_thread_spawn_access = False,
      em_deterministic_claim = False, em_replayability_claim = False, em_resource_cpu_ms_max = 1000,
      em_resource_memory_mb_max = 128, em_resource_output_size_max = 1048576, em_semantic_version = ''1.0.0'',
      em_provenance_source_url = None, em_provenance_author_pgp_fingerprint = None,
      em_provenance_build_timestamp = now, em_trust_zone = tier_to_zone (mkl_trust_tier l), em_status = ADMITTED,
      em_inspection_receipt_hash = None, em_normalization_receipt_hash = None, em_admission_receipt_hash = None,
      em_rejection_reason = None, em_description = None, em_entrypoint = None, em_dependencies = [],
      em_telemetry_surfaces = [], em_metadata = []\<rparr>"

definition resolve_node :: "(string \<Rightarrow> string) \<Rightarrow> py_datetime \<Rightarrow> (string, market_listing) dict \<Rightarrow> composition_node \<Rightarrow>
    extension_manifest option" where
  "resolve_node sha256 now catalog n = map_option (listing_manifest sha256 now) (find_listing catalog (cn_manifest_id n))"

fun tier_index :: "trust_tier \<Rightarrow> nat" where
  "tier_index UNTRUSTED = 0"
| "tier_index BASIC = 1"
| "tier_index VERIFIED = 2"
| "tier_index CERTIFIED = 3"
| "tier_index CORE = 4"

definition trust_tier_satisfies :: "trust_tier \<Rightarrow> trust_tier \<Rightarrow> bool" where
  "trust_tier_satisfies available minimum \<longleftrightarrow> tier_index available \<ge> tier_index minimum"

definition tier_mismatch :: "composition_node \<Rightarrow> market_listing \<Rightarrow> string" where
  "tier_mismatch n l = ''Trust tier mismatch for '' @ cn_node_id n @ '': available='' @ trust_tier_value (mkl_trust_tier l)
     @ '', required='' @ trust_tier_value (cn_trust_tier_minimum n)"

text \<open>The loop over the nodes; a rejection is the left value.\<close>

type_synonym resolution = "extension_manifest list \<times> string list \<times> string list"

fun resolve_nodes :: "(string \<Rightarrow> string) \<Rightarrow> py_datetime \<Rightarrow> (string, market_listing) dict \<Rightarrow> composition_request \<Rightarrow>
    composition_node list \<Rightarrow> resolution \<Rightarrow> string + resolution" where
  "resolve_nodes sha256 now catalog rq [] acc = Inr acc"
| "resolve_nodes sha256 now catalog rq (n # ns) (resolved, missing, evidence) =
     (case resolve_node sha256 now catalog n of
        None \<Rightarrow>
          if cn_node_id n \<in> ced_target_node_id ` set (crq_edges rq)
          then resolve_nodes sha256 now catalog rq ns (resolved, missing @ [cn_node_id n], evidence)
          else Inl (''Node not found in catalog: '' @ cn_node_id n @ '' (manifest_id='' @ cn_manifest_id n @ '')'')
      | Some found \<Rightarrow>
          (case find_listing catalog (cn_manifest_id n) of
             None \<Rightarrow> resolve_nodes sha256 now catalog rq ns (resolved @ [found], missing, evidence)
           | Some listing \<Rightarrow>
               if trust_tier_satisfies (mkl_trust_tier listing) (cn_trust_tier_minimum n)
               then resolve_nodes sha256 now catalog rq ns (resolved @ [found], missing, evidence)
               else
                 (let text = tier_mismatch n listing
                  in if crq_fail_on_conflict rq then Inl text
                     else resolve_nodes sha256 now catalog rq ns (resolved @ [found], missing, evidence @ [text]))))"

definition edge_conflicts :: "composition_request \<Rightarrow> string list" where
  "edge_conflicts rq =
     concat (map (\<lambda>e. if ced_required e
       then (if ced_source_node_id e \<notin> cn_node_id ` set (crq_nodes rq)
             then [''Required edge source not in request: '' @ ced_source_node_id e] else []) @
            (if ced_target_node_id e \<notin> cn_node_id ` set (crq_nodes rq)
             then [''Required edge target not in request: '' @ ced_target_node_id e] else [])
       else []) (crq_edges rq))"

section \<open>Phases\<close>

type_synonym degree_map = "(string, int) dict"

text \<open>The in-degrees and adjacency lists over the \<open>depends_on\<close> edges.\<close>

definition edge_degree :: "degree_map \<times> (string, string list) dict \<Rightarrow> composition_edge \<Rightarrow>
    degree_map \<times> (string, string list) dict" where
  "edge_degree da e =
     (if ced_edge_type e = ''depends_on'' \<and> dict_has (fst da) (ced_source_node_id e)
      then (dict_set (fst da) (ced_target_node_id e) (dict_get (fst da) (ced_target_node_id e) 0 + 1),
            dict_append (snd da) (ced_source_node_id e) (ced_target_node_id e))
      else da)"

definition composition_degrees :: "composition_request \<Rightarrow> degree_map \<times> (string, string list) dict" where
  "composition_degrees rq =
     foldl edge_degree
       (dict_of_pairs (map (\<lambda>n. (cn_node_id n, 0)) (crq_nodes rq)), dict_of_pairs (map (\<lambda>n. (cn_node_id n, [])) (crq_nodes rq)))
       (crq_edges rq)"

text \<open>One neighbour, one node of the queue, and the queue. Every neighbour has a degree, set when its edge was counted.\<close>

definition visit_neighbor :: "string set \<Rightarrow> degree_map \<times> string list \<Rightarrow> string \<Rightarrow> degree_map \<times> string list" where
  "visit_neighbor visited dn t =
     (let deg = dict_set (fst dn) t (dict_get (fst dn) t 0 - 1)
      in (deg, if dict_get deg t 0 = 0 \<and> t \<notin> visited then snd dn @ [t] else snd dn))"

fun visit_queue :: "(string, string list) dict \<Rightarrow> string list \<Rightarrow> string set \<Rightarrow> degree_map \<times> string list \<Rightarrow>
    string set \<times> degree_map \<times> string list" where
  "visit_queue adj [] visited dn = (visited, dn)"
| "visit_queue adj (nid # queue) visited dn =
     (let visited' = insert nid visited
      in visit_queue adj queue visited' (foldl (visit_neighbor visited') dn (dict_get adj nid [])))"

text \<open>The loop; \<open>None\<close> when the depth is exceeded.\<close>

function kahn_loop :: "(string, string list) dict \<Rightarrow> int \<Rightarrow> degree_map \<Rightarrow> string list \<Rightarrow> string set \<Rightarrow> int \<Rightarrow> int option" where
  "kahn_loop adj max_depth deg queue visited phases =
     (if queue = [] then Some phases
      else if phases + 1 > max_depth then None
      else
        (case visit_queue adj queue visited (deg, []) of
           (visited', deg', next_queue) \<Rightarrow> kahn_loop adj max_depth deg' next_queue visited' (phases + 1)))"
  by pat_completeness auto

termination
  by (relation "measure (\<lambda>(adj, max_depth, deg, queue, visited, phases). nat (max_depth - phases))") auto

declare kahn_loop.simps [simp del]

definition assign_phases :: "composition_request \<Rightarrow> int option" where
  "assign_phases rq =
     (case composition_degrees rq of (deg, adj) \<Rightarrow>
        kahn_loop adj (crq_max_depth rq) deg (map fst (filter (\<lambda>(nid, d). d = 0) deg)) {} 0)"

definition compose :: "(string \<Rightarrow> string) \<Rightarrow> py_datetime \<Rightarrow> composition_engine \<Rightarrow> composition_request \<Rightarrow>
    composition_engine \<times> composition_result" where
  "compose sha256 now g rq =
     (let validation_errors = validate_request rq in
      if validation_errors \<noteq> []
      then composition_reject sha256 g rq (''Validation failed: '' @ py_join ''; '' validation_errors)
      else
        (case resolve_nodes sha256 now (cen_catalog g) rq (crq_nodes rq) ([], [], []) of
           Inl reason \<Rightarrow> composition_reject sha256 g rq reason
         | Inr (resolved, missing, evidence0) \<Rightarrow>
             if int (length resolved) > crq_max_nodes rq
             then composition_reject sha256 g rq (''Node count '' @ show_nat (length resolved) @ '' exceeds max ''
                    @ show_int (crq_max_nodes rq))
             else
               (let evidence = evidence0 @ edge_conflicts rq in
                if evidence \<noteq> [] \<and> crq_fail_on_conflict rq
                then composition_reject sha256 g rq (''Conflicts detected: '' @ py_join ''; '' evidence)
                else
                  (case assign_phases rq of
                     None \<Rightarrow> composition_reject sha256 g rq (''Exceeds max depth '' @ show_int (crq_max_depth rq))
                   | Some phases \<Rightarrow>
                       record_result sha256 g
                         \<lparr>cmr_request_id = crq_request_id rq, cmr_valid = True, cmr_resolved_manifests = resolved,
                          cmr_resolved_edges = crq_edges rq, cmr_missing_dependencies = missing,
                          cmr_conflict_evidence = evidence, cmr_composition_hash = [], cmr_rejection_reason = [],
                          cmr_phase_count = phases\<rparr>))))"

section \<open>The marketplace registry\<close>

record marketplace =
  mkp_listings :: "(string, market_listing) dict"
  mkp_lifecycle_events :: "payload list"

definition new_marketplace :: marketplace where
  "new_marketplace = \<lparr>mkp_listings = [], mkp_lifecycle_events = []\<rparr>"

definition log_lifecycle :: "(string \<Rightarrow> string) \<Rightarrow> string \<Rightarrow> marketplace \<Rightarrow> market_listing \<Rightarrow> string \<Rightarrow> string \<Rightarrow> marketplace" where
  "log_lifecycle sha256 now mk l event evidence = mk\<lparr>mkp_lifecycle_events := mkp_lifecycle_events mk @
     [[(''timestamp'', PStr now), (''listing_id'', PStr (mkl_listing_id l)), (''manifest_id'', PStr (mkl_manifest_id l)),
       (''event'', PStr event), (''lifecycle_state'', PStr (lifecycle_value (mkl_lifecycle_state l))),
       (''trust_score'', PInt (mkl_trust_score l)), (''evidence'', PStr evidence),
       (''listing_hash'', PStr (listing_compute_hash sha256 l))]]\<rparr>"

definition publish :: "(string \<Rightarrow> string) \<Rightarrow> string \<Rightarrow> marketplace \<Rightarrow> market_listing \<Rightarrow> marketplace" where
  "publish sha256 now mk l =
     log_lifecycle sha256 now (mk\<lparr>mkp_listings := dict_set (mkp_listings mk) (mkl_listing_id l) l\<rparr>) l ''PUBLISH'' []"

definition transition_state :: "(string \<Rightarrow> string) \<Rightarrow> string \<Rightarrow> marketplace \<Rightarrow> string \<Rightarrow> capability_lifecycle_state \<Rightarrow> string \<Rightarrow>
    string \<Rightarrow> marketplace \<times> bool" where
  "transition_state sha256 now mk listing_id new_state reason evidence_hash =
     (case map_of (mkp_listings mk) listing_id of
        None \<Rightarrow> (mk, False)
      | Some listing \<Rightarrow>
          (let updated = listing\<lparr>mkl_lifecycle_state := new_state, mkl_deprecation_reason :=
                 (if new_state = LIFECYCLE_DEPRECATED then reason else mkl_deprecation_reason listing)\<rparr>
           in (log_lifecycle sha256 now (mk\<lparr>mkp_listings := dict_set (mkp_listings mk) listing_id updated\<rparr>) updated
                 (''TRANSITION'' @ arrow @ lifecycle_value new_state) evidence_hash, True)))"

definition update_trust_score :: "(string \<Rightarrow> string) \<Rightarrow> string \<Rightarrow> marketplace \<Rightarrow> string \<Rightarrow> int \<Rightarrow> string \<Rightarrow> marketplace \<times> bool" where
  "update_trust_score sha256 now mk listing_id new_score evidence =
     (case map_of (mkp_listings mk) listing_id of
        None \<Rightarrow> (mk, False)
      | Some listing \<Rightarrow>
          (let updated = listing\<lparr>mkl_trust_score := new_score, mkl_last_verified_at := now\<rparr>
           in (log_lifecycle sha256 now (mk\<lparr>mkp_listings := dict_set (mkp_listings mk) listing_id updated\<rparr>) updated
                 ''TRUST_SCORE_UPDATE'' evidence, True)))"

definition get_listing :: "marketplace \<Rightarrow> string \<Rightarrow> market_listing option" where
  "get_listing mk i = map_of (mkp_listings mk) i"

definition query_by_class :: "marketplace \<Rightarrow> capability_class \<Rightarrow> market_listing list" where
  "query_by_class mk c = filter (\<lambda>l. mkl_capability_class l = c) (map snd (mkp_listings mk))"

definition query_by_tier :: "marketplace \<Rightarrow> trust_tier \<Rightarrow> market_listing list" where
  "query_by_tier mk t = filter (\<lambda>l. mkl_trust_tier l = t) (map snd (mkp_listings mk))"

section \<open>Validation and resolution\<close>

lemma duplicate_errors_empty:
  "duplicate_errors seen ns = [] \<longleftrightarrow> distinct (map cn_node_id ns) \<and> cn_node_id ` set ns \<inter> set seen = {}"
  by (induction seen ns rule: duplicate_errors.induct) auto

definition node_ids :: "composition_request \<Rightarrow> string list" where
  "node_ids rq = map cn_node_id (crq_nodes rq)"

text \<open>The requests that pass validation.\<close>

definition well_formed :: "composition_request \<Rightarrow> bool" where
  "well_formed rq \<longleftrightarrow> crq_nodes rq \<noteq> [] \<and> int (length (crq_nodes rq)) \<le> crq_max_nodes rq \<and> distinct (node_ids rq) \<and>
     (\<forall>e \<in> set (crq_edges rq). ced_source_node_id e \<in> set (node_ids rq) \<and> ced_target_node_id e \<in> set (node_ids rq))"

lemma validate_request_empty: "validate_request rq = [] \<longleftrightarrow> well_formed rq"
  by (auto simp: validate_request_def well_formed_def node_ids_def duplicate_errors_empty edge_errors_def)

lemma well_formed_no_conflicts: "well_formed rq \<Longrightarrow> edge_conflicts rq = []"
  by (auto simp: edge_conflicts_def well_formed_def node_ids_def)

definition node_accepted :: "(string, market_listing) dict \<Rightarrow> composition_request \<Rightarrow> composition_node \<Rightarrow> bool" where
  "node_accepted catalog rq n =
     (case find_listing catalog (cn_manifest_id n) of
        None \<Rightarrow> cn_node_id n \<in> ced_target_node_id ` set (crq_edges rq)
      | Some l \<Rightarrow> trust_tier_satisfies (mkl_trust_tier l) (cn_trust_tier_minimum n) \<or> \<not> crq_fail_on_conflict rq)"

definition listed :: "(string, market_listing) dict \<Rightarrow> composition_node list \<Rightarrow> market_listing list" where
  "listed catalog ns = List.map_filter (\<lambda>n. find_listing catalog (cn_manifest_id n)) ns"

definition unlisted :: "(string, market_listing) dict \<Rightarrow> composition_node list \<Rightarrow> string list" where
  "unlisted catalog ns = map cn_node_id (filter (\<lambda>n. find_listing catalog (cn_manifest_id n) = None) ns)"

lemma resolve_nodes_spec:
  "if \<forall>n \<in> set ns. node_accepted catalog rq n
   then \<exists>ev. resolve_nodes sha256 now catalog rq ns (r, m, e) =
       Inr (r @ map (listing_manifest sha256 now) (listed catalog ns), m @ unlisted catalog ns, e @ ev) \<and>
     (crq_fail_on_conflict rq \<longrightarrow> ev = [])
   else \<exists>reason. resolve_nodes sha256 now catalog rq ns (r, m, e) = Inl reason"
proof (induction ns arbitrary: r m e)
  case Nil
  show ?case by (simp add: listed_def unlisted_def)
next
  case (Cons n ns)
  show ?case
  proof (cases "find_listing catalog (cn_manifest_id n)")
    case None
    then have l: "listed catalog (n # ns) = listed catalog ns" "unlisted catalog (n # ns) = cn_node_id n # unlisted catalog ns"
      by (simp_all add: listed_def unlisted_def map_filter_simps)
    from None Cons [of r "m @ [cn_node_id n]" e] show ?thesis
      by (auto simp: l resolve_node_def node_accepted_def)
  next
    case (Some li)
    then have l: "listed catalog (n # ns) = li # listed catalog ns" "unlisted catalog (n # ns) = unlisted catalog ns"
      by (simp_all add: listed_def unlisted_def map_filter_simps)
    show ?thesis
    proof (cases "trust_tier_satisfies (mkl_trust_tier li) (cn_trust_tier_minimum n)")
      case True
      with Some Cons [of "r @ [listing_manifest sha256 now li]" m e] show ?thesis
        by (auto simp: l resolve_node_def node_accepted_def)
    next
      case False
      then show ?thesis
        using Some Cons [of "r @ [listing_manifest sha256 now li]" m "e @ [tier_mismatch n li]"]
        by (cases "crq_fail_on_conflict rq"; cases "\<forall>n \<in> set ns. node_accepted catalog rq n")
          (auto simp: l resolve_node_def Let_def, auto simp: node_accepted_def)
    qed
  qed
qed

lemma listed_length: "length (listed catalog ns) \<le> length ns"
  by (induction ns) (auto simp: listed_def map_filter_simps split: option.split)

section \<open>The layers of the dependency relation\<close>

definition dep_edges :: "composition_request \<Rightarrow> composition_edge list" where
  "dep_edges rq = filter (\<lambda>e. ced_edge_type e = ''depends_on'') (crq_edges rq)"

text \<open>The reference: a layer holds the nodes outside \<open>D\<close> all of whose incoming edges come from \<open>D\<close>.\<close>

definition next_layer :: "composition_edge list \<Rightarrow> string list \<Rightarrow> string set \<Rightarrow> string list" where
  "next_layer es ns D = filter (\<lambda>k. k \<notin> D \<and> (\<forall>e \<in> set es. ced_target_node_id e = k \<longrightarrow> ced_source_node_id e \<in> D)) ns"

function layers :: "composition_edge list \<Rightarrow> string list \<Rightarrow> string set \<Rightarrow> string list list" where
  "layers es ns D =
     (if next_layer es ns D = [] then [] else next_layer es ns D # layers es ns (D \<union> set (next_layer es ns D)))"
  by pat_completeness auto

termination
proof (relation "measure (\<lambda>(es, ns, D). card (set ns - D))", goal_cases)
  case (2 es ns D)
  then obtain k where "k \<in> set (next_layer es ns D)" by (metis list.set_intros(1) neq_Nil_conv)
  then have "set ns - (D \<union> set (next_layer es ns D)) \<subset> set ns - D" by (auto simp: next_layer_def)
  then show ?case by (auto intro: psubset_card_mono)
qed simp

declare layers.simps [simp del]

definition in_edges :: "composition_edge list \<Rightarrow> string set \<Rightarrow> string \<Rightarrow> nat" where
  "in_edges es D k = length (filter (\<lambda>e. ced_source_node_id e \<notin> D \<and> ced_target_node_id e = k) es)"

lemma in_edges_0: "in_edges es D k = 0 \<longleftrightarrow> (\<forall>e \<in> set es. ced_target_node_id e = k \<longrightarrow> ced_source_node_id e \<in> D)"
  by (auto simp: in_edges_def filter_empty_conv)

lemma in_edges_split:
  "in_edges es D k = in_edges es (D \<union> Q) k +
     length (filter (\<lambda>e. ced_source_node_id e \<in> Q - D \<and> ced_target_node_id e = k) es)"
  by (induction es) (auto simp: in_edges_def)

lemma count_out:
  assumes "\<And>x. dict_get adj x [] = map ced_target_node_id (filter (\<lambda>e. ced_source_node_id e = x) es)" "distinct q"
  shows "count_list (concat (map (\<lambda>x. dict_get adj x []) q)) k =
    length (filter (\<lambda>e. ced_source_node_id e \<in> set q \<and> ced_target_node_id e = k) es)"
  using assms(2)
proof (induction q)
  case (Cons x q)
  have 1: "count_list (map ced_target_node_id (filter (\<lambda>e. ced_source_node_id e = x) es)) k =
      length (filter (\<lambda>e. ced_source_node_id e = x \<and> ced_target_node_id e = k) es)"
    by (induction es) auto
  have 2: "length (filter (\<lambda>e. ced_source_node_id e = x \<and> ced_target_node_id e = k) es) +
      length (filter (\<lambda>e. ced_source_node_id e \<in> set q \<and> ced_target_node_id e = k) es) =
      length (filter (\<lambda>e. ced_source_node_id e \<in> set (x # q) \<and> ced_target_node_id e = k) es)"
    using Cons.prems by (induction es) auto
  from Cons 1 2 show ?case by (simp add: assms(1))
qed simp

subsection \<open>One phase\<close>

lemma visit_neighbors:
  assumes "\<And>t. int (count_list ts t) \<le> dict_get d t 0"
  shows "\<exists>d' nx. foldl (visit_neighbor {}) (d, []) ts = (d', nx) \<and>
    (\<forall>k. dict_get d' k 0 = dict_get d k 0 - int (count_list ts k)) \<and> distinct nx \<and>
    set nx = {t \<in> set ts. dict_get d t 0 = int (count_list ts t)}"
  using assms
proof (induction ts rule: rev_induct)
  case Nil
  show ?case by simp
next
  case (snoc t ts)
  have "int (count_list ts k) \<le> dict_get d k 0" for k
    using snoc.prems [of k] by (simp split: if_splits)
  then obtain d' nx where ih: "foldl (visit_neighbor {}) (d, []) ts = (d', nx)"
    "\<And>k. dict_get d' k 0 = dict_get d k 0 - int (count_list ts k)" "distinct nx"
    "set nx = {t \<in> set ts. dict_get d t 0 = int (count_list ts t)}"
    using snoc.IH by blast
  let ?d = "dict_set d' t (dict_get d' t 0 - 1)"
  have d: "dict_get ?d k 0 = dict_get d k 0 - int (count_list (ts @ [t]) k)" for k
    by (simp add: ih(2) dict_get_def dict_simps)
      (simp add: ih(2) [unfolded dict_get_def])
  have nx: "t \<notin> set nx" using snoc.prems [of t] ih(4) by auto
  have old: "u \<in> set nx \<longleftrightarrow> u \<in> set ts \<and> dict_get d u 0 = int (count_list (ts @ [t]) u)" if "u \<noteq> t" for u
    using that ih(4) by simp
  have new: "dict_get ?d t 0 = 0 \<longleftrightarrow> dict_get d t 0 = int (count_list (ts @ [t]) t)" unfolding d by linarith
  have set: "set (if dict_get ?d t 0 = 0 then nx @ [t] else nx) =
      {u \<in> set (ts @ [t]). dict_get d u 0 = int (count_list (ts @ [t]) u)}"
  proof (rule set_eqI)
    fix u
    show "u \<in> set (if dict_get ?d t 0 = 0 then nx @ [t] else nx) \<longleftrightarrow>
        u \<in> {u \<in> set (ts @ [t]). dict_get d u 0 = int (count_list (ts @ [t]) u)}"
      using old [of u] new nx by (cases "u = t"; cases "dict_get ?d t 0 = 0") simp_all
  qed
  have "foldl (visit_neighbor {}) (d, []) (ts @ [t]) = (?d, if dict_get ?d t 0 = 0 then nx @ [t] else nx)"
    using ih(1) by (simp add: visit_neighbor_def Let_def)
  moreover have "distinct (if dict_get ?d t 0 = 0 then nx @ [t] else nx)" using ih(3) nx by simp
  ultimately show ?case using d set by blast
qed

lemma visit_neighbor_visited: "t \<notin> visited \<Longrightarrow> visit_neighbor visited dn t = visit_neighbor {} dn t"
  by (simp add: visit_neighbor_def)

lemma visit_queue_fold:
  assumes "\<And>t. t \<in> set (concat (map (\<lambda>x. dict_get adj x []) q)) \<Longrightarrow> t \<notin> visited \<union> set q"
  shows "visit_queue adj q visited dn =
    (visited \<union> set q, foldl (visit_neighbor {}) dn (concat (map (\<lambda>x. dict_get adj x []) q)))"
  using assms
proof (induction adj q visited dn rule: visit_queue.induct)
  case (2 adj nid q visited dn)
  have "foldl (visit_neighbor (insert nid visited)) dn (dict_get adj nid []) = foldl (visit_neighbor {}) dn (dict_get adj nid [])"
    using "2.prems" by (intro foldl_cong) (auto intro!: visit_neighbor_visited)
  with 2 show ?case by (auto simp: Let_def)
qed simp

text \<open>
  The state at the head of the loop: the degrees count the edges from unvisited nodes, no visited node has
  one, and the queue is the next layer.
\<close>

definition kahn_inv :: "composition_edge list \<Rightarrow> string list \<Rightarrow> degree_map \<Rightarrow> string list \<Rightarrow> string set \<Rightarrow> bool" where
  "kahn_inv es ns deg q D \<longleftrightarrow>
     (\<forall>k. dict_get deg k 0 = int (in_edges es D k)) \<and> (\<forall>k \<in> D. in_edges es D k = 0) \<and>
     distinct q \<and> set q = set (next_layer es ns D)"

lemma next_layer_set: "set (next_layer es ns D) = {k \<in> set ns. k \<notin> D \<and> in_edges es D k = 0}"
  by (auto simp: next_layer_def in_edges_0)

lemma kahn_phase:
  assumes adj: "\<And>x. dict_get adj x [] = map ced_target_node_id (filter (\<lambda>e. ced_source_node_id e = x) es)"
    and tgt: "\<And>e. e \<in> set es \<Longrightarrow> ced_target_node_id e \<in> set ns"
    and inv: "kahn_inv es ns deg q D"
  shows "\<exists>deg' q'. visit_queue adj q D (deg, []) = (D \<union> set q, deg', q') \<and> kahn_inv es ns deg' q' (D \<union> set q)"
proof -
  let ?ts = "concat (map (\<lambda>x. dict_get adj x []) q)"
  have q: "distinct q" "set q = {k \<in> set ns. k \<notin> D \<and> in_edges es D k = 0}"
    and deg: "\<And>k. dict_get deg k 0 = int (in_edges es D k)" and D0: "\<And>k. k \<in> D \<Longrightarrow> in_edges es D k = 0"
    using inv by (simp_all add: kahn_inv_def next_layer_set)
  have ts: "t \<in> set ?ts \<longleftrightarrow> (\<exists>e \<in> set es. ced_source_node_id e \<in> set q \<and> ced_target_node_id e = t)" for t
    by (auto simp: adj)
  have nz: "in_edges es D t \<noteq> 0" if "t \<in> set ?ts" for t
    using that q(2) unfolding ts in_edges_0 by blast
  have out: "t \<notin> D \<union> set q" if "t \<in> set ?ts" for t using nz [OF that] D0 [of t] q(2) by auto
  have cnt: "in_edges es D k = in_edges es (D \<union> set q) k + count_list ?ts k" for k
  proof -
    have "set q - D = set q" using q(2) by auto
    then show ?thesis using in_edges_split [of es D k "set q"] count_out [OF adj q(1), of k] by simp
  qed
  then have "int (count_list ?ts t) \<le> dict_get deg t 0" for t by (simp add: deg)
  from visit_neighbors [OF this] obtain deg' q' where
    f: "foldl (visit_neighbor {}) (deg, []) ?ts = (deg', q')" "\<And>k. dict_get deg' k 0 = dict_get deg k 0 - int (count_list ?ts k)"
      "distinct q'" "set q' = {t \<in> set ?ts. dict_get deg t 0 = int (count_list ?ts t)}" by blast
  have "set q' = {k \<in> set ns. k \<notin> D \<union> set q \<and> in_edges es (D \<union> set q) k = 0}"
  proof (intro equalityI subsetI)
    fix t assume "t \<in> set q'"
    then have t: "t \<in> set ?ts" "in_edges es (D \<union> set q) t = 0" using cnt [of t] by (simp_all add: f(4) deg)
    then have "t \<in> set ns" using tgt unfolding ts by blast
    with t out show "t \<in> {k \<in> set ns. k \<notin> D \<union> set q \<and> in_edges es (D \<union> set q) k = 0}" by blast
  next
    fix k assume k: "k \<in> {k \<in> set ns. k \<notin> D \<union> set q \<and> in_edges es (D \<union> set q) k = 0}"
    with q(2) have "in_edges es D k \<noteq> 0" by auto
    with k cnt [of k] have "count_list ?ts k \<noteq> 0" by simp
    with k cnt [of k] show "k \<in> set q'" by (simp add: f(4) deg count_list_0_iff)
  qed
  moreover have "in_edges es (D \<union> set q) k = 0" if "k \<in> D \<union> set q" for k
    using that D0 [of k] q(2) cnt [of k] by auto
  moreover have "dict_get deg' k 0 = int (in_edges es (D \<union> set q) k)" for k using f(2) cnt [of k] by (simp add: deg)
  ultimately have "kahn_inv es ns deg' q' (D \<union> set q)" using f(3) by (simp add: kahn_inv_def next_layer_set)
  moreover have "visit_queue adj q D (deg, []) = (D \<union> set q, deg', q')"
    using out by (subst visit_queue_fold) (simp_all add: f(1))
  ultimately show ?thesis by blast
qed

lemma kahn_loop_layers:
  assumes "\<And>x. dict_get adj x [] = map ced_target_node_id (filter (\<lambda>e. ced_source_node_id e = x) es)"
    and "\<And>e. e \<in> set es \<Longrightarrow> ced_target_node_id e \<in> set ns" and "kahn_inv es ns deg q D"
  shows "kahn_loop adj md deg q D ph =
    (let n = int (length (layers es ns D)) in if n = 0 \<or> ph + n \<le> md then Some (ph + n) else None)"
  using assms
proof (induction adj md deg q D ph rule: kahn_loop.induct)
  case (1 adj md deg q D ph)
  have q: "set q = set (next_layer es ns D)" using "1.prems"(3) by (simp add: kahn_inv_def)
  show ?case
  proof (cases "q = []")
    case True
    with q have "layers es ns D = []" by (subst layers.simps) simp
    with True show ?thesis by (subst kahn_loop.simps) simp
  next
    case False
    with q have l: "layers es ns D = next_layer es ns D # layers es ns (D \<union> set q)"
      by (subst layers.simps) auto
    obtain deg' q' where v: "visit_queue adj q D (deg, []) = (D \<union> set q, deg', q')" "kahn_inv es ns deg' q' (D \<union> set q)"
      using kahn_phase [OF "1.prems"] by blast
    show ?thesis
    proof (cases "ph + 1 > md")
      case True
      with False l show ?thesis by (subst kahn_loop.simps) (simp add: Let_def)
    next
      case md: False
      from "1.IH" [OF False md v(1) [symmetric] refl "1.prems"(1,2) v(2)] False md v(1) l show ?thesis
        by (subst kahn_loop.simps) (simp add: Let_def)
    qed
  qed
qed

lemma composition_degrees_facts:
  assumes "well_formed rq" "composition_degrees rq = (deg, adj)"
  shows "fst ` set deg = set (node_ids rq)" "dict_wf deg"
    "dict_get deg k 0 = int (in_edges (dep_edges rq) {} k)"
    "dict_get adj x [] = map ced_target_node_id (filter (\<lambda>e. ced_source_node_id e = x) (dep_edges rq))"
proof -
  let ?d0 = "dict_of_pairs (map (\<lambda>n. (cn_node_id n, 0 :: int)) (crq_nodes rq))"
  let ?a0 = "dict_of_pairs (map (\<lambda>n. (cn_node_id n, [])) (crq_nodes rq))"
  let ?dep = "filter (\<lambda>e. ced_edge_type e = ''depends_on'')"
  have "\<forall>da. foldl edge_degree (?d0, ?a0) es = da \<longrightarrow>
      fst ` set (fst da) = set (node_ids rq) \<and> dict_wf (fst da) \<and>
      dict_get (fst da) k 0 = int (in_edges (?dep es) {} k) \<and>
      dict_get (snd da) x [] = map ced_target_node_id (filter (\<lambda>e. ced_source_node_id e = x) (?dep es))"
    if "set es \<subseteq> set (crq_edges rq)" for es
    using that
  proof (induction es rule: rev_induct)
    case Nil
    show ?case
      by (simp add: keys_dict_of_pairs dict_of_pairs_wf dict_get_const image_image node_ids_def in_edges_def)
  next
    case (snoc e es)
    have e: "ced_source_node_id e \<in> set (node_ids rq)" "ced_target_node_id e \<in> set (node_ids rq)"
      using snoc.prems assms(1) by (auto simp: well_formed_def)
    obtain d a where da: "foldl edge_degree (?d0, ?a0) es = (d, a)" by fastforce
    then have ih: "fst ` set d = set (node_ids rq)" "dict_wf d" "dict_get d k 0 = int (in_edges (?dep es) {} k)"
      "dict_get a x [] = map ced_target_node_id (filter (\<lambda>e. ced_source_node_id e = x) (?dep es))"
      using snoc by simp_all
    have step: "foldl edge_degree (?d0, ?a0) (es @ [e]) = edge_degree (d, a) e" using da by simp
    show ?case
    proof (cases "ced_edge_type e = ''depends_on''")
      case True
      let ?d = "dict_set d (ced_target_node_id e) (dict_get d (ced_target_node_id e) 0 + 1)"
      have E: "edge_degree (d, a) e = (?d, dict_append a (ced_source_node_id e) (ced_target_node_id e))"
        using True e(1) ih(1) by (simp add: edge_degree_def dict_has_keys)
      have G: "dict_get ?d k 0 = dict_get d k 0 + (if k = ced_target_node_id e then 1 else 0)"
        by (simp add: dict_get_def map_of_dict_set)
      have K: "fst ` set ?d = set (node_ids rq)" using ih(1) e(2) by (auto simp: keys_dict_set)
      have C: "in_edges (?dep (es @ [e])) {} k = in_edges (?dep es) {} k + (if k = ced_target_node_id e then 1 else 0)"
        "filter (\<lambda>f. ced_source_node_id f = x) (?dep (es @ [e])) =
           filter (\<lambda>f. ced_source_node_id f = x) (?dep es) @ (if x = ced_source_node_id e then [e] else [])"
        using True by (auto simp: in_edges_def)
      show ?thesis
        unfolding step E C using ih K G by (cases "x = ced_source_node_id e") (simp_all add: dict_get_append)
    next
      case False
      with ih show ?thesis unfolding step by (simp add: edge_degree_def)
    qed
  qed
  from this [of "crq_edges rq"] assms(2)
  show "fst ` set deg = set (node_ids rq)" "dict_wf deg"
    "dict_get deg k 0 = int (in_edges (dep_edges rq) {} k)"
    "dict_get adj x [] = map ced_target_node_id (filter (\<lambda>e. ced_source_node_id e = x) (dep_edges rq))"
    by (simp_all add: composition_degrees_def dep_edges_def)
qed

lemma assign_phases_layers:
  assumes "well_formed rq"
  shows "assign_phases rq =
    (let n = int (length (layers (dep_edges rq) (node_ids rq) {})) in
     if n = 0 \<or> n \<le> crq_max_depth rq then Some n else None)"
proof -
  obtain deg adj where da: "composition_degrees rq = (deg, adj)" by fastforce
  note f = composition_degrees_facts [OF assms da]
  let ?q = "map fst (filter (\<lambda>(nid, d). d = 0) deg)"
  have d: "distinct (map fst deg)" using f(2) by (simp add: dict_wf_def)
  have "k \<in> set ?q \<longleftrightarrow> k \<in> set (node_ids rq) \<and> in_edges (dep_edges rq) {} k = 0" for k
  proof -
    have "k \<in> set ?q \<longleftrightarrow> (k, 0) \<in> set deg" by force
    also have "\<dots> \<longleftrightarrow> map_of deg k = Some 0" by (simp add: d map_of_eq_Some_iff)
    also have "\<dots> \<longleftrightarrow> k \<in> fst ` set deg \<and> dict_get deg k 0 = 0"
      using dict_has_keys [of deg k] by (cases "map_of deg k") (simp_all add: dict_get_def dict_has_def)
    finally show ?thesis by (simp add: f)
  qed
  then have "kahn_inv (dep_edges rq) (node_ids rq) deg ?q {}"
    using f(3) d by (auto simp: kahn_inv_def next_layer_set distinct_map_filter)
  moreover have "ced_target_node_id e \<in> set (node_ids rq)" if "e \<in> set (dep_edges rq)" for e
    using assms that by (simp add: well_formed_def dep_edges_def)
  ultimately have "kahn_loop adj (crq_max_depth rq) deg ?q {} 0 =
      (let n = int (length (layers (dep_edges rq) (node_ids rq) {})) in
       if n = 0 \<or> 0 + n \<le> crq_max_depth rq then Some (0 + n) else None)"
    using f(4) by (intro kahn_loop_layers)
  then show ?thesis by (simp add: assign_phases_def da Let_def)
qed

section \<open>Properties of the layers\<close>

text \<open>
  What a layering from \<open>D\<close> on promises: disjoint layers of nodes, each node after all its predecessors, one of
  them in the layer just before, and outside the layers only nodes with a predecessor outside.
\<close>

lemma layers_distinct:
  assumes "distinct ns"
  shows "distinct (concat (layers es ns D)) \<and> set (concat (layers es ns D)) \<subseteq> set ns - D"
  using assms
proof (induction es ns D rule: layers.induct)
  case (1 es ns D)
  show ?case
  proof (cases "next_layer es ns D = []")
    case False
    have "distinct (next_layer es ns D)" "set (next_layer es ns D) \<subseteq> set ns - D"
      using "1.prems" by (auto simp: next_layer_def)
    with "1.IH" [OF False "1.prems"] False show ?thesis by (subst (1 2) layers.simps) auto
  qed (subst (1 2) layers.simps, simp)
qed

lemma layers_before:
  assumes "l = layers es ns D" "i < length l" "k \<in> set (l ! i)" "e \<in> set es" "ced_target_node_id e = k"
  shows "ced_source_node_id e \<in> D \<or> (\<exists>j < i. ced_source_node_id e \<in> set (l ! j))"
  using assms
proof (induction es ns D arbitrary: l i rule: layers.induct)
  case (1 es ns D)
  show ?case
  proof (cases "next_layer es ns D = []")
    case True
    with "1.prems"(1,2) show ?thesis by (simp add: layers.simps [of es ns D])
  next
    case False
    then have l: "l = next_layer es ns D # layers es ns (D \<union> set (next_layer es ns D))"
      using "1.prems"(1) layers.simps [of es ns D] by simp
    show ?thesis
    proof (cases i)
      case 0
      with l "1.prems"(3-5) show ?thesis by (simp add: next_layer_def)
    next
      case (Suc j)
      from "1.IH" [OF False refl, of j] l Suc "1.prems"(2-5)
      have "ced_source_node_id e \<in> D \<union> set (next_layer es ns D) \<or>
          (\<exists>i' < j. ced_source_node_id e \<in> set (layers es ns (D \<union> set (next_layer es ns D)) ! i'))" by simp
      then show ?thesis
      proof (elim disjE exE conjE UnE)
        assume "ced_source_node_id e \<in> set (next_layer es ns D)"
        then show ?thesis using l Suc by (intro disjI2 exI [of _ 0]) simp
      next
        fix i' assume "i' < j" "ced_source_node_id e \<in> set (layers es ns (D \<union> set (next_layer es ns D)) ! i')"
        then show ?thesis using l Suc by (intro disjI2 exI [of _ "Suc i'"]) simp
      qed simp
    qed
  qed
qed

lemma layers_rest:
  "k \<in> set ns - D - set (concat (layers es ns D)) \<Longrightarrow>
     \<exists>e \<in> set es. ced_target_node_id e = k \<and> ced_source_node_id e \<notin> D \<union> set (concat (layers es ns D))"
proof (induction es ns D rule: layers.induct)
  case (1 es ns D)
  show ?case
  proof (cases "next_layer es ns D = []")
    case True
    then have "layers es ns D = []" by (simp add: layers.simps [of es ns D])
    with True "1.prems" show ?thesis by (auto simp: next_layer_def filter_empty_conv)
  next
    case False
    then have l: "set (concat (layers es ns D)) = set (next_layer es ns D) \<union> set (concat (layers es ns (D \<union> set (next_layer es ns D))))"
      by (simp add: layers.simps [of es ns D])
    from "1.IH" [OF False] "1.prems" show ?thesis unfolding l by blast
  qed
qed

text \<open>A node that its predecessors delay is in a later layer: the layers are as few as possible.\<close>

lemma layers_tight:
  assumes "l = layers es ns D" "Suc i < length l" "k \<in> set (l ! Suc i)"
  shows "\<exists>e \<in> set es. ced_target_node_id e = k \<and> ced_source_node_id e \<in> set (l ! i)"
  using assms
proof (induction es ns D arbitrary: l i rule: layers.induct)
  case (1 es ns D)
  let ?n = "next_layer es ns D"
  let ?D' = "D \<union> set ?n"
  have n: "?n \<noteq> []" using "1.prems"(1,2) by (cases "?n = []") (simp_all add: layers.simps [of es ns D])
  then have l: "l = ?n # layers es ns ?D'" using "1.prems"(1) layers.simps [of es ns D] by simp
  show ?case
  proof (cases i)
    case 0
    with l "1.prems"(2) have "layers es ns ?D' \<noteq> []" by auto
    then have "layers es ns ?D' ! 0 = next_layer es ns ?D'" by (simp add: layers.simps [of es ns ?D'] split: if_splits)
    with 0 l "1.prems"(3) have "k \<in> set (next_layer es ns ?D')" by simp
    then have k: "k \<in> set ns" "k \<notin> ?D'" "\<And>e. e \<in> set es \<Longrightarrow> ced_target_node_id e = k \<Longrightarrow> ced_source_node_id e \<in> ?D'"
      by (auto simp: next_layer_def)
    then obtain e where "e \<in> set es" "ced_target_node_id e = k" "ced_source_node_id e \<notin> D" by (auto simp: next_layer_def)
    with k(3) 0 l show ?thesis by auto
  next
    case (Suc j)
    with "1.IH" [OF n refl, of j] l "1.prems"(2,3) show ?thesis by simp
  qed
qed

section \<open>Compositions\<close>

lemma compose_spec:
  assumes "compose sha256 now g rq = (g', r)"
  shows "cen_composition_history g' = cen_composition_history g @ [r] \<and> cen_catalog g' = cen_catalog g \<and>
    (cmr_valid r \<longleftrightarrow> well_formed rq \<and> (\<forall>n \<in> set (crq_nodes rq). node_accepted (cen_catalog g) rq n) \<and>
       (layers (dep_edges rq) (node_ids rq) {} = [] \<or>
        int (length (layers (dep_edges rq) (node_ids rq) {})) \<le> crq_max_depth rq)) \<and>
    (cmr_valid r \<longrightarrow>
       cmr_resolved_manifests r = map (listing_manifest sha256 now) (listed (cen_catalog g) (crq_nodes rq)) \<and>
       cmr_missing_dependencies r = unlisted (cen_catalog g) (crq_nodes rq) \<and>
       cmr_phase_count r = int (length (layers (dep_edges rq) (node_ids rq) {})))"
proof -
  note rej = composition_reject_def record_result_def with_computed_hash_def Let_def
  show ?thesis
  proof (cases "well_formed rq")
    case False
    with assms show ?thesis by (auto simp: compose_def validate_request_empty rej)
  next
    case True
    note wf = this validate_request_empty [of rq] well_formed_no_conflicts [OF this] assign_phases_layers [OF this]
    have spec: "if \<forall>n \<in> set (crq_nodes rq). node_accepted (cen_catalog g) rq n
      then \<exists>ev. resolve_nodes sha256 now (cen_catalog g) rq (crq_nodes rq) ([], [], []) =
          Inr (map (listing_manifest sha256 now) (listed (cen_catalog g) (crq_nodes rq)), unlisted (cen_catalog g) (crq_nodes rq), ev) \<and>
        (crq_fail_on_conflict rq \<longrightarrow> ev = [])
      else \<exists>reason. resolve_nodes sha256 now (cen_catalog g) rq (crq_nodes rq) ([], [], []) = Inl reason"
      using resolve_nodes_spec [of "crq_nodes rq" "cen_catalog g" rq sha256 now "[]" "[]" "[]"] by (simp only: append_Nil)
    have len: "int (length (listed (cen_catalog g) (crq_nodes rq))) \<le> crq_max_nodes rq"
      using listed_length [of "cen_catalog g" "crq_nodes rq"] True by (simp add: well_formed_def)
    show ?thesis
    proof (cases "\<forall>n \<in> set (crq_nodes rq). node_accepted (cen_catalog g) rq n")
      case False
      with spec assms wf show ?thesis by (auto simp: compose_def rej)
    next
      case acc: True
      with spec obtain ev where "resolve_nodes sha256 now (cen_catalog g) rq (crq_nodes rq) ([], [], []) =
          Inr (map (listing_manifest sha256 now) (listed (cen_catalog g) (crq_nodes rq)), unlisted (cen_catalog g) (crq_nodes rq), ev)"
        "crq_fail_on_conflict rq \<longrightarrow> ev = []" by auto
      with acc assms wf len show ?thesis
        by (auto simp: compose_def rej split: if_splits)
    qed
  qed
qed

section \<open>Properties\<close>

text \<open>
  C26 (compose_verdict): \<open>compose\<close> always returns a result and appends it to the history. It is valid exactly if
  the request has distinct nodes, at most as many as allowed, and edges between them only, every node has a
  listing of sufficient trust tier (any tier, when conflicts are tolerated) or is the target of some edge, and
  the dependency relation has no more layers than allowed. The result then holds the manifests of the listed
  nodes, names the others as missing, and counts the layers. Lifecycle state and capability class of a
  listing play no part.
\<close>

theorem compose_verdict:
  assumes "compose sha256 now g rq = (g', r)"
  shows "cen_composition_history g' = cen_composition_history g @ [r] \<and> cen_catalog g' = cen_catalog g \<and>
    (cmr_valid r \<longleftrightarrow> well_formed rq \<and> (\<forall>n \<in> set (crq_nodes rq). node_accepted (cen_catalog g) rq n) \<and>
       (layers (dep_edges rq) (node_ids rq) {} = [] \<or>
        int (length (layers (dep_edges rq) (node_ids rq) {})) \<le> crq_max_depth rq)) \<and>
    (cmr_valid r \<longrightarrow>
       cmr_resolved_manifests r = map (listing_manifest sha256 now) (listed (cen_catalog g) (crq_nodes rq)) \<and>
       cmr_missing_dependencies r = unlisted (cen_catalog g) (crq_nodes rq) \<and>
       cmr_phase_count r = int (length (layers (dep_edges rq) (node_ids rq) {})))"
  using assms by (rule compose_spec)

definition example_listing :: market_listing where
  "example_listing = \<lparr>mkl_listing_id = ''l'', mkl_manifest_id = ''m'', mkl_name = ''n'', mkl_version = ''1'',
     mkl_capability_class = STATIC_ANALYZER, mkl_trust_tier = BASIC, mkl_trust_score = 0,
     mkl_lifecycle_state = LIFECYCLE_REVOKED, mkl_dependencies = [], mkl_published_at = [], mkl_review_receipt_hash = [],
     mkl_last_verified_at = [], mkl_deprecation_reason = [], mkl_publisher_tenant_id = []\<rparr>"

definition example_engine :: composition_engine where
  "example_engine = register_listing \<lparr>cen_catalog = [], cen_composition_history = []\<rparr> example_listing"

definition example_node :: "string \<Rightarrow> composition_node" where
  "example_node i = \<lparr>cn_node_id = i, cn_manifest_id = ''m'', cn_capability_class = OPENAPI_TOOLING, cn_required_inputs = [],
     cn_expected_outputs = [], cn_trust_tier_minimum = BASIC, cn_parameters = []\<rparr>"

definition example_dep :: "string \<Rightarrow> string \<Rightarrow> composition_edge" where
  "example_dep a b = \<lparr>ced_source_node_id = a, ced_target_node_id = b, ced_edge_type = ''depends_on'', ced_required = True\<rparr>"

definition example_composition :: "composition_edge list \<Rightarrow> composition_request" where
  "example_composition es = \<lparr>crq_request_id = ''r'', crq_tenant_id = ''t'', crq_description = [],
     crq_nodes = [example_node ''a'', example_node ''b''], crq_edges = es, crq_max_depth = 5, crq_max_nodes = 50,
     crq_fail_on_conflict = True, crq_deterministic_only = True\<rparr>"

lemma example_composition_ok:
  "set es \<subseteq> {example_dep ''a'' ''b'', example_dep ''b'' ''a''} \<Longrightarrow> well_formed (example_composition es)"
  "\<forall>n \<in> set (crq_nodes (example_composition es)). node_accepted (cen_catalog example_engine) (example_composition es) n"
  "node_ids (example_composition es) = [''a'', ''b'']"
  by (auto simp: well_formed_def node_ids_def example_composition_def example_node_def example_dep_def node_accepted_def
      example_engine_def register_listing_def find_listing_def example_listing_def trust_tier_satisfies_def)

lemma example_layers:
  "layers [example_dep ''a'' ''b''] [''a'', ''b''] {} = [[''a''], [''b'']]"
  "layers [example_dep ''a'' ''b'', example_dep ''b'' ''a''] [''a'', ''b''] {} = []"
  by (simp_all add: layers.simps next_layer_def example_dep_def)

lemma example_dep_edges:
  "dep_edges (example_composition [example_dep ''a'' ''b'']) = [example_dep ''a'' ''b'']"
  "dep_edges (example_composition [example_dep ''a'' ''b'', example_dep ''b'' ''a'']) = [example_dep ''a'' ''b'', example_dep ''b'' ''a'']"
  by (simp_all add: dep_edges_def example_composition_def example_dep_def)

text \<open>Two nodes that depend on each other are a valid composition without a phase, from a revoked listing.\<close>

theorem compose_verdict_witness:
  "let r = snd (compose id (DateTime 2025 1 1 0 0 0 0) example_engine
       (example_composition [example_dep ''a'' ''b'', example_dep ''b'' ''a''])) in
   cmr_valid r \<and> cmr_phase_count r = 0"
proof -
  let ?es = "[example_dep ''a'' ''b'', example_dep ''b'' ''a'']"
  have "well_formed (example_composition ?es)" by (rule example_composition_ok) simp
  with compose_verdict [OF surjective_pairing, of id "DateTime 2025 1 1 0 0 0 0" example_engine "example_composition ?es"]
    example_composition_ok(2,3) [of ?es] show ?thesis
    by (simp add: Let_def example_dep_edges example_layers)
qed

text \<open>
  C27 (composition_layers): the phases of a valid composition, as many as the result counts, are disjoint layers
  of nodes of the request: a node comes after everything with an edge to it, one of them in the layer just
  before, so no assignment with fewer phases exists. The nodes left out are those with such an edge from
  another node that is left out: exactly what lies on or behind a cycle is silently skipped.
\<close>

theorem composition_layers:
  assumes "compose sha256 now g rq = (g', r)" "cmr_valid r"
  shows "\<exists>ls. int (length ls) = cmr_phase_count r \<and> distinct (concat ls) \<and> set (concat ls) \<subseteq> cn_node_id ` set (crq_nodes rq) \<and>
    (\<forall>i < length ls. \<forall>e \<in> set (crq_edges rq). ced_edge_type e = ''depends_on'' \<and> ced_target_node_id e \<in> set (ls ! i) \<longrightarrow>
       (\<exists>j < i. ced_source_node_id e \<in> set (ls ! j))) \<and>
    (\<forall>i. Suc i < length ls \<longrightarrow> (\<forall>k \<in> set (ls ! Suc i). \<exists>e \<in> set (crq_edges rq). ced_edge_type e = ''depends_on'' \<and>
       ced_target_node_id e = k \<and> ced_source_node_id e \<in> set (ls ! i))) \<and>
    (\<forall>n \<in> set (crq_nodes rq). cn_node_id n \<in> set (concat ls) \<or> (\<exists>e \<in> set (crq_edges rq).
       ced_edge_type e = ''depends_on'' \<and> ced_target_node_id e = cn_node_id n \<and> ced_source_node_id e \<notin> set (concat ls)))"
proof -
  have wf: "well_formed rq" and pc: "cmr_phase_count r = int (length (layers (dep_edges rq) (node_ids rq) {}))"
    using compose_spec [OF assms(1)] assms(2) by blast+
  define ls where "ls = layers (dep_edges rq) (node_ids rq) {}"
  have ids: "set (node_ids rq) = cn_node_id ` set (crq_nodes rq)" by (simp add: node_ids_def)
  have dep: "e \<in> set (dep_edges rq) \<longleftrightarrow> e \<in> set (crq_edges rq) \<and> ced_edge_type e = ''depends_on''" for e
    by (auto simp: dep_edges_def)
  have d: "distinct (concat ls) \<and> set (concat ls) \<subseteq> set (node_ids rq) - {}"
    unfolding ls_def using wf by (intro layers_distinct) (simp add: well_formed_def)
  show ?thesis
  proof (intro exI [of _ ls] conjI allI ballI impI)
    show "int (length ls) = cmr_phase_count r" by (simp only: pc ls_def)
    show "distinct (concat ls)" "set (concat ls) \<subseteq> cn_node_id ` set (crq_nodes rq)" using d by (simp_all only: ids Diff_empty)
    show "\<exists>j < i. ced_source_node_id e \<in> set (ls ! j)" if "i < length ls" "e \<in> set (crq_edges rq)"
      "ced_edge_type e = ''depends_on'' \<and> ced_target_node_id e \<in> set (ls ! i)" for i e
      using layers_before [OF ls_def that(1) _ _ refl] that(2,3) by (simp add: dep)
    show "\<exists>e \<in> set (crq_edges rq). ced_edge_type e = ''depends_on'' \<and> ced_target_node_id e = k \<and> ced_source_node_id e \<in> set (ls ! i)"
      if "Suc i < length ls" "k \<in> set (ls ! Suc i)" for i k
      using layers_tight [OF ls_def that] by (auto simp: dep)
    show "cn_node_id n \<in> set (concat ls) \<or> (\<exists>e \<in> set (crq_edges rq). ced_edge_type e = ''depends_on'' \<and>
        ced_target_node_id e = cn_node_id n \<and> ced_source_node_id e \<notin> set (concat ls))" if "n \<in> set (crq_nodes rq)" for n
      using layers_rest [of "cn_node_id n" "node_ids rq" "{}" "dep_edges rq"] that
      unfolding ls_def [symmetric] ids by (cases "cn_node_id n \<in> set (concat ls)") (auto simp: dep simp del: set_concat)
  qed
qed

theorem composition_layers_witness:
  "\<exists>ls. length ls = 2 \<and> (\<forall>k \<in> set (ls ! 1). \<exists>e \<in> {example_dep ''a'' ''b''}. ced_target_node_id e = k \<and> ced_source_node_id e \<in> set (ls ! 0))"
proof -
  let ?rq = "example_composition [example_dep ''a'' ''b'']"
  let ?c = "compose id (DateTime 2025 1 1 0 0 0 0) example_engine ?rq"
  have "well_formed ?rq" by (rule example_composition_ok) simp
  then have v: "cmr_valid (snd ?c)" "cmr_phase_count (snd ?c) = 2"
    using compose_spec [OF surjective_pairing, of id "DateTime 2025 1 1 0 0 0 0" example_engine ?rq]
      example_composition_ok(2,3) [of "[example_dep ''a'' ''b'']"]
    by (simp_all add: example_dep_edges example_layers, simp_all add: example_composition_def)
  have e: "crq_edges ?rq = [example_dep ''a'' ''b'']" by (simp add: example_composition_def)
  from composition_layers [OF surjective_pairing v(1)] v(2) obtain ls where
    "length ls = 2" "\<forall>i. Suc i < length ls \<longrightarrow> (\<forall>k \<in> set (ls ! Suc i). \<exists>e \<in> set (crq_edges ?rq). ced_edge_type e = ''depends_on'' \<and>
       ced_target_node_id e = k \<and> ced_source_node_id e \<in> set (ls ! i))" by auto
  then show ?thesis unfolding e by (intro exI [of _ ls]) (auto dest: spec [of _ 0])
qed

text \<open>The registry allows every change of the lifecycle state, a revoked listing becoming available included.\<close>

lemma transition_unrestricted:
  "map_of (mkp_listings mk) i = Some l \<Longrightarrow>
     \<exists>mk' l'. transition_state sha256 now mk i st reason ev = (mk', True) \<and> get_listing mk' i = Some l' \<and>
       mkl_lifecycle_state l' = st \<and> length (mkp_lifecycle_events mk') = Suc (length (mkp_lifecycle_events mk))"
  by (simp add: transition_state_def get_listing_def log_lifecycle_def dict_simps Let_def)

end
