(* ===== verification/Snapshot_Registry.thy ===== *)
theory Snapshot_Registry
  imports Py_Json Det_Clock Hash_Chain
begin

text \<open>
  Infrastructure snapshots (\<open>pi_interoperability_layer/snapshot/artifacts.py\<close>, \<open>snapshot/registry.py\<close>):
  immutable artifacts with their content hashes, one chain per tenant, source and type that checks the hash
  link of an appended artifact, and the registry that keeps chains and artifacts. Ages are exact fractions of
  days where the code uses floats; the creation time of the registry is left out.

  Against the history of accepted artifacts as the specification: every chain is linked and ordered, listings
  return exactly the matching artifacts of the tenant, and when a store is refused. The guarantees need fresh
  snapshot ids; with a repeated id one tenant's artifact replaces another's.
\<close>

section \<open>Artifacts\<close>

datatype snapshot_type =
  TOPOLOGY | CONFIGURATION | STATE | EVENT_LOG | CAPABILITY_MESH | TRUST_ZONE | POLICY_EVALUATION | COMPOSITE

fun snapshot_type_value :: "snapshot_type \<Rightarrow> string" where
  "snapshot_type_value TOPOLOGY = ''topology''"
| "snapshot_type_value CONFIGURATION = ''configuration''"
| "snapshot_type_value STATE = ''state''"
| "snapshot_type_value EVENT_LOG = ''event_log''"
| "snapshot_type_value CAPABILITY_MESH = ''capability_mesh''"
| "snapshot_type_value TRUST_ZONE = ''trust_zone''"
| "snapshot_type_value POLICY_EVALUATION = ''policy_evaluation''"
| "snapshot_type_value COMPOSITE = ''composite''"

datatype retention_class = Hot | Warm | Cold | Archive

record snap_payload =
  spl_snapshot_type :: snapshot_type
  spl_tenant_id :: string
  spl_source_id :: string
  spl_domain :: string
  spl_data :: payload
  spl_capture_metadata :: payload

definition canonical_data_json :: "snap_payload \<Rightarrow> string" where
  "canonical_data_json p = dumps_compact (PDict (spl_data p))"

record snap_artifact =
  sna_snapshot_id :: string
  sna_base_snapshot_id :: "string option"
  sna_timestamp_marker :: timestamp_marker
  sna_payload :: snap_payload
  sna_payload_hash :: string
  sna_artifact_hash :: string
  sna_previous_snapshot_hash :: string
  sna_compression :: string
  sna_retention_class :: retention_class

definition compute_payload_hash :: "(string \<Rightarrow> string) \<Rightarrow> snap_artifact \<Rightarrow> string" where
  "compute_payload_hash sha256 a = sha256 (canonical_data_json (sna_payload a))"

definition artifact_hashed :: "snap_artifact \<Rightarrow> payload" where
  "artifact_hashed a =
     [(''snapshot_id'', PStr (sna_snapshot_id a)),
      (''base_snapshot_id'', case sna_base_snapshot_id a of None \<Rightarrow> PNone | Some s \<Rightarrow> PStr s),
      (''ordering_clock_id'', PStr (marker_clock_id (sna_timestamp_marker a))),
      (''ordering_sequence'', PInt (int (sequence_number (sna_timestamp_marker a)))),
      (''payload_hash'', PStr (sna_payload_hash a)),
      (''previous_snapshot_hash'', PStr (sna_previous_snapshot_hash a))]"

definition artifact_text :: "snap_artifact \<Rightarrow> string" where
  "artifact_text a = dumps_compact (PDict (artifact_hashed a))"

definition compute_artifact_hash :: "(string \<Rightarrow> string) \<Rightarrow> snap_artifact \<Rightarrow> string" where
  "compute_artifact_hash sha256 a = sha256 (artifact_text a)"

text \<open>\<open>model_post_init\<close>: only missing hashes are computed, a given one is kept.\<close>

definition artifact_post_init :: "(string \<Rightarrow> string) \<Rightarrow> snap_artifact \<Rightarrow> snap_artifact" where
  "artifact_post_init sha256 a =
     (let a1 = (if sna_payload_hash a = [] then a\<lparr>sna_payload_hash := compute_payload_hash sha256 a\<rparr> else a)
      in if sna_artifact_hash a1 = [] then a1\<lparr>sna_artifact_hash := compute_artifact_hash sha256 a1\<rparr> else a1)"

definition artifact_tenant_id :: "snap_artifact \<Rightarrow> string" where
  "artifact_tenant_id a = spl_tenant_id (sna_payload a)"

definition artifact_source_id :: "snap_artifact \<Rightarrow> string" where
  "artifact_source_id a = spl_source_id (sna_payload a)"

definition artifact_snapshot_type :: "snap_artifact \<Rightarrow> snapshot_type" where
  "artifact_snapshot_type a = spl_snapshot_type (sna_payload a)"

section \<open>Chains\<close>

record snap_chain =
  snc_chain_id :: string
  snc_tenant_id :: string
  snc_source_id :: string
  snc_snapshot_type :: snapshot_type
  snc_snapshot_ids :: "string list"
  snc_snapshot_hashes :: "string list"
  snc_head_snapshot_id :: "string option"
  snc_head_snapshot_hash :: string
  snc_created_at :: py_datetime

definition chain_append :: "snap_chain \<Rightarrow> snap_artifact \<Rightarrow> snap_chain result" where
  "chain_append c a =
     (if artifact_tenant_id a \<noteq> snc_tenant_id c then Inl (ValueError (''Tenant mismatch: '' @ artifact_tenant_id a @ '' != '' @ snc_tenant_id c))
      else if artifact_source_id a \<noteq> snc_source_id c then Inl (ValueError (''Source mismatch: '' @ artifact_source_id a @ '' != '' @ snc_source_id c))
      else if artifact_snapshot_type a \<noteq> snc_snapshot_type c then Inl (ValueError ''Type mismatch'')
      else if snc_snapshot_hashes c \<noteq> [] \<and> sna_previous_snapshot_hash a \<noteq> last (snc_snapshot_hashes c)
      then Inl HashChainBreakError
      else Inr (c\<lparr>snc_snapshot_ids := snc_snapshot_ids c @ [sna_snapshot_id a],
                  snc_snapshot_hashes := snc_snapshot_hashes c @ [sna_artifact_hash a],
                  snc_head_snapshot_id := Some (sna_snapshot_id a),
                  snc_head_snapshot_hash := sna_artifact_hash a\<rparr>))"

text \<open>The loop of \<open>SnapshotChain.verify_chain\<close> has an empty body.\<close>

definition snap_chain_verify :: "snap_chain \<Rightarrow> bool" where
  "snap_chain_verify c = foldl (\<lambda>_ _. True) True [1..<length (snc_snapshot_hashes c)]"

record retention_policy =
  rtp_policy_id :: string
  rtp_hot_ttl_days :: int
  rtp_warm_ttl_days :: int
  rtp_cold_ttl_days :: int
  rtp_archive_ttl_days :: int
  rtp_compress_after_days :: int
  rtp_compression_algorithm :: string
  rtp_immutable_after_days :: int

definition default_retention_policy :: "string \<Rightarrow> retention_policy" where
  "default_retention_policy i =
     \<lparr>rtp_policy_id = i, rtp_hot_ttl_days = 7, rtp_warm_ttl_days = 30, rtp_cold_ttl_days = 90,
      rtp_archive_ttl_days = 365, rtp_compress_after_days = 14, rtp_compression_algorithm = ''zstd'',
      rtp_immutable_after_days = 30\<rparr>"

definition classify_age :: "retention_policy \<Rightarrow> rat \<Rightarrow> retention_class" where
  "classify_age pol age_days =
     (if age_days \<le> of_int (rtp_hot_ttl_days pol) then Hot
      else if age_days \<le> of_int (rtp_warm_ttl_days pol) then Warm
      else if age_days \<le> of_int (rtp_cold_ttl_days pol) then Cold
      else Archive)"

section \<open>The registry\<close>

type_synonym snap_key = "string \<times> string \<times> snapshot_type"

record snap_registry =
  sng_registry_id :: string
  sng_chains :: "(snap_key, snap_chain) dict"
  sng_artifacts :: "(string, snap_artifact) dict"
  sng_sequence_counter :: int
  sng_default_retention :: retention_policy
  sng_registry_hash :: string

definition new_snap_registry :: "string \<Rightarrow> snap_registry" where
  "new_snap_registry i =
     \<lparr>sng_registry_id = i, sng_chains = [], sng_artifacts = [], sng_sequence_counter = 0,
      sng_default_retention = default_retention_policy ''default'', sng_registry_hash = []\<rparr>"

definition snap_rehash :: "(string \<Rightarrow> string) \<Rightarrow> snap_registry \<Rightarrow> snap_registry" where
  "snap_rehash sha256 reg = reg\<lparr>sng_registry_hash := sha256 (dumps_compact (PDict
     [(''registry_id'', PStr (sng_registry_id reg)), (''artifact_count'', PInt (int (length (sng_artifacts reg)))),
      (''chain_count'', PInt (int (length (sng_chains reg)))), (''sequence'', PInt (sng_sequence_counter reg))]))\<rparr>"

definition snap_key_of :: "snap_artifact \<Rightarrow> snap_key" where
  "snap_key_of a = (artifact_tenant_id a, artifact_source_id a, artifact_snapshot_type a)"

definition new_chain :: "py_datetime \<Rightarrow> snap_artifact \<Rightarrow> snap_chain" where
  "new_chain now a =
     \<lparr>snc_chain_id = ''chain_'' @ artifact_tenant_id a @ ''_'' @ artifact_source_id a @ ''_''
        @ snapshot_type_value (artifact_snapshot_type a),
      snc_tenant_id = artifact_tenant_id a, snc_source_id = artifact_source_id a,
      snc_snapshot_type = artifact_snapshot_type a, snc_snapshot_ids = [], snc_snapshot_hashes = [],
      snc_head_snapshot_id = None, snc_head_snapshot_hash = [], snc_created_at = now\<rparr>"

text \<open>The ordering check against the head of the chain, made when the head id is a non-empty string.\<close>

definition check_order :: "(string, snap_artifact) dict \<Rightarrow> snap_chain \<Rightarrow> snap_artifact \<Rightarrow> unit result" where
  "check_order artifacts c a =
     (case snc_head_snapshot_id c of
        None \<Rightarrow> Inr ()
      | Some h \<Rightarrow>
          if h = [] then Inr ()
          else res_bind (dict_index artifacts h) (\<lambda>head_artifact.
            if marker_lt (sna_timestamp_marker a) (sna_timestamp_marker head_artifact)
            then Inl ClockOrderViolationError else Inr ()))"

definition snap_store :: "(string \<Rightarrow> string) \<Rightarrow> py_datetime \<Rightarrow> snap_registry \<Rightarrow> snap_artifact \<Rightarrow>
    snap_registry \<times> snap_artifact result" where
  "snap_store sha256 now reg a =
     (let key = snap_key_of a;
          (chain, reg1) = (case map_of (sng_chains reg) key of
             Some c \<Rightarrow> (c, reg)
           | None \<Rightarrow> (new_chain now a, reg\<lparr>sng_chains := dict_set (sng_chains reg) key (new_chain now a)\<rparr>))
      in case check_order (sng_artifacts reg1) chain a of
           Inl e \<Rightarrow> (reg1, Inl e)
         | Inr _ \<Rightarrow>
             (case chain_append chain a of
                Inl e \<Rightarrow> (reg1, Inl e)
              | Inr chain' \<Rightarrow>
                  (snap_rehash sha256 (reg1
                     \<lparr>sng_chains := dict_set (sng_chains reg1) key chain',
                      sng_artifacts := dict_set (sng_artifacts reg1) (sna_snapshot_id a) a,
                      sng_sequence_counter := sng_sequence_counter reg1 + 1\<rparr>), Inr a)))"

definition snap_get :: "snap_registry \<Rightarrow> string \<Rightarrow> snap_artifact option" where
  "snap_get reg i = map_of (sng_artifacts reg) i"


definition chain_selected :: "string \<Rightarrow> string option \<Rightarrow> snapshot_type option \<Rightarrow> snap_key \<Rightarrow> bool" where
  "chain_selected tenant_id source_id ty k =
     (case k of (t_id, s_id, s_type) \<Rightarrow>
        t_id = tenant_id \<and> (source_id \<noteq> None \<longrightarrow> Some s_id = source_id) \<and> (ty \<noteq> None \<longrightarrow> Some s_type = ty))"

definition artifact_selected :: "string option \<Rightarrow> timestamp_marker option \<Rightarrow> timestamp_marker option \<Rightarrow> snap_artifact \<Rightarrow> bool" where
  "artifact_selected domain after_marker before_marker a \<longleftrightarrow>
     (domain \<noteq> None \<longrightarrow> Some (spl_domain (sna_payload a)) = domain) \<and>
     (case after_marker of None \<Rightarrow> True | Some m \<Rightarrow> \<not> marker_le (sna_timestamp_marker a) m) \<and>
     (case before_marker of None \<Rightarrow> True | Some m \<Rightarrow> \<not> marker_le m (sna_timestamp_marker a))"

definition artifact_order :: "snap_artifact \<Rightarrow> string" where
  "artifact_order a = ordering_key (sna_timestamp_marker a)"

definition list_snapshots :: "snap_registry \<Rightarrow> string \<Rightarrow> string option \<Rightarrow> snapshot_type option \<Rightarrow> string option \<Rightarrow>
    timestamp_marker option \<Rightarrow> timestamp_marker option \<Rightarrow> int \<Rightarrow> snap_artifact list result" where
  "list_snapshots reg tenant_id source_id ty domain after_marker before_marker limit =
     res_bind (res_map (dict_index (sng_artifacts reg))
         (concat (map (\<lambda>(k, c). snc_snapshot_ids c)
           (filter (\<lambda>(k, c). chain_selected tenant_id source_id ty k) (sng_chains reg))))) (\<lambda>artifacts.
       Inr (py_head limit (sort_key artifact_order (filter (artifact_selected domain after_marker before_marker) artifacts))))"


definition age_days :: "py_datetime \<Rightarrow> snap_artifact \<Rightarrow> rat" where
  "age_days now a = (timestamp now - timestamp (wall_time (sna_timestamp_marker a))) / 86400"

definition apply_retention :: "snap_registry \<Rightarrow> string \<Rightarrow> retention_policy option \<Rightarrow> py_datetime \<Rightarrow>
    (string \<times> retention_class \<times> retention_class) list result" where
  "apply_retention reg tenant_id retention_policy now =
     (let pol = (case retention_policy of None \<Rightarrow> sng_default_retention reg | Some p \<Rightarrow> p);
          ids = concat (map (\<lambda>(k, c). snc_snapshot_ids c) (filter (\<lambda>(k, c). fst k = tenant_id) (sng_chains reg)))
      in res_bind (res_map (\<lambda>i. res_bind (dict_index (sng_artifacts reg) i) (\<lambda>a. Inr (i, a))) ids) (\<lambda>ias.
           Inr (concat (map (\<lambda>(i, a).
             let new_class = classify_age pol (age_days now a)
             in if new_class \<noteq> sna_retention_class a then [(i, sna_retention_class a, new_class)] else []) ias))))"

definition chain_integrity_errors :: "(string \<Rightarrow> string) \<Rightarrow> (string, snap_artifact) dict \<Rightarrow> snap_chain \<Rightarrow> string list" where
  "chain_integrity_errors sha256 artifacts c =
     (if length (snc_snapshot_ids c) \<noteq> length (snc_snapshot_hashes c)
      then [''Chain '' @ snc_chain_id c @ '': id/hash count mismatch''] else []) @
     concat (map (\<lambda>i. case map_of artifacts i of
         None \<Rightarrow> [''Missing artifact for snapshot_id '' @ i]
       | Some a \<Rightarrow> if compute_artifact_hash sha256 a \<noteq> sna_artifact_hash a
                   then [''Artifact '' @ i @ '': hash mismatch (tampered)''] else []) (snc_snapshot_ids c))"

definition snap_verify_integrity :: "(string \<Rightarrow> string) \<Rightarrow> snap_registry \<Rightarrow> bool \<times> string list" where
  "snap_verify_integrity sha256 reg =
     (let errors = concat (map (\<lambda>(k, c). chain_integrity_errors sha256 (sng_artifacts reg) c) (sng_chains reg))
      in (errors = [], errors))"


section \<open>The history as specification\<close>

text \<open>The artifacts of a history that belong to one chain, and the chain that records them.\<close>

definition chain_of :: "snap_artifact list \<Rightarrow> snap_key \<Rightarrow> snap_artifact list" where
  "chain_of H k = filter (\<lambda>a. snap_key_of a = k) H"

definition chain_matches :: "snap_key \<Rightarrow> snap_artifact list \<Rightarrow> snap_chain \<Rightarrow> bool" where
  "chain_matches k xs c \<longleftrightarrow>
     (snc_tenant_id c, snc_source_id c, snc_snapshot_type c) = k \<and>
     snc_snapshot_ids c = map sna_snapshot_id xs \<and> snc_snapshot_hashes c = map sna_artifact_hash xs \<and>
     snc_head_snapshot_id c = (if xs = [] then None else Some (sna_snapshot_id (last xs))) \<and>
     snc_head_snapshot_hash c = (if xs = [] then [] else sna_artifact_hash (last xs))"

definition snap_inv :: "snap_artifact list \<Rightarrow> snap_registry \<Rightarrow> bool" where
  "snap_inv H reg \<longleftrightarrow>
     dict_wf (sng_chains reg) \<and>
     sng_artifacts reg = map (\<lambda>a. (sna_snapshot_id a, a)) H \<and> distinct (map sna_snapshot_id H) \<and>
     [] \<notin> sna_snapshot_id ` set H \<and>
     (\<forall>a \<in> set H. snap_key_of a \<in> dom (map_of (sng_chains reg))) \<and>
     (\<forall>k c. map_of (sng_chains reg) k = Some c \<longrightarrow> chain_matches k (chain_of H k) c)"

text \<open>What a store checks of a new artifact.\<close>

definition continues :: "snap_artifact list \<Rightarrow> snap_artifact \<Rightarrow> bool" where
  "continues H a \<longleftrightarrow>
     (let xs = chain_of H (snap_key_of a) in
      xs \<noteq> [] \<longrightarrow> sna_previous_snapshot_hash a = sna_artifact_hash (last xs) \<and> artifact_order (last xs) \<le> artifact_order a)"

lemma chain_of_snoc: "chain_of (H @ [a]) k = chain_of H k @ (if snap_key_of a = k then [a] else [])"
  by (simp add: chain_of_def)

lemma chain_of_Nil [simp]: "chain_of [] k = []"
  by (simp add: chain_of_def)

lemma set_chain_of: "set (chain_of H k) = {a \<in> set H. snap_key_of a = k}"
  by (simp add: chain_of_def)

lemma snap_inv_new [simp]: "snap_inv [] (new_snap_registry i)"
  by (simp add: snap_inv_def new_snap_registry_def)

lemma snap_inv_lookup:
  assumes "snap_inv H reg" "a \<in> set H"
  shows "map_of (sng_artifacts reg) (sna_snapshot_id a) = Some a"
  using assms find_distinct_key [of sna_snapshot_id H a] by (simp add: snap_inv_def map_of_keyed)

lemma snap_inv_chain: "snap_inv H reg \<Longrightarrow> map_of (sng_chains reg) k = Some c \<Longrightarrow> chain_matches k (chain_of H k) c"
  unfolding snap_inv_def by blast

lemma new_chain_matches: "chain_matches (snap_key_of a) [] (new_chain now a)"
  by (simp add: chain_matches_def new_chain_def snap_key_of_def)

lemma chain_append_matches:
  assumes "chain_matches (snap_key_of a) xs c"
  shows "xs \<noteq> [] \<Longrightarrow> sna_previous_snapshot_hash a \<noteq> sna_artifact_hash (last xs) \<Longrightarrow> chain_append c a = Inl HashChainBreakError"
    and "(xs \<noteq> [] \<Longrightarrow> sna_previous_snapshot_hash a = sna_artifact_hash (last xs)) \<Longrightarrow>
       \<exists>c'. chain_append c a = Inr c' \<and> chain_matches (snap_key_of a) (xs @ [a]) c'"
  using assms by (auto simp: chain_append_def chain_matches_def snap_key_of_def last_map) (metis last_map)

lemma check_order_matches:
  assumes "snap_inv H reg" "chain_matches (snap_key_of a) (chain_of H (snap_key_of a)) c"
  shows "check_order (sng_artifacts reg) c a =
    (if chain_of H (snap_key_of a) \<noteq> [] \<and> artifact_order a < artifact_order (last (chain_of H (snap_key_of a)))
     then Inl ClockOrderViolationError else Inr ())"
proof (cases "chain_of H (snap_key_of a) = []")
  case True
  with assms(2) show ?thesis by (simp add: check_order_def chain_matches_def)
next
  case False
  let ?l = "last (chain_of H (snap_key_of a))"
  have "?l \<in> set H" using last_in_set [OF False] by (simp add: set_chain_of)
  with snap_inv_lookup [OF assms(1) this] assms False have "sna_snapshot_id ?l \<noteq> []"
    "dict_index (sng_artifacts reg) (sna_snapshot_id ?l) = Inr ?l"
    by (force simp: snap_inv_def, simp add: dict_index_def)
  with False assms(2) show ?thesis by (simp add: check_order_def chain_matches_def marker_lt_def artifact_order_def)
qed

text \<open>Inserting the empty chain of a new key, which happens before the checks, changes nothing of the history.\<close>

lemma snap_inv_touch:
  assumes "snap_inv H reg" "map_of (sng_chains reg) (snap_key_of a) = None"
  shows "snap_inv H (reg\<lparr>sng_chains := dict_set (sng_chains reg) (snap_key_of a) (new_chain now a)\<rparr>)"
    and "chain_of H (snap_key_of a) = []"
proof -
  have "snap_key_of x \<noteq> snap_key_of a" if "x \<in> set H" for x
    using assms that unfolding snap_inv_def by (metis domIff)
  then show e: "chain_of H (snap_key_of a) = []" by (simp add: chain_of_def filter_empty_conv)
  have "map_of (dict_set (sng_chains reg) (snap_key_of a) (new_chain now a)) k = Some c \<Longrightarrow> chain_matches k (chain_of H k) c" for k c
    using assms(1) e new_chain_matches [of a now] unfolding snap_inv_def dict_simps by (metis fun_upd_apply option.inject)
  then show "snap_inv H (reg\<lparr>sng_chains := dict_set (sng_chains reg) (snap_key_of a) (new_chain now a)\<rparr>)"
    using assms(1) unfolding snap_inv_def by (simp add: dict_simps)
qed

lemma snap_inv_push:
  assumes "snap_inv H reg" "map_of (sng_chains reg) (snap_key_of a) = Some c"
    and "chain_matches (snap_key_of a) (chain_of H (snap_key_of a) @ [a]) c'"
    and "sna_snapshot_id a \<notin> sna_snapshot_id ` set H" "sna_snapshot_id a \<noteq> []"
  shows "snap_inv (H @ [a]) (snap_rehash sha256 (reg
    \<lparr>sng_chains := dict_set (sng_chains reg) (snap_key_of a) c',
     sng_artifacts := dict_set (sng_artifacts reg) (sna_snapshot_id a) a,
     sng_sequence_counter := n\<rparr>))"
proof -
  have "map_of (sng_artifacts reg) (sna_snapshot_id a) = None"
    using assms(1,4) by (simp add: snap_inv_def map_of_eq_None_iff image_image)
  then have arts: "dict_set (sng_artifacts reg) (sna_snapshot_id a) a = map (\<lambda>a. (sna_snapshot_id a, a)) (H @ [a])"
    using assms(1) by (simp add: dict_set_absent snap_inv_def)
  have "map_of (dict_set (sng_chains reg) (snap_key_of a) c') k = Some d \<Longrightarrow> chain_matches k (chain_of (H @ [a]) k) d" for k d
    using snap_inv_chain [OF assms(1), of k d] assms(3) by (cases "k = snap_key_of a") (simp_all add: dict_simps chain_of_snoc)
  then show ?thesis
    using assms(1,2,4,5) arts by (auto simp: snap_inv_def snap_rehash_def dict_simps)
qed

lemma snap_store_step:
  assumes "snap_inv H reg" "sna_snapshot_id a \<notin> sna_snapshot_id ` set H" "sna_snapshot_id a \<noteq> []"
  shows "\<exists>reg'. (continues H a \<longrightarrow> snap_store sha256 now reg a = (reg', Inr a) \<and> snap_inv (H @ [a]) reg') \<and>
    (\<not> continues H a \<longrightarrow> snap_inv H reg' \<and>
       snap_store sha256 now reg a = (reg', Inl (if artifact_order a < artifact_order (last (chain_of H (snap_key_of a)))
         then ClockOrderViolationError else HashChainBreakError)))"
proof -
  obtain c reg1 where r: "(case map_of (sng_chains reg) (snap_key_of a) of
             Some c \<Rightarrow> (c, reg)
           | None \<Rightarrow> (new_chain now a, reg\<lparr>sng_chains := dict_set (sng_chains reg) (snap_key_of a) (new_chain now a)\<rparr>)) = (c, reg1)"
      "snap_inv H reg1" "map_of (sng_chains reg1) (snap_key_of a) = Some c"
    using snap_inv_touch(1) [OF assms(1), of a now] assms(1)
    by (cases "map_of (sng_chains reg) (snap_key_of a)") (auto simp: dict_simps)
  have m: "chain_matches (snap_key_of a) (chain_of H (snap_key_of a)) c"
    using r(2,3) by (rule snap_inv_chain)
  note o = check_order_matches [OF r(2) m] and p = chain_append_matches [OF m]
  show ?thesis
  proof (cases "continues H a")
    case True
    then obtain c' where c': "chain_append c a = Inr c'" "chain_matches (snap_key_of a) (chain_of H (snap_key_of a) @ [a]) c'"
      using p by (auto simp: continues_def Let_def)
    have "check_order (sng_artifacts reg1) c a = Inr ()" using True o by (auto simp: continues_def Let_def)
    with c' snap_inv_push [OF r(2,3) c'(2) assms(2,3)] True show ?thesis
      by (simp add: snap_store_def r(1))
  next
    case False
    then show ?thesis
      using o p r(2) by (auto simp: snap_store_def r(1) continues_def Let_def not_less)
  qed
qed

section \<open>Runs\<close>

text \<open>Stores in sequence, with the history of the accepted artifacts.\<close>

fun store_step :: "(string \<Rightarrow> string) \<Rightarrow> snap_registry \<times> snap_artifact list \<Rightarrow> py_datetime \<times> snap_artifact \<Rightarrow>
    snap_registry \<times> snap_artifact list" where
  "store_step sha256 (reg, H) (now, a) =
     (case snap_store sha256 now reg a of (reg', Inl _) \<Rightarrow> (reg', H) | (reg', Inr b) \<Rightarrow> (reg', H @ [b]))"

definition store_all :: "(string \<Rightarrow> string) \<Rightarrow> string \<Rightarrow> (py_datetime \<times> snap_artifact) list \<Rightarrow>
    snap_registry \<times> snap_artifact list" where
  "store_all sha256 i ops = foldl (store_step sha256) (new_snap_registry i, []) ops"

definition fresh_ids :: "(py_datetime \<times> snap_artifact) list \<Rightarrow> bool" where
  "fresh_ids ops \<longleftrightarrow> distinct (map (sna_snapshot_id \<circ> snd) ops) \<and> [] \<notin> set (map (sna_snapshot_id \<circ> snd) ops)"

text \<open>The accepted part of a sequence of artifacts, by the specification alone.\<close>

definition accepted :: "snap_artifact list \<Rightarrow> snap_artifact list" where
  "accepted as = foldl (\<lambda>H a. if continues H a then H @ [a] else H) [] as"

lemma accepted_subset: "set (accepted as) \<subseteq> set as"
  by (induction as rule: rev_induct) (auto simp: accepted_def)

lemma store_all_inv:
  assumes "fresh_ids ops"
  shows "snap_inv (accepted (map snd ops)) (fst (store_all sha256 i ops)) \<and>
    snd (store_all sha256 i ops) = accepted (map snd ops)"
  using assms
proof (induction ops rule: rev_induct)
  case Nil
  show ?case by (simp add: store_all_def accepted_def)
next
  case (snoc op ops)
  obtain now a where op: "op = (now, a)" by fastforce
  let ?H = "accepted (map snd ops)"
  have f: "fresh_ids ops" using snoc.prems by (simp add: fresh_ids_def)
  have id: "sna_snapshot_id a \<notin> sna_snapshot_id ` set ?H" "sna_snapshot_id a \<noteq> []"
    using snoc.prems accepted_subset [of "map snd ops"] by (auto simp: fresh_ids_def op)
  have acc: "accepted (map snd (ops @ [op])) = (if continues ?H a then ?H @ [a] else ?H)"
    by (simp add: accepted_def op)
  obtain reg where reg: "store_all sha256 i ops = (reg, ?H)" "snap_inv ?H reg"
    using snoc.IH [OF f] by (cases "store_all sha256 i ops") auto
  have "store_all sha256 i (ops @ [op]) = store_step sha256 (reg, ?H) (now, a)"
    using reg(1) by (simp add: store_all_def op)
  with snap_store_step [OF reg(2) id, of sha256 now] acc show ?case by auto
qed

section \<open>Chains and listings of a history\<close>



lemma mset_concat_chains:
  "distinct ks \<Longrightarrow> mset (concat (map (chain_of H) ks)) = mset (filter (\<lambda>a. snap_key_of a \<in> set ks) H)"
proof (induction ks)
  case (Cons k ks)
  have "mset (filter (\<lambda>a. snap_key_of a = k) H) + mset (filter (\<lambda>a. snap_key_of a \<in> set ks) H) =
      mset (filter (\<lambda>a. snap_key_of a = k \<or> snap_key_of a \<in> set ks) H)"
    using Cons.prems by (induction H) auto
  with Cons show ?case by (simp add: chain_of_def)
qed simp

lemma index_history:
  assumes "snap_inv H reg" "set xs \<subseteq> set H"
  shows "res_map (dict_index (sng_artifacts reg)) (map sna_snapshot_id xs) = Inr xs"
  using assms(2)
proof (induction xs)
  case (Cons x xs)
  then show ?case using snap_inv_lookup [OF assms(1), of x] by (simp add: dict_index_def)
qed simp

lemma selected_ids:
  assumes "snap_inv H reg" "set cs \<subseteq> set (sng_chains reg)"
  shows "concat (map (\<lambda>(k, c). snc_snapshot_ids c) cs) = map sna_snapshot_id (concat (map (chain_of H) (map fst cs)))"
  using assms(2)
proof (induction cs)
  case (Cons kc cs)
  obtain k c where kc: "kc = (k, c)" by fastforce
  have "map_of (sng_chains reg) k = Some c"
    using Cons.prems assms(1) by (simp add: kc snap_inv_def dict_wf_def)
  from snap_inv_chain [OF assms(1) this] Cons show ?case by (simp add: kc chain_matches_def)
qed simp

lemma selected_history:
  fixes P :: "snap_key \<Rightarrow> bool"
  assumes "snap_inv H reg"
  defines "cs \<equiv> filter (\<lambda>(k, c). P k) (sng_chains reg)"
  shows "mset (concat (map (chain_of H) (map fst cs))) = mset (filter (\<lambda>a. P (snap_key_of a)) H)"
proof -
  have "distinct (map fst cs)" using assms by (simp add: cs_def snap_inv_def dict_wf_def distinct_map_filter)
  moreover have "snap_key_of a \<in> set (map fst cs) \<longleftrightarrow> P (snap_key_of a)" if "a \<in> set H" for a
  proof -
    have "snap_key_of a \<in> dom (map_of (sng_chains reg))" using assms(1) that unfolding snap_inv_def by blast
    then have "snap_key_of a \<in> fst ` set (sng_chains reg)" by (simp only: dom_map_of_conv_image_fst)
    then show ?thesis by (auto simp: cs_def)
  qed
  ultimately show ?thesis by (simp only: mset_concat_chains cong: filter_cong)
qed

lemma filter_dict_set: "\<not> P k \<Longrightarrow> filter (\<lambda>(k, c). P k) (dict_set d k v) = filter (\<lambda>(k, c). P k) d"
  by (induction d k v rule: dict_set.induct) auto

lemma py_head_all: "int (length xs) \<le> n \<Longrightarrow> py_head n xs = xs"
  by (simp add: py_head_def)

section \<open>Properties\<close>






definition sample_snapshot :: "string \<Rightarrow> string \<Rightarrow> nat \<Rightarrow> string \<Rightarrow> snap_artifact" where
  "sample_snapshot t i n prev = artifact_post_init (\<lambda>s. CHR ''h'' # s)
     \<lparr>sna_snapshot_id = i, sna_base_snapshot_id = None,
      sna_timestamp_marker = make_marker id (DateTime 2025 1 1 0 0 0 0) n ''c'',
      sna_payload = \<lparr>spl_snapshot_type = STATE, spl_tenant_id = t, spl_source_id = ''s'', spl_domain = ''general'',
        spl_data = [], spl_capture_metadata = []\<rparr>,
      sna_payload_hash = [], sna_artifact_hash = [], sna_previous_snapshot_hash = prev,
      sna_compression = ''none'', sna_retention_class = Hot\<rparr>"

definition example_stores :: "(py_datetime \<times> snap_artifact) list" where
  "example_stores =
     [(DateTime 2025 1 1 0 0 0 0, sample_snapshot ''t'' ''a'' 1 []),
      (DateTime 2025 1 1 0 0 0 0, sample_snapshot ''t'' ''b'' 1 (sna_artifact_hash (sample_snapshot ''t'' ''a'' 1 [])))]"

abbreviation example_stored :: "snap_registry \<times> snap_artifact list" where
  "example_stored \<equiv> store_all (\<lambda>s. CHR ''h'' # s) ''r'' example_stores"

lemma sample_snapshot_fields [simp]:
  "sna_snapshot_id (sample_snapshot t i n prev) = i" "artifact_tenant_id (sample_snapshot t i n prev) = t"
  "snap_key_of (sample_snapshot t i n prev) = (t, ''s'', STATE)"
  "sna_previous_snapshot_hash (sample_snapshot t i n prev) = prev"
  "artifact_order (sample_snapshot t i n prev) = ordering_key (make_marker id (DateTime 2025 1 1 0 0 0 0) n ''c'')"
  by (simp_all add: sample_snapshot_def artifact_post_init_def artifact_tenant_id_def snap_key_of_def
      artifact_source_id_def artifact_snapshot_type_def artifact_order_def Let_def)

lemma example_fresh: "fresh_ids example_stores"
  by (simp add: fresh_ids_def example_stores_def)

lemma example_accepted: "accepted (map snd example_stores) = map snd example_stores"
  by (simp add: accepted_def example_stores_def continues_def chain_of_def)


lemma example_history: "snd example_stored = map snd example_stores"
  using store_all_inv [OF example_fresh] example_accepted by metis

text \<open>
  On such a registry a listing never raises. It returns the accepted artifacts of the
  tenant, and of no other tenant, that match the given source, type, domain and strict time bounds, in the
  order of their timestamp keys and cut to the limit.
\<close>

theorem snapshot_listing:
  assumes "fresh_ids ops" "store_all sha256 i ops = (reg, H)"
  shows "\<exists>rs. list_snapshots reg t src ty dm after before limit = Inr (py_head limit rs) \<and>
    sorted (map artifact_order rs) \<and>
    mset rs = mset (filter (\<lambda>a. artifact_tenant_id a = t \<and> (\<forall>s. src = Some s \<longrightarrow> artifact_source_id a = s) \<and>
      (\<forall>y. ty = Some y \<longrightarrow> artifact_snapshot_type a = y) \<and> artifact_selected dm after before a) H)"
proof -
  have inv: "snap_inv H reg" using store_all_inv [OF assms(1), of sha256 i] assms(2) by auto
  let ?cs = "filter (\<lambda>(k, c). chain_selected t src ty k) (sng_chains reg)"
  let ?xs = "concat (map (chain_of H) (map fst ?cs))"
  let ?S = "artifact_selected dm after before"
  have ids: "concat (map (\<lambda>(k, c). snc_snapshot_ids c) ?cs) = map sna_snapshot_id ?xs"
    by (rule selected_ids [OF inv]) auto
  have "set ?xs \<subseteq> set H" by (auto simp: chain_of_def)
  note idx = index_history [OF inv this]
  have "list_snapshots reg t src ty dm after before limit = Inr (py_head limit (sort_key artifact_order (filter ?S ?xs)))"
    unfolding list_snapshots_def ids idx by simp
  moreover have "mset (sort_key artifact_order (filter ?S ?xs)) =
      mset (filter ?S (filter (\<lambda>a. chain_selected t src ty (snap_key_of a)) H))"
    using selected_history [OF inv, of "chain_selected t src ty"] by (simp only: mset_sort mset_filter)
  moreover have "filter ?S (filter (\<lambda>a. chain_selected t src ty (snap_key_of a)) H) =
      filter (\<lambda>a. artifact_tenant_id a = t \<and> (\<forall>s. src = Some s \<longrightarrow> artifact_source_id a = s) \<and>
        (\<forall>y. ty = Some y \<longrightarrow> artifact_snapshot_type a = y) \<and> ?S a) H"
    by (auto simp: chain_selected_def snap_key_of_def intro!: filter_cong)
  moreover have "sorted (map artifact_order (sort_key artifact_order (filter ?S ?xs)))" by (rule sorted_sort_key)
  ultimately show ?thesis by (intro exI [of _ "sort_key artifact_order (filter ?S ?xs)"] conjI) (simp_all only:)
qed

theorem snapshot_listing_witness:
  "\<exists>rs. list_snapshots (fst example_stored) ''u'' None None None None None 100 = Inr (py_head 100 rs) \<and> rs = []"
  using snapshot_listing [OF example_fresh surjective_pairing, of "\<lambda>s. CHR ''h'' # s" "''r''" "''u''" None None None None None 100]
  unfolding example_history by (simp add: example_stores_def)

text \<open>
  An artifact with a fresh id is stored exactly when it starts its chain or
  continues it; otherwise the store raises \<open>ClockOrderViolationError\<close> if it precedes the head and
  \<open>HashChainBreakError\<close> if only its back link is wrong. The first artifact of a chain may name any
  predecessor. A refused artifact leaves every stored one and every listing as it was.
\<close>

theorem snapshot_store_verdict:
  assumes "fresh_ids (ops @ [(now, a)])" "store_all sha256 i ops = (reg, H)" "snap_store sha256 now reg a = (reg', res)"
  shows "let xs = chain_of H (snap_key_of a) in
    if xs = [] \<or> artifact_order (last xs) \<le> artifact_order a \<and> sna_previous_snapshot_hash a = sna_artifact_hash (last xs)
    then res = Inr a \<and> sng_artifacts reg' = sng_artifacts reg @ [(sna_snapshot_id a, a)]
    else res = Inl (if artifact_order a < artifact_order (last xs) then ClockOrderViolationError else HashChainBreakError) \<and>
      sng_artifacts reg' = sng_artifacts reg"
proof -
  have f: "fresh_ids ops" using assms(1) by (simp add: fresh_ids_def)
  have inv: "snap_inv H reg" "H = accepted (map snd ops)" using store_all_inv [OF f, of sha256 i] assms(2) by auto
  have id: "sna_snapshot_id a \<notin> sna_snapshot_id ` set H" "sna_snapshot_id a \<noteq> []"
    using assms(1) accepted_subset [of "map snd ops"] by (auto simp: fresh_ids_def inv(2))
  have eq: "snap_inv H r \<Longrightarrow> sng_artifacts r = map (\<lambda>a. (sna_snapshot_id a, a)) H" for H r by (simp add: snap_inv_def)
  show ?thesis
    using snap_store_step [OF inv(1) id, of sha256 now] assms(3) eq [OF inv(1)] eq
    by (auto simp: continues_def Let_def)
qed

theorem snapshot_store_verdict_witness:
  "snd (snap_store (\<lambda>s. CHR ''h'' # s) (DateTime 2025 1 1 0 0 0 0) (fst example_stored) (sample_snapshot ''t'' ''c'' 1 ''x'')) =
     Inl HashChainBreakError"
proof -
  let ?a = "sample_snapshot ''t'' ''c'' 1 ''x''" and ?now = "DateTime 2025 1 1 0 0 0 0"
  have f: "fresh_ids (example_stores @ [(?now, ?a)])" by (simp add: fresh_ids_def example_stores_def)
  have c: "chain_of (snd example_stored) (snap_key_of ?a) = map snd example_stores"
    unfolding example_history by (simp add: chain_of_def example_stores_def)
  have "sna_artifact_hash (last (map snd example_stores)) \<noteq> ''x''"
    by (simp add: example_stores_def sample_snapshot_def artifact_post_init_def compute_artifact_hash_def Let_def)
  with snapshot_store_verdict [OF f surjective_pairing surjective_pairing, of "\<lambda>s. CHR ''h'' # s" "''r''"] show ?thesis
    unfolding c by (simp add: example_stores_def Let_def)
qed

text \<open>
  Tenant isolation rests on fresh ids. If another tenant stores an artifact under the
  id of a listed one, the store succeeds on that tenant's new chain, and from then on both \<open>get\<close> and the
  listing of the first tenant return the other tenant's artifact.
\<close>

theorem snapshot_id_reuse:
  assumes "fresh_ids ops" "store_all sha256 i ops = (reg, H)" "a \<in> set H"
    and "sna_snapshot_id b = sna_snapshot_id a" "artifact_tenant_id b \<noteq> artifact_tenant_id a"
    and "chain_of H (snap_key_of b) = []"
  shows "\<exists>reg' rs. snap_store sha256 now reg b = (reg', Inr b) \<and> snap_get reg' (sna_snapshot_id a) = Some b \<and>
    list_snapshots reg' (artifact_tenant_id a) None None None None None (int (length H)) = Inr rs \<and> b \<in> set rs"
proof -
  have inv: "snap_inv H reg" using store_all_inv [OF assms(1), of sha256 i] assms(2) by auto
  obtain c where c: "map_of (sng_chains reg) (snap_key_of b) = None \<and> c = new_chain now b \<or>
      map_of (sng_chains reg) (snap_key_of b) = Some c" by (cases "map_of (sng_chains reg) (snap_key_of b)") auto
  then have m: "chain_matches (snap_key_of b) [] c"
    using snap_inv_chain [OF inv, of "snap_key_of b" c] assms(6) new_chain_matches [of b now] by auto
  obtain c' where c': "chain_append c b = Inr c'" "snc_snapshot_ids c' = [sna_snapshot_id b]"
    using chain_append_matches(2) [OF m] by (auto simp: chain_matches_def)
  have o: "check_order (sng_artifacts reg) c b = Inr ()" using m by (simp add: check_order_def chain_matches_def)
  have nsel: "\<not> chain_selected (artifact_tenant_id a) None None (snap_key_of b)"
    using assms(5) by (simp add: chain_selected_def snap_key_of_def)
  define reg' where "reg' = fst (snap_store sha256 now reg b)"
  have s: "snap_store sha256 now reg b = (reg', Inr b)"
    "sng_artifacts reg' = dict_set (sng_artifacts reg) (sna_snapshot_id a) b"
    "filter (\<lambda>(k, c). chain_selected (artifact_tenant_id a) None None k) (sng_chains reg') =
     filter (\<lambda>(k, c). chain_selected (artifact_tenant_id a) None None k) (sng_chains reg)"
    using c c'(1) o assms(4) unfolding reg'_def
    by (auto simp: snap_store_def snap_rehash_def Let_def nsel filter_dict_set
        [where P = "chain_selected (artifact_tenant_id a) None None"])
  let ?cs = "filter (\<lambda>(k, c). chain_selected (artifact_tenant_id a) None None k) (sng_chains reg)"
  let ?xs = "concat (map (chain_of H) (map fst ?cs))"
  have h: "mset ?xs = mset (filter (\<lambda>x. chain_selected (artifact_tenant_id a) None None (snap_key_of x)) H)"
    by (rule selected_history [OF inv])
  from h have "length ?xs = length (filter (\<lambda>x. chain_selected (artifact_tenant_id a) None None (snap_key_of x)) H)"
    by (rule mset_eq_length)
  then have len: "length ?xs \<le> length H" by (simp only: length_filter_le)
  have sub: "set ?xs \<subseteq> set H" by (auto simp: chain_of_def)
  have "a \<in> set ?xs" using mset_eq_setD [OF h] assms(3) by (auto simp: chain_selected_def snap_key_of_def)
  then have mem: "b \<in> set (map (\<lambda>x. the (map_of (sng_artifacts reg') (sna_snapshot_id x))) ?xs)"
    unfolding set_map by (rule rev_image_eqI) (simp add: s(2) dict_simps)
  have "res_map (dict_index (sng_artifacts reg')) (map sna_snapshot_id ?xs) =
      Inr (map (\<lambda>i. the (map_of (sng_artifacts reg') i)) (map sna_snapshot_id ?xs))"
  proof (rule res_map_Inr)
    fix j assume "j \<in> set (map sna_snapshot_id ?xs)"
    then obtain x where "j = sna_snapshot_id x" "x \<in> set H" using sub by auto
    with snap_inv_lookup [OF inv, of x] show "dict_index (sng_artifacts reg') j = Inr (the (map_of (sng_artifacts reg') j))"
      by (simp add: dict_index_def s(2) dict_simps)
  qed
  moreover have "concat (map (\<lambda>(k, c). snc_snapshot_ids c) ?cs) = map sna_snapshot_id ?xs"
    by (rule selected_ids [OF inv]) auto
  ultimately have "list_snapshots reg' (artifact_tenant_id a) None None None None None (int (length H)) =
      Inr (sort_key artifact_order (map (\<lambda>x. the (map_of (sng_artifacts reg') (sna_snapshot_id x))) ?xs))"
    using len by (simp add: list_snapshots_def s(3) artifact_selected_def comp_def py_head_all del: map_concat)
  moreover have "snap_get reg' (sna_snapshot_id a) = Some b" by (simp add: snap_get_def s(2) dict_simps)
  ultimately show ?thesis using s(1) mem by (metis set_sort)
qed

theorem snapshot_id_reuse_witness:
  "\<exists>reg' rs. list_snapshots reg' ''t'' None None None None None 2 = Inr rs \<and> sample_snapshot ''u'' ''a'' 1 [] \<in> set rs"
proof -
  have a: "sample_snapshot ''t'' ''a'' 1 [] \<in> set (snd example_stored)"
    unfolding example_history by (simp add: example_stores_def)
  have c: "chain_of (snd example_stored) (snap_key_of (sample_snapshot ''u'' ''a'' 1 [])) = []"
    unfolding example_history by (simp add: chain_of_def example_stores_def)
  have "int (length (snd example_stored)) = 2" unfolding example_history by (simp add: example_stores_def)
  with snapshot_id_reuse [OF example_fresh surjective_pairing a _ _ c] show ?thesis by (simp del: sample_snapshot_fields(3)) metis
qed

text \<open>The hash of an artifact covers the payload only through the stored payload hash, which nothing recomputes.\<close>

lemma payload_swap_undetected:
  assumes "map_of (sng_artifacts reg) i = Some a"
  shows "snap_verify_integrity sha256 (reg\<lparr>sng_artifacts := dict_set (sng_artifacts reg) i (a\<lparr>sna_payload := p\<rparr>)\<rparr>) =
    snap_verify_integrity sha256 reg"
proof -
  have "compute_artifact_hash sha256 (a\<lparr>sna_payload := p\<rparr>) = compute_artifact_hash sha256 a"
    by (simp add: compute_artifact_hash_def artifact_text_def artifact_hashed_def)
  then have "chain_integrity_errors sha256 (dict_set (sng_artifacts reg) i (a\<lparr>sna_payload := p\<rparr>)) c =
      chain_integrity_errors sha256 (sng_artifacts reg) c" for c
    unfolding chain_integrity_errors_def using assms
    by (auto simp: dict_simps intro!: arg_cong [where f = concat] map_cong)
  then show ?thesis by (simp add: snap_verify_integrity_def)
qed

end
