(* ===== verification/Mesh_Shards.thy ===== *)
theory Mesh_Shards
  imports Py_Json
begin

text \<open>
  The distributed shard coordinator of the mesh (\<open>pi_interoperability_layer/mesh/shard.py\<close>): workers are
  mapped to shards by the hash of their id, registered with a bound per shard, and executed in phases that
  all shards have to complete. A Python set of workers is the list of its elements in insertion order; what
  the coordinator returns is sorted. A digest is a parameter; \<open>int(h[:8], 16)\<close> reads hexadecimal digits only,
  all that a digest consists of.

  In every state the operations reach, a worker is in its assigned shard and in no other, no shard exceeds
  its bound, and the order of replay depends only on which workers are registered.
\<close>

section \<open>Partitioner\<close>

datatype shard_state = IDLE | ASSIGNED | EXECUTING | COMPLETED | FAILED

fun shard_state_value :: "shard_state \<Rightarrow> string" where
  "shard_state_value IDLE = ''idle''"
| "shard_state_value ASSIGNED = ''assigned''"
| "shard_state_value EXECUTING = ''executing''"
| "shard_state_value COMPLETED = ''completed''"
| "shard_state_value FAILED = ''failed''"

record shard_assignment =
  sas_worker_id :: string
  sas_shard_id :: string
  sas_assignment_hash :: string

definition assignment_hash :: "(string \<Rightarrow> string) \<Rightarrow> string \<Rightarrow> string \<Rightarrow> string" where
  "assignment_hash sha256 worker_id shard_id = sha256 (worker_id @ '':'' @ shard_id)"

record phase_boundary =
  pbd_phase :: string
  pbd_shard_id :: string
  pbd_worker_ids :: "string list"
  pbd_completed :: bool
  pbd_boundary_hash :: string

definition phase_boundary_hash :: "(string \<Rightarrow> string) \<Rightarrow> phase_boundary \<Rightarrow> string" where
  "phase_boundary_hash sha256 b = sha256 (pbd_phase b @ '':'' @ pbd_shard_id b @ '':''
     @ py_join '','' (sort (pbd_worker_ids b)) @ '':'' @ (if pbd_completed b then ''1'' else ''0''))"

record partitioner =
  prt_shard_count :: int
  prt_shard_ids :: "string list"

text \<open>A missing or empty list of ids is replaced by \<open>shard_0\<close>, \<open>shard_1\<close>, ...\<close>

definition new_partitioner :: "int \<Rightarrow> string list option \<Rightarrow> partitioner result" where
  "new_partitioner shard_count shard_ids =
     (let ids = (case shard_ids of
            Some (x # xs) \<Rightarrow> x # xs
          | _ \<Rightarrow> map (\<lambda>i. ''shard_'' @ show_nat i) [0..<nat shard_count])
      in if int (length ids) \<noteq> shard_count then Inl (ValueError ''shard_ids length must equal shard_count'')
         else Inr \<lparr>prt_shard_count = shard_count, prt_shard_ids = ids\<rparr>)"

definition read_hex :: "string \<Rightarrow> int result" where
  "read_hex s =
     (if s = [] then Inl (ValueError ''invalid literal for int() with base 16'')
      else foldl (\<lambda>acc c. res_bind acc (\<lambda>n.
             case hex_val c of None \<Rightarrow> Inl (ValueError ''invalid literal for int() with base 16'')
             | Some d \<Rightarrow> Inr (16 * n + int d))) (Inr 0) s)"

definition shard_assign :: "(string \<Rightarrow> string) \<Rightarrow> partitioner \<Rightarrow> string \<Rightarrow> shard_assignment result" where
  "shard_assign sha256 p worker_id =
     res_bind (read_hex (take 8 (sha256 worker_id))) (\<lambda>n.
       if prt_shard_count p = 0 then Inl ZeroDivisionError
       else
         (let shard_id = prt_shard_ids p ! nat (n mod prt_shard_count p)
          in Inr \<lparr>sas_worker_id = worker_id, sas_shard_id = shard_id,
                  sas_assignment_hash = assignment_hash sha256 worker_id shard_id\<rparr>))"

definition assign_all :: "(string \<Rightarrow> string) \<Rightarrow> partitioner \<Rightarrow> string list \<Rightarrow> (string, shard_assignment) dict result" where
  "assign_all sha256 p worker_ids =
     res_bind (res_map (\<lambda>w. res_bind (shard_assign sha256 p w) (\<lambda>a. Inr (w, a))) worker_ids) (\<lambda>was.
       Inr (dict_of_pairs was))"

section \<open>Coordinator\<close>

record mesh_coordinator =
  mco_partitioner :: partitioner
  mco_max_workers_per_shard :: int
  mco_shard_workers :: "(string, string list) dict"
  mco_shard_states :: "(string, shard_state) dict"
  mco_phase_boundaries :: "phase_boundary list"
  mco_execution_log :: "string list"
  mco_current_phase :: "string option"

definition new_mesh_coordinator :: "partitioner \<Rightarrow> int \<Rightarrow> mesh_coordinator" where
  "new_mesh_coordinator p max_workers =
     \<lparr>mco_partitioner = p, mco_max_workers_per_shard = max_workers,
      mco_shard_workers = dict_of_pairs (map (\<lambda>sid. (sid, [])) (prt_shard_ids p)),
      mco_shard_states = dict_of_pairs (map (\<lambda>sid. (sid, IDLE)) (prt_shard_ids p)),
      mco_phase_boundaries = [], mco_execution_log = [], mco_current_phase = None\<rparr>"

definition add_worker :: "string \<Rightarrow> string list \<Rightarrow> string list" where
  "add_worker w ws = (if w \<in> set ws then ws else ws @ [w])"

text \<open>The loop over the assignments; a full shard raises with the workers before it registered.\<close>

fun register_loop :: "mesh_coordinator \<Rightarrow> (string \<times> shard_assignment) list \<Rightarrow> mesh_coordinator \<times> unit result" where
  "register_loop co [] = (co, Inr ())"
| "register_loop co ((wid, a) # as) =
     (let shard = sas_shard_id a in
      case map_of (mco_shard_workers co) shard of
        None \<Rightarrow> (co, Inl (KeyError shard))
      | Some ws \<Rightarrow>
          if int (length ws) \<ge> mco_max_workers_per_shard co
          then (co, Inl (ValueError (''Shard '' @ shard @ '' exceeds max_workers_per_shard (''
                  @ show_int (mco_max_workers_per_shard co) @ '')'')))
          else register_loop (co\<lparr>mco_shard_workers := dict_set (mco_shard_workers co) shard (add_worker wid ws),
                 mco_execution_log := mco_execution_log co @ [''REGISTER '' @ wid @ '' -> '' @ shard]\<rparr>) as)"

definition register_workers :: "(string \<Rightarrow> string) \<Rightarrow> mesh_coordinator \<Rightarrow> string list \<Rightarrow>
    mesh_coordinator \<times> (string, shard_assignment) dict result" where
  "register_workers sha256 co worker_ids =
     (case assign_all sha256 (mco_partitioner co) worker_ids of
        Inl e \<Rightarrow> (co, Inl e)
      | Inr assignments \<Rightarrow>
          (case register_loop co assignments of
             (co', Inl e) \<Rightarrow> (co', Inl e)
           | (co', Inr _) \<Rightarrow> (co', Inr assignments)))"

definition set_states :: "shard_state \<Rightarrow> mesh_coordinator \<Rightarrow> (string, shard_state) dict" where
  "set_states s co = foldl (\<lambda>d sid. dict_set d sid s) (mco_shard_states co) (prt_shard_ids (mco_partitioner co))"

definition begin_phase :: "mesh_coordinator \<Rightarrow> string \<Rightarrow> mesh_coordinator" where
  "begin_phase co phase =
     co\<lparr>mco_current_phase := Some phase, mco_shard_states := set_states EXECUTING co,
        mco_execution_log := mco_execution_log co @ [''PHASE_BEGIN '' @ phase]\<rparr>"

definition mark_shard_completed :: "mesh_coordinator \<Rightarrow> string \<Rightarrow> mesh_coordinator \<times> unit result" where
  "mark_shard_completed co shard_id =
     (if \<not> dict_has (mco_shard_states co) shard_id then (co, Inl (KeyError (''Unknown shard: '' @ shard_id)))
      else (co\<lparr>mco_shard_states := dict_set (mco_shard_states co) shard_id COMPLETED,
               mco_execution_log := mco_execution_log co @ [''SHARD_COMPLETE '' @ shard_id]\<rparr>, Inr ()))"

definition can_advance_phase :: "mesh_coordinator \<Rightarrow> bool" where
  "can_advance_phase co = list_all (\<lambda>(sid, s). s = COMPLETED) (mco_shard_states co)"

definition all_workers :: "mesh_coordinator \<Rightarrow> string list" where
  "all_workers co = concat (map snd (mco_shard_workers co))"

definition advance_phase :: "(string \<Rightarrow> string) \<Rightarrow> mesh_coordinator \<Rightarrow> string \<Rightarrow> mesh_coordinator \<times> phase_boundary result" where
  "advance_phase sha256 co next_phase =
     (if \<not> can_advance_phase co then (co, Inl (RuntimeError ''Cannot advance: not all shards completed current phase''))
      else
        (let boundary0 = \<lparr>pbd_phase = (case mco_current_phase co of Some (c # cs) \<Rightarrow> c # cs | _ \<Rightarrow> ''INGEST''),
               pbd_shard_id = ''global'', pbd_worker_ids = sort (all_workers co), pbd_completed = True,
               pbd_boundary_hash = []\<rparr>;
             boundary = boundary0\<lparr>pbd_boundary_hash := phase_boundary_hash sha256 boundary0\<rparr>
         in (co\<lparr>mco_phase_boundaries := mco_phase_boundaries co @ [boundary],
                mco_execution_log := mco_execution_log co @
                  [''PHASE_ADVANCE '' @ pbd_phase boundary @ '' '' @ pbd_boundary_hash boundary],
                mco_shard_states := set_states IDLE co, mco_current_phase := Some next_phase\<rparr>, Inr boundary)))"

definition replay_sequence :: "mesh_coordinator \<Rightarrow> (string \<times> string list) list" where
  "replay_sequence co =
     filter (\<lambda>(sid, ws). ws \<noteq> [])
       (map (\<lambda>sid. (sid, sort (dict_get (mco_shard_workers co) sid []))) (sort (prt_shard_ids (mco_partitioner co))))"

definition get_shard_for_worker :: "mesh_coordinator \<Rightarrow> string \<Rightarrow> string result" where
  "get_shard_for_worker co worker_id =
     (case find (\<lambda>(sid, ws). worker_id \<in> set ws) (mco_shard_workers co) of
        None \<Rightarrow> Inl (KeyError (''Worker '' @ worker_id @ '' not registered''))
      | Some (sid, _) \<Rightarrow> Inr sid)"

definition verify_assignment_determinism :: "(string \<Rightarrow> string) \<Rightarrow> mesh_coordinator \<Rightarrow> string list \<Rightarrow> bool result" where
  "verify_assignment_determinism sha256 co worker_ids =
     res_bind (assign_all sha256 (mco_partitioner co) worker_ids) (\<lambda>first.
     res_bind (assign_all sha256 (mco_partitioner co) worker_ids) (\<lambda>second.
     res_bind (res_map (\<lambda>w. res_bind (dict_index first w) (\<lambda>a. res_bind (dict_index second w) (\<lambda>b.
         Inr (sas_shard_id a = sas_shard_id b \<and> sas_assignment_hash a = sas_assignment_hash b)))) worker_ids) (\<lambda>oks.
       Inr (list_all id oks))))"

definition mesh_snapshot :: "mesh_coordinator \<Rightarrow> payload" where
  "mesh_snapshot co =
     [(''shard_count'', PInt (prt_shard_count (mco_partitioner co))),
      (''shard_ids'', PList (map PStr (prt_shard_ids (mco_partitioner co)))),
      (''max_workers_per_shard'', PInt (mco_max_workers_per_shard co)),
      (''shard_workers'', PDict (map (\<lambda>(sid, ws). (sid, PList (map PStr (sort ws)))) (mco_shard_workers co))),
      (''shard_states'', PDict (map (\<lambda>(sid, s). (sid, PStr (shard_state_value s))) (mco_shard_states co))),
      (''current_phase'', case mco_current_phase co of Some (c # cs) \<Rightarrow> PStr (c # cs) | _ \<Rightarrow> PNone),
      (''phase_boundaries'', PList (map (\<lambda>b. PStr (pbd_boundary_hash b)) (mco_phase_boundaries co))),
      (''execution_log'', PList (map PStr (mco_execution_log co)))]"

section \<open>The invariant\<close>

definition assigned_shard :: "(string \<Rightarrow> string) \<Rightarrow> partitioner \<Rightarrow> string \<Rightarrow> string option" where
  "assigned_shard sha256 p w = (case shard_assign sha256 p w of Inl _ \<Rightarrow> None | Inr a \<Rightarrow> Some (sas_shard_id a))"

definition shard_workers :: "mesh_coordinator \<Rightarrow> string \<Rightarrow> string list" where
  "shard_workers co sid = dict_get (mco_shard_workers co) sid []"

definition mesh_inv :: "(string \<Rightarrow> string) \<Rightarrow> partitioner \<Rightarrow> int \<Rightarrow> mesh_coordinator \<Rightarrow> bool" where
  "mesh_inv sha256 p mx co \<longleftrightarrow>
     mco_partitioner co = p \<and> mco_max_workers_per_shard co = mx \<and>
     dict_wf (mco_shard_workers co) \<and> fst ` set (mco_shard_workers co) = set (prt_shard_ids p) \<and>
     dict_wf (mco_shard_states co) \<and> fst ` set (mco_shard_states co) = set (prt_shard_ids p) \<and>
     (\<forall>sid. distinct (shard_workers co sid) \<and> int (length (shard_workers co sid)) \<le> max 0 mx \<and>
        (\<forall>w \<in> set (shard_workers co sid). assigned_shard sha256 p w = Some sid))"

lemma mesh_inv_new: "mesh_inv sha256 p mx (new_mesh_coordinator p mx)"
  by (simp add: mesh_inv_def new_mesh_coordinator_def shard_workers_def dict_of_pairs_wf keys_dict_of_pairs
      image_image dict_get_const)

lemma assign_all_assigned:
  assumes "assign_all sha256 p ws = Inr as" "(w, a) \<in> set as"
  shows "assigned_shard sha256 p w = Some (sas_shard_id a)"
proof -
  obtain was where was: "res_map (\<lambda>w. res_bind (shard_assign sha256 p w) (\<lambda>a. Inr (w, a))) ws = Inr was" "as = dict_of_pairs was"
    using assms(1) by (auto simp: assign_all_def res_simps)
  have m: "shard_assign sha256 p v = Inr b" if "(v, b) \<in> set was" for v b
    using res_map_set [OF was(1) that] by (auto simp: res_simps)
  have "\<forall>(v, b) \<in> set (dict_of_pairs xs). (v, b) \<in> set xs" for xs :: "(string \<times> shard_assignment) list"
  proof (induction xs rule: rev_induct)
    case (snoc x xs)
    have "set (dict_set d k v) \<subseteq> insert (k, v) (set d)" for d :: "(string \<times> shard_assignment) list" and k v
      by (induction d k v rule: dict_set.induct) auto
    with snoc show ?case by (fastforce simp: dict_of_pairs_def)
  qed (simp add: dict_of_pairs_def)
  with assms(2) was(2) m show ?thesis by (fastforce simp: assigned_shard_def)
qed

lemma mesh_inv_add:
  assumes "mesh_inv sha256 p mx co" "map_of (mco_shard_workers co) sid = Some ws" "int (length ws) < mx"
    and "assigned_shard sha256 p w = Some sid"
  shows "mesh_inv sha256 p mx (co\<lparr>mco_shard_workers := dict_set (mco_shard_workers co) sid (add_worker w ws), mco_execution_log := l\<rparr>)"
proof -
  have ws: "shard_workers co sid = ws" using assms(2) by (simp add: shard_workers_def dict_get_def)
  have key: "sid \<in> set (prt_shard_ids p)"
    using assms(1) dict_has_keys [of "mco_shard_workers co" sid] assms(2) by (simp add: mesh_inv_def dict_has_def)
  have get: "shard_workers (co\<lparr>mco_shard_workers := dict_set (mco_shard_workers co) sid (add_worker w ws), mco_execution_log := l\<rparr>) t =
      (if t = sid then add_worker w ws else shard_workers co t)" for t
    by (simp add: shard_workers_def dict_get_def dict_simps)
  have inv: "distinct (shard_workers co t)" "int (length (shard_workers co t)) \<le> max 0 mx"
    "v \<in> set (shard_workers co t) \<Longrightarrow> assigned_shard sha256 p v = Some t" for t v
    using assms(1) unfolding mesh_inv_def by blast+
  have "distinct (add_worker w ws)" "int (length (add_worker w ws)) \<le> max 0 mx"
    using inv(1,2) [of sid] ws assms(3) by (auto simp: add_worker_def)
  moreover have "v \<in> set (add_worker w ws) \<Longrightarrow> assigned_shard sha256 p v = Some sid" for v
    using inv(3) [of v sid] ws assms(4) by (auto simp: add_worker_def split: if_splits)
  ultimately show ?thesis
    using assms(1) key inv unfolding mesh_inv_def get by (simp add: keys_dict_set insert_absorb)
qed

lemma mesh_inv_register_loop:
  "mesh_inv sha256 p mx co \<Longrightarrow> (\<And>w a. (w, a) \<in> set as \<Longrightarrow> assigned_shard sha256 p w = Some (sas_shard_id a)) \<Longrightarrow>
     mesh_inv sha256 p mx (fst (register_loop co as))"
proof (induction co as rule: register_loop.induct)
  case (2 co wid a as)
  show ?case
  proof (cases "map_of (mco_shard_workers co) (sas_shard_id a)")
    case (Some ws)
    have mx: "mco_max_workers_per_shard co = mx" using "2.prems"(1) by (simp add: mesh_inv_def)
    show ?thesis
    proof (cases "int (length ws) \<ge> mx")
      case False
      with "2.IH" [OF refl Some] mx mesh_inv_add [OF "2.prems"(1) Some] "2.prems"(2) Some show ?thesis
        by (simp add: Let_def)
    qed (use 2 Some mx in \<open>simp add: Let_def\<close>)
  qed (use 2 in \<open>simp add: Let_def\<close>)
qed simp

lemma mesh_inv_states:
  assumes "mesh_inv sha256 p mx co" "mco_partitioner co' = p" "mco_max_workers_per_shard co' = mx"
    and "mco_shard_workers co' = mco_shard_workers co" "dict_wf (mco_shard_states co')"
    and "fst ` set (mco_shard_states co') = set (prt_shard_ids p)"
  shows "mesh_inv sha256 p mx co'"
  using assms by (simp add: mesh_inv_def shard_workers_def)

lemma foldl_states:
  "dict_wf d \<Longrightarrow> dict_wf (foldl (\<lambda>d sid. dict_set d sid s) d xs)"
  "fst ` set (foldl (\<lambda>d sid. dict_set d sid s) d xs) = fst ` set d \<union> set xs"
  "map_of (foldl (\<lambda>d sid. dict_set d sid s) d xs) k = (if k \<in> set xs then Some s else map_of d k)"
  by (induction xs arbitrary: d) (auto simp: dict_simps)

lemma set_states_facts:
  assumes "mesh_inv sha256 p mx co"
  shows "dict_wf (set_states s co)" "fst ` set (set_states s co) = set (prt_shard_ids p)"
    "map_of (set_states s co) k = (if k \<in> set (prt_shard_ids p) then Some s else None)"
proof -
  have i: "dict_wf (mco_shard_states co)" "fst ` set (mco_shard_states co) = set (prt_shard_ids p)" "mco_partitioner co = p"
    using assms by (simp_all add: mesh_inv_def)
  then show "dict_wf (set_states s co)" "fst ` set (set_states s co) = set (prt_shard_ids p)"
    by (simp_all add: set_states_def foldl_states)
  have "k \<notin> set (prt_shard_ids p) \<Longrightarrow> map_of (mco_shard_states co) k = None" using i(2) by (simp add: map_of_eq_None_iff)
  then show "map_of (set_states s co) k = (if k \<in> set (prt_shard_ids p) then Some s else None)"
    using i(3) by (simp add: set_states_def foldl_states)
qed

section \<open>Histories\<close>

datatype mesh_op = MRegister "string list" | MBegin string | MComplete string | MAdvance string

fun mesh_step :: "(string \<Rightarrow> string) \<Rightarrow> mesh_coordinator \<Rightarrow> mesh_op \<Rightarrow> mesh_coordinator" where
  "mesh_step sha256 co (MRegister ws) = fst (register_workers sha256 co ws)"
| "mesh_step sha256 co (MBegin phase) = begin_phase co phase"
| "mesh_step sha256 co (MComplete sid) = fst (mark_shard_completed co sid)"
| "mesh_step sha256 co (MAdvance phase) = fst (advance_phase sha256 co phase)"

definition mesh_run :: "(string \<Rightarrow> string) \<Rightarrow> mesh_coordinator \<Rightarrow> mesh_op list \<Rightarrow> mesh_coordinator" where
  "mesh_run sha256 co ops = foldl (mesh_step sha256) co ops"

lemma mesh_inv_step: "mesh_inv sha256 p mx co \<Longrightarrow> mesh_inv sha256 p mx (mesh_step sha256 co op)"
proof (induction op)
  case (MRegister ws)
  show ?case
  proof (cases "assign_all sha256 (mco_partitioner co) ws")
    case (Inr as)
    have p: "mco_partitioner co = p" using MRegister by (simp add: mesh_inv_def)
    have "mesh_inv sha256 p mx (fst (register_loop co as))"
      using MRegister assign_all_assigned [OF Inr [unfolded p]] by (intro mesh_inv_register_loop)
    with Inr show ?thesis by (auto simp: register_workers_def split: prod.splits sum.splits)
  qed (use MRegister in \<open>simp add: register_workers_def\<close>)
next
  case (MBegin phase)
  then show ?case
    by (intro mesh_inv_states [OF MBegin]) (simp_all add: begin_phase_def set_states_facts [OF MBegin], simp_all add: mesh_inv_def)
next
  case (MComplete sid)
  have s: "dict_wf (mco_shard_states co)" "fst ` set (mco_shard_states co) = set (prt_shard_ids p)"
    "mco_partitioner co = p" "mco_max_workers_per_shard co = mx" using MComplete by (simp_all add: mesh_inv_def)
  show ?case
  proof (cases "dict_has (mco_shard_states co) sid")
    case True
    then have "sid \<in> set (prt_shard_ids p)" using s(2) by (simp add: dict_has_keys)
    with True s show ?thesis
      by (intro mesh_inv_states [OF MComplete]) (simp_all add: mark_shard_completed_def keys_dict_set insert_absorb)
  qed (use MComplete in \<open>simp add: mark_shard_completed_def\<close>)
next
  case (MAdvance phase)
  show ?case
  proof (cases "can_advance_phase co")
    case True
    then show ?thesis
      by (intro mesh_inv_states [OF MAdvance])
        (simp_all add: advance_phase_def Let_def set_states_facts [OF MAdvance], use MAdvance in \<open>simp_all add: mesh_inv_def\<close>)
  qed (use MAdvance in \<open>simp add: advance_phase_def\<close>)
qed

lemma mesh_inv_run: "mesh_inv sha256 p mx co \<Longrightarrow> mesh_inv sha256 p mx (mesh_run sha256 co ops)"
  by (induction ops arbitrary: co) (simp_all add: mesh_run_def mesh_inv_step)

lemma shard_workers_entry:
  "mesh_inv sha256 p mx co \<Longrightarrow> (sid, ws) \<in> set (mco_shard_workers co) \<Longrightarrow> shard_workers co sid = ws"
  by (simp add: mesh_inv_def dict_wf_def shard_workers_def dict_get_def)

lemma shard_workers_outside:
  assumes "mesh_inv sha256 p mx co" "w \<in> set (shard_workers co sid)"
  shows "(sid, shard_workers co sid) \<in> set (mco_shard_workers co)"
  using assms(2) by (auto simp: shard_workers_def dict_get_def split: option.splits dest: map_of_SomeD)

lemma registered_iff:
  assumes "mesh_inv sha256 p mx co"
  shows "w \<in> set (all_workers co) \<longleftrightarrow> (\<exists>sid. w \<in> set (shard_workers co sid))"
    and "w \<in> set (all_workers co) \<longleftrightarrow> (\<exists>sid. assigned_shard sha256 p w = Some sid \<and> w \<in> set (shard_workers co sid))"
proof -
  show 1: "w \<in> set (all_workers co) \<longleftrightarrow> (\<exists>sid. w \<in> set (shard_workers co sid))"
  proof
    assume "w \<in> set (all_workers co)"
    then obtain sid ws where "(sid, ws) \<in> set (mco_shard_workers co)" "w \<in> set ws" by (auto simp: all_workers_def)
    with shard_workers_entry [OF assms, of sid ws] show "\<exists>sid. w \<in> set (shard_workers co sid)" by auto
  next
    assume "\<exists>sid. w \<in> set (shard_workers co sid)"
    then obtain sid where w: "w \<in> set (shard_workers co sid)" ..
    from shard_workers_outside [OF assms this] w show "w \<in> set (all_workers co)"
      by (auto simp: all_workers_def intro!: bexI [of _ "(sid, shard_workers co sid)"])
  qed
  show "w \<in> set (all_workers co) \<longleftrightarrow> (\<exists>sid. assigned_shard sha256 p w = Some sid \<and> w \<in> set (shard_workers co sid))"
    unfolding 1 using assms unfolding mesh_inv_def by blast
qed

lemma shard_workers_eq:
  assumes "mesh_inv sha256 p mx co"
  shows "set (shard_workers co sid) = {w \<in> set (all_workers co). assigned_shard sha256 p w = Some sid}"
  using registered_iff [OF assms] assms unfolding mesh_inv_def by auto

lemma get_shard_registered:
  assumes "mesh_inv sha256 p mx co"
  shows "get_shard_for_worker co w =
    (if w \<in> set (all_workers co) then Inr (the (assigned_shard sha256 p w)) else Inl (KeyError (''Worker '' @ w @ '' not registered'')))"
proof (cases "find (\<lambda>(sid, ws). w \<in> set ws) (mco_shard_workers co)")
  case None
  then have "w \<notin> set (all_workers co)" by (auto simp: find_None_iff all_workers_def)
  with None show ?thesis by (simp add: get_shard_for_worker_def)
next
  case (Some sw)
  obtain sid ws where sw: "sw = (sid, ws)" by fastforce
  with Some have m: "(sid, ws) \<in> set (mco_shard_workers co)" "w \<in> set ws" by (auto simp: find_Some_iff) (metis nth_mem)
  then have "w \<in> set (shard_workers co sid)" using shard_workers_entry [OF assms] by simp
  then have "assigned_shard sha256 p w = Some sid" using assms unfolding mesh_inv_def by blast
  moreover have "w \<in> set (all_workers co)" using m by (force simp: all_workers_def)
  ultimately show ?thesis using Some sw by (simp add: get_shard_for_worker_def)
qed

lemma distinct_all_workers:
  assumes "mesh_inv sha256 p mx co"
  shows "distinct (all_workers co)"
proof -
  let ?d = "mco_shard_workers co"
  have "distinct (concat (map snd ds))" if "distinct (map fst ds)" "set ds \<subseteq> set ?d" for ds
    using that
  proof (induction ds)
    case (Cons d ds)
    obtain sid ws where d: "d = (sid, ws)" by fastforce
    have ws: "shard_workers co sid = ws" using shard_workers_entry [OF assms] Cons.prems(2) d by simp
    have "distinct ws" using assms ws unfolding mesh_inv_def by blast
    moreover have False if "w \<in> set ws" "(t, vs) \<in> set ds" "w \<in> set vs" for w t vs
    proof -
      have "shard_workers co t = vs" using shard_workers_entry [OF assms] Cons.prems(2) that(2) by auto
      then have "assigned_shard sha256 p w = Some t" "assigned_shard sha256 p w = Some sid"
        using assms that(1,3) ws unfolding mesh_inv_def by blast+
      then have "t = sid" by simp
      with that(2) Cons.prems(1) d show False by (force simp: image_iff)
    qed
    ultimately show ?case using Cons d by fastforce
  qed simp
  with assms show ?thesis by (simp add: all_workers_def mesh_inv_def dict_wf_def)
qed

lemma mset_concat_map: "mset xs = mset ys \<Longrightarrow> mset (concat (map f xs)) = mset (concat (map f ys))"
proof -
  have "mset (concat (map f zs)) = sum_mset (image_mset (\<lambda>x. mset (f x)) (mset zs))" for zs
    by (induction zs) simp_all
  then show "mset xs = mset ys \<Longrightarrow> mset (concat (map f xs)) = mset (concat (map f ys))" by simp
qed

section \<open>Properties\<close>

text \<open>
  After any operations on a new coordinator, refused ones included, no shard holds more
  workers than the bound allows, every worker is registered once, and \<open>get_shard_for_worker\<close> finds each
  registered worker in the shard the partitioner assigns to it and raises for every other.
\<close>

theorem mesh_shard_bounds:
  "let co = mesh_run sha256 (new_mesh_coordinator p mx) ops in
   distinct (all_workers co) \<and>
   (\<forall>sid. int (length (dict_get (mco_shard_workers co) sid [])) \<le> max 0 mx) \<and>
   (\<forall>w. get_shard_for_worker co w =
      (if w \<in> set (all_workers co) then res_bind (shard_assign sha256 p w) (\<lambda>a. Inr (sas_shard_id a))
       else Inl (KeyError (''Worker '' @ w @ '' not registered''))))"
proof -
  let ?co = "mesh_run sha256 (new_mesh_coordinator p mx) ops"
  have inv: "mesh_inv sha256 p mx ?co" by (intro mesh_inv_run mesh_inv_new)
  have "int (length (dict_get (mco_shard_workers ?co) sid [])) \<le> max 0 mx" for sid
    using inv unfolding mesh_inv_def shard_workers_def by blast
  moreover have "get_shard_for_worker ?co w =
      (if w \<in> set (all_workers ?co) then res_bind (shard_assign sha256 p w) (\<lambda>a. Inr (sas_shard_id a))
       else Inl (KeyError (''Worker '' @ w @ '' not registered'')))" for w
  proof (cases "w \<in> set (all_workers ?co)")
    case True
    then obtain sid where "assigned_shard sha256 p w = Some sid" using registered_iff(2) [OF inv] by blast
    then obtain a where "shard_assign sha256 p w = Inr a" "sas_shard_id a = sid"
      by (auto simp: assigned_shard_def split: sum.splits)
    with True get_shard_registered [OF inv, of w] show ?thesis by (simp add: assigned_shard_def)
  qed (use get_shard_registered [OF inv, of w] in simp)
  ultimately show ?thesis using distinct_all_workers [OF inv] by (simp add: Let_def)
qed

text \<open>
  The order of replay depends only on which workers are registered, not on the order,
  the grouping or the phases of their registration: two coordinators of one partitioner with the same workers
  replay the same sequence. With distinct shard ids it names every registered worker exactly once.
\<close>

theorem mesh_replay_order:
  assumes "co = mesh_run sha256 (new_mesh_coordinator p mx) ops" "co' = mesh_run sha256 (new_mesh_coordinator p mx') ops'"
    and "set (all_workers co) = set (all_workers co')"
  shows "replay_sequence co = replay_sequence co' \<and>
    (distinct (prt_shard_ids p) \<longrightarrow> mset (concat (map snd (replay_sequence co))) = mset (all_workers co))"
proof -
  have inv: "mesh_inv sha256 p mx co" "mesh_inv sha256 p mx' co'"
    unfolding assms(1,2) by (intro mesh_inv_run mesh_inv_new)+
  have d: "distinct (shard_workers c sid)" if "mesh_inv sha256 p m c" for m c sid
    using that unfolding mesh_inv_def by blast
  have "sort (shard_workers co sid) = sort (shard_workers co' sid)" for sid
  proof -
    have "set (shard_workers co sid) = set (shard_workers co' sid)"
      by (simp only: shard_workers_eq [OF inv(1)] shard_workers_eq [OF inv(2)] assms(3))
    then have "mset (shard_workers co sid) = mset (shard_workers co' sid)"
      using d [OF inv(1)] d [OF inv(2)] by (simp only: set_eq_iff_mset_eq_distinct)
    then show ?thesis by (simp only: flip: sorted_list_of_multiset_mset)
  qed
  moreover have "mco_partitioner co = p" "mco_partitioner co' = p" using inv by (simp_all add: mesh_inv_def)
  ultimately have "replay_sequence co = replay_sequence co'"
    by (simp add: replay_sequence_def shard_workers_def)
  moreover have "mset (concat (map snd (replay_sequence co))) = mset (all_workers co)" if "distinct (prt_shard_ids p)"
  proof -
    have "concat (map snd (filter (\<lambda>(sid, ws). ws \<noteq> []) xs)) = concat (map snd xs)" for xs :: "(string \<times> string list) list"
      by (induction xs) auto
    then have "mset (concat (map snd (replay_sequence co))) =
        mset (concat (map (\<lambda>sid. sort (shard_workers co sid)) (sort (prt_shard_ids p))))"
      using \<open>mco_partitioner co = p\<close> by (simp add: replay_sequence_def shard_workers_def comp_def)
    also have "\<dots> = mset (concat (map (shard_workers co) (prt_shard_ids p)))"
    proof -
      have "mset (concat (map (\<lambda>sid. sort (shard_workers co sid)) xs)) = mset (concat (map (shard_workers co) xs))" for xs
        by (induction xs) simp_all
      then show ?thesis using mset_concat_map [of "sort (prt_shard_ids p)" "prt_shard_ids p" "shard_workers co"] by simp
    qed
    also have "\<dots> = mset (concat (map (shard_workers co) (map fst (mco_shard_workers co))))"
    proof (rule mset_concat_map)
      have "distinct (map fst (mco_shard_workers co))" "set (map fst (mco_shard_workers co)) = set (prt_shard_ids p)"
        using inv(1) by (simp_all add: mesh_inv_def dict_wf_def)
      with that show "mset (prt_shard_ids p) = mset (map fst (mco_shard_workers co))"
        using set_eq_iff_mset_eq_distinct by metis
    qed
    also have "map (shard_workers co) (map fst (mco_shard_workers co)) = map snd (mco_shard_workers co)"
      using shard_workers_entry [OF inv(1)] by auto
    finally show ?thesis by (simp add: all_workers_def)
  qed
  ultimately show ?thesis by blast
qed

definition example_partitioner :: partitioner where
  "example_partitioner = \<lparr>prt_shard_count = 1, prt_shard_ids = [''s'']\<rparr>"

abbreviation example_mesh :: "mesh_op list \<Rightarrow> mesh_coordinator" where
  "example_mesh ops \<equiv> mesh_run (\<lambda>_. ''0'') (new_mesh_coordinator example_partitioner 2) ops"

lemma example_mesh_workers:
  "all_workers (example_mesh [MRegister [''a'', ''b'']]) = [''a'', ''b'']"
  "all_workers (example_mesh [MRegister [''b''], MRegister [''a'']]) = [''b'', ''a'']"
  by (simp_all add: mesh_run_def new_mesh_coordinator_def example_partitioner_def register_workers_def assign_all_def
      shard_assign_def read_hex_def hex_val_def dict_of_pairs_def add_worker_def all_workers_def Let_def)

theorem mesh_replay_order_witness:
  "replay_sequence (example_mesh [MRegister [''a'', ''b'']]) = replay_sequence (example_mesh [MRegister [''b''], MRegister [''a'']])"
proof -
  have "set (all_workers (example_mesh [MRegister [''a'', ''b'']])) = set (all_workers (example_mesh [MRegister [''b''], MRegister [''a'']]))"
    unfolding example_mesh_workers by auto
  from mesh_replay_order [OF refl refl this] show ?thesis by blast
qed

text \<open>
  After a phase was begun or advanced, the next advance is refused as long as some shard
  was not marked completed since, whatever else is called, and it leaves the coordinator unchanged.
\<close>

theorem mesh_phase_locked:
  assumes "co = mesh_run sha256 (new_mesh_coordinator p mx) ops" "sid \<in> set (prt_shard_ids p)"
    and "co' = begin_phase co phase \<or> (\<exists>b. advance_phase sha256 co phase = (co', Inr b))"
    and "MComplete sid \<notin> set later"
  shows "advance_phase sha256 (mesh_run sha256 co' later) nxt =
    (mesh_run sha256 co' later, Inl (RuntimeError ''Cannot advance: not all shards completed current phase''))"
proof -
  have inv: "mesh_inv sha256 p mx co" unfolding assms(1) by (intro mesh_inv_run mesh_inv_new)
  define open_shard where "open_shard c \<longleftrightarrow> mesh_inv sha256 p mx c \<and> (\<exists>s. s \<noteq> COMPLETED \<and> map_of (mco_shard_states c) sid = Some s)" for c
  have states: "map_of (set_states s c) sid = Some s" if "mesh_inv sha256 p mx c" for s c
    using set_states_facts(3) [OF that, of s sid] assms(2) by simp
  have "open_shard co'"
    using assms(3) states [OF inv] mesh_inv_step [OF inv, of "MBegin phase"] mesh_inv_step [OF inv, of "MAdvance phase"]
    by (auto simp: open_shard_def begin_phase_def advance_phase_def Let_def split: if_splits)
  moreover have step: "open_shard (mesh_step sha256 c op)" if "open_shard c" "op \<noteq> MComplete sid" for c op
  proof -
    have i: "mesh_inv sha256 p mx c" using that(1) by (simp add: open_shard_def)
    have r: "mco_shard_states (fst (register_loop c as)) = mco_shard_states c" for c as
      by (induction c as rule: register_loop.induct) (auto simp: Let_def split: option.splits)
    have "mco_shard_states (fst (register_workers sha256 c ws)) = mco_shard_states c" for ws
      using r [of c] by (auto simp: register_workers_def split: sum.splits prod.splits) (metis fst_conv)+
    then show ?thesis
      using that states [OF i] mesh_inv_step [OF i, of op]
      by (cases op) (auto simp: open_shard_def begin_phase_def mark_shard_completed_def advance_phase_def Let_def dict_simps)
  qed
  ultimately have "open_shard (mesh_run sha256 co' later)"
    using assms(4) by (induction later arbitrary: co') (auto simp: mesh_run_def)
  then have "\<not> can_advance_phase (mesh_run sha256 co' later)"
    by (auto simp: open_shard_def can_advance_phase_def list_all_iff dest!: map_of_SomeD)
  then show ?thesis by (simp add: advance_phase_def)
qed

theorem mesh_phase_locked_witness:
  "\<exists>e. snd (advance_phase (\<lambda>_. ''0'') (mesh_run (\<lambda>_. ''0'') (begin_phase (example_mesh []) ''INGEST'') [MRegister [''a'']]) ''DIFF'') = Inl e"
  using mesh_phase_locked [of "example_mesh []" "\<lambda>_. ''0''" example_partitioner 2 "[]" "''s''"
      "begin_phase (example_mesh []) ''INGEST''" "''INGEST''" "[MRegister [''a'']]" "''DIFF''"]
  by (simp add: example_partitioner_def)

end
