(* ===== verification/Mesh_Kernel.thy ===== *)
theory Mesh_Kernel
  imports Py_Json Det_Clock Hash_Chain
begin

text \<open>
  The execution side of the mesh (\<open>pi_interoperability_layer/mesh/artifact_bus.py\<close>, \<open>receipts.py\<close>,
  \<open>worker_base.py\<close>, \<open>kernel.py\<close>): versioned artifact slots, execution receipts and phase boundaries in a ledger
  of two hash chains, the guarded execution of a worker, and the kernel that runs the seven phases of a
  pipeline. What a worker class does in \<open>_run\<close> is a parameter, a function of the bus, the phase and its
  inputs that may raise; random ids, elapsed times and the clock are readings of the environment. Creation
  times, which nothing reads, are left out.

  The ledger verifies after every pipeline and its heads fix its content; the verdict of a worker's execution;
  the pipeline runs a prefix of its phases that ends with the first failure; and phases after the first get no
  inputs, since no boundary ever names a merged output.
\<close>

section \<open>Artifact bus\<close>

record artifact_slot =
  asl_slot_id :: string
  asl_slot_version :: int
  asl_producer_worker_id :: string
  asl_artifact_type :: string
  asl_schema_version :: string
  asl_payload :: payload
  asl_fingerprint :: string
  asl_provenance_receipt_ids :: "string list"

definition compute_fingerprint :: "(string \<Rightarrow> string) \<Rightarrow> artifact_slot \<Rightarrow> string" where
  "compute_fingerprint sha256 s = sha256 (dumps_compact (PDict (asl_payload s)))"

definition slot_freeze :: "(string \<Rightarrow> string) \<Rightarrow> artifact_slot \<Rightarrow> artifact_slot" where
  "slot_freeze sha256 s = s\<lparr>asl_fingerprint := compute_fingerprint sha256 s\<rparr>"

record artifact_bus =
  abu_slots :: "(string, artifact_slot) dict"
  abu_slot_versions :: "(string, string list) dict"

definition new_artifact_bus :: artifact_bus where
  "new_artifact_bus = \<lparr>abu_slots = [], abu_slot_versions = []\<rparr>"

definition slot_write :: "(string \<Rightarrow> string) \<Rightarrow> artifact_bus \<Rightarrow> artifact_slot \<Rightarrow> artifact_bus \<times> artifact_slot" where
  "slot_write sha256 bus slot =
     (let frozen = slot_freeze sha256 slot;
          family = asl_artifact_type frozen @ '':'' @ asl_producer_worker_id frozen
      in (\<lparr>abu_slots = dict_set (abu_slots bus) (asl_slot_id frozen) frozen,
           abu_slot_versions = dict_append (abu_slot_versions bus) family (asl_slot_id frozen)\<rparr>, frozen))"

definition slot_read :: "artifact_bus \<Rightarrow> string \<Rightarrow> artifact_slot option" where
  "slot_read bus slot_id = map_of (abu_slots bus) slot_id"

definition latest_for_family :: "artifact_bus \<Rightarrow> string \<Rightarrow> string \<Rightarrow> artifact_slot option result" where
  "latest_for_family bus artifact_type producer_worker_id =
     (let versions = dict_get (abu_slot_versions bus) (artifact_type @ '':'' @ producer_worker_id) []
      in if versions = [] then Inr None else res_bind (dict_index (abu_slots bus) (last versions)) (\<lambda>s. Inr (Some s)))"

definition all_versions_for_family :: "artifact_bus \<Rightarrow> string \<Rightarrow> string \<Rightarrow> artifact_slot list result" where
  "all_versions_for_family bus artifact_type producer_worker_id =
     res_map (dict_index (abu_slots bus)) (dict_get (abu_slot_versions bus) (artifact_type @ '':'' @ producer_worker_id) [])"

definition list_families :: "artifact_bus \<Rightarrow> string list" where
  "list_families bus = dict_keys (abu_slot_versions bus)"

section \<open>Receipts and ledger\<close>

record execution_receipt =
  exr_receipt_id :: string
  exr_worker_class :: string
  exr_worker_id :: string
  exr_phase :: string
  exr_input_slot_ids :: "string list"
  exr_output_slot_ids :: "string list"
  exr_status :: string
  exr_status_detail :: string
  exr_determinism_proof :: string
  exr_resource_usage :: payload
  exr_previous_receipt_hash :: string
  exr_receipt_hash :: string

definition execution_hashed :: "execution_receipt \<Rightarrow> payload" where
  "execution_hashed r =
     [(''worker_class'', PStr (exr_worker_class r)), (''worker_id'', PStr (exr_worker_id r)),
      (''phase'', PStr (exr_phase r)), (''input_slot_ids'', PList (map PStr (sort (exr_input_slot_ids r)))),
      (''output_slot_ids'', PList (map PStr (sort (exr_output_slot_ids r)))), (''status'', PStr (exr_status r)),
      (''determinism_proof'', PStr (exr_determinism_proof r)),
      (''previous_receipt_hash'', PStr (exr_previous_receipt_hash r))]"

definition execution_text :: "execution_receipt \<Rightarrow> string" where
  "execution_text r = dumps_compact (PDict (execution_hashed r))"

definition execution_compute_hash :: "(string \<Rightarrow> string) \<Rightarrow> execution_receipt \<Rightarrow> string" where
  "execution_compute_hash sha256 r = sha256 (execution_text r)"

record boundary_receipt =
  pbr_boundary_id :: string
  pbr_phase :: string
  pbr_worker_receipt_ids :: "string list"
  pbr_merged_output_slot_id :: "string option"
  pbr_phase_status :: string
  pbr_previous_boundary_hash :: string
  pbr_boundary_hash :: string

definition boundary_hashed :: "boundary_receipt \<Rightarrow> payload" where
  "boundary_hashed b =
     [(''phase'', PStr (pbr_phase b)), (''worker_receipt_ids'', PList (map PStr (sort (pbr_worker_receipt_ids b)))),
      (''merged_output_slot_id'', case pbr_merged_output_slot_id b of None \<Rightarrow> PNone | Some s \<Rightarrow> PStr s),
      (''phase_status'', PStr (pbr_phase_status b)), (''previous_boundary_hash'', PStr (pbr_previous_boundary_hash b))]"

definition boundary_text :: "boundary_receipt \<Rightarrow> string" where
  "boundary_text b = dumps_compact (PDict (boundary_hashed b))"

definition boundary_compute_hash :: "(string \<Rightarrow> string) \<Rightarrow> boundary_receipt \<Rightarrow> string" where
  "boundary_compute_hash sha256 b = sha256 (boundary_text b)"

record orchestration_ledger =
  orl_ledger_id :: string
  orl_pipeline_name :: string
  orl_receipts :: "execution_receipt list"
  orl_boundaries :: "boundary_receipt list"
  orl_closed_at :: "py_datetime option"

definition ledger_append_receipt :: "(string \<Rightarrow> string) \<Rightarrow> orchestration_ledger \<Rightarrow> execution_receipt \<Rightarrow> orchestration_ledger" where
  "ledger_append_receipt sha256 lg receipt0 =
     (let prev = (if orl_receipts lg = [] then [] else exr_receipt_hash (last (orl_receipts lg)));
          receipt1 = receipt0\<lparr>exr_previous_receipt_hash := prev\<rparr>;
          receipt = receipt1\<lparr>exr_receipt_hash := execution_compute_hash sha256 receipt1\<rparr>
      in lg\<lparr>orl_receipts := orl_receipts lg @ [receipt]\<rparr>)"

definition ledger_append_boundary :: "(string \<Rightarrow> string) \<Rightarrow> orchestration_ledger \<Rightarrow> boundary_receipt \<Rightarrow> orchestration_ledger" where
  "ledger_append_boundary sha256 lg boundary0 =
     (let prev = (if orl_boundaries lg = [] then [] else pbr_boundary_hash (last (orl_boundaries lg)));
          boundary1 = boundary0\<lparr>pbr_previous_boundary_hash := prev\<rparr>;
          boundary = boundary1\<lparr>pbr_boundary_hash := boundary_compute_hash sha256 boundary1\<rparr>
      in lg\<lparr>orl_boundaries := orl_boundaries lg @ [boundary]\<rparr>)"

text \<open>The two loops of \<open>verify_chain\<close> have the same shape.\<close>

fun links_ok :: "('e \<Rightarrow> string) \<Rightarrow> ('e \<Rightarrow> string) \<Rightarrow> ('e \<Rightarrow> string) \<Rightarrow> string \<Rightarrow> 'e list \<Rightarrow> bool" where
  "links_ok stored prev compute expected_prev [] = True"
| "links_ok stored prev compute expected_prev (e # es) =
     (if prev e \<noteq> expected_prev then False
      else if compute e \<noteq> stored e then False
      else links_ok stored prev compute (stored e) es)"

definition ledger_verify_chain :: "(string \<Rightarrow> string) \<Rightarrow> orchestration_ledger \<Rightarrow> bool" where
  "ledger_verify_chain sha256 lg \<longleftrightarrow>
     links_ok exr_receipt_hash exr_previous_receipt_hash (execution_compute_hash sha256) [] (orl_receipts lg) \<and>
     links_ok pbr_boundary_hash pbr_previous_boundary_hash (boundary_compute_hash sha256) [] (orl_boundaries lg)"

definition last_boundary_for_phase :: "orchestration_ledger \<Rightarrow> string \<Rightarrow> boundary_receipt option" where
  "last_boundary_for_phase lg phase = find (\<lambda>b. pbr_phase b = phase) (rev (orl_boundaries lg))"

definition receipts_for_phase :: "orchestration_ledger \<Rightarrow> string \<Rightarrow> execution_receipt list" where
  "receipts_for_phase lg phase = filter (\<lambda>r. exr_phase r = phase) (orl_receipts lg)"

definition ledger_close :: "py_datetime \<Rightarrow> orchestration_ledger \<Rightarrow> orchestration_ledger" where
  "ledger_close now lg = lg\<lparr>orl_closed_at := Some now\<rparr>"

section \<open>Workers\<close>

text \<open>Floats are kept as their \<open>repr\<close>.\<close>

record worker_contract =
  wkc_worker_class :: string
  wkc_required_input_artifact_types :: "string list"
  wkc_produced_output_artifact_types :: "string list"
  wkc_max_execution_ms :: string
  wkc_max_memory_mb :: string
  wkc_max_input_slots :: int
  wkc_max_output_slots :: int
  wkc_deterministic :: bool

definition default_contract :: "string \<Rightarrow> worker_contract" where
  "default_contract cls =
     \<lparr>wkc_worker_class = cls, wkc_required_input_artifact_types = [], wkc_produced_output_artifact_types = [],
      wkc_max_execution_ms = ''30000.0'', wkc_max_memory_mb = ''512.0'', wkc_max_input_slots = 16,
      wkc_max_output_slots = 16, wkc_deterministic = True\<rparr>"

datatype run_outcome = Raised string string | Returned "artifact_slot list"

type_synonym worker_run = "artifact_bus \<Rightarrow> string \<Rightarrow> string list \<Rightarrow> artifact_bus \<times> run_outcome"

record mesh_worker =
  mwk_worker_id :: string
  mwk_contract :: worker_contract
  mwk_run :: worker_run
  mwk_spawned :: bool
  mwk_modified_contract :: bool

text \<open>The readings of the environment, indexed by the number of ids drawn before.\<close>

record mesh_environment =
  men_uuid :: "nat \<Rightarrow> string"
  men_elapsed :: "nat \<Rightarrow> string"
  men_now :: "nat \<Rightarrow> py_datetime"

record mesh_state =
  mst_bus :: artifact_bus
  mst_ledger :: orchestration_ledger
  mst_tick :: nat

text \<open>\<open>f"{x:.1f}"\<close> of a non-negative number.\<close>

definition fixed1 :: "rat \<Rightarrow> string" where
  "fixed1 x =
     (let f = \<lfloor>10 * x\<rfloor>; d = 10 * x - of_int f;
          n = (if d < 1 / 2 then f else if d > 1 / 2 then f + 1 else if even f then f else f + 1)
      in show_int (n div 10) @ ''.'' @ show_int (n mod 10))"

definition compute_determinism_proof :: "(string \<Rightarrow> string) \<Rightarrow> artifact_slot list \<Rightarrow> string" where
  "compute_determinism_proof sha256 slots = (if slots = [] then [] else sha256 (concat (map asl_fingerprint slots)))"

definition make_receipt :: "(string \<Rightarrow> string) \<Rightarrow> mesh_environment \<Rightarrow> mesh_worker \<Rightarrow> mesh_state \<Rightarrow> string \<Rightarrow> string list \<Rightarrow>
    string list \<Rightarrow> string \<Rightarrow> string \<Rightarrow> payload \<Rightarrow> string \<Rightarrow> mesh_state \<times> execution_receipt result" where
  "make_receipt sha256 env w st phase input_slot_ids output_slot_ids status status_detail resource_usage determinism_proof =
     (let receipt0 = \<lparr>exr_receipt_id = ''rcpt_'' @ men_uuid env (mst_tick st),
            exr_worker_class = wkc_worker_class (mwk_contract w), exr_worker_id = mwk_worker_id w, exr_phase = phase,
            exr_input_slot_ids = sort input_slot_ids, exr_output_slot_ids = sort output_slot_ids,
            exr_status = status, exr_status_detail = status_detail, exr_determinism_proof = determinism_proof,
            exr_resource_usage = resource_usage, exr_previous_receipt_hash = [], exr_receipt_hash = []\<rparr>;
          receipt = receipt0\<lparr>exr_receipt_hash := execution_compute_hash sha256 receipt0\<rparr>
      in (st\<lparr>mst_ledger := ledger_append_receipt sha256 (mst_ledger st) receipt, mst_tick := Suc (mst_tick st)\<rparr>, Inr receipt))"

text \<open>
  The receipts for too slow and too many outputs are given the slots instead of their ids: sorting two or more
  of them raises \<open>TypeError\<close>, and a single one fails the validation of the receipt, a \<open>ValueError\<close>.
\<close>

definition make_slots_receipt :: "(string \<Rightarrow> string) \<Rightarrow> mesh_environment \<Rightarrow> mesh_worker \<Rightarrow> mesh_state \<Rightarrow> string \<Rightarrow> string list \<Rightarrow>
    artifact_slot list \<Rightarrow> string \<Rightarrow> string \<Rightarrow> payload \<Rightarrow> mesh_state \<times> execution_receipt result" where
  "make_slots_receipt sha256 env w st phase input_slot_ids output_slots status status_detail resource_usage =
     (case output_slots of
        [] \<Rightarrow> make_receipt sha256 env w st phase input_slot_ids [] status status_detail resource_usage []
      | [_] \<Rightarrow> (st, Inl (ValueError ''output_slot_ids''))
      | _ \<Rightarrow> (st, Inl TypeError))"

fun schema_error :: "artifact_bus \<Rightarrow> worker_contract \<Rightarrow> string list \<Rightarrow> string option" where
  "schema_error bus c [] = None"
| "schema_error bus c (sid # sids) =
     (case slot_read bus sid of
        None \<Rightarrow> Some (''Missing slot: '' @ sid)
      | Some slot \<Rightarrow>
          if asl_artifact_type slot \<notin> set (wkc_required_input_artifact_types c) \<and> wkc_required_input_artifact_types c \<noteq> []
          then Some (''Unexpected artifact type: '' @ asl_artifact_type slot)
          else schema_error bus c sids)"

definition worker_execute :: "(string \<Rightarrow> string) \<Rightarrow> mesh_environment \<Rightarrow> mesh_worker \<Rightarrow> mesh_state \<Rightarrow> string \<Rightarrow> string list \<Rightarrow>
    mesh_state \<times> execution_receipt result" where
  "worker_execute sha256 env w st phase input_slot_ids =
     (let c = mwk_contract w;
          fail = (\<lambda>status detail. make_receipt sha256 env w st phase input_slot_ids [] status detail [] []) in
      if mwk_spawned w then fail ''PANIC'' ''Worker attempted recursive spawn''
      else if mwk_modified_contract w then fail ''PANIC'' ''Worker attempted contract mutation''
      else if int (length input_slot_ids) > wkc_max_input_slots c
      then fail ''RESOURCE_EXCEEDED''
             (''Inputs '' @ show_nat (length input_slot_ids) @ '' > max '' @ show_int (wkc_max_input_slots c))
      else
        (case schema_error (mst_bus st) c input_slot_ids of
           Some detail \<Rightarrow> fail ''SCHEMA_MISMATCH'' detail
         | None \<Rightarrow>
             (case mwk_run w (mst_bus st) phase input_slot_ids of
                (bus, outcome) \<Rightarrow>
                  (let st1 = st\<lparr>mst_bus := bus\<rparr>; elapsed = men_elapsed env (mst_tick st);
                       usage = [(''cpu_ms'', PFloat elapsed)] in
                   case outcome of
                     Raised ty msg \<Rightarrow>
                       make_receipt sha256 env w st1 phase input_slot_ids [] ''FAIL''
                         (''Exception: '' @ ty @ '': '' @ msg) usage []
                   | Returned output_slots \<Rightarrow>
                       if float_val elapsed > float_val (wkc_max_execution_ms c)
                       then make_slots_receipt sha256 env w st1 phase input_slot_ids output_slots ''TIMEOUT''
                              (''Elapsed '' @ fixed1 (float_val elapsed) @ ''ms > max '' @ wkc_max_execution_ms c @ ''ms'') usage
                       else if int (length output_slots) > wkc_max_output_slots c
                       then make_slots_receipt sha256 env w st1 phase input_slot_ids output_slots ''RESOURCE_EXCEEDED''
                              (''Outputs '' @ show_nat (length output_slots) @ '' > max '' @ show_int (wkc_max_output_slots c)) usage
                       else make_receipt sha256 env w st1 phase input_slot_ids (map asl_slot_id output_slots) ''SUCCESS'' []
                              (usage @ [(''memory_mb'', PFloat ''0.0'')]) (compute_determinism_proof sha256 output_slots)))))"

section \<open>The kernel\<close>

record phase_config =
  phc_phase_name :: string
  phc_worker_classes :: "(string \<times> worker_run) list"
  phc_max_fanout :: int
  phc_required_worker_ids :: "string list"

definition PHASE_ORDER :: "string list" where
  "PHASE_ORDER = [''INGEST'', ''EXTRACT'', ''DIFF'', ''VALIDATE'', ''RISK'', ''GOVERN'', ''EMIT'']"

record mesh_kernel =
  mkn_pipeline_name :: string
  mkn_phases :: "(string, phase_config) dict"
  mkn_fail_open :: bool
  mkn_workers :: "(string, mesh_worker) dict"
  mkn_phase_index :: nat

definition new_mesh_kernel :: "string \<Rightarrow> phase_config list \<Rightarrow> bool \<Rightarrow> mesh_kernel" where
  "new_mesh_kernel pipeline_name phases fail_open =
     \<lparr>mkn_pipeline_name = pipeline_name, mkn_phases = dict_of_pairs (map (\<lambda>p. (phc_phase_name p, p)) phases),
      mkn_fail_open = fail_open, mkn_workers = [], mkn_phase_index = 0\<rparr>"

definition register_worker :: "mesh_kernel \<Rightarrow> mesh_worker \<Rightarrow> mesh_kernel result" where
  "register_worker kn w =
     (if dict_has (mkn_workers kn) (mwk_worker_id w)
      then Inl (ValueError (''Worker already registered: '' @ mwk_worker_id w))
      else Inr (kn\<lparr>mkn_workers := dict_set (mkn_workers kn) (mwk_worker_id w) w\<rparr>))"

definition resolve_phase_inputs :: "orchestration_ledger \<Rightarrow> string \<Rightarrow> string list \<Rightarrow> string list" where
  "resolve_phase_inputs lg phase_name initial_slot_ids =
     (if phase_name = ''INGEST'' then initial_slot_ids
      else
        (let prev_phase = last (takeWhile (\<lambda>p. p \<noteq> phase_name) PHASE_ORDER)
         in case last_boundary_for_phase lg prev_phase of
              None \<Rightarrow> []
            | Some b \<Rightarrow> (case pbr_merged_output_slot_id b of None \<Rightarrow> [] | Some s \<Rightarrow> [s])))"

text \<open>The loop over the worker classes ends after \<open>max_fanout\<close> receipts; it runs at least one worker.\<close>

fun run_classes :: "(string \<Rightarrow> string) \<Rightarrow> mesh_environment \<Rightarrow> phase_config \<Rightarrow> string list \<Rightarrow> nat \<Rightarrow> (string \<times> worker_run) list \<Rightarrow>
    mesh_state \<Rightarrow> execution_receipt list \<Rightarrow> mesh_state \<times> execution_receipt list result" where
  "run_classes sha256 env cfg input_slot_ids i [] st receipts = (st, Inr receipts)"
| "run_classes sha256 env cfg input_slot_ids i ((cls, run) # classes) st receipts =
     (let w = \<lparr>mwk_worker_id = phc_phase_name cfg @ ''_'' @ cls @ ''_'' @ show_nat i, mwk_contract = default_contract cls,
                mwk_run = run, mwk_spawned = False, mwk_modified_contract = False\<rparr>
      in case worker_execute sha256 env w st (phc_phase_name cfg) input_slot_ids of
           (st', Inl e) \<Rightarrow> (st', Inl e)
         | (st', Inr receipt) \<Rightarrow>
             (let receipts' = receipts @ [receipt] in
              if int (length receipts') \<ge> phc_max_fanout cfg then (st', Inr receipts')
              else run_classes sha256 env cfg input_slot_ids (Suc i) classes st' receipts'))"

definition mesh_run_phase :: "(string \<Rightarrow> string) \<Rightarrow> mesh_environment \<Rightarrow> phase_config \<Rightarrow> string list \<Rightarrow> mesh_state \<Rightarrow>
    mesh_state \<times> execution_receipt list result" where
  "mesh_run_phase sha256 env cfg input_slot_ids st =
     run_classes sha256 env cfg input_slot_ids 0 (phc_worker_classes cfg) st []"

definition receipt_fails :: "bool \<Rightarrow> execution_receipt \<Rightarrow> bool" where
  "receipt_fails fail_open r \<longleftrightarrow>
     exr_status r \<in> {''FAIL'', ''PANIC'', ''SCHEMA_MISMATCH'', ''REPLAY_MISMATCH''} \<or>
     exr_status r = ''TIMEOUT'' \<and> \<not> fail_open \<or> exr_status r = ''RESOURCE_EXCEEDED'' \<and> \<not> fail_open"

definition merge_phase :: "bool \<Rightarrow> phase_config \<Rightarrow> execution_receipt list \<Rightarrow> string" where
  "merge_phase fail_open cfg receipts =
     (if list_ex (\<lambda>req. \<not> list_ex (\<lambda>r. exr_worker_id r = req \<and> exr_status r = ''SUCCESS'') receipts) (phc_required_worker_ids cfg)
      then ''FAIL''
      else if list_ex (receipt_fails fail_open) receipts then ''FAIL''
      else ''SUCCESS'')"

definition new_boundary :: "mesh_environment \<Rightarrow> mesh_state \<Rightarrow> string \<Rightarrow> string list \<Rightarrow> string \<Rightarrow> boundary_receipt" where
  "new_boundary env st phase ids status =
     \<lparr>pbr_boundary_id = ''bnd_'' @ men_uuid env (mst_tick st), pbr_phase = phase, pbr_worker_receipt_ids = ids,
      pbr_merged_output_slot_id = None, pbr_phase_status = status, pbr_previous_boundary_hash = [], pbr_boundary_hash = []\<rparr>"

definition add_boundary :: "(string \<Rightarrow> string) \<Rightarrow> mesh_environment \<Rightarrow> mesh_state \<Rightarrow> string \<Rightarrow> string list \<Rightarrow> string \<Rightarrow> mesh_state" where
  "add_boundary sha256 env st phase ids status =
     st\<lparr>mst_ledger := ledger_append_boundary sha256 (mst_ledger st) (new_boundary env st phase ids status),
        mst_tick := Suc (mst_tick st)\<rparr>"

definition close_state :: "mesh_environment \<Rightarrow> mesh_state \<Rightarrow> mesh_state" where
  "close_state env st = st\<lparr>mst_ledger := ledger_close (men_now env (mst_tick st)) (mst_ledger st)\<rparr>"

fun pipeline_loop :: "(string \<Rightarrow> string) \<Rightarrow> mesh_environment \<Rightarrow> mesh_kernel \<Rightarrow> string list \<Rightarrow> string list \<Rightarrow> mesh_state \<Rightarrow>
    mesh_state \<times> unit result" where
  "pipeline_loop sha256 env kn initial_slot_ids [] st = (close_state env st, Inr ())"
| "pipeline_loop sha256 env kn initial_slot_ids (phase_name # phases) st =
     (case map_of (mkn_phases kn) phase_name of
        None \<Rightarrow> pipeline_loop sha256 env kn initial_slot_ids phases (add_boundary sha256 env st phase_name [] ''SUCCESS'')
      | Some config \<Rightarrow>
          (case mesh_run_phase sha256 env config (resolve_phase_inputs (mst_ledger st) phase_name initial_slot_ids) st of
             (st1, Inl e) \<Rightarrow> (st1, Inl e)
           | (st1, Inr receipts) \<Rightarrow>
               (let merge_status = merge_phase (mkn_fail_open kn) config receipts;
                    st2 = add_boundary sha256 env st1 phase_name (map exr_receipt_id receipts) merge_status
                in if merge_status = ''FAIL'' \<and> \<not> mkn_fail_open kn then (close_state env st2, Inr ())
                   else pipeline_loop sha256 env kn initial_slot_ids phases st2)))"

definition run_pipeline :: "(string \<Rightarrow> string) \<Rightarrow> mesh_environment \<Rightarrow> mesh_kernel \<Rightarrow> string list \<Rightarrow> mesh_state \<Rightarrow>
    mesh_state \<times> unit result" where
  "run_pipeline sha256 env kn initial_slot_ids st = pipeline_loop sha256 env kn initial_slot_ids PHASE_ORDER st"

definition current_phase :: "mesh_kernel \<Rightarrow> string option" where
  "current_phase kn = (if mkn_phase_index kn < length PHASE_ORDER then Some (PHASE_ORDER ! mkn_phase_index kn) else None)"

section \<open>The ledger's chains\<close>

lemma links_ok_snoc [simp]:
  "links_ok stored prev compute x (es @ [e]) \<longleftrightarrow>
     links_ok stored prev compute x es \<and> prev e = (if es = [] then x else stored (last es)) \<and> compute e = stored e"
  by (induction es arbitrary: x) auto

lemma links_ok_linked:
  "links_ok stored prev compute x es \<Longrightarrow>
     linked stored prev es \<and> (es \<noteq> [] \<longrightarrow> prev (hd es) = x) \<and> (\<forall>e\<in>set es. stored e = compute e)"
proof (induction es arbitrary: x)
  case (Cons e es)
  then have "linked stored prev es" "es \<noteq> [] \<longrightarrow> prev (hd es) = stored e" "\<forall>a\<in>set es. stored a = compute a"
    by (auto split: if_splits)
  with Cons.prems show ?case by (cases es) (auto split: if_splits)
qed simp

lemma execution_hash_cong [simp]:
  "execution_compute_hash sha256 (r\<lparr>exr_receipt_hash := h\<rparr>) = execution_compute_hash sha256 r"
  by (simp add: execution_compute_hash_def execution_text_def execution_hashed_def)

lemma boundary_hash_cong [simp]:
  "boundary_compute_hash sha256 (b\<lparr>pbr_boundary_hash := h\<rparr>) = boundary_compute_hash sha256 b"
  by (simp add: boundary_compute_hash_def boundary_text_def boundary_hashed_def)

lemma ledger_append_receipt_verifies [simp]:
  "ledger_verify_chain sha256 (ledger_append_receipt sha256 lg r) = ledger_verify_chain sha256 lg"
  by (auto simp: ledger_verify_chain_def ledger_append_receipt_def Let_def)

lemma ledger_append_boundary_verifies [simp]:
  "ledger_verify_chain sha256 (ledger_append_boundary sha256 lg b) = ledger_verify_chain sha256 lg"
  by (auto simp: ledger_verify_chain_def ledger_append_boundary_def Let_def)

lemma ledger_close_verifies [simp]: "ledger_verify_chain sha256 (ledger_close now lg) = ledger_verify_chain sha256 lg"
  by (simp add: ledger_verify_chain_def ledger_close_def)

text \<open>The hashed text of a receipt, and of a boundary, determines its hashed fields.\<close>

lemma map_PStr_norm: "map (json_norm \<circ> PStr) xs = map (json_norm \<circ> PStr) ys \<longleftrightarrow> xs = ys"
proof -
  have "inj (json_norm \<circ> PStr)" by (simp add: inj_def)
  then show ?thesis by (simp add: inj_map_eq_map)
qed

lemma execution_text_inj: "execution_text a = execution_text b \<Longrightarrow> execution_hashed a = execution_hashed b"
proof -
  let ?d = "\<lambda>r. PDict (execution_hashed r)"
  have wf: "py_wf (?d r)" "set_free (?d r)" for r
    by (simp_all add: execution_hashed_def list_all_iff)
  assume "execution_text a = execution_text b"
  then have "json_norm (?d a) = json_norm (?d b)"
    using dumps_inj [of "'',''" "'':''" "?d a" "?d b"] wf by (simp add: execution_text_def dumps_compact_def)
  then have l: "map_option json_norm (map_of (execution_hashed a) k) = map_option json_norm (map_of (execution_hashed b) k)" for k
    using wf by (intro json_norm_dict_lookup) simp_all
  then show ?thesis
    using l [of "''worker_class''"] l [of "''worker_id''"] l [of "''phase''"] l [of "''input_slot_ids''"]
      l [of "''output_slot_ids''"] l [of "''status''"] l [of "''determinism_proof''"] l [of "''previous_receipt_hash''"]
    by (simp add: execution_hashed_def map_PStr_norm)
qed

lemma boundary_text_inj: "boundary_text a = boundary_text b \<Longrightarrow> boundary_hashed a = boundary_hashed b"
proof -
  let ?d = "\<lambda>r. PDict (boundary_hashed r)"
  have wf: "py_wf (?d r)" "set_free (?d r)" for r
    by (simp_all add: boundary_hashed_def list_all_iff split: option.split)
  assume "boundary_text a = boundary_text b"
  then have "json_norm (?d a) = json_norm (?d b)"
    using dumps_inj [of "'',''" "'':''" "?d a" "?d b"] wf by (simp add: boundary_text_def dumps_compact_def)
  then have l: "map_option json_norm (map_of (boundary_hashed a) k) = map_option json_norm (map_of (boundary_hashed b) k)" for k
    using wf by (intro json_norm_dict_lookup) simp_all
  then show ?thesis
    using l [of "''phase''"] l [of "''worker_receipt_ids''"] l [of "''merged_output_slot_id''"] l [of "''phase_status''"]
      l [of "''previous_boundary_hash''"]
    by (simp add: boundary_hashed_def map_PStr_norm split: option.splits)
qed

interpretation execution_chain: hash_chain exr_receipt_hash exr_previous_receipt_hash sha256 execution_text
  for sha256 :: "string \<Rightarrow> string"
  by unfold_locales (auto dest!: execution_text_inj simp: execution_hashed_def)

interpretation boundary_chain: hash_chain pbr_boundary_hash pbr_previous_boundary_hash sha256 boundary_text
  for sha256 :: "string \<Rightarrow> string"
  by unfold_locales (auto dest!: boundary_text_inj simp: boundary_hashed_def)

lemma map_text_hashed:
  assumes "\<And>a b. text_of a = text_of b \<Longrightarrow> hashed_of a = hashed_of b" and "map text_of xs = map text_of ys"
  shows "map hashed_of xs = map hashed_of ys"
  using assms(2)
proof (induction xs arbitrary: ys)
  case (Cons x xs)
  then obtain y ys' where "ys = y # ys'" "text_of x = text_of y" "map text_of xs = map text_of ys'"
    by (cases ys) auto
  with Cons.IH assms(1) [of x y] show ?case by simp
qed simp

definition receipts_head :: "orchestration_ledger \<Rightarrow> string" where
  "receipts_head lg = (if orl_receipts lg = [] then [] else exr_receipt_hash (last (orl_receipts lg)))"

definition boundaries_head :: "orchestration_ledger \<Rightarrow> string" where
  "boundaries_head lg = (if orl_boundaries lg = [] then [] else pbr_boundary_hash (last (orl_boundaries lg)))"

text \<open>
  Two ledgers that both verify and have the same head of receipts and the same head
  of boundaries record the same executions and the same boundaries, in number, order and hashed fields, as
  long as the digest has no collision among the texts the two ledgers hash and is never empty.
\<close>

theorem mesh_heads_fix_ledger:
  assumes "ledger_verify_chain sha256 a" and "ledger_verify_chain sha256 b"
    and "receipts_head a = receipts_head b" and "boundaries_head a = boundaries_head b"
    and "inj_on sha256 (execution_text ` (set (orl_receipts a) \<union> set (orl_receipts b)))"
    and "inj_on sha256 (boundary_text ` (set (orl_boundaries a) \<union> set (orl_boundaries b)))"
    and ne: "\<And>t. sha256 t \<noteq> []"
  shows "map execution_hashed (orl_receipts a) = map execution_hashed (orl_receipts b) \<and>
    map boundary_hashed (orl_boundaries a) = map boundary_hashed (orl_boundaries b)"
proof -
  have r: "linked exr_receipt_hash exr_previous_receipt_hash (orl_receipts l)"
    "orl_receipts l \<noteq> [] \<Longrightarrow> exr_previous_receipt_hash (hd (orl_receipts l)) = []"
    "\<And>e. e \<in> set (orl_receipts l) \<Longrightarrow> exr_receipt_hash e = sha256 (execution_text e)"
    if "ledger_verify_chain sha256 l" for l
    using that links_ok_linked by (fastforce simp: ledger_verify_chain_def execution_compute_hash_def)+
  have b: "linked pbr_boundary_hash pbr_previous_boundary_hash (orl_boundaries l)"
    "orl_boundaries l \<noteq> [] \<Longrightarrow> pbr_previous_boundary_hash (hd (orl_boundaries l)) = []"
    "\<And>e. e \<in> set (orl_boundaries l) \<Longrightarrow> pbr_boundary_hash e = sha256 (boundary_text e)"
    if "ledger_verify_chain sha256 l" for l
    using that links_ok_linked by (fastforce simp: ledger_verify_chain_def boundary_compute_hash_def)+
  have "map execution_text (orl_receipts a) = map execution_text (orl_receipts b)"
  proof (rule execution_chain.rooted_tamper_evident [where genesis = "[]"])
    show "\<And>e. e \<in> set (orl_receipts a) \<union> set (orl_receipts b) \<Longrightarrow> exr_receipt_hash e \<noteq> []"
      using r(3) [OF assms(1)] r(3) [OF assms(2)] ne by auto
  qed (use assms r in \<open>auto simp: receipts_head_def\<close>)
  moreover have "map boundary_text (orl_boundaries a) = map boundary_text (orl_boundaries b)"
  proof (rule boundary_chain.rooted_tamper_evident [where genesis = "[]"])
    show "\<And>e. e \<in> set (orl_boundaries a) \<union> set (orl_boundaries b) \<Longrightarrow> pbr_boundary_hash e \<noteq> []"
      using b(3) [OF assms(1)] b(3) [OF assms(2)] ne by auto
  qed (use assms b in \<open>auto simp: boundaries_head_def\<close>)
  ultimately show ?thesis
    by (intro conjI map_text_hashed [of execution_text execution_hashed, OF execution_text_inj]
        map_text_hashed [of boundary_text boundary_hashed, OF boundary_text_inj])
qed

section \<open>What a pipeline keeps\<close>

text \<open>
  A property of the ledger that appending a receipt, appending a boundary without merged output and closing
  keep is kept by a whole run, whether the run returns or raises.
\<close>

locale ledger_invariant =
  fixes sha256 :: "string \<Rightarrow> string" and I :: "orchestration_ledger \<Rightarrow> bool"
  assumes keeps_receipt: "I lg \<Longrightarrow> I (ledger_append_receipt sha256 lg r)"
    and keeps_boundary: "I lg \<Longrightarrow> pbr_merged_output_slot_id b = None \<Longrightarrow> I (ledger_append_boundary sha256 lg b)"
    and keeps_close: "I lg \<Longrightarrow> I (ledger_close now lg)"
begin

lemma make_receipt_keeps: "I (mst_ledger st) \<Longrightarrow> I (mst_ledger (fst (make_receipt sha256 env w st p ins outs s d u pr)))"
  by (simp add: make_receipt_def Let_def keeps_receipt)

lemma make_slots_receipt_keeps:
  "I (mst_ledger st) \<Longrightarrow> I (mst_ledger (fst (make_slots_receipt sha256 env w st p ins outs s d u)))"
  by (simp add: make_slots_receipt_def make_receipt_keeps split: list.split)

lemma execute_keeps: "I (mst_ledger st) \<Longrightarrow> I (mst_ledger (fst (worker_execute sha256 env w st p ins)))"
  by (simp add: worker_execute_def Let_def make_receipt_keeps make_slots_receipt_keeps
      split: option.split prod.split run_outcome.split)

lemma run_classes_keeps: "I (mst_ledger st) \<Longrightarrow> I (mst_ledger (fst (run_classes sha256 env cfg ins i cs st rs)))"
proof (induction cs arbitrary: i st rs)
  case (Cons c cs)
  obtain cls run where c: "c = (cls, run)" by (cases c)
  let ?w = "\<lparr>mwk_worker_id = phc_phase_name cfg @ ''_'' @ cls @ ''_'' @ show_nat i, mwk_contract = default_contract cls,
                mwk_run = run, mwk_spawned = False, mwk_modified_contract = False\<rparr>"
  obtain st' x where e: "worker_execute sha256 env ?w st (phc_phase_name cfg) ins = (st', x)" by fastforce
  have "I (mst_ledger st')" using execute_keeps [OF Cons.prems, of env ?w] e by (metis fst_conv)
  with Cons.IH e c show ?case by (cases x) (simp_all add: Let_def)
qed simp

lemma add_boundary_keeps: "I (mst_ledger st) \<Longrightarrow> I (mst_ledger (add_boundary sha256 env st p ids s))"
  by (simp add: add_boundary_def new_boundary_def keeps_boundary)

lemma pipeline_loop_keeps: "I (mst_ledger st) \<Longrightarrow> I (mst_ledger (fst (pipeline_loop sha256 env kn ins ps st)))"
proof (induction ps arbitrary: st)
  case Nil
  then show ?case by (simp add: close_state_def keeps_close)
next
  case (Cons p ps)
  show ?case
  proof (cases "map_of (mkn_phases kn) p")
    case None
    then show ?thesis using Cons add_boundary_keeps by simp
  next
    case (Some cfg)
    obtain st1 x where e: "mesh_run_phase sha256 env cfg (resolve_phase_inputs (mst_ledger st) p ins) st = (st1, x)"
      by fastforce
    have "I (mst_ledger st1)"
      using run_classes_keeps [OF Cons.prems] e unfolding mesh_run_phase_def by (metis fst_conv)
    then show ?thesis
      using Some e by (cases x) (simp_all add: Let_def close_state_def keeps_close add_boundary_keeps Cons.IH)
  qed
qed

lemma pipeline_keeps: "I (mst_ledger st) \<Longrightarrow> I (mst_ledger (fst (run_pipeline sha256 env kn ins st)))"
  unfolding run_pipeline_def by (rule pipeline_loop_keeps)

end

interpretation verified_ledger: ledger_invariant sha256 "ledger_verify_chain sha256" for sha256
  by unfold_locales simp_all

text \<open>
  A pipeline that starts from a verifying ledger leaves one, on every path: a
  complete run, a run stopped by a failed phase and a run an exception of a worker's receipt leaves.
\<close>

theorem pipeline_ledger_verifies:
  "ledger_verify_chain sha256 (mst_ledger st) \<Longrightarrow>
   ledger_verify_chain sha256 (mst_ledger (fst (run_pipeline sha256 env kn ins st)))"
  by (rule verified_ledger.pipeline_keeps)

section \<open>One worker\<close>

definition inputs_ok :: "artifact_bus \<Rightarrow> worker_contract \<Rightarrow> string list \<Rightarrow> bool" where
  "inputs_ok bus c ids \<longleftrightarrow>
     int (length ids) \<le> wkc_max_input_slots c \<and>
     (\<forall>i\<in>set ids. \<exists>s. slot_read bus i = Some s \<and>
        (wkc_required_input_artifact_types c = [] \<or> asl_artifact_type s \<in> set (wkc_required_input_artifact_types c)))"

lemma schema_error_None:
  "schema_error bus c ids = None \<longleftrightarrow>
     (\<forall>i\<in>set ids. \<exists>s. slot_read bus i = Some s \<and>
        (wkc_required_input_artifact_types c = [] \<or> asl_artifact_type s \<in> set (wkc_required_input_artifact_types c)))"
  by (induction ids) (auto split: option.splits)

text \<open>What may follow the run of a worker: it finished within its limits, or beyond them.\<close>

definition within_limits :: "worker_contract \<Rightarrow> string \<Rightarrow> artifact_slot list \<Rightarrow> bool" where
  "within_limits c elapsed slots \<longleftrightarrow>
     float_val elapsed \<le> float_val (wkc_max_execution_ms c) \<and> int (length slots) \<le> wkc_max_output_slots c"

definition admitted :: "mesh_worker \<Rightarrow> artifact_bus \<Rightarrow> string list \<Rightarrow> bool" where
  "admitted w bus ids \<longleftrightarrow> \<not> mwk_spawned w \<and> \<not> mwk_modified_contract w \<and> inputs_ok bus (mwk_contract w) ids"

lemma make_receipt_result:
  assumes "make_receipt sha256 env w st p ins outs s d u pr = (st', x)"
  shows "\<exists>r. x = Inr r \<and> exr_status r = s \<and> exr_phase r = p \<and> exr_input_slot_ids r = sort ins \<and>
    exr_output_slot_ids r = sort outs \<and> exr_determinism_proof r = pr \<and> exr_worker_id r = mwk_worker_id w \<and>
    mst_bus st' = mst_bus st \<and> mst_ledger st' = ledger_append_receipt sha256 (mst_ledger st) r"
  using assms by (auto simp: make_receipt_def Let_def)

lemmas execute_cases = worker_execute_def Let_def admitted_def inputs_ok_def within_limits_def schema_error_None not_less

text \<open>A worker that is not admitted is not run: the bus stays as it was and the receipt says why.\<close>

lemma execute_refused:
  assumes "\<not> admitted w (mst_bus st) ins" and "worker_execute sha256 env w st p ins = (st', x)"
  shows "\<exists>r. x = Inr r \<and> exr_status r \<in> {''PANIC'', ''RESOURCE_EXCEEDED'', ''SCHEMA_MISMATCH''} \<and> exr_phase r = p \<and>
    exr_input_slot_ids r = sort ins \<and> exr_output_slot_ids r = [] \<and> mst_bus st' = mst_bus st \<and>
    mst_ledger st' = ledger_append_receipt sha256 (mst_ledger st) r"
proof -
  let ?c = "mwk_contract w"
  consider "mwk_spawned w \<or> mwk_modified_contract w"
    | "\<not> mwk_spawned w" "\<not> mwk_modified_contract w" "int (length ins) > wkc_max_input_slots ?c"
    | d where "\<not> mwk_spawned w" "\<not> mwk_modified_contract w" "int (length ins) \<le> wkc_max_input_slots ?c"
        "schema_error (mst_bus st) ?c ins = Some d"
    using assms(1) schema_error_None [of "mst_bus st" ?c ins]
    unfolding admitted_def inputs_ok_def by (meson not_le not_None_eq)
  then have "(\<exists>d. make_receipt sha256 env w st p ins [] ''PANIC'' d [] [] = (st', x)) \<or>
      (\<exists>d. make_receipt sha256 env w st p ins [] ''RESOURCE_EXCEEDED'' d [] [] = (st', x)) \<or>
      (\<exists>d. make_receipt sha256 env w st p ins [] ''SCHEMA_MISMATCH'' d [] [] = (st', x))"
    using assms(2) by cases (auto simp: worker_execute_def Let_def split: if_splits)
  then show ?thesis by (elim disjE exE) (drule make_receipt_result, force)+
qed

lemma execute_admitted:
  assumes "admitted w (mst_bus st) ins"
  shows "worker_execute sha256 env w st p ins =
    (case mwk_run w (mst_bus st) p ins of (bus, outcome) \<Rightarrow>
       (let st1 = st\<lparr>mst_bus := bus\<rparr>; el = men_elapsed env (mst_tick st); u = [(''cpu_ms'', PFloat el)]; c = mwk_contract w in
        case outcome of
          Raised ty msg \<Rightarrow> make_receipt sha256 env w st1 p ins [] ''FAIL'' (''Exception: '' @ ty @ '': '' @ msg) u []
        | Returned slots \<Rightarrow>
            if within_limits c el slots
            then make_receipt sha256 env w st1 p ins (map asl_slot_id slots) ''SUCCESS'' []
                   (u @ [(''memory_mb'', PFloat ''0.0'')]) (compute_determinism_proof sha256 slots)
            else if float_val el > float_val (wkc_max_execution_ms c)
            then make_slots_receipt sha256 env w st1 p ins slots ''TIMEOUT''
                   (''Elapsed '' @ fixed1 (float_val el) @ ''ms > max '' @ wkc_max_execution_ms c @ ''ms'') u
            else make_slots_receipt sha256 env w st1 p ins slots ''RESOURCE_EXCEEDED''
                   (''Outputs '' @ show_nat (length slots) @ '' > max '' @ show_int (wkc_max_output_slots c)) u))"
proof -
  have "schema_error (mst_bus st) (mwk_contract w) ins = None"
    using assms by (simp add: admitted_def inputs_ok_def schema_error_None)
  with assms show ?thesis
    by (simp add: worker_execute_def Let_def admitted_def inputs_ok_def within_limits_def not_less
        split: prod.split run_outcome.split)
qed

lemma make_slots_receipt_result:
  assumes "make_slots_receipt sha256 env w st p ins slots s d u = (st', x)"
  shows "(slots \<noteq> [] \<longrightarrow> (\<exists>e. x = Inl e) \<and> st' = st) \<and>
    (slots = [] \<longrightarrow> make_receipt sha256 env w st p ins [] s d u [] = (st', x))"
  using assms by (auto simp: make_slots_receipt_def split: list.splits)

text \<open>
  C29 (worker_verdict): the execution of a worker. It succeeds exactly when the worker is admitted (neither flag
  set, no more inputs than the contract allows, each of them a slot of an allowed type) and its run returns
  within the time and the number of outputs of the contract; the receipt then lists the outputs and seals
  their fingerprints. A worker that is not admitted leaves the bus alone. The call raises, with the run's
  outputs on the bus and no receipt, exactly when an admitted worker returns some output but too slowly or
  too many of them.
\<close>

theorem worker_verdict:
  assumes "worker_execute sha256 env w st p ins = (st', x)"
    and "mwk_run w (mst_bus st) p ins = (bus, outcome)"
  defines "el \<equiv> men_elapsed env (mst_tick st)"
  shows "((\<exists>r. x = Inr r \<and> exr_status r = ''SUCCESS'') \<longleftrightarrow>
      admitted w (mst_bus st) ins \<and> (\<exists>slots. outcome = Returned slots \<and> within_limits (mwk_contract w) el slots)) \<and>
    ((\<exists>e. x = Inl e) \<longleftrightarrow>
      admitted w (mst_bus st) ins \<and>
      (\<exists>slots. outcome = Returned slots \<and> slots \<noteq> [] \<and> \<not> within_limits (mwk_contract w) el slots)) \<and>
    (\<forall>r. x = Inr r \<longrightarrow> mst_ledger st' = ledger_append_receipt sha256 (mst_ledger st) r \<and>
      exr_phase r = p \<and> exr_input_slot_ids r = sort ins \<and>
      (\<forall>slots. exr_status r = ''SUCCESS'' \<and> outcome = Returned slots \<longrightarrow>
         exr_output_slot_ids r = sort (map asl_slot_id slots) \<and>
         exr_determinism_proof r = compute_determinism_proof sha256 slots)) \<and>
    (\<forall>e. x = Inl e \<longrightarrow> mst_ledger st' = mst_ledger st) \<and>
    mst_bus st' = (if admitted w (mst_bus st) ins then bus else mst_bus st)"
proof (cases "admitted w (mst_bus st) ins")
  case False
  from execute_refused [OF this assms(1)] False show ?thesis by auto
next
  case True
  let ?st1 = "st\<lparr>mst_bus := bus\<rparr>"
  note ex = assms(1) [unfolded execute_admitted [OF True] assms(2)]
  show ?thesis
  proof (cases outcome)
    case (Raised ty msg)
    with ex have "make_receipt sha256 env w ?st1 p ins [] ''FAIL'' (''Exception: '' @ ty @ '': '' @ msg)
        [(''cpu_ms'', PFloat el)] [] = (st', x)" by (simp add: Let_def el_def)
    from make_receipt_result [OF this] Raised True show ?thesis by auto
  next
    case (Returned slots)
    show ?thesis
    proof (cases "within_limits (mwk_contract w) el slots")
      case wl: True
      with ex Returned have "make_receipt sha256 env w ?st1 p ins (map asl_slot_id slots) ''SUCCESS'' []
          ([(''cpu_ms'', PFloat el)] @ [(''memory_mb'', PFloat ''0.0'')]) (compute_determinism_proof sha256 slots) = (st', x)"
        by (simp add: Let_def el_def)
      from make_receipt_result [OF this] Returned True wl show ?thesis by auto
    next
      case wl: False
      with ex Returned have
        "(\<exists>d. make_slots_receipt sha256 env w ?st1 p ins slots ''TIMEOUT'' d [(''cpu_ms'', PFloat el)] = (st', x)) \<or>
         (\<exists>d. make_slots_receipt sha256 env w ?st1 p ins slots ''RESOURCE_EXCEEDED'' d [(''cpu_ms'', PFloat el)] = (st', x))"
        by (auto simp: Let_def el_def split: if_splits)
      then show ?thesis
        using Returned True wl
        by (cases "slots = []") (auto dest!: make_slots_receipt_result make_receipt_result)
    qed
  qed
qed

section \<open>The phases of a run\<close>

text \<open>What a phase may do to the ledger: append receipts of its own.\<close>

definition phase_extends :: "string \<Rightarrow> string list \<Rightarrow> orchestration_ledger \<Rightarrow> orchestration_ledger \<Rightarrow> bool" where
  "phase_extends p ins lg lg' \<longleftrightarrow>
     (\<exists>new. orl_receipts lg' = orl_receipts lg @ new \<and>
        (\<forall>r\<in>set new. exr_phase r = p \<and> exr_input_slot_ids r = sort ins)) \<and>
     orl_boundaries lg' = orl_boundaries lg \<and> orl_closed_at lg' = orl_closed_at lg"

lemma phase_extends_refl [simp]: "phase_extends p ins lg lg"
  by (simp add: phase_extends_def)

lemma phase_extends_trans: "phase_extends p ins a b \<Longrightarrow> phase_extends p ins b c \<Longrightarrow> phase_extends p ins a c"
  unfolding phase_extends_def by (metis append.assoc set_append Un_iff)

lemma phase_extends_append:
  "exr_phase r = p \<Longrightarrow> exr_input_slot_ids r = sort ins \<Longrightarrow> phase_extends p ins lg (ledger_append_receipt sha256 lg r)"
  by (simp add: phase_extends_def ledger_append_receipt_def Let_def)

lemma make_receipt_extends:
  "phase_extends p ins (mst_ledger st) (mst_ledger (fst (make_receipt sha256 env w st p ins outs s d u pr)))"
  by (simp add: make_receipt_def Let_def phase_extends_append)

lemma make_slots_receipt_extends:
  "phase_extends p ins (mst_ledger st) (mst_ledger (fst (make_slots_receipt sha256 env w st p ins outs s d u)))"
  by (simp add: make_slots_receipt_def make_receipt_extends split: list.split)

lemma execute_extends:
  "phase_extends p ins (mst_ledger st) (mst_ledger (fst (worker_execute sha256 env w st p ins)))"
proof -
  have "phase_extends p ins (mst_ledger st) (mst_ledger (fst (make_receipt sha256 env w (st\<lparr>mst_bus := b\<rparr>) p ins outs s d u pr)))"
    "phase_extends p ins (mst_ledger st) (mst_ledger (fst (make_slots_receipt sha256 env w (st\<lparr>mst_bus := b\<rparr>) p ins slots s d u)))"
    for b outs s d u pr slots
    using make_receipt_extends [where st = "st\<lparr>mst_bus := b\<rparr>"] make_slots_receipt_extends [where st = "st\<lparr>mst_bus := b\<rparr>"]
    by simp_all
  then show ?thesis
    by (simp add: worker_execute_def Let_def make_receipt_extends split: option.split prod.split run_outcome.split)
qed

lemma run_classes_extends:
  "phase_extends (phc_phase_name cfg) ins (mst_ledger st) (mst_ledger (fst (run_classes sha256 env cfg ins i cs st rs)))"
proof (induction cs arbitrary: i st rs)
  case (Cons c cs)
  obtain cls run where c: "c = (cls, run)" by (cases c)
  let ?w = "\<lparr>mwk_worker_id = phc_phase_name cfg @ ''_'' @ cls @ ''_'' @ show_nat i, mwk_contract = default_contract cls,
                mwk_run = run, mwk_spawned = False, mwk_modified_contract = False\<rparr>"
  obtain st' x where e: "worker_execute sha256 env ?w st (phc_phase_name cfg) ins = (st', x)" by fastforce
  then have "phase_extends (phc_phase_name cfg) ins (mst_ledger st) (mst_ledger st')"
    using execute_extends [of "phc_phase_name cfg" ins st sha256 env ?w] by simp
  then show ?case
    using phase_extends_trans [OF _ Cons.IH] e c by (cases x) (auto simp: Let_def)
qed simp

lemma mesh_run_phase_extends:
  "mesh_run_phase sha256 env cfg ins st = (st', x) \<Longrightarrow> phase_extends (phc_phase_name cfg) ins (mst_ledger st) (mst_ledger st')"
  using run_classes_extends [of cfg ins st sha256 env 0 "phc_worker_classes cfg" "[]"] by (simp add: mesh_run_phase_def)

lemma orl_append_boundary [simp]:
  "orl_receipts (mst_ledger (add_boundary sha256 env st p ids s)) = orl_receipts (mst_ledger st)"
  "orl_closed_at (mst_ledger (add_boundary sha256 env st p ids s)) = orl_closed_at (mst_ledger st)"
  "\<exists>b. orl_boundaries (mst_ledger (add_boundary sha256 env st p ids s)) = orl_boundaries (mst_ledger st) @ [b] \<and>
     pbr_phase b = p \<and> pbr_phase_status b = s \<and> pbr_worker_receipt_ids b = ids \<and> pbr_merged_output_slot_id b = None"
  by (simp_all add: add_boundary_def ledger_append_boundary_def new_boundary_def Let_def)

lemma orl_close_state [simp]:
  "orl_receipts (mst_ledger (close_state env st)) = orl_receipts (mst_ledger st)"
  "orl_boundaries (mst_ledger (close_state env st)) = orl_boundaries (mst_ledger st)"
  "orl_closed_at (mst_ledger (close_state env st)) = Some (men_now env (mst_tick st))"
  by (simp_all add: close_state_def ledger_close_def)

lemma merge_phase_values: "merge_phase fo cfg rs = ''SUCCESS'' \<or> merge_phase fo cfg rs = ''FAIL''"
  by (simp add: merge_phase_def)

text \<open>The boundaries a run over the phases \<open>ps\<close> may append, and how it may end.\<close>

definition run_shape :: "bool \<Rightarrow> string list \<Rightarrow> unit result \<Rightarrow> boundary_receipt list \<Rightarrow> bool" where
  "run_shape fail_open ps x bs \<longleftrightarrow>
     map pbr_phase bs = take (length bs) ps \<and>
     (\<forall>b\<in>set bs. pbr_phase_status b \<in> {''SUCCESS'', ''FAIL''}) \<and>
     (\<not> fail_open \<longrightarrow> (\<forall>b\<in>set (butlast bs). pbr_phase_status b = ''SUCCESS'')) \<and>
     (case x of
        Inl e \<Rightarrow> length bs < length ps \<and> (\<not> fail_open \<longrightarrow> (\<forall>b\<in>set bs. pbr_phase_status b = ''SUCCESS''))
      | Inr _ \<Rightarrow> length bs = length ps \<or> \<not> fail_open \<and> bs \<noteq> [] \<and> pbr_phase_status (last bs) = ''FAIL'')"

lemma run_shape_Cons:
  assumes "run_shape fo ps x bs" and "pbr_phase b = p" and "pbr_phase_status b \<in> {''SUCCESS'', ''FAIL''}"
    and "\<not> fo \<longrightarrow> pbr_phase_status b = ''SUCCESS''"
  shows "run_shape fo (p # ps) x (b # bs)"
  using assms by (cases x) (auto simp: run_shape_def)

lemma pipeline_loop_shape:
  assumes "pipeline_loop sha256 env kn ins ps st = (st', x)"
  shows "\<exists>bs. orl_boundaries (mst_ledger st') = orl_boundaries (mst_ledger st) @ bs \<and> run_shape (mkn_fail_open kn) ps x bs \<and>
    (case x of Inl _ \<Rightarrow> orl_closed_at (mst_ledger st') = orl_closed_at (mst_ledger st) | Inr _ \<Rightarrow> orl_closed_at (mst_ledger st') \<noteq> None)"
  using assms
proof (induction ps arbitrary: st)
  case Nil
  then show ?case by (auto simp: run_shape_def)
next
  case (Cons p ps)
  have step: ?case
    if l: "pipeline_loop sha256 env kn ins ps (add_boundary sha256 env st1 p ids s) = (st', x)"
      and s: "s \<in> {''SUCCESS'', ''FAIL''}" "\<not> mkn_fail_open kn \<longrightarrow> s = ''SUCCESS''"
      and b: "orl_boundaries (mst_ledger st1) = orl_boundaries (mst_ledger st)"
      and c: "orl_closed_at (mst_ledger st1) = orl_closed_at (mst_ledger st)" for st1 ids s
  proof -
    obtain b where b': "orl_boundaries (mst_ledger (add_boundary sha256 env st1 p ids s)) = orl_boundaries (mst_ledger st1) @ [b]"
      "pbr_phase b = p" "pbr_phase_status b = s" using orl_append_boundary(3) by blast
    from Cons.IH [OF l] obtain bs where "orl_boundaries (mst_ledger st') = orl_boundaries (mst_ledger st) @ b # bs"
      "run_shape (mkn_fail_open kn) ps x bs"
      "case x of Inl _ \<Rightarrow> orl_closed_at (mst_ledger st') = orl_closed_at (mst_ledger st) | Inr _ \<Rightarrow> orl_closed_at (mst_ledger st') \<noteq> None"
      using b b' c by (auto split: sum.splits)
    with run_shape_Cons [OF _ b'(2)] b'(3) s show ?thesis by auto
  qed
  show ?case
  proof (cases "map_of (mkn_phases kn) p")
    case None
    with Cons.prems step [of st] show ?thesis by simp
  next
    case (Some cfg)
    obtain st1 y where e: "mesh_run_phase sha256 env cfg (resolve_phase_inputs (mst_ledger st) p ins) st = (st1, y)"
      by fastforce
    have st1: "orl_boundaries (mst_ledger st1) = orl_boundaries (mst_ledger st)" "orl_closed_at (mst_ledger st1) = orl_closed_at (mst_ledger st)"
      using mesh_run_phase_extends [OF e] by (simp_all add: phase_extends_def)
    show ?thesis
    proof (cases y)
      case (Inl err)
      with Cons.prems Some e st1 show ?thesis by (auto simp: run_shape_def)
    next
      case (Inr rs)
      let ?m = "merge_phase (mkn_fail_open kn) cfg rs"
      show ?thesis
      proof (cases "?m = ''FAIL'' \<and> \<not> mkn_fail_open kn")
        case True
        obtain b where "orl_boundaries (mst_ledger (add_boundary sha256 env st1 p (map exr_receipt_id rs) ?m)) =
          orl_boundaries (mst_ledger st1) @ [b]" "pbr_phase b = p" "pbr_phase_status b = ?m"
          using orl_append_boundary(3) by blast
        with True Cons.prems Some e Inr st1 show ?thesis
          by (auto simp: Let_def run_shape_def intro!: exI [of _ "[b]"])
      next
        case False
        then show ?thesis
          using Cons.prems Some e Inr st1 merge_phase_values [of "mkn_fail_open kn" cfg rs]
          by (intro step [of st1 "map exr_receipt_id rs" ?m]) (auto simp: Let_def)
      qed
    qed
  qed
qed

text \<open>
  C30 (pipeline_prefix): a run appends one boundary per phase, in the fixed order of the phases and from the
  first one. Unless it fails open, every phase before the last one it reached succeeded. A run that returns
  has closed the ledger and either went through all seven phases or, failing closed, stopped right after a
  failed one; a run that raises leaves the ledger open, in the middle of a phase that has no boundary.
\<close>

theorem pipeline_prefix:
  assumes "run_pipeline sha256 env kn ins st = (st', x)"
  shows "\<exists>bs. orl_boundaries (mst_ledger st') = orl_boundaries (mst_ledger st) @ bs \<and>
    run_shape (mkn_fail_open kn) PHASE_ORDER x bs \<and>
    (case x of Inl _ \<Rightarrow> orl_closed_at (mst_ledger st') = orl_closed_at (mst_ledger st) | Inr _ \<Rightarrow> orl_closed_at (mst_ledger st') \<noteq> None)"
  using assms unfolding run_pipeline_def by (rule pipeline_loop_shape)

section \<open>Inputs of later phases\<close>

definition no_merged_output :: "orchestration_ledger \<Rightarrow> bool" where
  "no_merged_output lg \<longleftrightarrow> (\<forall>b\<in>set (orl_boundaries lg). pbr_merged_output_slot_id b = None)"

interpretation unmerged: ledger_invariant sha256 no_merged_output for sha256
  by unfold_locales
    (auto simp: no_merged_output_def ledger_append_receipt_def ledger_append_boundary_def ledger_close_def Let_def)

lemma resolve_no_merged:
  assumes "no_merged_output lg" and "p \<noteq> ''INGEST''"
  shows "resolve_phase_inputs lg p ins = []"
proof -
  have "pbr_merged_output_slot_id b = None" if "last_boundary_for_phase lg q = Some b" for q b
    using that assms(1) unfolding last_boundary_for_phase_def find_Some_iff no_merged_output_def
    by (metis nth_mem set_rev)
  with assms(2) show ?thesis by (simp add: resolve_phase_inputs_def Let_def split: option.split)
qed

text \<open>Every receipt of a phase other than \<open>INGEST\<close> has no input.\<close>

definition starved :: "orchestration_ledger \<Rightarrow> bool" where
  "starved lg \<longleftrightarrow> (\<forall>r\<in>set (orl_receipts lg). exr_phase r \<noteq> ''INGEST'' \<longrightarrow> exr_input_slot_ids r = [])"

lemma phase_extends_starved:
  "phase_extends p ins lg lg' \<Longrightarrow> starved lg \<Longrightarrow> p \<noteq> ''INGEST'' \<longrightarrow> ins = [] \<Longrightarrow> starved lg'"
  by (auto simp: phase_extends_def starved_def)

lemma pipeline_loop_starved:
  assumes "\<And>p c. map_of (mkn_phases kn) p = Some c \<Longrightarrow> phc_phase_name c = p"
  shows "no_merged_output (mst_ledger st) \<Longrightarrow> starved (mst_ledger st) \<Longrightarrow>
    starved (mst_ledger (fst (pipeline_loop sha256 env kn ins ps st)))"
proof (induction ps arbitrary: st)
  case (Cons p ps)
  have b: "starved (mst_ledger (add_boundary sha256 env st1 p ids s)) = starved (mst_ledger st1)"
    "starved (mst_ledger (close_state env st1)) = starved (mst_ledger st1)" for st1 ids s
    by (simp_all add: starved_def)
  show ?case
  proof (cases "map_of (mkn_phases kn) p")
    case None
    then show ?thesis using Cons b unmerged.add_boundary_keeps by simp
  next
    case (Some cfg)
    let ?i = "resolve_phase_inputs (mst_ledger st) p ins"
    obtain st1 x where e: "mesh_run_phase sha256 env cfg ?i st = (st1, x)" by fastforce
    have "phase_extends p ?i (mst_ledger st) (mst_ledger st1)"
      using mesh_run_phase_extends [OF e] assms [OF Some] by simp
    with Cons.prems resolve_no_merged have "starved (mst_ledger st1)" by (blast intro: phase_extends_starved)
    moreover have "no_merged_output (mst_ledger st1)"
      using unmerged.run_classes_keeps [OF Cons.prems(1)] e unfolding mesh_run_phase_def by (metis fst_conv)
    ultimately show ?thesis
      using Some e b by (cases x) (simp_all add: Let_def unmerged.add_boundary_keeps Cons.IH)
  qed
qed (simp add: starved_def)

lemma new_mesh_kernel_keyed:
  "map_of (mkn_phases (new_mesh_kernel n phases fo)) p = Some c \<Longrightarrow> phc_phase_name c = p"
proof (induction phases rule: rev_induct)
  case (snoc q qs)
  then show ?case by (auto simp: new_mesh_kernel_def dict_of_pairs_def map_of_dict_set split: if_splits)
qed (simp add: new_mesh_kernel_def dict_of_pairs_def)

text \<open>
  Although each phase is meant to consume the output of the one before, every
  receipt that a run over a fresh ledger leaves for a phase other than \<open>INGEST\<close> has no inputs: the kernel
  never names a merged output in a boundary.
\<close>

theorem later_phases_starved:
  assumes "orl_receipts (mst_ledger st) = []" and "orl_boundaries (mst_ledger st) = []"
    and "r \<in> set (orl_receipts (mst_ledger (fst (run_pipeline sha256 env (new_mesh_kernel n phases fo) ins st))))"
    and "exr_phase r \<noteq> ''INGEST''"
  shows "exr_input_slot_ids r = []"
proof -
  have "starved (mst_ledger (fst (run_pipeline sha256 env (new_mesh_kernel n phases fo) ins st)))"
    unfolding run_pipeline_def using assms(1,2) new_mesh_kernel_keyed
    by (intro pipeline_loop_starved) (auto simp: no_merged_output_def starved_def)
  with assms(3,4) show ?thesis by (simp add: starved_def)
qed

text \<open>
  The digest of a boundary covers the ids of its receipts, which are drawn at random: two runs of one pipeline
  on one input have different boundary digests, although the comments of \<open>compute_hash\<close> leave random ids out
  for the sake of replay.
\<close>

theorem boundary_hash_not_replayable:
  assumes "sort ids \<noteq> sort ids'" and "inj sha256"
  shows "boundary_compute_hash sha256 (b\<lparr>pbr_worker_receipt_ids := ids\<rparr>) \<noteq>
    boundary_compute_hash sha256 (b\<lparr>pbr_worker_receipt_ids := ids'\<rparr>)"
proof
  assume "boundary_compute_hash sha256 (b\<lparr>pbr_worker_receipt_ids := ids\<rparr>) =
    boundary_compute_hash sha256 (b\<lparr>pbr_worker_receipt_ids := ids'\<rparr>)"
  then have "boundary_text (b\<lparr>pbr_worker_receipt_ids := ids\<rparr>) = boundary_text (b\<lparr>pbr_worker_receipt_ids := ids'\<rparr>)"
    using assms(2) by (simp add: boundary_compute_hash_def inj_eq)
  from boundary_text_inj [OF this] have "map PStr (sort ids) = map PStr (sort ids')"
    by (simp add: boundary_hashed_def)
  moreover have "inj PStr" by (simp add: inj_def)
  ultimately show False using assms(1) by (simp add: inj_map_eq_map)
qed

section \<open>An example run\<close>

definition example_environment :: mesh_environment where
  "example_environment =
     \<lparr>men_uuid = (\<lambda>n. replicate n (CHR ''u'')), men_elapsed = (\<lambda>n. ''1.5''), men_now = (\<lambda>n. DateTime 2025 1 1 0 0 0 n)\<rparr>"

definition example_slot :: artifact_slot where
  "example_slot =
     \<lparr>asl_slot_id = ''s'', asl_slot_version = 1, asl_producer_worker_id = ''w'', asl_artifact_type = ''t'',
      asl_schema_version = ''1.0.0'', asl_payload = [], asl_fingerprint = ''f'', asl_provenance_receipt_ids = []\<rparr>"

text \<open>A worker class that writes one slot, and one that raises.\<close>

definition writing_run :: worker_run where
  "writing_run bus phase ids = (let (bus', slot) = slot_write (Cons (CHR ''h'')) bus example_slot in (bus', Returned [slot]))"

definition raising_run :: worker_run where
  "raising_run bus phase ids = (bus, Raised ''ValueError'' ''bad'')"

definition example_phases :: "phase_config list" where
  "example_phases =
     [\<lparr>phc_phase_name = ''INGEST'', phc_worker_classes = [(''Writer'', writing_run)], phc_max_fanout = 8, phc_required_worker_ids = []\<rparr>,
      \<lparr>phc_phase_name = ''EXTRACT'', phc_worker_classes = [(''Raiser'', raising_run)], phc_max_fanout = 8, phc_required_worker_ids = []\<rparr>]"

definition fresh_mesh :: mesh_state where
  "fresh_mesh =
     \<lparr>mst_bus = new_artifact_bus,
      mst_ledger = \<lparr>orl_ledger_id = ''l'', orl_pipeline_name = ''p'', orl_receipts = [], orl_boundaries = [], orl_closed_at = None\<rparr>,
      mst_tick = 0\<rparr>"

definition example_mesh_run :: "mesh_state \<times> unit result" where
  "example_mesh_run = run_pipeline (Cons (CHR ''h'')) example_environment (new_mesh_kernel ''p'' example_phases False) [] fresh_mesh"

lemma fresh_mesh_verifies: "ledger_verify_chain sha256 (mst_ledger fresh_mesh)"
  by (simp add: fresh_mesh_def ledger_verify_chain_def)

theorem pipeline_ledger_verifies_witness: "ledger_verify_chain (Cons (CHR ''h'')) (mst_ledger (fst example_mesh_run))"
  unfolding example_mesh_run_def using fresh_mesh_verifies by (rule pipeline_ledger_verifies)

theorem mesh_heads_fix_ledger_witness:
  "map execution_hashed (orl_receipts (mst_ledger (fst example_mesh_run))) =
   map execution_hashed (orl_receipts (mst_ledger (fst example_mesh_run)))"
  using mesh_heads_fix_ledger [of "Cons (CHR ''h'')" "mst_ledger (fst example_mesh_run)" "mst_ledger (fst example_mesh_run)"]
    verified_ledger.pipeline_keeps [OF fresh_mesh_verifies, of "Cons (CHR ''h'')"]
  by (simp add: example_mesh_run_def)

theorem boundary_hash_not_replayable_witness:
  "boundary_compute_hash (Cons (CHR ''h'')) (new_boundary example_environment fresh_mesh ''INGEST'' [] ''SUCCESS''\<lparr>pbr_worker_receipt_ids := [''a'']\<rparr>) \<noteq>
   boundary_compute_hash (Cons (CHR ''h'')) (new_boundary example_environment fresh_mesh ''INGEST'' [] ''SUCCESS''\<lparr>pbr_worker_receipt_ids := [''b'']\<rparr>)"
  by (rule boundary_hash_not_replayable) simp_all

lemmas float_val_eval = float_val_def read_nat_def is_digit_def scale10_def char_digit_def

lemma example_elapsed [simp]: "float_val ''1.5'' = 3 / 2" "float_val ''30000.0'' = 30000"
  by (simp_all add: float_val_eval)

text \<open>The example is evaluated with its digests left as they are.\<close>

lemmas example_mesh_eval = example_mesh_run_def run_pipeline_def PHASE_ORDER_def new_mesh_kernel_def example_phases_def
  fresh_mesh_def dict_of_pairs_def mesh_run_phase_def worker_execute_def make_receipt_def default_contract_def
  resolve_phase_inputs_def last_boundary_for_phase_def writing_run_def raising_run_def slot_write_def slot_freeze_def
  example_slot_def example_environment_def Let_def add_boundary_def new_boundary_def ledger_append_boundary_def
  ledger_append_receipt_def merge_phase_def receipt_fails_def close_state_def ledger_close_def

lemma example_mesh_boundaries:
  "map (\<lambda>b. (pbr_phase b, pbr_phase_status b)) (orl_boundaries (mst_ledger (fst example_mesh_run))) =
     [(''INGEST'', ''SUCCESS''), (''EXTRACT'', ''FAIL'')]"
  "snd example_mesh_run = Inr ()"
  by (simp_all add: example_mesh_eval)

theorem pipeline_prefix_witness:
  "\<exists>bs. orl_boundaries (mst_ledger (fst example_mesh_run)) = bs \<and> run_shape False PHASE_ORDER (Inr ()) bs \<and> length bs = 2"
proof -
  have "run_pipeline (Cons (CHR ''h'')) example_environment (new_mesh_kernel ''p'' example_phases False) [] fresh_mesh =
      (fst example_mesh_run, Inr ())"
    using example_mesh_boundaries(2) unfolding example_mesh_run_def by (metis prod.collapse)
  from pipeline_prefix [OF this] have "run_shape False PHASE_ORDER (Inr ()) (orl_boundaries (mst_ledger (fst example_mesh_run)))"
    by (simp add: fresh_mesh_def new_mesh_kernel_def)
  moreover have "length (orl_boundaries (mst_ledger (fst example_mesh_run))) = 2"
    using arg_cong [OF example_mesh_boundaries(1), of length] by simp
  ultimately show ?thesis by blast
qed

lemma example_mesh_receipts:
  "map (\<lambda>r. (exr_phase r, exr_status r)) (orl_receipts (mst_ledger (fst example_mesh_run))) =
     [(''INGEST'', ''SUCCESS''), (''EXTRACT'', ''FAIL'')]"
  by (simp add: example_mesh_eval)

theorem later_phases_starved_witness:
  "\<exists>r\<in>set (orl_receipts (mst_ledger (fst example_mesh_run))). exr_phase r = ''EXTRACT'' \<and> exr_input_slot_ids r = []"
proof -
  have "(''EXTRACT'', ''FAIL'') \<in> set (map (\<lambda>r. (exr_phase r, exr_status r)) (orl_receipts (mst_ledger (fst example_mesh_run))))"
    unfolding example_mesh_receipts by simp
  then obtain r where r: "r \<in> set (orl_receipts (mst_ledger (fst example_mesh_run)))" "exr_phase r = ''EXTRACT''" by auto
  then have "exr_input_slot_ids r = []"
    by (intro later_phases_starved [of fresh_mesh r]) (auto simp: example_mesh_run_def fresh_mesh_def)
  with r show ?thesis by blast
qed

definition example_worker :: "int \<Rightarrow> mesh_worker" where
  "example_worker n =
     \<lparr>mwk_worker_id = ''w'', mwk_contract = default_contract ''Writer''\<lparr>wkc_max_output_slots := n\<rparr>, mwk_run = writing_run,
      mwk_spawned = False, mwk_modified_contract = False\<rparr>"

theorem worker_verdict_witness:
  "\<exists>r. snd (worker_execute (Cons (CHR ''h'')) example_environment (example_worker 1) fresh_mesh ''INGEST'' []) = Inr r \<and>
     exr_status r = ''SUCCESS''"
proof -
  obtain st' x bus out where e: "worker_execute (Cons (CHR ''h'')) example_environment (example_worker 1) fresh_mesh ''INGEST'' [] = (st', x)"
    and r: "mwk_run (example_worker 1) (mst_bus fresh_mesh) ''INGEST'' [] = (bus, out)"
    by (meson surj_pair)
  moreover have "admitted (example_worker 1) (mst_bus fresh_mesh) []"
    by (simp add: admitted_def inputs_ok_def example_worker_def default_contract_def)
  moreover have "\<exists>slots. out = Returned slots \<and> within_limits (mwk_contract (example_worker 1)) ''1.5'' slots"
    using r by (auto simp: example_worker_def writing_run_def slot_write_def Let_def within_limits_def default_contract_def)
  ultimately show ?thesis using worker_verdict [OF e r] by (simp add: example_environment_def)
qed

end
