(* ===== verification/Recovery_Policy.thy ===== *)
theory Recovery_Policy
  imports Py_Values
begin

text \<open>
  Retries behind a circuit breaker (\<open>pi_micro_agents/orchestrator/recovery.py\<close>): the breaker keeps a little
  state machine per step name, and \<open>ChainRecoveryPolicy.execute\<close> runs a step up to a bound of attempts when its
  breaker lets it. Floats are exact rationals, with \<open>repr_float\<close> for their text; readings of the clock and of
  the jitter are arguments, and a step is the list of its outcomes, one per attempt. \<open>parse_float\<close> is
  \<open>float(s)\<close> on strings.

  The state of a breaker is determined by the failures in a row; when an execution succeeds, is refused or
  trips the breaker; bounds on attempts and delays.
\<close>

section \<open>Retry policy\<close>

record retry_policy =
  rpo_max_retries :: int
  rpo_backoff_base_ms :: rat
  rpo_backoff_multiplier :: rat
  rpo_max_backoff_ms :: rat
  rpo_jitter_ms :: rat
  rpo_retryable_risk_threshold :: rat
  rpo_retry_on_exception :: bool

definition default_retry_policy :: retry_policy where
  "default_retry_policy =
     \<lparr>rpo_max_retries = 3, rpo_backoff_base_ms = 100, rpo_backoff_multiplier = 2, rpo_max_backoff_ms = 5000,
      rpo_jitter_ms = 50, rpo_retryable_risk_threshold = 90, rpo_retry_on_exception = True\<rparr>"

definition compute_delay_ms :: "retry_policy \<Rightarrow> rat \<Rightarrow> nat \<Rightarrow> rat" where
  "compute_delay_ms p jitter attempt =
     (let base = rpo_backoff_base_ms p * rpo_backoff_multiplier p ^ attempt;
          capped = min base (rpo_max_backoff_ms p)
      in max 0 (capped + jitter))"

section \<open>Circuit breaker\<close>

datatype breaker_mode = Closed | Open | Half_Open

fun breaker_mode_value :: "breaker_mode \<Rightarrow> string" where
  "breaker_mode_value Closed = ''closed''"
| "breaker_mode_value Open = ''open''"
| "breaker_mode_value Half_Open = ''half_open''"

record breaker_state =
  bks_consecutive_failures :: int
  bks_opened_at :: rat
  bks_state :: breaker_mode

definition new_breaker_state :: breaker_state where
  "new_breaker_state = \<lparr>bks_consecutive_failures = 0, bks_opened_at = 0, bks_state = Closed\<rparr>"

record circuit_breaker =
  cbr_failure_threshold :: int
  cbr_cool_off_seconds :: rat
  cbr_states :: "(string, breaker_state) dict"

definition new_circuit_breaker :: "int \<Rightarrow> rat \<Rightarrow> circuit_breaker" where
  "new_circuit_breaker failure_threshold cool_off_seconds =
     \<lparr>cbr_failure_threshold = max 1 failure_threshold, cbr_cool_off_seconds = max 0 cool_off_seconds, cbr_states = []\<rparr>"

text \<open>\<open>_get\<close> enters a fresh state for a name it does not know.\<close>

definition breaker_get :: "circuit_breaker \<Rightarrow> string \<Rightarrow> breaker_state" where
  "breaker_get br name = dict_get (cbr_states br) name new_breaker_state"

definition breaker_put :: "circuit_breaker \<Rightarrow> string \<Rightarrow> breaker_state \<Rightarrow> circuit_breaker" where
  "breaker_put br name s = br\<lparr>cbr_states := dict_set (cbr_states br) name s\<rparr>"

definition breaker_allow :: "rat \<Rightarrow> circuit_breaker \<Rightarrow> string \<Rightarrow> circuit_breaker \<times> bool" where
  "breaker_allow now br name =
     (let s = breaker_get br name in
      case bks_state s of
        Closed \<Rightarrow> (breaker_put br name s, True)
      | Open \<Rightarrow> if now - bks_opened_at s \<ge> cbr_cool_off_seconds br
                then (breaker_put br name (s\<lparr>bks_state := Half_Open\<rparr>), True)
                else (breaker_put br name s, False)
      | Half_Open \<Rightarrow> (breaker_put br name s, True))"

definition record_success :: "circuit_breaker \<Rightarrow> string \<Rightarrow> circuit_breaker" where
  "record_success br name =
     breaker_put br name ((breaker_get br name)\<lparr>bks_consecutive_failures := 0, bks_opened_at := 0, bks_state := Closed\<rparr>)"

definition record_failure :: "rat \<Rightarrow> circuit_breaker \<Rightarrow> string \<Rightarrow> circuit_breaker \<times> bool" where
  "record_failure now br name =
     (let s0 = breaker_get br name;
          s = s0\<lparr>bks_consecutive_failures := bks_consecutive_failures s0 + 1\<rparr>
      in if bks_state s = Half_Open then (breaker_put br name (s\<lparr>bks_state := Open, bks_opened_at := now\<rparr>), True)
         else if bks_consecutive_failures s \<ge> cbr_failure_threshold br
         then (breaker_put br name (s\<lparr>bks_state := Open, bks_opened_at := now\<rparr>), True)
         else (breaker_put br name s, False))"

definition breaker_status :: "(rat \<Rightarrow> string) \<Rightarrow> rat \<Rightarrow> circuit_breaker \<Rightarrow> string \<Rightarrow> circuit_breaker \<times> payload" where
  "breaker_status repr_float now br name =
     (let s = breaker_get br name
      in (breaker_put br name s,
          [(''step_name'', PStr name), (''state'', PStr (breaker_mode_value (bks_state s))),
           (''consecutive_failures'', PInt (bks_consecutive_failures s)), (''opened_at'', PFloat (repr_float (bks_opened_at s))),
           (''seconds_until_half_open'',
              PFloat (repr_float (if bks_state s = Open then max 0 (cbr_cool_off_seconds br - (now - bks_opened_at s)) else 0)))]))"

section \<open>Recovery\<close>

datatype step_outcome = Step_Raised string string | Step_Returned payload

record step_recovery =
  srr_step_name :: string
  srr_success :: bool
  srr_attempts :: nat
  srr_total_delay_ms :: rat
  srr_last_output :: "payload option"
  srr_last_error :: "string option"
  srr_breaker_tripped :: bool

text \<open>\<open>float(x)\<close>: the number, or the type and the message of the exception.\<close>

fun py_type_name :: "pyval \<Rightarrow> string" where
  "py_type_name PNone = ''NoneType''"
| "py_type_name (PBool _) = ''bool''"
| "py_type_name (PInt _) = ''int''"
| "py_type_name (PFloat _) = ''float''"
| "py_type_name (PStr _) = ''str''"
| "py_type_name (PList _) = ''list''"
| "py_type_name (PTuple _) = ''tuple''"
| "py_type_name (PSet frozen _) = (if frozen then ''frozenset'' else ''set'')"
| "py_type_name (PDict _) = ''dict''"

definition py_float :: "(string \<Rightarrow> rat option) \<Rightarrow> pyval \<Rightarrow> string \<times> string + rat" where
  "py_float parse_float v =
     (case v of
        PStr s \<Rightarrow> (case parse_float s of Some q \<Rightarrow> Inr q
                   | None \<Rightarrow> Inl (''ValueError'', ''could not convert string to float: '' @ py_repr v))
      | _ \<Rightarrow> (case num_val v of Some q \<Rightarrow> Inr q
             | None \<Rightarrow> Inl (''TypeError'', ''float() argument must be a string or a real number, not '' @ py_repr (PStr (py_type_name v)))))"

text \<open>
  One attempt: success, a failure that ends the loop, or one that may be retried, with the last output and error
  it leaves. The error of an earlier attempt stays when the attempt itself leaves none.
\<close>

datatype attempt_result =
    Attempt_Ok payload
  | Attempt_Stop "payload option" "string option"
  | Attempt_Retry "payload option" "string option"

definition try_step :: "(rat \<Rightarrow> string) \<Rightarrow> (string \<Rightarrow> rat option) \<Rightarrow> retry_policy \<Rightarrow> step_outcome \<Rightarrow> string option \<Rightarrow> attempt_result" where
  "try_step repr_float parse_float p outcome last_error =
     (let raised = (\<lambda>(ty, msg).
            let err = Some (ty @ '': '' @ msg)
            in if rpo_retry_on_exception p then Attempt_Retry None err else Attempt_Stop None err) in
      case outcome of
        Step_Raised ty msg \<Rightarrow> raised (ty, msg)
      | Step_Returned out \<Rightarrow>
          (case py_float parse_float (dict_get out ''risk_score'' (PFloat ''0.0'')) of
             Inl e \<Rightarrow> raised e
           | Inr risk \<Rightarrow>
               if truthy (dict_get out ''success'' PNone) then Attempt_Ok out
               else if risk \<ge> rpo_retryable_risk_threshold p
               then Attempt_Stop (Some out) (Some (''risk_score '' @ repr_float risk @ '' >= threshold; not retrying''))
               else Attempt_Retry (Some out) last_error))"

definition max_attempts :: "retry_policy \<Rightarrow> nat" where
  "max_attempts p = nat (max 1 (rpo_max_retries p + 1))"

text \<open>The loop over the attempts: the outcome of success is \<open>Inr\<close>, otherwise the last output and error.\<close>

fun attempt_loop :: "(rat \<Rightarrow> string) \<Rightarrow> (string \<Rightarrow> rat option) \<Rightarrow> retry_policy \<Rightarrow> (nat \<Rightarrow> rat) \<Rightarrow> (nat \<Rightarrow> step_outcome) \<Rightarrow>
    nat \<Rightarrow> nat \<Rightarrow> rat \<Rightarrow> payload option \<Rightarrow> string option \<Rightarrow> nat \<times> rat \<times> (payload option \<times> string option + payload)" where
  "attempt_loop repr_float parse_float p jitter step 0 attempt delay out err = (attempt, delay, Inl (out, err))"
| "attempt_loop repr_float parse_float p jitter step (Suc left) attempt delay out err =
     (case try_step repr_float parse_float p (step attempt) err of
        Attempt_Ok o' \<Rightarrow> (Suc attempt, delay, Inr o')
      | Attempt_Stop o' e' \<Rightarrow> (Suc attempt, delay, Inl (o', e'))
      | Attempt_Retry o' e' \<Rightarrow>
          attempt_loop repr_float parse_float p jitter step left (Suc attempt)
            (if left > 0 then delay + compute_delay_ms p (jitter attempt) attempt else delay) o' e')"

definition recovery_execute :: "(rat \<Rightarrow> string) \<Rightarrow> (string \<Rightarrow> rat option) \<Rightarrow> retry_policy \<Rightarrow> (nat \<Rightarrow> rat) \<Rightarrow> (nat \<Rightarrow> step_outcome) \<Rightarrow>
    rat \<Rightarrow> rat \<Rightarrow> circuit_breaker \<Rightarrow> string \<Rightarrow> circuit_breaker \<times> step_recovery" where
  "recovery_execute repr_float parse_float p jitter step t0 t1 br name =
     (case breaker_allow t0 br name of
        (br1, False) \<Rightarrow>
          (let (br2, status) = breaker_status repr_float t1 br1 name
           in (br2, \<lparr>srr_step_name = name, srr_success = False, srr_attempts = 0, srr_total_delay_ms = 0, srr_last_output = None,
                 srr_last_error = Some (''circuit_breaker_open: '' @ py_str (PDict status)), srr_breaker_tripped = True\<rparr>))
      | (br1, True) \<Rightarrow>
          (case attempt_loop repr_float parse_float p jitter step (max_attempts p) 0 0 None None of
             (attempts, delay, Inr out) \<Rightarrow>
               (record_success br1 name,
                \<lparr>srr_step_name = name, srr_success = True, srr_attempts = attempts, srr_total_delay_ms = delay,
                 srr_last_output = Some out, srr_last_error = None, srr_breaker_tripped = False\<rparr>)
           | (attempts, delay, Inl (out, err)) \<Rightarrow>
               (let (br2, tripped) = record_failure t1 br1 name
                in (br2, \<lparr>srr_step_name = name, srr_success = False, srr_attempts = attempts, srr_total_delay_ms = delay,
                      srr_last_output = out,
                      srr_last_error = Some (case err of None \<Rightarrow> ''step failed'' | Some e \<Rightarrow> if e = [] then ''step failed'' else e),
                      srr_breaker_tripped = tripped\<rparr>))))"

section \<open>What a breaker remembers\<close>

datatype breaker_event =
    Ev_Allow string rat
  | Ev_Status string rat
  | Ev_Success string
  | Ev_Failure string rat

fun breaker_step :: "circuit_breaker \<Rightarrow> breaker_event \<Rightarrow> circuit_breaker" where
  "breaker_step br (Ev_Allow name now) = fst (breaker_allow now br name)"
| "breaker_step br (Ev_Status name now) = fst (breaker_status (\<lambda>_. []) now br name)"
| "breaker_step br (Ev_Success name) = record_success br name"
| "breaker_step br (Ev_Failure name now) = fst (record_failure now br name)"

definition breaker_run :: "int \<Rightarrow> rat \<Rightarrow> breaker_event list \<Rightarrow> circuit_breaker" where
  "breaker_run threshold cool_off evs = foldl breaker_step (new_circuit_breaker threshold cool_off) evs"

fun event_times :: "breaker_event \<Rightarrow> rat set" where
  "event_times (Ev_Allow _ t) = {t}"
| "event_times (Ev_Status _ t) = {t}"
| "event_times (Ev_Success _) = {}"
| "event_times (Ev_Failure _ t) = {t}"

text \<open>The failures of a step since its last success, and when the last failure was recorded.\<close>

fun count_failure :: "string \<Rightarrow> int \<Rightarrow> breaker_event \<Rightarrow> int" where
  "count_failure name n (Ev_Success s) = (if s = name then 0 else n)"
| "count_failure name n (Ev_Failure s t) = (if s = name then n + 1 else n)"
| "count_failure name n _ = n"

definition failures_in_a_row :: "string \<Rightarrow> breaker_event list \<Rightarrow> int" where
  "failures_in_a_row name evs = foldl (count_failure name) 0 evs"

fun failure_time :: "string \<Rightarrow> rat \<Rightarrow> breaker_event \<Rightarrow> rat" where
  "failure_time name u (Ev_Failure s t) = (if s = name then t else u)"
| "failure_time name u _ = u"

definition last_failure :: "string \<Rightarrow> breaker_event list \<Rightarrow> rat" where
  "last_failure name evs = foldl (failure_time name) 0 evs"

lemma breaker_get_put [simp]: "breaker_get (breaker_put br n s) m = (if m = n then s else breaker_get br m)"
  by (simp add: breaker_get_def breaker_put_def dict_get_def map_of_dict_set)

lemma breaker_put_fields [simp]:
  "cbr_failure_threshold (breaker_put br n s) = cbr_failure_threshold br"
  "cbr_cool_off_seconds (breaker_put br n s) = cbr_cool_off_seconds br"
  by (simp_all add: breaker_put_def)

lemmas breaker_ops = breaker_allow_def breaker_status_def record_success_def record_failure_def Let_def

definition state_ok :: "int \<Rightarrow> rat \<Rightarrow> breaker_event list \<Rightarrow> string \<Rightarrow> breaker_state \<Rightarrow> bool" where
  "state_ok threshold cool_off evs name s \<longleftrightarrow>
     bks_consecutive_failures s = failures_in_a_row name evs \<and>
     (bks_state s = Closed \<longleftrightarrow> failures_in_a_row name evs < threshold) \<and>
     (bks_state s \<noteq> Closed \<longrightarrow> bks_opened_at s = last_failure name evs) \<and>
     (bks_state s = Half_Open \<longrightarrow> (\<exists>e\<in>set evs. \<exists>t\<in>event_times e. t - bks_opened_at s \<ge> cool_off))"

definition breaker_inv :: "int \<Rightarrow> rat \<Rightarrow> breaker_event list \<Rightarrow> circuit_breaker \<Rightarrow> bool" where
  "breaker_inv threshold cool_off evs br \<longleftrightarrow>
     cbr_failure_threshold br = threshold \<and> cbr_cool_off_seconds br = cool_off \<and>
     (\<forall>name. state_ok threshold cool_off evs name (breaker_get br name))"

lemma breaker_inv_new:
  "breaker_inv (max 1 threshold) (max 0 cool_off) [] (new_circuit_breaker threshold cool_off)"
  by (simp add: breaker_inv_def state_ok_def new_circuit_breaker_def breaker_get_def dict_get_def new_breaker_state_def
      failures_in_a_row_def)

lemma counts_snoc [simp]:
  "failures_in_a_row name (evs @ [e]) = count_failure name (failures_in_a_row name evs) e"
  "last_failure name (evs @ [e]) = failure_time name (last_failure name evs) e"
  by (simp_all add: failures_in_a_row_def last_failure_def)

text \<open>An event that is no result for a step leaves what is known of the step.\<close>

lemma state_ok_other:
  assumes "state_ok T C evs name s" and "\<And>n. count_failure name n e = n" and "\<And>t. failure_time name t e = t"
  shows "state_ok T C (evs @ [e]) name s"
  using assms by (auto simp: state_ok_def)

lemma breaker_inv_put:
  assumes "breaker_inv T C evs br" and "state_ok T C (evs @ [e]) n s"
    and "\<And>m k. m \<noteq> n \<Longrightarrow> count_failure m k e = k" and "\<And>m t. m \<noteq> n \<Longrightarrow> failure_time m t e = t"
  shows "breaker_inv T C (evs @ [e]) (breaker_put br n s)"
  using assms by (auto simp: breaker_inv_def intro: state_ok_other)

lemma breaker_inv_get:
  "breaker_inv T C evs br \<Longrightarrow> state_ok T C evs n (breaker_get br n)"
  "breaker_inv T C evs br \<Longrightarrow> cbr_cool_off_seconds br = C"
  "breaker_inv T C evs br \<Longrightarrow> cbr_failure_threshold br = T"
  by (simp_all add: breaker_inv_def)

lemma breaker_inv_step:
  assumes inv: "breaker_inv T C evs br" and "1 \<le> T"
  shows "breaker_inv T C (evs @ [e]) (breaker_step br e)"
proof (cases e)
  case (Ev_Allow n t)
  let ?s = "breaker_get br n"
  have s: "state_ok T C evs n ?s" using inv by (rule breaker_inv_get)
  have same: "state_ok T C (evs @ [e]) n ?s" using s by (rule state_ok_other) (simp_all add: Ev_Allow)
  have half: "state_ok T C (evs @ [e]) n (?s\<lparr>bks_state := Half_Open\<rparr>)"
    if "bks_state ?s = Open" "t - bks_opened_at ?s \<ge> C"
    using same that by (auto simp: state_ok_def Ev_Allow)
  show ?thesis
    using breaker_inv_put [OF inv same] breaker_inv_put [OF inv half] breaker_inv_get(2) [OF inv]
    by (simp add: Ev_Allow breaker_allow_def Let_def split: breaker_mode.split)
next
  case (Ev_Status n t)
  have "state_ok T C (evs @ [e]) n (breaker_get br n)"
    using breaker_inv_get(1) [OF inv] by (rule state_ok_other) (simp_all add: Ev_Status)
  from breaker_inv_put [OF inv this] show ?thesis by (simp add: Ev_Status breaker_status_def Let_def)
next
  case (Ev_Success n)
  have "state_ok T C (evs @ [e]) n ((breaker_get br n)\<lparr>bks_consecutive_failures := 0, bks_opened_at := 0, bks_state := Closed\<rparr>)"
    using \<open>1 \<le> T\<close> by (simp add: state_ok_def Ev_Success)
  from breaker_inv_put [OF inv this] show ?thesis by (simp add: Ev_Success record_success_def)
next
  case (Ev_Failure n t)
  let ?s = "breaker_get br n"
  let ?s' = "?s\<lparr>bks_consecutive_failures := bks_consecutive_failures ?s + 1\<rparr>"
  have s: "state_ok T C evs n ?s" using inv by (rule breaker_inv_get)
  have opened: "state_ok T C (evs @ [e]) n (?s'\<lparr>bks_state := Open, bks_opened_at := t\<rparr>)"
    if "bks_state ?s = Half_Open \<or> bks_consecutive_failures ?s + 1 \<ge> T"
    using s that by (auto simp: state_ok_def Ev_Failure)
  have kept: "state_ok T C (evs @ [e]) n ?s'"
    if "bks_state ?s \<noteq> Half_Open" "bks_consecutive_failures ?s + 1 < T"
    using s that by (auto simp: state_ok_def Ev_Failure)
  show ?thesis
    using breaker_inv_put [OF inv opened] breaker_inv_put [OF inv kept] breaker_inv_get(3) [OF inv]
    by (auto simp: Ev_Failure record_failure_def Let_def)
qed

lemma breaker_run_inv: "breaker_inv (max 1 threshold) (max 0 cool_off) evs (breaker_run threshold cool_off evs)"
  unfolding breaker_run_def
  by (induction evs rule: rev_induct) (simp_all add: breaker_inv_new breaker_inv_step)

lemma breaker_allow_run:
  assumes "\<forall>e\<in>set evs. \<forall>t\<in>event_times e. t \<le> now"
  shows "snd (breaker_allow now (breaker_run threshold cool_off evs) name) \<longleftrightarrow>
    failures_in_a_row name evs < max 1 threshold \<or> now - last_failure name evs \<ge> max 0 cool_off"
proof -
  let ?br = "breaker_run threshold cool_off evs" and ?s = "breaker_get (breaker_run threshold cool_off evs) name"
  note i = breaker_inv_get [OF breaker_run_inv [of threshold cool_off evs]]
  have s: "state_ok (max 1 threshold) (max 0 cool_off) evs name ?s" by (rule i(1))
  show ?thesis
  proof (cases "bks_state ?s")
    case Closed
    with s show ?thesis by (simp add: breaker_allow_def Let_def state_ok_def)
  next
    case Open
    with s i(2) show ?thesis by (simp add: breaker_allow_def Let_def state_ok_def)
  next
    case Half_Open
    then obtain e t where "e \<in> set evs" "t \<in> event_times e" "t - last_failure name evs \<ge> max 0 cool_off"
      using s by (auto simp: state_ok_def)
    with assms have "now - last_failure name evs \<ge> max 0 cool_off" by force
    with Half_Open show ?thesis by (simp add: breaker_allow_def Let_def)
  qed
qed

text \<open>
  Whatever calls a breaker has seen, for whatever steps, at time \<open>now\<close> (not before any of
  them) it lets a step through exactly when fewer than the threshold of its last results in a row were failures
  or the cool-off has passed since the last failure; the other steps play no part. In particular, once the
  cool-off has passed every call is let through until a result is recorded, not a single probe.
\<close>

theorem breaker_verdict:
  assumes "\<forall>e\<in>set evs. \<forall>t\<in>event_times e. t \<le> now"
  shows "snd (breaker_allow now (breaker_run threshold cool_off evs) name) \<longleftrightarrow>
    failures_in_a_row name evs < max 1 threshold \<or> now - last_failure name evs \<ge> max 0 cool_off"
  using assms by (rule breaker_allow_run)

text \<open>Two failures against a threshold of two; after the cool-off two calls in a row are let through.\<close>

definition example_events :: "breaker_event list" where
  "example_events = [Ev_Failure ''a'' 1, Ev_Failure ''a'' 2, Ev_Allow ''a'' 40]"

theorem breaker_verdict_witness:
  "snd (breaker_allow 41 (breaker_run 2 30 example_events) ''a'') \<and>
   \<not> snd (breaker_allow 5 (breaker_run 2 30 (take 2 example_events)) ''a'')"
  using breaker_verdict [of example_events 41 2 30 "''a''"] breaker_verdict [of "take 2 example_events" 5 2 30 "''a''"]
  by (simp add: example_events_def failures_in_a_row_def last_failure_def)

section \<open>What an execution does\<close>

text \<open>The kind of an attempt does not depend on the errors before it.\<close>

definition step_ok :: "(string \<Rightarrow> rat option) \<Rightarrow> retry_policy \<Rightarrow> step_outcome \<Rightarrow> bool" where
  "step_ok parse_float p oc \<longleftrightarrow>
     (\<exists>out risk. oc = Step_Returned out \<and> py_float parse_float (dict_get out ''risk_score'' (PFloat ''0.0'')) = Inr risk \<and>
        truthy (dict_get out ''success'' PNone))"

definition step_retryable :: "(string \<Rightarrow> rat option) \<Rightarrow> retry_policy \<Rightarrow> step_outcome \<Rightarrow> bool" where
  "step_retryable parse_float p oc \<longleftrightarrow>
     (case oc of
        Step_Raised _ _ \<Rightarrow> rpo_retry_on_exception p
      | Step_Returned out \<Rightarrow>
          (case py_float parse_float (dict_get out ''risk_score'' (PFloat ''0.0'')) of
             Inl _ \<Rightarrow> rpo_retry_on_exception p
           | Inr risk \<Rightarrow> \<not> truthy (dict_get out ''success'' PNone) \<and> risk < rpo_retryable_risk_threshold p))"

lemma try_step_Ok:
  "(\<exists>out. try_step rf pf p oc err = Attempt_Ok out) \<longleftrightarrow> step_ok pf p oc"
  "try_step rf pf p oc err = Attempt_Ok out \<Longrightarrow> oc = Step_Returned out"
  by (auto simp: try_step_def step_ok_def Let_def split: step_outcome.splits sum.splits if_splits)

lemma try_step_Retry: "(\<exists>o' e'. try_step rf pf p oc err = Attempt_Retry o' e') \<longleftrightarrow> step_retryable pf p oc"
  by (auto simp: try_step_def step_retryable_def Let_def split: step_outcome.splits sum.splits)

lemma ok_not_retryable: "step_ok pf p oc \<Longrightarrow> \<not> step_retryable pf p oc"
  by (auto simp: step_ok_def step_retryable_def)

text \<open>The number of attempts that were retried: the attempts before the first that is not retryable.\<close>

definition retried :: "(string \<Rightarrow> rat option) \<Rightarrow> retry_policy \<Rightarrow> (nat \<Rightarrow> step_outcome) \<Rightarrow> nat \<Rightarrow> nat \<Rightarrow> nat" where
  "retried pf p step a n = length (takeWhile (\<lambda>j. step_retryable pf p (step j)) [a..<a + n])"

lemma retried_Suc:
  "retried pf p step a (Suc n) = (if step_retryable pf p (step a) then Suc (retried pf p step (Suc a) n) else 0)"
proof -
  have "[a..<a + Suc n] = a # [Suc a..<Suc a + n]" by (simp add: upt_conv_Cons del: upt_Suc)
  then show ?thesis by (simp add: retried_def del: upt_Suc)
qed

lemma retried_0 [simp]: "retried pf p step a 0 = 0"
  by (simp add: retried_def)

lemma attempt_loop_result:
  assumes "attempt_loop rf pf p jitter step n a d out err = (m, d', x)"
  shows "m = (if retried pf p step a n < n then a + Suc (retried pf p step a n) else a + n) \<and>
    ((\<exists>out'. x = Inr out') \<longleftrightarrow> retried pf p step a n < n \<and> step_ok pf p (step (a + retried pf p step a n))) \<and>
    (\<forall>out'. x = Inr out' \<longrightarrow> step (m - 1) = Step_Returned out')"
  using assms
proof (induction n arbitrary: a d out err)
  case (Suc n)
  show ?case
  proof (cases "try_step rf pf p (step a) err")
    case (Attempt_Ok o')
    then have ok: "step_ok pf p (step a)" "step a = Step_Returned o'" using try_step_Ok by blast+
    with Suc.prems Attempt_Ok ok_not_retryable [OF ok(1)] show ?thesis by (auto simp: retried_Suc)
  next
    case (Attempt_Stop o' e')
    then have "\<not> step_ok pf p (step a)" "\<not> step_retryable pf p (step a)"
      using try_step_Ok(1) [of rf pf p "step a" err] try_step_Retry [of rf pf p "step a" err] by auto
    with Suc.prems Attempt_Stop show ?thesis by (auto simp: retried_Suc)
  next
    case (Attempt_Retry o' e')
    then have r: "step_retryable pf p (step a)" using try_step_Retry by blast
    from Suc.prems Attempt_Retry have "attempt_loop rf pf p jitter step n (Suc a)
        (if n > 0 then d + compute_delay_ms p (jitter a) a else d) o' e' = (m, d', x)" by simp
    from Suc.IH [OF this] r show ?thesis by (auto simp: retried_Suc)
  qed
qed auto

lemma compute_delay_bounds:
  assumes "\<bar>j\<bar> \<le> rpo_jitter_ms p"
  shows "0 \<le> compute_delay_ms p j a" "compute_delay_ms p j a \<le> max 0 (rpo_max_backoff_ms p + rpo_jitter_ms p)"
  using assms by (auto simp: compute_delay_ms_def Let_def)

lemma attempt_loop_delay:
  assumes "attempt_loop rf pf p jitter step (Suc n) a d out err = (m, d', x)"
    and "\<And>i. \<bar>jitter i\<bar> \<le> rpo_jitter_ms p"
  shows "d \<le> d' \<and> d' \<le> d + rat_of_nat (m - Suc a) * max 0 (rpo_max_backoff_ms p + rpo_jitter_ms p) \<and> Suc a \<le> m"
  using assms(1)
proof (induction n arbitrary: a d out err)
  case 0
  then show ?case by (auto split: attempt_result.splits)
next
  case (Suc n)
  let ?b = "max 0 (rpo_max_backoff_ms p + rpo_jitter_ms p)" and ?c = "compute_delay_ms p (jitter a) a"
  show ?case
  proof (cases "try_step rf pf p (step a) err")
    case (Attempt_Retry o' e')
    with Suc.prems have l: "attempt_loop rf pf p jitter step (Suc n) (Suc a) (d + ?c) o' e' = (m, d', x)" by simp
    from Suc.IH [OF l] have ih: "d + ?c \<le> d'" "d' \<le> d + ?c + rat_of_nat (m - Suc (Suc a)) * ?b" "Suc (Suc a) \<le> m"
      by auto
    have "rat_of_nat (m - Suc a) = rat_of_nat (m - Suc (Suc a)) + 1" using ih(3) by (simp add: of_nat_diff)
    then have "rat_of_nat (m - Suc a) * ?b = rat_of_nat (m - Suc (Suc a)) * ?b + ?b" by (simp add: algebra_simps)
    with ih compute_delay_bounds [OF assms(2), of a a] show ?thesis by linarith
  qed (use Suc.prems in auto)
qed

text \<open>
  C38 (recovery_verdict): an execution behind a breaker with any history. It is refused, without an attempt,
  exactly when the breaker refuses it. Otherwise it makes one attempt more than were retried, up to the
  maximum, and succeeds exactly when an attempt does after retryable ones only, with the output of that
  attempt; a failed execution counts once against the breaker, whatever its attempts, and trips it when the
  failures in a row reach the threshold.
\<close>

theorem recovery_verdict:
  assumes "\<forall>e\<in>set evs. \<forall>t\<in>event_times e. t \<le> t0"
    and "recovery_execute rf pf p jitter step t0 t1 (breaker_run threshold cool_off evs) name = (br', r)"
  defines "passes \<equiv> failures_in_a_row name evs < max 1 threshold \<or> t0 - last_failure name evs \<ge> max 0 cool_off"
    and "k \<equiv> retried pf p step 0 (max_attempts p)"
  shows "srr_attempts r = (if passes then min (Suc k) (max_attempts p) else 0) \<and>
    (srr_success r \<longleftrightarrow> passes \<and> k < max_attempts p \<and> step_ok pf p (step k)) \<and>
    (srr_success r \<longrightarrow> (\<exists>out. srr_last_output r = Some out \<and> step k = Step_Returned out)) \<and>
    (srr_breaker_tripped r \<longleftrightarrow> \<not> passes \<or> \<not> srr_success r \<and> failures_in_a_row name evs + 1 \<ge> max 1 threshold) \<and>
    (breaker_get br' name = breaker_get (breaker_run threshold cool_off
       (evs @ Ev_Allow name t0 # (if \<not> passes then [] else if srr_success r then [Ev_Success name] else [Ev_Failure name t1]))) name)"
proof -
  let ?br = "breaker_run threshold cool_off evs"
  obtain br1 a where al: "breaker_allow t0 ?br name = (br1, a)" by fastforce
  with breaker_allow_run [OF assms(1), of threshold cool_off name] have a: "a = passes" by (simp add: passes_def)
  have br1: "br1 = breaker_run threshold cool_off (evs @ [Ev_Allow name t0])"
    using al by (simp add: breaker_run_def)
  have n: "max_attempts p > 0" by (simp add: max_attempts_def)
  show ?thesis
  proof (cases a)
    case False
    with assms(2) al a show ?thesis
      by (auto simp: recovery_execute_def breaker_status_def Let_def br1)
  next
    case True
    obtain m d x where l: "attempt_loop rf pf p jitter step (max_attempts p) 0 0 None None = (m, d, x)"
      by (metis prod.exhaust)
    note lr = attempt_loop_result [OF l, folded k_def]
    have k: "k \<le> max_attempts p"
      using length_takeWhile_le [of "\<lambda>j. step_retryable pf p (step j)" "[0..<max_attempts p]"] by (simp add: k_def retried_def)
    have ok: "state_ok (max 1 threshold) (max 0 cool_off) (evs @ [Ev_Allow name t0]) name (breaker_get br1 name)"
      and th: "cbr_failure_threshold br1 = max 1 threshold"
      unfolding br1 by (rule breaker_inv_get [OF breaker_run_inv])+
    show ?thesis
    proof (cases x)
      case (Inr out)
      with lr have "k < max_attempts p" "m = Suc k" "step_ok pf p (step k)" "step k = Step_Returned out" by auto
      moreover have "breaker_run threshold cool_off (evs @ [Ev_Allow name t0, Ev_Success name]) = record_success br1 name"
        by (simp add: br1 breaker_run_def)
      ultimately show ?thesis
        using assms(2) al True a l Inr by (auto simp: recovery_execute_def)
    next
      case (Inl y)
      then obtain out err where y: "x = Inl (out, err)" by (cases y) auto
      obtain br2 tr where f: "record_failure t1 br1 name = (br2, tr)" by fastforce
      have "tr \<longleftrightarrow> failures_in_a_row name evs + 1 \<ge> max 1 threshold"
        using ok th f by (auto simp: state_ok_def record_failure_def Let_def split: if_splits)
      moreover have "br2 = breaker_run threshold cool_off (evs @ [Ev_Allow name t0, Ev_Failure name t1])"
        using f by (simp add: br1 breaker_run_def)
      ultimately show ?thesis
        using assms(2) al True a l y f lr k by (auto simp: recovery_execute_def min_def)
    qed
  qed
qed

text \<open>Two raised attempts and then a success, behind a breaker that saw one failure.\<close>

definition flaky_step :: "nat \<Rightarrow> step_outcome" where
  "flaky_step n = (if n < 2 then Step_Raised ''OSError'' ''down'' else Step_Returned [(''success'', PBool True)])"

theorem recovery_verdict_witness:
  "srr_attempts (snd (recovery_execute (\<lambda>_. []) (\<lambda>_. None) default_retry_policy (\<lambda>_. 0) flaky_step 2 3
     (breaker_run 5 30 [Ev_Failure ''a'' 1]) ''a'')) = 3"
proof -
  obtain br' r where e: "recovery_execute (\<lambda>_. []) (\<lambda>_. None) default_retry_policy (\<lambda>_. 0) flaky_step 2 3
     (breaker_run 5 30 [Ev_Failure ''a'' 1]) ''a'' = (br', r)" by fastforce
  have r: "step_retryable (\<lambda>_. None) default_retry_policy (flaky_step n) \<longleftrightarrow> n < 2" for n
    by (simp add: step_retryable_def flaky_step_def default_retry_policy_def dict_get_def py_float_def)
  have "retried (\<lambda>_. None) default_retry_policy flaky_step 0 (max_attempts default_retry_policy) = 2"
  proof -
    have "[0..<max_attempts default_retry_policy] = [0, 1, 2, 3]"
      by (simp add: max_attempts_def default_retry_policy_def upt_rec)
    then show ?thesis by (simp add: retried_def r)
  qed
  with recovery_verdict [OF _ e] e show ?thesis
    by (simp add: failures_in_a_row_def max_attempts_def default_retry_policy_def)
qed

text \<open>
  A step is attempted at most \<open>max_retries + 1\<close> times (once when that is less), and the
  delays add up to at most one capped delay, with its jitter, between two attempts.
\<close>

theorem recovery_bounds:
  assumes "recovery_execute rf pf p jitter step t0 t1 br name = (br', r)"
    and "\<And>i. \<bar>jitter i\<bar> \<le> rpo_jitter_ms p"
  shows "srr_attempts r \<le> max_attempts p \<and> 0 \<le> srr_total_delay_ms r \<and>
    srr_total_delay_ms r \<le> rat_of_nat (srr_attempts r - 1) * max 0 (rpo_max_backoff_ms p + rpo_jitter_ms p)"
proof -
  obtain br1 a where al: "breaker_allow t0 br name = (br1, a)" by fastforce
  obtain n where n: "max_attempts p = Suc n" by (cases "max_attempts p") (simp_all add: max_attempts_def)
  show ?thesis
  proof (cases a)
    case False
    with assms(1) al show ?thesis by (auto simp: recovery_execute_def breaker_status_def Let_def)
  next
    case True
    obtain m d x where l: "attempt_loop rf pf p jitter step (Suc n) 0 0 None None = (m, d, x)" by (metis prod.exhaust)
    have "m \<le> Suc n" using attempt_loop_result [OF l] by (auto split: if_splits)
    moreover have "0 \<le> d" "d \<le> rat_of_nat (m - 1) * max 0 (rpo_max_backoff_ms p + rpo_jitter_ms p)"
      using attempt_loop_delay [OF l assms(2)] by auto
    moreover have "srr_attempts r = m \<and> srr_total_delay_ms r = d"
      using assms(1) al True l n
      by (cases x) (auto simp: recovery_execute_def split: prod.splits)
    ultimately show ?thesis by (simp add: n)
  qed
qed

theorem recovery_bounds_witness:
  "srr_attempts (snd (recovery_execute (\<lambda>_. []) (\<lambda>_. None) default_retry_policy (\<lambda>_. 0) flaky_step 2 3
     (breaker_run 5 30 []) ''a'')) \<le> 4"
  using recovery_bounds [of "\<lambda>_. []" "\<lambda>_. None" default_retry_policy "\<lambda>_. 0" flaky_step 2 3 "breaker_run 5 30 []" "''a''"]
  by (simp add: default_retry_policy_def max_attempts_def prod_eq_iff)

end
