(* ===== verification/Chain_Checkpoint.thy ===== *)
theory Chain_Checkpoint
  imports Py_Json Py_Strings
begin

text \<open>
  Checkpoints of agent chains (\<open>pi_micro_agents/orchestrator/checkpoint.py\<close>): a SQLite table with one row per
  chain, whose context and completed steps are stored as JSON text, an expiry time, and the hash of the goal that
  guards resuming. Times are rationals and readings of the clock are arguments.

  A saved checkpoint is loaded back until it expires or its row is replaced or deleted, and only for a goal with
  the same hash; chains do not influence each other; what a listing and a purge leave.
\<close>

section \<open>Checkpoints\<close>

definition goal_digest :: "(string \<Rightarrow> string) \<Rightarrow> string \<Rightarrow> string" where
  "goal_digest sha256 goal = sha256 (py_strip goal)"

datatype checkpoint_error = CheckpointGoalMismatch string | Checkpoint_Exn py_exn

record chain_checkpoint =
  ccp_chain_id :: string
  ccp_goal :: string
  ccp_goal_hash :: string
  ccp_step_index :: int
  ccp_context_snapshot :: payload
  ccp_completed_steps :: "string list"
  ccp_total_steps :: int
  ccp_created_at :: rat
  ccp_expires_at :: rat

definition checkpoint_post_init :: "(string \<Rightarrow> string) \<Rightarrow> chain_checkpoint \<Rightarrow> chain_checkpoint" where
  "checkpoint_post_init sha256 c =
     (if ccp_goal_hash c = [] then c\<lparr>ccp_goal_hash := goal_digest sha256 (ccp_goal c)\<rparr> else c)"

definition is_expired :: "rat \<Rightarrow> chain_checkpoint \<Rightarrow> bool" where
  "is_expired now c \<longleftrightarrow> now > ccp_expires_at c"

definition progress_pct :: "chain_checkpoint \<Rightarrow> rat" where
  "progress_pct c =
     (if ccp_total_steps c = 0 then 0 else rat_of_int (ccp_step_index c) / rat_of_int (ccp_total_steps c) * 100)"

section \<open>The store\<close>

record checkpoint_row =
  ckr_chain_id :: string
  ckr_goal :: string
  ckr_goal_hash :: string
  ckr_step_index :: int
  ckr_context_snapshot :: string
  ckr_completed_steps :: string
  ckr_total_steps :: int
  ckr_created_at :: rat
  ckr_expires_at :: rat

type_synonym checkpoint_store = "checkpoint_row list"

definition checkpoint_row_of :: "chain_checkpoint \<Rightarrow> checkpoint_row" where
  "checkpoint_row_of c =
     \<lparr>ckr_chain_id = ccp_chain_id c, ckr_goal = ccp_goal c, ckr_goal_hash = ccp_goal_hash c, ckr_step_index = ccp_step_index c,
      ckr_context_snapshot = dumps_in_order (PDict (ccp_context_snapshot c)),
      ckr_completed_steps = dumps_in_order (PList (map PStr (ccp_completed_steps c))),
      ckr_total_steps = ccp_total_steps c, ckr_created_at = ccp_created_at c, ckr_expires_at = ccp_expires_at c\<rparr>"

text \<open>\<open>INSERT OR REPLACE\<close> removes the row with the same primary key and appends the new one.\<close>

definition checkpoint_save :: "checkpoint_store \<Rightarrow> chain_checkpoint \<Rightarrow> checkpoint_store" where
  "checkpoint_save t c = filter (\<lambda>r. ckr_chain_id r \<noteq> ccp_chain_id c) t @ [checkpoint_row_of c]"

text \<open>The fields pydantic checks when a row is read back: a dictionary and a list of strings.\<close>

definition as_context :: "pyval \<Rightarrow> payload result" where
  "as_context v = (case v of PDict d \<Rightarrow> Inr d | _ \<Rightarrow> Inl (ValueError ''context_snapshot''))"

definition as_steps :: "pyval \<Rightarrow> string list result" where
  "as_steps v =
     (case v of
        PList vs \<Rightarrow> res_map (\<lambda>x. case x of PStr s \<Rightarrow> Inr s | _ \<Rightarrow> Inl (ValueError ''completed_steps'')) vs
      | _ \<Rightarrow> Inl (ValueError ''completed_steps''))"

definition checkpoint_of_row :: "(string \<Rightarrow> string) \<Rightarrow> checkpoint_row \<Rightarrow> chain_checkpoint result" where
  "checkpoint_of_row sha256 r =
     res_bind (json_loads (ckr_context_snapshot r)) (\<lambda>cv.
     res_bind (json_loads (ckr_completed_steps r)) (\<lambda>sv.
     res_bind (as_context cv) (\<lambda>ctx.
     res_bind (as_steps sv) (\<lambda>steps.
       Inr (checkpoint_post_init sha256
         \<lparr>ccp_chain_id = ckr_chain_id r, ccp_goal = ckr_goal r, ccp_goal_hash = ckr_goal_hash r,
          ccp_step_index = ckr_step_index r, ccp_context_snapshot = ctx, ccp_completed_steps = steps,
          ccp_total_steps = ckr_total_steps r, ccp_created_at = ckr_created_at r, ccp_expires_at = ckr_expires_at r\<rparr>)))))"

definition checkpoint_delete :: "checkpoint_store \<Rightarrow> string \<Rightarrow> checkpoint_store \<times> bool" where
  "checkpoint_delete t chain_id =
     (filter (\<lambda>r. ckr_chain_id r \<noteq> chain_id) t, list_ex (\<lambda>r. ckr_chain_id r = chain_id) t)"

definition checkpoint_load :: "(string \<Rightarrow> string) \<Rightarrow> rat \<Rightarrow> checkpoint_store \<Rightarrow> string \<Rightarrow> string option \<Rightarrow>
    checkpoint_store \<times> (checkpoint_error + chain_checkpoint option)" where
  "checkpoint_load sha256 now t chain_id current_goal =
     (case find (\<lambda>r. ckr_chain_id r = chain_id) t of
        None \<Rightarrow> (t, Inr None)
      | Some row \<Rightarrow>
          (case checkpoint_of_row sha256 row of
             Inl e \<Rightarrow> (t, Inl (Checkpoint_Exn e))
           | Inr c \<Rightarrow>
               if is_expired now c then (fst (checkpoint_delete t chain_id), Inr None)
               else
                 (case current_goal of
                    None \<Rightarrow> (t, Inr (Some c))
                  | Some goal \<Rightarrow>
                      (let expected = goal_digest sha256 goal in
                       if expected \<noteq> ccp_goal_hash c
                       then (t, Inl (CheckpointGoalMismatch
                              (''checkpoint goal_hash '' @ take 12 (ccp_goal_hash c) @ '' != current goal hash '' @ take 12 expected
                               @ '' for chain '' @ chain_id)))
                       else (t, Inr (Some c))))))"

text \<open>Rows of equal \<open>created_at\<close> are listed in the order of the table.\<close>

definition checkpoint_list :: "(string \<Rightarrow> string) \<Rightarrow> rat \<Rightarrow> checkpoint_store \<Rightarrow> bool \<Rightarrow> chain_checkpoint list result" where
  "checkpoint_list sha256 now t include_expired =
     res_map (checkpoint_of_row sha256)
       (sort_key (\<lambda>r. - ckr_created_at r) (if include_expired then t else filter (\<lambda>r. ckr_expires_at r > now) t))"

definition purge_expired :: "rat \<Rightarrow> checkpoint_store \<Rightarrow> checkpoint_store \<times> nat" where
  "purge_expired now t = (filter (\<lambda>r. \<not> ckr_expires_at r \<le> now) t, length (filter (\<lambda>r. ckr_expires_at r \<le> now) t))"

section \<open>Reading rows back\<close>

text \<open>What a checkpoint is after it went through the table: tuples in the context have become lists.\<close>

definition stored_form :: "chain_checkpoint \<Rightarrow> chain_checkpoint" where
  "stored_form c = c\<lparr>ccp_context_snapshot := map (\<lambda>(k, v). (k, list_norm v)) (ccp_context_snapshot c)\<rparr>"

definition storable :: "chain_checkpoint \<Rightarrow> bool" where
  "storable c \<longleftrightarrow> py_wf (PDict (ccp_context_snapshot c)) \<and> set_free (PDict (ccp_context_snapshot c)) \<and> ccp_goal_hash c \<noteq> []"

lemma checkpoint_of_row_of:
  assumes "storable c"
  shows "checkpoint_of_row sha256 (checkpoint_row_of c) = Inr (stored_form c)"
proof -
  have "json_loads (dumps_in_order (PDict (ccp_context_snapshot c))) = Inr (list_norm (PDict (ccp_context_snapshot c)))"
    using assms by (intro in_order_roundtrip) (simp_all add: storable_def)
  moreover have "json_loads (dumps_in_order (PList (map PStr (ccp_completed_steps c)))) =
      Inr (list_norm (PList (map PStr (ccp_completed_steps c))))"
    by (intro in_order_roundtrip) (simp_all add: list_all_iff)
  moreover have "res_map (\<lambda>x. case x of PStr s \<Rightarrow> Inr s | _ \<Rightarrow> Inl (ValueError ''completed_steps'')) (map PStr ss) = Inr ss" for ss
    by (induction ss) simp_all
  ultimately show ?thesis
    using assms by (simp add: checkpoint_of_row_def checkpoint_row_of_def as_context_def as_steps_def stored_form_def
        checkpoint_post_init_def storable_def comp_def)
qed

section \<open>Stores that operations produce\<close>

datatype checkpoint_op =
    Ck_Save chain_checkpoint
  | Ck_Delete string
  | Ck_Load rat string "string option"
  | Ck_Purge rat

fun checkpoint_step :: "(string \<Rightarrow> string) \<Rightarrow> checkpoint_store \<Rightarrow> checkpoint_op \<Rightarrow> checkpoint_store" where
  "checkpoint_step sha256 t (Ck_Save c) = checkpoint_save t c"
| "checkpoint_step sha256 t (Ck_Delete i) = fst (checkpoint_delete t i)"
| "checkpoint_step sha256 t (Ck_Load now i g) = fst (checkpoint_load sha256 now t i g)"
| "checkpoint_step sha256 t (Ck_Purge now) = fst (purge_expired now t)"

definition checkpoint_run :: "(string \<Rightarrow> string) \<Rightarrow> checkpoint_op list \<Rightarrow> checkpoint_store" where
  "checkpoint_run sha256 ops = foldl (checkpoint_step sha256) [] ops"

text \<open>
  What a client of the store may rely on: the checkpoint saved last for the chain, unless it was deleted,
  or was found or purged expired since.
\<close>

fun track :: "string \<Rightarrow> chain_checkpoint option \<Rightarrow> checkpoint_op \<Rightarrow> chain_checkpoint option" where
  "track i c (Ck_Save c') = (if ccp_chain_id c' = i then Some c' else c)"
| "track i c (Ck_Delete j) = (if j = i then None else c)"
| "track i c (Ck_Load now j g) = (if j = i \<and> (\<exists>x. c = Some x \<and> is_expired now x) then None else c)"
| "track i c (Ck_Purge now) = (case c of None \<Rightarrow> None | Some x \<Rightarrow> if ccp_expires_at x \<le> now then None else Some x)"

definition tracked :: "string \<Rightarrow> checkpoint_op list \<Rightarrow> chain_checkpoint option" where
  "tracked i ops = foldl (track i) None ops"

fun saves_storable :: "checkpoint_op \<Rightarrow> bool" where
  "saves_storable (Ck_Save c) = storable c"
| "saves_storable _ = True"

definition store_ok :: "checkpoint_op list \<Rightarrow> checkpoint_store \<Rightarrow> bool" where
  "store_ok ops t \<longleftrightarrow> distinct (map ckr_chain_id t) \<and>
     (\<forall>i. find (\<lambda>r. ckr_chain_id r = i) t = map_option checkpoint_row_of (tracked i ops))"

lemma tracked_chain: "tracked i ops = Some c \<Longrightarrow> ccp_chain_id c = i"
proof (induction ops arbitrary: c rule: rev_induct)
  case (snoc op ops)
  then show ?case by (cases op) (auto simp: tracked_def split: if_splits option.splits)
qed (simp add: tracked_def)

lemma tracked_storable: "list_all saves_storable ops \<Longrightarrow> tracked i ops = Some c \<Longrightarrow> storable c"
proof (induction ops arbitrary: c rule: rev_induct)
  case (snoc op ops)
  then show ?case by (cases op) (auto simp: tracked_def split: if_splits option.splits)
qed (simp add: tracked_def)

lemma find_filter: "find P (filter Q xs) = find (\<lambda>x. Q x \<and> P x) xs"
  by (induction xs) auto

lemma find_filter_key:
  "find (\<lambda>r. k r = i) (filter (\<lambda>r. k r \<noteq> j) xs) = (if i = j then None else find (\<lambda>r. k r = i) xs)"
proof -
  have "(\<lambda>x. k x \<noteq> j \<and> k x = i) = (if i = j then (\<lambda>_. False) else (\<lambda>r. k r = i))" by auto
  then show ?thesis by (simp add: find_filter find_None_iff)
qed

lemma distinct_keys_filter: "distinct (map k xs) \<Longrightarrow> distinct (map k (filter P xs))"
  by (simp add: distinct_map_filter)

lemma find_filter_distinct:
  assumes "distinct (map k xs)"
  shows "find (\<lambda>r. k r = i) (filter P xs) = (case find (\<lambda>r. k r = i) xs of None \<Rightarrow> None | Some r \<Rightarrow> if P r then Some r else None)"
  using assms
proof (induction xs)
  case (Cons x xs)
  have "find (\<lambda>r. k r = i) (filter P xs) = None" if "k x = i"
    unfolding find_None_iff using Cons.prems that
    by (metis distinct.simps(2) filter_is_subset image_eqI list.set_map list.simps(9) subsetD)
  with Cons show ?case by auto
qed simp

lemma store_ok_step:
  assumes "store_ok ops t" and "list_all saves_storable (ops @ [op])"
  shows "store_ok (ops @ [op]) (checkpoint_step sha256 t op)"
proof (cases op)
  case (Ck_Save c)
  then show ?thesis
    using assms(1)
    by (auto simp: store_ok_def tracked_def checkpoint_save_def distinct_keys_filter find_append find_filter_key
        checkpoint_row_of_def split: option.split)
next
  case (Ck_Delete j)
  with assms(1) show ?thesis
    by (auto simp: store_ok_def tracked_def checkpoint_delete_def distinct_keys_filter find_filter_key)
next
  case (Ck_Purge now)
  with assms(1) show ?thesis
    by (auto simp: store_ok_def tracked_def purge_expired_def distinct_keys_filter find_filter_distinct
        checkpoint_row_of_def split: option.split)
next
  case (Ck_Load now j g)
  have f: "find (\<lambda>r. ckr_chain_id r = j) t = map_option checkpoint_row_of (tracked j ops)"
    using assms(1) by (simp add: store_ok_def)
  show ?thesis
  proof (cases "tracked j ops")
    case None
    with f Ck_Load assms(1) show ?thesis by (auto simp: store_ok_def tracked_def checkpoint_load_def)
  next
    case (Some c)
    with assms(2) have "checkpoint_of_row sha256 (checkpoint_row_of c) = Inr (stored_form c)"
      by (intro checkpoint_of_row_of tracked_storable [of ops]) simp_all
    moreover have "is_expired now (stored_form c) = is_expired now c" by (simp add: stored_form_def is_expired_def)
    ultimately have "fst (checkpoint_load sha256 now t j g) = (if is_expired now c then fst (checkpoint_delete t j) else t)"
      using f Some by (simp add: checkpoint_load_def Let_def split: option.split)
    with Some Ck_Load assms(1) show ?thesis
      by (auto simp: store_ok_def tracked_def checkpoint_delete_def distinct_keys_filter find_filter_key)
  qed
qed

lemma checkpoint_run_ok: "list_all saves_storable ops \<Longrightarrow> store_ok ops (checkpoint_run sha256 ops)"
proof (induction ops rule: rev_induct)
  case (snoc op ops)
  then have "store_ok ops (checkpoint_run sha256 ops)" by simp
  from store_ok_step [OF this snoc.prems, of sha256] show ?case by (simp add: checkpoint_run_def)
qed (simp add: store_ok_def checkpoint_run_def tracked_def)

text \<open>
  C40 (checkpoint_resume): after any operations of any chains, loading a chain gives the checkpoint saved last
  for it, in the form the table keeps, unless it was deleted or is expired; with a current goal, it is given
  only if the hash of that goal is the stored one and \<open>CheckpointGoalMismatch\<close> is raised otherwise.
\<close>

theorem checkpoint_resume:
  assumes "list_all saves_storable ops"
  shows "snd (checkpoint_load sha256 now (checkpoint_run sha256 ops) i goal) =
    (case tracked i ops of
       None \<Rightarrow> Inr None
     | Some c \<Rightarrow>
         if now > ccp_expires_at c then Inr None
         else if \<forall>g. goal = Some g \<longrightarrow> goal_digest sha256 g = ccp_goal_hash c then Inr (Some (stored_form c))
         else Inl (CheckpointGoalMismatch
            (''checkpoint goal_hash '' @ take 12 (ccp_goal_hash c) @ '' != current goal hash ''
             @ take 12 (goal_digest sha256 (the goal)) @ '' for chain '' @ i)))"
proof -
  have f: "find (\<lambda>r. ckr_chain_id r = i) (checkpoint_run sha256 ops) = map_option checkpoint_row_of (tracked i ops)"
    using checkpoint_run_ok [OF assms] by (simp add: store_ok_def)
  show ?thesis
  proof (cases "tracked i ops")
    case (Some c)
    from checkpoint_of_row_of [OF tracked_storable [OF assms this]] Some f show ?thesis
      by (auto simp: checkpoint_load_def is_expired_def stored_form_def Let_def split: option.split)
  qed (use f in \<open>simp add: checkpoint_load_def\<close>)
qed

text \<open>
  A chain whose checkpoints got their goal hash from their goal resumes only into a goal
  that is the same up to surrounding white space, if SHA-256 has no collision on the two stripped goals.
\<close>

theorem resume_same_goal:
  assumes "list_all saves_storable ops"
    and "\<And>c. Ck_Save c \<in> set ops \<Longrightarrow> ccp_goal_hash c = goal_digest sha256 (ccp_goal c)"
    and "snd (checkpoint_load sha256 now (checkpoint_run sha256 ops) i (Some goal)) = Inr (Some c)"
    and "inj_on sha256 {py_strip goal, py_strip (ccp_goal c)}"
  shows "py_strip goal = py_strip (ccp_goal c)"
proof -
  have saved: "tracked i ops' = Some x \<Longrightarrow> Ck_Save x \<in> set ops'" for ops' x
  proof (induction ops' arbitrary: x rule: rev_induct)
    case (snoc op ops')
    then show ?case by (cases op) (auto simp: tracked_def split: if_splits option.splits)
  qed (simp add: tracked_def)
  have f: "find (\<lambda>r. ckr_chain_id r = i) (checkpoint_run sha256 ops) = map_option checkpoint_row_of (tracked i ops)"
    using checkpoint_run_ok [OF assms(1)] by (simp add: store_ok_def)
  with assms(3) obtain x where x: "tracked i ops = Some x" by (cases "tracked i ops") (auto simp: checkpoint_load_def)
  with f assms(3) checkpoint_of_row_of [OF tracked_storable [OF assms(1) x], of sha256]
  have "c = stored_form x" "goal_digest sha256 goal = ccp_goal_hash x"
    by (auto simp: checkpoint_load_def Let_def stored_form_def split: if_splits)
  with assms(2) [OF saved [OF x]] have "sha256 (py_strip goal) = sha256 (py_strip (ccp_goal c))"
    by (simp add: goal_digest_def stored_form_def)
  with assms(4) show ?thesis by (auto dest: inj_onD)
qed

section \<open>An example\<close>

definition example_checkpoint :: chain_checkpoint where
  "example_checkpoint = checkpoint_post_init id
     \<lparr>ccp_chain_id = ''c1'', ccp_goal = '' scan '', ccp_goal_hash = [], ccp_step_index = 1,
      ccp_context_snapshot = [(''b'', PInt 1), (''a'', PTuple [PStr ''x''])], ccp_completed_steps = [''s''],
      ccp_total_steps = 2, ccp_created_at = 5, ccp_expires_at = 10\<rparr>"

lemma example_checkpoint_goal: "ccp_goal_hash example_checkpoint = ''scan''" "ccp_goal example_checkpoint = '' scan ''"
  "ccp_expires_at example_checkpoint = 10" "ccp_chain_id example_checkpoint = ''c1''"
  by (simp_all add: example_checkpoint_def checkpoint_post_init_def goal_digest_def py_strip_def is_py_space_def)

lemma example_checkpoint_storable: "storable example_checkpoint"
  by (simp add: storable_def example_checkpoint_def checkpoint_post_init_def goal_digest_def py_strip_def is_py_space_def)

theorem checkpoint_resume_witness:
  "snd (checkpoint_load id 7 (checkpoint_run id [Ck_Save example_checkpoint, Ck_Purge 6]) ''c1'' (Some ''scan '')) =
     Inr (Some (stored_form example_checkpoint))"
proof -
  have "tracked ''c1'' [Ck_Save example_checkpoint, Ck_Purge 6] = Some example_checkpoint"
    by (simp add: tracked_def example_checkpoint_goal)
  moreover have "goal_digest id ''scan '' = ''scan''" by (simp add: goal_digest_def py_strip_def is_py_space_def)
  ultimately show ?thesis
    using example_checkpoint_storable
    by (subst checkpoint_resume) (simp_all add: example_checkpoint_goal)
qed

theorem resume_same_goal_witness: "py_strip ''scan '' = py_strip '' scan ''"
proof -
  have l: "snd (checkpoint_load id 7 (checkpoint_run id [Ck_Save example_checkpoint]) ''c1'' (Some ''scan '')) =
     Inr (Some (stored_form example_checkpoint))"
  proof -
    have "checkpoint_run id [Ck_Save example_checkpoint] = [checkpoint_row_of example_checkpoint]"
      by (simp add: checkpoint_run_def checkpoint_save_def)
    moreover have "ckr_chain_id (checkpoint_row_of example_checkpoint) = ''c1''"
      by (simp add: checkpoint_row_of_def example_checkpoint_goal)
    moreover have "goal_digest id ''scan '' = ''scan''" by (simp add: goal_digest_def py_strip_def is_py_space_def)
    ultimately show ?thesis
      using checkpoint_of_row_of [OF example_checkpoint_storable, of id]
      by (simp add: checkpoint_load_def is_expired_def stored_form_def example_checkpoint_goal)
  qed
  have "py_strip ''scan '' = py_strip (ccp_goal (stored_form example_checkpoint))"
    using example_checkpoint_storable
    by (intro resume_same_goal [of "[Ck_Save example_checkpoint]" id, OF _ _ l])
      (simp_all add: example_checkpoint_goal goal_digest_def py_strip_def is_py_space_def)
  then show ?thesis by (simp add: stored_form_def example_checkpoint_goal)
qed

text \<open>
  A checkpoint that expires exactly now is still loaded, but it is not listed and a purge removes it.
\<close>

lemma expiry_boundary:
  assumes "storable c" and "ccp_expires_at c = now"
  shows "snd (checkpoint_load sha256 now [checkpoint_row_of c] (ccp_chain_id c) None) = Inr (Some (stored_form c)) \<and>
    checkpoint_list sha256 now [checkpoint_row_of c] False = Inr [] \<and> fst (purge_expired now [checkpoint_row_of c]) = []"
proof -
  have "ckr_chain_id (checkpoint_row_of c) = ccp_chain_id c" "ckr_expires_at (checkpoint_row_of c) = now"
    using assms(2) by (simp_all add: checkpoint_row_of_def)
  with checkpoint_of_row_of [OF assms(1), of sha256] assms(2) show ?thesis
    by (simp add: checkpoint_load_def checkpoint_list_def purge_expired_def is_expired_def stored_form_def)
qed

end
