(* ===== verification/Agent_Routes.thy ===== *)
theory Agent_Routes
  imports Py_Values Py_Strings
begin

text \<open>
  The routing table of the micro agents (\<open>pi_micro_agents/orchestrator/router.py\<close>), as the module registers it:
  the name of each agent, its keywords, its class, and the input it is given, whose fields are expressions over
  the goal and the context. Classes are their names, and building the input envelope from its fields is
  pydantic's. The definitions cut the table into pieces in the order of the file.
\<close>

section \<open>Routes\<close>

datatype field_expr =
    F_Goal
  | F_Const pyval
  | F_Ctx string field_expr \<comment> \<open>\<open>ctx.get(key, default)\<close>\<close>
  | F_Bool field_expr
  | F_List "field_expr list"

fun eval_field :: "string \<Rightarrow> payload \<Rightarrow> field_expr \<Rightarrow> pyval" where
  "eval_field goal ctx F_Goal = PStr goal"
| "eval_field goal ctx (F_Const v) = v"
| "eval_field goal ctx (F_Ctx k d) = dict_get ctx k (eval_field goal ctx d)"
| "eval_field goal ctx (F_Bool e) = PBool (truthy (eval_field goal ctx e))"
| "eval_field goal ctx (F_List es) = PList (map (eval_field goal ctx) es)"

record agent_route =
  art_agent_name :: string
  art_keywords :: "string list"
  art_agent_class :: string
  art_input_class :: string
  art_input_factory :: "(string \<times> field_expr) list"

definition make_route :: "string \<Rightarrow> string list \<Rightarrow> string \<Rightarrow> string \<Rightarrow> (string \<times> field_expr) list \<Rightarrow> agent_route" where
  "make_route agent_name keywords agent_class input_class factory =
     \<lparr>art_agent_name = agent_name, art_keywords = keywords, art_agent_class = agent_class,
      art_input_class = input_class, art_input_factory = factory\<rparr>"

definition route_input :: "agent_route \<Rightarrow> string \<Rightarrow> payload \<Rightarrow> string \<times> payload" where
  "route_input r goal ctx = (art_input_class r, map (\<lambda>(k, e). (k, eval_field goal ctx e)) (art_input_factory r))"

text \<open>\<open>AgentRouter.register\<close> appends to the routes of the class.\<close>

definition register_route :: "agent_route list \<Rightarrow> agent_route \<Rightarrow> agent_route list" where
  "register_route routes r = routes @ [r]"

section \<open>The table\<close>

definition agent_routes_01 :: "agent_route list" where
  "agent_routes_01 =
    [
     make_route ''PiGitSecScanner''
      [''scan requirements'', ''scan package.json'', ''dependency scan'', ''git scan'', ''security audit'']
      ''PiGitSecScanner'' ''GitSecInput''
      [(''filename'', F_Ctx ''filename'' (F_Const (PStr ''requirements.txt''))),
       (''content'', F_Ctx ''content'' (F_Const (PStr [])))],
     make_route ''PiPromptLeakBuster''
      [''leak scan'', ''privacy scan'', ''egress leak'', ''credential scan'', ''scan draft'']
      ''PiPromptLeakBuster'' ''LeakBusterInput''
      [(''text'', F_Ctx ''text'' F_Goal)],
     make_route ''NicheCurationPipelineChain''
      [''curate niche'', ''niche curation'', ''newsletter curate'', ''substack publish'', ''curation pipeline'']
      ''PiPublisherDispatch'' ''PublisherInput''
      [(''substack_title'', F_Const (PStr [])), (''substack_markdown_body'', F_Const (PStr [])),
       (''x_thread_posts'', F_Const (PList [])), (''draft_only'', F_Const (PBool True))],
     make_route ''PiPublisherDispatch''
      [''publish'', ''deploy'', ''dispatch'', ''commit'']
      ''PiPublisherDispatch'' ''PublisherInput''
      [(''substack_title'', F_Ctx ''substack_title'' (F_Ctx ''title'' (F_Const (PStr ''Draft Publication'')))),
       (''substack_markdown_body'', F_Ctx ''substack_markdown_body'' (F_Ctx ''content'' (F_Ctx ''source_code'' (F_Const (PStr []))))),
       (''x_thread_posts'', F_Ctx ''x_thread_posts'' (F_Const (PList []))),
       (''draft_only'', F_Ctx ''draft_only'' (F_Const (PBool True)))],
     make_route ''PiMempoolSentry''
      [''mempool sentry'', ''frontrun sentinel'', ''sandwich watch'']
      ''PiMempoolSentry'' ''MempoolTxInput''
      [(''transaction_hash'', F_Ctx ''transaction_hash'' (F_Const (PStr ''0xabc123''))),
       (''calldata'', F_Ctx ''calldata'' (F_Const (PStr []))),
       (''gas_price_gwei'', F_Ctx ''gas_price_gwei'' (F_Const (PFloat ''20.0'')))],
     make_route ''PiArbitrageGuard''
      [''defi arbitrage'', ''arbitrage guard'', ''liquidity check'']
      ''PiArbitrageGuard'' ''ArbitrageInput''
      [(''token_in'', F_Ctx ''token_in'' (F_Const (PStr ''ETH''))),
       (''token_out'', F_Ctx ''token_out'' (F_Const (PStr ''USDC''))),
       (''amount_in'', F_Ctx ''amount_in'' (F_Ctx ''amount'' (F_Const (PFloat ''10.0'')))),
       (''pool_price_a'', F_Ctx ''pool_price_a'' (F_Const (PFloat ''100.0''))),
       (''pool_price_b'', F_Ctx ''pool_price_b'' (F_Const (PFloat ''101.0''))),
       (''min_spread_percent'', F_Ctx ''min_spread_percent'' (F_Const (PFloat ''0.5'')))],
     make_route ''PiOracleSentry''
      [''oracle check'', ''oracle sentinel'', ''price verification'', ''oracle scan'', ''oracle sentry'']
      ''PiOracleSentry'' ''OracleSentryInput''
      [(''token'', F_Ctx ''token'' (F_Const (PStr ''ETH''))), (''chain_id'', F_Ctx ''chain_id'' (F_Const (PInt 1))),
       (''current_observed_price'', F_Ctx ''current_observed_price'' (F_Ctx ''observed_price'' (F_Const (PFloat ''3000.0'')))),
       (''max_deviation_percent'', F_Ctx ''max_deviation_percent'' (F_Const (PFloat ''2.0'')))],
     make_route ''PiSelfHealingPatchAgent''
      [''self heal'', ''vulnerability patch'', ''code repair'', ''heal git'', ''safe patch'']
      ''PiSelfHealingPatchAgent'' ''SelfHealingInput''
      [(''file_path'', F_Ctx ''file_path'' (F_Const (PStr ''main.py''))),
       (''source_code'', F_Ctx ''source_code'' (F_Ctx ''content'' (F_Const (PStr [])))),
       (''vulnerability_type'', F_Ctx ''vulnerability_type'' (F_Const (PStr ''UNPINNED_DEP''))),
       (''vulnerable_lines'', F_Ctx ''vulnerable_lines'' (F_Const (PList [PInt 1])))],
     make_route ''PiReentrancySentry''
      [''reentrancy check'', ''checks-effects-interactions'', ''solidity audit'', ''reentrancy scan'',
       ''audit contract'']
      ''PiReentrancySentry'' ''ReentrancyInput''
      [(''file_path'', F_Ctx ''file_path'' (F_Const (PStr ''contract.sol''))),
       (''solidity_code'', F_Ctx ''solidity_code'' (F_Ctx ''content'' (F_Const (PStr [])))),
       (''check_level'', F_Ctx ''check_level'' (F_Const (PStr ''STRICT'')))],
     make_route ''PiAccessControlVerifier''
      [''access check'', ''privilege check'', ''access control audit'', ''role verification'', ''audit roles'']
      ''PiAccessControlVerifier'' ''AccessControlInput''
      [(''file_path'', F_Ctx ''file_path'' (F_Const (PStr ''contract.sol''))),
       (''solidity_code'', F_Ctx ''solidity_code'' (F_Ctx ''content'' (F_Const (PStr [])))),
       (''check_level'', F_Ctx ''check_level'' (F_Const (PStr ''STRICT''))),
       (''allowed_modifiers'', F_Ctx ''allowed_modifiers'' (F_Const (PList [])))],
     make_route ''PiFlashLoanDefender''
      [''flash loan check'', ''flash loan audit'', ''spot price manipulation'', ''oracle manipulation check'',
       ''audit flash loan'']
      ''PiFlashLoanDefender'' ''FlashLoanInput''
      [(''file_path'', F_Ctx ''file_path'' (F_Const (PStr ''contract.sol''))),
       (''solidity_code'', F_Ctx ''solidity_code'' (F_Ctx ''content'' (F_Const (PStr [])))),
       (''check_level'', F_Ctx ''check_level'' (F_Const (PStr ''STRICT''))),
       (''allowed_pairs'', F_Ctx ''allowed_pairs'' (F_Const (PList [])))],
     make_route ''PiArithmeticAuditor''
      [''arithmetic audit'', ''overflow check'', ''underflow check'', ''math safety check'', ''safemath verification'']
      ''PiArithmeticAuditor'' ''ArithmeticInput''
      [(''file_path'', F_Ctx ''file_path'' (F_Const (PStr ''contract.sol''))),
       (''solidity_code'', F_Ctx ''solidity_code'' (F_Ctx ''content'' (F_Const (PStr [])))),
       (''check_level'', F_Ctx ''check_level'' (F_Const (PStr ''STRICT''))),
       (''allowed_libraries'', F_Ctx ''allowed_libraries'' (F_Const (PList [])))]]"

definition agent_routes_02 :: "agent_route list" where
  "agent_routes_02 =
    [
     make_route ''PiDelegateCallGuard''
      [''delegatecall guard'', ''delegatecall scan'', ''proxy compliance'', ''eip-1967 audit'',
       ''unsafe delegation scan'']
      ''PiDelegateCallGuard'' ''DelegateCallInput''
      [(''file_path'', F_Ctx ''file_path'' (F_Const (PStr ''contract.sol''))),
       (''solidity_code'', F_Ctx ''solidity_code'' (F_Ctx ''content'' (F_Const (PStr [])))),
       (''check_level'', F_Ctx ''check_level'' (F_Const (PStr ''STRICT'')))],
     make_route ''PiSignatureReplayScout''
      [''signature replay'', ''ecrecover check'', ''eip-712 audit'', ''signature scout'', ''replay vulnerability'']
      ''PiSignatureReplayScout'' ''SignatureInput''
      [(''file_path'', F_Ctx ''file_path'' (F_Const (PStr ''contract.sol''))),
       (''solidity_code'', F_Ctx ''solidity_code'' (F_Ctx ''content'' (F_Const (PStr [])))),
       (''check_level'', F_Ctx ''check_level'' (F_Const (PStr ''STRICT'')))],
     make_route ''PiBytecodeDecompiler''
      [''decompile bytecode'', ''evm opcode check'', ''bytecode decompiler'', ''inline assembly audit'']
      ''PiBytecodeDecompiler'' ''BytecodeDecompilerInput''
      [(''file_path'', F_Ctx ''file_path'' (F_Const (PStr ''bytecode.hex''))),
       (''solidity_code'', F_Ctx ''solidity_code'' (F_Ctx ''content'' (F_Const (PStr [])))),
       (''check_level'', F_Ctx ''check_level'' (F_Const (PStr ''STRICT'')))],
     make_route ''PiVyperSecScanner''
      [''vyper security'', ''vyper scan'', ''vyper compiler'', ''vyper best practices'']
      ''PiVyperSecScanner'' ''VyperScannerInput''
      [(''file_path'', F_Ctx ''file_path'' (F_Const (PStr ''contract.vy''))),
       (''vyper_code'', F_Ctx ''vyper_code'' (F_Ctx ''content'' (F_Const (PStr [])))),
       (''check_level'', F_Ctx ''check_level'' (F_Const (PStr ''STRICT'')))],
     make_route ''PiSelfDestructHunter''
      [''selfdestruct hunter'', ''selfdestruct scan'', ''contract suicide'', ''contract decommissioning'']
      ''PiSelfDestructHunter'' ''SelfDestructHunterInput''
      [(''file_path'', F_Ctx ''file_path'' (F_Const (PStr ''contract.sol''))),
       (''solidity_code'', F_Ctx ''solidity_code'' (F_Ctx ''content'' (F_Const (PStr [])))),
       (''check_level'', F_Ctx ''check_level'' (F_Const (PStr ''STRICT'')))],
     make_route ''PiOracleDivergenceAudit''
      [''price divergence'', ''oracle manipulation check'', ''pricing aggregator audit'',
       ''geometric mean verification'']
      ''PiOracleDivergenceAudit'' ''OracleDivergenceInput''
      [(''file_path'', F_Ctx ''file_path'' (F_Const (PStr ''aggregator.sol''))),
       (''prices'', F_Ctx ''prices'' (F_Const (PList []))),
       (''benchmarks'', F_Ctx ''benchmarks'' (F_Const (PList []))),
       (''max_deviation_percent'', F_Ctx ''max_deviation_percent'' (F_Const (PFloat ''2.0''))),
       (''solidity_code'', F_Ctx ''solidity_code'' (F_Ctx ''content'' (F_Const (PStr []))))],
     make_route ''PiTokenTaxDetector''
      [''token tax scan'', ''fee-on-transfer check'', ''tax whitelist check'', ''erc-20 compliance'']
      ''PiTokenTaxDetector'' ''TokenTaxInput''
      [(''file_path'', F_Ctx ''file_path'' (F_Const (PStr ''token.sol''))),
       (''solidity_code'', F_Ctx ''solidity_code'' (F_Ctx ''content'' (F_Const (PStr [])))),
       (''check_level'', F_Ctx ''check_level'' (F_Const (PStr ''STRICT'')))],
     make_route ''PiTxOriginSentry''
      [''tx.origin check'', ''origin phishing check'', ''eip-2771 audit'', ''meta-transaction verifier'']
      ''PiTxOriginSentry'' ''TxOriginInput''
      [(''file_path'', F_Ctx ''file_path'' (F_Const (PStr ''contract.sol''))),
       (''solidity_code'', F_Ctx ''solidity_code'' (F_Ctx ''content'' (F_Const (PStr [])))),
       (''check_level'', F_Ctx ''check_level'' (F_Const (PStr ''STRICT'')))],
     make_route ''PiReadOnlyReentrancySentry''
      [''read-only reentrancy'', ''pool balance query scan'', ''external view safety'']
      ''PiReadOnlyReentrancySentry'' ''ReadOnlyReentrancyInput''
      [(''file_path'', F_Ctx ''file_path'' (F_Const (PStr ''contract.sol''))),
       (''solidity_code'', F_Ctx ''solidity_code'' (F_Ctx ''content'' (F_Const (PStr [])))),
       (''check_level'', F_Ctx ''check_level'' (F_Const (PStr ''STRICT'')))],
     make_route ''PiUninitializedStateSentry''
      [''uninitialized storage'', ''uninitialized state'', ''upgradeable initializer audit'', ''constructor safety'']
      ''PiUninitializedStateSentry'' ''UninitializedInput''
      [(''file_path'', F_Ctx ''file_path'' (F_Const (PStr ''contract.sol''))),
       (''solidity_code'', F_Ctx ''solidity_code'' (F_Ctx ''content'' (F_Const (PStr [])))),
       (''check_level'', F_Ctx ''check_level'' (F_Const (PStr ''STRICT'')))],
     make_route ''PiShadowedVariableDetector''
      [''shadowed variable'', ''variable shadowing scan'', ''unused variable audit'', ''gas unused param check'']
      ''PiShadowedVariableDetector'' ''ShadowedVariableInput''
      [(''file_path'', F_Ctx ''file_path'' (F_Const (PStr ''contract.sol''))),
       (''solidity_code'', F_Ctx ''solidity_code'' (F_Ctx ''content'' (F_Const (PStr [])))),
       (''check_level'', F_Ctx ''check_level'' (F_Const (PStr ''STRICT'')))],
     make_route ''PiBlockTimestampSentry''
      [''timestamp reliance'', ''block.timestamp audit'', ''eip-4337 expiration check'', ''timelock validator'']
      ''PiBlockTimestampSentry'' ''BlockTimestampInput''
      [(''file_path'', F_Ctx ''file_path'' (F_Const (PStr ''contract.sol''))),
       (''solidity_code'', F_Ctx ''solidity_code'' (F_Ctx ''content'' (F_Const (PStr [])))),
       (''check_level'', F_Ctx ''check_level'' (F_Const (PStr ''STRICT'')))]]"

definition agent_routes_03 :: "agent_route list" where
  "agent_routes_03 =
    [
     make_route ''PiStorageLayoutDrift''
      [''storage layout drift'', ''proxy storage audit'', ''upgrade storage check'', ''storage slot collision'',
       ''gap compliance'', ''upgradeable storage'']
      ''PiStorageLayoutDrift'' ''StorageDriftInput''
      [(''file_path'', F_Ctx ''file_path'' (F_Const (PStr ''contract.sol''))),
       (''solidity_code'', F_Ctx ''solidity_code'' (F_Ctx ''content'' (F_Const (PStr [])))),
       (''previous_code'', F_Ctx ''previous_code'' (F_Const (PStr []))),
       (''check_level'', F_Ctx ''check_level'' (F_Const (PStr ''STRICT'')))],
     make_route ''PiERC4626VaultGuard''
      [''erc-4626 audit'', ''vault guard'', ''vault compliance'', ''share inflation check'', ''erc4626 scan'',
       ''vault rounding audit'', ''deposit vault audit'']
      ''PiERC4626VaultGuard'' ''VaultGuardInput''
      [(''file_path'', F_Ctx ''file_path'' (F_Const (PStr ''vault.sol''))),
       (''solidity_code'', F_Ctx ''solidity_code'' (F_Ctx ''content'' (F_Const (PStr [])))),
       (''check_level'', F_Ctx ''check_level'' (F_Const (PStr ''STRICT'')))],
     make_route ''PiCrossChainBridgeAuditor''
      [''bridge audit'', ''cross-chain audit'', ''bridge security'', ''bridge replay check'', ''chain-id binding'',
       ''bridge validator audit'', ''message integrity check'', ''bridge nonce check'']
      ''PiCrossChainBridgeAuditor'' ''BridgeAuditInput''
      [(''file_path'', F_Ctx ''file_path'' (F_Const (PStr ''bridge.sol''))),
       (''solidity_code'', F_Ctx ''solidity_code'' (F_Ctx ''content'' (F_Const (PStr [])))),
       (''check_level'', F_Ctx ''check_level'' (F_Const (PStr ''STRICT'')))],
     make_route ''PiGasGuzzlerDetector''
      [''gas guzzler'', ''gas limit exhaustion loop'', ''unbounded loop check'', ''gas optimization audit'']
      ''PiGasGuzzlerDetector'' ''GasGuzzlerInput''
      [(''file_path'', F_Ctx ''file_path'' (F_Const (PStr ''gas.sol''))),
       (''solidity_code'', F_Ctx ''solidity_code'' (F_Ctx ''content'' (F_Const (PStr [])))),
       (''check_level'', F_Ctx ''check_level'' (F_Const (PStr ''STRICT'')))],
     make_route ''PiAssemblyLethalWeapons''
      [''inline assembly memory safety'', ''assembly pointer overwrite'', ''yul safe shift check'',
       ''assembly optimization linter'']
      ''PiAssemblyLethalWeapons'' ''AssemblySafetyInput''
      [(''file_path'', F_Ctx ''file_path'' (F_Const (PStr ''assembly.sol''))),
       (''solidity_code'', F_Ctx ''solidity_code'' (F_Ctx ''content'' (F_Const (PStr [])))),
       (''check_level'', F_Ctx ''check_level'' (F_Const (PStr ''STRICT'')))],
     make_route ''PiLogicGatekeeper''
      [''dead code check'', ''tautology check'', ''unreachable code audit'', ''contract code formatting linter'']
      ''PiLogicGatekeeper'' ''LogicGatekeeperInput''
      [(''file_path'', F_Ctx ''file_path'' (F_Const (PStr ''logic.sol''))),
       (''solidity_code'', F_Ctx ''solidity_code'' (F_Ctx ''content'' (F_Const (PStr [])))),
       (''check_level'', F_Ctx ''check_level'' (F_Const (PStr ''STRICT'')))],
     make_route ''PiPhishingShield''
      [''msg.sender check'', ''phishing shield scan'', ''eip-3009 permit check'', ''gasless permit verification'']
      ''PiPhishingShield'' ''PhishingShieldInput''
      [(''file_path'', F_Ctx ''file_path'' (F_Const (PStr ''phishing.sol''))),
       (''solidity_code'', F_Ctx ''solidity_code'' (F_Ctx ''content'' (F_Const (PStr [])))),
       (''check_level'', F_Ctx ''check_level'' (F_Const (PStr ''STRICT'')))],
     make_route ''PiExternalContractGuard''
      [''untrusted contract scan'', ''external dependency verify'', ''ierc interface audit'',
       ''external call address safety'']
      ''PiExternalContractGuard'' ''ExternalContractGuardInput''
      [(''file_path'', F_Ctx ''file_path'' (F_Const (PStr ''external.sol''))),
       (''solidity_code'', F_Ctx ''solidity_code'' (F_Ctx ''content'' (F_Const (PStr [])))),
       (''check_level'', F_Ctx ''check_level'' (F_Const (PStr ''STRICT'')))],
     make_route ''PiCentralizationSentry''
      [''centralization risk audit'', ''timelock validator'', ''multisig compliance setup'',
       ''admin role access checks'']
      ''PiCentralizationSentry'' ''CentralizationInput''
      [(''file_path'', F_Ctx ''file_path'' (F_Const (PStr ''centralization.sol''))),
       (''solidity_code'', F_Ctx ''solidity_code'' (F_Ctx ''content'' (F_Const (PStr [])))),
       (''check_level'', F_Ctx ''check_level'' (F_Const (PStr ''STRICT'')))]]"

definition agent_routes_04 :: "agent_route list" where
  "agent_routes_04 =
    [
     make_route ''PiFloatingPragmaSentry''
      [''floating pragma scan'', ''pragma compiler version locked'', ''safe pragma linter'',
       ''pragma solidity check'', ''floating pragma'', ''pragma solidity'']
      ''PiFloatingPragmaSentry'' ''PragmaSentryInput''
      [(''file_path'', F_Ctx ''file_path'' (F_Const (PStr ''pragma.sol''))),
       (''solidity_code'', F_Ctx ''solidity_code'' (F_Ctx ''content'' (F_Const (PStr [])))),
       (''check_level'', F_Ctx ''check_level'' (F_Const (PStr ''STRICT'')))],
     make_route ''PiUpgradeDefectDetector''
      [''storage gap gap audit'', ''storage gap audit'', ''storage collision scan'',
       ''upgradeable state initialize check'', ''uninitialized proxy storage'', ''storage collision'',
       ''upgrade defect'']
      ''PiUpgradeDefectDetector'' ''UpgradeDefectInput''
      [(''file_path'', F_Ctx ''file_path'' (F_Const (PStr ''upgrade.sol''))),
       (''solidity_code'', F_Ctx ''solidity_code'' (F_Ctx ''content'' (F_Const (PStr [])))),
       (''check_level'', F_Ctx ''check_level'' (F_Const (PStr ''STRICT'')))],
     make_route ''PiDoSGasLimitsSentry''
      [''dos external call in loop'', ''block gas limit dos'', ''pull over push verifier'',
       ''batch payment safety check'', ''dos gas limits'', ''block gas limit'']
      ''PiDoSGasLimitsSentry'' ''DoSGasLimitsInput''
      [(''file_path'', F_Ctx ''file_path'' (F_Const (PStr ''dos.sol''))),
       (''solidity_code'', F_Ctx ''solidity_code'' (F_Ctx ''content'' (F_Const (PStr [])))),
       (''check_level'', F_Ctx ''check_level'' (F_Const (PStr ''STRICT'')))],
     make_route ''PiDeFiSlippageGuard''
      [''zero slippage swap scan'', ''uniswap amountoutmin zero audit'', ''slippage slippage guard verifier'',
       ''slippage tolerance validator'', ''slippage guard'', ''defi slippage'']
      ''PiDeFiSlippageGuard'' ''DeFiSlippageInput''
      [(''file_path'', F_Ctx ''file_path'' (F_Const (PStr ''slippage.sol''))),
       (''solidity_code'', F_Ctx ''solidity_code'' (F_Ctx ''content'' (F_Const (PStr [])))),
       (''check_level'', F_Ctx ''check_level'' (F_Const (PStr ''STRICT'')))],
     make_route ''PiReentrancyGuardSpec''
      [''reentrancy guard spec'', ''reentrancy pattern audit'', ''nonreentrant modifier check'',
       ''checks effects interactions audit'', ''reentrancy spec'', ''reentrancy pattern'']
      ''PiReentrancyGuardSpec'' ''ReentrancyGuardSpecInput''
      [(''file_path'', F_Ctx ''file_path'' (F_Const (PStr ''reentrancy_spec.sol''))),
       (''solidity_code'', F_Ctx ''solidity_code'' (F_Ctx ''content'' (F_Const (PStr [])))),
       (''check_level'', F_Ctx ''check_level'' (F_Const (PStr ''STRICT'')))],
     make_route ''PiUniswapV3PoolSentry''
      [''uniswap v3 pool price sentry'', ''uniswap slot0 price manipulation'', ''uniswap v3 twap observe'',
       ''uniswap slot0 risk audit'', ''uniswap v3 pool sentry'', ''uniswap v3'']
      ''PiUniswapV3PoolSentry'' ''UniV3SentryInput''
      [(''file_path'', F_Ctx ''file_path'' (F_Const (PStr ''univ3.sol''))),
       (''solidity_code'', F_Ctx ''solidity_code'' (F_Ctx ''content'' (F_Const (PStr [])))),
       (''check_level'', F_Ctx ''check_level'' (F_Const (PStr ''STRICT'')))],
     make_route ''PiSandwichMEVShield''
      [''sandwich mev shield'', ''amm sandwich frontrun risk'', ''swap exact tokens zero slippage'',
       ''amm minimum output frontrun'', ''sandwich mev'', ''mev shield'']
      ''PiSandwichMEVShield'' ''MEVShieldInput''
      [(''file_path'', F_Ctx ''file_path'' (F_Const (PStr ''mev_shield.sol''))),
       (''solidity_code'', F_Ctx ''solidity_code'' (F_Ctx ''content'' (F_Const (PStr [])))),
       (''check_level'', F_Ctx ''check_level'' (F_Const (PStr ''STRICT'')))],
     make_route ''PiSolidityCompilerBugsSentry''
      [''solidity compiler bugs sentry'', ''compiler cve memory safety check'', ''yul optimizer storage offset bug'',
       ''outdated buggy compiler audit'', ''compiler bugs'', ''buggy compiler'']
      ''PiSolidityCompilerBugsSentry'' ''CompilerBugsInput''
      [(''file_path'', F_Ctx ''file_path'' (F_Const (PStr ''compiler_bugs.sol''))),
       (''solidity_code'', F_Ctx ''solidity_code'' (F_Ctx ''content'' (F_Const (PStr [])))),
       (''check_level'', F_Ctx ''check_level'' (F_Const (PStr ''STRICT'')))]]"

definition agent_routes_05 :: "agent_route list" where
  "agent_routes_05 =
    [
     make_route ''PiAccessControlShadow''
      [''access control shadow'', ''admin role timelock check'', ''unprotected administrative function'',
       ''constructor role init compliance'', ''access control shadow'', ''role shadow'']
      ''PiAccessControlShadow'' ''ACShadowInput''
      [(''file_path'', F_Ctx ''file_path'' (F_Const (PStr ''ac_shadow.sol''))),
       (''solidity_code'', F_Ctx ''solidity_code'' (F_Ctx ''content'' (F_Const (PStr [])))),
       (''check_level'', F_Ctx ''check_level'' (F_Const (PStr ''STRICT'')))],
     make_route ''PiLLMHallucinationDetector''
      [''llm hallucination detector'', ''llm self contradiction audit'', ''llm output factuality validation'',
       ''llm semantic drift checker'', ''hallucination detector'', ''hallucination'']
      ''PiLLMHallucinationDetector'' ''HallucinationDetectorInput''
      [(''prompt'', F_Ctx ''prompt'' (F_Const (PStr ''Analyze this contract.''))),
       (''response'', F_Ctx ''response'' (F_Ctx ''content'' (F_Const (PStr [])))),
       (''check_level'', F_Ctx ''check_level'' (F_Const (PStr ''STRICT'')))],
     make_route ''PiERC20PermitPhishingGuard''
      [''erc20 permit phishing guard'', ''eip-2612 gasless permit audit'', ''permit approval phishing sentry'',
       ''gasless signature permit safety'', ''permit phishing'', ''permit guard'']
      ''PiERC20PermitPhishingGuard'' ''PermitGuardInput''
      [(''file_path'', F_Ctx ''file_path'' (F_Const (PStr ''permit.sol''))),
       (''solidity_code'', F_Ctx ''solidity_code'' (F_Ctx ''content'' (F_Const (PStr [])))),
       (''check_level'', F_Ctx ''check_level'' (F_Const (PStr ''STRICT'')))],
     make_route ''PiSolidityReentrancyMutexSentry''
      [''reentrancy mutex sentry'', ''custom boolean locked variable check'', ''reentrancy locks gas profile'',
       ''transient storage tstore mutex'', ''reentrancy mutex'', ''mutex sentry'']
      ''PiSolidityReentrancyMutexSentry'' ''MutexSentryInput''
      [(''file_path'', F_Ctx ''file_path'' (F_Const (PStr ''mutex.sol''))),
       (''solidity_code'', F_Ctx ''solidity_code'' (F_Ctx ''content'' (F_Const (PStr [])))),
       (''check_level'', F_Ctx ''check_level'' (F_Const (PStr ''STRICT'')))],
     make_route ''PiDeFiMathRoundingSentry''
      [''defi math rounding sentry'', ''integer division rounding check'', ''share conversion inflation audit'',
       ''defi rounding direction safety'', ''math rounding'', ''rounding sentry'']
      ''PiDeFiMathRoundingSentry'' ''MathRoundingInput''
      [(''file_path'', F_Ctx ''file_path'' (F_Const (PStr ''rounding.sol''))),
       (''solidity_code'', F_Ctx ''solidity_code'' (F_Ctx ''content'' (F_Const (PStr [])))),
       (''check_level'', F_Ctx ''check_level'' (F_Const (PStr ''STRICT'')))],
     make_route ''PiCrossChainMessageReplaySentry''
      [''cross chain message replay sentry'', ''bridge message deduplication map'',
       ''bridge receiver replay guard check'', ''bridge replay nonce checker'', ''message replay'', ''bridge replay'']
      ''PiCrossChainMessageReplaySentry'' ''BridgeReplayInput''
      [(''file_path'', F_Ctx ''file_path'' (F_Const (PStr ''replay.sol''))),
       (''solidity_code'', F_Ctx ''solidity_code'' (F_Ctx ''content'' (F_Const (PStr [])))),
       (''check_level'', F_Ctx ''check_level'' (F_Const (PStr ''STRICT'')))],
     make_route ''PiSolidityTransientStorageSentry''
      [''solidity transient storage sentry'', ''transient storage check'', ''tstore tload safety'',
       ''cancun transient storage'', ''transient storage'', ''tstore sentry'']
      ''PiSolidityTransientStorageSentry'' ''TransientStorageInput''
      [(''file_path'', F_Ctx ''file_path'' (F_Const (PStr ''transient.sol''))),
       (''solidity_code'', F_Ctx ''solidity_code'' (F_Ctx ''content'' (F_Const (PStr [])))),
       (''check_level'', F_Ctx ''check_level'' (F_Const (PStr ''STRICT'')))],
     make_route ''PiEIP712SignatureLinter''
      [''eip712 signature linter'', ''eip-712 structured signing linter'', ''domain separator check'',
       ''signature linter'', ''eip712 verification'']
      ''PiEIP712SignatureLinter'' ''EIP712LinterInput''
      [(''file_path'', F_Ctx ''file_path'' (F_Const (PStr ''eip712.sol''))),
       (''solidity_code'', F_Ctx ''solidity_code'' (F_Ctx ''content'' (F_Const (PStr [])))),
       (''check_level'', F_Ctx ''check_level'' (F_Const (PStr ''STRICT'')))]]"

definition agent_routes_06 :: "agent_route list" where
  "agent_routes_06 =
    [
     make_route ''PiReadOnlyOracleManipulationSentry''
      [''read only oracle manipulation sentry'', ''spot balance pricing check'', ''read only reentrancy audit'',
       ''spot oracle manipulation'', ''read only oracle'']
      ''PiReadOnlyOracleManipulationSentry'' ''ReadOnlyOracleInput''
      [(''file_path'', F_Ctx ''file_path'' (F_Const (PStr ''oracle.sol''))),
       (''solidity_code'', F_Ctx ''solidity_code'' (F_Ctx ''content'' (F_Const (PStr [])))),
       (''check_level'', F_Ctx ''check_level'' (F_Const (PStr ''STRICT'')))],
     make_route ''PiRustAnchorSecuritySentry''
      [''solana anchor security sentry'', ''anchor rust program audit'', ''solana signer check'', ''anchor security'',
       ''solana rust sentry'']
      ''PiRustAnchorSecuritySentry'' ''AnchorSecurityInput''
      [(''file_path'', F_Ctx ''file_path'' (F_Const (PStr ''lib.rs''))),
       (''rust_code'', F_Ctx ''rust_code'' (F_Ctx ''content'' (F_Const (PStr [])))),
       (''check_level'', F_Ctx ''check_level'' (F_Const (PStr ''STRICT'')))],
     make_route ''PiEIP4337AccountAbstractionSentry''
      [''eip4337 account abstraction sentry'', ''smart account validation audit'', ''paymaster state access check'',
       ''account abstraction sentry'', ''erc-4337 sentry'']
      ''PiEIP4337AccountAbstractionSentry'' ''AccountAbstractionInput''
      [(''file_path'', F_Ctx ''file_path'' (F_Const (PStr ''wallet.sol''))),
       (''solidity_code'', F_Ctx ''solidity_code'' (F_Ctx ''content'' (F_Const (PStr [])))),
       (''check_level'', F_Ctx ''check_level'' (F_Const (PStr ''STRICT'')))],
     make_route ''PiZeroKnowledgeCircuitSentry''
      [''zero knowledge circuit sentry'', ''zk circom signal constraint audit'', ''underconstrained signal search'',
       ''zk circuit sentry'', ''circom linter'']
      ''PiZeroKnowledgeCircuitSentry'' ''ZKCircuitInput''
      [(''file_path'', F_Ctx ''file_path'' (F_Const (PStr ''circuit.circom''))),
       (''circom_code'', F_Ctx ''circom_code'' (F_Ctx ''content'' (F_Const (PStr [])))),
       (''check_level'', F_Ctx ''check_level'' (F_Const (PStr ''STRICT'')))],
     make_route ''PiERC7702DelegationGuard''
      [''erc7702 delegation guard'', ''eip-7702 delegation signature audit'', ''eoa contract delegation check'',
       ''delegation guard'', ''erc-7702 guard'']
      ''PiERC7702DelegationGuard'' ''ERC7702Input''
      [(''file_path'', F_Ctx ''file_path'' (F_Const (PStr ''delegation.sol''))),
       (''solidity_code'', F_Ctx ''solidity_code'' (F_Ctx ''content'' (F_Const (PStr [])))),
       (''check_level'', F_Ctx ''check_level'' (F_Const (PStr ''STRICT'')))],
     make_route ''PiLLMPromptInjectionSentry''
      [''llm prompt injection sentry'', ''llm jailbreak audit'', ''prompt override shield'',
       ''prompt injection sentry'', ''jailbreak detector'']
      ''PiLLMPromptInjectionSentry'' ''PromptInjectionInput''
      [(''prompt'', F_Ctx ''prompt'' F_Goal), (''check_level'', F_Ctx ''check_level'' (F_Const (PStr ''STRICT'')))],
     make_route ''PiVyperStateLockSentry''
      [''vyper state lock sentry'', ''vyper nonreentrant lock key audit'', ''vyper state mutex check'',
       ''vyper state lock'', ''vyper lock sentry'']
      ''PiVyperStateLockSentry'' ''VyperLockInput''
      [(''file_path'', F_Ctx ''file_path'' (F_Const (PStr ''contract.vy''))),
       (''vyper_code'', F_Ctx ''vyper_code'' (F_Ctx ''content'' (F_Const (PStr [])))),
       (''check_level'', F_Ctx ''check_level'' (F_Const (PStr ''STRICT'')))],
     make_route ''PiSolidityUpgradeableInitializerSentry''
      [''solidity upgradeable initializer sentry'', ''constructor disable initializers audit'',
       ''upgradeable initializer check'', ''initializer sentry'', ''upgrade initialize guard'']
      ''PiSolidityUpgradeableInitializerSentry'' ''UpgradeableInitInput''
      [(''file_path'', F_Ctx ''file_path'' (F_Const (PStr ''upgrade.sol''))),
       (''solidity_code'', F_Ctx ''solidity_code'' (F_Ctx ''content'' (F_Const (PStr [])))),
       (''check_level'', F_Ctx ''check_level'' (F_Const (PStr ''STRICT'')))]]"

definition agent_routes_07 :: "agent_route list" where
  "agent_routes_07 =
    [
     make_route ''PiVyperExternalCallSentry''
      [''vyper external call sentry'', ''vyper checks effects interactions'', ''vyper ext_call audit'',
       ''vyper state modification external call'', ''vyper call sentry'']
      ''PiVyperExternalCallSentry'' ''VyperExternalCallInput''
      [(''file_path'', F_Ctx ''file_path'' (F_Const (PStr ''contract.vy''))),
       (''vyper_code'', F_Ctx ''vyper_code'' (F_Ctx ''content'' (F_Const (PStr [])))),
       (''check_level'', F_Ctx ''check_level'' (F_Const (PStr ''STRICT'')))],
     make_route ''PiSoliditySignatureMalleabilitySentry''
      [''solidity signature malleability sentry'', ''ecdsa signature malleability check'', ''raw ecrecover audit'',
       ''signature malleability sentry'', ''malleability guard'']
      ''PiSoliditySignatureMalleabilitySentry'' ''SignatureMalleabilityInput''
      [(''file_path'', F_Ctx ''file_path'' (F_Const (PStr ''signature.sol''))),
       (''solidity_code'', F_Ctx ''solidity_code'' (F_Ctx ''content'' (F_Const (PStr [])))),
       (''check_level'', F_Ctx ''check_level'' (F_Const (PStr ''STRICT'')))],
     make_route ''PiZKCircomDivisionSentry''
      [''zk circom division sentry'', ''zk circom zero division constraint'', ''circom division guard'',
       ''circom zero division linter'', ''circom division sentry'']
      ''PiZKCircomDivisionSentry'' ''ZKCircomDivisionInput''
      [(''file_path'', F_Ctx ''file_path'' (F_Const (PStr ''circuit.circom''))),
       (''circom_code'', F_Ctx ''circom_code'' (F_Ctx ''content'' (F_Const (PStr [])))),
       (''check_level'', F_Ctx ''check_level'' (F_Const (PStr ''STRICT'')))],
     make_route ''PiEIP712DomainSeparatorSentry''
      [''eip-712 domain separator sentry'', ''upgradeable domain separator check'',
       ''dynamic domain separator linter'', ''domain separator validation'', ''domain separator sentry'']
      ''PiEIP712DomainSeparatorSentry'' ''DomainSeparatorInput''
      [(''file_path'', F_Ctx ''file_path'' (F_Const (PStr ''eip712_upgrade.sol''))),
       (''solidity_code'', F_Ctx ''solidity_code'' (F_Ctx ''content'' (F_Const (PStr [])))),
       (''check_level'', F_Ctx ''check_level'' (F_Const (PStr ''STRICT'')))],
     make_route ''PiSolidityArbitraryTransferSentry''
      [''solidity arbitrary transfer sentry'', ''user controlled token transfer check'',
       ''arbitrary erc20 transfer auditor'', ''transfer parameter validation'', ''arbitrary transfer sentry'']
      ''PiSolidityArbitraryTransferSentry'' ''ArbitraryTransferInput''
      [(''file_path'', F_Ctx ''file_path'' (F_Const (PStr ''transfer.sol''))),
       (''solidity_code'', F_Ctx ''solidity_code'' (F_Ctx ''content'' (F_Const (PStr [])))),
       (''check_level'', F_Ctx ''check_level'' (F_Const (PStr ''STRICT'')))],
     make_route ''PiSolidityDelegatecallStorageSentry''
      [''solidity delegatecall storage sentry'', ''proxy storage layout check'', ''eip-1967 storage slot validation'',
       ''delegatecall implementation target load'', ''delegatecall storage sentry'']
      ''PiSolidityDelegatecallStorageSentry'' ''DelegatecallStorageInput''
      [(''file_path'', F_Ctx ''file_path'' (F_Const (PStr ''proxy.sol''))),
       (''solidity_code'', F_Ctx ''solidity_code'' (F_Ctx ''content'' (F_Const (PStr [])))),
       (''check_level'', F_Ctx ''check_level'' (F_Const (PStr ''STRICT'')))],
     make_route ''PiSolidityOracleLivenessSentry''
      [''solidity oracle liveness sentry'', ''chainlink latestrounddata freshness check'',
       ''stale price oracle validation'', ''oracle feed liveness auditor'', ''oracle liveness sentry'']
      ''PiSolidityOracleLivenessSentry'' ''OracleLivenessInput''
      [(''file_path'', F_Ctx ''file_path'' (F_Const (PStr ''oracle_feed.sol''))),
       (''solidity_code'', F_Ctx ''solidity_code'' (F_Ctx ''content'' (F_Const (PStr [])))),
       (''check_level'', F_Ctx ''check_level'' (F_Const (PStr ''STRICT'')))],
     make_route ''PiLLMSystemPromptDriftSentry''
      [''llm system prompt drift sentry'', ''instruction override detection'', ''prompt drift multi turn guard'',
       ''prompt hijack drift sentry'', ''drift sentry'']
      ''PiLLMSystemPromptDriftSentry'' ''SystemPromptDriftInput''
      [(''prompt'', F_Ctx ''prompt'' F_Goal), (''check_level'', F_Ctx ''check_level'' (F_Const (PStr ''STRICT'')))]]"

definition agent_routes_08 :: "agent_route list" where
  "agent_routes_08 =
    [
     make_route ''PiSolidityDirtyMemorySentry''
      [''solidity dirty memory sentry'', ''yul memory allocation safe'',
       ''inline assembly free memory pointer check'', ''dirty memory overwrite sentry'', ''dirty memory sentry'']
      ''PiSolidityDirtyMemorySentry'' ''DirtyMemoryInput''
      [(''file_path'', F_Ctx ''file_path'' (F_Const (PStr ''memory.sol''))),
       (''solidity_code'', F_Ctx ''solidity_code'' (F_Ctx ''content'' (F_Const (PStr [])))),
       (''check_level'', F_Ctx ''check_level'' (F_Const (PStr ''STRICT'')))],
     make_route ''PiSolidityERC7702CodeSentry''
      [''solidity erc7702 code sentry'', ''eip-7702 delegation target check'',
       ''delegation contract selfdestruct check'', ''erc-7702 signature target linter'', ''erc7702 code sentry'']
      ''PiSolidityERC7702CodeSentry'' ''ERC7702CodeInput''
      [(''file_path'', F_Ctx ''file_path'' (F_Const (PStr ''delegation_target.sol''))),
       (''solidity_code'', F_Ctx ''solidity_code'' (F_Ctx ''content'' (F_Const (PStr [])))),
       (''check_level'', F_Ctx ''check_level'' (F_Const (PStr ''STRICT'')))],
     make_route ''PiSolidityTransientStorageReentrancySentry''
      [''transient storage reentrancy sentry'', ''transient storage check'', ''tstore clear audit'',
       ''transient reentrancy linter'', ''transient storage reentrancy'']
      ''PiSolidityTransientStorageReentrancySentry'' ''TransientStorageReentrancyInput''
      [(''file_path'', F_Ctx ''file_path'' (F_Const (PStr ''transient_reentrancy.sol''))),
       (''solidity_code'', F_Ctx ''solidity_code'' (F_Ctx ''content'' (F_Const (PStr [])))),
       (''check_level'', F_Ctx ''check_level'' (F_Const (PStr ''STRICT'')))],
     make_route ''PiSolidityL2GasFeeSentry''
      [''l2 gas fee sentry'', ''l2 calldata fee audit'', ''layer-2 calldata limit'', ''l2 dynamic calldata sentry'',
       ''l2 gas fee'']
      ''PiSolidityL2GasFeeSentry'' ''L2GasFeeInput''
      [(''file_path'', F_Ctx ''file_path'' (F_Const (PStr ''l2_gas.sol''))),
       (''solidity_code'', F_Ctx ''solidity_code'' (F_Ctx ''content'' (F_Const (PStr [])))),
       (''check_level'', F_Ctx ''check_level'' (F_Const (PStr ''STRICT'')))],
     make_route ''PiZKCircomUnderconstrainedSentry''
      [''zk circom underconstrained sentry'', ''underconstrained signal check'', ''circom missing constraints'',
       ''zk constraint linter'', ''circom underconstrained'']
      ''PiZKCircomUnderconstrainedSentry'' ''CircomUnderconstrainedInput''
      [(''file_path'', F_Ctx ''file_path'' (F_Const (PStr ''underconstrained.circom''))),
       (''circom_code'', F_Ctx ''circom_code'' (F_Ctx ''content'' (F_Const (PStr [])))),
       (''check_level'', F_Ctx ''check_level'' (F_Const (PStr ''STRICT'')))],
     make_route ''PiRustSolanaReentrancySentry''
      [''rust solana reentrancy sentry'', ''solana duplicate account check'', ''anchor account uniqueness'',
       ''solana uniqueness sentry'', ''solana accounts check'']
      ''PiRustSolanaReentrancySentry'' ''RustSolanaReentrancyInput''
      [(''file_path'', F_Ctx ''file_path'' (F_Const (PStr ''solana_program.rs''))),
       (''rust_code'', F_Ctx ''rust_code'' (F_Ctx ''content'' (F_Const (PStr [])))),
       (''check_level'', F_Ctx ''check_level'' (F_Const (PStr ''STRICT'')))],
     make_route ''PiSolidityPriceFeedSequencerSentry''
      [''solidity price feed sequencer sentry'', ''l2 sequencer uptime feed check'', ''stale price sequencer check'',
       ''price feed sequencer sentry'', ''sequencer uptime sentry'']
      ''PiSolidityPriceFeedSequencerSentry'' ''PriceFeedSequencerInput''
      [(''file_path'', F_Ctx ''file_path'' (F_Const (PStr ''oracle_l2.sol''))),
       (''solidity_code'', F_Ctx ''solidity_code'' (F_Ctx ''content'' (F_Const (PStr [])))),
       (''check_level'', F_Ctx ''check_level'' (F_Const (PStr ''STRICT'')))],
     make_route ''PiSolidityERC20TransferRecipientSentry''
      [''solidity erc20 transfer recipient sentry'', ''safe token destination check'',
       ''address zero transfer sentry'', ''token recipient sentry'', ''transfer recipient sentry'']
      ''PiSolidityERC20TransferRecipientSentry'' ''ERC20TransferRecipientInput''
      [(''file_path'', F_Ctx ''file_path'' (F_Const (PStr ''erc20_transfer.sol''))),
       (''solidity_code'', F_Ctx ''solidity_code'' (F_Ctx ''content'' (F_Const (PStr [])))),
       (''check_level'', F_Ctx ''check_level'' (F_Const (PStr ''STRICT'')))]]"

definition agent_routes_09 :: "agent_route list" where
  "agent_routes_09 =
    [
     make_route ''PiSolidityEIP712TypehashMismatchSentry''
      [''solidity eip712 typehash mismatch sentry'', ''eip-712 typehash alignment check'',
       ''signature struct mismatch sentry'', ''typehash alignment sentry'', ''typehash mismatch sentry'']
      ''PiSolidityEIP712TypehashMismatchSentry'' ''EIP712TypehashMismatchInput''
      [(''file_path'', F_Ctx ''file_path'' (F_Const (PStr ''signature_hash.sol''))),
       (''solidity_code'', F_Ctx ''solidity_code'' (F_Ctx ''content'' (F_Const (PStr [])))),
       (''check_level'', F_Ctx ''check_level'' (F_Const (PStr ''STRICT'')))],
     make_route ''PiSolidityCreate2SaltCollisionSentry''
      [''solidity create2 salt collision sentry'', ''predictable create2 salt check'',
       ''create2 address hijacking sentry'', ''create2 salt collision sentry'', ''predictable salt sentry'']
      ''PiSolidityCreate2SaltCollisionSentry'' ''Create2SaltCollisionInput''
      [(''file_path'', F_Ctx ''file_path'' (F_Const (PStr ''factory_create2.sol''))),
       (''solidity_code'', F_Ctx ''solidity_code'' (F_Ctx ''content'' (F_Const (PStr [])))),
       (''check_level'', F_Ctx ''check_level'' (F_Const (PStr ''STRICT'')))],
     make_route ''PiSolidityArrayLengthSentry''
      [''solidity array length sentry'', ''unbounded array iteration loop'', ''block gas limit array check'',
       ''array length sentry'', ''unbounded array sentry'']
      ''PiSolidityArrayLengthSentry'' ''ArrayLengthInput''
      [(''file_path'', F_Ctx ''file_path'' (F_Const (PStr ''unbounded_loop.sol''))),
       (''solidity_code'', F_Ctx ''solidity_code'' (F_Ctx ''content'' (F_Const (PStr [])))),
       (''check_level'', F_Ctx ''check_level'' (F_Const (PStr ''STRICT'')))],
     make_route ''PiLLMPromptInjectionNegativeConstraintSentry''
      [''llm prompt injection negative constraint sentry'', ''negative constraint override check'',
       ''adversarial prompt negation shield'', ''negative constraint sentry'', ''prompt negation sentry'']
      ''PiLLMPromptInjectionNegativeConstraintSentry'' ''NegativeConstraintInput''
      [(''prompt'', F_Ctx ''prompt'' F_Goal), (''check_level'', F_Ctx ''check_level'' (F_Const (PStr ''STRICT'')))],
     make_route ''PiSolidityDelegateCallToSelfSentry''
      [''solidity delegatecall to self sentry'', ''delegatecall self check'', ''delegatecall to self sentry'',
       ''self delegatecall audit'']
      ''PiSolidityDelegateCallToSelfSentry'' ''DelegateCallSelfInput''
      [(''file_path'', F_Ctx ''file_path'' (F_Const (PStr ''self_delegatecall.sol''))),
       (''solidity_code'', F_Ctx ''solidity_code'' (F_Ctx ''content'' (F_Const (PStr [])))),
       (''check_level'', F_Ctx ''check_level'' (F_Const (PStr ''STRICT'')))],
     make_route ''PiSolidityBlockTimestampIntervalSentry''
      [''solidity block timestamp interval sentry'', ''block timestamp staking vest check'',
       ''timestamp claiming interval sentry'', ''block timestamp interval sentry'', ''timestamp interval sentry'']
      ''PiSolidityBlockTimestampIntervalSentry'' ''TimestampIntervalInput''
      [(''file_path'', F_Ctx ''file_path'' (F_Const (PStr ''timestamp_interval.sol''))),
       (''solidity_code'', F_Ctx ''solidity_code'' (F_Ctx ''content'' (F_Const (PStr [])))),
       (''check_level'', F_Ctx ''check_level'' (F_Const (PStr ''STRICT'')))],
     make_route ''PiSolidityAssemblyMemorySafeSentry''
      [''solidity assembly memory safe sentry'', ''yul memory safe allocation check'',
       ''assembly memory scratchpad audit'', ''assembly memory safe sentry'', ''assembly memory safe'']
      ''PiSolidityAssemblyMemorySafeSentry'' ''AssemblyMemorySafeInput''
      [(''file_path'', F_Ctx ''file_path'' (F_Const (PStr ''memory_safe.sol''))),
       (''solidity_code'', F_Ctx ''solidity_code'' (F_Ctx ''content'' (F_Const (PStr [])))),
       (''check_level'', F_Ctx ''check_level'' (F_Const (PStr ''STRICT'')))],
     make_route ''PiRustSolanaSignerAssertionSentry''
      [''rust solana signer assertion sentry'', ''solana anchor signer check'', ''solana duplicate account signer'',
       ''solana signer assertion sentry'', ''solana signer check'']
      ''PiRustSolanaSignerAssertionSentry'' ''SolanaSignerAssertionInput''
      [(''file_path'', F_Ctx ''file_path'' (F_Const (PStr ''anchor_program.rs''))),
       (''rust_code'', F_Ctx ''rust_code'' (F_Ctx ''content'' (F_Const (PStr [])))),
       (''check_level'', F_Ctx ''check_level'' (F_Const (PStr ''STRICT'')))]]"

definition agent_routes_10 :: "agent_route list" where
  "agent_routes_10 =
    [
     make_route ''PiZKCircomShadowSignalSentry''
      [''zk circom shadow signal sentry'', ''circom signal shadowing constraint'', ''circom local var collision'',
       ''zk circom shadow signal'', ''circom shadow sentry'']
      ''PiZKCircomShadowSignalSentry'' ''CircomShadowSignalInput''
      [(''file_path'', F_Ctx ''file_path'' (F_Const (PStr ''shadow_signal.circom''))),
       (''circom_code'', F_Ctx ''circom_code'' (F_Ctx ''content'' (F_Const (PStr [])))),
       (''check_level'', F_Ctx ''check_level'' (F_Const (PStr ''STRICT'')))],
     make_route ''PiSolidityPriceFeedFallbackSentry''
      [''solidity price feed fallback sentry'', ''oracle backup twap price check'',
       ''stale primary price feed fallback'', ''oracle price fallback sentry'', ''price feed fallback sentry'']
      ''PiSolidityPriceFeedFallbackSentry'' ''PriceFeedFallbackInput''
      [(''file_path'', F_Ctx ''file_path'' (F_Const (PStr ''price_oracle.sol''))),
       (''solidity_code'', F_Ctx ''solidity_code'' (F_Ctx ''content'' (F_Const (PStr [])))),
       (''check_level'', F_Ctx ''check_level'' (F_Const (PStr ''STRICT'')))],
     make_route ''PiVyperStorageLayoutCollisionSentry''
      [''vyper storage layout collision sentry'', ''vyper proxy slot collision'',
       ''vyper upgrade storage layout shift'', ''vyper storage collision sentry'', ''vyper storage collision'']
      ''PiVyperStorageLayoutCollisionSentry'' ''VyperStorageCollisionInput''
      [(''file_path'', F_Ctx ''file_path'' (F_Const (PStr ''upgradeable.vy''))),
       (''vyper_code'', F_Ctx ''vyper_code'' (F_Ctx ''content'' (F_Const (PStr [])))),
       (''check_level'', F_Ctx ''check_level'' (F_Const (PStr ''STRICT'')))],
     make_route ''PiLLMPromptInjectionSystemPromptOverrideSentry''
      [''llm prompt injection system prompt override sentry'', ''adversarial system command bypass'',
       ''ignore system commands bypass shield'', ''system prompt override sentry'', ''prompt override sentry'']
      ''PiLLMPromptInjectionSystemPromptOverrideSentry'' ''SystemPromptOverrideInput''
      [(''prompt'', F_Ctx ''prompt'' F_Goal), (''check_level'', F_Ctx ''check_level'' (F_Const (PStr ''STRICT'')))],
     make_route ''PiDockerComposeSecuritySentry''
      [''docker compose security sentry'', ''docker compose privileged container'',
       ''docker socket mount security check'', ''docker compose security sentry'', ''docker compose sentry'']
      ''PiDockerComposeSecuritySentry'' ''DockerComposeSecurityInput''
      [(''file_path'', F_Ctx ''file_path'' (F_Const (PStr ''docker-compose.yml''))),
       (''compose_code'', F_Ctx ''compose_code'' (F_Ctx ''content'' (F_Const (PStr [])))),
       (''check_level'', F_Ctx ''check_level'' (F_Const (PStr ''STRICT'')))],
     make_route ''PiGitSecretLeakSentry''
      [''git secret leak sentry'', ''repository private key mnemonic scan'',
       ''high entropy aws Stripe api credential check'', ''git secret leak sentry'', ''secret leak sentry'']
      ''PiGitSecretLeakSentry'' ''GitSecretLeakInput''
      [(''file_path'', F_Ctx ''file_path'' (F_Const (PStr ''config.json''))),
       (''file_content'', F_Ctx ''file_content'' (F_Ctx ''content'' (F_Const (PStr [])))),
       (''check_level'', F_Ctx ''check_level'' (F_Const (PStr ''STRICT'')))],
     make_route ''PiRustTuiResourceLimit''
      [''rust tui resource limit'', ''ratatui terminal loop limit check'', ''tui draw resource sentry'',
       ''rust tui resource limit'', ''tui resource limit'']
      ''PiRustTuiResourceLimit'' ''RustTuiResourceLimitInput''
      [(''file_path'', F_Ctx ''file_path'' (F_Const (PStr ''main.rs''))),
       (''rust_code'', F_Ctx ''rust_code'' (F_Ctx ''content'' (F_Const (PStr [])))),
       (''check_level'', F_Ctx ''check_level'' (F_Const (PStr ''STRICT'')))],
     make_route ''PiGrpcProtocolInterceptor''
      [''grpc protocol interceptor'', ''unencrypted grpc channel scan'', ''grpc insecure port warning check'',
       ''grpc protocol interceptor'', ''grpc interceptor'']
      ''PiGrpcProtocolInterceptor'' ''GrpcProtocolInterceptInput''
      [(''file_path'', F_Ctx ''file_path'' (F_Const (PStr ''service.proto''))),
       (''grpc_code'', F_Ctx ''grpc_code'' (F_Ctx ''content'' (F_Const (PStr [])))),
       (''check_level'', F_Ctx ''check_level'' (F_Const (PStr ''STRICT'')))]]"

definition agent_routes_11 :: "agent_route list" where
  "agent_routes_11 =
    [
     make_route ''PiDeterministicOutputValid''
      [''deterministic output validation'', ''probabilistic output hallucination checker'',
       ''system prompt leakage detector'', ''deterministic output valid'', ''deterministic validation'']
      ''PiDeterministicOutputValid'' ''DeterministicOutputValidInput''
      [(''file_path'', F_Ctx ''file_path'' (F_Const (PStr ''generated_output.txt''))),
       (''output_content'', F_Ctx ''output_content'' (F_Ctx ''content'' F_Goal)),
       (''check_level'', F_Ctx ''check_level'' (F_Const (PStr ''STRICT'')))],
     make_route ''PiZeroTrustExecutionDomain''
      [''zero trust execution domain'', ''tmux privilege escape check'', ''sandbox namespace bounds verifier'',
       ''zero trust execution domain'', ''execution domain sentry'']
      ''PiZeroTrustExecutionDomain'' ''ZeroTrustExecDomainInput''
      [(''file_path'', F_Ctx ''file_path'' (F_Const (PStr ''run_sandbox.sh''))),
       (''domain_code'', F_Ctx ''domain_code'' (F_Ctx ''content'' (F_Const (PStr [])))),
       (''check_level'', F_Ctx ''check_level'' (F_Const (PStr ''STRICT'')))],
     make_route ''PiSolidityFlashLoanAttack''
      [''solidity flash loan attack'', ''executeoperation sender verify check'',
       ''defi flash loan reentrancy sentry'', ''solidity flash loan attack'', ''flash loan attack sentry'']
      ''PiSolidityFlashLoanAttack'' ''SolidityFlashLoanInput''
      [(''file_path'', F_Ctx ''file_path'' (F_Const (PStr ''flash_callback.sol''))),
       (''solidity_code'', F_Ctx ''solidity_code'' (F_Ctx ''content'' (F_Const (PStr [])))),
       (''check_level'', F_Ctx ''check_level'' (F_Const (PStr ''STRICT'')))],
     make_route ''PiZKProofPublicInputVerif''
      [''zk proof public input verif'', ''zk verifier public input check'',
       ''verifier custom require state constraint'', ''zk proof public input verif'', ''public input verif sentry'']
      ''PiZKProofPublicInputVerif'' ''ZKProofPublicInputVerifInput''
      [(''file_path'', F_Ctx ''file_path'' (F_Const (PStr ''verifier_caller.sol''))),
       (''solidity_code'', F_Ctx ''solidity_code'' (F_Ctx ''content'' (F_Const (PStr [])))),
       (''check_level'', F_Ctx ''check_level'' (F_Const (PStr ''STRICT'')))],
     make_route ''PiAdversarialEvaluatorSim''
      [''adversarial evaluator sim'', ''jailbreak simulated override detector'',
       ''logical paradox filter bypass shield'', ''adversarial evaluator sim'', ''adversarial sim sentry'']
      ''PiAdversarialEvaluatorSim'' ''AdversarialEvaluatorSimInput''
      [(''prompt'', F_Ctx ''prompt'' F_Goal), (''check_level'', F_Ctx ''check_level'' (F_Const (PStr ''STRICT'')))],
     make_route ''PiRustTokioDeadlockSentry''
      [''rust tokio deadlock sentry'', ''async sync lock across await check'',
       ''tokio block_on nested execution sentry'', ''rust tokio deadlock sentry'', ''deadlock sentry'']
      ''PiRustTokioDeadlockSentry'' ''RustTokioDeadlockInput''
      [(''file_path'', F_Ctx ''file_path'' (F_Const (PStr ''concurrency.rs''))),
       (''rust_code'', F_Ctx ''rust_code'' (F_Ctx ''content'' (F_Const (PStr [])))),
       (''check_level'', F_Ctx ''check_level'' (F_Const (PStr ''STRICT'')))],
     make_route ''PiApiReverseEngineeredAuth''
      [''api reverse engineered auth'', ''hardcoded bearer token payload check'',
       ''jwt weakly signed private key sentry'', ''api reverse engineered auth'', ''reverse engineered auth'']
      ''PiApiReverseEngineeredAuth'' ''ApiReverseEngineeredAuthInput''
      [(''file_path'', F_Ctx ''file_path'' (F_Const (PStr ''auth_integration.py''))),
       (''auth_code'', F_Ctx ''auth_code'' (F_Ctx ''content'' (F_Const (PStr [])))),
       (''check_level'', F_Ctx ''check_level'' (F_Const (PStr ''STRICT'')))],
     make_route ''PiSemanticSchemaRegistry''
      [''semantic schema registry'', ''unstructured json column injection scan'',
       ''unversioned dynamic schema change linter'', ''semantic schema registry'', ''schema registry sentry'']
      ''PiSemanticSchemaRegistry'' ''SemanticSchemaRegistryInput''
      [(''file_path'', F_Ctx ''file_path'' (F_Const (PStr ''schema_migration.py''))),
       (''schema_code'', F_Ctx ''schema_code'' (F_Ctx ''content'' (F_Const (PStr [])))),
       (''check_level'', F_Ctx ''check_level'' (F_Const (PStr ''STRICT'')))]]"

definition agent_routes_12 :: "agent_route list" where
  "agent_routes_12 =
    [
     make_route ''PiSolidityReentrancyGuardOverlapSentry''
      [''reentrancy guard overlap'', ''overlapping reentrancy guard'', ''redundant reentrancy guard'',
       ''nonreentrant overlap'']
      ''PiSolidityReentrancyGuardOverlapSentry'' ''ReentrancyGuardOverlapInput''
      [(''file_path'', F_Ctx ''file_path'' (F_Const (PStr ''contract.sol''))),
       (''solidity_code'', F_Ctx ''solidity_code'' (F_Ctx ''content'' (F_Const (PStr [])))),
       (''check_level'', F_Ctx ''check_level'' (F_Const (PStr ''STRICT'')))],
     make_route ''PiSolidityTxOriginCallCheckSentry''
      [''tx.origin call check'', ''solidity tx.origin phishing check'', ''tx.origin authorization audit'',
       ''tx.origin call sentry'']
      ''PiSolidityTxOriginCallCheckSentry'' ''TxOriginCallCheckInput''
      [(''file_path'', F_Ctx ''file_path'' (F_Const (PStr ''contract.sol''))),
       (''solidity_code'', F_Ctx ''solidity_code'' (F_Ctx ''content'' (F_Const (PStr [])))),
       (''check_level'', F_Ctx ''check_level'' (F_Const (PStr ''STRICT'')))],
     make_route ''PiSolidityArrayLengthMutationSentry''
      [''array length mutation'', ''solidity array length mutation'', ''array storage length overwrite'',
       ''array length mutation check'']
      ''PiSolidityArrayLengthMutationSentry'' ''ArrayLengthMutationInput''
      [(''file_path'', F_Ctx ''file_path'' (F_Const (PStr ''contract.sol''))),
       (''solidity_code'', F_Ctx ''solidity_code'' (F_Ctx ''content'' (F_Const (PStr [])))),
       (''check_level'', F_Ctx ''check_level'' (F_Const (PStr ''STRICT'')))],
     make_route ''PiSolidityExternalContractsReturnCheck''
      [''external contracts return check'', ''missing contract existence check'',
       ''untrusted external call success check'', ''external contract check'']
      ''PiSolidityExternalContractsReturnCheck'' ''ExternalContractsReturnInput''
      [(''file_path'', F_Ctx ''file_path'' (F_Const (PStr ''contract.sol''))),
       (''solidity_code'', F_Ctx ''solidity_code'' (F_Ctx ''content'' (F_Const (PStr [])))),
       (''check_level'', F_Ctx ''check_level'' (F_Const (PStr ''STRICT'')))],
     make_route ''PiSolidityUnboundedLoopsInStateMutation''
      [''unbounded loops in state mutation'', ''state mutation unbounded loop'',
       ''gas exhaustion state update check'', ''unbounded loop state mutation'']
      ''PiSolidityUnboundedLoopsInStateMutation'' ''UnboundedLoopsStateInput''
      [(''file_path'', F_Ctx ''file_path'' (F_Const (PStr ''contract.sol''))),
       (''solidity_code'', F_Ctx ''solidity_code'' (F_Ctx ''content'' (F_Const (PStr [])))),
       (''check_level'', F_Ctx ''check_level'' (F_Const (PStr ''STRICT'')))],
     make_route ''PiSolidityDivideBeforeMultiplyAuditor''
      [''divide before multiply'', ''solidity division multiplication precision'', ''math precision rounding check'',
       ''divide before multiply auditor'']
      ''PiSolidityDivideBeforeMultiplyAuditor'' ''DivideBeforeMultiplyInput''
      [(''file_path'', F_Ctx ''file_path'' (F_Const (PStr ''contract.sol''))),
       (''solidity_code'', F_Ctx ''solidity_code'' (F_Ctx ''content'' (F_Const (PStr [])))),
       (''check_level'', F_Ctx ''check_level'' (F_Const (PStr ''STRICT'')))],
     make_route ''PiSolidityInitializableGapSentry''
      [''initializable storage gap'', ''upgradeable contract storage gap check'', ''missing storage gap sentry'',
       ''initializable gap sentry'']
      ''PiSolidityInitializableGapSentry'' ''InitializableGapInput''
      [(''file_path'', F_Ctx ''file_path'' (F_Const (PStr ''contract.sol''))),
       (''solidity_code'', F_Ctx ''solidity_code'' (F_Ctx ''content'' (F_Const (PStr [])))),
       (''check_level'', F_Ctx ''check_level'' (F_Const (PStr ''STRICT'')))],
     make_route ''PiSoliditySelfdestructCodeEraseSentry''
      [''selfdestruct code erase'', ''selfdestruct logic check'', ''delegatecall selfdestruct check'',
       ''selfdestruct code erase sentry'']
      ''PiSoliditySelfdestructCodeEraseSentry'' ''SelfdestructCodeEraseInput''
      [(''file_path'', F_Ctx ''file_path'' (F_Const (PStr ''contract.sol''))),
       (''solidity_code'', F_Ctx ''solidity_code'' (F_Ctx ''content'' (F_Const (PStr [])))),
       (''check_level'', F_Ctx ''check_level'' (F_Const (PStr ''STRICT'')))],
     make_route ''PiSoliditySignatureOmittedReplaySentry''
      [''signature omitted replay'', ''omitted signature check'', ''missing signature validation replay'',
       ''signature omitted replay sentry'']
      ''PiSoliditySignatureOmittedReplaySentry'' ''SignatureOmittedReplayInput''
      [(''file_path'', F_Ctx ''file_path'' (F_Const (PStr ''contract.sol''))),
       (''solidity_code'', F_Ctx ''solidity_code'' (F_Ctx ''content'' (F_Const (PStr [])))),
       (''check_level'', F_Ctx ''check_level'' (F_Const (PStr ''STRICT'')))]]"

definition agent_routes_13 :: "agent_route list" where
  "agent_routes_13 =
    [
     make_route ''PiSolidityOwnerTimelockSentry''
      [''owner timelock sentry'', ''admin action timelock check'', ''missing timelock modifier check'',
       ''owner timelock check'']
      ''PiSolidityOwnerTimelockSentry'' ''OwnerTimelockInput''
      [(''file_path'', F_Ctx ''file_path'' (F_Const (PStr ''contract.sol''))),
       (''solidity_code'', F_Ctx ''solidity_code'' (F_Ctx ''content'' (F_Const (PStr [])))),
       (''check_level'', F_Ctx ''check_level'' (F_Const (PStr ''STRICT'')))],
     make_route ''PiSolidityERC20SafeApproveAuditor''
      [''erc20 safe approve'', ''safeapprove audit'', ''approve non-zero to non-zero check'', ''safeapprove check'']
      ''PiSolidityERC20SafeApproveAuditor'' ''ERC20SafeApproveInput''
      [(''file_path'', F_Ctx ''file_path'' (F_Const (PStr ''contract.sol''))),
       (''solidity_code'', F_Ctx ''solidity_code'' (F_Ctx ''content'' (F_Const (PStr [])))),
       (''check_level'', F_Ctx ''check_level'' (F_Const (PStr ''STRICT'')))],
     make_route ''PiSolidityUndeclaredReturnVariableSentry''
      [''undeclared return variable'', ''named return variable check'', ''uninitialized return variable sentry'',
       ''undeclared return check'']
      ''PiSolidityUndeclaredReturnVariableSentry'' ''UndeclaredReturnVariableInput''
      [(''file_path'', F_Ctx ''file_path'' (F_Const (PStr ''contract.sol''))),
       (''solidity_code'', F_Ctx ''solidity_code'' (F_Ctx ''content'' (F_Const (PStr [])))),
       (''check_level'', F_Ctx ''check_level'' (F_Const (PStr ''STRICT'')))],
     make_route ''PiSolidityYulMemoryOffsetAudit''
      [''yul memory offset audit'', ''yul mstore offset check'', ''assembly memory offset check'',
       ''yul memory offset check'']
      ''PiSolidityYulMemoryOffsetAudit'' ''YulMemoryOffsetInput''
      [(''file_path'', F_Ctx ''file_path'' (F_Const (PStr ''contract.sol''))),
       (''solidity_code'', F_Ctx ''solidity_code'' (F_Ctx ''content'' (F_Const (PStr [])))),
       (''check_level'', F_Ctx ''check_level'' (F_Const (PStr ''STRICT'')))],
     make_route ''PiSolidityProxyCallTargetCheck''
      [''proxy call target check'', ''upgradeable proxy address validation'', ''implementation address zero check'',
       ''proxy call target check'']
      ''PiSolidityProxyCallTargetCheck'' ''ProxyCallTargetInput''
      [(''file_path'', F_Ctx ''file_path'' (F_Const (PStr ''contract.sol''))),
       (''solidity_code'', F_Ctx ''solidity_code'' (F_Ctx ''content'' (F_Const (PStr [])))),
       (''check_level'', F_Ctx ''check_level'' (F_Const (PStr ''STRICT'')))],
     make_route ''PiSolidityConstantPragmaValidation''
      [''constant pragma validation'', ''exact solidity pragma check'', ''pragma lock version validator'',
       ''constant pragma validation'']
      ''PiSolidityConstantPragmaValidation'' ''ConstantPragmaInput''
      [(''file_path'', F_Ctx ''file_path'' (F_Const (PStr ''contract.sol''))),
       (''solidity_code'', F_Ctx ''solidity_code'' (F_Ctx ''content'' (F_Const (PStr [])))),
       (''check_level'', F_Ctx ''check_level'' (F_Const (PStr ''STRICT'')))],
     make_route ''PiRustSolanaAccountDataValidation''
      [''solana account data validation'', ''solana manual account validation check'',
       ''solana account type verification'', ''account data validation sentry'']
      ''PiRustSolanaAccountDataValidation'' ''SolanaAccountDataInput''
      [(''file_path'', F_Ctx ''file_path'' (F_Const (PStr ''lib.rs''))),
       (''rust_code'', F_Ctx ''rust_code'' (F_Ctx ''content'' (F_Const (PStr [])))),
       (''check_level'', F_Ctx ''check_level'' (F_Const (PStr ''STRICT'')))],
     make_route ''PiRustSolanaMissingSignerAssert''
      [''solana missing signer assert'', ''solana signer verify check'', ''anchor missing signer check'',
       ''missing signer check sentry'']
      ''PiRustSolanaMissingSignerAssert'' ''SolanaMissingSignerInput''
      [(''file_path'', F_Ctx ''file_path'' (F_Const (PStr ''lib.rs''))),
       (''rust_code'', F_Ctx ''rust_code'' (F_Ctx ''content'' (F_Const (PStr [])))),
       (''check_level'', F_Ctx ''check_level'' (F_Const (PStr ''STRICT'')))],
     make_route ''PiRustSolanaArithmeticOverflowCheck''
      [''solana arithmetic overflow check'', ''rust math safety overflow'', ''solana checked math verification'',
       ''solana overflow sentry'']
      ''PiRustSolanaArithmeticOverflowCheck'' ''SolanaArithmeticOverflowInput''
      [(''file_path'', F_Ctx ''file_path'' (F_Const (PStr ''lib.rs''))),
       (''rust_code'', F_Ctx ''rust_code'' (F_Ctx ''content'' (F_Const (PStr [])))),
       (''check_level'', F_Ctx ''check_level'' (F_Const (PStr ''STRICT'')))]]"

definition agent_routes_14 :: "agent_route list" where
  "agent_routes_14 =
    [
     make_route ''PiRustSolanaOwnerVerificationGuard''
      [''solana owner verification guard'', ''solana owner validation check'', ''anchor owner attribute audit'',
       ''owner verification guard'']
      ''PiRustSolanaOwnerVerificationGuard'' ''SolanaOwnerVerificationInput''
      [(''file_path'', F_Ctx ''file_path'' (F_Const (PStr ''lib.rs''))),
       (''rust_code'', F_Ctx ''rust_code'' (F_Ctx ''content'' (F_Const (PStr [])))),
       (''check_level'', F_Ctx ''check_level'' (F_Const (PStr ''STRICT'')))],
     make_route ''PiRustSolanaCPIInstructionSentry''
      [''solana cpi instruction sentry'', ''solana cross program invocation check'', ''cpi program id validation'',
       ''cpi instruction sentry'']
      ''PiRustSolanaCPIInstructionSentry'' ''SolanaCPIInstructionInput''
      [(''file_path'', F_Ctx ''file_path'' (F_Const (PStr ''lib.rs''))),
       (''rust_code'', F_Ctx ''rust_code'' (F_Ctx ''content'' (F_Const (PStr [])))),
       (''check_level'', F_Ctx ''check_level'' (F_Const (PStr ''STRICT'')))],
     make_route ''PiRustSolanaBorshSerializationLeak''
      [''solana borsh serialization leak'', ''solana borsh format check'', ''borsh deserialize struct length leak'',
       ''borsh serialization leak'']
      ''PiRustSolanaBorshSerializationLeak'' ''SolanaBorshLeakInput''
      [(''file_path'', F_Ctx ''file_path'' (F_Const (PStr ''lib.rs''))),
       (''rust_code'', F_Ctx ''rust_code'' (F_Ctx ''content'' (F_Const (PStr [])))),
       (''check_level'', F_Ctx ''check_level'' (F_Const (PStr ''STRICT'')))],
     make_route ''PiRustSolanaReentrancyCrossProgramSentry''
      [''solana reentrancy cross program sentry'', ''solana cpi reentrancy check'',
       ''solana reentrancy cross program'', ''cpi reentrancy sentry'']
      ''PiRustSolanaReentrancyCrossProgramSentry'' ''SolanaReentrancyCrossInput''
      [(''file_path'', F_Ctx ''file_path'' (F_Const (PStr ''lib.rs''))),
       (''rust_code'', F_Ctx ''rust_code'' (F_Ctx ''content'' (F_Const (PStr [])))),
       (''check_level'', F_Ctx ''check_level'' (F_Const (PStr ''STRICT'')))],
     make_route ''PiRustSolanaSysvarClockVerification''
      [''solana sysvar clock verification'', ''solana clock timestamp check'', ''sysvar clock verification sentry'',
       ''solana clock validator'']
      ''PiRustSolanaSysvarClockVerification'' ''SolanaSysvarClockInput''
      [(''file_path'', F_Ctx ''file_path'' (F_Const (PStr ''lib.rs''))),
       (''rust_code'', F_Ctx ''rust_code'' (F_Ctx ''content'' (F_Const (PStr [])))),
       (''check_level'', F_Ctx ''check_level'' (F_Const (PStr ''STRICT'')))],
     make_route ''PiZKSignalUnconstrainedConstraint''
      [''zk signal unconstrained constraint'', ''circom assign without constraint check'',
       ''unconstrained signal assignment'', ''zk signal unconstrained'']
      ''PiZKSignalUnconstrainedConstraint'' ''ZKSignalUnconstrainedInput''
      [(''file_path'', F_Ctx ''file_path'' (F_Const (PStr ''circuit.circom''))),
       (''circom_code'', F_Ctx ''circom_code'' (F_Ctx ''content'' (F_Const (PStr [])))),
       (''check_level'', F_Ctx ''check_level'' (F_Const (PStr ''STRICT'')))],
     make_route ''PiZKDivByZeroConstraintAuditor''
      [''zk division by zero constraint auditor'', ''circom divide by zero signal check'',
       ''zk zero divisor validation'', ''zk division by zero'']
      ''PiZKDivByZeroConstraintAuditor'' ''ZKDivByZeroConstraintInput''
      [(''file_path'', F_Ctx ''file_path'' (F_Const (PStr ''circuit.circom''))),
       (''circom_code'', F_Ctx ''circom_code'' (F_Ctx ''content'' (F_Const (PStr [])))),
       (''check_level'', F_Ctx ''check_level'' (F_Const (PStr ''STRICT'')))],
     make_route ''PiZKSignalShadowingSignalSentry''
      [''zk signal shadowing signal sentry'', ''circom shadow signal check'', ''circom signal collision linter'',
       ''zk signal shadowing'']
      ''PiZKSignalShadowingSignalSentry'' ''ZKSignalShadowingInput''
      [(''file_path'', F_Ctx ''file_path'' (F_Const (PStr ''circuit.circom''))),
       (''circom_code'', F_Ctx ''circom_code'' (F_Ctx ''content'' (F_Const (PStr [])))),
       (''check_level'', F_Ctx ''check_level'' (F_Const (PStr ''STRICT'')))],
     make_route ''PiZKPublicInputLeakageAuditor''
      [''zk public input leakage auditor'', ''zk public input leak check'', ''circom public input validation'',
       ''zk public input leak'']
      ''PiZKPublicInputLeakageAuditor'' ''ZKPublicInputLeakageInput''
      [(''file_path'', F_Ctx ''file_path'' (F_Const (PStr ''circuit.circom''))),
       (''circom_code'', F_Ctx ''circom_code'' (F_Ctx ''content'' (F_Const (PStr [])))),
       (''check_level'', F_Ctx ''check_level'' (F_Const (PStr ''STRICT'')))]]"

definition agent_routes_15 :: "agent_route list" where
  "agent_routes_15 =
    [
     make_route ''PiZKNonPrimeFieldRangeSentry''
      [''zk non prime field range sentry'', ''circom non prime field boundary'', ''zk field arithmetic check'',
       ''zk non prime field range'']
      ''PiZKNonPrimeFieldRangeSentry'' ''ZKNonPrimeFieldRangeInput''
      [(''file_path'', F_Ctx ''file_path'' (F_Const (PStr ''circuit.circom''))),
       (''circom_code'', F_Ctx ''circom_code'' (F_Ctx ''content'' (F_Const (PStr [])))),
       (''check_level'', F_Ctx ''check_level'' (F_Const (PStr ''STRICT'')))],
     make_route ''PiZKUnusedConstraintVariables''
      [''zk unused constraint variables'', ''circom unused variable audit'', ''zk dead signals linter'',
       ''zk unused constraint'']
      ''PiZKUnusedConstraintVariables'' ''ZKUnusedConstraintInput''
      [(''file_path'', F_Ctx ''file_path'' (F_Const (PStr ''circuit.circom''))),
       (''circom_code'', F_Ctx ''circom_code'' (F_Ctx ''content'' (F_Const (PStr [])))),
       (''check_level'', F_Ctx ''check_level'' (F_Const (PStr ''STRICT'')))],
     make_route ''PiZKProofForgingValidationSentry''
      [''zk proof forging validation sentry'', ''zk verification key validation'', ''zk proof fake check'',
       ''zk proof forging validation'']
      ''PiZKProofForgingValidationSentry'' ''ZKProofForgingValidationInput''
      [(''file_path'', F_Ctx ''file_path'' (F_Const (PStr ''verifier.sol''))),
       (''solidity_code'', F_Ctx ''solidity_code'' (F_Ctx ''content'' (F_Const (PStr [])))),
       (''check_level'', F_Ctx ''check_level'' (F_Const (PStr ''STRICT'')))],
     make_route ''PiLLMSystemPromptHijackSentry''
      [''llm system prompt hijack sentry'', ''llm system prompt hijack'', ''system prompt override shield'',
       ''prompt hijack sentry'']
      ''PiLLMSystemPromptHijackSentry'' ''LLMSystemPromptHijackInput''
      [(''prompt'', F_Ctx ''prompt'' F_Goal), (''check_level'', F_Ctx ''check_level'' (F_Const (PStr ''STRICT'')))],
     make_route ''PiLLMPairwiseAdversarialValidator''
      [''llm pairwise adversarial validator'', ''llm pairwise adversarial check'', ''pairwise response validation'',
       ''pairwise adversarial validator'']
      ''PiLLMPairwiseAdversarialValidator'' ''LLMPairwiseAdversarialInput''
      [(''prompt'', F_Ctx ''prompt'' F_Goal), (''check_level'', F_Ctx ''check_level'' (F_Const (PStr ''STRICT'')))],
     make_route ''PiLLMNegativeConstraintEvasion''
      [''llm negative constraint evasion'', ''negative constraints evasion check'', ''llm prompt negation evasion'',
       ''negative constraint evasion'']
      ''PiLLMNegativeConstraintEvasion'' ''LLMNegativeConstraintInput''
      [(''prompt'', F_Ctx ''prompt'' F_Goal), (''check_level'', F_Ctx ''check_level'' (F_Const (PStr ''STRICT'')))],
     make_route ''PiLLMBase64EncodingDeobfuscator''
      [''llm base64 encoding deobfuscator'', ''base64 obfuscated payload check'', ''llm obfuscation bypass sentry'',
       ''base64 encoding deobfuscator'']
      ''PiLLMBase64EncodingDeobfuscator'' ''LLMBase64DeobfuscatorInput''
      [(''prompt'', F_Ctx ''prompt'' F_Goal), (''check_level'', F_Ctx ''check_level'' (F_Const (PStr ''STRICT'')))],
     make_route ''PiLLMChainOfThoughtBypassSentry''
      [''llm chain of thought bypass sentry'', ''cot bypass audit'', ''chain of thought evasion check'',
       ''cot bypass sentry'']
      ''PiLLMChainOfThoughtBypassSentry'' ''LLMChainOfThoughtBypassInput''
      [(''prompt'', F_Ctx ''prompt'' F_Goal), (''check_level'', F_Ctx ''check_level'' (F_Const (PStr ''STRICT'')))],
     make_route ''PiLLMPromptEgressLeakDetector''
      [''llm prompt egress leak detector'', ''egress prompt leakage sentry'', ''prompt data exfiltration check'',
       ''prompt egress leak detector'']
      ''PiLLMPromptEgressLeakDetector'' ''LLMPromptEgressLeakInput''
      [(''prompt'', F_Ctx ''prompt'' F_Goal), (''check_level'', F_Ctx ''check_level'' (F_Const (PStr ''STRICT'')))]]"

definition agent_routes_16 :: "agent_route list" where
  "agent_routes_16 =
    [
     make_route ''PiLLMContextWindowDriftSentry''
      [''llm context window drift sentry'', ''llm context drift check'', ''context window exfiltration sentry'',
       ''context window drift sentry'']
      ''PiLLMContextWindowDriftSentry'' ''LLMContextWindowDriftInput''
      [(''prompt'', F_Ctx ''prompt'' F_Goal), (''check_level'', F_Ctx ''check_level'' (F_Const (PStr ''STRICT'')))],
     make_route ''PiLLMRecursiveRefinementJailbreak''
      [''llm recursive refinement jailbreak'', ''recursive refinement audit'', ''multi-turn adversarial jailbreak'',
       ''recursive refinement jailbreak'']
      ''PiLLMRecursiveRefinementJailbreak'' ''LLMRecursiveRefinementInput''
      [(''prompt'', F_Ctx ''prompt'' F_Goal), (''check_level'', F_Ctx ''check_level'' (F_Const (PStr ''STRICT'')))],
     make_route ''PiDockerSocketPrivilegeSentry''
      [''docker socket privilege sentry'', ''docker.sock permission mount'', ''docker container privilege escape'',
       ''docker socket privilege'']
      ''PiDockerSocketPrivilegeSentry'' ''DockerSocketPrivilegeInput''
      [(''file_path'', F_Ctx ''file_path'' (F_Const (PStr ''Dockerfile''))),
       (''dockerfile_code'', F_Ctx ''dockerfile_code'' (F_Ctx ''content'' (F_Const (PStr [])))),
       (''check_level'', F_Ctx ''check_level'' (F_Const (PStr ''STRICT'')))],
     make_route ''PiKubernetesRootExecutionLinter''
      [''kubernetes root execution linter'', ''k8s runasnonroot validation'', ''k8s securitycontext root check'',
       ''kubernetes root execution'']
      ''PiKubernetesRootExecutionLinter'' ''KubernetesRootExecutionInput''
      [(''file_path'', F_Ctx ''file_path'' (F_Const (PStr ''pod.yaml''))),
       (''yaml_code'', F_Ctx ''yaml_code'' (F_Ctx ''content'' (F_Const (PStr [])))),
       (''check_level'', F_Ctx ''check_level'' (F_Const (PStr ''STRICT'')))],
     make_route ''PiGitSecretEntropyLeakSentry''
      [''git secret entropy leak sentry'', ''git secret entropy scan'', ''high entropy private key audit'',
       ''git secret entropy leak'']
      ''PiGitSecretEntropyLeakSentry'' ''GitSecretEntropyLeakInput''
      [(''file_path'', F_Ctx ''file_path'' (F_Const (PStr ''secret.json''))),
       (''code_content'', F_Ctx ''code_content'' (F_Ctx ''content'' (F_Const (PStr [])))),
       (''check_level'', F_Ctx ''check_level'' (F_Const (PStr ''STRICT'')))],
     make_route ''PiDockerComposePortExposureSentry''
      [''docker compose port exposure sentry'', ''docker compose wildcard port exposure'',
       ''docker compose insecure port map'', ''docker compose port exposure'']
      ''PiDockerComposePortExposureSentry'' ''DockerComposePortExposureInput''
      [(''file_path'', F_Ctx ''file_path'' (F_Const (PStr ''docker-compose.yml''))),
       (''compose_code'', F_Ctx ''compose_code'' (F_Ctx ''content'' (F_Const (PStr [])))),
       (''check_level'', F_Ctx ''check_level'' (F_Const (PStr ''STRICT'')))],
     make_route ''PiGithubActionsUnpinnedVersion''
      [''github actions unpinned version'', ''github actions third-party hash check'',
       ''github actions commit sha pin'', ''github actions unpinned version'']
      ''PiGithubActionsUnpinnedVersion'' ''GithubActionsUnpinnedInput''
      [(''file_path'', F_Ctx ''file_path'' (F_Const (PStr ''workflow.yaml''))),
       (''yaml_code'', F_Ctx ''yaml_code'' (F_Ctx ''content'' (F_Const (PStr [])))),
       (''check_level'', F_Ctx ''check_level'' (F_Const (PStr ''STRICT'')))],
     make_route ''PiTerraformStateCredentialSentry''
      [''terraform state credential sentry'', ''terraform state secret leak'', ''terraform plaintext credentials'',
       ''terraform state credential'']
      ''PiTerraformStateCredentialSentry'' ''TerraformStateCredentialInput''
      [(''file_path'', F_Ctx ''file_path'' (F_Const (PStr ''main.tf''))),
       (''tf_code'', F_Ctx ''tf_code'' (F_Ctx ''content'' (F_Const (PStr [])))),
       (''check_level'', F_Ctx ''check_level'' (F_Const (PStr ''STRICT'')))],
     make_route ''PiNginxReverseProxyHeaderSentry''
      [''nginx reverse proxy header sentry'', ''nginx custom headers safety'', ''nginx forward proxy check'',
       ''nginx reverse proxy header'']
      ''PiNginxReverseProxyHeaderSentry'' ''NginxReverseProxyHeaderInput''
      [(''file_path'', F_Ctx ''file_path'' (F_Const (PStr ''nginx.conf''))),
       (''nginx_code'', F_Ctx ''nginx_code'' (F_Ctx ''content'' (F_Const (PStr [])))),
       (''check_level'', F_Ctx ''check_level'' (F_Const (PStr ''STRICT'')))]]"

definition agent_routes_17 :: "agent_route list" where
  "agent_routes_17 =
    [
     make_route ''PiDatabaseMigrationUnindexedSentry''
      [''database migration unindexed sentry'', ''unindexed foreign key check'', ''database performance scan'',
       ''database migration unindexed'']
      ''PiDatabaseMigrationUnindexedSentry'' ''DatabaseMigrationUnindexedInput''
      [(''file_path'', F_Ctx ''file_path'' (F_Const (PStr ''migration.sql''))),
       (''migration_code'', F_Ctx ''migration_code'' (F_Ctx ''content'' (F_Const (PStr [])))),
       (''check_level'', F_Ctx ''check_level'' (F_Const (PStr ''STRICT'')))],
     make_route ''PiApiAuthJWTNoneAlgorithmSentry''
      [''api auth jwt none algorithm sentry'', ''jwt algorithm none check'', ''insecure jwt signature override'',
       ''jwt none algorithm sentry'']
      ''PiApiAuthJWTNoneAlgorithmSentry'' ''ApiAuthJWTNoneAlgorithmInput''
      [(''file_path'', F_Ctx ''file_path'' (F_Const (PStr ''auth.py''))),
       (''code_content'', F_Ctx ''code_content'' (F_Ctx ''content'' (F_Const (PStr [])))),
       (''check_level'', F_Ctx ''check_level'' (F_Const (PStr ''STRICT'')))],
     make_route ''PiSemanticSchemaDynamicFieldCheck''
      [''semantic schema dynamic field check'', ''json schema injection check'',
       ''unstructured JSON field validation'', ''semantic schema dynamic field'']
      ''PiSemanticSchemaDynamicFieldCheck'' ''SemanticSchemaDynamicFieldInput''
      [(''file_path'', F_Ctx ''file_path'' (F_Const (PStr ''schema.py''))),
       (''schema_code'', F_Ctx ''schema_code'' (F_Ctx ''content'' (F_Const (PStr [])))),
       (''check_level'', F_Ctx ''check_level'' (F_Const (PStr ''STRICT'')))],
     make_route ''PiApiAuthHardcodedTokenSentry''
      [''api auth hardcoded token sentry'', ''api hardcoded bearer token check'', ''insecure api password scan'',
       ''api auth hardcoded token'']
      ''PiApiAuthHardcodedTokenSentry'' ''ApiAuthHardcodedTokenInput''
      [(''file_path'', F_Ctx ''file_path'' (F_Const (PStr ''api.py''))),
       (''code_content'', F_Ctx ''code_content'' (F_Ctx ''content'' (F_Const (PStr [])))),
       (''check_level'', F_Ctx ''check_level'' (F_Const (PStr ''STRICT'')))],
     make_route ''PiGrpcWireProtocolInsecureSentry''
      [''grpc wire protocol insecure sentry'', ''grpc wire format encrypt check'',
       ''grpc plaintext connection sentry'', ''grpc wire protocol insecure'']
      ''PiGrpcWireProtocolInsecureSentry'' ''GrpcWireProtocolInsecureInput''
      [(''file_path'', F_Ctx ''file_path'' (F_Const (PStr ''service.proto''))),
       (''code_content'', F_Ctx ''code_content'' (F_Ctx ''content'' (F_Const (PStr [])))),
       (''check_level'', F_Ctx ''check_level'' (F_Const (PStr ''STRICT'')))],
     make_route ''PiConstantTimeAuditor''
      [''constant-time'', ''timing side-channel'', ''cryptographic constant time'', ''timing attack check'',
       ''constant time auditor'']
      ''PiConstantTimeAuditor'' ''ConstantTimeInput''
      [(''file_path'', F_Ctx ''file_path'' (F_Const (PStr ''crypto.py''))),
       (''source_code'', F_Ctx ''source_code'' (F_Ctx ''content'' (F_Const (PStr [])))),
       (''secrets_context'', F_Ctx ''secrets_context'' (F_Const (PList [])))],
     make_route ''PiMemoryZeroizeSentry''
      [''memory zeroize'', ''secret wiping sentry'', ''zeroize buffer'', ''memset security scan'',
       ''memory zeroize sentry'']
      ''PiMemoryZeroizeSentry'' ''MemoryZeroizeInput''
      [(''file_path'', F_Ctx ''file_path'' (F_Const (PStr ''sec_buffer.c''))),
       (''source_code'', F_Ctx ''source_code'' (F_Ctx ''content'' (F_Const (PStr [])))),
       (''sensitive_symbols'', F_Ctx ''sensitive_symbols'' (F_Const (PList [])))],
     make_route ''PiDimensionalAnalysisSentry''
      [''dimensional analysis'', ''unit mismatch sentry'', ''wei gwei check'', ''currency unit validation'',
       ''dimensional analysis sentry'']
      ''PiDimensionalAnalysisSentry'' ''DimensionalAnalysisInput''
      [(''file_path'', F_Ctx ''file_path'' (F_Const (PStr ''finance.py''))),
       (''source_code'', F_Ctx ''source_code'' (F_Ctx ''content'' (F_Const (PStr [])))),
       (''unit_registry'', F_Ctx ''unit_registry'' (F_Const (PDict [])))],
     make_route ''PiAgentToolExecutionGuard''
      [''agent tool guard'', ''command runner protection'', ''uncontrolled tool execution'',
       ''terminal execution guard'', ''agent tool execution guard'']
      ''PiAgentToolExecutionGuard'' ''AgentToolGuardInput''
      [(''command_string'', F_Ctx ''command_string'' (F_Ctx ''command'' F_Goal)),
       (''allowed_commands'', F_Ctx ''allowed_commands'' (F_Const (PList [PStr ''git'', PStr ''pytest'', PStr ''ruff'', PStr ''python''])))]]"

definition agent_routes_18 :: "agent_route list" where
  "agent_routes_18 =
    [
     make_route ''PiHotPathAllocationAuditor''
      [''hot-path allocation'', ''performance allocation linter'', ''hot path allocation auditor'',
       ''string allocation performance'', ''hot path linter'']
      ''PiHotPathAllocationAuditor'' ''HotPathAllocationInput''
      [(''file_path'', F_Ctx ''file_path'' (F_Const (PStr ''program.cs''))),
       (''source_code'', F_Ctx ''source_code'' (F_Ctx ''content'' (F_Const (PStr [])))),
       (''hot_path_lines'', F_Ctx ''hot_path_lines'' (F_Const (PList [])))],
     make_route ''PiCavemanTokenCompressor''
      [''caveman compress'', ''token compression'', ''prompt compression'', ''conversational fluff'',
       ''caveman token compressor'']
      ''PiCavemanTokenCompressor'' ''CavemanCompressorInput''
      [(''text_payload'', F_Ctx ''text_payload'' (F_Ctx ''text'' F_Goal))],
     make_route ''PiGrillMeQuestionnaire''
      [''grill me questionnaire'', ''design plan audit'', ''grill plan'', ''vague plan'', ''grill me'']
      ''PiGrillMeQuestionnaire'' ''GrillMeInput''
      [(''plan_content'', F_Ctx ''plan_content'' (F_Ctx ''content'' F_Goal))],
     make_route ''PiHandoffCheckpointSentry''
      [''handoff sentry'', ''handoff checkpoint'', ''reproduction script check'', ''handoff verify'',
       ''handoff checkpoint sentry'']
      ''PiHandoffCheckpointSentry'' ''HandoffInput''
      [(''handoff_content'', F_Ctx ''handoff_content'' (F_Ctx ''content'' F_Goal))],
     make_route ''PiToPrdValidator''
      [''prd validator'', ''prd spec verify'', ''prd layout'', ''objectives specifications'', ''to prd validator'']
      ''PiToPrdValidator'' ''ToPrdInput''
      [(''prd_content'', F_Ctx ''prd_content'' (F_Ctx ''content'' F_Goal))],
     make_route ''PiToIssuesBreakdown''
      [''issues breakdown'', ''task list parser'', ''acceptance criteria verify'', ''checklist parsing'',
       ''to issues breakdown'']
      ''PiToIssuesBreakdown'' ''ToIssuesInput''
      [(''spec_content'', F_Ctx ''spec_content'' (F_Ctx ''content'' F_Goal))],
     make_route ''PiTriageBugLabels''
      [''triage bug'', ''stack trace classification'', ''bug labels'', ''severity classification'',
       ''triage bug labels'']
      ''PiTriageBugLabels'' ''TriageInput''
      [(''log_content'', F_Ctx ''log_content'' (F_Ctx ''content'' F_Goal))],
     make_route ''PiZoomOutSystemExplainer''
      [''zoom out explainer'', ''system architecture explainer'', ''imports map diagram'', ''dependency diagram'',
       ''zoom out system explainer'']
      ''PiZoomOutSystemExplainer'' ''ZoomOutInput''
      [(''file_path'', F_Ctx ''file_path'' (F_Const (PStr ''app.py''))),
       (''code_content'', F_Ctx ''code_content'' (F_Ctx ''content'' F_Goal))],
     make_route ''PiDesignAnInterfaceValidator''
      [''design interface'', ''interface docstrings'', ''typed variables interface'', ''strict return types'',
       ''design an interface validator'']
      ''PiDesignAnInterfaceValidator'' ''DesignAnInterfaceInput''
      [(''interface_content'', F_Ctx ''interface_content'' (F_Ctx ''content'' F_Goal))],
     make_route ''PiRequestRefactorPlanVerifier''
      [''refactor plan'', ''migration safety checkpoints'', ''dependency maps'', ''refactoring verifier'',
       ''request refactor plan verifier'']
      ''PiRequestRefactorPlanVerifier'' ''RequestRefactorInput''
      [(''plan_content'', F_Ctx ''plan_content'' (F_Ctx ''content'' F_Goal))],
     make_route ''PiTddTestFileVerifier''
      [''tdd file verifier'', ''test file matching'', ''production test pairing'', ''changeset test verification'',
       ''tdd test file verifier'']
      ''PiTddTestFileVerifier'' ''TddTestFileInput''
      [(''modified_files'', F_Ctx ''modified_files'' (F_List [F_Ctx ''file_path'' (F_Const (PStr ''main.py''))]))]]"

definition agent_routes_19 :: "agent_route list" where
  "agent_routes_19 =
    [
     make_route ''PiTddAssertionCoverage''
      [''tdd assertion coverage'', ''missing assertions check'', ''test method assert check'',
       ''test verification coverage'', ''tdd assertion coverage'']
      ''PiTddAssertionCoverage'' ''TddAssertionInput''
      [(''test_code_content'', F_Ctx ''test_code_content'' (F_Ctx ''content'' F_Goal))],
     make_route ''PiTddMockingSanityChecker''
      [''tdd mocking sanity'', ''unsafe mock check'', ''mock interface validator'', ''excessive mocking detector'',
       ''tdd mocking sanity checker'']
      ''PiTddMockingSanityChecker'' ''TddMockingInput''
      [(''test_code_content'', F_Ctx ''test_code_content'' (F_Ctx ''content'' F_Goal))],
     make_route ''PiGitSafetyGuardrail''
      [''git safety guardrail'', ''unsafe git command'', ''force push block'', ''branch deletion check'',
       ''git safety'']
      ''PiGitSafetyGuardrail'' ''GitSafetyInput''
      [(''command_string'', F_Ctx ''command_string'' (F_Ctx ''command'' F_Goal))],
     make_route ''PiTypeScriptWizardryCheck''
      [''typescript wizardry'', ''typescript any check'', ''as any typescript linter'',
       ''typescript return type verify'', ''typescript wizardry check'']
      ''PiTypeScriptWizardryCheck'' ''TypeScriptWizardryInput''
      [(''code_content'', F_Ctx ''code_content'' (F_Ctx ''content'' F_Goal))],
     make_route ''PiArchitectureImportBoundarySentry''
      [''architecture import boundary'', ''import boundary sentry'', ''cross layer violation'',
       ''import mapping block'', ''architecture import boundary sentry'']
      ''PiArchitectureImportBoundarySentry'' ''ImportBoundaryInput''
      [(''file_path'', F_Ctx ''file_path'' (F_Const (PStr ''domain/user.py''))),
       (''code_content'', F_Ctx ''code_content'' (F_Ctx ''content'' F_Goal)),
       (''forbidden_mappings'', F_Ctx ''forbidden_mappings'' (F_Const (PDict [])))],
     make_route ''PiDepreciationScanner''
      [''depreciation scanner'', ''deprecated library scan'', ''deprecated pattern'', ''obsolete modules'',
       ''depreciation scanner'']
      ''PiDepreciationScanner'' ''DepreciationInput''
      [(''file_path'', F_Ctx ''file_path'' (F_Const (PStr ''program.py''))),
       (''code_content'', F_Ctx ''code_content'' (F_Ctx ''content'' F_Goal)),
       (''deprecated_patterns'', F_Ctx ''deprecated_patterns'' (F_Const (PList [])))],
     make_route ''PiDeadCodePruner''
      [''dead code pruner'', ''unused private variable'', ''unused import scanner'', ''dead return path'',
       ''dead code pruner'']
      ''PiDeadCodePruner'' ''DeadCodeInput''
      [(''file_path'', F_Ctx ''file_path'' (F_Const (PStr ''program.py''))),
       (''code_content'', F_Ctx ''code_content'' (F_Ctx ''content'' F_Goal))],
     make_route ''PiMockDataTaintingSentry''
      [''mock data tainting'', ''mock tainting sentry'', ''high entropy credentials'', ''mock server ips check'',
       ''mock data tainting sentry'']
      ''PiMockDataTaintingSentry'' ''MockDataTaintingInput''
      [(''file_path'', F_Ctx ''file_path'' (F_Const (PStr ''mocks.json''))),
       (''data_content'', F_Ctx ''data_content'' (F_Ctx ''content'' F_Goal))],
     make_route ''PiReadmeValidator''
      [''readme validator'', ''readme installation check'', ''setup variables documentation'',
       ''readme layout check'', ''readme validator'']
      ''PiReadmeValidator'' ''ReadmeInput''
      [(''readme_content'', F_Ctx ''readme_content'' (F_Ctx ''content'' F_Goal))],
     make_route ''PiChangelogAuditor''
      [''changelog auditor'', ''changelog version verify'', ''changelog structure'', ''release version auditor'',
       ''changelog auditor'']
      ''PiChangelogAuditor'' ''ChangelogInput''
      [(''changelog_content'', F_Ctx ''changelog_content'' (F_Ctx ''content'' F_Goal)),
       (''target_version'', F_Ctx ''target_version'' (F_Const (PStr ''1.0.0'')))]]"

definition agent_routes_20 :: "agent_route list" where
  "agent_routes_20 =
    [
     make_route ''PiAstDepthGuard''
      [''ast depth guard'', ''nesting complexity linter'', ''ast depth threshold'', ''ast complexity guard'',
       ''ast depth guard'']
      ''PiAstDepthGuard'' ''AstDepthInput''
      [(''file_path'', F_Ctx ''file_path'' (F_Const (PStr ''main.py''))),
       (''code_content'', F_Ctx ''code_content'' (F_Ctx ''content'' F_Goal)),
       (''max_depth'', F_Ctx ''max_depth'' (F_Const (PInt 5)))],
     make_route ''PiUncontrolledRecursionSentry''
      [''uncontrolled recursion'', ''recursion base case'', ''infinite recursion scanner'', ''recursion exit branch'',
       ''uncontrolled recursion sentry'']
      ''PiUncontrolledRecursionSentry'' ''RecursionInput''
      [(''file_path'', F_Ctx ''file_path'' (F_Const (PStr ''recursion.py''))),
       (''code_content'', F_Ctx ''code_content'' (F_Ctx ''content'' F_Goal))],
     make_route ''PiMagicNumberScanner''
      [''magic number scanner'', ''hardcoded numeric constant'', ''business computations check'',
       ''magical constant scanner'', ''magic number scanner'']
      ''PiMagicNumberScanner'' ''MagicNumberInput''
      [(''file_path'', F_Ctx ''file_path'' (F_Const (PStr ''calc.py''))),
       (''code_content'', F_Ctx ''code_content'' (F_Ctx ''content'' F_Goal))],
     make_route ''PiErrorHandlingCatchAllGuard''
      [''error handling catch-all'', ''silent swallow exception'', ''try-except catch-all'',
       ''missing raise exception'', ''error handling catch all guard'']
      ''PiErrorHandlingCatchAllGuard'' ''ErrorCatchInput''
      [(''file_path'', F_Ctx ''file_path'' (F_Const (PStr ''handler.py''))),
       (''code_content'', F_Ctx ''code_content'' (F_Ctx ''content'' F_Goal))],
     make_route ''PiSemanticCommitMessageLinter''
      [''semantic commit message'', ''conventional commit linter'', ''commit structure'', ''git message audit'',
       ''semantic commit message linter'']
      ''PiSemanticCommitMessageLinter'' ''CommitLinterInput''
      [(''commit_message'', F_Ctx ''commit_message'' (F_Ctx ''message'' F_Goal))],
     make_route ''PiWebVulnScanner''
      [''web vuln scanner'', ''xss check'', ''csrf check'', ''csp configuration'', ''web vulnerability scan'']
      ''PiWebVulnScanner'' ''WebVulnInput''
      [(''file_path'', F_Ctx ''file_path'' (F_Const (PStr ''index.html''))),
       (''code_content'', F_Ctx ''code_content'' (F_Ctx ''content'' F_Goal))],
     make_route ''PiDeploymentSafetyGuard''
      [''deployment safety'', ''safe deployment'', ''rollback gates'', ''post-remediation deploy'']
      ''PiDeploymentSafetyGuard'' ''DeploymentSafetyInput''
      [(''deployment_target'', F_Ctx ''deployment_target'' (F_Const (PStr ''production''))),
       (''post_remediation_code'', F_Ctx ''post_remediation_code'' (F_Ctx ''content'' F_Goal)),
       (''health_check_endpoint'', F_Ctx ''health_check_endpoint'' (F_Const (PStr ''http://localhost:8080/health'')))],
     make_route ''PiPipelineIntegrityAuditor''
      [''pipeline integrity'', ''cicd auditor'', ''workflow safety'', ''action injection'']
      ''PiPipelineIntegrityAuditor'' ''PipelineIntegrityInput''
      [(''workflow_path'', F_Ctx ''workflow_path'' (F_Const (PStr ''release.yml''))),
       (''workflow_content'', F_Ctx ''workflow_content'' (F_Ctx ''content'' F_Goal))]]"

definition agent_routes_21 :: "agent_route list" where
  "agent_routes_21 =
    [
     make_route ''PiCloudCostAnalyzer''
      [''cloud cost'', ''cost analyzer'', ''spend metrics'', ''cloud spend'']
      ''GenericStubAgent'' ''GenericStubInput''
      [(''goal'', F_Goal), (''content'', F_Ctx ''content'' (F_Const (PStr [])))],
     make_route ''PiIdleResourceSentry''
      [''idle resource'', ''resource leaks'', ''idle instance'', ''unused volume'']
      ''GenericStubAgent'' ''GenericStubInput''
      [(''goal'', F_Goal), (''content'', F_Ctx ''content'' (F_Const (PStr [])))],
     make_route ''PiBudgetAnomalyGuard''
      [''budget anomaly'', ''anomaly guard'', ''cost spike'', ''spend anomaly'']
      ''GenericStubAgent'' ''GenericStubInput''
      [(''goal'', F_Goal), (''content'', F_Ctx ''content'' (F_Const (PStr [])))],
     make_route ''PiAPIRateLimitSentry''
      [''api rate limit'', ''rate limiting'', ''rate limit sentry'', ''rate limiter'']
      ''GenericStubAgent'' ''GenericStubInput''
      [(''goal'', F_Goal), (''content'', F_Ctx ''content'' (F_Const (PStr [])))],
     make_route ''PiEndpointAbuseGuard''
      [''endpoint abuse'', ''abuse guard'', ''api abuse'', ''endpoint protection'']
      ''GenericStubAgent'' ''GenericStubInput''
      [(''goal'', F_Goal), (''content'', F_Ctx ''content'' (F_Const (PStr [])))],
     make_route ''PiSlowQueryDetector''
      [''slow query'', ''slow query detector'', ''query latency'', ''db latency'']
      ''GenericStubAgent'' ''GenericStubInput''
      [(''goal'', F_Goal), (''content'', F_Ctx ''content'' (F_Const (PStr [])))],
     make_route ''PiSQLInjectionSentry''
      [''sql injection'', ''sqli check'', ''injection sentry'', ''sql vulnerability'']
      ''GenericStubAgent'' ''GenericStubInput''
      [(''goal'', F_Goal), (''content'', F_Ctx ''content'' (F_Const (PStr [])))],
     make_route ''PiIndexRecommendationEngine''
      [''index recommendation'', ''index recommendation engine'', ''missing index'', ''db indexing'']
      ''GenericStubAgent'' ''GenericStubInput''
      [(''goal'', F_Goal), (''content'', F_Ctx ''content'' (F_Const (PStr [])))],
     make_route ''PiDockerImageScanner''
      [''docker image scanner'', ''image scan'', ''container image vuln'', ''base image vulnerability'']
      ''PiDockerImageScanner'' ''DockerImageInput''
      [(''file_path'', F_Ctx ''file_path'' (F_Const (PStr ''Dockerfile''))),
       (''dockerfile_content'', F_Ctx ''dockerfile_content'' (F_Ctx ''content'' F_Goal))],
     make_route ''PiContainerEscapeDetector''
      [''container escape'', ''escape detector'', ''privilege escalation container'', ''runtime jailbreak'']
      ''PiContainerEscapeDetector'' ''ContainerEscapeInput''
      [(''file_path'', F_Ctx ''file_path'' (F_Const (PStr ''deployment.yaml''))),
       (''config_content'', F_Ctx ''config_content'' (F_Ctx ''content'' F_Goal))],
     make_route ''PiNPMDependencyVulnScanner''
      [''npm dependency'', ''npm audit'', ''npm vuln scanner'', ''frontend supply chain'']
      ''GenericStubAgent'' ''GenericStubInput''
      [(''goal'', F_Goal), (''content'', F_Ctx ''content'' (F_Const (PStr [])))],
     make_route ''PiTreeShakingOptimizer''
      [''tree shaking'', ''bundle optimization'', ''tree shaking optimizer'', ''unused exports'']
      ''GenericStubAgent'' ''GenericStubInput''
      [(''goal'', F_Goal), (''content'', F_Ctx ''content'' (F_Const (PStr [])))],
     make_route ''PiLLMOutputSanitizer''
      [''llm output'', ''output sanitizer'', ''egress filter llm'', ''response sanitization'']
      ''PiLLMOutputSanitizer'' ''LLMOutputSanitizerInput''
      [(''raw_output'', F_Ctx ''raw_output'' (F_Ctx ''content'' F_Goal)),
       (''system_prompt_reference'', F_Ctx ''system_prompt_reference'' (F_Const (PStr [])))],
     make_route ''PiDataFlowPrivacyMapper''
      [''data flow privacy'', ''privacy mapper'', ''pii tracking'', ''data lifecycle mapping'']
      ''PiDataFlowPrivacyMapper'' ''PrivacyMapperInput''
      [(''data_sources'', F_Ctx ''data_sources'' (F_Const (PList [PStr ''email'', PStr ''ssn'']))),
       (''data_destinations'', F_Ctx ''data_destinations'' (F_Const (PList [PStr ''public_endpoint'', PStr ''stdout'']))),
       (''flow_connections'', F_Ctx ''flow_connections'' (F_Const (PList [PDict [(''from'', PStr ''email''), (''to'', PStr ''public_endpoint'')]])))],
     make_route ''PiSensitiveDataScanner''
      [''sensitive data scanner'', ''pii detector'', ''sensitive field'', ''credit card scanner'']
      ''PiSensitiveDataScanner'' ''SensitiveDataInput''
      [(''data_label'', F_Ctx ''data_label'' (F_Const (PStr ''input_stream''))),
       (''text_content'', F_Ctx ''text_content'' (F_Ctx ''content'' F_Goal))],
     make_route ''PiAutomatedAnonymizer''
      [''automated anonymizer'', ''data masking'', ''pii redaction'', ''anonymization engine'']
      ''PiAutomatedAnonymizer'' ''AnonymizerInput''
      [(''raw_payload'', F_Ctx ''raw_payload'' (F_Ctx ''content'' F_Goal)),
       (''mask_character'', F_Ctx ''mask_character'' (F_Const (PStr ''*''))),
       (''hash_salt'', F_Ctx ''hash_salt'' (F_Const (PStr ''pi_salt'')))],
     make_route ''PiSensitiveLogLeakSentry''
      [''sensitive log leak'', ''log leak sentry'', ''pii log scanner'', ''log credential scan'']
      ''PiSensitiveLogLeakSentry'' ''LogLeakInput''
      [(''log_file_path'', F_Ctx ''log_file_path'' (F_Const (PStr ''app.log''))),
       (''log_content'', F_Ctx ''log_content'' (F_Ctx ''content'' F_Goal))],
     make_route ''PiStructuredLoggingEnforcer''
      [''structured logging'', ''logging enforcer'', ''json logger'', ''log formatting audit'']
      ''PiStructuredLoggingEnforcer'' ''StructuredLoggingInput''
      [(''file_path'', F_Ctx ''file_path'' (F_Const (PStr ''logger.py''))),
       (''code_content'', F_Ctx ''code_content'' (F_Ctx ''content'' F_Goal))]]"

definition agent_routes_22 :: "agent_route list" where
  "agent_routes_22 =
    [
     make_route ''PiIAMOverPermissionSentry''
      [''iam over permission'', ''iam permissions'', ''excessive iam'', ''cloud policy audit'']
      ''GenericStubAgent'' ''GenericStubInput''
      [(''goal'', F_Goal), (''content'', F_Ctx ''content'' (F_Const (PStr [])))],
     make_route ''PiLeastPrivilegeRemediator''
      [''least privilege remediator'', ''least privilege auto-remediation'', ''revoke permissions'',
       ''policy hardening'']
      ''GenericStubAgent'' ''GenericStubInput''
      [(''goal'', F_Goal), (''content'', F_Ctx ''content'' (F_Const (PStr [])))],
     make_route ''PiDocsOutdatedChecker''
      [''docs outdated checker'', ''stale documentation'', ''outdated README'', ''docs check'']
      ''GenericStubAgent'' ''GenericStubInput''
      [(''goal'', F_Goal), (''content'', F_Ctx ''content'' (F_Const (PStr [])))],
     make_route ''PiAutoDocsGenerator''
      [''auto docs generator'', ''inline comments generator'', ''docstring updater'', ''autodoc'']
      ''GenericStubAgent'' ''GenericStubInput''
      [(''goal'', F_Goal), (''content'', F_Ctx ''content'' (F_Const (PStr [])))],
     make_route ''PiMemoryLeakDetector''
      [''memory leak detector'', ''valgrind profile'', ''leak analysis'', ''heap profile'']
      ''GenericStubAgent'' ''GenericStubInput''
      [(''goal'', F_Goal), (''content'', F_Ctx ''content'' (F_Const (PStr [])))],
     make_route ''PiBottleneckOptimizer''
      [''bottleneck optimizer'', ''profiling optimizer'', ''hot-spot refactoring'', ''performance bypass'']
      ''GenericStubAgent'' ''GenericStubInput''
      [(''goal'', F_Goal), (''content'', F_Ctx ''content'' (F_Const (PStr [])))],
     make_route ''PiMobilePermissionSentry''
      [''mobile permission sentry'', ''ios permission audit'', ''android manifest audit'',
       ''mobile permission sentry'']
      ''GenericStubAgent'' ''GenericStubInput''
      [(''goal'', F_Goal), (''content'', F_Ctx ''content'' (F_Const (PStr [])))],
     make_route ''PiAppDataLeakDetector''
      [''app data leak'', ''mobile data leak detector'', ''local storage plain text'', ''insecure mobile sandbox'']
      ''GenericStubAgent'' ''GenericStubInput''
      [(''goal'', F_Goal), (''content'', F_Ctx ''content'' (F_Const (PStr [])))],
     make_route ''PiRuntimeHardeningGuard''
      [''runtime hardening'', ''jailbreak detection'', ''root detection'', ''anti-tamper runtime'']
      ''GenericStubAgent'' ''GenericStubInput''
      [(''goal'', F_Goal), (''content'', F_Ctx ''content'' (F_Const (PStr [])))],
     make_route ''PiNetworkTrafficSentry''
      [''network traffic sentry'', ''packet inspector'', ''unencrypted endpoints'', ''cleartext traffic'']
      ''GenericStubAgent'' ''GenericStubInput''
      [(''goal'', F_Goal), (''content'', F_Ctx ''content'' (F_Const (PStr [])))],
     make_route ''PiDDoSPatternDetector''
      [''ddos pattern detector'', ''rate flood patterns'', ''syn flood detection'', ''traffic anomaly detector'']
      ''GenericStubAgent'' ''GenericStubInput''
      [(''goal'', F_Goal), (''content'', F_Ctx ''content'' (F_Const (PStr [])))],
     make_route ''PiTrafficOptimizer''
      [''traffic optimizer'', ''bandwidth optimization'', ''cdn route analyzer'', ''payload compression analyzer'']
      ''GenericStubAgent'' ''GenericStubInput''
      [(''goal'', F_Goal), (''content'', F_Ctx ''content'' (F_Const (PStr [])))],
     make_route ''PiBackupIntegritySentry''
      [''backup integrity sentry'', ''corrupted backups'', ''snapshot validation'', ''backup recovery check'']
      ''GenericStubAgent'' ''GenericStubInput''
      [(''goal'', F_Goal), (''content'', F_Ctx ''content'' (F_Const (PStr [])))],
     make_route ''PiRecoveryTimeAuditor''
      [''recovery time auditor'', ''rto/rpo constraints'', ''restoration time log'', ''disaster metrics'']
      ''GenericStubAgent'' ''GenericStubInput''
      [(''goal'', F_Goal), (''content'', F_Ctx ''content'' (F_Const (PStr [])))],
     make_route ''PiAutomatedRestoreTester''
      [''automated restore tester'', ''non-disruptive sandbox restore'', ''automated recovery testing'',
       ''dry-run restoration'']
      ''GenericStubAgent'' ''GenericStubInput''
      [(''goal'', F_Goal), (''content'', F_Ctx ''content'' (F_Const (PStr [])))],
     make_route ''PiAccessibilityScanner''
      [''accessibility scanner'', ''wcag audit'', ''aria landmarks scanner'', ''screen reader check'']
      ''GenericStubAgent'' ''GenericStubInput''
      [(''goal'', F_Goal), (''content'', F_Ctx ''content'' (F_Const (PStr [])))],
     make_route ''PiContrastRatioAuditor''
      [''contrast ratio auditor'', ''color contrast verification'', ''low contrast audit'',
       ''wcag readability standard'']
      ''GenericStubAgent'' ''GenericStubInput''
      [(''goal'', F_Goal), (''content'', F_Ctx ''content'' (F_Const (PStr [])))],
     make_route ''PiAutoRemediationEngine''
      [''auto remediation engine'', ''aria attributes auto-apply'', ''accessibility fixes automagic'',
       ''accessibility remediation'']
      ''GenericStubAgent'' ''GenericStubInput''
      [(''goal'', F_Goal), (''content'', F_Ctx ''content'' (F_Const (PStr [])))]]"

definition agent_routes_23 :: "agent_route list" where
  "agent_routes_23 =
    [
     make_route ''PiHardcodedSecretDetector''
      [''hardcoded secret detector'', ''embedded passwords check'', ''plain credentials scanner'',
       ''auth secret detector'']
      ''PiHardcodedSecretDetector'' ''HardcodedSecretInput''
      [(''file_path'', F_Ctx ''file_path'' (F_Const (PStr ''secrets_config.py''))),
       (''file_content'', F_Ctx ''file_content'' (F_Ctx ''content'' F_Goal))],
     make_route ''PiAutomatedRotationEngine''
      [''automated rotation engine'', ''vault credential rotater'', ''kms key rotation automation'',
       ''secrets auto-rotation'']
      ''PiAutomatedRotationEngine'' ''RotationInput''
      [(''credential_type'', F_Ctx ''credential_type'' (F_Const (PStr ''API_KEY''))),
       (''target_identifier'', F_Ctx ''target_identifier'' (F_Const (PStr ''default_key''))),
       (''current_value_snippet'', F_Ctx ''current_value_snippet'' (F_Const (PStr [])))],
     make_route ''PiTerraformDriftDetector''
      [''terraform drift detector'', ''iac drift'', ''resource state discrepancy'', ''tf state drift'']
      ''GenericStubAgent'' ''GenericStubInput''
      [(''goal'', F_Goal), (''content'', F_Ctx ''content'' (F_Const (PStr [])))],
     make_route ''PiInfrastructureComplianceAuditor''
      [''infrastructure compliance auditor'', ''cis benchmark compliance'', ''unencrypted s3 buckets check'',
       ''iac standards auditor'']
      ''GenericStubAgent'' ''GenericStubInput''
      [(''goal'', F_Goal), (''content'', F_Ctx ''content'' (F_Const (PStr [])))],
     make_route ''PiLighthouseAuditor''
      [''lighthouse auditor'', ''performance speed score'', ''cls/fid audit'', ''lighthouse simulation'']
      ''GenericStubAgent'' ''GenericStubInput''
      [(''goal'', F_Goal), (''content'', F_Ctx ''content'' (F_Const (PStr [])))],
     make_route ''PiBundleSizeSentry''
      [''bundle size sentry'', ''webpack asset limits'', ''chunk size audit'', ''bundle budget check'']
      ''GenericStubAgent'' ''GenericStubInput''
      [(''goal'', F_Goal), (''content'', F_Ctx ''content'' (F_Const (PStr [])))],
     make_route ''PiCoreWebVitalsOptimizer''
      [''core web vitals optimizer'', ''lcp defer non-critical'', ''image aspect-ratio injector'',
       ''vitals auto-healing'']
      ''GenericStubAgent'' ''GenericStubInput''
      [(''goal'', F_Goal), (''content'', F_Ctx ''content'' (F_Const (PStr [])))],
     make_route ''PiIaCScanner''
      [''iac scanner'', ''terraform security scan'', ''cloudformation audit'', ''pulumi security scanner'',
       ''s3 bucket exposure'']
      ''PiIaCScanner'' ''IaCInput''
      [(''file_path'', F_Ctx ''file_path'' (F_Const (PStr ''main.tf''))),
       (''iac_content'', F_Ctx ''iac_content'' (F_Ctx ''content'' F_Goal)),
       (''iac_type'', F_Ctx ''iac_type'' (F_Const (PStr ''terraform'')))],
     make_route ''PiDependencyVulnScanner''
      [''dependency vuln scanner'', ''known vulnerability check'', ''lockfile vulnerability scanner'',
       ''lodash CVE check'', ''log4shell scanner'']
      ''PiDependencyVulnScanner'' ''DependencyInput''
      [(''lockfile_path'', F_Ctx ''lockfile_path'' (F_Const (PStr ''package-lock.json''))),
       (''lockfile_content'', F_Ctx ''lockfile_content'' (F_Ctx ''content'' F_Goal)),
       (''ecosystem'', F_Ctx ''ecosystem'' (F_Const (PStr ''npm'')))],
     make_route ''PiCloudConfigAuditor''
      [''cloud config auditor'', ''unrestricted security groups check'', ''aws block public access'',
       ''logging flow logs disabled'', ''gcp default network'']
      ''PiCloudConfigAuditor'' ''CloudConfigInput''
      [(''file_path'', F_Ctx ''file_path'' (F_Const (PStr ''cloud_config.yaml''))),
       (''config_content'', F_Ctx ''config_content'' (F_Ctx ''content'' F_Goal)),
       (''provider'', F_Ctx ''provider'' (F_Const (PStr ''aws'')))],
     make_route ''PiRBACPermissionMapper''
      [''rbac permission mapper'', ''least privilege checker'', ''iam policy auditor'', ''privilege escalation risk'',
       ''wildcard iam policy check'']
      ''PiRBACPermissionMapper'' ''RBACInput''
      [(''policy_file_path'', F_Ctx ''policy_file_path'' (F_Const (PStr ''policy.json''))),
       (''policy_content'', F_Ctx ''policy_content'' (F_Ctx ''content'' F_Goal))]]"

definition agent_routes_24 :: "agent_route list" where
  "agent_routes_24 =
    [
     make_route ''PiEncryptionComplianceChecker''
      [''encryption compliance checker'', ''ssl/tls protocol checker'', ''weak cryptographic algorithm'',
       ''data-at-rest encryption checker'']
      ''PiEncryptionComplianceChecker'' ''EncryptionInput''
      [(''resource_type'', F_Ctx ''resource_type'' (F_Const (PStr ''database''))),
       (''config_snippet'', F_Ctx ''config_snippet'' (F_Ctx ''content'' F_Goal))],
     make_route ''PiSBOMValidator''
      [''sbom validator'', ''license compliance check'', ''cyclonedx validation'', ''spdx license compliance'',
       ''copyleft agpl scanner'']
      ''PiSBOMValidator'' ''SBOMInput''
      [(''sbom_path'', F_Ctx ''sbom_path'' (F_Const (PStr ''bom.json''))),
       (''sbom_content'', F_Ctx ''sbom_content'' (F_Ctx ''content'' F_Goal)),
       (''format'', F_Ctx ''format'' (F_Const (PStr ''cyclonedx'')))],
     make_route ''PiSupplyChainIntegrityChecker''
      [''supply chain integrity checker'', ''typosquatted dependency checker'', ''package.json typosquatting check'',
       ''boto4 security check'', ''unpinned dependency checker'']
      ''PiSupplyChainIntegrityChecker'' ''SupplyChainInput''
      [(''manifest_path'', F_Ctx ''manifest_path'' (F_Const (PStr ''package.json''))),
       (''manifest_content'', F_Ctx ''manifest_content'' (F_Ctx ''content'' F_Goal))],
     make_route ''PiAPIOWASPScanner''
      [''api owasp scanner'', ''openapi schema scanner'', ''broken authentication endpoint'',
       ''unrestricted resource consumption check'', ''bola vulnerability scan'']
      ''PiAPIOWASPScanner'' ''APIInput''
      [(''api_path'', F_Ctx ''api_path'' (F_Const (PStr ''openapi.yaml''))),
       (''schema_content'', F_Ctx ''schema_content'' (F_Ctx ''content'' F_Goal))],
     make_route ''PiKubernetesSecurityAuditor''
      [''kubernetes security auditor'', ''privileged k8s container'', ''kubernetes resource limits check'',
       ''default namespace k8s audit'', ''hostpath volume share'']
      ''PiKubernetesSecurityAuditor'' ''K8sInput''
      [(''k8s_content'', F_Ctx ''k8s_content'' (F_Ctx ''content'' F_Goal))],
     make_route ''PiZeroTrustVerifier''
      [''zero trust verifier'', ''network policy verification'', ''insecure communication protocol transit'',
       ''mutual tls verification'', ''wildcard ingress rules'']
      ''PiZeroTrustVerifier'' ''ZeroTrustInput''
      [(''network_policy_content'', F_Ctx ''network_policy_content'' (F_Ctx ''content'' F_Goal))],
     make_route ''PiCertificateRotationWatcher''
      [''certificate rotation watcher'', ''self-signed certificate checker'', ''weak key strength watch'',
       ''certificate expiring check'']
      ''PiCertificateRotationWatcher'' ''CertInput''
      [(''cert_content'', F_Ctx ''cert_content'' (F_Ctx ''content'' F_Goal))],
     make_route ''PiFirewallRuleAuditor''
      [''firewall rule auditor'', ''exposed ssh port check'', ''exposed rdp port check'',
       ''exposed mongodb port audit'']
      ''PiFirewallRuleAuditor'' ''FirewallInput''
      [(''rules_content'', F_Ctx ''rules_content'' (F_Ctx ''content'' F_Goal))],
     make_route ''PiBackupIntegrityChecker''
      [''backup integrity checker'', ''unencrypted backup check'', ''single point backup failure'',
       ''short backup retention checker'']
      ''PiBackupIntegrityChecker'' ''BackupInput''
      [(''backup_config'', F_Ctx ''backup_config'' (F_Ctx ''content'' F_Goal))],
     make_route ''PiAuditLogTamperDetector''
      [''audit log tamper detector'', ''missing log sequence check'', ''truncate log action check'',
       ''unauthorized log deletion audit'']
      ''PiAuditLogTamperDetector'' ''LogInput''
      [(''log_content'', F_Ctx ''log_content'' (F_Ctx ''content'' F_Goal))]]"

definition agent_routes_25 :: "agent_route list" where
  "agent_routes_25 =
    [
     make_route ''PiMisconfigPatternMatcher''
      [''misconfig pattern matcher'', ''hardcoded admin credentials check'', ''debug mode production check'',
       ''empty db password config'']
      ''PiMisconfigPatternMatcher'' ''ConfigInput''
      [(''config_content'', F_Ctx ''config_content'' (F_Ctx ''content'' F_Goal))],
     make_route ''PiThreatModelGenerator''
      [''threat model generator'', ''stride threat analysis'', ''api security threat mapping'',
       ''database threat scenarios stride'']
      ''PiThreatModelGenerator'' ''SystemInput''
      [(''system_desc'', F_Ctx ''system_desc'' (F_Ctx ''content'' F_Goal))],
     make_route ''PiSecretsManagerCompletenessChecker''
      [''secrets manager completeness checker'', ''missing secrets auto-rotation'', ''wildcard secrets permissions'',
       ''default kms encryption key'']
      ''PiSecretsManagerCompletenessChecker'' ''VaultInput''
      [(''vault_config'', F_Ctx ''vault_config'' (F_Ctx ''content'' F_Goal))],
     make_route ''PiCodeSigningEnforcer''
      [''code signing enforcer'', ''unsigned build artifact audit'', ''expired signing certificate'',
       ''missing build integrity checksum'']
      ''PiCodeSigningEnforcer'' ''ArtifactInput''
      [(''artifact_metadata'', F_Ctx ''artifact_metadata'' (F_Ctx ''content'' F_Goal))],
     make_route ''PiDataRetentionPolicyEnforcer''
      [''data retention policy enforcer'', ''indefinite retention check'', ''uncontrolled pii retention policy'',
       ''automated deletion lifecycle'']
      ''PiDataRetentionPolicyEnforcer'' ''RetentionInput''
      [(''policy_content'', F_Ctx ''policy_content'' (F_Ctx ''content'' F_Goal))],
     make_route ''PiRuntimeAnomalySentry''
      [''runtime anomaly sentry'', ''oom container logs audit'', ''unauthorized shell execution runtime'',
       ''uncontrolled high fault rates sentry'']
      ''PiRuntimeAnomalySentry'' ''RuntimeInput''
      [(''metrics_content'', F_Ctx ''metrics_content'' (F_Ctx ''content'' F_Goal))],
     make_route ''PiHipaaComplianceAuditor''
      [''hipaa compliance audit'', ''phi exposure check'', ''phi identifier scan'', ''hipaa phi audit'',
       ''ephi violation'', ''baa reference audit'', ''healthcare privacy scan'']
      ''PiHipaaComplianceAuditor'' ''HipaaAuditInput''
      [(''code_content'', F_Ctx ''code_content'' (F_Ctx ''content'' F_Goal)),
       (''file_path'', F_Ctx ''file_path'' (F_Const (PStr []))),
       (''component_type'', F_Ctx ''component_type'' (F_Const (PStr ''unknown'')))],
     make_route ''PiPciDssAuditor''
      [''pci dss audit'', ''cardholder data scan'', ''chd violation check'', ''pan exposure audit'',
       ''cvv storage check'', ''payment card compliance'', ''pci compliance scan'']
      ''PiPciDssAuditor'' ''PciDssInput''
      [(''code_content'', F_Ctx ''code_content'' (F_Ctx ''content'' F_Goal)),
       (''file_path'', F_Ctx ''file_path'' (F_Const (PStr []))),
       (''component_type'', F_Ctx ''component_type'' (F_Const (PStr ''unknown'')))],
     make_route ''PiMobileSecurityAuditor''
      [''mobile security audit'', ''masvs audit'', ''mastg check'', ''android security scan'', ''ios security audit'',
       ''flutter security check'', ''react native security'', ''mobile keystore audit'', ''certificate pinning check'']
      ''PiMobileSecurityAuditor'' ''MobileAuditInput''
      [(''code_content'', F_Ctx ''code_content'' (F_Ctx ''content'' F_Goal)),
       (''file_path'', F_Ctx ''file_path'' (F_Const (PStr []))),
       (''platform'', F_Ctx ''platform'' (F_Const (PStr ''unknown'')))]]"

definition agent_routes_26 :: "agent_route list" where
  "agent_routes_26 =
    [
     make_route ''PiBotDetectionEvasionSentry''
      [''bot detection evasion sentry'', ''waf bypass pattern scan'', ''canvas fingerprint synthesis'',
       ''gpu string pool detection'', ''tls fingerprint spoofing'', ''proof of work solver detection'',
       ''cloudflare jsd bypass pattern'', ''datadome vm pattern'']
      ''PiBotDetectionEvasionSentry'' ''BotEvasionInput''
      [(''code_content'', F_Ctx ''code_content'' (F_Ctx ''content'' F_Goal)),
       (''file_path'', F_Ctx ''file_path'' (F_Const (PStr []))),
       (''context'', F_Ctx ''context'' (F_Const (PStr ''unknown'')))],
     make_route ''PiSshCertificateSecurityAuditor''
      [''ssh certificate security audit'', ''ssh cert expiry validation'', ''ssh cert principal check'',
       ''sshcerts security gap'', ''ssh-rsa sha1 deprecated'', ''webhook secret plaintext'',
       ''module signing cert audit'']
      ''PiSshCertificateSecurityAuditor'' ''SshCertInput''
      [(''code_content'', F_Ctx ''code_content'' (F_Ctx ''content'' F_Goal)),
       (''file_path'', F_Ctx ''file_path'' (F_Const (PStr []))),
       (''has_cert_parsing'', F_Bool (F_Ctx ''has_cert_parsing'' (F_Const (PBool False))))]]"

definition agent_route_table :: "agent_route list" where
  "agent_route_table = foldl register_route []
     (concat [agent_routes_01, agent_routes_02, agent_routes_03, agent_routes_04, agent_routes_05, agent_routes_06,
        agent_routes_07, agent_routes_08, agent_routes_09, agent_routes_10, agent_routes_11, agent_routes_12,
        agent_routes_13, agent_routes_14, agent_routes_15, agent_routes_16, agent_routes_17, agent_routes_18,
        agent_routes_19, agent_routes_20, agent_routes_21, agent_routes_22, agent_routes_23, agent_routes_24,
        agent_routes_25, agent_routes_26])"

end
