(* ===== verification/Agent_Router.thy ===== *)
theory Agent_Router
  imports Agent_Routes Py_Json "HOL-Library.Product_Lexorder"
begin

text \<open>
  Routing of goals to micro agents (\<open>pi_micro_agents/orchestrator/router.py\<close>, \<open>needle_router.py\<close>, and
  \<open>AgentChainCompiler\<close> of \<open>chain_engine.py\<close>). A goal goes to the agent the context names, else to the one the
  Needle engine chooses, else to the first route with a keyword that occurs in it as words. A chain of agents is
  compiled from a template, from the context, from arrows and commas in the goal, or by decomposing the goal.
  The Needle engine (a third-party model) is a parameter, a function of the prompt.
\<close>

section \<open>One agent\<close>

record needle_router =
  nro_use_needle :: bool
  nro_engine :: "(string \<Rightarrow> string result) option"

definition needle_prompt :: "string \<Rightarrow> payload \<Rightarrow> string" where
  "needle_prompt goal context =
     ''Goal: '' @ goal @ [CHR 0x0A] @ ''Context: '' @ dumps_in_order (PDict context) @ [CHR 0x0A, CHR 0x0A]
     @ ''Respond with ONLY valid JSON matching this schema:'' @ [CHR 0x0A]
     @ CHR 0x7B # CHR 0x22 # ''agent'' @ CHR 0x22 # '': '' @ CHR 0x22 # ''ExactAgentClassName'' @ CHR 0x22 # '', ''
     @ CHR 0x22 # ''confidence'' @ CHR 0x22 # '': 0.0-1.0'' @ [CHR 0x7D]"

text \<open>
  The selection the engine prints; every exception of reading it gives \<open>None\<close>. A context that is not JSON raises
  before the engine is asked.
\<close>

definition route_sync :: "needle_router \<Rightarrow> string \<Rightarrow> payload \<Rightarrow> pyval option result" where
  "route_sync nr goal context =
     (case nro_engine nr of
        None \<Rightarrow> Inr None
      | Some generate \<Rightarrow>
          if \<not> nro_use_needle nr then Inr None
          else if \<not> set_free (PDict context) then Inl TypeError
          else Inr (case res_bind (generate (needle_prompt goal context)) json_loads of
             Inr (PDict selection) \<Rightarrow>
               (case num_val (dict_get selection ''confidence'' (PInt 0)) of
                  Some q \<Rightarrow> if q \<ge> 7 / 10 then map_of selection ''agent'' else None
                | None \<Rightarrow> None)
           | _ \<Rightarrow> None))"

definition named_route :: "agent_route list \<Rightarrow> pyval \<Rightarrow> agent_route option" where
  "named_route routes v = find (\<lambda>r. PStr (art_agent_name r) = v) routes"

definition keyword_route :: "agent_route list \<Rightarrow> string \<Rightarrow> agent_route option" where
  "keyword_route routes text = find (\<lambda>r. list_ex (\<lambda>kw. word_search kw text) (art_keywords r)) routes"

definition router_resolve :: "agent_route list \<Rightarrow> needle_router \<Rightarrow> string \<Rightarrow> payload \<Rightarrow> agent_route option" where
  "router_resolve routes nr goal context =
     (let target = dict_get context ''target_agent'' PNone;
          by_keyword = keyword_route routes (py_lower goal);
          by_needle = (case route_sync nr goal context of
             Inr (Some agent) \<Rightarrow> if truthy agent then named_route routes agent else None
           | _ \<Rightarrow> None);
          rest = (case by_needle of Some r \<Rightarrow> Some r | None \<Rightarrow> by_keyword)
      in if truthy target then (case named_route routes target of Some r \<Rightarrow> Some r | None \<Rightarrow> rest) else rest)"

section \<open>Splitting a goal\<close>

text \<open>
  \<open>re.split\<close> for a pattern given by the number of characters it matches at a place, where \<open>after\<close> says whether
  the place follows a word character; \<open>s.split(sep)\<close> is the case of a fixed text.
\<close>

type_synonym matcher = "bool \<Rightarrow> string \<Rightarrow> nat option"

function re_split_from :: "matcher \<Rightarrow> bool \<Rightarrow> string \<Rightarrow> string \<Rightarrow> string list" where
  "re_split_from m after cur [] = [rev cur]"
| "re_split_from m after cur (c # s) =
     (case m after (c # s) of
        Some (Suc n) \<Rightarrow> rev cur # re_split_from m (ends_word (take (Suc n) (c # s))) [] (drop n s)
      | _ \<Rightarrow> re_split_from m (is_word_char c) (c # cur) s)"
  by pat_completeness auto

termination
  by (relation "measure (\<lambda>(m, after, cur, s). length s)") auto

definition re_split :: "matcher \<Rightarrow> string \<Rightarrow> string list" where
  "re_split m s = re_split_from m False [] s"

definition match_text :: "string \<Rightarrow> matcher" where
  "match_text sep after s = (if take (length sep) s = sep then Some (length sep) else None)"

text \<open>\<open>\bw\b\<close>, and the same without regard to case for a word in lower case.\<close>

definition match_word :: "string \<Rightarrow> matcher" where
  "match_word w after s = (if word_at after w s then Some (length w) else None)"

definition match_word_nocase :: "string \<Rightarrow> matcher" where
  "match_word_nocase w after s = match_word w after (py_lower (take (length w) s) @ drop (length w) s)"

fun match_first :: "matcher list \<Rightarrow> matcher" where
  "match_first [] after s = None"
| "match_first (m # ms) after s = (case m after s of Some n \<Rightarrow> Some n | None \<Rightarrow> match_first ms after s)"

definition py_split :: "string \<Rightarrow> string \<Rightarrow> string list" where
  "py_split s sep = re_split (match_text sep) s"

definition stripped_parts :: "string list \<Rightarrow> string list" where
  "stripped_parts parts = filter (\<lambda>s. s \<noteq> []) (map py_strip parts)"

text \<open>\<open>re.sub(r"^(run|...|start)\s+", "", seg, flags=re.IGNORECASE).strip()\<close>: the first prefix that fits is removed.\<close>

definition GOAL_PREFIXES :: "string list" where
  "GOAL_PREFIXES = [''run'', ''execute'', ''please start'', ''activate'', ''start'']"

definition prefix_fits :: "string \<Rightarrow> string \<Rightarrow> bool" where
  "prefix_fits seg p \<longleftrightarrow>
     py_lower (take (length p) seg) = p \<and> (case drop (length p) seg of c # _ \<Rightarrow> is_py_space c | [] \<Rightarrow> False)"

definition clean_segment :: "string \<Rightarrow> string" where
  "clean_segment seg =
     py_strip (case find (prefix_fits seg) GOAL_PREFIXES of None \<Rightarrow> seg | Some p \<Rightarrow> dropWhile is_py_space (drop (length p) seg))"

section \<open>Chains\<close>

definition resolve_single_agent :: "agent_route list \<Rightarrow> string \<Rightarrow> agent_route option" where
  "resolve_single_agent routes name =
     (let name_clean = py_lower (py_strip name) in
      case find (\<lambda>r. py_lower (art_agent_name r) = name_clean) routes of
        Some r \<Rightarrow> Some r
      | None \<Rightarrow>
          (case find (\<lambda>r. word_search name_clean (py_lower (art_agent_name r)) \<or> word_search name_clean (py_lower (art_agent_class r))) routes of
             Some r \<Rightarrow> Some r
           | None \<Rightarrow> keyword_route routes name_clean))"

definition resolve_all :: "agent_route list \<Rightarrow> string list \<Rightarrow> agent_route list" where
  "resolve_all routes names = List.map_filter (resolve_single_agent routes) names"

text \<open>The first template whose keyword the goal contains and whose agents all resolve.\<close>

fun template_chain :: "agent_route list \<Rightarrow> string \<Rightarrow> (string \<times> string list) list \<Rightarrow> agent_route list option" where
  "template_chain routes g_lower [] = None"
| "template_chain routes g_lower ((keyword, chain_names) # ts) =
     (let found = resolve_all routes chain_names in
      if py_contains keyword g_lower \<and> length found = length chain_names then Some found
      else template_chain routes g_lower ts)"

text \<open>An explicit chain of the context; a name that is not a string has no \<open>strip\<close>.\<close>

definition context_chain :: "agent_route list \<Rightarrow> payload \<Rightarrow> agent_route list result" where
  "context_chain routes context =
     (let chain = dict_get context ''chain'' PNone;
          chain_list = (if truthy chain then chain else dict_get context ''agent_chain'' PNone)
      in case chain_list of
           PList names \<Rightarrow>
             res_bind (res_map (\<lambda>v. case v of PStr s \<Rightarrow> Inr s | _ \<Rightarrow> Inl AttributeError) names) (\<lambda>ss. Inr (resolve_all routes ss))
         | _ \<Rightarrow> Inr [])"

definition goal_segments :: "agent_route list \<Rightarrow> string \<Rightarrow> string list" where
  "goal_segments routes goal =
     (if py_contains ''->'' goal then stripped_parts (py_split goal ''->'')
      else if py_contains '' then '' (py_lower goal) then stripped_parts (re_split (match_word_nocase ''then'') goal)
      else if CHR '','' \<in> set goal then
        (let valid = filter (\<lambda>c. resolve_single_agent routes c \<noteq> None) (stripped_parts (py_split goal '',''))
         in if length valid \<ge> 2 then valid else [])
      else [])"

section \<open>The playbooks\<close>

text \<open>The keyword of each predefined template with the agents of its chain, in the order of the table.\<close>

definition collaboration_templates_1 :: "(string \<times> string list) list" where
  "collaboration_templates_1 =
    [
     (''cross-chain yield'', [''PiOracleDivergenceAudit'', ''PiGasGuzzlerDetector'', ''PiPublisherDispatch'']),
     (''gas optimization'', [''PiOracleDivergenceAudit'', ''PiGasGuzzlerDetector'', ''PiPublisherDispatch'']),
     (''contract resilience'', [''PiReentrancySentry'', ''PiAssemblyLethalWeapons'', ''PiArithmeticAuditor'']),
     (''fuzzing'', [''PiReentrancySentry'', ''PiAssemblyLethalWeapons'', ''PiArithmeticAuditor'']),
     (''privilege drift'', [''PiAccessControlShadow'', ''PiApiAuthHardcodedTokenSentry'', ''PiZeroTrustExecutionDomain'']),
     (''gateway audit'', [''PiAccessControlShadow'', ''PiApiAuthHardcodedTokenSentry'', ''PiZeroTrustExecutionDomain'']),
     (''vault compliance'', [''PiERC4626VaultGuard'', ''PiStorageLayoutDrift'', ''PiToPrdValidator'']),
     (''erc4626'', [''PiERC4626VaultGuard'', ''PiStorageLayoutDrift'', ''PiToPrdValidator'']),
     (''container ingress'', [''PiNginxReverseProxyHeaderSentry'', ''PiDockerComposeSecuritySentry'',
        ''PiDockerSocketPrivilegeSentry'']),
     (''proxy defender'', [''PiNginxReverseProxyHeaderSentry'', ''PiDockerComposeSecuritySentry'',
        ''PiDockerSocketPrivilegeSentry'']),
     (''hallucination'', [''PiLLMHallucinationDetector'', ''PiPromptLeakBuster'', ''PiLLMPromptEgressLeakDetector'']),
     (''leak buster'', [''PiLLMHallucinationDetector'', ''PiPromptLeakBuster'', ''PiLLMPromptEgressLeakDetector'']),
     (''ci/cd release'', [''PiGithubActionsUnpinnedVersion'', ''PiGitSafetyGuardrail'', ''PiChangelogAuditor'']),
     (''dependency alignment'', [''PiGithubActionsUnpinnedVersion'', ''PiGitSafetyGuardrail'', ''PiChangelogAuditor'']),
     (''zk-circuit soundness'', [''PiZKNonPrimeFieldRangeSentry'', ''PiZKSignalUnconstrainedConstraint'',
        ''PiZKUnusedConstraintVariables'']),
     (''zk auditing'', [''PiZKNonPrimeFieldRangeSentry'', ''PiZKSignalUnconstrainedConstraint'',
        ''PiZKUnusedConstraintVariables'']),
     (''solana cpi'', [''PiRustSolanaAccountDataValidation'', ''PiRustSolanaCPIInstructionSentry'',
        ''PiRustSolanaOwnerVerificationGuard'']),
     (''solana cpi security'', [''PiRustSolanaAccountDataValidation'', ''PiRustSolanaCPIInstructionSentry'',
        ''PiRustSolanaOwnerVerificationGuard'']),
     (''database migration'', [''PiMockDataTaintingSentry'', ''PiDatabaseMigrationUnindexedSentry'',
        ''PiTddMockingSanityChecker'']),
     (''qa validation'', [''PiMockDataTaintingSentry'', ''PiDatabaseMigrationUnindexedSentry'',
        ''PiTddMockingSanityChecker'']),
     (''web application vulnerability scanning'', [''PiWebVulnScanner'', ''PiSelfHealingPatchAgent'',
        ''PiDeploymentSafetyGuard'']),
     (''cloud cost optimization'', [''PiCloudCostAnalyzer'', ''PiIdleResourceSentry'', ''PiBudgetAnomalyGuard'']),
     (''api security & rate limiting'', [''PiAPIRateLimitSentry'', ''PiApiAuthHardcodedTokenSentry'',
        ''PiEndpointAbuseGuard''])]"

definition collaboration_templates_2 :: "(string \<times> string list) list" where
  "collaboration_templates_2 =
    [
     (''database query optimization'', [''PiSlowQueryDetector'', ''PiSQLInjectionSentry'', ''PiIndexRecommendationEngine'']),
     (''container image security'', [''PiDockerImageScanner'', ''PiDockerComposeSecuritySentry'',
        ''PiContainerEscapeDetector'']),
     (''ci/cd pipeline integrity'', [''PiGithubActionsUnpinnedVersion'', ''PiGitSecretLeakSentry'',
        ''PiPipelineIntegrityAuditor'']),
     (''frontend supply chain'', [''PiNPMDependencyVulnScanner'', ''PiGitSecScanner'', ''PiTreeShakingOptimizer'']),
     (''llm output sanitization'', [''PiLLMOutputSanitizer'', ''PiLLMHallucinationDetector'',
        ''PiLLMPromptEgressLeakDetector'']),
     (''data privacy compliance'', [''PiDataFlowPrivacyMapper'', ''PiSensitiveDataScanner'', ''PiAutomatedAnonymizer'']),
     (''logging & observability anomaly'', [''PiSensitiveLogLeakSentry'', ''PiGitSecretEntropyLeakSentry'',
        ''PiStructuredLoggingEnforcer'']),
     (''access control & privilege escalation'', [''PiIAMOverPermissionSentry'', ''PiAccessControlShadow'',
        ''PiLeastPrivilegeRemediator'']),
     (''documentation & code comment consistency'', [''PiDocsOutdatedChecker'', ''PiReadmeValidator'',
        ''PiAutoDocsGenerator'']),
     (''performance profiling'', [''PiMemoryLeakDetector'', ''PiHotPathAllocationAuditor'', ''PiBottleneckOptimizer'']),
     (''mobile app security'', [''PiMobilePermissionSentry'', ''PiAppDataLeakDetector'', ''PiRuntimeHardeningGuard'']),
     (''network traffic analysis'', [''PiNetworkTrafficSentry'', ''PiDDoSPatternDetector'', ''PiTrafficOptimizer'']),
     (''backup & disaster recovery'', [''PiBackupIntegritySentry'', ''PiRecoveryTimeAuditor'',
        ''PiAutomatedRestoreTester'']),
     (''accessibility & wcag compliance'', [''PiAccessibilityScanner'', ''PiContrastRatioAuditor'',
        ''PiAutoRemediationEngine'']),
     (''secrets management & rotation'', [''PiHardcodedSecretDetector'', ''PiGitSecretLeakSentry'',
        ''PiAutomatedRotationEngine'']),
     (''iac security & drift'', [''PiTerraformDriftDetector'', ''PiTerraformStateCredentialSentry'',
        ''PiInfrastructureComplianceAuditor'']),
     (''frontend performance & core web vitals'', [''PiLighthouseAuditor'', ''PiBundleSizeSentry'',
        ''PiCoreWebVitalsOptimizer'']),
     (''antigravity ide reverse engineering'', [''PiMagicNumberScanner'', ''PiHardcodedSecretDetector'',
        ''PiApiReverseEngineeredAuth'', ''PiGrpcProtocolInterceptor'', ''PiDependencyVulnScanner'',
        ''PiThreatModelGenerator'', ''PiRuntimeAnomalySentry'', ''PiSensitiveLogLeakSentry'', ''PiAuditLogTamperDetector'']),
     (''antigravity re'', [''PiMagicNumberScanner'', ''PiHardcodedSecretDetector'', ''PiApiReverseEngineeredAuth'',
        ''PiGrpcProtocolInterceptor'', ''PiDependencyVulnScanner'', ''PiThreatModelGenerator'', ''PiRuntimeAnomalySentry'']),
     (''ide language server audit'', [''PiGrpcProtocolInterceptor'', ''PiGrpcWireProtocolInsecureSentry'',
        ''PiApiReverseEngineeredAuth'', ''PiRuntimeAnomalySentry'', ''PiThreatModelGenerator'']),
     (''binary ide surface'', [''PiMagicNumberScanner'', ''PiHardcodedSecretDetector'', ''PiDependencyVulnScanner'',
        ''PiThreatModelGenerator''])]"

definition collaboration_templates :: "(string \<times> string list) list" where
  "collaboration_templates = collaboration_templates_1 @ collaboration_templates_2"

section \<open>Decomposition\<close>

definition sub_tasks :: "string \<Rightarrow> string list" where
  "sub_tasks g_lower =
     filter (\<lambda>p. length p \<ge> 3)
       (map py_strip (re_split (match_first [match_word ''and'', match_word ''then'', match_text ''->'', match_text '';'']) g_lower))"

definition domain_mapping :: "(string \<times> string list) list" where
  "domain_mapping =
     [(''PiPromptShield'', [''prompt shield'', ''injection'', ''jailbreak'', ''shield'', ''guardrail'']),
      (''PiGitSecScanner'', [''requirements'', ''package.json'', ''dependency'', ''dependencies'', ''unpinned'']),
      (''PiSelfHealingPatchAgent'',
         [''heal'', ''healer'', ''patch'', ''repair'', ''remediate'', ''remediation'', ''self-heal'', ''fix'']),
      (''PiArithmeticAuditor'', [''arithmetic'', ''math'', ''overflow'', ''underflow'', ''rounding'', ''precision'']),
      (''PiReentrancySentry'', [''reentrancy'', ''checks-effects'', ''mutex'', ''reentrant'']),
      (''PiDeFiSlippageGuard'', [''slippage'', ''swap'', ''mev'', ''sandwich'', ''frontrun'']),
      (''PiOracleDivergenceAudit'', [''oracle'', ''divergence'', ''price feed'', ''stale'']),
      (''PiStorageLayoutDrift'', [''storage layout'', ''drift'', ''gap'', ''upgradeable'', ''initializer'', ''collision'']),
      (''PiTokenTaxDetector'', [''token tax'', ''fee-on-transfer'', ''honeypot'', ''tax'']),
      (''PiCentralizationSentry'', [''centralization'', ''multisig'', ''timelock'', ''admin'', ''privilege'']),
      (''PiPublisherDispatch'', [''publish'', ''deploy'', ''dispatch'', ''commit''])]"

definition precedence_order :: "(string \<times> int) list" where
  "precedence_order =
     [(''PiPromptShield'', 1), (''PiGitSecScanner'', 2), (''PiSelfHealingPatchAgent'', 3), (''PiArithmeticAuditor'', 4),
      (''PiReentrancySentry'', 4), (''PiDeFiSlippageGuard'', 4), (''PiOracleDivergenceAudit'', 4), (''PiStorageLayoutDrift'', 4),
      (''PiTokenTaxDetector'', 4), (''PiCentralizationSentry'', 4), (''PiPublisherDispatch'', 5)]"

definition task_indicators :: "string list" where
  "task_indicators =
     [''scan'', ''scanner'', ''check'', ''checker'', ''audit'', ''auditor'', ''heal'', ''healer'', ''patch'', ''repair'', ''remediate'',
      ''fix'', ''verify'', ''verifier'', ''sentry'', ''guard'', ''deploy'', ''publish'', ''run'', ''test'', ''linter'', ''scout'', ''hunter'',
      ''shield'', ''protect'']"

text \<open>\<open>re.findall(r"[a-zA-Z0-9]+", s)\<close>.\<close>

definition is_ascii_alnum :: "char \<Rightarrow> bool" where
  "is_ascii_alnum c =
     (let k = (of_char c :: nat) in (48 \<le> k \<and> k \<le> 57) \<or> (65 \<le> k \<and> k \<le> 90) \<or> (97 \<le> k \<and> k \<le> 122))"

fun alnum_tokens_from :: "string \<Rightarrow> string \<Rightarrow> string list" where
  "alnum_tokens_from cur [] = (if cur = [] then [] else [rev cur])"
| "alnum_tokens_from cur (c # s) =
     (if is_ascii_alnum c then alnum_tokens_from (c # cur) s
      else if cur = [] then alnum_tokens_from [] s
      else rev cur # alnum_tokens_from [] s)"

definition alnum_tokens :: "string \<Rightarrow> string list" where
  "alnum_tokens s = alnum_tokens_from [] s"

text \<open>A keyword counts when it occurs as words or anywhere in the sub-task.\<close>

definition mentions :: "string \<Rightarrow> string \<Rightarrow> bool" where
  "mentions sub_task kw \<longleftrightarrow> word_search kw sub_task \<or> py_contains kw sub_task"

definition matched_in_task :: "agent_route list \<Rightarrow> string \<Rightarrow> string list" where
  "matched_in_task routes sub_task =
     map fst (filter (\<lambda>(agent, kws). list_ex (mentions sub_task) kws) domain_mapping) @
     map art_agent_name
       (filter (\<lambda>r. art_agent_name r \<notin> fst ` set domain_mapping \<and> art_agent_name r \<noteq> ''NicheCurationPipelineChain'' \<and>
                    list_ex (\<lambda>kw. mentions sub_task (py_lower kw)) (art_keywords r)) routes)"

definition task_counts :: "nat \<Rightarrow> string \<Rightarrow> bool" where
  "task_counts idx sub_task \<longleftrightarrow> idx = 0 \<or> list_ex (\<lambda>t. t \<in> set task_indicators) (alnum_tokens sub_task)"

text \<open>The names of the sub-tasks that count, each once, in the order of their first match.\<close>

definition add_new :: "string list \<Rightarrow> string \<Rightarrow> string list" where
  "add_new names n = (if n \<in> set names then names else names @ [n])"

definition matched_agent_names :: "agent_route list \<Rightarrow> string list \<Rightarrow> string list" where
  "matched_agent_names routes tasks =
     foldl (\<lambda>acc (i, t). if task_counts i t then foldl add_new acc (matched_in_task routes t) else acc) [] (enumerate 0 tasks)"

text \<open>\<open>s.find(p)\<close>, and the sort key of an agent: its precedence, then where its first keyword occurs.\<close>

fun py_find_from :: "nat \<Rightarrow> string \<Rightarrow> string \<Rightarrow> nat option" where
  "py_find_from i p [] = (if p = [] then Some i else None)"
| "py_find_from i p (c # s) = (if take (length p) (c # s) = p then Some i else py_find_from (Suc i) p s)"

definition agent_sort_key :: "string \<Rightarrow> string \<Rightarrow> int \<times> nat" where
  "agent_sort_key g_lower name =
     (dict_get precedence_order name 4,
      foldl (\<lambda>first kw. case py_find_from 0 kw g_lower of None \<Rightarrow> first | Some i \<Rightarrow> min first i) (length g_lower)
        (dict_get domain_mapping name []))"

text \<open>The keys are compared as tuples; sorting is stable.\<close>

definition sort_agents :: "string \<Rightarrow> string list \<Rightarrow> string list" where
  "sort_agents g_lower names = sort_key (agent_sort_key g_lower) names"

definition decompose_goal :: "agent_route list \<Rightarrow> string \<Rightarrow> agent_route list" where
  "decompose_goal routes goal =
     (let g_lower = py_lower goal; tasks = sub_tasks g_lower in
      if length tasks < 2 then []
      else
        (let matched = matched_agent_names routes tasks in
         if length matched < 2 then []
         else
           (let found = resolve_all routes (foldl add_new [] (sort_agents g_lower matched)) in
            if length found \<ge> 2 then found else [])))"

definition compile_chain :: "agent_route list \<Rightarrow> (string \<times> string list) list \<Rightarrow> string \<Rightarrow> payload \<Rightarrow> agent_route list result" where
  "compile_chain routes templates goal context =
     (case template_chain routes (py_lower goal) templates of
        Some chain \<Rightarrow> Inr chain
      | None \<Rightarrow>
          res_bind (context_chain routes context) (\<lambda>explicit.
            if explicit \<noteq> [] then Inr explicit
            else
              (let found = resolve_all routes (map clean_segment (goal_segments routes goal)) in
               Inr (if found \<noteq> [] then found else decompose_goal routes goal))))"

section \<open>One agent: what is found\<close>

lemma find_skip: "\<forall>u\<in>set us. \<not> P u \<Longrightarrow> find P (us @ xs) = find P xs"
  by (induction us) auto

lemma find_first:
  "find P xs = Some x \<longleftrightarrow> (\<exists>us vs. xs = us @ x # vs \<and> P x \<and> (\<forall>u\<in>set us. \<not> P u))"
proof
  show "find P xs = Some x \<Longrightarrow> \<exists>us vs. xs = us @ x # vs \<and> P x \<and> (\<forall>u\<in>set us. \<not> P u)"
  proof (induction xs)
    case (Cons a xs)
    show ?case
    proof (cases "P a")
      case True
      with Cons.prems show ?thesis by (intro exI [of _ "[]"] exI [of _ xs]) auto
    next
      case False
      with Cons obtain us vs where "xs = us @ x # vs" "P x" "\<forall>u\<in>set us. \<not> P u" by auto
      with False show ?thesis by (intro exI [of _ "a # us"] exI [of _ vs]) auto
    qed
  qed simp
qed (auto simp: find_skip)

lemma find_key:
  assumes "distinct (map f xs)" and "x \<in> set xs"
  shows "find (\<lambda>y. f y = f x) xs = Some x"
proof -
  obtain us vs where "xs = us @ x # vs" using assms(2) split_list by fast
  with assms(1) show ?thesis unfolding find_first by (intro exI [of _ us] exI [of _ vs]) (auto simp: image_iff)
qed

lemma find_in: "find P xs = Some x \<Longrightarrow> x \<in> set xs"
  by (auto simp: find_Some_iff)

lemma named_route_in [intro]: "named_route routes v = Some r \<Longrightarrow> r \<in> set routes"
  by (simp add: named_route_def find_in)

lemma keyword_route_in [intro]: "keyword_route routes g = Some r \<Longrightarrow> r \<in> set routes"
  by (simp add: keyword_route_def find_in)

lemma resolve_in: "resolve_single_agent routes n = Some r \<Longrightarrow> r \<in> set routes"
  by (auto simp: resolve_single_agent_def Let_def split: option.splits dest: find_in)

lemma resolve_all_in: "set (resolve_all routes ns) \<subseteq> set routes"
  by (auto simp: resolve_all_def map_filter_def dest: resolve_in)

text \<open>A name, in any case and with white space around it, resolves to the agent that bears it.\<close>

lemma resolve_by_name:
  assumes "distinct (map (py_lower \<circ> art_agent_name) routes)" and "r \<in> set routes"
    and "py_lower (py_strip s) = py_lower (art_agent_name r)"
  shows "resolve_single_agent routes s = Some r"
  using find_key [OF assms(1,2)] assms(3) by (simp add: resolve_single_agent_def)

lemma resolve_all_names:
  assumes "distinct (map (py_lower \<circ> art_agent_name) routes)"
    and "list_all2 (\<lambda>s n. n \<in> art_agent_name ` set routes \<and> py_lower (py_strip s) = py_lower n) ss ns"
  shows "map art_agent_name (resolve_all routes ss) = ns"
  using assms(2)
proof (induction rule: list_all2_induct)
  case Nil
  show ?case by (simp add: resolve_all_def map_filter_def)
next
  case (Cons s ss n ns)
  then obtain r where "r \<in> set routes" "n = art_agent_name r" by auto
  with Cons assms(1) show ?case by (simp add: resolve_all_def map_filter_simps resolve_by_name [of routes r])
qed

section \<open>Splitting: what is found\<close>

lemma re_split_after: "re_split_from (match_text sep) a cur s = re_split_from (match_text sep) b cur s"
  by (cases s) (simp_all add: match_text_def)

text \<open>A part without the first character of the separator is taken whole.\<close>

lemma split_part:
  assumes "\<forall>c\<in>set p. c \<noteq> d"
  shows "re_split_from (match_text (d # ds)) a cur (p @ s) = re_split_from (match_text (d # ds)) b (rev p @ cur) s"
  using assms
proof (induction p arbitrary: a cur)
  case Nil
  show ?case by (simp, rule re_split_after)
next
  case (Cons c p)
  then show ?case by (simp add: match_text_def)
qed

lemma split_join:
  assumes "\<forall>p\<in>set ps. \<forall>c\<in>set p. c \<noteq> d" and "ps \<noteq> []"
  shows "re_split_from (match_text (d # ds)) a cur (py_join (d # ds) ps) = (rev cur @ hd ps) # tl ps"
  using assms
proof (induction ps arbitrary: a cur)
  case (Cons p ps)
  show ?case
  proof (cases ps)
    case Nil
    with Cons.prems split_part [of p d ds a cur "[]" False] show ?thesis by simp
  next
    case (Cons q qs)
    with Cons.prems have j: "py_join (d # ds) (p # ps) = p @ (d # ds) @ py_join (d # ds) ps" by simp
    have "re_split_from (match_text (d # ds)) a cur (py_join (d # ds) (p # ps)) =
        re_split_from (match_text (d # ds)) False (rev p @ cur) (d # ds @ py_join (d # ds) ps)"
      unfolding j using Cons.prems by (subst split_part [where b = False]) auto
    also have "\<dots> = rev (rev p @ cur) # re_split_from (match_text (d # ds)) (ends_word (d # ds)) [] (py_join (d # ds) ps)"
      by (simp add: match_text_def)
    also have "\<dots> = (rev cur @ p) # ps" using Cons.IH [of _ "[]"] Cons.prems Cons by simp
    finally show ?thesis by simp
  qed
qed simp

lemma py_split_join: "(\<And>p. p \<in> set ps \<Longrightarrow> d \<notin> set p) \<Longrightarrow> ps \<noteq> [] \<Longrightarrow> py_split (py_join (d # ds) ps) (d # ds) = ps"
  unfolding py_split_def re_split_def by (subst split_join) auto

lemma py_join_contains: "py_contains sep (py_join sep (p # q # ps))"
  by (auto simp: py_contains_sublist sublist_def)

text \<open>What \<open>strip\<close> removes.\<close>

lemma py_strip_parts:
  obtains a b where "s = a @ py_strip s @ b" and "\<forall>c\<in>set a. is_py_space c" and "\<forall>c\<in>set b. is_py_space c"
proof -
  define t where "t = dropWhile is_py_space s"
  have "s = takeWhile is_py_space s @ t" by (simp add: t_def)
  moreover have "t = py_strip s @ rev (takeWhile is_py_space (rev t))"
    unfolding py_strip_def t_def [symmetric] rev_append [symmetric] takeWhile_dropWhile_id by simp
  ultimately have "s = takeWhile is_py_space s @ py_strip s @ rev (takeWhile is_py_space (rev t))" by metis
  then show thesis by (rule that) (auto dest: set_takeWhileD)
qed

lemma py_strip_plain: "(\<And>c. c \<in> set s \<Longrightarrow> \<not> is_py_space c) \<Longrightarrow> py_strip s = s"
proof -
  assume a: "\<And>c. c \<in> set s \<Longrightarrow> \<not> is_py_space c"
  have "dropWhile is_py_space s = s" "dropWhile is_py_space (rev s) = rev s"
    using a by (auto intro!: dropWhile_eq_self_iff [THEN iffD2] simp: hd_rev neq_Nil_conv)
  then show ?thesis by (simp add: py_strip_def)
qed

lemma lower_char_space [simp]: "is_py_space (lower_char c) \<longleftrightarrow> is_py_space c"
proof (cases "(65 \<le> (of_char c :: nat) \<and> (of_char c :: nat) \<le> 90) \<or> (192 \<le> (of_char c :: nat) \<and> (of_char c :: nat) \<le> 222 \<and> (of_char c :: nat) \<noteq> 215)")
  case True
  then have "(of_char (lower_char c) :: nat) = of_char c + 32" by (auto simp: lower_char_def)
  with True show ?thesis by (auto simp: is_py_space_def)
next
  case False
  then have "lower_char c = c" unfolding lower_char_def Let_def by (rule if_not_P)
  then show ?thesis by simp
qed

lemma py_lower_space: "(\<forall>c\<in>set (py_lower s). \<not> is_py_space c) \<longleftrightarrow> (\<forall>c\<in>set s. \<not> is_py_space c)"
  by (simp add: py_lower_def)

lemma lower_char_dash: "lower_char c = CHR ''-'' \<longleftrightarrow> c = CHR ''-''"
proof (cases "(65 \<le> (of_char c :: nat) \<and> (of_char c :: nat) \<le> 90) \<or> (192 \<le> (of_char c :: nat) \<and> (of_char c :: nat) \<le> 222 \<and> (of_char c :: nat) \<noteq> 215)")
  case True
  then have "(of_char (lower_char c) :: nat) = of_char c + 32" by (auto simp: lower_char_def)
  then have "lower_char c \<noteq> CHR ''-''" "c \<noteq> CHR ''-''" using True by auto
  then show ?thesis by simp
next
  case False
  then have "lower_char c = c" unfolding lower_char_def Let_def by (rule if_not_P)
  then show ?thesis by simp
qed

section \<open>Arrow goals\<close>

text \<open>A name without white space or dashes, as all names of agents are.\<close>

definition plain_name :: "string \<Rightarrow> bool" where
  "plain_name n \<longleftrightarrow> n \<noteq> [] \<and> (\<forall>c\<in>set n. \<not> is_py_space c \<and> c \<noteq> CHR ''-'')"

lemma plain_lower: "plain_name (py_lower n) \<longleftrightarrow> plain_name n"
  by (auto simp: plain_name_def py_lower_def lower_char_dash)

text \<open>A part names an agent when it is the name in any case with white space around it.\<close>

definition part_names :: "string \<Rightarrow> agent_route \<Rightarrow> bool" where
  "part_names p r \<longleftrightarrow> py_lower (py_strip p) = py_lower (art_agent_name r)"

lemma part_plain: "part_names p r \<Longrightarrow> plain_name (art_agent_name r) \<Longrightarrow> plain_name (py_strip p)"
  by (metis part_names_def plain_lower)

lemma part_no_dash:
  assumes "plain_name (py_strip p)"
  shows "CHR ''-'' \<notin> set p"
proof -
  obtain a b where p: "p = a @ py_strip p @ b" "\<forall>c\<in>set a. is_py_space c" "\<forall>c\<in>set b. is_py_space c"
    by (rule py_strip_parts [of p])
  have "\<not> is_py_space (CHR ''-'')" by (simp add: is_py_space_def)
  then have "CHR ''-'' \<notin> set (a @ py_strip p @ b)" using assms p(2,3) by (auto simp: plain_name_def)
  with p(1) show ?thesis by simp
qed

lemma clean_plain:
  assumes "plain_name s"
  shows "clean_segment s = s"
proof -
  have "\<not> prefix_fits s p" for p
  proof
    assume "prefix_fits s p"
    then obtain c t where c: "drop (length p) s = c # t" "is_py_space c" by (auto simp: prefix_fits_def split: list.splits)
    then have "c \<in> set s" by (metis in_set_dropD list.set_intros(1))
    with c(2) assms show False by (simp add: plain_name_def)
  qed
  then have "find (prefix_fits s) GOAL_PREFIXES = None" by (simp add: find_None_iff)
  with assms show ?thesis by (simp add: clean_segment_def py_strip_plain plain_name_def)
qed

lemma arrow_segments:
  assumes "\<And>p. p \<in> set ps \<Longrightarrow> plain_name (py_strip p)" and "length ps \<ge> 2"
  shows "goal_segments routes (py_join ''->'' ps) = map py_strip ps"
proof -
  obtain a b qs where ps: "ps = a # b # qs" using assms(2) by (auto simp: numeral_2_eq_2 Suc_le_length_iff)
  have "py_split (py_join ''->'' ps) ''->'' = ps"
    using assms part_no_dash by (intro py_split_join) (auto simp: ps)
  moreover have "stripped_parts ps = map py_strip ps"
    using assms(1) by (auto simp: stripped_parts_def filter_id_conv plain_name_def)
  moreover have "py_contains ''->'' (py_join ''->'' ps)" unfolding ps by (rule py_join_contains)
  ultimately show ?thesis by (simp add: goal_segments_def)
qed

lemma arrow_routes:
  assumes "distinct (map (py_lower \<circ> art_agent_name) routes)"
    and "list_all2 (\<lambda>p r. r \<in> set routes \<and> plain_name (art_agent_name r) \<and> part_names p r) ps rs"
  shows "resolve_all routes (map clean_segment (map py_strip ps)) = rs"
  using assms(2)
proof (induction rule: list_all2_induct)
  case Nil
  show ?case by (simp add: resolve_all_def map_filter_def)
next
  case (Cons p ps r rs)
  then have pl: "plain_name (py_strip p)" by (auto intro: part_plain)
  then have "py_lower (py_strip (clean_segment (py_strip p))) = py_lower (art_agent_name r)"
    using Cons.hyps by (simp add: clean_plain py_strip_plain plain_name_def part_names_def)
  then have "resolve_single_agent routes (clean_segment (py_strip p)) = Some r"
    using Cons.hyps assms(1) by (intro resolve_by_name) auto
  with Cons.IH show ?case by (simp add: resolve_all_def map_filter_simps)
qed

section \<open>Decomposed goals\<close>

lemma add_new_simps [simp]: "set (add_new xs n) = insert n (set xs)" "distinct (add_new xs n) \<longleftrightarrow> distinct xs"
  by (auto simp: add_new_def)

lemma add_all_simps [simp]:
  "set (foldl add_new xs ns) = set xs \<union> set ns" "distinct (foldl add_new xs ns) \<longleftrightarrow> distinct xs"
  by (induction ns arbitrary: xs) auto

lemma add_all_distinct: "distinct (xs @ ns) \<Longrightarrow> foldl add_new xs ns = xs @ ns"
  by (induction ns arbitrary: xs) (auto simp: add_new_def)

lemma matched_in_names: "set (matched_in_task routes t) \<subseteq> fst ` set domain_mapping \<union> art_agent_name ` set routes"
  by (auto simp: matched_in_task_def)

lemma matched_fold:
  "distinct acc \<Longrightarrow> set acc \<subseteq> A \<Longrightarrow> (\<And>t. set (f t) \<subseteq> A) \<Longrightarrow>
   distinct (foldl (\<lambda>acc (i, t). if q i t then foldl add_new acc (f t) else acc) acc its) \<and>
   set (foldl (\<lambda>acc (i, t). if q i t then foldl add_new acc (f t) else acc) acc its) \<subseteq> A"
proof (induction its arbitrary: acc)
  case (Cons it its)
  obtain i t where it: "it = (i, t)" by (cases it)
  have "distinct (if q i t then foldl add_new acc (f t) else acc)" "set (if q i t then foldl add_new acc (f t) else acc) \<subseteq> A"
    using Cons.prems by auto
  from Cons.IH [OF this Cons.prems(3)] show ?case by (simp add: it)
qed simp

lemma matched_agent_names_ok:
  "distinct (matched_agent_names routes tasks) \<and>
   set (matched_agent_names routes tasks) \<subseteq> fst ` set domain_mapping \<union> art_agent_name ` set routes"
  unfolding matched_agent_names_def by (rule matched_fold) (use matched_in_names in auto)

lemma sort_agents_simps [simp]:
  "set (sort_agents g ns) = set ns" "distinct (sort_agents g ns) = distinct ns" "length (sort_agents g ns) = length ns"
  "sorted (map (agent_sort_key g) (sort_agents g ns))"
  by (simp_all add: sort_agents_def)

text \<open>
  A decomposed chain has the matched agents that resolve, each once, in the order of their precedence and of the place
  of their first keyword.
\<close>

lemma resolve_all_filter:
  assumes "\<And>n. n \<in> set ns \<Longrightarrow> P n \<Longrightarrow> \<exists>r. resolve_single_agent routes n = Some r \<and> art_agent_name r = n"
    and "\<And>n. n \<in> set ns \<Longrightarrow> \<not> P n \<Longrightarrow> resolve_single_agent routes n = None"
  shows "map art_agent_name (resolve_all routes ns) = filter P ns"
  using assms
proof (induction ns)
  case (Cons n ns)
  then have "map art_agent_name (resolve_all routes ns) = filter P ns" by simp
  moreover have "(P n \<longrightarrow> (\<exists>r. resolve_single_agent routes n = Some r \<and> art_agent_name r = n)) \<and>
      (\<not> P n \<longrightarrow> resolve_single_agent routes n = None)"
    using Cons.prems by simp
  ultimately show ?case by (auto simp: resolve_all_def map_filter_simps)
qed (simp add: resolve_all_def map_filter_def)

lemma decompose_names:
  assumes "\<And>n. n \<in> fst ` set domain_mapping \<union> art_agent_name ` set routes \<Longrightarrow> P n \<Longrightarrow>
      \<exists>r. resolve_single_agent routes n = Some r \<and> art_agent_name r = n"
    and "\<And>n. n \<in> fst ` set domain_mapping \<union> art_agent_name ` set routes \<Longrightarrow> \<not> P n \<Longrightarrow>
      resolve_single_agent routes n = None"
  shows "map art_agent_name (decompose_goal routes goal) =
     (let tasks = sub_tasks (py_lower goal); matched = matched_agent_names routes tasks;
          found = filter P (sort_agents (py_lower goal) matched) in
      if length tasks < 2 \<or> length matched < 2 \<or> length found < 2 then [] else found)"
proof -
  define matched where "matched = matched_agent_names routes (sub_tasks (py_lower goal))"
  have m: "distinct matched" "set matched \<subseteq> fst ` set domain_mapping \<union> art_agent_name ` set routes"
    using matched_agent_names_ok unfolding matched_def by blast+
  then have u: "foldl add_new [] (sort_agents (py_lower goal) matched) = sort_agents (py_lower goal) matched"
    by (subst add_all_distinct) auto
  have r: "map art_agent_name (resolve_all routes (sort_agents (py_lower goal) matched)) =
      filter P (sort_agents (py_lower goal) matched)"
    by (rule resolve_all_filter) (use m(2) assms in \<open>simp_all add: subset_iff\<close>)
  from arg_cong [OF r, of length]
  have "length (resolve_all routes (sort_agents (py_lower goal) matched)) = length (filter P (sort_agents (py_lower goal) matched))"
    by simp
  with r u show ?thesis by (auto simp: decompose_goal_def Let_def matched_def [symmetric])
qed

section \<open>Texts of word characters\<close>

text \<open>In a text of word characters the only word is the text.\<close>

lemma word_search_whole:
  assumes "\<And>c. c \<in> set s \<Longrightarrow> is_word_char c" and "w \<noteq> []"
  shows "word_search w s \<Longrightarrow> w = s"
proof -
  assume "word_search w s"
  then obtain u v where s: "s = u @ w @ v" "boundary u (w @ v)" "boundary (u @ w) v" by (auto simp: word_search_iff)
  have "u = []" using s(1,2) assms by (cases u rule: rev_cases) (auto simp: boundary_def ends_word_def starts_word_def hd_append)
  moreover have "v = []" using s(1,3) assms by (cases v) (auto simp: boundary_def ends_word_def starts_word_def last_append)
  ultimately show "w = s" using s(1) by simp
qed

lemma resolve_unknown:
  assumes "plain_name s" and "\<And>c. c \<in> set (py_lower s) \<Longrightarrow> is_word_char c"
    and words: "\<And>r c. r \<in> set routes \<Longrightarrow> c \<in> set (py_lower (art_agent_name r)) \<union> set (py_lower (art_agent_class r)) \<Longrightarrow> is_word_char c"
    and other: "\<And>r. r \<in> set routes \<Longrightarrow> py_lower (art_agent_name r) \<noteq> py_lower s \<and> py_lower (art_agent_class r) \<noteq> py_lower s \<and>
      py_lower s \<notin> set (art_keywords r) \<and> [] \<notin> set (art_keywords r)"
  shows "resolve_single_agent routes s = None"
proof -
  have c: "py_lower (py_strip s) = py_lower s" using assms(1) by (simp add: py_strip_plain plain_name_def)
  have ne: "py_lower s \<noteq> []" using assms(1) by (simp add: plain_name_def py_lower_def)
  have "find (\<lambda>r. py_lower (art_agent_name r) = py_lower s) routes = None" using other by (auto simp: find_None_iff)
  moreover have "find (\<lambda>r. word_search (py_lower s) (py_lower (art_agent_name r)) \<or>
      word_search (py_lower s) (py_lower (art_agent_class r))) routes = None"
    using other words ne word_search_whole [of _ "py_lower s"] by (fastforce simp: find_None_iff)
  moreover have "keyword_route routes (py_lower s) = None"
    unfolding keyword_route_def find_None_iff list_ex_iff
  proof clarify
    fix r kw assume k: "r \<in> set routes" "kw \<in> set (art_keywords r)" "word_search kw (py_lower s)"
    then have "kw \<noteq> []" using other by metis
    then have "kw = py_lower s" using assms(2) k(3) word_search_whole [of "py_lower s" kw] by blast
    with k(1,2) other show False by metis
  qed
  ultimately show ?thesis by (simp add: resolve_single_agent_def c)
qed

section \<open>Keywords\<close>

lemma lower_char_idem: "lower_char (lower_char c) = lower_char c"
proof (cases "(65 \<le> (of_char c :: nat) \<and> (of_char c :: nat) \<le> 90) \<or> (192 \<le> (of_char c :: nat) \<and> (of_char c :: nat) \<le> 222 \<and> (of_char c :: nat) \<noteq> 215)")
  case True
  then have "(of_char (lower_char c) :: nat) = of_char c + 32" by (auto simp: lower_char_def)
  with True have "\<not> ((65 \<le> (of_char (lower_char c) :: nat) \<and> (of_char (lower_char c) :: nat) \<le> 90) \<or>
      (192 \<le> (of_char (lower_char c) :: nat) \<and> (of_char (lower_char c) :: nat) \<le> 222 \<and> (of_char (lower_char c) :: nat) \<noteq> 215))"
    by auto
  then show ?thesis unfolding lower_char_def [of "lower_char c"] Let_def by (rule if_not_P)
next
  case False
  then have "lower_char c = c" unfolding lower_char_def Let_def by (rule if_not_P)
  then show ?thesis by simp
qed

text \<open>A text with capital letters does not occur in a lowered text.\<close>

lemma contains_lowered: "py_contains w (py_lower g) \<Longrightarrow> py_lower w = w"
proof -
  assume "py_contains w (py_lower g)"
  then have "set w \<subseteq> lower_char ` set g" using set_mono_sublist [of w "py_lower g"] by (simp add: py_contains_sublist py_lower_def)
  then show ?thesis unfolding py_lower_def by (intro map_idI) (auto simp: lower_char_idem)
qed

text \<open>
  A keyword of a route behind \<open>us\<close> can select its agent only when it is in lower case and no keyword of an earlier route
  occurs in it.
\<close>

definition live_keyword :: "agent_route list \<Rightarrow> string \<Rightarrow> bool" where
  "live_keyword us kw \<longleftrightarrow> py_lower kw = kw \<and> \<not> list_ex (\<lambda>u. list_ex (\<lambda>k. k \<noteq> [] \<and> word_search k kw) (art_keywords u)) us"

text \<open>
  C34 (dead_keywords): A keyword with a capital letter, and a keyword in which a keyword of an earlier route occurs as
  words, never selects an agent: without it the router finds the same agent for every goal, or none as before.
\<close>

theorem dead_keywords:
  "map_option art_agent_name (keyword_route (us @ r # vs) (py_lower goal)) =
   map_option art_agent_name
     (keyword_route (us @ r\<lparr>art_keywords := filter (live_keyword us) (art_keywords r)\<rparr> # vs) (py_lower goal))"
proof (cases "\<exists>u\<in>set us. \<exists>k\<in>set (art_keywords u). word_search k (py_lower goal)")
  case True
  then have "find (\<lambda>r. list_ex (\<lambda>kw. word_search kw (py_lower goal)) (art_keywords r)) us \<noteq> None"
    by (auto simp: find_None_iff list_ex_iff)
  then obtain q where "find (\<lambda>r. list_ex (\<lambda>kw. word_search kw (py_lower goal)) (art_keywords r)) us = Some q" by blast
  then have "find (\<lambda>r. list_ex (\<lambda>kw. word_search kw (py_lower goal)) (art_keywords r)) (us @ ws) = Some q" for ws
    by (rule find_Some_prefix) simp
  then show ?thesis by (simp add: keyword_route_def)
next
  case False
  have "live_keyword us kw" if kw: "word_search kw (py_lower goal)" for kw
  proof -
    have "\<not> word_search k kw" if "u \<in> set us" "k \<in> set (art_keywords u)" "k \<noteq> []" for u k
      using False that word_search_trans [OF _ kw] by blast
    then show ?thesis using contains_lowered [OF word_search_contains [OF kw]] by (auto simp: live_keyword_def list_ex_iff)
  qed
  then have "list_ex (\<lambda>kw. word_search kw (py_lower goal)) (filter (live_keyword us) (art_keywords r)) =
      list_ex (\<lambda>kw. word_search kw (py_lower goal)) (art_keywords r)"
    by (auto simp: list_ex_iff)
  moreover have "\<forall>u\<in>set us. \<not> list_ex (\<lambda>kw. word_search kw (py_lower goal)) (art_keywords u)"
    using False by (auto simp: list_ex_iff)
  ultimately show ?thesis by (simp add: keyword_route_def find_skip)
qed

end
