(* ===== verification/Agent_Playbooks.thy ===== *)
theory Agent_Playbooks
  imports Agent_Router
begin

text \<open>
  What the compiler of chains does on the routing table of the program: the names of its agents are pairwise different
  without regard to case, so that a name addresses its agent, the agents of every playbook are registered, and arrows
  and decomposed goals give the agents they name. The names are checked by evaluation.
\<close>

section \<open>Letters and digits\<close>

lemma lower_chars:
    "lower_char (CHR ''A'') = CHR ''a''" "lower_char (CHR ''B'') = CHR ''b''" "lower_char (CHR ''C'') = CHR ''c''"
    "lower_char (CHR ''D'') = CHR ''d''" "lower_char (CHR ''E'') = CHR ''e''" "lower_char (CHR ''F'') = CHR ''f''"
    "lower_char (CHR ''G'') = CHR ''g''" "lower_char (CHR ''H'') = CHR ''h''" "lower_char (CHR ''I'') = CHR ''i''"
    "lower_char (CHR ''J'') = CHR ''j''" "lower_char (CHR ''K'') = CHR ''k''" "lower_char (CHR ''L'') = CHR ''l''"
    "lower_char (CHR ''M'') = CHR ''m''" "lower_char (CHR ''N'') = CHR ''n''" "lower_char (CHR ''O'') = CHR ''o''"
    "lower_char (CHR ''P'') = CHR ''p''" "lower_char (CHR ''Q'') = CHR ''q''" "lower_char (CHR ''R'') = CHR ''r''"
    "lower_char (CHR ''S'') = CHR ''s''" "lower_char (CHR ''T'') = CHR ''t''" "lower_char (CHR ''U'') = CHR ''u''"
    "lower_char (CHR ''V'') = CHR ''v''" "lower_char (CHR ''W'') = CHR ''w''" "lower_char (CHR ''X'') = CHR ''x''"
    "lower_char (CHR ''Y'') = CHR ''y''" "lower_char (CHR ''Z'') = CHR ''z''" "lower_char (CHR ''a'') = CHR ''a''"
    "lower_char (CHR ''b'') = CHR ''b''" "lower_char (CHR ''c'') = CHR ''c''" "lower_char (CHR ''d'') = CHR ''d''"
    "lower_char (CHR ''e'') = CHR ''e''" "lower_char (CHR ''f'') = CHR ''f''" "lower_char (CHR ''g'') = CHR ''g''"
    "lower_char (CHR ''h'') = CHR ''h''" "lower_char (CHR ''i'') = CHR ''i''" "lower_char (CHR ''j'') = CHR ''j''"
    "lower_char (CHR ''k'') = CHR ''k''" "lower_char (CHR ''l'') = CHR ''l''" "lower_char (CHR ''m'') = CHR ''m''"
    "lower_char (CHR ''n'') = CHR ''n''" "lower_char (CHR ''o'') = CHR ''o''" "lower_char (CHR ''p'') = CHR ''p''"
    "lower_char (CHR ''q'') = CHR ''q''" "lower_char (CHR ''r'') = CHR ''r''" "lower_char (CHR ''s'') = CHR ''s''"
    "lower_char (CHR ''t'') = CHR ''t''" "lower_char (CHR ''u'') = CHR ''u''" "lower_char (CHR ''v'') = CHR ''v''"
    "lower_char (CHR ''w'') = CHR ''w''" "lower_char (CHR ''x'') = CHR ''x''" "lower_char (CHR ''y'') = CHR ''y''"
    "lower_char (CHR ''z'') = CHR ''z''" "lower_char (CHR ''0'') = CHR ''0''" "lower_char (CHR ''1'') = CHR ''1''"
    "lower_char (CHR ''2'') = CHR ''2''" "lower_char (CHR ''3'') = CHR ''3''" "lower_char (CHR ''4'') = CHR ''4''"
    "lower_char (CHR ''5'') = CHR ''5''" "lower_char (CHR ''6'') = CHR ''6''" "lower_char (CHR ''7'') = CHR ''7''"
    "lower_char (CHR ''8'') = CHR ''8''" "lower_char (CHR ''9'') = CHR ''9''"
  by code_simp+

lemma space_chars:
    "is_py_space (CHR ''A'') = False" "is_py_space (CHR ''B'') = False" "is_py_space (CHR ''C'') = False"
    "is_py_space (CHR ''D'') = False" "is_py_space (CHR ''E'') = False" "is_py_space (CHR ''F'') = False"
    "is_py_space (CHR ''G'') = False" "is_py_space (CHR ''H'') = False" "is_py_space (CHR ''I'') = False"
    "is_py_space (CHR ''J'') = False" "is_py_space (CHR ''K'') = False" "is_py_space (CHR ''L'') = False"
    "is_py_space (CHR ''M'') = False" "is_py_space (CHR ''N'') = False" "is_py_space (CHR ''O'') = False"
    "is_py_space (CHR ''P'') = False" "is_py_space (CHR ''Q'') = False" "is_py_space (CHR ''R'') = False"
    "is_py_space (CHR ''S'') = False" "is_py_space (CHR ''T'') = False" "is_py_space (CHR ''U'') = False"
    "is_py_space (CHR ''V'') = False" "is_py_space (CHR ''W'') = False" "is_py_space (CHR ''X'') = False"
    "is_py_space (CHR ''Y'') = False" "is_py_space (CHR ''Z'') = False" "is_py_space (CHR ''a'') = False"
    "is_py_space (CHR ''b'') = False" "is_py_space (CHR ''c'') = False" "is_py_space (CHR ''d'') = False"
    "is_py_space (CHR ''e'') = False" "is_py_space (CHR ''f'') = False" "is_py_space (CHR ''g'') = False"
    "is_py_space (CHR ''h'') = False" "is_py_space (CHR ''i'') = False" "is_py_space (CHR ''j'') = False"
    "is_py_space (CHR ''k'') = False" "is_py_space (CHR ''l'') = False" "is_py_space (CHR ''m'') = False"
    "is_py_space (CHR ''n'') = False" "is_py_space (CHR ''o'') = False" "is_py_space (CHR ''p'') = False"
    "is_py_space (CHR ''q'') = False" "is_py_space (CHR ''r'') = False" "is_py_space (CHR ''s'') = False"
    "is_py_space (CHR ''t'') = False" "is_py_space (CHR ''u'') = False" "is_py_space (CHR ''v'') = False"
    "is_py_space (CHR ''w'') = False" "is_py_space (CHR ''x'') = False" "is_py_space (CHR ''y'') = False"
    "is_py_space (CHR ''z'') = False" "is_py_space (CHR ''0'') = False" "is_py_space (CHR ''1'') = False"
    "is_py_space (CHR ''2'') = False" "is_py_space (CHR ''3'') = False" "is_py_space (CHR ''4'') = False"
    "is_py_space (CHR ''5'') = False" "is_py_space (CHR ''6'') = False" "is_py_space (CHR ''7'') = False"
    "is_py_space (CHR ''8'') = False" "is_py_space (CHR ''9'') = False"
  by (simp_all add: is_py_space_def)

lemma word_chars:
    "is_word_char (CHR ''a'') = True" "is_word_char (CHR ''b'') = True" "is_word_char (CHR ''c'') = True"
    "is_word_char (CHR ''d'') = True" "is_word_char (CHR ''e'') = True" "is_word_char (CHR ''f'') = True"
    "is_word_char (CHR ''g'') = True" "is_word_char (CHR ''h'') = True" "is_word_char (CHR ''i'') = True"
    "is_word_char (CHR ''j'') = True" "is_word_char (CHR ''k'') = True" "is_word_char (CHR ''l'') = True"
    "is_word_char (CHR ''m'') = True" "is_word_char (CHR ''n'') = True" "is_word_char (CHR ''o'') = True"
    "is_word_char (CHR ''p'') = True" "is_word_char (CHR ''q'') = True" "is_word_char (CHR ''r'') = True"
    "is_word_char (CHR ''s'') = True" "is_word_char (CHR ''t'') = True" "is_word_char (CHR ''u'') = True"
    "is_word_char (CHR ''v'') = True" "is_word_char (CHR ''w'') = True" "is_word_char (CHR ''x'') = True"
    "is_word_char (CHR ''y'') = True" "is_word_char (CHR ''z'') = True" "is_word_char (CHR ''0'') = True"
    "is_word_char (CHR ''1'') = True" "is_word_char (CHR ''2'') = True" "is_word_char (CHR ''3'') = True"
    "is_word_char (CHR ''4'') = True" "is_word_char (CHR ''5'') = True" "is_word_char (CHR ''6'') = True"
    "is_word_char (CHR ''7'') = True" "is_word_char (CHR ''8'') = True" "is_word_char (CHR ''9'') = True"
  by (simp_all add: is_word_char_def)

section \<open>The names of the table\<close>

text \<open>The names the table registers, in its order, and their order as strings.\<close>

definition route_names :: "string list" where
  "route_names =
    [''PiGitSecScanner'', ''PiPromptLeakBuster'', ''NicheCurationPipelineChain'', ''PiPublisherDispatch'',
     ''PiMempoolSentry'', ''PiArbitrageGuard'', ''PiOracleSentry'', ''PiSelfHealingPatchAgent'',
     ''PiReentrancySentry'', ''PiAccessControlVerifier'', ''PiFlashLoanDefender'', ''PiArithmeticAuditor'',
     ''PiDelegateCallGuard'', ''PiSignatureReplayScout'', ''PiBytecodeDecompiler'', ''PiVyperSecScanner'',
     ''PiSelfDestructHunter'', ''PiOracleDivergenceAudit'', ''PiTokenTaxDetector'', ''PiTxOriginSentry'',
     ''PiReadOnlyReentrancySentry'', ''PiUninitializedStateSentry'', ''PiShadowedVariableDetector'',
     ''PiBlockTimestampSentry'', ''PiStorageLayoutDrift'', ''PiERC4626VaultGuard'', ''PiCrossChainBridgeAuditor'',
     ''PiGasGuzzlerDetector'', ''PiAssemblyLethalWeapons'', ''PiLogicGatekeeper'', ''PiPhishingShield'',
     ''PiExternalContractGuard'', ''PiCentralizationSentry'', ''PiFloatingPragmaSentry'', ''PiUpgradeDefectDetector'',
     ''PiDoSGasLimitsSentry'', ''PiDeFiSlippageGuard'', ''PiReentrancyGuardSpec'', ''PiUniswapV3PoolSentry'',
     ''PiSandwichMEVShield'', ''PiSolidityCompilerBugsSentry'', ''PiAccessControlShadow'',
     ''PiLLMHallucinationDetector'', ''PiERC20PermitPhishingGuard'', ''PiSolidityReentrancyMutexSentry'',
     ''PiDeFiMathRoundingSentry'', ''PiCrossChainMessageReplaySentry'', ''PiSolidityTransientStorageSentry'',
     ''PiEIP712SignatureLinter'', ''PiReadOnlyOracleManipulationSentry'', ''PiRustAnchorSecuritySentry'',
     ''PiEIP4337AccountAbstractionSentry'', ''PiZeroKnowledgeCircuitSentry'', ''PiERC7702DelegationGuard'',
     ''PiLLMPromptInjectionSentry'', ''PiVyperStateLockSentry'', ''PiSolidityUpgradeableInitializerSentry'',
     ''PiVyperExternalCallSentry'', ''PiSoliditySignatureMalleabilitySentry'', ''PiZKCircomDivisionSentry'',
     ''PiEIP712DomainSeparatorSentry'', ''PiSolidityArbitraryTransferSentry'',
     ''PiSolidityDelegatecallStorageSentry'', ''PiSolidityOracleLivenessSentry'', ''PiLLMSystemPromptDriftSentry'',
     ''PiSolidityDirtyMemorySentry'', ''PiSolidityERC7702CodeSentry'', ''PiSolidityTransientStorageReentrancySentry'',
     ''PiSolidityL2GasFeeSentry'', ''PiZKCircomUnderconstrainedSentry'', ''PiRustSolanaReentrancySentry'',
     ''PiSolidityPriceFeedSequencerSentry'', ''PiSolidityERC20TransferRecipientSentry'',
     ''PiSolidityEIP712TypehashMismatchSentry'', ''PiSolidityCreate2SaltCollisionSentry'',
     ''PiSolidityArrayLengthSentry'', ''PiLLMPromptInjectionNegativeConstraintSentry'',
     ''PiSolidityDelegateCallToSelfSentry'', ''PiSolidityBlockTimestampIntervalSentry'',
     ''PiSolidityAssemblyMemorySafeSentry'', ''PiRustSolanaSignerAssertionSentry'', ''PiZKCircomShadowSignalSentry'',
     ''PiSolidityPriceFeedFallbackSentry'', ''PiVyperStorageLayoutCollisionSentry'',
     ''PiLLMPromptInjectionSystemPromptOverrideSentry'', ''PiDockerComposeSecuritySentry'', ''PiGitSecretLeakSentry'',
     ''PiRustTuiResourceLimit'', ''PiGrpcProtocolInterceptor'', ''PiDeterministicOutputValid'',
     ''PiZeroTrustExecutionDomain'', ''PiSolidityFlashLoanAttack'', ''PiZKProofPublicInputVerif'',
     ''PiAdversarialEvaluatorSim'', ''PiRustTokioDeadlockSentry'', ''PiApiReverseEngineeredAuth'',
     ''PiSemanticSchemaRegistry'', ''PiSolidityReentrancyGuardOverlapSentry'', ''PiSolidityTxOriginCallCheckSentry'',
     ''PiSolidityArrayLengthMutationSentry'', ''PiSolidityExternalContractsReturnCheck'',
     ''PiSolidityUnboundedLoopsInStateMutation'', ''PiSolidityDivideBeforeMultiplyAuditor'',
     ''PiSolidityInitializableGapSentry'', ''PiSoliditySelfdestructCodeEraseSentry'',
     ''PiSoliditySignatureOmittedReplaySentry'', ''PiSolidityOwnerTimelockSentry'',
     ''PiSolidityERC20SafeApproveAuditor'', ''PiSolidityUndeclaredReturnVariableSentry'',
     ''PiSolidityYulMemoryOffsetAudit'', ''PiSolidityProxyCallTargetCheck'', ''PiSolidityConstantPragmaValidation'',
     ''PiRustSolanaAccountDataValidation'', ''PiRustSolanaMissingSignerAssert'',
     ''PiRustSolanaArithmeticOverflowCheck'', ''PiRustSolanaOwnerVerificationGuard'',
     ''PiRustSolanaCPIInstructionSentry'', ''PiRustSolanaBorshSerializationLeak'',
     ''PiRustSolanaReentrancyCrossProgramSentry'', ''PiRustSolanaSysvarClockVerification'',
     ''PiZKSignalUnconstrainedConstraint'', ''PiZKDivByZeroConstraintAuditor'', ''PiZKSignalShadowingSignalSentry'',
     ''PiZKPublicInputLeakageAuditor'', ''PiZKNonPrimeFieldRangeSentry'', ''PiZKUnusedConstraintVariables'',
     ''PiZKProofForgingValidationSentry'', ''PiLLMSystemPromptHijackSentry'', ''PiLLMPairwiseAdversarialValidator'',
     ''PiLLMNegativeConstraintEvasion'', ''PiLLMBase64EncodingDeobfuscator'', ''PiLLMChainOfThoughtBypassSentry'',
     ''PiLLMPromptEgressLeakDetector'', ''PiLLMContextWindowDriftSentry'', ''PiLLMRecursiveRefinementJailbreak'',
     ''PiDockerSocketPrivilegeSentry'', ''PiKubernetesRootExecutionLinter'', ''PiGitSecretEntropyLeakSentry'',
     ''PiDockerComposePortExposureSentry'', ''PiGithubActionsUnpinnedVersion'', ''PiTerraformStateCredentialSentry'',
     ''PiNginxReverseProxyHeaderSentry'', ''PiDatabaseMigrationUnindexedSentry'', ''PiApiAuthJWTNoneAlgorithmSentry'',
     ''PiSemanticSchemaDynamicFieldCheck'', ''PiApiAuthHardcodedTokenSentry'', ''PiGrpcWireProtocolInsecureSentry'',
     ''PiConstantTimeAuditor'', ''PiMemoryZeroizeSentry'', ''PiDimensionalAnalysisSentry'',
     ''PiAgentToolExecutionGuard'', ''PiHotPathAllocationAuditor'', ''PiCavemanTokenCompressor'',
     ''PiGrillMeQuestionnaire'', ''PiHandoffCheckpointSentry'', ''PiToPrdValidator'', ''PiToIssuesBreakdown'',
     ''PiTriageBugLabels'', ''PiZoomOutSystemExplainer'', ''PiDesignAnInterfaceValidator'',
     ''PiRequestRefactorPlanVerifier'', ''PiTddTestFileVerifier'', ''PiTddAssertionCoverage'',
     ''PiTddMockingSanityChecker'', ''PiGitSafetyGuardrail'', ''PiTypeScriptWizardryCheck'',
     ''PiArchitectureImportBoundarySentry'', ''PiDepreciationScanner'', ''PiDeadCodePruner'',
     ''PiMockDataTaintingSentry'', ''PiReadmeValidator'', ''PiChangelogAuditor'', ''PiAstDepthGuard'',
     ''PiUncontrolledRecursionSentry'', ''PiMagicNumberScanner'', ''PiErrorHandlingCatchAllGuard'',
     ''PiSemanticCommitMessageLinter'', ''PiWebVulnScanner'', ''PiDeploymentSafetyGuard'',
     ''PiPipelineIntegrityAuditor'', ''PiCloudCostAnalyzer'', ''PiIdleResourceSentry'', ''PiBudgetAnomalyGuard'',
     ''PiAPIRateLimitSentry'', ''PiEndpointAbuseGuard'', ''PiSlowQueryDetector'', ''PiSQLInjectionSentry'',
     ''PiIndexRecommendationEngine'', ''PiDockerImageScanner'', ''PiContainerEscapeDetector'',
     ''PiNPMDependencyVulnScanner'', ''PiTreeShakingOptimizer'', ''PiLLMOutputSanitizer'',
     ''PiDataFlowPrivacyMapper'', ''PiSensitiveDataScanner'', ''PiAutomatedAnonymizer'', ''PiSensitiveLogLeakSentry'',
     ''PiStructuredLoggingEnforcer'', ''PiIAMOverPermissionSentry'', ''PiLeastPrivilegeRemediator'',
     ''PiDocsOutdatedChecker'', ''PiAutoDocsGenerator'', ''PiMemoryLeakDetector'', ''PiBottleneckOptimizer'',
     ''PiMobilePermissionSentry'', ''PiAppDataLeakDetector'', ''PiRuntimeHardeningGuard'', ''PiNetworkTrafficSentry'',
     ''PiDDoSPatternDetector'', ''PiTrafficOptimizer'', ''PiBackupIntegritySentry'', ''PiRecoveryTimeAuditor'',
     ''PiAutomatedRestoreTester'', ''PiAccessibilityScanner'', ''PiContrastRatioAuditor'',
     ''PiAutoRemediationEngine'', ''PiHardcodedSecretDetector'', ''PiAutomatedRotationEngine'',
     ''PiTerraformDriftDetector'', ''PiInfrastructureComplianceAuditor'', ''PiLighthouseAuditor'',
     ''PiBundleSizeSentry'', ''PiCoreWebVitalsOptimizer'', ''PiIaCScanner'', ''PiDependencyVulnScanner'',
     ''PiCloudConfigAuditor'', ''PiRBACPermissionMapper'', ''PiEncryptionComplianceChecker'', ''PiSBOMValidator'',
     ''PiSupplyChainIntegrityChecker'', ''PiAPIOWASPScanner'', ''PiKubernetesSecurityAuditor'',
     ''PiZeroTrustVerifier'', ''PiCertificateRotationWatcher'', ''PiFirewallRuleAuditor'',
     ''PiBackupIntegrityChecker'', ''PiAuditLogTamperDetector'', ''PiMisconfigPatternMatcher'',
     ''PiThreatModelGenerator'', ''PiSecretsManagerCompletenessChecker'', ''PiCodeSigningEnforcer'',
     ''PiDataRetentionPolicyEnforcer'', ''PiRuntimeAnomalySentry'', ''PiHipaaComplianceAuditor'', ''PiPciDssAuditor'',
     ''PiMobileSecurityAuditor'', ''PiBotDetectionEvasionSentry'', ''PiSshCertificateSecurityAuditor'']"

definition lower_names :: "string list" where
  "lower_names =
    [''pigitsecscanner'', ''pipromptleakbuster'', ''nichecurationpipelinechain'', ''pipublisherdispatch'',
     ''pimempoolsentry'', ''piarbitrageguard'', ''pioraclesentry'', ''piselfhealingpatchagent'',
     ''pireentrancysentry'', ''piaccesscontrolverifier'', ''piflashloandefender'', ''piarithmeticauditor'',
     ''pidelegatecallguard'', ''pisignaturereplayscout'', ''pibytecodedecompiler'', ''pivypersecscanner'',
     ''piselfdestructhunter'', ''pioracledivergenceaudit'', ''pitokentaxdetector'', ''pitxoriginsentry'',
     ''pireadonlyreentrancysentry'', ''piuninitializedstatesentry'', ''pishadowedvariabledetector'',
     ''piblocktimestampsentry'', ''pistoragelayoutdrift'', ''pierc4626vaultguard'', ''picrosschainbridgeauditor'',
     ''pigasguzzlerdetector'', ''piassemblylethalweapons'', ''pilogicgatekeeper'', ''piphishingshield'',
     ''piexternalcontractguard'', ''picentralizationsentry'', ''pifloatingpragmasentry'', ''piupgradedefectdetector'',
     ''pidosgaslimitssentry'', ''pidefislippageguard'', ''pireentrancyguardspec'', ''piuniswapv3poolsentry'',
     ''pisandwichmevshield'', ''pisoliditycompilerbugssentry'', ''piaccesscontrolshadow'',
     ''pillmhallucinationdetector'', ''pierc20permitphishingguard'', ''pisolidityreentrancymutexsentry'',
     ''pidefimathroundingsentry'', ''picrosschainmessagereplaysentry'', ''pisoliditytransientstoragesentry'',
     ''pieip712signaturelinter'', ''pireadonlyoraclemanipulationsentry'', ''pirustanchorsecuritysentry'',
     ''pieip4337accountabstractionsentry'', ''pizeroknowledgecircuitsentry'', ''pierc7702delegationguard'',
     ''pillmpromptinjectionsentry'', ''pivyperstatelocksentry'', ''pisolidityupgradeableinitializersentry'',
     ''pivyperexternalcallsentry'', ''pisoliditysignaturemalleabilitysentry'', ''pizkcircomdivisionsentry'',
     ''pieip712domainseparatorsentry'', ''pisolidityarbitrarytransfersentry'',
     ''pisoliditydelegatecallstoragesentry'', ''pisolidityoraclelivenesssentry'', ''pillmsystempromptdriftsentry'',
     ''pisoliditydirtymemorysentry'', ''pisolidityerc7702codesentry'', ''pisoliditytransientstoragereentrancysentry'',
     ''pisolidityl2gasfeesentry'', ''pizkcircomunderconstrainedsentry'', ''pirustsolanareentrancysentry'',
     ''pisoliditypricefeedsequencersentry'', ''pisolidityerc20transferrecipientsentry'',
     ''pisolidityeip712typehashmismatchsentry'', ''pisoliditycreate2saltcollisionsentry'',
     ''pisolidityarraylengthsentry'', ''pillmpromptinjectionnegativeconstraintsentry'',
     ''pisoliditydelegatecalltoselfsentry'', ''pisolidityblocktimestampintervalsentry'',
     ''pisolidityassemblymemorysafesentry'', ''pirustsolanasignerassertionsentry'', ''pizkcircomshadowsignalsentry'',
     ''pisoliditypricefeedfallbacksentry'', ''pivyperstoragelayoutcollisionsentry'',
     ''pillmpromptinjectionsystempromptoverridesentry'', ''pidockercomposesecuritysentry'', ''pigitsecretleaksentry'',
     ''pirusttuiresourcelimit'', ''pigrpcprotocolinterceptor'', ''pideterministicoutputvalid'',
     ''pizerotrustexecutiondomain'', ''pisolidityflashloanattack'', ''pizkproofpublicinputverif'',
     ''piadversarialevaluatorsim'', ''pirusttokiodeadlocksentry'', ''piapireverseengineeredauth'',
     ''pisemanticschemaregistry'', ''pisolidityreentrancyguardoverlapsentry'', ''pisoliditytxorigincallchecksentry'',
     ''pisolidityarraylengthmutationsentry'', ''pisolidityexternalcontractsreturncheck'',
     ''pisolidityunboundedloopsinstatemutation'', ''pisoliditydividebeforemultiplyauditor'',
     ''pisolidityinitializablegapsentry'', ''pisolidityselfdestructcodeerasesentry'',
     ''pisoliditysignatureomittedreplaysentry'', ''pisolidityownertimelocksentry'',
     ''pisolidityerc20safeapproveauditor'', ''pisolidityundeclaredreturnvariablesentry'',
     ''pisolidityyulmemoryoffsetaudit'', ''pisolidityproxycalltargetcheck'', ''pisolidityconstantpragmavalidation'',
     ''pirustsolanaaccountdatavalidation'', ''pirustsolanamissingsignerassert'',
     ''pirustsolanaarithmeticoverflowcheck'', ''pirustsolanaownerverificationguard'',
     ''pirustsolanacpiinstructionsentry'', ''pirustsolanaborshserializationleak'',
     ''pirustsolanareentrancycrossprogramsentry'', ''pirustsolanasysvarclockverification'',
     ''pizksignalunconstrainedconstraint'', ''pizkdivbyzeroconstraintauditor'', ''pizksignalshadowingsignalsentry'',
     ''pizkpublicinputleakageauditor'', ''pizknonprimefieldrangesentry'', ''pizkunusedconstraintvariables'',
     ''pizkproofforgingvalidationsentry'', ''pillmsystemprompthijacksentry'', ''pillmpairwiseadversarialvalidator'',
     ''pillmnegativeconstraintevasion'', ''pillmbase64encodingdeobfuscator'', ''pillmchainofthoughtbypasssentry'',
     ''pillmpromptegressleakdetector'', ''pillmcontextwindowdriftsentry'', ''pillmrecursiverefinementjailbreak'',
     ''pidockersocketprivilegesentry'', ''pikubernetesrootexecutionlinter'', ''pigitsecretentropyleaksentry'',
     ''pidockercomposeportexposuresentry'', ''pigithubactionsunpinnedversion'', ''piterraformstatecredentialsentry'',
     ''pinginxreverseproxyheadersentry'', ''pidatabasemigrationunindexedsentry'', ''piapiauthjwtnonealgorithmsentry'',
     ''pisemanticschemadynamicfieldcheck'', ''piapiauthhardcodedtokensentry'', ''pigrpcwireprotocolinsecuresentry'',
     ''piconstanttimeauditor'', ''pimemoryzeroizesentry'', ''pidimensionalanalysissentry'',
     ''piagenttoolexecutionguard'', ''pihotpathallocationauditor'', ''picavemantokencompressor'',
     ''pigrillmequestionnaire'', ''pihandoffcheckpointsentry'', ''pitoprdvalidator'', ''pitoissuesbreakdown'',
     ''pitriagebuglabels'', ''pizoomoutsystemexplainer'', ''pidesignaninterfacevalidator'',
     ''pirequestrefactorplanverifier'', ''pitddtestfileverifier'', ''pitddassertioncoverage'',
     ''pitddmockingsanitychecker'', ''pigitsafetyguardrail'', ''pitypescriptwizardrycheck'',
     ''piarchitectureimportboundarysentry'', ''pidepreciationscanner'', ''pideadcodepruner'',
     ''pimockdatataintingsentry'', ''pireadmevalidator'', ''pichangelogauditor'', ''piastdepthguard'',
     ''piuncontrolledrecursionsentry'', ''pimagicnumberscanner'', ''pierrorhandlingcatchallguard'',
     ''pisemanticcommitmessagelinter'', ''piwebvulnscanner'', ''pideploymentsafetyguard'',
     ''pipipelineintegrityauditor'', ''picloudcostanalyzer'', ''piidleresourcesentry'', ''pibudgetanomalyguard'',
     ''piapiratelimitsentry'', ''piendpointabuseguard'', ''pislowquerydetector'', ''pisqlinjectionsentry'',
     ''piindexrecommendationengine'', ''pidockerimagescanner'', ''picontainerescapedetector'',
     ''pinpmdependencyvulnscanner'', ''pitreeshakingoptimizer'', ''pillmoutputsanitizer'',
     ''pidataflowprivacymapper'', ''pisensitivedatascanner'', ''piautomatedanonymizer'', ''pisensitivelogleaksentry'',
     ''pistructuredloggingenforcer'', ''piiamoverpermissionsentry'', ''pileastprivilegeremediator'',
     ''pidocsoutdatedchecker'', ''piautodocsgenerator'', ''pimemoryleakdetector'', ''pibottleneckoptimizer'',
     ''pimobilepermissionsentry'', ''piappdataleakdetector'', ''piruntimehardeningguard'', ''pinetworktrafficsentry'',
     ''piddospatterndetector'', ''pitrafficoptimizer'', ''pibackupintegritysentry'', ''pirecoverytimeauditor'',
     ''piautomatedrestoretester'', ''piaccessibilityscanner'', ''picontrastratioauditor'',
     ''piautoremediationengine'', ''pihardcodedsecretdetector'', ''piautomatedrotationengine'',
     ''piterraformdriftdetector'', ''piinfrastructurecomplianceauditor'', ''pilighthouseauditor'',
     ''pibundlesizesentry'', ''picorewebvitalsoptimizer'', ''piiacscanner'', ''pidependencyvulnscanner'',
     ''picloudconfigauditor'', ''pirbacpermissionmapper'', ''piencryptioncompliancechecker'', ''pisbomvalidator'',
     ''pisupplychainintegritychecker'', ''piapiowaspscanner'', ''pikubernetessecurityauditor'',
     ''pizerotrustverifier'', ''picertificaterotationwatcher'', ''pifirewallruleauditor'',
     ''pibackupintegritychecker'', ''piauditlogtamperdetector'', ''pimisconfigpatternmatcher'',
     ''pithreatmodelgenerator'', ''pisecretsmanagercompletenesschecker'', ''picodesigningenforcer'',
     ''pidataretentionpolicyenforcer'', ''piruntimeanomalysentry'', ''pihipaacomplianceauditor'', ''pipcidssauditor'',
     ''pimobilesecurityauditor'', ''pibotdetectionevasionsentry'', ''pisshcertificatesecurityauditor'']"

definition sorted_names :: "string list" where
  "sorted_names =
    [''nichecurationpipelinechain'', ''piaccesscontrolshadow'', ''piaccesscontrolverifier'',
     ''piaccessibilityscanner'', ''piadversarialevaluatorsim'', ''piagenttoolexecutionguard'',
     ''piapiauthhardcodedtokensentry'', ''piapiauthjwtnonealgorithmsentry'', ''piapiowaspscanner'',
     ''piapiratelimitsentry'', ''piapireverseengineeredauth'', ''piappdataleakdetector'', ''piarbitrageguard'',
     ''piarchitectureimportboundarysentry'', ''piarithmeticauditor'', ''piassemblylethalweapons'',
     ''piastdepthguard'', ''piauditlogtamperdetector'', ''piautodocsgenerator'', ''piautomatedanonymizer'',
     ''piautomatedrestoretester'', ''piautomatedrotationengine'', ''piautoremediationengine'',
     ''pibackupintegritychecker'', ''pibackupintegritysentry'', ''piblocktimestampsentry'',
     ''pibotdetectionevasionsentry'', ''pibottleneckoptimizer'', ''pibudgetanomalyguard'', ''pibundlesizesentry'',
     ''pibytecodedecompiler'', ''picavemantokencompressor'', ''picentralizationsentry'',
     ''picertificaterotationwatcher'', ''pichangelogauditor'', ''picloudconfigauditor'', ''picloudcostanalyzer'',
     ''picodesigningenforcer'', ''piconstanttimeauditor'', ''picontainerescapedetector'', ''picontrastratioauditor'',
     ''picorewebvitalsoptimizer'', ''picrosschainbridgeauditor'', ''picrosschainmessagereplaysentry'',
     ''pidatabasemigrationunindexedsentry'', ''pidataflowprivacymapper'', ''pidataretentionpolicyenforcer'',
     ''piddospatterndetector'', ''pideadcodepruner'', ''pidefimathroundingsentry'', ''pidefislippageguard'',
     ''pidelegatecallguard'', ''pidependencyvulnscanner'', ''pideploymentsafetyguard'', ''pidepreciationscanner'',
     ''pidesignaninterfacevalidator'', ''pideterministicoutputvalid'', ''pidimensionalanalysissentry'',
     ''pidockercomposeportexposuresentry'', ''pidockercomposesecuritysentry'', ''pidockerimagescanner'',
     ''pidockersocketprivilegesentry'', ''pidocsoutdatedchecker'', ''pidosgaslimitssentry'',
     ''pieip4337accountabstractionsentry'', ''pieip712domainseparatorsentry'', ''pieip712signaturelinter'',
     ''piencryptioncompliancechecker'', ''piendpointabuseguard'', ''pierc20permitphishingguard'',
     ''pierc4626vaultguard'', ''pierc7702delegationguard'', ''pierrorhandlingcatchallguard'',
     ''piexternalcontractguard'', ''pifirewallruleauditor'', ''piflashloandefender'', ''pifloatingpragmasentry'',
     ''pigasguzzlerdetector'', ''pigithubactionsunpinnedversion'', ''pigitsafetyguardrail'',
     ''pigitsecretentropyleaksentry'', ''pigitsecretleaksentry'', ''pigitsecscanner'', ''pigrillmequestionnaire'',
     ''pigrpcprotocolinterceptor'', ''pigrpcwireprotocolinsecuresentry'', ''pihandoffcheckpointsentry'',
     ''pihardcodedsecretdetector'', ''pihipaacomplianceauditor'', ''pihotpathallocationauditor'', ''piiacscanner'',
     ''piiamoverpermissionsentry'', ''piidleresourcesentry'', ''piindexrecommendationengine'',
     ''piinfrastructurecomplianceauditor'', ''pikubernetesrootexecutionlinter'', ''pikubernetessecurityauditor'',
     ''pileastprivilegeremediator'', ''pilighthouseauditor'', ''pillmbase64encodingdeobfuscator'',
     ''pillmchainofthoughtbypasssentry'', ''pillmcontextwindowdriftsentry'', ''pillmhallucinationdetector'',
     ''pillmnegativeconstraintevasion'', ''pillmoutputsanitizer'', ''pillmpairwiseadversarialvalidator'',
     ''pillmpromptegressleakdetector'', ''pillmpromptinjectionnegativeconstraintsentry'',
     ''pillmpromptinjectionsentry'', ''pillmpromptinjectionsystempromptoverridesentry'',
     ''pillmrecursiverefinementjailbreak'', ''pillmsystempromptdriftsentry'', ''pillmsystemprompthijacksentry'',
     ''pilogicgatekeeper'', ''pimagicnumberscanner'', ''pimemoryleakdetector'', ''pimemoryzeroizesentry'',
     ''pimempoolsentry'', ''pimisconfigpatternmatcher'', ''pimobilepermissionsentry'', ''pimobilesecurityauditor'',
     ''pimockdatataintingsentry'', ''pinetworktrafficsentry'', ''pinginxreverseproxyheadersentry'',
     ''pinpmdependencyvulnscanner'', ''pioracledivergenceaudit'', ''pioraclesentry'', ''pipcidssauditor'',
     ''piphishingshield'', ''pipipelineintegrityauditor'', ''pipromptleakbuster'', ''pipublisherdispatch'',
     ''pirbacpermissionmapper'', ''pireadmevalidator'', ''pireadonlyoraclemanipulationsentry'',
     ''pireadonlyreentrancysentry'', ''pirecoverytimeauditor'', ''pireentrancyguardspec'', ''pireentrancysentry'',
     ''pirequestrefactorplanverifier'', ''piruntimeanomalysentry'', ''piruntimehardeningguard'',
     ''pirustanchorsecuritysentry'', ''pirustsolanaaccountdatavalidation'', ''pirustsolanaarithmeticoverflowcheck'',
     ''pirustsolanaborshserializationleak'', ''pirustsolanacpiinstructionsentry'',
     ''pirustsolanamissingsignerassert'', ''pirustsolanaownerverificationguard'',
     ''pirustsolanareentrancycrossprogramsentry'', ''pirustsolanareentrancysentry'',
     ''pirustsolanasignerassertionsentry'', ''pirustsolanasysvarclockverification'', ''pirusttokiodeadlocksentry'',
     ''pirusttuiresourcelimit'', ''pisandwichmevshield'', ''pisbomvalidator'',
     ''pisecretsmanagercompletenesschecker'', ''piselfdestructhunter'', ''piselfhealingpatchagent'',
     ''pisemanticcommitmessagelinter'', ''pisemanticschemadynamicfieldcheck'', ''pisemanticschemaregistry'',
     ''pisensitivedatascanner'', ''pisensitivelogleaksentry'', ''pishadowedvariabledetector'',
     ''pisignaturereplayscout'', ''pislowquerydetector'', ''pisolidityarbitrarytransfersentry'',
     ''pisolidityarraylengthmutationsentry'', ''pisolidityarraylengthsentry'', ''pisolidityassemblymemorysafesentry'',
     ''pisolidityblocktimestampintervalsentry'', ''pisoliditycompilerbugssentry'',
     ''pisolidityconstantpragmavalidation'', ''pisoliditycreate2saltcollisionsentry'',
     ''pisoliditydelegatecallstoragesentry'', ''pisoliditydelegatecalltoselfsentry'', ''pisoliditydirtymemorysentry'',
     ''pisoliditydividebeforemultiplyauditor'', ''pisolidityeip712typehashmismatchsentry'',
     ''pisolidityerc20safeapproveauditor'', ''pisolidityerc20transferrecipientsentry'',
     ''pisolidityerc7702codesentry'', ''pisolidityexternalcontractsreturncheck'', ''pisolidityflashloanattack'',
     ''pisolidityinitializablegapsentry'', ''pisolidityl2gasfeesentry'', ''pisolidityoraclelivenesssentry'',
     ''pisolidityownertimelocksentry'', ''pisoliditypricefeedfallbacksentry'', ''pisoliditypricefeedsequencersentry'',
     ''pisolidityproxycalltargetcheck'', ''pisolidityreentrancyguardoverlapsentry'',
     ''pisolidityreentrancymutexsentry'', ''pisolidityselfdestructcodeerasesentry'',
     ''pisoliditysignaturemalleabilitysentry'', ''pisoliditysignatureomittedreplaysentry'',
     ''pisoliditytransientstoragereentrancysentry'', ''pisoliditytransientstoragesentry'',
     ''pisoliditytxorigincallchecksentry'', ''pisolidityunboundedloopsinstatemutation'',
     ''pisolidityundeclaredreturnvariablesentry'', ''pisolidityupgradeableinitializersentry'',
     ''pisolidityyulmemoryoffsetaudit'', ''pisqlinjectionsentry'', ''pisshcertificatesecurityauditor'',
     ''pistoragelayoutdrift'', ''pistructuredloggingenforcer'', ''pisupplychainintegritychecker'',
     ''pitddassertioncoverage'', ''pitddmockingsanitychecker'', ''pitddtestfileverifier'',
     ''piterraformdriftdetector'', ''piterraformstatecredentialsentry'', ''pithreatmodelgenerator'',
     ''pitoissuesbreakdown'', ''pitokentaxdetector'', ''pitoprdvalidator'', ''pitrafficoptimizer'',
     ''pitreeshakingoptimizer'', ''pitriagebuglabels'', ''pitxoriginsentry'', ''pitypescriptwizardrycheck'',
     ''piuncontrolledrecursionsentry'', ''piuninitializedstatesentry'', ''piuniswapv3poolsentry'',
     ''piupgradedefectdetector'', ''pivyperexternalcallsentry'', ''pivypersecscanner'', ''pivyperstatelocksentry'',
     ''pivyperstoragelayoutcollisionsentry'', ''piwebvulnscanner'', ''pizeroknowledgecircuitsentry'',
     ''pizerotrustexecutiondomain'', ''pizerotrustverifier'', ''pizkcircomdivisionsentry'',
     ''pizkcircomshadowsignalsentry'', ''pizkcircomunderconstrainedsentry'', ''pizkdivbyzeroconstraintauditor'',
     ''pizknonprimefieldrangesentry'', ''pizkproofforgingvalidationsentry'', ''pizkproofpublicinputverif'',
     ''pizkpublicinputleakageauditor'', ''pizksignalshadowingsignalsentry'', ''pizksignalunconstrainedconstraint'',
     ''pizkunusedconstraintvariables'', ''pizoomoutsystemexplainer'']"

definition name_order :: "nat list" where
  "name_order =
    [2, 41, 9, 213, 93, 150, 145, 143, 230, 183, 95, 205, 5, 166, 11, 28, 172, 236, 201, 195, 212, 217, 215, 235, 210,
     23, 246, 203, 182, 221, 14, 152, 32, 233, 171, 225, 180, 240, 147, 189, 214, 222, 26, 46, 142, 193, 241, 208,
     168, 45, 36, 12, 224, 178, 167, 159, 89, 149, 138, 85, 188, 135, 200, 35, 51, 60, 48, 227, 184, 43, 25, 53, 175,
     31, 234, 10, 33, 27, 139, 164, 137, 86, 0, 153, 88, 146, 154, 216, 243, 151, 223, 198, 181, 187, 219, 136, 231,
     199, 220, 130, 131, 133, 42, 129, 192, 128, 132, 76, 54, 84, 134, 64, 127, 29, 174, 202, 148, 4, 237, 204, 245,
     169, 207, 141, 190, 17, 6, 244, 30, 179, 1, 3, 226, 170, 49, 20, 211, 37, 8, 160, 242, 206, 50, 112, 114, 117,
     116, 113, 115, 118, 70, 80, 119, 94, 87, 39, 228, 239, 16, 7, 176, 144, 96, 194, 196, 22, 13, 185, 61, 99, 75,
     79, 78, 40, 111, 74, 62, 77, 65, 102, 73, 107, 72, 66, 100, 91, 103, 68, 63, 106, 82, 71, 110, 97, 44, 104, 58,
     105, 67, 47, 98, 101, 108, 56, 109, 186, 247, 24, 197, 229, 162, 163, 161, 218, 140, 238, 156, 18, 155, 209, 191,
     157, 19, 165, 173, 21, 38, 34, 57, 15, 55, 83, 177, 52, 90, 232, 59, 81, 69, 121, 124, 126, 92, 123, 122, 120,
     125, 158]"

lemma names_01: "map art_agent_name agent_routes_01 =
    [''PiGitSecScanner'', ''PiPromptLeakBuster'', ''NicheCurationPipelineChain'', ''PiPublisherDispatch'',
     ''PiMempoolSentry'', ''PiArbitrageGuard'', ''PiOracleSentry'', ''PiSelfHealingPatchAgent'',
     ''PiReentrancySentry'', ''PiAccessControlVerifier'', ''PiFlashLoanDefender'', ''PiArithmeticAuditor'']"
  by (simp add: agent_routes_01_def make_route_def)

lemma names_02: "map art_agent_name agent_routes_02 =
    [''PiDelegateCallGuard'', ''PiSignatureReplayScout'', ''PiBytecodeDecompiler'', ''PiVyperSecScanner'',
     ''PiSelfDestructHunter'', ''PiOracleDivergenceAudit'', ''PiTokenTaxDetector'', ''PiTxOriginSentry'',
     ''PiReadOnlyReentrancySentry'', ''PiUninitializedStateSentry'', ''PiShadowedVariableDetector'',
     ''PiBlockTimestampSentry'']"
  by (simp add: agent_routes_02_def make_route_def)

lemma names_03: "map art_agent_name agent_routes_03 =
    [''PiStorageLayoutDrift'', ''PiERC4626VaultGuard'', ''PiCrossChainBridgeAuditor'', ''PiGasGuzzlerDetector'',
     ''PiAssemblyLethalWeapons'', ''PiLogicGatekeeper'', ''PiPhishingShield'', ''PiExternalContractGuard'',
     ''PiCentralizationSentry'']"
  by (simp add: agent_routes_03_def make_route_def)

lemma names_04: "map art_agent_name agent_routes_04 =
    [''PiFloatingPragmaSentry'', ''PiUpgradeDefectDetector'', ''PiDoSGasLimitsSentry'', ''PiDeFiSlippageGuard'',
     ''PiReentrancyGuardSpec'', ''PiUniswapV3PoolSentry'', ''PiSandwichMEVShield'', ''PiSolidityCompilerBugsSentry'']"
  by (simp add: agent_routes_04_def make_route_def)

lemma names_05: "map art_agent_name agent_routes_05 =
    [''PiAccessControlShadow'', ''PiLLMHallucinationDetector'', ''PiERC20PermitPhishingGuard'',
     ''PiSolidityReentrancyMutexSentry'', ''PiDeFiMathRoundingSentry'', ''PiCrossChainMessageReplaySentry'',
     ''PiSolidityTransientStorageSentry'', ''PiEIP712SignatureLinter'']"
  by (simp add: agent_routes_05_def make_route_def)

lemma names_06: "map art_agent_name agent_routes_06 =
    [''PiReadOnlyOracleManipulationSentry'', ''PiRustAnchorSecuritySentry'', ''PiEIP4337AccountAbstractionSentry'',
     ''PiZeroKnowledgeCircuitSentry'', ''PiERC7702DelegationGuard'', ''PiLLMPromptInjectionSentry'',
     ''PiVyperStateLockSentry'', ''PiSolidityUpgradeableInitializerSentry'']"
  by (simp add: agent_routes_06_def make_route_def)

lemma names_07: "map art_agent_name agent_routes_07 =
    [''PiVyperExternalCallSentry'', ''PiSoliditySignatureMalleabilitySentry'', ''PiZKCircomDivisionSentry'',
     ''PiEIP712DomainSeparatorSentry'', ''PiSolidityArbitraryTransferSentry'',
     ''PiSolidityDelegatecallStorageSentry'', ''PiSolidityOracleLivenessSentry'', ''PiLLMSystemPromptDriftSentry'']"
  by (simp add: agent_routes_07_def make_route_def)

lemma names_08: "map art_agent_name agent_routes_08 =
    [''PiSolidityDirtyMemorySentry'', ''PiSolidityERC7702CodeSentry'', ''PiSolidityTransientStorageReentrancySentry'',
     ''PiSolidityL2GasFeeSentry'', ''PiZKCircomUnderconstrainedSentry'', ''PiRustSolanaReentrancySentry'',
     ''PiSolidityPriceFeedSequencerSentry'', ''PiSolidityERC20TransferRecipientSentry'']"
  by (simp add: agent_routes_08_def make_route_def)

lemma names_09: "map art_agent_name agent_routes_09 =
    [''PiSolidityEIP712TypehashMismatchSentry'', ''PiSolidityCreate2SaltCollisionSentry'',
     ''PiSolidityArrayLengthSentry'', ''PiLLMPromptInjectionNegativeConstraintSentry'',
     ''PiSolidityDelegateCallToSelfSentry'', ''PiSolidityBlockTimestampIntervalSentry'',
     ''PiSolidityAssemblyMemorySafeSentry'', ''PiRustSolanaSignerAssertionSentry'']"
  by (simp add: agent_routes_09_def make_route_def)

lemma names_10: "map art_agent_name agent_routes_10 =
    [''PiZKCircomShadowSignalSentry'', ''PiSolidityPriceFeedFallbackSentry'', ''PiVyperStorageLayoutCollisionSentry'',
     ''PiLLMPromptInjectionSystemPromptOverrideSentry'', ''PiDockerComposeSecuritySentry'', ''PiGitSecretLeakSentry'',
     ''PiRustTuiResourceLimit'', ''PiGrpcProtocolInterceptor'']"
  by (simp add: agent_routes_10_def make_route_def)

lemma names_11: "map art_agent_name agent_routes_11 =
    [''PiDeterministicOutputValid'', ''PiZeroTrustExecutionDomain'', ''PiSolidityFlashLoanAttack'',
     ''PiZKProofPublicInputVerif'', ''PiAdversarialEvaluatorSim'', ''PiRustTokioDeadlockSentry'',
     ''PiApiReverseEngineeredAuth'', ''PiSemanticSchemaRegistry'']"
  by (simp add: agent_routes_11_def make_route_def)

lemma names_12: "map art_agent_name agent_routes_12 =
    [''PiSolidityReentrancyGuardOverlapSentry'', ''PiSolidityTxOriginCallCheckSentry'',
     ''PiSolidityArrayLengthMutationSentry'', ''PiSolidityExternalContractsReturnCheck'',
     ''PiSolidityUnboundedLoopsInStateMutation'', ''PiSolidityDivideBeforeMultiplyAuditor'',
     ''PiSolidityInitializableGapSentry'', ''PiSoliditySelfdestructCodeEraseSentry'',
     ''PiSoliditySignatureOmittedReplaySentry'']"
  by (simp add: agent_routes_12_def make_route_def)

lemma names_13: "map art_agent_name agent_routes_13 =
    [''PiSolidityOwnerTimelockSentry'', ''PiSolidityERC20SafeApproveAuditor'',
     ''PiSolidityUndeclaredReturnVariableSentry'', ''PiSolidityYulMemoryOffsetAudit'',
     ''PiSolidityProxyCallTargetCheck'', ''PiSolidityConstantPragmaValidation'',
     ''PiRustSolanaAccountDataValidation'', ''PiRustSolanaMissingSignerAssert'',
     ''PiRustSolanaArithmeticOverflowCheck'']"
  by (simp add: agent_routes_13_def make_route_def)

lemma names_14: "map art_agent_name agent_routes_14 =
    [''PiRustSolanaOwnerVerificationGuard'', ''PiRustSolanaCPIInstructionSentry'',
     ''PiRustSolanaBorshSerializationLeak'', ''PiRustSolanaReentrancyCrossProgramSentry'',
     ''PiRustSolanaSysvarClockVerification'', ''PiZKSignalUnconstrainedConstraint'',
     ''PiZKDivByZeroConstraintAuditor'', ''PiZKSignalShadowingSignalSentry'', ''PiZKPublicInputLeakageAuditor'']"
  by (simp add: agent_routes_14_def make_route_def)

lemma names_15: "map art_agent_name agent_routes_15 =
    [''PiZKNonPrimeFieldRangeSentry'', ''PiZKUnusedConstraintVariables'', ''PiZKProofForgingValidationSentry'',
     ''PiLLMSystemPromptHijackSentry'', ''PiLLMPairwiseAdversarialValidator'', ''PiLLMNegativeConstraintEvasion'',
     ''PiLLMBase64EncodingDeobfuscator'', ''PiLLMChainOfThoughtBypassSentry'', ''PiLLMPromptEgressLeakDetector'']"
  by (simp add: agent_routes_15_def make_route_def)

lemma names_16: "map art_agent_name agent_routes_16 =
    [''PiLLMContextWindowDriftSentry'', ''PiLLMRecursiveRefinementJailbreak'', ''PiDockerSocketPrivilegeSentry'',
     ''PiKubernetesRootExecutionLinter'', ''PiGitSecretEntropyLeakSentry'', ''PiDockerComposePortExposureSentry'',
     ''PiGithubActionsUnpinnedVersion'', ''PiTerraformStateCredentialSentry'', ''PiNginxReverseProxyHeaderSentry'']"
  by (simp add: agent_routes_16_def make_route_def)

lemma names_17: "map art_agent_name agent_routes_17 =
    [''PiDatabaseMigrationUnindexedSentry'', ''PiApiAuthJWTNoneAlgorithmSentry'',
     ''PiSemanticSchemaDynamicFieldCheck'', ''PiApiAuthHardcodedTokenSentry'', ''PiGrpcWireProtocolInsecureSentry'',
     ''PiConstantTimeAuditor'', ''PiMemoryZeroizeSentry'', ''PiDimensionalAnalysisSentry'',
     ''PiAgentToolExecutionGuard'']"
  by (simp add: agent_routes_17_def make_route_def)

lemma names_18: "map art_agent_name agent_routes_18 =
    [''PiHotPathAllocationAuditor'', ''PiCavemanTokenCompressor'', ''PiGrillMeQuestionnaire'',
     ''PiHandoffCheckpointSentry'', ''PiToPrdValidator'', ''PiToIssuesBreakdown'', ''PiTriageBugLabels'',
     ''PiZoomOutSystemExplainer'', ''PiDesignAnInterfaceValidator'', ''PiRequestRefactorPlanVerifier'',
     ''PiTddTestFileVerifier'']"
  by (simp add: agent_routes_18_def make_route_def)

lemma names_19: "map art_agent_name agent_routes_19 =
    [''PiTddAssertionCoverage'', ''PiTddMockingSanityChecker'', ''PiGitSafetyGuardrail'',
     ''PiTypeScriptWizardryCheck'', ''PiArchitectureImportBoundarySentry'', ''PiDepreciationScanner'',
     ''PiDeadCodePruner'', ''PiMockDataTaintingSentry'', ''PiReadmeValidator'', ''PiChangelogAuditor'']"
  by (simp add: agent_routes_19_def make_route_def)

lemma names_20: "map art_agent_name agent_routes_20 =
    [''PiAstDepthGuard'', ''PiUncontrolledRecursionSentry'', ''PiMagicNumberScanner'',
     ''PiErrorHandlingCatchAllGuard'', ''PiSemanticCommitMessageLinter'', ''PiWebVulnScanner'',
     ''PiDeploymentSafetyGuard'', ''PiPipelineIntegrityAuditor'']"
  by (simp add: agent_routes_20_def make_route_def)

lemma names_21: "map art_agent_name agent_routes_21 =
    [''PiCloudCostAnalyzer'', ''PiIdleResourceSentry'', ''PiBudgetAnomalyGuard'', ''PiAPIRateLimitSentry'',
     ''PiEndpointAbuseGuard'', ''PiSlowQueryDetector'', ''PiSQLInjectionSentry'', ''PiIndexRecommendationEngine'',
     ''PiDockerImageScanner'', ''PiContainerEscapeDetector'', ''PiNPMDependencyVulnScanner'',
     ''PiTreeShakingOptimizer'', ''PiLLMOutputSanitizer'', ''PiDataFlowPrivacyMapper'', ''PiSensitiveDataScanner'',
     ''PiAutomatedAnonymizer'', ''PiSensitiveLogLeakSentry'', ''PiStructuredLoggingEnforcer'']"
  by (simp add: agent_routes_21_def make_route_def)

lemma names_22: "map art_agent_name agent_routes_22 =
    [''PiIAMOverPermissionSentry'', ''PiLeastPrivilegeRemediator'', ''PiDocsOutdatedChecker'',
     ''PiAutoDocsGenerator'', ''PiMemoryLeakDetector'', ''PiBottleneckOptimizer'', ''PiMobilePermissionSentry'',
     ''PiAppDataLeakDetector'', ''PiRuntimeHardeningGuard'', ''PiNetworkTrafficSentry'', ''PiDDoSPatternDetector'',
     ''PiTrafficOptimizer'', ''PiBackupIntegritySentry'', ''PiRecoveryTimeAuditor'', ''PiAutomatedRestoreTester'',
     ''PiAccessibilityScanner'', ''PiContrastRatioAuditor'', ''PiAutoRemediationEngine'']"
  by (simp add: agent_routes_22_def make_route_def)

lemma names_23: "map art_agent_name agent_routes_23 =
    [''PiHardcodedSecretDetector'', ''PiAutomatedRotationEngine'', ''PiTerraformDriftDetector'',
     ''PiInfrastructureComplianceAuditor'', ''PiLighthouseAuditor'', ''PiBundleSizeSentry'',
     ''PiCoreWebVitalsOptimizer'', ''PiIaCScanner'', ''PiDependencyVulnScanner'', ''PiCloudConfigAuditor'',
     ''PiRBACPermissionMapper'']"
  by (simp add: agent_routes_23_def make_route_def)

lemma names_24: "map art_agent_name agent_routes_24 =
    [''PiEncryptionComplianceChecker'', ''PiSBOMValidator'', ''PiSupplyChainIntegrityChecker'', ''PiAPIOWASPScanner'',
     ''PiKubernetesSecurityAuditor'', ''PiZeroTrustVerifier'', ''PiCertificateRotationWatcher'',
     ''PiFirewallRuleAuditor'', ''PiBackupIntegrityChecker'', ''PiAuditLogTamperDetector'']"
  by (simp add: agent_routes_24_def make_route_def)

lemma names_25: "map art_agent_name agent_routes_25 =
    [''PiMisconfigPatternMatcher'', ''PiThreatModelGenerator'', ''PiSecretsManagerCompletenessChecker'',
     ''PiCodeSigningEnforcer'', ''PiDataRetentionPolicyEnforcer'', ''PiRuntimeAnomalySentry'',
     ''PiHipaaComplianceAuditor'', ''PiPciDssAuditor'', ''PiMobileSecurityAuditor'']"
  by (simp add: agent_routes_25_def make_route_def)

lemma names_26: "map art_agent_name agent_routes_26 =
    [''PiBotDetectionEvasionSentry'', ''PiSshCertificateSecurityAuditor'']"
  by (simp add: agent_routes_26_def make_route_def)

text \<open>The playbooks with the places of their agents in the table.\<close>

definition playbook_places :: "(string \<times> nat list) list" where
  "playbook_places =
    [
     (''cross-chain yield'', [17, 27, 3]),
     (''gas optimization'', [17, 27, 3]),
     (''contract resilience'', [8, 28, 11]),
     (''fuzzing'', [8, 28, 11]),
     (''privilege drift'', [41, 145, 90]),
     (''gateway audit'', [41, 145, 90]),
     (''vault compliance'', [25, 24, 155]),
     (''erc4626'', [25, 24, 155]),
     (''container ingress'', [141, 85, 135]),
     (''proxy defender'', [141, 85, 135]),
     (''hallucination'', [42, 1, 132]),
     (''leak buster'', [42, 1, 132]),
     (''ci/cd release'', [139, 164, 171]),
     (''dependency alignment'', [139, 164, 171]),
     (''zk-circuit soundness'', [124, 120, 125]),
     (''zk auditing'', [124, 120, 125]),
     (''solana cpi'', [112, 116, 115]),
     (''solana cpi security'', [112, 116, 115]),
     (''database migration'', [169, 142, 163]),
     (''qa validation'', [169, 142, 163]),
     (''web application vulnerability scanning'', [177, 7, 178]),
     (''cloud cost optimization'', [180, 181, 182]),
     (''api security & rate limiting'', [183, 145, 184]),
     (''database query optimization'', [185, 186, 187]),
     (''container image security'', [188, 85, 189]),
     (''ci/cd pipeline integrity'', [139, 86, 179]),
     (''frontend supply chain'', [190, 0, 191]),
     (''llm output sanitization'', [192, 42, 132]),
     (''data privacy compliance'', [193, 194, 195]),
     (''logging & observability anomaly'', [196, 137, 197]),
     (''access control & privilege escalation'', [198, 41, 199]),
     (''documentation & code comment consistency'', [200, 170, 201]),
     (''performance profiling'', [202, 151, 203]),
     (''mobile app security'', [204, 205, 206]),
     (''network traffic analysis'', [207, 208, 209]),
     (''backup & disaster recovery'', [210, 211, 212]),
     (''accessibility & wcag compliance'', [213, 214, 215]),
     (''secrets management & rotation'', [216, 86, 217]),
     (''iac security & drift'', [218, 140, 219]),
     (''frontend performance & core web vitals'', [220, 221, 222]),
     (''antigravity ide reverse engineering'', [174, 216, 95, 88, 224, 238, 242, 196, 236]),
     (''antigravity re'', [174, 216, 95, 88, 224, 238, 242]),
     (''ide language server audit'', [88, 146, 95, 242, 238]),
     (''binary ide surface'', [174, 216, 224, 238])]"

section \<open>The table\<close>

lemma foldl_register: "foldl register_route rs xs = rs @ xs"
  by (induction xs arbitrary: rs) (simp_all add: register_route_def)

lemma table_names: "map art_agent_name agent_route_table = route_names"
  unfolding agent_route_table_def foldl_register
  by (simp only: concat.simps append_Nil append_Nil2 map_append names_01 names_02 names_03 names_04 names_05 names_06 names_07
    names_08 names_09 names_10 names_11 names_12 names_13 names_14 names_15 names_16 names_17 names_18 names_19
    names_20 names_21 names_22 names_23 names_24 names_25 names_26 route_names_def append_Cons)

lemma length_route_names: "length route_names = 248"
  by (simp add: route_names_def)

lemma lower_table: "map py_lower route_names = lower_names"
  by (simp add: route_names_def lower_names_def py_lower_def lower_chars)

lemma sorted_names_ordered: "successively (<) sorted_names"
  by code_simp

lemma lower_in_order: "map ((!) lower_names) name_order = sorted_names"
  unfolding lower_names_def name_order_def sorted_names_def by code_simp

lemma lower_ordered: "successively (<) (map ((!) lower_names) name_order)"
  unfolding lower_in_order by (rule sorted_names_ordered)

lemma name_order_ok: "length name_order = 248" "list_all (\<lambda>i. i < 248) name_order"
  by (simp_all add: name_order_def)

lemma distinct_by_order:
  fixes xs :: "'a::linorder list"
  assumes "successively (<) (map ((!) xs) is)" and "list_all (\<lambda>i. i < length xs) is" and "length is = length xs"
  shows "distinct xs"
proof -
  have "sorted_wrt (<) (map ((!) xs) is)"
    using assms(1) by (simp add: successively_conv_sorted_wrt transp_on_less)
  then have d: "distinct (map ((!) xs) is)" by (simp add: strict_sorted_iff)
  then have "distinct is" and inj: "inj_on ((!) xs) (set is)" by (simp_all add: distinct_map)
  then have "card (set is) = length xs" using assms(3) by (simp add: distinct_card)
  moreover have "set is \<subseteq> {..<length xs}" using assms(2) by (auto simp: list_all_iff)
  ultimately have "set is = {..<length xs}" by (simp add: card_subset_eq)
  with inj show ?thesis by (auto simp: distinct_conv_nth inj_on_def)
qed

lemma lower_distinct: "distinct lower_names"
  using lower_ordered
proof (rule distinct_by_order)
  have "length lower_names = 248" using lower_table length_route_names by (metis length_map)
  then show "list_all (\<lambda>i. i < length lower_names) name_order" "length name_order = length lower_names"
    using name_order_ok by simp_all
qed

lemma table_distinct: "distinct (map (py_lower \<circ> art_agent_name) agent_route_table)"
  using lower_distinct lower_table table_names by (metis map_map)

lemma names_distinct: "distinct (map art_agent_name agent_route_table)"
  using table_distinct by (metis distinct_map map_map)

definition plain_char :: "char \<Rightarrow> bool" where
  "plain_char c \<longleftrightarrow> \<not> is_py_space c \<and> c \<noteq> CHR ''-''"

lemma plain_chars:
    "plain_char (CHR ''A'') = True" "plain_char (CHR ''B'') = True" "plain_char (CHR ''C'') = True"
    "plain_char (CHR ''D'') = True" "plain_char (CHR ''E'') = True" "plain_char (CHR ''F'') = True"
    "plain_char (CHR ''G'') = True" "plain_char (CHR ''H'') = True" "plain_char (CHR ''I'') = True"
    "plain_char (CHR ''J'') = True" "plain_char (CHR ''K'') = True" "plain_char (CHR ''L'') = True"
    "plain_char (CHR ''M'') = True" "plain_char (CHR ''N'') = True" "plain_char (CHR ''O'') = True"
    "plain_char (CHR ''P'') = True" "plain_char (CHR ''Q'') = True" "plain_char (CHR ''R'') = True"
    "plain_char (CHR ''S'') = True" "plain_char (CHR ''T'') = True" "plain_char (CHR ''U'') = True"
    "plain_char (CHR ''V'') = True" "plain_char (CHR ''W'') = True" "plain_char (CHR ''X'') = True"
    "plain_char (CHR ''Y'') = True" "plain_char (CHR ''Z'') = True" "plain_char (CHR ''a'') = True"
    "plain_char (CHR ''b'') = True" "plain_char (CHR ''c'') = True" "plain_char (CHR ''d'') = True"
    "plain_char (CHR ''e'') = True" "plain_char (CHR ''f'') = True" "plain_char (CHR ''g'') = True"
    "plain_char (CHR ''h'') = True" "plain_char (CHR ''i'') = True" "plain_char (CHR ''j'') = True"
    "plain_char (CHR ''k'') = True" "plain_char (CHR ''l'') = True" "plain_char (CHR ''m'') = True"
    "plain_char (CHR ''n'') = True" "plain_char (CHR ''o'') = True" "plain_char (CHR ''p'') = True"
    "plain_char (CHR ''q'') = True" "plain_char (CHR ''r'') = True" "plain_char (CHR ''s'') = True"
    "plain_char (CHR ''t'') = True" "plain_char (CHR ''u'') = True" "plain_char (CHR ''v'') = True"
    "plain_char (CHR ''w'') = True" "plain_char (CHR ''x'') = True" "plain_char (CHR ''y'') = True"
    "plain_char (CHR ''z'') = True" "plain_char (CHR ''0'') = True" "plain_char (CHR ''1'') = True"
    "plain_char (CHR ''2'') = True" "plain_char (CHR ''3'') = True" "plain_char (CHR ''4'') = True"
    "plain_char (CHR ''5'') = True" "plain_char (CHR ''6'') = True" "plain_char (CHR ''7'') = True"
    "plain_char (CHR ''8'') = True" "plain_char (CHR ''9'') = True"
  by (simp_all add: plain_char_def space_chars)

lemma plain_name_chars: "plain_name n \<longleftrightarrow> n \<noteq> [] \<and> list_all plain_char n"
  by (auto simp: plain_name_def plain_char_def list_all_iff)

lemma plain_names: "list_all plain_name route_names"
  by (simp add: route_names_def plain_name_chars plain_chars)

lemma table_plain: "n \<in> art_agent_name ` set agent_route_table \<Longrightarrow> plain_name n"
  using plain_names by (metis list.set_map list_all_iff table_names)

lemma name_registered: "i < 248 \<Longrightarrow> route_names ! i \<in> art_agent_name ` set agent_route_table"
  by (metis length_route_names list.set_map nth_mem table_names)

section \<open>Playbooks\<close>

lemma playbooks_placed: "collaboration_templates = map (\<lambda>(k, is). (k, map ((!) route_names) is)) playbook_places"
  unfolding collaboration_templates_def collaboration_templates_1_def collaboration_templates_2_def playbook_places_def route_names_def
  by code_simp

lemma places_ok: "list_all (\<lambda>(k, is). list_all (\<lambda>i. i < 248) is) playbook_places"
  by (simp add: playbook_places_def)

lemma playbook_registered:
  assumes "(k, ns) \<in> set collaboration_templates" and "n \<in> set ns"
  shows "n \<in> art_agent_name ` set agent_route_table"
  using assms places_ok name_registered unfolding playbooks_placed by (fastforce simp: list_all_iff)

section \<open>The shield\<close>

lemma domain_placed:
  "map fst domain_mapping = ''PiPromptShield'' # map ((!) route_names) [0, 7, 11, 8, 36, 17, 24, 18, 32, 3]"
  unfolding domain_mapping_def route_names_def by simp

lemma domain_registered: "fst ` set domain_mapping \<subseteq> insert ''PiPromptShield'' (art_agent_name ` set agent_route_table)"
proof -
  have "set (map fst domain_mapping) \<subseteq> insert ''PiPromptShield'' (art_agent_name ` set agent_route_table)"
    unfolding domain_placed by (simp add: name_registered)
  then show ?thesis by simp
qed

text \<open>Comparison that stops at the first difference.\<close>

fun differs :: "string \<Rightarrow> string \<Rightarrow> bool" where
  "differs [] t = (t \<noteq> [])"
| "differs (c # s) t = (case t of [] \<Rightarrow> True | d # t' \<Rightarrow> if c = d then differs s t' else True)"

lemma differs_iff: "differs s t \<longleftrightarrow> s \<noteq> t"
  by (induction s arbitrary: t) (auto split: list.splits)

lemma lower_words: "list_all (list_all is_word_char) lower_names"
  by (simp add: lower_names_def word_chars)

lemma lower_not_shield: "list_all (differs ''pipromptshield'') lower_names"
  by code_simp

definition unlike_shield :: "agent_route \<Rightarrow> bool" where
  "unlike_shield r \<longleftrightarrow>
     art_agent_class r \<in> {art_agent_name r, ''PiPublisherDispatch'', ''GenericStubAgent''} \<and>
     list_all (\<lambda>kw. kw \<noteq> [] \<and> differs ''pipromptshield'' kw) (art_keywords r)"

lemma unlike_shield_routes:
  "list_all unlike_shield agent_routes_01"
  "list_all unlike_shield agent_routes_02"
  "list_all unlike_shield agent_routes_03"
  "list_all unlike_shield agent_routes_04"
  "list_all unlike_shield agent_routes_05"
  "list_all unlike_shield agent_routes_06"
  "list_all unlike_shield agent_routes_07"
  "list_all unlike_shield agent_routes_08"
  "list_all unlike_shield agent_routes_09"
  "list_all unlike_shield agent_routes_10"
  "list_all unlike_shield agent_routes_11"
  "list_all unlike_shield agent_routes_12"
  "list_all unlike_shield agent_routes_13"
  "list_all unlike_shield agent_routes_14"
  "list_all unlike_shield agent_routes_15"
  "list_all unlike_shield agent_routes_16"
  "list_all unlike_shield agent_routes_17"
  "list_all unlike_shield agent_routes_18"
  "list_all unlike_shield agent_routes_19"
  "list_all unlike_shield agent_routes_20"
  "list_all unlike_shield agent_routes_21"
  "list_all unlike_shield agent_routes_22"
  "list_all unlike_shield agent_routes_23"
  "list_all unlike_shield agent_routes_24"
  "list_all unlike_shield agent_routes_25"
  "list_all unlike_shield agent_routes_26"
  by (simp_all add: unlike_shield_def make_route_def
    agent_routes_01_def agent_routes_02_def agent_routes_03_def agent_routes_04_def agent_routes_05_def
    agent_routes_06_def agent_routes_07_def agent_routes_08_def agent_routes_09_def agent_routes_10_def
    agent_routes_11_def agent_routes_12_def agent_routes_13_def agent_routes_14_def agent_routes_15_def
    agent_routes_16_def agent_routes_17_def agent_routes_18_def agent_routes_19_def agent_routes_20_def
    agent_routes_21_def agent_routes_22_def agent_routes_23_def agent_routes_24_def agent_routes_25_def
    agent_routes_26_def)

lemma unlike_shield_table: "r \<in> set agent_route_table \<Longrightarrow> unlike_shield r"
proof -
  have "list_all unlike_shield agent_route_table"
    by (simp add: agent_route_table_def foldl_register unlike_shield_routes)
  then show "r \<in> set agent_route_table \<Longrightarrow> unlike_shield r" by (simp add: list_all_iff)
qed

lemma lower_name_in: "r \<in> set agent_route_table \<Longrightarrow> py_lower (art_agent_name r) \<in> set lower_names"
  by (metis image_eqI list.set_map lower_table table_names)

lemma other_classes:
  "list_all is_word_char (py_lower ''PiPublisherDispatch'')" "list_all is_word_char (py_lower ''GenericStubAgent'')"
  "py_lower ''PiPublisherDispatch'' \<noteq> ''pipromptshield''" "py_lower ''GenericStubAgent'' \<noteq> ''pipromptshield''"
  "py_lower ''PiPromptShield'' = ''pipromptshield''"
  by (simp_all add: py_lower_def lower_chars word_chars)

text \<open>The shield that the domain mapping and the precedence order put first is not a registered agent.\<close>

lemma shield_unregistered: "resolve_single_agent agent_route_table ''PiPromptShield'' = None"
proof (rule resolve_unknown)
  show "plain_name ''PiPromptShield''" by (simp add: plain_name_def space_chars)
  show "is_word_char c" if "c \<in> set (py_lower ''PiPromptShield'')" for c
    using that by (auto simp: other_classes word_chars)
  fix r assume r: "r \<in> set agent_route_table"
  have n: "list_all is_word_char (py_lower (art_agent_name r))" "py_lower (art_agent_name r) \<noteq> ''pipromptshield''"
    using bspec [OF lower_words [unfolded list_all_iff [of _ lower_names]] lower_name_in [OF r]]
      bspec [OF lower_not_shield [unfolded list_all_iff differs_iff] lower_name_in [OF r]] by simp_all
  have "art_agent_class r = art_agent_name r \<or> art_agent_class r = ''PiPublisherDispatch'' \<or> art_agent_class r = ''GenericStubAgent''"
    using unlike_shield_table [OF r] by (simp add: unlike_shield_def)
  then have c: "list_all is_word_char (py_lower (art_agent_class r)) \<and> py_lower (art_agent_class r) \<noteq> ''pipromptshield''"
    by (elim disjE) (simp_all only: n other_classes not_False_eq_True conj_absorb)
  show "is_word_char c" if "c \<in> set (py_lower (art_agent_name r)) \<union> set (py_lower (art_agent_class r))" for c
    using n(1) c that unfolding list_all_iff by blast
  have "list_all (\<lambda>kw. kw \<noteq> [] \<and> ''pipromptshield'' \<noteq> kw) (art_keywords r)"
    using unlike_shield_table [OF r] by (simp only: unlike_shield_def differs_iff)
  then have "''pipromptshield'' \<notin> set (art_keywords r) \<and> [] \<notin> set (art_keywords r)"
    unfolding list_all_iff by blast
  with n(2) c show "py_lower (art_agent_name r) \<noteq> py_lower ''PiPromptShield'' \<and>
      py_lower (art_agent_class r) \<noteq> py_lower ''PiPromptShield'' \<and>
      py_lower ''PiPromptShield'' \<notin> set (art_keywords r) \<and> [] \<notin> set (art_keywords r)"
    by (simp only: other_classes(5) not_False_eq_True simp_thms)
qed

section \<open>Properties\<close>

lemma named_registered:
  assumes "r \<in> set agent_route_table"
  shows "named_route agent_route_table (PStr (art_agent_name r)) = Some r"
  using find_key [OF names_distinct assms] by (simp add: named_route_def)

text \<open>
  Every registered agent is addressed by its name: as the target of the context it is chosen whatever
  the goal and the Needle engine say, and its name in any case with white space around it resolves to it.
\<close>

theorem agent_addressed:
  assumes "r \<in> set agent_route_table" and "dict_get context ''target_agent'' PNone = PStr (art_agent_name r)" and "part_names s r"
  shows "router_resolve agent_route_table nr goal context = Some r \<and> resolve_single_agent agent_route_table s = Some r"
proof
  have "truthy (PStr (art_agent_name r))" using assms(1) table_plain by (auto simp: plain_name_def)
  then show "router_resolve agent_route_table nr goal context = Some r"
    using assms(1,2) by (simp add: router_resolve_def named_registered Let_def)
  show "resolve_single_agent agent_route_table s = Some r"
    using assms by (intro resolve_by_name table_distinct) (auto simp: part_names_def)
qed

definition no_needle :: needle_router where
  "no_needle = \<lparr>nro_use_needle = False, nro_engine = None\<rparr>"

theorem agent_addressed_witness:
  "\<exists>r\<in>set agent_route_table. art_agent_name r = ''PiGitSecScanner'' \<and>
     router_resolve agent_route_table no_needle ''deploy'' [(''target_agent'', PStr ''PiGitSecScanner'')] = Some r \<and>
     resolve_single_agent agent_route_table '' pigitsecscanner'' = Some r"
proof -
  have "route_names ! 0 = ''PiGitSecScanner''" by (simp add: route_names_def)
  then obtain r where r: "r \<in> set agent_route_table" "art_agent_name r = ''PiGitSecScanner''"
    using name_registered [of 0] by auto
  have "py_strip '' pigitsecscanner'' = ''pigitsecscanner''" by (simp add: py_strip_def space_chars) (simp add: is_py_space_def)
  then have "part_names '' pigitsecscanner'' r" by (simp add: part_names_def r(2) py_lower_def lower_chars)
  with agent_addressed [OF r(1), of "[(''target_agent'', PStr ''PiGitSecScanner'')]" "'' pigitsecscanner''"] r show ?thesis
    by (auto simp: dict_get_def)
qed

text \<open>The agents of a playbook resolve, and to the agents the playbook names.\<close>

lemma playbook_resolves:
  assumes "(k, ns) \<in> set collaboration_templates"
  shows "map art_agent_name (resolve_all agent_route_table ns) = ns" and "length (resolve_all agent_route_table ns) = length ns"
proof -
  have "py_strip n = n" if "n \<in> set ns" for n
    using table_plain [OF playbook_registered [OF assms that]] by (intro py_strip_plain) (simp add: plain_name_def)
  then have "list_all2 (\<lambda>s n. n \<in> art_agent_name ` set agent_route_table \<and> py_lower (py_strip s) = py_lower n) ns ns"
    using playbook_registered [OF assms] by (intro list.rel_refl_strong conjI) simp_all
  then show m: "map art_agent_name (resolve_all agent_route_table ns) = ns" by (rule resolve_all_names [OF table_distinct])
  show "length (resolve_all agent_route_table ns) = length ns" using arg_cong [OF m, of length] by simp
qed

lemma template_found:
  assumes "set ts \<subseteq> set collaboration_templates"
  shows "map_option (map art_agent_name) (template_chain agent_route_table g ts) = map_option snd (find (\<lambda>t. py_contains (fst t) g) ts)"
  using assms
proof (induction ts)
  case (Cons t ts)
  obtain k ns where t: "t = (k, ns)" by (cases t)
  have "map_option (map art_agent_name) (template_chain agent_route_table g ts) = map_option snd (find (\<lambda>t. py_contains (fst t) g) ts)"
    using Cons by simp
  moreover have "map art_agent_name (resolve_all agent_route_table ns) = ns" "length (resolve_all agent_route_table ns) = length ns"
    using Cons.prems by (auto intro!: playbook_resolves simp: t)
  ultimately show ?case by (simp add: t Let_def)
qed simp

text \<open>
  C31 (playbook_chain): Each of the playbooks compiles: a goal that contains its keyword, in any case, and no keyword of an
  earlier playbook gives a chain of exactly the agents the playbook names, in its order, whatever the context asks for.
\<close>

theorem playbook_chain:
  assumes "find (\<lambda>t. py_contains (fst t) (py_lower goal)) collaboration_templates = Some (keyword, names)"
  shows "\<exists>chain. compile_chain agent_route_table collaboration_templates goal context = Inr chain \<and>
    map art_agent_name chain = names \<and> set chain \<subseteq> set agent_route_table"
proof -
  have "map_option (map art_agent_name) (template_chain agent_route_table (py_lower goal) collaboration_templates) = Some names"
    using assms by (simp add: template_found)
  then obtain chain where c: "template_chain agent_route_table (py_lower goal) collaboration_templates = Some chain"
      "map art_agent_name chain = names" by auto
  have "set chain \<subseteq> set rs" if "template_chain rs g ts = Some chain" for rs g ts
    using that resolve_all_in by (induction rs g ts rule: template_chain.induct) (auto simp: Let_def split: if_splits)
  with c show ?thesis by (auto simp: compile_chain_def)
qed

theorem playbook_chain_witness:
  "\<exists>chain. compile_chain agent_route_table collaboration_templates ''Fuzzing'' [] = Inr chain \<and>
     map art_agent_name chain = [''PiReentrancySentry'', ''PiAssemblyLethalWeapons'', ''PiArithmeticAuditor'']"
proof -
  have "find (\<lambda>t. py_contains (fst t) (py_lower ''Fuzzing'')) collaboration_templates =
      Some (''fuzzing'', [''PiReentrancySentry'', ''PiAssemblyLethalWeapons'', ''PiArithmeticAuditor''])"
    by (simp add: collaboration_templates_def collaboration_templates_1_def py_lower_def lower_chars)
  from playbook_chain [OF this, of "[]"] show ?thesis by (elim exE conjE, intro exI conjI)
qed

lemma list_all2_partner: "list_all2 P xs ys \<Longrightarrow> x \<in> set xs \<Longrightarrow> \<exists>y. P x y"
  by (induction rule: list_all2_induct) auto

text \<open>
  C32 (arrow_chain): A goal that joins the names of two or more agents of the table by arrows, with any white space and case,
  compiles to the chain of these agents in this order, unless something with precedence speaks up: the keyword of a
  playbook somewhere in the goal (some agents have one in their names), which gives that playbook, or a chain in the
  context, which is taken instead, and raises when one of its entries is no string.
\<close>

theorem arrow_chain:
  assumes "list_all2 (\<lambda>p r. r \<in> set agent_route_table \<and> part_names p r) parts chain" and "length parts \<ge> 2"
  shows "case find (\<lambda>t. py_contains (fst t) (py_lower (py_join ''->'' parts))) collaboration_templates of
      Some t \<Rightarrow> map_sum id (map art_agent_name) (compile_chain agent_route_table collaboration_templates (py_join ''->'' parts) context) =
        Inr (snd t)
    | None \<Rightarrow> compile_chain agent_route_table collaboration_templates (py_join ''->'' parts) context =
        res_bind (context_chain agent_route_table context) (\<lambda>explicit. Inr (if explicit \<noteq> [] then explicit else chain))"
proof -
  have l: "list_all2 (\<lambda>p r. r \<in> set agent_route_table \<and> plain_name (art_agent_name r) \<and> part_names p r) parts chain"
    using assms(1) by (rule list_all2_mono) (auto intro: table_plain)
  then have "plain_name (py_strip p)" if "p \<in> set parts" for p
    using list_all2_partner [OF l that] part_plain by blast
  then have "goal_segments agent_route_table (py_join ''->'' parts) = map py_strip parts"
    using assms(2) by (rule arrow_segments)
  moreover have "map_option (map art_agent_name) (template_chain agent_route_table (py_lower (py_join ''->'' parts)) collaboration_templates) =
      map_option snd (find (\<lambda>t. py_contains (fst t) (py_lower (py_join ''->'' parts))) collaboration_templates)"
    by (rule template_found) simp
  moreover have "chain \<noteq> []" using assms by (auto dest: list_all2_lengthD)
  ultimately show ?thesis
    using arrow_routes [OF table_distinct l]
    by (auto simp: compile_chain_def Let_def map_option_case simp del: py_join.simps split: option.splits
        intro!: arg_cong [where f = "res_bind _"])
qed

theorem arrow_chain_witness:
  "\<exists>chain. compile_chain agent_route_table collaboration_templates (py_join ''->'' [''PiIaCScanner '', '' piiacscanner'']) [] = Inr chain \<and>
     map art_agent_name chain = [''PiIaCScanner'', ''PiIaCScanner'']"
proof -
  have "route_names ! 223 = ''PiIaCScanner''" by (simp add: route_names_def)
  then obtain r where r: "r \<in> set agent_route_table" "art_agent_name r = ''PiIaCScanner''"
    using name_registered [of 223] by auto
  have "py_strip ''PiIaCScanner '' = ''PiIaCScanner''" "py_strip '' piiacscanner'' = ''piiacscanner''"
    by (simp_all add: py_strip_def space_chars) (simp_all add: is_py_space_def)
  then have "part_names ''PiIaCScanner '' r" "part_names '' piiacscanner'' r"
    by (simp_all add: part_names_def r(2) py_lower_def lower_chars)
  moreover have "find (\<lambda>t. py_contains (fst t) (py_lower (py_join ''->'' [''PiIaCScanner '', '' piiacscanner'']))) collaboration_templates = None"
  proof -
    have "py_lower (py_join ''->'' [''PiIaCScanner '', '' piiacscanner'']) = ''piiacscanner -> piiacscanner''" by code_simp
    then have g: "set (py_lower (py_join ''->'' [''PiIaCScanner '', '' piiacscanner''])) = set ''piacsner ->''" by auto
    have "list_all (\<lambda>t. list_ex (\<lambda>c. c \<notin> set ''piacsner ->'') (fst t)) collaboration_templates"
      by (simp add: collaboration_templates_def collaboration_templates_1_def collaboration_templates_2_def)
    then show ?thesis
      unfolding find_None_iff list_all_iff list_ex_iff py_contains_sublist g [symmetric] using set_mono_sublist by blast
  qed
  moreover have "context_chain agent_route_table [] = Inr []" by (simp add: context_chain_def dict_get_def)
  ultimately show ?thesis using r arrow_chain [of "[''PiIaCScanner '', '' piiacscanner'']" "[r, r]" "[]"] by simp
qed

lemma precedence_publisher: "dict_get precedence_order ''PiPublisherDispatch'' 4 = 5"
  by (simp add: dict_get_def precedence_order_def)

lemma precedence_other: "n \<noteq> ''PiPublisherDispatch'' \<Longrightarrow> dict_get precedence_order n 4 \<le> 4"
  by (auto simp: dict_get_def precedence_order_def)

lemma publisher_last:
  assumes "sorted (map (agent_sort_key g) ns)" and "distinct ns"
  shows "''PiPublisherDispatch'' \<notin> set (butlast ns)"
proof
  assume "''PiPublisherDispatch'' \<in> set (butlast ns)"
  then obtain us vs where n: "butlast ns = us @ ''PiPublisherDispatch'' # vs" by (metis split_list)
  then have ns: "ns = us @ ''PiPublisherDispatch'' # vs @ [last ns]"
  proof -
    have "ns \<noteq> []" using n by auto
    then have "butlast ns @ [last ns] = ns" by simp
    then show ?thesis unfolding n by simp
  qed
  have "agent_sort_key g ''PiPublisherDispatch'' \<le> agent_sort_key g (last ns)"
    using assms(1) by (subst (asm) ns) (simp add: sorted_append)
  then have "5 \<le> dict_get precedence_order (last ns) 4"
    by (auto simp: agent_sort_key_def precedence_publisher less_eq_prod_def)
  moreover have "last ns \<noteq> ''PiPublisherDispatch''" using assms(2) by (subst (asm) ns) auto
  ultimately show False using precedence_other by force
qed

text \<open>
  C33 (decomposed_chain): A goal of at least two tasks that match at least two registered agents decomposes into exactly the
  matched agents, each once, in the order of their precedence and then of their first keyword in the goal, and into no
  chain otherwise; nothing runs after the publisher. The prompt shield is matched but not registered, so it never runs.
\<close>

theorem decomposed_chain:
  "let names = map art_agent_name (decompose_goal agent_route_table goal);
       tasks = sub_tasks (py_lower goal);
       matched = matched_agent_names agent_route_table tasks;
       found = filter (\<lambda>n. n \<noteq> ''PiPromptShield'') (sort_agents (py_lower goal) matched)
   in names = (if length tasks < 2 \<or> length matched < 2 \<or> length found < 2 then [] else found) \<and>
      distinct names \<and> sorted (map (agent_sort_key (py_lower goal)) names) \<and>
      ''PiPublisherDispatch'' \<notin> set (butlast names)"
proof -
  define matched where "matched = matched_agent_names agent_route_table (sub_tasks (py_lower goal))"
  define found where "found = filter (\<lambda>n. n \<noteq> ''PiPromptShield'') (sort_agents (py_lower goal) matched)"
  have "\<exists>r. resolve_single_agent agent_route_table n = Some r \<and> art_agent_name r = n"
    if "n \<in> fst ` set domain_mapping \<union> art_agent_name ` set agent_route_table" "n \<noteq> ''PiPromptShield''" for n
  proof -
    have "n \<in> art_agent_name ` set agent_route_table" using that domain_registered by blast
    then obtain r where r: "r \<in> set agent_route_table" "n = art_agent_name r" by blast
    then have "py_strip n = n" using table_plain by (intro py_strip_plain) (auto simp: plain_name_def)
    then have "resolve_single_agent agent_route_table n = Some r"
      using r by (intro resolve_by_name table_distinct) simp_all
    with r show ?thesis by simp
  qed
  then have names: "map art_agent_name (decompose_goal agent_route_table goal) =
      (if length (sub_tasks (py_lower goal)) < 2 \<or> length matched < 2 \<or> length found < 2 then [] else found)"
    unfolding matched_def found_def
    by (subst decompose_names [where P = "\<lambda>n. n \<noteq> ''PiPromptShield''"]) (auto simp: shield_unregistered Let_def)
  have "distinct matched" using matched_agent_names_ok unfolding matched_def by blast
  then have "distinct found" "sorted (map (agent_sort_key (py_lower goal)) found)"
    by (simp_all add: found_def sorted_filter)
  then show ?thesis using publisher_last [of "py_lower goal" found]
    unfolding Let_def names matched_def [symmetric] found_def [symmetric] by simp
qed

end
