(* ===== verification/Consensus_Breaker.thy ===== *)
theory Consensus_Breaker
  imports Complex_Main Py_Values Py_Strings
begin

text \<open>
  The breaker on diverging answers (\<open>pi_semantic_radius/consensus_breaker.py\<close>): the cosine distance of the word counts
  of two texts, the share of keys two dictionaries do not share, and the score that mixes both. Floats are real
  numbers here, so that results are exact up to the rounding the code asks for.
\<close>

section \<open>Rounding\<close>

text \<open>\<open>round(x, n)\<close>: to \<open>n\<close> decimals, halves to even.\<close>

definition round_even :: "real \<Rightarrow> int" where
  "round_even x =
     (let f = \<lfloor>x\<rfloor>; d = x - of_int f in
      if d < 1 / 2 then f else if d > 1 / 2 then f + 1 else if even f then f else f + 1)"

definition py_round :: "nat \<Rightarrow> real \<Rightarrow> real" where
  "py_round n x = of_int (round_even (x * 10 ^ n)) / 10 ^ n"

section \<open>Distances\<close>

text \<open>\<open>text.split()\<close> and \<open>w.strip(chars)\<close>.\<close>

fun split_words_from :: "string \<Rightarrow> string \<Rightarrow> string list" where
  "split_words_from cur [] = (if cur = [] then [] else [rev cur])"
| "split_words_from cur (c # s) =
     (if \<not> is_py_space c then split_words_from (c # cur) s
      else if cur = [] then split_words_from [] s
      else rev cur # split_words_from [] s)"

definition split_words :: "string \<Rightarrow> string list" where
  "split_words s = split_words_from [] s"

definition strip_chars :: "char list \<Rightarrow> string \<Rightarrow> string" where
  "strip_chars cs s = rev (dropWhile (\<lambda>c. c \<in> set cs) (rev (dropWhile (\<lambda>c. c \<in> set cs) s)))"

definition WORD_PUNCTUATION :: "char list" where
  "WORD_PUNCTUATION = ''.,!?'' @ [CHR 0x22, CHR 0x27] @ ''()''"

definition token_words :: "string \<Rightarrow> string list" where
  "token_words text = map (\<lambda>w. py_lower (strip_chars WORD_PUNCTUATION w)) (filter (\<lambda>w. length w > 2) (split_words text))"

definition count_words :: "string list \<Rightarrow> (string, real) dict" where
  "count_words ws = foldl (\<lambda>v w. dict_set v w (dict_get v w 0 + 1)) [] ws"

definition simple_token_vector :: "string \<Rightarrow> (string, real) dict" where
  "simple_token_vector text =
     (let vector = count_words (token_words text); norm = sqrt (\<Sum>(w, x)\<leftarrow>vector. x * x) in
      if norm > 0 then map (\<lambda>(w, x). (w, x / norm)) vector else vector)"

definition calculate_cosine_distance :: "string \<Rightarrow> string \<Rightarrow> real" where
  "calculate_cosine_distance a b =
     (let va = simple_token_vector a; vb = simple_token_vector b;
          dot_product = (\<Sum>w\<leftarrow>filter (dict_has vb) (dict_keys va). dict_get va w 0 * dict_get vb w 0)
      in py_round 4 (1 - dot_product))"

text \<open>The pairs \<open>i < j\<close> of a list.\<close>

fun index_pairs :: "'a list \<Rightarrow> ('a \<times> 'a) list" where
  "index_pairs [] = []"
| "index_pairs (x # xs) = map (Pair x) xs @ index_pairs xs"

definition key_mismatch :: "string list \<Rightarrow> string list \<Rightarrow> real" where
  "key_mismatch ki kj =
     (let sym_diff = filter (\<lambda>k. k \<notin> set kj) ki @ filter (\<lambda>k. k \<notin> set ki) kj;
          union = ki @ filter (\<lambda>k. k \<notin> set ki) kj
      in if union = [] then 0 else of_nat (length sym_diff) / of_nat (length union))"

definition pairs_count :: "nat \<Rightarrow> real" where
  "pairs_count k = of_nat k * (of_nat k - 1) / 2"

definition calculate_structural_variance :: "payload list \<Rightarrow> real" where
  "calculate_structural_variance schemas =
     (if length schemas < 2 then 0
      else if \<forall>s\<in>set schemas. s = [] then 0
      else
        (let total_variance = (\<Sum>(a, b)\<leftarrow>index_pairs schemas. key_mismatch (dict_keys a) (dict_keys b)) in
         py_round 2 (total_variance / pairs_count (length schemas) * 100)))"

section \<open>The breaker\<close>

record model_response =
  mrs_model_name :: string
  mrs_content :: string
  mrs_parsed_json :: "payload option"

record divergence_report =
  dvr_prompt :: string
  dvr_responses :: "model_response list"
  dvr_semantic_divergence :: real
  dvr_structural_divergence :: real
  dvr_consensus_divergence_score :: real
  dvr_is_broken :: bool

record consensus_breaker =
  cbr_w_semantic :: real
  cbr_w_structural :: real
  cbr_threshold :: real

definition default_breaker :: "real \<Rightarrow> consensus_breaker" where
  "default_breaker threshold = \<lparr>cbr_w_semantic = 1 / 2, cbr_w_structural = 1 / 2, cbr_threshold = threshold\<rparr>"

definition semantic_score :: "string list \<Rightarrow> real" where
  "semantic_score contents =
     (\<Sum>(a, b)\<leftarrow>index_pairs contents. calculate_cosine_distance a b) / pairs_count (length contents) * 100"

definition evaluate_consensus :: "consensus_breaker \<Rightarrow> string \<Rightarrow> model_response list \<Rightarrow> divergence_report result" where
  "evaluate_consensus br prompt responses =
     (if length responses < 2 then Inl (ValueError ''ConsensusBreaker requires at least two model responses.'')
      else
        (let semantic = semantic_score (map mrs_content responses);
             structural = calculate_structural_variance (List.map_filter mrs_parsed_json responses);
             dc_score = min (py_round 2 (cbr_w_semantic br * semantic + cbr_w_structural br * structural)) 100
         in Inr \<lparr>dvr_prompt = prompt, dvr_responses = responses, dvr_semantic_divergence = py_round 2 semantic,
                 dvr_structural_divergence = structural, dvr_consensus_divergence_score = dc_score,
                 dvr_is_broken = (dc_score \<ge> cbr_threshold br)\<rparr>))"

section \<open>Bounds\<close>

lemma round_even_mono: "x \<le> of_int n \<Longrightarrow> round_even x \<le> n"
proof -
  assume x: "x \<le> of_int n"
  then have "\<lfloor>x\<rfloor> < n \<or> x = of_int n" by linarith
  then show ?thesis
  proof
    assume "\<lfloor>x\<rfloor> < n"
    then show ?thesis by (simp add: round_even_def Let_def)
  qed (simp add: round_even_def Let_def)
qed

lemma round_even_nonneg: "0 \<le> x \<Longrightarrow> 0 \<le> round_even x"
  by (simp add: round_even_def Let_def)

lemma py_round_le: "x \<le> of_int k \<Longrightarrow> py_round n x \<le> of_int k"
proof -
  assume "x \<le> of_int k"
  then have "x * 10 ^ n \<le> of_int (k * 10 ^ n)" by (simp add: mult_right_mono)
  then have "of_int (round_even (x * 10 ^ n)) \<le> (of_int (k * 10 ^ n) :: real)"
    using round_even_mono of_int_le_iff by blast
  then show ?thesis by (simp add: py_round_def divide_le_eq)
qed

lemma py_round_nonneg: "0 \<le> x \<Longrightarrow> 0 \<le> py_round n x"
  by (simp add: py_round_def round_even_nonneg)

lemma py_round_0 [simp]: "py_round n 0 = 0"
  by (simp add: py_round_def round_even_def)

lemma map_of_map_snd: "map_of (map (\<lambda>(w, x). (w, f x)) v) k = map_option f (map_of v k)"
  by (induction v) auto

definition counts_ok :: "(string, real) dict \<Rightarrow> bool" where
  "counts_ok v \<longleftrightarrow> (\<forall>w. 0 \<le> dict_get v w 0)"

lemma counts_ok_step: "counts_ok v \<Longrightarrow> counts_ok (dict_set v w (dict_get v w 0 + 1))"
  by (auto simp: counts_ok_def dict_get_def map_of_dict_set split: option.splits)

lemma counts_ok_words: "counts_ok v \<Longrightarrow> counts_ok (foldl (\<lambda>v w. dict_set v w (dict_get v w 0 + 1)) v ws)"
  by (induction ws arbitrary: v) (simp_all add: counts_ok_step)

lemma count_words_nonneg: "0 \<le> dict_get (count_words ws) w 0"
  using counts_ok_words [of "[]" ws] by (simp add: counts_ok_def count_words_def) (simp add: dict_get_def)

lemma dict_get_scaled: "dict_get (map (\<lambda>(w, x). (w, x / n)) v) w 0 = dict_get v w 0 / (n :: real)"
  by (simp add: dict_get_def map_of_map_snd split: option.splits)

lemma vector_nonneg: "0 \<le> dict_get (simple_token_vector text) w 0"
  by (simp add: simple_token_vector_def dict_get_scaled count_words_nonneg Let_def)

lemma cosine_le_1: "calculate_cosine_distance a b \<le> 1"
proof -
  define dot where "dot = (\<Sum>w\<leftarrow>filter (dict_has (simple_token_vector b)) (dict_keys (simple_token_vector a)).
      dict_get (simple_token_vector a) w 0 * dict_get (simple_token_vector b) w 0)"
  have "0 \<le> dot" unfolding dot_def by (intro sum_list_nonneg) (auto intro: mult_nonneg_nonneg vector_nonneg)
  then have "py_round 4 (1 - dot) \<le> of_int 1" by (intro py_round_le) simp
  then show ?thesis by (simp add: calculate_cosine_distance_def dot_def Let_def)
qed

lemma length_index_pairs: "of_nat (length (index_pairs xs)) = pairs_count (length xs)"
  by (induction xs) (simp_all add: pairs_count_def field_simps)

lemma pairs_count_pos: "2 \<le> k \<Longrightarrow> 0 < pairs_count k"
  by (simp add: pairs_count_def)

lemma sum_list_le_length: "(\<And>x. x \<in> set xs \<Longrightarrow> f x \<le> (1::real)) \<Longrightarrow> (\<Sum>x\<leftarrow>xs. f x) \<le> of_nat (length xs)"
  by (induction xs) (auto intro: add_mono)

lemma semantic_le_100: "2 \<le> length cs \<Longrightarrow> semantic_score cs \<le> 100"
proof -
  assume k: "2 \<le> length cs"
  have "(\<Sum>(a, b)\<leftarrow>index_pairs cs. calculate_cosine_distance a b) \<le> of_nat (length (index_pairs cs))"
    by (rule sum_list_le_length) (auto simp: cosine_le_1)
  then have "(\<Sum>(a, b)\<leftarrow>index_pairs cs. calculate_cosine_distance a b) \<le> pairs_count (length cs)"
    by (simp only: length_index_pairs)
  then show ?thesis using pairs_count_pos [OF k] by (simp add: semantic_score_def divide_le_eq)
qed

lemma index_pairs_in: "(a, b) \<in> set (index_pairs xs) \<Longrightarrow> a \<in> set xs \<and> b \<in> set xs"
  by (induction xs) auto

text \<open>Dictionaries with the same keys have no structural divergence.\<close>

lemma variance_same_keys:
  assumes "\<And>s t. s \<in> set ss \<Longrightarrow> t \<in> set ss \<Longrightarrow> set (dict_keys s) = set (dict_keys t)"
  shows "calculate_structural_variance ss = 0"
proof -
  have "key_mismatch (dict_keys a) (dict_keys b) = 0" if "(a, b) \<in> set (index_pairs ss)" for a b
  proof -
    have "set (dict_keys a) = set (dict_keys b)" using index_pairs_in [OF that] assms by blast
    then have "filter (\<lambda>k. k \<notin> set (dict_keys b)) (dict_keys a) = []" "filter (\<lambda>k. k \<notin> set (dict_keys a)) (dict_keys b) = []"
      by (auto simp: filter_empty_conv)
    then show ?thesis by (simp add: key_mismatch_def Let_def)
  qed
  then have "map (\<lambda>(a, b). key_mismatch (dict_keys a) (dict_keys b)) (index_pairs ss) = map (\<lambda>_. 0) (index_pairs ss)"
    by (intro map_cong) auto
  then have "(\<Sum>(a, b)\<leftarrow>index_pairs ss. key_mismatch (dict_keys a) (dict_keys b)) = 0"
    by (metis sum_list_0)
  then show ?thesis by (simp add: calculate_structural_variance_def)
qed

lemma divergence_score_bound:
  assumes "2 \<le> length responses" and "50 < threshold"
    and "\<And>r s d e. r \<in> set responses \<Longrightarrow> s \<in> set responses \<Longrightarrow> mrs_parsed_json r = Some d \<Longrightarrow> mrs_parsed_json s = Some e \<Longrightarrow>
      set (dict_keys d) = set (dict_keys e)"
  shows "\<exists>report. evaluate_consensus (default_breaker threshold) prompt responses = Inr report \<and>
    dvr_structural_divergence report = 0 \<and> dvr_consensus_divergence_score report \<le> 50 \<and> \<not> dvr_is_broken report"
proof -
  have v: "calculate_structural_variance (List.map_filter mrs_parsed_json responses) = 0"
  proof (rule variance_same_keys)
    fix d e assume "d \<in> set (List.map_filter mrs_parsed_json responses)" "e \<in> set (List.map_filter mrs_parsed_json responses)"
    then obtain r s where "r \<in> set responses" "mrs_parsed_json r = Some d" "s \<in> set responses" "mrs_parsed_json s = Some e"
      by (auto simp: map_filter_def)
    then show "set (dict_keys d) = set (dict_keys e)" by (intro assms(3))
  qed
  have "semantic_score (map mrs_content responses) \<le> 100" using assms(1) by (intro semantic_le_100) simp
  then have "py_round 2 (1 / 2 * semantic_score (map mrs_content responses)) \<le> of_int 50"
    by (intro py_round_le) simp
  then have "min (py_round 2 (1 / 2 * semantic_score (map mrs_content responses) + 1 / 2 * 0)) 100 \<le> 50" by simp
  then show ?thesis using assms(1,2)
    by (simp only: evaluate_consensus_def default_breaker_def Let_def v consensus_breaker.simps not_less [symmetric])
      (simp del: py_round_0)
qed

text \<open>
  C37 (divergence_alarm_dead): Answers with the same keys, as the runs of one agent have them, are never broken for the
  breaker of the orchestrator: whatever the texts are, their score is at most 50, and its threshold is 60.
\<close>

theorem divergence_alarm_dead:
  assumes "2 \<le> length responses" and "50 < threshold"
    and "\<And>r s d e. r \<in> set responses \<Longrightarrow> s \<in> set responses \<Longrightarrow> mrs_parsed_json r = Some d \<Longrightarrow> mrs_parsed_json s = Some e \<Longrightarrow>
      set (dict_keys d) = set (dict_keys e)"
  shows "\<exists>report. evaluate_consensus (default_breaker threshold) prompt responses = Inr report \<and>
    dvr_structural_divergence report = 0 \<and> dvr_consensus_divergence_score report \<le> 50 \<and> \<not> dvr_is_broken report"
  using assms by (rule divergence_score_bound)

lemma empty_text_distance: "calculate_cosine_distance [] [] = 1"
  by (simp add: calculate_cosine_distance_def simple_token_vector_def token_words_def split_words_def count_words_def
      dict_keys_def py_round_def round_even_def)

theorem divergence_alarm_dead_witness:
  "\<exists>report. evaluate_consensus (default_breaker 60) ''scan''
     [\<lparr>mrs_model_name = ''Agent Run 1'', mrs_content = [], mrs_parsed_json = Some [(''is_secure'', PBool True)]\<rparr>,
      \<lparr>mrs_model_name = ''Agent Run 2'', mrs_content = [], mrs_parsed_json = Some [(''is_secure'', PBool False)]\<rparr>] = Inr report \<and>
     dvr_consensus_divergence_score report = 50 \<and> \<not> dvr_is_broken report"
proof -
  let ?rs = "[\<lparr>mrs_model_name = ''Agent Run 1'', mrs_content = [], mrs_parsed_json = Some [(''is_secure'', PBool True)]\<rparr>,
      \<lparr>mrs_model_name = ''Agent Run 2'', mrs_content = [], mrs_parsed_json = Some [(''is_secure'', PBool False)]\<rparr>]"
  have "\<exists>report. evaluate_consensus (default_breaker 60) ''scan'' ?rs = Inr report \<and> dvr_structural_divergence report = 0 \<and>
      dvr_consensus_divergence_score report \<le> 50 \<and> \<not> dvr_is_broken report"
    by (rule divergence_alarm_dead) (auto simp: dict_keys_def)
  then obtain report where r: "evaluate_consensus (default_breaker 60) ''scan'' ?rs = Inr report" "\<not> dvr_is_broken report"
    "dvr_structural_divergence report = 0" by blast
  have "py_round 2 50 = 50" by (simp add: py_round_def round_even_def)
  moreover have "semantic_score [[], []] = 100"
    by (simp add: semantic_score_def empty_text_distance pairs_count_def)
  ultimately have "dvr_consensus_divergence_score report = 50"
    using r(1,3) by (auto simp: evaluate_consensus_def default_breaker_def Let_def)
  with r show ?thesis by blast
qed

text \<open>Two equal answers without a word of three letters are at the greatest distance.\<close>

lemma short_answers_diverge:
  "token_words t = [] \<Longrightarrow> calculate_cosine_distance t t = 1"
  by (simp add: calculate_cosine_distance_def simple_token_vector_def count_words_def dict_keys_def py_round_def round_even_def)

end
