(* ===== verification/Consensus_Tables.thy ===== *)
theory Consensus_Tables
  imports Py_Values
begin

text \<open>
  The dispatch tables of \<open>pi_micro_agents/orchestrator/consensus.py\<close>: the output classes of recorded runs, the entry
  methods of the agents, and for each agent how the consensus of its runs is reported. A branch of the code's
  \<open>if\<close> chains is a row, in the order of the branches.
\<close>

section \<open>Dispatch\<close>

definition mock_output_classes_1 :: "(string \<times> string) list" where
  "mock_output_classes_1 =
    [(''PiArbitrageGuard'', ''ArbitrageOutput''), (''PiMempoolSentry'', ''MempoolTxOutput''),
     (''PiGitSecScanner'', ''GitSecOutput''), (''PiPublisherDispatch'', ''PublisherOutput''),
     (''PiOracleSentry'', ''OracleSentryOutput''), (''PiSelfHealingPatchAgent'', ''SelfHealingOutput''),
     (''PiReentrancySentry'', ''ReentrancyOutput''), (''PiAccessControlVerifier'', ''AccessControlOutput''),
     (''PiFlashLoanDefender'', ''FlashLoanOutput''), (''PiArithmeticAuditor'', ''ArithmeticOutput''),
     (''PiBytecodeDecompiler'', ''BytecodeDecompilerOutput''), (''PiVyperSecScanner'', ''VyperScannerOutput''),
     (''PiSelfDestructHunter'', ''SelfDestructHunterOutput''), (''PiOracleDivergenceAudit'', ''OracleDivergenceOutput''),
     (''PiTokenTaxDetector'', ''TokenTaxOutput''), (''PiTxOriginSentry'', ''TxOriginOutput''),
     (''PiReadOnlyReentrancySentry'', ''ReadOnlyReentrancyOutput''),
     (''PiUninitializedStateSentry'', ''UninitializedOutput''),
     (''PiShadowedVariableDetector'', ''ShadowedVariableOutput''), (''PiBlockTimestampSentry'', ''BlockTimestampOutput''),
     (''PiStorageLayoutDrift'', ''StorageDriftOutput''), (''PiERC4626VaultGuard'', ''VaultGuardOutput''),
     (''PiCrossChainBridgeAuditor'', ''BridgeAuditOutput''), (''PiGasGuzzlerDetector'', ''GasGuzzlerOutput''),
     (''PiAssemblyLethalWeapons'', ''AssemblySafetyOutput''), (''PiLogicGatekeeper'', ''LogicGatekeeperOutput''),
     (''PiPhishingShield'', ''PhishingShieldOutput''), (''PiExternalContractGuard'', ''ExternalContractGuardOutput''),
     (''PiCentralizationSentry'', ''CentralizationOutput''), (''PiFloatingPragmaSentry'', ''PragmaSentryOutput''),
     (''PiUpgradeDefectDetector'', ''UpgradeDefectOutput''), (''PiDoSGasLimitsSentry'', ''DoSGasLimitsOutput''),
     (''PiDeFiSlippageGuard'', ''DeFiSlippageOutput''), (''PiConstantTimeAuditor'', ''ConstantTimeOutput''),
     (''PiMemoryZeroizeSentry'', ''MemoryZeroizeOutput''),
     (''PiDimensionalAnalysisSentry'', ''DimensionalAnalysisOutput''),
     (''PiAgentToolExecutionGuard'', ''AgentToolGuardOutput''),
     (''PiHotPathAllocationAuditor'', ''HotPathAllocationOutput''),
     (''PiCavemanTokenCompressor'', ''CavemanCompressorOutput''), (''PiGrillMeQuestionnaire'', ''GrillMeOutput''),
     (''PiHandoffCheckpointSentry'', ''HandoffOutput''), (''PiToPrdValidator'', ''ToPrdOutput''),
     (''PiToIssuesBreakdown'', ''ToIssuesOutput''), (''PiTriageBugLabels'', ''TriageOutput''),
     (''PiZoomOutSystemExplainer'', ''ZoomOutOutput''), (''PiDesignAnInterfaceValidator'', ''DesignAnInterfaceOutput''),
     (''PiRequestRefactorPlanVerifier'', ''RequestRefactorOutput''), (''PiTddTestFileVerifier'', ''TddTestFileOutput''),
     (''PiTddAssertionCoverage'', ''TddAssertionOutput''), (''PiTddMockingSanityChecker'', ''TddMockingOutput''),
     (''PiGitSafetyGuardrail'', ''GitSafetyOutput''), (''PiTypeScriptWizardryCheck'', ''TypeScriptWizardryOutput''),
     (''PiArchitectureImportBoundarySentry'', ''ImportBoundaryOutput''),
     (''PiDepreciationScanner'', ''DepreciationOutput''), (''PiDeadCodePruner'', ''DeadCodeOutput''),
     (''PiMockDataTaintingSentry'', ''MockDataTaintingOutput''), (''PiReadmeValidator'', ''ReadmeOutput''),
     (''PiChangelogAuditor'', ''ChangelogOutput''), (''PiAstDepthGuard'', ''AstDepthOutput''),
     (''PiUncontrolledRecursionSentry'', ''RecursionOutput''), (''PiMagicNumberScanner'', ''MagicNumberOutput''),
     (''PiErrorHandlingCatchAllGuard'', ''ErrorCatchOutput''),
     (''PiSemanticCommitMessageLinter'', ''CommitLinterOutput''), (''PiDockerImageScanner'', ''DockerImageOutput''),
     (''PiContainerEscapeDetector'', ''ContainerEscapeOutput''),
     (''PiHardcodedSecretDetector'', ''HardcodedSecretOutput''), (''PiAutomatedRotationEngine'', ''RotationOutput''),
     (''PiLLMOutputSanitizer'', ''LLMOutputSanitizerOutput''), (''PiDataFlowPrivacyMapper'', ''PrivacyMapperOutput''),
     (''PiSensitiveDataScanner'', ''SensitiveDataOutput''), (''PiAutomatedAnonymizer'', ''AnonymizerOutput''),
     (''PiSensitiveLogLeakSentry'', ''LogLeakOutput''), (''PiStructuredLoggingEnforcer'', ''StructuredLoggingOutput''),
     (''PiIaCScanner'', ''IaCOutput'')]"

definition mock_output_classes_2 :: "(string \<times> string) list" where
  "mock_output_classes_2 =
    [(''PiDependencyVulnScanner'', ''DependencyOutput''), (''PiCloudConfigAuditor'', ''CloudConfigOutput''),
     (''PiRBACPermissionMapper'', ''RBACOutput''), (''PiEncryptionComplianceChecker'', ''EncryptionOutput''),
     (''PiSBOMValidator'', ''SBOMOutput''), (''PiSupplyChainIntegrityChecker'', ''SupplyChainOutput''),
     (''PiAPIOWASPScanner'', ''APIOutput''), (''PiKubernetesSecurityAuditor'', ''K8sOutput''),
     (''PiZeroTrustVerifier'', ''ZeroTrustOutput''), (''PiCertificateRotationWatcher'', ''CertOutput''),
     (''PiFirewallRuleAuditor'', ''FirewallOutput''), (''PiBackupIntegrityChecker'', ''BackupOutput''),
     (''PiAuditLogTamperDetector'', ''LogOutput''), (''PiMisconfigPatternMatcher'', ''MisconfigOutput''),
     (''PiThreatModelGenerator'', ''ThreatModelOutput''), (''PiSecretsManagerCompletenessChecker'', ''VaultOutput''),
     (''PiCodeSigningEnforcer'', ''SigningOutput''), (''PiDataRetentionPolicyEnforcer'', ''RetentionOutput''),
     (''PiRuntimeAnomalySentry'', ''AnomalyOutput'')]"

definition mock_output_classes :: "(string \<times> string) list" where
  "mock_output_classes = mock_output_classes_1 @ mock_output_classes_2"

definition entry_methods_1 :: "(string \<times> string) list" where
  "entry_methods_1 =
    [(''PiArbitrageGuard'', ''analyze_spread''), (''PiMempoolSentry'', ''check_transaction''),
     (''PiGitSecScanner'', ''scan_file''), (''PiPublisherDispatch'', ''dispatch_publications''),
     (''PiOracleSentry'', ''audit_prices''), (''PiSelfHealingPatchAgent'', ''heal_vulnerabilities''),
     (''PiReentrancySentry'', ''audit_reentrancy''), (''PiAccessControlVerifier'', ''audit_access_control''),
     (''PiFlashLoanDefender'', ''audit_flash_loan''), (''PiArithmeticAuditor'', ''audit_arithmetic''),
     (''PiDelegateCallGuard'', ''audit_delegatecall''), (''PiSignatureReplayScout'', ''audit_signature''),
     (''PiBytecodeDecompiler'', ''audit_bytecode''), (''PiVyperSecScanner'', ''audit_vyper''),
     (''PiSelfDestructHunter'', ''audit_selfdestruct''), (''PiOracleDivergenceAudit'', ''audit_divergence''),
     (''PiTokenTaxDetector'', ''audit_token_tax''), (''PiTxOriginSentry'', ''audit_tx_origin''),
     (''PiReadOnlyReentrancySentry'', ''audit_readonly_reentrancy''),
     (''PiUninitializedStateSentry'', ''audit_uninitialized''), (''PiShadowedVariableDetector'', ''audit_shadowed''),
     (''PiBlockTimestampSentry'', ''audit_timestamp''), (''PiStorageLayoutDrift'', ''audit_storage''),
     (''PiERC4626VaultGuard'', ''audit_vault''), (''PiCrossChainBridgeAuditor'', ''audit_bridge''),
     (''PiGasGuzzlerDetector'', ''audit_gas''), (''PiAssemblyLethalWeapons'', ''audit_assembly''),
     (''PiLogicGatekeeper'', ''audit_logic''), (''PiPhishingShield'', ''audit_phishing''),
     (''PiExternalContractGuard'', ''audit_external''), (''PiCentralizationSentry'', ''audit_centralization''),
     (''PiFloatingPragmaSentry'', ''audit_pragma''), (''PiUpgradeDefectDetector'', ''audit_upgrade''),
     (''PiDoSGasLimitsSentry'', ''audit_dos_gas''), (''PiDeFiSlippageGuard'', ''audit_slippage''),
     (''PiConstantTimeAuditor'', ''audit_constant_time''), (''PiMemoryZeroizeSentry'', ''audit_memory_zeroize''),
     (''PiDimensionalAnalysisSentry'', ''audit_dimensions''), (''PiAgentToolExecutionGuard'', ''audit_agent_command''),
     (''PiHotPathAllocationAuditor'', ''audit_hot_path''), (''PiCavemanTokenCompressor'', ''compress_tokens''),
     (''PiGrillMeQuestionnaire'', ''grill_plan''), (''PiHandoffCheckpointSentry'', ''audit_handoff''),
     (''PiToPrdValidator'', ''validate_prd''), (''PiToIssuesBreakdown'', ''breakdown_issues''),
     (''PiTriageBugLabels'', ''triage_bug''), (''PiZoomOutSystemExplainer'', ''explain_system''),
     (''PiDesignAnInterfaceValidator'', ''validate_interface''), (''PiRequestRefactorPlanVerifier'', ''verify_refactor''),
     (''PiTddTestFileVerifier'', ''verify_test_files''), (''PiTddAssertionCoverage'', ''check_assertion_coverage''),
     (''PiTddMockingSanityChecker'', ''check_mocking_sanity''), (''PiGitSafetyGuardrail'', ''check_git_safety''),
     (''PiTypeScriptWizardryCheck'', ''check_typescript''),
     (''PiArchitectureImportBoundarySentry'', ''check_import_boundaries''),
     (''PiDepreciationScanner'', ''scan_depreciation''), (''PiDeadCodePruner'', ''prune_dead_code''),
     (''PiMockDataTaintingSentry'', ''check_mock_tainting''), (''PiReadmeValidator'', ''validate_readme''),
     (''PiChangelogAuditor'', ''audit_changelog''), (''PiAstDepthGuard'', ''check_ast_depth''),
     (''PiUncontrolledRecursionSentry'', ''check_recursion''), (''PiMagicNumberScanner'', ''scan_magic_numbers''),
     (''PiErrorHandlingCatchAllGuard'', ''check_error_handling''),
     (''PiSemanticCommitMessageLinter'', ''audit_commit_message''), (''PiDockerImageScanner'', ''scan_docker_image''),
     (''PiContainerEscapeDetector'', ''scan_container_escape''),
     (''PiHardcodedSecretDetector'', ''scan_hardcoded_secrets''), (''PiAutomatedRotationEngine'', ''rotate_credential''),
     (''PiLLMOutputSanitizer'', ''sanitize_llm_output''), (''PiDataFlowPrivacyMapper'', ''map_data_privacy_flows''),
     (''PiSensitiveDataScanner'', ''scan_sensitive_data''), (''PiAutomatedAnonymizer'', ''anonymize_payload''),
     (''PiSensitiveLogLeakSentry'', ''audit_log_leaks'')]"

definition entry_methods_2 :: "(string \<times> string) list" where
  "entry_methods_2 =
    [(''PiStructuredLoggingEnforcer'', ''enforce_structured_logging''), (''PiIaCScanner'', ''scan_iac''),
     (''PiDependencyVulnScanner'', ''scan_dependencies''), (''PiCloudConfigAuditor'', ''audit_config''),
     (''PiRBACPermissionMapper'', ''map_rbac_permissions''),
     (''PiEncryptionComplianceChecker'', ''check_encryption_compliance''), (''PiSBOMValidator'', ''validate_sbom''),
     (''PiSupplyChainIntegrityChecker'', ''check_supply_chain''), (''PiAPIOWASPScanner'', ''scan_api''),
     (''PiKubernetesSecurityAuditor'', ''audit_k8s''), (''PiZeroTrustVerifier'', ''verify_zero_trust''),
     (''PiCertificateRotationWatcher'', ''watch_certificate''), (''PiFirewallRuleAuditor'', ''audit_firewall''),
     (''PiBackupIntegrityChecker'', ''check_backup''), (''PiAuditLogTamperDetector'', ''detect_tampering''),
     (''PiMisconfigPatternMatcher'', ''match_config''), (''PiThreatModelGenerator'', ''generate_threat_model''),
     (''PiSecretsManagerCompletenessChecker'', ''check_vault_config''), (''PiCodeSigningEnforcer'', ''verify_signing''),
     (''PiDataRetentionPolicyEnforcer'', ''enforce_retention''), (''PiRuntimeAnomalySentry'', ''audit_runtime''),
     (''PiOpenRedirectDetector'', ''scan'')]"

definition entry_methods :: "(string \<times> string) list" where
  "entry_methods = entry_methods_1 @ entry_methods_2"

definition ENTRY_VERBS :: "string list" where
  "ENTRY_VERBS =
    [''audit'', ''scan'', ''check'', ''detect'', ''analyze'', ''verify'', ''validate'', ''inspect'', ''enforce'',
     ''generate'', ''evaluate'', ''assess'', ''review'', ''guard'', ''hunt'', ''heal'', ''dispatch'', ''monitor'',
     ''trace'', ''lint'', ''optimize'', ''recommend'', ''remediate'']"

definition text_attributes :: "string list" where
  "text_attributes =
    [''text_payload'', ''plan_content'', ''handoff_content'', ''prd_content'', ''spec_content'', ''log_content'',
     ''code_content'', ''interface_content'', ''test_code_content'', ''data_content'', ''readme_content'',
     ''changelog_content'', ''commit_message'', ''dockerfile_content'', ''config_content'', ''file_content'',
     ''target_identifier'', ''raw_output'', ''text_content'', ''raw_payload'', ''iac_content'', ''lockfile_content'',
     ''config_snippet'', ''sbom_content'', ''manifest_content'', ''schema_content'', ''k8s_content'',
     ''network_policy_content'', ''cert_content'', ''rules_content'', ''backup_config'', ''system_desc'',
     ''vault_config'', ''artifact_metadata'', ''policy_content'', ''metrics_content'']"

definition secure_agents :: "string list" where
  "secure_agents =
    [''PiBytecodeDecompiler'', ''PiVyperSecScanner'', ''PiSelfDestructHunter'', ''PiOracleDivergenceAudit'',
     ''PiTokenTaxDetector'', ''PiTxOriginSentry'', ''PiReadOnlyReentrancySentry'', ''PiUninitializedStateSentry'',
     ''PiShadowedVariableDetector'', ''PiBlockTimestampSentry'', ''PiCrossChainBridgeAuditor'', ''PiGasGuzzlerDetector'',
     ''PiAssemblyLethalWeapons'', ''PiLogicGatekeeper'', ''PiPhishingShield'', ''PiExternalContractGuard'',
     ''PiCentralizationSentry'', ''PiFloatingPragmaSentry'', ''PiUpgradeDefectDetector'', ''PiDoSGasLimitsSentry'',
     ''PiDeFiSlippageGuard'', ''PiConstantTimeAuditor'', ''PiMemoryZeroizeSentry'', ''PiDimensionalAnalysisSentry'',
     ''PiAgentToolExecutionGuard'', ''PiHotPathAllocationAuditor'', ''PiCavemanTokenCompressor'',
     ''PiGrillMeQuestionnaire'', ''PiHandoffCheckpointSentry'', ''PiToPrdValidator'', ''PiToIssuesBreakdown'',
     ''PiTriageBugLabels'', ''PiZoomOutSystemExplainer'', ''PiDesignAnInterfaceValidator'',
     ''PiRequestRefactorPlanVerifier'', ''PiTddTestFileVerifier'', ''PiTddAssertionCoverage'',
     ''PiTddMockingSanityChecker'', ''PiGitSafetyGuardrail'', ''PiTypeScriptWizardryCheck'',
     ''PiArchitectureImportBoundarySentry'', ''PiDepreciationScanner'', ''PiDeadCodePruner'',
     ''PiMockDataTaintingSentry'', ''PiReadmeValidator'', ''PiChangelogAuditor'', ''PiAstDepthGuard'',
     ''PiUncontrolledRecursionSentry'', ''PiMagicNumberScanner'', ''PiErrorHandlingCatchAllGuard'',
     ''PiSemanticCommitMessageLinter'', ''PiWebVulnScanner'', ''PiPipelineIntegrityAuditor'', ''PiDockerImageScanner'',
     ''PiContainerEscapeDetector'', ''PiHardcodedSecretDetector'', ''PiLLMOutputSanitizer'', ''PiDataFlowPrivacyMapper'',
     ''PiSensitiveDataScanner'', ''PiAutomatedAnonymizer'', ''PiSensitiveLogLeakSentry'', ''PiStructuredLoggingEnforcer'',
     ''PiIaCScanner'', ''PiDependencyVulnScanner'', ''PiCloudConfigAuditor'', ''PiRBACPermissionMapper'',
     ''PiEncryptionComplianceChecker'', ''PiSBOMValidator'', ''PiSupplyChainIntegrityChecker'', ''PiAPIOWASPScanner'',
     ''PiKubernetesSecurityAuditor'', ''PiZeroTrustVerifier'', ''PiCertificateRotationWatcher'',
     ''PiFirewallRuleAuditor'', ''PiBackupIntegrityChecker'', ''PiAuditLogTamperDetector'', ''PiMisconfigPatternMatcher'',
     ''PiThreatModelGenerator'', ''PiSecretsManagerCompletenessChecker'', ''PiCodeSigningEnforcer'',
     ''PiDataRetentionPolicyEnforcer'', ''PiRuntimeAnomalySentry'']"

section \<open>Reports\<close>

text \<open>
  The parts of an f-string: text, an attribute of the input, an entry of the outcome, a number with fixed decimals, a
  joined list.
\<close>

datatype summary_part =
    S_Text string
  | S_Input string
  | S_Get string
  | S_Fixed nat string pyval
  | S_Joined string

text \<open>
  The risk score: the entry of the outcome; 0 or a constant by an entry; \<open>100 - compliance_score\<close>; a constant when there
  are alerts; the check of a blocked route, which also clears the success.
\<close>

datatype risk_rule =
    Risk_Score
  | Risk_Unless string string
  | Risk_Compliance
  | Risk_Alerts string
  | Risk_Blocked

type_synonym report_rule = "string \<times> string list \<times> risk_rule \<times> summary_part list"

definition report_rules_1 :: "report_rule list" where
  "report_rules_1 =
    [(''PiArbitrageGuard'',
      [], Risk_Blocked,
      [S_Text ''Arbitrage calculation complete (Consensus Passed). Route: '', S_Get ''route_details'',
       S_Text ''. Profit: '', S_Fixed 4 ''expected_profit'' (PFloat ''0.0'')]),
     (''PiMempoolSentry'',
      [''alerts''], Risk_Score,
      [S_Text ''Mempool audit finished (Consensus Passed). Status: '', S_Get ''status'']),
     (''PiGitSecScanner'',
      [''flagged_vulnerabilities''], Risk_Score,
      [S_Text ''Completed static security scan on '', S_Input ''filename'', S_Text '' (Consensus Passed). Status: '',
       S_Get ''status'']),
     (''PiPublisherDispatch'',
      [''anomalies_detected''], Risk_Alerts ''95.0'',
      [S_Text ''Curation publication dispatched (Consensus Passed). Substack URL: '', S_Get ''substack_post_url'']),
     (''PiOracleSentry'',
      [''flagged_anomalies''], Risk_Unless ''is_secure'' ''90.0'',
      [S_Text ''Oracle security audit completed (Consensus Passed). Status: '', S_Get ''status'']),
     (''PiSelfHealingPatchAgent'',
      [''remediations''], Risk_Unless ''patch_synthesized'' ''60.0'',
      [S_Text ''Autonomous self-healing repair complete (Consensus Passed). Status: '', S_Get ''status'']),
     (''PiReentrancySentry'',
      [''flagged_findings''], Risk_Score,
      [S_Text ''Completed static Solidity reentrancy scan on '', S_Input ''file_path'',
       S_Text '' (Consensus Passed). Status: '', S_Get ''status'']),
     (''PiAccessControlVerifier'',
      [''flagged_findings''], Risk_Score,
      [S_Text ''Completed static Solidity access control scan on '', S_Input ''file_path'',
       S_Text '' (Consensus Passed). Status: '', S_Get ''status'']),
     (''PiFlashLoanDefender'',
      [''flagged_findings''], Risk_Score,
      [S_Text ''Completed static Solidity flash loan audit on '', S_Input ''file_path'',
       S_Text '' (Consensus Passed). Status: '', S_Get ''status'']),
     (''PiArithmeticAuditor'',
      [''flagged_findings''], Risk_Score,
      [S_Text ''Completed static Solidity arithmetic audit on '', S_Input ''file_path'',
       S_Text '' (Consensus Passed). Status: '', S_Get ''status'']),
     (''PiDelegateCallGuard'',
      [''flagged_findings''], Risk_Score,
      [S_Text ''Completed static Solidity delegatecall audit on '', S_Input ''file_path'',
       S_Text '' (Consensus Passed). Status: '', S_Get ''status'']),
     (''PiSignatureReplayScout'',
      [''flagged_findings''], Risk_Score,
      [S_Text ''Completed static Solidity signature replay audit on '', S_Input ''file_path'',
       S_Text '' (Consensus Passed). Status: '', S_Get ''status'']),
     (''PiBytecodeDecompiler'',
      [''flagged_findings''], Risk_Score,
      [S_Text ''Completed EVM bytecode and assembly audit on '', S_Input ''file_path'',
       S_Text '' (Consensus Passed). Status: '', S_Get ''status'']),
     (''PiVyperSecScanner'',
      [''flagged_findings''], Risk_Score,
      [S_Text ''Completed static Vyper security scan on '', S_Input ''file_path'',
       S_Text '' (Consensus Passed). Status: '', S_Get ''status'']),
     (''PiSelfDestructHunter'',
      [''flagged_findings''], Risk_Score,
      [S_Text ''Completed static Solidity selfdestruct scan on '', S_Input ''file_path'',
       S_Text '' (Consensus Passed). Status: '', S_Get ''status'']),
     (''PiOracleDivergenceAudit'',
      [''flagged_findings''], Risk_Score,
      [S_Text ''Completed static Solidity oracle price divergence audit on '', S_Input ''file_path'',
       S_Text '' (Consensus Passed). Status: '', S_Get ''status'']),
     (''PiTokenTaxDetector'',
      [''flagged_findings''], Risk_Score,
      [S_Text ''Completed static Solidity token tax audit on '', S_Input ''file_path'',
       S_Text '' (Consensus Passed). Status: '', S_Get ''status'']),
     (''PiTxOriginSentry'',
      [''flagged_findings''], Risk_Score,
      [S_Text ''Completed static Solidity tx.origin authorization scan on '', S_Input ''file_path'',
       S_Text '' (Consensus Passed). Status: '', S_Get ''status'']),
     (''PiReadOnlyReentrancySentry'',
      [''flagged_findings''], Risk_Score,
      [S_Text ''Completed static Solidity read-only reentrancy scan on '', S_Input ''file_path'',
       S_Text '' (Consensus Passed). Status: '', S_Get ''status'']),
     (''PiUninitializedStateSentry'',
      [''flagged_findings''], Risk_Score,
      [S_Text ''Completed static Solidity uninitialized storage scan on '', S_Input ''file_path'',
       S_Text '' (Consensus Passed). Status: '', S_Get ''status'']),
     (''PiShadowedVariableDetector'',
      [''flagged_findings''], Risk_Score,
      [S_Text ''Completed static Solidity shadowed variable audit on '', S_Input ''file_path'',
       S_Text '' (Consensus Passed). Status: '', S_Get ''status'']),
     (''PiBlockTimestampSentry'',
      [''flagged_findings''], Risk_Score,
      [S_Text ''Completed static Solidity block timestamp reliance audit on '', S_Input ''file_path'',
       S_Text '' (Consensus Passed). Status: '', S_Get ''status'']),
     (''PiStorageLayoutDrift'',
      [''drifted_slots'', ''compliance_findings''], Risk_Score,
      [S_Text ''Completed storage layout drift audit on '', S_Input ''file_path'',
       S_Text '' (Consensus Passed). Status: '', S_Get ''status'']),
     (''PiERC4626VaultGuard'',
      [''flagged_findings''], Risk_Score,
      [S_Text ''Completed ERC-4626 vault audit on '', S_Input ''file_path'', S_Text '' (Consensus Passed). Status: '',
       S_Get ''status'']),
     (''PiCrossChainBridgeAuditor'',
      [''flagged_findings''], Risk_Score,
      [S_Text ''Completed cross-chain bridge audit on '', S_Input ''file_path'', S_Text '' (Consensus Passed). Status: '',
       S_Get ''status'']),
     (''PiGasGuzzlerDetector'',
      [''flagged_findings''], Risk_Score,
      [S_Text ''Completed gas guzzler audit on '', S_Input ''file_path'', S_Text '' (Consensus Passed). Status: '',
       S_Get ''status'']),
     (''PiAssemblyLethalWeapons'',
      [''flagged_findings''], Risk_Score,
      [S_Text ''Completed inline assembly safety audit on '', S_Input ''file_path'',
       S_Text '' (Consensus Passed). Status: '', S_Get ''status'']),
     (''PiLogicGatekeeper'',
      [''flagged_findings''], Risk_Score,
      [S_Text ''Completed logic gatekeeper audit on '', S_Input ''file_path'', S_Text '' (Consensus Passed). Status: '',
       S_Get ''status'']),
     (''PiPhishingShield'',
      [''flagged_findings''], Risk_Score,
      [S_Text ''Completed phishing shield audit on '', S_Input ''file_path'', S_Text '' (Consensus Passed). Status: '',
       S_Get ''status'']),
     (''PiExternalContractGuard'',
      [''flagged_findings''], Risk_Score,
      [S_Text ''Completed external contract guard audit on '', S_Input ''file_path'',
       S_Text '' (Consensus Passed). Status: '', S_Get ''status'']),
     (''PiCentralizationSentry'',
      [''flagged_findings''], Risk_Score,
      [S_Text ''Completed centralization risk audit on '', S_Input ''file_path'',
       S_Text '' (Consensus Passed). Status: '', S_Get ''status'']),
     (''PiFloatingPragmaSentry'',
      [''flagged_findings''], Risk_Score,
      [S_Text ''Completed floating pragma compiler audit on '', S_Input ''file_path'',
       S_Text '' (Consensus Passed). Status: '', S_Get ''status'']),
     (''PiUpgradeDefectDetector'',
      [''flagged_findings''], Risk_Score,
      [S_Text ''Completed upgradeable proxy defect audit on '', S_Input ''file_path'',
       S_Text '' (Consensus Passed). Status: '', S_Get ''status'']),
     (''PiDoSGasLimitsSentry'',
      [''flagged_findings''], Risk_Score,
      [S_Text ''Completed Block Gas Limit DoS audit on '', S_Input ''file_path'',
       S_Text '' (Consensus Passed). Status: '', S_Get ''status'']),
     (''PiDeFiSlippageGuard'',
      [''flagged_findings''], Risk_Score,
      [S_Text ''Completed DeFi slippage protection audit on '', S_Input ''file_path'',
       S_Text '' (Consensus Passed). Status: '', S_Get ''status''])]"

definition report_rules_2 :: "report_rule list" where
  "report_rules_2 =
    [(''PiConstantTimeAuditor'',
      [''flagged_lines''], Risk_Score,
      [S_Text ''Completed constant-time cryptographic audit on '', S_Input ''file_path'',
       S_Text '' (Consensus Passed). Status: '', S_Get ''status'']),
     (''PiMemoryZeroizeSentry'',
      [''flagged_findings''], Risk_Score,
      [S_Text ''Completed memory zeroization audit on '', S_Input ''file_path'', S_Text '' (Consensus Passed). Status: '',
       S_Get ''status'']),
     (''PiDimensionalAnalysisSentry'',
      [''mismatches''], Risk_Score,
      [S_Text ''Completed dimensional analysis audit on '', S_Input ''file_path'',
       S_Text '' (Consensus Passed). Status: '', S_Get ''status'']),
     (''PiAgentToolExecutionGuard'',
      [''blocked_patterns''], Risk_Score,
      [S_Text ''Completed agent terminal command safety audit (Consensus Passed). Status: '', S_Get ''status'']),
     (''PiHotPathAllocationAuditor'',
      [''flagged_hotspots''], Risk_Score,
      [S_Text ''Completed hot-path allocation diagnostic scan on '', S_Input ''file_path'',
       S_Text '' (Consensus Passed). Status: '', S_Get ''status'']),
     (''PiDockerImageScanner'',
      [''detected_vulnerabilities''], Risk_Score,
      [S_Text ''Completed static container image safety scan on '', S_Input ''file_path'',
       S_Text '' (Consensus Passed). Status: '', S_Get ''status'']),
     (''PiContainerEscapeDetector'',
      [''escape_vectors''], Risk_Score,
      [S_Text ''Completed container escape vulnerabilities scan on '', S_Input ''file_path'',
       S_Text '' (Consensus Passed). Status: '', S_Get ''status'']),
     (''PiHardcodedSecretDetector'',
      [''flagged_secrets''], Risk_Score,
      [S_Text ''Completed hardcoded secrets scan on '', S_Input ''file_path'', S_Text '' (Consensus Passed). Status: '',
       S_Get ''status'']),
     (''PiAutomatedRotationEngine'',
      [], Risk_Unless ''rotation_completed'' ''80.0'',
      [S_Text ''Credential rotation process executed for '', S_Input ''target_identifier'',
       S_Text '' (Consensus Passed). Status: '', S_Get ''status'']),
     (''PiLLMOutputSanitizer'',
      [''detected_leaks''], Risk_Score,
      [S_Text ''Completed LLM output sanitization audit (Consensus Passed). Status: '', S_Get ''status'']),
     (''PiDataFlowPrivacyMapper'',
      [''unsecured_flows''], Risk_Score,
      [S_Text ''Completed data flow privacy analysis (Consensus Passed). Status: '', S_Get ''status'']),
     (''PiSensitiveDataScanner'',
      [''discovered_pii_elements''], Risk_Score,
      [S_Text ''Completed sensitive data and PII scan on '', S_Input ''data_label'',
       S_Text '' (Consensus Passed). Status: '', S_Get ''status'']),
     (''PiAutomatedAnonymizer'',
      [], Risk_Unless ''is_secure'' ''80.0'',
      [S_Text ''Automated payload anonymization completed (Consensus Passed). Fields scrubbed: '',
       S_Get ''fields_scrubbed_count'', S_Text ''. Status: '', S_Get ''status'']),
     (''PiSensitiveLogLeakSentry'',
      [''flagged_leaks''], Risk_Score,
      [S_Text ''Completed sensitive log leak audit on '', S_Input ''log_file_path'',
       S_Text '' (Consensus Passed). Status: '', S_Get ''status'']),
     (''PiStructuredLoggingEnforcer'',
      [''unstructured_statements''], Risk_Compliance,
      [S_Text ''Completed structured logging compliance audit on '', S_Input ''file_path'',
       S_Text '' (Consensus Passed). Compliance score: '', S_Fixed 1 ''compliance_score'' (PFloat ''100.0''),
       S_Text ''. Status: '', S_Get ''status'']),
     (''PiIaCScanner'',
      [''detected_misconfigs''], Risk_Score,
      [S_Text ''Completed static IaC security scan on '', S_Input ''file_path'', S_Text '' (Consensus Passed). Status: '',
       S_Get ''status'']),
     (''PiDependencyVulnScanner'',
      [''vulnerable_packages''], Risk_Score,
      [S_Text ''Completed dependency vulnerability scan on '', S_Input ''lockfile_path'',
       S_Text '' (Consensus Passed). Status: '', S_Get ''status'']),
     (''PiCloudConfigAuditor'',
      [''misconfigured_resources''], Risk_Score,
      [S_Text ''Completed cloud config security audit on '', S_Input ''file_path'',
       S_Text '' (Consensus Passed). Status: '', S_Get ''status'']),
     (''PiRBACPermissionMapper'',
      [''excessive_permissions''], Risk_Score,
      [S_Text ''Completed RBAC least privilege mapping on '', S_Input ''policy_file_path'',
       S_Text '' (Consensus Passed). Status: '', S_Get ''status'']),
     (''PiEncryptionComplianceChecker'',
      [''missing_encryption''], Risk_Score,
      [S_Text ''Completed encryption compliance check on '', S_Input ''resource_type'',
       S_Text '' (Consensus Passed). Status: '', S_Get ''status'']),
     (''PiSBOMValidator'',
      [''license_issues'', ''missing_attestations''], Risk_Score,
      [S_Text ''Completed SBOM licensing and validation audit on '', S_Input ''sbom_path'',
       S_Text '' (Consensus Passed). Status: '', S_Get ''status'']),
     (''PiSupplyChainIntegrityChecker'',
      [''suspicious_packages''], Risk_Score,
      [S_Text ''Completed software supply chain integrity check on '', S_Input ''manifest_path'',
       S_Text '' (Consensus Passed). Status: '', S_Get ''status'']),
     (''PiAPIOWASPScanner'',
      [''owasp_violations''], Risk_Score,
      [S_Text ''Completed API OWASP security audit on '', S_Input ''api_path'', S_Text '' (Consensus Passed). Status: '',
       S_Get ''status'']),
     (''PiKubernetesSecurityAuditor'',
      [''violations''], Risk_Score,
      [S_Text ''Completed Kubernetes security audit (Consensus Passed). Status: '', S_Get ''status'']),
     (''PiZeroTrustVerifier'',
      [''violations''], Risk_Score,
      [S_Text ''Completed Zero-Trust network policy verification (Consensus Passed). Status: '', S_Get ''status'']),
     (''PiCertificateRotationWatcher'',
      [''issues''], Risk_Score,
      [S_Text ''Completed certificate rotation watch (Consensus Passed). Status: '', S_Get ''status'']),
     (''PiFirewallRuleAuditor'',
      [''open_ports'', ''issues''], Risk_Score,
      [S_Text ''Completed firewall rule security audit (Consensus Passed). Status: '', S_Get ''status'']),
     (''PiBackupIntegrityChecker'',
      [''issues''], Risk_Score,
      [S_Text ''Completed disaster recovery backup integrity check (Consensus Passed). Status: '', S_Get ''status'']),
     (''PiAuditLogTamperDetector'',
      [''anomalies''], Risk_Score,
      [S_Text ''Completed audit log tampering detection scan (Consensus Passed). Status: '', S_Get ''status'']),
     (''PiMisconfigPatternMatcher'',
      [''matched_patterns''], Risk_Score,
      [S_Text ''Completed security misconfiguration pattern match (Consensus Passed). Status: '', S_Get ''status'']),
     (''PiThreatModelGenerator'',
      [''threats''], Risk_Score,
      [S_Text ''Completed dynamic STRIDE threat model generation (Consensus Passed). Categories: '',
       S_Joined ''STRIDE_categories'', S_Text ''. Status: '', S_Get ''status'']),
     (''PiSecretsManagerCompletenessChecker'',
      [''gaps''], Risk_Score,
      [S_Text ''Completed secrets vault configuration completeness check (Consensus Passed). Status: '', S_Get ''status'']),
     (''PiCodeSigningEnforcer'',
      [''issues''], Risk_Score,
      [S_Text ''Completed build artifact code signing enforcement scan (Consensus Passed). Status: '', S_Get ''status'']),
     (''PiDataRetentionPolicyEnforcer'',
      [''issues''], Risk_Score,
      [S_Text ''Completed data retention lifecycle policy enforcement scan (Consensus Passed). Status: '',
       S_Get ''status'']),
     (''PiRuntimeAnomalySentry'',
      [''anomalies_detected''], Risk_Score,
      [S_Text ''Completed runtime container metrics anomaly audit (Consensus Passed). Status: '', S_Get ''status''])]"

definition report_rules :: "report_rule list" where
  "report_rules = report_rules_1 @ report_rules_2"

end
