(* ===== verification/Agent_Consensus.thy ===== *)
theory Agent_Consensus
  imports Consensus_Breaker Consensus_Tables
begin

text \<open>
  The consensus of three runs of an agent (\<open>pi_micro_agents/orchestrator/consensus.py\<close>): the perturbed inputs, the
  choice of the entry method and of the Rust port, the verdicts, the vote on them with the divergence breaker, and
  the report of the majority. The code of an agent is an argument (\<open>cse_call\<close>), as are pydantic's constructor
  (\<open>cse_construct\<close>) and JSON text (\<open>cse_text\<close>) of outputs, the Rust extension module and the \<open>repr\<close> of
  floats (\<open>cse_float\<close>).
\<close>

section \<open>Environment\<close>

record rust_core =
  rco_enabled :: "string option"
  rco_agents :: "string list result"
  rco_run :: "string \<Rightarrow> payload \<Rightarrow> payload result"
  rco_models :: "(string \<times> string list) list"

record consensus_env =
  cse_strict :: bool
  cse_now :: string
  cse_float :: "real \<Rightarrow> string"
  cse_text :: "payload \<Rightarrow> string"
  cse_construct :: "string \<Rightarrow> payload \<Rightarrow> payload result"
  cse_methods :: "string list"
  cse_call :: "string \<Rightarrow> payload \<Rightarrow> payload result"
  cse_rust :: rust_core

section \<open>The Rust port\<close>

definition rust_enabled :: "rust_core \<Rightarrow> bool" where
  "rust_enabled rc = (case rco_enabled rc of None \<Rightarrow> True
     | Some val \<Rightarrow> py_lower (py_strip val) \<in> {''1'', ''true'', ''yes'', ''on''})"

definition rust_agent_names :: "rust_core \<Rightarrow> string list" where
  "rust_agent_names rc = (case rco_agents rc of Inr names \<Rightarrow> names | Inl _ \<Rightarrow> [])"

text \<open>The model of the agent's module whose fields are the keys of the output; two such models are refused.\<close>

definition find_output_model :: "(string \<times> string list) list \<Rightarrow> string list \<Rightarrow> string option result" where
  "find_output_model models result_keys =
     (case filter (\<lambda>(m, fields). set fields = set result_keys) models of
        [] \<Rightarrow> Inr None
      | [(m, _)] \<Rightarrow> Inr (Some m)
      | _ \<Rightarrow> Inl (ValueError ''ambiguous Rust output reconstruction''))"

definition try_rust_agent :: "consensus_env \<Rightarrow> string \<Rightarrow> payload \<Rightarrow> payload option" where
  "try_rust_agent env agent_name perturbed =
     (let rc = cse_rust env in
      if \<not> rust_enabled rc \<or> agent_name \<notin> set (rust_agent_names rc) then None
      else (case res_bind (rco_run rc agent_name perturbed) (\<lambda>result.
                 res_bind (find_output_model (rco_models rc) (dict_keys result)) (\<lambda>model.
                 case model of None \<Rightarrow> Inr None | Some m \<Rightarrow> res_bind (cse_construct env m result) (\<lambda>v. Inr (Some v)))) of
              Inr out \<Rightarrow> out
            | Inl _ \<Rightarrow> None))"

section \<open>Perturbed inputs\<close>

definition text_field :: "payload \<Rightarrow> string \<Rightarrow> string option" where
  "text_field inp k = (case map_of inp k of Some (PStr s) \<Rightarrow> Some s | _ \<Rightarrow> None)"

definition pad_text :: "nat \<Rightarrow> string \<Rightarrow> string" where
  "pad_text index s = (if index = 1 then s @ '' '' else if index = 2 then '' '' @ s else s)"

definition pad_field :: "nat \<Rightarrow> payload \<Rightarrow> string \<Rightarrow> payload" where
  "pad_field index inp k = (case text_field inp k of Some s \<Rightarrow> dict_set inp k (PStr (pad_text index s)) | None \<Rightarrow> inp)"

text \<open>\<open>x *= 1.0001\<close>, \<open>x *= 0.9999\<close>, \<open>x += 0.05\<close> and \<open>x -= 0.05\<close> on what may not be a number.\<close>

definition shift_number :: "(real \<Rightarrow> string) \<Rightarrow> (real \<Rightarrow> real) \<Rightarrow> pyval \<Rightarrow> pyval result" where
  "shift_number fl f v = (case num_val v of Some q \<Rightarrow> Inr (PFloat (fl (f (of_rat q)))) | None \<Rightarrow> Inl TypeError)"

definition scale_number :: "(real \<Rightarrow> string) \<Rightarrow> nat \<Rightarrow> pyval \<Rightarrow> pyval result" where
  "scale_number fl index v =
     (if index = 1 then shift_number fl (\<lambda>x. x * (10001 / 10000)) v
      else if index = 2 then shift_number fl (\<lambda>x. x * (9999 / 10000)) v else Inr v)"

definition move_number :: "(real \<Rightarrow> string) \<Rightarrow> nat \<Rightarrow> pyval \<Rightarrow> pyval result" where
  "move_number fl index v =
     (if index = 1 then shift_number fl (\<lambda>x. x + 5 / 100) v
      else if index = 2 then shift_number fl (\<lambda>x. x - 5 / 100) v else Inr v)"

definition set_result :: "payload \<Rightarrow> string \<Rightarrow> pyval result \<Rightarrow> payload result" where
  "set_result inp k r = res_bind r (\<lambda>v. Inr (dict_set inp k v))"

definition perturb_first :: "(real \<Rightarrow> string) \<Rightarrow> nat \<Rightarrow> payload \<Rightarrow> payload result" where
  "perturb_first fl index inp =
     (if dict_has inp ''pool_price_a'' then set_result inp ''pool_price_a'' (scale_number fl index (dict_get inp ''pool_price_a'' PNone))
      else if dict_has inp ''gas_price_gwei'' then set_result inp ''gas_price_gwei'' (move_number fl index (dict_get inp ''gas_price_gwei'' PNone))
      else if text_field inp ''content'' \<noteq> None then Inr (pad_field index inp ''content'')
      else if dict_has inp ''current_observed_price'' then
        set_result inp ''current_observed_price'' (scale_number fl index (dict_get inp ''current_observed_price'' PNone))
      else if text_field inp ''source_code'' \<noteq> None then Inr (pad_field index inp ''source_code'')
      else if text_field inp ''solidity_code'' \<noteq> None then Inr (pad_field index inp ''solidity_code'')
      else if text_field inp ''vyper_code'' \<noteq> None then Inr (pad_field index inp ''vyper_code'')
      else (case dict_get inp ''prices'' PNone of
              PList (p # ps) \<Rightarrow> set_result inp ''prices'' (res_bind (scale_number fl index p) (\<lambda>p'. Inr (PList (p' # ps))))
            | _ \<Rightarrow> Inr (pad_field index inp ''command_string'')))"

definition perturb_input :: "(real \<Rightarrow> string) \<Rightarrow> payload \<Rightarrow> nat \<Rightarrow> payload result" where
  "perturb_input fl inp index =
     res_bind (perturb_first fl index inp) (\<lambda>new_inp. Inr (foldl (pad_field index) new_inp text_attributes))"

section \<open>Runs\<close>

text \<open>The only public method, or the only one with a verb of the list in its name.\<close>

definition resolve_entry_method :: "string list \<Rightarrow> string option" where
  "resolve_entry_method cands =
     (case cands of
        [c] \<Rightarrow> Some c
      | [] \<Rightarrow> None
      | _ \<Rightarrow> (case filter (\<lambda>c. list_ex (\<lambda>v. py_contains v (py_lower c)) ENTRY_VERBS) cands of [c] \<Rightarrow> Some c | _ \<Rightarrow> None))"

definition run_single_perturbed :: "consensus_env \<Rightarrow> string \<Rightarrow> payload \<Rightarrow> nat \<Rightarrow> payload result" where
  "run_single_perturbed env agent_name input_envelope idx =
     res_bind (perturb_input (cse_float env) input_envelope idx) (\<lambda>perturbed.
       case try_rust_agent env agent_name perturbed of
         Some rust_out \<Rightarrow> Inr rust_out
       | None \<Rightarrow>
           (case map_of entry_methods agent_name of
              Some entry \<Rightarrow> cse_call env entry perturbed
            | None \<Rightarrow>
                (case resolve_entry_method (cse_methods env) of
                   Some entry \<Rightarrow> cse_call env entry perturbed
                 | None \<Rightarrow> Inl (ValueError (''Unknown agent: '' @ agent_name)))))"

text \<open>Recorded runs are parsed to the output class of the agent; otherwise the agent runs three times.\<close>

definition consensus_outputs :: "consensus_env \<Rightarrow> string \<Rightarrow> payload \<Rightarrow> payload list \<Rightarrow> payload list result" where
  "consensus_outputs env agent_name input_envelope mock_runs =
     (if mock_runs \<noteq> [] then
        res_map (\<lambda>r. case map_of mock_output_classes agent_name of Some c \<Rightarrow> cse_construct env c r | None \<Rightarrow> Inr r) mock_runs
      else res_map (run_single_perturbed env agent_name input_envelope) [0, 1, 2])"

section \<open>Verdicts\<close>

definition get_comparable_dict :: "payload \<Rightarrow> payload" where
  "get_comparable_dict output = dict_pop ''ledger_receipt_hash'' (dict_pop ''published_timestamp'' output)"

definition get_verdict :: "string \<Rightarrow> payload \<Rightarrow> pyval" where
  "get_verdict agent_name d =
     (let get = (\<lambda>k. dict_get d k PNone) in
      if agent_name = ''PiArbitrageGuard'' then get ''should_execute''
      else if agent_name = ''PiMempoolSentry'' then get ''is_admitted''
      else if agent_name \<in> {''PiGitSecScanner'', ''PiPublisherDispatch'', ''PiOracleSentry''} then
        (if agent_name = ''PiPublisherDispatch'' then get ''success'' else get ''is_secure'')
      else if agent_name = ''PiSelfHealingPatchAgent'' then get ''patch_synthesized''
      else if agent_name \<in> {''PiReentrancySentry'', ''PiAccessControlVerifier'', ''PiFlashLoanDefender'', ''PiArithmeticAuditor'',
        ''PiDelegateCallGuard'', ''PiSignatureReplayScout''} then get ''is_secure''
      else if agent_name = ''PiStorageLayoutDrift'' then get ''is_safe''
      else if agent_name = ''PiERC4626VaultGuard'' then get ''is_compliant''
      else if agent_name \<in> set secure_agents then get ''is_secure''
      else if agent_name = ''PiDeploymentSafetyGuard'' then get ''deployment_allowed''
      else if agent_name = ''PiAutomatedRotationEngine'' then get ''rotation_completed''
      else if dict_has d ''is_secure'' then get ''is_secure''
      else if dict_has d ''success'' then get ''success''
      else PNone)"

text \<open>The index of the majority; verdicts that are \<open>None\<close> do not agree.\<close>

definition majority_index :: "pyval \<Rightarrow> pyval \<Rightarrow> pyval \<Rightarrow> nat option" where
  "majority_index v1 v2 v3 =
     (if v1 \<noteq> PNone \<and> py_eq v1 v2 then Some 0
      else if v1 \<noteq> PNone \<and> py_eq v1 v3 then Some 0
      else if v2 \<noteq> PNone \<and> py_eq v2 v3 then Some 1
      else None)"

section \<open>Reports\<close>

text \<open>\<open>format(x, ".nf")\<close>, and what \<open>alerts.extend\<close> takes.\<close>

definition fmt_fixed :: "nat \<Rightarrow> real \<Rightarrow> string" where
  "fmt_fixed n x =
     (let a = nat \<bar>round_even (x * 10 ^ n)\<bar> in
      (if x < 0 then ''-'' else []) @ show_nat (a div 10 ^ n) @ (if n = 0 then [] else CHR ''.'' # zfill n (a mod 10 ^ n)))"

definition fmt_value :: "nat \<Rightarrow> pyval \<Rightarrow> string result" where
  "fmt_value n v = (case num_val v of Some q \<Rightarrow> Inr (fmt_fixed n (of_rat q))
     | None \<Rightarrow> (case v of PStr _ \<Rightarrow> Inl (ValueError ''Unknown format code'') | _ \<Rightarrow> Inl TypeError))"

fun py_iter :: "pyval \<Rightarrow> pyval list result" where
  "py_iter (PList vs) = Inr vs"
| "py_iter (PTuple vs) = Inr vs"
| "py_iter (PSet _ vs) = Inr vs"
| "py_iter (PStr s) = Inr (map (\<lambda>c. PStr [c]) s)"
| "py_iter (PDict kvs) = Inr (map (\<lambda>(k, _). PStr k) kvs)"
| "py_iter _ = Inl TypeError"

definition join_values :: "string \<Rightarrow> pyval \<Rightarrow> string result" where
  "join_values sep v =
     res_bind (py_iter v) (\<lambda>xs. res_bind (res_map (\<lambda>x. case x of PStr s \<Rightarrow> Inr s | _ \<Rightarrow> Inl TypeError) xs) (\<lambda>ss. Inr (py_join sep ss)))"

fun summary_text :: "payload \<Rightarrow> payload \<Rightarrow> summary_part \<Rightarrow> string result" where
  "summary_text input d (S_Text s) = Inr s"
| "summary_text input d (S_Input a) = (case map_of input a of Some v \<Rightarrow> Inr (py_str v) | None \<Rightarrow> Inl AttributeError)"
| "summary_text input d (S_Get k) = Inr (py_str (dict_get d k PNone))"
| "summary_text input d (S_Fixed n k dflt) = fmt_value n (dict_get d k dflt)"
| "summary_text input d (S_Joined k) = join_values '', '' (dict_get d k (PList []))"

definition blocked_route :: "payload \<Rightarrow> bool result" where
  "blocked_route d =
     (case dict_get d ''route_details'' (PStr []) of
        PStr s \<Rightarrow> Inr (py_contains ''BLOCKED'' s)
      | v \<Rightarrow> res_bind (py_iter v) (\<lambda>xs. Inr (py_in (PStr ''BLOCKED'') xs)))"

text \<open>The alerts, the risk score and the success after the branch of the agent.\<close>

definition apply_risk :: "(real \<Rightarrow> string) \<Rightarrow> risk_rule \<Rightarrow> payload \<Rightarrow> bool \<Rightarrow> pyval list \<Rightarrow> (bool \<times> pyval \<times> pyval list) result" where
  "apply_risk fl rule d success alerts =
     (case rule of
        Risk_Score \<Rightarrow> Inr (success, dict_get d ''risk_score'' (PFloat ''0.0''), alerts)
      | Risk_Unless k r \<Rightarrow> Inr (success, PFloat (if truthy (dict_get d k PNone) then ''0.0'' else r), alerts)
      | Risk_Compliance \<Rightarrow>
          res_bind (shift_number fl (\<lambda>x. 100 - x) (dict_get d ''compliance_score'' (PFloat ''100.0''))) (\<lambda>r. Inr (success, r, alerts))
      | Risk_Alerts r \<Rightarrow> Inr (success, PFloat (if alerts \<noteq> [] then r else ''0.0''), alerts)
      | Risk_Blocked \<Rightarrow> res_bind (blocked_route d) (\<lambda>blocked.
          if blocked then Inr (False, PFloat ''90.0'', alerts @ [PStr ''High risk spread anomaly or oracle manipulation detected.''])
          else Inr (success, PFloat ''0.0'', alerts)))"

definition GENERIC_FINDINGS :: "string list" where
  "GENERIC_FINDINGS =
     [''flagged_issues'', ''flagged_findings'', ''flagged_vulnerabilities'', ''flagged_anomalies'', ''flagged_secrets'',
      ''flagged_lines'', ''violations'', ''anomalies_detected'', ''anomalies'', ''issues'', ''alerts'', ''detected_leaks'']"

definition generic_report :: "string \<Rightarrow> payload \<Rightarrow> bool \<Rightarrow> bool \<times> pyval \<times> string \<times> pyval list" where
  "generic_report agent_name d success =
     (success, dict_get d ''risk_score'' (PFloat ''0.0''),
      agent_name @ '' completed (Consensus Passed). Status: '' @ py_str (dict_get d ''status'' (PStr ''COMPLETED'')),
      concat (map (\<lambda>f. case map_of d f of Some (PList vs) \<Rightarrow> vs | _ \<Rightarrow> []) GENERIC_FINDINGS))"

definition majority_report :: "(real \<Rightarrow> string) \<Rightarrow> string \<Rightarrow> payload \<Rightarrow> payload \<Rightarrow> bool \<Rightarrow> (bool \<times> pyval \<times> string \<times> pyval list) result" where
  "majority_report fl agent_name input d success =
     (case map_of report_rules agent_name of
        None \<Rightarrow> Inr (generic_report agent_name d success)
      | Some (keys, rule, parts) \<Rightarrow>
          res_bind (res_map (\<lambda>f. py_iter (dict_get d f (PList []))) keys) (\<lambda>alerts.
          res_bind (apply_risk fl rule d success (concat alerts)) (\<lambda>(success', risk, alerts').
          res_bind (res_map (summary_text input d) parts) (\<lambda>texts. Inr (success', risk, concat texts, alerts')))))"

section \<open>The gate\<close>

definition vote :: "consensus_env \<Rightarrow> nat \<Rightarrow> payload \<Rightarrow> pyval \<Rightarrow> pyval" where
  "vote env i d v =
     PDict [(''agent_name'', PStr (''Agent Run '' @ show_nat i)), (''verdict'', PStr (py_str v)), (''params'', PStr (py_str (PDict d))),
            (''recorded_at'', PFloat (cse_now env)), (''risk_score'', dict_get d ''risk_score'' (PFloat ''0.0''))]"

definition consensus_telemetry :: "consensus_env \<Rightarrow> string \<Rightarrow> real \<Rightarrow> pyval list \<Rightarrow> pyval" where
  "consensus_telemetry env status score votes =
     PDict [(''status'', PStr status), (''divergence_score'', PFloat (cse_float env score)), (''votes'', PList votes)]"

definition rejection_text :: "real \<Rightarrow> pyval \<Rightarrow> pyval \<Rightarrow> pyval \<Rightarrow> string" where
  "rejection_text score v1 v2 v3 =
     ''Blocked: Multi-agent consensus coordination alarm! Consensus Divergence Score: '' @ fmt_fixed 2 score @
     ''% (Threshold: 60.0%). Verdicts: Agent 1 = '' @ py_str v1 @ '', Agent 2 = '' @ py_str v2 @ '', Agent 3 = '' @ py_str v3 @ ''.''"

type_synonym consensus_result = "bool \<times> pyval \<times> string \<times> payload \<times> pyval list"

definition gate_consensus :: "consensus_env \<Rightarrow> string \<Rightarrow> payload \<Rightarrow> divergence_report \<Rightarrow> payload list \<Rightarrow> consensus_result result" where
  "gate_consensus env agent_name input report outputs =
     (case map get_comparable_dict outputs of
        d1 # d2 # d3 # _ \<Rightarrow>
          (let v1 = get_verdict agent_name d1; v2 = get_verdict agent_name d2; v3 = get_verdict agent_name d3;
               score = dvr_consensus_divergence_score report;
               votes = [vote env 1 d1 v1, vote env 2 d2 v2, vote env 3 d3 v3]
           in case (if dvr_is_broken report then None else majority_index v1 v2 v3) of
                None \<Rightarrow>
                  Inr (False, PFloat (cse_float env score), rejection_text score v1 v2 v3,
                       [(''consensus_telemetry'', consensus_telemetry env ''REJECTED_DIVERGENCE_ALARM'' score votes)],
                       [PStr ''Consensus violation: Divergence or split vote detected.''])
              | Some i \<Rightarrow>
                  (let verdict = (if i = 0 then v1 else v2); d = (if i = 0 then d1 else d2) in
                   res_bind (majority_report (cse_float env) agent_name input d (truthy verdict)) (\<lambda>(success, risk, summary, alerts).
                     case num_val risk of
                       None \<Rightarrow> Inl TypeError
                     | Some q \<Rightarrow>
                         Inr (if q \<ge> 80 \<and> cse_strict env then False else success, risk, summary,
                              dict_set d ''consensus_telemetry'' (consensus_telemetry env ''CONSENSUS_PASSED'' score votes), alerts))))
      | _ \<Rightarrow> Inl IndexError)"

definition model_responses :: "consensus_env \<Rightarrow> payload list \<Rightarrow> model_response list" where
  "model_responses env outputs =
     map (\<lambda>(i, out). \<lparr>mrs_model_name = ''Agent Run '' @ show_nat (i + 1), mrs_content = cse_text env out,
                     mrs_parsed_json = Some (get_comparable_dict out)\<rparr>) (enumerate 0 outputs)"

definition run_with_consensus :: "consensus_env \<Rightarrow> string \<Rightarrow> payload \<Rightarrow> string \<Rightarrow> payload list \<Rightarrow> consensus_result result" where
  "run_with_consensus env agent_name input goal mock_runs =
     res_bind (consensus_outputs env agent_name input mock_runs) (\<lambda>outputs.
     res_bind (evaluate_consensus (default_breaker 60) goal (model_responses env outputs)) (\<lambda>report.
     gate_consensus env agent_name input report outputs))"

section \<open>What the gate decides\<close>

definition run_verdict :: "string \<Rightarrow> payload \<Rightarrow> pyval" where
  "run_verdict agent_name out = get_verdict agent_name (get_comparable_dict out)"

definition same_keys :: "payload list \<Rightarrow> bool" where
  "same_keys outs \<longleftrightarrow> (\<forall>a\<in>set outs. \<forall>b\<in>set outs. set (dict_keys (get_comparable_dict a)) = set (dict_keys (get_comparable_dict b)))"


lemma model_responses_json:
  "r \<in> set (model_responses env outs) \<Longrightarrow> \<exists>out\<in>set outs. mrs_parsed_json r = Some (get_comparable_dict out)"
  by (auto simp: model_responses_def in_set_enumerate_eq)

lemma length_model_responses [simp]: "length (model_responses env outs) = length outs"
  by (simp add: model_responses_def)

lemma evaluate_same_keys:
  assumes "same_keys outs" and "2 \<le> length outs"
  shows "\<exists>report. evaluate_consensus (default_breaker 60) goal (model_responses env outs) = Inr report \<and>
    dvr_consensus_divergence_score report \<le> 50 \<and> \<not> dvr_is_broken report"
proof -
  have "\<exists>report. evaluate_consensus (default_breaker 60) goal (model_responses env outs) = Inr report \<and>
      dvr_structural_divergence report = 0 \<and> dvr_consensus_divergence_score report \<le> 50 \<and> \<not> dvr_is_broken report"
  proof (rule divergence_score_bound)
    fix r s d e
    assume r: "r \<in> set (model_responses env outs)" "mrs_parsed_json r = Some d"
      and s: "s \<in> set (model_responses env outs)" "mrs_parsed_json s = Some e"
    obtain a where a: "a \<in> set outs" "d = get_comparable_dict a" using model_responses_json [OF r(1)] r(2) by auto
    obtain b where b: "b \<in> set outs" "e = get_comparable_dict b" using model_responses_json [OF s(1)] s(2) by auto
    from assms(1) a b show "set (dict_keys d) = set (dict_keys e)" unfolding same_keys_def by blast
  qed (use assms(2) in simp_all)
  then show ?thesis by blast
qed

lemma run_gate:
  assumes "consensus_outputs env agent_name input mock_runs = Inr outs" and "2 \<le> length outs"
  obtains report where "evaluate_consensus (default_breaker 60) goal (model_responses env outs) = Inr report"
    and "run_with_consensus env agent_name input goal mock_runs = gate_consensus env agent_name input report outs"
    and "dvr_is_broken report \<longleftrightarrow> 60 \<le> dvr_consensus_divergence_score report"
    and "same_keys outs \<Longrightarrow> dvr_consensus_divergence_score report \<le> 50"
proof -
  obtain report where r: "evaluate_consensus (default_breaker 60) goal (model_responses env outs) = Inr report"
    using assms(2) by (auto simp: evaluate_consensus_def Let_def)
  then have "dvr_is_broken report \<longleftrightarrow> 60 \<le> dvr_consensus_divergence_score report"
    by (auto simp: evaluate_consensus_def default_breaker_def Let_def split: if_splits)
  then show thesis
    using that [OF r] r assms(1) evaluate_same_keys [OF _ assms(2), of goal env] by (auto simp: run_with_consensus_def)
qed


text \<open>The report of a majority can only take the success away, and does so only for a blocked arbitrage route.\<close>

lemma apply_risk_success:
  "apply_risk fl rule d success alerts = Inr (success', risk, alerts') \<Longrightarrow>
   (success' \<longrightarrow> success) \<and> (rule \<noteq> Risk_Blocked \<longrightarrow> success' = success)"
  by (auto simp: apply_risk_def res_bind_eq_Inr split: risk_rule.splits if_splits)

lemma blocked_rule: "(agent_name, keys, Risk_Blocked, parts) \<in> set report_rules \<Longrightarrow> agent_name = ''PiArbitrageGuard''"
  by (simp add: report_rules_def report_rules_1_def report_rules_2_def)

lemma majority_report_success:
  "majority_report fl agent_name input d success = Inr (success', risk, summary, alerts) \<Longrightarrow>
   (success' \<longrightarrow> success) \<and> (agent_name \<noteq> ''PiArbitrageGuard'' \<longrightarrow> success' = success)"
proof (cases "map_of report_rules agent_name")
  case None
  then show "majority_report fl agent_name input d success = Inr (success', risk, summary, alerts) \<Longrightarrow> ?thesis"
    by (auto simp: majority_report_def generic_report_def)
next
  case (Some r)
  assume m: "majority_report fl agent_name input d success = Inr (success', risk, summary, alerts)"
  obtain keys rule parts where r: "r = (keys, rule, parts)" by (cases r)
  from m obtain al alerts'' where "apply_risk fl rule d success al = Inr (success', risk, alerts'')"
    by (auto simp: majority_report_def Some r res_bind_eq_Inr)
  moreover have "rule = Risk_Blocked \<Longrightarrow> agent_name = ''PiArbitrageGuard''"
    using map_of_SomeD [OF Some] blocked_rule unfolding r by blast
  ultimately show ?thesis using apply_risk_success by blast
qed

lemma majority_bool:
  assumes "length (filter (\<lambda>v. v = PBool b) [v1, v2, v3]) \<ge> 2" and "set [v1, v2, v3] \<subseteq> {PBool True, PBool False, PNone}"
  shows "\<exists>i. majority_index v1 v2 v3 = Some i \<and> (if i = 0 then v1 else v2) = PBool b"
  using assms by (cases b) (auto simp: majority_index_def py_eq_None_left split: if_splits)

text \<open>What the gate reports of one run with verdict \<open>b\<close>: success, risk, summary and alerts.\<close>

definition reported_run :: "consensus_env \<Rightarrow> string \<Rightarrow> payload \<Rightarrow> payload \<Rightarrow> bool \<Rightarrow> (bool \<times> pyval \<times> string \<times> pyval list) result" where
  "reported_run env agent_name input out b =
     res_bind (majority_report (cse_float env) agent_name input (get_comparable_dict out) b) (\<lambda>(success, risk, summary, alerts).
       case num_val risk of
         None \<Rightarrow> Inl TypeError
       | Some q \<Rightarrow> Inr (if q \<ge> 80 \<and> cse_strict env then False else success, risk, summary, alerts))"

lemma reported_run_success:
  assumes "reported_run env agent_name input out b = Inr (success, risk, summary, alerts)"
  shows "(success \<longrightarrow> b) \<and> (agent_name \<noteq> ''PiArbitrageGuard'' \<longrightarrow> success = (b \<and> \<not> (cse_strict env \<and> the (num_val risk) \<ge> 80)))"
proof -
  obtain success' q where m: "majority_report (cse_float env) agent_name input (get_comparable_dict out) b = Inr (success', risk, summary, alerts)"
      "num_val risk = Some q" "success = (if q \<ge> 80 \<and> cse_strict env then False else success')"
    using assms by (auto simp: reported_run_def res_bind_eq_Inr split: option.splits if_splits)
  from majority_report_success [OF m(1)] m(2,3) show ?thesis by auto
qed

lemma gate_passed:
  assumes "\<not> dvr_is_broken report"
    and "majority_index (run_verdict agent_name out1) (run_verdict agent_name out2) (run_verdict agent_name out3) = Some i"
    and "(if i = 0 then run_verdict agent_name out1 else run_verdict agent_name out2) = PBool b"
  shows "\<exists>votes. gate_consensus env agent_name input report [out1, out2, out3] =
    res_bind (reported_run env agent_name input (if i = 0 then out1 else out2) b) (\<lambda>(success, risk, summary, alerts).
      Inr (success, risk, summary, dict_set (get_comparable_dict (if i = 0 then out1 else out2)) ''consensus_telemetry''
        (consensus_telemetry env ''CONSENSUS_PASSED'' (dvr_consensus_divergence_score report) votes), alerts))"
proof -
  have d: "(if i = 0 then get_comparable_dict out1 else get_comparable_dict out2) = get_comparable_dict (if i = 0 then out1 else out2)"
    by simp
  show ?thesis
    using assms unfolding run_verdict_def
    by (cases "majority_report (cse_float env) agent_name input (get_comparable_dict (if i = 0 then out1 else out2)) b")
      (auto simp: gate_consensus_def reported_run_def d Let_def split: option.splits)
qed

text \<open>
  C35 (consensus_tolerates_fault): Let the three runs of an agent return, two of them with the same verdict, a boolean, and the
  third with a boolean or no verdict. Unless the outputs diverge by 60 or more, which they cannot with equal keys, the
  consensus passes, and everything it returns but the score and the votes in the telemetry is reported of the first of the
  agreeing runs: success, risk, summary, details and alerts do not depend on the dissenting run. The result is a success
  exactly when the agreed verdict is true and, in strict mode, the risk of that run is below 80; for the arbitrage guard a
  blocked route takes the success away too.
\<close>

theorem consensus_tolerates_fault:
  assumes "consensus_outputs env agent_name input mock_runs = Inr [out1, out2, out3]"
    and "length (filter (\<lambda>out. run_verdict agent_name out = PBool b) [out1, out2, out3]) \<ge> 2"
    and "set (map (run_verdict agent_name) [out1, out2, out3]) \<subseteq> {PBool True, PBool False, PNone}"
  shows "let out = hd (filter (\<lambda>out. run_verdict agent_name out = PBool b) [out1, out2, out3]) in
    \<exists>report votes. evaluate_consensus (default_breaker 60) goal (model_responses env [out1, out2, out3]) = Inr report \<and>
    (dvr_is_broken report \<longleftrightarrow> 60 \<le> dvr_consensus_divergence_score report) \<and> (same_keys [out1, out2, out3] \<longrightarrow> \<not> dvr_is_broken report) \<and>
    (\<not> dvr_is_broken report \<longrightarrow> run_with_consensus env agent_name input goal mock_runs =
      res_bind (reported_run env agent_name input out b) (\<lambda>(success, risk, summary, alerts).
        Inr (success, risk, summary, dict_set (get_comparable_dict out) ''consensus_telemetry''
          (consensus_telemetry env ''CONSENSUS_PASSED'' (dvr_consensus_divergence_score report) votes), alerts))) \<and>
    (\<forall>success risk summary alerts. reported_run env agent_name input out b = Inr (success, risk, summary, alerts) \<longrightarrow>
      (success \<longrightarrow> b) \<and> (agent_name \<noteq> ''PiArbitrageGuard'' \<longrightarrow> success = (b \<and> \<not> (cse_strict env \<and> the (num_val risk) \<ge> 80))))"
proof -
  define v where "v = run_verdict agent_name"
  let ?out = "hd (filter (\<lambda>out. v out = PBool b) [out1, out2, out3])"
  obtain report where g: "evaluate_consensus (default_breaker 60) goal (model_responses env [out1, out2, out3]) = Inr report"
      "run_with_consensus env agent_name input goal mock_runs = gate_consensus env agent_name input report [out1, out2, out3]"
      "dvr_is_broken report \<longleftrightarrow> 60 \<le> dvr_consensus_divergence_score report"
      "same_keys [out1, out2, out3] \<Longrightarrow> dvr_consensus_divergence_score report \<le> 50"
    by (rule run_gate [OF assms(1), of goal]) auto
  obtain i where i: "majority_index (v out1) (v out2) (v out3) = Some i" "(if i = 0 then v out1 else v out2) = PBool b"
    using majority_bool [of b "v out1" "v out2" "v out3"] assms(2,3) by (auto simp: v_def split: if_splits)
  have out: "?out = (if i = 0 then out1 else out2)"
    using i assms(2,3) by (auto simp: v_def [symmetric] majority_index_def py_eq_None_left split: if_splits)
  have keys: "same_keys [out1, out2, out3] \<longrightarrow> \<not> dvr_is_broken report" using g(3,4) by auto
  have "\<exists>votes. \<not> dvr_is_broken report \<longrightarrow> run_with_consensus env agent_name input goal mock_runs =
        res_bind (reported_run env agent_name input ?out b) (\<lambda>(success, risk, summary, alerts).
          Inr (success, risk, summary, dict_set (get_comparable_dict ?out) ''consensus_telemetry''
            (consensus_telemetry env ''CONSENSUS_PASSED'' (dvr_consensus_divergence_score report) votes), alerts))"
    using gate_passed [OF _ i [unfolded v_def], of report env input] unfolding g(2) out by blast
  moreover have "\<forall>success risk summary alerts. reported_run env agent_name input ?out b = Inr (success, risk, summary, alerts) \<longrightarrow>
      (success \<longrightarrow> b) \<and> (agent_name \<noteq> ''PiArbitrageGuard'' \<longrightarrow> success = (b \<and> \<not> (cse_strict env \<and> the (num_val risk) \<ge> 80)))"
    using reported_run_success by (intro allI impI)
  ultimately show ?thesis unfolding Let_def v_def using g(1,3) keys by (elim exE, intro exI conjI) assumption+
qed


section \<open>Examples\<close>

definition example_env :: consensus_env where
  "example_env = \<lparr>cse_strict = True, cse_now = ''0.0'', cse_float = (\<lambda>_. ''50.0''), cse_text = (\<lambda>_. []), cse_construct = (\<lambda>_ r. Inr r),
     cse_methods = [], cse_call = (\<lambda>_ _. Inl AttributeError),
     cse_rust = \<lparr>rco_enabled = Some ''0'', rco_agents = Inr [], rco_run = (\<lambda>_ _. Inl AttributeError), rco_models = []\<rparr>\<rparr>"

definition scan_output :: "bool \<Rightarrow> payload" where
  "scan_output secure = [(''is_secure'', PBool secure), (''risk_score'', PInt 0), (''flagged_findings'', PList []), (''status'', PStr ''OK'')]"

lemma scan_verdict: "run_verdict ''PiReentrancySentry'' (scan_output secure) = PBool secure"
  by (simp add: run_verdict_def get_verdict_def get_comparable_dict_def dict_pop_def scan_output_def dict_get_def)

lemma scan_key_list: "dict_keys (get_comparable_dict (scan_output secure)) = [''is_secure'', ''risk_score'', ''flagged_findings'', ''status'']"
  by (simp add: get_comparable_dict_def dict_pop_def scan_output_def dict_keys_def)

lemma scan_keys: "same_keys [scan_output a, scan_output b, scan_output c]"
  by (simp add: same_keys_def scan_key_list)

lemma scan_outputs:
  "consensus_outputs example_env ''PiReentrancySentry'' inp [scan_output a, scan_output b, scan_output c] =
     Inr [scan_output a, scan_output b, scan_output c]"
  by (simp add: consensus_outputs_def example_env_def mock_output_classes_def mock_output_classes_1_def)

lemma reentrancy_rule:
  "map_of report_rules ''PiReentrancySentry'' =
     Some ([''flagged_findings''], Risk_Score,
       [S_Text ''Completed static Solidity reentrancy scan on '', S_Input ''file_path'',
        S_Text '' (Consensus Passed). Status: '', S_Get ''status''])"
  by (simp add: report_rules_def report_rules_1_def)

theorem consensus_tolerates_fault_witness:
  "\<exists>votes score. run_with_consensus example_env ''PiReentrancySentry'' [(''file_path'', PStr ''a.sol'')] ''scan''
       [scan_output True, scan_output False, scan_output True] =
     Inr (True, PInt 0, ''Completed static Solidity reentrancy scan on a.sol (Consensus Passed). Status: OK'',
       dict_set (scan_output True) ''consensus_telemetry'' (consensus_telemetry example_env ''CONSENSUS_PASSED'' score votes), [])"
proof -
  let ?outs = "[scan_output True, scan_output False, scan_output True]"
  have k: "same_keys ?outs" by (rule scan_keys)
  have c: "get_comparable_dict (scan_output True) = scan_output True"
    by (simp add: get_comparable_dict_def dict_pop_def scan_output_def)
  have r: "reported_run example_env ''PiReentrancySentry'' [(''file_path'', PStr ''a.sol'')] (scan_output True) True =
      Inr (True, PInt 0, ''Completed static Solidity reentrancy scan on a.sol (Consensus Passed). Status: OK'', [])"
    by (simp add: reported_run_def majority_report_def reentrancy_rule apply_risk_def c)
      (simp add: scan_output_def dict_get_def)
  have h: "hd (filter (\<lambda>out. run_verdict ''PiReentrancySentry'' out = PBool True) ?outs) = scan_output True"
    by (simp add: scan_verdict)
  note tolerates = consensus_tolerates_fault [OF scan_outputs, where b = True and goal = "''scan''" and input = "[(''file_path'', PStr ''a.sol'')]",
      of True False True, unfolded h Let_def r res_bind.simps prod.case c]
  show ?thesis using tolerates k by (auto simp: scan_verdict)
qed


end
