(* ===== verification/State_Ledger.thy ===== *)
theory State_Ledger
  imports Py_Json Py_Strings
begin

text \<open>
  The ledger of agent executions (\<open>pi_agent_chain/ledger.py\<close>, the trace model of \<open>pi_agent_chain/models.py\<close> and
  \<open>pi_agent_chain/tenant_context.py\<close>): a SQLite table that is only ever appended to, the reads over it, and the state
  hash of a trace. A timestamp is given by its ISO text and a temperature by its \<open>repr\<close>, which determine them.

  What the reads return is a function of the appended traces alone; the state hash is a function of the logical
  content of a trace, and two hashes agree only when the contents do.
\<close>

section \<open>The current tenant\<close>

definition DEFAULT_TENANT :: string where
  "DEFAULT_TENANT = ''default''"

definition tenant_char :: "char \<Rightarrow> bool" where
  "tenant_char c =
     (let k = (of_char c :: nat) in
      65 \<le> k \<and> k \<le> 90 \<or> 97 \<le> k \<and> k \<le> 122 \<or> 48 \<le> k \<and> k \<le> 57 \<or> c = CHR ''_'' \<or> c = CHR ''-'')"

text \<open>
  \<open>re.match\<close> of the pattern for 1 to 64 of these characters between \<open>^\<close> and \<open>$\<close>. The end of the pattern also matches before a
  newline that ends the text.
\<close>

definition tenant_match :: "string \<Rightarrow> bool" where
  "tenant_match s =
     (let t = (if s \<noteq> [] \<and> last s = CHR 0x0A then butlast s else s) in
      1 \<le> length t \<and> length t \<le> 64 \<and> list_all tenant_char t)"

definition normalize_tenant :: "string option \<Rightarrow> string" where
  "normalize_tenant tenant_id =
     (case tenant_id of
        Some s \<Rightarrow> if s \<noteq> [] \<and> tenant_match s then s else DEFAULT_TENANT
      | None \<Rightarrow> DEFAULT_TENANT)"

text \<open>The context variable is passed along; \<open>reset\<close> puts back the value the token holds.\<close>

definition set_tenant :: "string \<Rightarrow> string option \<Rightarrow> string \<times> string" where
  "set_tenant current tenant_id = (normalize_tenant tenant_id, current)"

definition reset_tenant :: "string \<Rightarrow> string" where
  "reset_tenant token = token"

definition tenant_scope :: "string \<Rightarrow> string option \<Rightarrow> (string \<Rightarrow> 'a \<times> string) \<Rightarrow> 'a \<times> string" where
  "tenant_scope current tenant_id body =
     (let (bound, token) = set_tenant current tenant_id; (result, _) = body bound in (result, reset_tenant token))"

text \<open>A claim that is no string raises \<open>TypeError\<close> in \<open>re.match\<close>, unless it is falsy.\<close>

definition tenant_from_claims :: "payload option \<Rightarrow> string result" where
  "tenant_from_claims claims =
     (case claims of
        None \<Rightarrow> Inr DEFAULT_TENANT
      | Some d \<Rightarrow>
          if d = [] then Inr DEFAULT_TENANT
          else (case dict_get d ''tenant_id'' PNone of
                  PStr s \<Rightarrow> Inr (normalize_tenant (Some s))
                | v \<Rightarrow> if truthy v then Inl TypeError else Inr DEFAULT_TENANT))"

section \<open>Traces and rows\<close>

record execution_trace =
  ext_trace_id :: string
  ext_node_name :: string
  ext_input_payload_hash :: string
  ext_llm_seed :: int
  ext_llm_temperature :: string
  ext_raw_output :: string
  ext_is_valid_type :: bool
  ext_is_finding :: bool
  ext_timestamp :: string
  ext_error_message :: "string option"
  ext_tenant_id :: string

record trace_row =
  trw_id :: nat
  trw_trace_id :: string
  trw_node_name :: string
  trw_input_payload_hash :: string
  trw_llm_seed :: int
  trw_llm_temperature :: string
  trw_raw_output :: string
  trw_is_valid_type :: int
  trw_is_finding :: int
  trw_timestamp :: string
  trw_error_message :: "string option"
  trw_tenant_id :: string

type_synonym state_ledger = "trace_row list"

text \<open>\<open>AUTOINCREMENT\<close>; an integer beyond 64 bits cannot be bound.\<close>

definition next_row_id :: "state_ledger \<Rightarrow> nat" where
  "next_row_id t = Suc (foldl max 0 (map trw_id t))"

definition row_of_trace :: "nat \<Rightarrow> execution_trace \<Rightarrow> trace_row" where
  "row_of_trace i x =
     \<lparr>trw_id = i, trw_trace_id = ext_trace_id x, trw_node_name = ext_node_name x,
      trw_input_payload_hash = ext_input_payload_hash x, trw_llm_seed = ext_llm_seed x,
      trw_llm_temperature = ext_llm_temperature x, trw_raw_output = ext_raw_output x,
      trw_is_valid_type = (if ext_is_valid_type x then 1 else 0), trw_is_finding = (if ext_is_finding x then 1 else 0),
      trw_timestamp = ext_timestamp x, trw_error_message = ext_error_message x,
      trw_tenant_id = (if ext_tenant_id x = [] then ''default'' else ext_tenant_id x)\<rparr>"

definition ledger_append :: "state_ledger \<Rightarrow> execution_trace \<Rightarrow> state_ledger result" where
  "ledger_append t x =
     (if - (2 ^ 63) \<le> ext_llm_seed x \<and> ext_llm_seed x < 2 ^ 63 then Inr (t @ [row_of_trace (next_row_id t) x])
      else Inl OverflowError)"

definition row_to_trace :: "trace_row \<Rightarrow> execution_trace" where
  "row_to_trace r =
     \<lparr>ext_trace_id = trw_trace_id r, ext_node_name = trw_node_name r, ext_input_payload_hash = trw_input_payload_hash r,
      ext_llm_seed = trw_llm_seed r, ext_llm_temperature = trw_llm_temperature r, ext_raw_output = trw_raw_output r,
      ext_is_valid_type = (trw_is_valid_type r \<noteq> 0), ext_is_finding = (trw_is_finding r \<noteq> 0),
      ext_timestamp = trw_timestamp r, ext_error_message = trw_error_message r,
      ext_tenant_id = (if trw_tenant_id r = [] then ''default'' else trw_tenant_id r)\<rparr>"

section \<open>Reads\<close>

definition ledger_get_trace :: "state_ledger \<Rightarrow> string \<Rightarrow> execution_trace list" where
  "ledger_get_trace t trace_id = map row_to_trace (sort_key trw_id (filter (\<lambda>r. trw_trace_id r = trace_id) t))"

text \<open>A negative \<open>OFFSET\<close> is none.\<close>

definition ledger_get_all :: "state_ledger \<Rightarrow> int \<Rightarrow> int \<Rightarrow> execution_trace list" where
  "ledger_get_all t limit offset = map row_to_trace (sql_limit limit (drop (nat offset) (rev (sort_key trw_id t))))"

definition get_latest_for_node :: "state_ledger \<Rightarrow> string \<Rightarrow> string \<Rightarrow> execution_trace option" where
  "get_latest_for_node t node_name trace_id =
     (case rev (sort_key trw_id (filter (\<lambda>r. trw_node_name r = node_name \<and> trw_trace_id r = trace_id) t)) of
        [] \<Rightarrow> None
      | r # _ \<Rightarrow> Some (row_to_trace r))"

definition option_str :: "string option \<Rightarrow> pyval" where
  "option_str m = (case m of None \<Rightarrow> PNone | Some s \<Rightarrow> PStr s)"

definition packet_step :: "execution_trace \<Rightarrow> payload" where
  "packet_step x =
     [(''node_name'', PStr (ext_node_name x)), (''input_hash'', PStr (ext_input_payload_hash x)),
      (''output'', PStr (ext_raw_output x)), (''seed'', PInt (ext_llm_seed x)),
      (''temperature'', PFloat (ext_llm_temperature x)), (''valid'', PBool (ext_is_valid_type x)),
      (''error'', option_str (ext_error_message x)), (''timestamp'', PStr (ext_timestamp x))]"

record state_packet =
  spk_trace_id :: string
  spk_total_steps :: nat
  spk_steps :: "payload list"

definition get_state_packet :: "state_ledger \<Rightarrow> string \<Rightarrow> state_packet" where
  "get_state_packet t trace_id =
     (let traces = ledger_get_trace t trace_id in
      \<lparr>spk_trace_id = trace_id, spk_total_steps = length traces, spk_steps = map packet_step traces\<rparr>)"

section \<open>The state hash\<close>

definition volatile_key :: "string \<Rightarrow> bool" where
  "volatile_key k \<longleftrightarrow> k = ''_latency_metrics'' \<or> k = ''_cache_hit'' \<or> py_endswith k ''_ms''"

fun strip_volatile :: "pyval \<Rightarrow> pyval" where
  "strip_volatile (PDict kvs) = PDict (map (\<lambda>(k, v). (k, strip_volatile v)) (filter (\<lambda>(k, v). \<not> volatile_key k) kvs))"
| "strip_volatile (PList vs) = PList (map strip_volatile vs)"
| "strip_volatile v = v"

definition canonical_output :: "pyval \<Rightarrow> pyval" where
  "canonical_output output =
     (case output of
        PStr s \<Rightarrow> (case json_loads s of Inl _ \<Rightarrow> output | Inr parsed \<Rightarrow> PStr (dumps_compact (strip_volatile parsed)))
      | _ \<Rightarrow> output)"

definition hashed_step :: "payload \<Rightarrow> pyval" where
  "hashed_step step =
     PDict (map (\<lambda>(k, v). (k, if k = ''output'' then canonical_output v else v)) (filter (\<lambda>(k, v). k \<noteq> ''timestamp'') step))"

definition hashed_packet :: "state_packet \<Rightarrow> pyval" where
  "hashed_packet packet =
     PDict [(''total_steps'', PInt (int (spk_total_steps packet))), (''steps'', PList (map hashed_step (spk_steps packet)))]"

definition compute_state_hash :: "(string \<Rightarrow> string) \<Rightarrow> state_ledger \<Rightarrow> string \<Rightarrow> string" where
  "compute_state_hash sha256 t trace_id = sha256 (dumps_compact (hashed_packet (get_state_packet t trace_id)))"

section \<open>The ledger as a list of traces\<close>

definition stored_trace :: "execution_trace \<Rightarrow> execution_trace" where
  "stored_trace x = (if ext_tenant_id x = [] then x\<lparr>ext_tenant_id := ''default''\<rparr> else x)"

fun append_traces :: "state_ledger \<Rightarrow> execution_trace list \<Rightarrow> state_ledger result" where
  "append_traces t [] = Inr t"
| "append_traces t (x # xs) = res_bind (ledger_append t x) (\<lambda>t'. append_traces t' xs)"

definition ledger_ok :: "state_ledger \<Rightarrow> bool" where
  "ledger_ok t \<longleftrightarrow> map trw_id t = [1..<Suc (length t)]"

definition ledger_traces :: "state_ledger \<Rightarrow> execution_trace list" where
  "ledger_traces t = map row_to_trace t"

lemma row_to_trace_of [simp]: "row_to_trace (row_of_trace i x) = stored_trace x"
  by (simp add: row_to_trace_def row_of_trace_def stored_trace_def)

lemma row_id [simp]: "trw_id (row_of_trace i x) = i"
  by (simp add: row_of_trace_def)

lemma foldl_max_upt: "foldl max 0 [Suc 0..<Suc n] = n"
  by (induction n) simp_all

lemma next_row_id_ok: "ledger_ok t \<Longrightarrow> next_row_id t = Suc (length t)"
  unfolding ledger_ok_def next_row_id_def One_nat_def by (simp only: foldl_max_upt)

lemma ledger_ok_append: "ledger_ok t \<Longrightarrow> ledger_append t x = Inr t' \<Longrightarrow> ledger_ok t' \<and> ledger_traces t' = ledger_traces t @ [stored_trace x]"
  by (auto simp: ledger_append_def next_row_id_ok ledger_traces_def split: if_splits) (simp add: ledger_ok_def)

lemma append_traces_ok:
  "ledger_ok t \<Longrightarrow> append_traces t xs = Inr t' \<Longrightarrow> ledger_ok t' \<and> ledger_traces t' = ledger_traces t @ map stored_trace xs"
  by (induction xs arbitrary: t) (auto simp: res_bind_eq_Inr dest: ledger_ok_append)

lemma append_traces_Nil_ok: "append_traces [] xs = Inr t \<Longrightarrow> ledger_ok t \<and> ledger_traces t = map stored_trace xs"
  using append_traces_ok [of "[]" xs t] by (simp add: ledger_ok_def ledger_traces_def)

lemma sorted_ok: "ledger_ok t \<Longrightarrow> sorted (map trw_id t)"
  by (simp add: ledger_ok_def del: upt_Suc)

lemma sort_filter_ok: "ledger_ok t \<Longrightarrow> sort_key trw_id (filter P t) = filter P t"
  by (intro sort_key_id_if_sorted sorted_filter sorted_ok)

lemma filter_row_to_trace: "map row_to_trace (filter (\<lambda>r. Q (row_to_trace r)) t) = filter Q (ledger_traces t)"
  by (simp add: ledger_traces_def filter_map comp_def)

lemma row_to_trace_fields [simp]:
  "ext_trace_id (row_to_trace r) = trw_trace_id r" "ext_node_name (row_to_trace r) = trw_node_name r"
  by (simp_all add: row_to_trace_def)

lemma get_trace_filter: "ledger_ok t \<Longrightarrow> ledger_get_trace t i = filter (\<lambda>x. ext_trace_id x = i) (ledger_traces t)"
  using filter_row_to_trace [of "\<lambda>x. ext_trace_id x = i" t] by (simp add: ledger_get_trace_def sort_filter_ok)

lemma get_all_slice: "ledger_ok t \<Longrightarrow> ledger_get_all t limit offset = sql_limit limit (drop (nat offset) (rev (ledger_traces t)))"
  using sort_filter_ok [of t "\<lambda>_. True"]
  by (simp add: ledger_get_all_def ledger_traces_def sql_limit_map [symmetric] drop_map rev_map)

lemma latest_filter:
  assumes "ledger_ok t"
  shows "get_latest_for_node t n i =
    (let xs = filter (\<lambda>x. ext_node_name x = n \<and> ext_trace_id x = i) (ledger_traces t) in if xs = [] then None else Some (last xs))"
proof -
  let ?f = "filter (\<lambda>r. trw_node_name r = n \<and> trw_trace_id r = i) t"
  have m: "filter (\<lambda>x. ext_node_name x = n \<and> ext_trace_id x = i) (ledger_traces t) = map row_to_trace ?f"
    using filter_row_to_trace [of "\<lambda>x. ext_node_name x = n \<and> ext_trace_id x = i" t] by simp
  have "get_latest_for_node t n i = (case rev ?f of [] \<Rightarrow> None | r # _ \<Rightarrow> Some (row_to_trace r))"
    by (simp only: get_latest_for_node_def sort_filter_ok [OF assms])
  then show ?thesis unfolding m by (cases ?f rule: rev_cases) simp_all
qed

text \<open>Pages of one size, one after the other, are the whole ledger, latest first.\<close>

lemma pages_cover: "0 < n \<Longrightarrow> length xs \<le> k * n \<Longrightarrow> concat (map (\<lambda>p. take n (drop (p * n) xs)) [0..<k]) = xs"
proof (induction k arbitrary: xs)
  case (Suc k)
  have "concat (map (\<lambda>p. take n (drop (p * n) xs)) [0..<Suc k]) =
      take n xs @ concat (map (\<lambda>p. take n (drop (p * n) (drop n xs))) [0..<k])"
    by (simp add: upt_conv_Cons map_Suc_upt [symmetric] comp_def add.commute del: upt_Suc)
  also have "concat (map (\<lambda>p. take n (drop (p * n) (drop n xs))) [0..<k]) = drop n xs" using Suc.prems by (intro Suc.IH) auto
  finally show ?case by simp
qed simp

section \<open>What the hash covers\<close>

definition canonical_text :: "string \<Rightarrow> string" where
  "canonical_text s = (case json_loads s of Inl _ \<Rightarrow> s | Inr parsed \<Rightarrow> dumps_compact (strip_volatile parsed))"

text \<open>The logical content of an output: its text, or, where it is JSON, its value without the volatile fields.\<close>

definition logical_output :: "string \<Rightarrow> string + pyval" where
  "logical_output s = (case json_loads s of Inl _ \<Rightarrow> Inl s | Inr parsed \<Rightarrow> Inr (json_norm (strip_volatile parsed)))"

definition logical_step :: "execution_trace \<Rightarrow> string \<times> string \<times> (string + pyval) \<times> int \<times> string \<times> bool \<times> string option" where
  "logical_step x =
     (ext_node_name x, ext_input_payload_hash x, logical_output (ext_raw_output x), ext_llm_seed x,
      ext_llm_temperature x, ext_is_valid_type x, ext_error_message x)"

definition hash_text :: "state_ledger \<Rightarrow> string \<Rightarrow> string" where
  "hash_text t trace_id = dumps_compact (hashed_packet (get_state_packet t trace_id))"

lemma canonical_output_text [simp]: "canonical_output (PStr s) = PStr (canonical_text s)"
  by (simp add: canonical_output_def canonical_text_def split: sum.split)

lemma strip_loaded: "py_wf v \<and> set_free v \<Longrightarrow> py_wf (strip_volatile v) \<and> set_free (strip_volatile v)"
proof (induction v)
  case (PDict kvs)
  have "distinct (map fst (filter (\<lambda>(k, v). \<not> volatile_key k) kvs))" using PDict.prems by (simp add: distinct_map_filter)
  moreover have "fst \<circ> (\<lambda>(k :: string, v). (k, strip_volatile v)) = fst" by auto
  moreover have "py_wf (strip_volatile v) \<and> set_free (strip_volatile v)" if kv: "(k, v) \<in> set kvs" for k v
  proof -
    have "py_wf v \<and> set_free v" using kv PDict.prems by (auto simp: list_all_iff)
    then show ?thesis using PDict.IH [OF kv, of v] by simp
  qed
  ultimately show ?case by (auto simp: list_all_iff)
qed (auto simp: list_all_iff)

lemma dumps_compact_eq:
  assumes "py_wf v" "set_free v" "py_wf w" "set_free w"
  shows "dumps_compact v = dumps_compact w \<longleftrightarrow> json_norm v = json_norm w"
  unfolding dumps_compact_def using dumps_inj [OF seps_ok_compact assms] dumps_json_norm by metis

lemma loads_dumps_compact: "py_wf v \<Longrightarrow> set_free v \<Longrightarrow> json_loads (dumps_compact v) = Inr (json_norm v)"
  unfolding dumps_compact_def by (rule json_roundtrip [OF seps_ok_compact])

lemma canonical_text_eq: "canonical_text a = canonical_text b \<longleftrightarrow> logical_output a = logical_output b"
proof -
  have *: "canonical_text s = s \<and> logical_output s = Inl s \<or>
      (\<exists>v. py_wf v \<and> set_free v \<and> canonical_text s = dumps_compact v \<and> logical_output s = Inr (json_norm v))" for s
  proof (cases "json_loads s")
    case (Inr v)
    then show ?thesis using strip_loaded [OF json_loads_wf [OF Inr]] by (auto simp: canonical_text_def logical_output_def)
  qed (simp add: canonical_text_def logical_output_def)
  have plain: "logical_output s = Inl s \<Longrightarrow> canonical_text s = s \<and> json_loads s \<noteq> Inr v" for s v
    by (auto simp: canonical_text_def logical_output_def split: sum.splits)
  show ?thesis
  proof (cases "logical_output a")
    case (Inl a')
    then have a: "canonical_text a = a" "logical_output a = Inl a" using * [of a] by auto
    show ?thesis
    proof (cases "logical_output b")
      case (Inl b')
      then show ?thesis using a * [of b] by auto
    next
      case (Inr w)
      then obtain v where "py_wf v" "set_free v" "canonical_text b = dumps_compact v" using * [of b] by auto
      then have "canonical_text b \<noteq> a" using loads_dumps_compact [of v] plain [OF a(2)] by metis
      then show ?thesis using a Inr by simp
    qed
  next
    case (Inr w)
    then obtain v where v: "py_wf v" "set_free v" "canonical_text a = dumps_compact v" "logical_output a = Inr (json_norm v)"
      using * [of a] by auto
    show ?thesis
    proof (cases "logical_output b")
      case (Inl b')
      then have b: "canonical_text b = b" "logical_output b = Inl b" using * [of b] by auto
      then have "canonical_text a \<noteq> b" using v loads_dumps_compact [of v] plain [OF b(2)] by metis
      then show ?thesis using b v by simp
    next
      case (Inr u)
      then obtain v' where "py_wf v'" "set_free v'" "canonical_text b = dumps_compact v'" "logical_output b = Inr (json_norm v')"
        using * [of b] by auto
      then show ?thesis using v dumps_compact_eq by simp
    qed
  qed
qed

lemma hashed_packet_step:
  "hashed_step (packet_step x) =
     PDict [(''node_name'', PStr (ext_node_name x)), (''input_hash'', PStr (ext_input_payload_hash x)),
       (''output'', PStr (canonical_text (ext_raw_output x))), (''seed'', PInt (ext_llm_seed x)),
       (''temperature'', PFloat (ext_llm_temperature x)), (''valid'', PBool (ext_is_valid_type x)),
       (''error'', option_str (ext_error_message x))]"
  by (simp add: hashed_step_def packet_step_def)

lemma option_str_plain [simp]: "py_wf (option_str m)" "set_free (option_str m)" "json_norm (option_str m) = option_str m"
  by (simp_all add: option_str_def split: option.split)

lemma option_str_eq [simp]: "option_str m = option_str n \<longleftrightarrow> m = n"
  by (simp add: option_str_def split: option.split)

lemma hashed_step_eq:
  "json_norm (hashed_step (packet_step x)) = json_norm (hashed_step (packet_step y)) \<longleftrightarrow> logical_step x = logical_step y"
  by (auto simp: hashed_packet_step logical_step_def canonical_text_eq)

lemma hashed_step_wf: "py_wf (PFloat (ext_llm_temperature x)) \<Longrightarrow>
  py_wf (hashed_step (packet_step x)) \<and> set_free (hashed_step (packet_step x))"
  by (simp add: hashed_packet_step)

lemma hash_text_eq:
  assumes "\<forall>x\<in>set (ledger_get_trace t i) \<union> set (ledger_get_trace u j). py_wf (PFloat (ext_llm_temperature x))"
  shows "hash_text t i = hash_text u j \<longleftrightarrow> map logical_step (ledger_get_trace t i) = map logical_step (ledger_get_trace u j)"
proof -
  let ?p = "\<lambda>t i. hashed_packet (get_state_packet t i)"
  have wf: "py_wf (?p t i) \<and> set_free (?p t i)" "py_wf (?p u j) \<and> set_free (?p u j)"
    using hashed_step_wf assms by (simp_all add: hashed_packet_def get_state_packet_def Let_def list_all_iff del: py_wf.simps(1))
  then have "hash_text t i = hash_text u j \<longleftrightarrow> json_norm (?p t i) = json_norm (?p u j)"
    unfolding hash_text_def by (intro dumps_compact_eq) simp_all
  also have "\<dots> \<longleftrightarrow> map (json_norm \<circ> (hashed_step \<circ> packet_step)) (ledger_get_trace t i) =
      map (json_norm \<circ> (hashed_step \<circ> packet_step)) (ledger_get_trace u j)"
    by (auto simp: hashed_packet_def get_state_packet_def Let_def dest: map_eq_imp_length_eq)
  also have "\<dots> \<longleftrightarrow> map logical_step (ledger_get_trace t i) = map logical_step (ledger_get_trace u j)"
    by (intro map_eq_cong) (simp add: hashed_step_eq)
  finally show ?thesis .
qed

lemma stored_logical [simp]: "logical_step (stored_trace x) = logical_step x" "ext_trace_id (stored_trace x) = ext_trace_id x"
  "ext_llm_temperature (stored_trace x) = ext_llm_temperature x" "ext_node_name (stored_trace x) = ext_node_name x"
  by (simp_all add: stored_trace_def logical_step_def)

lemma appended_trace:
  "append_traces [] xs = Inr t \<Longrightarrow> ledger_get_trace t i = map stored_trace (filter (\<lambda>x. ext_trace_id x = i) xs)"
  using append_traces_Nil_ok [of xs t] by (simp add: get_trace_filter filter_map comp_def)

text \<open>
  C39 (state_hash_logical): Two state hashes are equal exactly when the traces have the same logical content: node names,
  input hashes, seeds, temperatures, validity, errors, and outputs up to the order of keys and the volatile fields. Timestamps,
  the trace ids, the tenants, the finding flags and everything else in the two ledgers have no influence. The ledgers are
  those of traces whose appends succeed, with temperatures that are texts of floats; SHA-256 does not collide on the two
  texts that are hashed.
\<close>

theorem state_hash_logical:
  assumes "append_traces [] xs = Inr t" and "append_traces [] ys = Inr u"
    and "\<And>x. x \<in> set xs \<union> set ys \<Longrightarrow> py_wf (PFloat (ext_llm_temperature x))"
    and "sha256 (hash_text t i) = sha256 (hash_text u j) \<Longrightarrow> hash_text t i = hash_text u j"
  shows "compute_state_hash sha256 t i = compute_state_hash sha256 u j \<longleftrightarrow>
    map logical_step (filter (\<lambda>x. ext_trace_id x = i) xs) = map logical_step (filter (\<lambda>x. ext_trace_id x = j) ys)"
proof -
  have "compute_state_hash sha256 t i = compute_state_hash sha256 u j \<longleftrightarrow> hash_text t i = hash_text u j"
    using assms(4) by (auto simp: compute_state_hash_def hash_text_def)
  also have "\<dots> \<longleftrightarrow> map logical_step (ledger_get_trace t i) = map logical_step (ledger_get_trace u j)"
    using assms(3) by (intro hash_text_eq) (auto simp: appended_trace [OF assms(1)] appended_trace [OF assms(2)])
  finally show ?thesis by (simp add: appended_trace [OF assms(1)] appended_trace [OF assms(2)] comp_def)
qed

definition timed_output :: "int \<Rightarrow> string" where
  "timed_output n = dumps_compact (PDict [(''risk'', PInt 7), (''step_ms'', PInt n)])"

definition example_trace :: "string \<Rightarrow> int \<Rightarrow> string \<Rightarrow> execution_trace" where
  "example_trace i n ts =
     \<lparr>ext_trace_id = i, ext_node_name = ''PiOrchestrator'', ext_input_payload_hash = ''h'', ext_llm_seed = 1337,
      ext_llm_temperature = ''0.0'', ext_raw_output = timed_output n, ext_is_valid_type = True, ext_is_finding = False,
      ext_timestamp = ts, ext_error_message = None, ext_tenant_id = []\<rparr>"

theorem state_hash_logical_witness:
  "\<exists>t u. append_traces [] [example_trace ''a'' 12 ''2024-01-01T00:00:00''] = Inr t \<and>
     append_traces [] [example_trace ''b'' 99 ''2025-01-01T00:00:00''] = Inr u \<and>
     compute_state_hash id t ''a'' = compute_state_hash id u ''b''"
proof -
  let ?x = "example_trace ''a'' 12 ''2024-01-01T00:00:00''" and ?y = "example_trace ''b'' 99 ''2025-01-01T00:00:00''"
  obtain t where t: "append_traces [] [?x] = Inr t" by (simp add: ledger_append_def example_trace_def)
  obtain u where u: "append_traces [] [?y] = Inr u" by (simp add: ledger_append_def example_trace_def)
  have "py_wf (PFloat ''0.0'')" by code_simp
  then have wf: "py_wf (PFloat (ext_llm_temperature x))" if "x \<in> set [?x] \<union> set [?y]" for x
    using that by (auto simp: example_trace_def simp del: py_wf.simps)
  have out: "logical_output (timed_output n) = Inr (PDict [(''risk'', PInt 7)])" for n
  proof -
    have "json_loads (timed_output n) = Inr (json_norm (PDict [(''risk'', PInt 7), (''step_ms'', PInt n)]))"
      unfolding timed_output_def by (rule loads_dumps_compact) simp_all
    then show ?thesis by (simp add: logical_output_def volatile_key_def py_endswith_def)
  qed
  have "compute_state_hash id t ''a'' = compute_state_hash id u ''b'' \<longleftrightarrow>
      map logical_step (filter (\<lambda>x. ext_trace_id x = ''a'') [?x]) = map logical_step (filter (\<lambda>x. ext_trace_id x = ''b'') [?y])"
    by (rule state_hash_logical [OF t u wf]) simp_all
  moreover have "logical_step ?x = logical_step ?y" "ext_trace_id ?x = ''a''" "ext_trace_id ?y = ''b''"
    by (simp_all add: logical_step_def out example_trace_def)
  ultimately show ?thesis using t u by auto
qed

text \<open>
  The ledger is append-only and its reads are functions of the appended traces: a trace is read back
  complete and in order, pages of any size, one after the other, are the whole ledger with the latest trace first, and the
  latest execution of a node is the last one appended for it.
\<close>

theorem ledger_reads:
  assumes "append_traces [] xs = Inr t" and "0 < n" and "length xs \<le> k * n"
  shows "ledger_get_trace t i = map stored_trace (filter (\<lambda>x. ext_trace_id x = i) xs) \<and>
    concat (map (\<lambda>p. ledger_get_all t (int n) (int (p * n))) [0..<k]) = rev (map stored_trace xs) \<and>
    get_latest_for_node t node i =
      (let es = filter (\<lambda>x. ext_node_name x = node \<and> ext_trace_id x = i) xs in
       if es = [] then None else Some (stored_trace (last es)))"
proof (intro conjI)
  have ok: "ledger_ok t" and tr: "ledger_traces t = map stored_trace xs" using append_traces_Nil_ok [OF assms(1)] by simp_all
  show "ledger_get_trace t i = map stored_trace (filter (\<lambda>x. ext_trace_id x = i) xs)" by (rule appended_trace [OF assms(1)])
  show "concat (map (\<lambda>p. ledger_get_all t (int n) (int (p * n))) [0..<k]) = rev (map stored_trace xs)"
    unfolding get_all_slice [OF ok] tr sql_limit_def nat_int
    using pages_cover [of n "rev (map stored_trace xs)" k] assms(2,3) by simp
  show "get_latest_for_node t node i =
      (let es = filter (\<lambda>x. ext_node_name x = node \<and> ext_trace_id x = i) xs in
       if es = [] then None else Some (stored_trace (last es)))"
    by (simp add: latest_filter [OF ok] tr filter_map comp_def Let_def last_map)
qed

theorem ledger_reads_witness:
  "\<exists>t. append_traces [] [example_trace ''a'' 1 ''t1'', example_trace ''b'' 2 ''t2'', example_trace ''a'' 3 ''t3''] = Inr t \<and>
     map ext_timestamp (ledger_get_trace t ''a'') = [''t1'', ''t3''] \<and>
     map_option ext_timestamp (get_latest_for_node t ''PiOrchestrator'' ''a'') = Some ''t3''"
proof -
  let ?xs = "[example_trace ''a'' 1 ''t1'', example_trace ''b'' 2 ''t2'', example_trace ''a'' 3 ''t3'']"
  obtain t where t: "append_traces [] ?xs = Inr t" by (simp add: ledger_append_def example_trace_def)
  show ?thesis
    using ledger_reads [OF t, of 2 2 "''a''" "''PiOrchestrator''"] t
    by (auto simp: example_trace_def stored_trace_def simp del: append_traces.simps)
qed

text \<open>A tenant is bound for the body alone, whatever is asked for, and a newline at the end of a name passes the check.\<close>

lemma tenant_scope_restores: "tenant_scope current tenant_id body = (fst (body (normalize_tenant tenant_id)), current)"
  by (simp add: tenant_scope_def set_tenant_def reset_tenant_def split: prod.split)

lemma newline_tenant: "normalize_tenant (Some (''acme'' @ [CHR 0x0A])) = ''acme'' @ [CHR 0x0A]"
  by (simp add: normalize_tenant_def tenant_match_def tenant_char_def)

text \<open>The finding flag is not hashed.\<close>

lemma finding_not_hashed: "logical_step (x\<lparr>ext_is_finding := b\<rparr>) = logical_step x"
  by (simp add: logical_step_def)

end
