(* ===== verification/Py_Regex.thy ===== *)
theory Py_Regex
  imports Py_Strings
begin

text \<open>
  Regular expressions, as far as \<open>re.search\<close> and \<open>re.match\<close> answer yes or no (captures and greediness do not matter then).
  A position is the rest of the text together with whether the character before it is a word character, which is all
  that \<open>\b\<close> looks at. The executable matcher \<open>rx_ends\<close> returns every position where a match can end; \<open>rx_match\<close> is its
  specification, and the fuel of a star, the length of the rest, is enough (\<open>set_rx_ends\<close>).
\<close>

section \<open>Expressions\<close>

datatype rx =
    Rx_Empty
  | Rx_Class "char \<Rightarrow> bool"
  | Rx_Boundary
  | Rx_Seq rx rx
  | Rx_Alt rx rx
  | Rx_Star rx

text \<open>Positions are pairs; quantifiers over them are not split in this theory.\<close>

declare split_paired_Ex [simp del] split_paired_All [simp del]

type_synonym rx_pos = "bool \<times> string"

inductive rx_match :: "rx \<Rightarrow> rx_pos \<Rightarrow> rx_pos \<Rightarrow> bool" where
  empt: "rx_match Rx_Empty p p"
| chr: "P c \<Longrightarrow> rx_match (Rx_Class P) (w, c # s) (is_word_char c, s)"
| bound: "w \<noteq> starts_word s \<Longrightarrow> rx_match Rx_Boundary (w, s) (w, s)"
| seq: "rx_match r p q \<Longrightarrow> rx_match r' q t \<Longrightarrow> rx_match (Rx_Seq r r') p t"
| alt1: "rx_match r p q \<Longrightarrow> rx_match (Rx_Alt r r') p q"
| alt2: "rx_match r' p q \<Longrightarrow> rx_match (Rx_Alt r r') p q"
| star0: "rx_match (Rx_Star r) p p"
| star1: "rx_match r p q \<Longrightarrow> rx_match (Rx_Star r) q t \<Longrightarrow> rx_match (Rx_Star r) p t"

inductive_simps rx_match_simps [simp]:
  "rx_match Rx_Empty p q" "rx_match Rx_Boundary p q" "rx_match (Rx_Seq r r') p q" "rx_match (Rx_Alt r r') p q"

inductive_cases rx_match_classE [elim!]: "rx_match (Rx_Class P) p q"

lemma rx_match_class [simp]: "rx_match (Rx_Class P) (w, s) q \<longleftrightarrow> (\<exists>c t. s = c # t \<and> P c \<and> q = (is_word_char c, t))"
  by (auto intro: rx_match.chr)

section \<open>The matcher\<close>

text \<open>Iterations that consume nothing are dropped: they end where they start.\<close>

fun star_ends :: "nat \<Rightarrow> (rx_pos \<Rightarrow> rx_pos list) \<Rightarrow> rx_pos \<Rightarrow> rx_pos list" where
  "star_ends 0 f p = [p]"
| "star_ends (Suc n) f p =
     remdups (p # concat (map (star_ends n f) (filter (\<lambda>q. length (snd q) < length (snd p)) (f p))))"

primrec rx_ends :: "rx \<Rightarrow> rx_pos \<Rightarrow> rx_pos list" where
  "rx_ends Rx_Empty p = [p]"
| "rx_ends (Rx_Class P) p = (case snd p of [] \<Rightarrow> [] | c # s \<Rightarrow> if P c then [(is_word_char c, s)] else [])"
| "rx_ends Rx_Boundary p = (if fst p \<noteq> starts_word (snd p) then [p] else [])"
| "rx_ends (Rx_Seq r r') p = remdups (concat (map (rx_ends r') (rx_ends r p)))"
| "rx_ends (Rx_Alt r r') p = remdups (rx_ends r p @ rx_ends r' p)"
| "rx_ends (Rx_Star r) p = star_ends (length (snd p)) (rx_ends r) p"

fun rx_search_from :: "rx \<Rightarrow> bool \<Rightarrow> string \<Rightarrow> bool" where
  "rx_search_from r w [] = (rx_ends r (w, []) \<noteq> [])"
| "rx_search_from r w (c # s) = (rx_ends r (w, c # s) \<noteq> [] \<or> rx_search_from r (is_word_char c) s)"

text \<open>\<open>re.search\<close> and \<open>re.match\<close>.\<close>

definition rx_search :: "rx \<Rightarrow> string \<Rightarrow> bool" where
  "rx_search r s = rx_search_from r False s"

definition rx_match_start :: "rx \<Rightarrow> string \<Rightarrow> bool" where
  "rx_match_start r s \<longleftrightarrow> rx_ends r (False, s) \<noteq> []"

section \<open>Correctness\<close>

lemma rx_match_suffix: "rx_match r p q \<Longrightarrow> \<exists>u. snd p = u @ snd q \<and> (u = [] \<longrightarrow> p = q)"
proof (induction rule: rx_match.induct)
  case (seq r p q r' t)
  then obtain u v where "snd p = u @ snd q" "u = [] \<longrightarrow> p = q" "snd q = v @ snd t" "v = [] \<longrightarrow> q = t" by blast
  then show ?case by (intro exI [of _ "u @ v"]) auto
next
  case (star1 r p q t)
  then obtain u v where "snd p = u @ snd q" "u = [] \<longrightarrow> p = q" "snd q = v @ snd t" "v = [] \<longrightarrow> q = t" by blast
  then show ?case by (intro exI [of _ "u @ v"]) auto
qed auto

lemma rx_match_shorter: "rx_match r p q \<Longrightarrow> p = q \<or> length (snd q) < length (snd p)"
  using rx_match_suffix [of r p q] by force

lemma set_star_ends:
  "set (star_ends (Suc n) f p) = insert p (\<Union>q \<in> {q \<in> set (f p). length (snd q) < length (snd p)}. set (star_ends n f q))"
  unfolding star_ends.simps(2) set_remdups by simp

declare star_ends.simps(2) [simp del]

lemma rx_ends_nonempty: "xs \<noteq> [] \<longleftrightarrow> (\<exists>q. q \<in> set xs)"
  by (cases xs) auto

lemma star_ends_sound:
  "q \<in> set (star_ends n f p) \<Longrightarrow> (\<And>p q. q \<in> set (f p) \<Longrightarrow> rx_match r p q) \<Longrightarrow> rx_match (Rx_Star r) p q"
proof (induction n arbitrary: p)
  case (Suc n)
  show ?case
  proof (cases "q = p")
    case False
    then obtain m where "m \<in> set (f p)" "q \<in> set (star_ends n f m)" using Suc.prems(1) unfolding set_star_ends by blast
    then show ?thesis using Suc.IH [of m] Suc.prems(2) by (blast intro: rx_match.star1)
  qed (simp add: rx_match.star0)
qed (simp add: rx_match.star0)

lemma star_ends_complete:
  assumes "\<And>p q. rx_match r p q \<Longrightarrow> q \<in> set (f p)"
  shows "rx_match r' p q \<Longrightarrow> r' = Rx_Star r \<Longrightarrow> length (snd p) \<le> n \<Longrightarrow> q \<in> set (star_ends n f p)"
proof (induction arbitrary: n rule: rx_match.induct)
  case (star0 r0 p)
  then show ?case by (cases n) (simp_all add: set_star_ends)
next
  case (star1 r0 p q t)
  show ?case
  proof (cases "p = q")
    case False
    then have s: "length (snd q) < length (snd p)" using rx_match_shorter star1.hyps(1) by blast
    then obtain m where m: "n = Suc m" using star1.prems(2) by (cases n) auto
    have "t \<in> set (star_ends m f q)" using star1.IH(2) [of m] star1.prems s m by simp
    moreover have "q \<in> set (f p)" using assms star1.hyps(1) star1.prems(1) by simp
    ultimately show ?thesis using s unfolding m set_star_ends by blast
  qed (use star1 in simp)
qed simp_all

lemma set_rx_ends: "q \<in> set (rx_ends r p) \<longleftrightarrow> rx_match r p q"
proof (induction r arbitrary: p q)
  case (Rx_Class P)
  then show ?case by (cases p) (auto intro: rx_match.chr split: list.splits if_splits)
next
  case (Rx_Star r)
  show ?case
  proof
    assume "q \<in> set (rx_ends (Rx_Star r) p)"
    then show "rx_match (Rx_Star r) p q" using star_ends_sound [of q "length (snd p)" "rx_ends r" p r] Rx_Star by simp
  next
    assume "rx_match (Rx_Star r) p q"
    then show "q \<in> set (rx_ends (Rx_Star r) p)" using star_ends_complete [of r "rx_ends r" "Rx_Star r" p q] Rx_Star by simp
  qed
next
  case Rx_Boundary
  then show ?case by (cases p) (auto intro: rx_match.bound)
qed (auto intro: rx_match.intros)

lemma rx_search_from_iff:
  "rx_search_from r (ends_word u) s \<longleftrightarrow> (\<exists>x v q. s = x @ v \<and> rx_match r (ends_word (u @ x), v) q)"
proof (induction s arbitrary: u)
  case Nil
  then show ?case by (simp add: rx_ends_nonempty set_rx_ends)
next
  case (Cons c s)
  have here: "rx_ends r (ends_word u, c # s) \<noteq> [] \<longleftrightarrow> (\<exists>q. rx_match r (ends_word u, c # s) q)"
    by (simp only: rx_ends_nonempty set_rx_ends)
  have e: "is_word_char c = ends_word (u @ [c])" by (simp add: ends_word_def)
  have "(\<exists>x v q. c # s = x @ v \<and> rx_match r (ends_word (u @ x), v) q) \<longleftrightarrow>
      (\<exists>q. rx_match r (ends_word u, c # s) q) \<or> (\<exists>x v q. s = x @ v \<and> rx_match r (ends_word ((u @ [c]) @ x), v) q)"
  proof
    assume "\<exists>x v q. c # s = x @ v \<and> rx_match r (ends_word (u @ x), v) q"
    then obtain x v q where "c # s = x @ v" "rx_match r (ends_word (u @ x), v) q" by blast
    then show "(\<exists>q. rx_match r (ends_word u, c # s) q) \<or> (\<exists>x v q. s = x @ v \<and> rx_match r (ends_word ((u @ [c]) @ x), v) q)"
      by (cases x) (simp_all, blast, metis append_Cons append_Nil append_assoc)
  next
    assume "(\<exists>q. rx_match r (ends_word u, c # s) q) \<or> (\<exists>x v q. s = x @ v \<and> rx_match r (ends_word ((u @ [c]) @ x), v) q)"
    then show "\<exists>x v q. c # s = x @ v \<and> rx_match r (ends_word (u @ x), v) q"
    proof
      assume "\<exists>q. rx_match r (ends_word u, c # s) q"
      then show ?thesis by (intro exI [of _ "[]"] exI [of _ "c # s"]) simp
    next
      assume "\<exists>x v q. s = x @ v \<and> rx_match r (ends_word ((u @ [c]) @ x), v) q"
      then obtain x v q where "s = x @ v" "rx_match r (ends_word ((u @ [c]) @ x), v) q" by blast
      then show ?thesis by (intro exI [of _ "c # x"] exI [of _ v]) auto
    qed
  qed
  then show ?case using here Cons.IH [of "u @ [c]"] by (simp add: e)
qed

text \<open>A search succeeds exactly when some part of the text matches.\<close>

lemma rx_search_iff: "rx_search r s \<longleftrightarrow> (\<exists>u v q. s = u @ v \<and> rx_match r (ends_word u, v) q)"
  using rx_search_from_iff [of r "[]" s] by (simp add: rx_search_def ends_word_def)

section \<open>Common parts\<close>

definition rx_char :: "char \<Rightarrow> rx" where
  "rx_char c = Rx_Class (\<lambda>d. d = c)"

text \<open>Under \<open>re.IGNORECASE\<close>.\<close>

definition rx_nocase :: "char \<Rightarrow> rx" where
  "rx_nocase c = Rx_Class (\<lambda>d. lower_char d = lower_char c)"

fun rx_seq :: "rx list \<Rightarrow> rx" where
  "rx_seq [] = Rx_Empty"
| "rx_seq [r] = r"
| "rx_seq (r # rs) = Rx_Seq r (rx_seq rs)"

fun rx_alts :: "rx \<Rightarrow> rx list \<Rightarrow> rx" where
  "rx_alts r [] = r"
| "rx_alts r (r' # rs) = Rx_Alt r (rx_alts r' rs)"

definition rx_lit :: "string \<Rightarrow> rx" where
  "rx_lit s = rx_seq (map rx_char s)"

definition rx_lit_nocase :: "string \<Rightarrow> rx" where
  "rx_lit_nocase s = rx_seq (map rx_nocase s)"

definition rx_opt :: "rx \<Rightarrow> rx" where
  "rx_opt r = Rx_Alt Rx_Empty r"

definition rx_plus :: "rx \<Rightarrow> rx" where
  "rx_plus r = Rx_Seq r (Rx_Star r)"

definition rx_repeat :: "nat \<Rightarrow> rx \<Rightarrow> rx" where
  "rx_repeat n r = rx_seq (replicate n r)"

text \<open>Between \<open>m\<close> and \<open>n\<close> times.\<close>

fun rx_upto :: "nat \<Rightarrow> rx \<Rightarrow> rx" where
  "rx_upto 0 r = Rx_Empty"
| "rx_upto (Suc n) r = rx_opt (Rx_Seq r (rx_upto n r))"

definition rx_between :: "nat \<Rightarrow> nat \<Rightarrow> rx \<Rightarrow> rx" where
  "rx_between m n r = Rx_Seq (rx_repeat m r) (rx_upto (n - m) r)"

text \<open>\<open>.\<close>, \<open>\s\<close>, \<open>\S\<close>, \<open>\d\<close>, \<open>\w\<close>, and \<open>[a-zA-Z0-9]\<close>.\<close>

definition rx_any :: rx where "rx_any = Rx_Class (\<lambda>c. c \<noteq> CHR 0x0A)"
definition rx_space :: rx where "rx_space = Rx_Class is_py_space"
definition rx_nonspace :: rx where "rx_nonspace = Rx_Class (\<lambda>c. \<not> is_py_space c)"
definition rx_digit :: rx where "rx_digit = Rx_Class is_digit"
definition rx_word :: rx where "rx_word = Rx_Class is_word_char"

definition is_alnum :: "char \<Rightarrow> bool" where
  "is_alnum c = (let k = (of_char c :: nat) in 48 \<le> k \<and> k \<le> 57 \<or> 65 \<le> k \<and> k \<le> 90 \<or> 97 \<le> k \<and> k \<le> 122)"

definition rx_alnum :: rx where "rx_alnum = Rx_Class is_alnum"

lemmas rx_parts = rx_char_def rx_nocase_def rx_lit_def rx_lit_nocase_def rx_opt_def rx_plus_def rx_any_def rx_space_def
  rx_nonspace_def rx_digit_def rx_word_def rx_alnum_def

lemma rx_match_seq_Cons: "rx_match (rx_seq (r # rs)) p q \<longleftrightarrow> (\<exists>m. rx_match r p m \<and> rx_match (rx_seq rs) m q)"
  by (cases rs) simp_all

text \<open>A literal matches exactly itself.\<close>

lemma rx_match_classes:
  "rx_match (rx_seq (map (\<lambda>c. Rx_Class (P c)) cs)) (w, s) q \<longleftrightarrow>
   (\<exists>u. list_all2 P cs u \<and> s = u @ snd q \<and> fst q = (if u = [] then w else is_word_char (last u)))"
proof (induction cs arbitrary: w s)
  case Nil
  then show ?case by (cases q) (auto intro: rx_match.intros)
next
  case (Cons c cs)
  have "rx_match (rx_seq (map (\<lambda>c. Rx_Class (P c)) (c # cs))) (w, s) q \<longleftrightarrow>
      (\<exists>d t. s = d # t \<and> P c d \<and> rx_match (rx_seq (map (\<lambda>c. Rx_Class (P c)) cs)) (is_word_char d, t) q)"
    unfolding list.map(2) rx_match_seq_Cons by auto
  also have "\<dots> \<longleftrightarrow> (\<exists>d u. P c d \<and> list_all2 P cs u \<and> s = (d # u) @ snd q \<and> fst q = is_word_char (last (d # u)))"
    unfolding Cons.IH by (simp only: last.simps append_Cons if_distrib [of is_word_char]) blast
  also have "\<dots> \<longleftrightarrow> (\<exists>u. list_all2 P (c # cs) u \<and> s = u @ snd q \<and> fst q = (if u = [] then w else is_word_char (last u)))"
  proof
    assume "\<exists>d u. P c d \<and> list_all2 P cs u \<and> s = (d # u) @ snd q \<and> fst q = is_word_char (last (d # u))"
    then obtain d u where "P c d" "list_all2 P cs u" "s = (d # u) @ snd q" "fst q = is_word_char (last (d # u))" by blast
    then show "\<exists>u. list_all2 P (c # cs) u \<and> s = u @ snd q \<and> fst q = (if u = [] then w else is_word_char (last u))"
      by (intro exI [of _ "d # u"]) simp
  next
    assume "\<exists>u. list_all2 P (c # cs) u \<and> s = u @ snd q \<and> fst q = (if u = [] then w else is_word_char (last u))"
    then obtain d u where "P c d" "list_all2 P cs u" "s = (d # u) @ snd q" "fst q = is_word_char (last (d # u))"
      by (auto simp: list_all2_Cons1)
    then show "\<exists>d u. P c d \<and> list_all2 P cs u \<and> s = (d # u) @ snd q \<and> fst q = is_word_char (last (d # u))" by blast
  qed
  finally show ?case .
qed

lemma rx_search_lit: "rx_search (rx_lit p) s \<longleftrightarrow> py_contains p s"
proof -
  have "list_all2 (\<lambda>c d. d = c) p u \<longleftrightarrow> u = p" for u by (induction p arbitrary: u) (auto simp: list_all2_Cons1)
  then have "rx_match (rx_lit p) (w, v) q \<longleftrightarrow> v = p @ snd q \<and> fst q = (if p = [] then w else is_word_char (last p))" for w v q
    using rx_match_classes [of "\<lambda>c d. d = c" p w v q] by (auto simp: rx_lit_def rx_char_def [abs_def])
  then have "rx_search (rx_lit p) s \<longleftrightarrow>
      (\<exists>u v q. s = u @ v \<and> v = p @ snd q \<and> fst q = (if p = [] then ends_word u else is_word_char (last p)))"
    unfolding rx_search_iff by simp
  also have "\<dots> \<longleftrightarrow> (\<exists>u v. s = u @ p @ v)" by (metis fst_conv snd_conv)
  finally show ?thesis by (simp add: py_contains_sublist sublist_def)
qed

declare split_paired_Ex [simp] split_paired_All [simp]

end
