(* ===== verification/Prompt_Shield.thy ===== *)
theory Prompt_Shield
  imports Complex_Main Py_Json Py_Regex
begin

text \<open>
  The prompt injection shield (\<open>pi_micro_agents/pi_prompt_shield.py\<close>) with the resolution of strict mode
  (\<open>pi_micro_agents/strict_mode.py\<close>): patterns searched in a text, the scan of every string in a JSON body, and what the
  middleware answers. Texts have code points below 256, so the zero-width characters of the first pattern do not occur
  in them. What the middleware prints is left out.

  The risk is high exactly when one of the patterns is found, and a body is blocked exactly when one of its string
  values, at any depth, has such a pattern and strict mode is on.
\<close>

section \<open>Strict mode\<close>

text \<open>A configuration file is absent, unreadable, or has a text.\<close>

datatype config_file = Config_Absent | Config_Unreadable | Config_Text string

definition config_value :: "string \<Rightarrow> bool \<Rightarrow> string \<Rightarrow> bool" where
  "config_value env_key dflt text =
     (case json_loads text of Inr (PDict d) \<Rightarrow> truthy (dict_get d env_key (PBool dflt)) | _ \<Rightarrow> dflt)"

fun config_strict :: "string \<Rightarrow> bool \<Rightarrow> config_file list \<Rightarrow> bool" where
  "config_strict env_key dflt [] = dflt"
| "config_strict env_key dflt (Config_Absent # fs) = config_strict env_key dflt fs"
| "config_strict env_key dflt (Config_Unreadable # fs) = dflt"
| "config_strict env_key dflt (Config_Text text # fs) = config_value env_key dflt text"

definition resolve_strict_mode :: "string option \<Rightarrow> config_file list \<Rightarrow> string \<Rightarrow> bool \<Rightarrow> bool" where
  "resolve_strict_mode env_val files env_key dflt =
     (case env_val of Some v \<Rightarrow> py_lower v = ''true'' | None \<Rightarrow> config_strict env_key dflt files)"

section \<open>Patterns\<close>

definition backslash :: string where
  "backslash = [CHR 0x5C]"

definition zero_width :: rx where
  "zero_width = Rx_Class (\<lambda>c. let k = (of_char c :: nat) in
     k \<in> {0x200B, 0x200C, 0x200D, 0x200E, 0x200F, 0xFEFF, 0x2060} \<or> 0x202A \<le> k \<and> k \<le> 0x202E \<or> 0x2066 \<le> k \<and> k \<le> 0x2069)"

definition markdown_exfil :: rx where
  "markdown_exfil =
     rx_seq [rx_char (CHR ''!''), rx_char (CHR ''[''), Rx_Star rx_any, rx_char (CHR '']''), rx_char (CHR ''(''),
       rx_lit_nocase ''http'', rx_opt (rx_nocase (CHR ''s'')), rx_lit ''://'', rx_plus rx_nonspace, rx_char (CHR ''?''),
       rx_plus rx_nonspace, rx_char (CHR ''=''), Rx_Star rx_nonspace, rx_char (CHR '')'')]"

definition rx_words_apart :: "string list \<Rightarrow> rx" where
  "rx_words_apart ws =
     rx_seq (tl (concat (map (\<lambda>w. [Rx_Star rx_any, Rx_Boundary, rx_lit_nocase w, Rx_Boundary]) ws)))"

definition boundary_triggers :: "(string \<times> rx) list" where
  "boundary_triggers =
     (let b = backslash in
      [(''<'' @ b @ ''|im_start'' @ b @ ''|>'' @ b @ ''s*(?:system|assistant|user)'',
        rx_seq [rx_lit_nocase ''<|im_start|>'', Rx_Star rx_space,
          rx_alts (rx_lit_nocase ''system'') [rx_lit_nocase ''assistant'', rx_lit_nocase ''user'']]),
       (b @ ''[SYSTEM'' @ b @ '']'', rx_lit_nocase ''[SYSTEM]''),
       (''###'' @ b @ ''s*Instruction'', rx_seq [rx_lit ''###'', Rx_Star rx_space, rx_lit_nocase ''Instruction'']),
       (b @ ''bignore'' @ b @ ''b.*'' @ b @ ''bprevious'' @ b @ ''b.*'' @ b @ ''binstructions'' @ b @ ''b'',
        rx_words_apart [''ignore'', ''previous'', ''instructions'']),
       (b @ ''bdan'' @ b @ ''s+mode'' @ b @ ''b'',
        rx_seq [Rx_Boundary, rx_lit_nocase ''dan'', rx_plus rx_space, rx_lit_nocase ''mode'', Rx_Boundary]),
       (b @ ''bdeveloper'' @ b @ ''b.*'' @ b @ ''bmode'' @ b @ ''b.*'' @ b @ ''boverride'' @ b @ ''b'',
        rx_words_apart [''developer'', ''mode'', ''override''])])"

definition injection_triggers :: "(string \<times> rat \<times> rx) list" where
  "injection_triggers =
     [(''zero-width character detected'', 95, zero_width), (''markdown exfiltration pattern'', 99, markdown_exfil)] @
     map (\<lambda>(p, r). (''jailbreak or boundary override trigger '' @ [CHR 0x27] @ p @ [CHR 0x27], 90, r)) boundary_triggers"

definition trigger_step :: "string \<Rightarrow> rat \<times> string list \<Rightarrow> string \<times> rat \<times> rx \<Rightarrow> rat \<times> string list" where
  "trigger_step s found t =
     (if rx_search (snd (snd t)) s then (max (fst found) (fst (snd t)), snd found @ [fst t]) else found)"

definition detect_prompt_injection :: "string \<Rightarrow> rat \<times> string list" where
  "detect_prompt_injection s = (if s = [] then (0, []) else foldl (trigger_step s) (0, []) injection_triggers)"

section \<open>The middleware\<close>

fun deep_scan :: "pyval \<Rightarrow> rat \<times> string list" where
  "deep_scan (PStr s) = (let (r, v) = detect_prompt_injection s in (if r > 0 then r else 0, v))"
| "deep_scan (PDict kvs) =
     foldl (\<lambda>(m, viols) (r, v). (if r > m then r else m, viols @ v)) (0, []) (map (\<lambda>(k, v). deep_scan v) kvs)"
| "deep_scan (PList vs) = foldl (\<lambda>(m, viols) (r, v). (if r > m then r else m, viols @ v)) (0, []) (map deep_scan vs)"
| "deep_scan _ = (0, [])"

text \<open>The detail of the refusal, or \<open>None\<close> when the request is passed on.\<close>

definition middleware_refusal :: "bool \<Rightarrow> string \<Rightarrow> string \<Rightarrow> string \<Rightarrow> string option" where
  "middleware_refusal strict http_method content_type body =
     (if http_method = ''POST'' \<and> py_startswith content_type ''application/json'' then
        (case json_loads body of
           Inl _ \<Rightarrow> None
         | Inr payload \<Rightarrow>
             (let (risk, violations) = deep_scan payload in
              if risk \<ge> 71 \<and> strict then Some (''MUTATION_BLOCKED: '' @ py_join '', '' violations @ '' (PiPromptShield v2)'') else None))
      else None)"

section \<open>Correctness\<close>

definition injected :: "string \<Rightarrow> bool" where
  "injected s \<longleftrightarrow> s \<noteq> [] \<and> (\<exists>t \<in> set injection_triggers. rx_search (snd (snd t)) s)"

lemma detect_fold:
  "(\<And>t. t \<in> set ts \<Longrightarrow> 90 \<le> fst (snd t) \<and> fst (snd t) \<le> 99) \<Longrightarrow>
   (let found' = foldl (trigger_step s) found ts in
    snd found' = snd found @ map fst (filter (\<lambda>t. rx_search (snd (snd t)) s) ts) \<and>
    fst found \<le> fst found' \<and> fst found' \<le> max (fst found) 99 \<and>
    (if \<exists>t \<in> set ts. rx_search (snd (snd t)) s then 90 \<le> fst found' else found' = found))"
proof (induction ts arbitrary: found)
  case (Cons t ts)
  have t: "90 \<le> fst (snd t)" "fst (snd t) \<le> 99" using Cons.prems [of t] by simp_all
  have step: "trigger_step s found t =
      (if rx_search (snd (snd t)) s then (max (fst found) (fst (snd t)), snd found @ [fst t]) else found)"
    by (simp add: trigger_step_def)
  have IH: "let found' = foldl (trigger_step s) (trigger_step s found t) ts in
    snd found' = snd (trigger_step s found t) @ map fst (filter (\<lambda>t. rx_search (snd (snd t)) s) ts) \<and>
    fst (trigger_step s found t) \<le> fst found' \<and> fst found' \<le> max (fst (trigger_step s found t)) 99 \<and>
    (if \<exists>t \<in> set ts. rx_search (snd (snd t)) s then 90 \<le> fst found' else found' = trigger_step s found t)"
    using Cons.prems by (intro Cons.IH) simp
  show ?case
  proof (cases "rx_search (snd (snd t)) s")
    case True
    with IH t show ?thesis unfolding Let_def foldl.simps(2) step by (auto simp: max_def split: if_splits)
  next
    case False
    with IH show ?thesis unfolding Let_def foldl.simps(2) step by (auto split: if_splits)
  qed
qed simp

lemma trigger_risk: "t \<in> set injection_triggers \<Longrightarrow> 90 \<le> fst (snd t) \<and> fst (snd t) \<le> 99"
  by (auto simp: injection_triggers_def)

lemma detect_spec:
  "if injected s then 90 \<le> fst (detect_prompt_injection s) \<and> fst (detect_prompt_injection s) \<le> 99
   else detect_prompt_injection s = (0, [])"
  using detect_fold [of injection_triggers s "(0, [])", OF trigger_risk]
  by (auto simp: detect_prompt_injection_def injected_def Let_def split: if_splits)

text \<open>The strings in a value: keys of dictionaries are not looked at.\<close>

fun strings_in :: "pyval \<Rightarrow> string list" where
  "strings_in (PStr s) = [s]"
| "strings_in (PDict kvs) = concat (map (\<lambda>(k, v). strings_in v) kvs)"
| "strings_in (PList vs) = concat (map strings_in vs)"
| "strings_in _ = []"

definition scan_ok :: "rat \<times> string list \<Rightarrow> string list \<Rightarrow> bool" where
  "scan_ok rv ss \<longleftrightarrow>
     (if list_ex injected ss then 90 \<le> fst rv \<and> fst rv \<le> 99 else fst rv = 0) \<and>
     snd rv = concat (map (\<lambda>s. snd (detect_prompt_injection s)) ss)"

lemma scan_fold:
  "list_all2 scan_ok rs sss \<Longrightarrow> scan_ok (m, vs) ss \<Longrightarrow>
   scan_ok (foldl (\<lambda>(m, viols) (r, v). (if r > m then r else m, viols @ v)) (m, vs) rs) (ss @ concat sss)"
proof (induction rs arbitrary: m vs sss ss)
  case (Cons x rs)
  then obtain ys yss where sss: "sss = ys # yss" "scan_ok x ys" "list_all2 scan_ok rs yss" by (auto simp: list_all2_Cons1)
  obtain r v where x: "x = (r, v)" by (cases x)
  have "scan_ok (if r > m then r else m, vs @ v) (ss @ ys)"
    using sss(2) Cons.prems(2) by (auto simp: scan_ok_def x split: if_splits)
  then show ?case using Cons.IH [OF sss(3), of "if r > m then r else m" "vs @ v" "ss @ ys"] by (simp add: x sss(1) split del: if_split)
qed simp

lemma scan_ok_map: "(\<And>x. x \<in> set xs \<Longrightarrow> scan_ok (f x) (g x)) \<Longrightarrow> list_all2 scan_ok (map f xs) (map g xs)"
  by (simp add: list_all2_conv_all_nth)

lemma scan_ok_Nil: "scan_ok (0, []) []"
  by (simp add: scan_ok_def)

lemma deep_scan_ok: "scan_ok (deep_scan v) (strings_in v)"
proof (induction v)
  case (PStr s)
  then show ?case using detect_spec [of s] by (cases "detect_prompt_injection s") (auto simp: scan_ok_def split: if_splits)
next
  case (PDict kvs)
  have "list_all2 scan_ok (map (\<lambda>(k, v). deep_scan v) kvs) (map (\<lambda>(k, v). strings_in v) kvs)"
    using PDict by (intro scan_ok_map) auto
  then show ?case using scan_fold [OF _ scan_ok_Nil] by simp
next
  case (PList vs)
  have "list_all2 scan_ok (map deep_scan vs) (map strings_in vs)" using PList by (intro scan_ok_map) auto
  then show ?case using scan_fold [OF _ scan_ok_Nil] by simp
qed (simp_all add: scan_ok_def)

text \<open>
  The shield finds a risk of at least 90 exactly when one of its patterns occurs in the text, and no risk
  otherwise; a request is refused exactly when strict mode is on, it is a POST of a JSON text, and one of the strings in
  it, at any depth, has such a pattern. Everything else passes, a body that does not parse included.
\<close>

theorem shield_verdict:
  "(if injected s then 90 \<le> fst (detect_prompt_injection s) \<and> fst (detect_prompt_injection s) \<le> 99
    else detect_prompt_injection s = (0, [])) \<and>
   (middleware_refusal strict http_method content_type body \<noteq> None \<longleftrightarrow>
     strict \<and> http_method = ''POST'' \<and> py_startswith content_type ''application/json'' \<and>
     (\<exists>payload. json_loads body = Inr payload \<and> list_ex injected (strings_in payload)))"
proof
  have "fst (deep_scan payload) \<ge> 71 \<longleftrightarrow> list_ex injected (strings_in payload)" for payload
    using deep_scan_ok [of payload] by (auto simp: scan_ok_def split: if_splits)
  then show "middleware_refusal strict http_method content_type body \<noteq> None \<longleftrightarrow>
     strict \<and> http_method = ''POST'' \<and> py_startswith content_type ''application/json'' \<and>
     (\<exists>payload. json_loads body = Inr payload \<and> list_ex injected (strings_in payload))"
    by (auto simp: middleware_refusal_def case_prod_beta Let_def split: sum.splits)
qed (rule detect_spec)

text \<open>The patterns find what they are meant to find, in any case.\<close>

lemma trigger_examples:
  "rx_search (rx_lit_nocase ''[SYSTEM]'') ''a [System]''"
  "rx_search (rx_words_apart [''dan'', ''mode'']) ''DAN a mode''"
  "\<not> rx_search (rx_words_apart [''dan'', ''mode'']) ''dans mode''"
  by code_simp+

text \<open>The header is compared with its case, and the keys of a dictionary are not scanned.\<close>

lemma shield_bypasses:
  "middleware_refusal True ''POST'' ''Application/JSON'' body = None"
  "strings_in (PDict [(''[SYSTEM]'', PInt 1)]) = []"
  by (simp_all add: middleware_refusal_def py_startswith_def)

end
