(* ===== verification/Govern_Shield.thy ===== *)
theory Govern_Shield
  imports Consensus_Breaker Prompt_Shield
begin

text \<open>
  The static checks of the interceptor (classes \<open>PIGovernShield\<close> and \<open>RiskEngine\<close> of \<open>pi_agent_interceptor/proxy.py\<close>) and the
  shield of the orchestrator over them (\<open>pi_micro_agents/orchestrator/shield.py\<close>): drift and repetition of a conversation, the
  walk over the syntax tree of proposed code, the sensitivity of a shell command, and the weighted risk. Scores are real
  numbers; Python's parser is a parameter.

  The bounds of the scores decide what the gates can ever do: drift and repetition alone stay at or below 40, a command
  reaches the blocking range exactly with \<open>sudo\<close> or \<open>rm -rf\<close>, and code is refused exactly when its tree has a forbidden node.
\<close>

section \<open>Syntax trees\<close>

text \<open>
  The nodes \<open>inspect_ast\<close> looks at, with their children in the order of \<open>ast.iter_child_nodes\<close>. Of a constant only
  matters whether it is \<open>True\<close>; \<open>N_Other\<close> stands for every other class.
\<close>

datatype code_node =
    N_Import "string list"
  | N_ImportFrom "string option"
  | N_Call code_node "code_node list" "code_node list"
  | N_Attribute code_node string
  | N_Name string
  | N_Keyword "string option" code_node
  | N_Constant bool
  | N_Other "code_node list"

fun code_children :: "code_node \<Rightarrow> code_node list" where
  "code_children (N_Call f args kws) = f # args @ kws"
| "code_children (N_Attribute v _) = [v]"
| "code_children (N_Keyword _ v) = [v]"
| "code_children (N_Other ns) = ns"
| "code_children _ = []"

definition code_weight :: "code_node list \<Rightarrow> nat" where
  "code_weight ns = size_list (\<lambda>n. 2 * size n) ns"

lemma code_size_double: "size_list (\<lambda>n. 2 * f n) ns \<le> 2 * size_list f ns"
  by (induction ns) auto

lemma code_weight_child: "code_weight (code_children n) < code_weight [n]"
  using code_size_double [of size "code_children n"] by (cases n) (auto simp: code_weight_def)

function code_walk :: "code_node list \<Rightarrow> code_node list" where
  "code_walk [] = []"
| "code_walk (n # todo) = n # code_walk (todo @ code_children n)"
  by pat_completeness auto
termination
proof (relation "measure code_weight")
  fix n todo
  show "(todo @ code_children n, n # todo) \<in> measure code_weight"
    using code_weight_child [of n] by (simp add: code_weight_def size_list_append)
qed simp

inductive_set code_nodes :: "code_node \<Rightarrow> code_node set" for t :: code_node where
  root: "t \<in> code_nodes t"
| child: "m \<in> code_nodes t \<Longrightarrow> n \<in> set (code_children m) \<Longrightarrow> n \<in> code_nodes t"

lemma code_nodes_step: "m \<in> set (code_children t) \<Longrightarrow> n \<in> code_nodes m \<Longrightarrow> n \<in> code_nodes t"
  by (rotate_tac, induction rule: code_nodes.induct) (auto intro: code_nodes.intros)

lemma code_nodes_unfold: "code_nodes t = insert t (\<Union>m \<in> set (code_children t). code_nodes m)"
proof (intro equalityI subsetI)
  fix n assume "n \<in> code_nodes t"
  then show "n \<in> insert t (\<Union>m \<in> set (code_children t). code_nodes m)"
    by induction (auto intro: code_nodes.intros)
qed (auto intro: code_nodes.root code_nodes_step)

lemma set_code_walk: "set (code_walk ns) = (\<Union>n \<in> set ns. code_nodes n)"
proof (induction ns rule: code_walk.induct)
  case (2 n todo)
  then show ?case using code_nodes_unfold [of n] by auto
qed simp

section \<open>Inspection of code\<close>

definition FORBIDDEN_MODULES :: "string list" where
  "FORBIDDEN_MODULES = [''subprocess'', ''os'', ''sys'', ''ctypes'', ''socket'']"

definition shell_keyword :: "code_node \<Rightarrow> bool" where
  "shell_keyword kw = (case kw of N_Keyword (Some a) (N_Constant b) \<Rightarrow> a = ''shell'' \<and> b | _ \<Rightarrow> False)"

fun node_violations :: "code_node \<Rightarrow> string list" where
  "node_violations (N_Import names) = map (\<lambda>n. ''Forbidden Import: '' @ n) (filter (\<lambda>n. n \<in> set FORBIDDEN_MODULES) names)"
| "node_violations (N_ImportFrom m) =
     (case m of Some n \<Rightarrow> if n \<in> set FORBIDDEN_MODULES then [''Forbidden Import From: '' @ n] else [] | None \<Rightarrow> [])"
| "node_violations (N_Call f args kws) =
     (case f of
        N_Name i \<Rightarrow> if i \<in> {''exec'', ''eval'', ''compile''} then [''Forbidden Dynamic Evaluation: '' @ i @ ''()''] else []
      | N_Attribute v a \<Rightarrow>
          (if a \<in> {''call'', ''run'', ''Popen'', ''check_output'', ''check_call''}
           then map (\<lambda>_. ''Forbidden subprocess with shell=True'') (filter shell_keyword kws) else []) @
          (if a \<in> {''popen'', ''system''} \<and> v = N_Name ''os'' then [''Forbidden OS shell call: os.'' @ a @ ''()''] else [])
      | _ \<Rightarrow> [])"
| "node_violations _ = []"

datatype parse_outcome = Parsed code_node | Syntax_Error | Parse_Raises py_exn

definition inspect_ast :: "(string \<Rightarrow> parse_outcome) \<Rightarrow> string \<Rightarrow> string list result" where
  "inspect_ast parse code =
     (case parse code of
        Parsed tree \<Rightarrow> Inr (concat (map node_violations (code_walk [tree])))
      | Syntax_Error \<Rightarrow> Inr [''Syntax error in proposed Python payload'']
      | Parse_Raises e \<Rightarrow> Inl e)"

section \<open>Commands\<close>

definition critical_triggers :: "(string \<times> real) list" where
  "critical_triggers =
     [(''sudo'', 80), (''rm -rf'', 95), (''chmod'', 50), (''curl'', 40), (''wget'', 40), (''chown'', 50), (''env'', 30), (''export'', 30)]"

definition chaining_patterns :: "string list" where
  "chaining_patterns = ['';'', ''&&'', ''||'', [CHR 0x60], ''$('', ''$'' @ [CHR 0x7B]]"

definition normalized_command :: "string \<Rightarrow> string" where
  "normalized_command command = py_lower (py_join '' '' (split_words command))"

definition analyze_command_sensitivity :: "string \<Rightarrow> real" where
  "analyze_command_sensitivity command =
     (let score = foldl (\<lambda>s (t, v). if py_contains t (normalized_command command) then max s v else s) 0 critical_triggers
      in if list_ex (\<lambda>p. py_contains p command) chaining_patterns then max score 60 else score)"

section \<open>Conversations\<close>

record chat_message =
  chm_role :: string
  chm_content :: string

definition cosine_similarity :: "string \<Rightarrow> string \<Rightarrow> real" where
  "cosine_similarity a b =
     (let va = simple_token_vector a; vb = simple_token_vector b in
      \<Sum>w\<leftarrow>filter (dict_has vb) (dict_keys va). dict_get va w 0 * dict_get vb w 0)"

definition calculate_drift :: "chat_message list \<Rightarrow> string \<Rightarrow> real" where
  "calculate_drift messages original_goal =
     (if messages = [] \<or> original_goal = [] then 0
      else py_round 2 ((1 - cosine_similarity (chm_content (last messages)) original_goal) * 100))"

definition calculate_entropy :: "chat_message list \<Rightarrow> real" where
  "calculate_entropy messages =
     (if length messages < 3 then 0
      else
        (let last_contents = map (\<lambda>m. py_lower (py_strip (chm_content m))) (drop (length messages - 4) messages);
             duplicates = length last_contents - length (remdups last_contents)
         in min (of_nat duplicates / 3 * 100) 100))"

section \<open>Risk\<close>

definition risk_weights :: "(string \<times> real) list" where
  "risk_weights = [(''drift'', 25 / 100), (''entropy'', 15 / 100), (''ast'', 20 / 100), (''command'', 15 / 100), (''injection'', 25 / 100)]"

definition risk_compute :: "(string, real) dict \<Rightarrow> real" where
  "risk_compute scores =
     (let weighted = (\<Sum>(k, w)\<leftarrow>risk_weights. w * dict_get scores k 0);
          total = foldl (\<lambda>t k. if dict_get scores k 0 \<ge> 71 then max t (dict_get scores k 0) else t) weighted
            [''ast'', ''command'', ''injection'']
      in min (py_round 2 total) 100)"

section \<open>The shield of the orchestrator\<close>

text \<open>\<open>context.get(a) or context.get(b) or ...\<close>: the first truthy value, else the last one.\<close>

fun first_truthy :: "payload \<Rightarrow> string list \<Rightarrow> pyval" where
  "first_truthy d [] = PNone"
| "first_truthy d [k] = dict_get d k PNone"
| "first_truthy d (k # ks) = (if truthy (dict_get d k PNone) then dict_get d k PNone else first_truthy d ks)"

definition check_defensive_only :: "string option \<Rightarrow> payload \<Rightarrow> bool" where
  "check_defensive_only defensive_env context =
     (defensive_env = Some ''true'' \<and>
      truthy (first_truthy context [''command'', ''cmd'', ''content'', ''proposed_content'', ''source_code'']))"

definition check_command_safety :: "payload \<Rightarrow> (real \<times> string) option" where
  "check_command_safety context =
     (case first_truthy context [''command'', ''cmd''] of
        PStr s \<Rightarrow> if s \<noteq> [] \<and> analyze_command_sensitivity s \<ge> 80 then Some (analyze_command_sensitivity s, s) else None
      | _ \<Rightarrow> None)"

definition check_ast_safety :: "(string \<Rightarrow> parse_outcome) \<Rightarrow> payload \<Rightarrow> string list option result" where
  "check_ast_safety parse context =
     (case first_truthy context [''content'', ''proposed_content'', ''source_code''] of
        PStr s \<Rightarrow>
          if s = [] then Inr None
          else res_bind (inspect_ast parse s) (\<lambda>ast_violations.
            let real = filter (\<lambda>v. \<not> py_contains ''syntax error'' (py_lower v)) ast_violations in
            Inr (if real = [] then None else Some (map (\<lambda>v. ''AST security violation: '' @ v) real)))
      | _ \<Rightarrow> Inr None)"

section \<open>Bounds\<close>

lemma similarity_nonneg: "0 \<le> cosine_similarity a b"
  unfolding cosine_similarity_def Let_def
  by (intro sum_list_nonneg) (auto intro: mult_nonneg_nonneg vector_nonneg)

lemma drift_le_100: "calculate_drift ms g \<le> 100"
proof -
  have "py_round 2 ((1 - cosine_similarity a g) * 100) \<le> of_int 100" for a
    using similarity_nonneg [of a g] by (intro py_round_le) simp
  then show ?thesis by (simp add: calculate_drift_def)
qed

lemma entropy_bounds: "0 \<le> calculate_entropy ms \<and> calculate_entropy ms \<le> 100"
proof -
  have "0 \<le> min (of_nat n / 3 * 100) (100::real) \<and> min (of_nat n / 3 * 100) (100::real) \<le> 100" for n by simp
  then show ?thesis by (auto simp only: calculate_entropy_def Let_def split: if_splits)
qed

lemma max_fold_ge: "c \<le> foldl (\<lambda>s (t, v). if P t then max s v else s) x ts \<longleftrightarrow> c \<le> x \<or> (\<exists>(t, v)\<in>set ts. P t \<and> c \<le> (v::real))"
  by (induction ts arbitrary: x) (auto simp: le_max_iff_disj split: if_splits)

lemma command_ge:
  "c \<le> analyze_command_sensitivity s \<longleftrightarrow>
   c \<le> 0 \<or> (\<exists>(t, v)\<in>set critical_triggers. py_contains t (normalized_command s) \<and> c \<le> v) \<or>
   c \<le> 60 \<and> list_ex (\<lambda>p. py_contains p s) chaining_patterns"
  by (auto simp: analyze_command_sensitivity_def Let_def max_fold_ge le_max_iff_disj)

lemma command_bounds: "0 \<le> analyze_command_sensitivity s \<and> analyze_command_sensitivity s \<le> 95"
proof -
  have "\<not> c \<le> analyze_command_sensitivity s" if "c > 95" for c
    using that unfolding command_ge by (simp add: critical_triggers_def)
  then show ?thesis using command_ge [of 0 s] by (metis linorder_le_less_linear order_refl)
qed

text \<open>
  A command reaches the blocking range, of the interceptor (71) and of the orchestrator (80) alike, exactly
  when \<open>sudo\<close> or \<open>rm -rf\<close> occurs in it, spacing and case aside; between 41 and 70 it is when it has a chaining operator, \<open>chmod\<close> or
  \<open>chown\<close>; and no command scores between the two ranges.
\<close>

theorem command_gate:
  "(analyze_command_sensitivity c \<ge> 71 \<longleftrightarrow> py_contains ''sudo'' (normalized_command c) \<or> py_contains ''rm -rf'' (normalized_command c)) \<and>
   (analyze_command_sensitivity c \<ge> 71 \<longleftrightarrow> analyze_command_sensitivity c \<ge> 80) \<and>
   (41 \<le> analyze_command_sensitivity c \<and> analyze_command_sensitivity c \<le> 70 \<longleftrightarrow>
     \<not> py_contains ''sudo'' (normalized_command c) \<and> \<not> py_contains ''rm -rf'' (normalized_command c) \<and>
     (list_ex (\<lambda>p. py_contains p c) chaining_patterns \<or> py_contains ''chmod'' (normalized_command c) \<or>
      py_contains ''chown'' (normalized_command c)))"
proof -
  let ?has = "\<lambda>t. py_contains t (normalized_command c)" and ?chain = "list_ex (\<lambda>p. py_contains p c) chaining_patterns"
  have high: "x \<le> analyze_command_sensitivity c \<longleftrightarrow> ?has ''sudo'' \<or> ?has ''rm -rf''" if "60 < x" "x \<le> 80" for x
    using that unfolding command_ge by (simp add: critical_triggers_def)
  have "41 \<le> analyze_command_sensitivity c \<longleftrightarrow> ?has ''sudo'' \<or> ?has ''rm -rf'' \<or> ?has ''chmod'' \<or> ?has ''chown'' \<or> ?chain"
    unfolding command_ge by (auto simp: critical_triggers_def)
  moreover have "analyze_command_sensitivity c \<le> 70 \<longleftrightarrow> \<not> (?has ''sudo'' \<or> ?has ''rm -rf'')"
  proof -
    have "analyze_command_sensitivity c \<le> 60 \<or> 80 \<le> analyze_command_sensitivity c"
    proof (rule ccontr)
      assume n: "\<not> ?thesis"
      then have "\<not> (?has ''sudo'' \<or> ?has ''rm -rf'')" using high [of 80] by simp
      then have "\<not> analyze_command_sensitivity c \<le> analyze_command_sensitivity c"
        using n unfolding command_ge [of "analyze_command_sensitivity c"] by (auto simp: critical_triggers_def)
      then show False by simp
    qed
    then show ?thesis using high [of 80] by linarith
  qed
  moreover have "71 \<le> analyze_command_sensitivity c \<longleftrightarrow> ?has ''sudo'' \<or> ?has ''rm -rf''"
    and "80 \<le> analyze_command_sensitivity c \<longleftrightarrow> ?has ''sudo'' \<or> ?has ''rm -rf''" by (simp_all add: high)
  ultimately show ?thesis by blast
qed

definition kept_message :: "string \<Rightarrow> bool" where
  "kept_message v \<longleftrightarrow> \<not> py_contains ''syntax error'' (py_lower v)"

lemma kept_messages:
  "list_all (\<lambda>m. kept_message (''Forbidden Import: '' @ m)) FORBIDDEN_MODULES"
  "list_all (\<lambda>m. kept_message (''Forbidden Import From: '' @ m)) FORBIDDEN_MODULES"
  "list_all (\<lambda>i. kept_message (''Forbidden Dynamic Evaluation: '' @ i @ ''()'')) [''exec'', ''eval'', ''compile'']"
  "kept_message ''Forbidden subprocess with shell=True''"
  "list_all (\<lambda>a. kept_message (''Forbidden OS shell call: os.'' @ a @ ''()'')) [''popen'', ''system'']"
  by code_simp+

lemma violation_kept: "list_all kept_message (node_violations n)"
proof (cases n)
  case (N_Import names)
  then show ?thesis using kept_messages(1) unfolding N_Import node_violations.simps list_all_iff by (simp only: set_map set_filter) blast
next
  case (N_ImportFrom m)
  have "kept_message (''Forbidden Import From: '' @ k)" if "k \<in> set FORBIDDEN_MODULES" for k
    using kept_messages(2) that unfolding list_all_iff by blast
  then show ?thesis unfolding N_ImportFrom node_violations.simps
    by (cases m) (simp_all only: option.simps list.pred_inject simp_thms split: if_split, blast)
next
  case (N_Call f args kws)
  show ?thesis
  proof (cases f)
    case (N_Name i)
    then show ?thesis using kept_messages(3) [unfolded list_all_iff list.set, rule_format, of i]
      by (simp only: N_Call node_violations.simps code_node.simps list.pred_inject simp_thms split: if_split) iprover
  next
    case (N_Attribute x a)
    have "list_all kept_message (if a \<in> {''call'', ''run'', ''Popen'', ''check_output'', ''check_call''}
           then map (\<lambda>_. ''Forbidden subprocess with shell=True'') (filter shell_keyword kws) else [])"
      using kept_messages(4) by (simp only: list_all_iff set_map split: if_split) (simp only: list.set, blast)
    moreover have "list_all kept_message (if a \<in> {''popen'', ''system''} \<and> x = N_Name ''os''
        then [''Forbidden OS shell call: os.'' @ a @ ''()''] else [])"
      using kept_messages(5) [unfolded list_all_iff list.set, rule_format, of a]
      by (simp only: list.pred_inject simp_thms split: if_split) iprover
    ultimately show ?thesis by (simp only: N_Call N_Attribute node_violations.simps code_node.simps list_all_append simp_thms)
  qed (simp_all only: N_Call node_violations.simps code_node.simps list.pred_inject)
qed (simp_all only: node_violations.simps list.pred_inject)

lemma violation_texts: "v \<in> set (node_violations n) \<Longrightarrow> \<not> py_contains ''syntax error'' (py_lower v)"
  using violation_kept [of n] unfolding list_all_iff kept_message_def by blast

lemma walk_nodes: "concat (map f (code_walk [tree])) = [] \<longleftrightarrow> (\<forall>n \<in> code_nodes tree. f n = [])"
  using set_code_walk [of "[tree]"] by (simp del: code_walk.simps)

text \<open>
  Code is refused, on the path of the orchestrator, exactly when it parses and some node of its tree, at any
  depth, is forbidden; text that is no Python passes.
\<close>

theorem code_gate:
  assumes "first_truthy context [''content'', ''proposed_content'', ''source_code''] = PStr s" and "s \<noteq> []"
  shows "(\<exists>vs. check_ast_safety parse context = Inr (Some vs)) \<longleftrightarrow>
    (\<exists>tree. parse s = Parsed tree \<and> (\<exists>n \<in> code_nodes tree. node_violations n \<noteq> []))"
proof -
  have res: "check_ast_safety parse context =
      res_bind (inspect_ast parse s) (\<lambda>ast_violations.
        let real = filter (\<lambda>v. \<not> py_contains ''syntax error'' (py_lower v)) ast_violations in
        Inr (if real = [] then None else Some (map (\<lambda>v. ''AST security violation: '' @ v) real)))"
    using assms by (simp add: check_ast_safety_def)
  show ?thesis
  proof (cases "parse s")
    case (Parsed tree)
    have "filter (\<lambda>v. \<not> py_contains ''syntax error'' (py_lower v)) (concat (map node_violations (code_walk [tree]))) =
        concat (map node_violations (code_walk [tree]))"
      by (rule filter_True) (auto dest: violation_texts)
    then show ?thesis using Parsed walk_nodes [of node_violations tree] by (simp add: res inspect_ast_def Let_def del: code_walk.simps)
  next
    case Syntax_Error
    have "py_contains ''syntax error'' (py_lower ''Syntax error in proposed Python payload'')" by code_simp
    then show ?thesis using Syntax_Error by (simp add: res inspect_ast_def Let_def)
  qed (simp add: res inspect_ast_def)
qed

text \<open>A harmless \<open>command\<close> hides what \<open>cmd\<close> holds, and harmless \<open>content\<close> hides \<open>source_code\<close>.\<close>

lemma shadowed_command:
  "check_command_safety [(''command'', PStr ''ls''), (''cmd'', PStr ''sudo rm -rf /'')] = None"
  by code_simp

end
