(* ===== verification/Audit_WAL.thy ===== *)
theory Audit_WAL
  imports Complex_Main Py_Json Hash_Chain
begin

text \<open>
  The audit ledger of the interceptor (class \<open>WALLedger\<close> of \<open>pi_agent_interceptor/proxy.py\<close>): a SQLite table in which every
  event stores the hash of the event before it and of its own payload; triggers forbid updates and deletions. The rows are
  in the order of their ids. \<open>wal_log_event\<close> reads the last hash over one connection and inserts over another, so the two
  halves are separate operations here.

  Events logged one after the other form a chain and none is lost, and the last hash fixes the payloads of the whole
  ledger; it does not fix their risk, status, type and time. Two loggers whose halves interleave fork the chain.
\<close>

section \<open>The table\<close>

record wal_event =
  awe_trace_hash :: string
  awe_previous_hash :: string
  awe_timestamp :: string
  awe_request_type :: string
  awe_payload_json :: string
  awe_risk_score :: real
  awe_status :: string

type_synonym wal_ledger = "wal_event list"

definition GENESIS_HASH :: string where
  "GENESIS_HASH = replicate 64 (CHR ''0'')"

definition wal_last_hash :: "wal_ledger \<Rightarrow> string" where
  "wal_last_hash w = (if w = [] then GENESIS_HASH else awe_trace_hash (last w))"

text \<open>The second half: the hash over the last hash that was read, and the insert, whose \<open>IntegrityError\<close> is swallowed.\<close>

record audit_request =
  arq_timestamp :: string
  arq_request_type :: string
  arq_payload :: payload
  arq_risk_score :: real
  arq_status :: string

definition wal_insert :: "(string \<Rightarrow> string) \<Rightarrow> string \<Rightarrow> audit_request \<Rightarrow> wal_ledger \<Rightarrow> wal_ledger \<times> string" where
  "wal_insert sha256 previous_hash q w =
     (let trace_hash = sha256 (previous_hash @ dumps_default (PDict (arq_payload q)));
          e = \<lparr>awe_trace_hash = trace_hash, awe_previous_hash = previous_hash, awe_timestamp = arq_timestamp q,
               awe_request_type = arq_request_type q, awe_payload_json = dumps_in_order (PDict (arq_payload q)),
               awe_risk_score = arq_risk_score q, awe_status = arq_status q\<rparr>
      in (case sql_insert (\<lambda>x y. awe_trace_hash x = awe_trace_hash y) w e of Inr w' \<Rightarrow> w' | Inl _ \<Rightarrow> w, trace_hash))"

definition wal_log_event :: "(string \<Rightarrow> string) \<Rightarrow> wal_ledger \<Rightarrow> audit_request \<Rightarrow> (wal_ledger \<times> string) result" where
  "wal_log_event sha256 w q =
     (if set_free (PDict (arq_payload q)) then Inr (wal_insert sha256 (wal_last_hash w) q w) else Inl TypeError)"

text \<open>The triggers fire for the rows a statement reaches.\<close>

definition wal_update :: "(wal_event \<Rightarrow> bool) \<Rightarrow> (wal_event \<Rightarrow> wal_event) \<Rightarrow> wal_ledger \<Rightarrow> wal_ledger result" where
  "wal_update reached f w = (if \<exists>e\<in>set w. reached e then Inl IntegrityError else Inr (sql_update reached f w))"

definition wal_delete :: "(wal_event \<Rightarrow> bool) \<Rightarrow> wal_ledger \<Rightarrow> wal_ledger result" where
  "wal_delete reached w = (if \<exists>e\<in>set w. reached e then Inl IntegrityError else Inr (filter (\<lambda>e. \<not> reached e) w))"

section \<open>The chain\<close>

text \<open>What a hash covers: the hash before it and the payload, as a normalised value.\<close>

definition audit_content :: "wal_event \<Rightarrow> string \<times> string" where
  "audit_content e =
     (awe_previous_hash e, case json_loads (awe_payload_json e) of Inr v \<Rightarrow> dumps_default v | Inl _ \<Rightarrow> awe_payload_json e)"

definition audit_digest :: "(string \<Rightarrow> string) \<Rightarrow> string \<times> string \<Rightarrow> string" where
  "audit_digest sha256 c = sha256 (fst c @ snd c)"

interpretation audit_chain: hash_chain awe_trace_hash awe_previous_hash "audit_digest sha256" audit_content for sha256
  by unfold_locales (simp add: audit_content_def)

fun log_all :: "(string \<Rightarrow> string) \<Rightarrow> wal_ledger \<Rightarrow> audit_request list \<Rightarrow> wal_ledger result" where
  "log_all sha256 w [] = Inr w"
| "log_all sha256 w (q # qs) = res_bind (wal_log_event sha256 w q) (\<lambda>(w', _). log_all sha256 w' qs)"

definition wal_ok :: "(string \<Rightarrow> string) \<Rightarrow> wal_ledger \<Rightarrow> bool" where
  "wal_ok sha256 w \<longleftrightarrow>
     linked awe_trace_hash awe_previous_hash w \<and> (w \<noteq> [] \<longrightarrow> awe_previous_hash (hd w) = GENESIS_HASH) \<and>
     (\<forall>e\<in>set w. awe_trace_hash e = audit_digest sha256 (audit_content e)) \<and> distinct (map awe_trace_hash w)"

definition request_wf :: "audit_request \<Rightarrow> bool" where
  "request_wf q \<longleftrightarrow> py_wf (PDict (arq_payload q))"

definition event_of :: "string \<Rightarrow> string \<Rightarrow> audit_request \<Rightarrow> wal_event" where
  "event_of h p q =
     \<lparr>awe_trace_hash = h, awe_previous_hash = p, awe_timestamp = arq_timestamp q, awe_request_type = arq_request_type q,
      awe_payload_json = dumps_in_order (PDict (arq_payload q)), awe_risk_score = arq_risk_score q, awe_status = arq_status q\<rparr>"

lemma dumps_list_norm [simp]: "dumps_default (list_norm v) = dumps_default v"
proof -
  have "json_dumps isep ksep (list_norm v) = json_dumps isep ksep v" for isep ksep
  proof (induction v)
    case (PList vs)
    then have "map (json_dumps isep ksep \<circ> list_norm) vs = map (json_dumps isep ksep) vs" by simp
    then show ?case by (simp only: list_norm.simps json_dumps.simps map_map)
  next
    case (PTuple vs)
    then have "map (json_dumps isep ksep \<circ> list_norm) vs = map (json_dumps isep ksep) vs" by simp
    then show ?case by (simp only: list_norm.simps json_dumps.simps map_map)
  next
    case (PDict kvs)
    have "map (\<lambda>(k, v). json_str k @ ksep @ json_dumps isep ksep v) (map (\<lambda>(k, v). (k, list_norm v)) (sort_key fst kvs))
        = map (\<lambda>(k, v). json_str k @ ksep @ json_dumps isep ksep v) (sort_key fst kvs)"
      using PDict by (auto simp: split_def)
    then show ?case by (simp flip: sort_key_map_value)
  qed simp_all
  then show ?thesis by (simp add: dumps_default_def)
qed

definition payload_text :: "audit_request \<Rightarrow> string" where
  "payload_text q = dumps_default (PDict (arq_payload q))"

lemma content_event_of [simp]:
  assumes "request_wf q" and "set_free (PDict (arq_payload q))"
  shows "audit_content (event_of h p q) = (p, payload_text q)"
proof -
  have "json_loads (dumps_in_order (PDict (arq_payload q))) = Inr (list_norm (PDict (arq_payload q)))"
    using assms by (intro in_order_roundtrip) (simp_all add: request_wf_def)
  then show ?thesis
    using dumps_list_norm [of "PDict (arq_payload q)"] by (simp add: audit_content_def event_of_def payload_text_def)
qed

lemma event_of_fields [simp]:
  "awe_trace_hash (event_of h p q) = h" "awe_previous_hash (event_of h p q) = p"
  by (simp_all add: event_of_def)

lemma wal_insert_event:
  "wal_insert sha256 p q w =
     (let h = audit_digest sha256 (p, payload_text q) in
      (if h \<in> awe_trace_hash ` set w then w else w @ [event_of h p q], h))"
  by (auto simp: wal_insert_def sql_insert_def audit_digest_def payload_text_def event_of_def Let_def image_iff) metis+

lemma linked_nth: "linked stored prev xs \<Longrightarrow> Suc i < length xs \<Longrightarrow> prev (xs ! Suc i) = stored (xs ! i)"
proof (induction stored prev xs arbitrary: i rule: linked.induct)
  case (3 stored prev x y xs)
  then show ?case by (cases i) auto
qed auto

text \<open>In a chain that starts at the genesis hash no event but a new one points at the last.\<close>

lemma last_hash_unused:
  assumes "wal_ok sha256 w" and "e \<in> set w" and "\<And>s. sha256 s \<noteq> GENESIS_HASH"
  shows "awe_previous_hash e \<noteq> wal_last_hash w"
proof
  assume p: "awe_previous_hash e = wal_last_hash w"
  obtain i where i: "i < length w" "e = w ! i" using assms(2) by (auto simp: in_set_conv_nth)
  have ne: "w \<noteq> []" using assms(2) by auto
  then have l: "wal_last_hash w = awe_trace_hash (w ! (length w - 1))" by (simp add: wal_last_hash_def last_conv_nth)
  show False
  proof (cases i)
    case 0
    then have "wal_last_hash w = GENESIS_HASH" using p i ne assms(1) by (simp add: wal_ok_def hd_conv_nth)
    moreover have "awe_trace_hash (w ! (length w - 1)) = sha256 (fst (audit_content (w ! (length w - 1))) @ snd (audit_content (w ! (length w - 1))))"
      using assms(1) ne by (simp add: wal_ok_def audit_digest_def)
    ultimately show False using l assms(3) by metis
  next
    case (Suc j)
    then have "awe_trace_hash (w ! j) = awe_trace_hash (w ! (length w - 1))"
      using p i l assms(1) linked_nth [of awe_trace_hash awe_previous_hash w j] by (simp add: wal_ok_def)
    moreover have "distinct (map awe_trace_hash w)" using assms(1) by (simp add: wal_ok_def)
    ultimately have "j = length w - 1"
      using i Suc nth_eq_iff_index_eq [of "map awe_trace_hash w" j "length w - 1"] by simp
    then show False using i Suc by simp
  qed
qed

lemma wal_ok_insert:
  assumes "wal_ok sha256 w" and "request_wf q" and "set_free (PDict (arq_payload q))"
  shows "wal_ok sha256 (fst (wal_insert sha256 (wal_last_hash w) q w))"
  using assms unfolding wal_insert_event Let_def
  by (auto simp: wal_ok_def linked_snoc wal_last_hash_def hd_append)

definition logged_as :: "wal_event \<Rightarrow> audit_request \<Rightarrow> bool" where
  "logged_as e q \<longleftrightarrow> (\<exists>h p. e = event_of h p q)"

lemma logged_event: "logged_as (event_of h p q) q"
  by (auto simp: logged_as_def)

text \<open>
  Events logged one after the other are all kept, in order, and form a chain from the genesis hash in
  which every event has the hash of its content and no hash occurs twice (the digest having no collision on what was
  hashed, and the genesis hash being no digest).
\<close>

theorem wal_complete:
  assumes "\<And>q. q \<in> set qs \<Longrightarrow> request_wf q \<and> set_free (PDict (arq_payload q))"
    and "inj_on (audit_digest sha256) (insert GENESIS_HASH (range sha256) \<times> payload_text ` set qs)"
    and "\<And>s. sha256 s \<noteq> GENESIS_HASH"
  shows "\<exists>w. log_all sha256 [] qs = Inr w \<and> list_all2 logged_as w qs \<and> wal_ok sha256 w"
proof -
  have all: "\<exists>w'. log_all sha256 w rs = Inr w' \<and> list_all2 logged_as w' (ps @ rs) \<and> wal_ok sha256 w'"
    if "set (ps @ rs) \<subseteq> set qs" "list_all2 logged_as w ps" "wal_ok sha256 w"
      "\<forall>e\<in>set w. audit_content e \<in> insert GENESIS_HASH (range sha256) \<times> payload_text ` set qs" for w ps rs
    using that
  proof (induction rs arbitrary: w ps)
    case (Cons q rs)
    have q: "request_wf q" "set_free (PDict (arq_payload q))" "q \<in> set qs" using assms(1) Cons.prems(1) by simp_all
    define p where "p = wal_last_hash w"
    define h where "h = audit_digest sha256 (p, payload_text q)"
    have "p \<in> insert GENESIS_HASH (range sha256)"
      using Cons.prems(3) by (auto simp: p_def wal_last_hash_def wal_ok_def audit_digest_def)
    then have c: "(p, payload_text q) \<in> insert GENESIS_HASH (range sha256) \<times> payload_text ` set qs" using q(3) by auto
    have "h \<notin> awe_trace_hash ` set w"
    proof
      assume "h \<in> awe_trace_hash ` set w"
      then obtain e where e: "e \<in> set w" "awe_trace_hash e = h" by auto
      then have "audit_digest sha256 (audit_content e) = audit_digest sha256 (p, payload_text q)"
        using Cons.prems(3) by (auto simp: wal_ok_def h_def)
      then have "audit_content e = (p, payload_text q)" using assms(2) c Cons.prems(4) e(1) by (auto dest: inj_onD)
      then have "awe_previous_hash e = wal_last_hash w" by (simp add: audit_content_def p_def)
      with last_hash_unused [OF Cons.prems(3) e(1) assms(3)] show False by simp
    qed
    then have ins: "wal_insert sha256 p q w = (w @ [event_of h p q], h)" by (simp add: wal_insert_event h_def Let_def)
    have "\<exists>w'. log_all sha256 (w @ [event_of h p q]) rs = Inr w' \<and> list_all2 logged_as w' ((ps @ [q]) @ rs) \<and> wal_ok sha256 w'"
    proof (rule Cons.IH)
      show "set ((ps @ [q]) @ rs) \<subseteq> set qs" using Cons.prems(1) by simp
      show "list_all2 logged_as (w @ [event_of h p q]) (ps @ [q])"
        using Cons.prems(2) by (simp add: list_all2_appendI logged_event)
      show "wal_ok sha256 (w @ [event_of h p q])"
        using wal_ok_insert [OF Cons.prems(3) q(1,2)] ins by (simp add: p_def)
      show "\<forall>e\<in>set (w @ [event_of h p q]). audit_content e \<in> insert GENESIS_HASH (range sha256) \<times> payload_text ` set qs"
        using Cons.prems(4) c q by simp
    qed
    then show ?case using q ins by (simp add: wal_log_event_def p_def)
  qed simp
  have "wal_ok sha256 []" by (simp add: wal_ok_def)
  then show ?thesis using all [of "[]" qs "[]"] by simp
qed

text \<open>The last hash fixes the payloads.\<close>

lemma wal_tamper_evident:
  assumes "wal_ok sha256 v" and "wal_ok sha256 w" and "wal_last_hash v = wal_last_hash w"
    and "inj_on (audit_digest sha256) (audit_content ` (set v \<union> set w))" and "\<And>s. sha256 s \<noteq> GENESIS_HASH"
  shows "map audit_content v = map audit_content w"
  using assms
  by (intro audit_chain.rooted_tamper_evident [where genesis = GENESIS_HASH])
    (auto simp: wal_ok_def wal_last_hash_def audit_digest_def split: if_splits)

text \<open>Risk, status, type and time are in no hash.\<close>

lemma audit_hash_misses:
  "audit_content (e\<lparr>awe_risk_score := r, awe_status := s, awe_request_type := t, awe_timestamp := ts\<rparr>) = audit_content e"
  by (cases e) (simp add: audit_content_def split: sum.split)

text \<open>Two loggers that both read the last hash before either inserts fork the chain, or lose an event.\<close>

lemma wal_race:
  assumes "set_free (PDict (arq_payload q))" and "set_free (PDict (arq_payload r))"
    and "audit_digest sha256 (wal_last_hash w, payload_text q) \<notin> awe_trace_hash ` set w"
    and "audit_digest sha256 (wal_last_hash w, payload_text r) \<notin> awe_trace_hash ` set w"
    and "audit_digest sha256 (wal_last_hash w, payload_text q) \<noteq> wal_last_hash w"
  shows "let p = wal_last_hash w; w1 = fst (wal_insert sha256 p q w); w2 = fst (wal_insert sha256 p r w1) in
    (if audit_digest sha256 (p, payload_text q) = audit_digest sha256 (p, payload_text r) then w2 = w1
     else \<not> linked awe_trace_hash awe_previous_hash w2)"
proof -
  have "linked awe_trace_hash awe_previous_hash ((w @ [x]) @ [y]) \<longrightarrow> awe_previous_hash y = awe_trace_hash x" for x y
    using linked_snoc [of awe_trace_hash awe_previous_hash "w @ [x]" y] by simp
  then show ?thesis using assms by (force simp: wal_insert_event Let_def)
qed

lemma wal_immutable: "e \<in> set w \<Longrightarrow> reached e \<Longrightarrow> wal_update reached f w = Inl IntegrityError \<and> wal_delete reached w = Inl IntegrityError"
  by (auto simp: wal_update_def wal_delete_def)

definition example_audit_request :: "int \<Rightarrow> audit_request" where
  "example_audit_request n = \<lparr>arq_timestamp = ''t'', arq_request_type = ''SHELL_COMMAND'', arq_payload = [(''n'', PInt 7)],
     arq_risk_score = of_int n, arq_status = ''PASSED''\<rparr>"

theorem wal_complete_witness:
  "\<exists>w. log_all (\<lambda>s. CHR ''x'' # s) [] [example_audit_request 1, example_audit_request 2] = Inr w \<and> length w = 2 \<and>
     wal_ok (\<lambda>s. CHR ''x'' # s) w"
proof -
  let ?sha = "\<lambda>s. CHR ''x'' # s"
  have t: "payload_text ` set [example_audit_request 1, example_audit_request 2] = {payload_text (example_audit_request 1)}"
    by (simp add: payload_text_def example_audit_request_def)
  have "\<exists>w. log_all ?sha [] [example_audit_request 1, example_audit_request 2] = Inr w \<and>
      list_all2 logged_as w [example_audit_request 1, example_audit_request 2] \<and> wal_ok ?sha w"
  proof (rule wal_complete)
    show "request_wf q \<and> set_free (PDict (arq_payload q))" if "q \<in> set [example_audit_request 1, example_audit_request 2]" for q
      using that by (auto simp: request_wf_def example_audit_request_def)
    show "inj_on (audit_digest ?sha) (insert GENESIS_HASH (range ?sha) \<times> payload_text ` set [example_audit_request 1, example_audit_request 2])"
      unfolding t by (auto simp: inj_on_def audit_digest_def)
    show "?sha s \<noteq> GENESIS_HASH" for s by (auto simp: GENESIS_HASH_def Cons_replicate_eq)
  qed
  then show ?thesis by (auto dest: list_all2_lengthD)
qed

end
