(* ===== verification/Spend_Hunter.thy ===== *)
theory Spend_Hunter
  imports Consensus_Breaker Prompt_Shield
begin

text \<open>
  The spend hunter (\<open>pi_micro_agents/pi_spend_hunter.py\<close>): the sliding window of costs with its circuit breaker, the check
  for bloated prompts, the cache of answers, and the patterns searched in code. Costs and times are rationals, readings of
  the clock are arguments.

  The breaker sees exactly the costs recorded in the last 60 seconds, whatever was checked, cached or recorded before, and
  the status of a request is determined by that sum, the words of the request and the cache.
\<close>

section \<open>Patterns\<close>

text \<open>\<open>(?:.|\n)*?\<close> is any text; \<open>\d{3,}\<close> is three digits and more.\<close>

definition rx_anything :: rx where
  "rx_anything = Rx_Star (Rx_Class (\<lambda>_. True))"

definition loop_patterns :: "(rx \<times> string) list" where
  "loop_patterns =
     [(rx_seq [rx_lit_nocase ''while'', rx_plus rx_space, rx_alts (rx_lit_nocase ''True'') [rx_char (CHR ''1'')], Rx_Star rx_space,
         rx_char (CHR '':''), rx_anything, Rx_Boundary, rx_lit_nocase ''completions'', Rx_Boundary],
       ''infinite completions loop detected''),
      (rx_seq [rx_lit_nocase ''for'', rx_plus rx_space, rx_plus rx_word, rx_plus rx_space, rx_lit_nocase ''in'', rx_plus rx_space,
         rx_lit_nocase ''range('', Rx_Star rx_space, rx_repeat 3 rx_digit, Rx_Star rx_digit, Rx_Star rx_space, rx_char (CHR '')''),
         Rx_Star rx_space, rx_char (CHR '':''), rx_anything, Rx_Boundary, rx_lit_nocase ''completions'', Rx_Boundary],
       ''excessive completions loop range detected'')]"

text \<open>\<open>str.splitlines\<close>.\<close>

definition is_line_break :: "char \<Rightarrow> bool" where
  "is_line_break c = (let k = (of_char c :: nat) in 10 \<le> k \<and> k \<le> 13 \<or> 28 \<le> k \<and> k \<le> 30 \<or> k = 133)"

fun split_lines_from :: "string \<Rightarrow> string \<Rightarrow> string list" where
  "split_lines_from cur [] = (if cur = [] then [] else [rev cur])"
| "split_lines_from cur [c] = (if is_line_break c then [rev cur] else [rev (c # cur)])"
| "split_lines_from cur (c # d # s) =
     (if c = CHR 0x0D \<and> d = CHR 0x0A then rev cur # split_lines_from [] s
      else if is_line_break c then rev cur # split_lines_from [] (d # s)
      else split_lines_from (c # cur) (d # s))"

definition split_lines :: "string \<Rightarrow> string list" where
  "split_lines s = split_lines_from [] s"

definition spend_terms :: "string list" where
  "spend_terms = [''drain_billing'', ''infinite_completions'']"

definition detect_spend_anomalies :: "bool \<Rightarrow> string \<Rightarrow> rat \<times> string list" where
  "detect_spend_anomalies strict s =
     (if s = [] then (0, [])
      else
        (let loops = map snd (filter (\<lambda>(r, _). rx_search r s) loop_patterns);
             lines = filter (\<lambda>l. length l > 15) (map py_strip (split_lines s));
             redundant = (8 \<le> length lines \<and>
               rat_of_nat (length lines - length (remdups lines)) / rat_of_nat (length lines) > 40 / 100);
             terms = (if strict then filter (\<lambda>kw. py_contains kw (py_lower s)) spend_terms else [])
         in (foldl max 0 (map (\<lambda>_. 95) loops @ (if redundant then [80] else []) @ map (\<lambda>_. 90) terms),
             loops @ (if redundant then [''high-redundancy duplicate block signature detected''] else []) @
             map (\<lambda>kw. ''banned spend-anomaly term '' @ [CHR 0x27] @ kw @ [CHR 0x27] @ '' detected'') terms)))"

section \<open>The hunter\<close>

record request_message =
  rqm_role :: string
  rqm_content :: string

record spend_hunter =
  sph_cache :: "(string, pyval \<times> rat) dict"
  sph_window :: "(rat \<times> rat) list"
  sph_total_cost :: rat

definition init_hunter :: spend_hunter where
  "init_hunter = \<lparr>sph_cache = [], sph_window = [], sph_total_cost = 0\<rparr>"

definition prompt_text :: "request_message list \<Rightarrow> string" where
  "prompt_text messages =
     dumps_default (PList (map (\<lambda>m. PDict [(''role'', PStr (rqm_role m)), (''content'', PStr (rqm_content m))]) messages))"

definition compute_prompt_hash :: "(string \<Rightarrow> string) \<Rightarrow> request_message list \<Rightarrow> string" where
  "compute_prompt_hash sha256 messages = sha256 (prompt_text messages)"

datatype spend_status = BLOCKED_CIRCUIT_BREAKER | BLOCKED_PROMPT_BLOAT | CACHE_HIT pyval | PROCEED

definition current_spend :: "(rat \<times> rat) list \<Rightarrow> rat" where
  "current_spend w = sum_list (map snd w)"

definition prompt_bloat :: "request_message list \<Rightarrow> bool" where
  "prompt_bloat messages =
     (let words = split_words (concat (map (\<lambda>m. '' '' @ rqm_content m) messages)) in
      50 < length words \<and> rat_of_nat (length (remdups words)) / rat_of_nat (length words) < 1 / 2)"

definition check_request :: "(string \<Rightarrow> string) \<Rightarrow> rat \<Rightarrow> spend_hunter \<Rightarrow> request_message list \<Rightarrow> spend_hunter \<times> spend_status" where
  "check_request sha256 now h messages =
     (let h1 = h\<lparr>sph_window := filter (\<lambda>item. fst item \<ge> now - 60) (sph_window h)\<rparr> in
      if current_spend (sph_window h1) \<ge> 2 then (h1, BLOCKED_CIRCUIT_BREAKER)
      else if prompt_bloat messages then (h1, BLOCKED_PROMPT_BLOAT)
      else
        (let p_hash = compute_prompt_hash sha256 messages in
         case map_of (sph_cache h1) p_hash of
           Some (val, expires_at) \<Rightarrow>
             if now \<le> expires_at then (h1, CACHE_HIT val)
             else (h1\<lparr>sph_cache := dict_pop p_hash (sph_cache h1)\<rparr>, PROCEED)
         | None \<Rightarrow> (h1, PROCEED)))"

definition cache_response :: "(string \<Rightarrow> string) \<Rightarrow> rat \<Rightarrow> spend_hunter \<Rightarrow> request_message list \<Rightarrow> pyval \<Rightarrow> rat \<Rightarrow> spend_hunter" where
  "cache_response sha256 now h messages response ttl =
     h\<lparr>sph_cache := dict_set (sph_cache h) (compute_prompt_hash sha256 messages) (response, now + ttl)\<rparr>"

definition spend_cost :: "int \<Rightarrow> int \<Rightarrow> rat" where
  "spend_cost prompt_tokens completion_tokens =
     rat_of_int prompt_tokens * (2 / 1000000) + rat_of_int completion_tokens * (6 / 1000000)"

definition record_spend :: "rat \<Rightarrow> spend_hunter \<Rightarrow> int \<Rightarrow> int \<Rightarrow> spend_hunter \<times> rat" where
  "record_spend now h prompt_tokens completion_tokens =
     (let cost = spend_cost prompt_tokens completion_tokens in
      (h\<lparr>sph_window := sph_window h @ [(now, cost)], sph_total_cost := sph_total_cost h + cost\<rparr>, cost))"

section \<open>Histories\<close>

datatype spend_op =
    Check rat "request_message list"
  | Cache rat "request_message list" pyval rat
  | Record rat int int

fun op_time :: "spend_op \<Rightarrow> rat" where
  "op_time (Check now _) = now"
| "op_time (Cache now _ _ _) = now"
| "op_time (Record now _ _) = now"

fun spend_step :: "(string \<Rightarrow> string) \<Rightarrow> spend_hunter \<Rightarrow> spend_op \<Rightarrow> spend_hunter" where
  "spend_step sha256 h (Check now ms) = fst (check_request sha256 now h ms)"
| "spend_step sha256 h (Cache now ms v ttl) = cache_response sha256 now h ms v ttl"
| "spend_step sha256 h (Record now p c) = fst (record_spend now h p c)"

definition spend_run :: "(string \<Rightarrow> string) \<Rightarrow> spend_op list \<Rightarrow> spend_hunter" where
  "spend_run sha256 ops = foldl (spend_step sha256) init_hunter ops"

definition spends :: "spend_op list \<Rightarrow> (rat \<times> rat) list" where
  "spends ops = concat (map (\<lambda>op. case op of Record now p c \<Rightarrow> [(now, spend_cost p c)] | _ \<Rightarrow> []) ops)"

lemma spend_run_snoc: "spend_run sha256 (ops @ [op]) = spend_step sha256 (spend_run sha256 ops) op"
  by (simp add: spend_run_def)

lemma spends_snoc: "spends (ops @ [op]) = spends ops @ (case op of Record now p c \<Rightarrow> [(now, spend_cost p c)] | _ \<Rightarrow> [])"
  by (simp add: spends_def)

lemma check_window: "sph_window (fst (check_request sha256 now h ms)) = filter (\<lambda>item. fst item \<ge> now - 60) (sph_window h)"
  by (simp add: check_request_def Let_def split: option.splits prod.splits)

text \<open>What a check drops is older than the window of any later check.\<close>

lemma window_exact:
  "sorted (map op_time ops) \<Longrightarrow> \<forall>op\<in>set ops. op_time op \<le> now \<Longrightarrow>
   filter (\<lambda>item. fst item \<ge> now - 60) (sph_window (spend_run sha256 ops)) = filter (\<lambda>item. fst item \<ge> now - 60) (spends ops)"
proof (induction ops rule: rev_induct)
  case Nil
  then show ?case by (simp add: spend_run_def init_hunter_def spends_def)
next
  case (snoc op ops)
  have IH: "filter (\<lambda>item. fst item \<ge> now - 60) (sph_window (spend_run sha256 ops)) = filter (\<lambda>item. fst item \<ge> now - 60) (spends ops)"
    using snoc by (simp add: sorted_append)
  show ?case
  proof (cases op)
    case (Check t ms)
    then have "t \<le> now" using snoc.prems(2) by simp
    then have "(t - 60 \<le> fst item \<and> now - 60 \<le> fst item) = (now - 60 \<le> fst item)" for item :: "rat \<times> rat" by auto
    then show ?thesis using IH by (simp add: Check spend_run_snoc spends_snoc check_window)
  qed (use IH in \<open>simp_all add: spend_run_snoc spends_snoc cache_response_def record_spend_def Let_def\<close>)
qed

definition recent_spend :: "rat \<Rightarrow> spend_op list \<Rightarrow> rat" where
  "recent_spend now ops = current_spend (filter (\<lambda>item. fst item \<ge> now - 60) (spends ops))"

text \<open>
  After any history of checks, cached answers and recorded costs with a clock that does not run backwards, a
  request trips the circuit breaker exactly when the costs recorded in the last 60 seconds sum to two dollars or more; the
  total is the sum of all recorded costs.
\<close>

theorem spend_breaker:
  assumes "sorted (map op_time ops)" and "\<And>op. op \<in> set ops \<Longrightarrow> op_time op \<le> now"
  shows "(snd (check_request sha256 now (spend_run sha256 ops) messages) = BLOCKED_CIRCUIT_BREAKER \<longleftrightarrow> recent_spend now ops \<ge> 2) \<and>
    sph_total_cost (spend_run sha256 ops) = current_spend (spends ops)"
proof
  have w: "filter (\<lambda>item. fst item \<ge> now - 60) (sph_window (spend_run sha256 ops)) = filter (\<lambda>item. fst item \<ge> now - 60) (spends ops)"
    using assms by (intro window_exact) auto
  show "snd (check_request sha256 now (spend_run sha256 ops) messages) = BLOCKED_CIRCUIT_BREAKER \<longleftrightarrow> recent_spend now ops \<ge> 2"
    by (simp add: check_request_def recent_spend_def w Let_def split: option.splits prod.splits)
  have total: "sph_total_cost (fst (check_request sha256 t h ms)) = sph_total_cost h" for t h ms
    by (simp add: check_request_def Let_def split: option.splits prod.splits)
  show "sph_total_cost (spend_run sha256 ops) = current_spend (spends ops)"
  proof (induction ops rule: rev_induct)
    case Nil
    then show ?case by (simp add: spend_run_def init_hunter_def spends_def current_spend_def)
  next
    case (snoc op ops)
    then show ?case
      by (cases op) (simp_all add: spend_run_snoc spends_snoc total cache_response_def record_spend_def current_spend_def Let_def)
  qed
qed

theorem spend_breaker_witness:
  "snd (check_request id 90 (spend_run id [Record 10 0 400000, Check 20 [], Record 50 0 400000]) []) = BLOCKED_CIRCUIT_BREAKER \<and>
   snd (check_request id 115 (spend_run id [Record 10 0 400000, Check 20 [], Record 50 0 400000]) []) \<noteq> BLOCKED_CIRCUIT_BREAKER"
proof -
  let ?ops = "[Record 10 0 400000, Check 20 [], Record 50 0 400000]"
  have s: "sorted (map op_time ?ops)" by simp
  have t: "op_time op \<le> 90" "op_time op \<le> 115" if "op \<in> set ?ops" for op using that by auto
  show ?thesis using spend_breaker [OF s t(1), of id "[]"] spend_breaker [OF s t(2), of id "[]"]
    by (simp add: recent_spend_def spends_def current_spend_def spend_cost_def)
qed

section \<open>The cache\<close>

lemma prompt_text_inj: "prompt_text ms = prompt_text ns \<Longrightarrow> ms = ns"
proof -
  let ?v = "\<lambda>ms :: request_message list. PList (map (\<lambda>m. PDict [(''role'', PStr (rqm_role m)), (''content'', PStr (rqm_content m))]) ms)"
  assume "prompt_text ms = prompt_text ns"
  moreover have "py_wf (?v ms)" "set_free (?v ms)" for ms by (simp_all add: list_all_iff)
  ultimately have "json_norm (?v ms) = json_norm (?v ns)"
    using dumps_inj [OF seps_ok_default, of "?v ms" "?v ns"] by (simp add: prompt_text_def dumps_default_def)
  then have "map (\<lambda>m. json_norm (PDict [(''role'', PStr (rqm_role m)), (''content'', PStr (rqm_content m))])) ms =
      map (\<lambda>m. json_norm (PDict [(''role'', PStr (rqm_role m)), (''content'', PStr (rqm_content m))])) ns"
    by (simp only: json_norm.simps(1) map_map comp_def pyval.inject)
  then have "map (\<lambda>m. (rqm_role m, rqm_content m)) ms = map (\<lambda>m. (rqm_role m, rqm_content m)) ns"
    by (subst map_eq_cong [where g = "\<lambda>m. json_norm (PDict [(''role'', PStr (rqm_role m)), (''content'', PStr (rqm_content m))])"]) auto
  moreover have "inj (\<lambda>m :: request_message. (rqm_role m, rqm_content m))" by (simp add: inj_def)
  ultimately show "ms = ns" by (metis map_injective)
qed

text \<open>A cached answer is returned until it expires, and only for the messages it was cached for.\<close>

lemma cache_hit:
  assumes "current_spend (filter (\<lambda>item. fst item \<ge> now - 60) (sph_window h)) < 2" and "\<not> prompt_bloat ns"
    and "compute_prompt_hash sha256 ms = compute_prompt_hash sha256 ns \<Longrightarrow> prompt_text ms = prompt_text ns"
    and "map_of (sph_cache h) (compute_prompt_hash sha256 ns) = None"
  shows "snd (check_request sha256 now (cache_response sha256 t h ms v ttl) ns) =
    (if ms = ns \<and> now \<le> t + ttl then CACHE_HIT v else PROCEED)"
  using assms prompt_text_inj [of ms ns]
  by (auto simp: check_request_def cache_response_def Let_def map_of_dict_set split: option.splits)

end
