(* ===== verification/Surplus_Market.thy ===== *)
theory Surplus_Market
  imports Complex_Main Py_Json Py_Regex
begin

text \<open>
  The market of surplus tokens (\<open>pi_micro_agents/pi_surplus_orchestrator.py\<close>) and the format of sub-keys the interceptor
  accepts (\<open>_SURPLUS_KEY_RE\<close> of \<open>pi_agent_interceptor/proxy.py\<close>). Keys are drawn from a random source and clock readings are
  arguments; amounts are rationals. The sale that \<open>create_surplus_bundle\<close> logs in the audit ledger is left out.

  Routing never takes a bundle beyond its cap; the settlement of the interceptor can, and the keys that are minted are too
  short for the interceptor to recognise.
\<close>

section \<open>Leakage\<close>

definition leakage_patterns :: "(string \<times> rx) list" where
  "leakage_patterns =
     [(''sk_surplus_[a-zA-Z0-9]'' @ [CHR 0x7B] @ ''8,12'' @ [CHR 0x7D], rx_seq [rx_lit_nocase ''sk_surplus_'', rx_between 8 12 rx_alnum]),
      (''export'' @ [CHR 0x5C] @ ''s+sk_surplus_'', rx_seq [rx_lit_nocase ''export'', rx_plus rx_space, rx_lit_nocase ''sk_surplus_'']),
      (''bypass_surplus_pricing'', rx_lit_nocase ''bypass_surplus_pricing'')]"

definition surplus_terms :: "string list" where
  "surplus_terms = [''steal_token_quota'', ''leak_surplus_key'']"

definition detect_surplus_violations :: "bool \<Rightarrow> string \<Rightarrow> rat \<times> string list" where
  "detect_surplus_violations strict s =
     (if s = [] then (0, [])
      else
        (let leaks = map fst (filter (\<lambda>(_, r). rx_search r s) leakage_patterns);
             terms = (if strict then filter (\<lambda>kw. py_contains kw (py_lower s)) surplus_terms else [])
         in (foldl max 0 (map (\<lambda>_. 90) leaks @ map (\<lambda>_. 95) terms),
             map (\<lambda>p. ''unauthorized surplus sub-key leakage signature detected: '' @ p) leaks @
             map (\<lambda>kw. ''banned surplus execution term '' @ [CHR 0x27] @ kw @ [CHR 0x27] @ '' detected'') terms)))"

section \<open>The ledger\<close>

record surplus_bundle =
  sbn_name :: string
  sbn_sub_key :: string
  sbn_token_cap :: int
  sbn_tokens_used :: int
  sbn_price :: rat
  sbn_expires_at :: rat
  sbn_status :: string

record surplus_ledger =
  sul_prepaid_credits :: rat
  sul_remaining_rate_tokens :: int
  sul_free_tier_rollover :: int
  sul_under_utilized_keys :: "string list"
  sul_active_subkeys :: "(string, surplus_bundle) dict"

definition init_surplus :: surplus_ledger where
  "init_surplus = \<lparr>sul_prepaid_credits = 100, sul_remaining_rate_tokens = 1000000, sul_free_tier_rollover = 50000,
     sul_under_utilized_keys = [''key_primary_1''], sul_active_subkeys = []\<rparr>"

text \<open>\<open>int(s)\<close>: spaces around it, a sign, and digits with single underscores between them.\<close>

fun digit_groups :: "bool \<Rightarrow> string \<Rightarrow> string option" where
  "digit_groups after [] = (if after then Some [] else None)"
| "digit_groups after (c # s) =
     (if is_digit c then map_option (Cons c) (digit_groups True s)
      else if c = CHR ''_'' \<and> after then digit_groups False s else None)"

definition py_int_text :: "string \<Rightarrow> int result" where
  "py_int_text s =
     (let t = py_strip s;
          u = (if t \<noteq> [] \<and> hd t \<in> {CHR ''-'', CHR ''+''} then tl t else t) in
      case digit_groups False u of
        Some ds \<Rightarrow> Inr (if t \<noteq> [] \<and> hd t = CHR ''-'' then - int (read_nat ds) else int (read_nat ds))
      | None \<Rightarrow> Inl (ValueError ''invalid literal for int()''))"

definition record_usage :: "surplus_ledger \<Rightarrow> int \<Rightarrow> int \<Rightarrow> (string \<times> string) list \<Rightarrow> surplus_ledger" where
  "record_usage l prompt_tokens completion_tokens response_headers =
     (let total_tokens = prompt_tokens + completion_tokens;
          cost = rat_of_int total_tokens / 1000 * (2 / 1000);
          l1 = l\<lparr>sul_prepaid_credits := max 0 (sul_prepaid_credits l - cost)\<rparr>
      in foldl (\<lambda>a (k, v).
           if py_lower k \<in> {''x-ratelimit-remaining-tokens'', ''x-ratelimit-remaining''} then
             (case py_int_text v of Inr i \<Rightarrow> a\<lparr>sul_remaining_rate_tokens := i\<rparr> | Inl _ \<Rightarrow> a)
           else a) l1 response_headers)"

definition mint_key :: "string \<Rightarrow> string" where
  "mint_key random_hex = ''sk_surplus_'' @ take 12 random_hex"

definition create_surplus_bundle ::
    "string \<Rightarrow> rat \<Rightarrow> surplus_ledger \<Rightarrow> string \<Rightarrow> int \<Rightarrow> rat \<Rightarrow> int \<Rightarrow> surplus_ledger \<times> surplus_bundle" where
  "create_surplus_bundle random_hex now l name token_cap price expires_in_sec =
     (let b = \<lparr>sbn_name = name, sbn_sub_key = mint_key random_hex, sbn_token_cap = token_cap, sbn_tokens_used = 0, sbn_price = price,
               sbn_expires_at = now + rat_of_int expires_in_sec, sbn_status = ''ACTIVE''\<rparr>
      in (l\<lparr>sul_active_subkeys := dict_set (sul_active_subkeys l) (mint_key random_hex) b\<rparr>, b))"

text \<open>The last key of the dictionary that is equal is taken.\<close>

definition find_bundle :: "surplus_ledger \<Rightarrow> string \<Rightarrow> surplus_bundle option" where
  "find_bundle l sub_key = foldl (\<lambda>found (k, b). if k = sub_key then Some b else found) None (sul_active_subkeys l)"

definition route_traffic :: "rat \<Rightarrow> surplus_ledger \<Rightarrow> string \<Rightarrow> int \<Rightarrow> surplus_ledger \<times> bool \<times> string" where
  "route_traffic now l sub_key requested_tokens =
     (let put = (\<lambda>b. l\<lparr>sul_active_subkeys := dict_set (sul_active_subkeys l) sub_key b\<rparr>) in
      case find_bundle l sub_key of
        None \<Rightarrow> (l, False, ''INVALID_SUB_KEY'')
      | Some b \<Rightarrow>
          if sbn_status b \<noteq> ''ACTIVE'' then (l, False, ''INACTIVE_SUB_KEY'')
          else if now > sbn_expires_at b then (put (b\<lparr>sbn_status := ''EXPIRED''\<rparr>), False, ''EXPIRED_SUB_KEY'')
          else if sbn_tokens_used b + requested_tokens > sbn_token_cap b then (l, False, ''QUOTA_EXCEEDED'')
          else (put (b\<lparr>sbn_tokens_used := sbn_tokens_used b + requested_tokens\<rparr>), True, ''APPROVED''))"

section \<open>The interceptor's side\<close>

text \<open>
  \<open>^Bearer\s+(sk_surplus_[A-Za-z0-9]{24,128})\s*$\<close>: what follows the characters of the key must be space to the end, so the
  key takes all of them.
\<close>

definition surplus_key_of :: "string \<Rightarrow> string option" where
  "surplus_key_of auth_header =
     (let rest = drop 6 auth_header; t = dropWhile is_py_space rest; body = drop 11 t;
          run = takeWhile is_alnum body; after = dropWhile is_alnum body in
      if take 6 auth_header = ''Bearer'' \<and> t \<noteq> rest \<and> take 11 t = ''sk_surplus_'' \<and> 24 \<le> length run \<and> length run \<le> 128 \<and>
         list_all is_py_space after
      then Some (''sk_surplus_'' @ run) else None)"

text \<open>\<open>bundle["tokens_used"] = max(0, current - estimated + actual)\<close> after the answer of the provider.\<close>

definition settle_usage :: "surplus_ledger \<Rightarrow> string \<Rightarrow> int \<Rightarrow> int \<Rightarrow> surplus_ledger" where
  "settle_usage l sub_key estimated total_actual =
     (case map_of (sul_active_subkeys l) sub_key of
        None \<Rightarrow> l
      | Some b \<Rightarrow>
          l\<lparr>sul_active_subkeys := dict_set (sul_active_subkeys l) sub_key
              (b\<lparr>sbn_tokens_used := max 0 (sbn_tokens_used b - estimated + total_actual)\<rparr>)\<rparr>)"

section \<open>Quotas\<close>

lemma find_bundle_fold: "dict_wf d \<Longrightarrow> foldl (\<lambda>found (k, b). if k = sub_key then Some b else found) x d =
    (case map_of d sub_key of Some b \<Rightarrow> Some b | None \<Rightarrow> x)"
proof (induction d arbitrary: x)
  case (Cons kb d)
  obtain k b where kb: "kb = (k, b)" by (cases kb)
  have wf: "dict_wf d" "k \<notin> fst ` set d" using Cons.prems by (auto simp: kb dict_wf_def)
  show ?case
  proof (cases "k = sub_key")
    case True
    then have "map_of d sub_key = None" using wf(2) by (simp add: map_of_eq_None_iff)
    then show ?thesis using Cons.IH [OF wf(1)] True by (simp add: kb)
  qed (use Cons.IH [OF wf(1)] in \<open>simp add: kb\<close>)
qed simp

definition surplus_ok :: "surplus_ledger \<Rightarrow> bool" where
  "surplus_ok l \<longleftrightarrow> dict_wf (sul_active_subkeys l) \<and>
     (\<forall>k b. map_of (sul_active_subkeys l) k = Some b \<longrightarrow> 0 \<le> sbn_tokens_used b \<and> sbn_tokens_used b \<le> sbn_token_cap b)"

lemma find_bundle_ok: "surplus_ok l \<Longrightarrow> find_bundle l k = map_of (sul_active_subkeys l) k"
  by (simp add: find_bundle_def find_bundle_fold surplus_ok_def split: option.split)

datatype surplus_op =
    Mint string rat string int rat int
  | Route rat string int
  | Usage int int "(string \<times> string) list"

fun surplus_step :: "surplus_ledger \<Rightarrow> surplus_op \<Rightarrow> surplus_ledger" where
  "surplus_step l (Mint h now name cap price e) = fst (create_surplus_bundle h now l name cap price e)"
| "surplus_step l (Route now k n) = fst (route_traffic now l k n)"
| "surplus_step l (Usage p c hs) = record_usage l p c hs"

fun surplus_op_ok :: "surplus_op \<Rightarrow> bool" where
  "surplus_op_ok (Mint _ _ _ cap _ _) = (0 \<le> cap)"
| "surplus_op_ok (Route _ _ n) = (0 \<le> n)"
| "surplus_op_ok (Usage _ _ _) = True"

lemma record_usage_keys [simp]: "sul_active_subkeys (record_usage l p c hs) = sul_active_subkeys l"
proof -
  have "sul_active_subkeys (foldl (\<lambda>a (k, v).
           if py_lower k \<in> {''x-ratelimit-remaining-tokens'', ''x-ratelimit-remaining''} then
             (case py_int_text v of Inr i \<Rightarrow> a\<lparr>sul_remaining_rate_tokens := i\<rparr> | Inl _ \<Rightarrow> a)
           else a) m hs) = sul_active_subkeys m" for m :: surplus_ledger
    by (induction hs arbitrary: m) (auto split: sum.split)
  then show ?thesis by (simp add: record_usage_def Let_def)
qed

lemma surplus_ok_step: "surplus_ok l \<Longrightarrow> surplus_op_ok op \<Longrightarrow> surplus_ok (surplus_step l op)"
proof (cases op)
  case (Route now k n)
  assume l: "surplus_ok l" and "surplus_op_ok op"
  then have n: "0 \<le> n" by (simp add: Route)
  show ?thesis
  proof (cases "map_of (sul_active_subkeys l) k")
    case None
    then show ?thesis using l by (simp add: Route route_traffic_def find_bundle_ok)
  next
    case (Some b)
    then have "0 \<le> sbn_tokens_used b" "sbn_tokens_used b \<le> sbn_token_cap b" using l by (auto simp: surplus_ok_def)
    then show ?thesis using l n by (auto simp: Route route_traffic_def find_bundle_ok Some surplus_ok_def map_of_dict_set Let_def)
  qed
qed (auto simp: create_surplus_bundle_def surplus_ok_def map_of_dict_set Let_def)

text \<open>
  Whatever is minted, routed and recorded, no bundle is used beyond its cap, and traffic is approved exactly
  for a key that was minted, is active, has not expired and has the requested tokens left, which are then reserved.
\<close>

theorem surplus_quota:
  assumes "\<And>op. op \<in> set ops \<Longrightarrow> surplus_op_ok op"
  defines "l \<equiv> foldl surplus_step init_surplus ops"
  shows "(\<forall>(k, b) \<in> set (sul_active_subkeys l). 0 \<le> sbn_tokens_used b \<and> sbn_tokens_used b \<le> sbn_token_cap b) \<and>
    (fst (snd (route_traffic now l k n)) \<longleftrightarrow>
      (\<exists>b. map_of (sul_active_subkeys l) k = Some b \<and> sbn_status b = ''ACTIVE'' \<and> now \<le> sbn_expires_at b \<and>
        sbn_tokens_used b + n \<le> sbn_token_cap b \<and>
        map_of (sul_active_subkeys (fst (route_traffic now l k n))) k = Some (b\<lparr>sbn_tokens_used := sbn_tokens_used b + n\<rparr>)))"
proof -
  have "surplus_ok m \<Longrightarrow> \<forall>op\<in>set ops. surplus_op_ok op \<Longrightarrow> surplus_ok (foldl surplus_step m ops)" for m
    by (induction ops arbitrary: m) (auto intro: surplus_ok_step)
  moreover have "surplus_ok init_surplus" by (simp add: surplus_ok_def init_surplus_def)
  ultimately have ok: "surplus_ok l" using assms(1) by (simp add: l_def)
  then have "map_of (sul_active_subkeys l) k = Some b" if "(k, b) \<in> set (sul_active_subkeys l)" for k b
    using that by (intro map_of_is_SomeI) (simp_all add: surplus_ok_def dict_wf_def)
  then have "\<forall>(k, b) \<in> set (sul_active_subkeys l). 0 \<le> sbn_tokens_used b \<and> sbn_tokens_used b \<le> sbn_token_cap b"
    using ok by (auto simp: surplus_ok_def)
  moreover have "fst (snd (route_traffic now l k n)) \<longleftrightarrow>
      (\<exists>b. map_of (sul_active_subkeys l) k = Some b \<and> sbn_status b = ''ACTIVE'' \<and> now \<le> sbn_expires_at b \<and>
        sbn_tokens_used b + n \<le> sbn_token_cap b \<and>
        map_of (sul_active_subkeys (fst (route_traffic now l k n))) k = Some (b\<lparr>sbn_tokens_used := sbn_tokens_used b + n\<rparr>))"
    by (auto simp: route_traffic_def find_bundle_ok [OF ok] Let_def map_of_dict_set split: option.splits)
  ultimately show ?thesis ..
qed

theorem surplus_quota_witness:
  "fst (snd (route_traffic 5 (foldl surplus_step init_surplus [Mint ''0123456789abcdef'' 0 ''b'' 100 1 60,
     Route 1 ''sk_surplus_0123456789ab'' 70]) ''sk_surplus_0123456789ab'' 30)) \<and>
   \<not> fst (snd (route_traffic 5 (foldl surplus_step init_surplus [Mint ''0123456789abcdef'' 0 ''b'' 100 1 60,
     Route 1 ''sk_surplus_0123456789ab'' 70]) ''sk_surplus_0123456789ab'' 31))"
proof -
  let ?ops = "[Mint ''0123456789abcdef'' 0 ''b'' 100 1 60, Route 1 ''sk_surplus_0123456789ab'' 70]"
  have ops: "surplus_op_ok op" if "op \<in> set ?ops" for op using that by auto
  have l: "map_of (sul_active_subkeys (foldl surplus_step init_surplus ?ops)) ''sk_surplus_0123456789ab'' =
      Some \<lparr>sbn_name = ''b'', sbn_sub_key = ''sk_surplus_0123456789ab'', sbn_token_cap = 100, sbn_tokens_used = 70, sbn_price = 1,
        sbn_expires_at = 60, sbn_status = ''ACTIVE''\<rparr>"
    by (simp add: create_surplus_bundle_def mint_key_def route_traffic_def find_bundle_def init_surplus_def map_of_dict_set Let_def)
  have r: "fst (snd (route_traffic 5 (foldl surplus_step init_surplus ?ops) ''sk_surplus_0123456789ab'' 30)) \<Longrightarrow> ?thesis"
    using surplus_quota [of ?ops 5 "''sk_surplus_0123456789ab''" 31] ops l by auto
  have "find_bundle (foldl surplus_step init_surplus ?ops) ''sk_surplus_0123456789ab'' =
      Some \<lparr>sbn_name = ''b'', sbn_sub_key = ''sk_surplus_0123456789ab'', sbn_token_cap = 100, sbn_tokens_used = 70, sbn_price = 1,
        sbn_expires_at = 60, sbn_status = ''ACTIVE''\<rparr>"
    by (simp add: create_surplus_bundle_def mint_key_def route_traffic_def find_bundle_def init_surplus_def Let_def)
  then show ?thesis by (intro r) (simp add: route_traffic_def Let_def)
qed

section \<open>What goes wrong at the border\<close>

text \<open>A minted key has twelve characters after its prefix; the interceptor asks for at least 24.\<close>

lemma surplus_key_length: "surplus_key_of h = Some k \<Longrightarrow> 35 \<le> length k"
  by (auto simp: surplus_key_of_def Let_def split: if_splits)

lemma minted_keys_unrecognised: "surplus_key_of h \<noteq> Some (mint_key random_hex)"
  using surplus_key_length [of h "mint_key random_hex"] by (auto simp: mint_key_def)

text \<open>An answer longer than the estimate takes a bundle beyond its cap.\<close>

lemma settlement_exceeds_cap:
  "map_of (sul_active_subkeys l) k = Some b \<Longrightarrow> sbn_token_cap b < sbn_tokens_used b - est + actual \<Longrightarrow>
   \<exists>b'. map_of (sul_active_subkeys (settle_usage l k est actual)) k = Some b' \<and> sbn_token_cap b' < sbn_tokens_used b'"
  by (auto simp: settle_usage_def map_of_dict_set)

end
