(* ===== verification/Interceptor.thy ===== *)
theory Interceptor
  imports Govern_Shield Audit_WAL Spend_Hunter Surplus_Market
begin

text \<open>
  The gates of the interceptor (\<open>pi_agent_interceptor/proxy.py\<close>): the rate limiter, the operator token, the registry of human
  approvals, and the endpoints for commands, file edits and chat completions up to the point where a request is passed on.
  Requests to the provider and what is done with its answer, the webhook, and the printed lines are left out. Clock
  readings, task ids and the reviews that arrive while a request waits are arguments (what else happens while it waits is
  left out); times are rationals.

  The limiter admits at most its maximum in every window; a command is executed exactly when it is harmless or sensitive
  and approved, and every decision is in the audit ledger; a completion is blocked exactly on an injection, and no
  conversation ever reaches the range in which a human is asked.
\<close>

section \<open>The rate limiter\<close>

record rate_limiter =
  rlm_max_events :: nat
  rlm_window :: rat
  rlm_buckets :: "(string, rat list) dict"

definition new_rate_limiter :: "int \<Rightarrow> rat \<Rightarrow> rate_limiter" where
  "new_rate_limiter max_events window_seconds =
     \<lparr>rlm_max_events = nat (max 1 max_events), rlm_window = max (1 / 10) window_seconds, rlm_buckets = []\<rparr>"

definition limiter_hit :: "rat \<Rightarrow> rate_limiter \<Rightarrow> string \<Rightarrow> rate_limiter \<times> bool" where
  "limiter_hit now l key =
     (let q = dropWhile (\<lambda>t. t < now - rlm_window l) (dict_get (rlm_buckets l) key []) in
      if length q \<ge> rlm_max_events l then (l\<lparr>rlm_buckets := dict_set (rlm_buckets l) key q\<rparr>, False)
      else (l\<lparr>rlm_buckets := dict_set (rlm_buckets l) key (q @ [now])\<rparr>, True))"

definition client_key :: "(string \<Rightarrow> string) \<Rightarrow> string \<Rightarrow> string option \<Rightarrow> string" where
  "client_key sha256 token host =
     (if token \<noteq> [] then ''op:'' @ take 16 (sha256 token) else ''ip:'' @ (case host of Some h \<Rightarrow> h | None \<Rightarrow> ''unknown''))"

section \<open>The operator token\<close>

datatype http_outcome = Http_Error nat string | Http_Ok payload | Http_Cached pyval | Forwarded "string option" int

definition load_operator_token :: "string option \<Rightarrow> string option \<Rightarrow> (string \<Rightarrow> (nat \<times> string) option) \<Rightarrow> string option" where
  "load_operator_token env_token env_file read_file =
     (let tok = py_strip (case env_token of Some s \<Rightarrow> s | None \<Rightarrow> []);
          path = py_strip (case env_file of Some s \<Rightarrow> s | None \<Rightarrow> []) in
      if tok \<noteq> [] then Some tok
      else if path = [] then None
      else (case read_file path of
              None \<Rightarrow> None
            | Some (mode, body) \<Rightarrow>
                if mode mod 64 \<noteq> 0 then None else if py_strip body = [] then None else Some (py_strip body)))"



section \<open>Approvals\<close>

text \<open>Pending tasks with the state of their event, and the recorded decisions.\<close>

record approvals =
  apv_pending :: "(string, bool) dict"
  apv_results :: "(string, bool) dict"

definition open_approval :: "approvals \<Rightarrow> string \<Rightarrow> approvals" where
  "open_approval a task_id = a\<lparr>apv_pending := dict_set (apv_pending a) task_id False\<rparr>"

definition receive_human_review :: "approvals \<Rightarrow> string \<Rightarrow> bool \<Rightarrow> approvals \<times> http_outcome" where
  "receive_human_review a task_id approved =
     (if dict_has (apv_pending a) task_id then
        (a\<lparr>apv_pending := dict_set (apv_pending a) task_id True, apv_results := dict_set (apv_results a) task_id approved\<rparr>,
         Http_Ok [(''status'', PStr ''DECISION_RECEIVED''), (''task_id'', PStr task_id), (''approved'', PBool approved)])
      else (a, Http_Error 404 ''Task ID not active, already approved, or timed out.''))"

definition close_approval :: "approvals \<Rightarrow> string \<Rightarrow> approvals \<times> bool option" where
  "close_approval a task_id =
     (a\<lparr>apv_pending := dict_pop task_id (apv_pending a), apv_results := dict_pop task_id (apv_results a)\<rparr>,
      if dict_get (apv_pending a) task_id False then Some (dict_get (apv_results a) task_id False) else None)"

section \<open>The interceptor\<close>

record interceptor =
  itc_ledger :: wal_ledger
  itc_command_limit :: rate_limiter
  itc_llm_limit :: rate_limiter
  itc_hunter :: spend_hunter
  itc_surplus :: surplus_ledger
  itc_approvals :: approvals

text \<open>What a call reads from outside: the clocks, the task id, the reviews that arrive while it waits.\<close>

record call_env =
  cle_sha256 :: "string \<Rightarrow> string"
  cle_parse :: "string \<Rightarrow> parse_outcome"
  cle_float :: "real \<Rightarrow> string"
  cle_monotonic :: rat
  cle_time :: rat
  cle_stamp :: string
  cle_task :: string
  cle_reviews :: "(string \<times> bool) list"
  cle_spend_strict :: bool

definition itc_audit :: "call_env \<Rightarrow> interceptor \<Rightarrow> string \<Rightarrow> payload \<Rightarrow> real \<Rightarrow> string \<Rightarrow> interceptor" where
  "itc_audit env st rt body risk status =
     st\<lparr>itc_ledger := fst (wal_insert (cle_sha256 env) (wal_last_hash (itc_ledger st))
         \<lparr>arq_timestamp = cle_stamp env, arq_request_type = rt, arq_payload = body, arq_risk_score = risk, arq_status = status\<rparr>
         (itc_ledger st))\<rparr>"

text \<open>The wait ends when the task is reviewed; the last decision before the waiter wakes counts.\<close>

definition dispatch_human_approval :: "call_env \<Rightarrow> interceptor \<Rightarrow> string \<Rightarrow> real \<Rightarrow> interceptor \<times> bool" where
  "dispatch_human_approval env st detail risk =
     (let a1 = open_approval (itc_approvals st) (cle_task env);
          a2 = foldl (\<lambda>a (t, ok). fst (receive_human_review a t ok)) a1 (cle_reviews env);
          (a3, verdict) = close_approval a2 (cle_task env);
          st' = st\<lparr>itc_approvals := a3\<rparr>
      in case verdict of
           Some ok \<Rightarrow> (st', ok)
         | None \<Rightarrow> (itc_audit env st' ''HUMAN_APPROVAL'' [(''task_id'', PStr (cle_task env)), (''detail'', PStr detail)] risk ''TIMEOUT'', False))"

section \<open>Commands and file edits\<close>






record file_edit_request =
  fer_tenant_id :: string
  fer_file_path :: string
  fer_proposed_content :: string

definition file_edit_dump :: "file_edit_request \<Rightarrow> payload" where
  "file_edit_dump q = [(''tenant_id'', PStr (fer_tenant_id q)), (''file_path'', PStr (fer_file_path q)),
     (''proposed_content'', PStr (fer_proposed_content q))]"

definition proxy_file_edit :: "call_env \<Rightarrow> interceptor \<Rightarrow> file_edit_request \<Rightarrow> (interceptor \<times> http_outcome) result" where
  "proxy_file_edit env st q =
     res_bind (inspect_ast (cle_parse env) (fer_proposed_content q)) (\<lambda>violations.
       let ast_risk = (if violations \<noteq> [] then 100 else 0);
           risk = risk_compute [(''drift'', 0), (''entropy'', 0), (''ast'', ast_risk), (''command'', 0)]
       in if violations \<noteq> [] then
            Inr (itc_audit env st ''FILE_EDIT'' (file_edit_dump q) risk ''BLOCKED'',
                 Http_Error 403 (''SANDBOX_VIOLATION: Unsafe libraries detected. Blocked imports: '' @ py_join '', '' violations @ ''.''))
          else
            Inr (itc_audit env st ''FILE_EDIT'' (file_edit_dump q) risk ''PASSED'',
                 Http_Ok [(''status'', PStr ''FILE_WRITTEN''), (''file'', PStr (fer_file_path q))]))"

section \<open>Completions\<close>

text \<open>The optional fields of a request that are set come after model and messages in its dump.\<close>

record llm_request =
  lrq_model :: string
  lrq_messages :: "chat_message list"
  lrq_rest :: payload

definition llm_dump :: "llm_request \<Rightarrow> payload" where
  "llm_dump q = [(''model'', PStr (lrq_model q)),
     (''messages'', PList (map (\<lambda>m. PDict [(''role'', PStr (chm_role m)), (''content'', PStr (chm_content m))]) (lrq_messages q)))] @ lrq_rest q"

definition hunter_messages :: "chat_message list \<Rightarrow> request_message list" where
  "hunter_messages ms = map (\<lambda>m. \<lparr>rqm_role = chm_role m, rqm_content = chm_content m\<rparr>) ms"

definition original_goal :: "chat_message list \<Rightarrow> string" where
  "original_goal ms =
     (case find (\<lambda>m. chm_role m = ''system'') ms of
        Some m \<Rightarrow> chm_content m
      | None \<Rightarrow> ''fix and refactor code, compile modules, write safe tests'')"

definition injection_scan :: "chat_message list \<Rightarrow> rat \<times> string list" where
  "injection_scan ms =
     foldl (\<lambda>(m, viols) (r, v). (if r > m then r else m, viols @ v)) (0, []) (map (\<lambda>m. detect_prompt_injection (chm_content m)) ms)"

definition llm_risk :: "chat_message list \<Rightarrow> real" where
  "llm_risk ms =
     risk_compute [(''drift'', calculate_drift ms (original_goal ms)), (''entropy'', calculate_entropy ms), (''ast'', 0), (''command'', 0),
       (''injection'', of_rat (fst (injection_scan ms)))]"

definition estimated_tokens :: "chat_message list \<Rightarrow> int" where
  "estimated_tokens ms =
     max (int (sum_list (map (\<lambda>m. length (split_words (chm_content m))) ms))) (int (sum_list (map (\<lambda>m. length (chm_content m)) ms)) div 4)"

definition surplus_gate :: "call_env \<Rightarrow> interceptor \<Rightarrow> llm_request \<Rightarrow> string \<Rightarrow> real \<Rightarrow> interceptor \<times> http_outcome" where
  "surplus_gate env st q auth_header risk =
     (case surplus_key_of auth_header of
        None \<Rightarrow> (st, Forwarded None 0)
      | Some sub_key \<Rightarrow>
          (let n = estimated_tokens (lrq_messages q);
               (l, ok, err_reason) = route_traffic (cle_time env) (itc_surplus st) sub_key n;
               st' = st\<lparr>itc_surplus := l\<rparr>
           in if ok then (st', Forwarded (Some sub_key) n)
              else (itc_audit env st' ''LLM_COMPLETION'' (llm_dump q) risk (''BLOCKED: SURPLUS_'' @ err_reason),
                    Http_Error 403 (''MUTATION_BLOCKED: Surplus sub-key verification failed: '' @ err_reason @ ''.''))))"

definition risk_gate :: "call_env \<Rightarrow> interceptor \<Rightarrow> llm_request \<Rightarrow> string \<Rightarrow> interceptor \<times> http_outcome" where
  "risk_gate env st q auth_header =
     (let risk = llm_risk (lrq_messages q); violations = snd (injection_scan (lrq_messages q)) in
      if risk \<ge> 71 then
        (itc_audit env st ''LLM_COMPLETION'' (llm_dump q) risk ''BLOCKED'',
         Http_Error 403
           (if violations \<noteq> [] then
              ''MUTATION_BLOCKED: Prompt injection detected ('' @ cle_float env risk @ ''/100). Violations: '' @ py_join '', '' violations
            else ''MUTATION_BLOCKED: Prompt drift or context entropy too high ('' @ cle_float env risk @ ''/100). Halting agent.''))
      else if 41 \<le> risk \<and> risk \<le> 70 then
        (let (st', approved) = dispatch_human_approval env st ''Highly complex prompt or possible task shift'' risk in
         if approved then surplus_gate env st' q auth_header risk
         else (itc_audit env st' ''LLM_COMPLETION'' (llm_dump q) risk ''REJECTED'',
               Http_Error 403 ''EXECUTION_REJECTED: Aborted by human supervisor.''))
      else surplus_gate env st q auth_header risk)"

definition proxy_chat_completion :: "call_env \<Rightarrow> interceptor \<Rightarrow> string \<Rightarrow> string \<Rightarrow> llm_request \<Rightarrow> interceptor \<times> http_outcome" where
  "proxy_chat_completion env st key auth_header q =
     (let (limit, allowed) = limiter_hit (cle_monotonic env) (itc_llm_limit st) key;
          st1 = st\<lparr>itc_llm_limit := limit\<rparr> in
      if \<not> allowed then (st1, Http_Error 429 ''llm_rate_limit_exceeded'')
      else
        (let (h, status) = check_request (cle_sha256 env) (cle_time env) (itc_hunter st1) (hunter_messages (lrq_messages q));
             st2 = st1\<lparr>itc_hunter := h\<rparr>;
             event = (\<lambda>e. [(''event'', PStr e), (''model'', PStr (lrq_model q))])
         in case status of
              CACHE_HIT v \<Rightarrow> (itc_audit env st2 ''SPEND_ANOMALY'' (event ''cache_hit'') 0 ''PASSED'', Http_Cached v)
            | BLOCKED_CIRCUIT_BREAKER \<Rightarrow>
                (itc_audit env st2 ''SPEND_ANOMALY'' (event ''blocked_circuit_breaker'') 99 ''BLOCKED'',
                 Http_Error 403 ''MUTATION_BLOCKED: runaway spend circuit-breaker tripped ($2.00/60s)'')
            | BLOCKED_PROMPT_BLOAT \<Rightarrow>
                if cle_spend_strict env then
                  (itc_audit env st2 ''SPEND_ANOMALY'' (event ''blocked_prompt_bloat'') 85 ''BLOCKED'',
                   Http_Error 403 ''MUTATION_BLOCKED: prompt bloat / redundant input patterns detected'')
                else risk_gate env st2 q auth_header
            | PROCEED \<Rightarrow> risk_gate env st2 q auth_header))"

section \<open>The limiter admits at most its maximum in a window\<close>

definition limiter_run :: "rate_limiter \<Rightarrow> (rat \<times> string) list \<Rightarrow> rate_limiter" where
  "limiter_run l hs = foldl (\<lambda>l (now, k). fst (limiter_hit now l k)) l hs"

fun admitted_calls :: "rate_limiter \<Rightarrow> string \<Rightarrow> (rat \<times> string) list \<Rightarrow> rat list" where
  "admitted_calls l k [] = []"
| "admitted_calls l k ((now, j) # hs) =
     (if j = k \<and> snd (limiter_hit now l j) then [now] else []) @ admitted_calls (fst (limiter_hit now l j)) k hs"

lemma limiter_run_snoc: "limiter_run l (hs @ [(now, k)]) = fst (limiter_hit now (limiter_run l hs) k)"
  by (simp add: limiter_run_def)

lemma admitted_calls_snoc: "admitted_calls l k (hs @ [(now, j)]) = admitted_calls l k hs @ (if j = k \<and> snd (limiter_hit now (limiter_run l hs) j) then [now] else [])"
  by (induction l k hs rule: admitted_calls.induct) (auto simp: limiter_run_def)

lemma limiter_hit_same [simp]:
  "rlm_max_events (fst (limiter_hit now l k)) = rlm_max_events l" "rlm_window (fst (limiter_hit now l k)) = rlm_window l"
  by (simp_all add: limiter_hit_def Let_def)

lemma limiter_run_same [simp]: "rlm_max_events (limiter_run l hs) = rlm_max_events l" "rlm_window (limiter_run l hs) = rlm_window l"
  by (induction hs rule: rev_induct) (auto simp: limiter_run_snoc split: prod.splits, simp_all add: limiter_run_def)

lemma dropWhile_sorted: "sorted xs \<Longrightarrow> dropWhile (\<lambda>t. t < (c::rat)) xs = filter (\<lambda>t. c \<le> t) xs"
proof (induction xs)
  case (Cons x xs)
  show ?case
  proof (cases "x < c")
    case False
    then have "filter (\<lambda>t. c \<le> t) xs = xs" using Cons.prems by (intro filter_True) force
    then show ?thesis using False by simp
  qed (use Cons in simp)
qed simp

lemma length_filter_mono: "(\<And>x. x \<in> set xs \<Longrightarrow> P x \<Longrightarrow> Q x) \<Longrightarrow> length (filter P xs) \<le> length (filter Q xs)"
  by (induction xs) auto

definition bucket :: "rate_limiter \<Rightarrow> (rat \<times> string) list \<Rightarrow> string \<Rightarrow> rat list" where
  "bucket l hs k = dict_get (rlm_buckets (limiter_run l hs)) k []"

lemma bucket_snoc:
  "bucket l (hs @ [(t, j)]) k =
     (if j = k then dropWhile (\<lambda>x. x < t - rlm_window l) (bucket l hs k) @ (if snd (limiter_hit t (limiter_run l hs) j) then [t] else [])
      else bucket l hs k)"
  by (simp add: bucket_def limiter_run_snoc limiter_hit_def Let_def dict_get_def map_of_dict_set)

text \<open>A bucket is what was admitted for its key, up to what has left every later window.\<close>

lemma bucket_inv:
  assumes "rlm_buckets l = []"
  shows "sorted (map fst hs) \<Longrightarrow> \<forall>h\<in>set hs. fst h \<le> now \<Longrightarrow>
    filter (\<lambda>t. now - rlm_window l \<le> t) (bucket l hs k) = filter (\<lambda>t. now - rlm_window l \<le> t) (admitted_calls l k hs) \<and>
    sorted (bucket l hs k) \<and> set (bucket l hs k) \<union> set (admitted_calls l k hs) \<subseteq> fst ` set hs"
proof (induction hs arbitrary: now rule: rev_induct)
  case Nil
  then show ?case by (simp add: bucket_def limiter_run_def dict_get_def assms)
next
  case (snoc h hs)
  obtain t j where h: "h = (t, j)" by (cases h)
  have s: "sorted (map fst hs)" "\<forall>x\<in>set hs. fst x \<le> t" "t \<le> now" "\<forall>x\<in>set hs. fst x \<le> now"
    using snoc.prems by (auto simp: h sorted_append)
  note IH = snoc.IH [OF s(1), of now] snoc.IH [OF s(1), of t]
  show ?case
  proof (cases "j = k")
    case True
    have d: "dropWhile (\<lambda>x. x < t - rlm_window l) (bucket l hs k) = filter (\<lambda>x. t - rlm_window l \<le> x) (bucket l hs k)"
      using IH s by (intro dropWhile_sorted) simp
    have "(t - rlm_window l \<le> x \<and> now - rlm_window l \<le> x) = (now - rlm_window l \<le> x)" for x using s(3) by auto
    moreover have "sorted (bucket l hs k)" using IH s by simp
    then have "sorted (filter (\<lambda>x. t - rlm_window l \<le> x) (bucket l hs k))" by (rule sorted_wrt_filter)
    moreover have "\<forall>x\<in>set (bucket l hs k). x \<le> t" using IH(1) s by auto
    ultimately show ?thesis using IH s True by (auto simp: h bucket_snoc admitted_calls_snoc d sorted_append)
  next
    case False
    then show ?thesis using IH s by (auto simp: h bucket_snoc admitted_calls_snoc)
  qed
qed

lemma hit_exact:
  assumes "rlm_buckets l = []" and "sorted (map fst hs)" and "\<forall>h\<in>set hs. fst h \<le> now"
  shows "snd (limiter_hit now (limiter_run l hs) k) \<longleftrightarrow>
    length (filter (\<lambda>t. now - rlm_window l \<le> t) (admitted_calls l k hs)) < rlm_max_events l"
proof -
  have "dropWhile (\<lambda>t. t < now - rlm_window l) (bucket l hs k) = filter (\<lambda>t. now - rlm_window l \<le> t) (admitted_calls l k hs)"
    using bucket_inv [OF assms, of k] dropWhile_sorted [of "bucket l hs k" "now - rlm_window l"] by simp
  then show ?thesis by (simp add: limiter_hit_def bucket_def Let_def not_le)
qed

text \<open>
  C28 (rate_limit): For a limiter that starts empty, with a clock that does not run backwards, a call is admitted exactly when fewer calls of its client than the
  maximum were admitted in the window before it, and no window of that length ever has more than the maximum.
\<close>

theorem rate_limit:
  assumes "rlm_buckets l = []" and "0 < rlm_max_events l" and "sorted (map fst hs)" and "\<And>h. h \<in> set hs \<Longrightarrow> fst h \<le> now"
  shows "(snd (limiter_hit now (limiter_run l hs) k) \<longleftrightarrow>
      length (filter (\<lambda>t. now - rlm_window l \<le> t) (admitted_calls l k hs)) < rlm_max_events l) \<and>
    length (filter (\<lambda>t. start \<le> t \<and> t \<le> start + rlm_window l) (admitted_calls l k hs)) \<le> rlm_max_events l"
proof
  show "snd (limiter_hit now (limiter_run l hs) k) \<longleftrightarrow>
      length (filter (\<lambda>t. now - rlm_window l \<le> t) (admitted_calls l k hs)) < rlm_max_events l"
    using assms by (intro hit_exact) auto
  show "length (filter (\<lambda>t. start \<le> t \<and> t \<le> start + rlm_window l) (admitted_calls l k hs)) \<le> rlm_max_events l"
    using assms(3)
  proof (induction hs rule: rev_induct)
    case (snoc h hs)
    obtain t j where h: "h = (t, j)" by (cases h)
    have s: "sorted (map fst hs)" "\<forall>x\<in>set hs. fst x \<le> t" using snoc.prems by (auto simp: h sorted_append)
    show ?case
    proof (cases "j = k \<and> snd (limiter_hit t (limiter_run l hs) j) \<and> start \<le> t \<and> t \<le> start + rlm_window l")
      case True
      then have "length (filter (\<lambda>x. t - rlm_window l \<le> x) (admitted_calls l k hs)) < rlm_max_events l"
        using hit_exact [OF assms(1) s(1) s(2), of k] by blast
      moreover have "length (filter (\<lambda>x. start \<le> x \<and> x \<le> start + rlm_window l) (admitted_calls l k hs)) \<le>
          length (filter (\<lambda>x. t - rlm_window l \<le> x) (admitted_calls l k hs))"
        using True by (intro length_filter_mono) auto
      ultimately show ?thesis using True by (simp add: h admitted_calls_snoc)
    qed (use snoc.IH [OF s(1)] in \<open>auto simp: h admitted_calls_snoc\<close>)
  qed (use assms(2) in simp)
qed

theorem rate_limit_witness:
  "\<not> snd (limiter_hit 50 (limiter_run (new_rate_limiter 2 60) [(0, ''ip:a''), (30, ''ip:a''), (40, ''ip:b'')]) ''ip:a'') \<and>
   snd (limiter_hit 61 (limiter_run (new_rate_limiter 2 60) [(0, ''ip:a''), (30, ''ip:a''), (40, ''ip:b'')]) ''ip:a'')"
proof -
  let ?l = "new_rate_limiter 2 60" and ?hs = "[(0, ''ip:a''), (30, ''ip:a''), (40, ''ip:b'')] :: (rat \<times> string) list"
  have l: "rlm_buckets ?l = []" "0 < rlm_max_events ?l" "sorted (map fst ?hs)" by (simp_all add: new_rate_limiter_def)
  have t: "fst h \<le> 50" "fst h \<le> 61" if "h \<in> set ?hs" for h using that by auto
  have "admitted_calls ?l ''ip:a'' ?hs = [0, 30]"
    by (simp add: new_rate_limiter_def limiter_hit_def Let_def dict_get_def)
  then show ?thesis
    using rate_limit [OF l t(1), of "''ip:a''" 0] rate_limit [OF l t(2), of "''ip:a''" 0] by (simp add: new_rate_limiter_def)
qed

text \<open>The key of a caller of the completion endpoint is a hash of a header it chooses: with a fresh token it starts a fresh bucket.\<close>

lemma fresh_token_admitted:
  "map_of (rlm_buckets l) (client_key sha256 token host) = None \<Longrightarrow> 0 < rlm_max_events l \<Longrightarrow>
   snd (limiter_hit now l (client_key sha256 token host))"
  by (simp add: limiter_hit_def dict_get_def)

section \<open>The risk of a conversation and of a command\<close>

lemma round_even_ge: "of_int n \<le> x \<Longrightarrow> n \<le> round_even x"
proof -
  assume "of_int n \<le> x"
  then have "n \<le> \<lfloor>x\<rfloor>" by (simp add: le_floor_iff)
  then show ?thesis by (simp add: round_even_def Let_def)
qed

lemma py_round_ge: "of_int k \<le> x \<Longrightarrow> of_int k \<le> py_round n x"
proof -
  assume "of_int k \<le> x"
  then have "of_int (k * 10 ^ n) \<le> x * 10 ^ n" by (simp add: mult_right_mono)
  then have "of_int (k * 10 ^ n) \<le> (of_int (round_even (x * 10 ^ n)) :: real)"
    using round_even_ge of_int_le_iff by blast
  then show ?thesis by (simp add: py_round_def le_divide_eq)
qed

definition any_injected :: "chat_message list \<Rightarrow> bool" where
  "any_injected ms \<longleftrightarrow> (\<exists>m\<in>set ms. injected (chm_content m))"

lemma injection_scan_spec:
  "if any_injected ms then 90 \<le> fst (injection_scan ms) \<and> fst (injection_scan ms) \<le> 99 else fst (injection_scan ms) = 0"
proof -
  have "list_all2 scan_ok (map (\<lambda>m. detect_prompt_injection (chm_content m)) ms) (map (\<lambda>m. [chm_content m]) ms)"
  proof (rule scan_ok_map)
    fix m
    show "scan_ok (detect_prompt_injection (chm_content m)) [chm_content m]"
      using detect_spec [of "chm_content m"] by (cases "detect_prompt_injection (chm_content m)") (auto simp: scan_ok_def split: if_splits)
  qed
  from scan_fold [OF this scan_ok_Nil]
  have "scan_ok (injection_scan ms) (concat (map (\<lambda>m. [chm_content m]) ms))" by (simp add: injection_scan_def)
  moreover have "concat (map (\<lambda>m. [chm_content m]) ms) = map chm_content ms" by (induction ms) auto
  ultimately show ?thesis by (auto simp: scan_ok_def any_injected_def list_ex_iff)
qed

lemma llm_risk_cases: "if any_injected ms then 90 \<le> llm_risk ms else llm_risk ms \<le> 40"
proof -
  define d e i where "d = calculate_drift ms (original_goal ms)" and "e = calculate_entropy ms" and "i = of_rat (fst (injection_scan ms)) + (0 :: real)"
  define w where "w = 25 / 100 * d + (15 / 100 * e + 25 / 100 * i)"
  have r: "llm_risk ms = min (py_round 2 (if i \<ge> 71 then max w i else w)) 100"
    unfolding llm_risk_def risk_compute_def
    by (simp add: risk_weights_def dict_get_def d_def [symmetric] e_def [symmetric] i_def w_def Let_def add.assoc)
  show ?thesis
  proof (cases "any_injected ms")
    case True
    then have "90 \<le> fst (injection_scan ms)" using injection_scan_spec [of ms] by simp
    then have "of_rat 90 \<le> (of_rat (fst (injection_scan ms)) :: real)" by (simp only: of_rat_less_eq)
    then have "90 \<le> i" by (simp add: i_def)
    then have "of_int 90 \<le> (if i \<ge> 71 then max w i else w)" by simp
    from py_round_ge [OF this] show ?thesis using True unfolding r by simp
  next
    case False
    then have "i = 0" using injection_scan_spec [of ms] by (simp add: i_def)
    moreover have "d \<le> 100" "e \<le> 100" using drift_le_100 entropy_bounds by (simp_all add: d_def e_def)
    ultimately have "(if i \<ge> 71 then max w i else w) \<le> of_int 40" by (simp add: w_def)
    from py_round_le [OF this, of 2] show ?thesis using False unfolding r by simp
  qed
qed

text \<open>
  A completion that passes the limiter and the spend checks is blocked exactly when one of its messages has
  an injection; otherwise it goes on to the check of the sub-key. Drift and repetition alone never block it, and no human is
  asked, whatever reviews arrive.
\<close>

theorem completion_gate:
  "if any_injected (lrq_messages q) then
     \<exists>detail. risk_gate env st q auth =
       (itc_audit env st ''LLM_COMPLETION'' (llm_dump q) (llm_risk (lrq_messages q)) ''BLOCKED'', Http_Error 403 detail)
   else risk_gate env st q auth = surplus_gate env st q auth (llm_risk (lrq_messages q)) \<and> llm_risk (lrq_messages q) \<le> 40"
  using llm_risk_cases [of "lrq_messages q"] by (auto simp: risk_gate_def Let_def)

section \<open>Decisions on commands\<close>










end
