(* ===== verification/Spec2Isabelle.thy ===== *)
theory Spec2Isabelle
  imports Event_Bus_Theorems Bus_Clients Semantic_Fabric Execution_Replay Shard_Ordering Schema_Registry
    Governance_Compiler Cross_Version_Replay Tenant_Control Execution_Fabric Extension_Governor
    Capability_Ingestion Marketplace Snapshot_Registry Mesh_Shards Mesh_Kernel
    Recovery_Policy Chain_Checkpoint Agent_Playbooks Agent_Consensus State_Ledger Interceptor
begin

text \<open>
  \<^bold>\<open>A verified model of the PI platform's event fabric, control plane, orchestrator and interceptor.\<close>

  The platform (Python packages under \<open>src/src\<close>) keeps every fact as an event in an append-only,
  hash-chained log, and derives state, decisions and reports from it deterministically. This
  development models the packages that carry that core: \<open>pi_event_fabric\<close> and
  \<open>pi_extension_governor\<close> in full; of \<open>pi_interoperability_layer\<close> the clock, the snapshots, the
  tenants, the execution fabric, the marketplace, the mesh, the compatibility graph, the capability
  registry and its ingestion; of \<open>pi_micro_agents\<close> the orchestrator (router, chain compiler,
  consensus, recovery, checkpoints, shield) with the prompt shield, the spend hunter and the surplus
  market; the gates of \<open>pi_agent_interceptor\<close>; the ledger of \<open>pi_agent_chain\<close>; and the consensus
  breaker of \<open>pi_semantic_radius\<close>.

  \<^bold>\<open>How the parts interact.\<close> Clients append events to a partition of the event storage; the
  storage draws a timestamp from the clock, links the event to its predecessor and stores its
  payload as canonical JSON. Consumers and replay engines read partitions back; the semantic
  fabric adds metadata and parent links to appends; the shard coordinator keeps sequence numbers
  and checkpoints of partitions and recovers them from the log; the schema registry knows the
  schemas of payloads and the migrations between them, and cross-version replay combines the
  log with the registry. Governance rules are compiled to policies that the engine evaluates on
  a context. The tenant registry bounds what a tenant may do, and the execution fabric runs
  extension manifests in phases. Extensions enter through the extension governor: it inspects the
  source, runs it in the sandbox, normalises the output, evaluates the policy on the manifest and
  enters a receipt for each admitted extension into a hash-chained ledger. Ingestion puts an
  admitted extension into the capability registry and, when the compatibility graph agrees, among
  the installed ones; the marketplace composes listings of such capabilities into phases. The mesh
  places workers on shards and runs them phase by phase over a bus of artifacts.

  A goal of a user is compiled by the chain engine to a list of agents of the route table. Each
  agent runs three times and the consensus gate reports one of the runs; the recovery policy
  retries a failing step, checkpoints let a chain resume, the ledger keeps the traces. Requests of
  foreign agents pass the interceptor: limiter, operator token, shield and risk scores, human
  reviews, spend hunter and surplus keys, with every decision in a hash-chained audit table.

  \<^bold>\<open>Theories.\<close>
  \<^item> \<open>Py_Prelude\<close>, \<open>Py_Values\<close>, \<open>Py_Json\<close>: Python as far as the sources use it. Exceptions are
    values (\<open>py_exn\<close>, \<open>'a result\<close>), dictionaries are association lists in insertion order, values
    are \<open>pyval\<close> (a float is given by its \<open>repr\<close>), SQLite statements are functions on lists of rows.
    \<open>json.dumps\<close> and \<open>json.loads\<close> are modelled as printer and parser of strings, with the
    round trip between them; \<open>canonical\<close> is \<open>_canonical\<close> of \<open>bus/core.py\<close>. The locale
    \<open>append_only_table\<close> is the contract of the \<open>INSERT OR IGNORE\<close> tables.
  \<^item> \<open>Py_Strings\<close>: string methods and word search. \<open>Py_Regex\<close>: regular expressions with an
    executable matcher that is proved to agree with their meaning.
  \<^item> \<open>Det_Clock\<close>: \<open>snapshot/clock.py\<close>; readings of the wall clock are arguments.
  \<^item> \<open>Hash_Chain\<close>: the locale \<open>hash_chain\<close>, what a list of hash-linked records promises.
  \<^item> \<open>Event_Bus\<close>: \<open>bus/core.py\<close>, data and \<open>EventBusStorage\<close> (\<open>bus_state\<close> holds its four tables).
    \<open>Event_Bus_Correct\<close>: the invariant \<open>bus_inv\<close>, its preservation, the reachable storages
    \<open>bus_reach\<close> and what reads return on them. \<open>Event_Bus_Theorems\<close>: its properties.
  \<^item> \<open>Bus_Clients\<close>: \<open>DeterministicConsumer\<close> and \<open>EventReplayEngine\<close> of \<open>bus/core.py\<close>; the locale
    \<open>partition_store\<close> is what they rely on, interpreted on the storage. \<open>consumer_step\<close> takes a
    call of the consumer apart into its accesses.
  \<^item> \<open>Semantic_Fabric\<close>: \<open>bus/semantic_fabric.py\<close>. \<open>Execution_Replay\<close>: \<open>replay/engine.py\<close>.
  \<^item> \<open>Shard_Ordering\<close>: \<open>ordering/shard.py\<close>.
  \<^item> \<open>Schema_Evolution\<close>, \<open>Migration_Paths\<close>, \<open>Schema_Registry\<close>: \<open>schema/evolution.py\<close>.
  \<^item> \<open>Governance_Compiler\<close>: \<open>governance/compiler.py\<close>.
  \<^item> \<open>Cross_Version_Replay\<close>: \<open>replay/cross_version.py\<close>.
  \<^item> \<open>Extension_Manifest\<close>, \<open>Tenant_Control\<close>, \<open>Execution_Fabric\<close>: \<open>pi_extension_governor/manifest.py\<close>,
    \<open>platform/tenant.py\<close> and \<open>platform/execution_fabric.py\<close> of \<open>pi_interoperability_layer\<close>. The locale
    \<open>scoped_store\<close> is the isolation contract of the three per-tenant stores.
  \<^item> \<open>Extension_Inspector\<close>, \<open>Extension_Policy\<close>, \<open>Extension_Sandbox\<close>, \<open>Extension_Ledger\<close>,
    \<open>Extension_Governor\<close>: the other files of \<open>pi_extension_governor\<close>, in this order \<open>inspector.py\<close>;
    \<open>policy.py\<close>, \<open>trust_zones.py\<close> and \<open>normalizer.py\<close>; \<open>sandbox.py\<close>; \<open>provenance.py\<close> (a second
    interpretation of \<open>hash_chain\<close>); \<open>governor.py\<close>.
  \<^item> \<open>Capability_Graph\<close>, \<open>Capability_Registry\<close>, \<open>Capability_Ingestion\<close>: \<open>capability/graph.py\<close>,
    \<open>registry.py\<close> and \<open>ingestion.py\<close> of \<open>pi_interoperability_layer\<close>. \<open>Marketplace\<close>:
    \<open>platform/marketplace.py\<close>. \<open>Snapshot_Registry\<close>: \<open>snapshot/artifacts.py\<close> and \<open>registry.py\<close>.
    \<open>Mesh_Shards\<close>: \<open>mesh/shard.py\<close>. \<open>Mesh_Kernel\<close>: \<open>mesh/artifact_bus.py\<close>, \<open>receipts.py\<close>,
    \<open>worker_base.py\<close> and \<open>kernel.py\<close>.
  \<^item> \<open>Recovery_Policy\<close>, \<open>Chain_Checkpoint\<close>: \<open>recovery.py\<close> and \<open>checkpoint.py\<close> of the orchestrator.
    \<open>Agent_Routes\<close>: the 248 routes of \<open>router.py\<close>; \<open>Agent_Router\<close>: the rest of it, and
    \<open>needle_router.py\<close>. \<open>Agent_Playbooks\<close>: the compiler of \<open>chain_engine.py\<close>.
    \<open>Consensus_Breaker\<close>: \<open>pi_semantic_radius/consensus_breaker.py\<close>. \<open>Consensus_Tables\<close>,
    \<open>Agent_Consensus\<close>: \<open>consensus.py\<close>, its tables and its operations.
  \<^item> \<open>State_Ledger\<close>: \<open>ledger.py\<close>, \<open>tenant_context.py\<close> and the trace of \<open>models.py\<close> of \<open>pi_agent_chain\<close>.
    \<open>Prompt_Shield\<close>, \<open>Spend_Hunter\<close>, \<open>Surplus_Market\<close>: \<open>pi_prompt_shield.py\<close> with
    \<open>strict_mode.py\<close>, \<open>pi_spend_hunter.py\<close> and \<open>pi_surplus_orchestrator.py\<close> of \<open>pi_micro_agents\<close>.
    \<open>Govern_Shield\<close>, \<open>Audit_WAL\<close>, \<open>Interceptor\<close>: \<open>pi_agent_interceptor/proxy.py\<close>, its static
    checks (with \<open>orchestrator/shield.py\<close>), its audit table, and its gates and endpoints.

  \<^bold>\<open>What is shown.\<close>
  \<^item> Log integrity: every storage the operations produce verifies; a verified log cannot be
    altered without changing its last hash, SHA-256 being free of collisions on the texts
    hashed; appends are durable and local; what an append does in every case, its failures included.
  \<^item> Delivery and replay: with every access of a consumer a step of its own, among the steps of other
    clients, delivery is at least once, and exactly once and in order as long as no call ended
    early; reads, replays and incremental reconstruction agree with the log;
    bisection agrees with a linear scan; snapshots are loaded as they were written.
  \<^item> Causality: the traversal is exact and complete, and what the fabric writes with the causality
    check is a closed acyclic graph.
  \<^item> Ordering: the merge of shards is a sorted permutation that does not depend on how the streams
    are stored; sequence numbers are what updates and recoveries make of them, so they only grow without
    a recovery, and only advances already under way update a frozen shard (a race that is exhibited).
  \<^item> Schemas: what each compatibility level accepts; fingerprints identify schemas; the registry
    is append-only and its graph survives a restart; the search returns shortest paths; steps
    are reversible; the whole outcome of a cross-version replay: stopped by the fence, raising on a
    fingerprint that cannot be hashed, or a report that hydrates exactly what migrates.
  \<^item> Governance: the decision of the engine, the confinement of compiled policies, what rule
    hashes cover.
  \<^item> Control plane: tenants do not influence each other, counters stay within quota and agree
    with the audit log; executions are deterministic up to random identifiers.
  \<^item> Extensions: the inspector rejects exactly the packages with a dangerous node; what the policy
    decides; when a sandbox run succeeds; what admission implies, that it fails closed and that it
    is possible; the ledger verifies after any history, its head fixes it, and when it can be reloaded.
    Closures over dependencies are exact, phases respect them, and when an installation is refused.
    Every outcome of an ingestion; over any sequence of them installed and receipted agree.
  \<^item> Snapshots, marketplace, mesh: chains of snapshots are the histories of their keys and when the
    registry verifies; when a composition is valid and which phases it has; every worker is on the
    shard of its hash and shards keep their bound; when a worker succeeds or raises, and how far a
    run of the phases gets.
  \<^item> Orchestrator: which agents a playbook, an arrow chain or a decomposed goal runs, and which
    keywords never matter; one deviating run of three does not change a consensus, when the gate rejects,
    and that the divergence alarm cannot fire on outputs with equal keys; how often a step is tried and
    what the breaker admits; which checkpoint is loaded.
  \<^item> Traces: the reads of the ledger are functions of what was appended, and the state hash is one of
    the logical content of a trace.
  \<^item> Interceptor: the limiter keeps its bound in every window; when a command is executed, a completion
    blocked, a request refused by the prompt shield, the spend breaker tripped, surplus traffic
    approved; events logged one after the other form a chain without a loss, and concurrent ones can fork it.

  \<^bold>\<open>Parameters.\<close> SHA-256 is a parameter \<open>sha256\<close>; collision freedom is a hypothesis
  \<open>inj_on sha256 \<dots>\<close> on the finitely many texts concerned, and where its digits are read, \<open>hex_digest\<close>
  says that a digest is hexadecimal. Parameters too are: Python's parser (it gives a tree, a syntax error
  or nothing), pydantic's constructors, the operating system with the untrusted code (\<open>world\<close>), the five
  source detectors of the governor, the code of the workers and of the agents, the Rust module of the
  consensus, the Needle engine of the router, and every random id and reading of a clock. No law is
  assumed of them beyond the hypotheses a theorem names.

  \<^bold>\<open>Conventions.\<close> Integers are unbounded, as in Python (the 64 bits of a SQLite column are checked
  where an operation stores an integer of a client, in \<open>State_Ledger\<close>; the step counts of a
  checkpoint, lengths of lists in the code, are taken to fit). Floats are given by their \<open>repr\<close> when they are only stored, and are rational
  or real numbers, rounded where the code rounds, when they are computed with; so infinities,
  NaN and the rounding of single operations are not modelled. Loops are total
  functions: the graph searches end because visited nodes are not expanded again, the walk of a
  syntax tree because a node weighs more than its children, the bisection because its interval
  shrinks (with \<open>n\<close> iterations for fewer than \<open>2 ^ n\<close> events, shown on the fuelled \<open>bisect_fuel\<close>);
  the fuel of the JSON parser is the length of its text, which bounds its depth, and that of a
  star in a regular expression the length of the rest (\<open>set_rx_ends\<close>). A read of a replay returns at most a
  million events, as in the code (\<open>replay_events\<close>). An operation that holds a lock throughout is a single
  step; where the code works in separate critical sections, they are separate steps
  (\<open>consumer_step\<close>; \<open>advance_check\<close> and \<open>advance_commit\<close>; the two halves of \<open>wal_log_event\<close>).

  \<^bold>\<open>Not modelled.\<close> Files, sockets, logging and the SQLite engine itself; strings beyond Latin-1 (so
  the zero-width characters the prompt shield looks for do not occur);
  dictionary keys that are not strings; in-place mutation of payloads by callbacks. Of the
  orchestrator: the execution of a chain (\<open>core.py\<close> and the second half of \<open>chain_engine.py\<close>), the
  governance kernel, scheduler, memory and the client of the language model. Of the
  interceptor: the provider's answer, the webhook, the validation of the provider's address and the endpoints that list
  surplus bundles. Of the platform: the individual micro agents, which are heuristics over text, the
  rest of the agent chain, consoles, connectors, the reverse-engineering pipelines, front ends and the
  Rust port, which are I/O or second implementations; capability indexing and catalog, and the
  semantic analysis packages.
\<close>

end
